(* ===== verification/Sai_Prelude.thy ===== *)
theory Sai_Prelude
  imports Main "HOL-Library.Word" "HOL-Library.Finite_Map"
begin

text \<open>
  The vocabulary every component of opx-sai-common shares.

  \<^item> the scalar types of the SAI headers (object ids, VLAN ids, counters) at their width, and
    the status codes as a datatype: one constructor for each code the sources name, the ranges
    of attribute errors (\<open>SAI_STATUS_X_0 + index\<close>) with their index, and
    \<open>SAI_STATUS_OTHER\<close> for any further code that a hardware plug-in may return;
  \<^item> the \<open>platform\<close>: the functions of the libraries outside this repository that the sources
    call (memory, red-black trees, object id encoding, port table, id generator).  They are
    parameters of the model, fields of a record that every operation takes, and each of them
    threads the type variable \<open>'w\<close> of the outside world where it has effects;
  \<^item> \<open>rbtree_handle\<close>: a tree handle is NULL or holds a finite map from keys to nodes.
\<close>

section \<open>Proof collections\<close>

named_theorems state_defs \<open>accessors and updaters that write a component's state\<close>
named_theorems rb_simps \<open>lookup after an update of a tree handle\<close>
named_theorems lock_simps \<open>lock bookkeeping\<close>

section \<open>Scalar types and status codes\<close>

type_synonym sai_object_id_t = "64 word"
type_synonym sai_npu_object_id_t = "64 word"
type_synonym sai_vlan_id_t = "16 word"
type_synonym uint32_t = "32 word"

abbreviation SAI_NULL_OBJECT_ID :: sai_object_id_t where
  "SAI_NULL_OBJECT_ID \<equiv> 0"

datatype sai_status_t =
    SAI_STATUS_SUCCESS
  | SAI_STATUS_FAILURE
  | SAI_STATUS_NOT_SUPPORTED
  | SAI_STATUS_NOT_IMPLEMENTED
  | SAI_STATUS_NO_MEMORY
  | SAI_STATUS_INVALID_PARAMETER
  | SAI_STATUS_INVALID_OBJECT_ID
  | SAI_STATUS_INVALID_OBJECT_TYPE
  | SAI_STATUS_INVALID_VLAN_ID
  | SAI_STATUS_INVALID_PORT_MEMBER
  | SAI_STATUS_ITEM_NOT_FOUND
  | SAI_STATUS_ITEM_ALREADY_EXISTS
  | SAI_STATUS_OBJECT_IN_USE
  | SAI_STATUS_BUFFER_OVERFLOW
  | SAI_STATUS_ADDR_NOT_FOUND
  | SAI_STATUS_MANDATORY_ATTRIBUTE_MISSING
  | SAI_STATUS_INSUFFICIENT_RESOURCES
  | SAI_STATUS_UNINITIALIZED
  | SAI_STATUS_INVALID_ATTRIBUTE nat
  | SAI_STATUS_INVALID_ATTR_VALUE nat
  | SAI_STATUS_UNKNOWN_ATTRIBUTE nat
  | SAI_STATUS_ATTR_NOT_IMPLEMENTED nat
  | SAI_STATUS_OTHER int

datatype sai_object_type_t =
    SAI_OBJECT_TYPE_STP
  | SAI_OBJECT_TYPE_STP_PORT
  | SAI_OBJECT_TYPE_PORT
  | SAI_OBJECT_TYPE_LAG
  | SAI_OBJECT_TYPE_VLAN
  | SAI_OBJECT_TYPE_VLAN_MEMBER
  | SAI_OBJECT_TYPE_VIRTUAL_ROUTER
  | SAI_OBJECT_TYPE_NEXT_HOP
  | SAI_OBJECT_TYPE_NEXT_HOP_GROUP
  | SAI_OBJECT_TYPE_NEXT_HOP_GROUP_MEMBER
  | SAI_OBJECT_TYPE_UDF
  | SAI_OBJECT_TYPE_UDF_GROUP
  | SAI_OBJECT_TYPE_UDF_MATCH
  | SAI_OBJECT_TYPE_HASH
  | SAI_OBJECT_TYPE_MIRROR_SESSION

text \<open>\<open>dn_sai_id_gen_info_t\<close>: the state of an object id generator.  The callback
  \<open>is_id_in_use\<close> is passed at the call, since it reads the caller's current trees.\<close>

record dn_sai_id_gen_info_t =
  cur_id :: "64 word"
  is_wrappped :: bool
  id_mask :: "64 word"

text \<open>\<open>sai_object_list_t\<close>: the caller's buffer and its capacity.\<close>

record sai_object_list_t =
  ol_count :: uint32_t
  ol_list :: "sai_object_id_t list"

text \<open>A list attribute whose buffer may be NULL: \<open>sai_u8_list_t\<close>, \<open>sai_s32_list_t\<close> and, in the
  components that test the pointer, \<open>sai_object_list_t\<close>.\<close>

record 'a sai_list_t =
  sl_count :: uint32_t
  sl_list :: "'a list option"

text \<open>A caller's list: \<open>None\<close> when the pointer is NULL or the buffer is shorter than its count.\<close>

definition list_arg :: "'a sai_list_t \<Rightarrow> 'a list option" where
  "list_arg l = (case sl_list l of
       None \<Rightarrow> None
     | Some xs \<Rightarrow> if unat (sl_count l) \<le> length xs then Some (take (unat (sl_count l)) xs) else None)"

text \<open>\<open>sai_ip_address_t\<close>: a family and a union of which the family selects a member.\<close>

datatype sai_ip_addr_family_t =
    SAI_IP_ADDR_FAMILY_IPV4
  | SAI_IP_ADDR_FAMILY_IPV6
  | SAI_IP_ADDR_FAMILY_OTHER nat

record sai_ip_address_t =
  addr_family :: sai_ip_addr_family_t
  addr_ip4 :: "32 word"
  addr_ip6 :: "128 word"

text \<open>The kind of an operation and an entry of an attribute table, \<open>dn_sai_attribute_entry_t\<close>.\<close>

datatype dn_sai_operations_t = SAI_OP_CREATE | SAI_OP_REMOVE | SAI_OP_SET | SAI_OP_GET

record 'i dn_sai_attribute_entry_t =
  ae_id :: 'i
  mandatory_on_create :: bool
  valid_for_create :: bool
  valid_for_set :: bool
  valid_for_get :: bool
  is_implemented :: bool
  is_supported :: bool

section \<open>Red-black trees\<close>

text \<open>
  The trees of \<open>std_rbtree.h\<close> are used through \<open>getexact\<close>, \<open>getfirst\<close>, \<open>getnext\<close>,
  \<open>insert\<close> and \<open>remove\<close>; what the sources rely on is the finite map from key to node.
  NULL is \<open>None\<close>.  Writing through a node pointer is \<open>rb_put\<close> at the node's key.
\<close>

type_synonym ('k, 'v) rbtree_handle = "('k, 'v) fmap option"

definition rb_getexact :: "('k, 'v) rbtree_handle \<Rightarrow> 'k \<Rightarrow> 'v option" where
  "rb_getexact h k = (case h of None \<Rightarrow> None | Some t \<Rightarrow> fmlookup t k)"

definition rb_put :: "('k, 'v) rbtree_handle \<Rightarrow> 'k \<Rightarrow> 'v \<Rightarrow> ('k, 'v) rbtree_handle" where
  "rb_put h k v = map_option (fmupd k v) h"

definition rb_remove :: "('k, 'v) rbtree_handle \<Rightarrow> 'k \<Rightarrow> ('k, 'v) rbtree_handle" where
  "rb_remove h k = map_option (fmdrop k) h"

definition rb_keys :: "('k::linorder, 'v) rbtree_handle \<Rightarrow> 'k list" where
  "rb_keys h = (case h of None \<Rightarrow> [] | Some t \<Rightarrow> sorted_list_of_fset (fmdom t))"

definition rb_nodes :: "('k::linorder, 'v) rbtree_handle \<Rightarrow> 'v list" where
  \<comment> \<open>the nodes in the order of \<open>getfirst\<close>, \<open>getnext\<close>, ...\<close>
  "rb_nodes h = List.map_filter (rb_getexact h) (rb_keys h)"

definition rb_is_empty :: "('k::linorder, 'v) rbtree_handle \<Rightarrow> bool" where
  \<comment> \<open>\<open>std_rbtree_getfirst (h) == NULL\<close>\<close>
  "rb_is_empty h \<longleftrightarrow> rb_keys h = []"

definition rb_size :: "('k, 'v) rbtree_handle \<Rightarrow> nat" where
  "rb_size h = (case h of None \<Rightarrow> 0 | Some t \<Rightarrow> fcard (fmdom t))"

section \<open>The platform\<close>

text \<open>
  One field per outside function.  \<open>rbtree_insert_ok\<close> is told whether the key is present and
  decides the status of an insertion, so a tree that refuses duplicates and a tree that runs
  out of memory are both instances.
\<close>

record 'w platform =
  calloc_ok :: "'w \<Rightarrow> bool \<times> 'w"
  rbtree_create_ok :: "'w \<Rightarrow> bool \<times> 'w"
  rbtree_insert_ok :: "bool \<Rightarrow> 'w \<Rightarrow> bool \<times> 'w"
  sai_uoid_create :: "sai_object_type_t \<Rightarrow> sai_npu_object_id_t \<Rightarrow> sai_object_id_t"
  sai_is_obj_id :: "sai_object_type_t \<Rightarrow> sai_object_id_t \<Rightarrow> bool"
  sai_is_port_valid :: "'w \<Rightarrow> sai_object_id_t \<Rightarrow> bool"
  sai_get_indexed_ret_val :: "sai_status_t \<Rightarrow> nat \<Rightarrow> sai_status_t"
  dn_sai_get_next_free_id ::
    "(64 word \<Rightarrow> bool) \<Rightarrow> dn_sai_id_gen_info_t \<Rightarrow> sai_status_t \<times> dn_sai_id_gen_info_t"
  uoid_npu_obj_id_mask :: "64 word"

definition std_rbtree_insert ::
  "('w, 'z) platform_scheme \<Rightarrow> ('k, 'v) rbtree_handle \<Rightarrow> 'k \<Rightarrow> 'v \<Rightarrow> 'w
    \<Rightarrow> bool \<times> ('k, 'v) rbtree_handle \<times> 'w" where
  "std_rbtree_insert P h k v w =
     (let (ok, w') = rbtree_insert_ok P (rb_getexact h k \<noteq> None) w
      in (ok, if ok then rb_put h k v else h, w'))"

text \<open>
  What the components rely on, as named hypotheses: a tree refuses a key it holds, and an
  object id that \<open>sai_uoid_create\<close> made is of its type and is not the null id; an id generator
  never returns an id that its callback reports as taken.
\<close>

definition refuses_duplicates :: "('w, 'z) platform_scheme \<Rightarrow> bool" where
  "refuses_duplicates P \<longleftrightarrow> (\<forall>w. \<not> fst (rbtree_insert_ok P True w))"

definition generator_honours_callback :: "('w, 'z) platform_scheme \<Rightarrow> bool" where
  "generator_honours_callback P \<longleftrightarrow>
     (\<forall>in_use g g'. dn_sai_get_next_free_id P in_use g = (SAI_STATUS_SUCCESS, g')
        \<longrightarrow> \<not> in_use (cur_id g'))"

definition uoid_typed :: "('w, 'z) platform_scheme \<Rightarrow> bool" where
  "uoid_typed P \<longleftrightarrow> (\<forall>ty n. sai_is_obj_id P ty (sai_uoid_create P ty n)
                           \<and> sai_uoid_create P ty n \<noteq> SAI_NULL_OBJECT_ID)"

section \<open>Lemmas on tree handles\<close>

lemma rb_getexact_put [simp, rb_simps]:
  "rb_getexact (rb_put h k v) k' = (if h \<noteq> None \<and> k = k' then Some v else rb_getexact h k')"
  by (cases h) (auto simp: rb_getexact_def rb_put_def)

lemma rb_getexact_remove [simp, rb_simps]:
  "rb_getexact (rb_remove h k) k' = (if k = k' then None else rb_getexact h k')"
  by (cases h) (auto simp: rb_getexact_def rb_remove_def)

lemma rb_put_None_iff [simp, rb_simps]: "rb_put h k v = None \<longleftrightarrow> h = None"
  by (cases h) (auto simp: rb_put_def)

lemma rb_remove_None_iff [simp, rb_simps]: "rb_remove h k = None \<longleftrightarrow> h = None"
  by (cases h) (auto simp: rb_remove_def)

lemma rb_getexact_NULL [simp]: "rb_getexact None k = None"
  by (simp add: rb_getexact_def)

lemma rb_getexact_empty [simp]: "rb_getexact (Some fmempty) k = None"
  by (simp add: rb_getexact_def)

lemma rb_put_Some: "rb_put (Some t) k v = Some (fmupd k v t)"
  by (simp add: rb_put_def)

lemma rb_getexact_SomeD: "rb_getexact h k = Some v \<Longrightarrow> h \<noteq> None"
  by (cases h) auto

lemma rb_eqI: "h \<noteq> None \<Longrightarrow> h' \<noteq> None \<Longrightarrow> (\<And>k. rb_getexact h k = rb_getexact h' k) \<Longrightarrow> h = h'"
  by (cases h; cases h') (auto simp: rb_getexact_def intro: fmap_ext)

lemma rb_remove_put: "rb_getexact h k = None \<Longrightarrow> rb_remove (rb_put h k v) k = h"
  by (cases h) (auto simp: rb_getexact_def rb_put_def rb_remove_def intro: fmap_ext)

lemma rb_put_same: "rb_getexact h k = Some v \<Longrightarrow> rb_put h k v = h"
  by (cases h) (auto simp: rb_getexact_def rb_put_def intro!: fmap_ext)

lemma rb_put_put [simp]: "rb_put (rb_put h k v) k v' = rb_put h k v'"
  by (cases h) (auto simp: rb_put_def)

lemma rb_remove_put_same [simp]: "rb_remove (rb_put h k v) k = rb_remove h k"
  by (cases h) (auto simp: rb_put_def rb_remove_def fmdrop_fmupd_same)

lemma set_rb_keys: "set (rb_keys h) = {k. rb_getexact h k \<noteq> None}"
  by (cases h) (auto simp: rb_keys_def rb_getexact_def fmlookup_dom_iff sorted_list_of_fset.rep_eq)

lemma rb_is_empty_iff: "rb_is_empty h \<longleftrightarrow> (\<forall>k. rb_getexact h k = None)"
proof -
  have "rb_is_empty h \<longleftrightarrow> set (rb_keys h) = {}"
    by (simp add: rb_is_empty_def)
  then show ?thesis
    by (auto simp: set_rb_keys)
qed

lemma rb_is_empty_empty [simp]: "rb_is_empty (Some fmempty)" "rb_is_empty None"
  by (simp_all add: rb_is_empty_iff)

lemma length_rb_keys: "length (rb_keys h) = rb_size h"
  by (cases h) (auto simp: rb_keys_def rb_size_def sorted_list_of_fset.rep_eq fcard.rep_eq)

lemma map_filter_total: "(\<And>x. x \<in> set xs \<Longrightarrow> f x \<noteq> None) \<Longrightarrow> length (List.map_filter f xs) = length xs"
  by (induction xs) (auto simp: List.map_filter_simps split: option.splits)

lemma length_rb_nodes: "length (rb_nodes h) = rb_size h"
proof -
  have "length (rb_nodes h) = length (rb_keys h)"
    unfolding rb_nodes_def by (rule map_filter_total) (simp add: set_rb_keys)
  then show ?thesis by (simp add: length_rb_keys)
qed

lemma set_rb_nodes: "set (rb_nodes h) = {v. \<exists>k. rb_getexact h k = Some v}"
  by (auto simp: rb_nodes_def List.map_filter_def set_rb_keys intro!: image_eqI)

lemma rb_size_put:
  "h \<noteq> None \<Longrightarrow> rb_size (rb_put h k v) = (if rb_getexact h k = None then Suc (rb_size h) else rb_size h)"
  by (cases h) (auto simp: rb_size_def rb_put_def rb_getexact_def fmlookup_dom_iff fcard_finsert_if)

lemma rb_size_remove:
  "rb_getexact h k \<noteq> None \<Longrightarrow> Suc (rb_size (rb_remove h k)) = rb_size h"
proof (cases h)
  case (Some t)
  assume "rb_getexact h k \<noteq> None"
  with Some have k: "k |\<in>| fmdom t"
    by (auto simp: rb_getexact_def fmlookup_dom_iff)
  from k have "fcard (fmdom t) = Suc (fcard (fmdom t |-| {|k|}))"
    by (rule fcard_Suc_fminus1 [symmetric])
  with Some show ?thesis
    by (simp add: rb_size_def rb_remove_def)
qed simp

lemma rb_remove_absent: "rb_getexact h k = None \<Longrightarrow> rb_remove h k = h"
  by (cases h) (auto simp: rb_getexact_def rb_remove_def intro!: fmap_ext)

lemma rb_size_empty [simp]: "rb_size (Some fmempty) = 0"
  by (simp add: rb_size_def fcard.rep_eq)

lemma finite_rb_keys: "finite {k. rb_getexact h k \<noteq> None}"
proof (cases h)
  case (Some t)
  have "{k. rb_getexact h k \<noteq> None} = fset (fmdom t)"
    by (auto simp: Some rb_getexact_def fmlookup_dom_iff)
  then show ?thesis by simp
qed simp

lemma rb_size_card: "rb_size h = card {k. rb_getexact h k \<noteq> None}"
proof (cases h)
  case (Some t)
  have "{k. rb_getexact h k \<noteq> None} = fset (fmdom t)"
    by (auto simp: Some rb_getexact_def fmlookup_dom_iff)
  then show ?thesis
    by (simp add: Some rb_size_def fcard.rep_eq)
qed (simp add: rb_size_def)

lemma insert_cases:
  assumes "std_rbtree_insert P h k v w = (ok, h', w')"
  shows "h' = (if ok then rb_put h k v else h)"
    and "refuses_duplicates P \<Longrightarrow> ok \<Longrightarrow> rb_getexact h k = None"
proof -
  obtain ok1 w1 where r: "rbtree_insert_ok P (rb_getexact h k \<noteq> None) w = (ok1, w1)"
    by (cases "rbtree_insert_ok P (rb_getexact h k \<noteq> None) w")
  with assms have e: "ok = ok1" "h' = (if ok then rb_put h k v else h)"
    by (auto simp: std_rbtree_insert_def)
  then show "h' = (if ok then rb_put h k v else h)" by simp
  show "rb_getexact h k = None" if "refuses_duplicates P" "ok"
  proof (rule ccontr)
    assume "rb_getexact h k \<noteq> None"
    with r have "rbtree_insert_ok P True w = (ok1, w1)" by simp
    with that e show False by (metis refuses_duplicates_def fst_conv)
  qed
qed

lemma insertE:
  assumes "std_rbtree_insert P h k v w = (ok, h', w')" and "refuses_duplicates P"
  obtains (inserted) "ok" "rb_getexact h k = None" "h' = rb_put h k v"
    | (refused) "\<not> ok" "h' = h"
  using insert_cases [OF assms(1)] assms(2) by (cases ok) auto

lemma rb_getexact_put_fun: "h \<noteq> None \<Longrightarrow> rb_getexact (rb_put h k v) = (rb_getexact h)(k \<mapsto> v)"
  by (rule ext) simp

lemma rb_getexact_remove_fun: "rb_getexact (rb_remove h k) = (rb_getexact h)(k := None)"
  by (rule ext) simp

section \<open>Two-level indexes\<close>

text \<open>
  Several components keep a node in two trees: a table of all nodes by object id (\<open>G\<close>), and,
  in each owner, a tree from a local key to the node (\<open>T\<close>).  \<open>index_agree\<close> says that the two
  describe the same set of nodes; the lemmas say which simultaneous updates keep it so.
\<close>

definition index_agree ::
  "('m \<Rightarrow> 'i) \<Rightarrow> ('m \<Rightarrow> 'p) \<Rightarrow> ('m \<Rightarrow> 'q) \<Rightarrow> ('i \<Rightarrow> ('p \<Rightarrow> 'q option) option)
     \<Rightarrow> ('q \<Rightarrow> 'm option) \<Rightarrow> bool" where
  "index_agree owner key ident T G \<longleftrightarrow>
     (\<forall>i P p q. T i = Some P \<longrightarrow> P p = Some q \<longrightarrow>
        (\<exists>m. G q = Some m \<and> key m = p \<and> owner m = i))
     \<and> (\<forall>q m. G q = Some m \<longrightarrow>
          ident m = q \<and> (\<exists>P. T (owner m) = Some P \<and> P (key m) = Some q))"

lemma index_agree_entry:
  "index_agree owner key ident T G \<Longrightarrow> T i = Some P \<Longrightarrow>
     P p = Some q \<longleftrightarrow> (\<exists>m. G q = Some m \<and> key m = p \<and> owner m = i)"
  unfolding index_agree_def by (metis option.inject)

lemma index_agree_node:
  "index_agree owner key ident T G \<Longrightarrow> G q = Some m \<Longrightarrow>
     ident m = q \<and> (\<exists>P. T (owner m) = Some P \<and> P (key m) = Some q)"
  unfolding index_agree_def by blast

lemma index_agree_new_owner:
  assumes "index_agree owner key ident T G" and "T i = None"
  shows "index_agree owner key ident (T(i \<mapsto> Map.empty)) G"
  using assms unfolding index_agree_def by (auto 0 4)

lemma index_agree_drop_owner:
  assumes "index_agree owner key ident T G" and "T i = Some P" and "\<And>p. P p = None"
  shows "index_agree owner key ident (T(i := None)) G"
  using assms unfolding index_agree_def by (auto split: if_splits) (metis option.inject option.distinct(1))

lemma index_agree_insert:
  assumes "index_agree owner key ident T G" and "T (owner m) = Some P"
    and "P (key m) = None" and "G (ident m) = None"
  shows "index_agree owner key ident
           (T(owner m \<mapsto> P(key m \<mapsto> ident m))) (G(ident m \<mapsto> m))"
  using assms unfolding index_agree_def
  by (auto split: if_splits) (metis option.inject option.distinct(1))+

lemma index_agree_delete:
  assumes "index_agree owner key ident T G" and "T (owner m) = Some P" and "G q = Some m"
  shows "index_agree owner key ident (T(owner m \<mapsto> P(key m := None))) (G(q := None))"
  using assms unfolding index_agree_def
  by (auto split: if_splits) (metis option.inject option.distinct(1))+

lemma index_agree_replace:
  assumes "index_agree owner key ident T G" and "G q = Some m"
    and "owner m' = owner m" "key m' = key m" "ident m' = ident m"
  shows "index_agree owner key ident T (G(q \<mapsto> m'))"
  using assms unfolding index_agree_def
  by (auto split: if_splits) (metis option.inject option.distinct(1))+

section \<open>Reachable states and invariants\<close>

text \<open>
  A component is a set of start states and a step relation, one step for each call of an
  operation.  The interface \<open>invariant_system\<close> is what a component promises about an invariant;
  its client lemma says what holds in every state that the component can reach.
\<close>

inductive reach :: "('s \<Rightarrow> bool) \<Rightarrow> ('s \<Rightarrow> 's \<Rightarrow> bool) \<Rightarrow> 's \<Rightarrow> bool"
  for start :: "'s \<Rightarrow> bool" and step :: "'s \<Rightarrow> 's \<Rightarrow> bool" where
  reach_start: "start s \<Longrightarrow> reach start step s"
| reach_step: "reach start step s \<Longrightarrow> step s t \<Longrightarrow> reach start step t"

locale invariant_system =
  fixes start :: "'s \<Rightarrow> bool"
    and step :: "'s \<Rightarrow> 's \<Rightarrow> bool"
    and inv :: "'s \<Rightarrow> bool"
  assumes inv_start: "start s \<Longrightarrow> inv s"
    and inv_step: "inv s \<Longrightarrow> step s t \<Longrightarrow> inv t"
begin

lemma reach_inv: "reach start step s \<Longrightarrow> inv s"
proof (induction rule: reach.induct)
  case (reach_start s)
  then show ?case by (rule inv_start)
next
  case (reach_step s t)
  show ?case by (rule inv_step [OF reach_step.IH reach_step.hyps(2)])
qed

lemma steps_inv: "step\<^sup>*\<^sup>* s t \<Longrightarrow> inv s \<Longrightarrow> inv t"
  by (induction rule: rtranclp_induct) (auto intro: inv_step)

end

end
