(* ===== verification/Stp_Model.thy ===== *)
theory Stp_Model
  imports Sai_Prelude
begin

text \<open>
  The spanning-tree component, \<open>src/switching/sai_stp.c\<close> and \<open>sai_stp_utils.c\<close>.

  The state is the file's globals.  \<open>stp_info_tree\<close> holds one node for each STP instance, with
  the VLANs attached to it and its STP ports; \<open>global_stp_port_tree\<close> holds every STP port node
  under its object id.  A port node is one heap object that both its instance's tree and the
  global tree point to: here the global tree owns the node and the instance's tree, keyed by
  port id, holds the reference, the node's \<open>stp_port_id\<close>.  \<open>g_stp_vlan_map\<close> is the array
  from VLAN to instance.  The mutex is its nesting depth.
\<close>

section \<open>Data\<close>

datatype sai_stp_port_state_t =
    SAI_STP_PORT_STATE_LEARNING
  | SAI_STP_PORT_STATE_FORWARDING
  | SAI_STP_PORT_STATE_BLOCKING
  | SAI_STP_PORT_STATE_OTHER int  \<comment> \<open>any other integer in an attribute of this type\<close>

record dn_sai_stp_port_info_t =
  stp_port_id :: sai_object_id_t
  port_id :: sai_object_id_t
  port_stp_inst_id :: sai_object_id_t
  port_state :: sai_stp_port_state_t

record dn_sai_stp_info_t =
  stp_inst_id :: sai_object_id_t
  vlan_tree :: "(sai_vlan_id_t, unit) rbtree_handle"
  stp_port_tree :: "(sai_object_id_t, sai_object_id_t) rbtree_handle"
  num_ports :: uint32_t

text \<open>The globals.  \<open>g_stp_vlan_map\<close> is in the code an array with a place for each of the
  \<open>SAI_MAX_VLAN_TAG_ID + 1\<close> VLAN ids, the default \<open>0\<close> included; here it is total in the id.  The two
  agree on these ids.  The code does not check an index of the array, the model does not see one that
  is out of range.  The callers outside the component are the creation, the removal and the setting of
  a VLAN in \<open>sai_vlan.c\<close>, and each of them tests the id with \<open>sai_is_valid_vlan_id\<close> first.\<close>

record stp_state =
  stp_info_tree :: "(sai_object_id_t, dn_sai_stp_info_t) rbtree_handle"
  global_stp_port_tree :: "(sai_object_id_t, dn_sai_stp_port_info_t) rbtree_handle"
  g_def_stp_id :: sai_object_id_t
  g_stp_vlan_map :: "sai_vlan_id_t \<Rightarrow> sai_object_id_t"
  sai_port_id_gen_info :: dn_sai_id_gen_info_t
  stp_lock_depth :: int

text \<open>Attributes: an id with the member of the value union that the code reads or writes.\<close>

datatype sai_stp_attr_t =
    SAI_STP_ATTR_VLAN_LIST "sai_vlan_id_t list"
  | SAI_STP_ATTR_PORT_LIST sai_object_list_t
  | SAI_STP_ATTR_UNKNOWN int

datatype sai_stp_port_attr_t =
    SAI_STP_PORT_ATTR_STP sai_object_id_t
  | SAI_STP_PORT_ATTR_PORT sai_object_id_t
  | SAI_STP_PORT_ATTR_STATE sai_stp_port_state_t
  | SAI_STP_PORT_ATTR_UNKNOWN int

text \<open>The table \<open>sai_stp_npu_api_get()\<close> of the hardware plug-in, and the switch's internal
  VLAN (\<open>sai_is_internal_vlan_id_initialized\<close>, \<open>sai_internal_vlan_id_get\<close>).\<close>

record 'w stp_env = "'w platform" +
  npu_stp_init :: "'w \<Rightarrow> sai_status_t \<times> sai_npu_object_id_t \<times> sai_npu_object_id_t \<times> 'w"
  npu_instance_create :: "'w \<Rightarrow> sai_status_t \<times> sai_npu_object_id_t \<times> 'w"
  npu_instance_remove :: "sai_object_id_t \<Rightarrow> 'w \<Rightarrow> sai_status_t \<times> 'w"
  npu_vlan_add :: "sai_object_id_t \<Rightarrow> sai_vlan_id_t \<Rightarrow> 'w \<Rightarrow> sai_status_t \<times> 'w"
  npu_vlan_remove :: "sai_object_id_t \<Rightarrow> sai_vlan_id_t \<Rightarrow> 'w \<Rightarrow> sai_status_t \<times> 'w"
  npu_attribute_get ::
    "sai_object_id_t \<Rightarrow> sai_stp_attr_t list \<Rightarrow> 'w \<Rightarrow> sai_status_t \<times> sai_stp_attr_t list \<times> 'w"
  npu_port_state_set ::
    "sai_object_id_t \<Rightarrow> sai_object_id_t \<Rightarrow> sai_stp_port_state_t \<Rightarrow> 'w \<Rightarrow> sai_status_t \<times> 'w"
  npu_port_state_get ::
    "sai_object_id_t \<Rightarrow> sai_object_id_t \<Rightarrow> 'w \<Rightarrow> sai_status_t \<times> sai_stp_port_state_t \<times> 'w"
  npu_vlan_stp_get :: "sai_vlan_id_t \<Rightarrow> 'w \<Rightarrow> sai_status_t \<times> sai_npu_object_id_t \<times> 'w"
  npu_default_instance_get :: "'w \<Rightarrow> sai_status_t \<times> sai_npu_object_id_t \<times> 'w"
  internal_vlan_id :: "'w \<Rightarrow> sai_vlan_id_t option"

abbreviation SAI_INIT_DEFAULT_VLAN :: sai_vlan_id_t where
  "SAI_INIT_DEFAULT_VLAN \<equiv> 1"

section \<open>Locks and helpers (\<open>sai_stp_utils.c\<close>)\<close>

definition sai_stp_lock :: "stp_state \<Rightarrow> stp_state" where
  "sai_stp_lock s = s\<lparr>stp_lock_depth := stp_lock_depth s + 1\<rparr>"

definition sai_stp_unlock :: "stp_state \<Rightarrow> stp_state" where
  "sai_stp_unlock s = s\<lparr>stp_lock_depth := stp_lock_depth s - 1\<rparr>"

fun sai_stp_port_state_valid :: "sai_stp_port_state_t \<Rightarrow> bool" where
  "sai_stp_port_state_valid SAI_STP_PORT_STATE_LEARNING = True"
| "sai_stp_port_state_valid SAI_STP_PORT_STATE_FORWARDING = True"
| "sai_stp_port_state_valid SAI_STP_PORT_STATE_BLOCKING = True"
| "sai_stp_port_state_valid (SAI_STP_PORT_STATE_OTHER _) = False"

text \<open>Writing through the pointers \<open>p_stp_info\<close> and \<open>p_stp_port_info\<close>.\<close>

definition stp_info_write :: "dn_sai_stp_info_t \<Rightarrow> stp_state \<Rightarrow> stp_state" where
  "stp_info_write n s = s\<lparr>stp_info_tree := rb_put (stp_info_tree s) (stp_inst_id n) n\<rparr>"

definition stp_port_write :: "dn_sai_stp_port_info_t \<Rightarrow> stp_state \<Rightarrow> stp_state" where
  "stp_port_write n s =
     s\<lparr>global_stp_port_tree := rb_put (global_stp_port_tree s) (stp_port_id n) n\<rparr>"

section \<open>STP port object ids\<close>

definition sai_stp_port_id_in_use ::
  "('w, 'z) stp_env_scheme \<Rightarrow> stp_state \<Rightarrow> 64 word \<Rightarrow> bool" where
  "sai_stp_port_id_in_use E s obj_id =
     (rb_getexact (global_stp_port_tree s)
        (sai_uoid_create E SAI_OBJECT_TYPE_STP_PORT obj_id) = None)"

definition sai_stp_port_id_create ::
  "('w, 'z) stp_env_scheme \<Rightarrow> stp_state \<Rightarrow> sai_object_id_t \<times> stp_state" where
  "sai_stp_port_id_create E s =
     (let (rc, g) = dn_sai_get_next_free_id E (sai_stp_port_id_in_use E s)
                      (sai_port_id_gen_info s);
          s = s\<lparr>sai_port_id_gen_info := g\<rparr>
      in (if rc = SAI_STATUS_SUCCESS
          then sai_uoid_create E SAI_OBJECT_TYPE_STP_PORT (cur_id g)
          else SAI_NULL_OBJECT_ID, s))"

definition sai_stp_port_id_gen_init :: "('w, 'z) stp_env_scheme \<Rightarrow> stp_state \<Rightarrow> stp_state" where
  "sai_stp_port_id_gen_init E s =
     s\<lparr>sai_port_id_gen_info :=
         \<lparr>cur_id = 0, is_wrappped = False, id_mask = uoid_npu_obj_id_mask E\<rparr>\<rparr>"

section \<open>Instances\<close>

definition sai_stp_get_instance_from_vlan_map :: "stp_state \<Rightarrow> sai_vlan_id_t \<Rightarrow> sai_object_id_t" where
  "sai_stp_get_instance_from_vlan_map s vlan_id = g_stp_vlan_map s vlan_id"

definition sai_stp_is_valid_stp_instance :: "stp_state \<Rightarrow> sai_object_id_t \<Rightarrow> bool \<times> stp_state" where
  "sai_stp_is_valid_stp_instance s inst =
     (let s = sai_stp_lock s;
          ret = (if stp_info_tree s = None then False
                 else rb_getexact (stp_info_tree s) inst \<noteq> None)
      in (ret, sai_stp_unlock s))"

text \<open>The body of \<open>do ... while (0)\<close> in \<open>sai_stp_instance_create\<close>; \<open>None\<close> as second component
  when the output parameter is not written.\<close>

definition stp_instance_create_body ::
  "('w, 'z) stp_env_scheme \<Rightarrow> stp_state \<Rightarrow> 'w
     \<Rightarrow> sai_status_t \<times> sai_object_id_t option \<times> stp_state \<times> 'w" where
  "stp_instance_create_body E s w =
    (if stp_info_tree s = None then (SAI_STATUS_FAILURE, None, s, w)
     else let (ok, w) = calloc_ok E w in
       if \<not> ok then (SAI_STATUS_NO_MEMORY, None, s, w)
     else let (error, npu_object_id, w) = npu_instance_create E w in
       if error \<noteq> SAI_STATUS_SUCCESS then (error, None, s, w)
     else let inst = sai_uoid_create E SAI_OBJECT_TYPE_STP npu_object_id;
              node = \<lparr>stp_inst_id = inst, vlan_tree = None, stp_port_tree = None, num_ports = 0\<rparr>;
              (ok, tree, w) = std_rbtree_insert E (stp_info_tree s) inst node w in
       if \<not> ok then
         let (_, w) = npu_instance_remove E inst w in (SAI_STATUS_FAILURE, None, s, w)
     else let s = s\<lparr>stp_info_tree := tree\<rparr>;
              (ok, w) = rbtree_create_ok E w in
       if \<not> ok then
         let s = s\<lparr>stp_info_tree := rb_remove (stp_info_tree s) inst\<rparr>;
             (_, w) = npu_instance_remove E inst w in (SAI_STATUS_FAILURE, None, s, w)
     else let node = node\<lparr>vlan_tree := Some fmempty\<rparr>;
              s = stp_info_write node s;
              (ok, w) = rbtree_create_ok E w in
       if \<not> ok then
         let s = s\<lparr>stp_info_tree := rb_remove (stp_info_tree s) inst\<rparr>;
             (_, w) = npu_instance_remove E inst w in (SAI_STATUS_FAILURE, None, s, w)
     else let s = stp_info_write (node\<lparr>stp_port_tree := Some fmempty, num_ports := 0\<rparr>) s
       in (SAI_STATUS_SUCCESS, Some inst, s, w))"

definition sai_stp_instance_create ::
  "('w, 'z) stp_env_scheme \<Rightarrow> nat \<Rightarrow> stp_state \<Rightarrow> 'w
     \<Rightarrow> sai_status_t \<times> sai_object_id_t option \<times> stp_state \<times> 'w" where
  "sai_stp_instance_create E attr_count s w =
    (if attr_count > 0 then (SAI_STATUS_FAILURE, None, s, w)
     else let (error, out, s, w) = stp_instance_create_body E (sai_stp_lock s) w
          in (error, out, sai_stp_unlock s, w))"

definition stp_instance_remove_body ::
  "('w, 'z) stp_env_scheme \<Rightarrow> sai_object_id_t \<Rightarrow> stp_state \<Rightarrow> 'w
     \<Rightarrow> sai_status_t \<times> stp_state \<times> 'w" where
  "stp_instance_remove_body E inst s w =
    (if stp_info_tree s = None then (SAI_STATUS_FAILURE, s, w)
     else case rb_getexact (stp_info_tree s) inst of
       None \<Rightarrow> (SAI_STATUS_INVALID_OBJECT_ID, s, w)
     | Some info \<Rightarrow>
       if \<not> rb_is_empty (vlan_tree info) then (SAI_STATUS_OBJECT_IN_USE, s, w)
       else if num_ports info \<noteq> 0 then (SAI_STATUS_OBJECT_IN_USE, s, w)
       else let (error, w) = npu_instance_remove E (stp_inst_id info) w in
         if error \<noteq> SAI_STATUS_SUCCESS then (error, s, w)
       else (SAI_STATUS_SUCCESS,
             s\<lparr>stp_info_tree := rb_remove (stp_info_tree s) (stp_inst_id info)\<rparr>, w))"

definition sai_stp_instance_remove ::
  "('w, 'z) stp_env_scheme \<Rightarrow> sai_object_id_t \<Rightarrow> stp_state \<Rightarrow> 'w
     \<Rightarrow> sai_status_t \<times> stp_state \<times> 'w" where
  "sai_stp_instance_remove E inst s w =
    (if \<not> sai_is_obj_id E SAI_OBJECT_TYPE_STP inst
     then (SAI_STATUS_INVALID_OBJECT_TYPE, s, w)
     else let (error, s, w) = stp_instance_remove_body E inst (sai_stp_lock s) w
          in (error, sai_stp_unlock s, w))"

section \<open>VLANs of an instance\<close>

definition stp_vlan_add_body ::
  "('w, 'z) stp_env_scheme \<Rightarrow> sai_object_id_t \<Rightarrow> sai_vlan_id_t \<Rightarrow> stp_state \<Rightarrow> 'w
     \<Rightarrow> sai_status_t \<times> stp_state \<times> 'w" where
  "stp_vlan_add_body E inst vlan_id s w =
    (if stp_info_tree s = None then (SAI_STATUS_FAILURE, s, w)
     else case rb_getexact (stp_info_tree s) inst of
       None \<Rightarrow> (SAI_STATUS_INVALID_OBJECT_ID, s, w)
     | Some info \<Rightarrow>
       if vlan_tree info = None then (SAI_STATUS_FAILURE, s, w)
       else if rb_getexact (vlan_tree info) vlan_id \<noteq> None
       then (SAI_STATUS_ITEM_ALREADY_EXISTS, s, w)
       else let (ok, w) = calloc_ok E w in
         if \<not> ok then (SAI_STATUS_NO_MEMORY, s, w)
       else let (error, w) = npu_vlan_add E inst vlan_id w in
         if error \<noteq> SAI_STATUS_SUCCESS then (error, s, w)
       else let (ok, tree, w) = std_rbtree_insert E (vlan_tree info) vlan_id () w in
         if \<not> ok then
           let (_, w) = npu_vlan_remove E inst vlan_id w in (SAI_STATUS_FAILURE, s, w)
       else (SAI_STATUS_SUCCESS, stp_info_write (info\<lparr>vlan_tree := tree\<rparr>) s, w))"

definition sai_stp_vlan_add ::
  "('w, 'z) stp_env_scheme \<Rightarrow> sai_object_id_t \<Rightarrow> sai_vlan_id_t \<Rightarrow> stp_state \<Rightarrow> 'w
     \<Rightarrow> sai_status_t \<times> stp_state \<times> 'w" where
  "sai_stp_vlan_add E inst vlan_id s w =
    (if \<not> sai_is_obj_id E SAI_OBJECT_TYPE_STP inst
     then (SAI_STATUS_INVALID_OBJECT_TYPE, s, w)
     else let (error, s, w) = stp_vlan_add_body E inst vlan_id (sai_stp_lock s) w
          in (error, sai_stp_unlock s, w))"

definition stp_vlan_remove_body ::
  "('w, 'z) stp_env_scheme \<Rightarrow> sai_object_id_t \<Rightarrow> sai_vlan_id_t \<Rightarrow> stp_state \<Rightarrow> 'w
     \<Rightarrow> sai_status_t \<times> stp_state \<times> 'w" where
  "stp_vlan_remove_body E inst vlan_id s w =
    (if stp_info_tree s = None then (SAI_STATUS_FAILURE, s, w)
     else case rb_getexact (stp_info_tree s) inst of
       None \<Rightarrow> (SAI_STATUS_INVALID_OBJECT_ID, s, w)
     | Some info \<Rightarrow>
       if vlan_tree info = None then (SAI_STATUS_FAILURE, s, w)
       else if rb_getexact (vlan_tree info) vlan_id = None
       then (SAI_STATUS_ITEM_NOT_FOUND, s, w)
       else let (error, w) = npu_vlan_remove E inst vlan_id w in
         if error \<noteq> SAI_STATUS_SUCCESS then (error, s, w)
       else (SAI_STATUS_SUCCESS,
             stp_info_write (info\<lparr>vlan_tree := rb_remove (vlan_tree info) vlan_id\<rparr>) s, w))"

definition sai_stp_vlan_remove ::
  "('w, 'z) stp_env_scheme \<Rightarrow> sai_object_id_t \<Rightarrow> sai_vlan_id_t \<Rightarrow> stp_state \<Rightarrow> 'w
     \<Rightarrow> sai_status_t \<times> stp_state \<times> 'w" where
  "sai_stp_vlan_remove E inst vlan_id s w =
    (if \<not> sai_is_obj_id E SAI_OBJECT_TYPE_STP inst
     then (SAI_STATUS_INVALID_OBJECT_TYPE, s, w)
     else let (error, s, w) = stp_vlan_remove_body E inst vlan_id (sai_stp_lock s) w
          in (error, sai_stp_unlock s, w))"

section \<open>Instance attributes\<close>

definition sai_stp_attribute_set ::
  "('w, 'z) stp_env_scheme \<Rightarrow> sai_object_id_t \<Rightarrow> sai_stp_attr_t \<Rightarrow> stp_state
     \<Rightarrow> sai_status_t \<times> stp_state" where
  "sai_stp_attribute_set E inst attr s =
    (if \<not> sai_is_obj_id E SAI_OBJECT_TYPE_STP inst then (SAI_STATUS_INVALID_OBJECT_TYPE, s)
     else let s = sai_stp_lock s;
              error = (if stp_info_tree s = None then SAI_STATUS_FAILURE
                else case rb_getexact (stp_info_tree s) inst of
                  None \<Rightarrow> SAI_STATUS_INVALID_OBJECT_ID
                | Some _ \<Rightarrow> (case attr of
                    SAI_STP_ATTR_VLAN_LIST _ \<Rightarrow> SAI_STATUS_INVALID_ATTRIBUTE 0
                  | SAI_STP_ATTR_PORT_LIST _ \<Rightarrow> SAI_STATUS_INVALID_ATTRIBUTE 0
                  | SAI_STP_ATTR_UNKNOWN _ \<Rightarrow> SAI_STATUS_UNKNOWN_ATTRIBUTE 0))
          in (error, sai_stp_unlock s))"

text \<open>The loop that writes \<open>list[count++]\<close> for each node of the tree.\<close>

fun stp_port_list_fill ::
  "sai_object_id_t list \<Rightarrow> sai_object_list_t \<Rightarrow> sai_object_list_t" where
  "stp_port_list_fill [] ol = ol"
| "stp_port_list_fill (n # ns) ol =
     stp_port_list_fill ns
       (ol\<lparr>ol_list := (ol_list ol)[unat (ol_count ol) := n], ol_count := ol_count ol + 1\<rparr>)"

definition sai_stp_get_port_list ::
  "stp_state \<Rightarrow> sai_object_id_t \<Rightarrow> sai_object_list_t \<Rightarrow> sai_status_t \<times> sai_object_list_t" where
  "sai_stp_get_port_list s inst ol =
    (case rb_getexact (stp_info_tree s) inst of
       None \<Rightarrow> (SAI_STATUS_ITEM_NOT_FOUND, ol)
     | Some info \<Rightarrow>
         if num_ports info > ol_count ol
         then (SAI_STATUS_BUFFER_OVERFLOW, ol\<lparr>ol_count := num_ports info\<rparr>)
         else let ol = ol\<lparr>ol_count := 0\<rparr>
              in (SAI_STATUS_SUCCESS,
                  if num_ports info \<noteq> 0
                  then stp_port_list_fill (rb_nodes (stp_port_tree info)) ol
                  else ol))"

text \<open>The loop of \<open>sai_stp_attribute_get\<close>: \<open>k\<close> iterations are left from \<open>attr_index\<close> on; the
  plug-in is handed the whole list and may write it.\<close>

fun stp_attribute_get_loop ::
  "('w, 'z) stp_env_scheme \<Rightarrow> stp_state \<Rightarrow> sai_object_id_t \<Rightarrow> nat \<Rightarrow> nat
     \<Rightarrow> sai_stp_attr_t list \<Rightarrow> 'w \<Rightarrow> sai_status_t \<times> sai_stp_attr_t list \<times> 'w" where
  "stp_attribute_get_loop E s inst attr_index 0 attr_list w = (SAI_STATUS_SUCCESS, attr_list, w)"
| "stp_attribute_get_loop E s inst attr_index (Suc k) attr_list w =
    (let (error, attr_list, w) =
       (case attr_list ! attr_index of
          SAI_STP_ATTR_VLAN_LIST _ \<Rightarrow> npu_attribute_get E inst attr_list w
        | SAI_STP_ATTR_PORT_LIST ol \<Rightarrow>
            let (error, ol) = sai_stp_get_port_list s inst ol
            in (error, attr_list[attr_index := SAI_STP_ATTR_PORT_LIST ol], w)
        | SAI_STP_ATTR_UNKNOWN _ \<Rightarrow>
            (SAI_STATUS_UNKNOWN_ATTRIBUTE attr_index, attr_list, w))
     in if error \<noteq> SAI_STATUS_SUCCESS then (error, attr_list, w)
        else stp_attribute_get_loop E s inst (Suc attr_index) k attr_list w)"

definition sai_stp_attribute_get ::
  "('w, 'z) stp_env_scheme \<Rightarrow> sai_object_id_t \<Rightarrow> sai_stp_attr_t list \<Rightarrow> stp_state \<Rightarrow> 'w
     \<Rightarrow> sai_status_t \<times> sai_stp_attr_t list \<times> stp_state \<times> 'w" where
  "sai_stp_attribute_get E inst attr_list s w =
    (if \<not> sai_is_obj_id E SAI_OBJECT_TYPE_STP inst
     then (SAI_STATUS_INVALID_OBJECT_TYPE, attr_list, s, w)
     else let s = sai_stp_lock s;
              (error, attr_list, w) =
                (if stp_info_tree s = None then (SAI_STATUS_FAILURE, attr_list, w)
                 else if rb_getexact (stp_info_tree s) inst = None
                 then (SAI_STATUS_INVALID_OBJECT_ID, attr_list, w)
                 else stp_attribute_get_loop E s inst 0 (length attr_list) attr_list w)
          in (error, attr_list, sai_stp_unlock s, w))"

end
