(* ===== verification/Stp_Ports.thy ===== *)
theory Stp_Ports
  imports Stp_Model
begin

text \<open>
  The second half of \<open>src/switching/sai_stp.c\<close>: STP ports, the VLAN map, the initialisation
  and the test that decides whether a port may learn MAC addresses.
\<close>

section \<open>STP port creation\<close>

text \<open>The attribute loop; the accumulators hold the three values, \<open>None\<close> while absent, and with
  the instance id the node that \<open>p_stp_info\<close> points to.\<close>

fun stp_port_create_parse ::
  "('w, 'z) stp_env_scheme \<Rightarrow> stp_state \<Rightarrow> 'w \<Rightarrow> nat \<Rightarrow> sai_stp_port_attr_t list
     \<Rightarrow> (sai_object_id_t \<times> dn_sai_stp_info_t) option \<Rightarrow> sai_object_id_t option
     \<Rightarrow> sai_stp_port_state_t option
     \<Rightarrow> sai_status_t + ((sai_object_id_t \<times> dn_sai_stp_info_t) option \<times> sai_object_id_t option
                         \<times> sai_stp_port_state_t option)" where
  "stp_port_create_parse E s w attr_idx [] inst port st = Inr (inst, port, st)"
| "stp_port_create_parse E s w attr_idx (a # attrs) inst port st =
    (case a of
       SAI_STP_PORT_ATTR_STP oid \<Rightarrow>
         if \<not> sai_is_obj_id E SAI_OBJECT_TYPE_STP oid
         then Inl (SAI_STATUS_INVALID_ATTR_VALUE attr_idx)
         else (case rb_getexact (stp_info_tree s) oid of
             None \<Rightarrow> Inl (SAI_STATUS_INVALID_ATTR_VALUE attr_idx)
           | Some info \<Rightarrow>
               stp_port_create_parse E s w (Suc attr_idx) attrs (Some (oid, info)) port st)
     | SAI_STP_PORT_ATTR_PORT oid \<Rightarrow>
         if \<not> sai_is_obj_id E SAI_OBJECT_TYPE_PORT oid
         then Inl (SAI_STATUS_INVALID_ATTR_VALUE attr_idx)
         else if \<not> sai_is_port_valid E w oid
         then Inl (SAI_STATUS_INVALID_ATTR_VALUE attr_idx)
         else stp_port_create_parse E s w (Suc attr_idx) attrs inst (Some oid) st
     | SAI_STP_PORT_ATTR_STATE v \<Rightarrow>
         if \<not> sai_stp_port_state_valid v
         then Inl (SAI_STATUS_INVALID_ATTR_VALUE attr_idx)
         else stp_port_create_parse E s w (Suc attr_idx) attrs inst port (Some v)
     | SAI_STP_PORT_ATTR_UNKNOWN _ \<Rightarrow> Inl (SAI_STATUS_UNKNOWN_ATTRIBUTE attr_idx))"

text \<open>Under the lock.  \<open>info\<close> is \<open>*p_stp_info\<close>, found during the parse.\<close>

definition stp_port_create_body ::
  "('w, 'z) stp_env_scheme \<Rightarrow> dn_sai_stp_info_t \<Rightarrow> sai_object_id_t \<Rightarrow> sai_object_id_t
     \<Rightarrow> sai_stp_port_state_t \<Rightarrow> stp_state \<Rightarrow> 'w
     \<Rightarrow> sai_status_t \<times> sai_object_id_t option \<times> stp_state \<times> 'w" where
  "stp_port_create_body E info inst port state s w =
    (let (ok, w) = calloc_ok E w in
     if \<not> ok then (SAI_STATUS_NO_MEMORY, None, s, w)
     else if rb_getexact (stp_port_tree info) port \<noteq> None
     then (SAI_STATUS_ITEM_ALREADY_EXISTS, None, s, w)
     else let (spid, s) = sai_stp_port_id_create E s in
       if spid = SAI_NULL_OBJECT_ID then (SAI_STATUS_FAILURE, None, s, w)
     else let node = \<lparr>stp_port_id = spid, port_id = port, port_stp_inst_id = inst,
                       port_state = state\<rparr>;
              (ok, ptree, w) = std_rbtree_insert E (stp_port_tree info) port spid w in
       if \<not> ok then (SAI_STATUS_FAILURE, None, s, w)
     else let info1 = info\<lparr>stp_port_tree := ptree, num_ports := num_ports info + 1\<rparr>;
              undo = info1\<lparr>stp_port_tree := rb_remove ptree port,
                           num_ports := num_ports info1 - 1\<rparr>;
              s = stp_info_write info1 s;
              (ok, gtree, w) = std_rbtree_insert E (global_stp_port_tree s) spid node w in
       if \<not> ok then (SAI_STATUS_FAILURE, None, stp_info_write undo s, w)
     else let s = s\<lparr>global_stp_port_tree := gtree\<rparr>;
              (error, w) = npu_port_state_set E inst port state w in
       if error \<noteq> SAI_STATUS_SUCCESS
       then let s = stp_info_write undo s;
                s = s\<lparr>global_stp_port_tree := rb_remove (global_stp_port_tree s) spid\<rparr>
            in (error, None, s, w)
     else (SAI_STATUS_SUCCESS, Some spid, s, w))"

definition sai_stp_port_create ::
  "('w, 'z) stp_env_scheme \<Rightarrow> sai_stp_port_attr_t list \<Rightarrow> stp_state \<Rightarrow> 'w
     \<Rightarrow> sai_status_t \<times> sai_object_id_t option \<times> stp_state \<times> 'w" where
  "sai_stp_port_create E attr_list s w =
    (if attr_list = [] then (SAI_STATUS_MANDATORY_ATTRIBUTE_MISSING, None, s, w)
     else case stp_port_create_parse E s w 0 attr_list None None None of
       Inl error \<Rightarrow> (error, None, s, w)
     | Inr (Some (inst, info), Some port, Some state) \<Rightarrow>
         (let (error, out, s, w) =
            stp_port_create_body E info inst port state (sai_stp_lock s) w
          in (error, out, sai_stp_unlock s, w))
     | Inr _ \<Rightarrow> (SAI_STATUS_MANDATORY_ATTRIBUTE_MISSING, None, s, w))"

section \<open>STP port removal and attributes\<close>

definition stp_port_remove_body ::
  "('w, 'z) stp_env_scheme \<Rightarrow> sai_object_id_t \<Rightarrow> stp_state \<Rightarrow> 'w
     \<Rightarrow> sai_status_t \<times> stp_state \<times> 'w" where
  "stp_port_remove_body E spid s w =
    (case rb_getexact (global_stp_port_tree s) spid of
       None \<Rightarrow> (SAI_STATUS_ITEM_NOT_FOUND, s, w)
     | Some node \<Rightarrow>
       let (error, w) = npu_port_state_set E (port_stp_inst_id node) (port_id node)
                          SAI_STP_PORT_STATE_BLOCKING w in
       if error \<noteq> SAI_STATUS_SUCCESS then (error, s, w)
       else let s = s\<lparr>global_stp_port_tree := rb_remove (global_stp_port_tree s) spid\<rparr> in
         (case rb_getexact (stp_info_tree s) (port_stp_inst_id node) of
            None \<Rightarrow> (SAI_STATUS_FAILURE, s, w)
          | Some info \<Rightarrow>
              (SAI_STATUS_SUCCESS,
               stp_info_write
                 (info\<lparr>stp_port_tree := rb_remove (stp_port_tree info) (port_id node),
                       num_ports := num_ports info - 1\<rparr>) s, w)))"

definition sai_stp_port_remove ::
  "('w, 'z) stp_env_scheme \<Rightarrow> sai_object_id_t \<Rightarrow> stp_state \<Rightarrow> 'w
     \<Rightarrow> sai_status_t \<times> stp_state \<times> 'w" where
  "sai_stp_port_remove E spid s w =
    (if \<not> sai_is_obj_id E SAI_OBJECT_TYPE_STP_PORT spid
     then (SAI_STATUS_INVALID_OBJECT_ID, s, w)
     else let (error, s, w) = stp_port_remove_body E spid (sai_stp_lock s) w
          in (error, sai_stp_unlock s, w))"

definition stp_port_attribute_set_body ::
  "('w, 'z) stp_env_scheme \<Rightarrow> sai_object_id_t \<Rightarrow> sai_stp_port_attr_t \<Rightarrow> stp_state \<Rightarrow> 'w
     \<Rightarrow> sai_status_t \<times> stp_state \<times> 'w" where
  "stp_port_attribute_set_body E spid attr s w =
    (case rb_getexact (global_stp_port_tree s) spid of
       None \<Rightarrow> (SAI_STATUS_ITEM_NOT_FOUND, s, w)
     | Some node \<Rightarrow>
       (case attr of
          SAI_STP_PORT_ATTR_STP _ \<Rightarrow> (SAI_STATUS_INVALID_ATTRIBUTE 0, s, w)
        | SAI_STP_PORT_ATTR_PORT _ \<Rightarrow> (SAI_STATUS_INVALID_ATTRIBUTE 0, s, w)
        | SAI_STP_PORT_ATTR_STATE v \<Rightarrow>
            if \<not> sai_stp_port_state_valid v then (SAI_STATUS_INVALID_ATTRIBUTE 0, s, w)
            else let (ret_val, w) =
                   npu_port_state_set E (port_stp_inst_id node) (port_id node) v w in
              if ret_val \<noteq> SAI_STATUS_SUCCESS then (ret_val, s, w)
              else (ret_val, stp_port_write (node\<lparr>port_state := v\<rparr>) s, w)
        | SAI_STP_PORT_ATTR_UNKNOWN _ \<Rightarrow> (SAI_STATUS_UNKNOWN_ATTRIBUTE 0, s, w)))"

definition sai_stp_port_attribute_set ::
  "('w, 'z) stp_env_scheme \<Rightarrow> sai_object_id_t \<Rightarrow> sai_stp_port_attr_t \<Rightarrow> stp_state \<Rightarrow> 'w
     \<Rightarrow> sai_status_t \<times> stp_state \<times> 'w" where
  "sai_stp_port_attribute_set E spid attr s w =
    (if \<not> sai_is_obj_id E SAI_OBJECT_TYPE_STP_PORT spid
     then (SAI_STATUS_INVALID_OBJECT_TYPE, s, w)
     else let (ret_val, s, w) = stp_port_attribute_set_body E spid attr (sai_stp_lock s) w
          in (ret_val, sai_stp_unlock s, w))"

text \<open>The get loop fills the attributes up to the first unknown one.\<close>

fun stp_port_attribute_get_loop ::
  "dn_sai_stp_port_info_t \<Rightarrow> sai_stp_port_attr_t list \<Rightarrow> sai_status_t \<times> sai_stp_port_attr_t list" where
  "stp_port_attribute_get_loop node [] = (SAI_STATUS_SUCCESS, [])"
| "stp_port_attribute_get_loop node (a # attrs) =
    (case a of
       SAI_STP_PORT_ATTR_UNKNOWN _ \<Rightarrow> (SAI_STATUS_UNKNOWN_ATTRIBUTE 0, a # attrs)
     | _ \<Rightarrow>
       let v = (case a of
                  SAI_STP_PORT_ATTR_STP _ \<Rightarrow> SAI_STP_PORT_ATTR_STP (port_stp_inst_id node)
                | SAI_STP_PORT_ATTR_PORT _ \<Rightarrow> SAI_STP_PORT_ATTR_PORT (port_id node)
                | SAI_STP_PORT_ATTR_STATE _ \<Rightarrow> SAI_STP_PORT_ATTR_STATE (port_state node)
                | SAI_STP_PORT_ATTR_UNKNOWN i \<Rightarrow> SAI_STP_PORT_ATTR_UNKNOWN i);
           (rc, vs) = stp_port_attribute_get_loop node attrs
       in (rc, v # vs))"

definition sai_stp_port_attribute_get ::
  "('w, 'z) stp_env_scheme \<Rightarrow> sai_object_id_t \<Rightarrow> sai_stp_port_attr_t list \<Rightarrow> stp_state
     \<Rightarrow> sai_status_t \<times> sai_stp_port_attr_t list \<times> stp_state" where
  "sai_stp_port_attribute_get E spid attr_list s =
    (if \<not> sai_is_obj_id E SAI_OBJECT_TYPE_STP_PORT spid
     then (SAI_STATUS_INVALID_OBJECT_TYPE, attr_list, s)
     else let s = sai_stp_lock s;
              (ret_val, attr_list) =
                (case rb_getexact (global_stp_port_tree s) spid of
                   None \<Rightarrow> (SAI_STATUS_ITEM_NOT_FOUND, attr_list)
                 | Some node \<Rightarrow> stp_port_attribute_get_loop node attr_list)
          in (ret_val, attr_list, sai_stp_unlock s))"

section \<open>The VLAN map\<close>

definition sai_stp_vlan_destroy ::
  "('w, 'z) stp_env_scheme \<Rightarrow> sai_vlan_id_t \<Rightarrow> stp_state \<Rightarrow> 'w \<Rightarrow> sai_status_t \<times> stp_state \<times> 'w" where
  "sai_stp_vlan_destroy E vlan_id s w =
    (let (ret, s, w) = sai_stp_vlan_remove E (g_stp_vlan_map s vlan_id) vlan_id s w in
     if ret \<noteq> SAI_STATUS_SUCCESS then (ret, s, w)
     else (ret, s\<lparr>g_stp_vlan_map := (g_stp_vlan_map s)(vlan_id := 0)\<rparr>, w))"

definition sai_stp_vlan_handle ::
  "('w, 'z) stp_env_scheme \<Rightarrow> sai_vlan_id_t \<Rightarrow> sai_object_id_t \<Rightarrow> stp_state \<Rightarrow> 'w
     \<Rightarrow> sai_status_t \<times> stp_state \<times> 'w" where
  "sai_stp_vlan_handle E vlan_id inst s w =
    (let (valid, s) = sai_stp_is_valid_stp_instance s inst in
     if \<not> valid then (SAI_STATUS_INVALID_OBJECT_ID, s, w)
     else let (ret, s, w) = sai_stp_vlan_remove E (g_stp_vlan_map s vlan_id) vlan_id s w in
       if ret \<noteq> SAI_STATUS_SUCCESS then (ret, s, w)
     else let (ret, s, w) = sai_stp_vlan_add E inst vlan_id s w in
       if ret \<noteq> SAI_STATUS_SUCCESS
       then let (_, s, w) = sai_stp_vlan_add E (g_stp_vlan_map s vlan_id) vlan_id s w
            in (ret, s, w)
     else (ret, s\<lparr>g_stp_vlan_map := (g_stp_vlan_map s)(vlan_id := inst)\<rparr>, w))"

definition sai_stp_default_stp_vlan_update ::
  "('w, 'z) stp_env_scheme \<Rightarrow> sai_vlan_id_t \<Rightarrow> stp_state \<Rightarrow> 'w \<Rightarrow> sai_status_t \<times> stp_state \<times> 'w" where
  "sai_stp_default_stp_vlan_update E vlan_id s w =
    (let (ret, s, w) =
       (if g_stp_vlan_map s vlan_id \<noteq> 0
        then let (ret, s, w) = sai_stp_vlan_remove E (g_stp_vlan_map s vlan_id) vlan_id s w in
          (ret, if ret = SAI_STATUS_SUCCESS
                then s\<lparr>g_stp_vlan_map := (g_stp_vlan_map s)(vlan_id := 0)\<rparr> else s, w)
        else (SAI_STATUS_SUCCESS, s, w))
     in if ret \<noteq> SAI_STATUS_SUCCESS then (ret, s, w)
     else let (ret, s, w) = sai_stp_vlan_add E (g_def_stp_id s) vlan_id s w in
       if ret \<noteq> SAI_STATUS_SUCCESS then (ret, s, w)
     else (ret, s\<lparr>g_stp_vlan_map := (g_stp_vlan_map s)(vlan_id := g_def_stp_id s)\<rparr>, w))"

definition sai_stp_vlan_stp_get ::
  "('w, 'z) stp_env_scheme \<Rightarrow> sai_vlan_id_t \<Rightarrow> 'w \<Rightarrow> sai_status_t \<times> sai_object_id_t option \<times> 'w" where
  "sai_stp_vlan_stp_get E vlan_id w =
    (let (ret, npu_object_id, w) = npu_vlan_stp_get E vlan_id w in
     if ret \<noteq> SAI_STATUS_SUCCESS then (ret, None, w)
     else (ret, Some (sai_uoid_create E SAI_OBJECT_TYPE_STP npu_object_id), w))"

definition sai_l2_stp_default_instance_id_get ::
  "('w, 'z) stp_env_scheme \<Rightarrow> 'w \<Rightarrow> sai_status_t \<times> sai_object_id_t option \<times> 'w" where
  "sai_l2_stp_default_instance_id_get E w =
    (let (ret, def_stp_id, w) = npu_default_instance_get E w in
     if ret \<noteq> SAI_STATUS_SUCCESS then (ret, None, w)
     else (ret, Some (sai_uoid_create E SAI_OBJECT_TYPE_STP def_stp_id), w))"

section \<open>Port state and MAC learning\<close>

definition sai_npu_stp_port_state_get ::
  "('w, 'z) stp_env_scheme \<Rightarrow> sai_object_id_t \<Rightarrow> sai_object_id_t \<Rightarrow> stp_state \<Rightarrow> 'w
     \<Rightarrow> sai_status_t \<times> sai_stp_port_state_t option \<times> 'w" where
  "sai_npu_stp_port_state_get E inst port s w =
    (if \<not> sai_is_obj_id E SAI_OBJECT_TYPE_STP inst then (SAI_STATUS_INVALID_OBJECT_TYPE, None, w)
     else if \<not> sai_is_port_valid E w port then (SAI_STATUS_INVALID_OBJECT_ID, None, w)
     else if rb_getexact (stp_info_tree s) inst = None then (SAI_STATUS_INVALID_OBJECT_ID, None, w)
     else let (rc, st, w) = npu_port_state_get E inst port w in (rc, Some st, w))"

definition sai_stp_can_port_learn_mac ::
  "('w, 'z) stp_env_scheme \<Rightarrow> sai_vlan_id_t \<Rightarrow> sai_object_id_t \<Rightarrow> stp_state \<Rightarrow> 'w
     \<Rightarrow> bool \<times> stp_state \<times> 'w" where
  "sai_stp_can_port_learn_mac E vlan_id port s w =
    (let s = sai_stp_lock s;
         inst = sai_stp_get_instance_from_vlan_map s vlan_id;
         (rc, st, w) = sai_npu_stp_port_state_get E inst port s w;
         allowed = (rc = SAI_STATUS_SUCCESS \<and> st \<noteq> Some SAI_STP_PORT_STATE_BLOCKING)
     in (allowed, sai_stp_unlock s, w))"

section \<open>Initialisation\<close>

definition stp_update_cache_body ::
  "('w, 'z) stp_env_scheme \<Rightarrow> sai_object_id_t \<Rightarrow> sai_vlan_id_t \<Rightarrow> bool \<Rightarrow> stp_state \<Rightarrow> 'w
     \<Rightarrow> sai_status_t \<times> stp_state \<times> 'w" where
  "stp_update_cache_body E inst vlan_id add_vlan_to_npu s w =
    (if stp_info_tree s = None then (SAI_STATUS_FAILURE, s, w)
     else let (ok, w) = calloc_ok E w in
       if \<not> ok then (SAI_STATUS_NO_MEMORY, s, w)
     else let node = \<lparr>stp_inst_id = inst, vlan_tree = None, stp_port_tree = None, num_ports = 0\<rparr>;
              (ok, tree, w) = std_rbtree_insert E (stp_info_tree s) inst node w in
       if \<not> ok then (SAI_STATUS_FAILURE, s, w)
     else let s = s\<lparr>stp_info_tree := tree\<rparr>;
              failed = s\<lparr>stp_info_tree := rb_remove (stp_info_tree s) inst\<rparr>;
              (ok, w) = rbtree_create_ok E w in
       if \<not> ok then (SAI_STATUS_FAILURE, failed, w)
     else let (ok, w) = rbtree_create_ok E w in
       if \<not> ok then (SAI_STATUS_FAILURE, failed, w)
     else let (ok, w) = calloc_ok E w in
       if \<not> ok then (SAI_STATUS_NO_MEMORY, failed, w)
     else let (error, w) = (if add_vlan_to_npu then npu_vlan_add E inst vlan_id w
                            else (SAI_STATUS_SUCCESS, w)) in
       if error \<noteq> SAI_STATUS_SUCCESS then (error, failed, w)
     else let (ok, vtree, w) = std_rbtree_insert E (Some fmempty) vlan_id () w in
       if \<not> ok
       then let (_, w) = (if add_vlan_to_npu then npu_vlan_remove E inst vlan_id w
                          else (SAI_STATUS_SUCCESS, w))
            in (SAI_STATUS_FAILURE, failed, w)
     else let s = stp_info_write
                    (node\<lparr>vlan_tree := vtree, stp_port_tree := Some fmempty, num_ports := 0\<rparr>) s
       in (SAI_STATUS_SUCCESS, s\<lparr>g_stp_vlan_map := (g_stp_vlan_map s)(vlan_id := inst)\<rparr>, w))"

definition sai_internal_instance_update_cache ::
  "('w, 'z) stp_env_scheme \<Rightarrow> sai_object_id_t \<Rightarrow> sai_vlan_id_t \<Rightarrow> bool \<Rightarrow> stp_state \<Rightarrow> 'w
     \<Rightarrow> sai_status_t \<times> stp_state \<times> 'w" where
  "sai_internal_instance_update_cache E inst vlan_id add_vlan_to_npu s w =
    (let (error, s, w) = stp_update_cache_body E inst vlan_id add_vlan_to_npu (sai_stp_lock s) w
     in (error, sai_stp_unlock s, w))"

text \<open>On failure the trees are destroyed; the handles are not reset, so what is left of the
  globals after a failed initialisation is unusable.  The model returns \<open>None\<close> for them.\<close>

definition sai_stp_init ::
  "('w, 'z) stp_env_scheme \<Rightarrow> stp_state \<Rightarrow> 'w \<Rightarrow> sai_status_t \<times> stp_state option \<times> 'w" where
  "sai_stp_init E s w =
    (let s = s\<lparr>stp_lock_depth := 0\<rparr>;
         (ok, w) = rbtree_create_ok E w in
     if \<not> ok then (SAI_STATUS_FAILURE, None, w)
     else let s = s\<lparr>stp_info_tree := Some fmempty\<rparr>;
              (ok, w) = rbtree_create_ok E w in
       if \<not> ok then (SAI_STATUS_FAILURE, None, w)
     else let s = sai_stp_port_id_gen_init E (s\<lparr>global_stp_port_tree := Some fmempty\<rparr>);
              (ret, def_stp_id, l3_stp_id, w) = npu_stp_init E w in
       if ret \<noteq> SAI_STATUS_SUCCESS then (ret, None, w)
     else let def_inst = sai_uoid_create E SAI_OBJECT_TYPE_STP def_stp_id;
              s = s\<lparr>g_def_stp_id := def_inst\<rparr>;
              (ret, s, w) =
                sai_internal_instance_update_cache E def_inst SAI_INIT_DEFAULT_VLAN False s w in
       if ret \<noteq> SAI_STATUS_SUCCESS then (ret, None, w)
     else (case internal_vlan_id E w of
             None \<Rightarrow> (ret, Some s, w)
           | Some v \<Rightarrow>
             let (ret, s, w) = sai_internal_instance_update_cache E
                   (sai_uoid_create E SAI_OBJECT_TYPE_STP l3_stp_id) v True s w
             in (ret, if ret = SAI_STATUS_SUCCESS then Some s else None, w)))"

section \<open>Bulk calls\<close>

definition sai_stp_port_bulk_create :: sai_status_t where
  "sai_stp_port_bulk_create = SAI_STATUS_NOT_IMPLEMENTED"

definition sai_stp_port_bulk_remove :: sai_status_t where
  "sai_stp_port_bulk_remove = SAI_STATUS_NOT_IMPLEMENTED"

end
