(* ===== verification/Stp_Inv.thy ===== *)
theory Stp_Inv
  imports Stp_Ports
begin

text \<open>
  The well-formedness invariant of the spanning-tree component and the effect of each operation:
  every operation either leaves the cache alone or applies one of the elementary changes below,
  each of which keeps the invariant.
\<close>

section \<open>The invariant\<close>

text \<open>The ports that the platform ever reports as valid; a switch has fewer than \<open>2\<^sup>3\<^sup>2\<close>.\<close>

definition port_space :: "('w, 'z) platform_scheme \<Rightarrow> sai_object_id_t set" where
  "port_space P = {p. \<exists>w. sai_is_port_valid P w p}"

definition few_ports :: "('w, 'z) platform_scheme \<Rightarrow> bool" where
  "few_ports P \<longleftrightarrow> finite (port_space P) \<and> card (port_space P) < 2 ^ 32"

definition stp_laws :: "('w, 'z) stp_env_scheme \<Rightarrow> bool" where
  "stp_laws E \<longleftrightarrow> refuses_duplicates E \<and> uoid_typed E \<and> few_ports E"

definition stp_info_ok :: "('w, 'z) platform_scheme \<Rightarrow> sai_object_id_t \<Rightarrow> dn_sai_stp_info_t \<Rightarrow> bool" where
  "stp_info_ok P i n \<longleftrightarrow>
     stp_inst_id n = i \<and> i \<noteq> SAI_NULL_OBJECT_ID \<and> vlan_tree n \<noteq> None \<and> stp_port_tree n \<noteq> None
     \<and> num_ports n = of_nat (rb_size (stp_port_tree n))
     \<and> (\<forall>p. rb_getexact (stp_port_tree n) p \<noteq> None \<longrightarrow> p \<in> port_space P)"

definition stp_port_index ::
  "stp_state \<Rightarrow> sai_object_id_t \<Rightarrow> (sai_object_id_t \<Rightarrow> sai_object_id_t option) option" where
  "stp_port_index s i =
     map_option (\<lambda>n. rb_getexact (stp_port_tree n)) (rb_getexact (stp_info_tree s) i)"

definition stp_ports_agree :: "stp_state \<Rightarrow> bool" where
  "stp_ports_agree s \<longleftrightarrow>
     index_agree port_stp_inst_id port_id stp_port_id
       (stp_port_index s) (rb_getexact (global_stp_port_tree s))"

definition stp_vlans_ok :: "stp_state \<Rightarrow> bool" where
  "stp_vlans_ok s \<longleftrightarrow>
     (\<forall>i n v. rb_getexact (stp_info_tree s) i = Some n \<longrightarrow>
        rb_getexact (vlan_tree n) v \<noteq> None \<longrightarrow> g_stp_vlan_map s v = i)"

definition stp_inv :: "('w, 'z) platform_scheme \<Rightarrow> stp_state \<Rightarrow> bool" where
  "stp_inv P s \<longleftrightarrow>
     stp_info_tree s \<noteq> None \<and> global_stp_port_tree s \<noteq> None
     \<and> (\<forall>i n. rb_getexact (stp_info_tree s) i = Some n \<longrightarrow> stp_info_ok P i n)
     \<and> stp_ports_agree s \<and> stp_vlans_ok s"

lemmas stp_inv_defs = stp_inv_def stp_info_ok_def stp_ports_agree_def stp_port_index_def
  stp_vlans_ok_def

lemma stp_inv_trees:
  "stp_inv P s \<Longrightarrow> stp_info_tree s \<noteq> None" "stp_inv P s \<Longrightarrow> global_stp_port_tree s \<noteq> None"
  by (simp_all only: stp_inv_def not_False_eq_True)

lemma stp_inv_info:
  "stp_inv P s \<Longrightarrow> rb_getexact (stp_info_tree s) i = Some n \<Longrightarrow> stp_info_ok P i n"
  by (simp add: stp_inv_def)

lemma stp_inv_agree:
  "stp_inv P s \<Longrightarrow> index_agree port_stp_inst_id port_id stp_port_id
       (stp_port_index s) (rb_getexact (global_stp_port_tree s))"
  by (simp add: stp_inv_def stp_ports_agree_def)

lemma stp_invI:
  assumes "stp_info_tree s \<noteq> None" "global_stp_port_tree s \<noteq> None"
    and "\<And>i n. rb_getexact (stp_info_tree s) i = Some n \<Longrightarrow> stp_info_ok P i n"
    and "index_agree port_stp_inst_id port_id stp_port_id
           (stp_port_index s) (rb_getexact (global_stp_port_tree s))"
    and "stp_vlans_ok s"
  shows "stp_inv P s"
  using assms by (simp add: stp_inv_def stp_ports_agree_def)

text \<open>The lock and the id generator are not part of the cache.\<close>

lemma stp_port_index_frame [simp]:
  "stp_port_index (s\<lparr>global_stp_port_tree := t\<rparr>) = stp_port_index s"
  "stp_port_index (s\<lparr>g_stp_vlan_map := f\<rparr>) = stp_port_index s"
  "stp_port_index (s\<lparr>stp_lock_depth := d\<rparr>) = stp_port_index s"
  "stp_port_index (s\<lparr>sai_port_id_gen_info := g\<rparr>) = stp_port_index s"
  "stp_port_index (s\<lparr>g_def_stp_id := i\<rparr>) = stp_port_index s"
  by (simp_all add: stp_port_index_def [abs_def])

lemma stp_inv_frame [simp]:
  "stp_inv P (s\<lparr>stp_lock_depth := d\<rparr>) = stp_inv P s"
  "stp_inv P (s\<lparr>sai_port_id_gen_info := g\<rparr>) = stp_inv P s"
  "stp_inv P (s\<lparr>g_def_stp_id := i\<rparr>) = stp_inv P s"
  by (simp_all add: stp_inv_def stp_ports_agree_def stp_vlans_ok_def)

lemma stp_lock_inv [simp]:
  "stp_inv P (sai_stp_lock s) = stp_inv P s" "stp_inv P (sai_stp_unlock s) = stp_inv P s"
  by (simp_all add: sai_stp_lock_def sai_stp_unlock_def)

lemma stp_lock_sel [simp, lock_simps]:
  "stp_info_tree (sai_stp_lock s) = stp_info_tree s"
  "stp_info_tree (sai_stp_unlock s) = stp_info_tree s"
  "global_stp_port_tree (sai_stp_lock s) = global_stp_port_tree s"
  "global_stp_port_tree (sai_stp_unlock s) = global_stp_port_tree s"
  "g_stp_vlan_map (sai_stp_lock s) = g_stp_vlan_map s"
  "g_stp_vlan_map (sai_stp_unlock s) = g_stp_vlan_map s"
  "g_def_stp_id (sai_stp_lock s) = g_def_stp_id s"
  "g_def_stp_id (sai_stp_unlock s) = g_def_stp_id s"
  "sai_stp_unlock (sai_stp_lock s) = s"
  "stp_lock_depth (sai_stp_lock s) = stp_lock_depth s + 1"
  "stp_lock_depth (sai_stp_unlock s) = stp_lock_depth s - 1"
  by (simp_all add: sai_stp_lock_def sai_stp_unlock_def)

lemma stp_write_sel [simp]:
  "stp_info_tree (stp_info_write n s) = rb_put (stp_info_tree s) (stp_inst_id n) n"
  "global_stp_port_tree (stp_info_write n s) = global_stp_port_tree s"
  "g_stp_vlan_map (stp_info_write n s) = g_stp_vlan_map s"
  "g_def_stp_id (stp_info_write n s) = g_def_stp_id s"
  "stp_lock_depth (stp_info_write n s) = stp_lock_depth s"
  "sai_port_id_gen_info (stp_info_write n s) = sai_port_id_gen_info s"
  "stp_info_tree (stp_port_write m s) = stp_info_tree s"
  "global_stp_port_tree (stp_port_write m s) = rb_put (global_stp_port_tree s) (stp_port_id m) m"
  "g_stp_vlan_map (stp_port_write m s) = g_stp_vlan_map s"
  "g_def_stp_id (stp_port_write m s) = g_def_stp_id s"
  "stp_lock_depth (stp_port_write m s) = stp_lock_depth s"
  by (simp_all add: stp_info_write_def stp_port_write_def)

section \<open>Elementary changes of the cache\<close>

definition stp_add_instance :: "sai_object_id_t \<Rightarrow> stp_state \<Rightarrow> stp_state" where
  "stp_add_instance i s =
     s\<lparr>stp_info_tree := rb_put (stp_info_tree s) i
        \<lparr>stp_inst_id = i, vlan_tree = Some fmempty, stp_port_tree = Some fmempty, num_ports = 0\<rparr>\<rparr>"

definition stp_drop_instance :: "sai_object_id_t \<Rightarrow> stp_state \<Rightarrow> stp_state" where
  "stp_drop_instance i s = s\<lparr>stp_info_tree := rb_remove (stp_info_tree s) i\<rparr>"

definition stp_add_port ::
  "dn_sai_stp_info_t \<Rightarrow> dn_sai_stp_port_info_t \<Rightarrow> stp_state \<Rightarrow> stp_state" where
  "stp_add_port n m s =
     (stp_info_write (n\<lparr>stp_port_tree := rb_put (stp_port_tree n) (port_id m) (stp_port_id m),
                        num_ports := num_ports n + 1\<rparr>) s)
       \<lparr>global_stp_port_tree := rb_put (global_stp_port_tree s) (stp_port_id m) m\<rparr>"

definition stp_drop_port ::
  "dn_sai_stp_info_t \<Rightarrow> dn_sai_stp_port_info_t \<Rightarrow> stp_state \<Rightarrow> stp_state" where
  "stp_drop_port n m s =
     (stp_info_write (n\<lparr>stp_port_tree := rb_remove (stp_port_tree n) (port_id m),
                        num_ports := num_ports n - 1\<rparr>) s)
       \<lparr>global_stp_port_tree := rb_remove (global_stp_port_tree s) (stp_port_id m)\<rparr>"

definition stp_set_vlans ::
  "dn_sai_stp_info_t \<Rightarrow> (sai_vlan_id_t, unit) rbtree_handle \<Rightarrow> stp_state \<Rightarrow> stp_state" where
  "stp_set_vlans n t s = stp_info_write (n\<lparr>vlan_tree := t\<rparr>) s"

lemmas stp_change_defs = stp_add_instance_def stp_drop_instance_def stp_add_port_def
  stp_drop_port_def stp_set_vlans_def

lemma stp_port_index_write:
  "stp_info_tree s \<noteq> None \<Longrightarrow> stp_port_index (stp_info_write n s)
     = (stp_port_index s)(stp_inst_id n \<mapsto> rb_getexact (stp_port_tree n))"
  by (rule ext) (simp add: stp_port_index_def)

lemma stp_add_instance_inv:
  assumes inv: "stp_inv P s" and new: "rb_getexact (stp_info_tree s) i = None" "i \<noteq> 0"
  shows "stp_inv P (stp_add_instance i s)"
proof (rule stp_invI)
  have t: "stp_info_tree s \<noteq> None" using inv by (rule stp_inv_trees)
  then have "stp_port_index (stp_add_instance i s) = (stp_port_index s)(i \<mapsto> Map.empty)"
    by (intro ext) (simp add: stp_port_index_def stp_add_instance_def fun_eq_iff)
  moreover have "stp_port_index s i = None" using new by (simp add: stp_port_index_def)
  ultimately show "index_agree port_stp_inst_id port_id stp_port_id
      (stp_port_index (stp_add_instance i s)) (rb_getexact (global_stp_port_tree (stp_add_instance i s)))"
    using index_agree_new_owner [OF stp_inv_agree [OF inv]] by (simp add: stp_add_instance_def)
  show "stp_info_ok P j n" if "rb_getexact (stp_info_tree (stp_add_instance i s)) j = Some n" for j n
    using inv that new t by (auto simp: stp_add_instance_def stp_info_ok_def
        dest: stp_inv_info split: if_splits)
  show "stp_vlans_ok (stp_add_instance i s)"
    using inv t by (simp add: stp_add_instance_def stp_inv_def stp_vlans_ok_def)
qed (use stp_inv_trees [OF inv] in \<open>simp_all add: stp_add_instance_def\<close>)

text \<open>An instance with no port in its counter has no port in its tree: the counter
  cannot have wrapped, since the ports of an instance are valid ports.\<close>

lemma stp_few_ports:
  assumes ok: "stp_info_ok P i n" and few: "few_ports P"
  shows "rb_size (stp_port_tree n) < 2 ^ 32"
proof -
  have "card {p. rb_getexact (stp_port_tree n) p \<noteq> None} \<le> card (port_space P)"
    using ok few by (intro card_mono) (auto simp: stp_info_ok_def few_ports_def)
  then show ?thesis
    using few by (simp add: few_ports_def rb_size_card)
qed

lemma stp_num_ports_unat:
  assumes "stp_info_ok P i n" and "few_ports P"
  shows "unat (num_ports n) = rb_size (stp_port_tree n)"
  using assms stp_few_ports [OF assms] by (simp add: stp_info_ok_def unat_of_nat take_bit_nat_eq_self)

lemma stp_no_ports:
  assumes ok: "stp_info_ok P i n" and few: "few_ports P" and z: "num_ports n = 0"
  shows "rb_getexact (stp_port_tree n) p = None"
proof -
  have "rb_size (stp_port_tree n) = 0"
    using stp_num_ports_unat [OF ok few] z by simp
  then show ?thesis
    using finite_rb_keys [of "stp_port_tree n"] by (auto simp: rb_size_card)
qed

lemma stp_drop_instance_inv:
  assumes inv: "stp_inv P s" and few: "few_ports P"
    and n: "rb_getexact (stp_info_tree s) i = Some n" and z: "num_ports n = 0"
  shows "stp_inv P (stp_drop_instance i s)"
proof (rule stp_invI)
  have "stp_port_index (stp_drop_instance i s) = (stp_port_index s)(i := None)"
    by (rule ext) (simp add: stp_port_index_def stp_drop_instance_def)
  moreover have "stp_port_index s i = Some (rb_getexact (stp_port_tree n))"
    using n by (simp add: stp_port_index_def)
  ultimately show "index_agree port_stp_inst_id port_id stp_port_id
      (stp_port_index (stp_drop_instance i s))
      (rb_getexact (global_stp_port_tree (stp_drop_instance i s)))"
    using index_agree_drop_owner [OF stp_inv_agree [OF inv]]
      stp_no_ports [OF stp_inv_info [OF inv n] few z] by (simp add: stp_drop_instance_def)
  show "stp_info_ok P j k" if "rb_getexact (stp_info_tree (stp_drop_instance i s)) j = Some k" for j k
    using inv that by (auto simp: stp_drop_instance_def dest: stp_inv_info split: if_splits)
  show "stp_vlans_ok (stp_drop_instance i s)"
    using inv by (simp add: stp_drop_instance_def stp_inv_def stp_vlans_ok_def)
qed (use stp_inv_trees [OF inv] in \<open>simp_all add: stp_drop_instance_def\<close>)

lemma stp_add_port_inv:
  assumes inv: "stp_inv P s" and n: "rb_getexact (stp_info_tree s) i = Some n"
    and m: "port_stp_inst_id m = i" "port_id m \<in> port_space P"
    and new: "rb_getexact (stp_port_tree n) (port_id m) = None"
      "rb_getexact (global_stp_port_tree s) (stp_port_id m) = None"
  shows "stp_inv P (stp_add_port n m s)"
proof (rule stp_invI)
  note t = stp_inv_trees [OF inv] and ok = stp_inv_info [OF inv n]
  have id: "stp_inst_id n = i" and pt: "stp_port_tree n \<noteq> None"
    using ok by (simp_all add: stp_info_ok_def)
  have idx: "stp_port_index s i = Some (rb_getexact (stp_port_tree n))"
    using n by (simp add: stp_port_index_def)
  show "index_agree port_stp_inst_id port_id stp_port_id
      (stp_port_index (stp_add_port n m s)) (rb_getexact (global_stp_port_tree (stp_add_port n m s)))"
    using index_agree_insert [OF stp_inv_agree [OF inv], of m] idx m new t id pt
    by (simp add: stp_add_port_def stp_port_index_write rb_getexact_put_fun)
  show "stp_info_ok P j k" if "rb_getexact (stp_info_tree (stp_add_port n m s)) j = Some k" for j k
  proof (cases "j = i")
    case True
    then have k: "k = n\<lparr>stp_port_tree := rb_put (stp_port_tree n) (port_id m) (stp_port_id m),
        num_ports := num_ports n + 1\<rparr>"
      using that t id by (simp add: stp_add_port_def del: not_None_eq)
    show ?thesis
      using ok m new pt True unfolding k
      by (simp add: stp_info_ok_def rb_size_put del: not_None_eq)
  next
    case False
    with that t id show ?thesis using inv by (auto simp: stp_add_port_def dest: stp_inv_info)
  qed
  show "stp_vlans_ok (stp_add_port n m s)"
    using inv n t id by (simp add: stp_add_port_def stp_inv_def stp_vlans_ok_def)
qed (use stp_inv_trees [OF inv] in \<open>simp_all add: stp_add_port_def\<close>)

lemma stp_drop_port_inv:
  assumes inv: "stp_inv P s" and n: "rb_getexact (stp_info_tree s) (port_stp_inst_id m) = Some n"
    and m: "rb_getexact (global_stp_port_tree s) q = Some m"
  shows "stp_inv P (stp_drop_port n m s)"
proof (rule stp_invI)
  note t = stp_inv_trees [OF inv] and ok = stp_inv_info [OF inv n]
  have id: "stp_inst_id n = port_stp_inst_id m" and pt: "stp_port_tree n \<noteq> None"
    using ok by (simp_all add: stp_info_ok_def)
  have idx: "stp_port_index s (port_stp_inst_id m) = Some (rb_getexact (stp_port_tree n))"
    using n by (simp add: stp_port_index_def)
  have q: "stp_port_id m = q" "rb_getexact (stp_port_tree n) (port_id m) = Some q"
    using index_agree_node [OF stp_inv_agree [OF inv] m] idx by simp_all
  show "index_agree port_stp_inst_id port_id stp_port_id
      (stp_port_index (stp_drop_port n m s)) (rb_getexact (global_stp_port_tree (stp_drop_port n m s)))"
    using index_agree_delete [OF stp_inv_agree [OF inv] idx m] t id q
    by (simp add: stp_drop_port_def stp_port_index_write rb_getexact_remove_fun)
  have "of_nat (rb_size (stp_port_tree n)) - 1
          = (of_nat (rb_size (rb_remove (stp_port_tree n) (port_id m))) :: 32 word)"
    using rb_size_remove [of "stp_port_tree n" "port_id m"] q
    by (metis add_diff_cancel_left' of_nat_Suc option.distinct(1))
  then have ok': "stp_info_ok P (port_stp_inst_id m)
      (n\<lparr>stp_port_tree := rb_remove (stp_port_tree n) (port_id m), num_ports := num_ports n - 1\<rparr>)"
    using ok by (simp add: stp_info_ok_def del: not_None_eq)
  show "stp_info_ok P j k"
    if "rb_getexact (stp_info_tree (stp_drop_port n m s)) j = Some k" for j k
  proof (cases "j = port_stp_inst_id m")
    case True
    with that ok' t id show ?thesis by (simp add: stp_drop_port_def del: not_None_eq)
  next
    case False
    with that t id show ?thesis using inv by (auto simp: stp_drop_port_def dest: stp_inv_info)
  qed
  show "stp_vlans_ok (stp_drop_port n m s)"
    using inv n t id by (simp add: stp_drop_port_def stp_inv_def stp_vlans_ok_def)
qed (use stp_inv_trees [OF inv] in \<open>simp_all add: stp_drop_port_def\<close>)

lemma stp_port_write_inv:
  assumes inv: "stp_inv P s" and m: "rb_getexact (global_stp_port_tree s) q = Some m"
  shows "stp_inv P (stp_port_write (m\<lparr>port_state := v\<rparr>) s)"
proof (rule stp_invI)
  note t = stp_inv_trees [OF inv]
  have q: "stp_port_id m = q"
    using index_agree_node [OF stp_inv_agree [OF inv] m] by simp
  have "stp_port_index (stp_port_write (m\<lparr>port_state := v\<rparr>) s) = stp_port_index s"
    by (rule ext) (simp add: stp_port_index_def)
  then show "index_agree port_stp_inst_id port_id stp_port_id
      (stp_port_index (stp_port_write (m\<lparr>port_state := v\<rparr>) s))
      (rb_getexact (global_stp_port_tree (stp_port_write (m\<lparr>port_state := v\<rparr>) s)))"
    using index_agree_replace [OF stp_inv_agree [OF inv] m, of "m\<lparr>port_state := v\<rparr>"] q t
    by (simp add: rb_getexact_put_fun)
qed (use inv stp_inv_trees [OF inv] stp_inv_info [OF inv] in
      \<open>simp_all add: stp_inv_def stp_vlans_ok_def\<close>)

text \<open>Changing the VLANs of one instance, together with the map.\<close>

lemma stp_set_vlans_inv:
  assumes inv: "stp_inv P s" and n: "rb_getexact (stp_info_tree s) i = Some n"
    and vs: "\<And>v. rb_getexact vt v \<noteq> None \<Longrightarrow> f v = i" and vt: "vt \<noteq> None"
    and others: "\<And>j k v. rb_getexact (stp_info_tree s) j = Some k \<Longrightarrow> j \<noteq> i
                  \<Longrightarrow> rb_getexact (vlan_tree k) v \<noteq> None \<Longrightarrow> f v = j"
  shows "stp_inv P ((stp_set_vlans n vt s)\<lparr>g_stp_vlan_map := f\<rparr>)"
proof (rule stp_invI)
  note t = stp_inv_trees [OF inv] and ok = stp_inv_info [OF inv n]
  have id: "stp_inst_id n = i" using ok by (simp add: stp_info_ok_def)
  let ?s = "(stp_set_vlans n vt s)\<lparr>g_stp_vlan_map := f\<rparr>"
  have "stp_port_index ?s = stp_port_index s"
    using t id n by (intro ext) (auto simp: stp_set_vlans_def stp_port_index_def)
  then show "index_agree port_stp_inst_id port_id stp_port_id
      (stp_port_index ?s) (rb_getexact (global_stp_port_tree ?s))"
    using stp_inv_agree [OF inv] by (simp add: stp_set_vlans_def)
  show "stp_info_ok P j k" if "rb_getexact (stp_info_tree ?s) j = Some k" for j k
    using that t id ok vt stp_inv_info [OF inv, of j k]
    by (auto simp: stp_set_vlans_def stp_info_ok_def split: if_splits)
  show "stp_vlans_ok ?s"
    unfolding stp_vlans_ok_def
  proof (intro allI impI)
    fix j k v
    assume "rb_getexact (stp_info_tree ?s) j = Some k" and "rb_getexact (vlan_tree k) v \<noteq> None"
    then show "g_stp_vlan_map ?s v = j"
      using t id vs [of v] others [of j k v] by (cases "j = i") (auto simp: stp_set_vlans_def)
  qed
qed (use stp_inv_trees [OF inv] in \<open>simp_all add: stp_set_vlans_def\<close>)

end
