(* ===== verification/Stp_Props.thy ===== *)
theory Stp_Props
  imports Stp_Inv
begin

text \<open>What each operation of the spanning-tree component does, on every branch.\<close>

section \<open>Effects\<close>

lemma stp_inst_write_same:
  "rb_getexact (stp_info_tree s) (stp_inst_id n) = Some n \<Longrightarrow> stp_info_write n s = s"
  by (simp add: stp_info_write_def rb_put_same)

lemma stp_write_write [simp]:
  "stp_inst_id n = stp_inst_id n' \<Longrightarrow> stp_info_write n (stp_info_write n' s) = stp_info_write n s"
  by (simp add: stp_info_write_def)

lemma stp_write_commute [simp]:
  "stp_info_write n (s\<lparr>global_stp_port_tree := t\<rparr>) = (stp_info_write n s)\<lparr>global_stp_port_tree := t\<rparr>"
  "stp_info_write n (s\<lparr>sai_port_id_gen_info := g\<rparr>) = (stp_info_write n s)\<lparr>sai_port_id_gen_info := g\<rparr>"
  by (simp_all add: stp_info_write_def)

lemma stp_gen_refl [simp]: "\<exists>g. s = s\<lparr>sai_port_id_gen_info := g\<rparr>"
  by (rule exI [of _ "sai_port_id_gen_info s"]) simp

lemma stp_instance_create_effect:
  assumes "stp_instance_create_body E s w = (rc, out, s', w')"
    and laws: "refuses_duplicates E" "uoid_typed E"
  shows "(rc \<noteq> SAI_STATUS_SUCCESS \<and> out = None \<and> s' = s) \<or>
         (rc = SAI_STATUS_SUCCESS \<and> (\<exists>i. out = Some i \<and> i \<noteq> 0 \<and> sai_is_obj_id E SAI_OBJECT_TYPE_STP i
            \<and> stp_info_tree s \<noteq> None
            \<and> rb_getexact (stp_info_tree s) i = None \<and> s' = stp_add_instance i s))"
  using assms
  by (auto simp: stp_instance_create_body_def Let_def uoid_typed_def stp_info_write_def
        stp_add_instance_def rb_remove_absent simp del: not_None_eq
      split: prod.splits if_splits elim!: insertE)

lemma stp_instance_remove_effect:
  assumes "stp_instance_remove_body E i s w = (rc, s', w')" and inv: "stp_inv P s"
  shows "(rc \<noteq> SAI_STATUS_SUCCESS \<and> s' = s) \<or>
         (rc = SAI_STATUS_SUCCESS \<and> (\<exists>n. rb_getexact (stp_info_tree s) i = Some n
            \<and> num_ports n = 0 \<and> rb_is_empty (vlan_tree n) \<and> s' = stp_drop_instance i s))"
  using assms
  by (auto simp: stp_instance_remove_body_def Let_def stp_drop_instance_def stp_inv_def stp_info_ok_def
      split: prod.splits if_splits option.splits)

lemma stp_vlan_add_effect:
  assumes "stp_vlan_add_body E i v s w = (rc, s', w')" and "refuses_duplicates E"
  shows "(rc \<noteq> SAI_STATUS_SUCCESS \<and> s' = s) \<or>
         (rc = SAI_STATUS_SUCCESS \<and> (\<exists>n. rb_getexact (stp_info_tree s) i = Some n
            \<and> vlan_tree n \<noteq> None \<and> rb_getexact (vlan_tree n) v = None
            \<and> s' = stp_set_vlans n (rb_put (vlan_tree n) v ()) s))"
  using assms
  by (auto simp: stp_vlan_add_body_def Let_def stp_set_vlans_def
      split: prod.splits if_splits option.splits elim!: insertE)

lemma stp_vlan_remove_effect:
  assumes "stp_vlan_remove_body E i v s w = (rc, s', w')"
  shows "(rc \<noteq> SAI_STATUS_SUCCESS \<and> s' = s) \<or>
         (rc = SAI_STATUS_SUCCESS \<and> (\<exists>n. rb_getexact (stp_info_tree s) i = Some n
            \<and> rb_getexact (vlan_tree n) v \<noteq> None
            \<and> s' = stp_set_vlans n (rb_remove (vlan_tree n) v) s))"
  using assms
  by (auto simp: stp_vlan_remove_body_def Let_def stp_set_vlans_def
      split: prod.splits if_splits option.splits)

lemma stp_port_id_create_effect:
  assumes "sai_stp_port_id_create E s = (q, s')"
  shows "\<exists>g. s' = s\<lparr>sai_port_id_gen_info := g\<rparr>"
  using assms by (auto simp: sai_stp_port_id_create_def Let_def split: prod.splits)

lemma stp_port_create_effect:
  assumes eq: "stp_port_create_body E n i p st s w = (rc, out, s', w')"
    and laws: "refuses_duplicates E"
    and n: "rb_getexact (stp_info_tree s) i = Some n" "stp_inst_id n = i"
  shows "(\<exists>g. rc \<noteq> SAI_STATUS_SUCCESS \<and> out = None \<and> s' = s\<lparr>sai_port_id_gen_info := g\<rparr>) \<or>
         (\<exists>g q m. rc = SAI_STATUS_SUCCESS \<and> out = Some q \<and> q \<noteq> 0
            \<and> fst (sai_stp_port_id_create E s) = q \<and> m = \<lparr>stp_port_id = q, port_id = p, port_stp_inst_id = i, port_state = st\<rparr>
            \<and> rb_getexact (stp_port_tree n) p = None
            \<and> rb_getexact (global_stp_port_tree s) q = None
            \<and> s' = stp_add_port n m (s\<lparr>sai_port_id_gen_info := g\<rparr>))"
proof -
  obtain q s1 where c: "sai_stp_port_id_create E s = (q, s1)" by (cases "sai_stp_port_id_create E s")
  from stp_port_id_create_effect [OF c] obtain g where s1: "s1 = s\<lparr>sai_port_id_gen_info := g\<rparr>" by auto
  show ?thesis
    using eq laws n s1
    by (auto simp: stp_port_create_body_def Let_def c stp_add_port_def rb_remove_absent
          stp_inst_write_same rb_put_same simp del: not_None_eq
        split: prod.splits if_splits elim!: insertE)
qed

lemma stp_port_remove_effect:
  assumes "stp_port_remove_body E q s w = (rc, s', w')" and inv: "stp_inv P s"
  shows "(rc \<noteq> SAI_STATUS_SUCCESS \<and> s' = s) \<or>
         (rc = SAI_STATUS_SUCCESS \<and> (\<exists>m n. rb_getexact (global_stp_port_tree s) q = Some m
            \<and> rb_getexact (stp_info_tree s) (port_stp_inst_id m) = Some n
            \<and> s' = stp_drop_port n m s))"
proof (cases "rb_getexact (global_stp_port_tree s) q")
  case None
  with assms(1) show ?thesis by (simp add: stp_port_remove_body_def)
next
  case (Some m)
  from index_agree_node [OF stp_inv_agree [OF inv] Some] obtain n
    where n: "rb_getexact (stp_info_tree s) (port_stp_inst_id m) = Some n" and q: "stp_port_id m = q"
    by (auto simp: stp_port_index_def)
  with assms(1) Some show ?thesis
    by (auto simp: stp_port_remove_body_def Let_def stp_drop_port_def split: prod.splits if_splits)
qed

lemma stp_port_attribute_set_effect:
  assumes "stp_port_attribute_set_body E q a s w = (rc, s', w')"
  shows "(rc \<noteq> SAI_STATUS_SUCCESS \<and> s' = s) \<or>
         (rc = SAI_STATUS_SUCCESS \<and> (\<exists>m v. rb_getexact (global_stp_port_tree s) q = Some m
            \<and> a = SAI_STP_PORT_ATTR_STATE v \<and> sai_stp_port_state_valid v
            \<and> s' = stp_port_write (m\<lparr>port_state := v\<rparr>) s))"
  using assms
  by (auto simp: stp_port_attribute_set_body_def Let_def
      split: prod.splits if_splits option.splits sai_stp_port_attr_t.splits)

lemma stp_port_parse_Inr:
  assumes "stp_port_create_parse E s w k as inst port st = Inr (Some (i, n), Some p, Some v)"
    and "\<And>j m. inst = Some (j, m) \<Longrightarrow> rb_getexact (stp_info_tree s) j = Some m"
    and "\<And>q. port = Some q \<Longrightarrow> sai_is_port_valid E w q"
    and "\<And>q. st = Some q \<Longrightarrow> sai_stp_port_state_valid q"
  shows "rb_getexact (stp_info_tree s) i = Some n \<and> sai_is_port_valid E w p
    \<and> sai_stp_port_state_valid v"
  using assms
  by (induction E s w k as inst port st rule: stp_port_create_parse.induct)
    (auto split: sai_stp_port_attr_t.splits if_splits option.splits)

section \<open>The operations under their lock\<close>

lemma stp_lock_commute [simp, lock_simps]:
  "stp_info_write n (sai_stp_lock s) = sai_stp_lock (stp_info_write n s)"
  "stp_port_write m (sai_stp_lock s) = sai_stp_lock (stp_port_write m s)"
  "stp_add_instance i (sai_stp_lock s) = sai_stp_lock (stp_add_instance i s)"
  "stp_drop_instance i (sai_stp_lock s) = sai_stp_lock (stp_drop_instance i s)"
  "stp_add_port n m (sai_stp_lock s) = sai_stp_lock (stp_add_port n m s)"
  "stp_drop_port n m (sai_stp_lock s) = sai_stp_lock (stp_drop_port n m s)"
  "stp_set_vlans n t (sai_stp_lock s) = sai_stp_lock (stp_set_vlans n t s)"
  "(sai_stp_lock s)\<lparr>sai_port_id_gen_info := g\<rparr> = sai_stp_lock (s\<lparr>sai_port_id_gen_info := g\<rparr>)"
  by (simp_all add: sai_stp_lock_def stp_change_defs stp_info_write_def stp_port_write_def)

lemma sai_stp_instance_create_effect:
  assumes "sai_stp_instance_create E k s w = (rc, out, s', w')"
    and laws: "refuses_duplicates E" "uoid_typed E"
  shows "(rc \<noteq> SAI_STATUS_SUCCESS \<and> out = None \<and> s' = s) \<or>
         (rc = SAI_STATUS_SUCCESS \<and> (\<exists>i. out = Some i \<and> i \<noteq> 0 \<and> sai_is_obj_id E SAI_OBJECT_TYPE_STP i
            \<and> stp_info_tree s \<noteq> None
            \<and> rb_getexact (stp_info_tree s) i = None \<and> s' = stp_add_instance i s))"
  using assms stp_instance_create_effect [of E "sai_stp_lock s" w]
  by (auto simp: sai_stp_instance_create_def Let_def simp del: not_None_eq
      split: prod.splits if_splits)

lemma sai_stp_instance_remove_effect:
  assumes "sai_stp_instance_remove E i s w = (rc, s', w')" and "stp_inv P s"
  shows "(rc \<noteq> SAI_STATUS_SUCCESS \<and> s' = s) \<or>
         (rc = SAI_STATUS_SUCCESS \<and> (\<exists>n. rb_getexact (stp_info_tree s) i = Some n
            \<and> num_ports n = 0 \<and> rb_is_empty (vlan_tree n) \<and> s' = stp_drop_instance i s))"
  using assms stp_instance_remove_effect [of E i "sai_stp_lock s" w _ _ _ P]
  by (auto simp: sai_stp_instance_remove_def Let_def split: prod.splits if_splits)

lemma sai_stp_vlan_add_effect:
  assumes "sai_stp_vlan_add E i v s w = (rc, s', w')" and "refuses_duplicates E"
  shows "(rc \<noteq> SAI_STATUS_SUCCESS \<and> s' = s) \<or>
         (rc = SAI_STATUS_SUCCESS \<and> (\<exists>n. rb_getexact (stp_info_tree s) i = Some n
            \<and> vlan_tree n \<noteq> None \<and> rb_getexact (vlan_tree n) v = None
            \<and> s' = stp_set_vlans n (rb_put (vlan_tree n) v ()) s))"
  using assms stp_vlan_add_effect [of E i v "sai_stp_lock s" w]
  by (auto simp: sai_stp_vlan_add_def Let_def simp del: not_None_eq split: prod.splits if_splits)

lemma sai_stp_vlan_remove_effect:
  assumes "sai_stp_vlan_remove E i v s w = (rc, s', w')"
  shows "(rc \<noteq> SAI_STATUS_SUCCESS \<and> s' = s) \<or>
         (rc = SAI_STATUS_SUCCESS \<and> (\<exists>n. rb_getexact (stp_info_tree s) i = Some n
            \<and> rb_getexact (vlan_tree n) v \<noteq> None
            \<and> s' = stp_set_vlans n (rb_remove (vlan_tree n) v) s))"
  using assms stp_vlan_remove_effect [of E i v "sai_stp_lock s" w]
  by (auto simp: sai_stp_vlan_remove_def Let_def simp del: not_None_eq split: prod.splits if_splits)

lemma stp_port_id_create_lock [simp]:
  "sai_stp_port_id_in_use E (sai_stp_lock s) = sai_stp_port_id_in_use E s"
  "fst (sai_stp_port_id_create E (sai_stp_lock s)) = fst (sai_stp_port_id_create E s)"
proof -
  show use: "sai_stp_port_id_in_use E (sai_stp_lock s) = sai_stp_port_id_in_use E s"
    by (rule ext) (simp add: sai_stp_port_id_in_use_def)
  have gen: "sai_port_id_gen_info (sai_stp_lock s) = sai_port_id_gen_info s"
    by (simp add: sai_stp_lock_def)
  show "fst (sai_stp_port_id_create E (sai_stp_lock s)) = fst (sai_stp_port_id_create E s)"
    by (simp add: sai_stp_port_id_create_def use gen Let_def split_beta)
qed

lemma sai_stp_port_create_effect:
  assumes eq: "sai_stp_port_create E as s w = (rc, out, s', w')"
    and laws: "refuses_duplicates E" and inv: "stp_inv P s"
  shows "(\<exists>g. rc \<noteq> SAI_STATUS_SUCCESS \<and> out = None \<and> s' = s\<lparr>sai_port_id_gen_info := g\<rparr>) \<or>
         (\<exists>g n i p v q m. rc = SAI_STATUS_SUCCESS \<and> out = Some q \<and> q \<noteq> 0
            \<and> fst (sai_stp_port_id_create E s) = q
            \<and> stp_port_create_parse E s w 0 as None None None = Inr (Some (i, n), Some p, Some v)
            \<and> m = \<lparr>stp_port_id = q, port_id = p, port_stp_inst_id = i, port_state = v\<rparr>
            \<and> rb_getexact (stp_info_tree s) i = Some n \<and> sai_is_port_valid E w p
            \<and> sai_stp_port_state_valid v
            \<and> rb_getexact (stp_port_tree n) p = None
            \<and> rb_getexact (global_stp_port_tree s) q = None
            \<and> s' = stp_add_port n m (s\<lparr>sai_port_id_gen_info := g\<rparr>))"
proof (cases "stp_port_create_parse E s w 0 as None None None")
  case (Inl e)
  have "e \<noteq> SAI_STATUS_SUCCESS" if "stp_port_create_parse E s w k as i p v = Inl e" for k i p v
    using that by (induction E s w k as i p v rule: stp_port_create_parse.induct)
      (auto split: sai_stp_port_attr_t.splits if_splits option.splits)
  with eq Inl show ?thesis by (auto simp: sai_stp_port_create_def split: if_splits)
next
  case (Inr r)
  obtain x y z where r: "r = (x, y, z)" by (cases r)
  show ?thesis
  proof (cases "\<exists>i n p v. x = Some (i, n) \<and> y = Some p \<and> z = Some v")
    case True
    then obtain i n p v where xyz: "x = Some (i, n)" "y = Some p" "z = Some v" by auto
    have f: "rb_getexact (stp_info_tree s) i = Some n \<and> sai_is_port_valid E w p
        \<and> sai_stp_port_state_valid v"
      by (rule stp_port_parse_Inr [of E s w 0 as None None None]) (simp_all add: Inr r xyz)
    then have id: "stp_inst_id n = i" using stp_inv_info [OF inv] by (auto simp: stp_info_ok_def)
    show ?thesis
      using eq Inr r xyz f id laws
        stp_port_create_effect [of E n i p v "sai_stp_lock s" w]
      by (fastforce simp: sai_stp_port_create_def Let_def split: prod.splits if_splits)
  next
    case False
    with eq Inr r have "rc \<noteq> SAI_STATUS_SUCCESS \<and> out = None \<and> s' = s"
      by (auto simp: sai_stp_port_create_def split: if_splits option.splits)
    then show ?thesis by (intro disjI1) simp
  qed
qed

lemma sai_stp_port_remove_effect:
  assumes "sai_stp_port_remove E q s w = (rc, s', w')" and inv: "stp_inv P s"
  shows "(rc \<noteq> SAI_STATUS_SUCCESS \<and> s' = s) \<or>
         (rc = SAI_STATUS_SUCCESS \<and> (\<exists>m n. rb_getexact (global_stp_port_tree s) q = Some m
            \<and> rb_getexact (stp_info_tree s) (port_stp_inst_id m) = Some n
            \<and> s' = stp_drop_port n m s))"
  using assms stp_port_remove_effect [of E q "sai_stp_lock s" w _ _ _ P]
  by (auto simp: sai_stp_port_remove_def Let_def split: prod.splits if_splits)

lemma sai_stp_port_attribute_set_effect:
  assumes "sai_stp_port_attribute_set E q a s w = (rc, s', w')"
  shows "(rc \<noteq> SAI_STATUS_SUCCESS \<and> s' = s) \<or>
         (rc = SAI_STATUS_SUCCESS \<and> (\<exists>m v. rb_getexact (global_stp_port_tree s) q = Some m
            \<and> a = SAI_STP_PORT_ATTR_STATE v \<and> sai_stp_port_state_valid v
            \<and> s' = stp_port_write (m\<lparr>port_state := v\<rparr>) s))"
  using assms stp_port_attribute_set_effect [of E q a "sai_stp_lock s" w]
  by (auto simp: sai_stp_port_attribute_set_def Let_def split: prod.splits if_splits)

section \<open>Which instance has a VLAN\<close>

definition stp_vlan_member :: "stp_state \<Rightarrow> sai_object_id_t \<Rightarrow> sai_vlan_id_t \<Rightarrow> bool" where
  "stp_vlan_member s i v \<longleftrightarrow>
     (case rb_getexact (stp_info_tree s) i of None \<Rightarrow> False
      | Some n \<Rightarrow> rb_getexact (vlan_tree n) v \<noteq> None)"

lemma stp_vlan_member_map: "stp_inv P s \<Longrightarrow> stp_vlan_member s i v \<Longrightarrow> g_stp_vlan_map s v = i"
  by (auto simp: stp_vlan_member_def stp_inv_def stp_vlans_ok_def split: option.splits)

lemma stp_vlan_member_frame [simp]:
  "stp_vlan_member (s\<lparr>g_stp_vlan_map := f\<rparr>) = stp_vlan_member s"
  "stp_vlan_member (sai_stp_lock s) = stp_vlan_member s"
  "stp_vlan_member (sai_stp_unlock s) = stp_vlan_member s"
  by (simp_all add: stp_vlan_member_def [abs_def])

text \<open>Under the invariant the two VLAN operations are described by membership alone.\<close>

lemma stp_vlan_remove_member:
  assumes "sai_stp_vlan_remove E i v s w = (SAI_STATUS_SUCCESS, s', w')" and inv: "stp_inv P s"
  shows "stp_vlan_member s i v" "stp_vlan_member s' j u \<longleftrightarrow> stp_vlan_member s j u \<and> u \<noteq> v"
    "g_stp_vlan_map s' = g_stp_vlan_map s" "g_def_stp_id s' = g_def_stp_id s" "stp_inv P s'"
proof -
  from sai_stp_vlan_remove_effect [OF assms(1)] obtain n
    where n: "rb_getexact (stp_info_tree s) i = Some n" "rb_getexact (vlan_tree n) v \<noteq> None"
      and s': "s' = stp_set_vlans n (rb_remove (vlan_tree n) v) s" by auto
  from inv n have ok: "stp_inst_id n = i" "vlan_tree n \<noteq> None" and t: "stp_info_tree s \<noteq> None"
    by (auto dest: stp_inv_info stp_inv_trees simp: stp_info_ok_def)
  show m: "stp_vlan_member s i v" using n by (simp add: stp_vlan_member_def)
  have "j = i" if "stp_vlan_member s j v"
    using stp_vlan_member_map [OF inv that] stp_vlan_member_map [OF inv m] by simp
  then show "stp_vlan_member s' j u \<longleftrightarrow> stp_vlan_member s j u \<and> u \<noteq> v"
    using n ok t by (auto simp: s' stp_set_vlans_def stp_vlan_member_def split: option.splits)
  show "g_stp_vlan_map s' = g_stp_vlan_map s" "g_def_stp_id s' = g_def_stp_id s"
    by (simp_all add: s' stp_set_vlans_def)
  have "stp_inv P ((stp_set_vlans n (rb_remove (vlan_tree n) v) s)\<lparr>g_stp_vlan_map := g_stp_vlan_map s\<rparr>)"
    using inv n ok by (intro stp_set_vlans_inv) (auto simp: stp_inv_def stp_vlans_ok_def split: if_splits)
  then show "stp_inv P s'" by (simp add: s' stp_set_vlans_def stp_info_write_def)
qed

text \<open>Adding a VLAN that no instance has keeps the invariant once the map is written.\<close>

lemma stp_vlan_add_member:
  assumes "sai_stp_vlan_add E i v s w = (SAI_STATUS_SUCCESS, s', w')" and inv: "stp_inv P s"
    and dup: "refuses_duplicates E"
  shows "stp_vlan_member s' j u \<longleftrightarrow> stp_vlan_member s j u \<or> j = i \<and> u = v"
    "g_stp_vlan_map s' = g_stp_vlan_map s" "g_def_stp_id s' = g_def_stp_id s"
    "(\<And>j. \<not> stp_vlan_member s j v) \<Longrightarrow>
       stp_inv P (s'\<lparr>g_stp_vlan_map := (g_stp_vlan_map s)(v := i)\<rparr>)"
proof -
  from sai_stp_vlan_add_effect [OF assms(1) dup] obtain n
    where n: "rb_getexact (stp_info_tree s) i = Some n" "vlan_tree n \<noteq> None"
      and s': "s' = stp_set_vlans n (rb_put (vlan_tree n) v ()) s" by auto
  from inv n have ok: "stp_inst_id n = i" and t: "stp_info_tree s \<noteq> None"
    by (auto dest: stp_inv_info stp_inv_trees simp: stp_info_ok_def)
  show "stp_vlan_member s' j u \<longleftrightarrow> stp_vlan_member s j u \<or> j = i \<and> u = v"
    using n ok t by (auto simp: s' stp_set_vlans_def stp_vlan_member_def simp del: not_None_eq
        split: option.splits)
  show "g_stp_vlan_map s' = g_stp_vlan_map s" "g_def_stp_id s' = g_def_stp_id s"
    by (simp_all add: s' stp_set_vlans_def)
  assume free: "\<And>j. \<not> stp_vlan_member s j v"
  show "stp_inv P (s'\<lparr>g_stp_vlan_map := (g_stp_vlan_map s)(v := i)\<rparr>)"
    unfolding s'
  proof (rule stp_set_vlans_inv [OF inv n(1)])
    show "((g_stp_vlan_map s)(v := i)) u = i" if "rb_getexact (rb_put (vlan_tree n) v ()) u \<noteq> None" for u
      using that inv n by (auto simp: stp_inv_def stp_vlans_ok_def split: if_splits)
    show "((g_stp_vlan_map s)(v := i)) u = j"
      if "rb_getexact (stp_info_tree s) j = Some k" "rb_getexact (vlan_tree k) u \<noteq> None" for j k u
    proof -
      from that have "stp_vlan_member s j u" by (simp add: stp_vlan_member_def)
      with free inv show ?thesis by (auto dest: stp_vlan_member_map)
    qed
  qed (use n in simp)
qed

end
