(* ===== verification/Stp_Theorems.thy ===== *)
theory Stp_Theorems
  imports Stp_Props
begin

text \<open>
  The properties of the spanning-tree component: the invariant in every reachable state, the
  movement of VLANs between instances, transactions on STP ports, and the object id generator.
\<close>

section \<open>VLAN movements\<close>

lemma sai_stp_is_valid_same [simp]:
  "snd (sai_stp_is_valid_stp_instance s i) = s"
  "fst (sai_stp_is_valid_stp_instance s i) \<longleftrightarrow> rb_getexact (stp_info_tree s) i \<noteq> None"
  by (auto simp: sai_stp_is_valid_stp_instance_def Let_def)

text \<open>Detaching and attaching again restores the cache.\<close>

lemma stp_vlan_readd:
  assumes rem: "sai_stp_vlan_remove E i v s w = (SAI_STATUS_SUCCESS, s1, w1)"
    and add: "sai_stp_vlan_add E i v s1 w1' = (SAI_STATUS_SUCCESS, s2, w2)"
    and inv: "stp_inv P s" and dup: "refuses_duplicates E"
  shows "s2 = s"
proof -
  from sai_stp_vlan_remove_effect [OF rem] obtain n
    where n: "rb_getexact (stp_info_tree s) i = Some n" "rb_getexact (vlan_tree n) v \<noteq> None"
      and s1: "s1 = stp_set_vlans n (rb_remove (vlan_tree n) v) s" by auto
  from inv n have id: "stp_inst_id n = i" and t: "stp_info_tree s \<noteq> None" "vlan_tree n \<noteq> None"
    by (auto dest: stp_inv_info stp_inv_trees simp: stp_info_ok_def)
  have g: "rb_getexact (stp_info_tree s1) i = Some (n\<lparr>vlan_tree := rb_remove (vlan_tree n) v\<rparr>)"
    using id t by (simp add: s1 stp_set_vlans_def)
  have "rb_put (rb_remove (vlan_tree n) v) v () = vlan_tree n"
    using n t by (intro rb_eqI) auto
  with sai_stp_vlan_add_effect [OF add dup] g have "s2 = stp_info_write n s1"
    by (auto simp: stp_set_vlans_def)
  then show ?thesis
    using n id by (simp add: s1 stp_set_vlans_def stp_inst_write_same)
qed

text \<open>The four ways \<open>sai_stp_vlan_handle\<close> can end.\<close>

lemma stp_vlan_handle_cases:
  assumes "sai_stp_vlan_handle E v i s w = (rc, s', w')"
    and inv: "stp_inv P s" and dup: "refuses_duplicates E"
  obtains (unchanged) "rc \<noteq> SAI_STATUS_SUCCESS" "s' = s"
    | (moved) s1 w1 s2 where "rc = SAI_STATUS_SUCCESS"
        "sai_stp_vlan_remove E (g_stp_vlan_map s v) v s w = (SAI_STATUS_SUCCESS, s1, w1)"
        "sai_stp_vlan_add E i v s1 w1 = (SAI_STATUS_SUCCESS, s2, w')"
        "s' = s2\<lparr>g_stp_vlan_map := (g_stp_vlan_map s)(v := i)\<rparr>"
    | (lost) w1 where "rc \<noteq> SAI_STATUS_SUCCESS"
        "sai_stp_vlan_remove E (g_stp_vlan_map s v) v s w = (SAI_STATUS_SUCCESS, s', w1)"
proof (cases "rb_getexact (stp_info_tree s) i")
  case None
  with assms(1) show ?thesis
    by (intro unchanged) (auto simp: sai_stp_vlan_handle_def split_beta split: if_splits)
next
  case (Some n)
  obtain r1 s1 w1 where rem: "sai_stp_vlan_remove E (g_stp_vlan_map s v) v s w = (r1, s1, w1)"
    by (metis prod_cases3)
  note h = assms(1) [unfolded sai_stp_vlan_handle_def split_beta]
  show ?thesis
  proof (cases "r1 = SAI_STATUS_SUCCESS")
    case False
    with sai_stp_vlan_remove_effect [OF rem] have "s1 = s" by simp
    with h Some rem False show ?thesis by (intro unchanged) auto
  next
    case True
    obtain r2 s2 w2 where add: "sai_stp_vlan_add E i v s1 w1 = (r2, s2, w2)" by (metis prod_cases3)
    note keep = stp_vlan_remove_member(3) [OF rem [unfolded True] inv]
      stp_vlan_remove_member(5) [OF rem [unfolded True] inv]
    show ?thesis
    proof (cases "r2 = SAI_STATUS_SUCCESS")
      case t: True
      have "g_stp_vlan_map s2 = g_stp_vlan_map s"
        using stp_vlan_add_member(2) [OF add [unfolded t] keep(2) dup] keep(1) by simp
      with h Some rem True add t show ?thesis by (intro moved) auto
    next
      case f: False
      with sai_stp_vlan_add_effect [OF add dup] have s2: "s2 = s1" by simp
      obtain r3 s3 w3 where re: "sai_stp_vlan_add E (g_stp_vlan_map s v) v s1 w2 = (r3, s3, w3)"
        by (metis prod_cases3)
      have e: "rc = r2" "s' = s3" using h Some rem True add f s2 re keep by auto
      show ?thesis
      proof (cases "r3 = SAI_STATUS_SUCCESS")
        case True
        have "s3 = s"
          using stp_vlan_readd [OF rem [unfolded \<open>r1 = SAI_STATUS_SUCCESS\<close>] re [unfolded True] inv dup] .
        with e f show ?thesis by (intro unchanged) auto
      next
        case False
        with sai_stp_vlan_add_effect [OF re dup] have "s3 = s1" by simp
        with e f rem \<open>r1 = SAI_STATUS_SUCCESS\<close> show ?thesis by (intro lost) auto
      qed
    qed
  qed
qed

lemma stp_vlan_handle_inv:
  assumes "sai_stp_vlan_handle E v i s w = (rc, s', w')" and inv: "stp_inv P s"
    and dup: "refuses_duplicates E"
  shows "stp_inv P s'"
  using assms
proof (cases rule: stp_vlan_handle_cases)
  case unchanged
  with inv show ?thesis by simp
next
  case (moved s1 w1 s2)
  note rem = stp_vlan_remove_member [OF moved(2) inv]
  from rem(2) have "\<not> stp_vlan_member s1 j v" for j by simp
  with stp_vlan_add_member(4) [OF moved(3) rem(5) dup] rem(3) moved(4) show ?thesis by simp
next
  case (lost w1)
  show ?thesis by (rule stp_vlan_remove_member(5) [OF lost(2) inv])
qed

lemma stp_vlan_destroy_cases:
  assumes "sai_stp_vlan_destroy E v s w = (rc, s', w')" and inv: "stp_inv P s"
  obtains (unchanged) "rc \<noteq> SAI_STATUS_SUCCESS" "s' = s"
    | (detached) s1 where "rc = SAI_STATUS_SUCCESS"
        "sai_stp_vlan_remove E (g_stp_vlan_map s v) v s w = (SAI_STATUS_SUCCESS, s1, w')"
        "s' = s1\<lparr>g_stp_vlan_map := (g_stp_vlan_map s)(v := 0)\<rparr>"
proof -
  obtain r1 s1 w1 where rem: "sai_stp_vlan_remove E (g_stp_vlan_map s v) v s w = (r1, s1, w1)"
    by (metis prod_cases3)
  show ?thesis
  proof (cases "r1 = SAI_STATUS_SUCCESS")
    case False
    with sai_stp_vlan_remove_effect [OF rem] assms(1) rem show ?thesis
      by (intro unchanged) (auto simp: sai_stp_vlan_destroy_def Let_def split: if_splits)
  next
    case True
    from stp_vlan_remove_member(3) [OF rem [unfolded True] inv] assms(1) rem True show ?thesis
      by (intro detached) (auto simp: sai_stp_vlan_destroy_def Let_def)
  qed
qed

text \<open>Erasing the map entry of a VLAN that no instance has.\<close>

lemma stp_map_write_inv:
  assumes "stp_inv P s" and "\<And>j. \<not> stp_vlan_member s j v"
  shows "stp_inv P (s\<lparr>g_stp_vlan_map := (g_stp_vlan_map s)(v := x)\<rparr>)"
proof -
  have "((g_stp_vlan_map s)(v := x)) u = i"
    if n: "rb_getexact (stp_info_tree s) i = Some n" "rb_getexact (vlan_tree n) u \<noteq> None" for i n u
  proof -
    from n have m: "stp_vlan_member s i u" by (simp add: stp_vlan_member_def)
    with assms(2) have "u \<noteq> v" by auto
    with stp_vlan_member_map [OF assms(1) m] show ?thesis by simp
  qed
  then have "stp_vlans_ok (s\<lparr>g_stp_vlan_map := (g_stp_vlan_map s)(v := x)\<rparr>)"
    by (simp add: stp_vlans_ok_def)
  with assms(1) show ?thesis by (simp add: stp_inv_def stp_ports_agree_def)
qed

lemma stp_vlan_destroy_inv:
  assumes "sai_stp_vlan_destroy E v s w = (rc, s', w')" and inv: "stp_inv P s"
  shows "stp_inv P s'"
  using assms
proof (cases rule: stp_vlan_destroy_cases)
  case unchanged
  with inv show ?thesis by simp
next
  case (detached s1)
  note rem = stp_vlan_remove_member [OF detached(2) inv]
  from rem(2) have "\<not> stp_vlan_member s1 j v" for j by simp
  with stp_map_write_inv [OF rem(5), of v 0] rem(3) detached show ?thesis by simp
qed

text \<open>\<open>sai_stp_default_stp_vlan_update\<close> is a destroy, when the map has an instance, then an
  addition to the default instance.\<close>

lemma stp_default_update_eq:
  "sai_stp_default_stp_vlan_update E v s w =
     (let (ret, s, w) = (if g_stp_vlan_map s v \<noteq> 0 then sai_stp_vlan_destroy E v s w
                         else (SAI_STATUS_SUCCESS, s, w))
      in if ret \<noteq> SAI_STATUS_SUCCESS then (ret, s, w)
         else let (ret, s, w) = sai_stp_vlan_add E (g_def_stp_id s) v s w
           in if ret \<noteq> SAI_STATUS_SUCCESS then (ret, s, w)
              else (ret, s\<lparr>g_stp_vlan_map := (g_stp_vlan_map s)(v := g_def_stp_id s)\<rparr>, w))"
  by (simp add: sai_stp_default_stp_vlan_update_def sai_stp_vlan_destroy_def Let_def split_beta)

lemma stp_free_of_unmapped:
  assumes inv: "stp_inv P s" and "g_stp_vlan_map s v = 0"
  shows "\<not> stp_vlan_member s j v"
proof
  assume m: "stp_vlan_member s j v"
  with assms have "j = 0" by (auto dest: stp_vlan_member_map)
  with m inv show False
    by (auto simp: stp_vlan_member_def stp_info_ok_def dest: stp_inv_info split: option.splits)
qed

lemma stp_destroy_free:
  assumes "sai_stp_vlan_destroy E v s w = (SAI_STATUS_SUCCESS, s', w')" and inv: "stp_inv P s"
  shows "\<not> stp_vlan_member s' j v" "g_stp_vlan_map s' = (g_stp_vlan_map s)(v := 0)"
    "g_def_stp_id s' = g_def_stp_id s" "u \<noteq> v \<Longrightarrow> stp_vlan_member s' j u = stp_vlan_member s j u"
  using assms
  by (cases rule: stp_vlan_destroy_cases;
      simp add: stp_vlan_remove_member(2) [OF _ inv] stp_vlan_remove_member(4) [OF _ inv])+

lemma stp_default_update_cases:
  assumes "sai_stp_default_stp_vlan_update E v s w = (rc, s', w')"
    and inv: "stp_inv P s" and dup: "refuses_duplicates E"
  obtains (unchanged) "rc \<noteq> SAI_STATUS_SUCCESS" "s' = s"
    | (detached) "rc \<noteq> SAI_STATUS_SUCCESS" "stp_inv P s'" "\<And>j. \<not> stp_vlan_member s' j v"
        "g_stp_vlan_map s' v = 0" "g_def_stp_id s' = g_def_stp_id s"
        "\<And>j u. u \<noteq> v \<Longrightarrow> stp_vlan_member s' j u = stp_vlan_member s j u"
    | (attached) s1 w1 s2 where "rc = SAI_STATUS_SUCCESS" "stp_inv P s1"
        "\<And>j. \<not> stp_vlan_member s1 j v" "g_def_stp_id s1 = g_def_stp_id s"
        "\<And>j u. u \<noteq> v \<Longrightarrow> stp_vlan_member s1 j u = stp_vlan_member s j u"
        "sai_stp_vlan_add E (g_def_stp_id s) v s1 w1 = (SAI_STATUS_SUCCESS, s2, w')"
        "s' = s2\<lparr>g_stp_vlan_map := (g_stp_vlan_map s1)(v := g_def_stp_id s)\<rparr>"
proof -
  obtain r1 s1 w1 where d: "(if g_stp_vlan_map s v \<noteq> 0 then sai_stp_vlan_destroy E v s w
      else (SAI_STATUS_SUCCESS, s, w)) = (r1, s1, w1)" by (metis prod_cases3)
  note h = assms(1) [unfolded stp_default_update_eq d]
  show ?thesis
  proof (cases "r1 = SAI_STATUS_SUCCESS")
    case False
    with d have "sai_stp_vlan_destroy E v s w = (r1, s1, w1)" by (simp split: if_splits)
    from this inv have "s1 = s" using False by (cases rule: stp_vlan_destroy_cases) auto
    with h False show ?thesis by (intro unchanged) auto
  next
    case True
    have f': "stp_inv P s1 \<and> (\<forall>j. \<not> stp_vlan_member s1 j v) \<and> g_stp_vlan_map s1 v = 0
        \<and> g_def_stp_id s1 = g_def_stp_id s
        \<and> (\<forall>j u. u \<noteq> v \<longrightarrow> stp_vlan_member s1 j u = stp_vlan_member s j u)"
    proof (cases "g_stp_vlan_map s v = 0")
      case True
      with d inv stp_free_of_unmapped [OF inv True]
      show ?thesis by auto
    next
      case False
      with d True have d': "sai_stp_vlan_destroy E v s w = (SAI_STATUS_SUCCESS, s1, w1)" by simp
      show ?thesis
        using stp_vlan_destroy_inv [OF d' inv] stp_destroy_free [OF d' inv] by auto
    qed
    then have f: "stp_inv P s1" "\<And>j. \<not> stp_vlan_member s1 j v" "g_stp_vlan_map s1 v = 0"
      "g_def_stp_id s1 = g_def_stp_id s" "\<And>j u. u \<noteq> v \<Longrightarrow> stp_vlan_member s1 j u = stp_vlan_member s j u"
      by blast+
    obtain r2 s2 w2 where add: "sai_stp_vlan_add E (g_def_stp_id s1) v s1 w1 = (r2, s2, w2)"
      by (metis prod_cases3)
    show ?thesis
    proof (cases "r2 = SAI_STATUS_SUCCESS")
      case False
      with sai_stp_vlan_add_effect [OF add dup] have "s2 = s1" by simp
      with h True add False f show ?thesis by (intro detached) auto
    next
      case t: True
      from stp_vlan_add_member(2,3) [OF add [unfolded t] f(1) dup] h True add t f show ?thesis
        by (intro attached [of s1 w1 s2]) auto
    qed
  qed
qed

lemma stp_default_update_inv:
  assumes "sai_stp_default_stp_vlan_update E v s w = (rc, s', w')" and inv: "stp_inv P s"
    and dup: "refuses_duplicates E"
  shows "stp_inv P s'"
  using assms
proof (cases rule: stp_default_update_cases)
  case (attached s1 w1 s2)
  with stp_vlan_add_member(4) [OF attached(6) attached(2) dup] show ?thesis by simp
qed (use inv in simp_all)

end
