(* ===== verification/Sai_Demo.thy ===== *)
theory Sai_Demo
  imports Sai_Prelude
begin

unbundle bit_operations_syntax

text \<open>
  A concrete platform for the witnesses: memory never runs out, a tree accepts a key unless it
  holds it, object ids carry a type code in their low byte, two ports are valid, and the id
  generator counts up.  The outside world is a counter, the next free hardware id.
\<close>

fun demo_type_code :: "sai_object_type_t \<Rightarrow> 64 word" where
  "demo_type_code SAI_OBJECT_TYPE_STP = 1"
| "demo_type_code SAI_OBJECT_TYPE_STP_PORT = 2"
| "demo_type_code SAI_OBJECT_TYPE_PORT = 3"
| "demo_type_code SAI_OBJECT_TYPE_LAG = 4"
| "demo_type_code SAI_OBJECT_TYPE_VLAN = 5"
| "demo_type_code SAI_OBJECT_TYPE_VLAN_MEMBER = 6"
| "demo_type_code SAI_OBJECT_TYPE_VIRTUAL_ROUTER = 7"
| "demo_type_code SAI_OBJECT_TYPE_NEXT_HOP = 8"
| "demo_type_code SAI_OBJECT_TYPE_NEXT_HOP_GROUP = 9"
| "demo_type_code SAI_OBJECT_TYPE_NEXT_HOP_GROUP_MEMBER = 10"
| "demo_type_code SAI_OBJECT_TYPE_UDF = 11"
| "demo_type_code SAI_OBJECT_TYPE_UDF_GROUP = 12"
| "demo_type_code SAI_OBJECT_TYPE_UDF_MATCH = 13"
| "demo_type_code SAI_OBJECT_TYPE_HASH = 14"
| "demo_type_code SAI_OBJECT_TYPE_MIRROR_SESSION = 15"

definition demo_uoid :: "sai_object_type_t \<Rightarrow> 64 word \<Rightarrow> 64 word" where
  "demo_uoid ty n = push_bit 8 n OR demo_type_code ty"

definition demo_is_obj :: "sai_object_type_t \<Rightarrow> 64 word \<Rightarrow> bool" where
  "demo_is_obj ty oid \<longleftrightarrow> take_bit 8 oid = demo_type_code ty"

definition demo_port_valid :: "nat \<Rightarrow> 64 word \<Rightarrow> bool" where
  "demo_port_valid w p \<longleftrightarrow> p = 259 \<or> p = 515"

definition demo_next_id ::
  "(64 word \<Rightarrow> bool) \<Rightarrow> dn_sai_id_gen_info_t \<Rightarrow> sai_status_t \<times> dn_sai_id_gen_info_t" where
  "demo_next_id in_use g = (SAI_STATUS_SUCCESS, g\<lparr>cur_id := cur_id g + 1\<rparr>)"

lemma demo_is_obj_uoid: "demo_is_obj ty (demo_uoid ty n)"
proof -
  have "take_bit 8 (demo_type_code ty) = demo_type_code ty"
    by (cases ty) simp_all
  then show ?thesis
    by (simp add: demo_is_obj_def demo_uoid_def take_bit_push_bit)
qed

lemma demo_uoid_nonzero: "demo_uoid ty n \<noteq> 0"
proof
  assume "demo_uoid ty n = 0"
  with demo_is_obj_uoid [of ty n] have "demo_type_code ty = 0"
    by (simp add: demo_is_obj_def)
  then show False by (cases ty) simp_all
qed

lemma demo_port_space: "{p. \<exists>w. demo_port_valid w p} = {259, 515}"
  by (auto simp: demo_port_valid_def)

end
