(* ===== verification/Stp_Reach.thy ===== *)
theory Stp_Reach
  imports Stp_Theorems Sai_Demo
begin

text \<open>
  The spanning-tree component as a state machine: one step for each call of an operation in any
  state of the outside world, and the invariant in every reachable state.
\<close>

section \<open>Steps\<close>

inductive stp_step :: "('w, 'z) stp_env_scheme \<Rightarrow> stp_state \<Rightarrow> stp_state \<Rightarrow> bool" for E where
  step_instance_create:
    "sai_stp_instance_create E k s w = (rc, out, s', w') \<Longrightarrow> stp_step E s s'"
| step_instance_remove:
    "sai_stp_instance_remove E i s w = (rc, s', w') \<Longrightarrow> stp_step E s s'"
| step_attribute_set:
    "sai_stp_attribute_set E i a s = (rc, s') \<Longrightarrow> stp_step E s s'"
| step_attribute_get:
    "sai_stp_attribute_get E i as s w = (rc, as', s', w') \<Longrightarrow> stp_step E s s'"
| step_port_create:
    "sai_stp_port_create E ps s w = (rc, out, s', w') \<Longrightarrow> stp_step E s s'"
| step_port_remove:
    "sai_stp_port_remove E q s w = (rc, s', w') \<Longrightarrow> stp_step E s s'"
| step_port_attribute_set:
    "sai_stp_port_attribute_set E q p s w = (rc, s', w') \<Longrightarrow> stp_step E s s'"
| step_port_attribute_get:
    "sai_stp_port_attribute_get E q ps s = (rc, ps', s') \<Longrightarrow> stp_step E s s'"
| step_vlan_destroy:
    "sai_stp_vlan_destroy E v s w = (rc, s', w') \<Longrightarrow> stp_step E s s'"
| step_vlan_handle:
    "sai_stp_vlan_handle E v i s w = (rc, s', w') \<Longrightarrow> stp_step E s s'"
| step_default_update:
    "sai_stp_default_stp_vlan_update E v s w = (rc, s', w') \<Longrightarrow> stp_step E s s'"
| step_can_learn:
    "sai_stp_can_port_learn_mac E v p s w = (b, s', w') \<Longrightarrow> stp_step E s s'"

definition stp_start :: "('w, 'z) stp_env_scheme \<Rightarrow> stp_state \<Rightarrow> bool" where
  "stp_start E s \<longleftrightarrow>
     (\<exists>s0 w w'. g_stp_vlan_map s0 = (\<lambda>_. 0) \<and> sai_stp_init E s0 w = (SAI_STATUS_SUCCESS, Some s, w'))"

text \<open>What initialisation relies on besides: the internal VLAN is not the default VLAN.\<close>

definition stp_env_laws :: "('w, 'z) stp_env_scheme \<Rightarrow> bool" where
  "stp_env_laws E \<longleftrightarrow> stp_laws E \<and> (\<forall>w. internal_vlan_id E w \<noteq> Some SAI_INIT_DEFAULT_VLAN)"

lemma stp_env_lawsD:
  "stp_env_laws E \<Longrightarrow> refuses_duplicates E" "stp_env_laws E \<Longrightarrow> uoid_typed E"
  "stp_env_laws E \<Longrightarrow> few_ports E" "stp_env_laws E \<Longrightarrow> stp_laws E"
  by (auto simp: stp_env_laws_def stp_laws_def)

section \<open>Operations that only read the cache\<close>

lemma sai_stp_attribute_set_same:
  "sai_stp_attribute_set E i a s = (rc, s') \<Longrightarrow> s' = s"
  by (auto simp: sai_stp_attribute_set_def Let_def split: if_splits)

lemma sai_stp_attribute_get_same:
  "sai_stp_attribute_get E i as s w = (rc, as', s', w') \<Longrightarrow> s' = s"
  by (auto simp: sai_stp_attribute_get_def Let_def split: if_splits prod.splits)

lemma sai_stp_port_attribute_get_same:
  "sai_stp_port_attribute_get E q ps s = (rc, ps', s') \<Longrightarrow> s' = s"
  by (auto simp: sai_stp_port_attribute_get_def Let_def split: if_splits prod.splits)

lemma sai_stp_can_port_learn_mac_same:
  "sai_stp_can_port_learn_mac E v p s w = (b, s', w') \<Longrightarrow> s' = s"
  by (auto simp: sai_stp_can_port_learn_mac_def Let_def split: prod.splits)

lemmas stp_read_only = sai_stp_attribute_set_same sai_stp_attribute_get_same
  sai_stp_port_attribute_get_same sai_stp_can_port_learn_mac_same

section \<open>Every step keeps the invariant\<close>

lemma sai_stp_port_create_inv:
  assumes "sai_stp_port_create E ps s w = (rc, out, s', w')" and inv: "stp_inv E s"
    and dup: "refuses_duplicates E"
  shows "stp_inv E s'"
  using sai_stp_port_create_effect [OF assms(1) dup inv]
proof (elim disjE exE conjE)
  fix g n i p v q m
  assume n: "rb_getexact (stp_info_tree s) i = Some n" "sai_is_port_valid E w p"
    and new: "rb_getexact (stp_port_tree n) p = None" "rb_getexact (global_stp_port_tree s) q = None"
    and m: "m = \<lparr>stp_port_id = q, port_id = p, port_stp_inst_id = i, port_state = v\<rparr>"
    and s': "s' = stp_add_port n m (s\<lparr>sai_port_id_gen_info := g\<rparr>)"
  show ?thesis
    unfolding s' using n new inv by (intro stp_add_port_inv [of _ _ i]) (auto simp: m port_space_def)
qed (use inv in simp)

lemma stp_step_inv:
  assumes "stp_step E s t" and inv: "stp_inv E s" and laws: "stp_env_laws E"
  shows "stp_inv E t"
  using assms(1)
proof cases
  case (step_instance_create k w rc out w')
  with sai_stp_instance_create_effect [of E k s w rc out t w'] inv stp_env_lawsD [OF laws]
  show ?thesis by (auto intro: stp_add_instance_inv)
next
  case (step_instance_remove i w rc w')
  with sai_stp_instance_remove_effect [of E i s w rc t w' E] inv stp_env_lawsD [OF laws]
  show ?thesis by (auto intro: stp_drop_instance_inv)
next
  case (step_port_create ps w rc out w')
  then show ?thesis by (rule sai_stp_port_create_inv) (use inv stp_env_lawsD [OF laws] in auto)
next
  case (step_port_remove q w rc w')
  with sai_stp_port_remove_effect [of E q s w rc t w' E] inv
  show ?thesis by (auto intro: stp_drop_port_inv)
next
  case (step_port_attribute_set q p w rc w')
  with sai_stp_port_attribute_set_effect [of E q p s w rc t w'] inv
  show ?thesis by (auto intro: stp_port_write_inv)
next
  case (step_vlan_destroy v w rc w')
  then show ?thesis by (rule stp_vlan_destroy_inv [OF _ inv])
next
  case (step_vlan_handle v i w rc w')
  then show ?thesis by (rule stp_vlan_handle_inv [OF _ inv]) (use stp_env_lawsD [OF laws] in auto)
next
  case (step_default_update v w rc w')
  then show ?thesis by (rule stp_default_update_inv [OF _ inv]) (use stp_env_lawsD [OF laws] in auto)
qed (use inv in \<open>auto dest!: stp_read_only\<close>)

section \<open>Initialisation\<close>

text \<open>Attaching a new instance with its first VLAN, which no instance has.\<close>

lemma stp_update_cache_effect:
  assumes "stp_update_cache_body E i v b s w = (SAI_STATUS_SUCCESS, s', w')"
    and dup: "refuses_duplicates E"
  shows "rb_getexact (stp_info_tree s) i = None \<and> stp_info_tree s \<noteq> None \<and>
    s' = s\<lparr>stp_info_tree := rb_put (stp_info_tree s) i
             \<lparr>stp_inst_id = i, vlan_tree = Some (fmupd v () fmempty),
              stp_port_tree = Some fmempty, num_ports = 0\<rparr>,
           g_stp_vlan_map := (g_stp_vlan_map s)(v := i)\<rparr>"
  using assms
  by (auto simp: stp_update_cache_body_def Let_def stp_info_write_def rb_put_def
      split: prod.splits if_splits elim!: insertE)

lemma stp_update_cache_inv:
  assumes "sai_internal_instance_update_cache E i v b s w = (SAI_STATUS_SUCCESS, s', w')"
    and dup: "refuses_duplicates E" and inv: "stp_inv P s" and i: "i \<noteq> 0"
    and free: "\<And>j. \<not> stp_vlan_member s j v"
  shows "stp_inv P s'" "u \<noteq> v \<Longrightarrow> stp_vlan_member s' j u = stp_vlan_member s j u"
proof -
  obtain s1 where b: "stp_update_cache_body E i v b (sai_stp_lock s) w = (SAI_STATUS_SUCCESS, s1, w')"
    and s': "s' = sai_stp_unlock s1"
    using assms(1) by (auto simp: sai_internal_instance_update_cache_def Let_def split: prod.splits)
  let ?n = "\<lparr>stp_inst_id = i, vlan_tree = Some fmempty, stp_port_tree = Some fmempty, num_ports = 0\<rparr>"
  note e = stp_update_cache_effect [OF b dup]
  have t: "stp_info_tree s \<noteq> None" and new: "rb_getexact (stp_info_tree s) i = None"
    using e by simp_all
  have s'_eq: "s' = (stp_set_vlans ?n (rb_put (Some fmempty) v ()) (stp_add_instance i s))
      \<lparr>g_stp_vlan_map := (g_stp_vlan_map s)(v := i)\<rparr>"
    using e unfolding s'
    by (simp add: stp_set_vlans_def stp_info_write_def stp_add_instance_def sai_stp_lock_def
        sai_stp_unlock_def rb_put_Some)
  have inv1: "stp_inv P (stp_add_instance i s)" by (rule stp_add_instance_inv [OF inv new i])
  show "stp_inv P s'"
    unfolding s'_eq
  proof (rule stp_set_vlans_inv [OF inv1])
    show "rb_getexact (stp_info_tree (stp_add_instance i s)) i = Some ?n"
      using t by (simp add: stp_add_instance_def)
    show "((g_stp_vlan_map s)(v := i)) u = j"
      if "rb_getexact (stp_info_tree (stp_add_instance i s)) j = Some k" "j \<noteq> i"
        "rb_getexact (vlan_tree k) u \<noteq> None" for j k u
    proof -
      from that have m: "stp_vlan_member s j u"
        by (simp add: stp_vlan_member_def stp_add_instance_def)
      with free have "u \<noteq> v" by auto
      with stp_vlan_member_map [OF inv m] show ?thesis by simp
    qed
  qed (auto split: if_splits)
  show "u \<noteq> v \<Longrightarrow> stp_vlan_member s' j u = stp_vlan_member s j u"
    using t new unfolding s'_eq
    by (cases "j = i") (simp_all add: stp_vlan_member_def stp_set_vlans_def stp_add_instance_def)
qed

lemma stp_empty_inv:
  assumes "stp_info_tree s = Some fmempty" "global_stp_port_tree s = Some fmempty"
  shows "stp_inv P s" "\<not> stp_vlan_member s j v"
  using assms by (simp_all add: stp_inv_def stp_ports_agree_def index_agree_def stp_port_index_def
      stp_vlans_ok_def stp_vlan_member_def)

text \<open>A successful initialisation establishes the invariant and attaches VLAN 1, and the internal
  VLAN when there is one.\<close>

lemma stp_init_effect:
  assumes init: "sai_stp_init E s0 w = (SAI_STATUS_SUCCESS, Some s, w')" and laws: "stp_env_laws E"
  shows "stp_inv E s"
    and "stp_vlan_member s j u \<Longrightarrow> u = SAI_INIT_DEFAULT_VLAN \<or> (\<exists>x. internal_vlan_id E x = Some u)"
proof -
  note L = stp_env_lawsD [OF laws]
  have nz: "sai_uoid_create E SAI_OBJECT_TYPE_STP x \<noteq> 0" for x using L by (simp add: uoid_typed_def)
  obtain ok1 wa where c1: "rbtree_create_ok E w = (ok1, wa)" by (metis surj_pair)
  obtain ok2 wb where c2: "rbtree_create_ok E wa = (ok2, wb)" by (metis surj_pair)
  obtain r d l w1 where c3: "npu_stp_init E wb = (r, d, l, w1)" by (metis prod_cases4)
  define s1 where "s1 = (sai_stp_port_id_gen_init E (s0\<lparr>stp_lock_depth := 0,
      stp_info_tree := Some fmempty, global_stp_port_tree := Some fmempty\<rparr>))
      \<lparr>g_def_stp_id := sai_uoid_create E SAI_OBJECT_TYPE_STP d\<rparr>"
  obtain r2 s2 w2 where c4: "sai_internal_instance_update_cache E (sai_uoid_create E SAI_OBJECT_TYPE_STP d)
      SAI_INIT_DEFAULT_VLAN False s1 w1 = (r2, s2, w2)" by (metis prod_cases3)
  note I = init [unfolded sai_stp_init_def Let_def c1 c2 c3 prod.case]
  have s1: "stp_info_tree s1 = Some fmempty" "global_stp_port_tree s1 = Some fmempty"
    by (simp_all add: s1_def sai_stp_port_id_gen_init_def)
  have up: "sai_internal_instance_update_cache E (sai_uoid_create E SAI_OBJECT_TYPE_STP d)
        SAI_INIT_DEFAULT_VLAN False s1 w1 = (SAI_STATUS_SUCCESS, s2, w2)"
    and rest: "(internal_vlan_id E w2 = None \<and> s = s2) \<or> (\<exists>v. internal_vlan_id E w2 = Some v \<and>
        sai_internal_instance_update_cache E (sai_uoid_create E SAI_OBJECT_TYPE_STP l) v True s2 w2
          = (SAI_STATUS_SUCCESS, s, w'))"
    using I c4 by (auto simp: s1_def [symmetric] split: prod.splits if_splits option.splits)
  note e = stp_empty_inv [OF s1]
  have inv2: "stp_inv E s2"
    by (rule stp_update_cache_inv(1) [OF up L(1) e(1) nz e(2)])
  have only: "k = SAI_INIT_DEFAULT_VLAN" if "stp_vlan_member s2 i k" for i k
    using stp_update_cache_inv(2) [OF up L(1) e(1) nz e(2), of k i] e(2) that by auto
  have "stp_inv E s \<and> (\<forall>j u. stp_vlan_member s j u \<longrightarrow>
      u = SAI_INIT_DEFAULT_VLAN \<or> (\<exists>x. internal_vlan_id E x = Some u))"
    using rest
  proof (elim disjE conjE exE)
    fix v
    assume v: "internal_vlan_id E w2 = Some v"
      and up2: "sai_internal_instance_update_cache E (sai_uoid_create E SAI_OBJECT_TYPE_STP l) v True s2 w2
          = (SAI_STATUS_SUCCESS, s, w')"
    from v laws have "v \<noteq> SAI_INIT_DEFAULT_VLAN" by (auto simp: stp_env_laws_def)
    then have free: "\<not> stp_vlan_member s2 j v" for j using only by blast
    note two = stp_update_cache_inv [OF up2 L(1) inv2 nz free]
    have "u = SAI_INIT_DEFAULT_VLAN \<or> u = v" if "stp_vlan_member s j u" for j u
      using that two(2) [of u j] only [of j u] by (cases "u = v") auto
    with two(1) v show ?thesis by blast
  qed (use inv2 only in auto)
  then show "stp_inv E s"
    and "stp_vlan_member s j u \<Longrightarrow> u = SAI_INIT_DEFAULT_VLAN \<or> (\<exists>x. internal_vlan_id E x = Some u)"
    by blast+
qed

lemma stp_start_inv: "stp_start E s \<Longrightarrow> stp_env_laws E \<Longrightarrow> stp_inv E s"
  by (auto simp: stp_start_def intro: stp_init_effect(1))

section \<open>The calls of the API attach no VLAN\<close>

text \<open>The steps that are calls of the spanning-tree API; the other steps are the calls that the
  VLAN component makes.\<close>

inductive stp_api_step :: "('w, 'z) stp_env_scheme \<Rightarrow> stp_state \<Rightarrow> stp_state \<Rightarrow> bool" for E where
  api_instance_create:
    "sai_stp_instance_create E k s w = (rc, out, s', w') \<Longrightarrow> stp_api_step E s s'"
| api_instance_remove:
    "sai_stp_instance_remove E i s w = (rc, s', w') \<Longrightarrow> stp_api_step E s s'"
| api_attribute_set:
    "sai_stp_attribute_set E i a s = (rc, s') \<Longrightarrow> stp_api_step E s s'"
| api_attribute_get:
    "sai_stp_attribute_get E i as s w = (rc, as', s', w') \<Longrightarrow> stp_api_step E s s'"
| api_port_create:
    "sai_stp_port_create E ps s w = (rc, out, s', w') \<Longrightarrow> stp_api_step E s s'"
| api_port_remove:
    "sai_stp_port_remove E q s w = (rc, s', w') \<Longrightarrow> stp_api_step E s s'"
| api_port_attribute_set:
    "sai_stp_port_attribute_set E q p s w = (rc, s', w') \<Longrightarrow> stp_api_step E s s'"
| api_port_attribute_get:
    "sai_stp_port_attribute_get E q ps s = (rc, ps', s') \<Longrightarrow> stp_api_step E s s'"
| api_can_learn:
    "sai_stp_can_port_learn_mac E v p s w = (b, s', w') \<Longrightarrow> stp_api_step E s s'"

lemma stp_api_step_step: "stp_api_step E s t \<Longrightarrow> stp_step E s t"
  by (cases rule: stp_api_step.cases) (auto intro: stp_step.intros)

lemma stp_vlan_member_change:
  "stp_vlan_member (stp_add_instance k s) i v \<Longrightarrow> rb_getexact (stp_info_tree s) k = None \<Longrightarrow>
     stp_vlan_member s i v"
  "stp_vlan_member (stp_drop_instance k s) i v \<Longrightarrow> stp_vlan_member s i v"
  "rb_getexact (stp_info_tree s) k = Some n \<Longrightarrow> stp_inst_id n = k \<Longrightarrow>
     stp_vlan_member (stp_add_port n m s) i v \<Longrightarrow> stp_vlan_member s i v"
  "rb_getexact (stp_info_tree s) k = Some n \<Longrightarrow> stp_inst_id n = k \<Longrightarrow>
     stp_vlan_member (stp_drop_port n m s) i v \<Longrightarrow> stp_vlan_member s i v"
  "stp_vlan_member (stp_port_write m s) i v = stp_vlan_member s i v"
  "stp_vlan_member (s\<lparr>sai_port_id_gen_info := g\<rparr>) i v = stp_vlan_member s i v"
  by (auto simp: stp_vlan_member_def stp_change_defs stp_info_write_def stp_port_write_def
      rb_getexact_def rb_put_def rb_remove_def split: option.splits if_splits)

lemma stp_api_step_members:
  assumes "stp_api_step E s t" and inv: "stp_inv E s" and laws: "stp_env_laws E"
    and m: "stp_vlan_member t i v"
  shows "stp_vlan_member s i v"
  using assms(1)
proof cases
  case (api_instance_create k w rc out w')
  with sai_stp_instance_create_effect [of E k s w rc out t w'] stp_env_lawsD [OF laws] m
  show ?thesis by (auto dest: stp_vlan_member_change(1))
next
  case (api_instance_remove k w rc w')
  with sai_stp_instance_remove_effect [of E k s w rc t w' E] inv m
  show ?thesis by (auto dest: stp_vlan_member_change(2))
next
  case (api_port_create ps w rc out w')
  have frame: "stp_vlan_member s i v"
    if "t = stp_add_port n q (s\<lparr>sai_port_id_gen_info := g\<rparr>)" "rb_getexact (stp_info_tree s) k = Some n"
    for n q g k
    using that m stp_inv_info [OF inv that(2)]
      stp_vlan_member_change(3) [of "s\<lparr>sai_port_id_gen_info := g\<rparr>" k n q i v]
    by (simp add: stp_info_ok_def stp_vlan_member_change(6))
  from sai_stp_port_create_effect [OF api_port_create stp_env_lawsD(1) [OF laws] inv] m frame
  show ?thesis by (auto simp: stp_vlan_member_change(6))
next
  case (api_port_remove q w rc w')
  have frame: "stp_vlan_member s i v"
    if "t = stp_drop_port n q s" "rb_getexact (stp_info_tree s) k = Some n" for n q k
    using that m stp_inv_info [OF inv that(2)] stp_vlan_member_change(4) [of s k n q i v]
    by (simp add: stp_info_ok_def)
  from sai_stp_port_remove_effect [OF api_port_remove inv] m frame show ?thesis by auto
next
  case (api_port_attribute_set q p w rc w')
  with sai_stp_port_attribute_set_effect [of E q p s w rc t w'] m
  show ?thesis by (auto simp: stp_vlan_member_change(5))
qed (use m in \<open>auto dest!: stp_read_only\<close>)

section \<open>Reachable states\<close>

interpretation stp: invariant_system
  "\<lambda>s. stp_env_laws E \<and> stp_start E s" "\<lambda>s t. stp_env_laws E \<and> stp_step E s t" "stp_inv E" for E
proof unfold_locales
  show "stp_inv E s" if "stp_env_laws E \<and> stp_start E s" for s
    using that stp_start_inv by auto
  show "stp_inv E t" if "stp_inv E s" "stp_env_laws E \<and> stp_step E s t" for s t
    using that stp_step_inv by auto
qed

definition stp_reachable :: "('w, 'z) stp_env_scheme \<Rightarrow> stp_state \<Rightarrow> bool" where
  "stp_reachable E =
     reach (\<lambda>s. stp_env_laws E \<and> stp_start E s) (\<lambda>s t. stp_env_laws E \<and> stp_step E s t)"

end
