(* ===== verification/Stp_Claims.thy ===== *)
theory Stp_Claims
  imports Stp_Reach
begin

text \<open>
  The properties of the spanning-tree component, each with a run of a concrete plug-in that
  meets its hypotheses.
\<close>

section \<open>A concrete plug-in\<close>

text \<open>It accepts every call; instances get consecutive hardware ids.\<close>

definition demo_stp :: "nat stp_env" where
  "demo_stp = \<lparr>calloc_ok = (\<lambda>w. (True, w)), rbtree_create_ok = (\<lambda>w. (True, w)),
     rbtree_insert_ok = (\<lambda>present w. (\<not> present, w)),
     sai_uoid_create = demo_uoid, sai_is_obj_id = demo_is_obj,
     sai_is_port_valid = demo_port_valid,
     sai_get_indexed_ret_val = (\<lambda>rc i. rc),
     dn_sai_get_next_free_id = demo_next_id, uoid_npu_obj_id_mask = 255,
     npu_stp_init = (\<lambda>w. (SAI_STATUS_SUCCESS, 1, 2, w)),
     npu_instance_create = (\<lambda>w. (SAI_STATUS_SUCCESS, of_nat w + 3, Suc w)),
     npu_instance_remove = (\<lambda>i w. (SAI_STATUS_SUCCESS, w)),
     npu_vlan_add = (\<lambda>i v w. (SAI_STATUS_SUCCESS, w)),
     npu_vlan_remove = (\<lambda>i v w. (SAI_STATUS_SUCCESS, w)),
     npu_attribute_get = (\<lambda>i as w. (SAI_STATUS_SUCCESS, as, w)),
     npu_port_state_set = (\<lambda>i p v w. (SAI_STATUS_SUCCESS, w)),
     npu_port_state_get = (\<lambda>i p w. (SAI_STATUS_SUCCESS, SAI_STP_PORT_STATE_FORWARDING, w)),
     npu_vlan_stp_get = (\<lambda>v w. (SAI_STATUS_SUCCESS, 1, w)),
     npu_default_instance_get = (\<lambda>w. (SAI_STATUS_SUCCESS, 1, w)),
     internal_vlan_id = (\<lambda>w. None)\<rparr>"

lemma demo_stp_sel [simp]:
  "calloc_ok demo_stp w = (True, w)" "rbtree_create_ok demo_stp w = (True, w)"
  "rbtree_insert_ok demo_stp b w = (\<not> b, w)"
  "sai_uoid_create demo_stp = demo_uoid" "sai_is_obj_id demo_stp = demo_is_obj"
  "sai_is_port_valid demo_stp = demo_port_valid"
  "dn_sai_get_next_free_id demo_stp = demo_next_id" "uoid_npu_obj_id_mask demo_stp = 255"
  "npu_stp_init demo_stp w = (SAI_STATUS_SUCCESS, 1, 2, w)"
  "npu_instance_create demo_stp w = (SAI_STATUS_SUCCESS, of_nat w + 3, Suc w)"
  "npu_instance_remove demo_stp i w = (SAI_STATUS_SUCCESS, w)"
  "npu_vlan_add demo_stp i v w = (SAI_STATUS_SUCCESS, w)"
  "npu_vlan_remove demo_stp i v w = (SAI_STATUS_SUCCESS, w)"
  "npu_port_state_set demo_stp i p x w = (SAI_STATUS_SUCCESS, w)"
  "npu_port_state_get demo_stp i p w = (SAI_STATUS_SUCCESS, SAI_STP_PORT_STATE_FORWARDING, w)"
  "internal_vlan_id demo_stp w = None"
  by (simp_all add: demo_stp_def)

lemma demo_stp_laws: "stp_env_laws demo_stp"
proof -
  have "port_space demo_stp = {259, 515}"
    by (simp add: port_space_def demo_port_space)
  then have "few_ports demo_stp"
    by (simp add: few_ports_def card_insert_if)
  then show ?thesis
    by (simp add: stp_env_laws_def stp_laws_def refuses_duplicates_def uoid_typed_def
        demo_is_obj_uoid demo_uoid_nonzero)
qed

text \<open>The globals before initialisation, and the state after it: the default instance, whose
  object id is 257, holds VLAN 1.\<close>

definition demo_stp_globals :: stp_state where
  "demo_stp_globals = \<lparr>stp_info_tree = None, global_stp_port_tree = None, g_def_stp_id = 0,
     g_stp_vlan_map = (\<lambda>_. 0),
     sai_port_id_gen_info = \<lparr>cur_id = 0, is_wrappped = False, id_mask = 0\<rparr>, stp_lock_depth = 0\<rparr>"

definition demo_stp_state :: stp_state where
  "demo_stp_state = \<lparr>stp_info_tree = Some (fmupd 257
        \<lparr>stp_inst_id = 257, vlan_tree = Some (fmupd 1 () fmempty),
         stp_port_tree = Some fmempty, num_ports = 0\<rparr> fmempty),
     global_stp_port_tree = Some fmempty, g_def_stp_id = 257,
     g_stp_vlan_map = (\<lambda>_. 0)(1 := 257),
     sai_port_id_gen_info = \<lparr>cur_id = 0, is_wrappped = False, id_mask = 255\<rparr>, stp_lock_depth = 0\<rparr>"

lemmas demo_eval = Let_def std_rbtree_insert_def rb_getexact_def rb_put_def rb_remove_def
  demo_uoid_def demo_is_obj_def demo_port_valid_def demo_next_id_def

lemma demo_stp_init: "sai_stp_init demo_stp demo_stp_globals 0
    = (SAI_STATUS_SUCCESS, Some demo_stp_state, 0)"
  by (simp add: sai_stp_init_def demo_stp_globals_def demo_stp_state_def demo_eval
      sai_stp_port_id_gen_init_def sai_internal_instance_update_cache_def
      stp_update_cache_body_def sai_stp_lock_def sai_stp_unlock_def stp_info_write_def)

lemma demo_stp_start: "stp_env_laws demo_stp \<and> stp_start demo_stp demo_stp_state"
  unfolding stp_start_def
  by (intro conjI demo_stp_laws exI [of _ demo_stp_globals] exI [of _ 0] demo_stp_init)
    (simp add: demo_stp_globals_def)

lemma demo_stp_reachable: "stp_reachable demo_stp demo_stp_state"
  unfolding stp_reachable_def by (rule reach_start) (rule demo_stp_start)

lemma demo_stp_inv: "stp_inv demo_stp demo_stp_state"
  using demo_stp_start by (auto intro: stp_start_inv)

section \<open>Invariants\<close>

text \<open>C1. In every state the STP component can reach from its initialisation, through any
  sequence of API calls and any behaviour of the plug-in, the cache is well formed: each
  instance node is under its own id with its trees created, its port counter is the number of
  ports in its tree, the instance trees and the global tree describe the same set of STP ports,
  and a VLAN in an instance's tree is mapped to that instance.\<close>

theorem stp_reachable_inv:
  assumes "stp_reachable E s"
  shows "stp_inv E s"
  using assms unfolding stp_reachable_def by (rule stp.reach_inv)

theorem stp_reachable_inv_witness:
  "stp_reachable demo_stp demo_stp_state \<and> stp_inv demo_stp demo_stp_state"
  using demo_stp_reachable stp_reachable_inv [OF demo_stp_reachable] by simp

text \<open>C2. In every reachable state a VLAN is attached to at most one STP instance, and the
  array from VLAN to instance names it.\<close>

theorem stp_vlan_unique:
  assumes "stp_reachable E s" and "stp_vlan_member s i v" and "stp_vlan_member s j v"
  shows "i = j \<and> g_stp_vlan_map s v = i"
proof -
  have "stp_inv E s" using assms(1) unfolding stp_reachable_def by (rule stp.reach_inv)
  with assms(2,3) show ?thesis by (auto dest: stp_vlan_member_map)
qed

theorem stp_vlan_unique_witness:
  "stp_vlan_member demo_stp_state 257 1 \<and> g_stp_vlan_map demo_stp_state 1 = 257"
proof -
  have m: "stp_vlan_member demo_stp_state 257 1"
    by (simp add: stp_vlan_member_def demo_stp_state_def rb_getexact_def)
  with stp_vlan_unique [OF demo_stp_reachable m m] show ?thesis by simp
qed

section \<open>Instances\<close>

text \<open>C3. Removing an STP instance never leaves a reference behind.  If
  \<open>sai_stp_instance_remove\<close> succeeds then the instance had no VLAN and no STP port, and the
  only change is that its node is gone; if it fails the cache is as before.  The 32-bit port
  counter cannot hide a port.\<close>

theorem stp_instance_remove_safe:
  assumes "sai_stp_instance_remove E i s w = (rc, s', w')" and "stp_inv E s" and "few_ports E"
  shows "if rc = SAI_STATUS_SUCCESS
         then (\<forall>v. \<not> stp_vlan_member s i v)
              \<and> (\<forall>q m. rb_getexact (global_stp_port_tree s) q = Some m \<longrightarrow> port_stp_inst_id m \<noteq> i)
              \<and> rb_getexact (stp_info_tree s) i \<noteq> None
              \<and> s' = s\<lparr>stp_info_tree := rb_remove (stp_info_tree s) i\<rparr>
         else s' = s"
proof (cases "rc = SAI_STATUS_SUCCESS")
  case False
  with sai_stp_instance_remove_effect [OF assms(1,2)] show ?thesis by simp
next
  case True
  with sai_stp_instance_remove_effect [OF assms(1,2)] obtain n
    where n: "rb_getexact (stp_info_tree s) i = Some n" "num_ports n = 0" "rb_is_empty (vlan_tree n)"
      and s': "s' = stp_drop_instance i s" by auto
  have "port_stp_inst_id m \<noteq> i" if m: "rb_getexact (global_stp_port_tree s) q = Some m" for q m
    using index_agree_node [OF stp_inv_agree [OF assms(2)] m] n
      stp_no_ports [OF stp_inv_info [OF assms(2) n(1)] assms(3) n(2)]
    by (auto simp: stp_port_index_def)
  with n s' True show ?thesis
    by (simp add: stp_vlan_member_def rb_is_empty_iff stp_drop_instance_def)
qed

definition demo_stp_two :: stp_state where
  "demo_stp_two = stp_add_instance 769 demo_stp_state"

lemma demo_stp_two_create:
  "sai_stp_instance_create demo_stp 0 demo_stp_state 0
     = (SAI_STATUS_SUCCESS, Some 769, demo_stp_two, 1)"
  by (simp add: sai_stp_instance_create_def stp_instance_create_body_def demo_stp_state_def
      demo_stp_two_def stp_add_instance_def demo_eval sai_stp_lock_def sai_stp_unlock_def
      stp_info_write_def)

lemma demo_stp_two_inv: "stp_inv demo_stp demo_stp_two"
  by (rule stp_step_inv [OF step_instance_create [OF demo_stp_two_create] demo_stp_inv demo_stp_laws])

lemma demo_stp_two_remove:
  "sai_stp_instance_remove demo_stp 769 demo_stp_two 1
     = (SAI_STATUS_SUCCESS, stp_drop_instance 769 demo_stp_two, 1)"
  by (simp add: sai_stp_instance_remove_def stp_instance_remove_body_def demo_stp_two_def
      demo_stp_state_def stp_add_instance_def stp_drop_instance_def demo_eval sai_stp_lock_def sai_stp_unlock_def)

theorem stp_instance_remove_safe_witness:
  "\<not> stp_vlan_member demo_stp_two 769 1"
proof -
  have "few_ports demo_stp" using demo_stp_laws by (rule stp_env_lawsD)
  from stp_instance_remove_safe [OF demo_stp_two_remove demo_stp_two_inv this] show ?thesis
    by simp
qed

end
