(* ===== verification/Stp_Transactions.thy ===== *)
theory Stp_Transactions
  imports Stp_Claims
begin

text \<open>
  Properties of the VLAN movements and of the STP ports: every failing branch restores the cache
  or says exactly what is lost, locks are balanced, lists fit their buffers.
\<close>

section \<open>Moving a VLAN\<close>

text \<open>C4. \<open>sai_stp_vlan_handle\<close> moves a VLAN to another instance.  On success the VLAN is
  attached to the new instance and to no other, and the map names it.  On failure the map is
  unchanged, and either the whole cache is unchanged or, when putting the VLAN back failed too,
  the VLAN is attached nowhere.  No other VLAN is touched.\<close>

theorem stp_vlan_handle_spec:
  assumes run: "sai_stp_vlan_handle E v i s w = (rc, s', w')"
    and inv: "stp_inv E s" and dup: "refuses_duplicates E"
  shows "(if rc = SAI_STATUS_SUCCESS
          then (\<forall>j. stp_vlan_member s' j v \<longleftrightarrow> j = i)
               \<and> g_stp_vlan_map s' = (g_stp_vlan_map s)(v := i)
          else g_stp_vlan_map s' = g_stp_vlan_map s
               \<and> (s' = s \<or> (\<forall>j. \<not> stp_vlan_member s' j v)))
         \<and> (\<forall>j u. u \<noteq> v \<longrightarrow> stp_vlan_member s' j u = stp_vlan_member s j u)"
  using run inv dup
proof (cases rule: stp_vlan_handle_cases)
  case unchanged
  then show ?thesis by simp
next
  case (moved s1 w1 s2)
  note rem = stp_vlan_remove_member [OF moved(2) inv]
  note add = stp_vlan_add_member [OF moved(3) rem(5) dup]
  show ?thesis using moved(1,4) add(1) rem(2) by auto
next
  case (lost w1)
  note rem = stp_vlan_remove_member [OF lost(2) inv]
  show ?thesis using lost(1) rem(2,3) by auto
qed

definition demo_stp_moved :: stp_state where
  "demo_stp_moved = demo_stp_two
     \<lparr>stp_info_tree := Some (fmupd 769 \<lparr>stp_inst_id = 769, vlan_tree = Some (fmupd 1 () fmempty),
          stp_port_tree = Some fmempty, num_ports = 0\<rparr>
        (fmupd 257 \<lparr>stp_inst_id = 257, vlan_tree = Some fmempty,
          stp_port_tree = Some fmempty, num_ports = 0\<rparr> fmempty)),
      g_stp_vlan_map := (\<lambda>_. 0)(1 := 769)\<rparr>"

lemma demo_stp_handle:
  "sai_stp_vlan_handle demo_stp 1 769 demo_stp_two 1 = (SAI_STATUS_SUCCESS, demo_stp_moved, 1)"
proof -
  have e: "fmdrop (1::sai_vlan_id_t) (fmupd 1 () fmempty) = fmempty"
    by (simp add: fmdrop_fmupd_same)
  have r: "fmupd (257::sai_object_id_t) a (fmupd 769 b (fmupd 257 c fmempty))
      = fmupd 769 b (fmupd 257 a fmempty)" for a b c :: dn_sai_stp_info_t
    by (rule fmap_ext) simp
  show ?thesis
    by (simp add: sai_stp_vlan_handle_def sai_stp_is_valid_stp_instance_def sai_stp_vlan_remove_def
        stp_vlan_remove_body_def sai_stp_vlan_add_def stp_vlan_add_body_def demo_stp_moved_def
        demo_stp_two_def demo_stp_state_def stp_add_instance_def demo_eval sai_stp_lock_def
        sai_stp_unlock_def stp_info_write_def e r)
qed

theorem stp_vlan_handle_spec_witness:
  "stp_vlan_member demo_stp_moved 769 1 \<and> \<not> stp_vlan_member demo_stp_moved 257 1"
proof -
  have "refuses_duplicates demo_stp" using demo_stp_laws by (rule stp_env_lawsD)
  from stp_vlan_handle_spec [OF demo_stp_handle demo_stp_two_inv this]
  have "\<forall>j. stp_vlan_member demo_stp_moved j 1 \<longleftrightarrow> j = 769" by simp
  then show ?thesis by simp
qed

text \<open>C5. A VLAN that a failed move has left attached nowhere while the map still names an
  instance is stuck: deleting it, moving it and resetting it to the default instance all fail
  and change nothing, whatever the plug-in answers.\<close>

theorem stp_lost_vlan_stuck:
  assumes lost: "\<And>j. \<not> stp_vlan_member s j v" and mapped: "g_stp_vlan_map s v \<noteq> 0"
    and runs: "sai_stp_vlan_destroy E v s w = (rc1, s1, w1)"
      "sai_stp_vlan_handle E v i s w = (rc2, s2, w2)"
      "sai_stp_default_stp_vlan_update E v s w = (rc3, s3, w3)"
  shows "rc1 \<noteq> SAI_STATUS_SUCCESS \<and> rc2 \<noteq> SAI_STATUS_SUCCESS \<and> rc3 \<noteq> SAI_STATUS_SUCCESS
         \<and> s1 = s \<and> s2 = s \<and> s3 = s"
proof -
  obtain r t x where rem: "sai_stp_vlan_remove E (g_stp_vlan_map s v) v s w = (r, t, x)"
    by (metis prod_cases3)
  have "r \<noteq> SAI_STATUS_SUCCESS \<and> t = s"
    using sai_stp_vlan_remove_effect [OF rem] lost [of "g_stp_vlan_map s v"]
    by (auto simp: stp_vlan_member_def split: option.splits)
  with rem runs mapped show ?thesis
    by (auto simp: sai_stp_vlan_destroy_def sai_stp_vlan_handle_def split_beta Let_def
        sai_stp_default_stp_vlan_update_def split: if_splits)
qed

definition demo_stp_lost :: stp_state where
  "demo_stp_lost = demo_stp_state\<lparr>g_stp_vlan_map := (\<lambda>_. 0)(1 := 257, 2 := 257)\<rparr>"

theorem stp_lost_vlan_stuck_witness:
  "fst (sai_stp_vlan_destroy demo_stp 2 demo_stp_lost 0) \<noteq> SAI_STATUS_SUCCESS"
proof -
  have lost: "\<not> stp_vlan_member demo_stp_lost j 2" for j
    by (simp add: stp_vlan_member_def demo_stp_lost_def demo_stp_state_def rb_getexact_def)
  have m: "g_stp_vlan_map demo_stp_lost 2 \<noteq> 0" by (simp add: demo_stp_lost_def)
  obtain a b c a' b' c' a'' b'' c'' where
    "sai_stp_vlan_destroy demo_stp 2 demo_stp_lost 0 = (a, b, c)"
    "sai_stp_vlan_handle demo_stp 2 257 demo_stp_lost 0 = (a', b', c')"
    "sai_stp_default_stp_vlan_update demo_stp 2 demo_stp_lost 0 = (a'', b'', c'')"
    by (metis prod_cases3)
  from stp_lost_vlan_stuck [OF lost m this] this(1) show ?thesis by simp
qed

section \<open>STP ports\<close>

text \<open>C6. Creating an STP port is a transaction.  If \<open>sai_stp_port_create\<close> fails, at whatever
  point, the cache is as it was (only the id generator may have advanced) and no object id is
  returned; if it succeeds the new port is under a fresh non-null id in the global tree and, by
  port id, in its instance's tree, the instance counts one port more, the port is valid, and
  nothing else changed.\<close>

theorem stp_port_create_transaction:
  assumes run: "sai_stp_port_create E ps s w = (rc, out, s', w')"
    and inv: "stp_inv E s" and dup: "refuses_duplicates E"
  shows "case out of
      None \<Rightarrow> rc \<noteq> SAI_STATUS_SUCCESS \<and> (\<exists>g. s' = s\<lparr>sai_port_id_gen_info := g\<rparr>)
    | Some q \<Rightarrow> rc = SAI_STATUS_SUCCESS \<and> q \<noteq> SAI_NULL_OBJECT_ID
        \<and> rb_getexact (global_stp_port_tree s) q = None
        \<and> (\<exists>g i n p v m. rb_getexact (stp_info_tree s) i = Some n \<and> sai_is_port_valid E w p
             \<and> sai_stp_port_state_valid v \<and> rb_getexact (stp_port_tree n) p = None
             \<and> m = \<lparr>stp_port_id = q, port_id = p, port_stp_inst_id = i, port_state = v\<rparr>
             \<and> s' = s\<lparr>sai_port_id_gen_info := g,
                      global_stp_port_tree := rb_put (global_stp_port_tree s) q m,
                      stp_info_tree := rb_put (stp_info_tree s) i
                        (n\<lparr>stp_port_tree := rb_put (stp_port_tree n) p q,
                           num_ports := num_ports n + 1\<rparr>)\<rparr>)"
  using sai_stp_port_create_effect [OF run dup inv]
proof (elim disjE exE conjE)
  fix g n i p v q m
  assume *: "out = Some q" "rc = SAI_STATUS_SUCCESS" "q \<noteq> 0"
    "rb_getexact (stp_info_tree s) i = Some n" "sai_is_port_valid E w p"
    "sai_stp_port_state_valid v" "rb_getexact (stp_port_tree n) p = None"
    "rb_getexact (global_stp_port_tree s) q = None"
    "m = \<lparr>stp_port_id = q, port_id = p, port_stp_inst_id = i, port_state = v\<rparr>"
    "s' = stp_add_port n m (s\<lparr>sai_port_id_gen_info := g\<rparr>)"
  have "stp_inst_id n = i" using stp_inv_info [OF inv *(4)] by (simp add: stp_info_ok_def)
  then have "s' = s\<lparr>sai_port_id_gen_info := g,
                      global_stp_port_tree := rb_put (global_stp_port_tree s) q m,
                      stp_info_tree := rb_put (stp_info_tree s) i
                        (n\<lparr>stp_port_tree := rb_put (stp_port_tree n) p q,
                           num_ports := num_ports n + 1\<rparr>)\<rparr>"
    using * by (simp add: stp_add_port_def stp_info_write_def)
  with * have "sai_is_port_valid E w p \<and> sai_stp_port_state_valid v \<and>
      rb_getexact (stp_port_tree n) p = None \<and>
      m = \<lparr>stp_port_id = q, port_id = p, port_stp_inst_id = i, port_state = v\<rparr> \<and>
      s' = s\<lparr>sai_port_id_gen_info := g,
                      global_stp_port_tree := rb_put (global_stp_port_tree s) q m,
                      stp_info_tree := rb_put (stp_info_tree s) i
                        (n\<lparr>stp_port_tree := rb_put (stp_port_tree n) p q,
                           num_ports := num_ports n + 1\<rparr>)\<rparr>" by blast
  with *(1,2,3,4,8) show ?thesis unfolding *(1) option.case by blast
qed auto

definition demo_port_attrs :: "sai_stp_port_attr_t list" where
  "demo_port_attrs = [SAI_STP_PORT_ATTR_STP 257, SAI_STP_PORT_ATTR_PORT 259,
     SAI_STP_PORT_ATTR_STATE SAI_STP_PORT_STATE_LEARNING]"

definition demo_stp_port :: stp_state where
  "demo_stp_port = demo_stp_state
     \<lparr>sai_port_id_gen_info := \<lparr>cur_id = 1, is_wrappped = False, id_mask = 255\<rparr>,
      stp_info_tree := Some (fmupd 257 \<lparr>stp_inst_id = 257, vlan_tree = Some (fmupd 1 () fmempty),
         stp_port_tree = Some (fmupd 259 258 fmempty), num_ports = 1\<rparr> fmempty),
      global_stp_port_tree := Some (fmupd 258 \<lparr>stp_port_id = 258, port_id = 259,
         port_stp_inst_id = 257, port_state = SAI_STP_PORT_STATE_LEARNING\<rparr> fmempty)\<rparr>"

lemma demo_stp_port_create:
  "sai_stp_port_create demo_stp demo_port_attrs demo_stp_state 0
     = (SAI_STATUS_SUCCESS, Some 258, demo_stp_port, 0)"
  by (simp add: sai_stp_port_create_def demo_port_attrs_def demo_stp_state_def demo_stp_port_def
      stp_port_create_body_def sai_stp_port_id_create_def demo_eval sai_stp_lock_def
      sai_stp_unlock_def stp_info_write_def)

lemma demo_stp_port_inv: "stp_inv demo_stp demo_stp_port"
  by (rule stp_step_inv [OF step_port_create [OF demo_stp_port_create] demo_stp_inv demo_stp_laws])

theorem stp_port_create_transaction_witness:
  "rb_getexact (global_stp_port_tree demo_stp_state) 258 = None"
proof -
  have "refuses_duplicates demo_stp" using demo_stp_laws by (rule stp_env_lawsD)
  from stp_port_create_transaction [OF demo_stp_port_create demo_stp_inv this] show ?thesis by simp
qed

text \<open>Removing a port that was just created restores the cache: after a successful
  \<open>sai_stp_port_create\<close>, a successful \<open>sai_stp_port_remove\<close> of the returned id gives back the
  trees and counters exactly; it can fail only when the plug-in refuses to block the port.\<close>

theorem stp_port_create_remove:
  assumes run: "sai_stp_port_create E ps s w = (SAI_STATUS_SUCCESS, Some q, s', w')"
    and rem: "sai_stp_port_remove E q s' w1 = (SAI_STATUS_SUCCESS, s'', w2)"
    and inv: "stp_inv E s" and dup: "refuses_duplicates E"
  shows "\<exists>g. s'' = s\<lparr>sai_port_id_gen_info := g\<rparr>"
proof -
  from sai_stp_port_create_effect [OF run dup inv] obtain g n i p v m where
    *: "rb_getexact (stp_info_tree s) i = Some n" "rb_getexact (stp_port_tree n) p = None"
      "rb_getexact (global_stp_port_tree s) q = None"
      "m = \<lparr>stp_port_id = q, port_id = p, port_stp_inst_id = i, port_state = v\<rparr>"
      "s' = stp_add_port n m (s\<lparr>sai_port_id_gen_info := g\<rparr>)" by auto
  have id: "stp_inst_id n = i" using stp_inv_info [OF inv *(1)] by (simp add: stp_info_ok_def)
  note t = stp_inv_trees [OF inv]
  have inv': "stp_inv E s'" by (rule sai_stp_port_create_inv [OF run inv dup])
  have s'g: "rb_getexact (global_stp_port_tree s') q = Some m"
    "rb_getexact (stp_info_tree s') i = Some (n\<lparr>stp_port_tree := rb_put (stp_port_tree n) p q,
        num_ports := num_ports n + 1\<rparr>)"
    using t * id by (simp_all add: stp_add_port_def)
  from sai_stp_port_remove_effect [OF rem inv'] s'g *(4)
  have "s'' = stp_drop_port (n\<lparr>stp_port_tree := rb_put (stp_port_tree n) p q,
        num_ports := num_ports n + 1\<rparr>) m s'" by auto
  then have "s'' = (stp_info_write n s)\<lparr>sai_port_id_gen_info := g\<rparr>"
    using * id by (simp add: stp_drop_port_def stp_add_port_def rb_remove_absent)
  with * id show ?thesis by (auto simp: stp_inst_write_same)
qed

lemma demo_stp_port_remove:
  "sai_stp_port_remove demo_stp 258 demo_stp_port 0 = (SAI_STATUS_SUCCESS,
     demo_stp_state\<lparr>sai_port_id_gen_info := \<lparr>cur_id = 1, is_wrappped = False, id_mask = 255\<rparr>\<rparr>, 0)"
  by (simp add: sai_stp_port_remove_def stp_port_remove_body_def demo_stp_port_def demo_stp_state_def
      demo_eval sai_stp_lock_def sai_stp_unlock_def stp_info_write_def fmdrop_fmupd)

theorem stp_port_create_remove_witness:
  "\<exists>g. fst (snd (sai_stp_port_remove demo_stp 258 demo_stp_port 0))
        = demo_stp_state\<lparr>sai_port_id_gen_info := g\<rparr>"
proof -
  have "refuses_duplicates demo_stp" using demo_stp_laws by (rule stp_env_lawsD)
  from stp_port_create_remove [OF demo_stp_port_create demo_stp_port_remove demo_stp_inv this]
  show ?thesis by (simp add: demo_stp_port_remove)
qed

text \<open>The callback that tells the id generator whether an STP port id is taken answers the
  wrong way round: it is true exactly for the ids that are free.  So a generator that honours
  the callback, and never returns an id that the callback reports as taken, only returns ids
  of existing ports, and with it no STP port can ever be created.\<close>

theorem stp_port_id_callback_inverted:
  assumes "generator_honours_callback E" and dup: "refuses_duplicates E" and inv: "stp_inv E s"
  shows "fst (sai_stp_port_create E ps s w) \<noteq> SAI_STATUS_SUCCESS
    \<and> (\<forall>n. sai_stp_port_id_in_use E s n \<longleftrightarrow>
          rb_getexact (global_stp_port_tree s)
            (sai_uoid_create E SAI_OBJECT_TYPE_STP_PORT n) = None)"
proof -
  obtain rc out s' w' where run: "sai_stp_port_create E ps s w = (rc, out, s', w')"
    by (metis prod_cases4)
  have taken: "rb_getexact (global_stp_port_tree s) q \<noteq> None"
    if "fst (sai_stp_port_id_create E s) = q" "q \<noteq> 0" for q
  proof -
    obtain r g where n: "dn_sai_get_next_free_id E (sai_stp_port_id_in_use E s)
        (sai_port_id_gen_info s) = (r, g)" by (metis surj_pair)
    with that have "r = SAI_STATUS_SUCCESS" "q = sai_uoid_create E SAI_OBJECT_TYPE_STP_PORT (cur_id g)"
      by (auto simp: sai_stp_port_id_create_def Let_def split: if_splits)
    with n assms(1) show ?thesis
      unfolding generator_honours_callback_def by (metis sai_stp_port_id_in_use_def)
  qed
  have "rc \<noteq> SAI_STATUS_SUCCESS"
    using sai_stp_port_create_effect [OF run dup inv] taken by auto
  then show ?thesis by (simp add: run sai_stp_port_id_in_use_def)
qed

definition demo_stp_careful :: "nat stp_env" where
  "demo_stp_careful = demo_stp\<lparr>dn_sai_get_next_free_id := (\<lambda>in_use g.
     if in_use (cur_id g + 1) then (SAI_STATUS_FAILURE, g)
     else (SAI_STATUS_SUCCESS, g\<lparr>cur_id := cur_id g + 1\<rparr>))\<rparr>"

theorem stp_port_id_callback_inverted_witness:
  "fst (sai_stp_port_create demo_stp_careful demo_port_attrs demo_stp_state 0) \<noteq> SAI_STATUS_SUCCESS"
proof -
  have g: "generator_honours_callback demo_stp_careful"
    by (simp add: generator_honours_callback_def demo_stp_careful_def)
  have d: "refuses_duplicates demo_stp_careful"
    by (simp add: refuses_duplicates_def demo_stp_careful_def)
  have "port_space demo_stp_careful = port_space demo_stp"
    by (simp add: port_space_def demo_stp_careful_def)
  then have "stp_inv demo_stp_careful demo_stp_state"
    using demo_stp_inv by (simp add: stp_inv_def stp_info_ok_def)
  from stp_port_id_callback_inverted [OF g d this] show ?thesis by simp
qed

end
