(* ===== verification/Stp_Attributes.thy ===== *)
theory Stp_Attributes
  imports Stp_Transactions
begin

text \<open>
  Attributes of the spanning-tree objects: the port list fits the caller's buffer, a state that
  was set is the state that is read, only a successful call changes a port, and every operation
  releases the lock.
\<close>

section \<open>The port list\<close>

lemma stp_port_list_fill_eq:
  assumes "unat (ol_count ol) + length ns \<le> length (ol_list ol)" "length (ol_list ol) < 2 ^ 32"
  shows "stp_port_list_fill ns ol = ol
    \<lparr>ol_count := ol_count ol + of_nat (length ns),
     ol_list := take (unat (ol_count ol)) (ol_list ol) @ ns
                @ drop (unat (ol_count ol) + length ns) (ol_list ol)\<rparr>"
  using assms
proof (induction ns arbitrary: ol)
  case (Cons n ns)
  let ?k = "unat (ol_count ol)"
  have l: "?k < length (ol_list ol)" "Suc ?k < 2 ^ 32" using Cons.prems by auto
  then have k: "unat (ol_count ol + 1) = Suc ?k" "?k < length (ol_list ol)"
    by (simp_all add: unat_word_ariths)
  have "take (Suc ?k) ((ol_list ol)[?k := n]) = take ?k (ol_list ol) @ [n]"
    using k(2) by (simp add: take_Suc_conv_app_nth)
  then show ?case
    using Cons.prems k by (simp add: Cons.IH add.assoc)
qed simp

text \<open>C9. The port list of an instance fits the caller's buffer.  With room for \<open>count\<close> ids,
  \<open>sai_stp_get_port_list\<close> either answers \<open>SAI_STATUS_BUFFER_OVERFLOW\<close> with the needed size
  and writes no element, or it writes exactly the object ids of the instance's ports, sets the
  count to their number and leaves the rest of the buffer alone; the reported size is the true
  number of ports.\<close>

theorem stp_port_list_bounded:
  assumes inv: "stp_inv E s" and few: "few_ports E"
    and n: "rb_getexact (stp_info_tree s) i = Some n"
    and room: "unat (ol_count ol) \<le> length (ol_list ol)" "length (ol_list ol) < 2 ^ 32"
  shows "sai_stp_get_port_list s i ol =
     (if rb_size (stp_port_tree n) > unat (ol_count ol)
      then (SAI_STATUS_BUFFER_OVERFLOW, ol\<lparr>ol_count := of_nat (rb_size (stp_port_tree n))\<rparr>)
      else (SAI_STATUS_SUCCESS,
            ol\<lparr>ol_count := of_nat (rb_size (stp_port_tree n)),
               ol_list := rb_nodes (stp_port_tree n)
                          @ drop (rb_size (stp_port_tree n)) (ol_list ol)\<rparr>))"
proof -
  let ?c = "rb_size (stp_port_tree n)"
  have c: "unat (num_ports n) = ?c" by (rule stp_num_ports_unat [OF stp_inv_info [OF inv n] few])
  then have eq: "num_ports n = of_nat ?c" by (metis of_nat_unat ucast_id)
  have gt: "num_ports n > ol_count ol \<longleftrightarrow> ?c > unat (ol_count ol)"
    by (simp add: word_less_nat_alt c)
  have z: "num_ports n = 0 \<longleftrightarrow> ?c = 0" using c by (metis unat_eq_zero)
  have len: "length (rb_nodes (stp_port_tree n)) = ?c" by (rule length_rb_nodes)
  show ?thesis
  proof (cases "?c > unat (ol_count ol)")
    case True
    then show ?thesis by (simp add: sai_stp_get_port_list_def n gt eq [symmetric])
  next
    case False
    then have "stp_port_list_fill (rb_nodes (stp_port_tree n)) (ol\<lparr>ol_count := 0\<rparr>)
        = ol\<lparr>ol_count := of_nat ?c, ol_list := rb_nodes (stp_port_tree n) @ drop ?c (ol_list ol)\<rparr>"
      using room len by (subst stp_port_list_fill_eq) auto
    with False len show ?thesis
      by (cases "?c = 0") (simp_all add: sai_stp_get_port_list_def n gt z Let_def)
  qed
qed

lemma demo_stp_port_nodes:
  "rb_nodes (Some (fmupd (259::sai_object_id_t) (258::sai_object_id_t) fmempty)) = [258]"
  "rb_size (Some (fmupd (259::sai_object_id_t) (258::sai_object_id_t) fmempty)) = 1"
  by (simp_all add: rb_nodes_def rb_keys_def rb_size_def rb_getexact_def List.map_filter_def
      fcard_finsert_if sorted_list_of_fset.rep_eq)

theorem stp_port_list_bounded_witness:
  "sai_stp_get_port_list demo_stp_port 257 \<lparr>ol_count = 2, ol_list = [7, 8]\<rparr>
     = (SAI_STATUS_SUCCESS, \<lparr>ol_count = 1, ol_list = [258, 8]\<rparr>)
   \<and> sai_stp_get_port_list demo_stp_port 257 \<lparr>ol_count = 0, ol_list = []\<rparr>
     = (SAI_STATUS_BUFFER_OVERFLOW, \<lparr>ol_count = 1, ol_list = []\<rparr>)"
proof -
  let ?n = "\<lparr>stp_inst_id = 257, vlan_tree = Some (fmupd 1 () fmempty),
     stp_port_tree = Some (fmupd 259 258 fmempty), num_ports = 1\<rparr>"
  have n: "rb_getexact (stp_info_tree demo_stp_port) 257 = Some ?n"
    by (simp add: demo_stp_port_def rb_getexact_def)
  have "few_ports demo_stp" using demo_stp_laws by (rule stp_env_lawsD)
  note b = stp_port_list_bounded [OF demo_stp_port_inv this n]
  show ?thesis
    using b [of "\<lparr>ol_count = 2, ol_list = [7, 8]\<rparr>"] b [of "\<lparr>ol_count = 0, ol_list = []\<rparr>"]
    by (simp add: demo_stp_port_nodes)
qed

section \<open>Port attributes\<close>

text \<open>A state that was set is the state that is read: after \<open>sai_stp_port_attribute_set\<close>
  accepted a port state, \<open>sai_stp_port_attribute_get\<close> returns it, together with the instance
  and the port the STP port was created with, in any order and number of requests.  If the set
  fails, what is read is what was read before.\<close>

definition stp_port_answer :: "dn_sai_stp_port_info_t \<Rightarrow> sai_stp_port_attr_t \<Rightarrow> sai_stp_port_attr_t" where
  "stp_port_answer node a = (case a of
       SAI_STP_PORT_ATTR_STP _ \<Rightarrow> SAI_STP_PORT_ATTR_STP (port_stp_inst_id node)
     | SAI_STP_PORT_ATTR_PORT _ \<Rightarrow> SAI_STP_PORT_ATTR_PORT (port_id node)
     | SAI_STP_PORT_ATTR_STATE _ \<Rightarrow> SAI_STP_PORT_ATTR_STATE (port_state node)
     | SAI_STP_PORT_ATTR_UNKNOWN i \<Rightarrow> SAI_STP_PORT_ATTR_UNKNOWN i)"

lemma stp_port_get_loop_all:
  "(\<And>k. SAI_STP_PORT_ATTR_UNKNOWN k \<notin> set as) \<Longrightarrow>
     stp_port_attribute_get_loop n as = (SAI_STATUS_SUCCESS, map (stp_port_answer n) as)"
proof (induction as)
  case (Cons a as)
  then have "stp_port_attribute_get_loop n as = (SAI_STATUS_SUCCESS, map (stp_port_answer n) as)"
    by simp
  with Cons.prems show ?case by (cases a) (auto simp: stp_port_answer_def)
qed simp

theorem stp_port_set_get:
  assumes set: "sai_stp_port_attribute_set E q (SAI_STP_PORT_ATTR_STATE v) s w = (rc, s', w')"
    and inv: "stp_inv E s" and m: "rb_getexact (global_stp_port_tree s) q = Some m"
    and q: "sai_is_obj_id E SAI_OBJECT_TYPE_STP_PORT q"
    and known: "\<And>k. SAI_STP_PORT_ATTR_UNKNOWN k \<notin> set as"
  shows "sai_stp_port_attribute_get E q as s' =
     (SAI_STATUS_SUCCESS,
      map (stp_port_answer (if rc = SAI_STATUS_SUCCESS then m\<lparr>port_state := v\<rparr> else m)) as, s')"
proof -
  note e = sai_stp_port_attribute_set_effect [OF set]
  have "stp_port_id m = q" using index_agree_node [OF stp_inv_agree [OF inv] m] by simp
  then have "rb_getexact (global_stp_port_tree s') q
      = Some (if rc = SAI_STATUS_SUCCESS then m\<lparr>port_state := v\<rparr> else m)"
    using e m inv stp_inv_trees [OF inv] by auto
  then show ?thesis
    using q known
    by (simp add: sai_stp_port_attribute_get_def stp_port_get_loop_all sai_stp_lock_def
        sai_stp_unlock_def Let_def)
qed

theorem stp_port_set_get_witness:
  "\<exists>s'. sai_stp_port_attribute_get demo_stp 258 [SAI_STP_PORT_ATTR_STATE SAI_STP_PORT_STATE_LEARNING] s'
     = (SAI_STATUS_SUCCESS, [SAI_STP_PORT_ATTR_STATE SAI_STP_PORT_STATE_BLOCKING], s')"
proof -
  obtain rc s' w' where r: "sai_stp_port_attribute_set demo_stp 258
      (SAI_STP_PORT_ATTR_STATE SAI_STP_PORT_STATE_BLOCKING) demo_stp_port 0 = (rc, s', w')"
    by (metis prod_cases3)
  have rc: "rc = SAI_STATUS_SUCCESS"
    using r by (auto simp: sai_stp_port_attribute_set_def stp_port_attribute_set_body_def
        demo_stp_port_def demo_eval sai_stp_lock_def)
  have m: "rb_getexact (global_stp_port_tree demo_stp_port) 258 = Some \<lparr>stp_port_id = 258,
      port_id = 259, port_stp_inst_id = 257, port_state = SAI_STP_PORT_STATE_LEARNING\<rparr>"
    by (simp add: demo_stp_port_def rb_getexact_def)
  have q: "sai_is_obj_id demo_stp SAI_OBJECT_TYPE_STP_PORT 258" by (simp add: demo_is_obj_def)
  from stp_port_set_get [OF r demo_stp_port_inv m q,
      of "[SAI_STP_PORT_ATTR_STATE SAI_STP_PORT_STATE_LEARNING]"] rc
  show ?thesis by (auto simp: stp_port_answer_def)
qed

section \<open>The lock\<close>

lemma stp_body_lock:
  "stp_instance_create_body E s w = (rc, out, s', w') \<Longrightarrow> stp_lock_depth s' = stp_lock_depth s"
  "stp_instance_remove_body E i s w = (rc, s', w') \<Longrightarrow> stp_lock_depth s' = stp_lock_depth s"
  "stp_vlan_add_body E i v s w = (rc, s', w') \<Longrightarrow> stp_lock_depth s' = stp_lock_depth s"
  "stp_vlan_remove_body E i v s w = (rc, s', w') \<Longrightarrow> stp_lock_depth s' = stp_lock_depth s"
  "stp_port_remove_body E q s w = (rc, s', w') \<Longrightarrow> stp_lock_depth s' = stp_lock_depth s"
  "stp_port_attribute_set_body E q a s w = (rc, s', w') \<Longrightarrow> stp_lock_depth s' = stp_lock_depth s"
  by (auto simp: stp_instance_create_body_def stp_instance_remove_body_def stp_vlan_add_body_def
      stp_vlan_remove_body_def stp_port_remove_body_def stp_port_attribute_set_body_def Let_def
      split: prod.splits if_splits option.splits sai_stp_port_attr_t.splits)

lemma stp_port_create_body_lock:
  "stp_port_create_body E n i p v s w = (rc, out, s', w') \<Longrightarrow> stp_lock_depth s' = stp_lock_depth s"
  by (auto simp: stp_port_create_body_def sai_stp_port_id_create_def Let_def
      split: prod.splits if_splits option.splits)

lemma stp_vlan_op_lock:
  "sai_stp_vlan_add E i v s w = (rc, s', w') \<Longrightarrow> stp_lock_depth s' = stp_lock_depth s"
  "sai_stp_vlan_remove E i v s w = (rc, s', w') \<Longrightarrow> stp_lock_depth s' = stp_lock_depth s"
  by (auto simp: sai_stp_vlan_add_def sai_stp_vlan_remove_def Let_def dest!: stp_body_lock
      split: prod.splits if_splits)

lemma stp_map_op_lock:
  "sai_stp_vlan_destroy E v s w = (rc, s', w') \<Longrightarrow> stp_lock_depth s' = stp_lock_depth s"
  "sai_stp_vlan_handle E v i s w = (rc, s', w') \<Longrightarrow> stp_lock_depth s' = stp_lock_depth s"
  "sai_stp_default_stp_vlan_update E v s w = (rc, s', w') \<Longrightarrow> stp_lock_depth s' = stp_lock_depth s"
  by (auto simp: sai_stp_vlan_destroy_def sai_stp_vlan_handle_def Let_def
      sai_stp_is_valid_stp_instance_def sai_stp_default_stp_vlan_update_def dest!: stp_vlan_op_lock split: prod.splits if_splits)

text \<open>Every operation of the STP component releases the lock as often as it takes it, on
  every path, whatever the plug-in, the memory and the tree library answer.\<close>

theorem stp_lock_balanced:
  assumes "stp_step E s t"
  shows "stp_lock_depth t = stp_lock_depth s"
  using assms
proof cases
  case (step_instance_create k w rc out w')
  then show ?thesis
    by (auto simp: sai_stp_instance_create_def Let_def dest!: stp_body_lock
        split: prod.splits if_splits)
next
  case (step_instance_remove i w rc w')
  then show ?thesis
    by (auto simp: sai_stp_instance_remove_def Let_def dest!: stp_body_lock
        split: prod.splits if_splits)
next
  case (step_port_create ps w rc out w')
  then show ?thesis
    by (auto simp: sai_stp_port_create_def Let_def dest!: stp_port_create_body_lock
        split: prod.splits if_splits sum.splits option.splits)
next
  case (step_port_remove q w rc w')
  then show ?thesis
    by (auto simp: sai_stp_port_remove_def Let_def dest!: stp_body_lock
        split: prod.splits if_splits)
next
  case (step_port_attribute_set q p w rc w')
  then show ?thesis
    by (auto simp: sai_stp_port_attribute_set_def Let_def dest!: stp_body_lock
        split: prod.splits if_splits)
qed (auto dest!: stp_map_op_lock stp_read_only)

theorem stp_lock_balanced_witness:
  "stp_lock_depth demo_stp_port = stp_lock_depth demo_stp_state"
  by (rule stp_lock_balanced [OF step_port_create [OF demo_stp_port_create]])

end
