(* ===== verification/Vlan_Model.thy ===== *)
theory Vlan_Model
  imports Stp_Ports
begin

text \<open>
  The VLAN component, \<open>src/switching/sai_vlan.c\<close>: VLAN objects and their attributes, and the
  calls that tie a VLAN to a spanning-tree instance.

  The cache of VLANs and members (\<open>sai_vlan_common\<close>) is not part of this repository.  It is
  the type variable \<open>'c\<close>, its functions are fields of the environment, and \<open>vlan_cache_laws\<close>
  states what the code relies on.  The plug-in's functions act on the outside world \<open>'w\<close>.
\<close>

section \<open>Data\<close>

datatype sai_vlan_attr_t =
    SAI_VLAN_ATTR_VLAN_ID sai_vlan_id_t
  | SAI_VLAN_ATTR_MAX_LEARNED_ADDRESSES uint32_t
  | SAI_VLAN_ATTR_STP_INSTANCE sai_object_id_t
  | SAI_VLAN_ATTR_MEMBER_LIST sai_object_list_t
  | SAI_VLAN_ATTR_LEARN_DISABLE bool
  | SAI_VLAN_ATTR_IPV4_MCAST_LOOKUP_KEY_TYPE
  | SAI_VLAN_ATTR_IPV6_MCAST_LOOKUP_KEY_TYPE
  | SAI_VLAN_ATTR_UNKNOWN_NON_IP_MCAST_OUTPUT_GROUP_ID
  | SAI_VLAN_ATTR_UNKNOWN_IPV4_MCAST_OUTPUT_GROUP_ID
  | SAI_VLAN_ATTR_UNKNOWN_IPV6_MCAST_OUTPUT_GROUP_ID
  | SAI_VLAN_ATTR_UNKNOWN_LINKLOCAL_MCAST_OUTPUT_GROUP_ID
  | SAI_VLAN_ATTR_META_DATA uint32_t
  | SAI_VLAN_ATTR_INGRESS_ACL
  | SAI_VLAN_ATTR_EGRESS_ACL
  | SAI_VLAN_ATTR_UNKNOWN nat

text \<open>\<open>sai_vlan_tagging_mode_t\<close> is an unchecked 32-bit value at the API.\<close>

type_synonym sai_vlan_tagging_mode_t = uint32_t

record sai_vlan_member_node_t =
  vlan_member_id :: sai_object_id_t
  member_switch_id :: sai_object_id_t
  member_vlan_id :: sai_object_id_t
  member_port_id :: sai_object_id_t
  tagging_mode :: sai_vlan_tagging_mode_t

datatype sai_vlan_member_attr_t =
    SAI_VLAN_MEMBER_ATTR_VLAN_ID sai_object_id_t
  | SAI_VLAN_MEMBER_ATTR_PORT_ID sai_object_id_t
  | SAI_VLAN_MEMBER_ATTR_VLAN_TAGGING_MODE uint32_t
  | SAI_VLAN_MEMBER_ATTR_UNKNOWN nat

datatype sai_port_event_t =
    SAI_PORT_EVENT_ADD
  | SAI_PORT_EVENT_DELETE
  | SAI_PORT_EVENT_OTHER nat

text \<open>The two port attributes that the VLAN component writes through the port API.\<close>

datatype sai_port_attr_t =
    SAI_PORT_ATTR_PORT_VLAN_ID sai_vlan_id_t
  | SAI_PORT_ATTR_DEFAULT_VLAN_PRIORITY "8 word"

record 'c vlan_state =
  vlan_stp :: stp_state
  vlan_cache :: 'c
  vlan_lock_depth :: int

record ('c, 'w) vlan_env = "'w stp_env" +
  sai_is_valid_vlan_id :: "sai_vlan_id_t \<Rightarrow> bool"
  sai_is_internal_vlan_id :: "'w \<Rightarrow> sai_vlan_id_t \<Rightarrow> bool"
  sai_vlan_obj_id_to_vlan_id :: "sai_object_id_t \<Rightarrow> sai_vlan_id_t"
  sai_vlan_id_to_vlan_obj_id :: "sai_vlan_id_t \<Rightarrow> sai_object_id_t"
  sai_vlan_cache_init :: "'c \<Rightarrow> sai_status_t \<times> 'c"
  sai_is_vlan_created :: "'c \<Rightarrow> sai_vlan_id_t \<Rightarrow> bool"
  sai_insert_vlan_in_list :: "sai_vlan_id_t \<Rightarrow> 'c \<Rightarrow> sai_status_t \<times> 'c"
  sai_remove_vlan_from_list :: "sai_vlan_id_t \<Rightarrow> 'c \<Rightarrow> 'c"
  sai_is_vlan_obj_in_use :: "'c \<Rightarrow> sai_vlan_id_t \<Rightarrow> bool"
  sai_vlan_max_learn_adddress_cache_write :: "sai_vlan_id_t \<Rightarrow> uint32_t \<Rightarrow> 'c \<Rightarrow> 'c"
  sai_vlan_learn_disable_cache_write :: "sai_vlan_id_t \<Rightarrow> bool \<Rightarrow> 'c \<Rightarrow> 'c"
  sai_vlan_meta_data_cache_write :: "sai_vlan_id_t \<Rightarrow> uint32_t \<Rightarrow> 'c \<Rightarrow> 'c"
  sai_vlan_port_list_get ::
    "'c \<Rightarrow> sai_vlan_id_t \<Rightarrow> sai_object_list_t \<Rightarrow> sai_status_t \<times> sai_object_list_t"
  sai_is_port_vlan_member :: "'c \<Rightarrow> sai_vlan_id_t \<Rightarrow> sai_object_id_t \<Rightarrow> bool"
  sai_find_vlan_member_node :: "'c \<Rightarrow> sai_object_id_t \<Rightarrow> sai_vlan_member_node_t option"
  sai_find_vlan_member_node_from_port ::
    "'c \<Rightarrow> sai_vlan_id_t \<Rightarrow> sai_object_id_t \<Rightarrow> sai_vlan_member_node_t option"
  sai_add_vlan_member_node :: "sai_vlan_member_node_t \<Rightarrow> 'c \<Rightarrow> sai_status_t \<times> 'c"
  sai_remove_vlan_member_node :: "sai_vlan_member_node_t \<Rightarrow> 'c \<Rightarrow> sai_status_t \<times> 'c"
  vlan_member_node_store :: "sai_object_id_t \<Rightarrow> sai_vlan_member_node_t \<Rightarrow> 'c \<Rightarrow> 'c"
  npu_vlan_init :: "'w \<Rightarrow> sai_status_t \<times> 'w"
  npu_vlan_create :: "sai_vlan_id_t \<Rightarrow> 'w \<Rightarrow> sai_status_t \<times> 'w"
  npu_vlan_delete :: "sai_vlan_id_t \<Rightarrow> 'w \<Rightarrow> sai_status_t \<times> 'w"
  npu_set_vlan_max_learned_address :: "sai_vlan_id_t \<Rightarrow> uint32_t \<Rightarrow> 'w \<Rightarrow> sai_status_t \<times> 'w"
  npu_get_vlan_max_learned_address :: "sai_vlan_id_t \<Rightarrow> 'w \<Rightarrow> sai_status_t \<times> uint32_t \<times> 'w"
  npu_disable_vlan_learn_set :: "sai_vlan_id_t \<Rightarrow> bool \<Rightarrow> 'w \<Rightarrow> sai_status_t \<times> 'w"
  npu_disable_vlan_learn_get :: "sai_vlan_id_t \<Rightarrow> 'w \<Rightarrow> sai_status_t \<times> bool \<times> 'w"
  npu_set_vlan_meta_data :: "sai_vlan_id_t \<Rightarrow> uint32_t \<Rightarrow> 'w \<Rightarrow> sai_status_t \<times> 'w"
  npu_get_vlan_meta_data :: "sai_vlan_id_t \<Rightarrow> 'w \<Rightarrow> sai_status_t \<times> uint32_t \<times> 'w"
  npu_vlan_member_create :: "sai_vlan_member_node_t \<Rightarrow> 'w \<Rightarrow> sai_status_t \<times> sai_object_id_t \<times> 'w"
  npu_vlan_member_remove :: "sai_vlan_member_node_t \<Rightarrow> 'w \<Rightarrow> sai_status_t \<times> 'w"
  npu_set_vlan_member_tagging_mode :: "sai_vlan_member_node_t \<Rightarrow> 'w \<Rightarrow> sai_status_t \<times> 'w"
  npu_get_vlan_stats :: "sai_vlan_id_t \<Rightarrow> nat list \<Rightarrow> 'w \<Rightarrow> sai_status_t \<times> (64 word) list \<times> 'w"
  npu_clear_vlan_stats :: "sai_vlan_id_t \<Rightarrow> nat list \<Rightarrow> 'w \<Rightarrow> sai_status_t \<times> 'w"
  sai_is_valid_vlan_tagging_mode :: "sai_vlan_tagging_mode_t \<Rightarrow> bool"
  set_port_attribute :: "sai_object_id_t \<Rightarrow> sai_port_attr_t \<Rightarrow> 'w \<Rightarrow> sai_status_t \<times> 'w"
  sai_port_infos :: "'w \<Rightarrow> (sai_object_id_t \<times> bool) list"
  sai_switch_get_max_lport :: "'w \<Rightarrow> uint32_t"
  sai_port_event_notif_register :: "'w \<Rightarrow> sai_status_t \<times> 'w"
  SAI_VLAN_TAGGING_MODE_UNTAGGED :: uint32_t
  SAI_DEF_VLAN_TAGGING_MODE :: uint32_t
  SAI_DFLT_VLAN_PRIORITY :: "8 word"
  SAI_INVALID_VLAN_MEMBER_ID :: sai_object_id_t

definition sai_vlan_lock :: "'c vlan_state \<Rightarrow> 'c vlan_state" where
  "sai_vlan_lock s = s\<lparr>vlan_lock_depth := vlan_lock_depth s + 1\<rparr>"

definition sai_vlan_unlock :: "'c vlan_state \<Rightarrow> 'c vlan_state" where
  "sai_vlan_unlock s = s\<lparr>vlan_lock_depth := vlan_lock_depth s - 1\<rparr>"

section \<open>Guards\<close>

definition sai_is_vlan_id_available ::
  "('c, 'w, 'z) vlan_env_scheme \<Rightarrow> sai_vlan_id_t \<Rightarrow> 'w \<Rightarrow> sai_status_t" where
  "sai_is_vlan_id_available E vlan_id w =
    (if \<not> sai_is_valid_vlan_id E vlan_id then SAI_STATUS_INVALID_VLAN_ID
     else if sai_is_internal_vlan_id E w vlan_id then SAI_STATUS_NOT_SUPPORTED
     else SAI_STATUS_SUCCESS)"

definition sai_is_vlan_configurable ::
  "('c, 'w, 'z) vlan_env_scheme \<Rightarrow> sai_vlan_id_t \<Rightarrow> 'c vlan_state \<Rightarrow> 'w \<Rightarrow> sai_status_t" where
  "sai_is_vlan_configurable E vlan_id s w =
    (let ret_val = sai_is_vlan_id_available E vlan_id w in
     if ret_val \<noteq> SAI_STATUS_SUCCESS then ret_val
     else if \<not> sai_is_vlan_created E (vlan_cache s) vlan_id then SAI_STATUS_ITEM_NOT_FOUND
     else SAI_STATUS_SUCCESS)"

section \<open>VLAN attributes\<close>

text \<open>The switch of \<open>sai_l2_set_vlan_attribute\<close>, under the lock.\<close>

definition vlan_attribute_set_switch ::
  "('c, 'w, 'z) vlan_env_scheme \<Rightarrow> sai_vlan_id_t \<Rightarrow> sai_vlan_attr_t \<Rightarrow> 'c vlan_state \<Rightarrow> 'w
     \<Rightarrow> sai_status_t \<times> 'c vlan_state \<times> 'w" where
  "vlan_attribute_set_switch E vlan_id attr s w =
    (case attr of
       SAI_VLAN_ATTR_VLAN_ID _ \<Rightarrow> (SAI_STATUS_INVALID_ATTRIBUTE 0, s, w)
     | SAI_VLAN_ATTR_MAX_LEARNED_ADDRESSES n \<Rightarrow>
         let (ret_val, w) = npu_set_vlan_max_learned_address E vlan_id n w in
         if ret_val = SAI_STATUS_SUCCESS
         then (ret_val, s\<lparr>vlan_cache :=
                 sai_vlan_max_learn_adddress_cache_write E vlan_id n (vlan_cache s)\<rparr>, w)
         else (ret_val, s, w)
     | SAI_VLAN_ATTR_STP_INSTANCE oid \<Rightarrow>
         let (ret_val, t, w) = sai_stp_vlan_handle E vlan_id oid (vlan_stp s) w
         in (ret_val, s\<lparr>vlan_stp := t\<rparr>, w)
     | SAI_VLAN_ATTR_MEMBER_LIST _ \<Rightarrow> (SAI_STATUS_INVALID_ATTRIBUTE 0, s, w)
     | SAI_VLAN_ATTR_LEARN_DISABLE b \<Rightarrow>
         let (ret_val, w) = npu_disable_vlan_learn_set E vlan_id b w in
         if ret_val = SAI_STATUS_SUCCESS
         then (ret_val, s\<lparr>vlan_cache :=
                 sai_vlan_learn_disable_cache_write E vlan_id b (vlan_cache s)\<rparr>, w)
         else (ret_val, s, w)
     | SAI_VLAN_ATTR_META_DATA n \<Rightarrow>
         let (ret_val, w) = npu_set_vlan_meta_data E vlan_id n w in
         if ret_val = SAI_STATUS_SUCCESS
         then (ret_val, s\<lparr>vlan_cache :=
                 sai_vlan_meta_data_cache_write E vlan_id n (vlan_cache s)\<rparr>, w)
         else (ret_val, s, w)
     | SAI_VLAN_ATTR_INGRESS_ACL \<Rightarrow> (SAI_STATUS_SUCCESS, s, w)
     | SAI_VLAN_ATTR_EGRESS_ACL \<Rightarrow> (SAI_STATUS_SUCCESS, s, w)
     | SAI_VLAN_ATTR_UNKNOWN _ \<Rightarrow> (SAI_STATUS_UNKNOWN_ATTRIBUTE 0, s, w)
     | _ \<Rightarrow> (SAI_STATUS_ATTR_NOT_IMPLEMENTED 0, s, w))"

definition sai_l2_set_vlan_attribute ::
  "('c, 'w, 'z) vlan_env_scheme \<Rightarrow> sai_object_id_t \<Rightarrow> sai_vlan_attr_t \<Rightarrow> 'c vlan_state \<Rightarrow> 'w
     \<Rightarrow> sai_status_t \<times> 'c vlan_state \<times> 'w" where
  "sai_l2_set_vlan_attribute E vlan_obj_id attr s w =
    (if \<not> sai_is_obj_id E SAI_OBJECT_TYPE_VLAN vlan_obj_id
     then (SAI_STATUS_INVALID_OBJECT_ID, s, w)
     else let vlan_id = sai_vlan_obj_id_to_vlan_id E vlan_obj_id in
       if \<not> sai_is_valid_vlan_id E vlan_id then (SAI_STATUS_INVALID_VLAN_ID, s, w)
     else let s = sai_vlan_lock s in
       if \<not> sai_is_vlan_created E (vlan_cache s) vlan_id
       then (SAI_STATUS_ITEM_NOT_FOUND, sai_vlan_unlock s, w)
     else let (ret_val, s, w) = vlan_attribute_set_switch E vlan_id attr s w
       in (ret_val, sai_vlan_unlock s, w))"

text \<open>One turn of the loop of \<open>sai_l2_get_vlan_attribute\<close>.\<close>

definition vlan_attribute_answer ::
  "('c, 'w, 'z) vlan_env_scheme \<Rightarrow> 'c vlan_state \<Rightarrow> sai_vlan_id_t \<Rightarrow> nat \<Rightarrow> sai_vlan_attr_t \<Rightarrow> 'w
     \<Rightarrow> sai_status_t \<times> sai_vlan_attr_t \<times> 'w" where
  "vlan_attribute_answer E s vlan_id attr_idx attr w =
    (case attr of
         SAI_VLAN_ATTR_VLAN_ID _ \<Rightarrow> (SAI_STATUS_SUCCESS, SAI_VLAN_ATTR_VLAN_ID vlan_id, w)
       | SAI_VLAN_ATTR_MAX_LEARNED_ADDRESSES _ \<Rightarrow>
           let (rc, n, w) = npu_get_vlan_max_learned_address E vlan_id w
           in (rc, SAI_VLAN_ATTR_MAX_LEARNED_ADDRESSES n, w)
       | SAI_VLAN_ATTR_STP_INSTANCE old \<Rightarrow>
           let (rc, oid, w) = sai_stp_vlan_stp_get E vlan_id w
           in (rc, SAI_VLAN_ATTR_STP_INSTANCE (case oid of None \<Rightarrow> old | Some i \<Rightarrow> i), w)
       | SAI_VLAN_ATTR_MEMBER_LIST ol \<Rightarrow>
           let (rc, ol) = sai_vlan_port_list_get E (vlan_cache s) vlan_id ol
           in (rc, SAI_VLAN_ATTR_MEMBER_LIST ol, w)
       | SAI_VLAN_ATTR_LEARN_DISABLE _ \<Rightarrow>
           let (rc, b, w) = npu_disable_vlan_learn_get E vlan_id w
           in (rc, SAI_VLAN_ATTR_LEARN_DISABLE b, w)
       | SAI_VLAN_ATTR_META_DATA _ \<Rightarrow>
           let (rc, n, w) = npu_get_vlan_meta_data E vlan_id w
           in (rc, SAI_VLAN_ATTR_META_DATA n, w)
       | SAI_VLAN_ATTR_UNKNOWN _ \<Rightarrow> (SAI_STATUS_INVALID_ATTRIBUTE 0, attr, w)
       | _ \<Rightarrow> (SAI_STATUS_ATTR_NOT_IMPLEMENTED attr_idx, attr, w))"

fun vlan_attribute_get_loop ::
  "('c, 'w, 'z) vlan_env_scheme \<Rightarrow> 'c vlan_state \<Rightarrow> sai_vlan_id_t \<Rightarrow> nat \<Rightarrow> sai_vlan_attr_t list
     \<Rightarrow> 'w \<Rightarrow> sai_status_t \<times> sai_vlan_attr_t list \<times> 'w" where
  "vlan_attribute_get_loop E s vlan_id attr_idx [] w = (SAI_STATUS_SUCCESS, [], w)"
| "vlan_attribute_get_loop E s vlan_id attr_idx (attr # attrs) w =
    (let (ret_val, attr, w) = vlan_attribute_answer E s vlan_id attr_idx attr w in
     if ret_val \<noteq> SAI_STATUS_SUCCESS
     then (sai_get_indexed_ret_val E ret_val attr_idx, attr # attrs, w)
     else let (ret_val, attrs, w) = vlan_attribute_get_loop E s vlan_id (Suc attr_idx) attrs w
          in (ret_val, attr # attrs, w))"

definition sai_l2_get_vlan_attribute ::
  "('c, 'w, 'z) vlan_env_scheme \<Rightarrow> sai_object_id_t \<Rightarrow> sai_vlan_attr_t list \<Rightarrow> 'c vlan_state \<Rightarrow> 'w
     \<Rightarrow> sai_status_t \<times> sai_vlan_attr_t list \<times> 'c vlan_state \<times> 'w" where
  "sai_l2_get_vlan_attribute E vlan_obj_id attr_list s w =
    (if \<not> sai_is_obj_id E SAI_OBJECT_TYPE_VLAN vlan_obj_id
     then (SAI_STATUS_INVALID_OBJECT_ID, attr_list, s, w)
     else let vlan_id = sai_vlan_obj_id_to_vlan_id E vlan_obj_id in
       if \<not> sai_is_valid_vlan_id E vlan_id then (SAI_STATUS_INVALID_VLAN_ID, attr_list, s, w)
     else if attr_list = [] then (SAI_STATUS_INVALID_PARAMETER, attr_list, s, w)
     else let s = sai_vlan_lock s in
       if \<not> sai_is_vlan_created E (vlan_cache s) vlan_id
       then (SAI_STATUS_ITEM_NOT_FOUND, attr_list, sai_vlan_unlock s, w)
     else let (ret_val, attr_list, w) = vlan_attribute_get_loop E s vlan_id 0 attr_list w
       in (ret_val, attr_list, sai_vlan_unlock s, w))"

section \<open>Removing and creating a VLAN\<close>

definition sai_l2_delete_vlan ::
  "('c, 'w, 'z) vlan_env_scheme \<Rightarrow> sai_vlan_id_t \<Rightarrow> 'c vlan_state \<Rightarrow> 'w
     \<Rightarrow> sai_status_t \<times> 'c vlan_state \<times> 'w" where
  "sai_l2_delete_vlan E vlan_id s w =
    (let (ret_val, t, w) = sai_stp_vlan_destroy E vlan_id (vlan_stp s) w;
         s = s\<lparr>vlan_stp := t\<rparr> in
     if ret_val \<noteq> SAI_STATUS_SUCCESS then (ret_val, s, w)
     else let (ret_val, w) = npu_vlan_delete E vlan_id w in
       if ret_val \<noteq> SAI_STATUS_SUCCESS then (ret_val, s, w)
     else (ret_val, s\<lparr>vlan_cache := sai_remove_vlan_from_list E vlan_id (vlan_cache s)\<rparr>, w))"

text \<open>The return with \<open>SAI_STATUS_OBJECT_IN_USE\<close> is between lock and unlock.\<close>

definition sai_l2_remove_vlan ::
  "('c, 'w, 'z) vlan_env_scheme \<Rightarrow> sai_object_id_t \<Rightarrow> 'c vlan_state \<Rightarrow> 'w
     \<Rightarrow> sai_status_t \<times> 'c vlan_state \<times> 'w" where
  "sai_l2_remove_vlan E vlan_obj_id s w =
    (if \<not> sai_is_obj_id E SAI_OBJECT_TYPE_VLAN vlan_obj_id
     then (SAI_STATUS_INVALID_OBJECT_ID, s, w)
     else let vlan_id = sai_vlan_obj_id_to_vlan_id E vlan_obj_id;
              s = sai_vlan_lock s;
              ret_val = sai_is_vlan_configurable E vlan_id s w in
       if ret_val = SAI_STATUS_SUCCESS
       then if sai_is_vlan_obj_in_use E (vlan_cache s) vlan_id
            then (SAI_STATUS_OBJECT_IN_USE, s, w)
            else let (ret_val, s, w) = sai_l2_delete_vlan E vlan_id s w
                 in (ret_val, sai_vlan_unlock s, w)
       else (ret_val, sai_vlan_unlock s, w))"

text \<open>The first loop of \<open>sai_l2_create_vlan\<close>: the first VLAN id attribute.\<close>

fun vlan_create_id :: "sai_vlan_attr_t list \<Rightarrow> sai_vlan_id_t option" where
  "vlan_create_id [] = None"
| "vlan_create_id (a # as) =
    (case a of SAI_VLAN_ATTR_VLAN_ID v \<Rightarrow> Some v | _ \<Rightarrow> vlan_create_id as)"

definition vlan_create_body ::
  "('c, 'w, 'z) vlan_env_scheme \<Rightarrow> sai_vlan_id_t \<Rightarrow> 'c vlan_state \<Rightarrow> 'w
     \<Rightarrow> sai_status_t \<times> 'c vlan_state \<times> 'w" where
  "vlan_create_body E vlan_id s w =
    (let ret_val = sai_is_vlan_id_available E vlan_id w in
     if ret_val \<noteq> SAI_STATUS_SUCCESS then (ret_val, s, w)
     else let (ret_val, c) = sai_insert_vlan_in_list E vlan_id (vlan_cache s);
              s = s\<lparr>vlan_cache := c\<rparr> in
       if ret_val \<noteq> SAI_STATUS_SUCCESS then (ret_val, s, w)
     else let (ret_val, w) = npu_vlan_create E vlan_id w in
       if ret_val \<noteq> SAI_STATUS_SUCCESS \<and> ret_val \<noteq> SAI_STATUS_ITEM_ALREADY_EXISTS
       then (ret_val, s\<lparr>vlan_cache := sai_remove_vlan_from_list E vlan_id (vlan_cache s)\<rparr>, w)
     else if vlan_id \<noteq> SAI_INIT_DEFAULT_VLAN
       then let (ret_val, t, w) = sai_stp_default_stp_vlan_update E vlan_id (vlan_stp s) w
            in (ret_val, s\<lparr>vlan_stp := t\<rparr>, w)
     else (ret_val, s, w))"

text \<open>The second loop: every attribute is set, the VLAN id as well, and each failure removes
  the VLAN and goes on.\<close>

fun vlan_create_set_attrs ::
  "('c, 'w, 'z) vlan_env_scheme \<Rightarrow> sai_vlan_id_t \<Rightarrow> sai_vlan_attr_t list \<Rightarrow> sai_status_t
     \<Rightarrow> 'c vlan_state \<Rightarrow> 'w \<Rightarrow> sai_status_t \<times> 'c vlan_state \<times> 'w" where
  "vlan_create_set_attrs E vlan_id [] ret_val s w = (ret_val, s, w)"
| "vlan_create_set_attrs E vlan_id (a # as) ret_val s w =
    (let (ret_val, s, w) =
           sai_l2_set_vlan_attribute E (sai_vlan_id_to_vlan_obj_id E vlan_id) a s w in
     if ret_val \<noteq> SAI_STATUS_SUCCESS
     then let (_, s, w) = sai_l2_remove_vlan E (sai_vlan_id_to_vlan_obj_id E vlan_id) s w
          in vlan_create_set_attrs E vlan_id as ret_val s w
     else vlan_create_set_attrs E vlan_id as ret_val s w)"

text \<open>The second component is \<open>*vlan_obj_id\<close>, \<open>None\<close> when it is not written.\<close>

definition sai_l2_create_vlan ::
  "('c, 'w, 'z) vlan_env_scheme \<Rightarrow> sai_vlan_attr_t list \<Rightarrow> 'c vlan_state \<Rightarrow> 'w
     \<Rightarrow> sai_status_t \<times> sai_object_id_t option \<times> 'c vlan_state \<times> 'w" where
  "sai_l2_create_vlan E attr_list s w =
    (if attr_list = [] then (SAI_STATUS_MANDATORY_ATTRIBUTE_MISSING, None, s, w)
     else case vlan_create_id attr_list of
       None \<Rightarrow> (SAI_STATUS_MANDATORY_ATTRIBUTE_MISSING, None, s, w)
     | Some vlan_id \<Rightarrow>
         let (ret_val, s, w) = vlan_create_body E vlan_id (sai_vlan_lock s) w;
             s = sai_vlan_unlock s;
             (ret_val, s, w) =
               (if length attr_list > 1 then vlan_create_set_attrs E vlan_id attr_list ret_val s w
                else (ret_val, s, w))
         in (ret_val,
             Some (if ret_val = SAI_STATUS_SUCCESS then sai_vlan_id_to_vlan_obj_id E vlan_id
                   else SAI_NULL_OBJECT_ID), s, w))"

section \<open>Statistics\<close>

definition sai_l2_get_vlan_stats ::
  "('c, 'w, 'z) vlan_env_scheme \<Rightarrow> sai_object_id_t \<Rightarrow> nat list \<Rightarrow> (64 word) list \<Rightarrow> 'w
     \<Rightarrow> sai_status_t \<times> (64 word) list \<times> 'w" where
  "sai_l2_get_vlan_stats E vlan_obj_id counter_ids counters w =
    (if \<not> sai_is_obj_id E SAI_OBJECT_TYPE_VLAN vlan_obj_id
     then (SAI_STATUS_INVALID_OBJECT_ID, counters, w)
     else let vlan_id = sai_vlan_obj_id_to_vlan_id E vlan_obj_id in
       if \<not> sai_is_valid_vlan_id E vlan_id then (SAI_STATUS_INVALID_VLAN_ID, counters, w)
     else npu_get_vlan_stats E vlan_id counter_ids w)"

definition sai_l2_clear_vlan_stats ::
  "('c, 'w, 'z) vlan_env_scheme \<Rightarrow> sai_object_id_t \<Rightarrow> nat list \<Rightarrow> 'w \<Rightarrow> sai_status_t \<times> 'w" where
  "sai_l2_clear_vlan_stats E vlan_obj_id counter_ids w =
    (if \<not> sai_is_obj_id E SAI_OBJECT_TYPE_VLAN vlan_obj_id
     then (SAI_STATUS_INVALID_OBJECT_ID, w)
     else let vlan_id = sai_vlan_obj_id_to_vlan_id E vlan_obj_id in
       if \<not> sai_is_valid_vlan_id E vlan_id then (SAI_STATUS_INVALID_VLAN_ID, w)
     else npu_clear_vlan_stats E vlan_id counter_ids w)"

end
