(* ===== verification/Vlan_Members.thy ===== *)
theory Vlan_Members
  imports Vlan_Model
begin

text \<open>
  The second half of \<open>src/switching/sai_vlan.c\<close>: VLAN members, the notification that follows
  ports as they come and go, and the initialisation of the default VLAN.
\<close>

section \<open>Creating a member\<close>

definition sai_validate_vlan_port ::
  "('c, 'w, 'z) vlan_env_scheme \<Rightarrow> sai_object_id_t \<Rightarrow> sai_vlan_tagging_mode_t \<Rightarrow> 'w \<Rightarrow> sai_status_t" where
  "sai_validate_vlan_port E port mode w =
    (if \<not> sai_is_obj_id E SAI_OBJECT_TYPE_PORT port then SAI_STATUS_INVALID_OBJECT_TYPE
     else if \<not> sai_is_port_valid E w port then SAI_STATUS_INVALID_OBJECT_ID
     else if \<not> sai_is_valid_vlan_tagging_mode E mode then SAI_STATUS_INVALID_PARAMETER
     else SAI_STATUS_SUCCESS)"

text \<open>The attribute loop of \<open>sai_l2_create_vlan_member\<close>.  The accumulator holds the VLAN object,
  the port and the tagging mode; \<open>None\<close> while absent.\<close>

type_synonym vlan_member_acc =
  "sai_object_id_t option \<times> sai_object_id_t option \<times> sai_vlan_tagging_mode_t"

definition vlan_member_accept ::
  "('c, 'w, 'z) vlan_env_scheme \<Rightarrow> nat \<Rightarrow> sai_vlan_member_attr_t \<Rightarrow> vlan_member_acc
     \<Rightarrow> sai_status_t + vlan_member_acc" where
  "vlan_member_accept E attr_idx a acc =
    (let (vlan, port, mode) = acc in
     case a of
       SAI_VLAN_MEMBER_ATTR_VLAN_ID oid \<Rightarrow>
         if \<not> sai_is_obj_id E SAI_OBJECT_TYPE_VLAN oid then Inl SAI_STATUS_INVALID_OBJECT_ID
         else Inr (Some oid, port, mode)
     | SAI_VLAN_MEMBER_ATTR_PORT_ID oid \<Rightarrow> Inr (vlan, Some oid, mode)
     | SAI_VLAN_MEMBER_ATTR_VLAN_TAGGING_MODE m \<Rightarrow> Inr (vlan, port, m)
     | SAI_VLAN_MEMBER_ATTR_UNKNOWN _ \<Rightarrow> Inl (SAI_STATUS_UNKNOWN_ATTRIBUTE 0))"

fun vlan_member_parse ::
  "('c, 'w, 'z) vlan_env_scheme \<Rightarrow> nat \<Rightarrow> sai_vlan_member_attr_t list \<Rightarrow> vlan_member_acc
     \<Rightarrow> sai_status_t + vlan_member_acc" where
  "vlan_member_parse E attr_idx [] acc = Inr acc"
| "vlan_member_parse E attr_idx (a # as) acc =
    (case vlan_member_accept E attr_idx a acc of
       Inl rc \<Rightarrow> Inl rc | Inr acc \<Rightarrow> vlan_member_parse E (Suc attr_idx) as acc)"

text \<open>Under the lock.  The second component is \<open>*vlan_member_id\<close>, which stays the id of the
  plug-in when the node cannot be added to the cache.\<close>

definition vlan_member_create_body ::
  "('c, 'w, 'z) vlan_env_scheme \<Rightarrow> sai_vlan_id_t \<Rightarrow> sai_vlan_member_node_t \<Rightarrow> 'c vlan_state \<Rightarrow> 'w
     \<Rightarrow> sai_status_t \<times> sai_object_id_t \<times> 'c vlan_state \<times> 'w" where
  "vlan_member_create_body E vlan_id node s w =
    (let ret_val = sai_is_vlan_configurable E vlan_id s w in
     if ret_val \<noteq> SAI_STATUS_SUCCESS then (ret_val, SAI_INVALID_VLAN_MEMBER_ID E, s, w)
     else let ret_val = sai_validate_vlan_port E (member_port_id node) (tagging_mode node) w in
       if ret_val \<noteq> SAI_STATUS_SUCCESS then (ret_val, SAI_INVALID_VLAN_MEMBER_ID E, s, w)
     else if sai_is_port_vlan_member E (vlan_cache s) vlan_id (member_port_id node)
     then (SAI_STATUS_ITEM_ALREADY_EXISTS, SAI_INVALID_VLAN_MEMBER_ID E, s, w)
     else let (ret_val, mid, w) = npu_vlan_member_create E node w in
       if ret_val \<noteq> SAI_STATUS_SUCCESS then (ret_val, SAI_INVALID_VLAN_MEMBER_ID E, s, w)
     else let node = node\<lparr>vlan_member_id := mid\<rparr>;
              (ret_val, c) = sai_add_vlan_member_node E node (vlan_cache s);
              s = s\<lparr>vlan_cache := c\<rparr> in
       if ret_val \<noteq> SAI_STATUS_SUCCESS
       then let (_, w) = npu_vlan_member_remove E node w in (ret_val, mid, s, w)
     else (ret_val, mid, s, w))"

definition sai_l2_create_vlan_member ::
  "('c, 'w, 'z) vlan_env_scheme \<Rightarrow> sai_object_id_t \<Rightarrow> sai_vlan_member_attr_t list \<Rightarrow> 'c vlan_state
     \<Rightarrow> 'w \<Rightarrow> sai_status_t \<times> sai_object_id_t \<times> 'c vlan_state \<times> 'w" where
  "sai_l2_create_vlan_member E switch_id attr_list s w =
    (if attr_list = []
     then (SAI_STATUS_MANDATORY_ATTRIBUTE_MISSING, SAI_INVALID_VLAN_MEMBER_ID E, s, w)
     else case vlan_member_parse E 0 attr_list (None, None, SAI_VLAN_TAGGING_MODE_UNTAGGED E) of
       Inl rc \<Rightarrow> (rc, SAI_INVALID_VLAN_MEMBER_ID E, s, w)
     | Inr (Some vlan, Some port, mode) \<Rightarrow>
         (let (rc, mid, s, w) = vlan_member_create_body E (sai_vlan_obj_id_to_vlan_id E vlan)
                \<lparr>vlan_member_id = 0, member_switch_id = switch_id, member_vlan_id = vlan,
                 member_port_id = port, tagging_mode = mode\<rparr> (sai_vlan_lock s) w
          in (rc, mid, sai_vlan_unlock s, w))
     | Inr _ \<Rightarrow>
         (SAI_STATUS_MANDATORY_ATTRIBUTE_MISSING, SAI_INVALID_VLAN_MEMBER_ID E, s, w))"

section \<open>Member attributes\<close>

text \<open>The node is found in the cache and written through its pointer.\<close>

definition sai_l2_set_vlan_member_attribute ::
  "('c, 'w, 'z) vlan_env_scheme \<Rightarrow> sai_object_id_t \<Rightarrow> sai_vlan_member_attr_t \<Rightarrow> 'c vlan_state
     \<Rightarrow> 'w \<Rightarrow> sai_status_t \<times> 'c vlan_state \<times> 'w" where
  "sai_l2_set_vlan_member_attribute E mid attr s w =
    (if \<not> sai_is_obj_id E SAI_OBJECT_TYPE_VLAN_MEMBER mid
     then (SAI_STATUS_INVALID_OBJECT_ID, s, w)
     else let s = sai_vlan_lock s;
              (ret_val, s, w) =
       (case sai_find_vlan_member_node E (vlan_cache s) mid of
          None \<Rightarrow> (SAI_STATUS_ITEM_NOT_FOUND, s, w)
        | Some node \<Rightarrow>
          (case attr of
             SAI_VLAN_MEMBER_ATTR_VLAN_ID _ \<Rightarrow> (SAI_STATUS_INVALID_ATTRIBUTE 0, s, w)
           | SAI_VLAN_MEMBER_ATTR_PORT_ID _ \<Rightarrow> (SAI_STATUS_INVALID_ATTRIBUTE 0, s, w)
           | SAI_VLAN_MEMBER_ATTR_VLAN_TAGGING_MODE m \<Rightarrow>
               if tagging_mode node \<noteq> m
               then let old_tagging_mode = tagging_mode node;
                        node = node\<lparr>tagging_mode := m\<rparr>;
                        s = s\<lparr>vlan_cache := vlan_member_node_store E mid node (vlan_cache s)\<rparr>;
                        (ret_val, w) = npu_set_vlan_member_tagging_mode E node w in
                 if ret_val \<noteq> SAI_STATUS_SUCCESS
                 then (ret_val, s\<lparr>vlan_cache := vlan_member_node_store E mid
                                    (node\<lparr>tagging_mode := old_tagging_mode\<rparr>) (vlan_cache s)\<rparr>, w)
                 else (ret_val, s, w)
               else (SAI_STATUS_SUCCESS, s, w)
           | SAI_VLAN_MEMBER_ATTR_UNKNOWN _ \<Rightarrow> (SAI_STATUS_UNKNOWN_ATTRIBUTE 0, s, w)))
      in (ret_val, sai_vlan_unlock s, w))"

definition vlan_member_answer ::
  "sai_vlan_member_node_t \<Rightarrow> nat \<Rightarrow> sai_vlan_member_attr_t \<Rightarrow> sai_status_t \<times> sai_vlan_member_attr_t" where
  "vlan_member_answer node attr_idx a =
    (case a of
       SAI_VLAN_MEMBER_ATTR_VLAN_ID _ \<Rightarrow>
         (SAI_STATUS_SUCCESS, SAI_VLAN_MEMBER_ATTR_VLAN_ID (member_vlan_id node))
     | SAI_VLAN_MEMBER_ATTR_PORT_ID _ \<Rightarrow>
         (SAI_STATUS_SUCCESS, SAI_VLAN_MEMBER_ATTR_PORT_ID (member_port_id node))
     | SAI_VLAN_MEMBER_ATTR_VLAN_TAGGING_MODE _ \<Rightarrow>
         (SAI_STATUS_SUCCESS, SAI_VLAN_MEMBER_ATTR_VLAN_TAGGING_MODE (tagging_mode node))
     | SAI_VLAN_MEMBER_ATTR_UNKNOWN _ \<Rightarrow> (SAI_STATUS_UNKNOWN_ATTRIBUTE attr_idx, a))"

fun vlan_member_get_loop ::
  "sai_vlan_member_node_t \<Rightarrow> nat \<Rightarrow> sai_vlan_member_attr_t list
     \<Rightarrow> sai_status_t \<times> sai_vlan_member_attr_t list" where
  "vlan_member_get_loop node attr_idx [] = (SAI_STATUS_SUCCESS, [])"
| "vlan_member_get_loop node attr_idx (a # as) =
    (let (ret_val, a) = vlan_member_answer node attr_idx a in
     if ret_val \<noteq> SAI_STATUS_SUCCESS then (ret_val, a # as)
     else let (ret_val, as) = vlan_member_get_loop node (Suc attr_idx) as in (ret_val, a # as))"

definition sai_l2_get_vlan_member_attribute ::
  "('c, 'w, 'z) vlan_env_scheme \<Rightarrow> sai_object_id_t \<Rightarrow> sai_vlan_member_attr_t list \<Rightarrow> 'c vlan_state
     \<Rightarrow> sai_status_t \<times> sai_vlan_member_attr_t list \<times> 'c vlan_state" where
  "sai_l2_get_vlan_member_attribute E mid attr_list s =
    (if \<not> sai_is_obj_id E SAI_OBJECT_TYPE_VLAN_MEMBER mid
     then (SAI_STATUS_INVALID_OBJECT_ID, attr_list, s)
     else let s = sai_vlan_lock s;
              (ret_val, attr_list) =
                (case sai_find_vlan_member_node E (vlan_cache s) mid of
                   None \<Rightarrow> (SAI_STATUS_ITEM_NOT_FOUND, attr_list)
                 | Some node \<Rightarrow> vlan_member_get_loop node 0 attr_list)
          in (ret_val, attr_list, sai_vlan_unlock s))"

section \<open>Removing a member\<close>

definition sai_l2_remove_vlan_member ::
  "('c, 'w, 'z) vlan_env_scheme \<Rightarrow> sai_object_id_t \<Rightarrow> 'c vlan_state \<Rightarrow> 'w
     \<Rightarrow> sai_status_t \<times> 'c vlan_state \<times> 'w" where
  "sai_l2_remove_vlan_member E mid s w =
    (if \<not> sai_is_obj_id E SAI_OBJECT_TYPE_VLAN_MEMBER mid
     then (SAI_STATUS_INVALID_OBJECT_ID, s, w)
     else let s = sai_vlan_lock s;
              (ret_val, s, w) =
       (case sai_find_vlan_member_node E (vlan_cache s) mid of
          None \<Rightarrow> (SAI_STATUS_ITEM_NOT_FOUND, s, w)
        | Some node \<Rightarrow>
          let (ret_val, w) = npu_vlan_member_remove E node w in
          if ret_val \<noteq> SAI_STATUS_SUCCESS then (ret_val, s, w)
          else let (ret_val, c) = sai_remove_vlan_member_node E node (vlan_cache s)
               in (ret_val, s\<lparr>vlan_cache := c\<rparr>, w))
      in (ret_val, sai_vlan_unlock s, w))"

section \<open>Ports and the default VLAN\<close>

definition sai_vlan_port_default_init ::
  "('c, 'w, 'z) vlan_env_scheme \<Rightarrow> sai_vlan_id_t \<Rightarrow> sai_object_id_t \<Rightarrow> 'c vlan_state \<Rightarrow> 'w
     \<Rightarrow> sai_status_t \<times> 'c vlan_state \<times> 'w" where
  "sai_vlan_port_default_init E vlan_id port s w =
    (let (ret_val, mid, s, w) = sai_l2_create_vlan_member E 0
           [SAI_VLAN_MEMBER_ATTR_VLAN_ID (sai_vlan_id_to_vlan_obj_id E vlan_id),
            SAI_VLAN_MEMBER_ATTR_PORT_ID port,
            SAI_VLAN_MEMBER_ATTR_VLAN_TAGGING_MODE (SAI_DEF_VLAN_TAGGING_MODE E)] s w in
     if ret_val \<noteq> SAI_STATUS_SUCCESS \<and> ret_val \<noteq> SAI_STATUS_ITEM_ALREADY_EXISTS
     then (ret_val, s, w)
     else let (ret_val, w) = set_port_attribute E port (SAI_PORT_ATTR_PORT_VLAN_ID vlan_id) w in
       if ret_val \<noteq> SAI_STATUS_SUCCESS
       then let (_, s, w) = sai_l2_remove_vlan_member E mid s w in (ret_val, s, w)
     else let (ret_val, w) = set_port_attribute E port
                (SAI_PORT_ATTR_DEFAULT_VLAN_PRIORITY (SAI_DFLT_VLAN_PRIORITY E)) w in
       if ret_val \<noteq> SAI_STATUS_SUCCESS then (ret_val, s, w)
     else (SAI_STATUS_SUCCESS, s, w))"

text \<open>One notification per element of \<open>data\<close>; errors are logged and the loop goes on.\<close>

fun vlan_port_notification_loop ::
  "('c, 'w, 'z) vlan_env_scheme \<Rightarrow> (sai_object_id_t \<times> sai_port_event_t) list \<Rightarrow> 'c vlan_state
     \<Rightarrow> 'w \<Rightarrow> 'c vlan_state \<times> 'w" where
  "vlan_port_notification_loop E [] s w = (s, w)"
| "vlan_port_notification_loop E ((port, event) # data) s w =
    (let (s, w) =
      (case event of
         SAI_PORT_EVENT_ADD \<Rightarrow>
           let (_, s, w) = sai_vlan_port_default_init E SAI_INIT_DEFAULT_VLAN port s w in (s, w)
       | SAI_PORT_EVENT_DELETE \<Rightarrow>
           (case sai_find_vlan_member_node_from_port E (vlan_cache s) SAI_INIT_DEFAULT_VLAN port of
              None \<Rightarrow> (s, w)
            | Some node \<Rightarrow>
                let (_, s, w) = sai_l2_remove_vlan_member E (vlan_member_id node) s w in (s, w))
       | SAI_PORT_EVENT_OTHER _ \<Rightarrow> (s, w))
     in vlan_port_notification_loop E data s w)"

definition sai_vlan_port_notification_handler ::
  "('c, 'w, 'z) vlan_env_scheme \<Rightarrow> (sai_object_id_t \<times> sai_port_event_t) list \<Rightarrow> 'c vlan_state
     \<Rightarrow> 'w \<Rightarrow> sai_status_t \<times> 'c vlan_state \<times> 'w" where
  "sai_vlan_port_notification_handler E data s w =
    (let (s, w) = vlan_port_notification_loop E data s w in (SAI_STATUS_SUCCESS, s, w))"

fun vlan_remove_members ::
  "('c, 'w, 'z) vlan_env_scheme \<Rightarrow> sai_object_id_t list \<Rightarrow> 'c vlan_state \<Rightarrow> 'w
     \<Rightarrow> bool \<times> 'c vlan_state \<times> 'w" where
  "vlan_remove_members E [] s w = (True, s, w)"
| "vlan_remove_members E (mid # mids) s w =
    (let (ret_val, s, w) = sai_l2_remove_vlan_member E mid s w;
         (ok, s, w) = vlan_remove_members E mids s w
     in (ret_val = SAI_STATUS_SUCCESS \<and> ok, s, w))"

text \<open>The code or-s the statuses, which is zero exactly when each of them is; the model returns
  that as \<open>Some ok\<close>, and \<open>None\<close> for \<open>SAI_STATUS_NO_MEMORY\<close>.\<close>

definition sai_default_vlan_init_clean_up ::
  "('c, 'w, 'z) vlan_env_scheme \<Rightarrow> sai_vlan_id_t \<Rightarrow> 'c vlan_state \<Rightarrow> 'w
     \<Rightarrow> bool option \<times> 'c vlan_state \<times> 'w" where
  "sai_default_vlan_init_clean_up E vlan_id s w =
    (let num_ports = sai_switch_get_max_lport E w;
         (ok, w) = calloc_ok E w in
     if \<not> ok then (None, s, w)
     else let (_, ol) = sai_vlan_port_list_get E (vlan_cache s) vlan_id
                \<lparr>ol_count = num_ports, ol_list = replicate (unat num_ports) 0\<rparr>;
              (ok, s, w) = vlan_remove_members E (take (unat (ol_count ol)) (ol_list ol)) s w
          in (Some ok, s, w))"

fun vlan_default_init_ports ::
  "('c, 'w, 'z) vlan_env_scheme \<Rightarrow> sai_vlan_id_t \<Rightarrow> (sai_object_id_t \<times> bool) list \<Rightarrow> 'c vlan_state
     \<Rightarrow> 'w \<Rightarrow> sai_status_t \<times> 'c vlan_state \<times> 'w" where
  "vlan_default_init_ports E vlan_id [] s w = (SAI_STATUS_SUCCESS, s, w)"
| "vlan_default_init_ports E vlan_id ((port, port_valid) # ports) s w =
    (if \<not> port_valid then vlan_default_init_ports E vlan_id ports s w
     else let (ret_val, s, w) = sai_vlan_port_default_init E vlan_id port s w in
       if ret_val \<noteq> SAI_STATUS_SUCCESS
       then let (_, s, w) = sai_default_vlan_init_clean_up E vlan_id s w in (ret_val, s, w)
       else vlan_default_init_ports E vlan_id ports s w)"

definition sai_l2_default_vlan_init ::
  "('c, 'w, 'z) vlan_env_scheme \<Rightarrow> sai_vlan_id_t \<Rightarrow> 'c vlan_state \<Rightarrow> 'w
     \<Rightarrow> sai_status_t \<times> 'c vlan_state \<times> 'w" where
  "sai_l2_default_vlan_init E vlan_id s w =
    (let (ret_val, _, s, w) = sai_l2_create_vlan E [SAI_VLAN_ATTR_VLAN_ID vlan_id] s w in
     if ret_val \<noteq> SAI_STATUS_SUCCESS \<and> ret_val \<noteq> SAI_STATUS_ITEM_ALREADY_EXISTS
     then (ret_val, s, w)
     else vlan_default_init_ports E vlan_id (sai_port_infos E w) s w)"

definition sai_vlan_init ::
  "('c, 'w, 'z) vlan_env_scheme \<Rightarrow> 'c vlan_state \<Rightarrow> 'w \<Rightarrow> sai_status_t \<times> 'c vlan_state \<times> 'w" where
  "sai_vlan_init E s w =
    (let (ret_val, c) = sai_vlan_cache_init E (vlan_cache s);
         s = s\<lparr>vlan_cache := c\<rparr> in
     if ret_val \<noteq> SAI_STATUS_SUCCESS then (ret_val, s, w)
     else let (ret_val, w) = npu_vlan_init E w in
       if ret_val \<noteq> SAI_STATUS_SUCCESS then (ret_val, s, w)
     else let (ret_val, s, w) = sai_l2_default_vlan_init E SAI_INIT_DEFAULT_VLAN s w in
       if ret_val \<noteq> SAI_STATUS_SUCCESS then (ret_val, s, w)
     else let (ret_val, w) = sai_port_event_notif_register E w in
       if ret_val \<noteq> SAI_STATUS_SUCCESS then (ret_val, s, w)
     else (SAI_STATUS_SUCCESS, s, w))"

section \<open>Bulk calls\<close>

definition sai_l2_bulk_create_vlan_member :: sai_status_t where
  "sai_l2_bulk_create_vlan_member = SAI_STATUS_NOT_SUPPORTED"

definition sai_l2_bulk_remove_vlan_member :: sai_status_t where
  "sai_l2_bulk_remove_vlan_member = SAI_STATUS_NOT_SUPPORTED"

end
