(* ===== verification/Stp_Service.thy ===== *)
theory Stp_Service
  imports Stp_Theorems
begin

text \<open>
  What the VLAN component relies on when it calls the spanning-tree component: three calls that
  attach and detach a VLAN.  \<open>member s i v\<close> says that instance \<open>i\<close> has VLAN \<open>v\<close>, \<open>ok\<close> is
  the provider's invariant.
\<close>

locale vlan_stp_service =
  fixes ok :: "'s \<Rightarrow> bool"
    and member :: "'s \<Rightarrow> 'i \<Rightarrow> 'v \<Rightarrow> bool"
    and default :: "'s \<Rightarrow> 'i"
    and destroy :: "'v \<Rightarrow> 's \<Rightarrow> 'w \<Rightarrow> sai_status_t \<times> 's \<times> 'w"
    and update :: "'v \<Rightarrow> 's \<Rightarrow> 'w \<Rightarrow> sai_status_t \<times> 's \<times> 'w"
    and handle :: "'v \<Rightarrow> 'i \<Rightarrow> 's \<Rightarrow> 'w \<Rightarrow> sai_status_t \<times> 's \<times> 'w"
  assumes destroy_ok: "ok s \<Longrightarrow> destroy v s w = (rc, s', w') \<Longrightarrow> ok s'"
    and update_ok: "ok s \<Longrightarrow> update v s w = (rc, s', w') \<Longrightarrow> ok s'"
    and handle_ok: "ok s \<Longrightarrow> handle v i s w = (rc, s', w') \<Longrightarrow> ok s'"
    and destroy_member: "ok s \<Longrightarrow> destroy v s w = (rc, s', w') \<Longrightarrow>
      (if rc = SAI_STATUS_SUCCESS then \<not> member s' j v else s' = s)"
    and update_member: "ok s \<Longrightarrow> update v s w = (rc, s', w') \<Longrightarrow>
      (if rc = SAI_STATUS_SUCCESS then member s' j v \<longleftrightarrow> j = default s
       else s' = s \<or> (\<forall>j. \<not> member s' j v))"
    and handle_member: "ok s \<Longrightarrow> handle v i s w = (rc, s', w') \<Longrightarrow>
      (if rc = SAI_STATUS_SUCCESS then member s' j v \<longleftrightarrow> j = i
       else s' = s \<or> (\<forall>j. \<not> member s' j v))"
    and destroy_frame: "ok s \<Longrightarrow> destroy v s w = (rc, s', w') \<Longrightarrow>
      default s' = default s \<and> (u \<noteq> v \<longrightarrow> member s' j u = member s j u)"
    and update_frame: "ok s \<Longrightarrow> update v s w = (rc, s', w') \<Longrightarrow>
      default s' = default s \<and> (u \<noteq> v \<longrightarrow> member s' j u = member s j u)"
    and handle_frame: "ok s \<Longrightarrow> handle v i s w = (rc, s', w') \<Longrightarrow>
      default s' = default s \<and> (u \<noteq> v \<longrightarrow> member s' j u = member s j u)"
begin

text \<open>A set of VLANs that covers the attached ones still covers them, with \<open>v\<close> added when
  \<open>v\<close> is moved and with \<open>v\<close> taken out when \<open>v\<close> is destroyed.\<close>

lemma update_cover:
  assumes "ok s" "update v s w = (rc, s', w')" "\<And>j u. member s j u \<Longrightarrow> u \<in> V"
  shows "member s' j u \<Longrightarrow> u \<in> insert v V"
  using update_frame [OF assms(1,2), of u j] assms(3) [of j u] by (cases "u = v") auto

lemma handle_cover:
  assumes "ok s" "handle v i s w = (rc, s', w')" "\<And>j u. member s j u \<Longrightarrow> u \<in> V"
  shows "member s' j u \<Longrightarrow> u \<in> insert v V"
  using handle_frame [OF assms(1,2), of u j] assms(3) [of j u] by (cases "u = v") auto

lemma destroy_cover:
  assumes "ok s" "destroy v s w = (rc, s', w')" "\<And>j u. member s j u \<Longrightarrow> u \<in> V"
  shows "member s' j u \<Longrightarrow> u \<in> (if rc = SAI_STATUS_SUCCESS then V - {v} else V)"
  using destroy_frame [OF assms(1,2), of u j] destroy_member [OF assms(1,2), of j] assms(3) [of j u]
  by (cases "u = v") (auto split: if_splits)

end

section \<open>The spanning-tree component provides the service\<close>

definition stp_service_ok :: "('w, 'z) stp_env_scheme \<Rightarrow> stp_state \<Rightarrow> bool" where
  "stp_service_ok E s \<longleftrightarrow> refuses_duplicates E \<and> stp_inv E s"

lemma stp_destroy_member:
  assumes "stp_service_ok E s" "sai_stp_vlan_destroy E v s w = (rc, s', w')"
  shows "(if rc = SAI_STATUS_SUCCESS then \<not> stp_vlan_member s' j v else s' = s) \<and>
    g_def_stp_id s' = g_def_stp_id s \<and> (u \<noteq> v \<longrightarrow> stp_vlan_member s' j u = stp_vlan_member s j u)"
proof -
  have inv: "stp_inv E s" using assms(1) by (simp add: stp_service_ok_def)
  from assms(2) inv show ?thesis
  proof (cases rule: stp_vlan_destroy_cases)
    case (detached s1)
    then have "sai_stp_vlan_destroy E v s w = (SAI_STATUS_SUCCESS, s', w')" using assms(2) by simp
    from stp_destroy_free [OF this inv] detached(1) show ?thesis by auto
  qed simp
qed

lemma stp_update_member:
  assumes "stp_service_ok E s" "sai_stp_default_stp_vlan_update E v s w = (rc, s', w')"
  shows "(if rc = SAI_STATUS_SUCCESS then stp_vlan_member s' j v \<longleftrightarrow> j = g_def_stp_id s
       else s' = s \<or> (\<forall>j. \<not> stp_vlan_member s' j v)) \<and>
    g_def_stp_id s' = g_def_stp_id s \<and> (u \<noteq> v \<longrightarrow> stp_vlan_member s' j u = stp_vlan_member s j u)"
proof -
  have inv: "stp_inv E s" and dup: "refuses_duplicates E"
    using assms(1) by (simp_all add: stp_service_ok_def)
  from assms(2) inv dup show ?thesis
  proof (cases rule: stp_default_update_cases)
    case (attached s1 w1 s2)
    note a = stp_vlan_add_member(1,2,3) [OF attached(6,2) dup]
    show ?thesis using attached a by simp
  qed auto
qed

lemma stp_handle_member:
  assumes "stp_service_ok E s" "sai_stp_vlan_handle E v i s w = (rc, s', w')"
  shows "(if rc = SAI_STATUS_SUCCESS then stp_vlan_member s' j v \<longleftrightarrow> j = i
       else s' = s \<or> (\<forall>j. \<not> stp_vlan_member s' j v)) \<and>
    g_def_stp_id s' = g_def_stp_id s \<and> (u \<noteq> v \<longrightarrow> stp_vlan_member s' j u = stp_vlan_member s j u)"
proof -
  have inv: "stp_inv E s" and dup: "refuses_duplicates E"
    using assms(1) by (simp_all add: stp_service_ok_def)
  from assms(2) inv dup show ?thesis
  proof (cases rule: stp_vlan_handle_cases)
    case (moved s1 w1 s2)
    note r = stp_vlan_remove_member [OF moved(2) inv]
    note a = stp_vlan_add_member(1,2,3) [OF moved(3) r(5) dup]
    show ?thesis using moved r(2,4) a by auto
  next
    case (lost w1)
    note r = stp_vlan_remove_member [OF lost(2) inv]
    show ?thesis using lost r(2,4) by auto
  qed auto
qed

interpretation stp_vlan: vlan_stp_service "stp_service_ok E" stp_vlan_member g_def_stp_id
  "sai_stp_vlan_destroy E" "sai_stp_default_stp_vlan_update E" "sai_stp_vlan_handle E" for E
proof unfold_locales
  fix s s' :: stp_state and v u i j w rc w'
  assume ok: "stp_service_ok E s"
  {
    assume r: "sai_stp_vlan_destroy E v s w = (rc, s', w')"
    show "stp_service_ok E s'" using stp_vlan_destroy_inv [OF r, of E] ok by (simp add: stp_service_ok_def)
    from stp_destroy_member [OF ok r, of j u]
    show "if rc = SAI_STATUS_SUCCESS then \<not> stp_vlan_member s' j v else s' = s"
      and "g_def_stp_id s' = g_def_stp_id s \<and> (u \<noteq> v \<longrightarrow> stp_vlan_member s' j u = stp_vlan_member s j u)"
      by blast+
  next
    assume r: "sai_stp_default_stp_vlan_update E v s w = (rc, s', w')"
    show "stp_service_ok E s'" using stp_default_update_inv [OF r, of E] ok by (simp add: stp_service_ok_def)
    from stp_update_member [OF ok r, of j u]
    show "if rc = SAI_STATUS_SUCCESS then stp_vlan_member s' j v = (j = g_def_stp_id s)
          else s' = s \<or> (\<forall>j. \<not> stp_vlan_member s' j v)"
      and "g_def_stp_id s' = g_def_stp_id s \<and> (u \<noteq> v \<longrightarrow> stp_vlan_member s' j u = stp_vlan_member s j u)"
      by blast+
  next
    assume r: "sai_stp_vlan_handle E v i s w = (rc, s', w')"
    show "stp_service_ok E s'" using stp_vlan_handle_inv [OF r, of E] ok by (simp add: stp_service_ok_def)
    from stp_handle_member [OF ok r, of j u]
    show "if rc = SAI_STATUS_SUCCESS then stp_vlan_member s' j v = (j = i)
          else s' = s \<or> (\<forall>j. \<not> stp_vlan_member s' j v)"
      and "g_def_stp_id s' = g_def_stp_id s \<and> (u \<noteq> v \<longrightarrow> stp_vlan_member s' j u = stp_vlan_member s j u)"
      by blast+
  }
qed

end
