(* ===== verification/Sai_Loops.thy ===== *)
theory Sai_Loops
  imports Sai_Prelude
begin

text \<open>
  The two loops over an attribute list that every component has, and sequences of calls, as
  interfaces.

  \<^item> \<open>attribute_loop\<close>: a get loop answers the attributes in order and stops at the first one
    that it cannot answer, leaving the rest of the list as the caller wrote it;
  \<^item> \<open>call_refinement\<close>: the calls of a component implement partial functions on what they keep;
  \<^item> \<open>attribute_parse\<close>: a create loop folds the attributes into an accumulator and stops at
    the first one that is not acceptable, whose index the status carries.
\<close>

section \<open>Get loops\<close>

text \<open>\<open>answer_all\<close> answers a list of attributes that can all be answered.\<close>

fun answer_all ::
  "(nat \<Rightarrow> 'a \<Rightarrow> 'w \<Rightarrow> sai_status_t \<times> 'a \<times> 'w) \<Rightarrow> nat \<Rightarrow> 'a list \<Rightarrow> 'w \<Rightarrow> ('a list \<times> 'w) option" where
  "answer_all ans i [] w = Some ([], w)"
| "answer_all ans i (a # as) w =
    (let (rc, a', w') = ans i a w in
     if rc \<noteq> SAI_STATUS_SUCCESS then None
     else map_option (\<lambda>(as', w''). (a' # as', w'')) (answer_all ans (Suc i) as w'))"

lemma answer_all_length: "answer_all ans i as w = Some (as', w') \<Longrightarrow> length as' = length as"
  by (induction as arbitrary: i w as') (auto simp: Let_def split: prod.splits if_splits)

lemma answer_all_map:
  "(\<And>i a w. a \<in> set as \<Longrightarrow> ans i a w = (SAI_STATUS_SUCCESS, f a, w)) \<Longrightarrow>
     answer_all ans i as w = Some (map f as, w)"
  by (induction as arbitrary: i) simp_all

text \<open>\<open>report\<close> turns the status of the attribute at an index into the status of the call.\<close>

locale attribute_loop =
  fixes answer :: "nat \<Rightarrow> 'a \<Rightarrow> 'w \<Rightarrow> sai_status_t \<times> 'a \<times> 'w"
    and report :: "nat \<Rightarrow> sai_status_t \<Rightarrow> sai_status_t"
    and loop :: "nat \<Rightarrow> 'a list \<Rightarrow> 'w \<Rightarrow> sai_status_t \<times> 'a list \<times> 'w"
  assumes loop_Nil: "loop i [] w = (SAI_STATUS_SUCCESS, [], w)"
    and loop_Cons: "loop i (a # as) w =
      (let (rc, a', w') = answer i a w in
       if rc \<noteq> SAI_STATUS_SUCCESS then (report i rc, a' # as, w')
       else let (rc', as', w'') = loop (Suc i) as w' in (rc', a' # as', w''))"
begin

lemma loop_length: "loop i as w = (rc, as', w') \<Longrightarrow> length as' = length as"
  by (induction as arbitrary: i w rc as' w')
    (auto simp: loop_Nil loop_Cons Let_def split: prod.splits if_splits)

lemma loop_answered:
  "answer_all answer i as w = Some (as', w') \<Longrightarrow> loop i as w = (SAI_STATUS_SUCCESS, as', w')"
  by (induction as arbitrary: i w as')
    (auto simp: loop_Nil loop_Cons Let_def split: prod.splits if_splits)

lemma loop_stopped:
  assumes "answer_all answer i xs w = Some (xs', w1)"
    and "answer (i + length xs) a w1 = (rc, a', w')" "rc \<noteq> SAI_STATUS_SUCCESS"
  shows "loop i (xs @ a # ys) w = (report (i + length xs) rc, xs' @ a' # ys, w')"
  using assms
  by (induction xs arbitrary: i w xs')
    (auto simp: loop_Cons Let_def split: prod.splits if_splits)

text \<open>Either every attribute is answered, or there is a first one that is not.\<close>

lemma loop_cases:
  assumes "loop i as w = (rc, as', w')"
  obtains (answered) "rc = SAI_STATUS_SUCCESS" "answer_all answer i as w = Some (as', w')"
  | (stopped) xs a ys xs' a' w1 e where "as = xs @ a # ys" "as' = xs' @ a' # ys"
      "answer_all answer i xs w = Some (xs', w1)" "answer (i + length xs) a w1 = (e, a', w')"
      "e \<noteq> SAI_STATUS_SUCCESS" "rc = report (i + length xs) e"
proof -
  have "(\<exists>r. answer_all answer i as w = Some r) \<or> (\<exists>xs a ys xs' w1 e a' w2. as = xs @ a # ys \<and>
      answer_all answer i xs w = Some (xs', w1) \<and> answer (i + length xs) a w1 = (e, a', w2) \<and>
      e \<noteq> SAI_STATUS_SUCCESS)"
  proof (induction as arbitrary: i w)
    case (Cons a as)
    obtain r a1 w1 where an: "answer i a w = (r, a1, w1)" by (metis prod_cases3)
    show ?case
    proof (cases "r = SAI_STATUS_SUCCESS")
      case False
      have "a # as = [] @ a # as \<and> answer_all answer i [] w = Some ([], w) \<and>
          answer (i + length []) a w = (r, a1, w1) \<and> r \<noteq> SAI_STATUS_SUCCESS"
        using an False by simp
      then show ?thesis by blast
    next
      case True
      from Cons.IH [of "Suc i" w1] show ?thesis
      proof (elim disjE exE conjE)
        fix xs b ys xs' w2 e b' w3
        assume *: "as = xs @ b # ys" "answer_all answer (Suc i) xs w1 = Some (xs', w2)"
          "answer (Suc i + length xs) b w2 = (e, b', w3)" "e \<noteq> SAI_STATUS_SUCCESS"
        then have "a # as = (a # xs) @ b # ys \<and> answer_all answer i (a # xs) w = Some (a1 # xs', w2) \<and>
            answer (i + length (a # xs)) b w2 = (e, b', w3) \<and> e \<noteq> SAI_STATUS_SUCCESS"
          using an True by simp
        then show ?thesis by blast
      qed (simp add: an True)
    qed
  qed simp
  then show thesis
  proof (elim disjE exE conjE)
    fix r assume r: "answer_all answer i as w = Some r"
    then have "answer_all answer i as w = Some (as', w') \<and> rc = SAI_STATUS_SUCCESS"
      using loop_answered [of i as w "fst r" "snd r"] assms by auto
    then show thesis using that(1) by blast
  next
    fix xs a ys xs' w1 e a' w2
    assume *: "as = xs @ a # ys" "answer_all answer i xs w = Some (xs', w1)"
      "answer (i + length xs) a w1 = (e, a', w2)" "e \<noteq> SAI_STATUS_SUCCESS"
    from loop_stopped [OF *(2-4), of ys] assms * show thesis
      by (intro that(2) [of xs a ys xs' a' w1 e]) auto
  qed
qed

text \<open>When the answers do not depend on the position and have no effect, a loop whose
  attributes can all be answered maps the answer over the list.\<close>

lemma loop_map:
  assumes "\<And>i a w. a \<in> set as \<Longrightarrow> answer i a w = (SAI_STATUS_SUCCESS, f a, w)"
  shows "loop i as w = (SAI_STATUS_SUCCESS, map f as, w)"
  by (rule loop_answered) (rule answer_all_map, rule assms)

end

section \<open>Create loops\<close>

locale attribute_parse =
  fixes accept :: "nat \<Rightarrow> 'a \<Rightarrow> 'acc \<Rightarrow> sai_status_t + 'acc"
    and parse :: "nat \<Rightarrow> 'a list \<Rightarrow> 'acc \<Rightarrow> sai_status_t + 'acc"
  assumes parse_Nil: "parse i [] acc = Inr acc"
    and parse_Cons: "parse i (a # as) acc =
      (case accept i a acc of Inl rc \<Rightarrow> Inl rc | Inr acc' \<Rightarrow> parse (Suc i) as acc')"
begin

lemma parse_append:
  "parse i (xs @ ys) acc =
     (case parse i xs acc of Inl rc \<Rightarrow> Inl rc | Inr acc' \<Rightarrow> parse (i + length xs) ys acc')"
  by (induction xs arbitrary: i acc) (auto simp: parse_Nil parse_Cons split: sum.splits)

text \<open>A failing parse has a first attribute that is not acceptable, and reports its status.\<close>

lemma parse_Inl:
  assumes "parse i as acc = Inl rc"
  obtains xs a ys acc1 where "as = xs @ a # ys" "parse i xs acc = Inr acc1"
    "accept (i + length xs) a acc1 = Inl rc"
proof -
  have "\<exists>xs a ys acc1. as = xs @ a # ys \<and> parse i xs acc = Inr acc1 \<and>
      accept (i + length xs) a acc1 = Inl rc"
    using assms
  proof (induction as arbitrary: i acc)
    case (Cons a as)
    show ?case
    proof (cases "accept i a acc")
      case (Inl r)
      with Cons.prems have "a # as = [] @ a # as \<and> parse i [] acc = Inr acc \<and>
          accept (i + length []) a acc = Inl rc" by (simp add: parse_Cons parse_Nil)
      then show ?thesis by blast
    next
      case (Inr b)
      with Cons.prems have "parse (Suc i) as b = Inl rc" by (simp add: parse_Cons)
      from Cons.IH [OF this] obtain xs c ys acc1 where "as = xs @ c # ys"
        "parse (Suc i) xs b = Inr acc1" "accept (Suc i + length xs) c acc1 = Inl rc" by blast
      with Inr have "a # as = (a # xs) @ c # ys \<and> parse i (a # xs) acc = Inr acc1 \<and>
          accept (i + length (a # xs)) c acc1 = Inl rc" by (simp add: parse_Cons)
      then show ?thesis by blast
    qed
  qed (simp add: parse_Nil)
  then show thesis using that by blast
qed

text \<open>What every acceptable attribute establishes or keeps holds of the result.\<close>

lemma parse_invariant:
  assumes "parse i as acc = Inr acc'" and "P acc"
    and "\<And>i a b c. P b \<Longrightarrow> accept i a b = Inr c \<Longrightarrow> P c"
  shows "P acc'"
  using assms(1,2)
  by (induction as arbitrary: i acc) (auto simp: parse_Nil parse_Cons intro: assms(3) split: sum.splits)

text \<open>The same when what is kept depends on which attributes there are.\<close>

lemma parse_members:
  assumes "parse i as acc = Inr acc'" and "P acc"
    and "\<And>i a b c. a \<in> set as \<Longrightarrow> P b \<Longrightarrow> accept i a b = Inr c \<Longrightarrow> P c"
  shows "P acc'"
  using assms
proof (induction as arbitrary: i acc)
  case (Cons a as)
  then obtain b where b: "accept i a acc = Inr b" "parse (Suc i) as b = Inr acc'"
    by (auto simp: parse_Cons split: sum.splits)
  show ?case
  proof (rule Cons.IH [OF b(2)])
    show "P b" by (rule Cons.prems(3) [OF _ Cons.prems(2) b(1)]) simp
  qed (rule Cons.prems(3), auto)
qed (simp add: parse_Nil)

end

section \<open>Sequences of calls\<close>

fun run_all ::
  "('c \<Rightarrow> 's \<Rightarrow> 'w \<Rightarrow> sai_status_t \<times> 's \<times> 'w) \<Rightarrow> 'c list \<Rightarrow> 's \<Rightarrow> 'w
     \<Rightarrow> sai_status_t list \<times> 's \<times> 'w" where
  "run_all run [] s w = ([], s, w)"
| "run_all run (c # cs) s w =
    (let (rc, s, w) = run c s w; (rcs, s, w) = run_all run cs s w in (rc # rcs, s, w))"

text \<open>The specification of a sequence: the calls that succeed take effect, in their order, the
  others have none.\<close>

fun spec_all ::
  "('c \<Rightarrow> 'a \<Rightarrow> 'a option) \<Rightarrow> ('c \<times> sai_status_t) list \<Rightarrow> 'a \<Rightarrow> 'a option" where
  "spec_all spec [] a = Some a"
| "spec_all spec ((c, rc) # cs) a =
    (if rc = SAI_STATUS_SUCCESS then Option.bind (spec c a) (spec_all spec cs)
     else spec_all spec cs a)"

text \<open>\<open>context\<close> is what the specification reads and the calls do not change.\<close>

locale call_refinement =
  fixes run :: "'c \<Rightarrow> 's \<Rightarrow> 'w \<Rightarrow> sai_status_t \<times> 's \<times> 'w"
    and inv :: "'s \<Rightarrow> bool"
    and abs :: "'s \<Rightarrow> 'a"
    and ctxt :: "'s \<Rightarrow> 'k"
    and spec :: "'k \<Rightarrow> 'c \<Rightarrow> 'a \<Rightarrow> 'a option"
  assumes run_inv: "inv s \<Longrightarrow> run c s w = (rc, s', w') \<Longrightarrow> inv s' \<and> ctxt s' = ctxt s"
    and run_success: "inv s \<Longrightarrow> run c s w = (SAI_STATUS_SUCCESS, s', w') \<Longrightarrow>
      spec (ctxt s) c (abs s) = Some (abs s')"
    and run_failure: "inv s \<Longrightarrow> run c s w = (rc, s', w') \<Longrightarrow> rc \<noteq> SAI_STATUS_SUCCESS \<Longrightarrow>
      abs s' = abs s"
begin

lemma run_all_refines:
  "inv s \<Longrightarrow> run_all run cs s w = (rcs, s', w') \<Longrightarrow>
     inv s' \<and> length rcs = length cs
     \<and> spec_all (spec (ctxt s)) (zip cs rcs) (abs s) = Some (abs s')"
proof (induction cs arbitrary: s w rcs)
  case Nil
  then show ?case by simp
next
  case (Cons c cs)
  obtain rc s1 w1 where c: "run c s w = (rc, s1, w1)" by (metis prod_cases3)
  obtain rs s2 w2 where r: "run_all run cs s1 w1 = (rs, s2, w2)" by (metis prod_cases3)
  from Cons.prems(2) c r have e: "rcs = rc # rs" "s' = s2" "w' = w2" by auto
  have i: "inv s1" "ctxt s1 = ctxt s" using run_inv [OF Cons.prems(1) c] by auto
  from Cons.IH [OF i(1), of w1 rs] r e(2,3) have
    "inv s' \<and> length rs = length cs \<and> spec_all (spec (ctxt s)) (zip cs rs) (abs s1) = Some (abs s')"
    by (simp add: i(2))
  then show ?case
    using run_success [OF Cons.prems(1), of c w s1 w1] run_failure [OF Cons.prems(1) c] c
    by (cases "rc = SAI_STATUS_SUCCESS") (simp_all add: e)
qed

end

end
