(* ===== verification/Vlan_Props.thy ===== *)
theory Vlan_Props
  imports Vlan_Members Stp_Service Sai_Loops
begin

text \<open>
  Lemmas on the VLAN component: what it relies on of the cache, the effect of each operation,
  and the invariant that ties the VLAN cache to the spanning-tree instances.
\<close>

section \<open>The cache\<close>

text \<open>The laws of the VLAN cache: the list of VLANs refuses a VLAN it holds, a call that fails
  changes nothing, a call on one part leaves the others, and a node written through its pointer
  is the node that is found; writing the old node back restores the cache.\<close>

definition vlan_list_laws :: "('c, 'w, 'z) vlan_env_scheme \<Rightarrow> bool" where
  "vlan_list_laws E \<longleftrightarrow>
     (\<forall>v c rc c'. sai_insert_vlan_in_list E v c = (rc, c') \<longrightarrow>
        (if rc = SAI_STATUS_SUCCESS
         then \<not> sai_is_vlan_created E c v
              \<and> sai_is_vlan_created E c' = (sai_is_vlan_created E c)(v := True)
         else c' = c))
     \<and> (\<forall>v c. sai_is_vlan_created E (sai_remove_vlan_from_list E v c)
                = (sai_is_vlan_created E c)(v := False))
     \<and> (\<forall>v n c. sai_is_vlan_created E (sai_vlan_max_learn_adddress_cache_write E v n c)
                = sai_is_vlan_created E c)
     \<and> (\<forall>v b c. sai_is_vlan_created E (sai_vlan_learn_disable_cache_write E v b c)
                = sai_is_vlan_created E c)
     \<and> (\<forall>v n c. sai_is_vlan_created E (sai_vlan_meta_data_cache_write E v n c)
                = sai_is_vlan_created E c)"

definition vlan_member_laws :: "('c, 'w, 'z) vlan_env_scheme \<Rightarrow> bool" where
  "vlan_member_laws E \<longleftrightarrow>
     (\<forall>n c rc c'. sai_add_vlan_member_node E n c = (rc, c') \<longrightarrow>
        sai_is_vlan_created E c' = sai_is_vlan_created E c
        \<and> (if rc = SAI_STATUS_SUCCESS
           then sai_find_vlan_member_node E c'
                  = (sai_find_vlan_member_node E c)(vlan_member_id n \<mapsto> n)
           else c' = c))
     \<and> (\<forall>n c rc c'. sai_remove_vlan_member_node E n c = (rc, c') \<longrightarrow>
        sai_is_vlan_created E c' = sai_is_vlan_created E c
        \<and> (if rc = SAI_STATUS_SUCCESS
           then sai_find_vlan_member_node E c'
                  = (sai_find_vlan_member_node E c)(vlan_member_id n := None)
           else c' = c))
     \<and> (\<forall>m n n' c. sai_find_vlan_member_node E c m = Some n \<longrightarrow>
          sai_is_vlan_created E (vlan_member_node_store E m n' c) = sai_is_vlan_created E c
          \<and> sai_find_vlan_member_node E (vlan_member_node_store E m n' c)
              = (sai_find_vlan_member_node E c)(m \<mapsto> n')
          \<and> vlan_member_node_store E m n (vlan_member_node_store E m n' c) = c)"

definition vlan_cache_laws :: "('c, 'w, 'z) vlan_env_scheme \<Rightarrow> bool" where
  "vlan_cache_laws E \<longleftrightarrow> vlan_list_laws E \<and> vlan_member_laws E"

lemma vlan_insert_law:
  assumes "vlan_list_laws E" "sai_insert_vlan_in_list E v c = (rc, c')"
  shows "rc = SAI_STATUS_SUCCESS \<Longrightarrow> \<not> sai_is_vlan_created E c v"
    "rc = SAI_STATUS_SUCCESS \<Longrightarrow> sai_is_vlan_created E c' = (sai_is_vlan_created E c)(v := True)"
    "rc \<noteq> SAI_STATUS_SUCCESS \<Longrightarrow> c' = c"
  using assms unfolding vlan_list_laws_def by metis+

lemma vlan_write_law [simp]:
  assumes "vlan_list_laws E"
  shows "sai_is_vlan_created E (sai_remove_vlan_from_list E v c) = (sai_is_vlan_created E c)(v := False)"
    "sai_is_vlan_created E (sai_vlan_max_learn_adddress_cache_write E v n c) = sai_is_vlan_created E c"
    "sai_is_vlan_created E (sai_vlan_learn_disable_cache_write E v b c) = sai_is_vlan_created E c"
    "sai_is_vlan_created E (sai_vlan_meta_data_cache_write E v n c) = sai_is_vlan_created E c"
  using assms unfolding vlan_list_laws_def by blast+

lemma vlan_add_member_law:
  assumes "vlan_member_laws E" "sai_add_vlan_member_node E n c = (rc, c')"
  shows "sai_is_vlan_created E c' = sai_is_vlan_created E c"
    "rc = SAI_STATUS_SUCCESS \<Longrightarrow> sai_find_vlan_member_node E c'
       = (sai_find_vlan_member_node E c)(vlan_member_id n \<mapsto> n)"
    "rc \<noteq> SAI_STATUS_SUCCESS \<Longrightarrow> c' = c"
  using assms unfolding vlan_member_laws_def by metis+

lemma vlan_remove_member_law:
  assumes "vlan_member_laws E" "sai_remove_vlan_member_node E n c = (rc, c')"
  shows "sai_is_vlan_created E c' = sai_is_vlan_created E c"
    "rc = SAI_STATUS_SUCCESS \<Longrightarrow> sai_find_vlan_member_node E c'
       = (sai_find_vlan_member_node E c)(vlan_member_id n := None)"
    "rc \<noteq> SAI_STATUS_SUCCESS \<Longrightarrow> c' = c"
  using assms unfolding vlan_member_laws_def by metis+

lemma vlan_store_law:
  assumes "vlan_member_laws E" "sai_find_vlan_member_node E c m = Some n"
  shows "sai_is_vlan_created E (vlan_member_node_store E m n' c) = sai_is_vlan_created E c"
    "sai_find_vlan_member_node E (vlan_member_node_store E m n' c)
       = (sai_find_vlan_member_node E c)(m \<mapsto> n')"
    "vlan_member_node_store E m n (vlan_member_node_store E m n' c) = c"
  using assms unfolding vlan_member_laws_def by blast+

section \<open>The lock\<close>

lemma vlan_lock_sel [simp, lock_simps]:
  "vlan_stp (sai_vlan_lock s) = vlan_stp s" "vlan_stp (sai_vlan_unlock s) = vlan_stp s"
  "vlan_cache (sai_vlan_lock s) = vlan_cache s" "vlan_cache (sai_vlan_unlock s) = vlan_cache s"
  "vlan_lock_depth (sai_vlan_lock s) = vlan_lock_depth s + 1"
  "vlan_lock_depth (sai_vlan_unlock s) = vlan_lock_depth s - 1"
  "sai_vlan_unlock (sai_vlan_lock s) = s"
  by (simp_all add: sai_vlan_lock_def sai_vlan_unlock_def)

lemma vlan_lock_commute [simp, lock_simps]:
  "sai_vlan_unlock (s\<lparr>vlan_stp := t\<rparr>) = (sai_vlan_unlock s)\<lparr>vlan_stp := t\<rparr>"
  "sai_vlan_unlock (s\<lparr>vlan_cache := c\<rparr>) = (sai_vlan_unlock s)\<lparr>vlan_cache := c\<rparr>"
  by (simp_all add: sai_vlan_unlock_def)

lemma sai_is_vlan_configurable_lock [simp]:
  "sai_is_vlan_configurable E v (sai_vlan_lock s) = sai_is_vlan_configurable E v s"
  by (simp add: sai_is_vlan_configurable_def [abs_def])

lemma sai_is_vlan_configurable_iff:
  "sai_is_vlan_configurable E v s w = SAI_STATUS_SUCCESS \<longleftrightarrow>
     sai_is_valid_vlan_id E v \<and> \<not> sai_is_internal_vlan_id E w v \<and> sai_is_vlan_created E (vlan_cache s) v"
  by (simp add: sai_is_vlan_configurable_def sai_is_vlan_id_available_def Let_def)

section \<open>Get and parse loops\<close>

interpretation vlan_get: attribute_loop "vlan_attribute_answer E s v"
  "\<lambda>i rc. sai_get_indexed_ret_val E rc i" "vlan_attribute_get_loop E s v" for E s v
  by unfold_locales simp_all

interpretation vlan_member_get: attribute_loop
  "\<lambda>i a (w::unit). (let (rc, a') = vlan_member_answer n i a in (rc, a', w))" "\<lambda>i rc. rc"
  "\<lambda>i as w. (let (rc, as') = vlan_member_get_loop n i as in (rc, as', w))" for n
  by unfold_locales (auto simp: Let_def split: prod.splits)

interpretation vlan_member_create: attribute_parse "vlan_member_accept E" "vlan_member_parse E" for E
  by unfold_locales simp_all

section \<open>Effects\<close>

lemma vlan_attribute_set_effect:
  assumes "sai_l2_set_vlan_attribute E oid a s w = (rc, s', w')"
  shows "(s' = s \<and> (rc \<noteq> SAI_STATUS_SUCCESS \<or> a = SAI_VLAN_ATTR_INGRESS_ACL \<or> a = SAI_VLAN_ATTR_EGRESS_ACL))
    \<or> (sai_is_obj_id E SAI_OBJECT_TYPE_VLAN oid
       \<and> sai_is_vlan_created E (vlan_cache s) (sai_vlan_obj_id_to_vlan_id E oid) \<and>
       ((rc = SAI_STATUS_SUCCESS \<and> (\<exists>n. a = SAI_VLAN_ATTR_MAX_LEARNED_ADDRESSES n \<and>
           s' = s\<lparr>vlan_cache := sai_vlan_max_learn_adddress_cache_write E
                    (sai_vlan_obj_id_to_vlan_id E oid) n (vlan_cache s)\<rparr>))
        \<or> (rc = SAI_STATUS_SUCCESS \<and> (\<exists>n. a = SAI_VLAN_ATTR_LEARN_DISABLE n \<and>
           s' = s\<lparr>vlan_cache := sai_vlan_learn_disable_cache_write E
                    (sai_vlan_obj_id_to_vlan_id E oid) n (vlan_cache s)\<rparr>))
        \<or> (rc = SAI_STATUS_SUCCESS \<and> (\<exists>n. a = SAI_VLAN_ATTR_META_DATA n \<and>
           s' = s\<lparr>vlan_cache := sai_vlan_meta_data_cache_write E
                    (sai_vlan_obj_id_to_vlan_id E oid) n (vlan_cache s)\<rparr>))
        \<or> (\<exists>i t. a = SAI_VLAN_ATTR_STP_INSTANCE i \<and> s' = s\<lparr>vlan_stp := t\<rparr> \<and>
             sai_stp_vlan_handle E (sai_vlan_obj_id_to_vlan_id E oid) i (vlan_stp s) w = (rc, t, w'))))"
  using assms unfolding sai_l2_set_vlan_attribute_def vlan_attribute_set_switch_def Let_def
  by (cases a) (auto split: if_splits prod.splits)

lemma vlan_delete_effect:
  assumes "sai_l2_delete_vlan E v s w = (rc, s', w')"
  obtains (kept) t w1 where "rc \<noteq> SAI_STATUS_SUCCESS" "s' = s\<lparr>vlan_stp := t\<rparr>"
      "sai_stp_vlan_destroy E v (vlan_stp s) w = (rc, t, w1)"
    | (stranded) t w1 where "rc \<noteq> SAI_STATUS_SUCCESS" "s' = s\<lparr>vlan_stp := t\<rparr>"
      "sai_stp_vlan_destroy E v (vlan_stp s) w = (SAI_STATUS_SUCCESS, t, w1)"
      "npu_vlan_delete E v w1 = (rc, w')"
    | (deleted) t w1 where "rc = SAI_STATUS_SUCCESS"
      "s' = s\<lparr>vlan_stp := t, vlan_cache := sai_remove_vlan_from_list E v (vlan_cache s)\<rparr>"
      "sai_stp_vlan_destroy E v (vlan_stp s) w = (SAI_STATUS_SUCCESS, t, w1)"
proof -
  obtain r t w1 where d: "sai_stp_vlan_destroy E v (vlan_stp s) w = (r, t, w1)" by (metis prod_cases3)
  show thesis
    using assms d kept stranded deleted
    by (auto simp: sai_l2_delete_vlan_def Let_def split: if_splits prod.splits)
qed

lemma vlan_remove_effect:
  assumes "sai_l2_remove_vlan E oid s w = (rc, s', w')"
  obtains (refused) "rc \<noteq> SAI_STATUS_SUCCESS" "s' = s"
    | (in_use) "rc = SAI_STATUS_OBJECT_IN_USE" "s' = sai_vlan_lock s"
        "sai_is_vlan_created E (vlan_cache s) (sai_vlan_obj_id_to_vlan_id E oid)"
        "sai_is_vlan_obj_in_use E (vlan_cache s) (sai_vlan_obj_id_to_vlan_id E oid)"
    | (tried) s1 where "sai_l2_delete_vlan E (sai_vlan_obj_id_to_vlan_id E oid) (sai_vlan_lock s) w = (rc, s1, w')"
        "s' = sai_vlan_unlock s1" "sai_is_vlan_created E (vlan_cache s) (sai_vlan_obj_id_to_vlan_id E oid)"
        "\<not> sai_is_vlan_obj_in_use E (vlan_cache s) (sai_vlan_obj_id_to_vlan_id E oid)"
proof -
  show thesis
    using assms refused in_use tried
    by (auto simp: sai_l2_remove_vlan_def Let_def sai_is_vlan_configurable_iff
        split: if_splits prod.splits)
qed

end
