(* ===== verification/Vlan_Reach.thy ===== *)
theory Vlan_Reach
  imports Vlan_Props Stp_Reach
begin

text \<open>
  The invariant across the VLAN and the spanning-tree components: every operation, those of VLAN
  members included, keeps it; the component as a state machine, and its lock.
\<close>

section \<open>The invariant\<close>

text \<open>A VLAN that some STP instance has is a created VLAN, or one of the set \<open>B\<close> of VLANs that
  the initialisation of the STP component attaches before any VLAN exists.\<close>

definition vlan_inv :: "('c, 'w, 'z) vlan_env_scheme \<Rightarrow> sai_vlan_id_t set \<Rightarrow> 'c vlan_state \<Rightarrow> bool" where
  "vlan_inv E B s \<longleftrightarrow> stp_service_ok E (vlan_stp s) \<and>
     (\<forall>i v. stp_vlan_member (vlan_stp s) i v \<longrightarrow> v \<in> {v. sai_is_vlan_created E (vlan_cache s) v} \<union> B)"

lemma vlan_inv_ok: "vlan_inv E B s \<Longrightarrow> stp_service_ok E (vlan_stp s)"
  by (simp add: vlan_inv_def)

lemma vlan_inv_cover:
  "vlan_inv E B s \<Longrightarrow> stp_vlan_member (vlan_stp s) i v \<Longrightarrow>
     v \<in> {v. sai_is_vlan_created E (vlan_cache s) v} \<union> B"
  by (auto simp: vlan_inv_def)

lemma vlan_inv_lock [simp]:
  "vlan_inv E B (sai_vlan_lock s) = vlan_inv E B s" "vlan_inv E B (sai_vlan_unlock s) = vlan_inv E B s"
  by (simp_all add: vlan_inv_def)

lemma vlan_inv_frame:
  assumes "vlan_inv E B s" "vlan_stp s' = vlan_stp s"
    "sai_is_vlan_created E (vlan_cache s') = sai_is_vlan_created E (vlan_cache s)"
  shows "vlan_inv E B s'"
  using assms by (simp add: vlan_inv_def)

lemma vlan_inv_update:
  assumes inv: "vlan_inv E B s" and ok: "stp_service_ok E t"
    and c: "\<And>i v. stp_vlan_member t i v \<Longrightarrow>
        v \<in> insert u ({v. sai_is_vlan_created E (vlan_cache s) v} \<union> B)"
    and u: "sai_is_vlan_created E (vlan_cache s') u"
    and mono: "\<And>v. sai_is_vlan_created E (vlan_cache s) v \<Longrightarrow> sai_is_vlan_created E (vlan_cache s') v"
    and t: "vlan_stp s' = t"
  shows "vlan_inv E B s'"
  using c u mono ok t unfolding vlan_inv_def by blast

section \<open>Every operation keeps it\<close>

lemma vlan_delete_inv:
  assumes "sai_l2_delete_vlan E v s w = (rc, s', w')" and inv: "vlan_inv E B s" and L: "vlan_cache_laws E"
  shows "vlan_inv E B s'"
proof -
  have L1: "vlan_list_laws E" using L by (simp add: vlan_cache_laws_def)
  let ?V = "{v. sai_is_vlan_created E (vlan_cache s) v} \<union> B"
  have c: "vlan_inv E B (s\<lparr>vlan_stp := t\<rparr>)
      \<and> (r = SAI_STATUS_SUCCESS \<longrightarrow> vlan_inv E B (s\<lparr>vlan_stp := t,
            vlan_cache := sai_remove_vlan_from_list E v (vlan_cache s)\<rparr>))"
    if d: "sai_stp_vlan_destroy E v (vlan_stp s) w = (r, t, w1)" for r t w1
  proof -
    have "stp_service_ok E t" by (rule stp_vlan.destroy_ok [OF vlan_inv_ok [OF inv] d])
    moreover have "\<forall>i u. stp_vlan_member t i u \<longrightarrow>
        u \<in> (if r = SAI_STATUS_SUCCESS then ?V - {v} else ?V)"
      by (intro allI impI stp_vlan.destroy_cover [OF vlan_inv_ok [OF inv] d vlan_inv_cover [OF inv]])
    ultimately show ?thesis
      unfolding vlan_inv_def using L1 by (cases "r = SAI_STATUS_SUCCESS") auto
  qed
  from assms(1) show ?thesis
    by (cases rule: vlan_delete_effect) (use c in auto)
qed

lemma vlan_remove_inv:
  assumes "sai_l2_remove_vlan E oid s w = (rc, s', w')" and inv: "vlan_inv E B s" and L: "vlan_cache_laws E"
  shows "vlan_inv E B s'"
  using assms(1)
proof (cases rule: vlan_remove_effect)
  case (tried s1)
  with vlan_delete_inv [OF tried(1) _ L, of B] inv show ?thesis by simp
qed (use inv in simp_all)

lemma vlan_set_inv:
  assumes "sai_l2_set_vlan_attribute E oid a s w = (rc, s', w')" and inv: "vlan_inv E B s"
    and L: "vlan_cache_laws E"
  shows "vlan_inv E B s'"
proof -
  have L1: "vlan_list_laws E" using L by (simp add: vlan_cache_laws_def)
  let ?v = "sai_vlan_obj_id_to_vlan_id E oid"
  let ?V = "{v. sai_is_vlan_created E (vlan_cache s) v} \<union> B"
  have "vlan_inv E B s'"
    if h: "sai_stp_vlan_handle E ?v i (vlan_stp s) w = (rc, t, w')" and s': "s' = s\<lparr>vlan_stp := t\<rparr>"
      and v: "sai_is_vlan_created E (vlan_cache s) ?v" for i t
  proof (rule vlan_inv_update [OF inv])
    show "stp_service_ok E t" by (rule stp_vlan.handle_ok [OF vlan_inv_ok [OF inv] h])
    show "stp_vlan_member t j u \<Longrightarrow> u \<in> insert ?v ?V" for j u
      by (rule stp_vlan.handle_cover [OF vlan_inv_ok [OF inv] h vlan_inv_cover [OF inv]])
  qed (use v s' in auto)
  with vlan_attribute_set_effect [OF assms(1)] show ?thesis
    by (elim disjE conjE exE) (auto intro: inv vlan_inv_frame [OF inv] simp: L1)
qed

lemma vlan_create_body_inv:
  assumes "vlan_create_body E v s w = (rc, s', w')" and inv: "vlan_inv E B s" and L: "vlan_cache_laws E"
  shows "vlan_inv E B s'"
proof -
  have L1: "vlan_list_laws E" using L by (simp add: vlan_cache_laws_def)
  obtain r c where i: "sai_insert_vlan_in_list E v (vlan_cache s) = (r, c)" by (metis surj_pair)
  note law = vlan_insert_law [OF L1 i]
  show ?thesis
  proof (cases "sai_is_vlan_id_available E v w = SAI_STATUS_SUCCESS \<and> r = SAI_STATUS_SUCCESS")
    case False
    with assms(1) i law(3) have "s' = s" by (auto simp: vlan_create_body_def Let_def split: if_splits)
    with inv show ?thesis by simp
  next
    case True
    let ?s1 = "s\<lparr>vlan_cache := c\<rparr>"
    have inv1: "vlan_inv E B ?s1"
      by (rule vlan_inv_update [OF inv vlan_inv_ok [OF inv], of v])
        (use law True vlan_inv_cover [OF inv] in auto)
    have new: "sai_is_vlan_created E c v" using law True by simp
    obtain r2 w2 where n: "npu_vlan_create E v w = (r2, w2)" by (metis surj_pair)
    note b = assms(1) [unfolded vlan_create_body_def Let_def i n, simplified True, simplified]
    consider "s' = s\<lparr>vlan_cache := sai_remove_vlan_from_list E v c\<rparr>"
      | t where "sai_stp_default_stp_vlan_update E v (vlan_stp s) w2 = (rc, t, w')"
        "s' = ?s1\<lparr>vlan_stp := t\<rparr>"
      | "s' = ?s1"
      using b by (auto split: if_splits prod.splits)
    then show ?thesis
    proof cases
      case 1
      have "sai_is_vlan_created E (sai_remove_vlan_from_list E v c) = sai_is_vlan_created E (vlan_cache s)"
        using law True L1 by (auto simp: fun_eq_iff)
      with 1 show ?thesis by (intro vlan_inv_frame [OF inv]) simp_all
    next
      case 2
      note ok = vlan_inv_ok [OF inv]
      show ?thesis
      proof (rule vlan_inv_update [OF inv1 stp_vlan.update_ok [OF ok 2(1)]])
        show "j \<in> insert v ({v. sai_is_vlan_created E (vlan_cache ?s1) v} \<union> B)"
          if "stp_vlan_member t i j" for i j
          by (rule stp_vlan.update_cover [OF ok 2(1) _ that])
            (use vlan_inv_cover [OF inv1] in simp)
      qed (use 2 new in auto)
    qed (use inv1 in simp)
  qed
qed

lemma vlan_set_attrs_inv:
  assumes "vlan_create_set_attrs E v as r s w = (rc, s', w')" and "vlan_inv E B s" and L: "vlan_cache_laws E"
  shows "vlan_inv E B s'"
  using assms(1,2)
proof (induction as arbitrary: r s w)
  case (Cons a as)
  obtain r1 s1 w1 where a: "sai_l2_set_vlan_attribute E (sai_vlan_id_to_vlan_obj_id E v) a s w = (r1, s1, w1)"
    by (metis prod_cases3)
  obtain r2 s2 w2 where d: "sai_l2_remove_vlan E (sai_vlan_id_to_vlan_obj_id E v) s1 w1 = (r2, s2, w2)"
    by (metis prod_cases3)
  have i: "vlan_inv E B s1" by (rule vlan_set_inv [OF a Cons.prems(2) L])
  have "vlan_inv E B s2" by (rule vlan_remove_inv [OF d i L])
  with Cons i a d show ?case by (auto split: if_splits)
qed simp

lemma vlan_create_inv:
  assumes "sai_l2_create_vlan E as s w = (rc, out, s', w')" and inv: "vlan_inv E B s" and L: "vlan_cache_laws E"
  shows "vlan_inv E B s'"
proof (cases "as = [] \<or> vlan_create_id as = None")
  case True
  with assms(1) inv show ?thesis by (auto simp: sai_l2_create_vlan_def split: if_splits)
next
  case False
  then obtain v where v: "vlan_create_id as = Some v" by auto
  obtain r1 s1 w1 where b: "vlan_create_body E v (sai_vlan_lock s) w = (r1, s1, w1)" by (metis prod_cases3)
  have i: "vlan_inv E B (sai_vlan_unlock s1)" using vlan_create_body_inv [OF b _ L] inv by simp
  with assms(1) False v b vlan_set_attrs_inv [OF _ i L] show ?thesis
    by (auto simp: sai_l2_create_vlan_def Let_def split: if_splits prod.splits)
qed

section \<open>Members\<close>

lemma vlan_member_create_body_effect:
  assumes "vlan_member_create_body E v n s w = (rc, mid, s', w')" and L: "vlan_member_laws E"
  shows "(rc \<noteq> SAI_STATUS_SUCCESS \<and> s' = s) \<or>
    (rc = SAI_STATUS_SUCCESS \<and> sai_is_vlan_configurable E v s w = SAI_STATUS_SUCCESS
     \<and> sai_validate_vlan_port E (member_port_id n) (tagging_mode n) w = SAI_STATUS_SUCCESS
     \<and> \<not> sai_is_port_vlan_member E (vlan_cache s) v (member_port_id n)
     \<and> (\<exists>c. sai_add_vlan_member_node E (n\<lparr>vlan_member_id := mid\<rparr>) (vlan_cache s) = (rc, c)
            \<and> s' = s\<lparr>vlan_cache := c\<rparr>))"
  using assms(1) vlan_add_member_law [OF L]
  by (auto simp: vlan_member_create_body_def Let_def split: if_splits prod.splits)

lemma vlan_member_remove_effect:
  assumes "sai_l2_remove_vlan_member E mid s w = (rc, s', w')" and L: "vlan_member_laws E"
  shows "(rc \<noteq> SAI_STATUS_SUCCESS \<and> s' = s) \<or>
    (rc = SAI_STATUS_SUCCESS \<and> (\<exists>n c. sai_find_vlan_member_node E (vlan_cache s) mid = Some n
      \<and> sai_remove_vlan_member_node E n (vlan_cache s) = (rc, c) \<and> s' = s\<lparr>vlan_cache := c\<rparr>))"
  using assms(1) vlan_remove_member_law [OF L]
  by (auto simp: sai_l2_remove_vlan_member_def Let_def split: if_splits prod.splits option.splits)

lemma vlan_member_set_effect:
  assumes "sai_l2_set_vlan_member_attribute E mid a s w = (rc, s', w')" and L: "vlan_member_laws E"
  shows "s' = s \<or>
    (rc = SAI_STATUS_SUCCESS \<and> (\<exists>n m. sai_find_vlan_member_node E (vlan_cache s) mid = Some n
      \<and> a = SAI_VLAN_MEMBER_ATTR_VLAN_TAGGING_MODE m
      \<and> s' = s\<lparr>vlan_cache := vlan_member_node_store E mid (n\<lparr>tagging_mode := m\<rparr>) (vlan_cache s)\<rparr>))"
  using assms(1) vlan_store_law(3) [OF L]
  by (auto simp: sai_l2_set_vlan_member_attribute_def Let_def
      split: if_splits prod.splits option.splits sai_vlan_member_attr_t.splits)

lemma vlan_member_set_same:
  "sai_l2_set_vlan_member_attribute E mid a s w = (rc, s', w') \<Longrightarrow> vlan_member_laws E \<Longrightarrow>
     rc \<noteq> SAI_STATUS_SUCCESS \<Longrightarrow> s' = s"
  by (auto dest: vlan_member_set_effect)

lemma vlan_member_create_effect:
  assumes "sai_l2_create_vlan_member E sw as s w = (rc, mid, s', w')" and L: "vlan_member_laws E"
  shows "(rc \<noteq> SAI_STATUS_SUCCESS \<and> s' = s) \<or>
    (rc = SAI_STATUS_SUCCESS \<and> (\<exists>v p m c n.
       vlan_member_parse E 0 as (None, None, SAI_VLAN_TAGGING_MODE_UNTAGGED E) = Inr (Some v, Some p, m)
     \<and> n = \<lparr>vlan_member_id = mid, member_switch_id = sw, member_vlan_id = v,
            member_port_id = p, tagging_mode = m\<rparr>
     \<and> sai_is_vlan_configurable E (sai_vlan_obj_id_to_vlan_id E v) s w = SAI_STATUS_SUCCESS
     \<and> sai_validate_vlan_port E p m w = SAI_STATUS_SUCCESS
     \<and> \<not> sai_is_port_vlan_member E (vlan_cache s) (sai_vlan_obj_id_to_vlan_id E v) p
     \<and> sai_add_vlan_member_node E n (vlan_cache s) = (rc, c) \<and> s' = s\<lparr>vlan_cache := c\<rparr>))"
proof -
  consider "rc \<noteq> SAI_STATUS_SUCCESS" "s' = s"
    | v p m s1 where
      "vlan_member_parse E 0 as (None, None, SAI_VLAN_TAGGING_MODE_UNTAGGED E) = Inr (Some v, Some p, m)"
      "vlan_member_create_body E (sai_vlan_obj_id_to_vlan_id E v)
         \<lparr>vlan_member_id = 0, member_switch_id = sw, member_vlan_id = v,
          member_port_id = p, tagging_mode = m\<rparr> (sai_vlan_lock s) w = (rc, mid, s1, w')"
      "s' = sai_vlan_unlock s1"
  proof (cases "vlan_member_parse E 0 as (None, None, SAI_VLAN_TAGGING_MODE_UNTAGGED E)")
    case (Inl r)
    obtain i a acc where "vlan_member_accept E i a acc = Inl r"
      by (rule vlan_member_create.parse_Inl [OF Inl])
    then have "r \<noteq> SAI_STATUS_SUCCESS"
      by (auto simp: vlan_member_accept_def Let_def split: sai_vlan_member_attr_t.splits if_splits prod.splits)
    with Inl assms(1) that(1) show thesis
      by (auto simp: sai_l2_create_vlan_member_def split: if_splits)
  next
    case (Inr b)
    obtain vo po m where b: "b = (vo, po, m)" by (metis prod_cases3)
    with Inr assms(1) that show thesis
      by (cases vo; cases po) (auto simp: sai_l2_create_vlan_member_def Let_def
          split: if_splits prod.splits)
  qed
  then show ?thesis
  proof cases
    case 2
    from vlan_member_create_body_effect [OF 2(2) L] 2(1,3) show ?thesis
      by (elim disjE conjE exE) (rule disjI1, simp, rule disjI2, simp)
  qed simp
qed

section \<open>Members keep the invariant\<close>

lemma vlan_member_inv:
  assumes L: "vlan_cache_laws E" and inv: "vlan_inv E B s"
  shows "sai_l2_create_vlan_member E sw as s w = (rc, mid, s', w') \<Longrightarrow> vlan_inv E B s'"
    and "sai_l2_remove_vlan_member E m s w = (rc, s', w') \<Longrightarrow> vlan_inv E B s'"
    and "sai_l2_set_vlan_member_attribute E m a s w = (rc, s', w') \<Longrightarrow> vlan_inv E B s'"
proof -
  have M: "vlan_member_laws E" using L by (simp add: vlan_cache_laws_def)
  show "vlan_inv E B s'" if "sai_l2_create_vlan_member E sw as s w = (rc, mid, s', w')"
    using vlan_member_create_effect [OF that M] vlan_add_member_law(1) [OF M]
    by (auto intro: inv vlan_inv_frame [OF inv])
  show "vlan_inv E B s'" if "sai_l2_remove_vlan_member E m s w = (rc, s', w')"
    using vlan_member_remove_effect [OF that M] vlan_remove_member_law(1) [OF M]
    by (auto intro: inv vlan_inv_frame [OF inv])
  show "vlan_inv E B s'" if "sai_l2_set_vlan_member_attribute E m a s w = (rc, s', w')"
    using vlan_member_set_effect [OF that M] vlan_store_law(1) [OF M]
    by (auto intro: inv vlan_inv_frame [OF inv])
qed

lemma vlan_port_default_init_inv:
  assumes "sai_vlan_port_default_init E v p s w = (rc, s', w')" and inv: "vlan_inv E B s"
    and L: "vlan_cache_laws E"
  shows "vlan_inv E B s'"
proof -
  obtain r mid s1 w1 where c: "sai_l2_create_vlan_member E 0
      [SAI_VLAN_MEMBER_ATTR_VLAN_ID (sai_vlan_id_to_vlan_obj_id E v), SAI_VLAN_MEMBER_ATTR_PORT_ID p,
       SAI_VLAN_MEMBER_ATTR_VLAN_TAGGING_MODE (SAI_DEF_VLAN_TAGGING_MODE E)] s w = (r, mid, s1, w1)"
    by (metis prod_cases4)
  have i: "vlan_inv E B s1" by (rule vlan_member_inv(1) [OF L inv c])
  show ?thesis
    using assms(1) i vlan_member_inv(2) [OF L i]
    unfolding sai_vlan_port_default_init_def Let_def c by (auto split: if_splits prod.splits)
qed

lemma vlan_notification_inv:
  assumes "vlan_port_notification_loop E data s w = (s', w')" and "vlan_inv E B s"
    and L: "vlan_cache_laws E"
  shows "vlan_inv E B s'"
  using assms(1,2)
proof (induction data arbitrary: s w)
  case (Cons d data)
  obtain p e where d: "d = (p, e)" by (cases d)
  obtain r1 s1 w1 where a: "sai_vlan_port_default_init E SAI_INIT_DEFAULT_VLAN p s w = (r1, s1, w1)"
    by (metis prod_cases3)
  note i1 = vlan_port_default_init_inv [OF a Cons.prems(2) L]
  show ?case
  proof (cases e)
    case SAI_PORT_EVENT_ADD
    with Cons.prems d a have "vlan_port_notification_loop E data s1 w1 = (s', w')" by simp
    with Cons.IH i1 show ?thesis by blast
  next
    case SAI_PORT_EVENT_DELETE
    then show ?thesis
      using Cons.prems d Cons.IH vlan_member_inv(2) [OF L Cons.prems(2)]
      by (auto split: option.splits prod.splits)
  qed (use Cons d in auto)
qed simp

section \<open>Boot\<close>

text \<open>Members come and go without any VLAN being created, removed or attached.\<close>

definition vlan_same :: "('c, 'w, 'z) vlan_env_scheme \<Rightarrow> 'c vlan_state \<Rightarrow> 'c vlan_state \<Rightarrow> bool" where
  "vlan_same E s t \<longleftrightarrow> vlan_stp t = vlan_stp s
     \<and> sai_is_vlan_created E (vlan_cache t) = sai_is_vlan_created E (vlan_cache s)"

lemma vlan_same_trans: "vlan_same E s t \<Longrightarrow> vlan_same E t u \<Longrightarrow> vlan_same E s u"
  by (simp add: vlan_same_def)

lemma vlan_same_refl [simp]: "vlan_same E s s"
  by (simp add: vlan_same_def)

lemma vlan_member_create_same:
  "sai_l2_create_vlan_member E sw as s w = (rc, mid, s', w') \<Longrightarrow> vlan_member_laws E \<Longrightarrow> vlan_same E s s'"
  using vlan_add_member_law(1) [of E] by (auto simp: vlan_same_def dest!: vlan_member_create_effect)

lemma vlan_member_remove_same:
  "sai_l2_remove_vlan_member E m s w = (rc, s', w') \<Longrightarrow> vlan_member_laws E \<Longrightarrow> vlan_same E s s'"
  using vlan_remove_member_law(1) [of E] by (auto simp: vlan_same_def dest!: vlan_member_remove_effect)

lemma vlan_port_default_init_same:
  assumes "sai_vlan_port_default_init E v p s w = (rc, s', w')" and M: "vlan_member_laws E"
  shows "vlan_same E s s'"
proof -
  obtain r mid s1 w1 where c: "sai_l2_create_vlan_member E 0
      [SAI_VLAN_MEMBER_ATTR_VLAN_ID (sai_vlan_id_to_vlan_obj_id E v), SAI_VLAN_MEMBER_ATTR_PORT_ID p,
       SAI_VLAN_MEMBER_ATTR_VLAN_TAGGING_MODE (SAI_DEF_VLAN_TAGGING_MODE E)] s w = (r, mid, s1, w1)"
    by (metis prod_cases4)
  note one = vlan_member_create_same [OF c M]
  have two: "vlan_same E s s2" if "sai_l2_remove_vlan_member E mid s1 x = (r2, s2, w2)" for x r2 s2 w2
    by (rule vlan_same_trans [OF one vlan_member_remove_same [OF that M]])
  show ?thesis
    using assms(1) one two
    unfolding sai_vlan_port_default_init_def Let_def c by (auto split: if_splits prod.splits)
qed

lemma vlan_remove_members_same:
  "vlan_remove_members E ms s w = (b, s', w') \<Longrightarrow> vlan_member_laws E \<Longrightarrow> vlan_same E s s'"
proof (induction ms arbitrary: s w b s' w')
  case (Cons m ms)
  obtain r s1 w1 where m: "sai_l2_remove_vlan_member E m s w = (r, s1, w1)" by (metis prod_cases3)
  obtain b2 s2 w2 where ms: "vlan_remove_members E ms s1 w1 = (b2, s2, w2)" by (metis prod_cases3)
  from Cons.prems m ms Cons.IH [OF ms] vlan_member_remove_same [OF m] show ?case
    by (auto intro: vlan_same_trans [of E s s1])
qed simp

lemma vlan_init_clean_up_same:
  "sai_default_vlan_init_clean_up E v s w = (r, s', w') \<Longrightarrow> vlan_member_laws E \<Longrightarrow> vlan_same E s s'"
  by (auto simp: sai_default_vlan_init_clean_up_def Let_def dest: vlan_remove_members_same
      split: prod.splits if_splits)

lemma vlan_default_init_ports_same:
  "vlan_default_init_ports E v ps s w = (rc, s', w') \<Longrightarrow> vlan_member_laws E \<Longrightarrow> vlan_same E s s'"
proof (induction ps arbitrary: s w)
  case (Cons q ps)
  obtain p ok where q: "q = (p, ok)" by (cases q)
  obtain r s1 w1 where i: "sai_vlan_port_default_init E v p s w = (r, s1, w1)" by (metis prod_cases3)
  note one = vlan_port_default_init_same [OF i Cons.prems(2)]
  have "vlan_same E s1 s2" if "sai_default_vlan_init_clean_up E v s1 w1 = (r2, s2, w2)" for r2 s2 w2
    by (rule vlan_init_clean_up_same [OF that Cons.prems(2)])
  with Cons.prems q i Cons.IH one show ?case
    by (auto split: if_splits prod.splits intro: vlan_same_trans)
qed simp

text \<open>The list of VLANs answers \<open>SAI_STATUS_ITEM_ALREADY_EXISTS\<close> only for a VLAN it holds.\<close>

definition vlan_exists_law :: "('c, 'w, 'z) vlan_env_scheme \<Rightarrow> bool" where
  "vlan_exists_law E \<longleftrightarrow> (\<forall>v c c'. sai_insert_vlan_in_list E v c = (SAI_STATUS_ITEM_ALREADY_EXISTS, c')
      \<longrightarrow> sai_is_vlan_created E c v)"

lemma vlan_create_default:
  assumes run: "sai_l2_create_vlan E [SAI_VLAN_ATTR_VLAN_ID SAI_INIT_DEFAULT_VLAN] s w = (rc, out, s', w')"
    and rc: "rc = SAI_STATUS_SUCCESS \<or> rc = SAI_STATUS_ITEM_ALREADY_EXISTS"
    and L: "vlan_list_laws E" and X: "vlan_exists_law E"
  shows "vlan_stp s' = vlan_stp s" "sai_is_vlan_created E (vlan_cache s') SAI_INIT_DEFAULT_VLAN"
proof -
  obtain s1 where b: "vlan_create_body E SAI_INIT_DEFAULT_VLAN (sai_vlan_lock s) w = (rc, s1, w')"
    and s': "s' = sai_vlan_unlock s1"
    using run by (auto simp: sai_l2_create_vlan_def Let_def split: prod.splits)
  obtain r c where i: "sai_insert_vlan_in_list E SAI_INIT_DEFAULT_VLAN (vlan_cache s) = (r, c)"
    by (metis surj_pair)
  note law = vlan_insert_law [OF L i]
  have ex: "r = SAI_STATUS_ITEM_ALREADY_EXISTS \<Longrightarrow> sai_is_vlan_created E c SAI_INIT_DEFAULT_VLAN"
    using X i law(3) unfolding vlan_exists_law_def by fastforce
  have "vlan_stp s1 = vlan_stp s \<and> sai_is_vlan_created E (vlan_cache s1) SAI_INIT_DEFAULT_VLAN"
    using b rc ex law(2) unfolding vlan_create_body_def Let_def vlan_lock_sel i sai_is_vlan_id_available_def
    by (auto split: if_splits prod.splits)
  then show "vlan_stp s' = vlan_stp s" "sai_is_vlan_created E (vlan_cache s') SAI_INIT_DEFAULT_VLAN"
    by (simp_all add: s')
qed

lemma vlan_init_effect:
  assumes run: "sai_vlan_init E s w = (SAI_STATUS_SUCCESS, s', w')"
    and L: "vlan_cache_laws E" and X: "vlan_exists_law E"
  shows "vlan_stp s' = vlan_stp s" "sai_is_vlan_created E (vlan_cache s') SAI_INIT_DEFAULT_VLAN"
proof -
  have L1: "vlan_list_laws E" and M: "vlan_member_laws E" using L by (simp_all add: vlan_cache_laws_def)
  have "\<exists>c w1 x. sai_l2_default_vlan_init E SAI_INIT_DEFAULT_VLAN (s\<lparr>vlan_cache := c\<rparr>) w1
      = (SAI_STATUS_SUCCESS, s', x)"
    using run unfolding sai_vlan_init_def Let_def by (auto split: prod.splits if_splits)
  then obtain c w1 x where "sai_l2_default_vlan_init E SAI_INIT_DEFAULT_VLAN (s\<lparr>vlan_cache := c\<rparr>) w1
      = (SAI_STATUS_SUCCESS, s', x)" by blast
  then obtain rc out s1 w2 w3 where c: "sai_l2_create_vlan E [SAI_VLAN_ATTR_VLAN_ID SAI_INIT_DEFAULT_VLAN]
        (s\<lparr>vlan_cache := c\<rparr>) w1 = (rc, out, s1, w2)"
      "rc = SAI_STATUS_SUCCESS \<or> rc = SAI_STATUS_ITEM_ALREADY_EXISTS"
      "vlan_default_init_ports E SAI_INIT_DEFAULT_VLAN (sai_port_infos E w2) s1 w2 = (SAI_STATUS_SUCCESS, s', w3)"
    unfolding sai_l2_default_vlan_init_def Let_def by (auto split: prod.splits if_splits)
  from vlan_create_default [OF c(1,2) L1 X] vlan_default_init_ports_same [OF c(3) M]
  show "vlan_stp s' = vlan_stp s" "sai_is_vlan_created E (vlan_cache s') SAI_INIT_DEFAULT_VLAN"
    by (simp_all add: vlan_same_def)
qed

section \<open>Steps\<close>

inductive vlan_step :: "('c, 'w, 'z) vlan_env_scheme \<Rightarrow> 'c vlan_state \<Rightarrow> 'c vlan_state \<Rightarrow> bool" for E where
  step_create: "sai_l2_create_vlan E as s w = (rc, out, s', w') \<Longrightarrow> vlan_step E s s'"
| step_remove: "sai_l2_remove_vlan E oid s w = (rc, s', w') \<Longrightarrow> vlan_step E s s'"
| step_set: "sai_l2_set_vlan_attribute E oid a s w = (rc, s', w') \<Longrightarrow> vlan_step E s s'"
| step_get: "sai_l2_get_vlan_attribute E oid as s w = (rc, as', s', w') \<Longrightarrow> vlan_step E s s'"
| step_member_create: "sai_l2_create_vlan_member E sw bs s w = (rc, mid, s', w') \<Longrightarrow> vlan_step E s s'"
| step_member_remove: "sai_l2_remove_vlan_member E mid s w = (rc, s', w') \<Longrightarrow> vlan_step E s s'"
| step_member_set: "sai_l2_set_vlan_member_attribute E mid b s w = (rc, s', w') \<Longrightarrow> vlan_step E s s'"
| step_member_get: "sai_l2_get_vlan_member_attribute E mid bs s = (rc, bs', s') \<Longrightarrow> vlan_step E s s'"
| step_notify: "sai_vlan_port_notification_handler E data s w = (rc, s', w') \<Longrightarrow> vlan_step E s s'"
| step_stp: "stp_api_step E (vlan_stp s) t \<Longrightarrow> vlan_step E s (s\<lparr>vlan_stp := t\<rparr>)"

lemma vlan_get_same:
  "sai_l2_get_vlan_attribute E oid as s w = (rc, as', s', w') \<Longrightarrow> s' = s"
  "sai_l2_get_vlan_member_attribute E mid bs s = (rc, bs', s') \<Longrightarrow> s' = s"
  by (auto simp: sai_l2_get_vlan_attribute_def sai_l2_get_vlan_member_attribute_def Let_def
      split: if_splits prod.splits)

text \<open>A call of the spanning-tree API attaches no VLAN.\<close>

lemma vlan_stp_api_inv:
  assumes st: "stp_api_step E (vlan_stp s) t" and inv: "vlan_inv E B s" and laws: "stp_env_laws E"
  shows "vlan_inv E B (s\<lparr>vlan_stp := t\<rparr>)"
proof -
  have si: "stp_inv E (vlan_stp s)" using inv by (simp add: vlan_inv_def stp_service_ok_def)
  from stp_step_inv [OF stp_api_step_step [OF st] si laws] stp_env_lawsD(1) [OF laws]
  have "stp_service_ok E t" by (simp add: stp_service_ok_def)
  with stp_api_step_members [OF st si laws] inv show ?thesis by (auto simp: vlan_inv_def)
qed

lemma vlan_step_inv:
  assumes "vlan_step E s t" and inv: "vlan_inv E B s" and L: "vlan_cache_laws E" and S: "stp_env_laws E"
  shows "vlan_inv E B t"
  using assms(1)
proof cases
  case (step_notify data w rc w')
  then show ?thesis
    using vlan_notification_inv [OF _ inv L]
    by (auto simp: sai_vlan_port_notification_handler_def split: prod.splits)
next
  case (step_stp u)
  with vlan_stp_api_inv [OF step_stp(2) inv S] show ?thesis by simp
qed (use inv in \<open>auto dest!: vlan_get_same intro: vlan_create_inv [OF _ inv L]
    vlan_remove_inv [OF _ inv L] vlan_set_inv [OF _ inv L] vlan_member_inv [OF L inv]\<close>)

text \<open>The switch boots the VLAN module and then, among others, the spanning-tree module
  (\<open>sai_switch_modules_initialize\<close>); the array that maps VLANs to instances is zero at first.\<close>

definition vlan_start :: "('c, 'w, 'z) vlan_env_scheme \<Rightarrow> 'c vlan_state \<Rightarrow> bool" where
  "vlan_start E s \<longleftrightarrow> (\<exists>s0 w s1 w1 w2 t w3.
     g_stp_vlan_map (vlan_stp s0) = (\<lambda>_. 0)
     \<and> sai_vlan_init E s0 w = (SAI_STATUS_SUCCESS, s1, w1)
     \<and> sai_stp_init E (vlan_stp s1) w2 = (SAI_STATUS_SUCCESS, Some t, w3)
     \<and> s = s1\<lparr>vlan_stp := t\<rparr>)"

text \<open>What the two modules rely on, and the VLANs that are never VLANs of the user.\<close>

definition vlan_env_laws :: "('c, 'w, 'z) vlan_env_scheme \<Rightarrow> bool" where
  "vlan_env_laws E \<longleftrightarrow> vlan_cache_laws E \<and> vlan_exists_law E \<and> stp_env_laws E"

abbreviation internal_vlans :: "('c, 'w, 'z) vlan_env_scheme \<Rightarrow> sai_vlan_id_t set" where
  "internal_vlans E \<equiv> {v. \<exists>w. internal_vlan_id E w = Some v}"

lemma vlan_start_inv:
  assumes "vlan_start E s" and laws: "vlan_env_laws E"
  shows "vlan_inv E (internal_vlans E) s"
proof -
  obtain s0 w s1 w1 w2 t w3 where i: "sai_vlan_init E s0 w = (SAI_STATUS_SUCCESS, s1, w1)"
    and j: "sai_stp_init E (vlan_stp s1) w2 = (SAI_STATUS_SUCCESS, Some t, w3)"
    and s: "s = s1\<lparr>vlan_stp := t\<rparr>"
    using assms(1) by (auto simp: vlan_start_def)
  have S: "stp_env_laws E" and L: "vlan_cache_laws E" "vlan_exists_law E"
    using laws by (simp_all add: vlan_env_laws_def)
  from stp_init_effect [OF j S] vlan_init_effect(2) [OF i L] stp_env_lawsD(1) [OF S] show ?thesis
    by (auto simp: s vlan_inv_def stp_service_ok_def)
qed

interpretation vlan: invariant_system "vlan_start E" "vlan_step E"
  "\<lambda>s. vlan_env_laws E \<longrightarrow> vlan_inv E (internal_vlans E) s" for E
proof unfold_locales
  show "vlan_env_laws E \<longrightarrow> vlan_inv E (internal_vlans E) s" if "vlan_start E s" for s
    using that vlan_start_inv by blast
  show "vlan_env_laws E \<longrightarrow> vlan_inv E (internal_vlans E) t"
    if "vlan_env_laws E \<longrightarrow> vlan_inv E (internal_vlans E) s" "vlan_step E s t" for s t
    using that vlan_step_inv unfolding vlan_env_laws_def by blast
qed

definition vlan_reachable :: "('c, 'w, 'z) vlan_env_scheme \<Rightarrow> 'c vlan_state \<Rightarrow> bool" where
  "vlan_reachable E = reach (vlan_start E) (vlan_step E)"

end
