(* ===== verification/Vlan_Claims.thy ===== *)
theory Vlan_Claims
  imports Vlan_Reach Stp_Attributes
begin

text \<open>
  The properties of the VLAN component: its invariant with the spanning-tree component, what
  removing and creating a VLAN leave behind on each branch, and its lock.
\<close>

section \<open>A concrete platform\<close>

text \<open>
  A concrete VLAN cache and plug-in for the witnesses of the VLAN properties, on top of the
  spanning-tree plug-in \<open>demo_stp\<close>.  VLAN objects carry the VLAN id above their type code, so
  VLAN 1 is object 261 and VLAN 2 is object 517; member objects are 262, 518, ...
\<close>

record demo_vlan_cache =
  dc_created :: "sai_vlan_id_t \<Rightarrow> bool"
  dc_node :: "sai_object_id_t \<Rightarrow> sai_vlan_member_node_t option"
  dc_port :: "sai_vlan_id_t \<Rightarrow> sai_object_id_t \<Rightarrow> sai_object_id_t option"
  dc_used :: "sai_vlan_id_t \<Rightarrow> nat"

definition demo_vlan_of :: "sai_object_id_t \<Rightarrow> sai_vlan_id_t" where
  "demo_vlan_of oid = ucast (drop_bit 8 oid)"

lemma demo_vlan_of_eval [simp]: "demo_vlan_of 261 = 1" "demo_vlan_of 517 = 2"
  by (simp_all add: demo_vlan_of_def)

definition demo_insert_vlan ::
  "sai_vlan_id_t \<Rightarrow> demo_vlan_cache \<Rightarrow> sai_status_t \<times> demo_vlan_cache" where
  "demo_insert_vlan v c = (if dc_created c v then (SAI_STATUS_ITEM_ALREADY_EXISTS, c)
     else (SAI_STATUS_SUCCESS, c\<lparr>dc_created := (dc_created c)(v := True)\<rparr>))"

definition demo_add_member ::
  "sai_vlan_member_node_t \<Rightarrow> demo_vlan_cache \<Rightarrow> sai_status_t \<times> demo_vlan_cache" where
  "demo_add_member n c =
     (let v = demo_vlan_of (member_vlan_id n) in
      (SAI_STATUS_SUCCESS, c\<lparr>dc_node := (dc_node c)(vlan_member_id n \<mapsto> n),
         dc_port := (dc_port c)(v := (dc_port c v)(member_port_id n \<mapsto> vlan_member_id n)),
         dc_used := (dc_used c)(v := Suc (dc_used c v))\<rparr>))"

definition demo_remove_member ::
  "sai_vlan_member_node_t \<Rightarrow> demo_vlan_cache \<Rightarrow> sai_status_t \<times> demo_vlan_cache" where
  "demo_remove_member n c =
     (let v = demo_vlan_of (member_vlan_id n) in
      (SAI_STATUS_SUCCESS, c\<lparr>dc_node := (dc_node c)(vlan_member_id n := None),
         dc_port := (dc_port c)(v := (dc_port c v)(member_port_id n := None)),
         dc_used := (dc_used c)(v := dc_used c v - 1)\<rparr>))"

definition demo_vlan :: "(demo_vlan_cache, nat) vlan_env" where
  "demo_vlan = \<lparr>calloc_ok = calloc_ok demo_stp, rbtree_create_ok = rbtree_create_ok demo_stp,
     rbtree_insert_ok = rbtree_insert_ok demo_stp,
     sai_uoid_create = demo_uoid, sai_is_obj_id = demo_is_obj,
     sai_is_port_valid = demo_port_valid,
     sai_get_indexed_ret_val = (\<lambda>rc i. rc),
     dn_sai_get_next_free_id = demo_next_id, uoid_npu_obj_id_mask = 255,
     npu_stp_init = npu_stp_init demo_stp, npu_instance_create = npu_instance_create demo_stp,
     npu_instance_remove = npu_instance_remove demo_stp,
     npu_vlan_add = npu_vlan_add demo_stp, npu_vlan_remove = npu_vlan_remove demo_stp,
     npu_attribute_get = npu_attribute_get demo_stp,
     npu_port_state_set = npu_port_state_set demo_stp,
     npu_port_state_get = npu_port_state_get demo_stp,
     npu_vlan_stp_get = npu_vlan_stp_get demo_stp,
     npu_default_instance_get = npu_default_instance_get demo_stp,
     internal_vlan_id = internal_vlan_id demo_stp,
     sai_is_valid_vlan_id = (\<lambda>v. 1 \<le> v \<and> v < 4095),
     sai_is_internal_vlan_id = (\<lambda>w v. False),
     sai_vlan_obj_id_to_vlan_id = demo_vlan_of,
     sai_vlan_id_to_vlan_obj_id = (\<lambda>v. demo_uoid SAI_OBJECT_TYPE_VLAN (ucast v)),
     sai_vlan_cache_init = (\<lambda>c. (SAI_STATUS_SUCCESS, c)),
     sai_is_vlan_created = dc_created,
     sai_insert_vlan_in_list = demo_insert_vlan,
     sai_remove_vlan_from_list = (\<lambda>v c. c\<lparr>dc_created := (dc_created c)(v := False)\<rparr>),
     sai_is_vlan_obj_in_use = (\<lambda>c v. dc_used c v \<noteq> 0),
     sai_vlan_max_learn_adddress_cache_write = (\<lambda>v n c. c),
     sai_vlan_learn_disable_cache_write = (\<lambda>v b c. c),
     sai_vlan_meta_data_cache_write = (\<lambda>v n c. c),
     sai_vlan_port_list_get = (\<lambda>c v ol. (SAI_STATUS_SUCCESS, ol\<lparr>ol_count := 0\<rparr>)),
     sai_is_port_vlan_member = (\<lambda>c v p. dc_port c v p \<noteq> None),
     sai_find_vlan_member_node = dc_node,
     sai_find_vlan_member_node_from_port = (\<lambda>c v p. case dc_port c v p of None \<Rightarrow> None | Some m \<Rightarrow> dc_node c m),
     sai_add_vlan_member_node = demo_add_member,
     sai_remove_vlan_member_node = demo_remove_member,
     vlan_member_node_store = (\<lambda>m n c. c\<lparr>dc_node := (dc_node c)(m \<mapsto> n)\<rparr>),
     npu_vlan_init = (\<lambda>w. (SAI_STATUS_SUCCESS, w)),
     npu_vlan_create = (\<lambda>v w. (SAI_STATUS_SUCCESS, w)),
     npu_vlan_delete = (\<lambda>v w. (SAI_STATUS_SUCCESS, w)),
     npu_set_vlan_max_learned_address = (\<lambda>v n w. (SAI_STATUS_SUCCESS, w)),
     npu_get_vlan_max_learned_address = (\<lambda>v w. (SAI_STATUS_SUCCESS, 0, w)),
     npu_disable_vlan_learn_set = (\<lambda>v b w. (SAI_STATUS_FAILURE, w)),
     npu_disable_vlan_learn_get = (\<lambda>v w. (SAI_STATUS_SUCCESS, False, w)),
     npu_set_vlan_meta_data = (\<lambda>v n w. (SAI_STATUS_SUCCESS, w)),
     npu_get_vlan_meta_data = (\<lambda>v w. (SAI_STATUS_SUCCESS, 0, w)),
     npu_vlan_member_create = (\<lambda>n w. (SAI_STATUS_SUCCESS, demo_uoid SAI_OBJECT_TYPE_VLAN_MEMBER (of_nat w), Suc w)),
     npu_vlan_member_remove = (\<lambda>n w. (SAI_STATUS_SUCCESS, w)),
     npu_set_vlan_member_tagging_mode = (\<lambda>n w. (SAI_STATUS_SUCCESS, w)),
     npu_get_vlan_stats = (\<lambda>v ids w. (SAI_STATUS_SUCCESS, map of_nat ids, w)),
     npu_clear_vlan_stats = (\<lambda>v ids w. (SAI_STATUS_SUCCESS, w)),
     sai_is_valid_vlan_tagging_mode = (\<lambda>m. m \<le> 2),
     set_port_attribute = (\<lambda>p a w. (SAI_STATUS_SUCCESS, w)),
     sai_port_infos = (\<lambda>w. [(259, True), (515, True)]),
     sai_switch_get_max_lport = (\<lambda>w. 2),
     sai_port_event_notif_register = (\<lambda>w. (SAI_STATUS_SUCCESS, w)),
     SAI_VLAN_TAGGING_MODE_UNTAGGED = 0, SAI_DEF_VLAN_TAGGING_MODE = 0,
     SAI_DFLT_VLAN_PRIORITY = 0, SAI_INVALID_VLAN_MEMBER_ID = 0\<rparr>"

lemma demo_vlan_stp_sel [simp]:
  "calloc_ok demo_vlan w = (True, w)" "rbtree_create_ok demo_vlan w = (True, w)"
  "rbtree_insert_ok demo_vlan b w = (\<not> b, w)"
  "sai_uoid_create demo_vlan = demo_uoid" "sai_is_obj_id demo_vlan = demo_is_obj"
  "sai_is_port_valid demo_vlan = demo_port_valid"
  "npu_vlan_add demo_vlan i v w = (SAI_STATUS_SUCCESS, w)"
  "npu_vlan_remove demo_vlan i v w = (SAI_STATUS_SUCCESS, w)"
  "npu_vlan_stp_get demo_vlan v w = (SAI_STATUS_SUCCESS, 1, w)"
  "sai_get_indexed_ret_val demo_vlan rc k = rc"
  "npu_stp_init demo_vlan w = (SAI_STATUS_SUCCESS, 1, 2, w)" "internal_vlan_id demo_vlan w = None"
  "dn_sai_get_next_free_id demo_vlan = demo_next_id" "uoid_npu_obj_id_mask demo_vlan = 255"
  by (simp_all add: demo_vlan_def, simp_all add: demo_stp_def)

lemma demo_vlan_sel [simp]:
  "sai_is_valid_vlan_id demo_vlan v \<longleftrightarrow> 1 \<le> v \<and> v < 4095" "\<not> sai_is_internal_vlan_id demo_vlan w v"
  "sai_vlan_obj_id_to_vlan_id demo_vlan = demo_vlan_of"
  "sai_vlan_id_to_vlan_obj_id demo_vlan v = demo_uoid SAI_OBJECT_TYPE_VLAN (ucast v)"
  "sai_is_vlan_created demo_vlan = dc_created" "sai_insert_vlan_in_list demo_vlan = demo_insert_vlan"
  "sai_remove_vlan_from_list demo_vlan v c = c\<lparr>dc_created := (dc_created c)(v := False)\<rparr>"
  "sai_is_vlan_obj_in_use demo_vlan c v \<longleftrightarrow> dc_used c v \<noteq> 0"
  "sai_vlan_max_learn_adddress_cache_write demo_vlan v n c = c"
  "sai_vlan_learn_disable_cache_write demo_vlan v b c = c"
  "sai_vlan_meta_data_cache_write demo_vlan v n c = c"
  "sai_is_port_vlan_member demo_vlan c v p \<longleftrightarrow> dc_port c v p \<noteq> None"
  "sai_find_vlan_member_node demo_vlan = dc_node"
  "sai_add_vlan_member_node demo_vlan = demo_add_member"
  "sai_remove_vlan_member_node demo_vlan = demo_remove_member"
  "vlan_member_node_store demo_vlan mid nd c = c\<lparr>dc_node := (dc_node c)(mid \<mapsto> nd)\<rparr>"
  "npu_vlan_create demo_vlan v w = (SAI_STATUS_SUCCESS, w)"
  "npu_vlan_delete demo_vlan v w = (SAI_STATUS_SUCCESS, w)"
  "npu_set_vlan_max_learned_address demo_vlan v n w = (SAI_STATUS_SUCCESS, w)"
  "npu_get_vlan_max_learned_address demo_vlan v w = (SAI_STATUS_SUCCESS, 0, w)"
  "npu_disable_vlan_learn_set demo_vlan v b w = (SAI_STATUS_FAILURE, w)"
  "npu_vlan_member_create demo_vlan nd w = (SAI_STATUS_SUCCESS, demo_uoid SAI_OBJECT_TYPE_VLAN_MEMBER (of_nat w), Suc w)"
  "npu_vlan_member_remove demo_vlan nd w = (SAI_STATUS_SUCCESS, w)"
  "npu_set_vlan_member_tagging_mode demo_vlan nd w = (SAI_STATUS_SUCCESS, w)"
  "sai_is_valid_vlan_tagging_mode demo_vlan m \<longleftrightarrow> m \<le> 2"
  "SAI_VLAN_TAGGING_MODE_UNTAGGED demo_vlan = 0" "SAI_INVALID_VLAN_MEMBER_ID demo_vlan = 0"
  "sai_vlan_cache_init demo_vlan c = (SAI_STATUS_SUCCESS, c)"
  "npu_vlan_init demo_vlan w = (SAI_STATUS_SUCCESS, w)"
  "set_port_attribute demo_vlan p a w = (SAI_STATUS_SUCCESS, w)"
  "sai_port_infos demo_vlan w = [(259, True), (515, True)]"
  "sai_port_event_notif_register demo_vlan w = (SAI_STATUS_SUCCESS, w)"
  "SAI_DEF_VLAN_TAGGING_MODE demo_vlan = 0"
  by (simp_all add: demo_vlan_def)

lemma demo_vlan_laws: "vlan_cache_laws demo_vlan"
proof -
  have "vlan_list_laws demo_vlan"
    by (auto simp: vlan_list_laws_def demo_insert_vlan_def)
  moreover have "vlan_member_laws demo_vlan"
    by (auto simp: vlan_member_laws_def demo_add_member_def demo_remove_member_def Let_def
        fun_upd_idem)
  ultimately show ?thesis by (simp add: vlan_cache_laws_def)
qed

text \<open>VLAN 1 exists, VLAN 2 exists with port 259 as member 262 and is attached to no instance.\<close>

definition demo_node :: sai_vlan_member_node_t where
  "demo_node = \<lparr>vlan_member_id = 262, member_switch_id = 0, member_vlan_id = 517,
     member_port_id = 259, tagging_mode = 0\<rparr>"

definition demo_vlan_one :: "demo_vlan_cache vlan_state" where
  "demo_vlan_one = \<lparr>vlan_stp = demo_stp_state,
     vlan_cache = \<lparr>dc_created = (\<lambda>_. False)(1 := True), dc_node = Map.empty,
       dc_port = (\<lambda>_. Map.empty), dc_used = (\<lambda>_. 0)\<rparr>, vlan_lock_depth = 0\<rparr>"

definition demo_vlan_used :: "demo_vlan_cache vlan_state" where
  "demo_vlan_used = \<lparr>vlan_stp = demo_stp_state,
     vlan_cache = \<lparr>dc_created = (\<lambda>_. False)(1 := True, 2 := True), dc_node = [262 \<mapsto> demo_node],
       dc_port = (\<lambda>_. Map.empty)(2 := [259 \<mapsto> 262]), dc_used = (\<lambda>_. 0)(2 := 1)\<rparr>,
     vlan_lock_depth = 0\<rparr>"

lemma demo_vlan_stp_ok: "stp_service_ok demo_vlan demo_stp_state"
proof -
  have "refuses_duplicates demo_vlan" by (simp add: refuses_duplicates_def)
  moreover have "port_space demo_vlan = port_space demo_stp" by (simp add: port_space_def)
  then have "stp_inv demo_vlan demo_stp_state"
    using demo_stp_inv by (simp add: stp_inv_def stp_info_ok_def)
  ultimately show ?thesis by (simp add: stp_service_ok_def)
qed

lemma demo_stp_members: "stp_vlan_member demo_stp_state i v \<longleftrightarrow> i = 257 \<and> v = 1"
  by (auto simp: stp_vlan_member_def demo_stp_state_def rb_getexact_def)

text \<open>The switch boots with two ports, both members of VLAN 1.\<close>

definition demo_vlan_globals :: "demo_vlan_cache vlan_state" where
  "demo_vlan_globals = \<lparr>vlan_stp = demo_stp_globals,
     vlan_cache = \<lparr>dc_created = (\<lambda>_. False), dc_node = Map.empty, dc_port = (\<lambda>_. Map.empty),
       dc_used = (\<lambda>_. 0)\<rparr>, vlan_lock_depth = 0\<rparr>"

lemma demo_vlan_env_laws: "vlan_env_laws demo_vlan"
proof -
  have "vlan_exists_law demo_vlan" by (simp add: vlan_exists_law_def demo_insert_vlan_def)
  moreover have "stp_env_laws demo_vlan"
    using demo_stp_laws
    by (simp add: stp_env_laws_def stp_laws_def few_ports_def uoid_typed_def refuses_duplicates_def
        port_space_def demo_vlan_def)
  ultimately show ?thesis using demo_vlan_laws by (simp add: vlan_env_laws_def)
qed

lemma demo_vlan_boot:
  "\<exists>s w. sai_vlan_init demo_vlan demo_vlan_globals 0 = (SAI_STATUS_SUCCESS, s, w)
     \<and> vlan_stp s = demo_stp_globals \<and> \<not> dc_created (vlan_cache s) 2"
  by (simp add: sai_vlan_init_def sai_l2_default_vlan_init_def sai_l2_create_vlan_def
      vlan_create_body_def sai_is_vlan_id_available_def demo_insert_vlan_def demo_vlan_globals_def
      sai_vlan_port_default_init_def sai_l2_create_vlan_member_def vlan_member_accept_def
      vlan_member_create_body_def sai_is_vlan_configurable_iff sai_validate_vlan_port_def
      demo_add_member_def demo_eval demo_vlan_of_def sai_vlan_lock_def sai_vlan_unlock_def)

lemma demo_vlan_stp_boot: "sai_stp_init demo_vlan demo_stp_globals 0 = (SAI_STATUS_SUCCESS, Some demo_stp_state, 0)"
  by (simp add: sai_stp_init_def demo_stp_globals_def demo_stp_state_def demo_eval
      sai_stp_port_id_gen_init_def sai_internal_instance_update_cache_def
      stp_update_cache_body_def sai_stp_lock_def sai_stp_unlock_def stp_info_write_def)

lemma demo_vlan_create_two:
  assumes "vlan_stp s = demo_stp_state" "\<not> dc_created (vlan_cache s) 2"
  shows "\<exists>s' w'. sai_l2_create_vlan demo_vlan [SAI_VLAN_ATTR_VLAN_ID 2] s 0
     = (SAI_STATUS_SUCCESS, Some 517, s', w') \<and> stp_vlan_member (vlan_stp s') 257 2"
  using assms
  by (simp add: sai_l2_create_vlan_def vlan_create_body_def sai_is_vlan_id_available_def
      demo_insert_vlan_def sai_stp_default_stp_vlan_update_def sai_stp_vlan_add_def
      stp_vlan_add_body_def demo_stp_state_def demo_eval sai_stp_lock_def sai_vlan_lock_def
      sai_vlan_unlock_def stp_vlan_member_def stp_info_write_def)

lemma demo_vlan_booted:
  "\<exists>s. vlan_reachable demo_vlan s \<and> vlan_stp s = demo_stp_state \<and> \<not> dc_created (vlan_cache s) 2"
proof -
  obtain s w where i: "sai_vlan_init demo_vlan demo_vlan_globals 0 = (SAI_STATUS_SUCCESS, s, w)"
    "vlan_stp s = demo_stp_globals" "\<not> dc_created (vlan_cache s) 2"
    using demo_vlan_boot by blast
  have "vlan_start demo_vlan (s\<lparr>vlan_stp := demo_stp_state\<rparr>)"
    unfolding vlan_start_def
    by (intro exI conjI) (use i demo_vlan_stp_boot in \<open>simp_all add: demo_vlan_globals_def demo_stp_globals_def\<close>)
  then have "vlan_reachable demo_vlan (s\<lparr>vlan_stp := demo_stp_state\<rparr>)"
    unfolding vlan_reachable_def by (rule reach_start)
  with i(3) show ?thesis by (intro exI [of _ "s\<lparr>vlan_stp := demo_stp_state\<rparr>"]) simp
qed

section \<open>VLANs and spanning-tree instances\<close>

text \<open>C12. After the switch has booted, and in every state that calls of the VLAN and of the
  spanning-tree API and port events reach from there, failing or not, a VLAN that some STP instance
  has is a VLAN that exists: no call leaves an instance with a VLAN that was removed.  The one
  exception is an internal VLAN of the platform, which the STP module attaches at boot and which is
  never created.  \<open>vlan_env_laws\<close> is what the code relies on outside: the VLAN list and the
  member nodes behave as a list and a map, a tree refuses a key it holds, object ids carry their
  type, there are fewer than \<open>2 ^ 32\<close> ports, and the internal VLAN is not VLAN 1.\<close>

theorem vlan_attached_exists:
  assumes reached: "vlan_reachable E s" and laws: "vlan_env_laws E"
    and attached: "stp_vlan_member (vlan_stp s) i v"
    and user: "\<And>w. internal_vlan_id E w \<noteq> Some v"
  shows "sai_is_vlan_created E (vlan_cache s) v"
proof -
  have "vlan_inv E (internal_vlans E) s"
    using vlan.reach_inv [OF reached [unfolded vlan_reachable_def]] laws by blast
  from vlan_inv_cover [OF this attached] user show ?thesis by auto
qed

theorem vlan_attached_exists_witness:
  "\<exists>s. vlan_reachable demo_vlan s \<and> stp_vlan_member (vlan_stp s) 257 2 \<and> dc_created (vlan_cache s) 2"
proof -
  obtain s where s: "vlan_reachable demo_vlan s" "vlan_stp s = demo_stp_state" "\<not> dc_created (vlan_cache s) 2"
    using demo_vlan_booted by blast
  obtain t w where t: "sai_l2_create_vlan demo_vlan [SAI_VLAN_ATTR_VLAN_ID 2] s 0
     = (SAI_STATUS_SUCCESS, Some 517, t, w)" "stp_vlan_member (vlan_stp t) 257 2"
    using demo_vlan_create_two [OF s(2,3)] by blast
  have r: "vlan_reachable demo_vlan t"
    using s(1) step_create [OF t(1)] unfolding vlan_reachable_def by (rule reach_step)
  have "internal_vlan_id demo_vlan w \<noteq> Some 2" for w by (simp add: demo_vlan_def)
  from vlan_attached_exists [OF r demo_vlan_env_laws t(2) this] r t(2) show ?thesis by auto
qed

text \<open>C13. A VLAN whose deletion fails in the plug-in is stranded.  When \<open>sai_l2_remove_vlan\<close>
  has detached the VLAN from its instance and the plug-in then refuses to delete it, the VLAN
  stays in the cache attached to no instance, and from then on every attempt to remove it or to
  attach it to an instance fails without any effect, whatever the plug-in answers.\<close>

theorem vlan_delete_failure_strands:
  assumes obj: "sai_is_obj_id E SAI_OBJECT_TYPE_VLAN oid" and v: "v = sai_vlan_obj_id_to_vlan_id E oid"
    and ready: "sai_is_vlan_configurable E v s w = SAI_STATUS_SUCCESS"
      "\<not> sai_is_vlan_obj_in_use E (vlan_cache s) v"
    and detach: "sai_stp_vlan_destroy E v (vlan_stp s) w = (SAI_STATUS_SUCCESS, t, w1)"
    and refuse: "npu_vlan_delete E v w1 = (e, w2)" "e \<noteq> SAI_STATUS_SUCCESS"
    and ok: "stp_service_ok E (vlan_stp s)" and null: "\<not> sai_is_obj_id E SAI_OBJECT_TYPE_STP 0"
  shows "\<exists>s'. sai_l2_remove_vlan E oid s w = (e, s', w2)
     \<and> sai_is_vlan_created E (vlan_cache s') v \<and> (\<forall>j. \<not> stp_vlan_member (vlan_stp s') j v)
     \<and> (\<forall>w rc u w'. sai_l2_remove_vlan E oid s' w = (rc, u, w') \<longrightarrow> rc \<noteq> SAI_STATUS_SUCCESS \<and> u = s')
     \<and> (\<forall>w i rc u w'. sai_l2_set_vlan_attribute E oid (SAI_VLAN_ATTR_STP_INSTANCE i) s' w = (rc, u, w')
           \<longrightarrow> rc \<noteq> SAI_STATUS_SUCCESS \<and> u = s')"
proof (intro exI [of _ "s\<lparr>vlan_stp := t\<rparr>"] conjI allI impI)
  have map0: "g_stp_vlan_map t v = 0"
    using detach by (auto simp: sai_stp_vlan_destroy_def Let_def split: prod.splits if_splits)
  have rm: "sai_stp_vlan_remove E 0 v t w = (SAI_STATUS_INVALID_OBJECT_TYPE, t, w)" for w
    using null by (simp add: sai_stp_vlan_remove_def)
  show "sai_l2_remove_vlan E oid s w = (e, s\<lparr>vlan_stp := t\<rparr>, w2)"
    using obj ready detach refuse
    by (simp add: sai_l2_remove_vlan_def sai_l2_delete_vlan_def Let_def v)
  show "sai_is_vlan_created E (vlan_cache (s\<lparr>vlan_stp := t\<rparr>)) v"
    using ready(1) by (simp add: sai_is_vlan_configurable_iff)
  show "\<not> stp_vlan_member (vlan_stp (s\<lparr>vlan_stp := t\<rparr>)) j v" for j
    using stp_vlan.destroy_member [OF ok detach] by simp
  {
    fix w rc u w'
    assume "sai_l2_remove_vlan E oid (s\<lparr>vlan_stp := t\<rparr>) w = (rc, u, w')"
    then have "rc \<noteq> SAI_STATUS_SUCCESS \<and> u = s\<lparr>vlan_stp := t\<rparr>"
      using ready(2) rm
      by (auto simp: sai_l2_remove_vlan_def sai_l2_delete_vlan_def sai_stp_vlan_destroy_def v [symmetric]
          Let_def map0 split: if_splits prod.splits)
    then show "rc \<noteq> SAI_STATUS_SUCCESS" "u = s\<lparr>vlan_stp := t\<rparr>" by auto
  next
    fix w i rc u w'
    assume "sai_l2_set_vlan_attribute E oid (SAI_VLAN_ATTR_STP_INSTANCE i) (s\<lparr>vlan_stp := t\<rparr>) w = (rc, u, w')"
    then have "rc \<noteq> SAI_STATUS_SUCCESS \<and> u = s\<lparr>vlan_stp := t\<rparr>"
      using rm
      by (auto simp: sai_l2_set_vlan_attribute_def vlan_attribute_set_switch_def sai_stp_vlan_handle_def
          sai_stp_is_valid_stp_instance_def Let_def map0 v [symmetric] split: if_splits prod.splits)
    then show "rc \<noteq> SAI_STATUS_SUCCESS" "u = s\<lparr>vlan_stp := t\<rparr>" by auto
  }
qed

definition demo_vlan_stubborn :: "(demo_vlan_cache, nat) vlan_env" where
  "demo_vlan_stubborn = demo_vlan\<lparr>npu_vlan_delete := (\<lambda>v w. (SAI_STATUS_FAILURE, w))\<rparr>"

lemma demo_vlan_stubborn_sel [simp]:
  "sai_is_obj_id demo_vlan_stubborn = demo_is_obj" "sai_vlan_obj_id_to_vlan_id demo_vlan_stubborn = demo_vlan_of"
  "npu_vlan_delete demo_vlan_stubborn v w = (SAI_STATUS_FAILURE, w)"
  "npu_vlan_remove demo_vlan_stubborn i v w = (SAI_STATUS_SUCCESS, w)"
  "sai_is_vlan_created demo_vlan_stubborn = dc_created"
  "sai_is_valid_vlan_id demo_vlan_stubborn v \<longleftrightarrow> 1 \<le> v \<and> v < 4095"
  "\<not> sai_is_internal_vlan_id demo_vlan_stubborn w v"
  "sai_is_vlan_obj_in_use demo_vlan_stubborn c v \<longleftrightarrow> dc_used c v \<noteq> 0"
  "stp_service_ok demo_vlan_stubborn = stp_service_ok demo_vlan"
  by (simp_all add: demo_vlan_stubborn_def,
      simp_all add: demo_vlan_def demo_stp_def stp_service_ok_def [abs_def] stp_inv_def stp_info_ok_def
        refuses_duplicates_def port_space_def)

theorem vlan_delete_failure_strands_witness:
  "fst (sai_l2_remove_vlan demo_vlan_stubborn 261 demo_vlan_one 0) = SAI_STATUS_FAILURE"
proof -
  let ?v = "sai_vlan_obj_id_to_vlan_id demo_vlan_stubborn 261"
  have v: "?v = 1" by simp
  have o: "sai_is_obj_id demo_vlan_stubborn SAI_OBJECT_TYPE_VLAN 261" by (simp add: demo_is_obj_def)
  have n: "\<not> sai_is_obj_id demo_vlan_stubborn SAI_OBJECT_TYPE_STP 0" by (simp add: demo_is_obj_def)
  have c: "sai_is_vlan_configurable demo_vlan_stubborn ?v demo_vlan_one 0 = SAI_STATUS_SUCCESS"
    unfolding v by (simp add: sai_is_vlan_configurable_iff demo_vlan_one_def)
  have u: "\<not> sai_is_vlan_obj_in_use demo_vlan_stubborn (vlan_cache demo_vlan_one) ?v"
    unfolding v by (simp add: demo_vlan_one_def)
  obtain t w1 where d: "sai_stp_vlan_destroy demo_vlan_stubborn ?v (vlan_stp demo_vlan_one) 0
      = (SAI_STATUS_SUCCESS, t, w1)"
    unfolding v by (simp add: sai_stp_vlan_destroy_def sai_stp_vlan_remove_def stp_vlan_remove_body_def
        demo_vlan_one_def demo_stp_state_def demo_eval sai_stp_lock_def)
  have k: "stp_service_ok demo_vlan_stubborn (vlan_stp demo_vlan_one)"
    using demo_vlan_stp_ok by (simp add: demo_vlan_one_def)
  from vlan_delete_failure_strands [OF o refl c u d _ _ k n] show ?thesis by auto
qed

section \<open>Removing and creating a VLAN\<close>

text \<open>C14. A successful removal is complete: the VLAN existed and had no member, it is now
  neither in the cache nor attached to any instance, and no other VLAN is touched.\<close>

theorem vlan_remove_complete:
  assumes run: "sai_l2_remove_vlan E oid s w = (SAI_STATUS_SUCCESS, s', w')"
    and ok: "stp_service_ok E (vlan_stp s)" and L: "vlan_list_laws E"
    and v: "v = sai_vlan_obj_id_to_vlan_id E oid"
  shows "sai_is_vlan_created E (vlan_cache s) v \<and> \<not> sai_is_vlan_obj_in_use E (vlan_cache s) v
     \<and> sai_is_vlan_created E (vlan_cache s') = (sai_is_vlan_created E (vlan_cache s))(v := False)
     \<and> (\<forall>j. \<not> stp_vlan_member (vlan_stp s') j v)
     \<and> (\<forall>j u. u \<noteq> v \<longrightarrow> stp_vlan_member (vlan_stp s') j u = stp_vlan_member (vlan_stp s) j u)"
  using run
proof (cases rule: vlan_remove_effect)
  case (tried s1)
  from tried(1) show ?thesis
  proof (cases rule: vlan_delete_effect)
    case (deleted t w1)
    then have d: "sai_stp_vlan_destroy E v (vlan_stp s) w = (SAI_STATUS_SUCCESS, t, w1)"
      by (simp add: v)
    show ?thesis
      using deleted(2) tried(2-) stp_vlan.destroy_member [OF ok d] stp_vlan.destroy_frame [OF ok d]
      by (simp add: v L)
  qed simp_all
qed simp_all

theorem vlan_remove_complete_witness:
  "\<exists>s' w'. sai_l2_remove_vlan demo_vlan 261 demo_vlan_one 0 = (SAI_STATUS_SUCCESS, s', w')
     \<and> \<not> stp_vlan_member (vlan_stp s') 257 1"
proof -
  have v: "1 = sai_vlan_obj_id_to_vlan_id demo_vlan 261" by simp
  obtain s' w' where r: "sai_l2_remove_vlan demo_vlan 261 demo_vlan_one 0 = (SAI_STATUS_SUCCESS, s', w')"
    by (simp add: sai_l2_remove_vlan_def sai_l2_delete_vlan_def sai_is_vlan_configurable_iff
        sai_stp_vlan_destroy_def sai_stp_vlan_remove_def stp_vlan_remove_body_def demo_vlan_one_def
        demo_stp_state_def demo_eval sai_stp_lock_def)
  have ok: "stp_service_ok demo_vlan (vlan_stp demo_vlan_one)"
    using demo_vlan_stp_ok by (simp add: demo_vlan_one_def)
  have L: "vlan_list_laws demo_vlan" using demo_vlan_laws by (simp add: vlan_cache_laws_def)
  from vlan_remove_complete [OF r ok L v] r show ?thesis by blast
qed

end
