(* ===== verification/Vlan_Calls.thy ===== *)
theory Vlan_Calls
  imports Vlan_Claims
begin

text \<open>
  Further properties of the VLAN component: what a creation leaves on each branch, and the lock.
\<close>

section \<open>Creating a VLAN\<close>

text \<open>C19. Creating a VLAN, other than VLAN 1, with its id alone.  On success the VLAN is new, it
  exists, it is attached to the default instance and to no other, and no other VLAN is touched.  On
  failure no object id is returned, and either no VLAN was created and no instance changed, or the
  VLAN exists although the caller has no object id for it: then it is its association with the
  default instance that failed.  The STP component is in its invariant, and the VLAN list behaves
  as a set (\<open>vlan_list_laws\<close>).\<close>

theorem vlan_create_single:
  assumes run: "sai_l2_create_vlan E [SAI_VLAN_ATTR_VLAN_ID v] s w = (rc, out, s', w')"
    and ok: "stp_service_ok E (vlan_stp s)" and L: "vlan_list_laws E" and v: "v \<noteq> SAI_INIT_DEFAULT_VLAN"
  shows "if rc = SAI_STATUS_SUCCESS
    then out = Some (sai_vlan_id_to_vlan_obj_id E v) \<and> \<not> sai_is_vlan_created E (vlan_cache s) v
      \<and> sai_is_vlan_created E (vlan_cache s') = (sai_is_vlan_created E (vlan_cache s))(v := True)
      \<and> (\<forall>j. stp_vlan_member (vlan_stp s') j v \<longleftrightarrow> j = g_def_stp_id (vlan_stp s))
      \<and> (\<forall>j u. u \<noteq> v \<longrightarrow> stp_vlan_member (vlan_stp s') j u = stp_vlan_member (vlan_stp s) j u)
    else out = Some SAI_NULL_OBJECT_ID
      \<and> (vlan_stp s' = vlan_stp s \<and> sai_is_vlan_created E (vlan_cache s') = sai_is_vlan_created E (vlan_cache s)
        \<or> sai_is_vlan_created E (vlan_cache s') = (sai_is_vlan_created E (vlan_cache s))(v := True)
          \<and> (\<exists>w1. sai_stp_default_stp_vlan_update E v (vlan_stp s) w1 = (rc, vlan_stp s', w')))"
proof -
  obtain s1 where b: "vlan_create_body E v (sai_vlan_lock s) w = (rc, s1, w')"
    and s': "s' = sai_vlan_unlock s1"
    and out: "out = Some (if rc = SAI_STATUS_SUCCESS then sai_vlan_id_to_vlan_obj_id E v else 0)"
    using run by (auto simp: sai_l2_create_vlan_def Let_def split: prod.splits)
  obtain r c where i: "sai_insert_vlan_in_list E v (vlan_cache s) = (r, c)" by (metis surj_pair)
  note law = vlan_insert_law [OF L i]
  obtain r2 w2 where n: "npu_vlan_create E v w = (r2, w2)" by (metis surj_pair)
  obtain r3 t w3 where u: "sai_stp_default_stp_vlan_update E v (vlan_stp s) w2 = (r3, t, w3)"
    by (metis prod_cases3)
  note B = b [unfolded vlan_create_body_def Let_def vlan_lock_sel i n u]
  consider "rc \<noteq> SAI_STATUS_SUCCESS" "s' = s"
    | "rc \<noteq> SAI_STATUS_SUCCESS" "r = SAI_STATUS_SUCCESS" "vlan_stp s' = vlan_stp s"
      "vlan_cache s' = sai_remove_vlan_from_list E v c"
    | "r = SAI_STATUS_SUCCESS" "r3 = rc" "w3 = w'" "vlan_stp s' = t" "vlan_cache s' = c"
    using B v u law(3) unfolding s'
    by (cases "sai_is_vlan_id_available E v w = SAI_STATUS_SUCCESS"; cases "r = SAI_STATUS_SUCCESS")
      (auto split: if_splits)
  then show ?thesis
  proof cases
    case 2
    have "sai_is_vlan_created E (vlan_cache s') = sai_is_vlan_created E (vlan_cache s)"
      using 2 law L by (auto simp: fun_eq_iff)
    with 2 out show ?thesis by simp
  next
    case 3
    with u have u': "sai_stp_default_stp_vlan_update E v (vlan_stp s) w2 = (rc, vlan_stp s', w')" by simp
    show ?thesis
      using 3 law out u' stp_vlan.update_member [OF ok u'] stp_vlan.update_frame [OF ok u'] by auto
  qed (use out in simp)
qed

lemma demo_vlan_create:
  "\<exists>s' w'. sai_l2_create_vlan demo_vlan [SAI_VLAN_ATTR_VLAN_ID 2] demo_vlan_one 0
     = (SAI_STATUS_SUCCESS, Some 517, s', w')"
  using demo_vlan_create_two [of demo_vlan_one] by (auto simp: demo_vlan_one_def)

theorem vlan_create_single_witness:
  "\<exists>s' w'. sai_l2_create_vlan demo_vlan [SAI_VLAN_ATTR_VLAN_ID 2] demo_vlan_one 0
     = (SAI_STATUS_SUCCESS, Some 517, s', w') \<and> stp_vlan_member (vlan_stp s') 257 2"
proof -
  obtain s' w' where r: "sai_l2_create_vlan demo_vlan [SAI_VLAN_ATTR_VLAN_ID 2] demo_vlan_one 0
     = (SAI_STATUS_SUCCESS, Some 517, s', w')" using demo_vlan_create by blast
  have ok: "stp_service_ok demo_vlan (vlan_stp demo_vlan_one)"
    using demo_vlan_stp_ok by (simp add: demo_vlan_one_def)
  have L: "vlan_list_laws demo_vlan" using demo_vlan_laws by (simp add: vlan_cache_laws_def)
  have "stp_vlan_member (vlan_stp s') 257 2"
    using vlan_create_single [OF r ok L] by (simp add: demo_vlan_one_def demo_stp_state_def)
  with r show ?thesis by blast
qed












section \<open>The lock\<close>

text \<open>Removing a VLAN that has members returns with the VLAN lock held: exactly on the
  branch that answers \<open>SAI_STATUS_OBJECT_IN_USE\<close> for a configurable VLAN in use the lock is not
  released, so the next call on the component blocks.\<close>

theorem vlan_remove_in_use_keeps_lock:
  assumes "sai_l2_remove_vlan E oid s w = (rc, s', w')" and v: "v = sai_vlan_obj_id_to_vlan_id E oid"
  shows "vlan_lock_depth s' = vlan_lock_depth s +
    (if sai_is_obj_id E SAI_OBJECT_TYPE_VLAN oid \<and> sai_is_vlan_configurable E v s w = SAI_STATUS_SUCCESS
        \<and> sai_is_vlan_obj_in_use E (vlan_cache s) v then 1 else 0)"
proof -
  have del: "vlan_lock_depth t = vlan_lock_depth u"
    if "sai_l2_delete_vlan E v u w = (r, t, x)" for r t u x
    using that by (cases rule: vlan_delete_effect) simp_all
  show ?thesis
    using assms(1) unfolding sai_l2_remove_vlan_def Let_def v [symmetric]
    by (auto split: if_splits prod.splits dest!: del)
qed

theorem vlan_remove_in_use_keeps_lock_witness:
  "vlan_lock_depth (fst (snd (sai_l2_remove_vlan demo_vlan 517 demo_vlan_used 0))) = 1"
proof -
  obtain rc s' w' where r: "sai_l2_remove_vlan demo_vlan 517 demo_vlan_used 0 = (rc, s', w')"
    by (metis prod_cases3)
  have o: "sai_is_obj_id demo_vlan SAI_OBJECT_TYPE_VLAN 517" by (simp add: demo_is_obj_def)
  from vlan_remove_in_use_keeps_lock [OF r refl] o r show ?thesis
    by (simp add: sai_is_vlan_configurable_iff demo_vlan_used_def)
qed

text \<open>All calls but the removal, and the creation with one attribute (the creation with more
  calls the removal).\<close>

inductive vlan_balanced_step ::
  "('c, 'w, 'z) vlan_env_scheme \<Rightarrow> 'c vlan_state \<Rightarrow> 'c vlan_state \<Rightarrow> bool" for E where
  bal_create: "sai_l2_create_vlan E [a] s w = (rc, out, s', w') \<Longrightarrow> vlan_balanced_step E s s'"
| bal_set: "sai_l2_set_vlan_attribute E oid a s w = (rc, s', w') \<Longrightarrow> vlan_balanced_step E s s'"
| bal_get: "sai_l2_get_vlan_attribute E oid as s w = (rc, as', s', w') \<Longrightarrow> vlan_balanced_step E s s'"
| bal_member_create:
    "sai_l2_create_vlan_member E sw bs s w = (rc, mid, s', w') \<Longrightarrow> vlan_balanced_step E s s'"
| bal_member_remove: "sai_l2_remove_vlan_member E mid s w = (rc, s', w') \<Longrightarrow> vlan_balanced_step E s s'"
| bal_member_set:
    "sai_l2_set_vlan_member_attribute E mid b s w = (rc, s', w') \<Longrightarrow> vlan_balanced_step E s s'"
| bal_member_get:
    "sai_l2_get_vlan_member_attribute E mid bs s = (rc, bs', s') \<Longrightarrow> vlan_balanced_step E s s'"
| bal_notify:
    "sai_vlan_port_notification_handler E data s w = (rc, s', w') \<Longrightarrow> vlan_balanced_step E s s'"

lemma vlan_create_body_lock:
  "vlan_create_body E v s w = (rc, s', w') \<Longrightarrow> vlan_lock_depth s' = vlan_lock_depth s"
  by (auto simp: vlan_create_body_def Let_def split: if_splits prod.splits)

lemma vlan_set_lock:
  "sai_l2_set_vlan_attribute E oid a s w = (rc, s', w') \<Longrightarrow> vlan_lock_depth s' = vlan_lock_depth s"
  by (auto dest!: vlan_attribute_set_effect)

lemma vlan_member_op_lock:
  "vlan_member_create_body E v n s w = (rc, mid, s', w') \<Longrightarrow> vlan_lock_depth s' = vlan_lock_depth s"
  "sai_l2_create_vlan_member E sw bs s w = (rc, mid, s', w') \<Longrightarrow> vlan_lock_depth s' = vlan_lock_depth s"
  "sai_l2_remove_vlan_member E m s w = (rc, s', w') \<Longrightarrow> vlan_lock_depth s' = vlan_lock_depth s"
  "sai_l2_set_vlan_member_attribute E m b s w = (rc, s', w') \<Longrightarrow> vlan_lock_depth s' = vlan_lock_depth s"
proof -
  show body: "vlan_lock_depth s' = vlan_lock_depth s"
    if "vlan_member_create_body E v n s w = (rc, mid, s', w')" for v n s w rc mid s' w'
    using that by (auto simp: vlan_member_create_body_def Let_def split: if_splits prod.splits)
  show "sai_l2_create_vlan_member E sw bs s w = (rc, mid, s', w') \<Longrightarrow> vlan_lock_depth s' = vlan_lock_depth s"
    by (auto simp: sai_l2_create_vlan_member_def Let_def dest!: body
        split: if_splits prod.splits sum.splits option.splits)
  show "sai_l2_remove_vlan_member E m s w = (rc, s', w') \<Longrightarrow> vlan_lock_depth s' = vlan_lock_depth s"
    by (auto simp: sai_l2_remove_vlan_member_def Let_def split: if_splits prod.splits option.splits)
  show "sai_l2_set_vlan_member_attribute E m b s w = (rc, s', w') \<Longrightarrow> vlan_lock_depth s' = vlan_lock_depth s"
    by (auto simp: sai_l2_set_vlan_member_attribute_def Let_def
        split: if_splits prod.splits option.splits sai_vlan_member_attr_t.splits)
qed

lemma vlan_default_port_lock:
  "sai_vlan_port_default_init E v p s w = (rc, s', w') \<Longrightarrow> vlan_lock_depth s' = vlan_lock_depth s"
  unfolding sai_vlan_port_default_init_def Let_def
  by (auto split: if_splits prod.splits dest!: vlan_member_op_lock(2,3))

lemma vlan_notification_lock:
  "vlan_port_notification_loop E data s w = (s', w') \<Longrightarrow> vlan_lock_depth s' = vlan_lock_depth s"
proof (induction data arbitrary: s w)
  case (Cons d data)
  obtain p e where d: "d = (p, e)" by (cases d)
  show ?case
    using Cons.prems unfolding d
    by (cases e) (auto dest!: Cons.IH vlan_default_port_lock vlan_member_op_lock(3)
        split: prod.splits option.splits)
qed simp

text \<open>Every other call of the VLAN API, and the handler of port events, releases the lock
  as often as it takes it.\<close>

theorem vlan_lock_balanced:
  assumes "vlan_balanced_step E s t"
  shows "vlan_lock_depth t = vlan_lock_depth s"
  using assms
proof cases
  case (bal_create a w rc out w')
  then show ?thesis
    by (auto simp: sai_l2_create_vlan_def Let_def dest!: vlan_create_body_lock
        split: option.splits prod.splits)
next
  case (bal_notify data w rc w')
  then show ?thesis
    by (auto simp: sai_vlan_port_notification_handler_def dest!: vlan_notification_lock split: prod.splits)
qed (auto dest!: vlan_get_same vlan_set_lock vlan_member_op_lock(2-4))

theorem vlan_lock_balanced_witness:
  "\<exists>s'. vlan_balanced_step demo_vlan demo_vlan_one s' \<and> vlan_lock_depth s' = 0"
proof -
  obtain s' w' where "sai_l2_create_vlan demo_vlan [SAI_VLAN_ATTR_VLAN_ID 2] demo_vlan_one 0
     = (SAI_STATUS_SUCCESS, Some 517, s', w')" using demo_vlan_create by blast
  from bal_create [OF this] vlan_lock_balanced [OF bal_create [OF this]] show ?thesis
    by (auto simp: demo_vlan_one_def)
qed

end
