(* ===== verification/Vlan_Attributes.thy ===== *)
theory Vlan_Attributes
  imports Vlan_Calls
begin

text \<open>
  Members of a VLAN and the attributes of VLANs and members.
\<close>

section \<open>Members\<close>

text \<open>A member is only created for a VLAN that exists and is not internal, with a valid
  port that is not yet a member and a valid tagging mode.  The new node carries what the caller
  asked for under the returned id; every other member is untouched.\<close>

theorem vlan_member_create_spec:
  assumes run: "sai_l2_create_vlan_member E sw as s w = (SAI_STATUS_SUCCESS, mid, s', w')"
    and M: "vlan_member_laws E"
  shows "\<exists>n. sai_find_vlan_member_node E (vlan_cache s')
        = (sai_find_vlan_member_node E (vlan_cache s))(mid \<mapsto> n)
     \<and> vlan_member_id n = mid \<and> member_switch_id n = sw
     \<and> SAI_VLAN_MEMBER_ATTR_VLAN_ID (member_vlan_id n) \<in> set as
     \<and> SAI_VLAN_MEMBER_ATTR_PORT_ID (member_port_id n) \<in> set as
     \<and> (SAI_VLAN_MEMBER_ATTR_VLAN_TAGGING_MODE (tagging_mode n) \<in> set as
        \<or> tagging_mode n = SAI_VLAN_TAGGING_MODE_UNTAGGED E)
     \<and> sai_is_obj_id E SAI_OBJECT_TYPE_VLAN (member_vlan_id n)
     \<and> sai_is_vlan_created E (vlan_cache s) (sai_vlan_obj_id_to_vlan_id E (member_vlan_id n))
     \<and> \<not> sai_is_internal_vlan_id E w (sai_vlan_obj_id_to_vlan_id E (member_vlan_id n))
     \<and> sai_is_port_valid E w (member_port_id n)
     \<and> sai_is_valid_vlan_tagging_mode E (tagging_mode n)
     \<and> \<not> sai_is_port_vlan_member E (vlan_cache s)
          (sai_vlan_obj_id_to_vlan_id E (member_vlan_id n)) (member_port_id n)"
proof -
  let ?u = "SAI_VLAN_TAGGING_MODE_UNTAGGED E"
  let ?P = "\<lambda>(vo, po, m). (\<forall>v. vo = Some v \<longrightarrow> SAI_VLAN_MEMBER_ATTR_VLAN_ID v \<in> set as
        \<and> sai_is_obj_id E SAI_OBJECT_TYPE_VLAN v)
      \<and> (\<forall>p. po = Some p \<longrightarrow> SAI_VLAN_MEMBER_ATTR_PORT_ID p \<in> set as)
      \<and> (SAI_VLAN_MEMBER_ATTR_VLAN_TAGGING_MODE m \<in> set as \<or> m = ?u)"
  obtain v p m c n where *:
    "vlan_member_parse E 0 as (None, None, ?u) = Inr (Some v, Some p, m)"
    "n = \<lparr>vlan_member_id = mid, member_switch_id = sw, member_vlan_id = v,
          member_port_id = p, tagging_mode = m\<rparr>"
    "sai_is_vlan_configurable E (sai_vlan_obj_id_to_vlan_id E v) s w = SAI_STATUS_SUCCESS"
    "sai_validate_vlan_port E p m w = SAI_STATUS_SUCCESS"
    "\<not> sai_is_port_vlan_member E (vlan_cache s) (sai_vlan_obj_id_to_vlan_id E v) p"
    "sai_add_vlan_member_node E n (vlan_cache s) = (SAI_STATUS_SUCCESS, c)" "s' = s\<lparr>vlan_cache := c\<rparr>"
    using vlan_member_create_effect [OF run M] by blast
  have "?P (Some v, Some p, m)"
    by (rule vlan_member_create.parse_members [OF *(1)])
      (auto simp: vlan_member_accept_def split: sai_vlan_member_attr_t.splits if_splits)
  with * vlan_add_member_law [OF M *(6)] show ?thesis
    by (intro exI [of _ n])
      (auto simp: sai_is_vlan_configurable_iff sai_validate_vlan_port_def split: if_splits)
qed

lemma demo_member_create:
  "\<exists>s' w'. sai_l2_create_vlan_member demo_vlan 0 [SAI_VLAN_MEMBER_ATTR_PORT_ID 259,
       SAI_VLAN_MEMBER_ATTR_VLAN_ID 261] demo_vlan_one 1 = (SAI_STATUS_SUCCESS, 262, s', w')"
  by (simp add: sai_l2_create_vlan_member_def vlan_member_accept_def vlan_member_create_body_def
      sai_is_vlan_configurable_iff sai_validate_vlan_port_def demo_add_member_def demo_vlan_one_def
      demo_is_obj_def demo_port_valid_def demo_uoid_def Let_def)

theorem vlan_member_create_spec_witness:
  "\<exists>s' w'. sai_l2_create_vlan_member demo_vlan 0 [SAI_VLAN_MEMBER_ATTR_PORT_ID 259,
       SAI_VLAN_MEMBER_ATTR_VLAN_ID 261] demo_vlan_one 1 = (SAI_STATUS_SUCCESS, 262, s', w')
     \<and> sai_find_vlan_member_node demo_vlan (vlan_cache s') 262 \<noteq> None"
proof -
  have M: "vlan_member_laws demo_vlan" using demo_vlan_laws by (simp add: vlan_cache_laws_def)
  obtain s' w' where r: "sai_l2_create_vlan_member demo_vlan 0 [SAI_VLAN_MEMBER_ATTR_PORT_ID 259,
       SAI_VLAN_MEMBER_ATTR_VLAN_ID 261] demo_vlan_one 1 = (SAI_STATUS_SUCCESS, 262, s', w')"
    using demo_member_create by blast
  from vlan_member_create_spec [OF r M]
  have "sai_find_vlan_member_node demo_vlan (vlan_cache s') 262 \<noteq> None" by (elim exE conjE) simp
  with r show ?thesis by blast
qed

definition vlan_member_known :: "sai_vlan_member_node_t \<Rightarrow> sai_vlan_member_attr_t \<Rightarrow> sai_vlan_member_attr_t" where
  "vlan_member_known n a = snd (vlan_member_answer n 0 a)"

lemma vlan_member_get_all:
  assumes known: "\<And>k. SAI_VLAN_MEMBER_ATTR_UNKNOWN k \<notin> set as"
  shows "vlan_member_get_loop n i as = (SAI_STATUS_SUCCESS, map (vlan_member_known n) as)"
proof -
  have "(let (rc, as') = vlan_member_get_loop n i as in (rc, as', ()))
      = (SAI_STATUS_SUCCESS, map (vlan_member_known n) as, ())"
  proof (rule vlan_member_get.loop_map)
    show "(let (rc, a') = vlan_member_answer n i a in (rc, a', w))
        = (SAI_STATUS_SUCCESS, vlan_member_known n a, w)" if "a \<in> set as" for i a and w :: unit
      using known that by (cases a) (auto simp: vlan_member_known_def vlan_member_answer_def)
  qed
  then show ?thesis by (auto simp: Let_def split: prod.splits)
qed

text \<open>The tagging mode that was set is the one that is read, with the VLAN and the port of
  the member, whatever is asked for and in whatever order; a mode the plug-in refused is not
  visible.\<close>

theorem vlan_member_set_get:
  assumes set: "sai_l2_set_vlan_member_attribute E mid (SAI_VLAN_MEMBER_ATTR_VLAN_TAGGING_MODE m) s w
      = (rc, s', w')"
    and M: "vlan_member_laws E" and n: "sai_find_vlan_member_node E (vlan_cache s) mid = Some n"
    and obj: "sai_is_obj_id E SAI_OBJECT_TYPE_VLAN_MEMBER mid"
    and known: "\<And>k. SAI_VLAN_MEMBER_ATTR_UNKNOWN k \<notin> set as"
  shows "sai_l2_get_vlan_member_attribute E mid as s'
    = (SAI_STATUS_SUCCESS,
       map (vlan_member_known (if rc = SAI_STATUS_SUCCESS then n\<lparr>tagging_mode := m\<rparr> else n)) as, s')"
proof -
  let ?n = "if rc = SAI_STATUS_SUCCESS then n\<lparr>tagging_mode := m\<rparr> else n"
  have "sai_find_vlan_member_node E (vlan_cache s') mid = Some ?n"
    using set n obj vlan_store_law [OF M n]
    by (auto simp: sai_l2_set_vlan_member_attribute_def Let_def split: if_splits prod.splits)
  moreover have "vlan_member_get_loop ?n 0 as = (SAI_STATUS_SUCCESS, map (vlan_member_known ?n) as)"
    by (rule vlan_member_get_all) (rule known)
  ultimately show ?thesis
    using obj by (simp add: sai_l2_get_vlan_member_attribute_def Let_def)
qed

theorem vlan_member_set_get_witness:
  "\<exists>s'. sai_l2_get_vlan_member_attribute demo_vlan 262
      [SAI_VLAN_MEMBER_ATTR_VLAN_TAGGING_MODE 0, SAI_VLAN_MEMBER_ATTR_PORT_ID 0] s'
    = (SAI_STATUS_SUCCESS,
       [SAI_VLAN_MEMBER_ATTR_VLAN_TAGGING_MODE 1, SAI_VLAN_MEMBER_ATTR_PORT_ID 259], s')"
proof -
  have M: "vlan_member_laws demo_vlan" using demo_vlan_laws by (simp add: vlan_cache_laws_def)
  obtain s' w' where r: "sai_l2_set_vlan_member_attribute demo_vlan 262
      (SAI_VLAN_MEMBER_ATTR_VLAN_TAGGING_MODE 1) demo_vlan_used 0 = (SAI_STATUS_SUCCESS, s', w')"
    by (simp add: sai_l2_set_vlan_member_attribute_def demo_is_obj_def demo_vlan_used_def demo_node_def)
  have n: "sai_find_vlan_member_node demo_vlan (vlan_cache demo_vlan_used) 262 = Some demo_node"
    by (simp add: demo_vlan_used_def)
  have o: "sai_is_obj_id demo_vlan SAI_OBJECT_TYPE_VLAN_MEMBER 262" by (simp add: demo_is_obj_def)
  from vlan_member_set_get [OF r M n o,
      of "[SAI_VLAN_MEMBER_ATTR_VLAN_TAGGING_MODE 0, SAI_VLAN_MEMBER_ATTR_PORT_ID 0]"]
  show ?thesis by (auto simp: vlan_member_known_def vlan_member_answer_def demo_node_def)
qed

section \<open>Attributes of a VLAN\<close>

text \<open>A get request on an existing VLAN changes neither the cache nor the STP instances, and
  is answered in order: either every attribute is answered and the call succeeds, or there is a
  first attribute that cannot be answered, everything before it has been answered, everything
  after it is as the caller wrote it, and the status is the status of that attribute with its
  index.\<close>

theorem vlan_get_stops_at_first_error:
  assumes run: "sai_l2_get_vlan_attribute E oid as s w = (rc, as', s', w')"
    and ready: "sai_is_obj_id E SAI_OBJECT_TYPE_VLAN oid" "v = sai_vlan_obj_id_to_vlan_id E oid"
      "sai_is_valid_vlan_id E v" "sai_is_vlan_created E (vlan_cache s) v" "as \<noteq> []"
  shows "s' = s \<and> length as' = length as \<and>
    (rc = SAI_STATUS_SUCCESS
       \<and> answer_all (vlan_attribute_answer E (sai_vlan_lock s) v) 0 as w = Some (as', w')
     \<or> (\<exists>xs a ys xs' a' w1 e. as = xs @ a # ys \<and> as' = xs' @ a' # ys
         \<and> answer_all (vlan_attribute_answer E (sai_vlan_lock s) v) 0 xs w = Some (xs', w1)
         \<and> vlan_attribute_answer E (sai_vlan_lock s) v (length xs) a w1 = (e, a', w')
         \<and> e \<noteq> SAI_STATUS_SUCCESS \<and> rc = sai_get_indexed_ret_val E e (length xs)))"
proof -
  have l: "vlan_attribute_get_loop E (sai_vlan_lock s) v 0 as w = (rc, as', w')" and s': "s' = s"
    using run ready(1,3,4,5) ready(2) [symmetric]
    by (auto simp: sai_l2_get_vlan_attribute_def Let_def split: prod.splits)
  from l have "rc = SAI_STATUS_SUCCESS
       \<and> answer_all (vlan_attribute_answer E (sai_vlan_lock s) v) 0 as w = Some (as', w')
     \<or> (\<exists>xs a ys xs' a' w1 e. as = xs @ a # ys \<and> as' = xs' @ a' # ys
         \<and> answer_all (vlan_attribute_answer E (sai_vlan_lock s) v) 0 xs w = Some (xs', w1)
         \<and> vlan_attribute_answer E (sai_vlan_lock s) v (length xs) a w1 = (e, a', w')
         \<and> e \<noteq> SAI_STATUS_SUCCESS \<and> rc = sai_get_indexed_ret_val E e (length xs))"
  proof (cases rule: vlan_get.loop_cases)
    case (stopped xs a ys xs' a' w1 e)
    then show ?thesis
      by (intro disjI2 exI [of _ xs] exI [of _ a] exI [of _ ys] exI [of _ xs'] exI [of _ a']
          exI [of _ w1] exI [of _ e]) simp
  qed simp
  with s' vlan_get.loop_length [OF l] show ?thesis by blast
qed

theorem vlan_get_stops_at_first_error_witness:
  "\<exists>rc as' s' w'. sai_l2_get_vlan_attribute demo_vlan 261
      [SAI_VLAN_ATTR_VLAN_ID 0, SAI_VLAN_ATTR_EGRESS_ACL, SAI_VLAN_ATTR_META_DATA 3] demo_vlan_one 0
    = (rc, as', s', w') \<and> s' = demo_vlan_one \<and> length as' = 3"
proof -
  obtain rc as' s' w' where r: "sai_l2_get_vlan_attribute demo_vlan 261
      [SAI_VLAN_ATTR_VLAN_ID 0, SAI_VLAN_ATTR_EGRESS_ACL, SAI_VLAN_ATTR_META_DATA 3] demo_vlan_one 0
    = (rc, as', s', w')" by (metis prod_cases4)
  have v: "1 = sai_vlan_obj_id_to_vlan_id demo_vlan 261" by simp
  have g: "sai_is_obj_id demo_vlan SAI_OBJECT_TYPE_VLAN 261" "sai_is_valid_vlan_id demo_vlan 1"
    "sai_is_vlan_created demo_vlan (vlan_cache demo_vlan_one) 1"
    by (simp_all add: demo_is_obj_def demo_vlan_one_def)
  from vlan_get_stops_at_first_error [OF r g(1) v g(2,3)] r show ?thesis by simp
qed

end
