(* ===== verification/Lag_Model.thy ===== *)
theory Lag_Model
  imports Sai_Prelude
begin

text \<open>
  The link aggregation component, \<open>src/switching/sai_lag.c\<close>: LAG objects, their member ports
  with the two disable flags, and the notification of other modules.

  The LAG cache (\<open>sai_lag_common\<close>) is not part of this repository: it is the type variable
  \<open>'c\<close>, and its functions are fields of the environment.  The plug-in and the callbacks of the
  other modules act on the outside world \<open>'w\<close>.
\<close>

datatype sai_lag_attr_t =
    SAI_LAG_ATTR_PORT_LIST sai_object_list_t
  | SAI_LAG_ATTR_INGRESS_ACL
  | SAI_LAG_ATTR_EGRESS_ACL
  | SAI_LAG_ATTR_UNKNOWN nat

datatype sai_lag_member_attr_t =
    SAI_LAG_MEMBER_ATTR_LAG_ID sai_object_id_t
  | SAI_LAG_MEMBER_ATTR_PORT_ID sai_object_id_t
  | SAI_LAG_MEMBER_ATTR_EGRESS_DISABLE bool
  | SAI_LAG_MEMBER_ATTR_INGRESS_DISABLE bool
  | SAI_LAG_MEMBER_ATTR_UNKNOWN nat

datatype sai_lag_operation_t =
    SAI_LAG_OPER_CREATE
  | SAI_LAG_OPER_DELETE
  | SAI_LAG_OPER_ADD_PORTS
  | SAI_LAG_OPER_DEL_PORTS

text \<open>\<open>NULL\<close> is the port list of the creation and the deletion of a LAG.\<close>

type_synonym 'w sai_lag_event_callback =
  "sai_object_id_t \<Rightarrow> sai_lag_operation_t \<Rightarrow> sai_object_id_t list option \<Rightarrow> 'w \<Rightarrow> 'w"

record ('c, 'w) lag_state =
  lag_cache :: 'c
  lag_event :: "nat \<Rightarrow> 'w sai_lag_event_callback option"
  lag_lock_depth :: int

record ('c, 'w) lag_env = "'w platform" +
  SAI_MODULE_MAX :: nat
  sai_lag_cache_init :: "'c \<Rightarrow> 'c"
  sai_is_lag_created :: "'c \<Rightarrow> sai_object_id_t \<Rightarrow> bool"
  sai_is_lag_in_use :: "'c \<Rightarrow> sai_object_id_t \<Rightarrow> bool"
  sai_lag_port_count_get :: "'c \<Rightarrow> sai_object_id_t \<Rightarrow> nat"
  sai_lag_port_list_get ::
    "'c \<Rightarrow> sai_object_id_t \<Rightarrow> sai_object_list_t \<Rightarrow> sai_status_t \<times> sai_object_list_t"
  sai_lag_node_add :: "sai_object_id_t \<Rightarrow> 'c \<Rightarrow> sai_status_t \<times> 'c"
  sai_lag_node_remove :: "sai_object_id_t \<Rightarrow> 'c \<Rightarrow> sai_status_t \<times> 'c"
  sai_remove_all_lag_port_nodes :: "sai_object_id_t \<Rightarrow> 'c \<Rightarrow> 'c"
  sai_lag_port_node_add ::
    "sai_object_id_t \<Rightarrow> sai_object_id_t \<Rightarrow> sai_object_id_t \<Rightarrow> 'c \<Rightarrow> sai_status_t \<times> 'c"
  sai_lag_port_node_remove :: "sai_object_id_t \<Rightarrow> sai_object_id_t \<Rightarrow> 'c \<Rightarrow> 'c"
  sai_is_port_lag_member :: "'c \<Rightarrow> sai_object_id_t \<Rightarrow> sai_object_id_t \<Rightarrow> bool"
  sai_is_port_part_of_different_lag :: "'c \<Rightarrow> sai_object_id_t \<Rightarrow> sai_object_id_t \<Rightarrow> bool"
  sai_lag_member_get_disable_status ::
    "'c \<Rightarrow> sai_object_id_t \<Rightarrow> sai_object_id_t \<Rightarrow> bool \<Rightarrow> sai_status_t \<times> bool"
  sai_lag_member_set_disable_status ::
    "sai_object_id_t \<Rightarrow> sai_object_id_t \<Rightarrow> bool \<Rightarrow> bool \<Rightarrow> 'c \<Rightarrow> 'c"
  sai_lag_get_info_from_member_id ::
    "'c \<Rightarrow> sai_object_id_t \<Rightarrow> sai_status_t + sai_object_id_t \<times> sai_object_id_t"
  npu_lag_init :: "'w \<Rightarrow> 'w"
  npu_lag_create :: "'w \<Rightarrow> sai_status_t \<times> sai_object_id_t \<times> 'w"
  npu_lag_remove :: "sai_object_id_t \<Rightarrow> 'w \<Rightarrow> sai_status_t \<times> 'w"
  npu_add_ports_to_lag ::
    "sai_object_id_t \<Rightarrow> sai_object_id_t list \<Rightarrow> 'w \<Rightarrow> sai_status_t \<times> sai_object_id_t \<times> 'w"
  npu_remove_ports_from_lag ::
    "sai_object_id_t \<Rightarrow> sai_object_id_t list \<Rightarrow> 'w \<Rightarrow> sai_status_t \<times> 'w"
  npu_lag_port_flag_set ::
    "sai_object_id_t \<Rightarrow> sai_object_id_t \<Rightarrow> bool \<Rightarrow> bool \<Rightarrow> 'w \<Rightarrow> sai_status_t \<times> 'w"

definition sai_lag_lock :: "('c, 'w) lag_state \<Rightarrow> ('c, 'w) lag_state" where
  "sai_lag_lock s = s\<lparr>lag_lock_depth := lag_lock_depth s + 1\<rparr>"

definition sai_lag_unlock :: "('c, 'w) lag_state \<Rightarrow> ('c, 'w) lag_state" where
  "sai_lag_unlock s = s\<lparr>lag_lock_depth := lag_lock_depth s - 1\<rparr>"

section \<open>Initialisation and notification\<close>

definition sai_lag_init ::
  "('c, 'w, 'z) lag_env_scheme \<Rightarrow> ('c, 'w) lag_state \<Rightarrow> 'w \<Rightarrow> sai_status_t \<times> ('c, 'w) lag_state \<times> 'w" where
  "sai_lag_init E s w =
    (SAI_STATUS_SUCCESS, s\<lparr>lag_cache := sai_lag_cache_init E (lag_cache s)\<rparr>, npu_lag_init E w)"

definition sai_lag_event_callback_register ::
  "('c, 'w, 'z) lag_env_scheme \<Rightarrow> nat \<Rightarrow> 'w sai_lag_event_callback option \<Rightarrow> ('c, 'w) lag_state
     \<Rightarrow> sai_status_t \<times> ('c, 'w) lag_state" where
  "sai_lag_event_callback_register E module_id cb s =
    (if module_id \<ge> SAI_MODULE_MAX E then (SAI_STATUS_FAILURE, s)
     else (SAI_STATUS_SUCCESS, s\<lparr>lag_event := (lag_event s)(module_id := cb)\<rparr>))"

fun lag_notify_loop ::
  "(nat \<Rightarrow> 'w sai_lag_event_callback option) \<Rightarrow> sai_object_id_t \<Rightarrow> sai_lag_operation_t
     \<Rightarrow> sai_object_id_t list option \<Rightarrow> nat list \<Rightarrow> 'w \<Rightarrow> 'w" where
  "lag_notify_loop ev lag_id oper ports [] w = w"
| "lag_notify_loop ev lag_id oper ports (mod_idx # idxs) w =
    (case ev mod_idx of
       None \<Rightarrow> lag_notify_loop ev lag_id oper ports idxs w
     | Some cb \<Rightarrow> lag_notify_loop ev lag_id oper ports idxs (cb lag_id oper ports w))"

definition sai_lag_notify_modules ::
  "('c, 'w, 'z) lag_env_scheme \<Rightarrow> ('c, 'w) lag_state \<Rightarrow> sai_object_id_t \<Rightarrow> sai_lag_operation_t
     \<Rightarrow> sai_object_id_t list option \<Rightarrow> 'w \<Rightarrow> 'w" where
  "sai_lag_notify_modules E s lag_id oper ports w =
     lag_notify_loop (lag_event s) lag_id oper ports [0..<SAI_MODULE_MAX E] w"

section \<open>Ports of a LAG\<close>

definition sai_l2_add_lag_port ::
  "('c, 'w, 'z) lag_env_scheme \<Rightarrow> sai_object_id_t \<Rightarrow> sai_object_id_t \<Rightarrow> ('c, 'w) lag_state \<Rightarrow> 'w
     \<Rightarrow> sai_status_t \<times> sai_object_id_t \<times> ('c, 'w) lag_state \<times> 'w" where
  "sai_l2_add_lag_port E lag port s w =
    (let (ret_val, mid, w) = npu_add_ports_to_lag E lag [port] w in
     if ret_val \<noteq> SAI_STATUS_SUCCESS then (ret_val, mid, s, w)
     else let (ret_val, c) = sai_lag_port_node_add E lag port mid (lag_cache s);
              s = s\<lparr>lag_cache := c\<rparr> in
       if ret_val \<noteq> SAI_STATUS_SUCCESS
       then let (_, w) = npu_remove_ports_from_lag E lag [port] w in (ret_val, mid, s, w)
     else (ret_val, mid, s, w))"

definition sai_l2_remove_lag_port ::
  "('c, 'w, 'z) lag_env_scheme \<Rightarrow> sai_object_id_t \<Rightarrow> sai_object_id_t \<Rightarrow> ('c, 'w) lag_state \<Rightarrow> 'w
     \<Rightarrow> sai_status_t \<times> ('c, 'w) lag_state \<times> 'w" where
  "sai_l2_remove_lag_port E lag port s w =
    (let (ret_val, w) = npu_remove_ports_from_lag E lag [port] w
     in (ret_val, s\<lparr>lag_cache := sai_lag_port_node_remove E lag port (lag_cache s)\<rparr>, w))"

section \<open>LAG objects\<close>

text \<open>The attribute loop of \<open>sai_l2_create_lag\<close>: the switch has only its default branch.\<close>

fun lag_create_attrs ::
  "('c, 'w, 'z) lag_env_scheme \<Rightarrow> nat \<Rightarrow> sai_lag_attr_t list \<Rightarrow> sai_status_t \<Rightarrow> sai_status_t" where
  "lag_create_attrs E attr_idx [] ret_val = ret_val"
| "lag_create_attrs E attr_idx (a # as) ret_val =
    (let ret_val = sai_get_indexed_ret_val E (SAI_STATUS_UNKNOWN_ATTRIBUTE 0) attr_idx in
     if ret_val \<noteq> SAI_STATUS_SUCCESS then ret_val
     else lag_create_attrs E (Suc attr_idx) as ret_val)"

definition sai_l2_create_lag ::
  "('c, 'w, 'z) lag_env_scheme \<Rightarrow> sai_lag_attr_t list \<Rightarrow> ('c, 'w) lag_state \<Rightarrow> 'w
     \<Rightarrow> sai_status_t \<times> sai_object_id_t \<times> ('c, 'w) lag_state \<times> 'w" where
  "sai_l2_create_lag E attr_list s w =
    (let s = sai_lag_lock s;
         (ret_val, lag, w) = npu_lag_create E w in
     if ret_val \<noteq> SAI_STATUS_SUCCESS then (ret_val, lag, sai_lag_unlock s, w)
     else let (ret_val, c) = sai_lag_node_add E lag (lag_cache s);
              s = s\<lparr>lag_cache := c\<rparr>;
              w = (if ret_val \<noteq> SAI_STATUS_SUCCESS then snd (npu_lag_remove E lag w) else w);
              ret_val = lag_create_attrs E 0 attr_list ret_val;
              (s, w) =
                (if ret_val \<noteq> SAI_STATUS_SUCCESS
                 then let (_, w) = npu_lag_remove E lag w;
                          c = sai_remove_all_lag_port_nodes E lag (lag_cache s);
                          (_, c) = sai_lag_node_remove E lag c
                      in (s\<lparr>lag_cache := c\<rparr>, w)
                 else (s, w));
              s = sai_lag_unlock s;
              w = sai_lag_notify_modules E s lag SAI_LAG_OPER_CREATE None w
       in (ret_val, lag, s, w))"

definition sai_l2_remove_lag ::
  "('c, 'w, 'z) lag_env_scheme \<Rightarrow> sai_object_id_t \<Rightarrow> ('c, 'w) lag_state \<Rightarrow> 'w
     \<Rightarrow> sai_status_t \<times> ('c, 'w) lag_state \<times> 'w" where
  "sai_l2_remove_lag E lag s w =
    (let s = sai_lag_lock s in
     if \<not> sai_is_lag_created E (lag_cache s) lag
     then (SAI_STATUS_ITEM_NOT_FOUND, sai_lag_unlock s, w)
     else let port_count = sai_lag_port_count_get E (lag_cache s) lag in
       if port_count \<noteq> 0 \<or> sai_is_lag_in_use E (lag_cache s) lag
       then (SAI_STATUS_OBJECT_IN_USE, sai_lag_unlock s, w)
     else let (ret_val, c) = sai_lag_node_remove E lag (lag_cache s);
              s = s\<lparr>lag_cache := c\<rparr>;
              (ret_val, s, w) =
                (if ret_val = SAI_STATUS_SUCCESS
                 then let (ret_val, w) = npu_lag_remove E lag w in
                   if ret_val \<noteq> SAI_STATUS_SUCCESS
                   then let (_, c) = sai_lag_node_add E lag (lag_cache s)
                        in (ret_val, s\<lparr>lag_cache := c\<rparr>, w)
                   else (ret_val, s, w)
                 else (ret_val, s, w));
              s = sai_lag_unlock s
       in (ret_val, s, sai_lag_notify_modules E s lag SAI_LAG_OPER_DELETE None w))"

definition sai_l2_set_lag_attribute ::
  "('c, 'w, 'z) lag_env_scheme \<Rightarrow> sai_object_id_t \<Rightarrow> sai_lag_attr_t \<Rightarrow> ('c, 'w) lag_state
     \<Rightarrow> sai_status_t \<times> ('c, 'w) lag_state" where
  "sai_l2_set_lag_attribute E lag attr s =
    (let s = sai_lag_lock s in
     if \<not> sai_is_lag_created E (lag_cache s) lag
     then (SAI_STATUS_ITEM_NOT_FOUND, sai_lag_unlock s)
     else let ret_val = (case attr of
              SAI_LAG_ATTR_PORT_LIST _ \<Rightarrow> SAI_STATUS_INVALID_ATTRIBUTE 0
            | SAI_LAG_ATTR_INGRESS_ACL \<Rightarrow> SAI_STATUS_SUCCESS
            | SAI_LAG_ATTR_EGRESS_ACL \<Rightarrow> SAI_STATUS_SUCCESS
            | SAI_LAG_ATTR_UNKNOWN _ \<Rightarrow> SAI_STATUS_UNKNOWN_ATTRIBUTE 0)
          in (ret_val, sai_lag_unlock s))"

definition lag_attribute_answer ::
  "('c, 'w, 'z) lag_env_scheme \<Rightarrow> 'c \<Rightarrow> sai_object_id_t \<Rightarrow> nat \<Rightarrow> sai_lag_attr_t
     \<Rightarrow> sai_status_t \<times> sai_lag_attr_t" where
  "lag_attribute_answer E c lag attr_idx attr =
    (case attr of
       SAI_LAG_ATTR_PORT_LIST ol \<Rightarrow>
         let (rc, ol) = sai_lag_port_list_get E c lag ol in (rc, SAI_LAG_ATTR_PORT_LIST ol)
     | SAI_LAG_ATTR_UNKNOWN _ \<Rightarrow>
         (sai_get_indexed_ret_val E (SAI_STATUS_UNKNOWN_ATTRIBUTE 0) attr_idx, attr)
     | _ \<Rightarrow> (SAI_STATUS_ATTR_NOT_IMPLEMENTED attr_idx, attr))"

fun lag_attribute_get_loop ::
  "('c, 'w, 'z) lag_env_scheme \<Rightarrow> 'c \<Rightarrow> sai_object_id_t \<Rightarrow> nat \<Rightarrow> sai_lag_attr_t list
     \<Rightarrow> sai_status_t \<times> sai_lag_attr_t list" where
  "lag_attribute_get_loop E c lag attr_idx [] = (SAI_STATUS_SUCCESS, [])"
| "lag_attribute_get_loop E c lag attr_idx (a # as) =
    (let (ret_val, a) = lag_attribute_answer E c lag attr_idx a in
     if ret_val \<noteq> SAI_STATUS_SUCCESS then (ret_val, a # as)
     else let (ret_val, as) = lag_attribute_get_loop E c lag (Suc attr_idx) as in (ret_val, a # as))"

text \<open>\<open>ret_val\<close> starts as \<open>SAI_STATUS_FAILURE\<close>, which an empty request keeps.  The branch for an
  unknown LAG unlocks, although this function never locks.\<close>

definition sai_l2_get_lag_attribute ::
  "('c, 'w, 'z) lag_env_scheme \<Rightarrow> sai_object_id_t \<Rightarrow> sai_lag_attr_t list \<Rightarrow> ('c, 'w) lag_state
     \<Rightarrow> sai_status_t \<times> sai_lag_attr_t list \<times> ('c, 'w) lag_state" where
  "sai_l2_get_lag_attribute E lag attr_list s =
    (if \<not> sai_is_lag_created E (lag_cache s) lag
     then (SAI_STATUS_ITEM_NOT_FOUND, attr_list, sai_lag_unlock s)
     else if attr_list = [] then (SAI_STATUS_FAILURE, attr_list, s)
     else let (ret_val, attr_list) = lag_attribute_get_loop E (lag_cache s) lag 0 attr_list
          in (ret_val, attr_list, s))"

section \<open>LAG members\<close>

definition sai_l2_lag_port_flag_set ::
  "('c, 'w, 'z) lag_env_scheme \<Rightarrow> sai_object_id_t \<Rightarrow> sai_object_id_t \<Rightarrow> bool \<Rightarrow> bool
     \<Rightarrow> ('c, 'w) lag_state \<Rightarrow> 'w \<Rightarrow> sai_status_t \<times> ('c, 'w) lag_state \<times> 'w" where
  "sai_l2_lag_port_flag_set E lag port is_ingress v s w =
    (let (rc, old_value) = sai_lag_member_get_disable_status E (lag_cache s) lag port is_ingress in
     if rc \<noteq> SAI_STATUS_SUCCESS then (rc, s, w)
     else if old_value = v then (SAI_STATUS_SUCCESS, s, w)
     else let (rc, w) = npu_lag_port_flag_set E lag port is_ingress v w in
       if rc = SAI_STATUS_SUCCESS
       then (rc, s\<lparr>lag_cache :=
               sai_lag_member_set_disable_status E lag port is_ingress v (lag_cache s)\<rparr>, w)
       else let (_, w) = npu_lag_port_flag_set E lag port is_ingress old_value w in (rc, s, w))"

definition sai_l2_validate_lag_port_add ::
  "('c, 'w, 'z) lag_env_scheme \<Rightarrow> sai_object_id_t \<Rightarrow> sai_object_id_t \<Rightarrow> ('c, 'w) lag_state \<Rightarrow> 'w
     \<Rightarrow> sai_status_t" where
  "sai_l2_validate_lag_port_add E lag port s w =
    (if \<not> sai_is_port_valid E w port then SAI_STATUS_INVALID_PARAMETER
     else if \<not> sai_is_lag_created E (lag_cache s) lag then SAI_STATUS_ITEM_NOT_FOUND
     else if sai_is_port_lag_member E (lag_cache s) lag port then SAI_STATUS_ITEM_ALREADY_EXISTS
     else if sai_is_port_part_of_different_lag E (lag_cache s) lag port
     then SAI_STATUS_INVALID_PORT_MEMBER
     else SAI_STATUS_SUCCESS)"

text \<open>The attribute loop: LAG, port, ingress flag, egress flag, \<open>None\<close> while absent.  A second
  LAG or port that differs sets \<open>ret_val\<close> and leaves the switch, not the loop, and \<open>ret_val\<close>
  is overwritten after the loop: the first one stays.\<close>

type_synonym lag_member_acc =
  "sai_object_id_t option \<times> sai_object_id_t option \<times> bool option \<times> bool option"

definition lag_member_accept ::
  "nat \<Rightarrow> sai_lag_member_attr_t \<Rightarrow> lag_member_acc \<Rightarrow> sai_status_t + lag_member_acc" where
  "lag_member_accept attr_idx a acc =
    (let (lag, port, ing, egr) = acc in
     case a of
       SAI_LAG_MEMBER_ATTR_LAG_ID oid \<Rightarrow>
         Inr (if lag \<noteq> None then lag else Some oid, port, ing, egr)
     | SAI_LAG_MEMBER_ATTR_PORT_ID oid \<Rightarrow>
         Inr (lag, if port \<noteq> None then port else Some oid, ing, egr)
     | SAI_LAG_MEMBER_ATTR_EGRESS_DISABLE b \<Rightarrow> Inr (lag, port, ing, Some b)
     | SAI_LAG_MEMBER_ATTR_INGRESS_DISABLE b \<Rightarrow> Inr (lag, port, Some b, egr)
     | SAI_LAG_MEMBER_ATTR_UNKNOWN _ \<Rightarrow> Inl (SAI_STATUS_UNKNOWN_ATTRIBUTE 0))"

fun lag_member_parse ::
  "nat \<Rightarrow> sai_lag_member_attr_t list \<Rightarrow> lag_member_acc \<Rightarrow> sai_status_t + lag_member_acc" where
  "lag_member_parse attr_idx [] acc = Inr acc"
| "lag_member_parse attr_idx (a # as) acc =
    (case lag_member_accept attr_idx a acc of
       Inl rc \<Rightarrow> Inl rc | Inr acc \<Rightarrow> lag_member_parse (Suc attr_idx) as acc)"

text \<open>A flag that the caller did not give is not set.\<close>

definition lag_flag_if_present ::
  "('c, 'w, 'z) lag_env_scheme \<Rightarrow> sai_object_id_t \<Rightarrow> sai_object_id_t \<Rightarrow> bool \<Rightarrow> bool option
     \<Rightarrow> ('c, 'w) lag_state \<Rightarrow> 'w \<Rightarrow> sai_status_t \<times> ('c, 'w) lag_state \<times> 'w" where
  "lag_flag_if_present E lag port is_ingress flag s w =
    (case flag of None \<Rightarrow> (SAI_STATUS_SUCCESS, s, w)
     | Some v \<Rightarrow> sai_l2_lag_port_flag_set E lag port is_ingress v s w)"

text \<open>Under the lock; the second component is the member id when the plug-in returned one.\<close>

definition lag_member_create_body ::
  "('c, 'w, 'z) lag_env_scheme \<Rightarrow> sai_object_id_t \<Rightarrow> sai_object_id_t \<Rightarrow> bool option \<Rightarrow> bool option
     \<Rightarrow> ('c, 'w) lag_state \<Rightarrow> 'w
     \<Rightarrow> sai_status_t \<times> sai_object_id_t option \<times> ('c, 'w) lag_state \<times> 'w" where
  "lag_member_create_body E lag port ing egr s w =
    (let ret_val = sai_l2_validate_lag_port_add E lag port s w in
     if ret_val \<noteq> SAI_STATUS_SUCCESS then (ret_val, None, s, w)
     else let (ret_val, mid, s, w) = sai_l2_add_lag_port E lag port s w in
       if ret_val \<noteq> SAI_STATUS_SUCCESS then (ret_val, Some mid, s, w)
     else let (ret_val, s, w) = lag_flag_if_present E lag port True ing s w;
              (ret_val, s, w) =
                (if ret_val \<noteq> SAI_STATUS_SUCCESS then (ret_val, s, w)
                 else lag_flag_if_present E lag port False egr s w) in
       if ret_val \<noteq> SAI_STATUS_SUCCESS
       then let (_, s, w) = sai_l2_remove_lag_port E lag port s w in (ret_val, Some mid, s, w)
     else (ret_val, Some mid, s, w))"

definition sai_l2_create_lag_member ::
  "('c, 'w, 'z) lag_env_scheme \<Rightarrow> sai_lag_member_attr_t list \<Rightarrow> ('c, 'w) lag_state \<Rightarrow> 'w
     \<Rightarrow> sai_status_t \<times> sai_object_id_t option \<times> ('c, 'w) lag_state \<times> 'w" where
  "sai_l2_create_lag_member E attr_list s w =
    (case lag_member_parse 0 attr_list (None, None, None, None) of
       Inl rc \<Rightarrow> (rc, None, s, w)
     | Inr (Some lag, Some port, ing, egr) \<Rightarrow>
         (let (ret_val, mid, s, w) = lag_member_create_body E lag port ing egr (sai_lag_lock s) w;
              s = sai_lag_unlock s
          in (ret_val, mid, s,
              if ret_val = SAI_STATUS_SUCCESS
              then sai_lag_notify_modules E s lag SAI_LAG_OPER_ADD_PORTS (Some [port]) w else w))
     | Inr _ \<Rightarrow> (SAI_STATUS_MANDATORY_ATTRIBUTE_MISSING, None, s, w))"

text \<open>The status of \<open>sai_l2_remove_lag_port\<close> is not looked at.\<close>

definition sai_l2_remove_lag_member ::
  "('c, 'w, 'z) lag_env_scheme \<Rightarrow> sai_object_id_t \<Rightarrow> ('c, 'w) lag_state \<Rightarrow> 'w
     \<Rightarrow> sai_status_t \<times> ('c, 'w) lag_state \<times> 'w" where
  "sai_l2_remove_lag_member E mid s w =
    (let s = sai_lag_lock s in
     case sai_lag_get_info_from_member_id E (lag_cache s) mid of
       Inl rc \<Rightarrow> (rc, sai_lag_unlock s, w)
     | Inr (lag, port) \<Rightarrow>
       if \<not> sai_is_port_valid E w port then (SAI_STATUS_INVALID_PARAMETER, sai_lag_unlock s, w)
       else if \<not> sai_is_lag_created E (lag_cache s) lag
       then (SAI_STATUS_ITEM_NOT_FOUND, sai_lag_unlock s, w)
       else if \<not> sai_is_port_lag_member E (lag_cache s) lag port
       then (SAI_STATUS_ITEM_NOT_FOUND, sai_lag_unlock s, w)
       else let (_, s, w) = sai_l2_remove_lag_port E lag port s w;
                s = sai_lag_unlock s
            in (SAI_STATUS_SUCCESS, s,
                sai_lag_notify_modules E s lag SAI_LAG_OPER_DEL_PORTS (Some [port]) w))"

definition sai_l2_set_lag_member_attribute ::
  "('c, 'w, 'z) lag_env_scheme \<Rightarrow> sai_object_id_t \<Rightarrow> sai_lag_member_attr_t \<Rightarrow> ('c, 'w) lag_state
     \<Rightarrow> 'w \<Rightarrow> sai_status_t \<times> ('c, 'w) lag_state \<times> 'w" where
  "sai_l2_set_lag_member_attribute E mid attr s w =
    (let s = sai_lag_lock s;
         info = sai_lag_get_info_from_member_id E (lag_cache s) mid;
         s = sai_lag_unlock s in
     case info of
       Inl rc \<Rightarrow> (rc, s, w)
     | Inr (lag, port) \<Rightarrow>
       let s = sai_lag_lock s;
           (rc, s, w) =
             (case attr of
                SAI_LAG_MEMBER_ATTR_LAG_ID _ \<Rightarrow> (SAI_STATUS_INVALID_ATTRIBUTE 0, s, w)
              | SAI_LAG_MEMBER_ATTR_PORT_ID _ \<Rightarrow> (SAI_STATUS_INVALID_ATTRIBUTE 0, s, w)
              | SAI_LAG_MEMBER_ATTR_EGRESS_DISABLE b \<Rightarrow>
                  sai_l2_lag_port_flag_set E lag port False b s w
              | SAI_LAG_MEMBER_ATTR_INGRESS_DISABLE b \<Rightarrow>
                  sai_l2_lag_port_flag_set E lag port True b s w
              | SAI_LAG_MEMBER_ATTR_UNKNOWN _ \<Rightarrow> (SAI_STATUS_UNKNOWN_ATTRIBUTE 0, s, w))
       in (rc, sai_lag_unlock s, w))"

definition lag_member_answer ::
  "('c, 'w, 'z) lag_env_scheme \<Rightarrow> 'c \<Rightarrow> sai_object_id_t \<Rightarrow> sai_object_id_t \<Rightarrow> sai_lag_member_attr_t
     \<Rightarrow> sai_status_t \<times> sai_lag_member_attr_t" where
  "lag_member_answer E c lag port attr =
    (case attr of
       SAI_LAG_MEMBER_ATTR_LAG_ID _ \<Rightarrow> (SAI_STATUS_SUCCESS, SAI_LAG_MEMBER_ATTR_LAG_ID lag)
     | SAI_LAG_MEMBER_ATTR_PORT_ID _ \<Rightarrow> (SAI_STATUS_SUCCESS, SAI_LAG_MEMBER_ATTR_PORT_ID port)
     | SAI_LAG_MEMBER_ATTR_EGRESS_DISABLE _ \<Rightarrow>
         let (rc, b) = sai_lag_member_get_disable_status E c lag port False
         in (rc, SAI_LAG_MEMBER_ATTR_EGRESS_DISABLE b)
     | SAI_LAG_MEMBER_ATTR_INGRESS_DISABLE _ \<Rightarrow>
         let (rc, b) = sai_lag_member_get_disable_status E c lag port True
         in (rc, SAI_LAG_MEMBER_ATTR_INGRESS_DISABLE b)
     | SAI_LAG_MEMBER_ATTR_UNKNOWN _ \<Rightarrow> (SAI_STATUS_UNKNOWN_ATTRIBUTE 0, attr))"

fun lag_member_get_loop ::
  "('c, 'w, 'z) lag_env_scheme \<Rightarrow> 'c \<Rightarrow> sai_object_id_t \<Rightarrow> sai_object_id_t
     \<Rightarrow> sai_lag_member_attr_t list \<Rightarrow> sai_status_t \<times> sai_lag_member_attr_t list" where
  "lag_member_get_loop E c lag port [] = (SAI_STATUS_SUCCESS, [])"
| "lag_member_get_loop E c lag port (a # as) =
    (let (rc, a) = lag_member_answer E c lag port a in
     if rc \<noteq> SAI_STATUS_SUCCESS then (rc, a # as)
     else let (rc, as) = lag_member_get_loop E c lag port as in (rc, a # as))"

definition sai_l2_get_lag_member_attribute ::
  "('c, 'w, 'z) lag_env_scheme \<Rightarrow> sai_object_id_t \<Rightarrow> sai_lag_member_attr_t list
     \<Rightarrow> ('c, 'w) lag_state \<Rightarrow> sai_status_t \<times> sai_lag_member_attr_t list \<times> ('c, 'w) lag_state" where
  "sai_l2_get_lag_member_attribute E mid attr_list s =
    (let s = sai_lag_lock s;
         info = sai_lag_get_info_from_member_id E (lag_cache s) mid;
         s = sai_lag_unlock s in
     case info of
       Inl rc \<Rightarrow> (rc, attr_list, s)
     | Inr (lag, port) \<Rightarrow>
       let s = sai_lag_lock s;
           (rc, attr_list) = lag_member_get_loop E (lag_cache s) lag port attr_list
       in (rc, attr_list, sai_lag_unlock s))"

section \<open>Bulk calls\<close>

definition sai_l2_bulk_lag_member_create :: sai_status_t where
  "sai_l2_bulk_lag_member_create = SAI_STATUS_NOT_IMPLEMENTED"

definition sai_l2_bulk_lag_member_remove :: sai_status_t where
  "sai_l2_bulk_lag_member_remove = SAI_STATUS_NOT_IMPLEMENTED"

end
