(* ===== verification/Lag_Props.thy ===== *)
theory Lag_Props
  imports Lag_Model Sai_Loops
begin

text \<open>
  Lemmas on the LAG component: what it relies on of its cache, the effect of each operation, and
  the invariant that a port is a member of at most one LAG.
\<close>

section \<open>The cache\<close>

text \<open>The laws of the LAG cache: each call changes what it names and nothing else, a call that
  fails changes nothing, and \<open>sai_is_port_part_of_different_lag\<close> and
  \<open>sai_lag_port_count_get\<close> agree with the membership.\<close>

definition lag_node_laws :: "('c, 'w, 'z) lag_env_scheme \<Rightarrow> bool" where
  "lag_node_laws E \<longleftrightarrow>
     (\<forall>l c rc c'. sai_lag_node_add E l c = (rc, c') \<longrightarrow>
        (if rc = SAI_STATUS_SUCCESS
         then sai_is_lag_created E c' = (sai_is_lag_created E c)(l := True)
              \<and> sai_is_port_lag_member E c' = sai_is_port_lag_member E c
         else c' = c))
     \<and> (\<forall>l c rc c'. sai_lag_node_remove E l c = (rc, c') \<longrightarrow>
        (if rc = SAI_STATUS_SUCCESS
         then sai_is_lag_created E c' = (sai_is_lag_created E c)(l := False)
              \<and> sai_is_port_lag_member E c' = sai_is_port_lag_member E c
         else c' = c))
     \<and> (\<forall>l c. sai_is_lag_created E (sai_remove_all_lag_port_nodes E l c) = sai_is_lag_created E c
        \<and> sai_is_port_lag_member E (sai_remove_all_lag_port_nodes E l c)
            = (sai_is_port_lag_member E c)(l := (\<lambda>_. False)))
     \<and> (\<forall>c l. sai_lag_port_count_get E c l = 0 \<longleftrightarrow> (\<forall>p. \<not> sai_is_port_lag_member E c l p))"

definition lag_port_laws :: "('c, 'w, 'z) lag_env_scheme \<Rightarrow> bool" where
  "lag_port_laws E \<longleftrightarrow>
     (\<forall>l p m c rc c'. sai_lag_port_node_add E l p m c = (rc, c') \<longrightarrow>
        sai_is_lag_created E c' = sai_is_lag_created E c
        \<and> (if rc = SAI_STATUS_SUCCESS
           then sai_is_port_lag_member E c'
                  = (sai_is_port_lag_member E c)(l := (sai_is_port_lag_member E c l)(p := True))
           else c' = c))
     \<and> (\<forall>l p c. sai_is_lag_created E (sai_lag_port_node_remove E l p c) = sai_is_lag_created E c
        \<and> sai_is_port_lag_member E (sai_lag_port_node_remove E l p c)
            = (sai_is_port_lag_member E c)(l := (sai_is_port_lag_member E c l)(p := False)))
     \<and> (\<forall>c l p. sai_is_port_part_of_different_lag E c l p
          \<longleftrightarrow> (\<exists>k. k \<noteq> l \<and> sai_is_port_lag_member E c k p))
     \<and> (\<forall>l p i v c. sai_is_lag_created E (sai_lag_member_set_disable_status E l p i v c)
            = sai_is_lag_created E c
        \<and> sai_is_port_lag_member E (sai_lag_member_set_disable_status E l p i v c)
            = sai_is_port_lag_member E c)"

text \<open>The flags: a flag that can be read is the one last written, the other is untouched, and the
  members keep their ids.\<close>

definition lag_flag_laws :: "('c, 'w, 'z) lag_env_scheme \<Rightarrow> bool" where
  "lag_flag_laws E \<longleftrightarrow>
     (\<forall>l p i v c. fst (sai_lag_member_get_disable_status E c l p i) = SAI_STATUS_SUCCESS \<longrightarrow>
        sai_lag_member_get_disable_status E (sai_lag_member_set_disable_status E l p i v c) l p
          = (sai_lag_member_get_disable_status E c l p)(i := (SAI_STATUS_SUCCESS, v)))
     \<and> (\<forall>l p i v c m. sai_lag_get_info_from_member_id E (sai_lag_member_set_disable_status E l p i v c) m
          = sai_lag_get_info_from_member_id E c m)"

definition lag_cache_laws :: "('c, 'w, 'z) lag_env_scheme \<Rightarrow> bool" where
  "lag_cache_laws E \<longleftrightarrow> lag_node_laws E \<and> lag_port_laws E"

lemma lag_node_add_law:
  assumes "lag_cache_laws E" "sai_lag_node_add E l c = (rc, c')"
  shows "rc = SAI_STATUS_SUCCESS \<Longrightarrow> sai_is_lag_created E c' = (sai_is_lag_created E c)(l := True)"
    "sai_is_port_lag_member E c' = sai_is_port_lag_member E c" "rc \<noteq> SAI_STATUS_SUCCESS \<Longrightarrow> c' = c"
  using assms unfolding lag_cache_laws_def lag_node_laws_def by metis+

lemma lag_node_remove_law:
  assumes "lag_cache_laws E" "sai_lag_node_remove E l c = (rc, c')"
  shows "rc = SAI_STATUS_SUCCESS \<Longrightarrow> sai_is_lag_created E c' = (sai_is_lag_created E c)(l := False)"
    "sai_is_port_lag_member E c' = sai_is_port_lag_member E c" "rc \<noteq> SAI_STATUS_SUCCESS \<Longrightarrow> c' = c"
  using assms unfolding lag_cache_laws_def lag_node_laws_def by metis+

lemma lag_cache_law:
  assumes "lag_cache_laws E"
  shows "sai_is_lag_created E (sai_remove_all_lag_port_nodes E l c) = sai_is_lag_created E c"
    "sai_is_port_lag_member E (sai_remove_all_lag_port_nodes E l c)
       = (sai_is_port_lag_member E c)(l := (\<lambda>_. False))"
    "sai_lag_port_count_get E c l = 0 \<longleftrightarrow> (\<forall>p. \<not> sai_is_port_lag_member E c l p)"
    "sai_is_lag_created E (sai_lag_port_node_remove E l p c) = sai_is_lag_created E c"
    "sai_is_port_lag_member E (sai_lag_port_node_remove E l p c)
       = (sai_is_port_lag_member E c)(l := (sai_is_port_lag_member E c l)(p := False))"
    "sai_is_port_part_of_different_lag E c l p \<longleftrightarrow> (\<exists>k. k \<noteq> l \<and> sai_is_port_lag_member E c k p)"
    "sai_is_lag_created E (sai_lag_member_set_disable_status E l p i v c) = sai_is_lag_created E c"
    "sai_is_port_lag_member E (sai_lag_member_set_disable_status E l p i v c) = sai_is_port_lag_member E c"
  using assms unfolding lag_cache_laws_def lag_node_laws_def lag_port_laws_def by simp_all

lemma lag_port_add_law:
  assumes "lag_cache_laws E" "sai_lag_port_node_add E l p m c = (rc, c')"
  shows "sai_is_lag_created E c' = sai_is_lag_created E c"
    "rc = SAI_STATUS_SUCCESS \<Longrightarrow> sai_is_port_lag_member E c'
       = (sai_is_port_lag_member E c)(l := (sai_is_port_lag_member E c l)(p := True))"
    "rc \<noteq> SAI_STATUS_SUCCESS \<Longrightarrow> c' = c"
  using assms unfolding lag_cache_laws_def lag_port_laws_def by metis+

lemma lag_flag_law:
  "lag_flag_laws E \<Longrightarrow> fst (sai_lag_member_get_disable_status E c l p i) = SAI_STATUS_SUCCESS \<Longrightarrow>
     sai_lag_member_get_disable_status E (sai_lag_member_set_disable_status E l p i v c) l p
       = (sai_lag_member_get_disable_status E c l p)(i := (SAI_STATUS_SUCCESS, v))"
  by (simp add: lag_flag_laws_def)

section \<open>The lock\<close>

lemma lag_lock_sel [simp, lock_simps]:
  "lag_cache (sai_lag_lock s) = lag_cache s" "lag_cache (sai_lag_unlock s) = lag_cache s"
  "lag_event (sai_lag_lock s) = lag_event s" "lag_event (sai_lag_unlock s) = lag_event s"
  "lag_lock_depth (sai_lag_lock s) = lag_lock_depth s + 1"
  "lag_lock_depth (sai_lag_unlock s) = lag_lock_depth s - 1"
  "sai_lag_unlock (sai_lag_lock s) = s"
  "sai_lag_unlock (s\<lparr>lag_cache := c\<rparr>) = (sai_lag_unlock s)\<lparr>lag_cache := c\<rparr>"
  by (simp_all add: sai_lag_lock_def sai_lag_unlock_def)

section \<open>Loops\<close>

interpretation lag_get: attribute_loop
  "\<lambda>i a (w::unit). (let (rc, a') = lag_attribute_answer E c l i a in (rc, a', w))" "\<lambda>i rc. rc"
  "\<lambda>i as w. (let (rc, as') = lag_attribute_get_loop E c l i as in (rc, as', w))" for E c l
  by unfold_locales (auto simp: Let_def split: prod.splits)

interpretation lag_member_get: attribute_loop
  "\<lambda>i a (w::unit). (let (rc, a') = lag_member_answer E c l p a in (rc, a', w))" "\<lambda>i rc. rc"
  "\<lambda>i as w. (let (rc, as') = lag_member_get_loop E c l p as in (rc, as', w))" for E c l p
  by unfold_locales (auto simp: Let_def split: prod.splits)

interpretation lag_member_create: attribute_parse lag_member_accept lag_member_parse
  by unfold_locales simp_all

section \<open>Effects\<close>

lemma lag_flag_set_effect:
  assumes "sai_l2_lag_port_flag_set E l p i v s w = (rc, s', w')"
  shows "s' = s \<or> s' = s\<lparr>lag_cache := sai_lag_member_set_disable_status E l p i v (lag_cache s)\<rparr>"
    "rc \<noteq> SAI_STATUS_SUCCESS \<Longrightarrow> s' = s"
    "rc = SAI_STATUS_SUCCESS \<Longrightarrow>
       fst (sai_lag_member_get_disable_status E (lag_cache s) l p i) = SAI_STATUS_SUCCESS"
    "rc = SAI_STATUS_SUCCESS \<Longrightarrow>
       s' = s \<and> sai_lag_member_get_disable_status E (lag_cache s) l p i = (SAI_STATUS_SUCCESS, v)
       \<or> s' = s\<lparr>lag_cache := sai_lag_member_set_disable_status E l p i v (lag_cache s)\<rparr>"
  using assms by (auto simp: sai_l2_lag_port_flag_set_def Let_def split: prod.splits if_splits)

lemma lag_flag_set_frame:
  assumes "sai_l2_lag_port_flag_set E l p i v s w = (rc, s', w')" and L: "lag_cache_laws E"
  shows "sai_is_lag_created E (lag_cache s') = sai_is_lag_created E (lag_cache s)"
    "sai_is_port_lag_member E (lag_cache s') = sai_is_port_lag_member E (lag_cache s)"
    "lag_lock_depth s' = lag_lock_depth s" "lag_event s' = lag_event s"
  using lag_flag_set_effect(1) [OF assms(1)] lag_cache_law [OF L] by auto

lemma lag_flag_if_present_frame:
  assumes "lag_flag_if_present E l p i f s w = (rc, s', w')" and L: "lag_cache_laws E"
  shows "sai_is_lag_created E (lag_cache s') = sai_is_lag_created E (lag_cache s)"
    "sai_is_port_lag_member E (lag_cache s') = sai_is_port_lag_member E (lag_cache s)"
    "lag_lock_depth s' = lag_lock_depth s" "lag_event s' = lag_event s"
  using assms(1) lag_flag_set_frame [OF _ L]
  by (auto simp: lag_flag_if_present_def split: option.splits)

lemma lag_add_port_effect:
  assumes "sai_l2_add_lag_port E l p s w = (rc, mid, s', w')" and L: "lag_cache_laws E"
  shows "rc \<noteq> SAI_STATUS_SUCCESS \<Longrightarrow> s' = s"
    "rc = SAI_STATUS_SUCCESS \<Longrightarrow>
       (\<exists>c. sai_lag_port_node_add E l p mid (lag_cache s) = (SAI_STATUS_SUCCESS, c)
            \<and> s' = s\<lparr>lag_cache := c\<rparr>)"
  using assms(1) lag_port_add_law(3) [OF L]
  by (auto simp: sai_l2_add_lag_port_def Let_def split: prod.splits if_splits)

text \<open>What the creation of a member does to the cache, seen through its observations.\<close>

lemma lag_member_create_body_effect:
  assumes run: "lag_member_create_body E l p ing egr s w = (rc, out, s', w')" and L: "lag_cache_laws E"
  shows "sai_is_lag_created E (lag_cache s') = sai_is_lag_created E (lag_cache s)"
    "lag_lock_depth s' = lag_lock_depth s" "lag_event s' = lag_event s"
    "rc \<noteq> SAI_STATUS_SUCCESS \<Longrightarrow> sai_is_port_lag_member E (lag_cache s') = sai_is_port_lag_member E (lag_cache s)"
    "rc = SAI_STATUS_SUCCESS \<Longrightarrow> sai_is_port_lag_member E (lag_cache s')
       = (sai_is_port_lag_member E (lag_cache s))(l := (sai_is_port_lag_member E (lag_cache s) l)(p := True))"
    "rc = SAI_STATUS_SUCCESS \<Longrightarrow> sai_l2_validate_lag_port_add E l p s w = SAI_STATUS_SUCCESS"
proof -
  let ?m = "sai_is_port_lag_member E (lag_cache s)"
  obtain r1 mid s1 w1 where a: "sai_l2_add_lag_port E l p s w = (r1, mid, s1, w1)" by (metis prod_cases4)
  obtain r2 s2 w2 where i: "lag_flag_if_present E l p True ing s1 w1 = (r2, s2, w2)" by (metis prod_cases3)
  obtain r3 s3 w3 where g: "lag_flag_if_present E l p False egr s2 w2 = (r3, s3, w3)" by (metis prod_cases3)
  note fi = lag_flag_if_present_frame [OF i L] and fg = lag_flag_if_present_frame [OF g L]
  consider (refused) "rc \<noteq> SAI_STATUS_SUCCESS" "s' = s"
    | (undone) t where "rc \<noteq> SAI_STATUS_SUCCESS" "r1 = SAI_STATUS_SUCCESS" "t = s2 \<or> t = s3"
        "s' = t\<lparr>lag_cache := sai_lag_port_node_remove E l p (lag_cache t)\<rparr>"
        "sai_l2_validate_lag_port_add E l p s w = SAI_STATUS_SUCCESS"
    | (added) "rc = SAI_STATUS_SUCCESS" "r1 = SAI_STATUS_SUCCESS" "s' = s3"
        "sai_l2_validate_lag_port_add E l p s w = SAI_STATUS_SUCCESS"
    using run a i g lag_add_port_effect(1) [OF a L]
    by (auto simp: lag_member_create_body_def sai_l2_remove_lag_port_def Let_def
        split: if_splits prod.splits)
  then have "sai_is_lag_created E (lag_cache s') = sai_is_lag_created E (lag_cache s)
      \<and> lag_lock_depth s' = lag_lock_depth s \<and> lag_event s' = lag_event s
      \<and> sai_is_port_lag_member E (lag_cache s') = (if rc = SAI_STATUS_SUCCESS then ?m(l := (?m l)(p := True)) else ?m)
      \<and> (rc = SAI_STATUS_SUCCESS \<longrightarrow> sai_l2_validate_lag_port_add E l p s w = SAI_STATUS_SUCCESS)"
  proof cases
    case undone
    obtain c where c: "sai_lag_port_node_add E l p mid (lag_cache s) = (SAI_STATUS_SUCCESS, c)"
      "s1 = s\<lparr>lag_cache := c\<rparr>" using lag_add_port_effect(2) [OF a L undone(2)] by blast
    note ca = lag_port_add_law [OF L c(1)]
    have nm: "\<not> ?m l p" using undone(5) by (auto simp: sai_l2_validate_lag_port_add_def split: if_splits)
    have "sai_is_lag_created E (lag_cache t) = sai_is_lag_created E (lag_cache s)"
      "lag_lock_depth t = lag_lock_depth s" "lag_event t = lag_event s"
      "sai_is_port_lag_member E (lag_cache t) = ?m(l := (?m l)(p := True))"
      using undone(3) fi fg ca c(2) by auto
    with undone nm lag_cache_law(4,5) [OF L] show ?thesis by (auto simp: fun_eq_iff)
  next
    case added
    obtain c where c: "sai_lag_port_node_add E l p mid (lag_cache s) = (SAI_STATUS_SUCCESS, c)"
      "s1 = s\<lparr>lag_cache := c\<rparr>" using lag_add_port_effect(2) [OF a L added(2)] by blast
    with added fi fg lag_port_add_law [OF L c(1)] show ?thesis by auto
  qed simp
  then show "sai_is_lag_created E (lag_cache s') = sai_is_lag_created E (lag_cache s)"
    "lag_lock_depth s' = lag_lock_depth s" "lag_event s' = lag_event s"
    "rc \<noteq> SAI_STATUS_SUCCESS \<Longrightarrow> sai_is_port_lag_member E (lag_cache s') = ?m"
    "rc = SAI_STATUS_SUCCESS \<Longrightarrow> sai_is_port_lag_member E (lag_cache s') = ?m(l := (?m l)(p := True))"
    "rc = SAI_STATUS_SUCCESS \<Longrightarrow> sai_l2_validate_lag_port_add E l p s w = SAI_STATUS_SUCCESS"
    by auto
qed

end
