(* ===== verification/Lag_Reach.thy ===== *)
theory Lag_Reach
  imports Lag_Props
begin

text \<open>
  The LAG component as a state machine and its invariant: a port is a member of at most one LAG,
  and a LAG with members exists.
\<close>

definition lag_inv :: "('c, 'w, 'z) lag_env_scheme \<Rightarrow> ('c, 'w) lag_state \<Rightarrow> bool" where
  "lag_inv E s \<longleftrightarrow>
     (\<forall>l k p. sai_is_port_lag_member E (lag_cache s) l p \<longrightarrow> sai_is_port_lag_member E (lag_cache s) k p
        \<longrightarrow> l = k)
     \<and> (\<forall>l p. sai_is_port_lag_member E (lag_cache s) l p \<longrightarrow> sai_is_lag_created E (lag_cache s) l)"

lemma lag_inv_frame:
  assumes "lag_inv E s" "sai_is_lag_created E (lag_cache s') = sai_is_lag_created E (lag_cache s)"
    "sai_is_port_lag_member E (lag_cache s') = sai_is_port_lag_member E (lag_cache s)"
  shows "lag_inv E s'"
  using assms by (simp add: lag_inv_def)

section \<open>Effects on members and LAGs\<close>

lemma lag_create_attrs_fails:
  assumes "\<And>i. sai_get_indexed_ret_val E (SAI_STATUS_UNKNOWN_ATTRIBUTE 0) i \<noteq> SAI_STATUS_SUCCESS"
    and "as \<noteq> []"
  shows "lag_create_attrs E i as r \<noteq> SAI_STATUS_SUCCESS"
  using assms by (cases as) (simp_all add: Let_def)

text \<open>Whatever happens, the creation of a LAG that is not in the cache either adds it, or leaves
  the membership and the LAGs as they were.\<close>

lemma lag_create_effect:
  assumes run: "sai_l2_create_lag E as s w = (rc, l, s', w')" and L: "lag_cache_laws E"
  obtains (no_hardware) "rc \<noteq> SAI_STATUS_SUCCESS" "s' = s"
    | (created) "rc = SAI_STATUS_SUCCESS"
        "sai_is_lag_created E (lag_cache s') = (sai_is_lag_created E (lag_cache s))(l := True)
         \<or> sai_is_lag_created E (lag_cache s') = sai_is_lag_created E (lag_cache s)"
        "sai_is_port_lag_member E (lag_cache s') = sai_is_port_lag_member E (lag_cache s)"
        "lag_lock_depth s' = lag_lock_depth s"
    | (undone) c c2 r w2 where "rc \<noteq> SAI_STATUS_SUCCESS"
        "c = lag_cache s \<or> sai_is_lag_created E c = (sai_is_lag_created E (lag_cache s))(l := True)
           \<and> sai_is_port_lag_member E c = sai_is_port_lag_member E (lag_cache s)"
        "sai_lag_node_remove E l (sai_remove_all_lag_port_nodes E l c) = (r, c2)"
        "s' = s\<lparr>lag_cache := c2\<rparr>"
        "w' = sai_lag_notify_modules E s' l SAI_LAG_OPER_CREATE None w2"
proof -
  obtain r1 l1 w1 where n: "npu_lag_create E w = (r1, l1, w1)" by (metis prod_cases3)
  obtain r2 c where a: "sai_lag_node_add E l1 (lag_cache s) = (r2, c)" by (metis surj_pair)
  obtain r3 c2 where d: "sai_lag_node_remove E l1 (sai_remove_all_lag_port_nodes E l1 c) = (r3, c2)"
    by (metis surj_pair)
  note law = lag_node_add_law [OF L a]
  show thesis
  proof (cases "r1 = SAI_STATUS_SUCCESS")
    case False
    with run n show thesis by (intro no_hardware) (auto simp: sai_l2_create_lag_def Let_def)
  next
    case True
    have l: "l = l1" using run n True
      by (auto simp: sai_l2_create_lag_def Let_def a d split: prod.splits if_splits)
    show thesis
    proof (cases "rc = SAI_STATUS_SUCCESS")
      case t: True
      have s': "s' = s\<lparr>lag_cache := c\<rparr>" using run n True t
        by (auto simp: sai_l2_create_lag_def Let_def a d split: prod.splits if_splits)
      have "r2 = SAI_STATUS_SUCCESS \<or> r2 \<noteq> SAI_STATUS_SUCCESS" by simp
      then show thesis using law l s' t by (intro created) auto
    next
      case f: False
      have d': "sai_lag_node_remove E l (sai_remove_all_lag_port_nodes E l c) = (r3, c2)"
        using d l by simp
      obtain w2 where "s' = s\<lparr>lag_cache := c2\<rparr>" "w' = sai_lag_notify_modules E s' l SAI_LAG_OPER_CREATE None w2"
        using run n True f
        by (auto simp: sai_l2_create_lag_def Let_def a d d' split: prod.splits if_splits)
      with f law l d' show thesis by (intro undone [of c r3 c2 w2]) (cases "r2 = SAI_STATUS_SUCCESS", auto)
    qed
  qed
qed

lemma lag_create_inv:
  assumes "sai_l2_create_lag E as s w = (rc, l, s', w')" and L: "lag_cache_laws E" and inv: "lag_inv E s"
  shows "lag_inv E s'"
  using assms(1,2)
proof (cases rule: lag_create_effect)
  case created
  with inv show ?thesis by (auto simp: lag_inv_def)
next
  case (undone c c2 r w2)
  have "lag_inv E (s\<lparr>lag_cache := c\<rparr>)"
    using undone(2) inv unfolding lag_inv_def by (elim disjE conjE; simp; blast)
  with undone(4) lag_node_remove_law [OF L undone(3)] lag_cache_law(1,2) [OF L, of l c]
  show ?thesis by (cases "r = SAI_STATUS_SUCCESS") (auto simp: lag_inv_def split: if_splits)
qed (use inv in simp)

lemma lag_remove_effect:
  assumes run: "sai_l2_remove_lag E l s w = (rc, s', w')" and L: "lag_cache_laws E"
  obtains (refused) "rc \<noteq> SAI_STATUS_SUCCESS" "s' = s"
    | (removed) c where "rc = SAI_STATUS_SUCCESS" "sai_is_lag_created E (lag_cache s) l"
        "\<And>p. \<not> sai_is_port_lag_member E (lag_cache s) l p" "\<not> sai_is_lag_in_use E (lag_cache s) l"
        "s' = s\<lparr>lag_cache := c\<rparr>"
        "sai_is_lag_created E c = (sai_is_lag_created E (lag_cache s))(l := False)"
        "sai_is_port_lag_member E c = sai_is_port_lag_member E (lag_cache s)"
    | (restored) c where "rc \<noteq> SAI_STATUS_SUCCESS" "s' = s\<lparr>lag_cache := c\<rparr>"
        "sai_is_lag_created E c = sai_is_lag_created E (lag_cache s)"
        "sai_is_port_lag_member E c = sai_is_port_lag_member E (lag_cache s)"
    | (lost) c c1 r where "rc \<noteq> SAI_STATUS_SUCCESS" "s' = s\<lparr>lag_cache := c\<rparr>"
        "\<And>p. \<not> sai_is_port_lag_member E (lag_cache s) l p"
        "sai_lag_node_add E l c1 = (r, c)" "r \<noteq> SAI_STATUS_SUCCESS"
        "sai_is_lag_created E c = (sai_is_lag_created E (lag_cache s))(l := False)"
        "sai_is_port_lag_member E c = sai_is_port_lag_member E (lag_cache s)"
proof -
  obtain r1 c1 where d: "sai_lag_node_remove E l (lag_cache s) = (r1, c1)" by (metis surj_pair)
  obtain r2 w2 where n: "npu_lag_remove E l w = (r2, w2)" by (metis surj_pair)
  obtain r3 c3 where a: "sai_lag_node_add E l c1 = (r3, c3)" by (metis surj_pair)
  note ld = lag_node_remove_law [OF L d] and la = lag_node_add_law [OF L a]
  show thesis
  proof (cases "sai_is_lag_created E (lag_cache s) l \<and> sai_lag_port_count_get E (lag_cache s) l = 0
      \<and> \<not> sai_is_lag_in_use E (lag_cache s) l \<and> r1 = SAI_STATUS_SUCCESS")
    case False
    with run d ld(3) show thesis
      by (intro refused) (auto simp: sai_l2_remove_lag_def Let_def split: if_splits)
  next
    case True
    note R = run [unfolded sai_l2_remove_lag_def Let_def, simplified True d n a, simplified]
    have m: "\<not> sai_is_port_lag_member E (lag_cache s) l p" for p
      using True lag_cache_law(3) [OF L] by blast
    have e: "rc = r2" "s' = s\<lparr>lag_cache := if r2 = SAI_STATUS_SUCCESS then c1 else c3\<rparr>"
      using R by (auto simp: True d a n split: if_splits)
    show thesis
    proof (cases "r2 = SAI_STATUS_SUCCESS")
      case t: True
      show thesis using True e t m ld by (intro removed [of c1]) auto
    next
      case f: False
      show thesis
      proof (cases "r3 = SAI_STATUS_SUCCESS")
        case True
        then show thesis using \<open>_ \<and> _ \<and> _ \<and> _\<close> e f la ld by (intro restored [of c3]) (auto simp: fun_eq_iff)
      next
        case False
        show thesis using True e f False m la(3) [OF False] ld a by (intro lost [of c3 c1 r3]) auto
      qed
    qed
  qed
qed

lemma lag_remove_inv:
  assumes "sai_l2_remove_lag E l s w = (rc, s', w')" and L: "lag_cache_laws E" and inv: "lag_inv E s"
  shows "lag_inv E s'"
  using assms(1,2) by (cases rule: lag_remove_effect) (use inv in \<open>auto simp: lag_inv_def\<close>)

section \<open>Members\<close>

lemma lag_validate_iff:
  "sai_l2_validate_lag_port_add E l p s w = SAI_STATUS_SUCCESS \<longleftrightarrow>
     sai_is_port_valid E w p \<and> sai_is_lag_created E (lag_cache s) l
     \<and> \<not> sai_is_port_lag_member E (lag_cache s) l p
     \<and> \<not> sai_is_port_part_of_different_lag E (lag_cache s) l p"
  by (simp add: sai_l2_validate_lag_port_add_def)

lemma lag_validate_lock [simp]:
  "sai_l2_validate_lag_port_add E l p (sai_lag_lock s) = sai_l2_validate_lag_port_add E l p s"
  by (simp add: sai_l2_validate_lag_port_add_def [abs_def])

lemma lag_member_create_effect:
  assumes run: "sai_l2_create_lag_member E as s w = (rc, out, s', w')" and L: "lag_cache_laws E"
  obtains (failed) "rc \<noteq> SAI_STATUS_SUCCESS"
        "sai_is_lag_created E (lag_cache s') = sai_is_lag_created E (lag_cache s)"
        "sai_is_port_lag_member E (lag_cache s') = sai_is_port_lag_member E (lag_cache s)"
        "lag_lock_depth s' = lag_lock_depth s"
    | (added) l p ing egr s1 w1 where "rc = SAI_STATUS_SUCCESS"
        "lag_member_parse 0 as (None, None, None, None) = Inr (Some l, Some p, ing, egr)"
        "lag_member_create_body E l p ing egr (sai_lag_lock s) w = (SAI_STATUS_SUCCESS, out, s1, w1)"
        "s' = sai_lag_unlock s1"
        "w' = sai_lag_notify_modules E s' l SAI_LAG_OPER_ADD_PORTS (Some [p]) w1"
        "sai_l2_validate_lag_port_add E l p s w = SAI_STATUS_SUCCESS"
        "sai_is_lag_created E (lag_cache s') = sai_is_lag_created E (lag_cache s)"
        "sai_is_port_lag_member E (lag_cache s') = (sai_is_port_lag_member E (lag_cache s))
           (l := (sai_is_port_lag_member E (lag_cache s) l)(p := True))"
        "lag_lock_depth s' = lag_lock_depth s"
proof -
  consider (refused) "rc \<noteq> SAI_STATUS_SUCCESS" "s' = s"
    | (ran) l p ing egr s1 w1 where
        "lag_member_parse 0 as (None, None, None, None) = Inr (Some l, Some p, ing, egr)"
        "lag_member_create_body E l p ing egr (sai_lag_lock s) w = (rc, out, s1, w1)"
        "s' = sai_lag_unlock s1"
        "rc = SAI_STATUS_SUCCESS \<longrightarrow>
           w' = sai_lag_notify_modules E s' l SAI_LAG_OPER_ADD_PORTS (Some [p]) w1"
  proof (cases "lag_member_parse 0 as (None, None, None, None)")
    case (Inl r)
    obtain i a acc where "lag_member_accept i a acc = Inl r" by (rule lag_member_create.parse_Inl [OF Inl])
    then have "r \<noteq> SAI_STATUS_SUCCESS"
      by (auto simp: lag_member_accept_def split: sai_lag_member_attr_t.splits prod.splits)
    with Inl run that(1) show thesis by (simp add: sai_l2_create_lag_member_def)
  next
    case (Inr b)
    obtain lo po ing egr where "b = (lo, po, ing, egr)" by (metis prod_cases4)
    with Inr run that show thesis
      by (cases lo; cases po) (auto simp: sai_l2_create_lag_member_def Let_def split: prod.splits)
  qed
  then show thesis
  proof cases
    case ran
    note e = lag_member_create_body_effect [OF ran(2) L]
    show thesis
    proof (cases "rc = SAI_STATUS_SUCCESS")
      case True
      with ran e show thesis by (intro added [of l p ing egr s1 w1]) auto
    qed (use ran e failed in auto)
  qed (use failed in simp)
qed

lemma lag_member_create_inv:
  assumes "sai_l2_create_lag_member E as s w = (rc, out, s', w')" and L: "lag_cache_laws E"
    and inv: "lag_inv E s"
  shows "lag_inv E s'"
  using assms(1,2)
proof (cases rule: lag_member_create_effect)
  case failed
  with inv show ?thesis by (intro lag_inv_frame [OF inv])
next
  case (added l p ing egr s1 w1)
  from added(6) have v: "sai_is_lag_created E (lag_cache s) l" "\<not> sai_is_port_lag_member E (lag_cache s) l p"
    "\<And>k. sai_is_port_lag_member E (lag_cache s) k p \<Longrightarrow> k = l"
    by (auto simp: lag_validate_iff lag_cache_law(6) [OF L])
  with inv show ?thesis unfolding lag_inv_def added(7,8) by (auto split: if_splits)
qed

lemma lag_member_remove_effect:
  assumes "sai_l2_remove_lag_member E m s w = (rc, s', w')"
  shows "s' = s \<or> (\<exists>l p r w1. sai_lag_get_info_from_member_id E (lag_cache s) m = Inr (l, p)
      \<and> sai_is_lag_created E (lag_cache s) l \<and> sai_is_port_lag_member E (lag_cache s) l p
      \<and> rc = SAI_STATUS_SUCCESS \<and> npu_remove_ports_from_lag E l [p] w = (r, w1)
      \<and> s' = s\<lparr>lag_cache := sai_lag_port_node_remove E l p (lag_cache s)\<rparr>)"
  using assms by (auto simp: sai_l2_remove_lag_member_def sai_l2_remove_lag_port_def Let_def
      split: sum.splits if_splits prod.splits)

lemma lag_member_remove_inv:
  assumes "sai_l2_remove_lag_member E m s w = (rc, s', w')" and L: "lag_cache_laws E"
    and inv: "lag_inv E s"
  shows "lag_inv E s'"
  using lag_member_remove_effect [OF assms(1)] inv lag_cache_law(4,5) [OF L]
  by (elim disjE exE conjE) (auto simp: lag_inv_def)

lemma lag_member_set_effect:
  assumes "sai_l2_set_lag_member_attribute E m a s w = (rc, s', w')"
  shows "(rc \<noteq> SAI_STATUS_SUCCESS \<and> s' = s) \<or> s' = s \<or>
    (\<exists>l p i v s1. sai_lag_get_info_from_member_id E (lag_cache s) m = Inr (l, p)
      \<and> sai_l2_lag_port_flag_set E l p i v (sai_lag_lock s) w = (rc, s1, w') \<and> s' = sai_lag_unlock s1)"
  using assms by (auto simp: sai_l2_set_lag_member_attribute_def Let_def
      split: sum.splits if_splits prod.splits sai_lag_member_attr_t.splits)

lemma lag_member_set_inv:
  assumes "sai_l2_set_lag_member_attribute E m a s w = (rc, s', w')" and L: "lag_cache_laws E"
    and inv: "lag_inv E s"
  shows "lag_inv E s'"
  using lag_member_set_effect [OF assms(1)] lag_flag_set_frame [OF _ L]
  by (elim disjE exE conjE) (auto intro: inv lag_inv_frame [OF inv])

section \<open>Steps\<close>

inductive lag_step :: "('c, 'w, 'z) lag_env_scheme \<Rightarrow> ('c, 'w) lag_state \<Rightarrow> ('c, 'w) lag_state \<Rightarrow> bool" for E where
  lstep_create: "sai_l2_create_lag E as s w = (rc, l, s', w') \<Longrightarrow> lag_step E s s'"
| lstep_remove: "sai_l2_remove_lag E l s w = (rc, s', w') \<Longrightarrow> lag_step E s s'"
| lstep_set: "sai_l2_set_lag_attribute E l a s = (rc, s') \<Longrightarrow> lag_step E s s'"
| lstep_get: "sai_l2_get_lag_attribute E l as s = (rc, as', s') \<Longrightarrow> lag_step E s s'"
| lstep_member_create: "sai_l2_create_lag_member E bs s w = (rc, out, s', w') \<Longrightarrow> lag_step E s s'"
| lstep_member_remove: "sai_l2_remove_lag_member E m s w = (rc, s', w') \<Longrightarrow> lag_step E s s'"
| lstep_member_set: "sai_l2_set_lag_member_attribute E m b s w = (rc, s', w') \<Longrightarrow> lag_step E s s'"
| lstep_member_get: "sai_l2_get_lag_member_attribute E m bs s = (rc, bs', s') \<Longrightarrow> lag_step E s s'"
| lstep_register: "sai_lag_event_callback_register E k cb s = (rc, s') \<Longrightarrow> lag_step E s s'"

lemma lag_read_cache:
  "sai_l2_set_lag_attribute E l a s = (rc, s') \<Longrightarrow> s' = s"
  "sai_l2_get_lag_attribute E l as s = (rc, as', s') \<Longrightarrow> lag_cache s' = lag_cache s"
  "sai_l2_get_lag_member_attribute E m bs s = (rc, bs', s') \<Longrightarrow> s' = s"
  "sai_lag_event_callback_register E k cb s = (rc, s') \<Longrightarrow>
     lag_cache s' = lag_cache s \<and> lag_lock_depth s' = lag_lock_depth s"
  by (auto simp: sai_l2_set_lag_attribute_def sai_l2_get_lag_attribute_def Let_def
      sai_l2_get_lag_member_attribute_def sai_lag_event_callback_register_def
      split: if_splits prod.splits sum.splits)

lemma lag_step_inv:
  assumes "lag_step E s t" and inv: "lag_inv E s" and L: "lag_cache_laws E"
  shows "lag_inv E t"
  using assms(1)
proof cases
  case (lstep_get l as rc as')
  then show ?thesis by (intro lag_inv_frame [OF inv]) (simp_all add: lag_read_cache(2))
next
  case (lstep_register k cb rc)
  then show ?thesis by (intro lag_inv_frame [OF inv]) (simp_all add: lag_read_cache(4))
qed (use inv in \<open>auto dest: lag_read_cache(1,3) lag_create_inv [OF _ L inv] lag_remove_inv [OF _ L inv]
    lag_member_create_inv [OF _ L inv] lag_member_remove_inv [OF _ L inv] lag_member_set_inv [OF _ L inv]\<close>)

text \<open>Initially no LAG has a member.\<close>

definition lag_start :: "('c, 'w, 'z) lag_env_scheme \<Rightarrow> ('c, 'w) lag_state \<Rightarrow> bool" where
  "lag_start E s \<longleftrightarrow> lag_cache_laws E \<and> (\<forall>l p. \<not> sai_is_port_lag_member E (lag_cache s) l p)"

interpretation lag: invariant_system
  "lag_start E" "\<lambda>s t. lag_cache_laws E \<and> lag_step E s t" "lag_inv E" for E
proof unfold_locales
  show "lag_inv E s" if "lag_start E s" for s
    using that by (simp add: lag_start_def lag_inv_def)
  show "lag_inv E t" if "lag_inv E s" "lag_cache_laws E \<and> lag_step E s t" for s t
    using that lag_step_inv by blast
qed

definition lag_reachable :: "('c, 'w, 'z) lag_env_scheme \<Rightarrow> ('c, 'w) lag_state \<Rightarrow> bool" where
  "lag_reachable E = reach (lag_start E) (\<lambda>s t. lag_cache_laws E \<and> lag_step E s t)"

end
