(* ===== verification/Lag_Claims.thy ===== *)
theory Lag_Claims
  imports Lag_Reach Sai_Demo
begin

text \<open>
  The properties of the LAG component.
\<close>

section \<open>A concrete platform\<close>

text \<open>
  A concrete LAG cache and plug-in for the witnesses of the LAG properties.  LAG objects are 260,
  516, ...; the ports 259 and 515 are valid.  The plug-in refuses to take a port out of a LAG,
  and to set an egress flag.
\<close>

record demo_lag_cache =
  dl_created :: "sai_object_id_t fset"
  dl_member :: "(sai_object_id_t \<times> sai_object_id_t) fset"
  dl_flag :: "sai_object_id_t \<Rightarrow> sai_object_id_t \<Rightarrow> bool \<Rightarrow> bool"
  dl_info :: "sai_object_id_t \<Rightarrow> (sai_object_id_t \<times> sai_object_id_t) option"

type_synonym demo_lag_state = "(demo_lag_cache, nat) lag_state"

definition demo_lag :: "(demo_lag_cache, nat) lag_env" where
  "demo_lag = \<lparr>calloc_ok = (\<lambda>w. (True, w)), rbtree_create_ok = (\<lambda>w. (True, w)),
     rbtree_insert_ok = (\<lambda>present w. (\<not> present, w)),
     sai_uoid_create = demo_uoid, sai_is_obj_id = demo_is_obj,
     sai_is_port_valid = demo_port_valid,
     sai_get_indexed_ret_val = (\<lambda>rc i. rc),
     dn_sai_get_next_free_id = demo_next_id, uoid_npu_obj_id_mask = 255,
     SAI_MODULE_MAX = 2,
     sai_lag_cache_init = (\<lambda>c. c),
     sai_is_lag_created = (\<lambda>c l. l |\<in>| dl_created c),
     sai_is_lag_in_use = (\<lambda>c l. False),
     sai_lag_port_count_get = (\<lambda>c l. fcard (ffilter (\<lambda>m. fst m = l) (dl_member c))),
     sai_lag_port_list_get = (\<lambda>c l ol. (SAI_STATUS_SUCCESS, ol\<lparr>ol_count := 0\<rparr>)),
     sai_lag_node_add = (\<lambda>l c. (SAI_STATUS_SUCCESS, c\<lparr>dl_created := finsert l (dl_created c)\<rparr>)),
     sai_lag_node_remove = (\<lambda>l c. (SAI_STATUS_SUCCESS, c\<lparr>dl_created := dl_created c |-| {|l|}\<rparr>)),
     sai_remove_all_lag_port_nodes = (\<lambda>l c. c\<lparr>dl_member := ffilter (\<lambda>m. fst m \<noteq> l) (dl_member c)\<rparr>),
     sai_lag_port_node_add = (\<lambda>l p m c. (SAI_STATUS_SUCCESS, c\<lparr>dl_member := finsert (l, p) (dl_member c),
       dl_info := (dl_info c)(m \<mapsto> (l, p))\<rparr>)),
     sai_lag_port_node_remove = (\<lambda>l p c. c\<lparr>dl_member := dl_member c |-| {|(l, p)|}\<rparr>),
     sai_is_port_lag_member = (\<lambda>c l p. (l, p) |\<in>| dl_member c),
     sai_is_port_part_of_different_lag = (\<lambda>c l p. fBex (dl_member c) (\<lambda>m. fst m \<noteq> l \<and> snd m = p)),
     sai_lag_member_get_disable_status = (\<lambda>c l p i. (SAI_STATUS_SUCCESS, dl_flag c l p i)),
     sai_lag_member_set_disable_status = (\<lambda>l p i v c. c\<lparr>dl_flag := (dl_flag c)
       (l := (dl_flag c l)(p := (dl_flag c l p)(i := v)))\<rparr>),
     sai_lag_get_info_from_member_id = (\<lambda>c m. case dl_info c m of
       None \<Rightarrow> Inl SAI_STATUS_ITEM_NOT_FOUND | Some lp \<Rightarrow> Inr lp),
     npu_lag_init = (\<lambda>w. w),
     npu_lag_create = (\<lambda>w. (SAI_STATUS_SUCCESS, demo_uoid SAI_OBJECT_TYPE_LAG (of_nat w), Suc w)),
     npu_lag_remove = (\<lambda>l w. (SAI_STATUS_SUCCESS, w)),
     npu_add_ports_to_lag = (\<lambda>l ps w. (SAI_STATUS_SUCCESS, of_nat w, Suc w)),
     npu_remove_ports_from_lag = (\<lambda>l ps w. (SAI_STATUS_FAILURE, w)),
     npu_lag_port_flag_set = (\<lambda>l p i v w. (if i then SAI_STATUS_SUCCESS else SAI_STATUS_FAILURE, w))\<rparr>"

lemma demo_lag_sel [simp]:
  "sai_is_port_valid demo_lag = demo_port_valid" "sai_get_indexed_ret_val demo_lag rc k = rc"
  "SAI_MODULE_MAX demo_lag = 2"
  "sai_is_lag_created demo_lag c l \<longleftrightarrow> l |\<in>| dl_created c" "\<not> sai_is_lag_in_use demo_lag c l"
  "sai_lag_port_count_get demo_lag c l = fcard (ffilter (\<lambda>m. fst m = l) (dl_member c))"
  "sai_lag_node_add demo_lag l c = (SAI_STATUS_SUCCESS, c\<lparr>dl_created := finsert l (dl_created c)\<rparr>)"
  "sai_lag_node_remove demo_lag l c = (SAI_STATUS_SUCCESS, c\<lparr>dl_created := dl_created c |-| {|l|}\<rparr>)"
  "sai_remove_all_lag_port_nodes demo_lag l c = c\<lparr>dl_member := ffilter (\<lambda>m. fst m \<noteq> l) (dl_member c)\<rparr>"
  "sai_lag_port_node_add demo_lag l p m c = (SAI_STATUS_SUCCESS,
     c\<lparr>dl_member := finsert (l, p) (dl_member c), dl_info := (dl_info c)(m \<mapsto> (l, p))\<rparr>)"
  "sai_lag_port_node_remove demo_lag l p c = c\<lparr>dl_member := dl_member c |-| {|(l, p)|}\<rparr>"
  "sai_is_port_lag_member demo_lag c l p \<longleftrightarrow> (l, p) |\<in>| dl_member c"
  "sai_is_port_part_of_different_lag demo_lag c l p
     \<longleftrightarrow> fBex (dl_member c) (\<lambda>m. fst m \<noteq> l \<and> snd m = p)"
  "sai_lag_member_get_disable_status demo_lag c l p i = (SAI_STATUS_SUCCESS, dl_flag c l p i)"
  "sai_lag_member_set_disable_status demo_lag l p i v c = c\<lparr>dl_flag := (dl_flag c)
     (l := (dl_flag c l)(p := (dl_flag c l p)(i := v)))\<rparr>"
  "sai_lag_get_info_from_member_id demo_lag c m
     = (case dl_info c m of None \<Rightarrow> Inl SAI_STATUS_ITEM_NOT_FOUND | Some lp \<Rightarrow> Inr lp)"
  "npu_lag_create demo_lag w = (SAI_STATUS_SUCCESS, demo_uoid SAI_OBJECT_TYPE_LAG (of_nat w), Suc w)"
  "npu_lag_remove demo_lag l w = (SAI_STATUS_SUCCESS, w)"
  "npu_add_ports_to_lag demo_lag l ps w = (SAI_STATUS_SUCCESS, of_nat w, Suc w)"
  "npu_remove_ports_from_lag demo_lag l ps w = (SAI_STATUS_FAILURE, w)"
  "npu_lag_port_flag_set demo_lag l p i v w = (if i then SAI_STATUS_SUCCESS else SAI_STATUS_FAILURE, w)"
  by (simp_all add: demo_lag_def)

lemma demo_lag_count: "fcard (ffilter (\<lambda>m. fst m = l) M) = 0 \<longleftrightarrow> (\<forall>p. (l, p) |\<notin>| M)"
proof -
  have "fcard (ffilter (\<lambda>m. fst m = l) M) = 0 \<longleftrightarrow> ffilter (\<lambda>m. fst m = l) M = {||}"
    by (metis fcard_0_eq)
  then show ?thesis by (auto simp: fset_eq_iff)
qed

lemma demo_lag_laws: "lag_cache_laws demo_lag" "lag_flag_laws demo_lag"
proof -
  have "lag_node_laws demo_lag"
    by (auto simp: lag_node_laws_def demo_lag_count [simplified] fun_eq_iff)
  moreover have "lag_port_laws demo_lag"
    by (auto simp: lag_port_laws_def fun_eq_iff) force+
  ultimately show "lag_cache_laws demo_lag" by (simp add: lag_cache_laws_def)
  show "lag_flag_laws demo_lag" by (auto simp: lag_flag_laws_def fun_eq_iff)
qed

text \<open>No LAG at all; and LAG 260 with member port 259 under member id 1.\<close>

definition demo_lag_none :: demo_lag_state where
  "demo_lag_none = \<lparr>lag_cache = \<lparr>dl_created = {||}, dl_member = {||}, dl_flag = (\<lambda>_ _ _. False),
     dl_info = Map.empty\<rparr>, lag_event = (\<lambda>_. None), lag_lock_depth = 0\<rparr>"

definition demo_lag_one :: demo_lag_state where
  "demo_lag_one = \<lparr>lag_cache = \<lparr>dl_created = {|260|}, dl_member = {|(260, 259)|},
     dl_flag = (\<lambda>_ _ _. False), dl_info = [1 \<mapsto> (260, 259)]\<rparr>,
     lag_event = (\<lambda>_. None), lag_lock_depth = 0\<rparr>"

lemma demo_lag_start: "lag_start demo_lag demo_lag_none"
  using demo_lag_laws by (simp add: lag_start_def demo_lag_none_def)

lemma demo_lag_reachable: "lag_reachable demo_lag demo_lag_none"
  unfolding lag_reachable_def by (rule reach_start) (rule demo_lag_start)

section \<open>Membership\<close>

text \<open>C23. In every state that the LAG API can reach a port is a member of at most one LAG, and
  every LAG that has a member exists.\<close>

theorem lag_membership_unique:
  assumes "lag_reachable E s" and "sai_is_port_lag_member E (lag_cache s) l p"
  shows "sai_is_lag_created E (lag_cache s) l
    \<and> (\<forall>k. sai_is_port_lag_member E (lag_cache s) k p \<longrightarrow> k = l)"
proof -
  have "lag_inv E s" using assms(1) unfolding lag_reachable_def by (rule lag.reach_inv)
  with assms(2) show ?thesis unfolding lag_inv_def by blast
qed

definition demo_lag_added :: demo_lag_state where
  "demo_lag_added = demo_lag_none\<lparr>lag_cache := \<lparr>dl_created = {|260|}, dl_member = {|(260, 259)|},
     dl_flag = (\<lambda>_ _ _. False), dl_info = [2 \<mapsto> (260, 259)]\<rparr>\<rparr>"

lemma demo_lag_create:
  "sai_l2_create_lag demo_lag [] demo_lag_none 1 = (SAI_STATUS_SUCCESS, 260,
     demo_lag_none\<lparr>lag_cache := (lag_cache demo_lag_none)\<lparr>dl_created := {|260|}\<rparr>\<rparr>, 2)"
  by (simp add: sai_l2_create_lag_def Let_def demo_lag_none_def demo_uoid_def sai_lag_lock_def
      sai_lag_unlock_def sai_lag_notify_modules_def upt_rec)

lemma demo_lag_member_create:
  "sai_l2_create_lag_member demo_lag [SAI_LAG_MEMBER_ATTR_PORT_ID 259, SAI_LAG_MEMBER_ATTR_LAG_ID 260]
     (demo_lag_none\<lparr>lag_cache := (lag_cache demo_lag_none)\<lparr>dl_created := {|260|}\<rparr>\<rparr>) 2
   = (SAI_STATUS_SUCCESS, Some 2, demo_lag_added, 3)"
  by (simp add: sai_l2_create_lag_member_def lag_member_accept_def lag_member_create_body_def
      sai_l2_validate_lag_port_add_def sai_l2_add_lag_port_def lag_flag_if_present_def
      demo_port_valid_def Let_def demo_lag_none_def demo_lag_added_def sai_lag_lock_def
      sai_lag_unlock_def sai_lag_notify_modules_def upt_rec)

lemma demo_lag_added_reachable: "lag_reachable demo_lag demo_lag_added"
proof -
  note L = demo_lag_laws(1)
  let ?s = "demo_lag_none\<lparr>lag_cache := (lag_cache demo_lag_none)\<lparr>dl_created := {|260|}\<rparr>\<rparr>"
  have "lag_reachable demo_lag ?s"
    using demo_lag_reachable lstep_create [OF demo_lag_create] L
    unfolding lag_reachable_def by (blast intro: reach_step)
  with lstep_member_create [OF demo_lag_member_create] L show ?thesis
    unfolding lag_reachable_def by (blast intro: reach_step)
qed

theorem lag_membership_unique_witness:
  "\<not> sai_is_port_lag_member demo_lag (lag_cache demo_lag_added) 516 259"
proof -
  have "sai_is_port_lag_member demo_lag (lag_cache demo_lag_added) 260 259"
    by (simp add: demo_lag_added_def)
  from lag_membership_unique [OF demo_lag_added_reachable this] show ?thesis by auto
qed

text \<open>C24. Adding a port to a LAG is a transaction.  It succeeds only for a valid port that is
  in no LAG and a LAG that exists, and then the port is a member of that LAG and nothing else
  changed; if any of the calls fails, the setting of a flag included, every port is a member of
  exactly the LAGs it was a member of.\<close>

theorem lag_member_create_transaction:
  assumes run: "sai_l2_create_lag_member E as s w = (rc, out, s', w')" and L: "lag_cache_laws E"
  shows "if rc = SAI_STATUS_SUCCESS
    then \<exists>l p. SAI_LAG_MEMBER_ATTR_LAG_ID l \<in> set as \<and> SAI_LAG_MEMBER_ATTR_PORT_ID p \<in> set as
      \<and> sai_is_port_valid E w p \<and> sai_is_lag_created E (lag_cache s) l
      \<and> (\<forall>k. \<not> sai_is_port_lag_member E (lag_cache s) k p)
      \<and> sai_is_port_lag_member E (lag_cache s')
          = (sai_is_port_lag_member E (lag_cache s))(l := (sai_is_port_lag_member E (lag_cache s) l)(p := True))
    else sai_is_port_lag_member E (lag_cache s') = sai_is_port_lag_member E (lag_cache s)"
  using run L
proof (cases rule: lag_member_create_effect)
  case (added l p ing egr s1 w1)
  let ?P = "\<lambda>(lo, po, i :: bool option, e :: bool option).
      (\<forall>l. lo = Some l \<longrightarrow> SAI_LAG_MEMBER_ATTR_LAG_ID l \<in> set as)
      \<and> (\<forall>p. po = Some p \<longrightarrow> SAI_LAG_MEMBER_ATTR_PORT_ID p \<in> set as)"
  have "?P (Some l, Some p, ing, egr)"
    by (rule lag_member_create.parse_members [OF added(2)])
      (auto simp: lag_member_accept_def split: sai_lag_member_attr_t.splits if_splits)
  moreover have "\<not> sai_is_port_lag_member E (lag_cache s) k p" for k
    using added(6) by (cases "k = l") (auto simp: lag_validate_iff lag_cache_law(6) [OF L])
  ultimately show ?thesis using added by (auto simp: lag_validate_iff)
qed simp

theorem lag_member_create_transaction_witness:
  "sai_is_port_lag_member demo_lag (lag_cache demo_lag_added) 260 259"
proof -
  from lag_member_create_transaction [OF demo_lag_member_create demo_lag_laws(1)] show ?thesis
    by (auto simp: demo_lag_added_def)
qed

lemma lag_member_parse_present:
  assumes "lag_member_parse i xs acc = Inr b"
  shows "SAI_LAG_MEMBER_ATTR_LAG_ID l \<in> set xs \<Longrightarrow> fst b \<noteq> None"
    and "SAI_LAG_MEMBER_ATTR_PORT_ID p \<in> set xs \<Longrightarrow> fst (snd b) \<noteq> None"
proof -
  have gen: "P b" if a: "a \<in> set xs" and est: "\<And>i b c. lag_member_accept i a b = Inr c \<Longrightarrow> P c"
    and keep: "\<And>i a b c. P b \<Longrightarrow> lag_member_accept i a b = Inr c \<Longrightarrow> P c" for a P
  proof -
    obtain us vs where xs: "xs = us @ a # vs" using a by (meson split_list)
    obtain b1 b2 where b: "lag_member_accept (i + length us) a b1 = Inr b2"
      "lag_member_parse (Suc (i + length us)) vs b2 = Inr b"
      using assms unfolding xs lag_member_create.parse_append by (auto split: sum.splits)
    show ?thesis
      by (rule lag_member_create.parse_invariant [where P = P, OF b(2) est [OF b(1)]]) (rule keep)
  qed
  show "SAI_LAG_MEMBER_ATTR_LAG_ID l \<in> set xs \<Longrightarrow> fst b \<noteq> None"
    by (rule gen [where P = "\<lambda>b. fst b \<noteq> None"])
      (auto simp: lag_member_accept_def split: prod.splits sai_lag_member_attr_t.splits)
  show "SAI_LAG_MEMBER_ATTR_PORT_ID p \<in> set xs \<Longrightarrow> fst (snd b) \<noteq> None"
    by (rule gen [where P = "\<lambda>b. fst (snd b) \<noteq> None"])
      (auto simp: lag_member_accept_def split: prod.splits sai_lag_member_attr_t.splits)
qed

text \<open>A second LAG id or port id in the list has no effect: a conflicting duplicate is
  neither rejected nor used, the status that the code sets for it is lost.\<close>

theorem lag_member_duplicate_ignored:
  assumes "(\<exists>l. d = SAI_LAG_MEMBER_ATTR_LAG_ID k \<and> SAI_LAG_MEMBER_ATTR_LAG_ID l \<in> set xs)
    \<or> (\<exists>p. d = SAI_LAG_MEMBER_ATTR_PORT_ID k \<and> SAI_LAG_MEMBER_ATTR_PORT_ID p \<in> set xs)"
  shows "sai_l2_create_lag_member E (xs @ d # ys) s w = sai_l2_create_lag_member E (xs @ ys) s w"
proof -
  have index: "lag_member_parse i zs acc = lag_member_parse j zs acc" for i j zs acc
    by (induction zs arbitrary: i j acc) (auto simp: lag_member_accept_def split: prod.splits sum.splits
        sai_lag_member_attr_t.splits)
  have "lag_member_parse 0 (xs @ d # ys) acc = lag_member_parse 0 (xs @ ys) acc" for acc
  proof (cases "lag_member_parse 0 xs acc")
    case (Inr b)
    obtain lo po ing egr where b: "b = (lo, po, ing, egr)" by (metis prod_cases4)
    have "lag_member_accept i d b = Inr b" for i
      using lag_member_parse_present [OF Inr] assms by (auto simp: b lag_member_accept_def)
    then show ?thesis
      using Inr index by (simp add: lag_member_create.parse_append)
  qed (simp add: lag_member_create.parse_append)
  then show ?thesis by (simp add: sai_l2_create_lag_member_def)
qed

theorem lag_member_duplicate_ignored_witness:
  "sai_l2_create_lag_member demo_lag
     ([SAI_LAG_MEMBER_ATTR_PORT_ID 259, SAI_LAG_MEMBER_ATTR_LAG_ID 260] @ SAI_LAG_MEMBER_ATTR_LAG_ID 516 # [])
     (demo_lag_none\<lparr>lag_cache := (lag_cache demo_lag_none)\<lparr>dl_created := {|260|}\<rparr>\<rparr>) 2
   = (SAI_STATUS_SUCCESS, Some 2, demo_lag_added, 3)"
  by (subst lag_member_duplicate_ignored) (auto simp: demo_lag_member_create)

text \<open>Taking a port out of its LAG always succeeds in the cache: when the plug-in refuses to
  take the port out, the call nevertheless reports success, the port is no member any more, and
  the other modules are told that it left.\<close>

theorem lag_member_remove_ignores_hardware:
  assumes info: "sai_lag_get_info_from_member_id E (lag_cache s) m = Inr (l, p)"
    and ready: "sai_is_port_valid E w p" "sai_is_lag_created E (lag_cache s) l"
      "sai_is_port_lag_member E (lag_cache s) l p"
    and refuse: "npu_remove_ports_from_lag E l [p] w = (e, w1)" and L: "lag_cache_laws E"
  shows "\<exists>s'. sai_l2_remove_lag_member E m s w
      = (SAI_STATUS_SUCCESS, s', sai_lag_notify_modules E s' l SAI_LAG_OPER_DEL_PORTS (Some [p]) w1)
    \<and> \<not> sai_is_port_lag_member E (lag_cache s') l p"
  using assms lag_cache_law(5) [OF L]
  by (simp add: sai_l2_remove_lag_member_def sai_l2_remove_lag_port_def Let_def)

theorem lag_member_remove_ignores_hardware_witness:
  "fst (npu_remove_ports_from_lag demo_lag 260 [259] 0) = SAI_STATUS_FAILURE
   \<and> fst (sai_l2_remove_lag_member demo_lag 1 demo_lag_one 0) = SAI_STATUS_SUCCESS"
proof -
  have "\<exists>s'. sai_l2_remove_lag_member demo_lag 1 demo_lag_one 0
      = (SAI_STATUS_SUCCESS, s', sai_lag_notify_modules demo_lag s' 260 SAI_LAG_OPER_DEL_PORTS (Some [259]) 0)
    \<and> \<not> sai_is_port_lag_member demo_lag (lag_cache s') 260 259"
    by (rule lag_member_remove_ignores_hardware [OF _ _ _ _ _ demo_lag_laws(1)])
      (simp_all add: demo_lag_one_def demo_port_valid_def)
  then show ?thesis by auto
qed

end
