(* ===== verification/Lag_Objects.thy ===== *)
theory Lag_Objects
  imports Lag_Claims
begin

text \<open>
  Properties of LAG objects: creation and removal, the disable flags, and the lock.
\<close>

section \<open>Creation and removal\<close>

text \<open>No attribute is accepted at the creation of a LAG, so a creation with attributes
  always fails; nothing of it stays in the cache.  All the same the other modules are notified
  of a new LAG, with the id that the plug-in has just released.\<close>

theorem lag_create_with_attributes_fails:
  assumes run: "sai_l2_create_lag E as s w = (rc, l, s', w')" and some: "as \<noteq> []"
    and hw: "npu_lag_create E w = (SAI_STATUS_SUCCESS, l, w1)"
    and fresh: "\<not> sai_is_lag_created E (lag_cache s) l" "\<And>p. \<not> sai_is_port_lag_member E (lag_cache s) l p"
    and indexed: "\<And>i. sai_get_indexed_ret_val E (SAI_STATUS_UNKNOWN_ATTRIBUTE 0) i \<noteq> SAI_STATUS_SUCCESS"
    and removable: "\<And>c. fst (sai_lag_node_remove E l c) = SAI_STATUS_SUCCESS" and L: "lag_cache_laws E"
  shows "rc \<noteq> SAI_STATUS_SUCCESS
    \<and> sai_is_lag_created E (lag_cache s') = sai_is_lag_created E (lag_cache s)
    \<and> sai_is_port_lag_member E (lag_cache s') = sai_is_port_lag_member E (lag_cache s)
    \<and> (\<exists>w2. w' = sai_lag_notify_modules E s' l SAI_LAG_OPER_CREATE None w2)"
proof -
  have "rc = lag_create_attrs E 0 as (fst (sai_lag_node_add E l (lag_cache s)))"
    using run hw by (auto simp: sai_l2_create_lag_def Let_def split: prod.splits if_splits)
  then have rc: "rc \<noteq> SAI_STATUS_SUCCESS" using lag_create_attrs_fails [OF indexed some] by simp
  obtain r c where a: "sai_lag_node_add E l (lag_cache s) = (r, c)" by (metis surj_pair)
  obtain c2 where d: "sai_lag_node_remove E l (sai_remove_all_lag_port_nodes E l c) = (SAI_STATUS_SUCCESS, c2)"
    using removable by (metis prod.collapse)
  have s': "s' = s\<lparr>lag_cache := c2\<rparr>"
    and n: "\<exists>w2. w' = sai_lag_notify_modules E s' l SAI_LAG_OPER_CREATE None w2"
    using run hw rc by (auto simp: sai_l2_create_lag_def Let_def a d split: prod.splits if_splits)
  note la = lag_node_add_law [OF L a] and ld = lag_node_remove_law [OF L d]
  have "sai_is_lag_created E c2 = sai_is_lag_created E (lag_cache s)"
    using la ld lag_cache_law(1) [OF L] fresh by (cases "r = SAI_STATUS_SUCCESS") (auto simp: fun_eq_iff)
  moreover have "sai_is_port_lag_member E c2 = sai_is_port_lag_member E (lag_cache s)"
    using la ld lag_cache_law(2) [OF L] fresh by (auto simp: fun_eq_iff)
  ultimately show ?thesis using s' n rc by simp
qed

theorem lag_create_with_attributes_fails_witness:
  "\<exists>rc s' w'. sai_l2_create_lag demo_lag [SAI_LAG_ATTR_INGRESS_ACL] demo_lag_none 1 = (rc, 260, s', w')
     \<and> rc \<noteq> SAI_STATUS_SUCCESS"
proof -
  obtain rc l s' w' where r: "sai_l2_create_lag demo_lag [SAI_LAG_ATTR_INGRESS_ACL] demo_lag_none 1 = (rc, l, s', w')"
    by (metis prod_cases4)
  have hw: "npu_lag_create demo_lag 1 = (SAI_STATUS_SUCCESS, 260, 2)" by (simp add: demo_uoid_def)
  have l: "l = 260" using r by (auto simp: sai_l2_create_lag_def Let_def demo_uoid_def)
  have "rc \<noteq> SAI_STATUS_SUCCESS"
    using lag_create_with_attributes_fails [OF r [unfolded l] _ hw _ _ _ _ demo_lag_laws(1)]
    by (simp add: demo_lag_none_def)
  with r l show ?thesis by auto
qed

text \<open>C28. Removing a LAG never takes one that is needed.  A removal that succeeds was of an
  existing LAG without members that no other object uses, and only that LAG is gone.  One that
  fails keeps every LAG and every member, unless the node of a memberless LAG cannot be put back
  after the plug-in refused: then the cache has lost the LAG.\<close>

theorem lag_remove_safe:
  assumes run: "sai_l2_remove_lag E l s w = (rc, s', w')" and L: "lag_cache_laws E"
  shows "sai_is_port_lag_member E (lag_cache s') = sai_is_port_lag_member E (lag_cache s) \<and>
    (if rc = SAI_STATUS_SUCCESS
     then sai_is_lag_created E (lag_cache s) l \<and> \<not> sai_is_lag_in_use E (lag_cache s) l
       \<and> (\<forall>p. \<not> sai_is_port_lag_member E (lag_cache s) l p)
       \<and> sai_is_lag_created E (lag_cache s') = (sai_is_lag_created E (lag_cache s))(l := False)
     else sai_is_lag_created E (lag_cache s') = sai_is_lag_created E (lag_cache s)
       \<or> (\<forall>p. \<not> sai_is_port_lag_member E (lag_cache s) l p)
         \<and> (\<exists>c. fst (sai_lag_node_add E l c) \<noteq> SAI_STATUS_SUCCESS)
         \<and> sai_is_lag_created E (lag_cache s') = (sai_is_lag_created E (lag_cache s))(l := False))"
  using run L
proof (cases rule: lag_remove_effect)
  case (lost c c1 r)
  then have "\<exists>c. fst (sai_lag_node_add E l c) \<noteq> SAI_STATUS_SUCCESS" by (intro exI [of _ c1]) simp
  with lost show ?thesis by auto
qed auto

lemma demo_ffilter_empty: "ffilter P {||} = {||}"
  by (auto simp: fset_eq_iff)

lemma demo_lag_remove:
  "\<exists>s'. sai_l2_remove_lag demo_lag 260 (demo_lag_none\<lparr>lag_cache := (lag_cache demo_lag_none)
     \<lparr>dl_created := {|260|}\<rparr>\<rparr>) 0 = (SAI_STATUS_SUCCESS, s', 0)"
  by (simp add: sai_l2_remove_lag_def Let_def demo_lag_none_def demo_ffilter_empty sai_lag_notify_modules_def upt_rec
      sai_lag_unlock_def sai_lag_lock_def)

theorem lag_remove_safe_witness:
  "\<exists>s'. sai_l2_remove_lag demo_lag 260 (demo_lag_none\<lparr>lag_cache := (lag_cache demo_lag_none)
     \<lparr>dl_created := {|260|}\<rparr>\<rparr>) 0 = (SAI_STATUS_SUCCESS, s', 0)
    \<and> \<not> sai_is_lag_created demo_lag (lag_cache s') 260"
proof -
  obtain s' where r: "sai_l2_remove_lag demo_lag 260 (demo_lag_none\<lparr>lag_cache := (lag_cache demo_lag_none)
     \<lparr>dl_created := {|260|}\<rparr>\<rparr>) 0 = (SAI_STATUS_SUCCESS, s', 0)" using demo_lag_remove by blast
  from lag_remove_safe [OF r demo_lag_laws(1)] have "\<not> sai_is_lag_created demo_lag (lag_cache s') 260"
    by (metis fun_upd_same)
  with r show ?thesis by blast
qed

section \<open>Flags\<close>

text \<open>A disable flag that was set is the flag that is read, and the other flag of the port
  is read as before; a flag that the plug-in refused is read as before.\<close>

theorem lag_flag_set_get:
  assumes set: "sai_l2_set_lag_member_attribute E m
        (if i then SAI_LAG_MEMBER_ATTR_INGRESS_DISABLE v else SAI_LAG_MEMBER_ATTR_EGRESS_DISABLE v) s w
      = (rc, s', w')"
    and info: "sai_lag_get_info_from_member_id E (lag_cache s) m = Inr (l, p)"
    and readable: "sai_lag_member_get_disable_status E (lag_cache s) l p True = (SAI_STATUS_SUCCESS, ing)"
      "sai_lag_member_get_disable_status E (lag_cache s) l p False = (SAI_STATUS_SUCCESS, egr)"
    and L: "lag_flag_laws E"
  shows "sai_l2_get_lag_member_attribute E m
      [SAI_LAG_MEMBER_ATTR_INGRESS_DISABLE x, SAI_LAG_MEMBER_ATTR_EGRESS_DISABLE y,
       SAI_LAG_MEMBER_ATTR_LAG_ID a, SAI_LAG_MEMBER_ATTR_PORT_ID b] s'
    = (SAI_STATUS_SUCCESS,
       [SAI_LAG_MEMBER_ATTR_INGRESS_DISABLE (if i \<and> rc = SAI_STATUS_SUCCESS then v else ing),
        SAI_LAG_MEMBER_ATTR_EGRESS_DISABLE (if \<not> i \<and> rc = SAI_STATUS_SUCCESS then v else egr),
        SAI_LAG_MEMBER_ATTR_LAG_ID l, SAI_LAG_MEMBER_ATTR_PORT_ID p], s')"
proof -
  obtain s1 where f: "sai_l2_lag_port_flag_set E l p i v (sai_lag_lock s) w = (rc, s1, w')"
    and s': "s' = sai_lag_unlock s1"
    using set info by (auto simp: sai_l2_set_lag_member_attribute_def Let_def split: prod.splits if_splits)
  note e = lag_flag_set_effect [OF f]
  have law: "sai_lag_member_get_disable_status E (sai_lag_member_set_disable_status E l p i v (lag_cache s)) l p
      = (sai_lag_member_get_disable_status E (lag_cache s) l p)(i := (SAI_STATUS_SUCCESS, v))"
    using readable by (intro lag_flag_law [OF L]) (cases i, simp_all)
  have "sai_lag_get_info_from_member_id E (lag_cache s') m = Inr (l, p)
    \<and> sai_lag_member_get_disable_status E (lag_cache s') l p True
        = (SAI_STATUS_SUCCESS, if i \<and> rc = SAI_STATUS_SUCCESS then v else ing)
    \<and> sai_lag_member_get_disable_status E (lag_cache s') l p False
        = (SAI_STATUS_SUCCESS, if \<not> i \<and> rc = SAI_STATUS_SUCCESS then v else egr)"
  proof (cases "rc = SAI_STATUS_SUCCESS")
    case True
    from e(4) [OF True] show ?thesis
    proof
      assume "s1 = sai_lag_lock s \<and> sai_lag_member_get_disable_status E (lag_cache (sai_lag_lock s)) l p i
          = (SAI_STATUS_SUCCESS, v)"
      then show ?thesis using s' True readable info by (cases i) auto
    next
      assume "s1 = sai_lag_lock s\<lparr>lag_cache := sai_lag_member_set_disable_status E l p i v (lag_cache (sai_lag_lock s))\<rparr>"
      then show ?thesis
        using s' True readable info law L unfolding lag_flag_laws_def by (cases i) simp_all
    qed
  next
    case False
    with e(2) s' readable info show ?thesis by simp
  qed
  then show ?thesis
    by (simp add: sai_l2_get_lag_member_attribute_def lag_member_answer_def Let_def)
qed

theorem lag_flag_set_get_witness:
  "\<exists>s'. sai_l2_get_lag_member_attribute demo_lag 1
      [SAI_LAG_MEMBER_ATTR_INGRESS_DISABLE False, SAI_LAG_MEMBER_ATTR_EGRESS_DISABLE False,
       SAI_LAG_MEMBER_ATTR_LAG_ID 0, SAI_LAG_MEMBER_ATTR_PORT_ID 0] s'
    = (SAI_STATUS_SUCCESS,
      [SAI_LAG_MEMBER_ATTR_INGRESS_DISABLE True, SAI_LAG_MEMBER_ATTR_EGRESS_DISABLE False,
       SAI_LAG_MEMBER_ATTR_LAG_ID 260, SAI_LAG_MEMBER_ATTR_PORT_ID 259], s')"
proof -
  obtain rc s' w' where r: "sai_l2_set_lag_member_attribute demo_lag 1
      (if True then SAI_LAG_MEMBER_ATTR_INGRESS_DISABLE True else SAI_LAG_MEMBER_ATTR_EGRESS_DISABLE True)
      demo_lag_one 0 = (rc, s', w')" by (metis prod_cases3)
  then have rc: "rc = SAI_STATUS_SUCCESS"
    by (auto simp: sai_l2_set_lag_member_attribute_def sai_l2_lag_port_flag_set_def demo_lag_one_def)
  have i: "sai_lag_get_info_from_member_id demo_lag (lag_cache demo_lag_one) 1 = Inr (260, 259)"
    and g: "sai_lag_member_get_disable_status demo_lag (lag_cache demo_lag_one) 260 259 k
       = (SAI_STATUS_SUCCESS, False)" for k
    by (simp_all add: demo_lag_one_def)
  from lag_flag_set_get [OF r i g g demo_lag_laws(2), of False False 0 0] rc show ?thesis by auto
qed

section \<open>The lock\<close>

text \<open>Every operation on LAGs releases the lock as often as it takes it, but for one: a get
  request for a LAG that does not exist releases a lock it never took.\<close>

theorem lag_lock_balance:
  assumes "lag_step E s t" and L: "lag_cache_laws E"
  shows "lag_lock_depth t = lag_lock_depth s \<or> t = sai_lag_unlock s
    \<and> (\<exists>l as rc as'. sai_l2_get_lag_attribute E l as s = (rc, as', t)
        \<and> \<not> sai_is_lag_created E (lag_cache s) l \<and> rc = SAI_STATUS_ITEM_NOT_FOUND)"
  using assms(1)
proof cases
  case (lstep_create as w rc l w')
  from lstep_create L show ?thesis by (cases rule: lag_create_effect) auto
next
  case (lstep_remove l w rc w')
  from lstep_remove L show ?thesis by (cases rule: lag_remove_effect) auto
next
  case (lstep_get l as rc as')
  then show ?thesis
    by (cases "sai_is_lag_created E (lag_cache s) l")
      (auto simp: sai_l2_get_lag_attribute_def Let_def split: if_splits prod.splits)
next
  case (lstep_member_create bs w rc out w')
  from lstep_member_create L show ?thesis by (cases rule: lag_member_create_effect) auto
next
  case (lstep_member_remove m w rc w')
  from lag_member_remove_effect [OF lstep_member_remove] show ?thesis by auto
next
  case (lstep_member_set m b w rc w')
  from lag_member_set_effect [OF lstep_member_set] lag_flag_set_frame(3) [OF _ L] show ?thesis
    by auto
qed (auto dest: lag_read_cache)

theorem lag_lock_balance_witness:
  "lag_lock_depth (sai_lag_unlock demo_lag_none) = -1
   \<and> \<not> sai_is_lag_created demo_lag (lag_cache demo_lag_none) 260"
proof -
  have g: "sai_l2_get_lag_attribute demo_lag 260 [] demo_lag_none
      = (SAI_STATUS_ITEM_NOT_FOUND, [], sai_lag_unlock demo_lag_none)"
    by (simp add: sai_l2_get_lag_attribute_def demo_lag_none_def)
  from lag_lock_balance [OF lstep_get [OF g] demo_lag_laws(1)]
  show ?thesis by (auto simp: demo_lag_none_def)
qed

end
