(* ===== verification/Fib_Radix.thy ===== *)
theory Fib_Radix
  imports Sai_Prelude "HOL-Library.Sublist" "HOL-Library.List_Lexorder"
begin

text \<open>
  The radix trees of \<open>std_radix.h\<close>, a library outside this repository.  A node is stored under
  the first \<open>key_len\<close> bits of its key, so a tree is a finite map from bit strings to nodes, and
  the handle is NULL or such a map.  Exact lookup, insertion and removal are those of
  \<open>rbtree_handle\<close>; this theory adds the three lookups that know about prefixes and order:

  \<^item> \<open>std_radix_getnext\<close>: the least key above a bit string, in the order of the bits;
  \<^item> \<open>std_radix_getbest\<close>: the longest key that is a prefix of a bit string;
  \<^item> \<open>std_radix_getlessspecific\<close>: the longest key that is a proper prefix of one.
\<close>

type_synonym std_rt_key = "bool list"
type_synonym 'v std_rt_table = "(std_rt_key, 'v) rbtree_handle"

section \<open>Lookups by order and by prefix\<close>

definition std_radix_getnext :: "'v std_rt_table \<Rightarrow> std_rt_key \<Rightarrow> 'v option" where
  "std_radix_getnext t k =
    (case filter (\<lambda>k'. k < k') (rb_keys t) of [] \<Rightarrow> None | k' # _ \<Rightarrow> rb_getexact t k')"

text \<open>The keys of the tree among the prefixes of a bit string, the longest first.\<close>

definition radix_prefix_keys :: "'v std_rt_table \<Rightarrow> std_rt_key \<Rightarrow> std_rt_key list" where
  "radix_prefix_keys t k = filter (\<lambda>p. rb_getexact t p \<noteq> None) (rev (prefixes k))"

definition radix_best_key :: "'v std_rt_table \<Rightarrow> std_rt_key \<Rightarrow> std_rt_key option" where
  "radix_best_key t k = (case radix_prefix_keys t k of [] \<Rightarrow> None | p # _ \<Rightarrow> Some p)"

definition std_radix_getbest :: "'v std_rt_table \<Rightarrow> std_rt_key \<Rightarrow> 'v option" where
  "std_radix_getbest t k = Option.bind (radix_best_key t k) (rb_getexact t)"

definition radix_less_specific_key :: "'v std_rt_table \<Rightarrow> std_rt_key \<Rightarrow> std_rt_key option" where
  "radix_less_specific_key t k = (if k = [] then None else radix_best_key t (butlast k))"

definition std_radix_getlessspecific :: "'v std_rt_table \<Rightarrow> std_rt_key \<Rightarrow> 'v option" where
  "std_radix_getlessspecific t k = Option.bind (radix_less_specific_key t k) (rb_getexact t)"

section \<open>What the lookups find\<close>

lemma set_radix_prefix_keys:
  "set (radix_prefix_keys t k) = {p. prefix p k \<and> rb_getexact t p \<noteq> None}"
  by (auto simp: radix_prefix_keys_def)

lemma prefixes_length_sorted: "sorted_wrt (\<lambda>p q. length p < length q) (prefixes k)"
  by (induction k) (auto simp: sorted_wrt_map)

lemma radix_prefix_keys_sorted: "sorted_wrt (\<lambda>p q. length q < length p) (radix_prefix_keys t k)"
  unfolding radix_prefix_keys_def
  by (intro sorted_wrt_filter) (simp add: sorted_wrt_rev prefixes_length_sorted)

lemma radix_best_key_Some:
  "radix_best_key t k = Some p \<longleftrightarrow> prefix p k \<and> rb_getexact t p \<noteq> None
     \<and> (\<forall>q. prefix q k \<longrightarrow> rb_getexact t q \<noteq> None \<longrightarrow> prefix q p)" (is "?L \<longleftrightarrow> ?R")
proof
  assume ?L
  then obtain ps where ps: "radix_prefix_keys t k = p # ps"
    by (auto simp: radix_best_key_def split: list.splits)
  have p: "prefix p k \<and> rb_getexact t p \<noteq> None"
    using set_radix_prefix_keys [of t k] ps by auto
  moreover have "prefix q p" if "prefix q k" "rb_getexact t q \<noteq> None" for q
  proof -
    have "q \<in> set (p # ps)" using that set_radix_prefix_keys [of t k] ps by auto
    then have "length q \<le> length p"
      using radix_prefix_keys_sorted [of t k] ps by auto
    with that p show ?thesis by (meson prefix_length_prefix)
  qed
  ultimately show ?R by blast
next
  assume R: ?R
  then have "p \<in> set (radix_prefix_keys t k)" by (simp add: set_radix_prefix_keys)
  then obtain q qs where ps: "radix_prefix_keys t k = q # qs" by (cases "radix_prefix_keys t k") auto
  then have "prefix q k \<and> rb_getexact t q \<noteq> None"
    using set_radix_prefix_keys [of t k] by auto
  with R have "length q \<le> length p" by (simp add: prefix_length_le)
  moreover have "p = q \<or> length p < length q"
    using \<open>p \<in> _\<close> radix_prefix_keys_sorted [of t k] ps by auto
  ultimately show ?L using ps by (auto simp: radix_best_key_def)
qed

lemma radix_best_key_None:
  "radix_best_key t k = None \<longleftrightarrow> (\<forall>p. prefix p k \<longrightarrow> rb_getexact t p = None)"
proof -
  have "radix_best_key t k = None \<longleftrightarrow> set (radix_prefix_keys t k) = {}"
    by (auto simp: radix_best_key_def split: list.splits)
  then show ?thesis by (auto simp: set_radix_prefix_keys)
qed

lemma std_radix_getbest_Some:
  "std_radix_getbest t k = Some a \<longleftrightarrow> (\<exists>p. radix_best_key t k = Some p \<and> rb_getexact t p = Some a)"
  by (auto simp: std_radix_getbest_def bind_eq_Some_conv)

lemma std_radix_getbest_None: "std_radix_getbest t k = None \<longleftrightarrow> radix_best_key t k = None"
proof (cases "radix_best_key t k")
  case (Some p)
  then have "rb_getexact t p \<noteq> None" by (simp add: radix_best_key_Some)
  with Some show ?thesis by (auto simp: std_radix_getbest_def)
qed (simp add: std_radix_getbest_def)

lemma radix_less_specific_Some:
  "radix_less_specific_key t k = Some p \<longleftrightarrow> strict_prefix p k \<and> rb_getexact t p \<noteq> None
     \<and> (\<forall>q. strict_prefix q k \<longrightarrow> rb_getexact t q \<noteq> None \<longrightarrow> prefix q p)"
proof (cases k rule: rev_cases)
  case Nil
  then show ?thesis by (simp add: radix_less_specific_key_def)
next
  case (snoc ys y)
  have "prefix p ys \<longleftrightarrow> strict_prefix p k" for p
    by (auto simp: snoc strict_prefix_def)
  then show ?thesis by (simp add: snoc radix_less_specific_key_def radix_best_key_Some)
qed

lemma radix_less_specific_shorter:
  "radix_less_specific_key t k = Some p \<Longrightarrow> length p < length k"
  by (auto simp: radix_less_specific_Some dest: prefix_length_less)

lemma radix_getnext_None:
  "std_radix_getnext t k = None \<longleftrightarrow> (\<forall>k'. k < k' \<longrightarrow> rb_getexact t k' = None)"
proof -
  let ?ks = "filter (\<lambda>k'. k < k') (rb_keys t)"
  have m: "q \<in> set ?ks \<longleftrightarrow> k < q \<and> rb_getexact t q \<noteq> None" for q
    unfolding set_filter set_rb_keys by blast
  show ?thesis
  proof (cases ?ks)
    case Nil
    then have "std_radix_getnext t k = None" by (simp add: std_radix_getnext_def)
    with m Nil show ?thesis by (metis empty_iff empty_set)
  next
    case (Cons q qs)
    then have "std_radix_getnext t k = rb_getexact t q" by (simp add: std_radix_getnext_def)
    with m Cons show ?thesis by (metis list.set_intros(1))
  qed
qed

section \<open>The effect of an insertion and a removal on the best match\<close>

lemma radix_best_key_put:
  assumes "h \<noteq> None" and "radix_best_key h k = Some p"
  shows "radix_best_key (rb_put h q v) k = Some (if prefix q k \<and> prefix p q then q else p)"
proof -
  from assms(2) have p: "prefix p k" "rb_getexact h p \<noteq> None"
    and best: "\<And>q. prefix q k \<Longrightarrow> rb_getexact h q \<noteq> None \<Longrightarrow> prefix q p"
    unfolding radix_best_key_Some by blast+
  have mem: "rb_getexact (rb_put h q v) r \<noteq> None \<longleftrightarrow> r = q \<or> rb_getexact h r \<noteq> None" for r
    using assms(1) by simp
  show ?thesis
  proof (cases "prefix q k \<and> prefix p q")
    case True
    have "prefix r q" if "prefix r k" "r = q \<or> rb_getexact h r \<noteq> None" for r
      using that best True by (meson prefix_order.order_trans prefix_order.order_refl)
    with True show ?thesis unfolding radix_best_key_Some mem by simp
  next
    case False
    have "prefix r p" if "prefix r k" "r = q \<or> rb_getexact h r \<noteq> None" for r
      using that best False p(1) by (meson prefix_same_cases)
    with p have "radix_best_key (rb_put h q v) k = Some p"
      unfolding radix_best_key_Some mem by blast
    with False show ?thesis by auto
  qed
qed

lemma radix_best_key_remove:
  assumes "radix_best_key h k = Some p" and "p \<noteq> q"
  shows "radix_best_key (rb_remove h q) k = Some p"
  using assms unfolding radix_best_key_Some by (auto split: if_splits)

end
