(* ===== verification/Fib_Model.thy ===== *)
theory Fib_Model
  imports Fib_Radix
begin

unbundle bit_operations_syntax

text \<open>
  The data of the routing component (\<open>src/routing\<close>): virtual routers, route nodes, next hops and
  next hop groups, and the memory they live in.

  Route nodes, next hops and groups are reached by pointers from several places, so they live in
  stores from addresses to nodes, NULL is \<open>None\<close>, and writing through a pointer is an update of
  the store.  A virtual router is only ever reached by its id through \<open>vrf_tree\<close>, its node is the
  value in that tree.  \<open>fib_fault\<close> is a ghost flag: it is set when the code reads or writes
  through a pointer to no node (NULL or freed), frees a node twice, unlinks a node from a list
  that does not hold it, or fails an assertion; C leaves what happens then undefined.

  The declarations of these structures, and the accessors \<open>sai_fib_next_hop_ip_addr\<close>,
  \<open>sai_fib_is_tunnel_encap_next_hop\<close>, \<open>sai_fib_get_first_...\<close> on them, are in a header outside this
  repository; the records have the fields that the sources read or write.
\<close>

section \<open>Addresses, prefixes and keys\<close>

text \<open>The unions of the SAI header are records with both arms; the code reads the one that the
  family selects.\<close>

record sai_ip_prefix_t =
  pfx_addr_family :: sai_ip_addr_family_t
  pfx_ip4 :: "32 word"
  pfx_ip6 :: "128 word"
  mask_ip4 :: "32 word"
  mask_ip6 :: "128 word"

record sai_route_entry_t =
  vr_id :: sai_object_id_t
  destination :: sai_ip_prefix_t

text \<open>A key is the memory of an address: 32 bits of family and then the bits of the address in
  network order, zero up to the size of the structure.\<close>

fun family_code :: "sai_ip_addr_family_t \<Rightarrow> uint32_t" where
  "family_code SAI_IP_ADDR_FAMILY_IPV4 = 0"
| "family_code SAI_IP_ADDR_FAMILY_IPV6 = 1"
| "family_code (SAI_IP_ADDR_FAMILY_OTHER n) = of_nat (n + 2)"

definition word_bits :: "'a::len word \<Rightarrow> bool list" where
  "word_bits v = map (bit v) (rev [0..<LENGTH('a)])"

definition addr_bits :: "sai_ip_address_t \<Rightarrow> bool list" where
  "addr_bits a = (case addr_family a of
       SAI_IP_ADDR_FAMILY_IPV4 \<Rightarrow> word_bits (addr_ip4 a) @ replicate 96 False
     | SAI_IP_ADDR_FAMILY_IPV6 \<Rightarrow> word_bits (addr_ip6 a)
     | SAI_IP_ADDR_FAMILY_OTHER _ \<Rightarrow> replicate 128 False)"

definition sai_fib_route_key_len_get :: "nat \<Rightarrow> nat" where
  "sai_fib_route_key_len_get prefix_len = 32 + prefix_len"

definition ip_key :: "sai_ip_address_t \<Rightarrow> nat \<Rightarrow> std_rt_key" where
  \<comment> \<open>the first \<open>key_len\<close> bits of an address\<close>
  "ip_key a key_len = take key_len (word_bits (family_code (addr_family a)) @ addr_bits a)"

section \<open>Nodes\<close>

type_synonym addr = nat

datatype sai_packet_action_t =
    SAI_PACKET_ACTION_DROP
  | SAI_PACKET_ACTION_FORWARD
  | SAI_PACKET_ACTION_TRAP
  | SAI_PACKET_ACTION_LOG
  | SAI_PACKET_ACTION_OTHER int

datatype sai_fib_route_nh_type_t =
    SAI_FIB_ROUTE_NH_TYPE_NONE
  | ROUTE_NH_TYPE_NEXT_HOP
  | ROUTE_NH_TYPE_NEXT_HOP_GROUP

text \<open>\<open>nh_info\<close> is a union of two pointers, which \<open>nh_type\<close> tells apart.  \<open>hw_info\<close> belongs to the
  plug-in; the code only compares it with NULL.\<close>

record sai_fib_route_t =
  rt_vrf_id :: sai_object_id_t
  rt_prefix :: sai_ip_address_t
  prefix_len :: nat
  nh_type :: sai_fib_route_nh_type_t
  nh_info :: "addr option"
  packet_action :: sai_packet_action_t
  trap_priority :: "8 word"
  meta_data :: uint32_t
  hw_info :: "nat option"
  rt_dep_encap_nh_list :: "addr list"

text \<open>A weighted link node is the node it points to and its weight; a next hop links its groups, a
  group its next hops.\<close>

type_synonym sai_fib_wt_link_node_t = "addr \<times> uint32_t"

datatype sai_next_hop_group_type_t =
    SAI_NEXT_HOP_GROUP_TYPE_ECMP
  | SAI_NEXT_HOP_GROUP_TYPE_OTHER int

record sai_fib_nh_t =
  next_hop_id :: sai_object_id_t
  is_tunnel_encap :: bool
  nh_ip_addr :: sai_ip_address_t
  ref_count :: uint32_t
  nh_group_list :: "sai_fib_wt_link_node_t list"
  nh_packet_action :: sai_packet_action_t
  neighbor :: "addr option"
  lpm_route :: "addr option"
  nh_dep_encap_nh_list :: "addr list"
  dep_route_list :: "addr list"

record sai_fib_nh_group_t =
  group_id :: sai_object_id_t
  grp_type :: sai_next_hop_group_type_t
  nh_count :: uint32_t
  grp_ref_count :: uint32_t
  grp_nh_links :: "sai_fib_wt_link_node_t list"
  grp_dep_encap_nh_list :: "addr list"

definition grp_nh_list :: "sai_fib_nh_group_t \<Rightarrow> addr list" where
  \<comment> \<open>the next hops of a group, in the order of the links\<close>
  "grp_nh_list g = map fst (grp_nh_links g)"

record sai_fib_vrf_t =
  vrf_id :: sai_object_id_t
  src_mac :: "48 word"
  v4_admin_state :: bool
  v6_admin_state :: bool
  ip_options_pkt_action :: sai_packet_action_t
  ttl0_1_pkt_action :: sai_packet_action_t
  num_rif :: uint32_t
  rif_dll_head :: "sai_object_id_t list"
  sai_nh_tree :: "addr std_rt_table"
  sai_route_tree :: "addr std_rt_table"

record fib_state =
  vrf_tree :: "(sai_object_id_t, sai_fib_vrf_t) rbtree_handle"
  route_mem :: "(addr, sai_fib_route_t) fmap"
  nh_mem :: "addr \<Rightarrow> sai_fib_nh_t option"
  grp_mem :: "addr \<Rightarrow> sai_fib_nh_group_t option"
  nh_id_tree :: "sai_object_id_t \<Rightarrow> addr option"
  nh_group_tree :: "sai_object_id_t \<Rightarrow> addr option"
  num_virtual_routers :: uint32_t
  max_ecmp_paths :: uint32_t
  fib_lock_depth :: int
  fib_fault :: bool

section \<open>Attributes\<close>

datatype sai_virtual_router_attr_t =
    SAI_VIRTUAL_ROUTER_ATTR_SRC_MAC_ADDRESS "48 word"
  | SAI_VIRTUAL_ROUTER_ATTR_ADMIN_V4_STATE bool
  | SAI_VIRTUAL_ROUTER_ATTR_ADMIN_V6_STATE bool
  | SAI_VIRTUAL_ROUTER_ATTR_VIOLATION_TTL1_PACKET_ACTION sai_packet_action_t
  | SAI_VIRTUAL_ROUTER_ATTR_VIOLATION_IP_OPTIONS_PACKET_ACTION sai_packet_action_t
  | SAI_VIRTUAL_ROUTER_ATTR_UNKNOWN_L3_MULTICAST_PACKET_ACTION sai_packet_action_t
  | SAI_VIRTUAL_ROUTER_ATTR_UNKNOWN nat

text \<open>The bits of \<open>attr_flags\<close>.\<close>

datatype sai_fib_vrf_attr_flag =
    SAI_FIB_SRC_MAC_ATTR_FLAG
  | SAI_FIB_V4_ADMIN_STATE_ATTR_FLAG
  | SAI_FIB_V6_ADMIN_STATE_ATTR_FLAG
  | SAI_FIB_TTL_VIOLATION_ATTR_FLAG
  | SAI_FIB_IP_OPTIONS_ATTR_FLAG

datatype sai_route_entry_attr_t =
    SAI_ROUTE_ENTRY_ATTR_NEXT_HOP_ID sai_object_id_t
  | SAI_ROUTE_ENTRY_ATTR_PACKET_ACTION sai_packet_action_t
  | SAI_ROUTE_ENTRY_ATTR_TRAP_PRIORITY "8 word"
  | SAI_ROUTE_ENTRY_ATTR_META_DATA uint32_t
  | SAI_ROUTE_ENTRY_ATTR_UNKNOWN nat

definition SAI_FIB_VRF_MAX_ATTR_COUNT :: nat where
  "SAI_FIB_VRF_MAX_ATTR_COUNT = 5"

definition SAI_FIB_ROUTE_MAX_ATTR_COUNT :: nat where
  "SAI_FIB_ROUTE_MAX_ATTR_COUNT = 4"

definition SAI_FIB_ROUTE_DFLT_PKT_ACTION :: sai_packet_action_t where
  "SAI_FIB_ROUTE_DFLT_PKT_ACTION = SAI_PACKET_ACTION_FORWARD"

definition SAI_FIB_ROUTE_DFLT_TRAP_PRIO :: "8 word" where
  "SAI_FIB_ROUTE_DFLT_TRAP_PRIO = 0"

section \<open>The environment\<close>

text \<open>
  The plug-in, the allocator and the helpers of the libraries outside this repository.  The
  route functions of the plug-in take the route by pointer and own its \<open>hw_info\<close>, so they return
  it.  \<open>route_node_alloc\<close> is told which addresses are in use.
\<close>

record 'w fib_env = "'w platform" +
  sai_object_type_query :: "sai_object_id_t \<Rightarrow> sai_object_type_t"
  sai_packet_action_validate :: "sai_packet_action_t \<Rightarrow> bool"
  sai_fib_attr_status_code_get :: "sai_status_t \<Rightarrow> nat \<Rightarrow> sai_status_t"
  sai_fib_is_mac_address_zero :: "48 word \<Rightarrow> bool"
  sai_fib_is_ip_addr_zero :: "sai_ip_address_t \<Rightarrow> bool"
  sai_fib_ip_addr_family_len_get :: "sai_ip_address_t \<Rightarrow> nat"
  sai_fib_ip_prefix_mask_get :: "sai_ip_address_t \<Rightarrow> nat \<Rightarrow> sai_ip_address_t"
  sai_fib_is_ip_addr_in_prefix ::
    "sai_ip_address_t \<Rightarrow> sai_ip_address_t \<Rightarrow> sai_ip_address_t \<Rightarrow> bool"
  std_ip_v4_mask_to_prefix_len :: "32 word \<Rightarrow> nat"
  std_ip_v6_mask_to_prefix_len :: "128 word \<Rightarrow> nat"
  SAI_FIB_NH_IP_ADDR_TREE_KEY_LEN :: nat
  sai_switch_mac_address_get :: "'w \<Rightarrow> 48 word"
  SAI_FIB_V4_ADMIN_STATE_DFLT :: bool
  SAI_FIB_V6_ADMIN_STATE_DFLT :: bool
  SAI_FIB_IP_OPT_PKT_ACTION_DFLT :: sai_packet_action_t
  SAI_FIB_TTL_VIOLATION_PKT_ACTION_DFLT :: sai_packet_action_t
  std_radix_create_ok :: "'w \<Rightarrow> bool \<times> 'w"
  std_radix_insert_ok :: "'w \<Rightarrow> bool \<times> 'w"
  std_radical_appendtochangelist :: "sai_object_id_t \<Rightarrow> addr \<Rightarrow> 'w \<Rightarrow> 'w"
  encap_nh_route_walker_write :: "'w \<Rightarrow> 'w"
  route_node_alloc :: "addr fset \<Rightarrow> 'w \<Rightarrow> addr option \<times> 'w"
  npu_vr_create :: "sai_fib_vrf_t \<Rightarrow> 'w \<Rightarrow> sai_status_t \<times> sai_npu_object_id_t \<times> 'w"
  npu_vr_remove :: "sai_fib_vrf_t \<Rightarrow> 'w \<Rightarrow> sai_status_t \<times> 'w"
  npu_vr_attr_validate :: "sai_virtual_router_attr_t \<Rightarrow> 'w \<Rightarrow> sai_status_t"
  npu_vr_attr_set ::
    "sai_fib_vrf_t \<Rightarrow> sai_fib_vrf_attr_flag set \<Rightarrow> 'w \<Rightarrow> sai_status_t \<times> 'w"
  npu_vr_attr_get ::
    "sai_fib_vrf_t \<Rightarrow> sai_virtual_router_attr_t list \<Rightarrow> 'w
       \<Rightarrow> sai_status_t \<times> sai_virtual_router_attr_t list"
  npu_ecmp_max_paths_set :: "uint32_t \<Rightarrow> 'w \<Rightarrow> sai_status_t \<times> 'w"
  npu_route_create :: "sai_fib_route_t \<Rightarrow> 'w \<Rightarrow> sai_status_t \<times> nat option \<times> 'w"
  npu_route_remove :: "sai_fib_route_t \<Rightarrow> 'w \<Rightarrow> sai_status_t \<times> nat option \<times> 'w"
  npu_route_attr_set ::
    "sai_fib_route_t \<Rightarrow> sai_route_entry_attr_t \<Rightarrow> 'w \<Rightarrow> sai_status_t \<times> nat option \<times> 'w"
  npu_route_attr_get ::
    "sai_fib_route_t \<Rightarrow> sai_route_entry_attr_t list \<Rightarrow> 'w
       \<Rightarrow> sai_status_t \<times> sai_route_entry_attr_t list"
  npu_encap_nh_route_resolve :: "sai_fib_nh_t \<Rightarrow> sai_fib_route_t \<Rightarrow> 'w \<Rightarrow> sai_status_t \<times> 'w"
  npu_get_route_meta_range :: "'w \<Rightarrow> sai_status_t \<times> uint32_t \<times> uint32_t"

section \<open>Locks, faults and stores\<close>

definition sai_fib_lock :: "fib_state \<Rightarrow> fib_state" where
  "sai_fib_lock s = s\<lparr>fib_lock_depth := fib_lock_depth s + 1\<rparr>"

definition sai_fib_unlock :: "fib_state \<Rightarrow> fib_state" where
  "sai_fib_unlock s = s\<lparr>fib_lock_depth := fib_lock_depth s - 1\<rparr>"

definition fib_crash :: "fib_state \<Rightarrow> fib_state" where
  "fib_crash s = s\<lparr>fib_fault := True\<rparr>"

definition route_write :: "addr \<Rightarrow> (sai_fib_route_t \<Rightarrow> sai_fib_route_t) \<Rightarrow> fib_state \<Rightarrow> fib_state" where
  "route_write a f s = (case fmlookup (route_mem s) a of
       None \<Rightarrow> fib_crash s
     | Some r \<Rightarrow> s\<lparr>route_mem := fmupd a (f r) (route_mem s)\<rparr>)"

definition nh_write :: "addr \<Rightarrow> (sai_fib_nh_t \<Rightarrow> sai_fib_nh_t) \<Rightarrow> fib_state \<Rightarrow> fib_state" where
  "nh_write a f s = (case nh_mem s a of
       None \<Rightarrow> fib_crash s
     | Some n \<Rightarrow> s\<lparr>nh_mem := (nh_mem s)(a \<mapsto> f n)\<rparr>)"

definition grp_write :: "addr \<Rightarrow> (sai_fib_nh_group_t \<Rightarrow> sai_fib_nh_group_t) \<Rightarrow> fib_state \<Rightarrow> fib_state" where
  "grp_write a f s = (case grp_mem s a of
       None \<Rightarrow> fib_crash s
     | Some g \<Rightarrow> s\<lparr>grp_mem := (grp_mem s)(a \<mapsto> f g)\<rparr>)"

text \<open>Freeing a node that is not allocated is a double free.\<close>

definition sai_fib_route_node_free :: "addr \<Rightarrow> fib_state \<Rightarrow> fib_state" where
  "sai_fib_route_node_free a s =
    (if fmlookup (route_mem s) a = None then fib_crash s
     else s\<lparr>route_mem := fmdrop a (route_mem s)\<rparr>)"

definition vrf_write :: "sai_fib_vrf_t \<Rightarrow> fib_state \<Rightarrow> fib_state" where
  "vrf_write v s = s\<lparr>vrf_tree := rb_put (vrf_tree s) (vrf_id v) v\<rparr>"

text \<open>\<open>std_radix_insert\<close> returns NULL when it has no memory, and the node that is already there
  when the key is taken.\<close>

definition std_radix_insert ::
  "('w, 'z) fib_env_scheme \<Rightarrow> 'v std_rt_table \<Rightarrow> std_rt_key \<Rightarrow> 'v \<Rightarrow> 'w
     \<Rightarrow> 'v option \<times> 'v std_rt_table \<times> 'w" where
  "std_radix_insert E t k v w =
    (case rb_getexact t k of
       Some v' \<Rightarrow> (Some v', t, w)
     | None \<Rightarrow> let (ok, w) = std_radix_insert_ok E w in
         if ok then (Some v, rb_put t k v, w) else (None, t, w))"

end
