(* ===== verification/Fib_Encap.thy ===== *)
theory Fib_Encap
  imports Fib_Model
begin

text \<open>
  Tunnel encap next hops and the routes under them, \<open>src/routing/sai_l3_encap_next_hop.c\<close>.

  An encap next hop whose address is not that of a neighbor is resolved over the best matching
  route of the underlay router (\<open>lpm_route\<close>), is in the list of that route's dependents, and in
  the lists of the next hop or the group that the route forwards to.  The functions here are the
  ones the route calls use to keep this up when a route appears, changes or goes.  Resolving over
  a neighbor and the thread that walks the changed routes are not in this theory.
\<close>

section \<open>Dependents of a next hop, a group and a route\<close>

definition sai_fib_encap_next_hop_find_in_underlay_nh :: "addr \<Rightarrow> sai_fib_nh_t \<Rightarrow> bool" where
  "sai_fib_encap_next_hop_find_in_underlay_nh e n \<longleftrightarrow> e \<in> set (nh_dep_encap_nh_list n)"

definition sai_fib_encap_next_hop_add_to_underlay_nh ::
  "('w, 'z) fib_env_scheme \<Rightarrow> addr \<Rightarrow> addr \<Rightarrow> fib_state \<Rightarrow> 'w \<Rightarrow> sai_status_t \<times> fib_state \<times> 'w" where
  "sai_fib_encap_next_hop_add_to_underlay_nh E e u s w =
    (case nh_mem s u of
       None \<Rightarrow> (SAI_STATUS_FAILURE, fib_crash s, w)
     | Some n \<Rightarrow>
       if sai_fib_encap_next_hop_find_in_underlay_nh e n then (SAI_STATUS_SUCCESS, s, w)
       else let (ok, w) = calloc_ok E w in
         if \<not> ok then (SAI_STATUS_NO_MEMORY, s, w)
         else (SAI_STATUS_SUCCESS,
               nh_write u (\<lambda>n. n\<lparr>nh_dep_encap_nh_list := nh_dep_encap_nh_list n @ [e]\<rparr>) s, w))"

definition sai_fib_encap_next_hop_remove_from_underlay_nh ::
  "addr \<Rightarrow> addr \<Rightarrow> fib_state \<Rightarrow> fib_state" where
  "sai_fib_encap_next_hop_remove_from_underlay_nh e u s =
    (case nh_mem s u of
       None \<Rightarrow> fib_crash s
     | Some n \<Rightarrow>
       if sai_fib_encap_next_hop_find_in_underlay_nh e n
       then nh_write u (\<lambda>n. n\<lparr>nh_dep_encap_nh_list := remove1 e (nh_dep_encap_nh_list n)\<rparr>) s
       else s)"

text \<open>The status of a group is that of its last member.\<close>

fun underlay_nhg_add_loop ::
  "('w, 'z) fib_env_scheme \<Rightarrow> addr \<Rightarrow> addr list \<Rightarrow> sai_status_t \<Rightarrow> fib_state \<Rightarrow> 'w
     \<Rightarrow> sai_status_t \<times> fib_state \<times> 'w" where
  "underlay_nhg_add_loop E e [] status s w = (status, s, w)"
| "underlay_nhg_add_loop E e (u # us) status s w =
    (let (status, s, w) = sai_fib_encap_next_hop_add_to_underlay_nh E e u s w
     in underlay_nhg_add_loop E e us status s w)"

text \<open>A next hop has one link for the list of a group, \<open>underlay_nhg_link\<close>, embedded in its node: linking
  it while it is in the list of some group, this one or another, overwrites its pointers and corrupts
  that list, which counts as a fault.\<close>

definition underlay_nhg_linked :: "addr \<Rightarrow> fib_state \<Rightarrow> bool" where
  "underlay_nhg_linked e s \<longleftrightarrow> (\<exists>h gr. grp_mem s h = Some gr \<and> e \<in> set (grp_dep_encap_nh_list gr))"

definition sai_fib_encap_next_hop_add_to_underlay_nhg ::
  "('w, 'z) fib_env_scheme \<Rightarrow> addr \<Rightarrow> addr \<Rightarrow> fib_state \<Rightarrow> 'w \<Rightarrow> sai_status_t \<times> fib_state \<times> 'w" where
  "sai_fib_encap_next_hop_add_to_underlay_nhg E e g s w =
    (case grp_mem s g of
       None \<Rightarrow> (SAI_STATUS_FAILURE, fib_crash s, w)
     | Some grp \<Rightarrow>
       let s = (if underlay_nhg_linked e s then fib_crash s else s);
           s = grp_write g (\<lambda>gr. gr\<lparr>grp_dep_encap_nh_list := grp_dep_encap_nh_list gr @ [e]\<rparr>) s
       in underlay_nhg_add_loop E e (grp_nh_list grp) SAI_STATUS_SUCCESS s w)"

text \<open>Unlinking a next hop that is not linked to the group follows wild pointers.\<close>

definition sai_fib_encap_next_hop_remove_from_underlay_nhg ::
  "addr \<Rightarrow> addr \<Rightarrow> fib_state \<Rightarrow> fib_state" where
  "sai_fib_encap_next_hop_remove_from_underlay_nhg e g s =
    (case grp_mem s g of
       None \<Rightarrow> fib_crash s
     | Some grp \<Rightarrow>
       let s = (if e \<in> set (grp_dep_encap_nh_list grp)
                then grp_write g (\<lambda>gr. gr\<lparr>grp_dep_encap_nh_list :=
                       remove1 e (grp_dep_encap_nh_list gr)\<rparr>) s
                else fib_crash s)
       in fold (sai_fib_encap_next_hop_remove_from_underlay_nh e) (grp_nh_list grp) s)"

definition sai_fib_encap_next_hop_add_to_underlay_route_nh ::
  "('w, 'z) fib_env_scheme \<Rightarrow> addr \<Rightarrow> sai_fib_route_t \<Rightarrow> fib_state \<Rightarrow> 'w
     \<Rightarrow> sai_status_t \<times> fib_state \<times> 'w" where
  "sai_fib_encap_next_hop_add_to_underlay_route_nh E e r s w =
    (if packet_action r \<noteq> SAI_PACKET_ACTION_FORWARD \<and> packet_action r \<noteq> SAI_PACKET_ACTION_LOG
     then (SAI_STATUS_SUCCESS, s, w)
     else if nh_type r = ROUTE_NH_TYPE_NEXT_HOP_GROUP
     then (case nh_info r of
             None \<Rightarrow> (SAI_STATUS_FAILURE, fib_crash s, w)
           | Some g \<Rightarrow> sai_fib_encap_next_hop_add_to_underlay_nhg E e g s w)
     else if nh_type r = ROUTE_NH_TYPE_NEXT_HOP
     then (case nh_info r of
             None \<Rightarrow> (SAI_STATUS_FAILURE, fib_crash s, w)
           | Some u \<Rightarrow> sai_fib_encap_next_hop_add_to_underlay_nh E e u s w)
     else (SAI_STATUS_SUCCESS, s, w))"

definition sai_fib_encap_next_hop_remove_from_underlay_route_nh ::
  "addr \<Rightarrow> sai_fib_route_t \<Rightarrow> fib_state \<Rightarrow> fib_state" where
  "sai_fib_encap_next_hop_remove_from_underlay_route_nh e r s =
    (if packet_action r \<noteq> SAI_PACKET_ACTION_FORWARD \<and> packet_action r \<noteq> SAI_PACKET_ACTION_LOG
     then s
     else if nh_type r = ROUTE_NH_TYPE_NEXT_HOP_GROUP
     then (case nh_info r of
             None \<Rightarrow> fib_crash s
           | Some g \<Rightarrow> sai_fib_encap_next_hop_remove_from_underlay_nhg e g s)
     else if nh_type r = ROUTE_NH_TYPE_NEXT_HOP
     then (case nh_info r of
             None \<Rightarrow> fib_crash s
           | Some u \<Rightarrow> sai_fib_encap_next_hop_remove_from_underlay_nh e u s)
     else s)"

text \<open>\<open>std_dll_remove\<close> on the list of a route's dependents, with the wild pointers of an entry
  that is not linked.\<close>

definition route_dep_encap_nh_remove :: "addr \<Rightarrow> addr \<Rightarrow> fib_state \<Rightarrow> fib_state" where
  "route_dep_encap_nh_remove r e s =
    (case fmlookup (route_mem s) r of
       None \<Rightarrow> fib_crash s
     | Some rt \<Rightarrow>
       if e \<in> set (rt_dep_encap_nh_list rt)
       then route_write r (\<lambda>rt. rt\<lparr>rt_dep_encap_nh_list := remove1 e (rt_dep_encap_nh_list rt)\<rparr>) s
       else fib_crash s)"

definition sai_fib_encap_next_hop_remove_from_underlay_obj :: "addr \<Rightarrow> fib_state \<Rightarrow> fib_state" where
  "sai_fib_encap_next_hop_remove_from_underlay_obj e s =
    (case nh_mem s e of
       None \<Rightarrow> fib_crash s
     | Some n \<Rightarrow>
       let s = (case neighbor n of
                  None \<Rightarrow> s
                | Some u \<Rightarrow> nh_write e (\<lambda>n. n\<lparr>neighbor := None\<rparr>)
                    (sai_fib_encap_next_hop_remove_from_underlay_nh e u s))
       in case lpm_route n of
            None \<Rightarrow> s
          | Some r \<Rightarrow>
            let s = (case fmlookup (route_mem s) r of
                       None \<Rightarrow> fib_crash s
                     | Some rt \<Rightarrow> sai_fib_encap_next_hop_remove_from_underlay_route_nh e rt s);
                s = route_dep_encap_nh_remove r e s
            in nh_write e (\<lambda>n. n\<lparr>lpm_route := None\<rparr>) s)"

section \<open>Resolution over the best matching route\<close>

fun changelist_loop ::
  "('w, 'z) fib_env_scheme \<Rightarrow> addr list \<Rightarrow> fib_state \<Rightarrow> 'w \<Rightarrow> fib_state \<times> 'w" where
  "changelist_loop E [] s w = (s, w)"
| "changelist_loop E (p # ps) s w =
    (case fmlookup (route_mem s) p of
       None \<Rightarrow> changelist_loop E ps (fib_crash s) w
     | Some r \<Rightarrow>
       (case rb_getexact (vrf_tree s) (rt_vrf_id r) of
          None \<Rightarrow> changelist_loop E ps (fib_crash s) w
        | Some v \<Rightarrow> changelist_loop E ps s (std_radical_appendtochangelist E (vrf_id v) p w)))"

definition sai_fib_encap_nh_dep_routes_add_to_changelist ::
  "('w, 'z) fib_env_scheme \<Rightarrow> addr \<Rightarrow> fib_state \<Rightarrow> 'w \<Rightarrow> fib_state \<times> 'w" where
  "sai_fib_encap_nh_dep_routes_add_to_changelist E e s w =
    (case nh_mem s e of
       None \<Rightarrow> (fib_crash s, w)
     | Some n \<Rightarrow> changelist_loop E (dep_route_list n) s w)"

definition sai_fib_route_is_nh_info_match :: "sai_fib_route_t \<Rightarrow> sai_fib_route_t \<Rightarrow> bool" where
  "sai_fib_route_is_nh_info_match r1 r2 \<longleftrightarrow> nh_type r1 = nh_type r2 \<and> nh_info r1 = nh_info r2"

text \<open>Reading through a route pointer: the node, and the state with the fault noted.\<close>

definition route_read :: "addr option \<Rightarrow> fib_state \<Rightarrow> sai_fib_route_t option \<times> fib_state" where
  "route_read p s = (case p of
       None \<Rightarrow> (None, s)
     | Some a \<Rightarrow> (case fmlookup (route_mem s) a of
                   None \<Rightarrow> (None, fib_crash s) | Some r \<Rightarrow> (Some r, s)))"

definition sai_fib_encap_nh_lpm_route_attr_set ::
  "('w, 'z) fib_env_scheme \<Rightarrow> addr \<Rightarrow> sai_fib_route_t \<Rightarrow> fib_state \<Rightarrow> 'w
     \<Rightarrow> sai_status_t \<times> fib_state \<times> 'w" where
  "sai_fib_encap_nh_lpm_route_attr_set E e new_route s w =
    (case nh_mem s e of
       None \<Rightarrow> (SAI_STATUS_FAILURE, fib_crash s, w)
     | Some n \<Rightarrow>
       let same_action = (nh_packet_action n = packet_action new_route);
           (old, s) = (if same_action then route_read (lpm_route n) s else (None, s)) in
       if same_action \<and> (case old of None \<Rightarrow> False
                          | Some r \<Rightarrow> sai_fib_route_is_nh_info_match new_route r)
       then (SAI_STATUS_SUCCESS, s, w)
       else let n = n\<lparr>nh_packet_action := packet_action new_route\<rparr>;
                s = nh_write e (\<lambda>n. n\<lparr>nh_packet_action := packet_action new_route\<rparr>) s;
                (status, w) = npu_encap_nh_route_resolve E n new_route w in
         if status \<noteq> SAI_STATUS_SUCCESS then (status, s, w)
       else let (old, s) = route_read (lpm_route n) s;
                s = (case old of None \<Rightarrow> s
                     | Some r \<Rightarrow> sai_fib_encap_next_hop_remove_from_underlay_route_nh e r s);
                (status, s, w) = sai_fib_encap_next_hop_add_to_underlay_route_nh E e new_route s w in
         if status \<noteq> SAI_STATUS_SUCCESS then (status, s, w)
       else let (s, w) = sai_fib_encap_nh_dep_routes_add_to_changelist E e s w
            in (SAI_STATUS_SUCCESS, s, w))"

definition sai_fib_encap_nh_lpm_route_resolve ::
  "('w, 'z) fib_env_scheme \<Rightarrow> sai_fib_vrf_t \<Rightarrow> addr \<Rightarrow> fib_state \<Rightarrow> 'w
     \<Rightarrow> sai_status_t \<times> fib_state \<times> 'w" where
  "sai_fib_encap_nh_lpm_route_resolve E v e s w =
    (case nh_mem s e of
       None \<Rightarrow> (SAI_STATUS_FAILURE, fib_crash s, w)
     | Some n \<Rightarrow>
       let old_route = lpm_route n;
           plen = sai_fib_ip_addr_family_len_get E (nh_ip_addr n) in
       (case std_radix_getbest (sai_route_tree v)
               (ip_key (nh_ip_addr n) (sai_fib_route_key_len_get plen)) of
          None \<Rightarrow> (SAI_STATUS_FAILURE, s, w)
        | Some new_route \<Rightarrow>
          if old_route = Some new_route then (SAI_STATUS_SUCCESS, s, w)
          else (case fmlookup (route_mem s) new_route of
             None \<Rightarrow> (SAI_STATUS_FAILURE, fib_crash s, w)
           | Some new_info \<Rightarrow>
             let (status, s, w) = sai_fib_encap_nh_lpm_route_attr_set E e new_info s w in
             if status \<noteq> SAI_STATUS_SUCCESS then (status, s, w)
             else let s = nh_write e (\<lambda>n. n\<lparr>lpm_route := Some new_route\<rparr>) s;
                      s = (case old_route of None \<Rightarrow> s
                           | Some r \<Rightarrow> route_dep_encap_nh_remove r e s);
                      s = route_write new_route (\<lambda>rt. rt\<lparr>rt_dep_encap_nh_list :=
                            rt_dep_encap_nh_list rt @ [e]\<rparr>) s
                  in (SAI_STATUS_SUCCESS, s, w))))"

section \<open>Routes that depend on an encap next hop\<close>

definition sai_fib_encap_nh_dep_route_add :: "addr \<Rightarrow> fib_state \<Rightarrow> fib_state" where
  "sai_fib_encap_nh_dep_route_add r s =
    (case fmlookup (route_mem s) r of
       None \<Rightarrow> fib_crash s
     | Some rt \<Rightarrow>
       if nh_type rt = ROUTE_NH_TYPE_NEXT_HOP
       then (case Option.bind (nh_info rt) (nh_mem s) of
               None \<Rightarrow> fib_crash s
             | Some n \<Rightarrow>
               if is_tunnel_encap n
               then nh_write (the (nh_info rt)) (\<lambda>n. n\<lparr>dep_route_list := dep_route_list n @ [r]\<rparr>) s
               else s)
       else s)"

definition sai_fib_encap_nh_dep_route_remove :: "addr \<Rightarrow> fib_state \<Rightarrow> fib_state" where
  "sai_fib_encap_nh_dep_route_remove r s =
    (case fmlookup (route_mem s) r of
       None \<Rightarrow> fib_crash s
     | Some rt \<Rightarrow>
       if nh_type rt = ROUTE_NH_TYPE_NEXT_HOP
       then (case Option.bind (nh_info rt) (nh_mem s) of
               None \<Rightarrow> fib_crash s
             | Some n \<Rightarrow>
               if is_tunnel_encap n
               then if r \<in> set (dep_route_list n)
                    then nh_write (the (nh_info rt)) (\<lambda>n. n\<lparr>dep_route_list := remove1 r (dep_route_list n)\<rparr>) s
                    else fib_crash s
               else s)
       else s)"

section \<open>Encap next hops affected by a route\<close>

text \<open>The scans of a route's dependents fetch the next entry before they process one, and
  processing an entry moves no other entry, so they visit the list as it was.\<close>

fun attr_set_affected_loop ::
  "('w, 'z) fib_env_scheme \<Rightarrow> sai_fib_route_t \<Rightarrow> addr list \<Rightarrow> fib_state \<Rightarrow> 'w \<Rightarrow> fib_state \<times> 'w" where
  "attr_set_affected_loop E new_info [] s w = (s, w)"
| "attr_set_affected_loop E new_info (e # es) s w =
    (let (_, s, w) = sai_fib_encap_nh_lpm_route_attr_set E e new_info s w
     in attr_set_affected_loop E new_info es s w)"

definition sai_fib_encap_nh_signal_dep_route_walk :: "('w, 'z) fib_env_scheme \<Rightarrow> 'w \<Rightarrow> 'w" where
  "sai_fib_encap_nh_signal_dep_route_walk E w = encap_nh_route_walker_write E w"

definition sai_fib_route_attr_set_affected_encap_nh_update ::
  "('w, 'z) fib_env_scheme \<Rightarrow> addr \<Rightarrow> sai_fib_route_t \<Rightarrow> fib_state \<Rightarrow> 'w \<Rightarrow> fib_state \<times> 'w" where
  "sai_fib_route_attr_set_affected_encap_nh_update E r new_info s w =
    (case fmlookup (route_mem s) r of
       None \<Rightarrow> (fib_crash s, w)
     | Some rt \<Rightarrow>
       (case rb_getexact (vrf_tree s) (rt_vrf_id rt) of
          None \<Rightarrow> (s, w)
        | Some _ \<Rightarrow>
          let (s, w) = attr_set_affected_loop E new_info (rt_dep_encap_nh_list rt) s w
          in (s, sai_fib_encap_nh_signal_dep_route_walk E w)))"

fun resolve_loop ::
  "('w, 'z) fib_env_scheme \<Rightarrow> sai_fib_vrf_t \<Rightarrow> (sai_ip_address_t \<Rightarrow> bool) \<Rightarrow> addr list \<Rightarrow> fib_state \<Rightarrow> 'w
     \<Rightarrow> fib_state \<times> 'w" where
  "resolve_loop E v affected [] s w = (s, w)"
| "resolve_loop E v affected (e # es) s w =
    (case nh_mem s e of
       None \<Rightarrow> resolve_loop E v affected es (fib_crash s) w
     | Some n \<Rightarrow>
       if affected (nh_ip_addr n)
       then let (_, s, w) = sai_fib_encap_nh_lpm_route_resolve E v e s w
            in resolve_loop E v affected es s w
       else resolve_loop E v affected es s w)"

text \<open>The walk up the less specific routes, by the key of the current one.\<close>

function less_specific_walk ::
  "('w, 'z) fib_env_scheme \<Rightarrow> sai_fib_vrf_t \<Rightarrow> (sai_ip_address_t \<Rightarrow> bool) \<Rightarrow> std_rt_key \<Rightarrow> fib_state \<Rightarrow> 'w
     \<Rightarrow> fib_state \<times> 'w" where
  "less_specific_walk E v affected k s w =
    (case radix_less_specific_key (sai_route_tree v) k of
       None \<Rightarrow> (s, w)
     | Some k' \<Rightarrow>
       (case Option.bind (rb_getexact (sai_route_tree v) k') (fmlookup (route_mem s)) of
          None \<Rightarrow> (fib_crash s, w)
        | Some r \<Rightarrow>
          let (s, w) = resolve_loop E v affected (rt_dep_encap_nh_list r) s w
          in less_specific_walk E v affected k' s w))"
  by pat_completeness auto

termination
  by (relation "measure (\<lambda>(E, v, affected, k, s, w). length k)")
    (auto dest: radix_less_specific_shorter)

definition sai_fib_route_create_affected_encap_nh_update ::
  "('w, 'z) fib_env_scheme \<Rightarrow> addr \<Rightarrow> fib_state \<Rightarrow> 'w \<Rightarrow> fib_state \<times> 'w" where
  "sai_fib_route_create_affected_encap_nh_update E r s w =
    (case fmlookup (route_mem s) r of
       None \<Rightarrow> (fib_crash s, w)
     | Some rt \<Rightarrow>
       (case rb_getexact (vrf_tree s) (rt_vrf_id rt) of
          None \<Rightarrow> (s, w)
        | Some v \<Rightarrow>
          let mask = sai_fib_ip_prefix_mask_get E (rt_prefix rt) (prefix_len rt)
          in less_specific_walk E v (sai_fib_is_ip_addr_in_prefix E (rt_prefix rt) mask)
               (ip_key (rt_prefix rt) (sai_fib_route_key_len_get (prefix_len rt))) s w))"

definition sai_fib_route_del_affected_encap_nh_update ::
  "('w, 'z) fib_env_scheme \<Rightarrow> addr \<Rightarrow> fib_state \<Rightarrow> 'w \<Rightarrow> fib_state \<times> 'w" where
  "sai_fib_route_del_affected_encap_nh_update E r s w =
    (case fmlookup (route_mem s) r of
       None \<Rightarrow> (fib_crash s, w)
     | Some rt \<Rightarrow>
       (case rb_getexact (vrf_tree s) (rt_vrf_id rt) of
          None \<Rightarrow> (s, w)
        | Some v \<Rightarrow> resolve_loop E v (\<lambda>_. True) (rt_dep_encap_nh_list rt) s w))"

definition sai_fib_is_default_route_node ::
  "('w, 'z) fib_env_scheme \<Rightarrow> sai_fib_route_t \<Rightarrow> bool" where
  "sai_fib_is_default_route_node E r \<longleftrightarrow> sai_fib_is_ip_addr_zero E (rt_prefix r) \<and> prefix_len r = 0"

definition sai_fib_route_affected_encap_nh_update ::
  "('w, 'z) fib_env_scheme \<Rightarrow> addr \<Rightarrow> dn_sai_operations_t \<Rightarrow> fib_state \<Rightarrow> 'w \<Rightarrow> fib_state \<times> 'w" where
  "sai_fib_route_affected_encap_nh_update E r op_code s w =
    (case fmlookup (route_mem s) r of
       None \<Rightarrow> (fib_crash s, w)
     | Some rt \<Rightarrow>
       if sai_fib_is_default_route_node E rt
       then sai_fib_route_attr_set_affected_encap_nh_update E r rt s w
       else let (s, w) =
              (if op_code = SAI_OP_CREATE then sai_fib_route_create_affected_encap_nh_update E r s w
               else if op_code = SAI_OP_REMOVE then sai_fib_route_del_affected_encap_nh_update E r s w
               else (s, w))
            in (s, sai_fib_encap_nh_signal_dep_route_walk E w))"

end
