(* ===== verification/Fib_Route.thy ===== *)
theory Fib_Route
  imports Fib_Encap
begin

text \<open>
  Unicast routes, \<open>src/routing/sai_l3_route.c\<close>: creation, removal and the attributes of a route,
  the reference counts of the next hops and groups that routes forward to, and the default route
  node that every virtual router keeps whether or not the user has created a default route.
\<close>

section \<open>Reference counts\<close>

definition sai_fib_incr_nh_ref_count :: "sai_fib_nh_t \<Rightarrow> sai_fib_nh_t" where
  "sai_fib_incr_nh_ref_count n = n\<lparr>ref_count := ref_count n + 1\<rparr>"

definition sai_fib_decr_nh_ref_count :: "sai_fib_nh_t \<Rightarrow> sai_fib_nh_t" where
  "sai_fib_decr_nh_ref_count n = (if ref_count n > 0 then n\<lparr>ref_count := ref_count n - 1\<rparr> else n)"

definition sai_fib_incr_nh_group_ref_count :: "sai_fib_nh_group_t \<Rightarrow> sai_fib_nh_group_t" where
  "sai_fib_incr_nh_group_ref_count g = g\<lparr>grp_ref_count := grp_ref_count g + 1\<rparr>"

definition sai_fib_decr_nh_group_ref_count :: "sai_fib_nh_group_t \<Rightarrow> sai_fib_nh_group_t" where
  "sai_fib_decr_nh_group_ref_count g =
    (if grp_ref_count g > 0 then g\<lparr>grp_ref_count := grp_ref_count g - 1\<rparr> else g)"

text \<open>Both count functions dispatch on the type of the next hop and skip a NULL pointer.\<close>

definition sai_fib_route_nh_ref_count_incr :: "addr \<Rightarrow> fib_state \<Rightarrow> fib_state" where
  "sai_fib_route_nh_ref_count_incr r s =
    (case fmlookup (route_mem s) r of
       None \<Rightarrow> fib_crash s
     | Some rt \<Rightarrow>
       (case (nh_type rt, nh_info rt) of
          (ROUTE_NH_TYPE_NEXT_HOP, Some u) \<Rightarrow> nh_write u sai_fib_incr_nh_ref_count s
        | (ROUTE_NH_TYPE_NEXT_HOP_GROUP, Some g) \<Rightarrow> grp_write g sai_fib_incr_nh_group_ref_count s
        | _ \<Rightarrow> s))"

definition sai_fib_route_nh_ref_count_decr :: "addr \<Rightarrow> fib_state \<Rightarrow> fib_state" where
  "sai_fib_route_nh_ref_count_decr r s =
    (case fmlookup (route_mem s) r of
       None \<Rightarrow> fib_crash s
     | Some rt \<Rightarrow>
       (case (nh_type rt, nh_info rt) of
          (ROUTE_NH_TYPE_NEXT_HOP, Some u) \<Rightarrow> nh_write u sai_fib_decr_nh_ref_count s
        | (ROUTE_NH_TYPE_NEXT_HOP_GROUP, Some g) \<Rightarrow> grp_write g sai_fib_decr_nh_group_ref_count s
        | _ \<Rightarrow> s))"

section \<open>Validation\<close>

definition sai_fib_uc_route_entry_validate :: "sai_route_entry_t \<Rightarrow> sai_status_t" where
  "sai_fib_uc_route_entry_validate en =
    (if pfx_addr_family (destination en) \<noteq> SAI_IP_ADDR_FAMILY_IPV4
        \<and> pfx_addr_family (destination en) \<noteq> SAI_IP_ADDR_FAMILY_IPV6
     then SAI_STATUS_INVALID_PARAMETER else SAI_STATUS_SUCCESS)"

definition sai_fib_route_input_params_validate :: "sai_route_entry_t \<Rightarrow> nat \<Rightarrow> sai_status_t" where
  "sai_fib_route_input_params_validate en attr_count =
    (let rc = sai_fib_uc_route_entry_validate en in
     if rc \<noteq> SAI_STATUS_SUCCESS then rc
     else if attr_count = 0 \<or> attr_count > SAI_FIB_ROUTE_MAX_ATTR_COUNT
     then SAI_STATUS_INVALID_PARAMETER
     else SAI_STATUS_SUCCESS)"

section \<open>Attributes\<close>

definition sai_fib_route_nh_id_attr_set ::
  "fib_state \<Rightarrow> sai_fib_route_t \<Rightarrow> sai_object_id_t \<Rightarrow> sai_status_t \<times> sai_fib_route_t" where
  "sai_fib_route_nh_id_attr_set s r nh_id =
    (case nh_id_tree s nh_id of
       None \<Rightarrow> (SAI_STATUS_INVALID_ATTR_VALUE 0, r)
     | Some u \<Rightarrow> (SAI_STATUS_SUCCESS, r\<lparr>nh_type := ROUTE_NH_TYPE_NEXT_HOP, nh_info := Some u\<rparr>))"

definition sai_fib_route_nh_grp_id_attr_set ::
  "fib_state \<Rightarrow> sai_fib_route_t \<Rightarrow> sai_object_id_t \<Rightarrow> sai_status_t \<times> sai_fib_route_t" where
  "sai_fib_route_nh_grp_id_attr_set s r grp_id =
    (case nh_group_tree s grp_id of
       None \<Rightarrow> (SAI_STATUS_INVALID_ATTR_VALUE 0, r)
     | Some g \<Rightarrow> (SAI_STATUS_SUCCESS, r\<lparr>nh_type := ROUTE_NH_TYPE_NEXT_HOP_GROUP, nh_info := Some g\<rparr>))"

definition sai_fib_route_pkt_action_attr_set ::
  "('w, 'z) fib_env_scheme \<Rightarrow> sai_fib_route_t \<Rightarrow> sai_packet_action_t \<Rightarrow> sai_status_t \<times> sai_fib_route_t" where
  "sai_fib_route_pkt_action_attr_set E r act =
    (if \<not> sai_packet_action_validate E act then (SAI_STATUS_INVALID_ATTR_VALUE 0, r)
     else (SAI_STATUS_SUCCESS, r\<lparr>packet_action := act\<rparr>))"

text \<open>One attribute of the parse loop.\<close>

definition route_attribute_accept ::
  "('w, 'z) fib_env_scheme \<Rightarrow> fib_state \<Rightarrow> 'w \<Rightarrow> sai_route_entry_attr_t \<Rightarrow> sai_fib_route_t
     \<Rightarrow> sai_status_t \<times> sai_fib_route_t" where
  "route_attribute_accept E s w attr r =
    (case attr of
       SAI_ROUTE_ENTRY_ATTR_NEXT_HOP_ID nh \<Rightarrow>
         if sai_object_type_query E nh = SAI_OBJECT_TYPE_NEXT_HOP
         then sai_fib_route_nh_id_attr_set s r nh
         else if sai_object_type_query E nh = SAI_OBJECT_TYPE_NEXT_HOP_GROUP
         then sai_fib_route_nh_grp_id_attr_set s r nh
         else (SAI_STATUS_INVALID_ATTR_VALUE 0, r)
     | SAI_ROUTE_ENTRY_ATTR_PACKET_ACTION act \<Rightarrow> sai_fib_route_pkt_action_attr_set E r act
     | SAI_ROUTE_ENTRY_ATTR_TRAP_PRIORITY p \<Rightarrow> (SAI_STATUS_SUCCESS, r\<lparr>trap_priority := p\<rparr>)
     | SAI_ROUTE_ENTRY_ATTR_META_DATA m \<Rightarrow>
         let (rc, mn, mx) = npu_get_route_meta_range E w in
         if rc \<noteq> SAI_STATUS_SUCCESS then (rc, r)
         else if m < mn \<or> m > mx then (SAI_STATUS_INVALID_ATTR_VALUE 0, r)
         else (SAI_STATUS_SUCCESS, r\<lparr>meta_data := m\<rparr>)
     | SAI_ROUTE_ENTRY_ATTR_UNKNOWN _ \<Rightarrow> (SAI_STATUS_UNKNOWN_ATTRIBUTE 0, r))"

fun route_parse_loop ::
  "('w, 'z) fib_env_scheme \<Rightarrow> fib_state \<Rightarrow> 'w \<Rightarrow> nat \<Rightarrow> sai_route_entry_attr_t list \<Rightarrow> sai_fib_route_t
     \<Rightarrow> sai_status_t \<times> sai_fib_route_t" where
  "route_parse_loop E s w list_idx [] r = (SAI_STATUS_SUCCESS, r)"
| "route_parse_loop E s w list_idx (a # as) r =
    (let (rc, r) = route_attribute_accept E s w a r in
     if rc \<noteq> SAI_STATUS_SUCCESS then (sai_fib_attr_status_code_get E rc list_idx, r)
     else route_parse_loop E s w (Suc list_idx) as r)"

definition sai_fib_route_attributes_parse ::
  "('w, 'z) fib_env_scheme \<Rightarrow> fib_state \<Rightarrow> 'w \<Rightarrow> sai_route_entry_attr_t list \<Rightarrow> sai_fib_route_t
     \<Rightarrow> sai_status_t \<times> sai_fib_route_t" where
  "sai_fib_route_attributes_parse E s w attrs r =
    (let (rc, r) = route_parse_loop E s w 0 attrs r in
     if rc \<noteq> SAI_STATUS_SUCCESS then (rc, r)
     else if (packet_action r = SAI_PACKET_ACTION_FORWARD \<or> packet_action r = SAI_PACKET_ACTION_LOG)
           \<and> nh_type r = SAI_FIB_ROUTE_NH_TYPE_NONE
     then (SAI_STATUS_MANDATORY_ATTRIBUTE_MISSING, r)
     else (SAI_STATUS_SUCCESS, r))"

section \<open>Route nodes\<close>

definition sai_fib_route_entry_prefix_len_get ::
  "('w, 'z) fib_env_scheme \<Rightarrow> sai_route_entry_t \<Rightarrow> nat" where
  "sai_fib_route_entry_prefix_len_get E en =
    (case pfx_addr_family (destination en) of
       SAI_IP_ADDR_FAMILY_IPV4 \<Rightarrow> std_ip_v4_mask_to_prefix_len E (mask_ip4 (destination en))
     | SAI_IP_ADDR_FAMILY_IPV6 \<Rightarrow> std_ip_v6_mask_to_prefix_len E (mask_ip6 (destination en))
     | SAI_IP_ADDR_FAMILY_OTHER _ \<Rightarrow> 0)"

definition sai_fib_route_entry_ip_prefix_fill ::
  "('w, 'z) fib_env_scheme \<Rightarrow> sai_route_entry_t \<Rightarrow> sai_ip_address_t \<times> nat" where
  "sai_fib_route_entry_ip_prefix_fill E en =
    (let d = destination en;
         ip = \<lparr>addr_family = pfx_addr_family d, addr_ip4 = 0, addr_ip6 = 0\<rparr>;
         ip = (case addr_family ip of
                 SAI_IP_ADDR_FAMILY_IPV4 \<Rightarrow> ip\<lparr>addr_ip4 := pfx_ip4 d\<rparr>
               | SAI_IP_ADDR_FAMILY_IPV6 \<Rightarrow> ip\<lparr>addr_ip6 := pfx_ip6 d\<rparr>
               | SAI_IP_ADDR_FAMILY_OTHER _ \<Rightarrow> ip)
     in (ip, sai_fib_route_entry_prefix_len_get E en))"

text \<open>The key under which a route entry is stored.\<close>

definition route_entry_key :: "('w, 'z) fib_env_scheme \<Rightarrow> sai_route_entry_t \<Rightarrow> std_rt_key" where
  "route_entry_key E en =
    (let (ip, len) = sai_fib_route_entry_ip_prefix_fill E en
     in ip_key ip (sai_fib_route_key_len_get len))"

definition sai_fib_route_node_get ::
  "('w, 'z) fib_env_scheme \<Rightarrow> sai_route_entry_t \<Rightarrow> fib_state \<Rightarrow> addr option" where
  "sai_fib_route_node_get E en s =
    (case rb_getexact (vrf_tree s) (vr_id en) of
       None \<Rightarrow> None
     | Some v \<Rightarrow> rb_getexact (sai_route_tree v) (route_entry_key E en))"

definition sai_fib_route_node_init ::
  "('w, 'z) fib_env_scheme \<Rightarrow> sai_route_entry_t \<Rightarrow> sai_fib_route_t" where
  "sai_fib_route_node_init E en =
    (let (ip, len) = sai_fib_route_entry_ip_prefix_fill E en
     in \<lparr>rt_vrf_id = vr_id en, rt_prefix = ip, prefix_len = len,
         nh_type = SAI_FIB_ROUTE_NH_TYPE_NONE, nh_info = None,
         packet_action = SAI_FIB_ROUTE_DFLT_PKT_ACTION,
         trap_priority = SAI_FIB_ROUTE_DFLT_TRAP_PRIO, meta_data = 0, hw_info = None,
         rt_dep_encap_nh_list = []\<rparr>)"

text \<open>The node is freed here when the tree refuses it.\<close>

definition sai_fib_route_node_insert_to_tree ::
  "('w, 'z) fib_env_scheme \<Rightarrow> addr \<Rightarrow> sai_object_id_t \<Rightarrow> fib_state \<Rightarrow> 'w
     \<Rightarrow> sai_status_t \<times> fib_state \<times> 'w" where
  "sai_fib_route_node_insert_to_tree E a vr s w =
    (case (rb_getexact (vrf_tree s) vr, fmlookup (route_mem s) a) of
       (Some v, Some r) \<Rightarrow>
         let (head, t, w) = std_radix_insert E (sai_route_tree v)
               (ip_key (rt_prefix r) (sai_fib_route_key_len_get (prefix_len r))) a w;
             s = vrf_write (v\<lparr>sai_route_tree := t\<rparr>) s in
         if head = None then (SAI_STATUS_FAILURE, sai_fib_route_node_free a s, w)
         else (SAI_STATUS_SUCCESS, s, w)
     | _ \<Rightarrow> (SAI_STATUS_FAILURE, fib_crash s, w))"

definition sai_fib_is_default_route_entry ::
  "('w, 'z) fib_env_scheme \<Rightarrow> sai_route_entry_t \<Rightarrow> bool" where
  "sai_fib_is_default_route_entry E en =
    (let (ip, len) = sai_fib_route_entry_ip_prefix_fill E en
     in sai_fib_is_ip_addr_zero E ip \<and> len = 0)"

text \<open>\<open>std_radix_remove\<close> takes the node, whose key says where it is.\<close>

definition route_tree_remove :: "sai_object_id_t \<Rightarrow> addr \<Rightarrow> fib_state \<Rightarrow> fib_state" where
  "route_tree_remove vr a s =
    (case (rb_getexact (vrf_tree s) vr, fmlookup (route_mem s) a) of
       (Some v, Some r) \<Rightarrow>
         vrf_write (v\<lparr>sai_route_tree := rb_remove (sai_route_tree v)
           (ip_key (rt_prefix r) (sai_fib_route_key_len_get (prefix_len r)))\<rparr>) s
     | _ \<Rightarrow> fib_crash s)"

section \<open>Creation\<close>

text \<open>
  Finding or allocating the node: the status, the address, whether it was allocated, and the old
  contents of a default route node that is taken over.
\<close>

definition route_create_node ::
  "('w, 'z) fib_env_scheme \<Rightarrow> sai_route_entry_t \<Rightarrow> fib_state \<Rightarrow> 'w
     \<Rightarrow> sai_status_t \<times> addr option \<times> bool \<times> sai_fib_route_t option \<times> fib_state \<times> 'w" where
  "route_create_node E en s w =
    (case sai_fib_route_node_get E en s of
       Some a \<Rightarrow>
         if \<not> sai_fib_is_default_route_entry E en
         then (SAI_STATUS_ITEM_ALREADY_EXISTS, Some a, False, None, s, w)
         else (case fmlookup (route_mem s) a of
            None \<Rightarrow> (SAI_STATUS_FAILURE, Some a, False, None, fib_crash s, w)
          | Some r \<Rightarrow>
            if hw_info r \<noteq> None then (SAI_STATUS_ITEM_ALREADY_EXISTS, Some a, False, None, s, w)
            else (SAI_STATUS_SUCCESS, Some a, False, Some r,
                  route_write a (\<lambda>r. r\<lparr>packet_action := SAI_FIB_ROUTE_DFLT_PKT_ACTION\<rparr>) s, w))
     | None \<Rightarrow>
         let (p, w) = route_node_alloc E (fmdom (route_mem s)) w in
         (case p of
            None \<Rightarrow> (SAI_STATUS_NO_MEMORY, None, False, None, s, w)
          | Some a \<Rightarrow> (SAI_STATUS_SUCCESS, Some a, True, None,
                s\<lparr>route_mem := fmupd a (sai_fib_route_node_init E en) (route_mem s)\<rparr>, w)))"

text \<open>From the parse of the attributes to the last update.\<close>

definition route_create_install ::
  "('w, 'z) fib_env_scheme \<Rightarrow> sai_object_id_t \<Rightarrow> addr \<Rightarrow> bool \<Rightarrow> sai_route_entry_attr_t list
     \<Rightarrow> fib_state \<Rightarrow> 'w \<Rightarrow> sai_status_t \<times> fib_state \<times> 'w" where
  "route_create_install E vr a is_alloc attrs s w =
    (case fmlookup (route_mem s) a of
       None \<Rightarrow> (SAI_STATUS_FAILURE, fib_crash s, w)
     | Some r \<Rightarrow>
       let (rc, r) = sai_fib_route_attributes_parse E s w attrs r;
           s = route_write a (\<lambda>_. r) s in
       if rc \<noteq> SAI_STATUS_SUCCESS then (rc, s, w)
       else let (rc, hw, w) = npu_route_create E r w;
                s = route_write a (\<lambda>r. r\<lparr>hw_info := hw\<rparr>) s in
         if rc \<noteq> SAI_STATUS_SUCCESS then (rc, s, w)
       else let (rc, s, w) = (if is_alloc then sai_fib_route_node_insert_to_tree E a vr s w
                              else (SAI_STATUS_SUCCESS, s, w)) in
         if rc \<noteq> SAI_STATUS_SUCCESS then (rc, s, w)
       else let (s, w) = sai_fib_route_affected_encap_nh_update E a SAI_OP_CREATE s w;
                s = sai_fib_route_nh_ref_count_incr a s;
                s = sai_fib_encap_nh_dep_route_add a s
            in (SAI_STATUS_SUCCESS, s, w))"

text \<open>After the unlock a failing call frees a node it allocated and restores a default route
  node it took over.\<close>

definition route_create_cleanup ::
  "addr option \<Rightarrow> bool \<Rightarrow> sai_fib_route_t option \<Rightarrow> fib_state \<Rightarrow> fib_state" where
  "route_create_cleanup p is_alloc old s =
    (let s = (case p of Some a \<Rightarrow> if is_alloc then sai_fib_route_node_free a s else s | None \<Rightarrow> s)
     in case (p, old) of (Some a, Some r) \<Rightarrow> route_write a (\<lambda>_. r) s | _ \<Rightarrow> s)"

definition sai_fib_route_create ::
  "('w, 'z) fib_env_scheme \<Rightarrow> sai_route_entry_t \<Rightarrow> sai_route_entry_attr_t list \<Rightarrow> fib_state \<Rightarrow> 'w
     \<Rightarrow> sai_status_t \<times> fib_state \<times> 'w" where
  "sai_fib_route_create E en attrs s w =
    (let rc = sai_fib_route_input_params_validate en (length attrs) in
     if rc \<noteq> SAI_STATUS_SUCCESS then (rc, s, w)
     else let s = sai_fib_lock s in
       if rb_getexact (vrf_tree s) (vr_id en) = None
       then (SAI_STATUS_INVALID_OBJECT_ID, sai_fib_unlock s, w)
     else let (rc, p, is_alloc, old, s, w) = route_create_node E en s w;
              (rc, s, w) =
                (case p of
                   Some a \<Rightarrow> if rc = SAI_STATUS_SUCCESS
                             then route_create_install E (vr_id en) a is_alloc attrs s w
                             else (rc, s, w)
                 | None \<Rightarrow> (rc, s, w));
              s = sai_fib_unlock s
       in (rc, if rc = SAI_STATUS_SUCCESS then s else route_create_cleanup p is_alloc old s, w))"

section \<open>Removal\<close>

definition route_remove_body ::
  "('w, 'z) fib_env_scheme \<Rightarrow> sai_route_entry_t \<Rightarrow> fib_state \<Rightarrow> 'w \<Rightarrow> sai_status_t \<times> fib_state \<times> 'w" where
  "route_remove_body E en s w =
    (if rb_getexact (vrf_tree s) (vr_id en) = None then (SAI_STATUS_INVALID_OBJECT_ID, s, w)
     else case sai_fib_route_node_get E en s of
       None \<Rightarrow> (SAI_STATUS_ITEM_NOT_FOUND, s, w)
     | Some a \<Rightarrow>
       (case fmlookup (route_mem s) a of
          None \<Rightarrow> (SAI_STATUS_FAILURE, fib_crash s, w)
        | Some r \<Rightarrow>
          let (rc, hw, w) = npu_route_remove E r w;
              s = route_write a (\<lambda>r. r\<lparr>hw_info := hw\<rparr>) s in
          if rc \<noteq> SAI_STATUS_SUCCESS then (rc, s, w)
          else let is_dflt = sai_fib_is_default_route_entry E en;
                   s = (if \<not> is_dflt then route_tree_remove (vr_id en) a s
                        else route_write a (\<lambda>r. r\<lparr>packet_action := SAI_PACKET_ACTION_DROP\<rparr>) s);
                   (s, w) = sai_fib_route_affected_encap_nh_update E a SAI_OP_REMOVE s w;
                   s = sai_fib_encap_nh_dep_route_remove a s;
                   s = sai_fib_route_nh_ref_count_decr a s;
                   s = route_write a (\<lambda>r. r\<lparr>nh_type := SAI_FIB_ROUTE_NH_TYPE_NONE\<rparr>) s
            in (SAI_STATUS_SUCCESS, if \<not> is_dflt then sai_fib_route_node_free a s else s, w)))"

definition sai_fib_route_remove ::
  "('w, 'z) fib_env_scheme \<Rightarrow> sai_route_entry_t \<Rightarrow> fib_state \<Rightarrow> 'w \<Rightarrow> sai_status_t \<times> fib_state \<times> 'w" where
  "sai_fib_route_remove E en s w =
    (let rc = sai_fib_uc_route_entry_validate en in
     if rc \<noteq> SAI_STATUS_SUCCESS then (rc, s, w)
     else let (rc, s, w) = route_remove_body E en (sai_fib_lock s) w in (rc, sai_fib_unlock s, w))"

section \<open>Attributes of a route\<close>

definition route_attribute_set_body ::
  "('w, 'z) fib_env_scheme \<Rightarrow> sai_route_entry_t \<Rightarrow> sai_route_entry_attr_t \<Rightarrow> fib_state \<Rightarrow> 'w
     \<Rightarrow> sai_status_t \<times> fib_state \<times> 'w" where
  "route_attribute_set_body E en attr s w =
    (if rb_getexact (vrf_tree s) (vr_id en) = None then (SAI_STATUS_INVALID_OBJECT_ID, s, w)
     else case sai_fib_route_node_get E en s of
       None \<Rightarrow> (SAI_STATUS_ITEM_NOT_FOUND, s, w)
     | Some a \<Rightarrow>
       (case fmlookup (route_mem s) a of
          None \<Rightarrow> (SAI_STATUS_FAILURE, fib_crash s, w)
        | Some r \<Rightarrow>
          let (rc, new) = sai_fib_route_attributes_parse E s w [attr] r in
          if rc \<noteq> SAI_STATUS_SUCCESS then (rc, s, w)
          else let (rc, hw, w) = npu_route_attr_set E new attr w;
                   new = new\<lparr>hw_info := hw\<rparr> in
            if rc \<noteq> SAI_STATUS_SUCCESS then (rc, s, w)
          else let nh_info_set = (\<not> sai_fib_route_is_nh_info_match r new);
                   s = (if nh_info_set
                        then sai_fib_encap_nh_dep_route_remove a (sai_fib_route_nh_ref_count_decr a s)
                        else s);
                   (s, w) = sai_fib_route_attr_set_affected_encap_nh_update E a new s w;
                   s = route_write a (\<lambda>_. new) s;
                   s = (if nh_info_set
                        then sai_fib_encap_nh_dep_route_add a (sai_fib_route_nh_ref_count_incr a s)
                        else s)
            in (SAI_STATUS_SUCCESS, s, w)))"

definition sai_fib_route_attribute_set ::
  "('w, 'z) fib_env_scheme \<Rightarrow> sai_route_entry_t \<Rightarrow> sai_route_entry_attr_t \<Rightarrow> fib_state \<Rightarrow> 'w
     \<Rightarrow> sai_status_t \<times> fib_state \<times> 'w" where
  "sai_fib_route_attribute_set E en attr s w =
    (let rc = sai_fib_route_input_params_validate en 1 in
     if rc \<noteq> SAI_STATUS_SUCCESS then (rc, s, w)
     else let (rc, s, w) = route_attribute_set_body E en attr (sai_fib_lock s) w
          in (rc, sai_fib_unlock s, w))"

definition sai_fib_route_attribute_get ::
  "('w, 'z) fib_env_scheme \<Rightarrow> sai_route_entry_t \<Rightarrow> sai_route_entry_attr_t list \<Rightarrow> fib_state \<Rightarrow> 'w
     \<Rightarrow> sai_status_t \<times> sai_route_entry_attr_t list \<times> fib_state" where
  "sai_fib_route_attribute_get E en attrs s w =
    (if attrs = [] then (SAI_STATUS_INVALID_PARAMETER, attrs, s)
     else let s = sai_fib_lock s in
       case sai_fib_route_node_get E en s of
         None \<Rightarrow> (SAI_STATUS_ITEM_NOT_FOUND, attrs, sai_fib_unlock s)
       | Some a \<Rightarrow>
         (case fmlookup (route_mem s) a of
            None \<Rightarrow> (SAI_STATUS_FAILURE, attrs, sai_fib_unlock (fib_crash s))
          | Some r \<Rightarrow> let (rc, attrs) = npu_route_attr_get E r attrs w
                      in (rc, attrs, sai_fib_unlock s)))"

section \<open>The internal default routes\<close>

definition default_route_entry :: "sai_object_id_t \<Rightarrow> sai_ip_addr_family_t \<Rightarrow> sai_route_entry_t" where
  \<comment> \<open>the zeroed entry that both functions below fill in\<close>
  "default_route_entry vr af =
     \<lparr>vr_id = vr, destination = \<lparr>pfx_addr_family = af, pfx_ip4 = 0, pfx_ip6 = 0,
        mask_ip4 = 0, mask_ip6 = 0\<rparr>\<rparr>"

definition sai_fib_internal_default_route_node_add ::
  "('w, 'z) fib_env_scheme \<Rightarrow> sai_object_id_t \<Rightarrow> sai_ip_addr_family_t \<Rightarrow> fib_state \<Rightarrow> 'w
     \<Rightarrow> sai_status_t \<times> fib_state \<times> 'w" where
  "sai_fib_internal_default_route_node_add E vr af s w =
    (let (p, w) = route_node_alloc E (fmdom (route_mem s)) w in
     case p of
       None \<Rightarrow> (SAI_STATUS_NO_MEMORY, s, w)
     | Some a \<Rightarrow>
       let r = (sai_fib_route_node_init E (default_route_entry vr af))
                 \<lparr>packet_action := SAI_PACKET_ACTION_DROP\<rparr>
       in sai_fib_route_node_insert_to_tree E a vr (s\<lparr>route_mem := fmupd a r (route_mem s)\<rparr>) w)"

definition sai_fib_internal_default_route_node_del ::
  "('w, 'z) fib_env_scheme \<Rightarrow> sai_object_id_t \<Rightarrow> sai_ip_addr_family_t \<Rightarrow> fib_state
     \<Rightarrow> sai_status_t \<times> fib_state" where
  "sai_fib_internal_default_route_node_del E vr af s =
    (case sai_fib_route_node_get E (default_route_entry vr af) s of
       None \<Rightarrow> (SAI_STATUS_ITEM_NOT_FOUND, s)
     | Some a \<Rightarrow> (SAI_STATUS_SUCCESS, sai_fib_route_node_free a (route_tree_remove vr a s)))"

end
