(* ===== verification/Fib_Vrf.thy ===== *)
theory Fib_Vrf
  imports Fib_Route
begin

text \<open>
  Virtual routers, \<open>src/routing/sai_l3_vrf.c\<close>: creation, removal, attributes, the list of router
  interfaces of a virtual router and the limit on ECMP paths.
\<close>

section \<open>Attributes\<close>

definition sai_fib_vrf_is_admin_state_valid :: "bool \<Rightarrow> bool" where
  "sai_fib_vrf_is_admin_state_valid state \<longleftrightarrow> state = True \<or> state = False"

definition sai_fib_vrf_mac_attr_set ::
  "('w, 'z) fib_env_scheme \<Rightarrow> 48 word \<Rightarrow> sai_fib_vrf_t \<Rightarrow> sai_status_t \<times> sai_fib_vrf_t" where
  "sai_fib_vrf_mac_attr_set E mac v =
    (if sai_fib_is_mac_address_zero E mac then (SAI_STATUS_INVALID_ATTR_VALUE 0, v)
     else (SAI_STATUS_SUCCESS, v\<lparr>src_mac := mac\<rparr>))"

definition sai_fib_vrf_v4_admin_state_attr_set ::
  "bool \<Rightarrow> sai_fib_vrf_t \<Rightarrow> sai_status_t \<times> sai_fib_vrf_t" where
  "sai_fib_vrf_v4_admin_state_attr_set state v =
    (if \<not> sai_fib_vrf_is_admin_state_valid state then (SAI_STATUS_INVALID_ATTR_VALUE 0, v)
     else (SAI_STATUS_SUCCESS, v\<lparr>v4_admin_state := state\<rparr>))"

definition sai_fib_vrf_v6_admin_state_attr_set ::
  "bool \<Rightarrow> sai_fib_vrf_t \<Rightarrow> sai_status_t \<times> sai_fib_vrf_t" where
  "sai_fib_vrf_v6_admin_state_attr_set state v =
    (if \<not> sai_fib_vrf_is_admin_state_valid state then (SAI_STATUS_INVALID_ATTR_VALUE 0, v)
     else (SAI_STATUS_SUCCESS, v\<lparr>v6_admin_state := state\<rparr>))"

definition sai_fib_vrf_ip_options_attr_set ::
  "('w, 'z) fib_env_scheme \<Rightarrow> sai_packet_action_t \<Rightarrow> sai_fib_vrf_t \<Rightarrow> sai_status_t \<times> sai_fib_vrf_t" where
  "sai_fib_vrf_ip_options_attr_set E act v =
    (if \<not> sai_packet_action_validate E act then (SAI_STATUS_INVALID_ATTR_VALUE 0, v)
     else (SAI_STATUS_SUCCESS, v\<lparr>ip_options_pkt_action := act\<rparr>))"

definition sai_fib_vrf_ttl_violation_attr_set ::
  "('w, 'z) fib_env_scheme \<Rightarrow> sai_packet_action_t \<Rightarrow> sai_fib_vrf_t \<Rightarrow> sai_status_t \<times> sai_fib_vrf_t" where
  "sai_fib_vrf_ttl_violation_attr_set E act v =
    (if \<not> sai_packet_action_validate E act then (SAI_STATUS_INVALID_ATTR_VALUE 0, v)
     else (SAI_STATUS_SUCCESS, v\<lparr>ttl0_1_pkt_action := act\<rparr>))"

text \<open>A NULL list is \<open>None\<close>.\<close>

definition sai_fib_vrf_create_params_validate ::
  "nat \<Rightarrow> sai_virtual_router_attr_t list option \<Rightarrow> sai_status_t" where
  "sai_fib_vrf_create_params_validate attr_count attr_list =
    (if attr_count > SAI_FIB_VRF_MAX_ATTR_COUNT then SAI_STATUS_INVALID_PARAMETER
     else if attr_count \<noteq> 0 \<and> attr_list = None then SAI_STATUS_INVALID_PARAMETER
     else SAI_STATUS_SUCCESS)"

definition sai_fib_vrf_attributes_init ::
  "('w, 'z) fib_env_scheme \<Rightarrow> 'w \<Rightarrow> sai_fib_vrf_t \<Rightarrow> sai_fib_vrf_t" where
  "sai_fib_vrf_attributes_init E w v = v\<lparr>
     v4_admin_state := SAI_FIB_V4_ADMIN_STATE_DFLT E,
     v6_admin_state := SAI_FIB_V6_ADMIN_STATE_DFLT E,
     ip_options_pkt_action := SAI_FIB_IP_OPT_PKT_ACTION_DFLT E,
     ttl0_1_pkt_action := SAI_FIB_TTL_VIOLATION_PKT_ACTION_DFLT E,
     src_mac := sai_switch_mac_address_get E w\<rparr>"

text \<open>One attribute of the parse loop: the status, the node and the flag that is set, whatever the
  status.\<close>

definition vrf_attribute_accept ::
  "('w, 'z) fib_env_scheme \<Rightarrow> sai_virtual_router_attr_t \<Rightarrow> sai_fib_vrf_t
     \<Rightarrow> (sai_status_t \<times> sai_fib_vrf_t) \<times> sai_fib_vrf_attr_flag set" where
  "vrf_attribute_accept E attr v =
    (case attr of
       SAI_VIRTUAL_ROUTER_ATTR_SRC_MAC_ADDRESS mac \<Rightarrow>
         (sai_fib_vrf_mac_attr_set E mac v, {SAI_FIB_SRC_MAC_ATTR_FLAG})
     | SAI_VIRTUAL_ROUTER_ATTR_ADMIN_V4_STATE b \<Rightarrow>
         (sai_fib_vrf_v4_admin_state_attr_set b v, {SAI_FIB_V4_ADMIN_STATE_ATTR_FLAG})
     | SAI_VIRTUAL_ROUTER_ATTR_ADMIN_V6_STATE b \<Rightarrow>
         (sai_fib_vrf_v6_admin_state_attr_set b v, {SAI_FIB_V6_ADMIN_STATE_ATTR_FLAG})
     | SAI_VIRTUAL_ROUTER_ATTR_VIOLATION_TTL1_PACKET_ACTION act \<Rightarrow>
         (sai_fib_vrf_ttl_violation_attr_set E act v, {SAI_FIB_TTL_VIOLATION_ATTR_FLAG})
     | SAI_VIRTUAL_ROUTER_ATTR_VIOLATION_IP_OPTIONS_PACKET_ACTION act \<Rightarrow>
         (sai_fib_vrf_ip_options_attr_set E act v, {SAI_FIB_IP_OPTIONS_ATTR_FLAG})
     | SAI_VIRTUAL_ROUTER_ATTR_UNKNOWN_L3_MULTICAST_PACKET_ACTION _ \<Rightarrow>
         ((SAI_STATUS_ATTR_NOT_IMPLEMENTED 0, v), {})
     | SAI_VIRTUAL_ROUTER_ATTR_UNKNOWN _ \<Rightarrow> ((SAI_STATUS_UNKNOWN_ATTRIBUTE 0, v), {}))"

fun vrf_parse_loop ::
  "('w, 'z) fib_env_scheme \<Rightarrow> 'w \<Rightarrow> nat \<Rightarrow> sai_virtual_router_attr_t list \<Rightarrow> sai_fib_vrf_t
     \<Rightarrow> sai_fib_vrf_attr_flag set \<Rightarrow> sai_status_t \<times> sai_fib_vrf_t \<times> sai_fib_vrf_attr_flag set" where
  "vrf_parse_loop E w list_idx [] v flags = (SAI_STATUS_SUCCESS, v, flags)"
| "vrf_parse_loop E w list_idx (a # as) v flags =
    (let ((rc, v), f) = vrf_attribute_accept E a v;
         flags = flags \<union> f;
         rc = (if rc = SAI_STATUS_SUCCESS then npu_vr_attr_validate E a w else rc) in
     if rc \<noteq> SAI_STATUS_SUCCESS then (sai_fib_attr_status_code_get E rc list_idx, v, flags)
     else vrf_parse_loop E w (Suc list_idx) as v flags)"

definition sai_fib_vrf_attributes_parse ::
  "('w, 'z) fib_env_scheme \<Rightarrow> 'w \<Rightarrow> sai_virtual_router_attr_t list \<Rightarrow> sai_fib_vrf_t
     \<Rightarrow> sai_status_t \<times> sai_fib_vrf_t \<times> sai_fib_vrf_attr_flag set" where
  "sai_fib_vrf_attributes_parse E w attrs v =
    (let (rc, v, flags) = vrf_parse_loop E w 0 attrs v {} in
     if rc \<noteq> SAI_STATUS_SUCCESS then (rc, v, flags)
     else if sai_fib_is_mac_address_zero E (src_mac v) then (SAI_STATUS_ADDR_NOT_FOUND, v, flags)
     else (SAI_STATUS_SUCCESS, v, flags))"

section \<open>Trees\<close>

text \<open>Freeing the node leaves nothing behind in the state before it is in \<open>vrf_tree\<close>; what is left
  of a failed creation is the removal in the plug-in.\<close>

definition sai_fib_vrf_node_trees_create ::
  "('w, 'z) fib_env_scheme \<Rightarrow> sai_fib_vrf_t \<Rightarrow> 'w \<Rightarrow> sai_status_t \<times> sai_fib_vrf_t \<times> 'w" where
  "sai_fib_vrf_node_trees_create E v w =
    (let (ok, w) = std_radix_create_ok E w in
     if \<not> ok then let (_, w) = npu_vr_remove E v w in (SAI_STATUS_NO_MEMORY, v, w)
     else let v = v\<lparr>sai_nh_tree := Some fmempty\<rparr>;
              (ok, w) = std_radix_create_ok E w in
       if \<not> ok then let (_, w) = npu_vr_remove E v w in (SAI_STATUS_NO_MEMORY, v, w)
     else (SAI_STATUS_SUCCESS, v\<lparr>sai_route_tree := Some fmempty\<rparr>, w))"

definition sai_fib_vrf_node_insert_to_tree ::
  "('w, 'z) fib_env_scheme \<Rightarrow> sai_fib_vrf_t \<Rightarrow> fib_state \<Rightarrow> 'w \<Rightarrow> sai_status_t \<times> fib_state \<times> 'w" where
  "sai_fib_vrf_node_insert_to_tree E v s w =
    (let (ok, t, w) = std_rbtree_insert E (vrf_tree s) (vrf_id v) v w in
     if \<not> ok then let (_, w) = npu_vr_remove E v w in (SAI_STATUS_FAILURE, s, w)
     else (SAI_STATUS_SUCCESS, s\<lparr>vrf_tree := t\<rparr>, w))"

text \<open>Emptiness is asked by an exact lookup of the zero key and the next key above it.\<close>

definition sai_fib_vrf_is_nh_tree_empty ::
  "('w, 'z) fib_env_scheme \<Rightarrow> addr std_rt_table \<Rightarrow> bool" where
  "sai_fib_vrf_is_nh_tree_empty E t =
    (let key = replicate (SAI_FIB_NH_IP_ADDR_TREE_KEY_LEN E) False in
     if rb_getexact t key \<noteq> None then False
     else if std_radix_getnext t key \<noteq> None then False
     else True)"

definition sai_fib_vrf_is_route_tree_empty :: "addr std_rt_table \<Rightarrow> bool" where
  "sai_fib_vrf_is_route_tree_empty t =
    (let key = replicate (sai_fib_route_key_len_get 0) False in
     if rb_getexact t key \<noteq> None then False
     else if std_radix_getnext t key \<noteq> None then False
     else True)"

section \<open>Default routes\<close>

text \<open>The statuses of the four calls are not looked at.\<close>

definition sai_fib_vrf_default_route_add ::
  "('w, 'z) fib_env_scheme \<Rightarrow> sai_object_id_t \<Rightarrow> fib_state \<Rightarrow> 'w \<Rightarrow> fib_state \<times> 'w" where
  "sai_fib_vrf_default_route_add E vr s w =
    (let (_, s, w) = sai_fib_internal_default_route_node_add E vr SAI_IP_ADDR_FAMILY_IPV4 s w;
         (_, s, w) = sai_fib_internal_default_route_node_add E vr SAI_IP_ADDR_FAMILY_IPV6 s w
     in (s, w))"

definition sai_fib_vrf_default_route_del ::
  "('w, 'z) fib_env_scheme \<Rightarrow> sai_object_id_t \<Rightarrow> fib_state \<Rightarrow> fib_state" where
  "sai_fib_vrf_default_route_del E vr s =
    (let (_, s) = sai_fib_internal_default_route_node_del E vr SAI_IP_ADDR_FAMILY_IPV4 s;
         (_, s) = sai_fib_internal_default_route_node_del E vr SAI_IP_ADDR_FAMILY_IPV6 s
     in s)"

section \<open>The calls\<close>

definition vrf_node_zero :: sai_fib_vrf_t where
  \<comment> \<open>what \<open>calloc\<close> gives\<close>
  "vrf_node_zero = \<lparr>vrf_id = 0, src_mac = 0, v4_admin_state = False, v6_admin_state = False,
     ip_options_pkt_action = SAI_PACKET_ACTION_DROP, ttl0_1_pkt_action = SAI_PACKET_ACTION_DROP,
     num_rif = 0, rif_dll_head = [], sai_nh_tree = None, sai_route_tree = None\<rparr>"

text \<open>The second component is what was written to \<open>vr_obj_id\<close>, if anything.\<close>

definition vr_create_body ::
  "('w, 'z) fib_env_scheme \<Rightarrow> sai_virtual_router_attr_t list \<Rightarrow> fib_state \<Rightarrow> 'w
     \<Rightarrow> sai_status_t \<times> sai_object_id_t option \<times> fib_state \<times> 'w" where
  "vr_create_body E attrs s w =
    (let (ok, w) = calloc_ok E w in
     if \<not> ok then (SAI_STATUS_NO_MEMORY, None, s, w)
     else let (rc, v, _) = sai_fib_vrf_attributes_parse E w attrs
                             (sai_fib_vrf_attributes_init E w vrf_node_zero) in
       if rc \<noteq> SAI_STATUS_SUCCESS then (rc, None, s, w)
     else let (rc, vr_hw_id, w) = npu_vr_create E v w in
       if rc \<noteq> SAI_STATUS_SUCCESS then (rc, None, s, w)
     else let vr = sai_uoid_create E SAI_OBJECT_TYPE_VIRTUAL_ROUTER vr_hw_id;
              v = v\<lparr>vrf_id := vr, rif_dll_head := []\<rparr>;
              (rc, v, w) = sai_fib_vrf_node_trees_create E v w in
       if rc \<noteq> SAI_STATUS_SUCCESS then (rc, Some vr, s, w)
     else let (rc, s, w) = sai_fib_vrf_node_insert_to_tree E v s w in
       if rc \<noteq> SAI_STATUS_SUCCESS then (rc, Some vr, s, w)
     else let s = s\<lparr>num_virtual_routers := num_virtual_routers s + 1\<rparr>;
              (s, w) = sai_fib_vrf_default_route_add E vr s w
          in (SAI_STATUS_SUCCESS, Some vr, s, w))"

definition sai_fib_virtual_router_create ::
  "('w, 'z) fib_env_scheme \<Rightarrow> nat \<Rightarrow> sai_virtual_router_attr_t list option \<Rightarrow> fib_state \<Rightarrow> 'w
     \<Rightarrow> sai_status_t \<times> sai_object_id_t option \<times> fib_state \<times> 'w" where
  "sai_fib_virtual_router_create E attr_count attr_list s w =
    (let rc = sai_fib_vrf_create_params_validate attr_count attr_list in
     if rc \<noteq> SAI_STATUS_SUCCESS then (rc, None, s, w)
     else let attrs = (case attr_list of None \<Rightarrow> [] | Some l \<Rightarrow> take attr_count l);
              (rc, oid, s, w) = vr_create_body E attrs (sai_fib_lock s) w
          in (rc, oid, sai_fib_unlock s, w))"

text \<open>The checks and the removal, after the default routes have been deleted.\<close>

definition vr_remove_checked ::
  "('w, 'z) fib_env_scheme \<Rightarrow> sai_object_id_t \<Rightarrow> fib_state \<Rightarrow> 'w \<Rightarrow> sai_status_t \<times> fib_state \<times> 'w" where
  "vr_remove_checked E vr s w =
    (case rb_getexact (vrf_tree s) vr of
       None \<Rightarrow> (SAI_STATUS_FAILURE, fib_crash s, w)
     | Some v \<Rightarrow>
       if num_rif v \<noteq> 0 then (SAI_STATUS_OBJECT_IN_USE, s, w)
       else if \<not> sai_fib_vrf_is_nh_tree_empty E (sai_nh_tree v) then (SAI_STATUS_OBJECT_IN_USE, s, w)
       else if \<not> sai_fib_vrf_is_route_tree_empty (sai_route_tree v)
       then (SAI_STATUS_OBJECT_IN_USE, s, w)
       else let (rc, w) = npu_vr_remove E v w in
         if rc \<noteq> SAI_STATUS_SUCCESS then (rc, s, w)
       else (SAI_STATUS_SUCCESS,
             s\<lparr>vrf_tree := rb_remove (vrf_tree s) vr,
               num_virtual_routers := num_virtual_routers s - 1\<rparr>, w))"

definition vr_remove_body ::
  "('w, 'z) fib_env_scheme \<Rightarrow> sai_object_id_t \<Rightarrow> fib_state \<Rightarrow> 'w \<Rightarrow> sai_status_t \<times> fib_state \<times> 'w" where
  "vr_remove_body E vr s w =
    (if rb_getexact (vrf_tree s) vr = None then (SAI_STATUS_INVALID_OBJECT_ID, s, w)
     else let (rc, s, w) = vr_remove_checked E vr (sai_fib_vrf_default_route_del E vr s) w;
              (s, w) = (if rc \<noteq> SAI_STATUS_SUCCESS \<and> rc \<noteq> SAI_STATUS_INVALID_OBJECT_ID
                        then sai_fib_vrf_default_route_add E vr s w else (s, w))
          in (rc, s, w))"

definition sai_fib_virtual_router_remove ::
  "('w, 'z) fib_env_scheme \<Rightarrow> sai_object_id_t \<Rightarrow> fib_state \<Rightarrow> 'w \<Rightarrow> sai_status_t \<times> fib_state \<times> 'w" where
  "sai_fib_virtual_router_remove E vr s w =
    (if \<not> sai_is_obj_id E SAI_OBJECT_TYPE_VIRTUAL_ROUTER vr
     then (SAI_STATUS_INVALID_OBJECT_TYPE, s, w)
     else let (rc, s, w) = vr_remove_body E vr (sai_fib_lock s) w in (rc, sai_fib_unlock s, w))"

definition sai_fib_virtual_router_attribute_set ::
  "('w, 'z) fib_env_scheme \<Rightarrow> sai_object_id_t \<Rightarrow> sai_virtual_router_attr_t \<Rightarrow> fib_state \<Rightarrow> 'w
     \<Rightarrow> sai_status_t \<times> fib_state \<times> 'w" where
  "sai_fib_virtual_router_attribute_set E vr attr s w =
    (if \<not> sai_is_obj_id E SAI_OBJECT_TYPE_VIRTUAL_ROUTER vr
     then (SAI_STATUS_INVALID_OBJECT_TYPE, s, w)
     else let s = sai_fib_lock s;
              (rc, s, w) =
       (case rb_getexact (vrf_tree s) vr of
          None \<Rightarrow> (SAI_STATUS_INVALID_OBJECT_ID, s, w)
        | Some v \<Rightarrow>
          let (rc, vrf_node_in, flags) = sai_fib_vrf_attributes_parse E w [attr] v in
          if rc \<noteq> SAI_STATUS_SUCCESS then (rc, s, w)
          else let (rc, w) = npu_vr_attr_set E vrf_node_in flags w in
            if rc \<noteq> SAI_STATUS_SUCCESS then (rc, s, w)
          else (SAI_STATUS_SUCCESS, s\<lparr>vrf_tree := rb_put (vrf_tree s) vr vrf_node_in\<rparr>, w))
      in (rc, sai_fib_unlock s, w))"

definition sai_fib_virtual_router_attribute_get ::
  "('w, 'z) fib_env_scheme \<Rightarrow> sai_object_id_t \<Rightarrow> sai_virtual_router_attr_t list \<Rightarrow> fib_state \<Rightarrow> 'w
     \<Rightarrow> sai_status_t \<times> sai_virtual_router_attr_t list \<times> fib_state" where
  "sai_fib_virtual_router_attribute_get E vr attrs s w =
    (if \<not> sai_is_obj_id E SAI_OBJECT_TYPE_VIRTUAL_ROUTER vr
     then (SAI_STATUS_INVALID_OBJECT_TYPE, attrs, s)
     else if length attrs = 0 \<or> length attrs > SAI_FIB_VRF_MAX_ATTR_COUNT
     then (SAI_STATUS_INVALID_PARAMETER, attrs, s)
     else let s = sai_fib_lock s;
              (rc, attrs) =
       (case rb_getexact (vrf_tree s) vr of
          None \<Rightarrow> (SAI_STATUS_INVALID_OBJECT_ID, attrs)
        | Some v \<Rightarrow> npu_vr_attr_get E v attrs w)
      in (rc, attrs, sai_fib_unlock s))"

section \<open>Router interfaces and ECMP\<close>

text \<open>The part of a router interface node that its virtual router looks at.\<close>

record sai_fib_router_interface_t =
  rif_id :: sai_object_id_t
  rif_vrf_id :: sai_object_id_t

definition sai_fib_vrf_rif_list_update ::
  "sai_fib_router_interface_t \<Rightarrow> bool \<Rightarrow> fib_state \<Rightarrow> sai_status_t \<times> fib_state" where
  "sai_fib_vrf_rif_list_update rif is_add s =
    (case rb_getexact (vrf_tree s) (rif_vrf_id rif) of
       None \<Rightarrow> (SAI_STATUS_FAILURE, s)
     | Some v \<Rightarrow>
       if is_add
       then (SAI_STATUS_SUCCESS, s\<lparr>vrf_tree := rb_put (vrf_tree s) (rif_vrf_id rif)
              (v\<lparr>rif_dll_head := rif_dll_head v @ [rif_id rif], num_rif := num_rif v + 1\<rparr>)\<rparr>)
       else (SAI_STATUS_SUCCESS,
              (if rif_id rif \<in> set (rif_dll_head v) then s else fib_crash s)\<lparr>vrf_tree :=
                 rb_put (vrf_tree s) (rif_vrf_id rif)
                   (v\<lparr>rif_dll_head := remove1 (rif_id rif) (rif_dll_head v),
                      num_rif := num_rif v - 1\<rparr>)\<rparr>))"

definition sai_router_ecmp_max_paths_set ::
  "('w, 'z) fib_env_scheme \<Rightarrow> uint32_t \<Rightarrow> fib_state \<Rightarrow> 'w \<Rightarrow> sai_status_t \<times> fib_state \<times> 'w" where
  "sai_router_ecmp_max_paths_set E max_paths s w =
    (let s = sai_fib_lock s;
         (rc, w) = npu_ecmp_max_paths_set E max_paths w;
         s = (if rc = SAI_STATUS_SUCCESS then s\<lparr>max_ecmp_paths := max_paths\<rparr> else s)
     in (rc, sai_fib_unlock s, w))"

end
