(* ===== verification/Fib_Core.thy ===== *)
theory Fib_Core
  imports Fib_Vrf
begin

text \<open>
  What the bookkeeping of encap next hops leaves alone.

  \<open>fib_core\<close> forgets the fields that only the functions of \<open>Fib_Encap\<close> write: the lists of
  dependents, the resolution of an encap next hop, and the fault flag.  Every one of those
  functions keeps the core, so whatever is a function of the core (the route trees, the route
  nodes up to their dependents, the reference counts) is untouched by them.
\<close>

named_theorems core_simps \<open>functions that keep the core of the state\<close>

section \<open>The core\<close>

definition route_core :: "sai_fib_route_t \<Rightarrow> sai_fib_route_t" where
  "route_core r = r\<lparr>rt_dep_encap_nh_list := []\<rparr>"

definition nh_core :: "sai_fib_nh_t \<Rightarrow> sai_fib_nh_t" where
  "nh_core n = n\<lparr>nh_packet_action := SAI_PACKET_ACTION_DROP, neighbor := None, lpm_route := None,
     nh_dep_encap_nh_list := [], dep_route_list := []\<rparr>"

definition grp_core :: "sai_fib_nh_group_t \<Rightarrow> sai_fib_nh_group_t" where
  "grp_core g = g\<lparr>grp_dep_encap_nh_list := []\<rparr>"

definition fib_core :: "fib_state \<Rightarrow> fib_state" where
  "fib_core s = s\<lparr>route_mem := fmmap route_core (route_mem s),
     nh_mem := map_option nh_core \<circ> nh_mem s, grp_mem := map_option grp_core \<circ> grp_mem s,
     fib_fault := False\<rparr>"

lemma route_core_simps [simp]:
  "rt_vrf_id (route_core r) = rt_vrf_id r" "rt_prefix (route_core r) = rt_prefix r"
  "prefix_len (route_core r) = prefix_len r" "nh_type (route_core r) = nh_type r"
  "nh_info (route_core r) = nh_info r" "packet_action (route_core r) = packet_action r"
  "trap_priority (route_core r) = trap_priority r" "meta_data (route_core r) = meta_data r"
  "hw_info (route_core r) = hw_info r"
  by (simp_all add: route_core_def)

lemma fib_core_sel [simp]:
  "vrf_tree (fib_core s) = vrf_tree s" "nh_id_tree (fib_core s) = nh_id_tree s"
  "nh_group_tree (fib_core s) = nh_group_tree s"
  "num_virtual_routers (fib_core s) = num_virtual_routers s"
  "max_ecmp_paths (fib_core s) = max_ecmp_paths s"
  "fib_lock_depth (fib_core s) = fib_lock_depth s"
  "fmlookup (route_mem (fib_core s)) a = map_option route_core (fmlookup (route_mem s) a)"
  "nh_mem (fib_core s) u = map_option nh_core (nh_mem s u)"
  "grp_mem (fib_core s) g = map_option grp_core (grp_mem s g)"
  by (simp_all add: fib_core_def)

lemma fib_coreD:
  assumes "fib_core s' = fib_core s"
  shows "vrf_tree s' = vrf_tree s" "nh_id_tree s' = nh_id_tree s" "nh_group_tree s' = nh_group_tree s"
    "num_virtual_routers s' = num_virtual_routers s" "max_ecmp_paths s' = max_ecmp_paths s"
    "fib_lock_depth s' = fib_lock_depth s"
    "map_option route_core (fmlookup (route_mem s') a) = map_option route_core (fmlookup (route_mem s) a)"
    "map_option nh_core (nh_mem s' u) = map_option nh_core (nh_mem s u)"
    "map_option grp_core (grp_mem s' g) = map_option grp_core (grp_mem s g)"
  using assms by (metis fib_core_sel)+

section \<open>Functions that keep the core\<close>

lemma core_crash [core_simps, simp]: "fib_core (fib_crash s) = fib_core s"
  by (simp add: fib_core_def fib_crash_def)

lemma map_option_upd_same: "m a = Some x \<Longrightarrow> (map_option f \<circ> m)(a \<mapsto> f x) = map_option f \<circ> m"
  by (rule ext) simp

lemma fmmap_upd_same: "fmlookup m a = Some x \<Longrightarrow> fmupd a (f x) (fmmap f m) = fmmap f m"
  by (rule fmap_ext) auto

lemma fmmap_upd: "fmmap f (fmupd a x m) = fmupd a (f x) (fmmap f m)"
  by (rule fmap_ext) simp

lemma core_route_write:
  "(\<And>r. route_core (f r) = route_core r) \<Longrightarrow> fib_core (route_write a f s) = fib_core s"
  by (auto simp: route_write_def fib_core_def fib_crash_def fmmap_upd fmmap_upd_same split: option.splits)

lemma core_nh_write:
  "(\<And>n. nh_core (f n) = nh_core n) \<Longrightarrow> fib_core (nh_write a f s) = fib_core s"
  by (auto simp: nh_write_def fib_core_def fib_crash_def map_option_upd_same split: option.splits)

lemma core_grp_write:
  "(\<And>g. grp_core (f g) = grp_core g) \<Longrightarrow> fib_core (grp_write a f s) = fib_core s"
  by (auto simp: grp_write_def fib_core_def fib_crash_def map_option_upd_same split: option.splits)

lemmas core_writes = core_route_write core_nh_write core_grp_write
  route_core_def nh_core_def grp_core_def

lemma core_add_to_nh [core_simps]:
  "fib_core (fst (snd (sai_fib_encap_next_hop_add_to_underlay_nh E e u s w))) = fib_core s"
  by (simp add: sai_fib_encap_next_hop_add_to_underlay_nh_def Let_def split_beta core_writes
      split: option.splits)

lemma core_remove_from_nh [core_simps]:
  "fib_core (sai_fib_encap_next_hop_remove_from_underlay_nh e u s) = fib_core s"
  by (simp add: sai_fib_encap_next_hop_remove_from_underlay_nh_def core_writes split: option.splits)

lemma core_nhg_add_loop [core_simps]:
  "fib_core (fst (snd (underlay_nhg_add_loop E e us st s w))) = fib_core s"
  by (induction us arbitrary: st s w) (simp_all add: split_beta core_simps)

lemma core_add_to_nhg [core_simps]:
  "fib_core (fst (snd (sai_fib_encap_next_hop_add_to_underlay_nhg E e g s w))) = fib_core s"
  by (simp add: sai_fib_encap_next_hop_add_to_underlay_nhg_def core_simps core_writes split: option.splits)

lemma core_fold_remove [core_simps]:
  "fib_core (fold (sai_fib_encap_next_hop_remove_from_underlay_nh e) us s) = fib_core s"
  by (induction us arbitrary: s) (simp_all add: core_simps)

lemma core_remove_from_nhg [core_simps]:
  "fib_core (sai_fib_encap_next_hop_remove_from_underlay_nhg e g s) = fib_core s"
  by (simp add: sai_fib_encap_next_hop_remove_from_underlay_nhg_def core_simps core_writes
      split: option.splits)

lemma core_add_to_route_nh [core_simps]:
  "fib_core (fst (snd (sai_fib_encap_next_hop_add_to_underlay_route_nh E e r s w))) = fib_core s"
  by (simp add: sai_fib_encap_next_hop_add_to_underlay_route_nh_def core_simps split: option.splits)

lemma core_remove_from_route_nh [core_simps]:
  "fib_core (sai_fib_encap_next_hop_remove_from_underlay_route_nh e r s) = fib_core s"
  by (simp add: sai_fib_encap_next_hop_remove_from_underlay_route_nh_def core_simps split: option.splits)

lemma core_dep_encap_remove [core_simps]: "fib_core (route_dep_encap_nh_remove r e s) = fib_core s"
  by (simp add: route_dep_encap_nh_remove_def core_writes split: option.splits)

lemma core_changelist_loop [core_simps]: "fib_core (fst (changelist_loop E ps s w)) = fib_core s"
  by (induction ps arbitrary: s w) (simp_all split: option.splits)

lemma core_changelist [core_simps]:
  "fib_core (fst (sai_fib_encap_nh_dep_routes_add_to_changelist E e s w)) = fib_core s"
  by (simp add: sai_fib_encap_nh_dep_routes_add_to_changelist_def core_simps split: option.splits)

lemma core_route_read [core_simps]: "fib_core (snd (route_read p s)) = fib_core s"
  by (simp add: route_read_def split: option.splits)

lemma core_lpm_attr_set [core_simps]:
  "fib_core (fst (snd (sai_fib_encap_nh_lpm_route_attr_set E e new s w))) = fib_core s"
  by (simp add: sai_fib_encap_nh_lpm_route_attr_set_def Let_def split_beta core_simps core_writes
      split: option.split)

lemma core_lpm_resolve [core_simps]:
  "fib_core (fst (snd (sai_fib_encap_nh_lpm_route_resolve E v e s w))) = fib_core s"
  by (simp add: sai_fib_encap_nh_lpm_route_resolve_def Let_def split_beta core_simps core_writes
      split: option.split)

lemma core_dep_route_add [core_simps]: "fib_core (sai_fib_encap_nh_dep_route_add r s) = fib_core s"
  by (simp add: sai_fib_encap_nh_dep_route_add_def core_writes split: option.split)

lemma core_dep_route_remove [core_simps]:
  "fib_core (sai_fib_encap_nh_dep_route_remove r s) = fib_core s"
  by (simp add: sai_fib_encap_nh_dep_route_remove_def core_writes split: option.split)

lemma core_attr_set_loop [core_simps]:
  "fib_core (fst (attr_set_affected_loop E new es s w)) = fib_core s"
  by (induction es arbitrary: s w) (simp_all add: split_beta core_simps)

lemma core_attr_set_affected [core_simps]:
  "fib_core (fst (sai_fib_route_attr_set_affected_encap_nh_update E r new s w)) = fib_core s"
  by (simp add: sai_fib_route_attr_set_affected_encap_nh_update_def split_beta core_simps
      split: option.split)

lemma core_resolve_loop [core_simps]: "fib_core (fst (resolve_loop E v P es s w)) = fib_core s"
  by (induction es arbitrary: s w) (simp_all add: split_beta core_simps split: option.split)

declare less_specific_walk.simps [simp del]

lemma core_less_specific_walk [core_simps]:
  "fib_core (fst (less_specific_walk E v P k s w)) = fib_core s"
proof (induction E v P k s w rule: less_specific_walk.induct)
  case (1 E v P k s w)
  then show ?case
    by (subst less_specific_walk.simps) (auto simp: split_beta core_simps split: option.splits)
qed

lemma core_create_affected [core_simps]:
  "fib_core (fst (sai_fib_route_create_affected_encap_nh_update E r s w)) = fib_core s"
  by (simp add: sai_fib_route_create_affected_encap_nh_update_def core_simps split: option.split)

lemma core_del_affected [core_simps]:
  "fib_core (fst (sai_fib_route_del_affected_encap_nh_update E r s w)) = fib_core s"
  by (simp add: sai_fib_route_del_affected_encap_nh_update_def core_simps split: option.split)

lemma core_affected [core_simps]:
  "fib_core (fst (sai_fib_route_affected_encap_nh_update E r op s w)) = fib_core s"
  by (simp add: sai_fib_route_affected_encap_nh_update_def split_beta core_simps
      split: option.split)

end
