(* ===== verification/Fib_Table.thy ===== *)
theory Fib_Table
  imports Fib_Core
begin

text \<open>
  Route trees and route nodes, and the table they stand for.

  \<open>fib_wf\<close> says that the route trees of the virtual routers and the allocated route nodes are
  each other's inverse: every entry of a tree is an allocated node of that virtual router with
  that key, and every allocated node is in the tree it belongs to.  Under it the trees and nodes
  are a table from virtual router and key to what a route does (\<open>route_table\<close>), and the lemmas
  say what writing, inserting and removing a node does to the table.
\<close>

lemma rb_put_ex [simp]: "(\<exists>t. rb_put h k v = Some t) \<longleftrightarrow> h \<noteq> None"
  by (cases h) (simp_all add: rb_put_def)

lemma rb_remove_ex [simp]: "(\<exists>t. rb_remove h k = Some t) \<longleftrightarrow> h \<noteq> None"
  by (cases h) (simp_all add: rb_remove_def)

section \<open>Well-formed trees\<close>

definition node_key :: "sai_fib_route_t \<Rightarrow> std_rt_key" where
  "node_key r = ip_key (rt_prefix r) (sai_fib_route_key_len_get (prefix_len r))"

definition route_at :: "fib_state \<Rightarrow> sai_object_id_t \<Rightarrow> std_rt_key \<Rightarrow> addr option" where
  "route_at s vr k = Option.bind (rb_getexact (vrf_tree s) vr) (\<lambda>v. rb_getexact (sai_route_tree v) k)"

definition fib_wf :: "fib_state \<Rightarrow> bool" where
  "fib_wf s \<longleftrightarrow>
     (\<forall>vr v. rb_getexact (vrf_tree s) vr = Some v \<longrightarrow> vrf_id v = vr \<and> sai_route_tree v \<noteq> None)
   \<and> (\<forall>vr k a. route_at s vr k = Some a \<longrightarrow>
        (\<exists>r. fmlookup (route_mem s) a = Some r \<and> rt_vrf_id r = vr \<and> node_key r = k))
   \<and> (\<forall>a r. fmlookup (route_mem s) a = Some r \<longrightarrow> route_at s (rt_vrf_id r) (node_key r) = Some a)"

lemma fib_wf_vrf:
  "fib_wf s \<Longrightarrow> rb_getexact (vrf_tree s) vr = Some v \<Longrightarrow> vrf_id v = vr \<and> sai_route_tree v \<noteq> None"
  by (simp add: fib_wf_def)

lemma fib_wf_entry:
  "fib_wf s \<Longrightarrow> route_at s vr k = Some a \<Longrightarrow>
     \<exists>r. fmlookup (route_mem s) a = Some r \<and> rt_vrf_id r = vr \<and> node_key r = k"
  by (simp add: fib_wf_def)

lemma fib_wf_node:
  "fib_wf s \<Longrightarrow> fmlookup (route_mem s) a = Some r \<Longrightarrow> route_at s (rt_vrf_id r) (node_key r) = Some a"
  by (simp add: fib_wf_def)

lemma node_key_core [simp]: "node_key (route_core r) = node_key r"
  by (simp add: node_key_def)

lemma route_at_core [simp]: "route_at (fib_core s) = route_at s"
  by (simp add: route_at_def fun_eq_iff)

lemma fib_wf_core [simp]: "fib_wf (fib_core s) = fib_wf s"
  by (force simp: fib_wf_def)

section \<open>What a route does\<close>

datatype route_target =
    No_Target
  | Target_Next_Hop "addr option"
  | Target_Group "addr option"

record route_info =
  ri_target :: route_target
  ri_action :: sai_packet_action_t
  ri_priority :: "8 word"
  ri_meta :: uint32_t

definition target_of :: "sai_fib_route_t \<Rightarrow> route_target" where
  "target_of r = (case nh_type r of
       SAI_FIB_ROUTE_NH_TYPE_NONE \<Rightarrow> No_Target
     | ROUTE_NH_TYPE_NEXT_HOP \<Rightarrow> Target_Next_Hop (nh_info r)
     | ROUTE_NH_TYPE_NEXT_HOP_GROUP \<Rightarrow> Target_Group (nh_info r))"

definition route_info :: "sai_fib_route_t \<Rightarrow> route_info" where
  "route_info r = \<lparr>ri_target = target_of r, ri_action = packet_action r,
     ri_priority = trap_priority r, ri_meta = meta_data r\<rparr>"

type_synonym route_table = "sai_object_id_t \<Rightarrow> (std_rt_key \<Rightarrow> route_info option) option"

definition route_table :: "fib_state \<Rightarrow> route_table" where
  "route_table s vr = map_option (\<lambda>v k. Option.bind (rb_getexact (sai_route_tree v) k)
      (\<lambda>a. map_option route_info (fmlookup (route_mem s) a))) (rb_getexact (vrf_tree s) vr)"

definition table_put :: "route_table \<Rightarrow> sai_object_id_t \<Rightarrow> std_rt_key \<Rightarrow> route_info \<Rightarrow> route_table" where
  "table_put T vr k e = (case T vr of None \<Rightarrow> T | Some R \<Rightarrow> T(vr \<mapsto> R(k \<mapsto> e)))"

definition table_delete :: "route_table \<Rightarrow> sai_object_id_t \<Rightarrow> std_rt_key \<Rightarrow> route_table" where
  "table_delete T vr k = (case T vr of None \<Rightarrow> T | Some R \<Rightarrow> T(vr \<mapsto> R(k := None)))"

lemma target_of_core [simp]: "target_of (route_core r) = target_of r"
  by (cases "nh_type r") (simp_all add: target_of_def)

lemma route_info_core [simp]: "route_info (route_core r) = route_info r"
  by (simp add: route_info_def)

lemma route_table_core [simp]: "route_table (fib_core s) = route_table s"
  by (simp add: route_table_def fun_eq_iff option.map_comp comp_def)

lemma route_table_at:
  "route_table s vr = Some R \<Longrightarrow>
     R k = Option.bind (route_at s vr k) (\<lambda>a. map_option route_info (fmlookup (route_mem s) a))"
  by (auto simp: route_table_def route_at_def)

lemma route_table_None [simp]: "route_table s vr = None \<longleftrightarrow> rb_getexact (vrf_tree s) vr = None"
  by (simp add: route_table_def)

section \<open>Writing a node\<close>

definition with_route :: "addr \<Rightarrow> sai_fib_route_t \<Rightarrow> fib_state \<Rightarrow> fib_state" where
  "with_route a r s = s\<lparr>route_mem := fmupd a r (route_mem s)\<rparr>"

lemma with_route_sel [simp]:
  "vrf_tree (with_route a r s) = vrf_tree s" "nh_mem (with_route a r s) = nh_mem s"
  "grp_mem (with_route a r s) = grp_mem s" "nh_id_tree (with_route a r s) = nh_id_tree s"
  "nh_group_tree (with_route a r s) = nh_group_tree s" "fib_fault (with_route a r s) = fib_fault s"
  "route_mem (with_route a r s) = fmupd a r (route_mem s)"
  "route_at (with_route a r s) = route_at s"
  by (simp_all add: with_route_def route_at_def fun_eq_iff)

lemma fmupd_idem: "fmupd a r (fmupd a r' m) = fmupd a r m"
  by (rule fmap_ext) simp

lemma with_route_twice [simp]: "with_route a r (with_route a r' s) = with_route a r s"
  by (simp add: with_route_def fmupd_idem)

lemma route_write_with [simp]: "route_write a f (with_route a r s) = with_route a (f r) s"
  by (simp add: route_write_def with_route_def fmupd_idem)

lemma route_write_Some:
  "fmlookup (route_mem s) a = Some r \<Longrightarrow> route_write a f s = with_route a (f r) s"
  by (simp add: route_write_def with_route_def)

lemma with_route_same: "fmlookup (route_mem s) a = Some r \<Longrightarrow> with_route a r s = s"
  by (simp add: with_route_def) (metis fmap_ext fmupd_lookup fib_state.surjective fib_state.update_convs(2))

lemma fib_wf_with_route:
  assumes "fib_wf s" and "fmlookup (route_mem s) a = Some r"
    and "rt_vrf_id r' = rt_vrf_id r" "node_key r' = node_key r"
  shows "fib_wf (with_route a r' s)"
  unfolding fib_wf_def
proof (intro conjI allI impI, goal_cases)
  case (1 vr v)
  with fib_wf_vrf [OF assms(1)] show ?case by simp
next
  case (2 vr v)
  with fib_wf_vrf [OF assms(1)] show ?case by simp
next
  case (3 vr k b)
  with fib_wf_entry [OF assms(1), of vr k b] assms(2-4) show ?case by auto
next
  case (4 b rb)
  with fib_wf_node [OF assms(1)] assms(2-4) show ?case by (auto split: if_splits)
qed

lemma route_table_with_route:
  assumes "fib_wf s" and "fmlookup (route_mem s) a = Some r"
  shows "route_table (with_route a r' s) = table_put (route_table s) (rt_vrf_id r) (node_key r) (route_info r')"
proof (rule ext)
  fix vr
  have here: "route_at s (rt_vrf_id r) (node_key r) = Some a"
    by (rule fib_wf_node [OF assms])
  then obtain v where v: "rb_getexact (vrf_tree s) (rt_vrf_id r) = Some v"
      "rb_getexact (sai_route_tree v) (node_key r) = Some a"
    by (auto simp: route_at_def bind_eq_Some_conv)
  have uniq: "vr = rt_vrf_id r \<and> k = node_key r" if "route_at s vr k = Some a" for vr k
    using fib_wf_entry [OF assms(1) that] assms(2) by auto
  show "route_table (with_route a r' s) vr
      = table_put (route_table s) (rt_vrf_id r) (node_key r) (route_info r') vr"
  proof (cases "rb_getexact (vrf_tree s) vr")
    case None
    with v show ?thesis by (auto simp: table_put_def route_table_def)
  next
    case (Some u)
    have "Option.bind (rb_getexact (sai_route_tree u) k)
             (\<lambda>b. map_option route_info (fmlookup (route_mem (with_route a r' s)) b))
        = (if vr = rt_vrf_id r \<and> k = node_key r then Some (route_info r')
           else Option.bind (rb_getexact (sai_route_tree u) k)
             (\<lambda>b. map_option route_info (fmlookup (route_mem s) b)))" for k
      using uniq [of vr k] v Some by (cases "rb_getexact (sai_route_tree u) k") (auto simp: route_at_def)
    with v Some show ?thesis
      by (auto simp: table_put_def route_table_def fun_eq_iff)
  qed
qed

section \<open>Inserting and removing a node\<close>

definition with_new_route :: "sai_object_id_t \<Rightarrow> addr \<Rightarrow> sai_fib_route_t \<Rightarrow> fib_state \<Rightarrow> fib_state" where
  \<comment> \<open>a node put in the memory and in the tree of its virtual router\<close>
  "with_new_route vr a r s = (case rb_getexact (vrf_tree s) vr of None \<Rightarrow> s
     | Some v \<Rightarrow> (with_route a r s)\<lparr>vrf_tree := rb_put (vrf_tree s) vr
         (v\<lparr>sai_route_tree := rb_put (sai_route_tree v) (node_key r) a\<rparr>)\<rparr>)"

definition without_route :: "sai_object_id_t \<Rightarrow> addr \<Rightarrow> std_rt_key \<Rightarrow> fib_state \<Rightarrow> fib_state" where
  "without_route vr a k s = (case rb_getexact (vrf_tree s) vr of None \<Rightarrow> s
     | Some v \<Rightarrow> s\<lparr>route_mem := fmdrop a (route_mem s), vrf_tree := rb_put (vrf_tree s) vr
         (v\<lparr>sai_route_tree := rb_remove (sai_route_tree v) k\<rparr>)\<rparr>)"

lemma route_at_new:
  assumes "rb_getexact (vrf_tree s) vr = Some v" and "sai_route_tree v \<noteq> None"
  shows "route_at (with_new_route vr a r s) vr' k
    = (if vr' = vr \<and> k = node_key r then Some a else route_at s vr' k)"
  using assms rb_getexact_SomeD [OF assms(1)]
  by (auto simp: with_new_route_def route_at_def)

lemma route_at_without:
  assumes "rb_getexact (vrf_tree s) vr = Some v"
  shows "route_at (without_route vr a k0 s) vr' k
    = (if vr' = vr \<and> k = k0 then None else route_at s vr' k)"
  using assms rb_getexact_SomeD [OF assms(1)]
  by (auto simp: without_route_def route_at_def)

lemma with_new_route_mem:
  "rb_getexact (vrf_tree s) vr = Some v \<Longrightarrow>
     route_mem (with_new_route vr a r s) = fmupd a r (route_mem s)"
  by (simp add: with_new_route_def)

lemma without_route_mem:
  "rb_getexact (vrf_tree s) vr = Some v \<Longrightarrow>
     route_mem (without_route vr a k s) = fmdrop a (route_mem s)"
  by (simp add: without_route_def)

lemma fib_wf_new:
  assumes W: "fib_wf s" and v: "rb_getexact (vrf_tree s) vr = Some v"
    and free: "route_at s vr (node_key r) = None" and a: "fmlookup (route_mem s) a = None"
    and r: "rt_vrf_id r = vr"
  shows "fib_wf (with_new_route vr a r s)"
proof -
  have t: "sai_route_tree v \<noteq> None" using fib_wf_vrf [OF W v] by simp
  note at = route_at_new [OF v t] and mem = with_new_route_mem [OF v]
  have unused: "route_at s vr' k \<noteq> Some a" for vr' k
    using fib_wf_entry [OF W, of vr' k a] a by auto
  show ?thesis
    unfolding fib_wf_def at mem
  proof (intro conjI allI impI, goal_cases)
    case (1 vr' v')
    with fib_wf_vrf [OF W] v show ?case by (auto simp: with_new_route_def split: if_splits)
  next
    case (2 vr' v')
    with fib_wf_vrf [OF W] v t show ?case
      by (auto simp: with_new_route_def split: if_splits)
  next
    case (3 vr' k b)
    with fib_wf_entry [OF W, of vr' k b] r unused [of vr' k] show ?case by (auto split: if_splits)
  next
    case (4 b rb)
    with fib_wf_node [OF W, of b rb] r free show ?case by (auto split: if_splits)
  qed
qed

lemma fib_wf_without:
  assumes W: "fib_wf s" and v: "rb_getexact (vrf_tree s) vr = Some v"
    and k: "route_at s vr k = Some a"
  shows "fib_wf (without_route vr a k s)"
proof -
  note at = route_at_without [OF v] and mem = without_route_mem [OF v]
  obtain r where r: "fmlookup (route_mem s) a = Some r" "rt_vrf_id r = vr" "node_key r = k"
    using fib_wf_entry [OF W k] by blast
  show ?thesis
    unfolding fib_wf_def at mem
  proof (intro conjI allI impI, goal_cases)
    case (1 vr' v')
    with fib_wf_vrf [OF W] v show ?case by (auto simp: without_route_def split: if_splits)
  next
    case (2 vr' v')
    with fib_wf_vrf [OF W] v show ?case
      by (auto simp: without_route_def split: if_splits)
  next
    case (3 vr' k' b)
    with fib_wf_entry [OF W, of vr' k' b] r show ?case by (auto split: if_splits)
  next
    case (4 b rb)
    with fib_wf_node [OF W, of b rb] k show ?case by (auto split: if_splits)
  qed
qed

lemma route_table_new:
  assumes W: "fib_wf s" and v: "rb_getexact (vrf_tree s) vr = Some v"
    and a: "fmlookup (route_mem s) a = None"
  shows "route_table (with_new_route vr a r s) = table_put (route_table s) vr (node_key r) (route_info r)"
proof (rule ext)
  fix vr'
  have t: "sai_route_tree v \<noteq> None" "vrf_tree s \<noteq> None"
    using fib_wf_vrf [OF W v] rb_getexact_SomeD [OF v] by auto
  have unused: "rb_getexact (sai_route_tree u) k \<noteq> Some a"
    if "rb_getexact (vrf_tree s) vr' = Some u" for u vr' k
    using fib_wf_entry [OF W, of vr' k a] a that by (auto simp: route_at_def)
  have "Option.bind (rb_getexact (sai_route_tree u) k)
          (\<lambda>b. map_option route_info (fmlookup (fmupd a r (route_mem s)) b))
      = Option.bind (rb_getexact (sai_route_tree u) k)
          (\<lambda>b. map_option route_info (fmlookup (route_mem s) b))"
    if "rb_getexact (vrf_tree s) vr' = Some u" for u vr' k
    using unused [OF that, of k] by (cases "rb_getexact (sai_route_tree u) k") auto
  with v t show "route_table (with_new_route vr a r s) vr'
      = table_put (route_table s) vr (node_key r) (route_info r) vr'"
    by (cases "rb_getexact (vrf_tree s) vr'")
      (auto simp: with_new_route_def route_table_def table_put_def fun_eq_iff)
qed

lemma route_table_without:
  assumes W: "fib_wf s" and v: "rb_getexact (vrf_tree s) vr = Some v"
    and k: "route_at s vr k = Some a"
  shows "route_table (without_route vr a k s) = table_delete (route_table s) vr k"
proof (rule ext)
  fix vr'
  have t: "vrf_tree s \<noteq> None" using rb_getexact_SomeD [OF v] by auto
  obtain r where r: "fmlookup (route_mem s) a = Some r" "rt_vrf_id r = vr" "node_key r = k"
    using fib_wf_entry [OF W k] by blast
  have other: "rb_getexact (sai_route_tree u) k' \<noteq> Some a"
    if "rb_getexact (vrf_tree s) vr' = Some u" "vr' \<noteq> vr \<or> k' \<noteq> k" for u vr' k'
    using fib_wf_entry [OF W, of vr' k' a] r that by (auto simp: route_at_def)
  have "Option.bind (rb_getexact (sai_route_tree u) k')
          (\<lambda>b. map_option route_info (fmlookup (fmdrop a (route_mem s)) b))
      = Option.bind (rb_getexact (sai_route_tree u) k')
          (\<lambda>b. map_option route_info (fmlookup (route_mem s) b))"
    if "rb_getexact (vrf_tree s) vr' = Some u" "vr' \<noteq> vr \<or> k' \<noteq> k" for u vr' k'
    using other [OF that] by (cases "rb_getexact (sai_route_tree u) k'") auto
  with v t show "route_table (without_route vr a k s) vr' = table_delete (route_table s) vr k vr'"
    by (cases "rb_getexact (vrf_tree s) vr'")
      (auto simp: without_route_def route_table_def table_delete_def fun_eq_iff)
qed

end
