(* ===== verification/Fib_Links.thy ===== *)
theory Fib_Links
  imports Fib_Core
begin

text \<open>
  The links between encap next hops and the routes that they are resolved over: the list of
  dependents of a route, and the route of a next hop.  Only the resolution of a next hop changes
  them; everything else that the route calls do to next hops and lists leaves them alone.
\<close>

named_theorems link_simps \<open>functions that keep the links\<close>

definition dep_of :: "fib_state \<Rightarrow> addr \<Rightarrow> addr list" where
  "dep_of s a = (case fmlookup (route_mem s) a of None \<Rightarrow> [] | Some r \<Rightarrow> rt_dep_encap_nh_list r)"

definition lpm_of :: "fib_state \<Rightarrow> addr \<Rightarrow> addr option" where
  "lpm_of s e = Option.bind (nh_mem s e) lpm_route"

definition links :: "fib_state \<Rightarrow> (addr \<Rightarrow> addr list) \<times> (addr \<Rightarrow> addr option)" where
  "links s = (dep_of s, lpm_of s)"

lemma links_eq: "links s = links t \<longleftrightarrow> dep_of s = dep_of t \<and> lpm_of s = lpm_of t"
  by (simp add: links_def)

lemma links_mem: "route_mem s = route_mem t \<Longrightarrow> nh_mem s = nh_mem t \<Longrightarrow> links s = links t"
  by (simp add: links_eq dep_of_def lpm_of_def fun_eq_iff)

lemma links_crash [link_simps, simp]: "links (fib_crash s) = links s"
  by (rule links_mem) (simp_all add: fib_crash_def)

lemma links_lock [link_simps, simp]: "links (sai_fib_lock s) = links s" "links (sai_fib_unlock s) = links s"
  by (rule links_mem; simp add: sai_fib_lock_def sai_fib_unlock_def)+

lemma link_sel_crash [simp]: "lpm_of (fib_crash s) = lpm_of s" "dep_of (fib_crash s) = dep_of s"
  using links_crash [of s] by (simp_all only: links_eq)

lemma link_sel_lock [simp]:
  "lpm_of (sai_fib_lock s) = lpm_of s" "lpm_of (sai_fib_unlock s) = lpm_of s"
  "dep_of (sai_fib_lock s) = dep_of s" "dep_of (sai_fib_unlock s) = dep_of s"
  using links_lock [of s] by (simp_all only: links_eq)

section \<open>Writes\<close>

lemma dep_of_route_write:
  "dep_of (route_write a f s) = (case fmlookup (route_mem s) a of None \<Rightarrow> dep_of s
     | Some r \<Rightarrow> (dep_of s)(a := rt_dep_encap_nh_list (f r)))"
  by (auto simp: route_write_def dep_of_def fib_crash_def fun_eq_iff split: option.splits)

lemma lpm_of_route_write [simp]: "lpm_of (route_write a f s) = lpm_of s"
  by (simp add: route_write_def lpm_of_def fib_crash_def fun_eq_iff split: option.split)

lemma dep_of_nh_write [simp]: "dep_of (nh_write e f s) = dep_of s"
  by (simp add: nh_write_def dep_of_def fib_crash_def fun_eq_iff split: option.split)

lemma lpm_of_nh_write:
  "lpm_of (nh_write e f s) = (case nh_mem s e of None \<Rightarrow> lpm_of s
     | Some n \<Rightarrow> (lpm_of s)(e := lpm_route (f n)))"
  by (auto simp: nh_write_def lpm_of_def fib_crash_def fun_eq_iff split: option.splits)

lemma links_route_write:
  "(\<And>r. rt_dep_encap_nh_list (f r) = rt_dep_encap_nh_list r) \<Longrightarrow> links (route_write a f s) = links s"
  by (auto simp: links_eq dep_of_route_write fun_eq_iff split: option.split) (simp add: dep_of_def)

lemma links_nh_write: "(\<And>n. lpm_route (f n) = lpm_route n) \<Longrightarrow> links (nh_write e f s) = links s"
  by (auto simp: links_eq lpm_of_nh_write fun_eq_iff split: option.split) (simp add: lpm_of_def)

lemma links_grp_write [link_simps]: "links (grp_write g f s) = links s"
  by (rule links_mem) (simp_all add: grp_write_def fib_crash_def split: option.split)

lemmas link_writes = links_route_write links_nh_write

section \<open>Functions that keep the links\<close>

lemma links_add_to_nh [link_simps]:
  "links (fst (snd (sai_fib_encap_next_hop_add_to_underlay_nh E e u s w))) = links s"
  by (simp add: sai_fib_encap_next_hop_add_to_underlay_nh_def Let_def split_beta link_writes
      split: option.splits)

lemma links_remove_from_nh [link_simps]:
  "links (sai_fib_encap_next_hop_remove_from_underlay_nh e u s) = links s"
  by (simp add: sai_fib_encap_next_hop_remove_from_underlay_nh_def link_writes split: option.splits)

lemma links_nhg_add_loop [link_simps]:
  "links (fst (snd (underlay_nhg_add_loop E e us st s w))) = links s"
  by (induction us arbitrary: st s w) (simp_all add: split_beta link_simps)

lemma links_add_to_nhg [link_simps]:
  "links (fst (snd (sai_fib_encap_next_hop_add_to_underlay_nhg E e g s w))) = links s"
  by (simp add: sai_fib_encap_next_hop_add_to_underlay_nhg_def link_simps split: option.splits)

lemma links_fold_remove [link_simps]:
  "links (fold (sai_fib_encap_next_hop_remove_from_underlay_nh e) us s) = links s"
  by (induction us arbitrary: s) (simp_all add: link_simps)

lemma links_remove_from_nhg [link_simps]:
  "links (sai_fib_encap_next_hop_remove_from_underlay_nhg e g s) = links s"
  by (simp add: sai_fib_encap_next_hop_remove_from_underlay_nhg_def link_simps split: option.splits)

lemma links_add_to_route_nh [link_simps]:
  "links (fst (snd (sai_fib_encap_next_hop_add_to_underlay_route_nh E e r s w))) = links s"
  by (simp add: sai_fib_encap_next_hop_add_to_underlay_route_nh_def link_simps split: option.splits)

lemma links_remove_from_route_nh [link_simps]:
  "links (sai_fib_encap_next_hop_remove_from_underlay_route_nh e r s) = links s"
  by (simp add: sai_fib_encap_next_hop_remove_from_underlay_route_nh_def link_simps split: option.splits)

lemma links_changelist_loop [link_simps]: "links (fst (changelist_loop E ps s w)) = links s"
  by (induction ps arbitrary: s w) (simp_all split: option.splits)

lemma links_changelist [link_simps]:
  "links (fst (sai_fib_encap_nh_dep_routes_add_to_changelist E e s w)) = links s"
  by (simp add: sai_fib_encap_nh_dep_routes_add_to_changelist_def link_simps split: option.splits)

lemma links_route_read [link_simps]: "links (snd (route_read p s)) = links s"
  by (simp add: route_read_def split: option.splits)

lemma links_lpm_attr_set [link_simps]:
  "links (fst (snd (sai_fib_encap_nh_lpm_route_attr_set E e new s w))) = links s"
  by (simp add: sai_fib_encap_nh_lpm_route_attr_set_def Let_def split_beta link_simps link_writes
      split: option.split)

lemma links_dep_route_add [link_simps]: "links (sai_fib_encap_nh_dep_route_add r s) = links s"
  by (simp add: sai_fib_encap_nh_dep_route_add_def link_writes split: option.split)

lemma links_dep_route_remove [link_simps]: "links (sai_fib_encap_nh_dep_route_remove r s) = links s"
  by (simp add: sai_fib_encap_nh_dep_route_remove_def link_writes split: option.split)

lemma links_attr_set_loop [link_simps]: "links (fst (attr_set_affected_loop E new es s w)) = links s"
  by (induction es arbitrary: s w) (simp_all add: split_beta link_simps)

lemma links_attr_set_affected [link_simps]:
  "links (fst (sai_fib_route_attr_set_affected_encap_nh_update E r new s w)) = links s"
  by (simp add: sai_fib_route_attr_set_affected_encap_nh_update_def split_beta link_simps
      split: option.split)

lemma links_incr [link_simps]: "links (sai_fib_route_nh_ref_count_incr r s) = links s"
  by (simp add: sai_fib_route_nh_ref_count_incr_def link_simps link_writes sai_fib_incr_nh_ref_count_def
      split: option.split sai_fib_route_nh_type_t.split)

lemma links_decr [link_simps]: "links (sai_fib_route_nh_ref_count_decr r s) = links s"
  by (simp add: sai_fib_route_nh_ref_count_decr_def link_simps link_writes sai_fib_decr_nh_ref_count_def
      split: option.split sai_fib_route_nh_type_t.split)

lemma links_free:
  "lpm_of (sai_fib_route_node_free a s) = lpm_of s"
  "dep_of (sai_fib_route_node_free a s) = (dep_of s)(a := [])"
  by (auto simp: sai_fib_route_node_free_def lpm_of_def dep_of_def fib_crash_def fun_eq_iff)

end
