(* ===== verification/Fib_Effects.thy ===== *)
theory Fib_Effects
  imports Fib_Table Fib_Links
begin

text \<open>
  What a route call does to the core of the state: each call either leaves the core as it was,
  or writes, inserts or removes one node and moves one reference count.
\<close>

section \<open>Operations that the core determines\<close>

definition core_determined :: "(fib_state \<Rightarrow> fib_state) \<Rightarrow> bool" where
  "core_determined f \<longleftrightarrow> (\<forall>s. fib_core (f s) = fib_core (f (fib_core s)))"

lemma core_cong: "core_determined f \<Longrightarrow> fib_core s = fib_core t \<Longrightarrow> fib_core (f s) = fib_core (f t)"
  unfolding core_determined_def by metis

lemma nh_core_idem [simp]: "nh_core (nh_core n) = nh_core n"
  by (simp add: nh_core_def)

lemma route_core_idem [simp]: "route_core (route_core r) = route_core r"
  by (simp add: route_core_def)

lemma grp_core_idem [simp]: "grp_core (grp_core g) = grp_core g"
  by (simp add: grp_core_def)

lemma map_core_idem [simp]:
  "fmmap route_core (fmmap route_core m) = fmmap route_core m"
  "map_option nh_core \<circ> (map_option nh_core \<circ> f) = map_option nh_core \<circ> f"
  "map_option grp_core \<circ> (map_option grp_core \<circ> g) = map_option grp_core \<circ> g"
  by (auto intro!: fmap_ext simp: fun_eq_iff option.map_comp comp_def option.map_ident)

lemma fib_core_idem [simp]: "fib_core (fib_core s) = fib_core s"
  by (simp add: fib_core_def)

lemma map_option_upd: "map_option f \<circ> m(a \<mapsto> x) = (map_option f \<circ> m)(a \<mapsto> f x)"
  by (rule ext) simp

lemma det_route_write:
  assumes f: "\<And>r. route_core (f (route_core r)) = route_core (f r)"
  shows "core_determined (route_write a f)"
  unfolding core_determined_def
proof
  fix s
  show "fib_core (route_write a f s) = fib_core (route_write a f (fib_core s))"
  proof (cases "fmlookup (route_mem s) a")
    case None
    then show ?thesis by (simp add: route_write_def)
  next
    case (Some r)
    then show ?thesis by (simp add: route_write_def fib_core_def fmmap_upd f)
  qed
qed

lemma det_nh_write:
  "(\<And>n. nh_core (f (nh_core n)) = nh_core (f n)) \<Longrightarrow> core_determined (nh_write u f)"
  by (auto simp: core_determined_def nh_write_def fib_crash_def fib_core_def map_option_upd
      split: option.splits)

lemma det_grp_write:
  "(\<And>g. grp_core (f (grp_core g)) = grp_core (f g)) \<Longrightarrow> core_determined (grp_write u f)"
  by (auto simp: core_determined_def grp_write_def fib_crash_def fib_core_def map_option_upd
      split: option.splits)

lemma det_free: "core_determined (sai_fib_route_node_free a)"
  unfolding core_determined_def
proof
  fix s
  show "fib_core (sai_fib_route_node_free a s) = fib_core (sai_fib_route_node_free a (fib_core s))"
  proof (cases "fmlookup (route_mem s) a")
    case None
    then show ?thesis by (simp add: sai_fib_route_node_free_def)
  next
    case (Some r)
    then show ?thesis by (simp add: sai_fib_route_node_free_def) (simp add: fib_core_def)
  qed
qed

lemma det_unlock: "core_determined sai_fib_unlock"
  by (simp add: core_determined_def sai_fib_unlock_def fib_core_def)

section \<open>Reference counts by target\<close>

definition ref_incr :: "route_target \<Rightarrow> fib_state \<Rightarrow> fib_state" where
  "ref_incr t s = (case t of
       Target_Next_Hop (Some u) \<Rightarrow> nh_write u sai_fib_incr_nh_ref_count s
     | Target_Group (Some g) \<Rightarrow> grp_write g sai_fib_incr_nh_group_ref_count s
     | _ \<Rightarrow> s)"

definition ref_decr :: "route_target \<Rightarrow> fib_state \<Rightarrow> fib_state" where
  "ref_decr t s = (case t of
       Target_Next_Hop (Some u) \<Rightarrow> nh_write u sai_fib_decr_nh_ref_count s
     | Target_Group (Some g) \<Rightarrow> grp_write g sai_fib_decr_nh_group_ref_count s
     | _ \<Rightarrow> s)"

lemma ref_count_incr_target:
  "fmlookup (route_mem s) a = Some r \<Longrightarrow> sai_fib_route_nh_ref_count_incr a s = ref_incr (target_of r) s"
  by (simp add: sai_fib_route_nh_ref_count_incr_def ref_incr_def target_of_def
      split: sai_fib_route_nh_type_t.split option.split)

lemma ref_count_decr_target:
  "fmlookup (route_mem s) a = Some r \<Longrightarrow> sai_fib_route_nh_ref_count_decr a s = ref_decr (target_of r) s"
  by (simp add: sai_fib_route_nh_ref_count_decr_def ref_decr_def target_of_def
      split: sai_fib_route_nh_type_t.split option.split)

lemma det_ref_incr: "core_determined (ref_incr t)"
proof -
  have "core_determined (nh_write u sai_fib_incr_nh_ref_count)" for u
    by (rule det_nh_write) (simp add: sai_fib_incr_nh_ref_count_def nh_core_def)
  moreover have "core_determined (grp_write g sai_fib_incr_nh_group_ref_count)" for g
    by (rule det_grp_write) (simp add: sai_fib_incr_nh_group_ref_count_def grp_core_def)
  ultimately show ?thesis
    by (auto simp: core_determined_def ref_incr_def split: route_target.split option.split)
qed

lemma det_ref_decr: "core_determined (ref_decr t)"
proof -
  have "core_determined (nh_write u sai_fib_decr_nh_ref_count)" for u
    by (rule det_nh_write) (simp add: sai_fib_decr_nh_ref_count_def nh_core_def)
  moreover have "core_determined (grp_write g sai_fib_decr_nh_group_ref_count)" for g
    by (rule det_grp_write) (simp add: sai_fib_decr_nh_group_ref_count_def grp_core_def)
  ultimately show ?thesis
    by (auto simp: core_determined_def ref_decr_def split: route_target.split option.split)
qed

lemma ref_sel [simp]:
  "vrf_tree (ref_incr t s) = vrf_tree s" "route_mem (ref_incr t s) = route_mem s"
  "vrf_tree (ref_decr t s) = vrf_tree s" "route_mem (ref_decr t s) = route_mem s"
  "nh_id_tree (ref_incr t s) = nh_id_tree s" "nh_id_tree (ref_decr t s) = nh_id_tree s"
  "nh_group_tree (ref_incr t s) = nh_group_tree s" "nh_group_tree (ref_decr t s) = nh_group_tree s"
  "route_at (ref_incr t s) = route_at s" "route_at (ref_decr t s) = route_at s"
  by (auto simp: ref_incr_def ref_decr_def nh_write_def grp_write_def fib_crash_def route_at_def fun_eq_iff
      split: route_target.split option.split)

lemma ref_table [simp]:
  "fib_wf (ref_incr t s) = fib_wf s" "fib_wf (ref_decr t s) = fib_wf s"
  "route_table (ref_incr t s) = route_table s" "route_table (ref_decr t s) = route_table s"
  by (simp_all add: fib_wf_def route_table_def fun_eq_iff)

lemma links_with [simp]:
  "lpm_of (with_route a r s) = lpm_of s" "dep_of (with_route a r s) = (dep_of s)(a := rt_dep_encap_nh_list r)"
  by (auto simp: lpm_of_def dep_of_def with_route_def fun_eq_iff)

lemma links_with_new:
  "rb_getexact (vrf_tree s) vr = Some v \<Longrightarrow> links (with_new_route vr a r s) = links (with_route a r s)"
  by (rule links_mem) (simp_all add: with_new_route_def)

section \<open>Locks\<close>

lemma lock_sel [simp]:
  "vrf_tree (sai_fib_lock s) = vrf_tree s" "route_mem (sai_fib_lock s) = route_mem s"
  "nh_mem (sai_fib_lock s) = nh_mem s" "grp_mem (sai_fib_lock s) = grp_mem s"
  "nh_id_tree (sai_fib_lock s) = nh_id_tree s" "nh_group_tree (sai_fib_lock s) = nh_group_tree s"
  "fib_fault (sai_fib_lock s) = fib_fault s" "route_at (sai_fib_lock s) = route_at s"
  "vrf_tree (sai_fib_unlock s) = vrf_tree s" "route_mem (sai_fib_unlock s) = route_mem s"
  "nh_mem (sai_fib_unlock s) = nh_mem s" "grp_mem (sai_fib_unlock s) = grp_mem s"
  "nh_id_tree (sai_fib_unlock s) = nh_id_tree s" "nh_group_tree (sai_fib_unlock s) = nh_group_tree s"
  "fib_fault (sai_fib_unlock s) = fib_fault s" "route_at (sai_fib_unlock s) = route_at s"
  by (simp_all add: sai_fib_lock_def sai_fib_unlock_def route_at_def fun_eq_iff)

lemma unlock_lock [simp]: "sai_fib_unlock (sai_fib_lock s) = s"
  by (simp add: sai_fib_lock_def sai_fib_unlock_def)

lemma lock_commutes:
  "with_route a r (sai_fib_lock s) = sai_fib_lock (with_route a r s)"
  "with_new_route vr a r (sai_fib_lock s) = sai_fib_lock (with_new_route vr a r s)"
  "without_route vr a k (sai_fib_lock s) = sai_fib_lock (without_route vr a k s)"
  "ref_incr t (sai_fib_lock s) = sai_fib_lock (ref_incr t s)"
  "ref_decr t (sai_fib_lock s) = sai_fib_lock (ref_decr t s)"
  by (auto simp: with_route_def with_new_route_def without_route_def ref_incr_def ref_decr_def
      nh_write_def grp_write_def fib_crash_def sai_fib_lock_def
      split: option.split route_target.split)

lemma get_lock [simp]: "sai_fib_route_node_get E en (sai_fib_lock s) = sai_fib_route_node_get E en s"
  by (simp add: sai_fib_route_node_get_def)

lemma node_get_at: "sai_fib_route_node_get E en s = route_at s (vr_id en) (route_entry_key E en)"
  by (simp add: sai_fib_route_node_get_def route_at_def split: option.split)

section \<open>Parsing keeps the place of a node\<close>

definition same_place :: "sai_fib_route_t \<Rightarrow> sai_fib_route_t \<Rightarrow> bool" where
  "same_place r r' \<longleftrightarrow> rt_vrf_id r' = rt_vrf_id r \<and> rt_prefix r' = rt_prefix r
     \<and> prefix_len r' = prefix_len r \<and> rt_dep_encap_nh_list r' = rt_dep_encap_nh_list r
     \<and> hw_info r' = hw_info r"

lemma same_place_refl [simp]: "same_place r r"
  by (simp add: same_place_def)

lemma same_place_trans: "same_place r r' \<Longrightarrow> same_place r' r'' \<Longrightarrow> same_place r r''"
  by (simp add: same_place_def)

lemma same_place_key: "same_place r r' \<Longrightarrow> node_key r' = node_key r \<and> rt_vrf_id r' = rt_vrf_id r"
  by (simp add: same_place_def node_key_def)

lemma accept_place: "route_attribute_accept E s w attr r = (rc, r') \<Longrightarrow> same_place r r'"
  by (auto simp: route_attribute_accept_def sai_fib_route_nh_id_attr_set_def
      sai_fib_route_nh_grp_id_attr_set_def sai_fib_route_pkt_action_attr_set_def same_place_def
      split: sai_route_entry_attr_t.splits option.splits if_splits prod.splits)

lemma parse_loop_place: "route_parse_loop E s w i attrs r = (rc, r') \<Longrightarrow> same_place r r'"
  by (induction attrs arbitrary: i r)
    (auto split: prod.splits if_splits dest!: accept_place intro: same_place_trans)

lemma parse_place: "sai_fib_route_attributes_parse E s w attrs r = (rc, r') \<Longrightarrow> same_place r r'"
  by (auto simp: sai_fib_route_attributes_parse_def split: prod.splits if_splits dest: parse_loop_place)

lemma node_init_place [simp]:
  "node_key (sai_fib_route_node_init E en) = route_entry_key E en"
  "rt_vrf_id (sai_fib_route_node_init E en) = vr_id en"
  by (simp_all add: sai_fib_route_node_init_def node_key_def route_entry_key_def split_beta)

end
