(* ===== verification/Fib_Calls.thy ===== *)
theory Fib_Calls
  imports Fib_Effects
begin

text \<open>
  The effect of each route call, as elimination rules: one case for each way the call can end,
  with the core of the state it leaves.
\<close>

text \<open>The allocator gives addresses that are not in use.\<close>

definition fresh_alloc :: "('w, 'z) fib_env_scheme \<Rightarrow> bool" where
  "fresh_alloc E \<longleftrightarrow> (\<forall>A w a w'. route_node_alloc E A w = (Some a, w') \<longrightarrow> a |\<notin>| A)"

lemma fresh_allocD:
  "fresh_alloc E \<Longrightarrow> route_node_alloc E (fmdom m) w = (Some a, w') \<Longrightarrow> fmlookup m a = None"
  unfolding fresh_alloc_def by (metis fmdom_notD)

section \<open>Insertion\<close>

lemma insert_effect:
  assumes run: "sai_fib_route_node_insert_to_tree E a vr s w = (rc, s', w')"
    and v: "rb_getexact (vrf_tree s) vr = Some v" "vrf_id v = vr"
    and r: "fmlookup (route_mem s) a = Some r" and free: "rb_getexact (sai_route_tree v) (node_key r) = None"
  obtains (inserted) "rc = SAI_STATUS_SUCCESS" "s' = with_new_route vr a r s"
    | (refused) "rc \<noteq> SAI_STATUS_SUCCESS" "s' = sai_fib_route_node_free a s"
proof -
  obtain ok w1 where ins: "std_radix_insert_ok E w = (ok, w1)" by (metis surj_pair)
  have keep: "vrf_write v s = s" using v by (simp add: vrf_write_def rb_put_same)
  note run = run [unfolded sai_fib_route_node_insert_to_tree_def, folded node_key_def]
  show thesis
  proof (cases ok)
    case True
    with run v r free ins have "rc = SAI_STATUS_SUCCESS"
      "s' = vrf_write (v\<lparr>sai_route_tree := rb_put (sai_route_tree v) (node_key r) a\<rparr>) s"
      by (auto simp: std_radix_insert_def node_key_def)
    moreover have "with_new_route vr a r s
        = vrf_write (v\<lparr>sai_route_tree := rb_put (sai_route_tree v) (node_key r) a\<rparr>) s"
      using v with_route_same [OF r] by (simp add: with_new_route_def vrf_write_def)
    ultimately show thesis using inserted by simp
  next
    case False
    with run v r free ins keep have "rc = SAI_STATUS_FAILURE" "s' = sai_fib_route_node_free a s"
      by (auto simp: std_radix_insert_def node_key_def)
    then show thesis using refused by simp
  qed
qed

section \<open>Creation\<close>

lemma affected_core:
  "sai_fib_route_affected_encap_nh_update E a op s w = (s', w') \<Longrightarrow> fib_core s' = fib_core s"
  using core_affected [of E a op s w] by simp

lemma install_tail:
  assumes aff: "sai_fib_route_affected_encap_nh_update E a SAI_OP_CREATE s w = (s1, w1)"
    and r: "fmlookup (route_mem s) a = Some r"
  shows "fib_core (sai_fib_encap_nh_dep_route_add a (sai_fib_route_nh_ref_count_incr a s1))
    = fib_core (ref_incr (target_of r) s)"
    and "links (sai_fib_encap_nh_dep_route_add a (sai_fib_route_nh_ref_count_incr a s1)) = links s1"
proof -
  show "links (sai_fib_encap_nh_dep_route_add a (sai_fib_route_nh_ref_count_incr a s1)) = links s1"
    by (simp add: link_simps)
  have c: "fib_core s1 = fib_core s" by (rule affected_core [OF aff])
  from fib_coreD(7) [OF c, of a] r obtain r1
    where r1: "fmlookup (route_mem s1) a = Some r1" "route_core r1 = route_core r" by auto
  have "target_of r1 = target_of r" using r1(2) target_of_core by metis
  then show "fib_core (sai_fib_encap_nh_dep_route_add a (sai_fib_route_nh_ref_count_incr a s1))
    = fib_core (ref_incr (target_of r) s)"
    by (simp add: core_simps ref_count_incr_target [OF r1(1)] core_cong [OF det_ref_incr c])
qed

text \<open>The part from the parse on, with a node \<open>r0\<close> at \<open>a\<close>.  \<open>place\<close> stands for the insertion.\<close>

lemma install_effect:
  assumes run: "route_create_install E vr a al attrs s w = (rc, s', w')"
    and r0: "fmlookup (route_mem s) a = Some r0"
    and al: "al \<longrightarrow> (\<exists>v. rb_getexact (vrf_tree s) vr = Some v \<and> vrf_id v = vr
      \<and> rb_getexact (sai_route_tree v) (node_key r0) = None)"
  obtains (failed) r1 where "rc \<noteq> SAI_STATUS_SUCCESS" "s' = with_route a r1 s"
    | (refused) r1 where "rc \<noteq> SAI_STATUS_SUCCESS" "al"
        "s' = sai_fib_route_node_free a (with_route a r1 s)"
    | (installed) r1 hw w1 where "rc = SAI_STATUS_SUCCESS"
        "sai_fib_route_attributes_parse E s w attrs r0 = (SAI_STATUS_SUCCESS, r1)"
        "npu_route_create E r1 w = (SAI_STATUS_SUCCESS, hw, w1)"
        "fib_core s' = fib_core (ref_incr (target_of r1)
           (if al then with_new_route vr a (r1\<lparr>hw_info := hw\<rparr>) s else with_route a (r1\<lparr>hw_info := hw\<rparr>) s))"
        "\<exists>w. links s' = links (fst (sai_fib_route_affected_encap_nh_update E a SAI_OP_CREATE
           (if al then with_new_route vr a (r1\<lparr>hw_info := hw\<rparr>) s else with_route a (r1\<lparr>hw_info := hw\<rparr>) s) w))"
proof -
  obtain rc1 r1 where p: "sai_fib_route_attributes_parse E s w attrs r0 = (rc1, r1)" by (metis surj_pair)
  obtain rc2 hw w2 where n: "npu_route_create E r1 w = (rc2, hw, w2)" by (metis prod_cases3)
  let ?r = "r1\<lparr>hw_info := hw\<rparr>" and ?s = "with_route a (r1\<lparr>hw_info := hw\<rparr>) s"
  have key: "node_key ?r = node_key r0" using parse_place [OF p] by (simp add: same_place_def node_key_def)
  have t: "target_of ?r = target_of r1" by (cases "nh_type r1") (simp_all add: target_of_def)
  note run = run [unfolded route_create_install_def r0 option.case p prod.case Let_def
      route_write_Some [OF r0] n route_write_with]
  show thesis
  proof (cases "rc1 = SAI_STATUS_SUCCESS \<and> rc2 = SAI_STATUS_SUCCESS")
    case False
    with run show thesis by (auto simp: n split: if_splits intro: failed)
  next
    case True
    show thesis
    proof (cases al)
      case al': False
      obtain s3 w3 where aff: "sai_fib_route_affected_encap_nh_update E a SAI_OP_CREATE ?s w2 = (s3, w3)"
        by (metis surj_pair)
      have "rc = SAI_STATUS_SUCCESS \<and> fib_core s' = fib_core (ref_incr (target_of ?r) ?s) \<and> links s' = links s3"
        using run True al' aff install_tail [OF aff, of ?r] by (auto simp: n)
      moreover have "s3 = fst (sai_fib_route_affected_encap_nh_update E a SAI_OP_CREATE ?s w2)" using aff by simp
      ultimately show thesis using True p n al' t by (intro installed) auto
    next
      case al': True
      obtain v where v: "rb_getexact (vrf_tree ?s) vr = Some v" "vrf_id v = vr"
        "rb_getexact (sai_route_tree v) (node_key ?r) = None"
        using al al' key by auto
      obtain rc3 s3 w3 where ins: "sai_fib_route_node_insert_to_tree E a vr ?s w2 = (rc3, s3, w3)"
        by (metis prod_cases3)
      have lk: "fmlookup (route_mem ?s) a = Some ?r" by simp
      from ins v(1,2) lk v(3) show thesis
      proof (cases rule: insert_effect)
        case refused': refused
        with run True al' ins have "rc \<noteq> SAI_STATUS_SUCCESS" "s' = sai_fib_route_node_free a ?s"
          by (auto simp: n)
        with al' show thesis by (intro refused)
      next
        case inserted
        have w: "s3 = with_new_route vr a ?r s" and m: "fmlookup (route_mem s3) a = Some ?r"
          using inserted v by (simp_all add: with_new_route_def)
        obtain s4 w4 where aff: "sai_fib_route_affected_encap_nh_update E a SAI_OP_CREATE s3 w3 = (s4, w4)"
          by (metis surj_pair)
        have "rc = SAI_STATUS_SUCCESS \<and> fib_core s' = fib_core (ref_incr (target_of ?r) s3) \<and> links s' = links s4"
          using run True al' ins inserted(1) aff install_tail [OF aff m] by (auto simp: n)
        moreover have "s4 = fst (sai_fib_route_affected_encap_nh_update E a SAI_OP_CREATE s3 w3)" using aff by simp
        ultimately show thesis using True p n al' w t by (intro installed) auto
      qed
    qed
  qed
qed

lemma free_with: "sai_fib_route_node_free a (with_route a r s) = s\<lparr>route_mem := fmdrop a (route_mem s)\<rparr>"
  by (simp add: sai_fib_route_node_free_def with_route_def fmdrop_fmupd_same)

lemma drop_absent: "fmlookup m a = None \<Longrightarrow> fmdrop a m = m"
  by (rule fmap_ext) auto

lemma free_new:
  "fmlookup (route_mem s) a = None \<Longrightarrow> sai_fib_route_node_free a (with_route a r s) = s"
  by (simp add: free_with drop_absent)

text \<open>Freeing it again.\<close>

lemma free_twice:
  "fmlookup (route_mem s) a = None \<Longrightarrow>
     sai_fib_route_node_free a (sai_fib_route_node_free a (with_route a r s)) = fib_crash s"
  by (simp add: free_new) (simp add: sai_fib_route_node_free_def)

lemma unlock_with:
  "sai_fib_unlock (with_route a r (sai_fib_lock s)) = with_route a r s"
  by (simp add: lock_commutes)

lemma core_unlock:
  "fib_core s' = fib_core (sai_fib_lock t) \<Longrightarrow> fib_core (sai_fib_unlock s') = fib_core t"
  using core_cong [OF det_unlock, of s' "sai_fib_lock t"] by simp

lemma parse_ids:
  assumes "nh_id_tree s' = nh_id_tree s" and "nh_group_tree s' = nh_group_tree s"
  shows "sai_fib_route_attributes_parse E s' w attrs r = sai_fib_route_attributes_parse E s w attrs r"
proof -
  have "route_attribute_accept E s' w a r = route_attribute_accept E s w a r" for a r
    by (cases a) (simp_all add: route_attribute_accept_def sai_fib_route_nh_id_attr_set_def
        sai_fib_route_nh_grp_id_attr_set_def assms)
  then have "route_parse_loop E s' w i attrs r = route_parse_loop E s w i attrs r" for i
    by (induction attrs arbitrary: i r) (auto simp: Let_def split_beta)
  then show ?thesis by (simp add: sai_fib_route_attributes_parse_def)
qed

lemma parse_state [simp]:
  "sai_fib_route_attributes_parse E (sai_fib_lock s) w attrs r = sai_fib_route_attributes_parse E s w attrs r"
  "sai_fib_route_attributes_parse E (with_route b r' s) w attrs r = sai_fib_route_attributes_parse E s w attrs r"
  by (rule parse_ids; simp)+

lemma route_create_effect:
  assumes run: "sai_fib_route_create E en attrs s w = (rc, s', w')"
    and W: "fib_wf s" and F: "fresh_alloc E"
  obtains (failed) "rc \<noteq> SAI_STATUS_SUCCESS" "fib_core s' = fib_core s" "links s' = links s"
    | (created) a r hw v w0 w1 where "rc = SAI_STATUS_SUCCESS"
        "rb_getexact (vrf_tree s) (vr_id en) = Some v" "route_at s (vr_id en) (route_entry_key E en) = None"
        "fmlookup (route_mem s) a = None"
        "sai_fib_route_attributes_parse E s w0 attrs (sai_fib_route_node_init E en) = (SAI_STATUS_SUCCESS, r)"
        "npu_route_create E r w0 = (SAI_STATUS_SUCCESS, hw, w1)"
        "fib_core s' = fib_core (ref_incr (target_of r) (with_new_route (vr_id en) a (r\<lparr>hw_info := hw\<rparr>) s))"
        "\<exists>w. links s' = links (fst (sai_fib_route_affected_encap_nh_update E a SAI_OP_CREATE
           (sai_fib_lock (with_new_route (vr_id en) a (r\<lparr>hw_info := hw\<rparr>) s)) w))"
    | (taken_over) a r0 r hw w1 where "rc = SAI_STATUS_SUCCESS"
        "route_at s (vr_id en) (route_entry_key E en) = Some a" "sai_fib_is_default_route_entry E en"
        "fmlookup (route_mem s) a = Some r0" "hw_info r0 = None"
        "sai_fib_route_attributes_parse E s w attrs (r0\<lparr>packet_action := SAI_FIB_ROUTE_DFLT_PKT_ACTION\<rparr>)
           = (SAI_STATUS_SUCCESS, r)"
        "npu_route_create E r w = (SAI_STATUS_SUCCESS, hw, w1)"
        "fib_core s' = fib_core (ref_incr (target_of r) (with_route a (r\<lparr>hw_info := hw\<rparr>) s))"
        "\<exists>w. links s' = links (fst (sai_fib_route_affected_encap_nh_update E a SAI_OP_CREATE
           (sai_fib_lock (with_route a (r\<lparr>hw_info := hw\<rparr>) s)) w))"
proof -
  let ?L = "sai_fib_lock s" and ?vr = "vr_id en"
  show thesis
  proof (cases "sai_fib_route_input_params_validate en (length attrs) = SAI_STATUS_SUCCESS
      \<and> rb_getexact (vrf_tree s) ?vr \<noteq> None")
    case False
    with run show thesis by (intro failed) (auto simp: sai_fib_route_create_def Let_def split: if_splits)
  next
    case True
    then obtain v where v: "rb_getexact (vrf_tree s) ?vr = Some v" by auto
    obtain rc1 p al old s1 w1 where nd: "route_create_node E en ?L w = (rc1, p, al, old, s1, w1)"
      by (metis prod_cases6)
    note run = run [unfolded sai_fib_route_create_def Let_def nd prod.case]
    note nd = nd [unfolded route_create_node_def get_lock node_get_at lock_sel]
    show thesis
    proof (cases "route_at s ?vr (route_entry_key E en)")
      case None
      obtain q w2 where al: "route_node_alloc E (fmdom (route_mem s)) w = (q, w2)" by (metis surj_pair)
      show thesis
      proof (cases q)
        case q: None
        with nd None al run True show thesis by (intro failed) (auto simp: route_create_cleanup_def)
      next
        case (Some a)
        let ?i = "sai_fib_route_node_init E en"
        have a: "fmlookup (route_mem s) a = None" using fresh_allocD [OF F] al Some by auto
        have n: "rc1 = SAI_STATUS_SUCCESS" "p = Some a" "al" "old = None" "w1 = w2"
          "s1 = sai_fib_lock (with_route a ?i s)"
          using nd None al Some by (auto simp: with_route_def sai_fib_lock_def)
        obtain rc2 s2 w3 where ins: "route_create_install E ?vr a True attrs s1 w1 = (rc2, s2, w3)"
          by (metis prod_cases3)
        have r0: "fmlookup (route_mem s1) a = Some ?i" by (simp add: n)
        have place: "True \<longrightarrow> (\<exists>v. rb_getexact (vrf_tree s1) ?vr = Some v \<and> vrf_id v = ?vr
            \<and> rb_getexact (sai_route_tree v) (node_key ?i) = None)"
          using v fib_wf_vrf [OF W v] None by (simp add: n route_at_def)
        have rc: "rc = rc2" using run n True ins by auto
        from ins r0 place show thesis
        proof (cases rule: install_effect)
          case (failed r1)
          have "s' = route_create_cleanup p al old (sai_fib_unlock s2)" using run n True ins failed(1) by auto
          also have "\<dots> = s"
            using failed(2) a by (simp add: n lock_commutes route_create_cleanup_def free_new)
          finally show thesis using that(1) rc failed(1) by simp
        next
          case (refused r1)
          have m: "fmlookup (route_mem ?L) a = None" using a by simp
          have "s' = route_create_cleanup p al old (sai_fib_unlock s2)" using run n True ins refused(1) by auto
          also have "\<dots> = sai_fib_route_node_free a (sai_fib_unlock s2)"
            by (simp add: n route_create_cleanup_def)
          also have "sai_fib_unlock s2 = s"
            using refused(3) free_new [OF m] by (simp add: n lock_commutes [symmetric])
          finally have "fib_core s' = fib_core s" "links s' = links s"
            using a by (simp_all add: sai_fib_route_node_free_def)
          then show thesis using that(1) rc refused(1) by simp
        next
          case (installed r1 hw w4)
          have "s' = sai_fib_unlock s2" using run n True ins installed(1) by auto
          moreover have "fib_core s2 = fib_core (sai_fib_lock
              (ref_incr (target_of r1) (with_new_route ?vr a (r1\<lparr>hw_info := hw\<rparr>) s)))"
            using installed(4) v
            by (simp add: n lock_commutes) (simp add: with_new_route_def)
          ultimately have "fib_core s' = fib_core (ref_incr (target_of r1)
              (with_new_route ?vr a (r1\<lparr>hw_info := hw\<rparr>) s))" using core_unlock by blast
          moreover have "with_new_route ?vr a (r1\<lparr>hw_info := hw\<rparr>) s1
              = sai_fib_lock (with_new_route ?vr a (r1\<lparr>hw_info := hw\<rparr>) s)"
            using v by (simp add: n lock_commutes) (simp add: with_new_route_def with_route_def)
          ultimately show thesis
            using installed \<open>s' = sai_fib_unlock s2\<close> v None a rc n by (intro that(2)) auto
        qed
      qed
    next
      case (Some a)
      obtain r0 where r0: "fmlookup (route_mem s) a = Some r0" using fib_wf_entry [OF W Some] by blast
      show thesis
      proof (cases "sai_fib_is_default_route_entry E en \<and> hw_info r0 = None")
        case False
        have n: "rc1 = SAI_STATUS_ITEM_ALREADY_EXISTS" "p = Some a" "\<not> al" "old = None"
          "s1 = sai_fib_lock s"
          using nd [unfolded Some option.case] r0 False by (auto split: if_splits)
        with run True show thesis by (intro failed) (auto simp: route_create_cleanup_def)
      next
        case dflt: True
        let ?r = "r0\<lparr>packet_action := SAI_FIB_ROUTE_DFLT_PKT_ACTION\<rparr>"
        have n: "rc1 = SAI_STATUS_SUCCESS" "p = Some a" "\<not> al" "old = Some r0" "w1 = w"
          "s1 = sai_fib_lock (with_route a ?r s)"
          using nd Some r0 dflt by (auto simp: route_write_Some lock_commutes)
        obtain rc2 s2 w3 where ins: "route_create_install E ?vr a False attrs s1 w1 = (rc2, s2, w3)"
          by (metis prod_cases3)
        have lk: "fmlookup (route_mem s1) a = Some ?r" by (simp add: n)
        have rc: "rc = rc2" using run n True ins by auto
        have nal: "False \<longrightarrow> (\<exists>v. rb_getexact (vrf_tree s1) ?vr = Some v \<and> vrf_id v = ?vr
            \<and> rb_getexact (sai_route_tree v) (node_key ?r) = None)" by simp
        from ins lk nal show thesis
        proof (cases rule: install_effect)
          case (failed r1)
          have "s' = route_create_cleanup p al old (sai_fib_unlock s2)" using run n True ins failed(1) by auto
          also have "\<dots> = s"
            using failed(2) r0 by (simp add: n lock_commutes route_create_cleanup_def with_route_same)
          finally show thesis using that(1) rc failed(1) by simp
        next
          case (installed r1 hw w4)
          have "s' = sai_fib_unlock s2" using run n True ins installed(1) by auto
          moreover have "fib_core s2 = fib_core (sai_fib_lock
              (ref_incr (target_of r1) (with_route a (r1\<lparr>hw_info := hw\<rparr>) s)))"
            using installed(4) by (simp add: n lock_commutes)
          ultimately have "fib_core s' = fib_core (ref_incr (target_of r1)
              (with_route a (r1\<lparr>hw_info := hw\<rparr>) s))" using core_unlock by blast
          moreover have "with_route a (r1\<lparr>hw_info := hw\<rparr>) s1
              = sai_fib_lock (with_route a (r1\<lparr>hw_info := hw\<rparr>) s)" by (simp add: n lock_commutes)
          ultimately show thesis
            using installed \<open>s' = sai_fib_unlock s2\<close> Some r0 rc dflt n by (intro that(3)) auto
        qed auto
      qed
    qed
  qed
qed

section \<open>Removal\<close>

lemma ref_commute:
  "ref_decr t (with_route a r s) = with_route a r (ref_decr t s)"
  "ref_incr t (with_route a r s) = with_route a r (ref_incr t s)"
  "ref_decr t (s\<lparr>route_mem := m\<rparr>) = (ref_decr t s)\<lparr>route_mem := m\<rparr>"
  by (auto simp: ref_decr_def ref_incr_def with_route_def nh_write_def grp_write_def fib_crash_def
      split: route_target.split option.split)

text \<open>The steps after the affected encap next hops have been updated.\<close>

lemma remove_tail:
  assumes c: "fib_core s2 = fib_core s1" and r: "fmlookup (route_mem s1) a = Some r"
  shows "fib_core (route_write a (\<lambda>r. r\<lparr>nh_type := SAI_FIB_ROUTE_NH_TYPE_NONE\<rparr>)
      (sai_fib_route_nh_ref_count_decr a (sai_fib_encap_nh_dep_route_remove a s2)))
    = fib_core (with_route a (r\<lparr>nh_type := SAI_FIB_ROUTE_NH_TYPE_NONE\<rparr>) (ref_decr (target_of r) s1))"
proof -
  let ?f = "\<lambda>r. r\<lparr>nh_type := SAI_FIB_ROUTE_NH_TYPE_NONE\<rparr>" and ?s3 = "sai_fib_encap_nh_dep_route_remove a s2"
  have c3: "fib_core ?s3 = fib_core s1" using c by (simp add: core_simps)
  from fib_coreD(7) [OF c3, of a] r obtain r3
    where r3: "fmlookup (route_mem ?s3) a = Some r3" "route_core r3 = route_core r" by auto
  have "target_of r3 = target_of r" using r3(2) target_of_core by metis
  then have "fib_core (sai_fib_route_nh_ref_count_decr a ?s3) = fib_core (ref_decr (target_of r) s1)"
    by (simp add: ref_count_decr_target [OF r3(1)] core_cong [OF det_ref_decr c3])
  moreover have "core_determined (route_write a ?f)"
    by (rule det_route_write) (simp add: route_core_def)
  ultimately have "fib_core (route_write a ?f (sai_fib_route_nh_ref_count_decr a ?s3))
      = fib_core (route_write a ?f (ref_decr (target_of r) s1))" by (rule core_cong [rotated])
  also have "route_write a ?f (ref_decr (target_of r) s1) = with_route a (?f r) (ref_decr (target_of r) s1)"
    using r by (simp add: route_write_Some)
  finally show ?thesis .
qed

lemma tree_remove_with:
  assumes "rb_getexact (vrf_tree s) vr = Some v" "vrf_id v = vr" and "node_key r = k"
  shows "(route_tree_remove vr a (with_route a r s))\<lparr>route_mem := fmdrop a (route_mem s)\<rparr>
      = without_route vr a k s"
    and "route_mem (route_tree_remove vr a (with_route a r s)) = fmupd a r (route_mem s)"
  using assms by (simp_all add: route_tree_remove_def node_key_def vrf_write_def without_route_def with_route_def)

lemma route_remove_effect:
  assumes run: "sai_fib_route_remove E en s w = (rc, s', w')" and W: "fib_wf s"
  obtains (failed) "rc \<noteq> SAI_STATUS_SUCCESS" "fib_core s' = fib_core s" "links s' = links s"
    | (refused) a r hw w1 where "rc \<noteq> SAI_STATUS_SUCCESS"
        "route_at s (vr_id en) (route_entry_key E en) = Some a" "fmlookup (route_mem s) a = Some r"
        "npu_route_remove E r w = (rc, hw, w1)"
        "s' = with_route a (r\<lparr>hw_info := hw\<rparr>) s"
    | (removed) a r v where "rc = SAI_STATUS_SUCCESS" "rb_getexact (vrf_tree s) (vr_id en) = Some v"
        "route_at s (vr_id en) (route_entry_key E en) = Some a" "\<not> sai_fib_is_default_route_entry E en"
        "fmlookup (route_mem s) a = Some r"
        "fib_core s' = fib_core (ref_decr (target_of r)
           (without_route (vr_id en) a (route_entry_key E en) s))"
        "\<exists>hw w. let s2 = fst (sai_fib_route_affected_encap_nh_update E a SAI_OP_REMOVE
             (route_tree_remove (vr_id en) a (with_route a (r\<lparr>hw_info := hw\<rparr>) (sai_fib_lock s))) w)
           in lpm_of s' = lpm_of s2 \<and> dep_of s' = (dep_of s2)(a := [])"
    | (reset) a r hw where "rc = SAI_STATUS_SUCCESS"
        "route_at s (vr_id en) (route_entry_key E en) = Some a" "sai_fib_is_default_route_entry E en"
        "fmlookup (route_mem s) a = Some r"
        "fib_core s' = fib_core (ref_decr (target_of r) (with_route a
           (r\<lparr>hw_info := hw, packet_action := SAI_PACKET_ACTION_DROP,
              nh_type := SAI_FIB_ROUTE_NH_TYPE_NONE\<rparr>) s))"
        "\<exists>w. links s' = links (fst (sai_fib_route_affected_encap_nh_update E a SAI_OP_REMOVE
           (sai_fib_lock (with_route a (r\<lparr>hw_info := hw, packet_action := SAI_PACKET_ACTION_DROP\<rparr>) s)) w))"
proof -
  let ?L = "sai_fib_lock s" and ?vr = "vr_id en" and ?k = "route_entry_key E en"
  show thesis
  proof (cases "sai_fib_uc_route_entry_validate en = SAI_STATUS_SUCCESS \<and> route_at s ?vr ?k \<noteq> None")
    case False
    with run show thesis
      by (intro failed) (auto simp: sai_fib_route_remove_def route_remove_body_def Let_def node_get_at
          split: if_splits)
  next
    case True
    then obtain a where a: "route_at s ?vr ?k = Some a" by auto
    then obtain v where v: "rb_getexact (vrf_tree s) ?vr = Some v" "vrf_id v = ?vr"
      using fib_wf_vrf [OF W] by (auto simp: route_at_def bind_eq_Some_conv)
    obtain r where r: "fmlookup (route_mem s) a = Some r" "node_key r = ?k"
      using fib_wf_entry [OF W a] by blast
    obtain rc1 hw w1 where n: "npu_route_remove E r w = (rc1, hw, w1)" by (metis prod_cases3)
    let ?r = "r\<lparr>hw_info := hw\<rparr>"
    have key: "node_key ?r = ?k" using r by (simp add: node_key_def)
    have lk: "fmlookup (route_mem ?L) a = Some r" using r by simp
    note run = run [unfolded sai_fib_route_remove_def route_remove_body_def Let_def node_get_at lock_sel(8)
        a option.case lk n prod.case route_write_Some [OF lk]]
    show thesis
    proof (cases "rc1 = SAI_STATUS_SUCCESS")
      case False
      with run True v have "rc = rc1" "s' = with_route a ?r s" by (auto simp: unlock_with)
      with False a r n show thesis by (intro refused) auto
    next
      case ok: True
      show thesis
      proof (cases "sai_fib_is_default_route_entry E en")
        case dflt: False
        let ?s1 = "route_tree_remove ?vr a (with_route a ?r ?L)"
        obtain s2 w2 where aff: "sai_fib_route_affected_encap_nh_update E a SAI_OP_REMOVE ?s1 w1 = (s2, w2)"
          by (metis surj_pair)
        have vL: "rb_getexact (vrf_tree ?L) ?vr = Some v" using v by simp
        note tree = tree_remove_with [OF vL v(2) key, of a]
        have r1: "fmlookup (route_mem ?s1) a = Some ?r" by (simp add: tree(2))
        note tail = remove_tail [OF affected_core [OF aff] r1]
        have t: "target_of ?r = target_of r" by (cases "nh_type r") (simp_all add: target_of_def)
        let ?s5 = "route_write a (\<lambda>r. r\<lparr>nh_type := SAI_FIB_ROUTE_NH_TYPE_NONE\<rparr>)
          (sai_fib_route_nh_ref_count_decr a (sai_fib_encap_nh_dep_route_remove a s2))"
        have "rc = SAI_STATUS_SUCCESS" and s': "s' = sai_fib_unlock (sai_fib_route_node_free a ?s5)"
          using run True v ok dflt aff by auto
        have "sai_fib_route_node_free a (with_route a (?r\<lparr>nh_type := SAI_FIB_ROUTE_NH_TYPE_NONE\<rparr>)
            (ref_decr (target_of r) ?s1))
          = ref_decr (target_of r) (?s1\<lparr>route_mem := fmdrop a (route_mem ?L)\<rparr>)"
          by (simp add: free_with ref_commute tree(2) fmdrop_fmupd_same)
        also have "\<dots> = sai_fib_lock (ref_decr (target_of r) (without_route ?vr a ?k s))"
          unfolding tree(1) by (simp only: lock_commutes)
        finally have "fib_core (sai_fib_route_node_free a ?s5)
            = fib_core (sai_fib_lock (ref_decr (target_of r) (without_route ?vr a ?k s)))"
          using core_cong [OF det_free tail, of a] t by simp
        then have "fib_core s' = fib_core (ref_decr (target_of r) (without_route ?vr a ?k s))"
          unfolding s' by (rule core_unlock)
        moreover have "links ?s5 = links s2" by (simp add: link_simps link_writes)
        then have "lpm_of s' = lpm_of s2 \<and> dep_of s' = (dep_of s2)(a := [])"
          by (simp add: s' links_eq links_free)
        moreover have "s2 = fst (sai_fib_route_affected_encap_nh_update E a SAI_OP_REMOVE ?s1 w1)"
          using aff by simp
        ultimately show thesis using \<open>rc = _\<close> v a dflt r by (intro removed) (auto simp: Let_def)
      next
        case dflt: True
        let ?d = "?r\<lparr>packet_action := SAI_PACKET_ACTION_DROP\<rparr>"
        let ?s1 = "with_route a ?d ?L"
        obtain s2 w2 where aff: "sai_fib_route_affected_encap_nh_update E a SAI_OP_REMOVE ?s1 w1 = (s2, w2)"
          by (metis surj_pair)
        have r1: "fmlookup (route_mem ?s1) a = Some ?d" by simp
        note tail = remove_tail [OF affected_core [OF aff] r1]
        have t: "target_of ?d = target_of r" by (cases "nh_type r") (simp_all add: target_of_def)
        let ?s5 = "route_write a (\<lambda>r. r\<lparr>nh_type := SAI_FIB_ROUTE_NH_TYPE_NONE\<rparr>)
          (sai_fib_route_nh_ref_count_decr a (sai_fib_encap_nh_dep_route_remove a s2))"
        have "rc = SAI_STATUS_SUCCESS" and s': "s' = sai_fib_unlock ?s5"
          using run True v ok dflt aff by auto
        have "fib_core ?s5 = fib_core (sai_fib_lock (ref_decr (target_of r)
            (with_route a (?d\<lparr>nh_type := SAI_FIB_ROUTE_NH_TYPE_NONE\<rparr>) s)))"
          using tail t by (simp add: ref_commute lock_commutes)
        then have "fib_core s' = fib_core (ref_decr (target_of r)
            (with_route a (?d\<lparr>nh_type := SAI_FIB_ROUTE_NH_TYPE_NONE\<rparr>) s))"
          unfolding s' by (rule core_unlock)
        moreover have "links s' = links s2" by (simp add: s' link_simps link_writes)
        moreover have "s2 = fst (sai_fib_route_affected_encap_nh_update E a SAI_OP_REMOVE ?s1 w1)"
          using aff by simp
        ultimately show thesis using \<open>rc = _\<close> a dflt r by (intro reset) (auto simp: lock_commutes)
      qed
    qed
  qed
qed

section \<open>Setting an attribute\<close>

lemma route_set_effect:
  assumes run: "sai_fib_route_attribute_set E en attr s w = (rc, s', w')" and W: "fib_wf s"
  obtains (failed) "rc \<noteq> SAI_STATUS_SUCCESS" "fib_core s' = fib_core s" "links s' = links s"
    | (updated) a r new hw w1 where "rc = SAI_STATUS_SUCCESS"
        "route_at s (vr_id en) (route_entry_key E en) = Some a" "fmlookup (route_mem s) a = Some r"
        "sai_fib_route_attributes_parse E s w [attr] r = (SAI_STATUS_SUCCESS, new)"
        "npu_route_attr_set E new attr w = (SAI_STATUS_SUCCESS, hw, w1)"
        "fib_core s' = fib_core (if sai_fib_route_is_nh_info_match r new
           then with_route a (new\<lparr>hw_info := hw\<rparr>) s
           else ref_incr (target_of new) (ref_decr (target_of r) (with_route a (new\<lparr>hw_info := hw\<rparr>) s)))"
        "links s' = links s"
proof -
  let ?L = "sai_fib_lock s" and ?vr = "vr_id en" and ?k = "route_entry_key E en"
  show thesis
  proof (cases "sai_fib_route_input_params_validate en 1 = SAI_STATUS_SUCCESS \<and> route_at s ?vr ?k \<noteq> None")
    case False
    with run show thesis
      by (intro failed) (auto simp: sai_fib_route_attribute_set_def route_attribute_set_body_def Let_def
          node_get_at split: if_splits)
  next
    case True
    then obtain a where a: "route_at s ?vr ?k = Some a" by auto
    then obtain v where v: "rb_getexact (vrf_tree s) ?vr = Some v"
      by (auto simp: route_at_def bind_eq_Some_conv)
    obtain r where r: "fmlookup (route_mem s) a = Some r" using fib_wf_entry [OF W a] by blast
    obtain rc1 new where p: "sai_fib_route_attributes_parse E s w [attr] r = (rc1, new)" by (metis surj_pair)
    obtain rc2 hw w1 where n: "npu_route_attr_set E new attr w = (rc2, hw, w1)" by (metis prod_cases3)
    have lk: "fmlookup (route_mem ?L) a = Some r" using r by simp
    let ?n = "new\<lparr>hw_info := hw\<rparr>"
    note run = run [unfolded sai_fib_route_attribute_set_def route_attribute_set_body_def Let_def lock_sel(8)
        node_get_at a option.case lk parse_state p n prod.case]
    show thesis
    proof (cases "rc1 = SAI_STATUS_SUCCESS \<and> rc2 = SAI_STATUS_SUCCESS")
      case False
      with run True v show thesis by (intro failed) (auto split: if_splits)
    next
      case ok: True
      have t: "target_of ?n = target_of new" by (cases "nh_type new") (simp_all add: target_of_def)
      have m: "sai_fib_route_is_nh_info_match r ?n = sai_fib_route_is_nh_info_match r new"
        by (simp add: sai_fib_route_is_nh_info_match_def)
      define s1 where "s1 = (if \<not> sai_fib_route_is_nh_info_match r ?n
        then sai_fib_encap_nh_dep_route_remove a (sai_fib_route_nh_ref_count_decr a ?L) else ?L)"
      obtain s2 w2 where aff: "sai_fib_route_attr_set_affected_encap_nh_update E a ?n s1 w1 = (s2, w2)"
        by (metis surj_pair)
      define s3 where "s3 = route_write a (\<lambda>_. ?n) s2"
      define s4 where "s4 = (if \<not> sai_fib_route_is_nh_info_match r ?n
        then sai_fib_encap_nh_dep_route_add a (sai_fib_route_nh_ref_count_incr a s3) else s3)"
      have rc: "rc = SAI_STATUS_SUCCESS" and s': "s' = sai_fib_unlock s4"
        using run True v ok aff s1_def s3_def s4_def by auto
      let ?t1 = "if sai_fib_route_is_nh_info_match r new then ?L else ref_decr (target_of r) ?L"
      have "fib_core s1 = fib_core ?t1"
        by (simp add: s1_def m core_simps ref_count_decr_target [OF lk])
      then have c2: "fib_core s2 = fib_core ?t1"
        using core_attr_set_affected [of E a ?n s1 w1] aff by simp
      have "core_determined (route_write a (\<lambda>_. ?n))" by (rule det_route_write) simp
      from core_cong [OF this c2] have c3: "fib_core s3 = fib_core (with_route a ?n ?t1)"
        using lk by (simp add: s3_def route_write_Some split: if_splits)
      have "fmlookup (route_mem s2) a \<noteq> None" using fib_coreD(7) [OF c2, of a] r by (auto split: if_splits)
      then have r3: "fmlookup (route_mem s3) a = Some ?n" by (auto simp: s3_def route_write_Some)
      have "fib_core s4 = fib_core (sai_fib_lock (if sai_fib_route_is_nh_info_match r new
           then with_route a ?n s
           else ref_incr (target_of new) (ref_decr (target_of r) (with_route a ?n s))))"
        using c3 core_cong [OF det_ref_incr c3, of "target_of new"]
        by (simp add: s4_def m core_simps ref_count_incr_target [OF r3] t lock_commutes ref_commute)
      from core_unlock [OF this] have "fib_core s' = fib_core (if sai_fib_route_is_nh_info_match r new
           then with_route a ?n s
           else ref_incr (target_of new) (ref_decr (target_of r) (with_route a ?n s)))"
        unfolding s' .
      moreover have "links s' = links s"
      proof -
        have "links s1 = links s" by (simp add: s1_def link_simps)
        then have l2: "links s2 = links s"
          using links_attr_set_affected [of E a ?n s1 w1] by (simp only: aff fst_conv)
        have "rt_dep_encap_nh_list ?n = dep_of s a"
          using parse_place [OF p] r by (simp add: same_place_def dep_of_def)
        with l2 have "links s3 = links s"
          by (auto simp: s3_def links_eq dep_of_route_write fun_eq_iff split: option.split)
        then show ?thesis by (simp add: s' s4_def link_simps)
      qed
      ultimately show thesis using rc a r p n ok by (intro updated) auto
    qed
  qed
qed

end
