(* ===== verification/Fib_Refine.thy ===== *)
theory Fib_Refine
  imports Fib_Calls Sai_Loops
begin

text \<open>
  The specification of the route calls: partial functions on the route table, which know nothing
  of trees, nodes, reference counts or encap next hops.
\<close>

section \<open>Attributes on a route\<close>

text \<open>What an object id names for a route: a next hop, a group or nothing.\<close>

definition route_names :: "('w, 'z) fib_env_scheme \<Rightarrow> fib_state \<Rightarrow> sai_object_id_t \<Rightarrow> route_target option" where
  "route_names E s x =
    (if sai_object_type_query E x = SAI_OBJECT_TYPE_NEXT_HOP
     then map_option (\<lambda>u. Target_Next_Hop (Some u)) (nh_id_tree s x)
     else if sai_object_type_query E x = SAI_OBJECT_TYPE_NEXT_HOP_GROUP
     then map_option (\<lambda>g. Target_Group (Some g)) (nh_group_tree s x)
     else None)"

fun info_set ::
  "(sai_object_id_t \<Rightarrow> route_target option) \<Rightarrow> sai_route_entry_attr_t \<Rightarrow> route_info \<Rightarrow> route_info option" where
  "info_set names (SAI_ROUTE_ENTRY_ATTR_NEXT_HOP_ID x) e = map_option (\<lambda>t. e\<lparr>ri_target := t\<rparr>) (names x)"
| "info_set names (SAI_ROUTE_ENTRY_ATTR_PACKET_ACTION act) e = Some (e\<lparr>ri_action := act\<rparr>)"
| "info_set names (SAI_ROUTE_ENTRY_ATTR_TRAP_PRIORITY p) e = Some (e\<lparr>ri_priority := p\<rparr>)"
| "info_set names (SAI_ROUTE_ENTRY_ATTR_META_DATA m) e = Some (e\<lparr>ri_meta := m\<rparr>)"
| "info_set names (SAI_ROUTE_ENTRY_ATTR_UNKNOWN n) e = None"

fun info_sets ::
  "(sai_object_id_t \<Rightarrow> route_target option) \<Rightarrow> sai_route_entry_attr_t list \<Rightarrow> route_info \<Rightarrow> route_info option" where
  "info_sets names [] e = Some e"
| "info_sets names (a # as) e = Option.bind (info_set names a e) (info_sets names as)"

text \<open>A route that forwards or logs says where to.\<close>

definition info_ok :: "route_info \<Rightarrow> bool" where
  "info_ok e \<longleftrightarrow> (ri_action e = SAI_PACKET_ACTION_FORWARD \<or> ri_action e = SAI_PACKET_ACTION_LOG
     \<longrightarrow> ri_target e \<noteq> No_Target)"

definition info_new :: route_info where
  "info_new = \<lparr>ri_target = No_Target, ri_action = SAI_PACKET_ACTION_FORWARD, ri_priority = 0, ri_meta = 0\<rparr>"

section \<open>The calls\<close>

datatype route_call =
    Route_Create sai_route_entry_t "sai_route_entry_attr_t list"
  | Route_Remove sai_route_entry_t
  | Route_Set sai_route_entry_t sai_route_entry_attr_t

definition run_route_call ::
  "('w, 'z) fib_env_scheme \<Rightarrow> route_call \<Rightarrow> fib_state \<Rightarrow> 'w \<Rightarrow> sai_status_t \<times> fib_state \<times> 'w" where
  "run_route_call E c s w = (case c of
       Route_Create en attrs \<Rightarrow> sai_fib_route_create E en attrs s w
     | Route_Remove en \<Rightarrow> sai_fib_route_remove E en s w
     | Route_Set en attr \<Rightarrow> sai_fib_route_attribute_set E en attr s w)"

text \<open>Updating the entry of a route with a partial function, \<open>None\<close> when there is no such router.\<close>

definition route_spec ::
  "('w, 'z) fib_env_scheme \<Rightarrow> (sai_object_id_t \<Rightarrow> route_target option) \<Rightarrow> route_call \<Rightarrow> route_table
     \<Rightarrow> route_table option" where
  "route_spec E names c T = (case c of
       Route_Create en attrs \<Rightarrow>
         Option.bind (T (vr_id en)) (\<lambda>R.
         Option.bind (case R (route_entry_key E en) of
                        None \<Rightarrow> Some info_new
                      | Some e \<Rightarrow> if sai_fib_is_default_route_entry E en
                                  then Some (e\<lparr>ri_action := SAI_PACKET_ACTION_FORWARD\<rparr>) else None) (\<lambda>e.
         Option.bind (info_sets names attrs e) (\<lambda>e.
           if info_ok e then Some (table_put T (vr_id en) (route_entry_key E en) e) else None)))
     | Route_Remove en \<Rightarrow>
         Option.bind (T (vr_id en)) (\<lambda>R.
         Option.bind (R (route_entry_key E en)) (\<lambda>e.
           Some (if sai_fib_is_default_route_entry E en
                 then table_put T (vr_id en) (route_entry_key E en)
                        (e\<lparr>ri_action := SAI_PACKET_ACTION_DROP, ri_target := No_Target\<rparr>)
                 else table_delete T (vr_id en) (route_entry_key E en))))
     | Route_Set en attr \<Rightarrow>
         Option.bind (T (vr_id en)) (\<lambda>R.
         Option.bind (R (route_entry_key E en)) (\<lambda>e.
         Option.bind (info_set names attr e) (\<lambda>e.
           if info_ok e then Some (table_put T (vr_id en) (route_entry_key E en) e) else None))))"

section \<open>Parsing implements the attributes\<close>

text \<open>The recalculated code of an error is an error.\<close>

definition attr_status_law :: "('w, 'z) fib_env_scheme \<Rightarrow> bool" where
  "attr_status_law E \<longleftrightarrow>
     (\<forall>rc i. rc \<noteq> SAI_STATUS_SUCCESS \<longrightarrow> sai_fib_attr_status_code_get E rc i \<noteq> SAI_STATUS_SUCCESS)"

lemma target_of_updates [simp]:
  "target_of (r\<lparr>packet_action := act\<rparr>) = target_of r" "target_of (r\<lparr>trap_priority := p\<rparr>) = target_of r"
  "target_of (r\<lparr>meta_data := m\<rparr>) = target_of r" "target_of (r\<lparr>hw_info := hw\<rparr>) = target_of r"
  by (cases "nh_type r"; simp add: target_of_def)+

lemma target_of_more [simp]:
  "target_of (r\<lparr>nh_type := ROUTE_NH_TYPE_NEXT_HOP, nh_info := u\<rparr>) = Target_Next_Hop u"
  "target_of (r\<lparr>nh_type := ROUTE_NH_TYPE_NEXT_HOP_GROUP, nh_info := g\<rparr>) = Target_Group g"
  "target_of (r\<lparr>nh_type := SAI_FIB_ROUTE_NH_TYPE_NONE\<rparr>) = No_Target"
  by (simp_all add: target_of_def)

lemma node_key_updates [simp]:
  "node_key (r\<lparr>hw_info := hw\<rparr>) = node_key r" "node_key (r\<lparr>packet_action := act\<rparr>) = node_key r"
  "node_key (r\<lparr>nh_type := t\<rparr>) = node_key r"
  by (simp_all add: node_key_def)

lemma accept_info:
  "route_attribute_accept E s w a r = (SAI_STATUS_SUCCESS, r') \<Longrightarrow>
     info_set (route_names E s) a (route_info r) = Some (route_info r')"
  by (cases a) (auto simp: route_attribute_accept_def sai_fib_route_nh_id_attr_set_def
      sai_fib_route_nh_grp_id_attr_set_def sai_fib_route_pkt_action_attr_set_def route_names_def
      route_info_def Let_def split: option.splits if_splits prod.splits)

lemma parse_loop_info:
  assumes "attr_status_law E"
  shows "route_parse_loop E s w i attrs r = (SAI_STATUS_SUCCESS, r') \<Longrightarrow>
     info_sets (route_names E s) attrs (route_info r) = Some (route_info r')"
proof (induction attrs arbitrary: i r)
  case (Cons a attrs)
  obtain rc r1 where a: "route_attribute_accept E s w a r = (rc, r1)" by (metis surj_pair)
  with Cons.prems assms have "rc = SAI_STATUS_SUCCESS"
    by (auto simp: attr_status_law_def split: if_splits)
  with a Cons show ?case by (auto dest: accept_info)
qed simp

lemma info_ok_route:
  "info_ok (route_info r) \<longleftrightarrow>
     \<not> ((packet_action r = SAI_PACKET_ACTION_FORWARD \<or> packet_action r = SAI_PACKET_ACTION_LOG)
        \<and> nh_type r = SAI_FIB_ROUTE_NH_TYPE_NONE)"
  by (cases "nh_type r") (auto simp: info_ok_def route_info_def target_of_def)

lemma parse_info:
  assumes "attr_status_law E"
    and "sai_fib_route_attributes_parse E s w attrs r = (SAI_STATUS_SUCCESS, r')"
  shows "info_sets (route_names E s) attrs (route_info r) = Some (route_info r') \<and> info_ok (route_info r')"
  using assms parse_loop_info [OF assms(1), of s w 0 attrs r r']
  by (auto simp: sai_fib_route_attributes_parse_def info_ok_route split: prod.splits if_splits)

lemma route_info_updates [simp]:
  "route_info (r\<lparr>hw_info := hw\<rparr>) = route_info r"
  "route_info (r\<lparr>packet_action := act\<rparr>) = (route_info r)\<lparr>ri_action := act\<rparr>"
  "route_info (r\<lparr>nh_type := SAI_FIB_ROUTE_NH_TYPE_NONE\<rparr>) = (route_info r)\<lparr>ri_target := No_Target\<rparr>"
  by (cases "nh_type r"; simp add: route_info_def target_of_def)+

lemma route_info_init [simp]: "route_info (sai_fib_route_node_init E en) = info_new"
  by (simp add: sai_fib_route_node_init_def split_beta route_info_def target_of_def info_new_def
      SAI_FIB_ROUTE_DFLT_PKT_ACTION_def SAI_FIB_ROUTE_DFLT_TRAP_PRIO_def)

section \<open>The calls implement the specification\<close>

lemma core_table:
  "fib_core s' = fib_core t \<Longrightarrow> fib_wf s' = fib_wf t \<and> route_table s' = route_table t
     \<and> route_names E s' = route_names E t"
proof -
  assume c: "fib_core s' = fib_core t"
  have "fib_wf s' = fib_wf t" using fib_wf_core [of s'] fib_wf_core [of t] c by simp
  moreover have "route_table s' = route_table t"
    using route_table_core [of s'] route_table_core [of t] c by simp
  moreover have "route_names E s' = route_names E t"
    by (simp add: route_names_def fun_eq_iff fib_coreD(2,3) [OF c])
  ultimately show ?thesis by simp
qed

lemma names_simps [simp]:
  "route_names E (ref_incr t s) = route_names E s" "route_names E (ref_decr t s) = route_names E s"
  "route_names E (with_route a r s) = route_names E s"
  "route_names E (with_new_route vr a r s) = route_names E s"
  "route_names E (without_route vr a k s) = route_names E s"
  by (simp_all add: route_names_def fun_eq_iff with_new_route_def without_route_def split: option.split)

lemma table_entry:
  assumes "fib_wf s" and "route_at s vr k = Some a" and "fmlookup (route_mem s) a = Some r"
  shows "\<exists>R. route_table s vr = Some R \<and> R k = Some (route_info r)"
proof -
  from assms(2) obtain R where R: "route_table s vr = Some R"
    by (auto simp: route_at_def route_table_def bind_eq_Some_conv)
  from route_table_at [OF R, of k] assms(2,3) R show ?thesis by auto
qed

lemma create_refines:
  assumes run: "sai_fib_route_create E en attrs s w = (rc, s', w')"
    and W: "fib_wf s" and F: "fresh_alloc E" and A: "attr_status_law E"
  shows "fib_wf s' \<and> route_names E s' = route_names E s \<and>
    (if rc = SAI_STATUS_SUCCESS
     then route_spec E (route_names E s) (Route_Create en attrs) (route_table s) = Some (route_table s')
     else route_table s' = route_table s)"
  using run W F
proof (cases rule: route_create_effect)
  case failed
  with core_table [OF failed(2), of E] W show ?thesis by auto
next
  case (created a r hw v w0 w1)
  let ?r = "r\<lparr>hw_info := hw\<rparr>" and ?k = "route_entry_key E en"
  have pl: "node_key ?r = ?k" "rt_vrf_id ?r = vr_id en"
    using same_place_key [OF parse_place [OF created(5)]] by simp_all
  have at: "route_at s (vr_id en) (node_key ?r) = None" using created(3) pl by simp
  have wf: "fib_wf (with_new_route (vr_id en) a ?r s)"
    by (rule fib_wf_new [OF W created(2) at created(4) pl(2)])
  have tb: "route_table (with_new_route (vr_id en) a ?r s)
      = table_put (route_table s) (vr_id en) ?k (route_info r)"
    using route_table_new [OF W created(2,4), of ?r] pl by simp
  obtain R where R: "route_table s (vr_id en) = Some R" using created(2) by (auto simp: route_table_def)
  have none: "R ?k = None" using route_table_at [OF R, of ?k] created(3) by simp
  show ?thesis
    using core_table [OF created(7), of E] parse_info [OF A created(5)] wf tb R none created(1)
    by (simp add: route_spec_def)
next
  case (taken_over a r0 r hw w1)
  let ?r = "r\<lparr>hw_info := hw\<rparr>" and ?k = "route_entry_key E en"
  obtain r0' where r0': "fmlookup (route_mem s) a = Some r0'" "rt_vrf_id r0' = vr_id en" "node_key r0' = ?k"
    using fib_wf_entry [OF W taken_over(2)] by blast
  then have r0: "rt_vrf_id r0 = vr_id en" "node_key r0 = ?k" using taken_over(4) by auto
  have pl: "rt_vrf_id ?r = rt_vrf_id r0" "node_key ?r = node_key r0"
    using same_place_key [OF parse_place [OF taken_over(6)]] by simp_all
  note wf = fib_wf_with_route [OF W taken_over(4) pl]
  have tb: "route_table (with_route a ?r s) = table_put (route_table s) (vr_id en) ?k (route_info r)"
    using route_table_with_route [OF W taken_over(4), of ?r] r0 by simp
  obtain R where R: "route_table s (vr_id en) = Some R" "R ?k = Some (route_info r0)"
    using table_entry [OF W taken_over(2,4)] by blast
  show ?thesis
    using core_table [OF taken_over(8), of E] parse_info [OF A taken_over(6)] wf tb R taken_over(1,3)
    by (simp add: route_spec_def SAI_FIB_ROUTE_DFLT_PKT_ACTION_def)
qed

lemma remove_refines:
  assumes run: "sai_fib_route_remove E en s w = (rc, s', w')" and W: "fib_wf s"
  shows "fib_wf s' \<and> route_names E s' = route_names E s \<and>
    (if rc = SAI_STATUS_SUCCESS
     then route_spec E (route_names E s) (Route_Remove en) (route_table s) = Some (route_table s')
     else route_table s' = route_table s)"
  using run W
proof (cases rule: route_remove_effect)
  case failed
  with core_table [OF failed(2), of E] W show ?thesis by auto
next
  case (refused a r hw w1)
  have p: "rt_vrf_id (r\<lparr>hw_info := hw\<rparr>) = rt_vrf_id r" "node_key (r\<lparr>hw_info := hw\<rparr>) = node_key r"
    by simp_all
  have "route_table (with_route a (r\<lparr>hw_info := hw\<rparr>) s) = route_table (with_route a r s)"
    using route_table_with_route [OF W refused(3)] by simp
  also have "with_route a r s = s" by (rule with_route_same [OF refused(3)])
  finally show ?thesis using refused fib_wf_with_route [OF W refused(3) p] by simp
next
  case (removed a r v)
  obtain R where R: "route_table s (vr_id en) = Some R" "R (route_entry_key E en) = Some (route_info r)"
    using table_entry [OF W removed(3,5)] by blast
  show ?thesis
    using core_table [OF removed(6), of E] fib_wf_without [OF W removed(2,3)]
      route_table_without [OF W removed(2,3)] R removed(1,4) by (simp add: route_spec_def)
next
  case (reset a r hw)
  let ?r = "r\<lparr>hw_info := hw, packet_action := SAI_PACKET_ACTION_DROP, nh_type := SAI_FIB_ROUTE_NH_TYPE_NONE\<rparr>"
  have pl: "rt_vrf_id ?r = rt_vrf_id r" "node_key ?r = node_key r" by simp_all
  obtain r' where "fmlookup (route_mem s) a = Some r'" "rt_vrf_id r' = vr_id en"
    "node_key r' = route_entry_key E en" using fib_wf_entry [OF W reset(2)] by blast
  then have r: "rt_vrf_id r = vr_id en" "node_key r = route_entry_key E en" using reset(4) by auto
  obtain R where R: "route_table s (vr_id en) = Some R" "R (route_entry_key E en) = Some (route_info r)"
    using table_entry [OF W reset(2,4)] by blast
  show ?thesis
    using core_table [OF reset(5), of E] fib_wf_with_route [OF W reset(4) pl]
      route_table_with_route [OF W reset(4), of ?r] R reset(1,3) r by (simp add: route_spec_def)
qed

lemma set_refines:
  assumes run: "sai_fib_route_attribute_set E en attr s w = (rc, s', w')" and W: "fib_wf s"
    and A: "attr_status_law E"
  shows "fib_wf s' \<and> route_names E s' = route_names E s \<and>
    (if rc = SAI_STATUS_SUCCESS
     then route_spec E (route_names E s) (Route_Set en attr) (route_table s) = Some (route_table s')
     else route_table s' = route_table s)"
  using run W
proof (cases rule: route_set_effect)
  case failed
  with core_table [OF failed(2), of E] W show ?thesis by auto
next
  case (updated a r new hw w1)
  let ?n = "new\<lparr>hw_info := hw\<rparr>"
  have pl: "rt_vrf_id ?n = rt_vrf_id r" "node_key ?n = node_key r"
    using same_place_key [OF parse_place [OF updated(4)]] by simp_all
  obtain r' where "fmlookup (route_mem s) a = Some r'" "rt_vrf_id r' = vr_id en"
    "node_key r' = route_entry_key E en" using fib_wf_entry [OF W updated(2)] by blast
  then have r: "rt_vrf_id r = vr_id en" "node_key r = route_entry_key E en" using updated(3) by auto
  obtain R where R: "route_table s (vr_id en) = Some R" "R (route_entry_key E en) = Some (route_info r)"
    using table_entry [OF W updated(2,3)] by blast
  have info: "info_set (route_names E s) attr (route_info r) = Some (route_info new)"
    "info_ok (route_info new)"
    using parse_info [OF A updated(4)] by (auto split: Option.bind_splits)
  show ?thesis
    using core_table [OF updated(6), of E] fib_wf_with_route [OF W updated(3) pl]
      route_table_with_route [OF W updated(3), of ?n] R updated(1) r info
    by (simp add: route_spec_def split: if_splits)
qed

definition fib_laws :: "('w, 'z) fib_env_scheme \<Rightarrow> bool" where
  "fib_laws E \<longleftrightarrow> fresh_alloc E \<and> attr_status_law E"

lemma route_call_refines:
  assumes "run_route_call E c s w = (rc, s', w')" and "fib_laws E" and "fib_wf s"
  shows "fib_wf s' \<and> route_names E s' = route_names E s \<and>
    (if rc = SAI_STATUS_SUCCESS
     then route_spec E (route_names E s) c (route_table s) = Some (route_table s')
     else route_table s' = route_table s)"
proof (cases c)
  case (Route_Create en attrs)
  show ?thesis unfolding Route_Create
    by (rule create_refines) (use assms Route_Create in \<open>simp_all add: run_route_call_def fib_laws_def\<close>)
next
  case (Route_Remove en)
  show ?thesis unfolding Route_Remove
    by (rule remove_refines) (use assms Route_Remove in \<open>simp_all add: run_route_call_def\<close>)
next
  case (Route_Set en attr)
  show ?thesis unfolding Route_Set
    by (rule set_refines) (use assms Route_Set in \<open>simp_all add: run_route_call_def fib_laws_def\<close>)
qed

interpretation routes: call_refinement "run_route_call E" "\<lambda>s. fib_laws E \<and> fib_wf s" route_table
  "route_names E" "route_spec E" for E :: "('w, 'z) fib_env_scheme"
proof
  fix s c w rc s' w'
  assume i: "fib_laws E \<and> fib_wf s" and r: "run_route_call E c s w = (rc, s', w')"
  note R = route_call_refines [OF r conjunct1 [OF i] conjunct2 [OF i]]
  from R i show "(fib_laws E \<and> fib_wf s') \<and> route_names E s' = route_names E s" by auto
  from R show "rc \<noteq> SAI_STATUS_SUCCESS \<Longrightarrow> route_table s' = route_table s" by auto
next
  fix s c w s' w'
  assume i: "fib_laws E \<and> fib_wf s" and r: "run_route_call E c s w = (SAI_STATUS_SUCCESS, s', w')"
  from route_call_refines [OF r conjunct1 [OF i] conjunct2 [OF i]]
  show "route_spec E (route_names E s) c (route_table s) = Some (route_table s')" by simp
qed

end
