(* ===== verification/Fib_Vr_Calls.thy ===== *)
theory Fib_Vr_Calls
  imports Fib_Refine
begin

text \<open>
  The effect of the virtual router calls on the trees and nodes: what the internal default routes
  do, when the emptiness test of a route tree is true, and one elimination rule for each call.
\<close>

section \<open>The keys of the default routes\<close>

text \<open>A mask of zeros is the prefix length zero.\<close>

definition zero_mask_law :: "('w, 'z) fib_env_scheme \<Rightarrow> bool" where
  "zero_mask_law E \<longleftrightarrow> std_ip_v4_mask_to_prefix_len E 0 = 0 \<and> std_ip_v6_mask_to_prefix_len E 0 = 0"

definition default_key :: "sai_ip_addr_family_t \<Rightarrow> std_rt_key" where
  "default_key af = word_bits (family_code af)"

lemma length_word_bits [simp]: "length (word_bits (x :: 'a::len word)) = LENGTH('a)"
  by (simp add: word_bits_def)

lemma default_entry_key:
  "zero_mask_law E \<Longrightarrow> route_entry_key E (default_route_entry vr af) = default_key af"
  by (cases af) (simp_all add: route_entry_key_def default_route_entry_def zero_mask_law_def default_key_def
      sai_fib_route_entry_ip_prefix_fill_def sai_fib_route_entry_prefix_len_get_def Let_def ip_key_def
      sai_fib_route_key_len_get_def)

lemma default_keys_differ: "default_key SAI_IP_ADDR_FAMILY_IPV4 \<noteq> default_key SAI_IP_ADDR_FAMILY_IPV6"
proof -
  have "last (word_bits (0 :: uint32_t)) \<noteq> last (word_bits (1 :: uint32_t))"
    by (simp add: word_bits_def last_map last_rev)
  then show ?thesis by (auto simp: default_key_def)
qed

section \<open>Emptiness of a route tree\<close>

lemma replicate_False_least: "n \<le> length k \<Longrightarrow> replicate n False \<le> k"
proof (induction n arbitrary: k)
  case (Suc n)
  then obtain x xs where k: "k = x # xs" "n \<le> length xs" by (cases k) auto
  with Suc.IH [of xs] show ?case by (cases x) auto
qed simp

lemma node_key_long: "32 \<le> length (node_key r)"
  by (auto simp: node_key_def ip_key_def sai_fib_route_key_len_get_def addr_bits_def
      split: sai_ip_addr_family_t.split)

lemma route_tree_empty:
  assumes "sai_fib_vrf_is_route_tree_empty t" and "\<And>k. rb_getexact t k \<noteq> None \<Longrightarrow> 32 \<le> length k"
  shows "rb_getexact t k = None"
proof (rule ccontr)
  assume k: "rb_getexact t k \<noteq> None"
  let ?z = "replicate 32 False"
  have z: "rb_getexact t ?z = None" "std_radix_getnext t ?z = None"
    using assms(1) by (auto simp: sai_fib_vrf_is_route_tree_empty_def sai_fib_route_key_len_get_def Let_def
        split: if_splits)
  have "?z \<le> k" by (rule replicate_False_least) (rule assms(2) [OF k])
  with z k have "?z < k" by (metis order_le_less)
  with z(2) k show False by (simp add: radix_getnext_None)
qed

section \<open>The internal default routes\<close>

text \<open>Memory for routes and for the nodes of the route tree does not run out.\<close>

definition fib_memory_ok :: "('w, 'z) fib_env_scheme \<Rightarrow> bool" where
  "fib_memory_ok E \<longleftrightarrow> (\<forall>A w. fst (route_node_alloc E A w) \<noteq> None) \<and> (\<forall>w. fst (std_radix_insert_ok E w))"

text \<open>The plug-in does not answer a removal with the one status that the code mistakes for its own.\<close>

definition vr_status_ok :: "('w, 'z) fib_env_scheme \<Rightarrow> bool" where
  "vr_status_ok E \<longleftrightarrow> (\<forall>v w. fst (npu_vr_remove E v w) \<noteq> SAI_STATUS_INVALID_OBJECT_ID)"

definition internal_default :: "('w, 'z) fib_env_scheme \<Rightarrow> sai_object_id_t \<Rightarrow> sai_ip_addr_family_t \<Rightarrow> sai_fib_route_t" where
  "internal_default E vr af =
     (sai_fib_route_node_init E (default_route_entry vr af))\<lparr>packet_action := SAI_PACKET_ACTION_DROP\<rparr>"

lemma internal_default_simps [simp]:
  "zero_mask_law E \<Longrightarrow> node_key (internal_default E vr af) = default_key af"
  "rt_vrf_id (internal_default E vr af) = vr" "target_of (internal_default E vr af) = No_Target"
  "hw_info (internal_default E vr af) = None"
  "route_info (internal_default E vr af) = info_new\<lparr>ri_action := SAI_PACKET_ACTION_DROP\<rparr>"
  by (simp_all add: internal_default_def default_entry_key)
    (simp_all add: sai_fib_route_node_init_def default_route_entry_def target_of_def split_beta)

lemma default_add_effect:
  assumes run: "sai_fib_internal_default_route_node_add E vr af s w = (rc, s', w')"
    and v: "rb_getexact (vrf_tree s) vr = Some v" "vrf_id v = vr"
    and free: "route_at s vr (default_key af) = None" and F: "fresh_alloc E" and Z: "zero_mask_law E"
  obtains (failed) "s' = s" "fst (route_node_alloc E (fmdom (route_mem s)) w) = None
        \<or> (\<exists>w. \<not> fst (std_radix_insert_ok E w))"
    | (added) a where "fmlookup (route_mem s) a = None"
        "s' = with_new_route vr a (internal_default E vr af) s"
proof -
  obtain p w1 where al: "route_node_alloc E (fmdom (route_mem s)) w = (p, w1)" by (metis surj_pair)
  show thesis
  proof (cases p)
    case None
    with run al show thesis
      by (intro failed) (auto simp: sai_fib_internal_default_route_node_add_def)
  next
    case (Some a)
    let ?r = "internal_default E vr af"
    have a: "fmlookup (route_mem s) a = None" using fresh_allocD [OF F] al Some by auto
    have k: "rb_getexact (sai_route_tree v) (default_key af) = None"
      using free v by (simp add: route_at_def)
    have key: "ip_key (rt_prefix ?r) (sai_fib_route_key_len_get (prefix_len ?r)) = default_key af"
      using internal_default_simps(1) [OF Z, of vr af] by (simp add: node_key_def)
    have run: "sai_fib_route_node_insert_to_tree E a vr (with_route a ?r s) w1 = (rc, s', w')"
      using run al Some
      by (simp add: sai_fib_internal_default_route_node_add_def internal_default_def with_route_def Let_def)
    obtain ok w2 where ins: "std_radix_insert_ok E w1 = (ok, w2)" by (metis surj_pair)
    show thesis
    proof (cases ok)
      case True
      have "s' = vrf_write (v\<lparr>sai_route_tree := rb_put (sai_route_tree v) (default_key af) a\<rparr>)
          (with_route a ?r s)"
        using run v k ins True by (auto simp: sai_fib_route_node_insert_to_tree_def key std_radix_insert_def)
      also have "\<dots> = with_new_route vr a ?r s"
        using v Z by (simp add: vrf_write_def with_new_route_def)
      finally show thesis using added [OF a] by simp
    next
      case False
      have "vrf_write v (with_route a ?r s) = with_route a ?r s"
        using v by (simp add: vrf_write_def rb_put_same)
      then have "s' = sai_fib_route_node_free a (with_route a ?r s)"
        using run v k ins False by (auto simp: sai_fib_route_node_insert_to_tree_def key std_radix_insert_def)
      then have "s' = s" using free_new [OF a] by simp
      moreover have "\<not> fst (std_radix_insert_ok E w1)" using ins False by simp
      ultimately show thesis by (intro failed) auto
    qed
  qed
qed

lemma default_del_effect:
  assumes W: "fib_wf s" and Z: "zero_mask_law E"
  shows "snd (sai_fib_internal_default_route_node_del E vr af s)
    = (case route_at s vr (default_key af) of None \<Rightarrow> s | Some a \<Rightarrow> without_route vr a (default_key af) s)"
proof -
  have en: "vr_id (default_route_entry vr af) = vr" by (simp add: default_route_entry_def)
  show ?thesis
  proof (cases "route_at s vr (default_key af)")
    case None
    then show ?thesis
      by (simp add: sai_fib_internal_default_route_node_del_def node_get_at en default_entry_key [OF Z])
  next
    case (Some a)
    obtain r where r: "fmlookup (route_mem s) a = Some r" "rt_vrf_id r = vr" "node_key r = default_key af"
      using fib_wf_entry [OF W Some] by blast
    obtain v where v: "rb_getexact (vrf_tree s) vr = Some v" "vrf_id v = vr"
      using Some fib_wf_vrf [OF W] by (auto simp: route_at_def bind_eq_Some_conv)
    have wr: "with_route a r s = s" by (rule with_route_same [OF r(1)])
    note tree = tree_remove_with [OF v r(3), of a, unfolded wr]
    have "fmlookup (route_mem (route_tree_remove vr a s)) a \<noteq> None" by (simp add: tree(2))
    moreover have "fmdrop a (route_mem (route_tree_remove vr a s)) = fmdrop a (route_mem s)"
      by (simp add: tree(2) fmdrop_fmupd_same)
    ultimately have "sai_fib_route_node_free a (route_tree_remove vr a s) = without_route vr a (default_key af) s"
      by (auto simp: sai_fib_route_node_free_def tree(1) [symmetric])
    with Some show ?thesis
      by (simp add: sai_fib_internal_default_route_node_del_def node_get_at en default_entry_key [OF Z])
  qed
qed

end
