(* ===== verification/Fib_Refs.thy ===== *)
theory Fib_Refs
  imports Fib_Vr_Calls
begin

text \<open>
  Reference counts.  \<open>refs_ok\<close> says that the count of a next hop or a group is at least the number
  of route nodes that forward to it plus the weights of the links between groups and next hops that
  end in it, and that no route forwards to a node that is not allocated;
  a next hop whose count is zero is used by no route, which is what the code that frees next hops
  relies on.  The counts are not exact: a count also covers users outside this component, and it
  stays too high when a default route of the user is dropped.
\<close>

section \<open>Users and counts\<close>

definition users :: "fib_state \<Rightarrow> route_target \<Rightarrow> addr set" where
  "users s t = {a. \<exists>r. fmlookup (route_mem s) a = Some r \<and> target_of r = t}"

definition count_of :: "fib_state \<Rightarrow> route_target \<Rightarrow> nat option" where
  "count_of s t = (case t of
       Target_Next_Hop (Some u) \<Rightarrow> map_option (\<lambda>n. unat (ref_count n)) (nh_mem s u)
     | Target_Group (Some g) \<Rightarrow> map_option (\<lambda>g. unat (grp_ref_count g)) (grp_mem s g)
     | _ \<Rightarrow> None)"

definition link_total :: "sai_fib_wt_link_node_t list \<Rightarrow> nat" where
  "link_total l = sum_list (map (unat \<circ> snd) l)"

text \<open>The part of a count that links hold.\<close>

definition held :: "fib_state \<Rightarrow> route_target \<Rightarrow> nat" where
  "held s t = (case t of
       Target_Next_Hop (Some u) \<Rightarrow> (case nh_mem s u of None \<Rightarrow> 0 | Some n \<Rightarrow> link_total (nh_group_list n))
     | Target_Group (Some g) \<Rightarrow> (case grp_mem s g of None \<Rightarrow> 0 | Some g \<Rightarrow> link_total (grp_nh_links g))
     | _ \<Rightarrow> 0)"

definition refs_ok :: "fib_state \<Rightarrow> bool" where
  "refs_ok s \<longleftrightarrow> (\<forall>t. t \<noteq> No_Target \<longrightarrow> users s t \<noteq> {} \<longrightarrow> count_of s t \<noteq> None)
     \<and> (\<forall>t n. count_of s t = Some n \<longrightarrow> card (users s t) + held s t \<le> n)"

text \<open>The ids of next hops and groups name allocated nodes.\<close>

definition ids_ok :: "fib_state \<Rightarrow> bool" where
  "ids_ok s \<longleftrightarrow> (\<forall>x u. nh_id_tree s x = Some u \<longrightarrow> nh_mem s u \<noteq> None)
     \<and> (\<forall>x g. nh_group_tree s x = Some g \<longrightarrow> grp_mem s g \<noteq> None)"

text \<open>No 32-bit count is about to wrap.\<close>

definition refs_room :: "fib_state \<Rightarrow> bool" where
  "refs_room s \<longleftrightarrow> (\<forall>t n. count_of s t = Some n \<longrightarrow> n + 1 < 2 ^ 32)"

lemma nh_core_count [simp]: "ref_count (nh_core n) = ref_count n"
  by (simp add: nh_core_def)

lemma grp_core_count [simp]: "grp_ref_count (grp_core g) = grp_ref_count g"
  by (simp add: grp_core_def)

lemma users_core [simp]: "users (fib_core s) t = users s t"
  by (auto simp: users_def)

lemma count_core [simp]: "count_of (fib_core s) t = count_of s t"
  by (auto simp: count_of_def option.map_comp comp_def split: route_target.split option.split)

lemma held_core [simp]: "held (fib_core s) t = held s t"
  by (auto simp: held_def nh_core_def grp_core_def split: route_target.split option.split)

lemma refs_core [simp]: "refs_ok (fib_core s) = refs_ok s" "ids_ok (fib_core s) = ids_ok s"
  by (simp_all add: refs_ok_def ids_ok_def)

lemma finite_users: "finite (users s t)"
proof -
  have "users s t \<subseteq> fset (fmdom (route_mem s))"
    by (auto simp: users_def fmdom'I fmlookup_dom_iff)
  then show ?thesis by (rule finite_subset) simp
qed

lemma refs_okI:
  "(\<And>t. t \<noteq> No_Target \<Longrightarrow> users s t \<noteq> {} \<Longrightarrow> count_of s t \<noteq> None)
     \<Longrightarrow> (\<And>t n. count_of s t = Some n \<Longrightarrow> card (users s t) + held s t \<le> n) \<Longrightarrow> refs_ok s"
  by (simp add: refs_ok_def)

lemma refs_okD:
  "refs_ok s \<Longrightarrow> t \<noteq> No_Target \<Longrightarrow> users s t \<noteq> {} \<Longrightarrow> \<exists>n. count_of s t = Some n \<and> card (users s t) \<le> n"
  unfolding refs_ok_def by (metis add_leD1 not_None_eq)

lemma refs_ok_count: "refs_ok s \<Longrightarrow> count_of s t = Some n \<Longrightarrow> card (users s t) + held s t \<le> n"
  by (simp add: refs_ok_def)

lemma refs_ok_defined: "refs_ok s \<Longrightarrow> t \<noteq> No_Target \<Longrightarrow> users s t \<noteq> {} \<Longrightarrow> count_of s t \<noteq> None"
  by (simp add: refs_ok_def)

text \<open>Fewer users and the same counts.\<close>

lemma count_No_Target [simp]: "count_of s No_Target = None"
  by (simp add: count_of_def)

lemma refs_ok_mono:
  assumes "refs_ok s" and "\<And>t. t \<noteq> No_Target \<Longrightarrow> users s' t \<subseteq> users s t" and "count_of s' = count_of s"
    and "held s' = held s"
  shows "refs_ok s'"
proof (rule refs_okI)
  fix t assume "t \<noteq> No_Target" "users s' t \<noteq> {}"
  with assms refs_ok_defined show "count_of s' t \<noteq> None" by (metis subset_empty)
next
  fix t n assume n: "count_of s' t = Some n"
  then have "t \<noteq> No_Target" by auto
  then have "card (users s' t) \<le> card (users s t)" by (intro card_mono [OF finite_users] assms(2))
  with refs_ok_count [OF assms(1), of t n] n assms(3,4) show "card (users s' t) + held s' t \<le> n" by simp
qed

lemma held_mem: "nh_mem s' = nh_mem s \<Longrightarrow> grp_mem s' = grp_mem s \<Longrightarrow> held s' = held s"
  by (simp add: held_def fun_eq_iff split: route_target.split option.split)

text \<open>By kind of node.\<close>

lemma all_counts:
  "(\<forall>t n. count_of s t = Some n \<longrightarrow> P t n) \<longleftrightarrow>
     (\<forall>u n. nh_mem s u = Some n \<longrightarrow> P (Target_Next_Hop (Some u)) (unat (ref_count n)))
   \<and> (\<forall>g gr. grp_mem s g = Some gr \<longrightarrow> P (Target_Group (Some g)) (unat (grp_ref_count gr)))"
proof -
  have "(\<forall>n. count_of s t = Some n \<longrightarrow> P t n) \<longleftrightarrow>
      (case t of Target_Next_Hop (Some u) \<Rightarrow> \<forall>n. nh_mem s u = Some n \<longrightarrow> P t (unat (ref_count n))
       | Target_Group (Some g) \<Rightarrow> \<forall>gr. grp_mem s g = Some gr \<longrightarrow> P t (unat (grp_ref_count gr)) | _ \<Rightarrow> True)" for t
    by (auto simp: count_of_def split: route_target.split option.split)
  then show ?thesis by (auto split: route_target.split option.split)
qed

lemma held_simps [simp]:
  "nh_mem s u = Some n \<Longrightarrow> held s (Target_Next_Hop (Some u)) = link_total (nh_group_list n)"
  "grp_mem s g = Some gr \<Longrightarrow> held s (Target_Group (Some g)) = link_total (grp_nh_links gr)"
  by (simp_all add: held_def)

lemma link_total_simps [simp]: "link_total [] = 0" "link_total ((a, x) # l) = unat x + link_total l"
  by (simp_all add: link_total_def)

lemma count_of_mem: "nh_mem s' = nh_mem s \<Longrightarrow> grp_mem s' = grp_mem s \<Longrightarrow> count_of s' = count_of s"
  by (simp add: count_of_def fun_eq_iff split: route_target.split option.split)

lemma count_with [simp]:
  "count_of (with_route a r s) = count_of s" "count_of (with_new_route vr a r s) = count_of s"
  "count_of (without_route vr a k s) = count_of s"
  by (auto intro!: count_of_mem simp: with_new_route_def without_route_def split: option.split)

lemma held_with [simp]:
  "held (with_route a r s) = held s" "held (with_new_route vr a r s) = held s"
  "held (without_route vr a k s) = held s"
  by (auto intro!: held_mem simp: with_new_route_def without_route_def split: option.split)

lemma ids_with [simp]:
  "ids_ok (with_route a r s) = ids_ok s" "ids_ok (with_new_route vr a r s) = ids_ok s"
  "ids_ok (without_route vr a k s) = ids_ok s"
  by (auto simp: ids_ok_def with_new_route_def without_route_def split: option.split)

lemma users_with_route:
  "users (with_route a r s) t = (if target_of r = t then insert a (users s t) else users s t - {a})"
  by (auto simp: users_def)

lemma users_new:
  "rb_getexact (vrf_tree s) vr = Some v \<Longrightarrow>
     users (with_new_route vr a r s) t = users (with_route a r s) t"
  by (simp add: users_def with_new_route_def)

lemma users_without:
  "rb_getexact (vrf_tree s) vr = Some v \<Longrightarrow> users (without_route vr a k s) t = users s t - {a}"
  by (auto simp: users_def without_route_def)

lemma users_ref [simp]: "users (ref_incr t s) t' = users s t'" "users (ref_decr t s) t' = users s t'"
  by (simp_all add: users_def)

lemma held_ref [simp]: "held (ref_incr t s) = held s" "held (ref_decr t s) = held s"
  by (auto simp: held_def fun_eq_iff ref_incr_def ref_decr_def nh_write_def grp_write_def fib_crash_def
      sai_fib_incr_nh_ref_count_def sai_fib_incr_nh_group_ref_count_def sai_fib_decr_nh_ref_count_def
      sai_fib_decr_nh_group_ref_count_def split: route_target.split option.split)

section \<open>Counting up and down\<close>

lemma unat_incr: "unat (x :: uint32_t) + 1 < 2 ^ 32 \<Longrightarrow> unat (x + 1) = unat x + 1"
  by (simp add: unat_word_ariths)

lemma unat_decr: "0 < (x :: uint32_t) \<Longrightarrow> unat (x - 1) = unat x - 1"
  by (metis unat_minus_one word_greater_zero_iff)

lemma count_incr:
  assumes "count_of s t = Some n" and "n + 1 < 2 ^ 32"
  shows "count_of (ref_incr t s) t' = (if t' = t then Some (n + 1) else count_of s t')"
proof (cases t)
  case (Target_Next_Hop p)
  with assms obtain u m where "p = Some u" "nh_mem s u = Some m" "n = unat (ref_count m)"
    by (auto simp: count_of_def split: option.splits)
  with Target_Next_Hop assms show ?thesis
    using unat_incr [of "ref_count m"]
    by (auto simp: count_of_def ref_incr_def nh_write_def sai_fib_incr_nh_ref_count_def
        split: route_target.split option.split)
next
  case (Target_Group p)
  with assms obtain u m where "p = Some u" "grp_mem s u = Some m" "n = unat (grp_ref_count m)"
    by (auto simp: count_of_def split: option.splits)
  with Target_Group assms show ?thesis
    using unat_incr [of "grp_ref_count m"]
    by (auto simp: count_of_def ref_incr_def grp_write_def sai_fib_incr_nh_group_ref_count_def
        split: route_target.split option.split)
qed (use assms in \<open>simp add: count_of_def\<close>)

lemma count_decr:
  assumes "count_of s t = Some n"
  shows "count_of (ref_decr t s) t' = (if t' = t then Some (n - 1) else count_of s t')"
proof (cases t)
  case (Target_Next_Hop p)
  with assms obtain u m where "p = Some u" "nh_mem s u = Some m" "n = unat (ref_count m)"
    by (auto simp: count_of_def split: option.splits)
  with Target_Next_Hop show ?thesis
    using unat_decr [of "ref_count m"]
    by (auto simp: count_of_def ref_decr_def nh_write_def sai_fib_decr_nh_ref_count_def
        word_greater_zero_iff split: route_target.split option.split)
next
  case (Target_Group p)
  with assms obtain u m where "p = Some u" "grp_mem s u = Some m" "n = unat (grp_ref_count m)"
    by (auto simp: count_of_def split: option.splits)
  with Target_Group show ?thesis
    using unat_decr [of "grp_ref_count m"]
    by (auto simp: count_of_def ref_decr_def grp_write_def sai_fib_decr_nh_group_ref_count_def
        word_greater_zero_iff split: route_target.split option.split)
qed (use assms in \<open>simp add: count_of_def\<close>)

lemma ref_No_Target [simp]: "ref_incr No_Target s = s" "ref_decr No_Target s = s"
  by (simp_all add: ref_incr_def ref_decr_def)

lemma write_defined:
  "nh_mem (nh_write u f s) x = None \<longleftrightarrow> nh_mem s x = None"
  "grp_mem (grp_write g f' s) x = None \<longleftrightarrow> grp_mem s x = None"
  by (auto simp: nh_write_def grp_write_def fib_crash_def split: option.split)

lemma write_other [simp]:
  "grp_mem (nh_write u f s) = grp_mem s" "nh_mem (grp_write g f' s) = nh_mem s"
  "nh_id_tree (nh_write u f s) = nh_id_tree s" "nh_id_tree (grp_write g f' s) = nh_id_tree s"
  "nh_group_tree (nh_write u f s) = nh_group_tree s" "nh_group_tree (grp_write g f' s) = nh_group_tree s"
  by (simp_all add: nh_write_def grp_write_def fib_crash_def split: option.split)

lemma ids_ref [simp]: "ids_ok (ref_incr t s) = ids_ok s" "ids_ok (ref_decr t s) = ids_ok s"
  by (simp_all add: ids_ok_def ref_incr_def ref_decr_def write_defined del: not_None_eq
      split: route_target.split option.split)

section \<open>Moving a route from one target to another\<close>

text \<open>A state \<open>s'\<close> in which the target \<open>t\<close> has one user more than in \<open>s\<close> at most, and the others
  have no new ones; counting up makes the counts good.\<close>

lemma refs_incr:
  assumes R: "refs_ok s" and c: "count_of s' = count_of s" and room: "refs_room s"
    and t: "t \<noteq> No_Target \<Longrightarrow> count_of s t \<noteq> None \<and> users s' t \<subseteq> insert a (users s t)"
    and other: "\<And>t'. t' \<noteq> t \<Longrightarrow> t' \<noteq> No_Target \<Longrightarrow> users s' t' \<subseteq> users s t'"
    and h: "held s' = held s"
  shows "refs_ok (ref_incr t s')"
proof (cases "t = No_Target")
  case True
  with refs_ok_mono [OF R _ c h] other show ?thesis by auto
next
  case False
  with t obtain n where n: "count_of s t = Some n" by auto
  have n32: "n + 1 < 2 ^ 32" using room n unfolding refs_room_def by blast
  note cnt = count_incr [of s' t n, unfolded c, OF n n32]
  show ?thesis
  proof (rule refs_okI)
    fix t' assume t': "t' \<noteq> No_Target" "users (ref_incr t s') t' \<noteq> {}"
    show "count_of (ref_incr t s') t' \<noteq> None"
      using cnt t' other [of t'] refs_ok_defined [OF R t'(1)] by (cases "t' = t") auto
  next
    fix t' m assume m: "count_of (ref_incr t s') t' = Some m"
    then have t0: "t' \<noteq> No_Target" by auto
    show "card (users (ref_incr t s') t') + held (ref_incr t s') t' \<le> m"
    proof (cases "t' = t")
      case True
      have "card (users s' t) \<le> card (insert a (users s t))"
        using t False by (intro card_mono) (auto simp: finite_users)
      also have "\<dots> \<le> card (users s t) + 1" by (simp add: card_insert_if finite_users)
      finally show ?thesis using True cnt m h refs_ok_count [OF R n] by auto
    next
      case neq: False
      then have "count_of s t' = Some m" using cnt m by simp
      moreover have "card (users s' t') \<le> card (users s t')"
        by (rule card_mono [OF finite_users other [OF neq t0]])
      ultimately show ?thesis using h refs_ok_count [OF R, of t' m] by simp
    qed
  qed
qed

text \<open>A node \<open>a\<close> that no longer forwards to \<open>t\<close>.\<close>

lemma refs_decr:
  assumes R: "refs_ok s" and c: "count_of s' = count_of s"
    and a: "a \<in> users s t" and sub: "\<And>t'. t' \<noteq> No_Target \<Longrightarrow> users s' t' \<subseteq> users s t' - {a}"
    and h: "held s' = held s"
  shows "refs_ok (ref_decr t s')"
proof (cases "t = No_Target")
  case True
  with refs_ok_mono [OF R _ c h] sub show ?thesis by auto
next
  case False
  with R a obtain n where n: "count_of s t = Some n" using refs_okD by blast
  note cnt = count_decr [of s' t n, unfolded c, OF n]
  show ?thesis
  proof (rule refs_okI)
    fix t' assume t': "t' \<noteq> No_Target" "users (ref_decr t s') t' \<noteq> {}"
    show "count_of (ref_decr t s') t' \<noteq> None"
      using cnt t' sub [OF t'(1)] refs_ok_defined [OF R t'(1)] by (cases "t' = t") auto
  next
    fix t' m assume m: "count_of (ref_decr t s') t' = Some m"
    then have t0: "t' \<noteq> No_Target" by auto
    have le: "card (users s' t') \<le> card (users s t' - {a})"
      using sub [OF t0] by (intro card_mono) (auto simp: finite_users)
    show "card (users (ref_decr t s') t') + held (ref_decr t s') t' \<le> m"
    proof (cases "t' = t")
      case True
      have "card (users s t - {a}) = card (users s t) - 1" "0 < card (users s t)"
        using a finite_users by (auto simp: card_gt_0_iff)
      with le True n cnt m h refs_ok_count [OF R n] show ?thesis by auto
    next
      case neq: False
      then have "count_of s t' = Some m" using cnt m by simp
      moreover have "card (users s t' - {a}) \<le> card (users s t')"
        by (rule card_mono) (auto simp: finite_users)
      ultimately show ?thesis using h le refs_ok_count [OF R, of t' m] by simp
    qed
  qed
qed

end
