(* ===== verification/Fib_Inv.thy ===== *)
theory Fib_Inv
  imports Fib_Refs
begin

text \<open>
  The invariant of the routing component: the trees and the nodes agree, and every count covers
  the routes that use it.  Every call keeps it.
\<close>

definition fib_inv :: "fib_state \<Rightarrow> bool" where
  "fib_inv s \<longleftrightarrow> fib_wf s \<and> refs_ok s \<and> ids_ok s"

lemma inv_core: "fib_core s' = fib_core t \<Longrightarrow> fib_inv t \<Longrightarrow> fib_inv s'"
  unfolding fib_inv_def by (metis fib_wf_core refs_core)

section \<open>Route calls\<close>

text \<open>A parsed node forwards to what it did before or to something that an id names.\<close>

lemma accept_target:
  "route_attribute_accept E s w a r = (rc, r') \<Longrightarrow>
     target_of r' = target_of r \<or> (\<exists>x. route_names E s x = Some (target_of r'))"
proof (cases a)
  case (SAI_ROUTE_ENTRY_ATTR_NEXT_HOP_ID x)
  assume "route_attribute_accept E s w a r = (rc, r')"
  with SAI_ROUTE_ENTRY_ATTR_NEXT_HOP_ID have "r' = r \<or> route_names E s x = Some (target_of r')"
    by (auto simp: route_attribute_accept_def sai_fib_route_nh_id_attr_set_def
        sai_fib_route_nh_grp_id_attr_set_def route_names_def split: option.splits if_splits)
  then show ?thesis by auto
qed (auto simp: route_attribute_accept_def sai_fib_route_pkt_action_attr_set_def Let_def
    split: if_splits prod.splits)

lemma parse_loop_target:
  "route_parse_loop E s w i attrs r = (rc, r') \<Longrightarrow>
     target_of r' = target_of r \<or> (\<exists>x. route_names E s x = Some (target_of r'))"
proof (induction attrs arbitrary: i r)
  case (Cons a attrs)
  obtain e r1 where a: "route_attribute_accept E s w a r = (e, r1)" by (metis surj_pair)
  have "target_of r' = target_of r1 \<or> (\<exists>x. route_names E s x = Some (target_of r'))"
    using Cons a by (auto split: if_splits)
  with accept_target [OF a] show ?case by auto
qed simp

lemma parse_target:
  assumes "sai_fib_route_attributes_parse E s w attrs r = (rc, r')"
  shows "target_of r' = target_of r \<or> (\<exists>x. route_names E s x = Some (target_of r'))"
proof -
  from assms obtain e where "route_parse_loop E s w 0 attrs r = (e, r')"
    by (auto simp: sai_fib_route_attributes_parse_def split: prod.splits if_splits)
  then show ?thesis by (rule parse_loop_target)
qed

lemma named_allocated: "ids_ok s \<Longrightarrow> route_names E s x = Some t \<Longrightarrow> count_of s t \<noteq> None"
  by (auto simp: route_names_def ids_ok_def count_of_def split: if_splits)

lemma users_self: "fmlookup (route_mem s) a = Some r \<Longrightarrow> a \<in> users s (target_of r)"
  by (auto simp: users_def)

lemma target_allocated:
  "refs_ok s \<Longrightarrow> fmlookup (route_mem s) a = Some r \<Longrightarrow> target_of r \<noteq> No_Target \<Longrightarrow>
     count_of s (target_of r) \<noteq> None"
  using users_self [of s a r] refs_ok_defined [of s "target_of r"] by blast

lemma create_inv:
  assumes run: "sai_fib_route_create E en attrs s w = (rc, s', w')"
    and I: "fib_inv s" and F: "fresh_alloc E" and room: "refs_room s"
  shows "fib_inv s'"
proof -
  have W: "fib_wf s" and R: "refs_ok s" and D: "ids_ok s" using I by (auto simp: fib_inv_def)
  show ?thesis
    using run W F
  proof (cases rule: route_create_effect)
    case failed
    then show ?thesis using inv_core I by blast
  next
    case (created a r hw v w0 w1)
    let ?r = "r\<lparr>hw_info := hw\<rparr>" and ?vr = "vr_id en"
    have pl: "node_key ?r = route_entry_key E en" "rt_vrf_id ?r = ?vr"
      using same_place_key [OF parse_place [OF created(5)]] by simp_all
    have wf: "fib_wf (with_new_route ?vr a ?r s)"
      by (rule fib_wf_new [OF W created(2) _ created(4) pl(2)]) (use created(3) pl in simp)
    have none: "a \<notin> users s t" for t using created(4) by (simp add: users_def)
    have alloc: "count_of s (target_of r) \<noteq> None" if "target_of r \<noteq> No_Target"
    proof -
      have "target_of (sai_fib_route_node_init E en) = No_Target"
        by (simp add: sai_fib_route_node_init_def split_beta target_of_def)
      with parse_target [OF created(5)] that named_allocated [OF D] show ?thesis by metis
    qed
    have "refs_ok (ref_incr (target_of r) (with_new_route ?vr a ?r s))"
      by (rule refs_incr [OF R _ room, where a = a])
        (use alloc none in \<open>auto simp: users_new [OF created(2)] users_with_route simp del: not_None_eq\<close>)
    with wf D have "fib_inv (ref_incr (target_of r) (with_new_route ?vr a ?r s))"
      by (simp add: fib_inv_def)
    with created(7) show ?thesis using inv_core by blast
  next
    case (taken_over a r0 r hw w1)
    let ?r = "r\<lparr>hw_info := hw\<rparr>"
    have pl: "rt_vrf_id ?r = rt_vrf_id r0" "node_key ?r = node_key r0"
      using same_place_key [OF parse_place [OF taken_over(6)]] by simp_all
    note wf = fib_wf_with_route [OF W taken_over(4) pl]
    have alloc: "count_of s (target_of r) \<noteq> None" if "target_of r \<noteq> No_Target"
    proof (cases "target_of r = target_of r0")
      case True
      with target_allocated [OF R taken_over(4)] that show ?thesis by simp
    next
      case False
      with parse_target [OF taken_over(6)] named_allocated [OF D] show ?thesis by auto
    qed
    have "refs_ok (ref_incr (target_of r) (with_route a ?r s))"
      by (rule refs_incr [OF R _ room, where a = a])
        (use alloc in \<open>auto simp: users_with_route simp del: not_None_eq\<close>)
    with wf D have "fib_inv (ref_incr (target_of r) (with_route a ?r s))" by (simp add: fib_inv_def)
    with taken_over(8) show ?thesis using inv_core by blast
  qed
qed

lemma remove_inv:
  assumes run: "sai_fib_route_remove E en s w = (rc, s', w')" and I: "fib_inv s"
  shows "fib_inv s'"
proof -
  have W: "fib_wf s" and R: "refs_ok s" and D: "ids_ok s" using I by (auto simp: fib_inv_def)
  show ?thesis
    using run W
  proof (cases rule: route_remove_effect)
    case failed
    then show ?thesis using inv_core I by blast
  next
    case (refused a r hw w1)
    let ?r = "r\<lparr>hw_info := hw\<rparr>"
    have pl: "rt_vrf_id ?r = rt_vrf_id r" "node_key ?r = node_key r" by simp_all
    have "refs_ok (with_route a ?r s)"
      by (rule refs_ok_mono [OF R]) (use users_self [OF refused(3)] in \<open>auto simp: users_with_route\<close>)
    with refused(5) D fib_wf_with_route [OF W refused(3) pl] show ?thesis by (simp add: fib_inv_def)
  next
    case (removed a r v)
    have "refs_ok (ref_decr (target_of r) (without_route (vr_id en) a (route_entry_key E en) s))"
      by (rule refs_decr [OF R _ users_self [OF removed(5)]]) (simp_all add: users_without [OF removed(2)])
    with D fib_wf_without [OF W removed(2,3)]
    have "fib_inv (ref_decr (target_of r) (without_route (vr_id en) a (route_entry_key E en) s))"
      by (simp add: fib_inv_def)
    with removed(6) show ?thesis using inv_core by blast
  next
    case (reset a r hw)
    let ?r = "r\<lparr>hw_info := hw, packet_action := SAI_PACKET_ACTION_DROP, nh_type := SAI_FIB_ROUTE_NH_TYPE_NONE\<rparr>"
    have pl: "rt_vrf_id ?r = rt_vrf_id r" "node_key ?r = node_key r" by simp_all
    have "refs_ok (ref_decr (target_of r) (with_route a ?r s))"
      by (rule refs_decr [OF R _ users_self [OF reset(4)]]) (auto simp: users_with_route)
    with D fib_wf_with_route [OF W reset(4) pl] have "fib_inv (ref_decr (target_of r) (with_route a ?r s))"
      by (simp add: fib_inv_def)
    with reset(5) show ?thesis using inv_core by blast
  qed
qed

lemma count_decr_None: "count_of s t = None \<Longrightarrow> count_of (ref_decr t s) = count_of s"
  by (auto simp: count_of_def ref_decr_def nh_write_def grp_write_def fib_crash_def fun_eq_iff
      split: route_target.splits option.splits)

lemma count_decr_defined: "count_of (ref_decr t s) t' = None \<longleftrightarrow> count_of s t' = None"
  by (cases "count_of s t") (simp_all add: count_decr_None count_decr)

lemma refs_room_decr:
  assumes "refs_room s"
  shows "refs_room (ref_decr t s)"
proof (cases "count_of s t")
  case None
  with assms show ?thesis by (simp add: refs_room_def count_decr_None)
next
  case (Some n)
  show ?thesis
    unfolding refs_room_def count_decr [OF Some]
    using assms Some unfolding refs_room_def by (auto split: if_splits) fastforce
qed

lemma set_inv:
  assumes run: "sai_fib_route_attribute_set E en attr s w = (rc, s', w')"
    and I: "fib_inv s" and room: "refs_room s"
  shows "fib_inv s'"
proof -
  have W: "fib_wf s" and R: "refs_ok s" and D: "ids_ok s" using I by (auto simp: fib_inv_def)
  show ?thesis
    using run W
  proof (cases rule: route_set_effect)
    case failed
    then show ?thesis using inv_core I by blast
  next
    case (updated a r new hw w1)
    let ?n = "new\<lparr>hw_info := hw\<rparr>"
    have pl: "rt_vrf_id ?n = rt_vrf_id r" "node_key ?n = node_key r"
      using same_place_key [OF parse_place [OF updated(4)]] by simp_all
    note wf = fib_wf_with_route [OF W updated(3) pl]
    show ?thesis
    proof (cases "sai_fib_route_is_nh_info_match r new")
      case True
      then have "target_of new = target_of r"
        by (cases "nh_type new") (simp_all add: sai_fib_route_is_nh_info_match_def target_of_def)
      then have "refs_ok (with_route a ?n s)"
        by (intro refs_ok_mono [OF R]) (use users_self [OF updated(3)] in \<open>auto simp: users_with_route\<close>)
      with wf D have "fib_inv (with_route a ?n s)" by (simp add: fib_inv_def)
      with updated(6) True show ?thesis using inv_core by auto
    next
      case False
      let ?q = "with_route a (?n\<lparr>nh_type := SAI_FIB_ROUTE_NH_TYPE_NONE\<rparr>) s"
      let ?d = "ref_decr (target_of r) ?q"
      have d: "refs_ok ?d"
        by (rule refs_decr [OF R _ users_self [OF updated(3)]]) (auto simp: users_with_route)
      have rm: "refs_room ?d"
        by (rule refs_room_decr) (use room in \<open>simp add: refs_room_def\<close>)
      have cnt: "count_of (ref_decr (target_of r) (with_route a ?n s)) = count_of ?d"
        by (simp only: ref_commute count_with)
      have alloc: "count_of ?d (target_of new) \<noteq> None" if t: "target_of new \<noteq> No_Target"
      proof -
        have "count_of s (target_of new) \<noteq> None"
        proof (cases "target_of new = target_of r")
          case True
          with target_allocated [OF R updated(3)] t show ?thesis by simp
        next
          case False
          with parse_target [OF updated(4)] named_allocated [OF D] show ?thesis by auto
        qed
        then show ?thesis by (simp add: count_decr_defined del: not_None_eq)
      qed
      let ?m = "ref_decr (target_of r) (with_route a ?n s)"
      have um: "users ?m t = (if target_of new = t then insert a (users s t) else users s t - {a})" for t
        by (simp add: users_with_route)
      have ud: "users ?d t = users s t - {a}" if "t \<noteq> No_Target" for t
        using that by (simp add: users_with_route)
      have "refs_ok (ref_incr (target_of new) ?m)"
      proof (rule refs_incr [OF d cnt rm])
        assume t: "target_of new \<noteq> No_Target"
        show "count_of ?d (target_of new) \<noteq> None
            \<and> users ?m (target_of new) \<subseteq> insert a (users ?d (target_of new))"
          using alloc [OF t] um [of "target_of new"] ud [OF t] by auto
      next
        fix t assume "t \<noteq> target_of new" "t \<noteq> No_Target"
        with um [of t] ud [of t] show "users ?m t \<subseteq> users ?d t" by auto
      qed (simp only: held_ref held_with)
      with wf D have "fib_inv (ref_incr (target_of new) (ref_decr (target_of r) (with_route a ?n s)))"
        by (simp add: fib_inv_def)
      with updated(6) False show ?thesis using inv_core by auto
    qed
  qed
qed

end
