(* ===== verification/Fib_Vr_Inv.thy ===== *)
theory Fib_Vr_Inv
  imports Fib_Inv
begin

text \<open>
  The virtual router calls keep the invariant of the routing component.
\<close>

definition vrf_rest :: "sai_fib_vrf_t \<Rightarrow> sai_fib_vrf_t" where
  \<comment> \<open>a virtual router without its routes\<close>
  "vrf_rest v = v\<lparr>sai_route_tree := None\<rparr>"

definition same_vrfs :: "fib_state \<Rightarrow> fib_state \<Rightarrow> bool" where
  "same_vrfs s s' \<longleftrightarrow> (\<forall>x. map_option vrf_rest (rb_getexact (vrf_tree s') x)
                          = map_option vrf_rest (rb_getexact (vrf_tree s) x))"

lemma same_vrfs_refl [simp]: "same_vrfs s s"
  by (simp add: same_vrfs_def)

lemma same_vrfs_trans: "same_vrfs s s' \<Longrightarrow> same_vrfs s' s'' \<Longrightarrow> same_vrfs s s''"
  by (simp add: same_vrfs_def)

lemma same_vrfsD:
  assumes "same_vrfs s s'" and "rb_getexact (vrf_tree s) x = Some v"
  obtains v' where "rb_getexact (vrf_tree s') x = Some v'" "vrf_rest v' = vrf_rest v"
  using assms unfolding same_vrfs_def by (metis map_option_eq_Some)

lemma vrf_restD:
  "vrf_rest v' = vrf_rest v \<Longrightarrow> num_rif v' = num_rif v \<and> sai_nh_tree v' = sai_nh_tree v
     \<and> vrf_id v' = vrf_id v \<and> rif_dll_head v' = rif_dll_head v"
  by (cases v, cases v') (simp add: vrf_rest_def)

lemma same_vrfs_new: "same_vrfs s (with_new_route vr a r s)"
  by (auto simp: same_vrfs_def with_new_route_def vrf_rest_def split: option.split)

lemma same_vrfs_without: "same_vrfs s (without_route vr a k s)"
  by (auto simp: same_vrfs_def without_route_def vrf_rest_def split: option.split)

section \<open>One default route\<close>

definition default_del :: "('w, 'z) fib_env_scheme \<Rightarrow> sai_object_id_t \<Rightarrow> sai_ip_addr_family_t \<Rightarrow> fib_state \<Rightarrow> fib_state" where
  "default_del E vr af s = snd (sai_fib_internal_default_route_node_del E vr af s)"

lemma default_del_inv:
  assumes I: "fib_inv s" and Z: "zero_mask_law E"
  shows "fib_inv (default_del E vr af s)" "same_vrfs s (default_del E vr af s)"
    "route_at (default_del E vr af s) x k = (if x = vr \<and> k = default_key af then None else route_at s x k)"
proof -
  have W: "fib_wf s" and R: "refs_ok s" and D: "ids_ok s" using I by (auto simp: fib_inv_def)
  note eff = default_del_effect [OF W Z, of vr af, folded default_del_def]
  have "fib_inv (default_del E vr af s) \<and> same_vrfs s (default_del E vr af s)
    \<and> route_at (default_del E vr af s) x k = (if x = vr \<and> k = default_key af then None else route_at s x k)"
  proof (cases "route_at s vr (default_key af)")
    case None
    with eff I show ?thesis by auto
  next
    case (Some a)
    then obtain v where v: "rb_getexact (vrf_tree s) vr = Some v"
      by (auto simp: route_at_def bind_eq_Some_conv)
    have "refs_ok (without_route vr a (default_key af) s)"
      by (rule refs_ok_mono [OF R]) (auto simp: users_without [OF v])
    with eff Some fib_wf_without [OF W v Some] D show ?thesis
      by (simp add: fib_inv_def same_vrfs_without route_at_without [OF v])
  qed
  then show "fib_inv (default_del E vr af s)" "same_vrfs s (default_del E vr af s)"
    "route_at (default_del E vr af s) x k = (if x = vr \<and> k = default_key af then None else route_at s x k)"
    by auto
qed

lemma default_route_del_eq:
  "sai_fib_vrf_default_route_del E vr s
     = default_del E vr SAI_IP_ADDR_FAMILY_IPV6 (default_del E vr SAI_IP_ADDR_FAMILY_IPV4 s)"
  by (simp add: sai_fib_vrf_default_route_del_def default_del_def split_beta)

definition is_default_key :: "std_rt_key \<Rightarrow> bool" where
  "is_default_key k \<longleftrightarrow> k = default_key SAI_IP_ADDR_FAMILY_IPV4 \<or> k = default_key SAI_IP_ADDR_FAMILY_IPV6"

lemma default_routes_deleted:
  assumes I: "fib_inv s" and Z: "zero_mask_law E"
  shows "fib_inv (sai_fib_vrf_default_route_del E vr s)"
    "same_vrfs s (sai_fib_vrf_default_route_del E vr s)"
    "route_at (sai_fib_vrf_default_route_del E vr s) x k
       = (if x = vr \<and> is_default_key k then None else route_at s x k)"
proof -
  note A = default_del_inv [OF I Z, of vr SAI_IP_ADDR_FAMILY_IPV4]
  note B = default_del_inv [OF A(1) Z, of vr SAI_IP_ADDR_FAMILY_IPV6]
  show "fib_inv (sai_fib_vrf_default_route_del E vr s)" using B(1) by (simp add: default_route_del_eq)
  show "same_vrfs s (sai_fib_vrf_default_route_del E vr s)"
    unfolding default_route_del_eq by (rule same_vrfs_trans [OF A(2) B(2)])
  show "route_at (sai_fib_vrf_default_route_del E vr s) x k
       = (if x = vr \<and> is_default_key k then None else route_at s x k)"
    unfolding default_route_del_eq B(3) A(3) is_default_key_def by auto
qed

lemma default_add_inv:
  assumes run: "sai_fib_internal_default_route_node_add E vr af s w = (rc, s', w')"
    and I: "fib_inv s" and v: "rb_getexact (vrf_tree s) vr \<noteq> None"
    and free: "route_at s vr (default_key af) = None" and F: "fresh_alloc E" and Z: "zero_mask_law E"
  shows "fib_inv s'" "same_vrfs s s'" "\<And>x k. \<not> (x = vr \<and> k = default_key af) \<Longrightarrow> route_at s' x k = route_at s x k"
    "fib_memory_ok E \<Longrightarrow> route_at s' vr (default_key af) \<noteq> None"
proof -
  have W: "fib_wf s" and R: "refs_ok s" and D: "ids_ok s" using I by (auto simp: fib_inv_def)
  obtain v0 where v: "rb_getexact (vrf_tree s) vr = Some v0" "vrf_id v0 = vr" "sai_route_tree v0 \<noteq> None"
    using v fib_wf_vrf [OF W] by auto
  have "fib_inv s' \<and> same_vrfs s s' \<and> (\<forall>x k. \<not> (x = vr \<and> k = default_key af) \<longrightarrow> route_at s' x k = route_at s x k)
    \<and> (fib_memory_ok E \<longrightarrow> route_at s' vr (default_key af) \<noteq> None)"
    using run v(1,2) free F Z
  proof (cases rule: default_add_effect)
    case failed
    then have "\<not> fib_memory_ok E" unfolding fib_memory_ok_def by blast
    with failed(1) I show ?thesis by simp
  next
    case (added a)
    let ?r = "internal_default E vr af"
    have wf: "fib_wf (with_new_route vr a ?r s)"
      by (rule fib_wf_new [OF W v(1) _ added(1)]) (use free Z in simp_all)
    have "refs_ok (with_new_route vr a ?r s)"
      by (rule refs_ok_mono [OF R]) (auto simp: users_new [OF v(1)] users_with_route)
    with wf D added(2) show ?thesis
      using Z by (auto simp: fib_inv_def same_vrfs_new route_at_new [OF v(1,3)])
  qed
  then show "fib_inv s'" "same_vrfs s s'"
    "\<And>x k. \<not> (x = vr \<and> k = default_key af) \<Longrightarrow> route_at s' x k = route_at s x k"
    "fib_memory_ok E \<Longrightarrow> route_at s' vr (default_key af) \<noteq> None" by blast+
qed

lemma default_routes_added:
  assumes run: "sai_fib_vrf_default_route_add E vr s w = (s', w')"
    and I: "fib_inv s" and v: "rb_getexact (vrf_tree s) vr \<noteq> None"
    and free: "\<And>k. is_default_key k \<Longrightarrow> route_at s vr k = None" and F: "fresh_alloc E" and Z: "zero_mask_law E"
  shows "fib_inv s'" "same_vrfs s s'"
    "\<And>x k. \<not> (x = vr \<and> is_default_key k) \<Longrightarrow> route_at s' x k = route_at s x k"
    "\<And>k. fib_memory_ok E \<Longrightarrow> is_default_key k \<Longrightarrow> route_at s' vr k \<noteq> None"
proof -
  obtain rc1 s1 w1 where a: "sai_fib_internal_default_route_node_add E vr SAI_IP_ADDR_FAMILY_IPV4 s w = (rc1, s1, w1)"
    by (metis prod_cases3)
  obtain rc2 s2 w2 where b: "sai_fib_internal_default_route_node_add E vr SAI_IP_ADDR_FAMILY_IPV6 s1 w1 = (rc2, s2, w2)"
    by (metis prod_cases3)
  have s': "s' = s2" using run a b by (simp add: sai_fib_vrf_default_route_add_def)
  have f4: "route_at s vr (default_key SAI_IP_ADDR_FAMILY_IPV4) = None"
    and f6: "route_at s vr (default_key SAI_IP_ADDR_FAMILY_IPV6) = None"
    using free by (auto simp: is_default_key_def)
  note A = default_add_inv [OF a I v f4 F Z]
  have v1: "rb_getexact (vrf_tree s1) vr \<noteq> None" using v A(2) by (metis not_None_eq same_vrfsD)
  have g6: "route_at s1 vr (default_key SAI_IP_ADDR_FAMILY_IPV6) = None"
    using A(3) f6 default_keys_differ by metis
  note B = default_add_inv [OF b A(1) v1 g6 F Z]
  show "fib_inv s'" using B(1) s' by simp
  show "same_vrfs s s'" using A(2) B(2) s' by (auto intro: same_vrfs_trans)
  show "route_at s' x k = route_at s x k" if "\<not> (x = vr \<and> is_default_key k)" for x k
    using A(3) [of x k] B(3) [of x k] that s' by (auto simp: is_default_key_def)
  show "route_at s' vr k \<noteq> None" if m: "fib_memory_ok E" and k: "is_default_key k" for k
  proof -
    have "route_at s' vr (default_key SAI_IP_ADDR_FAMILY_IPV4) = route_at s1 vr (default_key SAI_IP_ADDR_FAMILY_IPV4)"
      unfolding s' by (rule B(3)) (simp add: default_keys_differ)
    with A(4) [OF m] B(4) [OF m] k s' show ?thesis by (auto simp: is_default_key_def)
  qed
qed

section \<open>The tree of virtual routers\<close>

lemma inv_new_vrf:
  assumes I: "fib_inv s" and new: "rb_getexact (vrf_tree s) (vrf_id v) = None"
    and v: "sai_route_tree v = Some fmempty" and t: "vrf_tree s \<noteq> None"
  shows "fib_inv (s\<lparr>vrf_tree := rb_put (vrf_tree s) (vrf_id v) v, num_virtual_routers := n\<rparr>)" (is "fib_inv ?s")
    and "route_at (s\<lparr>vrf_tree := rb_put (vrf_tree s) (vrf_id v) v, num_virtual_routers := n\<rparr>) = route_at s"
proof -
  have W: "fib_wf s" and R: "refs_ok s" and D: "ids_ok s" using I by (auto simp: fib_inv_def)
  show at: "route_at ?s = route_at s"
    using new v t by (auto simp: route_at_def fun_eq_iff)
  have "fib_wf ?s"
    unfolding fib_wf_def at using W v t by (auto simp: fib_wf_def)
  moreover have "refs_ok ?s"
    by (rule refs_ok_mono [OF R]) (auto simp: users_def intro: count_of_mem held_mem)
  moreover have "ids_ok ?s" using D by (simp add: ids_ok_def)
  ultimately show "fib_inv ?s" by (simp add: fib_inv_def)
qed

lemma inv_drop_vrf:
  assumes I: "fib_inv s" and empty: "\<And>k. route_at s vr k = None"
  shows "fib_inv (s\<lparr>vrf_tree := rb_remove (vrf_tree s) vr, num_virtual_routers := n\<rparr>)" (is "fib_inv ?s")
    and "route_at (s\<lparr>vrf_tree := rb_remove (vrf_tree s) vr, num_virtual_routers := n\<rparr>) = route_at s"
proof -
  have W: "fib_wf s" and R: "refs_ok s" and D: "ids_ok s" using I by (auto simp: fib_inv_def)
  show at: "route_at ?s = route_at s"
    using empty by (auto simp: route_at_def fun_eq_iff)
  have "fib_wf ?s" unfolding fib_wf_def at using W by (auto simp: fib_wf_def)
  moreover have "refs_ok ?s"
    by (rule refs_ok_mono [OF R]) (auto simp: users_def intro: count_of_mem held_mem)
  moreover have "ids_ok ?s" using D by (simp add: ids_ok_def)
  ultimately show "fib_inv ?s" by (simp add: fib_inv_def)
qed

lemma inv_same_routes:
  assumes I: "fib_inv s" and v: "rb_getexact (vrf_tree s) vr = Some v"
    and v': "vrf_id v' = vrf_id v" "sai_route_tree v' = sai_route_tree v"
  shows "fib_inv (s\<lparr>vrf_tree := rb_put (vrf_tree s) vr v'\<rparr>)" (is "fib_inv ?s")
    and "route_at (s\<lparr>vrf_tree := rb_put (vrf_tree s) vr v'\<rparr>) = route_at s"
proof -
  have W: "fib_wf s" and R: "refs_ok s" and D: "ids_ok s" using I by (auto simp: fib_inv_def)
  show at: "route_at ?s = route_at s"
    using v v' rb_getexact_SomeD [OF v] by (auto simp: route_at_def fun_eq_iff)
  have "fib_wf ?s" unfolding fib_wf_def at using W v v' by (auto simp: fib_wf_def)
  moreover have "refs_ok ?s"
    by (rule refs_ok_mono [OF R]) (auto simp: users_def intro: count_of_mem held_mem)
  moreover have "ids_ok ?s" using D by (simp add: ids_ok_def)
  ultimately show "fib_inv ?s" by (simp add: fib_inv_def)
qed

lemma inv_cong:
  assumes "vrf_tree s' = vrf_tree s" "route_mem s' = route_mem s" "nh_mem s' = nh_mem s"
    "grp_mem s' = grp_mem s" "nh_id_tree s' = nh_id_tree s" "nh_group_tree s' = nh_group_tree s"
  shows "fib_inv s' = fib_inv s"
proof -
  have "route_at s' = route_at s" using assms by (simp add: route_at_def fun_eq_iff)
  moreover have "users s' = users s" using assms by (simp add: users_def fun_eq_iff)
  moreover have "count_of s' = count_of s" by (rule count_of_mem [OF assms(3,4)])
  moreover have "held s' = held s" by (rule held_mem [OF assms(3,4)])
  ultimately show ?thesis using assms by (simp add: fib_inv_def fib_wf_def refs_ok_def ids_ok_def)
qed

lemma inv_other_fields [simp]:
  "fib_inv (sai_fib_lock s) = fib_inv s" "fib_inv (sai_fib_unlock s) = fib_inv s"
  "fib_inv (fib_crash s) = fib_inv s" "fib_inv (s\<lparr>max_ecmp_paths := m\<rparr>) = fib_inv s"
  by (rule inv_cong; simp add: fib_crash_def)+

section \<open>The calls\<close>

lemma vrf_parse_trees:
  "sai_fib_vrf_attributes_parse E w attrs v = (rc, v', flags) \<Longrightarrow>
     vrf_id v' = vrf_id v \<and> sai_route_tree v' = sai_route_tree v \<and> sai_nh_tree v' = sai_nh_tree v
     \<and> num_rif v' = num_rif v \<and> rif_dll_head v' = rif_dll_head v"
proof -
  have acc: "vrf_attribute_accept E a v = ((rc, v'), f) \<Longrightarrow>
      vrf_id v' = vrf_id v \<and> sai_route_tree v' = sai_route_tree v \<and> sai_nh_tree v' = sai_nh_tree v
      \<and> num_rif v' = num_rif v \<and> rif_dll_head v' = rif_dll_head v" for a v rc v' f
    by (auto simp: vrf_attribute_accept_def sai_fib_vrf_mac_attr_set_def sai_fib_vrf_v4_admin_state_attr_set_def
        sai_fib_vrf_v6_admin_state_attr_set_def sai_fib_vrf_ttl_violation_attr_set_def
        sai_fib_vrf_ip_options_attr_set_def split: sai_virtual_router_attr_t.splits if_splits)
  have "vrf_parse_loop E w i attrs v fl = (rc, v', fl') \<Longrightarrow>
      vrf_id v' = vrf_id v \<and> sai_route_tree v' = sai_route_tree v \<and> sai_nh_tree v' = sai_nh_tree v
      \<and> num_rif v' = num_rif v \<and> rif_dll_head v' = rif_dll_head v" for i v fl rc v' fl'
  proof (induction attrs arbitrary: i v fl)
    case (Cons a attrs)
    obtain e v1 f where a: "vrf_attribute_accept E a v = ((e, v1), f)" by (metis surj_pair)
    with Cons acc [OF a] show ?case by (auto simp: Let_def split: if_splits)
  qed simp
  then show "sai_fib_vrf_attributes_parse E w attrs v = (rc, v', flags) \<Longrightarrow> ?thesis"
    by (auto simp: sai_fib_vrf_attributes_parse_def split: prod.splits if_splits)
qed

text \<open>Creation.\<close>

lemma vr_create_effect:
  assumes run: "sai_fib_virtual_router_create E cnt as s w = (rc, oid, s', w')"
    and I: "fib_inv s" and T: "vrf_tree s \<noteq> None"
    and F: "fresh_alloc E" and Z: "zero_mask_law E" and U: "refuses_duplicates E"
  obtains (failed) "rc \<noteq> SAI_STATUS_SUCCESS" "s' = s"
    | (created) v s1 w1 w2 where "rc = SAI_STATUS_SUCCESS" "oid = Some (vrf_id v)"
        "rb_getexact (vrf_tree s) (vrf_id v) = None" "num_rif v = 0" "rif_dll_head v = []"
        "sai_nh_tree v = Some fmempty" "sai_route_tree v = Some fmempty"
        "s1 = s\<lparr>vrf_tree := rb_put (vrf_tree s) (vrf_id v) v,
           num_virtual_routers := num_virtual_routers s + 1\<rparr>"
        "sai_fib_vrf_default_route_add E (vrf_id v) (sai_fib_lock s1) w1 = (sai_fib_lock s', w2)"
proof -
  show thesis
  proof (cases "sai_fib_vrf_create_params_validate cnt as = SAI_STATUS_SUCCESS")
    case False
    with run show thesis by (intro failed) (auto simp: sai_fib_virtual_router_create_def)
  next
    case True
    define attrs where "attrs = (case as of None \<Rightarrow> [] | Some l \<Rightarrow> take cnt l)"
    let ?L = "sai_fib_lock s"
    obtain rcb ob sb wb where body: "vr_create_body E attrs ?L w = (rcb, ob, sb, wb)" by (metis prod_cases4)
    have e: "rc = rcb" "oid = ob" "s' = sai_fib_unlock sb"
      using run True body by (simp_all add: sai_fib_virtual_router_create_def attrs_def)
    have fail: thesis if "rcb \<noteq> SAI_STATUS_SUCCESS" "sb = ?L" using failed that e by simp
    obtain ok w1 where c: "calloc_ok E w = (ok, w1)" by (metis surj_pair)
    obtain rcp vp fl where p: "sai_fib_vrf_attributes_parse E w1 attrs
        (sai_fib_vrf_attributes_init E w1 vrf_node_zero) = (rcp, vp, fl)" by (metis prod_cases3)
    obtain rcn hw w2 where n: "npu_vr_create E vp w1 = (rcn, hw, w2)" by (metis prod_cases3)
    let ?vr = "sai_uoid_create E SAI_OBJECT_TYPE_VIRTUAL_ROUTER hw"
    let ?v = "vp\<lparr>vrf_id := ?vr, rif_dll_head := []\<rparr>"
    obtain rct vt w3 where t: "sai_fib_vrf_node_trees_create E ?v w2 = (rct, vt, w3)" by (metis prod_cases3)
    obtain rci si w4 where i: "sai_fib_vrf_node_insert_to_tree E vt ?L w3 = (rci, si, w4)" by (metis prod_cases3)
    note body = body [unfolded vr_create_body_def Let_def c prod.case p n t i]
    show thesis
    proof (cases "ok \<and> rcp = SAI_STATUS_SUCCESS \<and> rcn = SAI_STATUS_SUCCESS \<and> rct = SAI_STATUS_SUCCESS")
      case False
      with body show thesis by (intro fail) (auto split: if_splits)
    next
      case ok: True
      have z: "num_rif vp = 0" using vrf_parse_trees [OF p]
        by (simp add: sai_fib_vrf_attributes_init_def vrf_node_zero_def)
      from t ok have vt: "vt = ?v\<lparr>sai_nh_tree := Some fmempty, sai_route_tree := Some fmempty\<rparr>"
        by (auto simp: sai_fib_vrf_node_trees_create_def Let_def split: prod.splits if_splits)
      obtain oki ti wi where ins: "std_rbtree_insert E (vrf_tree ?L) (vrf_id vt) vt w3 = (oki, ti, wi)"
        by (metis prod_cases3)
      show thesis
      proof (cases oki)
        case False
        with i ins have "rci = SAI_STATUS_FAILURE" "si = ?L"
          by (auto simp: sai_fib_vrf_node_insert_to_tree_def split: prod.splits)
        with body ok show thesis by (intro fail) auto
      next
        case True
        from insert_cases [OF ins] U True have new: "rb_getexact (vrf_tree s) (vrf_id vt) = None"
          "ti = rb_put (vrf_tree s) (vrf_id vt) vt" by auto
        let ?s1 = "s\<lparr>vrf_tree := rb_put (vrf_tree s) (vrf_id vt) vt,
          num_virtual_routers := num_virtual_routers s + 1\<rparr>"
        have si: "rci = SAI_STATUS_SUCCESS" "si\<lparr>num_virtual_routers := num_virtual_routers si + 1\<rparr> = sai_fib_lock ?s1"
          using i ins True new(2) by (auto simp: sai_fib_vrf_node_insert_to_tree_def sai_fib_lock_def)
        obtain sd wd where d: "sai_fib_vrf_default_route_add E (vrf_id vt) (sai_fib_lock ?s1) w4 = (sd, wd)"
          by (metis surj_pair)
        have "rcb = SAI_STATUS_SUCCESS" "ob = Some (vrf_id vt)" "sb = sd"
          using body ok si d by (auto simp: vt)
        moreover have "sai_fib_lock (sai_fib_unlock sd) = sd" by (simp add: sai_fib_lock_def sai_fib_unlock_def)
        ultimately show thesis using d e new z
          by (intro created [of vt ?s1 w4 wd]) (simp_all add: vt)
      qed
    qed
  qed
qed

lemma vr_create_inv:
  assumes run: "sai_fib_virtual_router_create E cnt as s w = (rc, oid, s', w')"
    and I: "fib_inv s" and T: "vrf_tree s \<noteq> None"
    and F: "fresh_alloc E" and Z: "zero_mask_law E" and U: "refuses_duplicates E"
  shows "fib_inv s' \<and> vrf_tree s' \<noteq> None"
  using run I T F Z U
proof (cases rule: vr_create_effect)
  case failed
  with I T show ?thesis by simp
next
  case (created v s1 w1 w2)
  note new = inv_new_vrf [OF I created(3,7) T, of "num_virtual_routers s + 1", folded created(8)]
  have at: "route_at s (vrf_id v) k = None" for k using created(3) by (simp add: route_at_def)
  have I1: "fib_inv (sai_fib_lock s1)" using new(1) by simp
  have v1: "rb_getexact (vrf_tree (sai_fib_lock s1)) (vrf_id v) \<noteq> None"
    using T by (auto simp: created(8))
  have free: "route_at (sai_fib_lock s1) (vrf_id v) k = None" for k using at new(2) by simp
  note A = default_routes_added [OF created(9) I1 v1 free F Z]
  obtain v' where "rb_getexact (vrf_tree (sai_fib_lock s')) (vrf_id v) = Some v'"
    using A(2) v1 by (metis not_None_eq same_vrfsD)
  then have "vrf_tree s' \<noteq> None" using rb_getexact_SomeD [of "vrf_tree s'"] by auto
  with A(1) show ?thesis by simp
qed

text \<open>Removal: either it is refused before anything happens, or the default routes go, and then
  either they come back as internal ones (with the exception of one status), or the virtual router
  goes too.\<close>

lemma vr_remove_effect:
  assumes run: "sai_fib_virtual_router_remove E vr s w = (rc, s', w')" and I: "fib_inv s" and Z: "zero_mask_law E"
  obtains (refused) "rc \<noteq> SAI_STATUS_SUCCESS" "s' = s"
        "rc = SAI_STATUS_INVALID_OBJECT_TYPE \<or> rc = SAI_STATUS_INVALID_OBJECT_ID"
    | (in_use) v d w1 w2 where "rc \<noteq> SAI_STATUS_SUCCESS" "rb_getexact (vrf_tree s) vr = Some v"
        "d = sai_fib_vrf_default_route_del E vr (sai_fib_lock s)"
        "if rc = SAI_STATUS_INVALID_OBJECT_ID then s' = sai_fib_unlock d
         else sai_fib_vrf_default_route_add E vr d w1 = (sai_fib_lock s', w2)"
        "rc = SAI_STATUS_INVALID_OBJECT_ID \<longrightarrow> \<not> vr_status_ok E"
    | (removed) v d where "rc = SAI_STATUS_SUCCESS" "rb_getexact (vrf_tree s) vr = Some v"
        "d = sai_fib_vrf_default_route_del E vr (sai_fib_lock s)"
        "num_rif v = 0" "sai_fib_vrf_is_nh_tree_empty E (sai_nh_tree v)"
        "\<And>k. route_at d vr k = None"
        "s' = sai_fib_unlock (d\<lparr>vrf_tree := rb_remove (vrf_tree d) vr,
           num_virtual_routers := num_virtual_routers d - 1\<rparr>)"
proof -
  let ?L = "sai_fib_lock s"
  define d where "d = sai_fib_vrf_default_route_del E vr ?L"
  have IL: "fib_inv ?L" using I by simp
  note D = default_routes_deleted [OF IL Z, of vr, folded d_def]
  show thesis
  proof (cases "sai_is_obj_id E SAI_OBJECT_TYPE_VIRTUAL_ROUTER vr \<and> rb_getexact (vrf_tree s) vr \<noteq> None")
    case False
    with run show thesis
      by (intro refused) (auto simp: sai_fib_virtual_router_remove_def vr_remove_body_def split: if_splits)
  next
    case True
    then obtain v where v: "rb_getexact (vrf_tree s) vr = Some v" by auto
    then obtain v1 where v1: "rb_getexact (vrf_tree d) vr = Some v1" "vrf_rest v1 = vrf_rest v"
      using D(2) same_vrfsD [of ?L d vr v] by auto
    note rest = vrf_restD [OF v1(2)]
    obtain rc1 s1 w1 where ch: "vr_remove_checked E vr d w = (rc1, s1, w1)" by (metis prod_cases3)
    note ch' = ch [unfolded vr_remove_checked_def v1(1) option.case]
    note body = run [unfolded sai_fib_virtual_router_remove_def vr_remove_body_def Let_def
        d_def [symmetric] ch prod.case]
    show thesis
    proof (cases "rc1 = SAI_STATUS_SUCCESS")
      case False
      have s1: "s1 = d" using ch' False by (auto split: if_splits prod.splits)
      obtain s2 w2 where add: "sai_fib_vrf_default_route_add E vr d w1 = (s2, w2)" by (metis surj_pair)
      have lk: "sai_fib_lock (sai_fib_unlock s2) = s2" by (simp add: sai_fib_lock_def sai_fib_unlock_def)
      have "rc = rc1" and s': "s' = sai_fib_unlock (if rc1 = SAI_STATUS_INVALID_OBJECT_ID then d else s2)"
        using body True False s1 add by (auto split: if_splits)
      have "\<exists>u. fst (npu_vr_remove E u w) = rc" if "rc = SAI_STATUS_INVALID_OBJECT_ID"
        using that ch' False \<open>rc = rc1\<close> by (auto intro!: exI [of _ v1] split: if_splits prod.splits)
      then have nm: "rc = SAI_STATUS_INVALID_OBJECT_ID \<longrightarrow> \<not> vr_status_ok E"
        unfolding vr_status_ok_def by metis
      show thesis
        by (rule in_use [of v d w1 w2, OF _ _ _ _ nm])
          (use \<open>rc = rc1\<close> s' False v add lk in \<open>auto simp: d_def split: if_splits\<close>)
    next
      case ok: True
      from ch' ok have c: "num_rif v1 = 0" "sai_fib_vrf_is_nh_tree_empty E (sai_nh_tree v1)"
        "sai_fib_vrf_is_route_tree_empty (sai_route_tree v1)"
        "s1 = d\<lparr>vrf_tree := rb_remove (vrf_tree d) vr, num_virtual_routers := num_virtual_routers d - 1\<rparr>"
        by (auto split: if_splits prod.splits)
      have "rb_getexact (sai_route_tree v1) k = None" for k
      proof (rule route_tree_empty [OF c(3)])
        fix k assume k: "rb_getexact (sai_route_tree v1) k \<noteq> None"
        then obtain a where "route_at d vr k = Some a" using v1(1) by (auto simp: route_at_def)
        then obtain r where "node_key r = k" using fib_wf_entry D(1) by (metis fib_inv_def)
        then show "32 \<le> length k" using node_key_long by blast
      qed
      then have "route_at d vr k = None" for k using v1(1) by (simp add: route_at_def)
      with body True ok c rest v show thesis by (intro removed [of v d]) (auto simp: d_def)
    qed
  qed
qed

lemma vr_remove_inv:
  assumes run: "sai_fib_virtual_router_remove E vr s w = (rc, s', w')"
    and I: "fib_inv s" and Z: "zero_mask_law E" and F: "fresh_alloc E" and T: "vrf_tree s \<noteq> None"
  shows "fib_inv s' \<and> vrf_tree s' \<noteq> None"
  using run I Z
proof (cases rule: vr_remove_effect)
  case refused
  with I T show ?thesis by simp
next
  case (in_use v d w1 w2)
  have IL: "fib_inv (sai_fib_lock s)" using I by simp
  note D = default_routes_deleted [OF IL Z, of vr, folded in_use(3)]
  have v: "rb_getexact (vrf_tree d) vr \<noteq> None"
    using D(2) in_use(2) by (metis lock_sel(1) not_None_eq same_vrfsD)
  then have T': "vrf_tree d \<noteq> None" by (metis rb_getexact_NULL)
  show ?thesis
  proof (cases "rc = SAI_STATUS_INVALID_OBJECT_ID")
    case True
    with in_use(4) D(1) T' show ?thesis by simp
  next
    case False
    with in_use(4) have add: "sai_fib_vrf_default_route_add E vr d w1 = (sai_fib_lock s', w2)" by simp
    have free: "route_at d vr k = None" if "is_default_key k" for k using D(3) that by simp
    note A = default_routes_added [OF add D(1) v free F Z]
    have "rb_getexact (vrf_tree (sai_fib_lock s')) vr \<noteq> None"
      using A(2) v by (metis not_None_eq same_vrfsD)
    then have "vrf_tree s' \<noteq> None" by (metis lock_sel(1) rb_getexact_NULL)
    with A(1) show ?thesis by simp
  qed
next
  case (removed v d)
  have IL: "fib_inv (sai_fib_lock s)" using I by simp
  note D = default_routes_deleted [OF IL Z, of vr, folded removed(3)]
  have "rb_getexact (vrf_tree d) vr \<noteq> None"
    using D(2) removed(2) by (metis lock_sel(1) not_None_eq same_vrfsD)
  then have "vrf_tree d \<noteq> None" by (metis rb_getexact_NULL)
  with inv_drop_vrf(1) [OF D(1) removed(6)] removed(7) show ?thesis by simp
qed

lemma vr_set_inv:
  assumes run: "sai_fib_virtual_router_attribute_set E vr attr s w = (rc, s', w')"
    and I: "fib_inv s" and T: "vrf_tree s \<noteq> None"
  shows "fib_inv s' \<and> vrf_tree s' \<noteq> None \<and> route_at s' = route_at s
    \<and> (\<forall>x. rb_getexact (vrf_tree s') x = None \<longleftrightarrow> rb_getexact (vrf_tree s) x = None)"
proof -
  have "s' = s \<or> (\<exists>v v'. rb_getexact (vrf_tree s) vr = Some v \<and> vrf_id v' = vrf_id v
      \<and> sai_route_tree v' = sai_route_tree v \<and> s' = s\<lparr>vrf_tree := rb_put (vrf_tree s) vr v'\<rparr>)"
  proof (cases "rb_getexact (vrf_tree s) vr")
    case (Some v)
    obtain e v' fl where p: "sai_fib_vrf_attributes_parse E w [attr] v = (e, v', fl)" by (metis prod_cases3)
    show ?thesis
      using run Some p vrf_parse_trees [OF p]
      by (auto simp: sai_fib_virtual_router_attribute_set_def Let_def sai_fib_lock_def sai_fib_unlock_def
          split: if_splits prod.splits)
  qed (use run in \<open>auto simp: sai_fib_virtual_router_attribute_set_def split: if_splits\<close>)
  then show ?thesis
  proof (elim disjE exE conjE)
    fix v v' assume v: "rb_getexact (vrf_tree s) vr = Some v" "vrf_id v' = vrf_id v"
      "sai_route_tree v' = sai_route_tree v" "s' = s\<lparr>vrf_tree := rb_put (vrf_tree s) vr v'\<rparr>"
    from inv_same_routes [OF I v(1-3)] v(1,4) T show ?thesis by simp
  qed (use I T in simp)
qed

lemma rif_update_inv:
  assumes run: "sai_fib_vrf_rif_list_update rif add s = (rc, s')"
    and I: "fib_inv s" and T: "vrf_tree s \<noteq> None"
  shows "fib_inv s' \<and> vrf_tree s' \<noteq> None \<and> route_at s' = route_at s
    \<and> (\<forall>x. rb_getexact (vrf_tree s') x = None \<longleftrightarrow> rb_getexact (vrf_tree s) x = None)"
proof (cases "rb_getexact (vrf_tree s) (rif_vrf_id rif)")
  case None
  with run I T show ?thesis by (simp add: sai_fib_vrf_rif_list_update_def)
next
  case (Some v)
  have cr: "fib_inv (fib_crash s)" using I by simp
  have vc: "rb_getexact (vrf_tree (fib_crash s)) (rif_vrf_id rif) = Some v"
    "vrf_tree (fib_crash s) = vrf_tree s" "route_at (fib_crash s) = route_at s"
    using Some by (simp_all add: fib_crash_def route_at_def fun_eq_iff)
  note A = inv_same_routes [OF I Some] and B = inv_same_routes [OF cr vc(1), unfolded vc(2,3)]
  show ?thesis
    using run Some T A [of "v\<lparr>rif_dll_head := rif_dll_head v @ [rif_id rif], num_rif := num_rif v + 1\<rparr>"]
      A [of "v\<lparr>rif_dll_head := remove1 (rif_id rif) (rif_dll_head v), num_rif := num_rif v - 1\<rparr>"]
      B [of "v\<lparr>rif_dll_head := remove1 (rif_id rif) (rif_dll_head v), num_rif := num_rif v - 1\<rparr>"]
    by (auto simp: sai_fib_vrf_rif_list_update_def split: if_splits)
qed

end
