(* ===== verification/Fib_Reach.thy ===== *)
theory Fib_Reach
  imports Fib_Vr_Inv
begin

text \<open>
  The states that the virtual router and route calls can reach, and two invariants of them: the
  one of \<open>Fib_Inv\<close>, and the presence of the default routes.
\<close>

section \<open>Hypotheses on the environment\<close>

text \<open>The allocator is fresh, recalculated errors are errors, a mask of zeros has length zero,
  and \<open>vrf_tree\<close> refuses an id that it holds.\<close>

definition fib_env_laws :: "('w, 'z) fib_env_scheme \<Rightarrow> bool" where
  "fib_env_laws E \<longleftrightarrow> fib_laws E \<and> zero_mask_law E \<and> refuses_duplicates E"

section \<open>Steps\<close>

text \<open>\<open>ok\<close> restricts the route entries that callers use.\<close>

inductive fib_step ::
  "('w, 'z) fib_env_scheme \<Rightarrow> (sai_route_entry_t \<Rightarrow> bool) \<Rightarrow> fib_state \<Rightarrow> fib_state \<Rightarrow> bool"
  for E :: "('w, 'z) fib_env_scheme" and ok where
  fstep_vr_create: "sai_fib_virtual_router_create E cnt as s w = (rc, oid, s', w') \<Longrightarrow> fib_step E ok s s'"
| fstep_vr_remove: "sai_fib_virtual_router_remove E vr s w = (rc, s', w') \<Longrightarrow> fib_step E ok s s'"
| fstep_vr_set: "sai_fib_virtual_router_attribute_set E vr va s w = (rc, s', w') \<Longrightarrow> fib_step E ok s s'"
| fstep_rif_update: "sai_fib_vrf_rif_list_update rif add s = (rc, s') \<Longrightarrow> fib_step E ok s s'"
| fstep_ecmp: "sai_router_ecmp_max_paths_set E m s w = (rc, s', w') \<Longrightarrow> fib_step E ok s s'"
| fstep_create: "ok en \<Longrightarrow> refs_room s \<Longrightarrow> sai_fib_route_create E en attrs s w = (rc, s', w') \<Longrightarrow>
    fib_step E ok s s'"
| fstep_remove: "ok en \<Longrightarrow> sai_fib_route_remove E en s w = (rc, s', w') \<Longrightarrow> fib_step E ok s s'"
| fstep_set: "ok en \<Longrightarrow> refs_room s \<Longrightarrow> sai_fib_route_attribute_set E en attr s w = (rc, s', w') \<Longrightarrow>
    fib_step E ok s s'"

inductive_cases fib_stepE: "fib_step E ok s s'"

text \<open>No virtual router and no route yet, and any next hops and groups whose counts cover the links
  between them.\<close>

definition fib_start :: "fib_state \<Rightarrow> bool" where
  "fib_start s \<longleftrightarrow> vrf_tree s = Some fmempty \<and> route_mem s = fmempty \<and> ids_ok s
     \<and> (\<forall>t n. count_of s t = Some n \<longrightarrow> held s t \<le> n)"

definition fib_reachable ::
  "('w, 'z) fib_env_scheme \<Rightarrow> (sai_route_entry_t \<Rightarrow> bool) \<Rightarrow> fib_state \<Rightarrow> bool" where
  "fib_reachable E ok = reach fib_start (fib_step E ok)"

section \<open>The invariant\<close>

lemma start_inv: "fib_start s \<Longrightarrow> fib_inv s"
  by (auto simp: fib_start_def fib_inv_def fib_wf_def refs_ok_def route_at_def users_def)

lemma create_vrfs:
  assumes run: "sai_fib_route_create E en attrs s w = (rc, s', w')" and W: "fib_wf s" and F: "fresh_alloc E"
  shows "same_vrfs s s' \<and> (\<forall>x k. route_at s x k \<noteq> None \<longrightarrow> route_at s' x k \<noteq> None)"
  using run W F
proof (cases rule: route_create_effect)
  case failed
  then show ?thesis using fib_coreD(1) [OF failed(2)] by (simp add: same_vrfs_def route_at_def)
next
  case (created a r hw v w0 w1)
  let ?s = "with_new_route (vr_id en) a (r\<lparr>hw_info := hw\<rparr>) s"
  have t: "vrf_tree s' = vrf_tree ?s" using fib_coreD(1) [OF created(7)] by simp
  have "sai_route_tree v \<noteq> None" using fib_wf_vrf [OF W created(2)] by simp
  then have "route_at ?s x k \<noteq> None" if "route_at s x k \<noteq> None" for x k
    using that route_at_new [OF created(2)] by simp
  with t same_vrfs_new [of s] show ?thesis by (simp add: same_vrfs_def route_at_def)
next
  case (taken_over a r0 r hw w1)
  then show ?thesis using fib_coreD(1) [OF taken_over(8)] by (simp add: same_vrfs_def route_at_def)
qed

lemma set_vrfs:
  assumes run: "sai_fib_route_attribute_set E en attr s w = (rc, s', w')" and W: "fib_wf s"
  shows "same_vrfs s s' \<and> route_at s' = route_at s"
  using run W
proof (cases rule: route_set_effect)
  case failed
  then show ?thesis using fib_coreD(1) [OF failed(2)] by (simp add: same_vrfs_def route_at_def fun_eq_iff)
next
  case (updated a r new hw w1)
  then show ?thesis
    using fib_coreD(1) [OF updated(6)] by (simp add: same_vrfs_def route_at_def fun_eq_iff)
qed

lemma remove_vrfs:
  assumes run: "sai_fib_route_remove E en s w = (rc, s', w')" and W: "fib_wf s"
  shows "same_vrfs s s' \<and> (\<forall>x k. route_at s x k \<noteq> None \<longrightarrow>
     \<not> (x = vr_id en \<and> k = route_entry_key E en \<and> \<not> sai_fib_is_default_route_entry E en) \<longrightarrow>
     route_at s' x k \<noteq> None)"
  using run W
proof (cases rule: route_remove_effect)
  case failed
  then show ?thesis using fib_coreD(1) [OF failed(2)] by (simp add: same_vrfs_def route_at_def)
next
  case (refused a r hw w1)
  then show ?thesis by (simp add: same_vrfs_def)
next
  case (removed a r v)
  let ?s = "without_route (vr_id en) a (route_entry_key E en) s"
  have "vrf_tree s' = vrf_tree ?s" using fib_coreD(1) [OF removed(6)] by simp
  with same_vrfs_without [of s] route_at_without [OF removed(2)] removed(4) show ?thesis
    by (auto simp: same_vrfs_def route_at_def)
next
  case (reset a r hw)
  then show ?thesis using fib_coreD(1) [OF reset(5)] by (simp add: same_vrfs_def route_at_def)
qed

lemma same_vrfs_tree: "same_vrfs s s' \<Longrightarrow> rb_getexact (vrf_tree s) x \<noteq> None \<Longrightarrow> vrf_tree s' \<noteq> None"
  by (metis not_None_eq rb_getexact_NULL same_vrfsD)

text \<open>Every route call leaves a tree: it changes nothing or one entry.\<close>

lemma core_vrf_tree:
  "sai_fib_route_create E en attrs s w = (rc, s', w') \<Longrightarrow> fib_wf s \<Longrightarrow> fresh_alloc E \<Longrightarrow>
     vrf_tree s \<noteq> None \<Longrightarrow> vrf_tree s' \<noteq> None"
  "sai_fib_route_remove E en s w = (rc, s', w') \<Longrightarrow> fib_wf s \<Longrightarrow> vrf_tree s \<noteq> None \<Longrightarrow> vrf_tree s' \<noteq> None"
  "sai_fib_route_attribute_set E en attr s w = (rc, s', w') \<Longrightarrow> fib_wf s \<Longrightarrow> vrf_tree s \<noteq> None \<Longrightarrow>
     vrf_tree s' \<noteq> None"
proof -
  show "vrf_tree s' \<noteq> None" if "sai_fib_route_create E en attrs s w = (rc, s', w')" "fib_wf s"
    "fresh_alloc E" "vrf_tree s \<noteq> None"
    using that(1-3)
    by (cases rule: route_create_effect)
      (use that(4) in \<open>auto dest!: fib_coreD(1) simp: with_new_route_def simp del: not_None_eq\<close>)
  show "vrf_tree s' \<noteq> None" if "sai_fib_route_remove E en s w = (rc, s', w')" "fib_wf s" "vrf_tree s \<noteq> None"
    using that(1,2)
    by (cases rule: route_remove_effect)
      (use that(3) in \<open>auto dest!: fib_coreD(1) simp: without_route_def simp del: not_None_eq\<close>)
  show "vrf_tree s' \<noteq> None" if "sai_fib_route_attribute_set E en attr s w = (rc, s', w')" "fib_wf s"
    "vrf_tree s \<noteq> None"
    using that(1,2)
    by (cases rule: route_set_effect)
      (use that(3) in \<open>auto dest!: fib_coreD(1) simp del: not_None_eq split: if_splits\<close>)
qed

lemma fib_step_inv:
  assumes "fib_step E ok s s'" and L: "fib_env_laws E" and I: "fib_inv s" and T: "vrf_tree s \<noteq> None"
  shows "fib_inv s' \<and> vrf_tree s' \<noteq> None"
proof -
  have F: "fresh_alloc E" and Z: "zero_mask_law E" and U: "refuses_duplicates E"
    using L by (auto simp: fib_env_laws_def fib_laws_def)
  have W: "fib_wf s" using I by (simp add: fib_inv_def)
  from assms(1) show ?thesis
  proof cases
    case (fstep_vr_create cnt as w rc oid w')
    show ?thesis by (rule vr_create_inv [OF fstep_vr_create I T F Z U])
  next
    case (fstep_vr_remove vr w rc w')
    show ?thesis by (rule vr_remove_inv [OF fstep_vr_remove I Z F T])
  next
    case (fstep_vr_set vr va w rc w')
    show ?thesis using vr_set_inv [OF fstep_vr_set I T] by simp
  next
    case (fstep_rif_update rif add rc)
    show ?thesis using rif_update_inv [OF fstep_rif_update I T] by simp
  next
    case (fstep_ecmp m w rc w')
    then have "fib_inv s' = fib_inv s" "vrf_tree s' = vrf_tree s"
      by (auto simp: sai_router_ecmp_max_paths_set_def Let_def intro!: inv_cong split: prod.splits if_splits)
    with I T show ?thesis by simp
  next
    case (fstep_create en attrs w rc w')
    show ?thesis
      using create_inv [OF fstep_create(3) I F fstep_create(2)] core_vrf_tree(1) [OF fstep_create(3) W F T] ..
  next
    case (fstep_remove en w rc w')
    show ?thesis using remove_inv [OF fstep_remove(2) I] core_vrf_tree(2) [OF fstep_remove(2) W T] ..
  next
    case (fstep_set en attr w rc w')
    show ?thesis
      using set_inv [OF fstep_set(3) I fstep_set(2)] core_vrf_tree(3) [OF fstep_set(3) W T] ..
  qed
qed

interpretation fib: invariant_system fib_start "fib_step E ok"
  "\<lambda>s. fib_env_laws E \<longrightarrow> fib_inv s \<and> vrf_tree s \<noteq> None" for E :: "('w, 'z) fib_env_scheme" and ok
proof
  fix s assume "fib_start s"
  then show "fib_env_laws E \<longrightarrow> fib_inv s \<and> vrf_tree s \<noteq> None"
    using start_inv by (auto simp: fib_start_def)
next
  fix s t assume "fib_env_laws E \<longrightarrow> fib_inv s \<and> vrf_tree s \<noteq> None" "fib_step E ok s t"
  then show "fib_env_laws E \<longrightarrow> fib_inv t \<and> vrf_tree t \<noteq> None" using fib_step_inv by blast
qed

lemma reachable_inv: "fib_reachable E ok s \<Longrightarrow> fib_env_laws E \<Longrightarrow> fib_inv s \<and> vrf_tree s \<noteq> None"
  unfolding fib_reachable_def using fib.reach_inv by blast

section \<open>The default routes\<close>

definition defaults_present :: "fib_state \<Rightarrow> bool" where
  "defaults_present s \<longleftrightarrow> (\<forall>vr k. rb_getexact (vrf_tree s) vr \<noteq> None \<longrightarrow> is_default_key k \<longrightarrow>
     route_at s vr k \<noteq> None)"

text \<open>A route entry with an empty prefix has the zero address.\<close>

definition canonical_entry :: "('w, 'z) fib_env_scheme \<Rightarrow> sai_route_entry_t \<Rightarrow> bool" where
  "canonical_entry E en \<longleftrightarrow> (case sai_fib_route_entry_ip_prefix_fill E en of
       (ip, len) \<Rightarrow> len = 0 \<longrightarrow> sai_fib_is_ip_addr_zero E ip)"

lemma default_key_entry:
  assumes "canonical_entry E en" and "is_default_key (route_entry_key E en)"
  shows "sai_fib_is_default_route_entry E en"
proof -
  obtain ip len where f: "sai_fib_route_entry_ip_prefix_fill E en = (ip, len)" by (metis surj_pair)
  have "length (route_entry_key E en) = 32"
    using assms(2) by (auto simp: is_default_key_def default_key_def)
  moreover have "length (addr_bits ip) = 128"
    by (auto simp: addr_bits_def split: sai_ip_addr_family_t.split)
  ultimately have "len = 0"
    by (simp add: route_entry_key_def f ip_key_def sai_fib_route_key_len_get_def min_def split: if_splits)
  with assms(1) f show ?thesis by (simp add: canonical_entry_def sai_fib_is_default_route_entry_def)
qed

lemma defaults_kept:
  assumes "defaults_present s" and "same_vrfs s s'"
    and "\<And>x k. is_default_key k \<Longrightarrow> route_at s x k \<noteq> None \<Longrightarrow> route_at s' x k \<noteq> None"
  shows "defaults_present s'"
proof -
  have "rb_getexact (vrf_tree s) x \<noteq> None" if "rb_getexact (vrf_tree s') x \<noteq> None" for x
    using that assms(2) unfolding same_vrfs_def by (metis map_option_is_None)
  with assms(1,3) show ?thesis unfolding defaults_present_def by blast
qed

lemma vr_create_defaults:
  assumes run: "sai_fib_virtual_router_create E cnt as s w = (rc, oid, s', w')"
    and I: "fib_inv s" and T: "vrf_tree s \<noteq> None" and L: "fib_env_laws E" and M: "fib_memory_ok E"
    and D: "defaults_present s"
  shows "defaults_present s'"
proof -
  have F: "fresh_alloc E" and Z: "zero_mask_law E" and U: "refuses_duplicates E"
    using L by (auto simp: fib_env_laws_def fib_laws_def)
  show ?thesis
    using run I T F Z U
  proof (cases rule: vr_create_effect)
    case failed
    with D show ?thesis by simp
  next
    case (created v s1 w1 w2)
    let ?L = "sai_fib_lock s1" and ?L' = "sai_fib_lock s'"
    note new = inv_new_vrf [OF I created(3,7) T, of "num_virtual_routers s + 1", folded created(8)]
    have I1: "fib_inv ?L" using new(1) by simp
    have v1: "rb_getexact (vrf_tree ?L) (vrf_id v) \<noteq> None"
      using T by (auto simp: created(8))
    have free: "route_at ?L (vrf_id v) k = None" for k using created(3) new(2) by (simp add: route_at_def)
    note A = default_routes_added [OF created(9) I1 v1 free F Z]
    show ?thesis
      unfolding defaults_present_def
    proof (intro allI impI)
      fix x k assume x: "rb_getexact (vrf_tree s') x \<noteq> None" and k: "is_default_key k"
      show "route_at s' x k \<noteq> None"
      proof (cases "x = vrf_id v")
        case True
        with A(4) [OF M k] show ?thesis by simp
      next
        case False
        have "rb_getexact (vrf_tree ?L) x \<noteq> None"
          using x A(2) unfolding same_vrfs_def by (metis lock_sel(1) map_option_is_None)
        then have "rb_getexact (vrf_tree s) x \<noteq> None" using False by (simp add: created(8))
        with D k have "route_at s x k \<noteq> None" unfolding defaults_present_def by blast
        with A(3) [of x k] False new(2) show ?thesis by simp
      qed
    qed
  qed
qed

lemma vr_remove_defaults:
  assumes run: "sai_fib_virtual_router_remove E vr s w = (rc, s', w')"
    and I: "fib_inv s" and L: "fib_env_laws E" and M: "fib_memory_ok E" and V: "vr_status_ok E"
    and D: "defaults_present s"
  shows "defaults_present s'"
proof -
  have F: "fresh_alloc E" and Z: "zero_mask_law E" using L by (auto simp: fib_env_laws_def fib_laws_def)
  have IL: "fib_inv (sai_fib_lock s)" using I by simp
  note del = default_routes_deleted [OF IL Z, of vr]
  show ?thesis
    using run I Z
  proof (cases rule: vr_remove_effect)
    case refused
    with D show ?thesis by simp
  next
    case (in_use v d w1 w2)
    note D' = del [folded in_use(3)]
    have v: "rb_getexact (vrf_tree d) vr \<noteq> None"
      using D'(2) in_use(2) by (metis lock_sel(1) not_None_eq same_vrfsD)
    have add: "sai_fib_vrf_default_route_add E vr d w1 = (sai_fib_lock s', w2)"
      using in_use(4,5) V by auto
    have free: "route_at d vr k = None" if "is_default_key k" for k using D'(3) that by simp
    note A = default_routes_added [OF add D'(1) v free F Z]
    show ?thesis
    proof (rule defaults_kept [OF D])
      show "same_vrfs s s'" using same_vrfs_trans [OF D'(2) A(2)] by (simp add: same_vrfs_def)
      fix x k assume "is_default_key k" "route_at s x k \<noteq> None"
      then show "route_at s' x k \<noteq> None"
        using A(3) [of x k] A(4) [OF _ M, of k] D'(3) [of x k] by (cases "x = vr") auto
    qed
  next
    case (removed v d)
    note D' = del [folded removed(3)]
    let ?s = "d\<lparr>vrf_tree := rb_remove (vrf_tree d) vr, num_virtual_routers := num_virtual_routers d - 1\<rparr>"
    have at: "route_at s' = route_at d"
      using inv_drop_vrf(2) [OF D'(1) removed(6)] removed(7) by simp
    show ?thesis
      unfolding defaults_present_def at
    proof (intro allI impI)
      fix x k assume x: "rb_getexact (vrf_tree s') x \<noteq> None" and k: "is_default_key k"
      then have "x \<noteq> vr" "rb_getexact (vrf_tree d) x \<noteq> None" using removed(7) by (auto split: if_splits)
      then have "rb_getexact (vrf_tree s) x \<noteq> None"
        using D'(2) unfolding same_vrfs_def by (metis lock_sel(1) map_option_is_None)
      with D k \<open>x \<noteq> vr\<close> D'(3) [of x k] show "route_at d x k \<noteq> None"
        unfolding defaults_present_def by simp
    qed
  qed
qed

lemma fib_step_defaults:
  assumes "fib_step E (canonical_entry E) s s'" and L: "fib_env_laws E" and M: "fib_memory_ok E" and V: "vr_status_ok E"
    and I: "fib_inv s" and T: "vrf_tree s \<noteq> None" and D: "defaults_present s"
  shows "defaults_present s'"
proof -
  have F: "fresh_alloc E" using L by (auto simp: fib_env_laws_def fib_laws_def)
  have W: "fib_wf s" using I by (simp add: fib_inv_def)
  from assms(1) show ?thesis
  proof cases
    case (fstep_vr_create cnt as w rc oid w')
    show ?thesis by (rule vr_create_defaults [OF fstep_vr_create I T L M D])
  next
    case (fstep_vr_remove vr w rc w')
    show ?thesis by (rule vr_remove_defaults [OF fstep_vr_remove I L M V D])
  next
    case (fstep_vr_set vr va w rc w')
    show ?thesis using vr_set_inv [OF fstep_vr_set I T] D by (simp add: defaults_present_def)
  next
    case (fstep_rif_update rif add rc)
    show ?thesis using rif_update_inv [OF fstep_rif_update I T] D by (simp add: defaults_present_def)
  next
    case (fstep_ecmp m w rc w')
    then have "vrf_tree s' = vrf_tree s"
      by (auto simp: sai_router_ecmp_max_paths_set_def Let_def split: prod.splits if_splits)
    with D show ?thesis by (simp add: defaults_present_def route_at_def)
  next
    case (fstep_create en attrs w rc w')
    show ?thesis by (rule defaults_kept [OF D]) (use create_vrfs [OF fstep_create(3) W F] in blast)+
  next
    case (fstep_remove en w rc w')
    note R = remove_vrfs [OF fstep_remove(2) W]
    show ?thesis
    proof (rule defaults_kept [OF D conjunct1 [OF R]])
      fix x k assume k: "is_default_key k" "route_at s x k \<noteq> None"
      have "\<not> (x = vr_id en \<and> k = route_entry_key E en \<and> \<not> sai_fib_is_default_route_entry E en)"
        using default_key_entry [OF fstep_remove(1)] k(1) by auto
      with R k(2) show "route_at s' x k \<noteq> None" by blast
    qed
  next
    case (fstep_set en attr w rc w')
    show ?thesis using set_vrfs [OF fstep_set(3) W] D by (auto intro: defaults_kept)
  qed
qed

lemma start_defaults: "fib_start s \<Longrightarrow> defaults_present s"
  by (simp add: fib_start_def defaults_present_def)

interpretation fib_dflt: invariant_system fib_start "fib_step E (canonical_entry E)"
  "\<lambda>s. fib_env_laws E \<longrightarrow> fib_memory_ok E \<and> vr_status_ok E \<longrightarrow> fib_inv s \<and> vrf_tree s \<noteq> None \<and> defaults_present s"
  for E :: "('w, 'z) fib_env_scheme"
proof
  fix s assume s: "fib_start s"
  then have "vrf_tree s \<noteq> None" by (simp add: fib_start_def)
  with start_inv [OF s] start_defaults [OF s]
  show "fib_env_laws E \<longrightarrow> fib_memory_ok E \<and> vr_status_ok E \<longrightarrow> fib_inv s \<and> vrf_tree s \<noteq> None \<and> defaults_present s" by simp
next
  fix s t
  assume i: "fib_env_laws E \<longrightarrow> fib_memory_ok E \<and> vr_status_ok E \<longrightarrow> fib_inv s \<and> vrf_tree s \<noteq> None \<and> defaults_present s"
    and st: "fib_step E (canonical_entry E) s t"
  show "fib_env_laws E \<longrightarrow> fib_memory_ok E \<and> vr_status_ok E \<longrightarrow> fib_inv t \<and> vrf_tree t \<noteq> None \<and> defaults_present t"
  proof (intro impI)
    assume L: "fib_env_laws E" and "fib_memory_ok E \<and> vr_status_ok E"
    then have M: "fib_memory_ok E" and V: "vr_status_ok E" by simp_all
    with i L have s: "fib_inv s" "vrf_tree s \<noteq> None" "defaults_present s" by auto
    show "fib_inv t \<and> vrf_tree t \<noteq> None \<and> defaults_present t"
      using fib_step_inv [OF st L s(1,2)] fib_step_defaults [OF st L M V s] by simp
  qed
qed

lemma reachable_defaults:
  "fib_reachable E (canonical_entry E) s \<Longrightarrow> fib_env_laws E \<Longrightarrow> fib_memory_ok E \<Longrightarrow> vr_status_ok E \<Longrightarrow>
     defaults_present s"
  unfolding fib_reachable_def using fib_dflt.reach_inv by blast

end
