(* ===== verification/Fib_Demo.thy ===== *)
theory Fib_Demo
  imports Fib_Reach Sai_Demo
begin

text \<open>
  A concrete environment for the witnesses of the routing properties: memory never runs out,
  the plug-in accepts everything, a mask is measured by its leading ones.  The world is a counter,
  the next hardware id of a virtual router.
\<close>

section \<open>Addresses\<close>

definition demo_mask_len :: "'a::len word \<Rightarrow> nat" where
  "demo_mask_len m = length (takeWhile (\<lambda>b. b) (word_bits m))"

definition demo_mask :: "nat \<Rightarrow> 'a::len word" where
  \<comment> \<open>the highest \<open>len\<close> bits\<close>
  "demo_mask len = push_bit (LENGTH('a) - len) (- 1)"

definition demo_addr_len :: "sai_ip_address_t \<Rightarrow> nat" where
  "demo_addr_len a = (case addr_family a of
     SAI_IP_ADDR_FAMILY_IPV4 \<Rightarrow> 32 | SAI_IP_ADDR_FAMILY_IPV6 \<Rightarrow> 128 | _ \<Rightarrow> 0)"

definition demo_addr_zero :: "sai_ip_address_t \<Rightarrow> bool" where
  "demo_addr_zero a = (case addr_family a of
     SAI_IP_ADDR_FAMILY_IPV4 \<Rightarrow> addr_ip4 a = 0 | SAI_IP_ADDR_FAMILY_IPV6 \<Rightarrow> addr_ip6 a = 0 | _ \<Rightarrow> False)"

definition demo_mask_get :: "sai_ip_address_t \<Rightarrow> nat \<Rightarrow> sai_ip_address_t" where
  "demo_mask_get a len = a\<lparr>addr_ip4 := demo_mask len, addr_ip6 := demo_mask len\<rparr>"

definition demo_in_prefix :: "sai_ip_address_t \<Rightarrow> sai_ip_address_t \<Rightarrow> sai_ip_address_t \<Rightarrow> bool" where
  "demo_in_prefix p m a \<longleftrightarrow> addr_family p = addr_family a \<and> (case addr_family a of
     SAI_IP_ADDR_FAMILY_IPV4 \<Rightarrow> addr_ip4 p AND addr_ip4 m = addr_ip4 a AND addr_ip4 m
   | SAI_IP_ADDR_FAMILY_IPV6 \<Rightarrow> addr_ip6 p AND addr_ip6 m = addr_ip6 a AND addr_ip6 m
   | _ \<Rightarrow> False)"

definition demo_object_type :: "sai_object_id_t \<Rightarrow> sai_object_type_t" where
  "demo_object_type x =
    (if demo_is_obj SAI_OBJECT_TYPE_NEXT_HOP x then SAI_OBJECT_TYPE_NEXT_HOP
     else if demo_is_obj SAI_OBJECT_TYPE_NEXT_HOP_GROUP x then SAI_OBJECT_TYPE_NEXT_HOP_GROUP
     else SAI_OBJECT_TYPE_VIRTUAL_ROUTER)"

section \<open>The environment\<close>

definition demo_fib :: "nat fib_env" where
  "demo_fib = \<lparr>calloc_ok = (\<lambda>w. (True, w)), rbtree_create_ok = (\<lambda>w. (True, w)),
     rbtree_insert_ok = (\<lambda>present w. (\<not> present, w)),
     sai_uoid_create = demo_uoid, sai_is_obj_id = demo_is_obj,
     sai_is_port_valid = demo_port_valid, sai_get_indexed_ret_val = (\<lambda>rc i. rc),
     dn_sai_get_next_free_id = demo_next_id, uoid_npu_obj_id_mask = 255,
     sai_object_type_query = demo_object_type, sai_packet_action_validate = (\<lambda>_. True),
     sai_fib_attr_status_code_get = (\<lambda>rc i. rc),
     sai_fib_is_mac_address_zero = (\<lambda>m. m = 0), sai_fib_is_ip_addr_zero = demo_addr_zero,
     sai_fib_ip_addr_family_len_get = demo_addr_len, sai_fib_ip_prefix_mask_get = demo_mask_get,
     sai_fib_is_ip_addr_in_prefix = demo_in_prefix,
     std_ip_v4_mask_to_prefix_len = demo_mask_len, std_ip_v6_mask_to_prefix_len = demo_mask_len,
     SAI_FIB_NH_IP_ADDR_TREE_KEY_LEN = 160, sai_switch_mac_address_get = (\<lambda>_. 1),
     SAI_FIB_V4_ADMIN_STATE_DFLT = True, SAI_FIB_V6_ADMIN_STATE_DFLT = True,
     SAI_FIB_IP_OPT_PKT_ACTION_DFLT = SAI_PACKET_ACTION_TRAP,
     SAI_FIB_TTL_VIOLATION_PKT_ACTION_DFLT = SAI_PACKET_ACTION_TRAP,
     std_radix_create_ok = (\<lambda>w. (True, w)), std_radix_insert_ok = (\<lambda>w. (True, w)),
     std_radical_appendtochangelist = (\<lambda>_ _ w. w), encap_nh_route_walker_write = (\<lambda>w. w),
     route_node_alloc = (\<lambda>A w. (Some (Suc (Max (insert 0 (fset A)))), w)),
     npu_vr_create = (\<lambda>v w. (SAI_STATUS_SUCCESS, of_nat w, Suc w)),
     npu_vr_remove = (\<lambda>v w. (SAI_STATUS_SUCCESS, w)),
     npu_vr_attr_validate = (\<lambda>a w. SAI_STATUS_SUCCESS),
     npu_vr_attr_set = (\<lambda>v fl w. (SAI_STATUS_SUCCESS, w)),
     npu_vr_attr_get = (\<lambda>v as w. (SAI_STATUS_SUCCESS, as)),
     npu_ecmp_max_paths_set = (\<lambda>m w. (SAI_STATUS_SUCCESS, w)),
     npu_route_create = (\<lambda>r w. (SAI_STATUS_SUCCESS, Some 1, w)),
     npu_route_remove = (\<lambda>r w. (SAI_STATUS_SUCCESS, None, w)),
     npu_route_attr_set = (\<lambda>r a w. (SAI_STATUS_SUCCESS, Some 1, w)),
     npu_route_attr_get = (\<lambda>r as w. (SAI_STATUS_SUCCESS, as)),
     npu_encap_nh_route_resolve = (\<lambda>n r w. (SAI_STATUS_SUCCESS, w)),
     npu_get_route_meta_range = (\<lambda>w. (SAI_STATUS_SUCCESS, 0, 1000))\<rparr>"

lemma demo_fib_sel [simp]:
  "calloc_ok demo_fib w = (True, w)" "rbtree_insert_ok demo_fib b w = (\<not> b, w)"
  "sai_uoid_create demo_fib = demo_uoid" "sai_is_obj_id demo_fib = demo_is_obj"
  "sai_object_type_query demo_fib = demo_object_type" "sai_packet_action_validate demo_fib act"
  "sai_fib_attr_status_code_get demo_fib rc i = rc" "sai_fib_is_ip_addr_zero demo_fib = demo_addr_zero"
  "sai_fib_is_mac_address_zero demo_fib m \<longleftrightarrow> m = 0"
  "sai_fib_ip_addr_family_len_get demo_fib = demo_addr_len"
  "sai_fib_ip_prefix_mask_get demo_fib = demo_mask_get"
  "sai_fib_is_ip_addr_in_prefix demo_fib = demo_in_prefix"
  "std_ip_v4_mask_to_prefix_len demo_fib = demo_mask_len"
  "std_ip_v6_mask_to_prefix_len demo_fib = demo_mask_len"
  "SAI_FIB_NH_IP_ADDR_TREE_KEY_LEN demo_fib = 160" "sai_switch_mac_address_get demo_fib w = 1"
  "std_radix_create_ok demo_fib w = (True, w)" "std_radix_insert_ok demo_fib w = (True, w)"
  "std_radical_appendtochangelist demo_fib x a w = w" "encap_nh_route_walker_write demo_fib w = w"
  "route_node_alloc demo_fib A w = (Some (Suc (Max (insert 0 (fset A)))), w)"
  "npu_vr_create demo_fib v w = (SAI_STATUS_SUCCESS, of_nat w, Suc w)"
  "npu_vr_remove demo_fib v w = (SAI_STATUS_SUCCESS, w)"
  "npu_vr_attr_validate demo_fib va w = SAI_STATUS_SUCCESS"
  "npu_route_create demo_fib r w = (SAI_STATUS_SUCCESS, Some 1, w)"
  "npu_route_remove demo_fib r w = (SAI_STATUS_SUCCESS, None, w)"
  "npu_route_attr_set demo_fib r a' w = (SAI_STATUS_SUCCESS, Some 1, w)"
  "npu_encap_nh_route_resolve demo_fib n r w = (SAI_STATUS_SUCCESS, w)"
  "npu_get_route_meta_range demo_fib w = (SAI_STATUS_SUCCESS, 0, 1000)"
  by (simp_all add: demo_fib_def)

lemma word_bits_zero: "word_bits (0 :: 'a::len word) = replicate LENGTH('a) False"
  by (rule nth_equalityI) (simp_all add: word_bits_def rev_nth)

lemma demo_mask_len_zero [simp]: "demo_mask_len (0 :: 'a::len word) = 0"
  by (simp add: demo_mask_len_def word_bits_zero)

lemma demo_fresh: "fresh_alloc demo_fib"
  unfolding fresh_alloc_def
proof (intro allI impI)
  fix A w a w' assume "route_node_alloc demo_fib A w = (Some a, w')"
  then have a: "a = Suc (Max (insert 0 (fset A)))" by simp
  show "a |\<notin>| A"
  proof
    assume "a |\<in>| A"
    then have "a \<le> Max (insert 0 (fset A))" by (intro Max_ge) auto
    with a show False by simp
  qed
qed

lemma demo_fib_laws: "fib_env_laws demo_fib" "fib_memory_ok demo_fib" "fib_laws demo_fib"
  "vr_status_ok demo_fib"
  using demo_fresh by (simp_all add: fib_env_laws_def fib_laws_def attr_status_law_def zero_mask_law_def
      refuses_duplicates_def fib_memory_ok_def vr_status_ok_def)

section \<open>States\<close>

text \<open>The next hop 264 (\<open>0x108\<close>) is the node 100, the group 265 (\<open>0x109\<close>) the node 200 with that
  member.\<close>

definition demo_nh_plain :: sai_fib_nh_t where
  "demo_nh_plain = \<lparr>next_hop_id = 264, is_tunnel_encap = False,
     nh_ip_addr = \<lparr>addr_family = SAI_IP_ADDR_FAMILY_IPV4, addr_ip4 = 0xC0A80001, addr_ip6 = 0\<rparr>,
     ref_count = 1, nh_group_list = [(200, 1)], nh_packet_action = SAI_PACKET_ACTION_FORWARD, neighbor = None, lpm_route = None,
     nh_dep_encap_nh_list = [], dep_route_list = []\<rparr>"

definition demo_group :: sai_fib_nh_group_t where
  "demo_group = \<lparr>group_id = 265, grp_type = SAI_NEXT_HOP_GROUP_TYPE_ECMP, nh_count = 1, grp_ref_count = 1,
     grp_nh_links = [(100, 1)], grp_dep_encap_nh_list = []\<rparr>"

definition demo_fib_none :: fib_state where
  "demo_fib_none = \<lparr>vrf_tree = Some fmempty, route_mem = fmempty, nh_mem = [100 \<mapsto> demo_nh_plain],
     grp_mem = [200 \<mapsto> demo_group],
     nh_id_tree = [264 \<mapsto> 100], nh_group_tree = [265 \<mapsto> 200],
     num_virtual_routers = 0, max_ecmp_paths = 64, fib_lock_depth = 0, fib_fault = False\<rparr>"

lemma demo_fib_start: "fib_start demo_fib_none"
  by (simp add: fib_start_def all_counts) (simp add: demo_fib_none_def ids_ok_def demo_nh_plain_def demo_group_def)

text \<open>The virtual router that the first creation makes, 263 (\<open>0x107\<close>), and the state after it.\<close>

definition demo_vr :: sai_fib_vrf_t where
  "demo_vr = \<lparr>vrf_id = 263, src_mac = 1, v4_admin_state = True, v6_admin_state = True,
     ip_options_pkt_action = SAI_PACKET_ACTION_TRAP, ttl0_1_pkt_action = SAI_PACKET_ACTION_TRAP,
     num_rif = 0, rif_dll_head = [], sai_nh_tree = Some fmempty, sai_route_tree = Some fmempty\<rparr>"


definition demo_default :: "sai_ip_addr_family_t \<Rightarrow> sai_fib_route_t" where
  "demo_default af = \<lparr>rt_vrf_id = 263, rt_prefix = \<lparr>addr_family = af, addr_ip4 = 0, addr_ip6 = 0\<rparr>,
     prefix_len = 0, nh_type = SAI_FIB_ROUTE_NH_TYPE_NONE, nh_info = None,
     packet_action = SAI_PACKET_ACTION_DROP, trap_priority = 0, meta_data = 0, hw_info = None,
     rt_dep_encap_nh_list = []\<rparr>"

definition demo_fib_vr :: fib_state where
  "demo_fib_vr = demo_fib_none\<lparr>vrf_tree := Some (fmupd 263 (demo_vr\<lparr>sai_route_tree :=
       Some (fmupd (default_key SAI_IP_ADDR_FAMILY_IPV6) 2 (fmupd (default_key SAI_IP_ADDR_FAMILY_IPV4) 1 fmempty))\<rparr>) fmempty),
     route_mem := fmupd 2 (demo_default SAI_IP_ADDR_FAMILY_IPV6)
       (fmupd 1 (demo_default SAI_IP_ADDR_FAMILY_IPV4) fmempty), num_virtual_routers := 1\<rparr>"

lemma ip_key_zero_len: "ip_key ip (sai_fib_route_key_len_get 0) = default_key (addr_family ip)"
  by (simp add: ip_key_def sai_fib_route_key_len_get_def default_key_def)

lemma default_keys_differ' [simp]:
  "default_key SAI_IP_ADDR_FAMILY_IPV4 \<noteq> default_key SAI_IP_ADDR_FAMILY_IPV6"
  "default_key SAI_IP_ADDR_FAMILY_IPV6 \<noteq> default_key SAI_IP_ADDR_FAMILY_IPV4"
  using default_keys_differ by metis+

lemma demo_fib_consts [simp]:
  "SAI_FIB_V4_ADMIN_STATE_DFLT demo_fib" "SAI_FIB_V6_ADMIN_STATE_DFLT demo_fib"
  "SAI_FIB_IP_OPT_PKT_ACTION_DFLT demo_fib = SAI_PACKET_ACTION_TRAP"
  "SAI_FIB_TTL_VIOLATION_PKT_ACTION_DFLT demo_fib = SAI_PACKET_ACTION_TRAP"
  by (simp_all add: demo_fib_def)

lemma demo_vr_id: "demo_uoid SAI_OBJECT_TYPE_VIRTUAL_ROUTER 1 = 263"
  by (simp add: demo_uoid_def)

lemma demo_default_init:
  "(sai_fib_route_node_init demo_fib (default_route_entry 263 SAI_IP_ADDR_FAMILY_IPV4))
     \<lparr>packet_action := SAI_PACKET_ACTION_DROP\<rparr> = demo_default SAI_IP_ADDR_FAMILY_IPV4"
  "(sai_fib_route_node_init demo_fib (default_route_entry 263 SAI_IP_ADDR_FAMILY_IPV6))
     \<lparr>packet_action := SAI_PACKET_ACTION_DROP\<rparr> = demo_default SAI_IP_ADDR_FAMILY_IPV6"
  by (simp_all add: sai_fib_route_node_init_def default_route_entry_def demo_default_def
      sai_fib_route_entry_ip_prefix_fill_def sai_fib_route_entry_prefix_len_get_def Let_def
      SAI_FIB_ROUTE_DFLT_TRAP_PRIO_def)

lemma demo_default_sel [simp]:
  "rt_prefix (demo_default af) = \<lparr>addr_family = af, addr_ip4 = 0, addr_ip6 = 0\<rparr>"
  "prefix_len (demo_default af) = 0" "rt_vrf_id (demo_default af) = 263"
  by (simp_all add: demo_default_def)

lemma demo_default_add:
  "sai_fib_vrf_default_route_add demo_fib 263 (sai_fib_lock (demo_fib_none\<lparr>
       vrf_tree := Some (fmupd 263 demo_vr fmempty), num_virtual_routers := 1\<rparr>)) w
     = (sai_fib_lock demo_fib_vr, w)"
  by (simp add: sai_fib_vrf_default_route_add_def sai_fib_internal_default_route_node_add_def
      demo_default_init sai_fib_route_node_insert_to_tree_def std_radix_insert_def ip_key_zero_len
      vrf_write_def rb_getexact_def rb_put_def demo_vr_def demo_fib_vr_def demo_fib_none_def
      sai_fib_lock_def Let_def max_def numeral_2_eq_2)

lemma demo_vr_create:
  "sai_fib_virtual_router_create demo_fib 0 None demo_fib_none 1
     = (SAI_STATUS_SUCCESS, Some 263, demo_fib_vr, 2)"
proof -
  have v: "vrf_node_zero\<lparr>v4_admin_state := True, v6_admin_state := True,
      ip_options_pkt_action := SAI_PACKET_ACTION_TRAP, ttl0_1_pkt_action := SAI_PACKET_ACTION_TRAP,
      src_mac := 1, vrf_id := 263, rif_dll_head := [], sai_nh_tree := Some fmempty,
      sai_route_tree := Some fmempty\<rparr> = demo_vr"
    by (simp add: vrf_node_zero_def demo_vr_def)
  have t: "rb_getexact (vrf_tree demo_fib_none) x = None" for x
    by (simp add: demo_fib_none_def rb_getexact_def)
  have s: "sai_fib_lock demo_fib_none\<lparr>vrf_tree := rb_put (vrf_tree demo_fib_none) 263 demo_vr,
      num_virtual_routers := num_virtual_routers (sai_fib_lock demo_fib_none) + 1\<rparr>
     = sai_fib_lock (demo_fib_none\<lparr>vrf_tree := Some (fmupd 263 demo_vr fmempty), num_virtual_routers := 1\<rparr>)"
    by (simp add: demo_fib_none_def sai_fib_lock_def rb_put_def)
  show ?thesis
    by (simp add: sai_fib_virtual_router_create_def sai_fib_vrf_create_params_validate_def
      vr_create_body_def Let_def sai_fib_vrf_attributes_parse_def sai_fib_vrf_attributes_init_def
      demo_vr_id sai_fib_vrf_node_trees_create_def sai_fib_vrf_node_insert_to_tree_def std_rbtree_insert_def v t s
      demo_default_add)
qed


section \<open>A route\<close>

text \<open>10.0.0.0/8 over the next hop 264.\<close>

definition demo_entry :: sai_route_entry_t where
  "demo_entry = \<lparr>vr_id = 263, destination = \<lparr>pfx_addr_family = SAI_IP_ADDR_FAMILY_IPV4,
     pfx_ip4 = 0x0A000000, pfx_ip6 = 0, mask_ip4 = 0xFF000000, mask_ip6 = 0\<rparr>\<rparr>"

definition demo_prefix :: sai_ip_address_t where
  "demo_prefix = \<lparr>addr_family = SAI_IP_ADDR_FAMILY_IPV4, addr_ip4 = 0x0A000000, addr_ip6 = 0\<rparr>"

definition demo_key :: std_rt_key where
  "demo_key = ip_key demo_prefix 40"

definition demo_route :: sai_fib_route_t where
  "demo_route = \<lparr>rt_vrf_id = 263, rt_prefix = demo_prefix, prefix_len = 8,
     nh_type = ROUTE_NH_TYPE_NEXT_HOP, nh_info = Some 100,
     packet_action = SAI_PACKET_ACTION_FORWARD, trap_priority = 0, meta_data = 0, hw_info = Some 1,
     rt_dep_encap_nh_list = []\<rparr>"

lemma demo_mask_len_8: "demo_mask_len (0xFF000000 :: 32 word) = 8"
  by (simp add: demo_mask_len_def word_bits_def upt_rec)

lemma demo_fill: "sai_fib_route_entry_ip_prefix_fill demo_fib demo_entry = (demo_prefix, 8)"
  by (simp add: sai_fib_route_entry_ip_prefix_fill_def sai_fib_route_entry_prefix_len_get_def
      demo_entry_def demo_prefix_def Let_def demo_mask_len_8)

lemma demo_entry_key: "route_entry_key demo_fib demo_entry = demo_key"
  by (simp add: route_entry_key_def demo_fill demo_key_def sai_fib_route_key_len_get_def)

lemma demo_key_prefix: "strict_prefix (default_key SAI_IP_ADDR_FAMILY_IPV4) demo_key"
  by (simp add: demo_key_def demo_prefix_def ip_key_def default_key_def addr_bits_def strict_prefix_def)
    (simp add: word_bits_def)

lemma demo_key_length [simp]: "length demo_key = 40"
  by (simp add: demo_key_def demo_prefix_def ip_key_def addr_bits_def)

lemma length_default_key [simp]: "length (default_key af) = 32"
  by (simp add: default_key_def)

lemma demo_key_differs [simp]: "demo_key \<noteq> default_key af" "default_key af \<noteq> demo_key"
proof -
  show "demo_key \<noteq> default_key af"
  proof
    assume "demo_key = default_key af"
    then have "length demo_key = length (default_key af)" by simp
    then show False by simp
  qed
  then show "default_key af \<noteq> demo_key" by simp
qed

lemma demo_not_default: "\<not> sai_fib_is_default_route_entry demo_fib demo_entry"
  by (simp add: sai_fib_is_default_route_entry_def demo_fill)


definition demo_fib_route :: fib_state where
  "demo_fib_route = demo_fib_none\<lparr>vrf_tree := Some (fmupd 263 (demo_vr\<lparr>sai_route_tree :=
       Some (fmupd demo_key 3 (fmupd (default_key SAI_IP_ADDR_FAMILY_IPV6) 2
         (fmupd (default_key SAI_IP_ADDR_FAMILY_IPV4) 1 fmempty)))\<rparr>) fmempty),
     route_mem := fmupd 3 demo_route (fmupd 2 (demo_default SAI_IP_ADDR_FAMILY_IPV6)
       (fmupd 1 (demo_default SAI_IP_ADDR_FAMILY_IPV4) fmempty)),
     nh_mem := [100 \<mapsto> demo_nh_plain\<lparr>ref_count := 2\<rparr>], num_virtual_routers := 1\<rparr>"

definition demo_tree :: "addr std_rt_table" where
  "demo_tree = Some (fmupd demo_key 3 (fmupd (default_key SAI_IP_ADDR_FAMILY_IPV6) 2
         (fmupd (default_key SAI_IP_ADDR_FAMILY_IPV4) 1 fmempty)))"

lemma demo_tree_get: "rb_getexact demo_tree k = (if k = demo_key then Some 3
    else if k = default_key SAI_IP_ADDR_FAMILY_IPV6 then Some 2
    else if k = default_key SAI_IP_ADDR_FAMILY_IPV4 then Some 1 else None)"
  by (auto simp: demo_tree_def rb_getexact_def)

lemma demo_not_prefix: "\<not> strict_prefix (default_key af) (default_key af')"
  using prefix_length_less [of "default_key af" "default_key af'"] by auto

lemma demo_less_specific:
  "radix_less_specific_key demo_tree demo_key = Some (default_key SAI_IP_ADDR_FAMILY_IPV4)"
  "radix_less_specific_key demo_tree (default_key SAI_IP_ADDR_FAMILY_IPV4) = None"
proof -
  have n: "\<not> strict_prefix (default_key SAI_IP_ADDR_FAMILY_IPV6) demo_key"
  proof
    assume "strict_prefix (default_key SAI_IP_ADDR_FAMILY_IPV6) demo_key"
    then have "prefix (default_key SAI_IP_ADDR_FAMILY_IPV6) (default_key SAI_IP_ADDR_FAMILY_IPV4)"
      by (rule prefix_length_prefix [OF prefix_order.less_imp_le prefix_order.less_imp_le [OF demo_key_prefix]])
        simp
    then show False using demo_not_prefix default_keys_differ by (metis strict_prefix_def)
  qed
  show "radix_less_specific_key demo_tree demo_key = Some (default_key SAI_IP_ADDR_FAMILY_IPV4)"
    unfolding radix_less_specific_Some demo_tree_get using demo_key_prefix n by auto
  have "\<not> strict_prefix demo_key (default_key af)" for af
    using prefix_length_less [of demo_key "default_key af"] by auto
  then have "radix_less_specific_key demo_tree (default_key SAI_IP_ADDR_FAMILY_IPV4) \<noteq> Some p" for p
    unfolding radix_less_specific_Some demo_tree_get using demo_not_prefix by auto
  then show "radix_less_specific_key demo_tree (default_key SAI_IP_ADDR_FAMILY_IPV4) = None"
    by blast
qed


lemma demo_fib_state [simp]:
  "rb_getexact (vrf_tree demo_fib_vr) 263 = Some (demo_vr\<lparr>sai_route_tree := Some
      (fmupd (default_key SAI_IP_ADDR_FAMILY_IPV6) 2 (fmupd (default_key SAI_IP_ADDR_FAMILY_IPV4) 1 fmempty))\<rparr>)"
  "route_mem demo_fib_vr = fmupd 2 (demo_default SAI_IP_ADDR_FAMILY_IPV6)
       (fmupd 1 (demo_default SAI_IP_ADDR_FAMILY_IPV4) fmempty)"
  "nh_mem demo_fib_vr = [100 \<mapsto> demo_nh_plain]" "nh_id_tree demo_fib_vr = [264 \<mapsto> 100]"
  "nh_group_tree demo_fib_vr = [265 \<mapsto> 200]"
  by (simp_all add: demo_fib_vr_def demo_fib_none_def rb_getexact_def)

lemma demo_object_types [simp]:
  "demo_object_type 264 = SAI_OBJECT_TYPE_NEXT_HOP" "demo_object_type 265 = SAI_OBJECT_TYPE_NEXT_HOP_GROUP"
  by (simp_all add: demo_object_type_def demo_is_obj_def)

lemma demo_entry_sel [simp]:
  "vr_id demo_entry = 263" "pfx_addr_family (destination demo_entry) = SAI_IP_ADDR_FAMILY_IPV4"
  by (simp_all add: demo_entry_def)

lemma demo_get_none: "sai_fib_route_node_get demo_fib demo_entry demo_fib_vr = None"
  by (simp add: node_get_at demo_entry_key route_at_def) (simp add: rb_getexact_def)

lemma demo_route_init:
  "sai_fib_route_node_init demo_fib demo_entry = demo_route\<lparr>nh_type := SAI_FIB_ROUTE_NH_TYPE_NONE,
     nh_info := None, hw_info := None\<rparr>"
  by (simp add: sai_fib_route_node_init_def demo_fill demo_route_def
      SAI_FIB_ROUTE_DFLT_PKT_ACTION_def SAI_FIB_ROUTE_DFLT_TRAP_PRIO_def)

lemma demo_parse:
  "sai_fib_route_attributes_parse demo_fib s w [SAI_ROUTE_ENTRY_ATTR_NEXT_HOP_ID 264]
     (demo_route\<lparr>nh_type := SAI_FIB_ROUTE_NH_TYPE_NONE, nh_info := None, hw_info := None\<rparr>)
   = (SAI_STATUS_SUCCESS, demo_route\<lparr>hw_info := None\<rparr>)" if "nh_id_tree s = [264 \<mapsto> 100]"
  using that by (simp add: sai_fib_route_attributes_parse_def route_attribute_accept_def
      sai_fib_route_nh_id_attr_set_def demo_route_def)

text \<open>The call up to the counting of the reference.\<close>

definition demo_mid :: fib_state where
  "demo_mid = sai_fib_lock (demo_fib_route\<lparr>nh_mem := [100 \<mapsto> demo_nh_plain]\<rparr>)"

lemma demo_route_key: "ip_key (rt_prefix demo_route) (sai_fib_route_key_len_get (prefix_len demo_route)) = demo_key"
  by (simp add: demo_route_def demo_key_def sai_fib_route_key_len_get_def)

lemma demo_old_tree: "rb_getexact (Some (fmupd (default_key SAI_IP_ADDR_FAMILY_IPV6) b
    (fmupd (default_key SAI_IP_ADDR_FAMILY_IPV4) a fmempty))) demo_key = None"
  by (simp add: rb_getexact_def)

lemma demo_insert:
  "sai_fib_route_node_insert_to_tree demo_fib 3 263 (sai_fib_lock demo_fib_vr\<lparr>route_mem :=
      fmupd 3 demo_route (route_mem demo_fib_vr)\<rparr>) w = (SAI_STATUS_SUCCESS, demo_mid, w)"
  by (simp add: sai_fib_route_node_insert_to_tree_def std_radix_insert_def demo_route_key vrf_write_def
      demo_old_tree Let_def)
    (simp add: rb_put_def demo_fib_vr_def demo_fib_none_def demo_vr_def demo_mid_def demo_fib_route_def sai_fib_lock_def)

lemma demo_mid_sel [simp]:
  "route_mem demo_mid = fmupd 3 demo_route (fmupd 2 (demo_default SAI_IP_ADDR_FAMILY_IPV6)
       (fmupd 1 (demo_default SAI_IP_ADDR_FAMILY_IPV4) fmempty))"
  "rb_getexact (vrf_tree demo_mid) 263 = Some (demo_vr\<lparr>sai_route_tree := demo_tree\<rparr>)"
  "nh_mem demo_mid = [100 \<mapsto> demo_nh_plain]"
  by (simp_all add: demo_mid_def demo_fib_route_def demo_fib_none_def sai_fib_lock_def rb_getexact_def demo_tree_def)

lemma demo_walk: "less_specific_walk demo_fib (demo_vr\<lparr>sai_route_tree := demo_tree\<rparr>) P demo_key demo_mid w
    = (demo_mid, w)"
  by (subst less_specific_walk.simps, simp add: demo_less_specific demo_tree_get demo_default_def)
    (subst less_specific_walk.simps, simp add: demo_less_specific)

lemma demo_affected:
  "sai_fib_route_affected_encap_nh_update demo_fib 3 SAI_OP_CREATE demo_mid w = (demo_mid, w)"
proof -
  have "\<not> sai_fib_is_default_route_node demo_fib demo_route" "rt_vrf_id demo_route = 263"
    by (simp_all add: sai_fib_is_default_route_node_def demo_route_def)
  then show ?thesis
    by (simp add: sai_fib_route_affected_encap_nh_update_def demo_walk
        sai_fib_route_create_affected_encap_nh_update_def sai_fib_encap_nh_signal_dep_route_walk_def demo_route_key)
qed

lemma demo_count: "sai_fib_unlock (sai_fib_encap_nh_dep_route_add 3 (sai_fib_route_nh_ref_count_incr 3 demo_mid))
    = demo_fib_route"
  by (simp add: sai_fib_route_nh_ref_count_incr_def demo_route_def nh_write_def sai_fib_incr_nh_ref_count_def
      sai_fib_encap_nh_dep_route_add_def demo_nh_plain_def)
    (simp add: demo_mid_def demo_fib_route_def demo_nh_plain_def demo_route_def sai_fib_lock_def sai_fib_unlock_def)

lemma demo_route_create:
  "sai_fib_route_create demo_fib demo_entry [SAI_ROUTE_ENTRY_ATTR_NEXT_HOP_ID 264] demo_fib_vr w
     = (SAI_STATUS_SUCCESS, demo_fib_route, w)"
proof -
  have hw: "demo_route\<lparr>hw_info := Some 1\<rparr> = demo_route" by (simp add: demo_route_def)
  show ?thesis
    by (simp add: sai_fib_route_create_def sai_fib_route_input_params_validate_def
      sai_fib_uc_route_entry_validate_def SAI_FIB_ROUTE_MAX_ATTR_COUNT_def route_create_node_def demo_get_none
      route_create_install_def demo_route_init Let_def demo_parse route_write_def hw fmupd_idem
      hw [simplified]
      numeral_3_eq_3 [symmetric] demo_insert [simplified] demo_affected demo_count)
qed

end
