(* ===== verification/Fib_Claims.thy ===== *)
theory Fib_Claims
  imports Fib_Demo
begin

text \<open>
  The properties of virtual routers and routes.
\<close>

section \<open>The route table\<close>

text \<open>C31. Any sequence of route creations, removals and attribute updates implements the route
  table: the calls that return success update the table as the specification says, in their order,
  and a call that returns an error leaves the table as it was.\<close>

theorem route_calls_refine_table:
  assumes "run_all (run_route_call E) cs s w = (rcs, s', w')"
    and "fib_laws E" and "fib_wf s"
  shows "fib_wf s' \<and> length rcs = length cs
    \<and> spec_all (route_spec E (route_names E s)) (zip cs rcs) (route_table s) = Some (route_table s')"
  using routes.run_all_refines [OF conjI [OF assms(2,3)] assms(1)] by simp

lemma demo_vr_reachable: "fib_reachable demo_fib ok demo_fib_vr"
proof -
  have "fib_reachable demo_fib ok demo_fib_none"
    unfolding fib_reachable_def by (rule reach_start) (rule demo_fib_start)
  then show ?thesis
    unfolding fib_reachable_def by (rule reach_step) (rule fstep_vr_create [OF demo_vr_create])
qed

lemma demo_room: "refs_room demo_fib_vr"
  by (auto simp: refs_room_def count_of_def demo_nh_plain_def demo_group_def demo_fib_vr_def demo_fib_none_def
      split: route_target.splits option.splits if_splits)

lemma demo_route_reachable: "ok demo_entry \<Longrightarrow> fib_reachable demo_fib ok demo_fib_route"
  using demo_vr_reachable [of ok] fstep_create [OF _ demo_room demo_route_create]
  unfolding fib_reachable_def by (blast intro: reach_step)

lemma demo_wf: "fib_wf demo_fib_vr" "fib_wf demo_fib_route"
  using reachable_inv [OF demo_vr_reachable demo_fib_laws(1)]
    reachable_inv [OF demo_route_reachable demo_fib_laws(1), of "\<lambda>_. True"]
  by (simp_all add: fib_inv_def)

theorem route_calls_refine_table_witness:
  "spec_all (route_spec demo_fib (route_names demo_fib demo_fib_vr))
     [(Route_Create demo_entry [SAI_ROUTE_ENTRY_ATTR_NEXT_HOP_ID 264], SAI_STATUS_SUCCESS)]
     (route_table demo_fib_vr) = Some (route_table demo_fib_route)"
  using route_calls_refine_table [of demo_fib "[Route_Create demo_entry [SAI_ROUTE_ENTRY_ATTR_NEXT_HOP_ID 264]]"
      demo_fib_vr 2 "[SAI_STATUS_SUCCESS]" demo_fib_route 2] demo_fib_laws(3) demo_wf(1)
  by (simp add: run_route_call_def demo_route_create)

section \<open>Next hops in use\<close>

lemma target_of_iff:
  "target_of r = Target_Next_Hop p \<longleftrightarrow> nh_type r = ROUTE_NH_TYPE_NEXT_HOP \<and> nh_info r = p"
  "target_of r = Target_Group p \<longleftrightarrow> nh_type r = ROUTE_NH_TYPE_NEXT_HOP_GROUP \<and> nh_info r = p"
  by (cases "nh_type r"; simp add: target_of_def)+

text \<open>C32. In every state that the virtual router and route calls can reach, a route that forwards
  to a next hop or a group forwards to an allocated one, and the reference count of that one is at
  least the number of the routes that forward to it, so it is not zero.\<close>

theorem route_targets_counted:
  assumes "fib_reachable E (\<lambda>_. True) s" and "fib_env_laws E"
    and "fmlookup (route_mem s) a = Some r"
  shows "(nh_type r = ROUTE_NH_TYPE_NEXT_HOP \<longrightarrow>
       (\<exists>u n. nh_info r = Some u \<and> nh_mem s u = Some n \<and> 0 < ref_count n
          \<and> card {b. \<exists>q. fmlookup (route_mem s) b = Some q
               \<and> nh_type q = ROUTE_NH_TYPE_NEXT_HOP \<and> nh_info q = Some u} \<le> unat (ref_count n)))
   \<and> (nh_type r = ROUTE_NH_TYPE_NEXT_HOP_GROUP \<longrightarrow>
       (\<exists>g n. nh_info r = Some g \<and> grp_mem s g = Some n \<and> 0 < grp_ref_count n
          \<and> card {b. \<exists>q. fmlookup (route_mem s) b = Some q
               \<and> nh_type q = ROUTE_NH_TYPE_NEXT_HOP_GROUP \<and> nh_info q = Some g} \<le> unat (grp_ref_count n)))"
proof -
  have R: "refs_ok s" using reachable_inv [OF assms(1,2)] by (simp add: fib_inv_def)
  have a: "a \<in> users s (target_of r)" by (rule users_self [OF assms(3)])
  have c: "\<exists>n. count_of s (target_of r) = Some n \<and> card (users s (target_of r)) \<le> n \<and> 0 < n"
    if "target_of r \<noteq> No_Target"
  proof -
    from R that a obtain n where n: "count_of s (target_of r) = Some n" "card (users s (target_of r)) \<le> n"
      using refs_okD by blast
    have "0 < card (users s (target_of r))" using a finite_users by (simp add: card_gt_0_iff) blast
    with n show ?thesis by auto
  qed
  have nh: "users s (Target_Next_Hop (Some u)) = {b. \<exists>q. fmlookup (route_mem s) b = Some q
      \<and> nh_type q = ROUTE_NH_TYPE_NEXT_HOP \<and> nh_info q = Some u}" for u
    by (simp add: users_def target_of_iff)
  have grp: "users s (Target_Group (Some g)) = {b. \<exists>q. fmlookup (route_mem s) b = Some q
      \<and> nh_type q = ROUTE_NH_TYPE_NEXT_HOP_GROUP \<and> nh_info q = Some g}" for g
    by (simp add: users_def target_of_iff)
  show ?thesis
  proof (intro conjI impI)
    assume t: "nh_type r = ROUTE_NH_TYPE_NEXT_HOP"
    then have t: "target_of r = Target_Next_Hop (nh_info r)" by (simp add: target_of_def)
    from c [unfolded t] obtain u n where "nh_info r = Some u" "nh_mem s u = Some n"
      "card (users s (Target_Next_Hop (Some u))) \<le> unat (ref_count n)" "0 < unat (ref_count n)"
      by (auto simp: count_of_def split: option.splits)
    then show "\<exists>u n. nh_info r = Some u \<and> nh_mem s u = Some n \<and> 0 < ref_count n
          \<and> card {b. \<exists>q. fmlookup (route_mem s) b = Some q
               \<and> nh_type q = ROUTE_NH_TYPE_NEXT_HOP \<and> nh_info q = Some u} \<le> unat (ref_count n)"
      unfolding nh [symmetric] by (auto simp: unat_gt_0 word_gt_0)
  next
    assume t: "nh_type r = ROUTE_NH_TYPE_NEXT_HOP_GROUP"
    then have t: "target_of r = Target_Group (nh_info r)" by (simp add: target_of_def)
    from c [unfolded t] obtain u n where "nh_info r = Some u" "grp_mem s u = Some n"
      "card (users s (Target_Group (Some u))) \<le> unat (grp_ref_count n)" "0 < unat (grp_ref_count n)"
      by (auto simp: count_of_def split: option.splits)
    then show "\<exists>g n. nh_info r = Some g \<and> grp_mem s g = Some n \<and> 0 < grp_ref_count n
          \<and> card {b. \<exists>q. fmlookup (route_mem s) b = Some q
               \<and> nh_type q = ROUTE_NH_TYPE_NEXT_HOP_GROUP \<and> nh_info q = Some g} \<le> unat (grp_ref_count n)"
      unfolding grp [symmetric] by (auto simp: unat_gt_0 word_gt_0)
  qed
qed

theorem route_targets_counted_witness:
  "\<exists>n. nh_mem demo_fib_route 100 = Some n \<and> 0 < ref_count n"
proof -
  have r: "fmlookup (route_mem demo_fib_route) 3 = Some demo_route" by (simp add: demo_fib_route_def)
  show ?thesis
    using route_targets_counted [OF demo_route_reachable demo_fib_laws(1) r, OF TrueI]
    by (auto simp: demo_route_def)
qed

section \<open>The default routes\<close>

text \<open>C33. Every virtual router has a default route of both address families, in every state that the
  calls can reach: it is there from the creation of the virtual router, survives the removal of a
  default route by the user, and comes back when the removal of the virtual router is refused.  With the
  laws \<open>fib_env_laws\<close> of allocator and trees, this holds as long as memory for routes lasts (\<open>fib_memory_ok\<close>), as no caller uses an empty prefix with an
  address other than zero (\<open>canonical_entry\<close>), and as the plug-in does not refuse the removal of a virtual
  router with \<open>SAI_STATUS_INVALID_OBJECT_ID\<close> (\<open>vr_status_ok\<close>): after that answer, which the code takes
  for its own, the default routes are not put back.\<close>

theorem default_routes_always_present:
  assumes "fib_reachable E (canonical_entry E) s" and "fib_env_laws E" and "fib_memory_ok E"
    and "vr_status_ok E" and "rb_getexact (vrf_tree s) vr = Some v"
    and "af = SAI_IP_ADDR_FAMILY_IPV4 \<or> af = SAI_IP_ADDR_FAMILY_IPV6"
  shows "\<exists>a r. rb_getexact (sai_route_tree v) (default_key af) = Some a
    \<and> fmlookup (route_mem s) a = Some r \<and> rt_vrf_id r = vr \<and> prefix_len r = 0"
proof -
  have W: "fib_wf s" using reachable_inv [OF assms(1,2)] by (simp add: fib_inv_def)
  have "is_default_key (default_key af)" using assms(6) by (auto simp: is_default_key_def)
  with reachable_defaults [OF assms(1-4)] assms(5)
  obtain a where a: "route_at s vr (default_key af) = Some a" unfolding defaults_present_def by fastforce
  then obtain r where r: "fmlookup (route_mem s) a = Some r" "rt_vrf_id r = vr" "node_key r = default_key af"
    using fib_wf_entry [OF W a] by blast
  have "length (addr_bits (rt_prefix r)) = 128"
    by (simp add: addr_bits_def split: sai_ip_addr_family_t.split)
  moreover have "length (node_key r) = 32" using r(3) by (simp add: default_key_def)
  ultimately have "prefix_len r = 0"
    by (simp add: node_key_def ip_key_def sai_fib_route_key_len_get_def min_def split: if_splits)
  with a r assms(5) show ?thesis by (auto simp: route_at_def)
qed

lemma demo_canonical: "canonical_entry demo_fib demo_entry"
  by (simp add: canonical_entry_def demo_fill)

theorem default_routes_always_present_witness:
  "\<exists>a r. rb_getexact demo_tree (default_key SAI_IP_ADDR_FAMILY_IPV6) = Some a
     \<and> fmlookup (route_mem demo_fib_route) a = Some r \<and> prefix_len r = 0"
proof -
  have v: "rb_getexact (vrf_tree demo_fib_route) 263 = Some (demo_vr\<lparr>sai_route_tree := demo_tree\<rparr>)"
    by (simp add: demo_fib_route_def rb_getexact_def demo_tree_def)
  from default_routes_always_present [OF demo_route_reachable [of "canonical_entry demo_fib", OF demo_canonical]
      demo_fib_laws(1,2,4) v, of SAI_IP_ADDR_FAMILY_IPV6]
  show ?thesis by auto
qed

end
