(* ===== verification/Fib_Lpm.thy ===== *)
theory Fib_Lpm
  imports Fib_Reach
begin

text \<open>
  Resolution of encap next hops: what \<open>sai_fib_encap_nh_lpm_route_resolve\<close>, the scan of a route's
  dependents and the walk up the less specific routes do to the links between next hops and
  routes, when memory lasts and the plug-in agrees.
\<close>

section \<open>When a resolution succeeds\<close>

definition resolve_ok :: "('w, 'z) fib_env_scheme \<Rightarrow> bool" where
  "resolve_ok E \<longleftrightarrow> (\<forall>w. fst (calloc_ok E w))
     \<and> (\<forall>n r w. fst (npu_encap_nh_route_resolve E n r w) = SAI_STATUS_SUCCESS)"

text \<open>What a route forwards to is allocated, the members of a group included.\<close>

definition target_ok :: "fib_state \<Rightarrow> sai_fib_route_t \<Rightarrow> bool" where
  "target_ok s r \<longleftrightarrow>
     (nh_type r = ROUTE_NH_TYPE_NEXT_HOP \<longrightarrow> (\<exists>u. nh_info r = Some u \<and> nh_mem s u \<noteq> None))
   \<and> (nh_type r = ROUTE_NH_TYPE_NEXT_HOP_GROUP \<longrightarrow> (\<exists>g grp. nh_info r = Some g \<and> grp_mem s g = Some grp
        \<and> (\<forall>u\<in>set (grp_nh_list grp). nh_mem s u \<noteq> None)))"

lemma grp_core_list [simp]: "grp_nh_list (grp_core g) = grp_nh_list g"
  by (simp add: grp_core_def grp_nh_list_def)

lemma nh_core_addr [simp]: "nh_ip_addr (nh_core n) = nh_ip_addr n"
  by (simp add: nh_core_def)

lemma target_ok_core [simp]: "target_ok (fib_core s) r = target_ok s r"
  by (auto simp: target_ok_def)

lemma target_ok_cong: "fib_core s' = fib_core s \<Longrightarrow> target_ok s' r = target_ok s r"
  using target_ok_core by metis

lemma add_to_nh_ok:
  assumes "resolve_ok E" and "nh_mem s u \<noteq> None"
  shows "fst (sai_fib_encap_next_hop_add_to_underlay_nh E e u s w) = SAI_STATUS_SUCCESS"
    and "nh_mem (fst (snd (sai_fib_encap_next_hop_add_to_underlay_nh E e u s w))) x = None
      \<longleftrightarrow> nh_mem s x = None"
  using assms by (auto simp: sai_fib_encap_next_hop_add_to_underlay_nh_def resolve_ok_def Let_def split_beta
      write_defined split: option.splits)

lemma nhg_add_loop_ok:
  "resolve_ok E \<Longrightarrow> \<forall>u\<in>set us. nh_mem s u \<noteq> None \<Longrightarrow>
     fst (underlay_nhg_add_loop E e us SAI_STATUS_SUCCESS s w) = SAI_STATUS_SUCCESS"
proof (induction us arbitrary: s w)
  case (Cons u us)
  have u: "nh_mem s u \<noteq> None" using Cons.prems(2) by simp
  let ?t = "sai_fib_encap_next_hop_add_to_underlay_nh E e u s w"
  note ok = add_to_nh_ok [OF Cons.prems(1) u, of e w]
  have "\<forall>x\<in>set us. nh_mem (fst (snd ?t)) x \<noteq> None" using Cons.prems(2) ok(2) by simp
  from Cons.IH [OF Cons.prems(1) this, of "snd (snd ?t)"] show ?case
    using ok(1) by (simp add: split_beta)
qed simp

lemma add_to_route_nh_ok:
  assumes "resolve_ok E" and "target_ok s r"
  shows "fst (sai_fib_encap_next_hop_add_to_underlay_route_nh E e r s w) = SAI_STATUS_SUCCESS"
proof -
  have grp: "fst (sai_fib_encap_next_hop_add_to_underlay_nhg E e g s w) = SAI_STATUS_SUCCESS"
    if "grp_mem s g = Some grp" "\<forall>u\<in>set (grp_nh_list grp). nh_mem s u \<noteq> None" for g grp
    using that by (simp add: sai_fib_encap_next_hop_add_to_underlay_nhg_def nhg_add_loop_ok [OF assms(1)] fib_crash_def)
  show ?thesis
    using assms(2) by (auto simp: sai_fib_encap_next_hop_add_to_underlay_route_nh_def target_ok_def
        add_to_nh_ok(1) [OF assms(1)] grp)
qed

lemma attr_set_ok:
  assumes R: "resolve_ok E" and n: "nh_mem s e = Some n" and T: "target_ok s r"
  shows "fst (sai_fib_encap_nh_lpm_route_attr_set E e r s w) = SAI_STATUS_SUCCESS"
proof -
  have npu: "fst (npu_encap_nh_route_resolve E m r w) = SAI_STATUS_SUCCESS" for m w
    using R by (simp add: resolve_ok_def)
  have add: "fst (sai_fib_encap_next_hop_add_to_underlay_route_nh E e r t w) = SAI_STATUS_SUCCESS"
    if "fib_core t = fib_core s" for t w
    by (rule add_to_route_nh_ok [OF R]) (simp add: target_ok_cong [OF that] T)
  show ?thesis
    using n npu by (auto simp: sai_fib_encap_nh_lpm_route_attr_set_def Let_def split_beta add core_simps core_writes
        split: option.split)
qed

section \<open>Links\<close>

text \<open>A next hop is in the list of the route that it is resolved over, once, and in no other.\<close>

definition links_ok :: "fib_state \<Rightarrow> bool" where
  "links_ok s \<longleftrightarrow> (\<forall>a e. e \<in> set (dep_of s a) \<longleftrightarrow> lpm_of s e = Some a) \<and> (\<forall>a. distinct (dep_of s a))"

lemma links_ok_cong: "links s' = links s \<Longrightarrow> links_ok s' = links_ok s"
  by (simp add: links_ok_def links_eq)

lemma links_dep_remove:
  "lpm_of (route_dep_encap_nh_remove a e s) = lpm_of s"
  "dep_of (route_dep_encap_nh_remove a e s) = (dep_of s)(a := remove1 e (dep_of s a))"
proof -
  show "lpm_of (route_dep_encap_nh_remove a e s) = lpm_of s"
    by (simp add: route_dep_encap_nh_remove_def split: option.split)
  have "dep_of s a = []" if "fmlookup (route_mem s) a = None" using that by (simp add: dep_of_def)
  moreover have "dep_of s a = rt_dep_encap_nh_list r" if "fmlookup (route_mem s) a = Some r" for r
    using that by (simp add: dep_of_def)
  ultimately show "dep_of (route_dep_encap_nh_remove a e s) = (dep_of s)(a := remove1 e (dep_of s a))"
    by (auto simp: route_dep_encap_nh_remove_def dep_of_route_write remove1_idem fun_upd_idem
        split: option.split)
qed

section \<open>One next hop\<close>

definition encap_key :: "('w, 'z) fib_env_scheme \<Rightarrow> sai_fib_nh_t \<Rightarrow> std_rt_key" where
  "encap_key E n = ip_key (nh_ip_addr n)
     (sai_fib_route_key_len_get (sai_fib_ip_addr_family_len_get E (nh_ip_addr n)))"

text \<open>The best match of a next hop in a virtual router.\<close>

definition best_of :: "('w, 'z) fib_env_scheme \<Rightarrow> sai_fib_vrf_t \<Rightarrow> fib_state \<Rightarrow> addr \<Rightarrow> addr option" where
  "best_of E v s e = Option.bind (nh_mem s e) (\<lambda>n. std_radix_getbest (sai_route_tree v) (encap_key E n))"

definition resolvable :: "('w, 'z) fib_env_scheme \<Rightarrow> sai_fib_vrf_t \<Rightarrow> fib_state \<Rightarrow> addr \<Rightarrow> bool" where
  "resolvable E v s e \<longleftrightarrow> (\<exists>b r. best_of E v s e = Some b \<and> fmlookup (route_mem s) b = Some r \<and> target_ok s r)"

lemma best_of_core [simp]: "best_of E v (fib_core s) e = best_of E v s e"
  by (cases "nh_mem s e") (simp_all add: best_of_def encap_key_def)

lemma best_of_cong: "fib_core s' = fib_core s \<Longrightarrow> best_of E v s' e = best_of E v s e"
  using best_of_core by metis

lemma target_ok_route_core [simp]: "target_ok s (route_core r) = target_ok s r"
  by (simp add: target_ok_def)

lemma resolvable_cong:
  assumes "fib_core s' = fib_core s"
  shows "resolvable E v s' e = resolvable E v s e"
proof -
  have "resolvable E v (fib_core t) e = resolvable E v t e" for t by (auto simp: resolvable_def)
  with assms show ?thesis by metis
qed

lemma resolve_effect:
  assumes R: "resolve_ok E" and L: "links_ok s" and ok: "resolvable E v s e"
  obtains s' w' where "sai_fib_encap_nh_lpm_route_resolve E v e s w = (SAI_STATUS_SUCCESS, s', w')"
    "fib_core s' = fib_core s" "links_ok s'" "lpm_of s' = (lpm_of s)(e := best_of E v s e)"
proof -
  obtain b r where b: "best_of E v s e = Some b" "fmlookup (route_mem s) b = Some r" "target_ok s r"
    using ok by (auto simp: resolvable_def)
  then obtain n where n: "nh_mem s e = Some n" "std_radix_getbest (sai_route_tree v) (encap_key E n) = Some b"
    by (auto simp: best_of_def bind_eq_Some_conv)
  obtain rc s' w' where run: "sai_fib_encap_nh_lpm_route_resolve E v e s w = (rc, s', w')" by (metis prod_cases3)
  have core: "fib_core s' = fib_core s" using core_lpm_resolve [of E v e s w] run by simp
  have lpm: "lpm_of s e = lpm_route n" by (simp add: lpm_of_def n)
  show thesis
  proof (cases "lpm_route n = Some b")
    case True
    with run n have "rc = SAI_STATUS_SUCCESS" "s' = s"
      by (simp_all add: sai_fib_encap_nh_lpm_route_resolve_def encap_key_def)
    moreover have "lpm_of s = (lpm_of s)(e := best_of E v s e)" using lpm True b(1) by (simp add: fun_upd_idem)
    ultimately show thesis using that run L by simp
  next
    case False
    obtain rc1 s1 w1 where a: "sai_fib_encap_nh_lpm_route_attr_set E e r s w = (rc1, s1, w1)"
      by (metis prod_cases3)
    have rc1: "rc1 = SAI_STATUS_SUCCESS" using attr_set_ok [OF R n(1) b(3), of w] a by simp
    have c1: "fib_core s1 = fib_core s" using core_lpm_attr_set [of E e r s w] a by simp
    have l1: "dep_of s1 = dep_of s" "lpm_of s1 = lpm_of s"
      using links_lpm_attr_set [of E e r s w] a by (simp_all add: links_eq)
    let ?s2 = "nh_write e (\<lambda>n. n\<lparr>lpm_route := Some b\<rparr>) s1"
    let ?s3 = "case lpm_route n of None \<Rightarrow> ?s2 | Some p \<Rightarrow> route_dep_encap_nh_remove p e ?s2"
    let ?s4 = "route_write b (\<lambda>rt. rt\<lparr>rt_dep_encap_nh_list := rt_dep_encap_nh_list rt @ [e]\<rparr>) ?s3"
    have "rc = SAI_STATUS_SUCCESS" and s': "s' = ?s4"
      using run n b(2) False a rc1 by (auto simp: sai_fib_encap_nh_lpm_route_resolve_def encap_key_def Let_def)
    have "nh_mem s1 e \<noteq> None" using fib_coreD(8) [OF c1, of e] n by auto
    then have l2: "dep_of ?s2 = dep_of s" "lpm_of ?s2 = (lpm_of s)(e := Some b)"
      using l1 by (auto simp: lpm_of_nh_write)
    have l3: "lpm_of ?s3 = (lpm_of s)(e := Some b)"
      "dep_of ?s3 = (case lpm_route n of None \<Rightarrow> dep_of s | Some p \<Rightarrow> (dep_of s)(p := remove1 e (dep_of s p)))"
      using l2 by (simp_all add: links_dep_remove split: option.split)
    have "fib_core ?s3 = fib_core s" using c1 by (simp add: core_simps core_writes split: option.split)
    from fib_coreD(7) [OF this, of b] b(2) obtain r3 where r3: "fmlookup (route_mem ?s3) b = Some r3" by auto
    then have "rt_dep_encap_nh_list r3 = dep_of ?s3 b" by (simp add: dep_of_def)
    with r3 have l4: "lpm_of s' = (lpm_of s)(e := Some b)" "dep_of s' = (dep_of ?s3)(b := dep_of ?s3 b @ [e])"
      using l3(1) by (simp_all add: s' dep_of_route_write)
    have mem: "x \<in> set (dep_of s a) \<longleftrightarrow> lpm_of s x = Some a" and dist: "distinct (dep_of s a)" for x a
      using L by (auto simp: links_ok_def)
    have m3: "x \<in> set (dep_of ?s3 a) \<longleftrightarrow> x \<noteq> e \<and> lpm_of s x = Some a" and d3: "distinct (dep_of ?s3 a)" for x a
    proof -
      show "distinct (dep_of ?s3 a)" unfolding l3(2) by (cases "lpm_route n") (simp_all add: dist)
      show "x \<in> set (dep_of ?s3 a) \<longleftrightarrow> x \<noteq> e \<and> lpm_of s x = Some a"
        unfolding l3(2) using mem lpm by (cases "lpm_route n") (auto simp: dist)
    qed
    have "links_ok s'" using m3 d3 by (auto simp: links_ok_def l4)
    with \<open>rc = _\<close> run core l4(1) b(1) show thesis using that by simp
  qed
qed

section \<open>The scan of a list of next hops\<close>

text \<open>The next hops of the list whose address is affected are moved to their best match, the others
  stay where they are.\<close>

definition moved ::
  "('w, 'z) fib_env_scheme \<Rightarrow> sai_fib_vrf_t \<Rightarrow> (sai_ip_address_t \<Rightarrow> bool) \<Rightarrow> fib_state \<Rightarrow> addr set
     \<Rightarrow> addr \<Rightarrow> addr option" where
  "moved E v P s A e = (if e \<in> A \<and> (\<exists>n. nh_mem s e = Some n \<and> P (nh_ip_addr n))
     then best_of E v s e else lpm_of s e)"

lemma affected_addr:
  assumes "fib_core s' = fib_core s"
  shows "(\<exists>n. nh_mem s' e = Some n \<and> P (nh_ip_addr n)) \<longleftrightarrow> (\<exists>n. nh_mem s e = Some n \<and> P (nh_ip_addr n))"
proof -
  have "(\<exists>n. nh_mem (fib_core t) e = Some n \<and> P (nh_ip_addr n))
      \<longleftrightarrow> (\<exists>n. nh_mem t e = Some n \<and> P (nh_ip_addr n))" for t by auto
  with assms show ?thesis by metis
qed

lemma resolve_loop_effect:
  assumes R: "resolve_ok E"
  shows "links_ok s \<Longrightarrow> \<forall>e\<in>set es. resolvable E v s e \<Longrightarrow> resolve_loop E v P es s w = (s', w') \<Longrightarrow>
    fib_core s' = fib_core s \<and> links_ok s' \<and> lpm_of s' = moved E v P s (set es)"
proof (induction es arbitrary: s w)
  case Nil
  then show ?case by (simp add: moved_def fun_eq_iff)
next
  case (Cons e es)
  have re: "resolvable E v s e" using Cons.prems(2) by simp
  then obtain n where n: "nh_mem s e = Some n"
    by (auto simp: resolvable_def best_of_def bind_eq_Some_conv)
  show ?case
  proof (cases "P (nh_ip_addr n)")
    case True
    from R Cons.prems(1) re obtain s1 w1
      where s1: "sai_fib_encap_nh_lpm_route_resolve E v e s w = (SAI_STATUS_SUCCESS, s1, w1)"
      "fib_core s1 = fib_core s" "links_ok s1" "lpm_of s1 = (lpm_of s)(e := best_of E v s e)"
      by (rule resolve_effect)
    have run: "resolve_loop E v P es s1 w1 = (s', w')" using Cons.prems(3) n True s1(1) by simp
    have "\<forall>x\<in>set es. resolvable E v s1 x" using Cons.prems(2) resolvable_cong [OF s1(2), of E v] by simp
    from Cons.IH [OF s1(3) this run] have IH: "fib_core s' = fib_core s1" "links_ok s'"
      "lpm_of s' = moved E v P s1 (set es)" by auto
    have "moved E v P s1 (set es) = moved E v P s (set (e # es))"
      using n True by (auto simp: moved_def fun_eq_iff affected_addr [OF s1(2)] best_of_cong [OF s1(2)] s1(4))
    with IH s1(2) show ?thesis by simp
  next
    case False
    have run: "resolve_loop E v P es s w = (s', w')" using Cons.prems(3) n False by simp
    have "moved E v P s (set es) = moved E v P s (set (e # es))"
      using n False by (auto simp: moved_def fun_eq_iff)
    with Cons.IH [OF Cons.prems(1) _ run] Cons.prems(2) show ?thesis by simp
  qed
qed

section \<open>The walk up the less specific routes\<close>

lemma radix_less_specific_None:
  "radix_less_specific_key t k = None \<longleftrightarrow> (\<forall>q. strict_prefix q k \<longrightarrow> rb_getexact t q = None)"
proof (cases k rule: rev_cases)
  case Nil
  then show ?thesis by (simp add: radix_less_specific_key_def)
next
  case (snoc ys y)
  have "prefix q ys \<longleftrightarrow> strict_prefix q k" for q by (auto simp: snoc strict_prefix_def)
  then show ?thesis by (simp add: snoc radix_less_specific_key_def radix_best_key_None)
qed

text \<open>The next hops that are resolved over a route of the virtual router, but not over their best
  match: the walk still has to come by their route, which is strictly less specific than \<open>k\<close>, and
  their address is affected.\<close>

definition stale_below ::
  "('w, 'z) fib_env_scheme \<Rightarrow> sai_fib_vrf_t \<Rightarrow> (sai_ip_address_t \<Rightarrow> bool) \<Rightarrow> std_rt_key \<Rightarrow> fib_state \<Rightarrow> bool" where
  "stale_below E v P k s \<longleftrightarrow> (\<forall>e a r. lpm_of s e = Some a \<longrightarrow> fmlookup (route_mem s) a = Some r \<longrightarrow>
     rt_vrf_id r = vrf_id v \<longrightarrow> best_of E v s e \<noteq> Some a \<longrightarrow>
     strict_prefix (node_key r) k \<and> (\<exists>n. nh_mem s e = Some n \<and> P (nh_ip_addr n)))"

definition in_router :: "sai_fib_vrf_t \<Rightarrow> fib_state \<Rightarrow> addr \<Rightarrow> bool" where
  \<comment> \<open>resolved over a route of the virtual router\<close>
  "in_router v s e \<longleftrightarrow> (\<exists>a r. lpm_of s e = Some a \<and> fmlookup (route_mem s) a = Some r \<and> rt_vrf_id r = vrf_id v)"

definition all_best :: "('w, 'z) fib_env_scheme \<Rightarrow> sai_fib_vrf_t \<Rightarrow> fib_state \<Rightarrow> addr \<Rightarrow> addr option" where
  "all_best E v s e = (if in_router v s e then best_of E v s e else lpm_of s e)"

lemma core_route:
  assumes "fib_core s' = fib_core s" and "fmlookup (route_mem s') a = Some r'"
  obtains r where "fmlookup (route_mem s) a = Some r" "rt_vrf_id r = rt_vrf_id r'" "node_key r = node_key r'"
    "rt_prefix r = rt_prefix r'" "prefix_len r = prefix_len r'"
proof -
  from fib_coreD(7) [OF assms(1), of a] assms(2) obtain r
    where r: "fmlookup (route_mem s) a = Some r" "route_core r = route_core r'"
    by (cases "fmlookup (route_mem s) a") auto
  have "rt_vrf_id r = rt_vrf_id r'" "node_key r = node_key r'" "rt_prefix r = rt_prefix r'"
    "prefix_len r = prefix_len r'"
    using r(2) by (metis route_core_simps node_key_core)+
  with r(1) that show thesis by blast
qed

lemma walk_step_links:
  assumes W: "fib_wf s" and v: "rb_getexact (vrf_tree s) (vrf_id v) = Some v" and L: "links_ok s"
    and k: "radix_less_specific_key (sai_route_tree v) k = Some k'" "rb_getexact (sai_route_tree v) k' = Some p"
    and S: "stale_below E v P k s" and c: "fib_core s1 = fib_core s"
    and l: "lpm_of s1 = moved E v P s (set (dep_of s p))"
    and ok: "\<And>e. in_router v s e \<Longrightarrow> resolvable E v s e"
  shows "stale_below E v P k' s1" "all_best E v s1 = all_best E v s" "\<And>e. in_router v s1 e = in_router v s e"
proof -
  have at: "route_at s (vrf_id v) k' = Some p" using v k(2) by (simp add: route_at_def)
  then obtain rp where rp: "fmlookup (route_mem s) p = Some rp" "rt_vrf_id rp = vrf_id v" "node_key rp = k'"
    using fib_wf_entry [OF W] by blast
  have dep: "e \<in> set (dep_of s p) \<longleftrightarrow> lpm_of s e = Some p" for e using L by (simp add: links_ok_def)
  have best_in: "\<exists>r. fmlookup (route_mem s) b = Some r \<and> rt_vrf_id r = vrf_id v" if "best_of E v s e = Some b" for e b
  proof -
    from that obtain q where "rb_getexact (sai_route_tree v) q = Some b"
      by (auto simp: best_of_def bind_eq_Some_conv std_radix_getbest_Some)
    then have "route_at s (vrf_id v) q = Some b" using v by (simp add: route_at_def)
    from fib_wf_entry [OF W this] show ?thesis by blast
  qed
  have mem: "(\<exists>r. fmlookup (route_mem s1) a = Some r \<and> rt_vrf_id r = x)
      \<longleftrightarrow> (\<exists>r. fmlookup (route_mem s) a = Some r \<and> rt_vrf_id r = x)" for a x
    using core_route [OF c] core_route [OF c [symmetric]] by metis
  have ir: "in_router v s e" if "e \<in> set (dep_of s p)" for e
    using that dep rp by (auto simp: in_router_def)
  show IR: "in_router v s1 e = in_router v s e" for e
  proof (cases "lpm_of s1 e = lpm_of s e")
    case True
    then show ?thesis using mem unfolding in_router_def by simp
  next
    case False
    then have e: "e \<in> set (dep_of s p)" "lpm_of s1 e = best_of E v s e"
      by (auto simp: l moved_def split: if_splits)
    then obtain b where b: "best_of E v s e = Some b" using ok [OF ir [OF e(1)]] by (auto simp: resolvable_def)
    have "in_router v s1 e" using best_in [OF b] mem e(2) b unfolding in_router_def by auto
    with ir [OF e(1)] show ?thesis by simp
  qed
  show "all_best E v s1 = all_best E v s"
  proof
    fix e show "all_best E v s1 e = all_best E v s e"
      using IR [of e] ir [of e] by (auto simp: all_best_def best_of_cong [OF c] l moved_def split: if_splits)
  qed
  show "stale_below E v P k' s1"
    unfolding stale_below_def
  proof (intro allI impI)
    fix e a r
    assume e: "lpm_of s1 e = Some a" "fmlookup (route_mem s1) a = Some r" "rt_vrf_id r = vrf_id v"
      "best_of E v s1 e \<noteq> Some a"
    have nb: "best_of E v s e \<noteq> Some a" using e(4) by (simp add: best_of_cong [OF c])
    with e(1) have same: "lpm_of s e = Some a" and notmoved: "\<not> (e \<in> set (dep_of s p)
        \<and> (\<exists>n. nh_mem s e = Some n \<and> P (nh_ip_addr n)))"
      by (auto simp: l moved_def split: if_splits)
    from core_route [OF c e(2)] obtain r0 where r0: "fmlookup (route_mem s) a = Some r0"
      "rt_vrf_id r0 = vrf_id v" "node_key r0 = node_key r" using e(3) by metis
    have st: "strict_prefix (node_key r) k" "\<exists>n. nh_mem s e = Some n \<and> P (nh_ip_addr n)"
      using S same r0 nb unfolding stale_below_def by metis+
    have "a \<noteq> p" using notmoved st(2) dep same by auto
    have a_at: "route_at s (vrf_id v) (node_key r) = Some a" using fib_wf_node [OF W r0(1)] r0 by simp
    with at \<open>a \<noteq> p\<close> have "node_key r \<noteq> k'" by auto
    moreover have "prefix (node_key r) k'"
      using k(1) st(1) a_at v unfolding radix_less_specific_Some by (auto simp: route_at_def)
    ultimately show "strict_prefix (node_key r) k' \<and> (\<exists>n. nh_mem s1 e = Some n \<and> P (nh_ip_addr n))"
      using st(2) affected_addr [OF c, of e P] by (simp add: strict_prefix_def)
  qed
qed

lemma walk_effect:
  "resolve_ok E \<Longrightarrow> fib_wf s \<Longrightarrow> rb_getexact (vrf_tree s) (vrf_id v) = Some v \<Longrightarrow> links_ok s \<Longrightarrow>
    stale_below E v P k s \<Longrightarrow> (\<And>e. in_router v s e \<Longrightarrow> resolvable E v s e) \<Longrightarrow>
    less_specific_walk E v P k s w = (s', w') \<Longrightarrow>
    fib_core s' = fib_core s \<and> links_ok s' \<and> lpm_of s' = all_best E v s"
proof (induction E v P k s w rule: less_specific_walk.induct)
  case (1 E v P k s w)
  note R = "1.prems"(1) and W = "1.prems"(2) and v = "1.prems"(3) and L = "1.prems"(4) and S = "1.prems"(5)
    and ok = "1.prems"(6)
  note run = "1.prems"(7) [unfolded less_specific_walk.simps [of E v P k s w]]
  show ?case
  proof (cases "radix_less_specific_key (sai_route_tree v) k")
    case None
    have "lpm_of s e = all_best E v s e" for e
    proof (rule ccontr)
      assume ne: "lpm_of s e \<noteq> all_best E v s e"
      then have "in_router v s e" by (auto simp: all_best_def split: if_splits)
      then obtain a r where a: "lpm_of s e = Some a" "fmlookup (route_mem s) a = Some r" "rt_vrf_id r = vrf_id v"
        unfolding in_router_def by blast
      then have "best_of E v s e \<noteq> Some a" using ne \<open>in_router v s e\<close> by (simp add: all_best_def)
      with S a have "strict_prefix (node_key r) k" unfolding stale_below_def by blast
      moreover have "route_at s (vrf_id v) (node_key r) = Some a" using fib_wf_node [OF W a(2)] a(3) by simp
      ultimately show False using None v by (auto simp: radix_less_specific_None route_at_def)
    qed
    with run None L show ?thesis by (auto simp: fun_eq_iff)
  next
    case (Some k')
    then obtain p where p: "rb_getexact (sai_route_tree v) k' = Some p"
      by (auto simp: radix_less_specific_Some)
    then have "route_at s (vrf_id v) k' = Some p" using v by (simp add: route_at_def)
    then obtain rp where rp: "fmlookup (route_mem s) p = Some rp" "rt_vrf_id rp = vrf_id v"
      using fib_wf_entry [OF W] by blast
    have dep: "dep_of s p = rt_dep_encap_nh_list rp" using rp by (simp add: dep_of_def)
    obtain s1 w1 where lp: "resolve_loop E v P (rt_dep_encap_nh_list rp) s w = (s1, w1)" by (metis surj_pair)
    have res: "\<forall>e\<in>set (dep_of s p). resolvable E v s e"
    proof
      fix e assume "e \<in> set (dep_of s p)"
      then have "lpm_of s e = Some p" using L by (simp add: links_ok_def)
      with rp have "in_router v s e" by (auto simp: in_router_def)
      then show "resolvable E v s e" by (rule ok)
    qed
    from resolve_loop_effect [OF R L res [unfolded dep] lp]
    have s1: "fib_core s1 = fib_core s" "links_ok s1" "lpm_of s1 = moved E v P s (set (dep_of s p))"
      by (simp_all add: dep)
    note st = walk_step_links [OF W v L Some p S s1(1,3) ok]
    have run1: "less_specific_walk E v P k' s1 w1 = (s', w')"
      using run Some p rp(1) lp by simp
    have W1: "fib_wf s1" using W fib_wf_core s1(1) by metis
    have v1: "rb_getexact (vrf_tree s1) (vrf_id v) = Some v" using v fib_coreD(1) [OF s1(1)] by simp
    have ok1: "resolvable E v s1 e" if "in_router v s1 e" for e
      using ok [of e] that st(3) resolvable_cong [OF s1(1), of E v e] by simp
    have b: "Option.bind (rb_getexact (sai_route_tree v) k') (fmlookup (route_mem s)) = Some rp"
      using p rp(1) by simp
    from "1.IH" [OF Some b lp [symmetric] refl R W1 v1 s1(2) st(1) ok1 run1]
    show ?thesis using st(2) s1(1) by simp
  qed
qed

end
