(* ===== verification/Fib_Lpm_Calls.thy ===== *)
theory Fib_Lpm_Calls
  imports Fib_Lpm
begin

text \<open>
  The route calls keep every encap next hop resolved over the best match of its address.
\<close>

section \<open>The invariant\<close>

definition known_family :: "sai_ip_address_t \<Rightarrow> bool" where
  "known_family a \<longleftrightarrow> addr_family a = SAI_IP_ADDR_FAMILY_IPV4 \<or> addr_family a = SAI_IP_ADDR_FAMILY_IPV6"

text \<open>The next hop \<open>e\<close> is resolved over the route at \<open>a\<close>, and that is the longest prefix of its
  address in the route tree of the route's virtual router.\<close>

definition best_match :: "('w, 'z) fib_env_scheme \<Rightarrow> fib_state \<Rightarrow> addr \<Rightarrow> addr \<Rightarrow> bool" where
  "best_match E s e a \<longleftrightarrow> (\<exists>n r v. nh_mem s e = Some n \<and> known_family (nh_ip_addr n)
     \<and> fmlookup (route_mem s) a = Some r \<and> rb_getexact (vrf_tree s) (rt_vrf_id r) = Some v
     \<and> std_radix_getbest (sai_route_tree v) (encap_key E n) = Some a)"

definition members_ok :: "fib_state \<Rightarrow> bool" where
  "members_ok s \<longleftrightarrow> (\<forall>g grp. grp_mem s g = Some grp \<longrightarrow> (\<forall>u\<in>set (grp_nh_list grp). nh_mem s u \<noteq> None))"

definition zero_prefixes :: "('w, 'z) fib_env_scheme \<Rightarrow> fib_state \<Rightarrow> bool" where
  "zero_prefixes E s \<longleftrightarrow> (\<forall>a r. fmlookup (route_mem s) a = Some r \<longrightarrow> prefix_len r = 0 \<longrightarrow>
     sai_fib_is_ip_addr_zero E (rt_prefix r))"

definition lpm_ok :: "('w, 'z) fib_env_scheme \<Rightarrow> fib_state \<Rightarrow> bool" where
  "lpm_ok E s \<longleftrightarrow> links_ok s \<and> (\<forall>e a. lpm_of s e = Some a \<longrightarrow> best_match E s e a)
     \<and> members_ok s \<and> zero_prefixes E s"

text \<open>The address is in the prefix when the bits of the prefix are the first bits of the address.\<close>

definition prefix_law :: "('w, 'z) fib_env_scheme \<Rightarrow> bool" where
  "prefix_law E \<longleftrightarrow> (\<forall>p len a. known_family p \<longrightarrow> known_family a \<longrightarrow>
     prefix (ip_key p (sai_fib_route_key_len_get len))
       (ip_key a (sai_fib_route_key_len_get (sai_fib_ip_addr_family_len_get E a))) \<longrightarrow>
     sai_fib_is_ip_addr_in_prefix E p (sai_fib_ip_prefix_mask_get E p len) a)"

definition encap_laws :: "('w, 'z) fib_env_scheme \<Rightarrow> bool" where
  "encap_laws E \<longleftrightarrow> resolve_ok E \<and> prefix_law E"

lemma core_route_defined:
  "fib_core s' = fib_core s \<Longrightarrow> fmlookup (route_mem s) a = Some r \<Longrightarrow>
     \<exists>r'. fmlookup (route_mem s') a = Some r' \<and> rt_vrf_id r' = rt_vrf_id r \<and> node_key r' = node_key r
       \<and> rt_prefix r' = rt_prefix r \<and> prefix_len r' = prefix_len r"
  using core_route [of s s' a r] by metis

text \<open>\<open>place_same\<close>: the routes are at the same places, next hops and groups are allocated as before.\<close>

definition place_same :: "fib_state \<Rightarrow> fib_state \<Rightarrow> bool" where
  "place_same s s' \<longleftrightarrow> (\<forall>a. map_option (\<lambda>r. (rt_vrf_id r, rt_prefix r, prefix_len r)) (fmlookup (route_mem s') a)
       = map_option (\<lambda>r. (rt_vrf_id r, rt_prefix r, prefix_len r)) (fmlookup (route_mem s) a))"

definition nhs_same :: "fib_state \<Rightarrow> fib_state \<Rightarrow> bool" where
  "nhs_same s s' \<longleftrightarrow> (\<forall>e. map_option nh_ip_addr (nh_mem s' e) = map_option nh_ip_addr (nh_mem s e))
     \<and> (\<forall>g. map_option grp_nh_list (grp_mem s' g) = map_option grp_nh_list (grp_mem s g))"

lemma nhs_same_trans: "nhs_same s t \<Longrightarrow> nhs_same t u \<Longrightarrow> nhs_same s u"
  by (simp add: nhs_same_def)

lemma nhs_core: "fib_core s' = fib_core s \<Longrightarrow> nhs_same s s'"
proof -
  assume c: "fib_core s' = fib_core s"
  have "map_option nh_ip_addr (nh_mem (fib_core t) e) = map_option nh_ip_addr (nh_mem t e)"
    "map_option grp_nh_list (grp_mem (fib_core t) g) = map_option grp_nh_list (grp_mem t g)" for t e g
    by (simp_all add: option.map_comp comp_def)
  from this [of s'] this [of s] c show ?thesis by (simp add: nhs_same_def del: fib_core_sel)
qed

lemma place_core: "fib_core s' = fib_core s \<Longrightarrow> place_same s s'"
proof -
  assume c: "fib_core s' = fib_core s"
  have "map_option (\<lambda>r. (rt_vrf_id r, rt_prefix r, prefix_len r)) (fmlookup (route_mem (fib_core t)) a)
      = map_option (\<lambda>r. (rt_vrf_id r, rt_prefix r, prefix_len r)) (fmlookup (route_mem t) a)" for t a
    by (simp add: option.map_comp comp_def)
  from this [of s'] this [of s] c show ?thesis by (simp add: place_same_def del: fib_core_sel)
qed

lemma place_same_trans: "place_same s t \<Longrightarrow> place_same t u \<Longrightarrow> place_same s u"
  by (simp add: place_same_def)

lemma nhs_ref: "nhs_same s (ref_incr t s)" "nhs_same s (ref_decr t s)"
  by (auto simp: nhs_same_def ref_incr_def ref_decr_def nh_write_def grp_write_def fib_crash_def
      sai_fib_incr_nh_ref_count_def sai_fib_decr_nh_ref_count_def
      grp_nh_list_def sai_fib_incr_nh_group_ref_count_def sai_fib_decr_nh_group_ref_count_def
      split: route_target.split option.split)

lemma nhs_defined: "nhs_same s s' \<Longrightarrow> nh_mem s' u = None \<longleftrightarrow> nh_mem s u = None"
  unfolding nhs_same_def by (metis map_option_is_None)

lemma members_same: "nhs_same s s' \<Longrightarrow> members_ok s \<Longrightarrow> members_ok s'"
proof -
  assume N: "nhs_same s s'" and M: "members_ok s"
  show "members_ok s'"
    unfolding members_ok_def
  proof (intro allI impI ballI)
    fix g grp u assume g: "grp_mem s' g = Some grp" "u \<in> set (grp_nh_list grp)"
    then have "map_option grp_nh_list (grp_mem s g) = Some (grp_nh_list grp)"
      using spec [OF conjunct2 [OF N [unfolded nhs_same_def]], of g] by simp
    then obtain grp0 where "grp_mem s g = Some grp0" "grp_nh_list grp0 = grp_nh_list grp" by auto
    with M g(2) have "nh_mem s u \<noteq> None" unfolding members_ok_def by metis
    then show "nh_mem s' u \<noteq> None" using nhs_defined [OF N] by simp
  qed
qed

lemma zero_same: "place_same s s' \<Longrightarrow> zero_prefixes E s \<Longrightarrow> zero_prefixes E s'"
proof -
  assume P: "place_same s s'" and Z: "zero_prefixes E s"
  show "zero_prefixes E s'"
    unfolding zero_prefixes_def
  proof (intro allI impI)
    fix a r assume r: "fmlookup (route_mem s') a = Some r" "prefix_len r = 0"
    then have "map_option (\<lambda>r. (rt_vrf_id r, rt_prefix r, prefix_len r)) (fmlookup (route_mem s) a)
        = Some (rt_vrf_id r, rt_prefix r, prefix_len r)"
      using spec [OF P [unfolded place_same_def], of a] by simp
    then obtain z where z: "fmlookup (route_mem s) a = Some z" "rt_prefix z = rt_prefix r" "prefix_len z = 0"
      using r(2) by auto
    show "sai_fib_is_ip_addr_zero E (rt_prefix r)"
      using Z [unfolded zero_prefixes_def, rule_format, OF z(1,3)] z(2) by simp
  qed
qed

lemma nhs_same_nh:
  assumes "nhs_same s s'" and "nh_mem s e = Some n"
  obtains n' where "nh_mem s' e = Some n'" "nh_ip_addr n' = nh_ip_addr n"
proof -
  have "map_option nh_ip_addr (nh_mem s' e) = Some (nh_ip_addr n)"
    using assms unfolding nhs_same_def by simp
  with that show thesis by auto
qed

lemma place_same_route:
  assumes "place_same s s'" and "fmlookup (route_mem s) a = Some r"
  obtains r' where "fmlookup (route_mem s') a = Some r'" "rt_vrf_id r' = rt_vrf_id r"
proof -
  have "map_option (\<lambda>r. (rt_vrf_id r, rt_prefix r, prefix_len r)) (fmlookup (route_mem s') a)
      = Some (rt_vrf_id r, rt_prefix r, prefix_len r)"
    using assms unfolding place_same_def by simp
  with that show thesis by auto
qed

lemma best_same:
  assumes "place_same s s'" and "nhs_same s s'" and "vrf_tree s' = vrf_tree s" and "best_match E s e a"
  shows "best_match E s' e a"
proof -
  from assms(4) obtain n r v where b: "nh_mem s e = Some n" "known_family (nh_ip_addr n)"
     "fmlookup (route_mem s) a = Some r" "rb_getexact (vrf_tree s) (rt_vrf_id r) = Some v"
     "std_radix_getbest (sai_route_tree v) (encap_key E n) = Some a" unfolding best_match_def by blast
  obtain n' where n': "nh_mem s' e = Some n'" "nh_ip_addr n' = nh_ip_addr n"
    by (rule nhs_same_nh [OF assms(2) b(1)])
  obtain r' where r': "fmlookup (route_mem s') a = Some r'" "rt_vrf_id r' = rt_vrf_id r"
    by (rule place_same_route [OF assms(1) b(3)])
  have "encap_key E n' = encap_key E n" by (simp add: encap_key_def n')
  with b n' r' assms(3) show ?thesis unfolding best_match_def by auto
qed

lemma lpm_ok_same:
  assumes "lpm_ok E s" and "links s' = links s" and "vrf_tree s' = vrf_tree s"
    and P: "place_same s s'" and N: "nhs_same s s'"
  shows "lpm_ok E s'"
  using assms(1) members_same [OF N] zero_same [OF P, of E] best_same [OF P N assms(3), of E] links_ok_cong [OF assms(2)]
    assms(2)
  by (auto simp: lpm_ok_def links_eq)

lemma lpm_ok_core:
  assumes "lpm_ok E s" and "links s' = links s" and c: "fib_core s' = fib_core s"
  shows "lpm_ok E s'"
  by (rule lpm_ok_same [OF assms(1,2) fib_coreD(1) [OF c] place_core [OF c] nhs_core [OF c]])

section \<open>Default entries and default nodes\<close>

lemma entry_len:
  assumes "node_key r = route_entry_key E en"
  shows "prefix_len r = 0 \<longleftrightarrow> snd (sai_fib_route_entry_ip_prefix_fill E en) = 0"
proof -
  obtain ip len where f: "sai_fib_route_entry_ip_prefix_fill E en = (ip, len)" by (metis surj_pair)
  have l: "length (addr_bits x) = 128" for x by (simp add: addr_bits_def split: sai_ip_addr_family_t.split)
  have "length (node_key r) = length (route_entry_key E en)" using assms by simp
  then show ?thesis
    by (auto simp: node_key_def route_entry_key_def f ip_key_def sai_fib_route_key_len_get_def l min_def
        split: if_splits)
qed

lemma default_entry_len:
  "canonical_entry E en \<Longrightarrow>
     sai_fib_is_default_route_entry E en \<longleftrightarrow> snd (sai_fib_route_entry_ip_prefix_fill E en) = 0"
  by (auto simp: canonical_entry_def sai_fib_is_default_route_entry_def split_beta)

lemma default_node_iff:
  assumes "zero_prefixes E s" and "fmlookup (route_mem s) a = Some r" and "node_key r = route_entry_key E en"
    and "canonical_entry E en"
  shows "sai_fib_is_default_route_node E r \<longleftrightarrow> sai_fib_is_default_route_entry E en"
  using assms(1,2) entry_len [OF assms(3)] default_entry_len [OF assms(4)]
  by (auto simp: sai_fib_is_default_route_node_def zero_prefixes_def)

text \<open>On a default node the update of encap next hops changes no link.\<close>

lemma affected_default_links:
  assumes "fmlookup (route_mem s) a = Some r" and "sai_fib_is_default_route_node E r"
  shows "links (fst (sai_fib_route_affected_encap_nh_update E a op_code s w)) = links s"
  using assms by (simp add: sai_fib_route_affected_encap_nh_update_def link_simps)

lemma place_same_with:
  "fmlookup (route_mem s) a = Some r \<Longrightarrow> rt_vrf_id r' = rt_vrf_id r \<Longrightarrow> rt_prefix r' = rt_prefix r \<Longrightarrow>
     prefix_len r' = prefix_len r \<Longrightarrow> place_same s (with_route a r' s)"
  by (auto simp: place_same_def)

lemma nhs_mem: "nh_mem s' = nh_mem s \<Longrightarrow> grp_mem s' = grp_mem s \<Longrightarrow> nhs_same s s'"
  by (simp add: nhs_same_def)

lemma place_mem: "route_mem s' = route_mem s \<Longrightarrow> place_same s s'"
  by (simp add: place_same_def)

section \<open>Calls that leave the links alone\<close>

text \<open>A call that rewrites a node in its place and moves a reference.\<close>

lemma lpm_ok_write:
  assumes L: "lpm_ok E s" and r: "fmlookup (route_mem s) a = Some r"
    and r': "rt_vrf_id r' = rt_vrf_id r" "rt_prefix r' = rt_prefix r" "prefix_len r' = prefix_len r"
    and core: "fib_core s' = fib_core t" and t: "route_mem t = route_mem (with_route a r' s)"
      "vrf_tree t = vrf_tree s" "nhs_same (with_route a r' s) t"
    and links: "links s' = links s"
  shows "lpm_ok E s'"
proof (rule lpm_ok_same [OF L links])
  show "vrf_tree s' = vrf_tree s" using fib_coreD(1) [OF core] t(2) by simp
  show "place_same s s'"
    using place_same_trans [OF place_same_trans [OF place_same_with [OF r r'] place_mem [OF t(1)]] place_core [OF core]] .
  have "nhs_same s (with_route a r' s)" by (rule nhs_mem) simp_all
  then show "nhs_same s s'" using nhs_same_trans [OF nhs_same_trans [OF _ t(3)] nhs_core [OF core]] by blast
qed

lemma nhs_refs: "nhs_same s s" "nhs_same s (ref_incr t (ref_decr t' s))"
  using nhs_same_trans [OF nhs_ref(2) nhs_ref(1)] by (simp_all add: nhs_same_def)

lemma set_lpm:
  assumes run: "sai_fib_route_attribute_set E en attr s w = (rc, s', w')" and W: "fib_wf s" and L: "lpm_ok E s"
  shows "lpm_ok E s'"
  using run W
proof (cases rule: route_set_effect)
  case failed
  show ?thesis by (rule lpm_ok_core [OF L failed(3,2)])
next
  case (updated a r new hw w1)
  have "same_place r new" by (rule parse_place [OF updated(4)])
  then show ?thesis
    by (intro lpm_ok_write [OF L updated(3) _ _ _ updated(6) _ _ _ updated(7)])
      (auto simp: same_place_def nhs_refs)
qed

lemma lpm_wf_default:
  assumes "lpm_ok E s" and "fib_wf s" and "route_at s vr (route_entry_key E en) = Some a"
    and "fmlookup (route_mem s) a = Some r" and "canonical_entry E en" "sai_fib_is_default_route_entry E en"
  shows "sai_fib_is_default_route_node E r"
  using default_node_iff [OF _ assms(4) _ assms(5)] assms(1,4,6) fib_wf_entry [OF assms(2,3)]
  by (auto simp: lpm_ok_def)

lemma default_node_place:
  "rt_prefix r' = rt_prefix r \<Longrightarrow> prefix_len r' = prefix_len r \<Longrightarrow>
     sai_fib_is_default_route_node E r' = sai_fib_is_default_route_node E r"
  by (simp add: sai_fib_is_default_route_node_def)

lemma rewrite_links:
  assumes L: "links_ok s" and r: "fmlookup (route_mem s) a = Some r"
    and d: "sai_fib_is_default_route_node E r'" and dep: "rt_dep_encap_nh_list r' = rt_dep_encap_nh_list r"
  shows "links (fst (sai_fib_route_affected_encap_nh_update E a op_code (sai_fib_lock (with_route a r' s)) w)) = links s"
proof -
  have "fmlookup (route_mem (sai_fib_lock (with_route a r' s))) a = Some r'" by simp
  from affected_default_links [OF this d] have "links (fst (sai_fib_route_affected_encap_nh_update E a op_code
      (sai_fib_lock (with_route a r' s)) w)) = links (with_route a r' s)" by simp
  also have "\<dots> = links s" using r dep by (simp add: links_eq fun_eq_iff) (simp add: dep_of_def)
  finally show ?thesis .
qed

section \<open>Creation\<close>

lemma lpm_ok_via:
  assumes core: "fib_core s' = fib_core u" and u: "route_mem u = route_mem t" "vrf_tree u = vrf_tree t" "nhs_same t u"
    and t: "members_ok t" "zero_prefixes E t" and links: "links_ok s'"
    and best: "\<And>e a. lpm_of s' e = Some a \<Longrightarrow> best_match E t e a"
  shows "lpm_ok E s'"
proof -
  have P: "place_same t s'" using place_same_trans [OF place_mem [OF u(1)] place_core [OF core]] .
  have N: "nhs_same t s'" using nhs_same_trans [OF u(3) nhs_core [OF core]] .
  have V: "vrf_tree s' = vrf_tree t" using fib_coreD(1) [OF core] u(2) by simp
  show ?thesis
    using links members_same [OF N t(1)] zero_same [OF P t(2)] best_same [OF P N V, of E] best
    by (auto simp: lpm_ok_def)
qed

lemma target_ok_counted:
  assumes "members_ok s" and "target_of r \<noteq> No_Target \<Longrightarrow> count_of s (target_of r) \<noteq> None"
  shows "target_ok s r"
proof (cases "nh_type r")
  case ROUTE_NH_TYPE_NEXT_HOP
  then have "target_of r = Target_Next_Hop (nh_info r)" by (simp add: target_of_def)
  with assms(2) have "count_of s (Target_Next_Hop (nh_info r)) \<noteq> None" by simp
  with ROUTE_NH_TYPE_NEXT_HOP show ?thesis
    by (cases "nh_info r") (auto simp: target_ok_def count_of_def)
next
  case ROUTE_NH_TYPE_NEXT_HOP_GROUP
  then have "target_of r = Target_Group (nh_info r)" by (simp add: target_of_def)
  with assms(2) have "count_of s (Target_Group (nh_info r)) \<noteq> None" by simp
  then obtain g grp where g: "nh_info r = Some g" "grp_mem s g = Some grp"
    by (cases "nh_info r") (auto simp: count_of_def)
  with assms(1) have "\<forall>u\<in>set (grp_nh_list grp). nh_mem s u \<noteq> None" unfolding members_ok_def by blast
  with g ROUTE_NH_TYPE_NEXT_HOP_GROUP show ?thesis by (auto simp: target_ok_def)
qed (simp add: target_ok_def)

lemma wf_lock [simp]: "fib_wf (sai_fib_lock s) = fib_wf s"
  by (simp add: fib_wf_def)

lemma create_family:
  "sai_fib_route_create E en attrs s w = (SAI_STATUS_SUCCESS, s', w') \<Longrightarrow>
     pfx_addr_family (destination en) = SAI_IP_ADDR_FAMILY_IPV4
   \<or> pfx_addr_family (destination en) = SAI_IP_ADDR_FAMILY_IPV6"
  by (auto simp: sai_fib_route_create_def sai_fib_route_input_params_validate_def
      sai_fib_uc_route_entry_validate_def Let_def split: if_splits)

lemma filled_family:
  "addr_family (fst (sai_fib_route_entry_ip_prefix_fill E en)) = pfx_addr_family (destination en)"
  by (simp add: sai_fib_route_entry_ip_prefix_fill_def Let_def split: sai_ip_addr_family_t.split)

text \<open>With the default routes in place a route that is inserted has a proper prefix.\<close>

lemma created_not_default:
  assumes "pfx_addr_family (destination en) = SAI_IP_ADDR_FAMILY_IPV4
      \<or> pfx_addr_family (destination en) = SAI_IP_ADDR_FAMILY_IPV6"
    and D: "defaults_present s" and v: "rb_getexact (vrf_tree s) (vr_id en) = Some v"
    and new: "route_at s (vr_id en) (route_entry_key E en) = None"
  shows "snd (sai_fib_route_entry_ip_prefix_fill E en) \<noteq> 0"
proof
  assume z: "snd (sai_fib_route_entry_ip_prefix_fill E en) = 0"
  have "route_entry_key E en = default_key (pfx_addr_family (destination en))"
    using z by (simp add: route_entry_key_def split_beta ip_key_def sai_fib_route_key_len_get_def default_key_def
        filled_family)
  then have "is_default_key (route_entry_key E en)" using assms(1) by (auto simp: is_default_key_def)
  with D v new show False unfolding defaults_present_def by blast
qed

text \<open>The route table after an insertion: where the best match of a next hop moves to.\<close>

lemma best_after_insert:
  assumes W: "fib_wf s" and v: "rb_getexact (vrf_tree s) vr = Some v"
    and new: "route_at s vr q = None" and a: "fmlookup (route_mem s) a = None"
    and b: "best_match E s e a0" and r0: "fmlookup (route_mem s) a0 = Some r0" "rt_vrf_id r0 = vr"
    and vt: "sai_route_tree vt = rb_put (sai_route_tree v) q a" and t: "nh_mem t = nh_mem s"
  shows "\<exists>n. nh_mem s e = Some n \<and> known_family (nh_ip_addr n) \<and>
    (if prefix q (encap_key E n) \<and> strict_prefix (node_key r0) q then best_of E vt t e = Some a
     else best_of E vt t e = Some a0)"
proof -
  from b r0 v obtain n where n: "nh_mem s e = Some n" "known_family (nh_ip_addr n)"
    "std_radix_getbest (sai_route_tree v) (encap_key E n) = Some a0"
    unfolding best_match_def by auto
  then obtain p where p: "radix_best_key (sai_route_tree v) (encap_key E n) = Some p"
    "rb_getexact (sai_route_tree v) p = Some a0" by (auto simp: std_radix_getbest_Some)
  have at: "route_at s vr p = Some a0" using p(2) v by (simp add: route_at_def)
  with fib_wf_entry [OF W at] r0 have key: "node_key r0 = p" by auto
  have pq: "p \<noteq> q" using at new by auto
  have h: "sai_route_tree v \<noteq> None" using fib_wf_vrf [OF W v] by simp
  have "best_of E vt t e = (if prefix q (encap_key E n) \<and> prefix p q then Some a else Some a0)"
    using radix_best_key_put [OF h p(1), of q a] p(2) pq h n(1)
    by (simp add: best_of_def t vt std_radix_getbest_def)
  with n key pq show ?thesis by (auto simp: strict_prefix_def)
qed

lemma created_target:
  assumes "ids_ok s" and "sai_fib_route_attributes_parse E s w attrs (sai_fib_route_node_init E en) = (rc, r)"
    and "target_of r \<noteq> No_Target"
  shows "count_of s (target_of r) \<noteq> None"
proof -
  have "target_of (sai_fib_route_node_init E en) = No_Target"
    by (simp add: sai_fib_route_node_init_def split_beta target_of_def)
  with parse_target [OF assms(2)] assms(3) named_allocated [OF assms(1)] show ?thesis by metis
qed

lemma lock_same:
  "best_of E v (sai_fib_lock s) e = best_of E v s e" "resolvable E v (sai_fib_lock s) e = resolvable E v s e"
  "in_router v (sai_fib_lock s) e = in_router v s e"
  "stale_below E v P k (sai_fib_lock s) = stale_below E v P k s"
  by (simp_all add: best_of_def resolvable_def target_ok_def in_router_def stale_below_def)

lemma walk_lock:
  assumes "resolve_ok E" and "fib_wf t" and "rb_getexact (vrf_tree t) (vrf_id u) = Some u" and "links t = links s"
    and "stale_below E u P k t" and ok: "\<And>e. in_router u t e \<Longrightarrow> resolvable E u t e" and L: "links_ok s"
    and run: "less_specific_walk E u P k (sai_fib_lock t) w = (s1, w1)"
  shows "links_ok s1 \<and> lpm_of s1 = all_best E u t"
proof -
  have "links_ok (sai_fib_lock t)" using L assms(4) by (simp add: links_ok_def links_eq)
  from walk_effect [OF assms(1) _ _ this _ _ run] assms(2,3,5) ok
  have "links_ok s1 \<and> lpm_of s1 = all_best E u (sai_fib_lock t)" by (simp add: lock_same)
  then show ?thesis by (simp add: all_best_def fun_eq_iff lock_same)
qed

text \<open>The state right after the insertion of a node \<open>r\<close>: the walk can start, and where it leads to is
  the best match.\<close>

lemma insert_ready:
  assumes W: "fib_wf s" and v: "rb_getexact (vrf_tree s) vr = Some v" and new: "route_at s vr (node_key r) = None"
    and a: "fmlookup (route_mem s) a = None" and r: "rt_vrf_id r = vr" "rt_dep_encap_nh_list r = []"
    and L: "lpm_ok E s" and PL: "prefix_law E" and KF: "known_family (rt_prefix r)"
    and T: "\<And>b x. fmlookup (route_mem (with_new_route vr a r s)) b = Some x \<Longrightarrow> target_ok (with_new_route vr a r s) x"
  defines "t \<equiv> with_new_route vr a r s"
    and "u \<equiv> v\<lparr>sai_route_tree := rb_put (sai_route_tree v) (node_key r) a\<rparr>"
  shows "fib_wf t" "rb_getexact (vrf_tree t) (vrf_id u) = Some u" "vrf_id u = vr" "links t = links s"
    "stale_below E u (sai_fib_is_ip_addr_in_prefix E (rt_prefix r)
        (sai_fib_ip_prefix_mask_get E (rt_prefix r) (prefix_len r))) (node_key r) t"
    "\<And>e. in_router u t e \<Longrightarrow> resolvable E u t e"
    "\<And>e x. all_best E u t e = Some x \<Longrightarrow> best_match E t e x"
proof -
  have id: "vrf_id v = vr" using fib_wf_vrf [OF W v] by simp
  have tree: "sai_route_tree v \<noteq> None" "vrf_tree s \<noteq> None"
    using fib_wf_vrf [OF W v] rb_getexact_SomeD [OF v] by auto
  note mem = with_new_route_mem [OF v, of a r, folded t_def]
  have nh: "nh_mem t = nh_mem s" and lpm: "lpm_of t = lpm_of s"
    using v by (simp_all add: t_def with_new_route_def lpm_of_def fun_eq_iff)
  show u: "vrf_id u = vr" using id by (simp add: u_def)
  show ut: "rb_getexact (vrf_tree t) (vrf_id u) = Some u"
    using v tree by (simp add: u t_def with_new_route_def) (simp add: u_def)
  show wf: "fib_wf t" unfolding t_def by (rule fib_wf_new [OF W v new a r(1)])
  have "dep_of s a = []" using a by (simp add: dep_of_def)
  then show "links t = links s"
    unfolding t_def links_with_new [OF v] using r(2) by (simp add: links_eq fun_eq_iff)
  have LO: "links_ok s" and BM: "\<And>e x. lpm_of s e = Some x \<Longrightarrow> best_match E s e x"
    using L by (auto simp: lpm_ok_def)
  have old: "fmlookup (route_mem s) x = Some y" if "lpm_of s e = Some x" "fmlookup (route_mem t) x = Some y" for e x y
  proof -
    from BM [OF that(1)] obtain z where "fmlookup (route_mem s) x = Some z" unfolding best_match_def by blast
    with a have "x \<noteq> a" by auto
    with that(2) show ?thesis by (simp add: mem)
  qed
  have ut': "sai_route_tree u = rb_put (sai_route_tree v) (node_key r) a" by (simp add: u_def)
  have moves: "\<exists>n. nh_mem s e = Some n \<and> known_family (nh_ip_addr n) \<and>
    (if prefix (node_key r) (encap_key E n) \<and> strict_prefix (node_key y) (node_key r) then best_of E u t e = Some a
     else best_of E u t e = Some x)"
    if "lpm_of t e = Some x" "fmlookup (route_mem t) x = Some y" "rt_vrf_id y = vr" for e x y
    by (rule best_after_insert [OF W v new a BM [OF that(1) [unfolded lpm]]
        old [OF that(1) [unfolded lpm] that(2)] that(3) ut' nh])
  show "stale_below E u (sai_fib_is_ip_addr_in_prefix E (rt_prefix r)
        (sai_fib_ip_prefix_mask_get E (rt_prefix r) (prefix_len r))) (node_key r) t"
    unfolding stale_below_def u
  proof (intro allI impI)
    fix e x y assume e: "lpm_of t e = Some x" "fmlookup (route_mem t) x = Some y" "rt_vrf_id y = vr"
      "best_of E u t e \<noteq> Some x"
    from moves [OF e(1-3)] e(4) obtain n where n: "nh_mem s e = Some n" "known_family (nh_ip_addr n)"
      "prefix (node_key r) (encap_key E n)" "strict_prefix (node_key y) (node_key r)" by (auto split: if_splits)
    then have "sai_fib_is_ip_addr_in_prefix E (rt_prefix r)
        (sai_fib_ip_prefix_mask_get E (rt_prefix r) (prefix_len r)) (nh_ip_addr n)"
      using PL KF unfolding prefix_law_def node_key_def encap_key_def by blast
    with n nh show "strict_prefix (node_key y) (node_key r) \<and> (\<exists>n. nh_mem t e = Some n
        \<and> sai_fib_is_ip_addr_in_prefix E (rt_prefix r)
            (sai_fib_ip_prefix_mask_get E (rt_prefix r) (prefix_len r)) (nh_ip_addr n))" by auto
  qed
  show "resolvable E u t e" if "in_router u t e" for e
  proof -
    from that u obtain x y where x: "lpm_of t e = Some x" "fmlookup (route_mem t) x = Some y" "rt_vrf_id y = vr"
      unfolding in_router_def by auto
    have "best_of E u t e = Some a \<or> best_of E u t e = Some x" using moves [OF x] by (auto split: if_splits)
    moreover have "fmlookup (route_mem t) a = Some r" by (simp add: mem)
    ultimately show ?thesis
      using x(2) T [folded t_def] unfolding resolvable_def by blast
  qed
  show "best_match E t e x" if "all_best E u t e = Some x" for e x
  proof (cases "in_router u t e")
    case True
    then obtain z y where z: "lpm_of t e = Some z" "fmlookup (route_mem t) z = Some y" "rt_vrf_id y = vr"
      unfolding in_router_def u by auto
    from moves [OF z] obtain n where n: "nh_mem s e = Some n" "known_family (nh_ip_addr n)" by blast
    have best: "std_radix_getbest (sai_route_tree u) (encap_key E n) = Some x"
      using that True n nh by (simp add: all_best_def best_of_def)
    then obtain q where "rb_getexact (sai_route_tree u) q = Some x" by (auto simp: std_radix_getbest_Some)
    then have "route_at t vr q = Some x" using ut u by (simp add: route_at_def)
    then obtain rx where "fmlookup (route_mem t) x = Some rx" "rt_vrf_id rx = vr" using fib_wf_entry [OF wf] by blast
    with n nh best ut u show ?thesis unfolding best_match_def by auto
  next
    case False
    then have lx: "lpm_of s e = Some x" using that by (simp add: all_best_def lpm)
    from BM [OF lx] obtain n y w where b: "nh_mem s e = Some n" "known_family (nh_ip_addr n)"
      "fmlookup (route_mem s) x = Some y" "rb_getexact (vrf_tree s) (rt_vrf_id y) = Some w"
      "std_radix_getbest (sai_route_tree w) (encap_key E n) = Some x" unfolding best_match_def by blast
    have xa: "x \<noteq> a" using a b(3) by auto
    then have ym: "fmlookup (route_mem t) x = Some y" using b(3) by (simp add: mem)
    with False lx have "rt_vrf_id y \<noteq> vr" unfolding in_router_def u lpm by auto
    then have "rb_getexact (vrf_tree t) (rt_vrf_id y) = Some w"
      using b(4) v tree by (simp add: t_def with_new_route_def)
    with b nh ym show ?thesis unfolding best_match_def by auto
  qed
qed

lemma create_lpm:
  assumes run: "sai_fib_route_create E en attrs s w = (rc, s', w')" and I: "fib_inv s" and F: "fresh_alloc E"
    and L: "lpm_ok E s" and C: "canonical_entry E en" and D: "defaults_present s" and EL: "encap_laws E"
  shows "lpm_ok E s'"
proof -
  have W: "fib_wf s" and R: "refs_ok s" and ids: "ids_ok s" using I by (auto simp: fib_inv_def)
  have RO: "resolve_ok E" and PL: "prefix_law E" using EL by (auto simp: encap_laws_def)
  have LO: "links_ok s" and BM: "\<And>e a. lpm_of s e = Some a \<Longrightarrow> best_match E s e a"
    and MO: "members_ok s" and ZP: "zero_prefixes E s" using L by (auto simp: lpm_ok_def)
  show ?thesis
    using run W F
  proof (cases rule: route_create_effect)
    case failed
    show ?thesis by (rule lpm_ok_core [OF L failed(3,2)])
  next
    case (taken_over a r0 r hw w1)
    let ?r = "r\<lparr>hw_info := hw\<rparr>"
    have pl: "same_place (r0\<lparr>packet_action := SAI_FIB_ROUTE_DFLT_PKT_ACTION\<rparr>) r"
      by (rule parse_place [OF taken_over(6)])
    have "sai_fib_is_default_route_node E r0"
      by (rule lpm_wf_default [OF L W taken_over(2,4) C taken_over(3)])
    then have dn: "sai_fib_is_default_route_node E ?r"
      using pl by (simp add: sai_fib_is_default_route_node_def same_place_def)
    have "links s' = links s"
      using taken_over(9) rewrite_links [OF LO taken_over(4) dn] pl by (auto simp: same_place_def)
    then show ?thesis
      using pl by (intro lpm_ok_write [OF L taken_over(4) _ _ _ taken_over(8)])
        (auto simp: same_place_def nhs_ref)
  next
    case (created a r hw v w0 w1)
    let ?vr = "vr_id en" and ?r = "r\<lparr>hw_info := hw\<rparr>"
    let ?t = "with_new_route ?vr a ?r s"
    let ?u = "v\<lparr>sai_route_tree := rb_put (sai_route_tree v) (node_key ?r) a\<rparr>"
    have sp: "same_place (sai_fib_route_node_init E en) r" by (rule parse_place [OF created(5)])
    have pl: "node_key ?r = route_entry_key E en" "rt_vrf_id ?r = ?vr" using same_place_key [OF sp] by simp_all
    have dep: "rt_dep_encap_nh_list ?r = []"
      using sp by (simp add: same_place_def sai_fib_route_node_init_def split_beta)
    have new: "route_at s ?vr (node_key ?r) = None" using created(3) pl by simp
    note mem = with_new_route_mem [OF created(2), of a ?r]
    have nh: "nh_mem ?t = nh_mem s" "grp_mem ?t = grp_mem s"
      using created(2) by (simp_all add: with_new_route_def)
    have targets: "target_ok ?t x" if "fmlookup (route_mem ?t) b = Some x" for b x
    proof (rule target_ok_counted)
      show "members_ok ?t" using MO by (simp add: members_ok_def nh)
      assume tx: "target_of x \<noteq> No_Target"
      show "count_of ?t (target_of x) \<noteq> None"
        using that created_target [OF ids created(5)] target_allocated [OF R] tx
        by (auto simp: mem split: if_splits)
    qed
    have fam: "pfx_addr_family (destination en) = SAI_IP_ADDR_FAMILY_IPV4
        \<or> pfx_addr_family (destination en) = SAI_IP_ADDR_FAMILY_IPV6"
      by (rule create_family [OF run [unfolded created(1)]])
    then have kf: "known_family (rt_prefix ?r)"
      using sp by (simp add: known_family_def same_place_def sai_fib_route_node_init_def split_beta filled_family)
    note ready = insert_ready [OF W created(2) new created(4) pl(2) dep L PL kf targets]
    have len: "prefix_len ?r \<noteq> 0"
      using created_not_default [OF fam D created(2,3)] entry_len [OF pl(1)] by simp
    then have nd: "\<not> sai_fib_is_default_route_node E ?r" by (simp add: sai_fib_is_default_route_node_def)
    obtain w2 where ls: "links s' = links (fst (sai_fib_route_affected_encap_nh_update E a SAI_OP_CREATE
           (sai_fib_lock ?t) w2))" using created(8) by blast
    let ?P = "sai_fib_is_ip_addr_in_prefix E (rt_prefix ?r)
        (sai_fib_ip_prefix_mask_get E (rt_prefix ?r) (prefix_len ?r))"
    obtain s1 w3 where walk: "less_specific_walk E ?u ?P (node_key ?r) (sai_fib_lock ?t) w2 = (s1, w3)"
      by (metis surj_pair)
    have ut: "rb_getexact (vrf_tree ?t) ?vr = Some ?u" using ready(2,3) by simp
    have "links s' = links s1"
      using ls nd walk ut pl(2) by (simp add: sai_fib_route_affected_encap_nh_update_def mem
          sai_fib_route_create_affected_encap_nh_update_def node_key_def Let_def)
    moreover from walk_lock [OF RO ready(1,2,4-6) LO walk]
    have "links_ok s1" "lpm_of s1 = all_best E ?u ?t" by simp_all
    ultimately have "links_ok s'" "lpm_of s' = all_best E ?u ?t" by (simp_all add: links_ok_def links_eq)
    moreover have "zero_prefixes E ?t" using ZP len by (auto simp: zero_prefixes_def mem split: if_splits)
    moreover have "members_ok ?t" using MO by (simp add: members_ok_def nh)
    ultimately show ?thesis
      using ready(7) by (intro lpm_ok_via [OF created(7), of ?t]) (simp_all add: nhs_ref)
  qed
qed

section \<open>Removal\<close>

lemma prefix_default_key: "prefix (default_key (addr_family (nh_ip_addr n))) (encap_key E n)"
  by (simp add: encap_key_def ip_key_def sai_fib_route_key_len_get_def default_key_def)

text \<open>Where the best match of a next hop goes when the route at \<open>q\<close> is taken out of the tree.\<close>

lemma best_after_remove:
  assumes W: "fib_wf s" and v: "rb_getexact (vrf_tree s) vr = Some v" and at: "route_at s vr q = Some a"
    and b: "best_match E s e x" and y: "fmlookup (route_mem s) x = Some y" "rt_vrf_id y = vr"
    and u: "sai_route_tree u = rb_remove (sai_route_tree v) q" and t: "nh_mem t = nh_mem s"
    and D: "defaults_present s" and q: "\<not> is_default_key q"
  obtains n b rb where "nh_mem s e = Some n" "known_family (nh_ip_addr n)" "best_of E u t e = Some b" "b \<noteq> a"
    "fmlookup (route_mem s) b = Some rb" "rt_vrf_id rb = vr" "x \<noteq> a \<longrightarrow> b = x"
proof -
  from b y v obtain n where n: "nh_mem s e = Some n" "known_family (nh_ip_addr n)"
    "std_radix_getbest (sai_route_tree v) (encap_key E n) = Some x"
    unfolding best_match_def by auto
  then obtain p where p: "radix_best_key (sai_route_tree v) (encap_key E n) = Some p"
    "rb_getexact (sai_route_tree v) p = Some x" by (auto simp: std_radix_getbest_Some)
  have loc: "\<exists>r. fmlookup (route_mem s) c = Some r \<and> rt_vrf_id r = vr \<and> node_key r = k"
    if "rb_getexact (sai_route_tree v) k = Some c" for k c
    using fib_wf_entry [OF W, of vr k c] that v by (simp add: route_at_def)
  have qa: "rb_getexact (sai_route_tree v) q = Some a" using at v by (simp add: route_at_def)
  have inj: "k = q" if "rb_getexact (sai_route_tree v) k = Some a" for k
    using loc [OF that] loc [OF qa] by auto
  show thesis
  proof (cases "p = q")
    case False
    then have "radix_best_key (sai_route_tree u) (encap_key E n) = Some p"
      unfolding u by (rule radix_best_key_remove [OF p(1)])
    then have "best_of E u t e = Some x" using p(2) False n(1)
      by (auto simp: best_of_def t std_radix_getbest_def u)
    moreover have "x \<noteq> a" using inj p(2) False by auto
    ultimately show thesis using that [OF n(1,2)] y by blast
  next
    case True
    then have xa: "x = a" using p(2) qa by simp
    let ?d = "default_key (addr_family (nh_ip_addr n))"
    have "is_default_key ?d" using n(2) by (auto simp: known_family_def is_default_key_def)
    with D v have d: "rb_getexact (sai_route_tree v) ?d \<noteq> None" "?d \<noteq> q"
      using q unfolding defaults_present_def by (auto simp: route_at_def)
    then have "rb_getexact (sai_route_tree u) ?d \<noteq> None" by (simp add: u del: not_None_eq)
    then have "radix_best_key (sai_route_tree u) (encap_key E n) \<noteq> None"
      using iffD1 [OF radix_best_key_None, rule_format, OF _ prefix_default_key [of n E]] by metis
    then obtain p' where p': "radix_best_key (sai_route_tree u) (encap_key E n) = Some p'" by auto
    then have "rb_getexact (sai_route_tree u) p' \<noteq> None" unfolding radix_best_key_Some by blast
    then obtain b where b: "rb_getexact (sai_route_tree v) p' = Some b" "p' \<noteq> q"
      by (auto simp: u split: if_splits)
    have "best_of E u t e = Some b"
      using p' b n(1) by (simp add: best_of_def t std_radix_getbest_def u)
    moreover have "b \<noteq> a" using inj b by auto
    ultimately show thesis using that [OF n(1,2)] loc [OF b(1)] xa by blast
  qed
qed

text \<open>The state right after the node has left the tree: every dependent can be moved.\<close>

lemma remove_moves:
  assumes W: "fib_wf s" and v: "rb_getexact (vrf_tree s) vr = Some v" and at: "route_at s vr q = Some a"
    and r: "fmlookup (route_mem s) a = Some r" "rt_vrf_id r = vr"
    and L: "lpm_ok E s" and R: "refs_ok s" and D: "defaults_present s" and q: "\<not> is_default_key q"
    and u: "sai_route_tree u = rb_remove (sai_route_tree v) q" and t: "nh_mem t = nh_mem s" "grp_mem t = grp_mem s"
      "\<And>b. b \<noteq> a \<Longrightarrow> fmlookup (route_mem t) b = fmlookup (route_mem s) b"
    and e: "e \<in> set (dep_of s a)"
  obtains n b rb where "nh_mem s e = Some n" "known_family (nh_ip_addr n)" "best_of E u t e = Some b" "b \<noteq> a"
    "fmlookup (route_mem s) b = Some rb" "rt_vrf_id rb = vr" "resolvable E u t e"
proof -
  have "lpm_of s e = Some a" and M: "members_ok s" using L e by (auto simp: lpm_ok_def links_ok_def)
  then have "best_match E s e a" using L by (simp add: lpm_ok_def)
  from W v at this r u t(1) D q obtain n b rb where b: "nh_mem s e = Some n" "known_family (nh_ip_addr n)"
    "best_of E u t e = Some b" "b \<noteq> a" "fmlookup (route_mem s) b = Some rb" "rt_vrf_id rb = vr"
    by (rule best_after_remove) blast
  have "target_ok s rb"
    by (rule target_ok_counted [OF M]) (rule target_allocated [OF R b(5)])
  then have "target_ok t rb" by (simp add: target_ok_def t)
  then have "resolvable E u t e" using b t(3) [OF b(4)] unfolding resolvable_def by auto
  with b that show thesis by blast
qed

text \<open>What the next hops are resolved over after the removal is the best match in the new tree.\<close>

lemma removed_best:
  assumes W: "fib_wf s" and v: "rb_getexact (vrf_tree s) vr = Some v" and at: "route_at s vr q = Some a"
    and r: "fmlookup (route_mem s) a = Some r" "rt_vrf_id r = vr"
    and BM: "\<And>e x. lpm_of s e = Some x \<Longrightarrow> best_match E s e x" and LO: "links_ok s"
    and q: "\<not> is_default_key q" and D: "defaults_present s"
    and u: "u = v\<lparr>sai_route_tree := rb_remove (sai_route_tree v) q\<rparr>" and t: "nh_mem t = nh_mem s"
    and e: "(if e \<in> set (dep_of s a) then best_of E u t e else lpm_of s e) = Some x"
  shows "best_match E (without_route vr a q s) e x"
proof -
  let ?t2 = "without_route vr a q s"
  have u': "sai_route_tree u = rb_remove (sai_route_tree v) q" by (simp add: u)
  obtain z where z: "lpm_of s e = Some z" "e \<in> set (dep_of s a) \<longleftrightarrow> z = a"
    using e LO by (cases "e \<in> set (dep_of s a)") (auto simp: links_ok_def)
  from BM [OF z(1)] obtain n y w where b: "nh_mem s e = Some n" "known_family (nh_ip_addr n)"
     "fmlookup (route_mem s) z = Some y" "rb_getexact (vrf_tree s) (rt_vrf_id y) = Some w"
     "std_radix_getbest (sai_route_tree w) (encap_key E n) = Some z" unfolding best_match_def by blast
  have nh2: "nh_mem ?t2 = nh_mem s" using v by (simp add: without_route_def)
  have tr: "rb_getexact (vrf_tree ?t2) k = (if k = vr then Some u else rb_getexact (vrf_tree s) k)" for k
    using v rb_getexact_SomeD [OF v] by (simp add: without_route_def u)
  show ?thesis
  proof (cases "rt_vrf_id y = vr")
    case False
    then have "z \<noteq> a" using b(3) r by auto
    then have "x = z" using e z by simp
    with b False \<open>z \<noteq> a\<close> show ?thesis
      unfolding best_match_def by (auto simp: nh2 tr without_route_mem [OF v])
  next
    case True
    obtain n' c rc where c: "nh_mem s e = Some n'" "best_of E u t e = Some c" "c \<noteq> a"
      "fmlookup (route_mem s) c = Some rc" "rt_vrf_id rc = vr" "z \<noteq> a \<longrightarrow> c = z"
      by (rule best_after_remove [OF W v at BM [OF z(1)] b(3) True u' t D q]) (rule that)
    have xc: "x = c" using e z c(2,6) by (auto split: if_splits)
    have "std_radix_getbest (sai_route_tree u) (encap_key E n) = Some c"
      using c(2) b(1) by (simp add: best_of_def t)
    with b c(3-5) show ?thesis
      unfolding best_match_def xc by (auto simp: nh2 tr without_route_mem [OF v])
  qed
qed

lemma remove_lpm:
  assumes run: "sai_fib_route_remove E en s w = (rc, s', w')" and I: "fib_inv s"
    and L: "lpm_ok E s" and C: "canonical_entry E en" and D: "defaults_present s" and RO: "resolve_ok E"
  shows "lpm_ok E s'"
proof -
  have W: "fib_wf s" and R: "refs_ok s" using I by (auto simp: fib_inv_def)
  have LO: "links_ok s" and BM: "\<And>e a. lpm_of s e = Some a \<Longrightarrow> best_match E s e a"
    and MO: "members_ok s" and ZP: "zero_prefixes E s" using L by (auto simp: lpm_ok_def)
  show ?thesis
    using run W
  proof (cases rule: route_remove_effect)
    case failed
    show ?thesis by (rule lpm_ok_core [OF L failed(3,2)])
  next
    case (refused a r hw w1)
    have "links s' = links s"
      using refused(3) by (simp add: refused(5) links_eq fun_eq_iff) (simp add: dep_of_def)
    then show ?thesis
      by (intro lpm_ok_write [OF L refused(3), of "r\<lparr>hw_info := hw\<rparr>" s' s'])
        (simp_all add: refused(5) nhs_refs)
  next
    case (reset a r hw)
    let ?d = "r\<lparr>hw_info := hw, packet_action := SAI_PACKET_ACTION_DROP\<rparr>"
    have "sai_fib_is_default_route_node E r"
      by (rule lpm_wf_default [OF L W reset(2,4) C reset(3)])
    then have dn: "sai_fib_is_default_route_node E ?d" by (simp add: sai_fib_is_default_route_node_def)
    have "links s' = links s" using reset(6) rewrite_links [OF LO reset(4) dn] by auto
    then show ?thesis
      by (intro lpm_ok_write [OF L reset(4) _ _ _ reset(5) _ _ nhs_ref(2)]) simp_all
  next
    case (removed a r v)
    let ?vr = "vr_id en" and ?q = "route_entry_key E en"
    let ?u = "v\<lparr>sai_route_tree := rb_remove (sai_route_tree v) ?q\<rparr>" and ?t2 = "without_route ?vr a ?q s"
    have r: "rt_vrf_id r = ?vr" "node_key r = ?q" using fib_wf_entry [OF W removed(3)] removed(5) by auto
    have q: "\<not> is_default_key ?q" using default_key_entry [OF C] removed(4) by blast
    obtain hw w2 s2 where s2: "s2 = fst (sai_fib_route_affected_encap_nh_update E a SAI_OP_REMOVE
             (route_tree_remove ?vr a (with_route a (r\<lparr>hw_info := hw\<rparr>) (sai_fib_lock s))) w2)"
      and l': "lpm_of s' = lpm_of s2" "dep_of s' = (dep_of s2)(a := [])"
      using removed(7) by (auto simp: Let_def)
    let ?r = "r\<lparr>hw_info := hw\<rparr>"
    define t where "t = route_tree_remove ?vr a (with_route a ?r (sai_fib_lock s))"
    have vid: "vrf_id v = ?vr" using fib_wf_vrf [OF W removed(2)] by simp
    have t: "t = vrf_write ?u (with_route a ?r (sai_fib_lock s))"
      using removed(2) r(2) by (simp add: t_def route_tree_remove_def node_key_def)
    have tm: "route_mem t = fmupd a ?r (route_mem s)" "nh_mem t = nh_mem s" "grp_mem t = grp_mem s"
      "rb_getexact (vrf_tree t) ?vr = Some ?u"
      using vid rb_getexact_SomeD [OF removed(2)] by (auto simp: t vrf_write_def)
    have lt: "dep_of t = dep_of s" "lpm_of t = lpm_of s"
      using removed(5) by (simp_all add: dep_of_def lpm_of_def tm fun_eq_iff)
    have nd: "\<not> sai_fib_is_default_route_node E ?r"
      using default_node_iff [OF ZP removed(5) r(2) C] removed(4) by (simp add: sai_fib_is_default_route_node_def)
    have da: "rt_dep_encap_nh_list ?r = dep_of s a" using removed(5) by (simp add: dep_of_def)
    obtain s3 w3 where lp: "resolve_loop E ?u (\<lambda>_. True) (dep_of s a) t w2 = (s3, w3)" by (metis surj_pair)
    have "s2 = s3"
      using s2 nd lp tm r(1) da by (simp add: t_def [symmetric] sai_fib_route_affected_encap_nh_update_def
          sai_fib_route_del_affected_encap_nh_update_def split_beta)
    have ut: "sai_route_tree ?u = rb_remove (sai_route_tree v) ?q" by simp
    have moves: "\<exists>n b. nh_mem s e = Some n \<and> best_of E ?u t e = Some b \<and> b \<noteq> a \<and> resolvable E ?u t e"
      if e: "e \<in> set (dep_of s a)" for e
    proof -
      obtain n b rb where b: "nh_mem s e = Some n" "best_of E ?u t e = Some b" "b \<noteq> a" "resolvable E ?u t e"
        by (rule remove_moves [OF W removed(2,3,5) r(1) L R D q ut tm(2,3) _ e]) (simp add: tm(1), rule that)
      from b show ?thesis by (intro exI [of _ n] exI [of _ b] conjI)
    qed
    have "\<forall>e\<in>set (dep_of s a). resolvable E ?u t e" using moves by blast
    moreover have "links_ok t" using LO by (simp add: links_ok_def lt)
    ultimately have s3: "links_ok s2" "lpm_of s2 = moved E ?u (\<lambda>_. True) t (set (dep_of s a))"
      using resolve_loop_effect [OF RO _ _ lp] \<open>s2 = s3\<close> by auto
    have new: "lpm_of s2 e = (if e \<in> set (dep_of s a) then best_of E ?u t e else lpm_of s e)" for e
      using moves [of e] by (simp add: s3(2) moved_def lt tm)
    have gone: "lpm_of s2 e \<noteq> Some a" for e
    proof (cases "e \<in> set (dep_of s a)")
      case True
      with moves [of e] show ?thesis by (auto simp: new)
    next
      case False
      with LO show ?thesis by (simp add: new links_ok_def)
    qed
    have links: "links_ok s'" using s3(1) gone unfolding links_ok_def l' by auto
    show ?thesis
    proof (rule lpm_ok_via [OF removed(6), of ?t2])
      show "route_mem (ref_decr (target_of r) ?t2) = route_mem ?t2" "vrf_tree (ref_decr (target_of r) ?t2) = vrf_tree ?t2"
        by simp_all
      show "nhs_same ?t2 (ref_decr (target_of r) ?t2)" by (rule nhs_ref)
      show "members_ok ?t2" using MO removed(2) by (simp add: members_ok_def without_route_def)
      show "zero_prefixes E ?t2" using ZP by (auto simp: zero_prefixes_def without_route_mem [OF removed(2)] split: if_splits)
      show "links_ok s'" by (rule links)
      fix e x assume e: "lpm_of s' e = Some x"
      show "best_match E ?t2 e x"
        by (rule removed_best [OF W removed(2,3,5) r(1) BM LO q D refl tm(2) e [unfolded l'(1) new]])
    qed
  qed
qed

section \<open>Any route call\<close>

fun route_call_entry :: "route_call \<Rightarrow> sai_route_entry_t" where
  "route_call_entry (Route_Create en attrs) = en"
| "route_call_entry (Route_Remove en) = en"
| "route_call_entry (Route_Set en attr) = en"

text \<open>A route call keeps the invariant of the encap next hops.\<close>

lemma route_call_lpm:
  assumes run: "run_route_call E c s w = (rc, s', w')" and I: "fib_inv s" and D: "defaults_present s"
    and L: "lpm_ok E s" and F: "fresh_alloc E" and EL: "encap_laws E"
    and C: "canonical_entry E (route_call_entry c)"
  shows "lpm_ok E s'"
proof (cases c)
  case (Route_Create en attrs)
  have "sai_fib_route_create E en attrs s w = (rc, s', w')" "canonical_entry E en"
    using run C Route_Create by (simp_all add: run_route_call_def)
  then show ?thesis by (rule create_lpm [OF _ I F L _ D EL])
next
  case (Route_Remove en)
  have "sai_fib_route_remove E en s w = (rc, s', w')" "canonical_entry E en" "resolve_ok E"
    using run C EL Route_Remove by (simp_all add: run_route_call_def encap_laws_def)
  then show ?thesis by (rule remove_lpm [OF _ I L _ D])
next
  case (Route_Set en attr)
  have W: "fib_wf s" using I by (simp add: fib_inv_def)
  have "sai_fib_route_attribute_set E en attr s w = (rc, s', w')"
    using run Route_Set by (simp add: run_route_call_def)
  then show ?thesis by (rule set_lpm [OF _ W L])
qed

end
