(* ===== verification/Fib_Lpm_Claims.thy ===== *)
theory Fib_Lpm_Claims
  imports Fib_Claims Fib_Lpm_Calls
begin

text \<open>
  The properties of the longest prefix match of encap next hops, with a next hop that is resolved
  over the default route as the concrete case.
\<close>

section \<open>The concrete environment obeys the laws of prefixes\<close>

lemma word_bits_nth: "i < LENGTH('a) \<Longrightarrow> word_bits (x :: 'a::len word) ! i = bit x (LENGTH('a) - 1 - i)"
  by (simp add: word_bits_def rev_nth)

lemma prefix_masked:
  fixes x y :: "'a::len word"
  assumes "take len (word_bits x) = take len (word_bits y)" and "len \<le> LENGTH('a)"
  shows "x AND demo_mask len = y AND demo_mask len"
proof (rule bit_word_eqI)
  fix i assume i: "i < LENGTH('a)"
  show "bit (x AND demo_mask len) i = bit (y AND demo_mask len) i"
  proof (cases "LENGTH('a) - len \<le> i")
    case True
    let ?j = "LENGTH('a) - 1 - i"
    have j: "?j < len" "?j < LENGTH('a)" "LENGTH('a) - 1 - ?j = i" using True i assms(2) by auto
    have "take len (word_bits x) ! ?j = take len (word_bits y) ! ?j" by (simp add: assms(1))
    then have "bit x i = bit y i" using j by (simp add: word_bits_nth)
    then show ?thesis by (simp add: bit_and_iff)
  next
    case False
    then have "\<not> bit (demo_mask len :: 'a word) i" by (simp only: demo_mask_def bit_push_bit_iff) simp
    then show ?thesis by (simp add: bit_and_iff)
  qed
qed

lemma length_addr_bits [simp]: "length (addr_bits a) = 128"
  by (simp add: addr_bits_def split: sai_ip_addr_family_t.split)

lemma known_code: "known_family p \<Longrightarrow> known_family a \<Longrightarrow>
    word_bits (family_code (addr_family p)) = word_bits (family_code (addr_family a)) \<Longrightarrow> addr_family p = addr_family a"
  using default_keys_differ by (auto simp: known_family_def default_key_def)

lemma ip_key_prefix:
  assumes "prefix (ip_key p (32 + m)) (ip_key a (32 + n))" and "n \<le> 128" and "m \<le> 128"
  shows "m \<le> n" "word_bits (family_code (addr_family p)) = word_bits (family_code (addr_family a))"
    "take m (addr_bits p) = take m (addr_bits a)"
proof -
  have len: "length (ip_key x (32 + k)) = 32 + k" if "k \<le> 128" for x k using that by (simp add: ip_key_def)
  show mn: "m \<le> n" using prefix_length_le [OF assms(1)] assms(2,3) by (simp add: len)
  have "ip_key p (32 + m) = take (32 + m) (ip_key a (32 + n))"
    using assms(1,3) len [of m p] by (metis append_eq_conv_conj prefix_def)
  then show "word_bits (family_code (addr_family p)) = word_bits (family_code (addr_family a))"
    "take m (addr_bits p) = take m (addr_bits a)"
    using mn by (simp_all add: ip_key_def min_def)
qed

lemma demo_prefix_law: "prefix_law demo_fib"
  unfolding prefix_law_def
proof (intro allI impI)
  fix p len a
  assume kp: "known_family p" and ka: "known_family a"
    and pre: "prefix (ip_key p (sai_fib_route_key_len_get len))
      (ip_key a (sai_fib_route_key_len_get (sai_fib_ip_addr_family_len_get demo_fib a)))"
  let ?m = "min len 128" and ?n = "demo_addr_len a"
  have n: "?n \<le> 128" by (simp add: demo_addr_len_def split: sai_ip_addr_family_t.split)
  have "ip_key p (32 + len) = ip_key p (32 + ?m)" by (simp add: ip_key_def min_def)
  with pre have pre: "prefix (ip_key p (32 + ?m)) (ip_key a (32 + ?n))" by (simp add: sai_fib_route_key_len_get_def)
  note K = ip_key_prefix [OF pre n min.cobounded2]
  have af: "addr_family p = addr_family a" by (rule known_code [OF kp ka K(2)])
  have full: "demo_mask len = (demo_mask 128 :: 128 word)" if "128 \<le> len" using that by (simp add: demo_mask_def)
  show "sai_fib_is_ip_addr_in_prefix demo_fib p (sai_fib_ip_prefix_mask_get demo_fib p len) a"
    using ka [unfolded known_family_def]
  proof
    assume f: "addr_family a = SAI_IP_ADDR_FAMILY_IPV4"
    then have "?m \<le> 32" using K(1) by (simp add: demo_addr_len_def)
    then have m: "?m = len" "len \<le> 32" by (auto simp: min_def split: if_splits)
    have "take len (word_bits (addr_ip4 p)) = take len (word_bits (addr_ip4 a))"
      using K(3) m af f by (simp add: addr_bits_def)
    then have "addr_ip4 p AND demo_mask len = addr_ip4 a AND demo_mask len"
      using m(2) by (intro prefix_masked) simp_all
    with af f show ?thesis by (simp add: demo_in_prefix_def demo_mask_get_def)
  next
    assume f: "addr_family a = SAI_IP_ADDR_FAMILY_IPV6"
    have "take ?m (word_bits (addr_ip6 p)) = take ?m (word_bits (addr_ip6 a))"
      using K(3) af f by (simp add: addr_bits_def)
    then have "addr_ip6 p AND demo_mask ?m = addr_ip6 a AND demo_mask ?m"
      by (rule prefix_masked) simp
    with af f full show ?thesis
      by (cases "128 \<le> len") (simp_all add: demo_in_prefix_def demo_mask_get_def)
  qed
qed

lemma demo_resolve_ok: "resolve_ok demo_fib"
  by (simp add: resolve_ok_def)

section \<open>A next hop over the default route\<close>

text \<open>The tunnel next hop at 300 goes to 10.1.1.1; it is resolved over the IPv4 default route.\<close>

definition demo_encap :: sai_fib_nh_t where
  "demo_encap = demo_nh_plain\<lparr>is_tunnel_encap := True, lpm_route := Some 1, nh_ip_addr :=
     \<lparr>addr_family = SAI_IP_ADDR_FAMILY_IPV4, addr_ip4 = 0x0A010101, addr_ip6 = 0\<rparr>\<rparr>"

definition demo_fib_encap :: fib_state where
  "demo_fib_encap = demo_fib_vr\<lparr>nh_mem := [100 \<mapsto> demo_nh_plain, 300 \<mapsto> demo_encap],
     route_mem := fmupd 1 (demo_default SAI_IP_ADDR_FAMILY_IPV4\<lparr>rt_dep_encap_nh_list := [300]\<rparr>)
       (fmupd 2 (demo_default SAI_IP_ADDR_FAMILY_IPV6) fmempty)\<rparr>"

definition demo_tree0 :: "addr std_rt_table" where
  "demo_tree0 = Some (fmupd (default_key SAI_IP_ADDR_FAMILY_IPV6) 2
         (fmupd (default_key SAI_IP_ADDR_FAMILY_IPV4) 1 fmempty))"

lemma demo_encap_state:
  "vrf_tree demo_fib_encap = Some (fmupd 263 (demo_vr\<lparr>sai_route_tree := demo_tree0\<rparr>) fmempty)"
  "fmlookup (route_mem demo_fib_encap) a = (if a = 1 then Some (demo_default SAI_IP_ADDR_FAMILY_IPV4\<lparr>rt_dep_encap_nh_list := [300]\<rparr>)
     else if a = 2 then Some (demo_default SAI_IP_ADDR_FAMILY_IPV6) else None)"
  "nh_mem demo_fib_encap = [100 \<mapsto> demo_nh_plain, 300 \<mapsto> demo_encap]"
  "grp_mem demo_fib_encap = [200 \<mapsto> demo_group]"
  "nh_id_tree demo_fib_encap = [264 \<mapsto> 100]" "nh_group_tree demo_fib_encap = [265 \<mapsto> 200]"
  by (simp_all add: demo_fib_encap_def demo_fib_vr_def demo_fib_none_def demo_tree0_def)

lemma demo_tree0_get: "rb_getexact demo_tree0 k = (if k = default_key SAI_IP_ADDR_FAMILY_IPV6 then Some 2
    else if k = default_key SAI_IP_ADDR_FAMILY_IPV4 then Some 1 else None)"
  by (auto simp: demo_tree0_def rb_getexact_def)

lemma demo_default_key: "node_key (demo_default af\<lparr>rt_dep_encap_nh_list := l\<rparr>) = default_key af"
    "node_key (demo_default af) = default_key af"
  by (simp_all add: node_key_def ip_key_zero_len)

lemma demo_encap_at: "route_at demo_fib_encap vr k = (if vr = 263 then rb_getexact demo_tree0 k else None)"
  by (simp add: route_at_def demo_encap_state) (simp add: rb_getexact_def)

lemma demo_encap_inv: "fib_inv demo_fib_encap"
proof -
  have t: "target_of (demo_default af\<lparr>rt_dep_encap_nh_list := l\<rparr>) = No_Target" "target_of (demo_default af) = No_Target" for af l
    by (simp_all add: demo_default_def target_of_def)
  have "fib_wf demo_fib_encap"
    unfolding fib_wf_def
    by (auto simp: demo_encap_at demo_encap_state demo_tree0_get demo_default_key split: if_splits)
      (auto simp: rb_getexact_def demo_vr_def demo_tree0_def split: if_splits)
  moreover have "users demo_fib_encap x = {}" if "x \<noteq> No_Target" for x
    using that by (auto simp: users_def demo_encap_state t split: if_splits)
  then have "refs_ok demo_fib_encap"
    unfolding refs_ok_def all_counts
    by (auto simp: demo_encap_state demo_nh_plain_def demo_encap_def demo_group_def split: if_splits)
  moreover have "ids_ok demo_fib_encap" by (simp add: ids_ok_def demo_encap_state)
  ultimately show ?thesis by (simp add: fib_inv_def)
qed

lemma demo_encap_defaults: "defaults_present demo_fib_encap"
  by (auto simp: defaults_present_def demo_encap_at is_default_key_def demo_tree0_get demo_encap_state)
    (auto simp: rb_getexact_def split: if_splits)

lemma demo_encap_room: "refs_room demo_fib_encap"
  by (auto simp: refs_room_def count_of_def demo_encap_state demo_nh_plain_def demo_group_def demo_encap_def
      split: route_target.splits option.splits if_splits)

lemma same_length_prefix: "prefix p k \<Longrightarrow> prefix q k \<Longrightarrow> length p = length q \<Longrightarrow> p = q"
  by (metis prefix_length_prefix prefix_order.antisym order_refl)

lemma demo_encap_best: "std_radix_getbest demo_tree0 (encap_key demo_fib demo_encap) = Some 1"
proof -
  let ?k = "encap_key demo_fib demo_encap" and ?d = "default_key SAI_IP_ADDR_FAMILY_IPV4"
  have p: "prefix ?d ?k"
    using prefix_default_key [of demo_encap demo_fib] by (simp add: demo_encap_def)
  have "\<not> prefix (default_key SAI_IP_ADDR_FAMILY_IPV6) ?k"
    using same_length_prefix [OF p] default_keys_differ by fastforce
  then have "radix_best_key demo_tree0 ?k = Some ?d"
    using p unfolding radix_best_key_Some demo_tree0_get by auto
  then show ?thesis by (simp add: std_radix_getbest_def demo_tree0_get)
qed

lemma demo_encap_lpm: "lpm_ok demo_fib demo_fib_encap"
proof -
  have l: "lpm_of demo_fib_encap e = (if e = 300 then Some 1 else None)" for e
    by (simp add: lpm_of_def demo_encap_state demo_encap_def demo_nh_plain_def)
  have d: "dep_of demo_fib_encap a = (if a = 1 then [300] else [])" for a
    by (simp add: dep_of_def demo_encap_state) (simp add: demo_default_def)
  have "links_ok demo_fib_encap" by (auto simp: links_ok_def l d)
  moreover have "best_match demo_fib demo_fib_encap 300 1"
    unfolding best_match_def
    by (simp add: demo_encap_state rb_getexact_def demo_encap_best)
      (simp add: known_family_def demo_encap_def)
  moreover have "members_ok demo_fib_encap" by (simp add: members_ok_def demo_encap_state demo_group_def grp_nh_list_def)
  moreover have "zero_prefixes demo_fib demo_fib_encap"
    by (auto simp: zero_prefixes_def demo_encap_state demo_addr_zero_def demo_default_def split: if_splits)
  ultimately show ?thesis by (auto simp: lpm_ok_def l split: if_splits)
qed

section \<open>Route calls\<close>

text \<open>C34. As long as every resolution succeeds, a route call, whatever its own outcome, keeps the tunnel
  next hops resolved: if every encap next hop that has a route is resolved over the longest matching prefix
  of its virtual router and is listed by exactly that route, then the same is true afterwards, when the call
  has inserted a more specific route, removed one that next hops were resolved over, taken over or given
  back a default route, or failed.  \<open>resolve_ok\<close> is that memory does not run out and that the plug-in accepts
  every resolution of a next hop: the code ignores a refused one when a route goes, which leaves the next
  hop at the route that is freed.  \<open>prefix_law\<close> is that an address whose key extends the key of a prefix is in
  the prefix.  The state before is in the invariant of C32 and has its default routes, the allocator and the trees
  obey \<open>fib_env_laws\<close>, and the entry does not have an empty prefix with an address other than zero.\<close>

theorem route_calls_keep_best_match:
  assumes run: "run_route_call E c s w = (rc, s', w')"
    and I: "fib_inv s" and D: "defaults_present s" and E: "fib_env_laws E"
    and R: "resolve_ok E" and P: "prefix_law E"
    and C: "canonical_entry E (route_call_entry c)" and L: "lpm_ok E s"
  shows "lpm_ok E s'"
proof -
  have "fresh_alloc E" using E by (auto simp: fib_env_laws_def fib_laws_def)
  moreover have "encap_laws E" using R P by (simp add: encap_laws_def)
  ultimately show ?thesis using route_call_lpm [OF run I D L _ _ C] by simp
qed

theorem route_calls_keep_best_match_witness:
  "lpm_ok demo_fib (fst (snd (run_route_call demo_fib
     (Route_Create demo_entry [SAI_ROUTE_ENTRY_ATTR_NEXT_HOP_ID 264]) demo_fib_encap 7)))"
proof -
  let ?c = "Route_Create demo_entry [SAI_ROUTE_ENTRY_ATTR_NEXT_HOP_ID 264]"
  let ?r = "run_route_call demo_fib ?c demo_fib_encap 7"
  have "?r = (fst ?r, fst (snd ?r), snd (snd ?r))" by simp
  then show ?thesis
    by (rule route_calls_keep_best_match) (simp_all add: demo_encap_inv demo_encap_defaults demo_fib_laws
        demo_resolve_ok demo_prefix_law demo_canonical demo_encap_lpm)
qed

section \<open>The walk\<close>

text \<open>C35. When a new route has been put into the tree, the loop that visits the less specific routes of
  its prefix one after the other does what the direct definition does: every next hop of the virtual router
  that is resolved over some route is resolved over its longest match afterwards, the others stay where they
  are, and the lists of dependents agree.  The loop looks at the ancestors of the new prefix only, and in each
  at the dependents inside the prefix only; that it misses none follows from the state before the insertion,
  in which every next hop was at its longest match.  As for C34, memory does not run out, the plug-in accepts
  every resolution, and an address whose key extends the key of a prefix is in the prefix; the state before is in the
  invariant of C32, and the new route has an IPv4 or IPv6 address, no dependents, and forwards to something
  that is allocated.\<close>

theorem less_specific_walk_resolves_all:
  assumes I: "fib_inv s" and L: "lpm_ok E s" and v: "rb_getexact (vrf_tree s) vr = Some v"
    and new: "route_at s vr (node_key r) = None" "fmlookup (route_mem s) a = None"
    and r: "rt_vrf_id r = vr" "rt_dep_encap_nh_list r = []" "known_family (rt_prefix r)"
    and target: "target_of r = No_Target \<or> count_of s (target_of r) \<noteq> None"
    and R: "resolve_ok E" and P: "prefix_law E"
    and t: "t = with_new_route vr a r s" and u: "rb_getexact (vrf_tree t) vr = Some u"
    and run: "less_specific_walk E u (sai_fib_is_ip_addr_in_prefix E (rt_prefix r)
        (sai_fib_ip_prefix_mask_get E (rt_prefix r) (prefix_len r))) (node_key r) t w = (s', w')"
  shows "links_ok s' \<and> (\<forall>e. lpm_of s' e = (if in_router u t e then best_of E u t e else lpm_of s e))
    \<and> (\<forall>e x. lpm_of s' e = Some x \<longrightarrow> best_match E t e x)"
proof -
  have W: "fib_wf s" and C: "refs_ok s" using I by (simp_all add: fib_inv_def)
  have nh: "nh_mem t = nh_mem s" "grp_mem t = grp_mem s" using v by (simp_all add: t with_new_route_def)
  have T: "target_ok (with_new_route vr a r s) x" if "fmlookup (route_mem (with_new_route vr a r s)) b = Some x" for b x
  proof (rule target_ok_counted)
    show "members_ok (with_new_route vr a r s)" using L nh by (simp add: lpm_ok_def members_ok_def t)
    assume tx: "target_of x \<noteq> No_Target"
    show "count_of (with_new_route vr a r s) (target_of x) \<noteq> None"
      using that target target_allocated [OF C] tx by (auto simp: with_new_route_mem [OF v] split: if_splits)
  qed
  note ready = insert_ready [OF W v new r(1,2) L P r(3) T, folded t]
  have u': "v\<lparr>sai_route_tree := rb_put (sai_route_tree v) (node_key r) a\<rparr> = u"
    using ready(2,3) u by simp
  note ready = ready [unfolded u']
  have ut: "rb_getexact (vrf_tree t) (vrf_id u) = Some u" by (rule ready(2))
  have "links_ok t" using L ready(4) by (simp add: lpm_ok_def links_ok_def links_eq)
  from walk_effect [OF R ready(1) ut this ready(5) ready(6) run]
  have w: "links_ok s'" "lpm_of s' = all_best E u t" by simp_all
  have "lpm_of t = lpm_of s" using nh by (simp add: lpm_of_def fun_eq_iff)
  with w show ?thesis using ready(7) by (auto simp: all_best_def)
qed

text \<open>The concrete case: 10.0.0.0/8 has just been inserted below the default route.\<close>

definition demo_fib_inserted :: fib_state where
  "demo_fib_inserted = with_new_route 263 3 demo_route demo_fib_encap"

lemma demo_encap_vr: "rb_getexact (vrf_tree demo_fib_encap) 263 = Some (demo_vr\<lparr>sai_route_tree := demo_tree0\<rparr>)"
  by (simp add: demo_encap_state rb_getexact_def)

lemma demo_tree_put: "rb_put demo_tree0 demo_key 3 = demo_tree"
  by (simp add: demo_tree0_def demo_tree_def rb_put_def)

lemma demo_encap_below: "prefix demo_key (encap_key demo_fib demo_encap)"
proof -
  have "take 8 (word_bits (0x0A000000 :: 32 word)) = take 8 (word_bits (0x0A010101 :: 32 word))"
    by (simp add: word_bits_def upt_rec)
  then have "take 40 (word_bits (0 :: uint32_t) @ word_bits (0x0A000000 :: 32 word) @ xs)
      = take 40 (word_bits (0 :: uint32_t) @ word_bits (0x0A010101 :: 32 word) @ xs)" for xs by simp
  moreover have "take 40 ys = take 40 (take 64 ys)" for ys :: "bool list" by simp
  ultimately have "demo_key = take 40 (encap_key demo_fib demo_encap)"
    by (simp add: demo_key_def demo_prefix_def encap_key_def demo_encap_def ip_key_def addr_bits_def
        sai_fib_route_key_len_get_def demo_addr_len_def)
  then show ?thesis by (metis take_is_prefix)
qed

lemma demo_inserted_best:
  defines "u \<equiv> demo_vr\<lparr>sai_route_tree := demo_tree\<rparr>"
  shows "rb_getexact (vrf_tree demo_fib_inserted) 263 = Some u" "in_router u demo_fib_inserted 300"
    "best_of demo_fib u demo_fib_inserted 300 = Some 3"
proof -
  have k: "node_key demo_route = demo_key" by (simp add: node_key_def demo_route_key)
  note mem = with_new_route_mem [OF demo_encap_vr, of 3 demo_route]
  have nh: "nh_mem (with_new_route 263 3 demo_route demo_fib_encap) = nh_mem demo_fib_encap"
    by (simp add: with_new_route_def demo_encap_vr)
  show "rb_getexact (vrf_tree demo_fib_inserted) 263 = Some u"
    by (simp add: demo_fib_inserted_def with_new_route_def demo_encap_vr k demo_tree_put u_def)
      (simp add: demo_encap_state rb_getexact_def)
  have "vrf_id u = 263" by (simp add: u_def demo_vr_def)
  then show "in_router u demo_fib_inserted 300"
    by (simp add: in_router_def demo_fib_inserted_def mem lpm_of_def nh demo_encap_state demo_encap_def)
  have "\<not> prefix (default_key SAI_IP_ADDR_FAMILY_IPV6) (encap_key demo_fib demo_encap)"
  proof
    assume "prefix (default_key SAI_IP_ADDR_FAMILY_IPV6) (encap_key demo_fib demo_encap)"
    from same_length_prefix [OF this] prefix_default_key [of demo_encap demo_fib]
    have "default_key SAI_IP_ADDR_FAMILY_IPV6 = default_key SAI_IP_ADDR_FAMILY_IPV4" by (simp add: demo_encap_def)
    then show False by simp
  qed
  then have "radix_best_key demo_tree (encap_key demo_fib demo_encap) = Some demo_key"
    using demo_encap_below demo_key_prefix unfolding radix_best_key_Some demo_tree_get by auto
  then show "best_of demo_fib u demo_fib_inserted 300 = Some 3"
    by (simp add: best_of_def u_def std_radix_getbest_def demo_tree_get demo_fib_inserted_def nh demo_encap_state)
qed

theorem less_specific_walk_resolves_all_witness:
  "lpm_of (fst (less_specific_walk demo_fib (demo_vr\<lparr>sai_route_tree := demo_tree\<rparr>)
      (sai_fib_is_ip_addr_in_prefix demo_fib (rt_prefix demo_route)
        (sai_fib_ip_prefix_mask_get demo_fib (rt_prefix demo_route) (prefix_len demo_route)))
      demo_key demo_fib_inserted 7)) 300 = Some 3"
proof -
  have k: "node_key demo_route = demo_key" by (simp add: node_key_def demo_route_key)
  have new: "route_at demo_fib_encap 263 (node_key demo_route) = None"
    by (simp add: demo_encap_at demo_tree0_get k)
  have a: "fmlookup (route_mem demo_fib_encap) 3 = None" by (simp add: demo_encap_state)
  have r: "rt_vrf_id demo_route = 263" "rt_dep_encap_nh_list demo_route = []" "known_family (rt_prefix demo_route)"
    by (simp_all add: demo_route_def demo_prefix_def known_family_def)
  have g: "target_of demo_route = No_Target \<or> count_of demo_fib_encap (target_of demo_route) \<noteq> None"
    by (simp add: demo_route_def target_of_def count_of_def demo_encap_state)
  from less_specific_walk_resolves_all [OF demo_encap_inv demo_encap_lpm demo_encap_vr new a r g demo_resolve_ok
      demo_prefix_law demo_fib_inserted_def demo_inserted_best(1), unfolded k, OF surjective_pairing]
    demo_inserted_best(2,3)
  show ?thesis by simp
qed

end
