(* ===== verification/Fib_Errors.thy ===== *)
theory Fib_Errors
  imports Fib_Claims
begin

text \<open>
  What two failing calls of the routing component leave behind: the removal of a virtual router
  that is in use, and the creation of a route that the tree does not take.
\<close>

section \<open>A virtual router that is in use\<close>

text \<open>Deleting and adding internal default routes moves no reference of next hops and groups.\<close>

lemma default_del_mem:
  assumes "fib_wf s" and "zero_mask_law E"
  shows "nh_mem (default_del E vr af s) = nh_mem s" "grp_mem (default_del E vr af s) = grp_mem s"
  using default_del_effect [OF assms, of vr af, folded default_del_def]
  by (simp_all add: without_route_def split: option.splits)

lemma default_add_mem:
  assumes run: "sai_fib_internal_default_route_node_add E vr af s w = (rc, s', w')"
    and v: "rb_getexact (vrf_tree s) vr = Some v" "vrf_id v = vr" "sai_route_tree v \<noteq> None"
    and free: "route_at s vr (default_key af) = None" and F: "fresh_alloc E" and Z: "zero_mask_law E"
  obtains (failed) "s' = s" "\<not> fib_memory_ok E"
  | (added) a where "fmlookup (route_mem s) a = None" "fmlookup (route_mem s') a = Some (internal_default E vr af)"
    "route_at s' vr (default_key af) = Some a" "nh_mem s' = nh_mem s" "grp_mem s' = grp_mem s"
    "\<And>b. b \<noteq> a \<Longrightarrow> fmlookup (route_mem s') b = fmlookup (route_mem s) b"
  using run v(1,2) free F Z
proof (cases rule: default_add_effect)
  case 1: failed
  then have "\<not> fib_memory_ok E" unfolding fib_memory_ok_def by blast
  with 1(1) show thesis by (rule failed)
next
  case 1: (added a)
  show thesis
    by (rule added [OF 1(1)])
      (simp_all add: 1(2) with_new_route_mem [OF v(1)] route_at_new [OF v(1,3)] Z, simp_all add: with_new_route_def v(1))
qed

text \<open>What is at a default key is the internal default route; with memory there is one.\<close>

definition internal_at :: "('w, 'z) fib_env_scheme \<Rightarrow> sai_object_id_t \<Rightarrow> sai_ip_addr_family_t \<Rightarrow> fib_state \<Rightarrow> bool" where
  "internal_at E vr af s \<longleftrightarrow> (\<forall>a. route_at s vr (default_key af) = Some a \<longrightarrow>
      fmlookup (route_mem s) a = Some (internal_default E vr af))
    \<and> (fib_memory_ok E \<longrightarrow> route_at s vr (default_key af) \<noteq> None)"

lemma default_add_at:
  assumes run: "sai_fib_internal_default_route_node_add E vr af s w = (rc, s', w')"
    and I: "fib_inv s" and v: "rb_getexact (vrf_tree s) vr \<noteq> None"
    and free: "route_at s vr (default_key af) = None" and F: "fresh_alloc E" and Z: "zero_mask_law E"
  shows "nh_mem s' = nh_mem s" "grp_mem s' = grp_mem s" "internal_at E vr af s'"
    "default_key ag \<noteq> default_key af \<Longrightarrow> internal_at E vr ag s \<Longrightarrow> internal_at E vr ag s'"
proof -
  obtain v1 where v1: "rb_getexact (vrf_tree s) vr = Some v1" "vrf_id v1 = vr" "sai_route_tree v1 \<noteq> None"
    using v I fib_wf_vrf [of s vr] by (auto simp: fib_inv_def)
  note A = default_add_inv(3) [OF run I v free F Z, of vr "default_key ag"]
  have "nh_mem s' = nh_mem s \<and> grp_mem s' = grp_mem s \<and> internal_at E vr af s' \<and>
      (default_key ag \<noteq> default_key af \<longrightarrow> internal_at E vr ag s \<longrightarrow> internal_at E vr ag s')"
    using run v1 free F Z
  proof (cases rule: default_add_mem)
    case failed
    with free show ?thesis by (simp add: internal_at_def)
  next
    case (added a)
    have "internal_at E vr ag s'" if k: "default_key ag \<noteq> default_key af" and i: "internal_at E vr ag s"
    proof -
      have at: "route_at s' vr (default_key ag) = route_at s vr (default_key ag)" using A k by simp
      have "fmlookup (route_mem s') x = fmlookup (route_mem s) x" if "fmlookup (route_mem s) x \<noteq> None" for x
        using that added(1,6) by (cases "x = a") auto
      with i at show ?thesis unfolding internal_at_def by (metis option.distinct(1))
    qed
    with added(2-5) show ?thesis by (simp add: internal_at_def)
  qed
  then show "nh_mem s' = nh_mem s" "grp_mem s' = grp_mem s" "internal_at E vr af s'"
    "default_key ag \<noteq> default_key af \<Longrightarrow> internal_at E vr ag s \<Longrightarrow> internal_at E vr ag s'" by blast+
qed

lemma default_routes_added_mem:
  assumes run: "sai_fib_vrf_default_route_add E vr s w = (s', w')"
    and I: "fib_inv s" and v: "rb_getexact (vrf_tree s) vr \<noteq> None"
    and free: "\<And>k. is_default_key k \<Longrightarrow> route_at s vr k = None" and F: "fresh_alloc E" and Z: "zero_mask_law E"
  shows "nh_mem s' = nh_mem s" "grp_mem s' = grp_mem s"
    "af = SAI_IP_ADDR_FAMILY_IPV4 \<or> af = SAI_IP_ADDR_FAMILY_IPV6 \<Longrightarrow> internal_at E vr af s'"
proof -
  let ?k4 = "default_key SAI_IP_ADDR_FAMILY_IPV4" and ?k6 = "default_key SAI_IP_ADDR_FAMILY_IPV6"
  obtain rc1 s1 w1 where a: "sai_fib_internal_default_route_node_add E vr SAI_IP_ADDR_FAMILY_IPV4 s w = (rc1, s1, w1)"
    by (metis prod_cases3)
  obtain rc2 s2 w2 where b: "sai_fib_internal_default_route_node_add E vr SAI_IP_ADDR_FAMILY_IPV6 s1 w1 = (rc2, s2, w2)"
    by (metis prod_cases3)
  have s': "s' = s2" using run a b by (simp add: sai_fib_vrf_default_route_add_def)
  have f4: "route_at s vr ?k4 = None" and f6: "route_at s vr ?k6 = None" using free by (auto simp: is_default_key_def)
  note A = default_add_inv [OF a I v f4 F Z] default_add_at [OF a I v f4 F Z]
  have v1: "rb_getexact (vrf_tree s1) vr \<noteq> None" using v A(2) by (metis not_None_eq same_vrfsD)
  have g6: "route_at s1 vr ?k6 = None" using A(3) f6 default_keys_differ by metis
  note B = default_add_at [OF b A(1) v1 g6 F Z]
  show "nh_mem s' = nh_mem s" "grp_mem s' = grp_mem s" using A(5,6) B(1,2) s' by simp_all
  show "internal_at E vr af s'" if "af = SAI_IP_ADDR_FAMILY_IPV4 \<or> af = SAI_IP_ADDR_FAMILY_IPV6"
    using that A(7) B(3) B(4) [of SAI_IP_ADDR_FAMILY_IPV4] default_keys_differ s' by auto
qed

text \<open>Which calls out of the code a removal makes: at most the one of the plug-in that removes the
  virtual router, and then only calls for memory.\<close>

inductive memory_calls :: "('w, 'z) fib_env_scheme \<Rightarrow> 'w \<Rightarrow> 'w \<Rightarrow> bool" for E u where
  mem_none: "memory_calls E u u"
| mem_alloc: "memory_calls E u w \<Longrightarrow> route_node_alloc E A w = (p, w') \<Longrightarrow> memory_calls E u w'"
| mem_insert: "memory_calls E u w \<Longrightarrow> std_radix_insert_ok E w = (ok, w') \<Longrightarrow> memory_calls E u w'"

lemma insert_to_tree_world:
  "sai_fib_route_node_insert_to_tree E a vr s w = (rc, s', w') \<Longrightarrow> memory_calls E u w \<Longrightarrow> memory_calls E u w'"
  by (auto simp: sai_fib_route_node_insert_to_tree_def std_radix_insert_def Let_def
      intro: mem_insert split: option.splits prod.splits if_splits)

lemma default_add_world:
  assumes "sai_fib_internal_default_route_node_add E vr af s w = (rc, s', w')" and "memory_calls E u w"
  shows "memory_calls E u w'"
proof -
  obtain p w1 where al: "route_node_alloc E (fmdom (route_mem s)) w = (p, w1)" by (metis surj_pair)
  have "memory_calls E u w1" by (rule mem_alloc [OF assms(2) al])
  with assms(1) al show ?thesis
    by (auto simp: sai_fib_internal_default_route_node_add_def Let_def intro: insert_to_tree_world
        split: option.splits)
qed

lemma vr_remove_world:
  assumes run: "sai_fib_virtual_router_remove E vr s w = (rc, s', w')" and rc: "rc \<noteq> SAI_STATUS_SUCCESS"
  shows "\<exists>w1. (w1 = w \<or> (\<exists>v. npu_vr_remove E v w = (rc, w1))) \<and> memory_calls E w1 w'"
proof (cases "sai_is_obj_id E SAI_OBJECT_TYPE_VIRTUAL_ROUTER vr \<and> rb_getexact (vrf_tree s) vr \<noteq> None")
  case False
  with run have "w' = w"
    by (auto simp: sai_fib_virtual_router_remove_def vr_remove_body_def split: if_splits)
  then show ?thesis by (auto intro: mem_none)
next
  case True
  obtain rc1 d1 w1 where ch: "vr_remove_checked E vr (sai_fib_vrf_default_route_del E vr (sai_fib_lock s)) w = (rc1, d1, w1)"
    by (metis prod_cases3)
  obtain r4 s4 w4 where a: "sai_fib_internal_default_route_node_add E vr SAI_IP_ADDR_FAMILY_IPV4 d1 w1 = (r4, s4, w4)"
    by (metis prod_cases3)
  obtain r6 s6 w6 where b: "sai_fib_internal_default_route_node_add E vr SAI_IP_ADDR_FAMILY_IPV6 s4 w4 = (r6, s6, w6)"
    by (metis prod_cases3)
  have "memory_calls E w1 w6" by (rule default_add_world [OF b default_add_world [OF a mem_none]])
  moreover have "rc1 = rc \<and> (w' = w1 \<or> w' = w6)"
    using run True ch a b
    by (auto simp: sai_fib_virtual_router_remove_def vr_remove_body_def sai_fib_vrf_default_route_add_def split: if_splits)
  moreover have "w1 = w \<or> (\<exists>v. npu_vr_remove E v w = (rc1, w1))"
    using ch rc calculation(2)
    by (auto simp: vr_remove_checked_def split: option.splits if_splits prod.splits)
  ultimately show ?thesis by (auto intro: mem_none)
qed

text \<open>C36. A removal of a virtual router that is refused because the virtual router is in use
  replaces its default routes: what is there afterwards for either address family is the internal default
  route, which drops, forwards to nothing and carries no hardware handle, whatever the user had set; it is
  missing only if the memory for it ran out.  The plug-in is not told: the only request it can have got is
  the one to remove the virtual router itself, every other call out of the code is for memory.  The next hops
  and groups keep the references that the replaced routes held.  The state before is in the invariant of
  C32, and the allocator and the trees obey \<open>fib_env_laws\<close>.\<close>

theorem refused_removal_replaces_default_routes:
  assumes run: "sai_fib_virtual_router_remove E vr s w = (SAI_STATUS_OBJECT_IN_USE, s', w')"
    and I: "fib_inv s" and L: "fib_env_laws E"
    and af: "af = SAI_IP_ADDR_FAMILY_IPV4 \<or> af = SAI_IP_ADDR_FAMILY_IPV6"
  shows "nh_mem s' = nh_mem s \<and> grp_mem s' = grp_mem s
    \<and> (\<forall>a. route_at s' vr (default_key af) = Some a \<longrightarrow> (\<exists>r. fmlookup (route_mem s') a = Some r
       \<and> packet_action r = SAI_PACKET_ACTION_DROP \<and> nh_type r = SAI_FIB_ROUTE_NH_TYPE_NONE \<and> hw_info r = None))
    \<and> (fib_memory_ok E \<longrightarrow> route_at s' vr (default_key af) \<noteq> None)
    \<and> (\<exists>w1. (w1 = w \<or> (\<exists>v. npu_vr_remove E v w = (SAI_STATUS_OBJECT_IN_USE, w1))) \<and> memory_calls E w1 w')"
proof -
  have F: "fresh_alloc E" and Z: "zero_mask_law E" using L by (auto simp: fib_env_laws_def fib_laws_def)
  have r: "packet_action (internal_default E vr af) = SAI_PACKET_ACTION_DROP"
    "nh_type (internal_default E vr af) = SAI_FIB_ROUTE_NH_TYPE_NONE"
    by (simp_all add: internal_default_def sai_fib_route_node_init_def split_beta)
  have world: "\<exists>w1. (w1 = w \<or> (\<exists>v. npu_vr_remove E v w = (SAI_STATUS_OBJECT_IN_USE, w1))) \<and> memory_calls E w1 w'"
    by (rule vr_remove_world [OF run]) simp
  have mem: "nh_mem s' = nh_mem s \<and> grp_mem s' = grp_mem s \<and> internal_at E vr af s'"
    using run I Z
  proof (cases rule: vr_remove_effect)
    case (in_use v d w1 w2)
    let ?L = "sai_fib_lock s" and ?d4 = "default_del E vr SAI_IP_ADDR_FAMILY_IPV4 (sai_fib_lock s)"
    have IL: "fib_inv ?L" using I by simp
    have W: "fib_wf ?L" "fib_wf ?d4" using IL default_del_inv(1) [OF IL Z] by (auto simp: fib_inv_def)
    have mem: "nh_mem d = nh_mem s" "grp_mem d = grp_mem s"
      by (simp_all add: in_use(3) default_route_del_eq default_del_mem [OF W(1) Z] default_del_mem [OF W(2) Z])
    note D = default_routes_deleted [OF IL Z, of vr, folded in_use(3)]
    have v: "rb_getexact (vrf_tree d) vr \<noteq> None"
      using D(2) in_use(2) by (metis lock_sel(1) not_None_eq same_vrfsD)
    have free: "route_at d vr k = None" if "is_default_key k" for k using D(3) that by simp
    from in_use(4) have add: "sai_fib_vrf_default_route_add E vr d w1 = (sai_fib_lock s', w2)" by simp
    note A = default_routes_added_mem [OF add D(1) v free F Z]
    have "internal_at E vr af s'" using A(3) [OF _ af] by (simp add: internal_at_def route_at_def)
    with A(1,2) mem show ?thesis by simp
  qed auto
  with world r internal_default_simps(4) show ?thesis unfolding internal_at_def by blast
qed

lemma remove_with_rifs:
  assumes "sai_is_obj_id E SAI_OBJECT_TYPE_VIRTUAL_ROUTER vr" and v: "rb_getexact (vrf_tree s) vr = Some v" "num_rif v \<noteq> 0"
    and I: "fib_inv s" and Z: "zero_mask_law E"
  shows "fst (sai_fib_virtual_router_remove E vr s w) = SAI_STATUS_OBJECT_IN_USE"
proof -
  let ?d = "sai_fib_vrf_default_route_del E vr (sai_fib_lock s)"
  have IL: "fib_inv (sai_fib_lock s)" using I by simp
  obtain v1 where v1: "rb_getexact (vrf_tree ?d) vr = Some v1" "vrf_rest v1 = vrf_rest v"
    using same_vrfsD [OF default_routes_deleted(2) [OF IL Z], of vr v vr] v(1) by auto
  then have "vr_remove_checked E vr ?d w = (SAI_STATUS_OBJECT_IN_USE, ?d, w)"
    using vrf_restD [OF v1(2)] v(2) by (simp add: vr_remove_checked_def)
  with assms(1) v(1) show ?thesis
    by (simp add: sai_fib_virtual_router_remove_def vr_remove_body_def split_beta)
qed

text \<open>The IPv4 default route of the user goes over the next hop at 100; a router interface is
  on the virtual router.\<close>

definition demo_user_default :: sai_fib_route_t where
  "demo_user_default = (demo_default SAI_IP_ADDR_FAMILY_IPV4)\<lparr>nh_type := ROUTE_NH_TYPE_NEXT_HOP,
     nh_info := Some 100, packet_action := SAI_PACKET_ACTION_FORWARD, hw_info := Some 1\<rparr>"

definition demo_fib_user :: fib_state where
  "demo_fib_user = demo_fib_none\<lparr>vrf_tree := Some (fmupd 263 (demo_vr\<lparr>num_rif := 1, rif_dll_head := [518],
       sai_route_tree := Some (fmupd (default_key SAI_IP_ADDR_FAMILY_IPV6) 2
         (fmupd (default_key SAI_IP_ADDR_FAMILY_IPV4) 1 fmempty))\<rparr>) fmempty),
     route_mem := fmupd 1 demo_user_default (fmupd 2 (demo_default SAI_IP_ADDR_FAMILY_IPV6) fmempty),
     nh_mem := [100 \<mapsto> demo_nh_plain\<lparr>ref_count := 2\<rparr>], num_virtual_routers := 1\<rparr>"

lemma demo_user_at: "route_at demo_fib_user vr k = (if vr = 263 then
    if k = default_key SAI_IP_ADDR_FAMILY_IPV6 then Some 2
    else if k = default_key SAI_IP_ADDR_FAMILY_IPV4 then Some 1 else None else None)"
  by (simp add: route_at_def demo_fib_user_def rb_getexact_def)

lemma demo_user_inv: "fib_inv demo_fib_user"
proof -
  have k: "node_key demo_user_default = default_key SAI_IP_ADDR_FAMILY_IPV4" "rt_vrf_id demo_user_default = 263"
    "node_key (demo_default af) = default_key af" for af
    by (simp_all add: demo_user_default_def node_key_def ip_key_zero_len)
  have t: "target_of demo_user_default = Target_Next_Hop (Some 100)" "target_of (demo_default af) = No_Target" for af
    by (simp_all add: demo_user_default_def demo_default_def target_of_def)
  have mem: "fmlookup (route_mem demo_fib_user) a = (if a = 1 then Some demo_user_default
      else if a = 2 then Some (demo_default SAI_IP_ADDR_FAMILY_IPV6) else None)" for a
    by (simp add: demo_fib_user_def)
  have "fib_wf demo_fib_user"
    unfolding fib_wf_def
    by (auto simp: demo_user_at mem k split: if_splits)
      (auto simp: demo_fib_user_def rb_getexact_def demo_vr_def split: if_splits)
  moreover have "users demo_fib_user x = (if x = Target_Next_Hop (Some 100) then {1} else {})" if "x \<noteq> No_Target" for x
    using that by (auto simp: users_def mem t split: if_splits)
  moreover have "nh_mem demo_fib_user = [100 \<mapsto> demo_nh_plain\<lparr>ref_count := 2\<rparr>]" "grp_mem demo_fib_user = [200 \<mapsto> demo_group]"
    by (simp_all add: demo_fib_user_def demo_fib_none_def)
  ultimately have "fib_wf demo_fib_user" "refs_ok demo_fib_user"
    unfolding refs_ok_def all_counts by (auto simp: demo_nh_plain_def demo_group_def count_of_def)
  moreover have "ids_ok demo_fib_user" by (simp add: ids_ok_def demo_fib_user_def demo_fib_none_def)
  ultimately show ?thesis by (simp add: fib_inv_def)
qed

theorem refused_removal_replaces_default_routes_witness:
  "\<exists>s' a r n. snd (sai_fib_virtual_router_remove demo_fib 263 demo_fib_user 5)
       = (s', snd (snd (sai_fib_virtual_router_remove demo_fib 263 demo_fib_user 5)))
     \<and> route_at s' 263 (default_key SAI_IP_ADDR_FAMILY_IPV4) = Some a \<and> fmlookup (route_mem s') a = Some r
     \<and> packet_action r = SAI_PACKET_ACTION_DROP \<and> nh_mem s' 100 = Some n \<and> ref_count n = 2"
proof -
  let ?run = "sai_fib_virtual_router_remove demo_fib 263 demo_fib_user 5"
  have Z: "zero_mask_law demo_fib" using demo_fib_laws(1) by (simp add: fib_env_laws_def)
  have "fst ?run = SAI_STATUS_OBJECT_IN_USE"
    by (rule remove_with_rifs [OF _ _ _ demo_user_inv Z, of _ "the (rb_getexact (vrf_tree demo_fib_user) 263)"])
      (simp_all add: demo_fib_user_def rb_getexact_def demo_is_obj_def)
  then have run: "?run = (SAI_STATUS_OBJECT_IN_USE, fst (snd ?run), snd (snd ?run))" by (metis surjective_pairing)
  have "nh_mem demo_fib_user 100 = Some (demo_nh_plain\<lparr>ref_count := 2\<rparr>)" by (simp add: demo_fib_user_def)
  with refused_removal_replaces_default_routes [OF run demo_user_inv demo_fib_laws(1), of SAI_IP_ADDR_FAMILY_IPV4] demo_fib_laws(2)
  show ?thesis by (intro exI [of _ "fst (snd ?run)"]) auto
qed

section \<open>A route that the tree does not take\<close>

text \<open>C37. When the plug-in has created a new route and then its node cannot be inserted into the route
  tree, the node is freed twice: the insertion frees it, and the cleanup of the call frees it again.
  The call fails without taking the route out of the hardware again.\<close>

theorem failed_insertion_frees_twice:
  assumes "sai_fib_route_input_params_validate en (length attrs) = SAI_STATUS_SUCCESS"
    and "rb_getexact (vrf_tree s) (vr_id en) = Some v"
    and "route_at s (vr_id en) (route_entry_key E en) = None"
    and "route_node_alloc E (fmdom (route_mem s)) w = (Some a, w1)"
    and "sai_fib_route_attributes_parse E ((sai_fib_lock s)\<lparr>route_mem :=
           fmupd a (sai_fib_route_node_init E en) (route_mem s)\<rparr>) w1 attrs (sai_fib_route_node_init E en)
         = (SAI_STATUS_SUCCESS, r)"
    and "npu_route_create E r w1 = (SAI_STATUS_SUCCESS, hw, w2)"
    and "std_radix_insert_ok E w2 = (False, w3)"
  shows "\<exists>s'. sai_fib_route_create E en attrs s w = (SAI_STATUS_FAILURE, s', w3) \<and> fib_fault s'
    \<and> fmlookup (route_mem s') a = None"
proof -
  have "node_key r = route_entry_key E en" using same_place_key [OF parse_place [OF assms(5)]] by simp
  then have key: "ip_key (rt_prefix r) (sai_fib_route_key_len_get (prefix_len r)) = route_entry_key E en"
    by (simp add: node_key_def)
  have "rb_getexact (sai_route_tree v) (route_entry_key E en) = None"
    using assms(2,3) by (simp add: route_at_def)
  with assms show ?thesis
    by (simp add: sai_fib_route_create_def route_create_node_def node_get_at route_create_install_def key
        Let_def route_write_def sai_fib_route_node_insert_to_tree_def std_radix_insert_def vrf_write_def
        route_create_cleanup_def sai_fib_route_node_free_def fib_crash_def sai_fib_unlock_def)
qed

definition demo_fib_full :: "nat fib_env" where
  \<comment> \<open>the route tree has no memory left\<close>
  "demo_fib_full = demo_fib\<lparr>std_radix_insert_ok := (\<lambda>w. (False, w))\<rparr>"

lemma demo_full_entry: "route_entry_key demo_fib_full demo_entry = demo_key"
    "sai_fib_route_node_init demo_fib_full demo_entry = demo_route\<lparr>nh_type := SAI_FIB_ROUTE_NH_TYPE_NONE,
       nh_info := None, hw_info := None\<rparr>"
proof -
  have f: "sai_fib_route_entry_ip_prefix_fill demo_fib_full demo_entry = sai_fib_route_entry_ip_prefix_fill demo_fib demo_entry"
    by (simp add: demo_fib_full_def sai_fib_route_entry_ip_prefix_fill_def sai_fib_route_entry_prefix_len_get_def)
  show "route_entry_key demo_fib_full demo_entry = demo_key"
    using demo_entry_key by (simp add: route_entry_key_def f)
  show "sai_fib_route_node_init demo_fib_full demo_entry = demo_route\<lparr>nh_type := SAI_FIB_ROUTE_NH_TYPE_NONE,
       nh_info := None, hw_info := None\<rparr>"
    using demo_route_init by (simp add: sai_fib_route_node_init_def f)
qed

theorem failed_insertion_frees_twice_witness:
  "\<exists>s'. sai_fib_route_create demo_fib_full demo_entry [SAI_ROUTE_ENTRY_ATTR_NEXT_HOP_ID 264] demo_fib_vr 2
     = (SAI_STATUS_FAILURE, s', 2) \<and> fib_fault s' \<and> fmlookup (route_mem s') 3 = None"
proof (rule failed_insertion_frees_twice)
  show "sai_fib_route_input_params_validate demo_entry (length [SAI_ROUTE_ENTRY_ATTR_NEXT_HOP_ID 264]) = SAI_STATUS_SUCCESS"
    by (simp add: sai_fib_route_input_params_validate_def sai_fib_uc_route_entry_validate_def
        SAI_FIB_ROUTE_MAX_ATTR_COUNT_def)
  show "route_at demo_fib_vr (vr_id demo_entry) (route_entry_key demo_fib_full demo_entry) = None"
    by (simp add: route_at_def demo_full_entry demo_old_tree)
  show "sai_fib_route_attributes_parse demo_fib_full ((sai_fib_lock demo_fib_vr)\<lparr>route_mem :=
      fmupd 3 (sai_fib_route_node_init demo_fib_full demo_entry) (route_mem demo_fib_vr)\<rparr>) 2
      [SAI_ROUTE_ENTRY_ATTR_NEXT_HOP_ID 264] (sai_fib_route_node_init demo_fib_full demo_entry)
      = (SAI_STATUS_SUCCESS, demo_route\<lparr>hw_info := None\<rparr>)"
    unfolding demo_full_entry
    by (simp add: demo_fib_full_def sai_fib_route_attributes_parse_def route_attribute_accept_def
        sai_fib_route_nh_id_attr_set_def demo_route_def)
qed (simp_all add: demo_fib_full_def numeral_3_eq_3)

end
