(* ===== verification/Nhg_Model.thy ===== *)
theory Nhg_Model
  imports Fib_Route
begin

text \<open>
  Next hop groups, \<open>src/routing/sai_l3_next_hop_group.c\<close> and \<open>sai_l3_next_hop_group_utl.c\<close>.

  A group lists its next hops and a next hop lists its groups, each through weighted link nodes:
  adding a next hop again raises the two weights.  The members of the API are pairs of ids in a map
  outside the repository (\<open>sai_map\<close>), whose state is the type \<open>'m\<close>.
\<close>

section \<open>Attributes\<close>

datatype sai_next_hop_group_attr_t =
    SAI_NEXT_HOP_GROUP_ATTR_TYPE sai_next_hop_group_type_t
  | SAI_NEXT_HOP_GROUP_ATTR_NEXT_HOP_MEMBER_LIST sai_object_list_t
  | SAI_NEXT_HOP_GROUP_ATTR_NEXT_HOP_COUNT uint32_t
  | SAI_NEXT_HOP_GROUP_ATTR_UNKNOWN nat

datatype sai_next_hop_group_member_attr_t =
    SAI_NEXT_HOP_GROUP_MEMBER_ATTR_NEXT_HOP_GROUP_ID sai_object_id_t
  | SAI_NEXT_HOP_GROUP_MEMBER_ATTR_NEXT_HOP_ID sai_object_id_t
  | SAI_NEXT_HOP_GROUP_MEMBER_ATTR_WEIGHT uint32_t
  | SAI_NEXT_HOP_GROUP_MEMBER_ATTR_UNKNOWN nat

section \<open>The environment and the state\<close>

text \<open>The key of the map has a type and an id, its data are pairs (\<open>val1\<close>, \<open>val2\<close>).\<close>

datatype sai_map_key_t =
    SAI_MAP_TYPE_NH_GRP_2_MEMBER_LIST sai_object_id_t
  | SAI_MAP_TYPE_NH_MEMBER_2_GRP_INFO sai_object_id_t

type_synonym sai_map_data_t = "sai_object_id_t \<times> sai_object_id_t"

text \<open>\<open>find_link_node\<close> stands for \<open>sai_fib_nh_find_group_link_node\<close> and
  \<open>sai_fib_nh_group_find_nh_link_node\<close>: the weight of the link node that points to the address.\<close>

record ('w, 'm) nhg_env = "'w fib_env" +
  find_link_node :: "sai_fib_wt_link_node_t list \<Rightarrow> addr \<Rightarrow> uint32_t option"
  nh_group_node_alloc :: "(addr \<Rightarrow> bool) \<Rightarrow> 'w \<Rightarrow> addr option \<times> 'w"
  npu_nh_group_create :: "sai_fib_nh_group_t \<Rightarrow> 'w \<Rightarrow> sai_status_t \<times> sai_npu_object_id_t \<times> 'w"
  npu_nh_group_remove :: "sai_fib_nh_group_t \<Rightarrow> 'w \<Rightarrow> sai_status_t \<times> 'w"
  npu_add_nh_to_group :: "sai_fib_nh_group_t \<Rightarrow> addr list \<Rightarrow> 'w \<Rightarrow> sai_status_t \<times> 'w"
  npu_remove_nh_from_group :: "sai_fib_nh_group_t \<Rightarrow> addr list \<Rightarrow> 'w \<Rightarrow> sai_status_t \<times> 'w"
  sai_map_insert :: "sai_map_key_t \<Rightarrow> sai_map_data_t \<Rightarrow> 'm \<Rightarrow> sai_status_t \<times> 'm"
  sai_map_delete_elements :: "sai_map_key_t \<Rightarrow> sai_map_data_t \<Rightarrow> 'm \<Rightarrow> 'm"
  sai_map_get_val_count :: "sai_map_key_t \<Rightarrow> 'm \<Rightarrow> sai_status_t \<times> uint32_t"
  sai_map_delete :: "sai_map_key_t \<Rightarrow> 'm \<Rightarrow> 'm"
  sai_map_get :: "sai_map_key_t \<Rightarrow> uint32_t \<Rightarrow> 'm \<Rightarrow> sai_status_t \<times> uint32_t \<times> sai_map_data_t list"

record 'm nhg_state =
  nhg_fib :: fib_state
  next_hop_grp_member_gen_info :: dn_sai_id_gen_info_t
  sai_map :: 'm

section \<open>Link nodes\<close>

text \<open>Writing the weight of a link node and unlinking one.\<close>

fun link_set :: "addr \<Rightarrow> uint32_t \<Rightarrow> sai_fib_wt_link_node_t list \<Rightarrow> sai_fib_wt_link_node_t list" where
  "link_set a x [] = []"
| "link_set a x ((b, y) # l) = (if b = a then (b, x) # l else (b, y) # link_set a x l)"

fun link_drop :: "addr \<Rightarrow> sai_fib_wt_link_node_t list \<Rightarrow> sai_fib_wt_link_node_t list" where
  "link_drop a [] = []"
| "link_drop a ((b, y) # l) = (if b = a then l else (b, y) # link_drop a l)"

text \<open>One less; \<open>None\<close> when the assertion on the weight fails.\<close>

definition link_decr :: "addr \<Rightarrow> sai_fib_wt_link_node_t list \<Rightarrow> sai_fib_wt_link_node_t list option" where
  "link_decr a l = (case map_of l a of
       None \<Rightarrow> None
     | Some x \<Rightarrow> if x > 0 then Some (if x - 1 = 0 then link_drop a l else link_set a (x - 1) l) else None)"

text \<open>Adding: a node of weight one at the back, or one more.  The flag is false when there is no memory.\<close>

definition sai_fib_nh_add_group_link_node ::
  "('w, 'm, 'z) nhg_env_scheme \<Rightarrow> addr \<Rightarrow> addr \<Rightarrow> fib_state \<Rightarrow> 'w \<Rightarrow> bool \<times> fib_state \<times> 'w" where
  "sai_fib_nh_add_group_link_node E u g s w =
    (case nh_mem s u of
       None \<Rightarrow> (False, fib_crash s, w)
     | Some n \<Rightarrow>
       (case find_link_node E (nh_group_list n) g of
          Some x \<Rightarrow> (True, nh_write u (\<lambda>n. n\<lparr>nh_group_list := link_set g (x + 1) (nh_group_list n)\<rparr>) s, w)
        | None \<Rightarrow> let (ok, w) = calloc_ok E w in
            if \<not> ok then (False, s, w)
            else (True, nh_write u (\<lambda>n. n\<lparr>nh_group_list := nh_group_list n @ [(g, 1)]\<rparr>) s, w)))"

definition sai_fib_nh_remove_group_link_node :: "addr \<Rightarrow> addr \<Rightarrow> fib_state \<Rightarrow> fib_state" where
  "sai_fib_nh_remove_group_link_node u g s =
    (case nh_mem s u of
       None \<Rightarrow> fib_crash s
     | Some n \<Rightarrow> (case link_decr g (nh_group_list n) of
          None \<Rightarrow> fib_crash s
        | Some l \<Rightarrow> nh_write u (\<lambda>n. n\<lparr>nh_group_list := l\<rparr>) s))"

definition sai_fib_nh_find_and_remove_group_node ::
  "('w, 'm, 'z) nhg_env_scheme \<Rightarrow> addr \<Rightarrow> addr \<Rightarrow> fib_state \<Rightarrow> fib_state" where
  "sai_fib_nh_find_and_remove_group_node E u g s =
    (case nh_mem s u of
       None \<Rightarrow> fib_crash s
     | Some n \<Rightarrow> if find_link_node E (nh_group_list n) g \<noteq> None
                 then sai_fib_nh_remove_group_link_node u g s else s)"

text \<open>The encap next hops that are resolved over the group follow its next hops
  (\<open>sai_l3_encap_next_hop.c\<close>).\<close>

fun nh_group_dep_add_loop ::
  "('w, 'z) fib_env_scheme \<Rightarrow> addr \<Rightarrow> addr list \<Rightarrow> fib_state \<Rightarrow> 'w \<Rightarrow> fib_state \<times> 'w" where
  "nh_group_dep_add_loop E u [] s w = (s, w)"
| "nh_group_dep_add_loop E u (e # es) s w =
    (let (_, s, w) = sai_fib_encap_next_hop_add_to_underlay_nh E e u s w
     in nh_group_dep_add_loop E u es s w)"

definition sai_fib_nh_group_dep_encap_nh_update ::
  "('w, 'z) fib_env_scheme \<Rightarrow> addr \<Rightarrow> addr \<Rightarrow> bool \<Rightarrow> fib_state \<Rightarrow> 'w \<Rightarrow> fib_state \<times> 'w" where
  "sai_fib_nh_group_dep_encap_nh_update E g u is_add s w =
    (case grp_mem s g of
       None \<Rightarrow> (fib_crash s, w)
     | Some grp \<Rightarrow>
       if is_add then nh_group_dep_add_loop E u (grp_dep_encap_nh_list grp) s w
       else (fold (\<lambda>e. sai_fib_encap_next_hop_remove_from_underlay_nh e u) (grp_dep_encap_nh_list grp) s, w))"

definition sai_fib_nh_group_add_nh_link_node ::
  "('w, 'm, 'z) nhg_env_scheme \<Rightarrow> addr \<Rightarrow> addr \<Rightarrow> fib_state \<Rightarrow> 'w \<Rightarrow> bool \<times> fib_state \<times> 'w" where
  "sai_fib_nh_group_add_nh_link_node E g u s w =
    (case grp_mem s g of
       None \<Rightarrow> (False, fib_crash s, w)
     | Some grp \<Rightarrow>
       (case find_link_node E (grp_nh_links grp) u of
          Some x \<Rightarrow> (True, grp_write g (\<lambda>gr. gr\<lparr>grp_nh_links := link_set u (x + 1) (grp_nh_links gr)\<rparr>) s, w)
        | None \<Rightarrow> let (ok, w) = calloc_ok E w in
            if \<not> ok then (False, s, w)
            else let s = grp_write g (\<lambda>gr. gr\<lparr>grp_nh_links := grp_nh_links gr @ [(u, 1)]\<rparr>) s;
                     (s, w) = sai_fib_nh_group_dep_encap_nh_update E g u True s w
                 in (True, s, w)))"

definition sai_fib_nh_group_remove_nh_link_node ::
  "('w, 'z) fib_env_scheme \<Rightarrow> addr \<Rightarrow> addr \<Rightarrow> fib_state \<Rightarrow> 'w \<Rightarrow> fib_state \<times> 'w" where
  "sai_fib_nh_group_remove_nh_link_node E g u s w =
    (case grp_mem s g of
       None \<Rightarrow> (fib_crash s, w)
     | Some grp \<Rightarrow> (case link_decr u (grp_nh_links grp) of
          None \<Rightarrow> (fib_crash s, w)
        | Some l \<Rightarrow> let s = grp_write g (\<lambda>gr. gr\<lparr>grp_nh_links := l\<rparr>) s in
            if map_of (grp_nh_links grp) u = Some 1
            then sai_fib_nh_group_dep_encap_nh_update E g u False s w
            else (s, w)))"

definition sai_fib_nh_group_find_and_remove_nh_node ::
  "('w, 'm, 'z) nhg_env_scheme \<Rightarrow> addr \<Rightarrow> addr \<Rightarrow> fib_state \<Rightarrow> 'w \<Rightarrow> fib_state \<times> 'w" where
  "sai_fib_nh_group_find_and_remove_nh_node E g u s w =
    (case grp_mem s g of
       None \<Rightarrow> (fib_crash s, w)
     | Some grp \<Rightarrow>
       if find_link_node E (grp_nh_links grp) u \<noteq> None
       then let (s, w) = sai_fib_nh_group_remove_nh_link_node E g u s w;
                s = (if nh_count grp > 0 then s else fib_crash s)
            in (grp_write g (\<lambda>gr. gr\<lparr>nh_count := nh_count gr - 1\<rparr>) s, w)
       else (s, w))"

section \<open>Lists of next hops\<close>

fun sai_fib_nh_group_remove_from_lists ::
  "('w, 'm, 'z) nhg_env_scheme \<Rightarrow> addr \<Rightarrow> addr list \<Rightarrow> fib_state \<Rightarrow> 'w \<Rightarrow> fib_state \<times> 'w" where
  "sai_fib_nh_group_remove_from_lists E g [] s w = (s, w)"
| "sai_fib_nh_group_remove_from_lists E g (u # us) s w =
    (let s = sai_fib_nh_find_and_remove_group_node E u g s;
         (s, w) = sai_fib_nh_group_find_and_remove_nh_node E g u s w;
         s = grp_write g sai_fib_decr_nh_group_ref_count s;
         s = nh_write u sai_fib_decr_nh_ref_count s
     in sai_fib_nh_group_remove_from_lists E g us s w)"

text \<open>The loop leaves at the first failure; the number of next hops that were added is its index.\<close>

fun nh_group_add_loop ::
  "('w, 'm, 'z) nhg_env_scheme \<Rightarrow> addr \<Rightarrow> addr list \<Rightarrow> nat \<Rightarrow> fib_state \<Rightarrow> 'w \<Rightarrow> nat \<times> fib_state \<times> 'w" where
  "nh_group_add_loop E g [] nh_index s w = (nh_index, s, w)"
| "nh_group_add_loop E g (u # us) nh_index s w =
    (let (ok, s, w) = sai_fib_nh_add_group_link_node E u g s w in
     if \<not> ok then (nh_index, s, w)
     else let (ok, s, w) = sai_fib_nh_group_add_nh_link_node E g u s w in
       if \<not> ok then (nh_index, sai_fib_nh_remove_group_link_node u g s, w)
     else let s = grp_write g (\<lambda>gr. gr\<lparr>nh_count := nh_count gr + 1\<rparr>) s;
              s = grp_write g sai_fib_incr_nh_group_ref_count s;
              s = nh_write u sai_fib_incr_nh_ref_count s
          in nh_group_add_loop E g us (Suc nh_index) s w)"

text \<open>A loop that fails at its first next hop is not taken for a failure.\<close>

definition sai_fib_nh_group_add_in_lists ::
  "('w, 'm, 'z) nhg_env_scheme \<Rightarrow> addr \<Rightarrow> addr list \<Rightarrow> fib_state \<Rightarrow> 'w \<Rightarrow> sai_status_t \<times> fib_state \<times> 'w" where
  "sai_fib_nh_group_add_in_lists E g us s w =
    (let (nh_index, s, w) = nh_group_add_loop E g us 0 s w in
     if nh_index \<noteq> 0 \<and> nh_index \<noteq> length us
     then let (s, w) = sai_fib_nh_group_remove_from_lists E g (take nh_index us) s w
          in (SAI_STATUS_NO_MEMORY, s, w)
     else (SAI_STATUS_SUCCESS, s, w))"

definition sai_fib_is_nh_group_size_valid :: "sai_fib_nh_group_t \<Rightarrow> uint32_t \<Rightarrow> fib_state \<Rightarrow> bool" where
  "sai_fib_is_nh_group_size_valid grp next_hop_count s \<longleftrightarrow>
     \<not> nh_count grp + next_hop_count > max_ecmp_paths s"

text \<open>The array of next hop nodes has \<open>max_ecmp_paths\<close> places; writing past them is a fault.\<close>

fun next_hop_fill_loop ::
  "('w, 'm, 'z) nhg_env_scheme \<Rightarrow> sai_fib_nh_group_t \<Rightarrow> sai_object_id_t list \<Rightarrow> bool \<Rightarrow> addr list \<Rightarrow> fib_state
     \<Rightarrow> sai_status_t \<times> addr list \<times> fib_state" where
  "next_hop_fill_loop E grp [] is_remove ap_next_hop_node s = (SAI_STATUS_SUCCESS, ap_next_hop_node, s)"
| "next_hop_fill_loop E grp (x # xs) is_remove ap_next_hop_node s =
    (if \<not> sai_is_obj_id E SAI_OBJECT_TYPE_NEXT_HOP x then (SAI_STATUS_INVALID_OBJECT_TYPE, ap_next_hop_node, s)
     else case nh_id_tree s x of
       None \<Rightarrow> (SAI_STATUS_INVALID_OBJECT_ID, ap_next_hop_node, s)
     | Some u \<Rightarrow>
       if is_remove \<and> find_link_node E (grp_nh_links grp) u = None
       then (SAI_STATUS_INVALID_OBJECT_ID, ap_next_hop_node, s)
       else next_hop_fill_loop E grp xs is_remove (ap_next_hop_node @ [u])
         (if length ap_next_hop_node < unat (max_ecmp_paths s) then s else fib_crash s))"

definition sai_fib_next_hop_fill_from_nh_id_list ::
  "('w, 'm, 'z) nhg_env_scheme \<Rightarrow> sai_fib_nh_group_t \<Rightarrow> sai_object_id_t list \<Rightarrow> bool \<Rightarrow> fib_state
     \<Rightarrow> sai_status_t \<times> addr list \<times> fib_state" where
  "sai_fib_next_hop_fill_from_nh_id_list E grp ids is_remove s =
    (if ids = [] then (SAI_STATUS_INVALID_PARAMETER, [], s)
     else next_hop_fill_loop E grp ids is_remove [] s)"

section \<open>Parsing\<close>

definition sai_fib_next_hop_group_type_validate :: "sai_next_hop_group_type_t \<Rightarrow> bool" where
  "sai_fib_next_hop_group_type_validate type = (case type of
       SAI_NEXT_HOP_GROUP_TYPE_ECMP \<Rightarrow> True
     | _ \<Rightarrow> False)"

definition sai_fib_next_hop_group_type_set ::
  "sai_fib_nh_group_t \<Rightarrow> sai_next_hop_group_type_t \<Rightarrow> bool \<Rightarrow> sai_status_t \<times> sai_fib_nh_group_t" where
  "sai_fib_next_hop_group_type_set grp type is_create_req =
    (if \<not> is_create_req then (SAI_STATUS_INVALID_ATTRIBUTE 0, grp)
     else if \<not> sai_fib_next_hop_group_type_validate type then (SAI_STATUS_INVALID_ATTR_VALUE 0, grp)
     else (SAI_STATUS_SUCCESS, grp\<lparr>grp_type := type\<rparr>))"

fun group_info_loop ::
  "('w, 'm, 'z) nhg_env_scheme \<Rightarrow> nat \<Rightarrow> sai_next_hop_group_attr_t list \<Rightarrow> bool \<Rightarrow> sai_fib_nh_group_t \<Rightarrow> bool
     \<Rightarrow> sai_status_t \<times> sai_fib_nh_group_t \<times> bool" where
  "group_info_loop E i [] is_create grp type_set = (SAI_STATUS_SUCCESS, grp, type_set)"
| "group_info_loop E i (a # as) is_create grp type_set =
    (let ((status, grp), type_set) = (case a of
         SAI_NEXT_HOP_GROUP_ATTR_TYPE type \<Rightarrow> (sai_fib_next_hop_group_type_set grp type is_create, True)
       | SAI_NEXT_HOP_GROUP_ATTR_NEXT_HOP_MEMBER_LIST _ \<Rightarrow> ((SAI_STATUS_INVALID_ATTRIBUTE 0, grp), type_set)
       | SAI_NEXT_HOP_GROUP_ATTR_NEXT_HOP_COUNT _ \<Rightarrow> ((SAI_STATUS_INVALID_ATTRIBUTE 0, grp), type_set)
       | SAI_NEXT_HOP_GROUP_ATTR_UNKNOWN _ \<Rightarrow> ((SAI_STATUS_UNKNOWN_ATTRIBUTE 0, grp), type_set))
     in if status \<noteq> SAI_STATUS_SUCCESS then (sai_fib_attr_status_code_get E status i, grp, type_set)
        else group_info_loop E (Suc i) as is_create grp type_set)"

definition sai_fib_next_hop_group_info_fill ::
  "('w, 'm, 'z) nhg_env_scheme \<Rightarrow> sai_fib_nh_group_t \<Rightarrow> sai_next_hop_group_attr_t list \<Rightarrow> bool
     \<Rightarrow> sai_status_t \<times> sai_fib_nh_group_t" where
  "sai_fib_next_hop_group_info_fill E grp attrs is_create =
    (if attrs = [] then (SAI_STATUS_INVALID_PARAMETER, grp)
     else let (status, grp, type_set) = group_info_loop E 0 attrs is_create grp False in
       if status \<noteq> SAI_STATUS_SUCCESS then (status, grp)
       else if is_create \<and> \<not> type_set then (SAI_STATUS_MANDATORY_ATTRIBUTE_MISSING, grp)
       else (SAI_STATUS_SUCCESS, grp))"

text \<open>The group id once seen, and the next hop ids so far; \<open>cap\<close> is the room of the caller's array.\<close>

fun member_info_loop ::
  "('w, 'm, 'z) nhg_env_scheme \<Rightarrow> nat \<Rightarrow> sai_next_hop_group_member_attr_t list \<Rightarrow> nat
     \<Rightarrow> sai_object_id_t option \<Rightarrow> sai_object_id_t list
     \<Rightarrow> sai_status_t \<times> sai_object_id_t option \<times> sai_object_id_t list" where
  "member_info_loop E i [] cap grp_id nh_ids = (SAI_STATUS_SUCCESS, grp_id, nh_ids)"
| "member_info_loop E i (a # as) cap grp_id nh_ids =
    (let (status, grp_id, nh_ids) = (case a of
         SAI_NEXT_HOP_GROUP_MEMBER_ATTR_NEXT_HOP_GROUP_ID x \<Rightarrow>
           if grp_id \<noteq> None \<and> grp_id \<noteq> Some x then (SAI_STATUS_INVALID_PARAMETER, grp_id, nh_ids)
           else (SAI_STATUS_SUCCESS, Some x, nh_ids)
       | SAI_NEXT_HOP_GROUP_MEMBER_ATTR_NEXT_HOP_ID x \<Rightarrow>
           if length nh_ids \<ge> cap then (SAI_STATUS_BUFFER_OVERFLOW, grp_id, nh_ids)
           else (SAI_STATUS_SUCCESS, grp_id, nh_ids @ [x])
       | SAI_NEXT_HOP_GROUP_MEMBER_ATTR_WEIGHT _ \<Rightarrow> (SAI_STATUS_NOT_SUPPORTED, grp_id, nh_ids)
       | SAI_NEXT_HOP_GROUP_MEMBER_ATTR_UNKNOWN _ \<Rightarrow> (SAI_STATUS_UNKNOWN_ATTRIBUTE 0, grp_id, nh_ids))
     in if status \<noteq> SAI_STATUS_SUCCESS then (sai_fib_attr_status_code_get E status i, grp_id, nh_ids)
        else member_info_loop E (Suc i) as cap grp_id nh_ids)"

definition sai_fib_next_hop_group_member_get_info ::
  "('w, 'm, 'z) nhg_env_scheme \<Rightarrow> sai_next_hop_group_member_attr_t list \<Rightarrow> nat
     \<Rightarrow> sai_status_t \<times> sai_object_id_t option \<times> sai_object_id_t list" where
  "sai_fib_next_hop_group_member_get_info E attrs cap =
    (if attrs = [] then (SAI_STATUS_INVALID_PARAMETER, None, [])
     else let (status, grp_id, nh_ids) = member_info_loop E 0 attrs cap None [] in
       if status \<noteq> SAI_STATUS_SUCCESS then (status, grp_id, nh_ids)
       else if grp_id = None \<or> nh_ids = [] then (SAI_STATUS_MANDATORY_ATTRIBUTE_MISSING, grp_id, nh_ids)
       else (SAI_STATUS_SUCCESS, grp_id, nh_ids))"

end
