(* ===== verification/Nhg_Calls.thy ===== *)
theory Nhg_Calls
  imports Nhg_Model
begin

text \<open>
  The calls of next hop groups and their members (\<open>sai_l3_next_hop_group.c\<close>), and the map from
  member ids to pairs of ids (\<open>sai_l3_next_hop_group_utl.c\<close>).
\<close>

section \<open>Groups\<close>

text \<open>Every link is unlinked whatever its weight; the reference counts are left alone.\<close>

fun nh_group_remove_all_loop ::
  "('w, 'm, 'z) nhg_env_scheme \<Rightarrow> addr \<Rightarrow> addr list \<Rightarrow> fib_state \<Rightarrow> 'w \<Rightarrow> fib_state \<times> 'w" where
  "nh_group_remove_all_loop E g [] s w = (s, w)"
| "nh_group_remove_all_loop E g (u # us) s w =
    (let s = grp_write g (\<lambda>gr. gr\<lparr>grp_nh_links := link_set u 1 (grp_nh_links gr)\<rparr>) s;
         (s, w) = sai_fib_nh_group_remove_nh_link_node E g u s w;
         s = (case nh_mem s u of
                None \<Rightarrow> fib_crash s
              | Some n \<Rightarrow> if find_link_node E (nh_group_list n) g \<noteq> None
                  then sai_fib_nh_remove_group_link_node u g
                    (nh_write u (\<lambda>n. n\<lparr>nh_group_list := link_set g 1 (nh_group_list n)\<rparr>) s)
                  else s)
     in nh_group_remove_all_loop E g us s w)"

definition sai_fib_nh_group_remove_all_nh ::
  "('w, 'm, 'z) nhg_env_scheme \<Rightarrow> addr \<Rightarrow> fib_state \<Rightarrow> 'w \<Rightarrow> fib_state \<times> 'w" where
  "sai_fib_nh_group_remove_all_nh E g s w =
    (case grp_mem s g of
       None \<Rightarrow> (fib_crash s, w)
     | Some grp \<Rightarrow> let (s, w) = nh_group_remove_all_loop E g (grp_nh_list grp) s w
                   in (grp_write g (\<lambda>gr. gr\<lparr>nh_count := 0\<rparr>) s, w))"

definition sai_fib_nh_group_node_free :: "addr \<Rightarrow> fib_state \<Rightarrow> fib_state" where
  "sai_fib_nh_group_node_free g s =
    (if grp_mem s g = None then fib_crash s else s\<lparr>grp_mem := (grp_mem s)(g := None)\<rparr>)"

definition nh_group_zero :: sai_fib_nh_group_t where
  \<comment> \<open>what \<open>calloc\<close> gives, with its lists initialised\<close>
  "nh_group_zero = \<lparr>group_id = 0, grp_type = SAI_NEXT_HOP_GROUP_TYPE_ECMP, nh_count = 0, grp_ref_count = 0,
     grp_nh_links = [], grp_dep_encap_nh_list = []\<rparr>"

text \<open>When the tree refuses the node, the hardware group goes again, but the status is still the
  one of the plug-in's creation.\<close>

definition nh_group_create_body ::
  "('w, 'm, 'z) nhg_env_scheme \<Rightarrow> addr \<Rightarrow> sai_next_hop_group_attr_t list \<Rightarrow> fib_state \<Rightarrow> 'w
     \<Rightarrow> sai_status_t \<times> sai_object_id_t option \<times> fib_state \<times> 'w" where
  "nh_group_create_body E g attrs s w =
    (let (status, grp) = sai_fib_next_hop_group_info_fill E nh_group_zero attrs True;
         s = grp_write g (\<lambda>_. grp) s in
     if status \<noteq> SAI_STATUS_SUCCESS then (status, None, s, w)
     else let (status, hw_id, w) = npu_nh_group_create E grp w in
       if status \<noteq> SAI_STATUS_SUCCESS then (status, None, s, w)
     else let gid = sai_uoid_create E SAI_OBJECT_TYPE_NEXT_HOP_GROUP hw_id;
              s = grp_write g (\<lambda>gr. gr\<lparr>group_id := gid\<rparr>) s;
              (ok, w) = rbtree_insert_ok E (nh_group_tree s gid \<noteq> None) w in
       if ok then (status, Some gid, s\<lparr>nh_group_tree := (nh_group_tree s)(gid \<mapsto> g)\<rparr>, w)
       else let (_, w) = npu_nh_group_remove E (grp\<lparr>group_id := gid\<rparr>) w in (status, Some gid, s, w))"

definition nh_group_create_cleanup ::
  "('w, 'm, 'z) nhg_env_scheme \<Rightarrow> addr \<Rightarrow> fib_state \<Rightarrow> 'w \<Rightarrow> fib_state \<times> 'w" where
  "nh_group_create_cleanup E g s w =
    (let (s, w) = (case grp_mem s g of
           None \<Rightarrow> (fib_crash s, w)
         | Some grp \<Rightarrow> if nh_count grp \<noteq> 0 then sai_fib_nh_group_remove_all_nh E g s w else (s, w))
     in (sai_fib_nh_group_node_free g s, w))"

definition sai_fib_next_hop_group_create ::
  "('w, 'm, 'z) nhg_env_scheme \<Rightarrow> sai_next_hop_group_attr_t list \<Rightarrow> fib_state \<Rightarrow> 'w
     \<Rightarrow> sai_status_t \<times> sai_object_id_t option \<times> fib_state \<times> 'w" where
  "sai_fib_next_hop_group_create E attrs s w =
    (let (p, w) = nh_group_node_alloc E (\<lambda>a. grp_mem s a \<noteq> None) w in
     case p of
       None \<Rightarrow> (SAI_STATUS_NO_MEMORY, None, s, w)
     | Some g \<Rightarrow>
       let s = sai_fib_lock (s\<lparr>grp_mem := (grp_mem s)(g \<mapsto> nh_group_zero)\<rparr>);
           (status, gid, s, w) = nh_group_create_body E g attrs s w;
           (s, w) = (if status \<noteq> SAI_STATUS_SUCCESS then nh_group_create_cleanup E g s w else (s, w))
       in (status, gid, sai_fib_unlock s, w))"

definition sai_fib_is_nh_group_used :: "sai_fib_nh_group_t \<Rightarrow> bool" where
  "sai_fib_is_nh_group_used grp \<longleftrightarrow> grp_ref_count grp \<noteq> 0"

definition sai_fib_next_hop_group_remove ::
  "('w, 'm, 'z) nhg_env_scheme \<Rightarrow> sai_object_id_t \<Rightarrow> fib_state \<Rightarrow> 'w \<Rightarrow> sai_status_t \<times> fib_state \<times> 'w" where
  "sai_fib_next_hop_group_remove E gid s w =
    (if \<not> sai_is_obj_id E SAI_OBJECT_TYPE_NEXT_HOP_GROUP gid then (SAI_STATUS_INVALID_OBJECT_TYPE, s, w)
     else let s = sai_fib_lock s in
       case nh_group_tree s gid of
         None \<Rightarrow> (SAI_STATUS_INVALID_OBJECT_ID, sai_fib_unlock s, w)
       | Some g \<Rightarrow>
         (case grp_mem s g of
            None \<Rightarrow> (SAI_STATUS_FAILURE, sai_fib_unlock (fib_crash s), w)
          | Some grp \<Rightarrow>
            if sai_fib_is_nh_group_used grp then (SAI_STATUS_OBJECT_IN_USE, sai_fib_unlock s, w)
            else let (status, w) = npu_nh_group_remove E grp w in
              if status \<noteq> SAI_STATUS_SUCCESS then (status, sai_fib_unlock s, w)
            else let (s, w) = (if nh_count grp \<noteq> 0 then sai_fib_nh_group_remove_all_nh E g s w else (s, w));
                     s = s\<lparr>nh_group_tree := (nh_group_tree s)(gid := None)\<rparr>;
                     s = sai_fib_nh_group_node_free g s
                 in (SAI_STATUS_SUCCESS, sai_fib_unlock s, w)))"

section \<open>Next hops of a group\<close>

definition sai_fib_next_hop_add_to_group ::
  "('w, 'm, 'z) nhg_env_scheme \<Rightarrow> sai_object_id_t \<Rightarrow> sai_object_id_t list \<Rightarrow> fib_state \<Rightarrow> 'w
     \<Rightarrow> sai_status_t \<times> fib_state \<times> 'w" where
  "sai_fib_next_hop_add_to_group E gid nh_ids s w =
    (if \<not> sai_is_obj_id E SAI_OBJECT_TYPE_NEXT_HOP_GROUP gid then (SAI_STATUS_INVALID_OBJECT_TYPE, s, w)
     else let (ok, w) = calloc_ok E w in
       if \<not> ok then (SAI_STATUS_NO_MEMORY, s, w)
     else case nh_group_tree s gid of
       None \<Rightarrow> (SAI_STATUS_INVALID_OBJECT_ID, s, w)
     | Some g \<Rightarrow>
       (case grp_mem s g of
          None \<Rightarrow> (SAI_STATUS_FAILURE, fib_crash s, w)
        | Some grp \<Rightarrow>
          if \<not> sai_fib_is_nh_group_size_valid grp (of_nat (length nh_ids)) s
          then (SAI_STATUS_INSUFFICIENT_RESOURCES, s, w)
          else let (status, us, s) = sai_fib_next_hop_fill_from_nh_id_list E grp nh_ids False s in
            if status \<noteq> SAI_STATUS_SUCCESS then (status, s, w)
          else let (status, s, w) = sai_fib_nh_group_add_in_lists E g us s w in
            if status \<noteq> SAI_STATUS_SUCCESS then (status, s, w)
          else (case grp_mem s g of
             None \<Rightarrow> (SAI_STATUS_FAILURE, fib_crash s, w)
           | Some grp \<Rightarrow>
             let (status, w) = npu_add_nh_to_group E grp us w in
             if status \<noteq> SAI_STATUS_SUCCESS
             then let (s, w) = sai_fib_nh_group_remove_from_lists E g us s w in (status, s, w)
             else (status, s, w))))"

definition sai_fib_next_hop_remove_from_group ::
  "('w, 'm, 'z) nhg_env_scheme \<Rightarrow> sai_object_id_t \<Rightarrow> sai_object_id_t list \<Rightarrow> fib_state \<Rightarrow> 'w
     \<Rightarrow> sai_status_t \<times> fib_state \<times> 'w" where
  "sai_fib_next_hop_remove_from_group E gid nh_ids s w =
    (if \<not> sai_is_obj_id E SAI_OBJECT_TYPE_NEXT_HOP_GROUP gid then (SAI_STATUS_INVALID_OBJECT_TYPE, s, w)
     else let (ok, w) = calloc_ok E w in
       if \<not> ok then (SAI_STATUS_NO_MEMORY, s, w)
     else case nh_group_tree s gid of
       None \<Rightarrow> (SAI_STATUS_INVALID_OBJECT_ID, s, w)
     | Some g \<Rightarrow>
       (case grp_mem s g of
          None \<Rightarrow> (SAI_STATUS_FAILURE, fib_crash s, w)
        | Some grp \<Rightarrow>
          let (status, us, s) = sai_fib_next_hop_fill_from_nh_id_list E grp nh_ids True s in
          if status \<noteq> SAI_STATUS_SUCCESS then (status, s, w)
          else let (status, w) = npu_remove_nh_from_group E grp us w in
            if status \<noteq> SAI_STATUS_SUCCESS then (status, s, w)
          else let (s, w) = sai_fib_nh_group_remove_from_lists E g us s w in (SAI_STATUS_SUCCESS, s, w)))"

section \<open>The map of members\<close>

definition sai_next_hop_map_insert ::
  "('w, 'm, 'z) nhg_env_scheme \<Rightarrow> sai_object_id_t \<Rightarrow> sai_object_id_t \<Rightarrow> sai_object_id_t \<Rightarrow> 'm \<Rightarrow> sai_status_t \<times> 'm" where
  "sai_next_hop_map_insert E gid nh member_id m =
    (let (rc, m) = sai_map_insert E (SAI_MAP_TYPE_NH_GRP_2_MEMBER_LIST gid) (member_id, 0) m in
     if rc \<noteq> SAI_STATUS_SUCCESS then (rc, m)
     else sai_map_insert E (SAI_MAP_TYPE_NH_MEMBER_2_GRP_INFO member_id) (gid, nh) m)"

definition sai_next_hop_map_remove ::
  "('w, 'm, 'z) nhg_env_scheme \<Rightarrow> sai_object_id_t \<Rightarrow> sai_object_id_t \<Rightarrow> sai_object_id_t \<Rightarrow> 'm \<Rightarrow> sai_status_t \<times> 'm" where
  "sai_next_hop_map_remove E gid nh member_id m =
    (let key = SAI_MAP_TYPE_NH_GRP_2_MEMBER_LIST gid;
         m = sai_map_delete_elements E key (member_id, 0) m;
         (rc, count) = sai_map_get_val_count E key m;
         m = (if rc = SAI_STATUS_SUCCESS \<and> count = 0 then sai_map_delete E key m else m)
     in (SAI_STATUS_SUCCESS, sai_map_delete E (SAI_MAP_TYPE_NH_MEMBER_2_GRP_INFO member_id) m))"

text \<open>The one datum is zero unless the map wrote it.\<close>

definition sai_next_hop_map_get_ids_from_member_id ::
  "('w, 'm, 'z) nhg_env_scheme \<Rightarrow> sai_object_id_t \<Rightarrow> 'm \<Rightarrow> sai_status_t \<times> sai_map_data_t" where
  "sai_next_hop_map_get_ids_from_member_id E member_id m =
    (let (rc, _, ds) = sai_map_get E (SAI_MAP_TYPE_NH_MEMBER_2_GRP_INFO member_id) 1 m in
     if rc \<noteq> SAI_STATUS_SUCCESS then (rc, (0, 0))
     else (SAI_STATUS_SUCCESS, case ds of [] \<Rightarrow> (0, 0) | d # _ \<Rightarrow> d))"

definition sai_next_hop_map_get_member_list ::
  "('w, 'm, 'z) nhg_env_scheme \<Rightarrow> sai_object_id_t \<Rightarrow> uint32_t \<Rightarrow> 'm
     \<Rightarrow> sai_status_t \<times> uint32_t \<times> sai_object_id_t list" where
  "sai_next_hop_map_get_member_list E gid count m =
    (let (rc, n, ds) = sai_map_get E (SAI_MAP_TYPE_NH_GRP_2_MEMBER_LIST gid) count m in
     if rc \<noteq> SAI_STATUS_SUCCESS then (rc, count, [])
     else if n > count then (SAI_STATUS_FAILURE, count, [])
     else (SAI_STATUS_SUCCESS, n, map fst (take (unat n) (ds @ replicate (unat n) (0, 0)))))"

definition sai_next_hop_map_get_count ::
  "('w, 'm, 'z) nhg_env_scheme \<Rightarrow> sai_object_id_t \<Rightarrow> 'm \<Rightarrow> sai_status_t \<times> uint32_t" where
  "sai_next_hop_map_get_count E gid m = sai_map_get_val_count E (SAI_MAP_TYPE_NH_GRP_2_MEMBER_LIST gid) m"

section \<open>Attributes of a group\<close>

definition sai_fib_next_hop_group_attribute_set ::
  "sai_object_id_t \<Rightarrow> sai_next_hop_group_attr_t \<Rightarrow> sai_status_t" where
  "sai_fib_next_hop_group_attribute_set gid attr = SAI_STATUS_NOT_IMPLEMENTED"

text \<open>The caller's list and its capacity; on overflow the capacity is the number of members.\<close>

definition sai_next_hop_get_member_list ::
  "('w, 'm, 'z) nhg_env_scheme \<Rightarrow> sai_object_list_t \<Rightarrow> sai_object_id_t \<Rightarrow> 'm \<Rightarrow> sai_status_t \<times> sai_object_list_t" where
  "sai_next_hop_get_member_list E obj_list gid m =
    (let (rc, nh_count) = sai_next_hop_map_get_count E gid m in
     if rc \<noteq> SAI_STATUS_SUCCESS then (rc, obj_list)
     else if ol_count obj_list < nh_count then (SAI_STATUS_BUFFER_OVERFLOW, obj_list\<lparr>ol_count := nh_count\<rparr>)
     else let (rc, nh_count, ids) = sai_next_hop_map_get_member_list E gid nh_count m
          in (rc, obj_list\<lparr>ol_list := ids @ drop (length ids) (ol_list obj_list), ol_count := nh_count\<rparr>))"

definition nh_group_attribute_answer ::
  "('w, 'm, 'z) nhg_env_scheme \<Rightarrow> sai_object_id_t \<Rightarrow> sai_fib_nh_group_t \<Rightarrow> 'm \<Rightarrow> sai_next_hop_group_attr_t
     \<Rightarrow> sai_status_t \<times> sai_next_hop_group_attr_t" where
  "nh_group_attribute_answer E gid grp m a = (case a of
       SAI_NEXT_HOP_GROUP_ATTR_NEXT_HOP_COUNT _ \<Rightarrow>
         (SAI_STATUS_SUCCESS, SAI_NEXT_HOP_GROUP_ATTR_NEXT_HOP_COUNT (nh_count grp))
     | SAI_NEXT_HOP_GROUP_ATTR_NEXT_HOP_MEMBER_LIST l \<Rightarrow>
         let (rc, l) = sai_next_hop_get_member_list E l gid m
         in (rc, SAI_NEXT_HOP_GROUP_ATTR_NEXT_HOP_MEMBER_LIST l)
     | SAI_NEXT_HOP_GROUP_ATTR_TYPE _ \<Rightarrow> (SAI_STATUS_SUCCESS, SAI_NEXT_HOP_GROUP_ATTR_TYPE (grp_type grp))
     | SAI_NEXT_HOP_GROUP_ATTR_UNKNOWN n \<Rightarrow> (SAI_STATUS_UNKNOWN_ATTRIBUTE 0, a))"

fun nh_group_attribute_get_loop ::
  "('w, 'm, 'z) nhg_env_scheme \<Rightarrow> sai_object_id_t \<Rightarrow> sai_fib_nh_group_t \<Rightarrow> 'm \<Rightarrow> nat \<Rightarrow> sai_next_hop_group_attr_t list
     \<Rightarrow> sai_status_t \<times> sai_next_hop_group_attr_t list" where
  "nh_group_attribute_get_loop E gid grp m i [] = (SAI_STATUS_SUCCESS, [])"
| "nh_group_attribute_get_loop E gid grp m i (a # as) =
    (let (status, a) = nh_group_attribute_answer E gid grp m a in
     if status \<noteq> SAI_STATUS_SUCCESS then (sai_fib_attr_status_code_get E status i, a # as)
     else let (status, as) = nh_group_attribute_get_loop E gid grp m (Suc i) as in (status, a # as))"

definition sai_fib_next_hop_group_attribute_get ::
  "('w, 'm, 'z) nhg_env_scheme \<Rightarrow> sai_object_id_t \<Rightarrow> sai_next_hop_group_attr_t list \<Rightarrow> 'm nhg_state
     \<Rightarrow> sai_status_t \<times> sai_next_hop_group_attr_t list \<times> 'm nhg_state" where
  "sai_fib_next_hop_group_attribute_get E gid attrs s =
    (if \<not> sai_is_obj_id E SAI_OBJECT_TYPE_NEXT_HOP_GROUP gid then (SAI_STATUS_INVALID_OBJECT_TYPE, attrs, s)
     else if attrs = [] then (SAI_STATUS_INVALID_PARAMETER, attrs, s)
     else let f = sai_fib_lock (nhg_fib s) in
       case nh_group_tree f gid of
         None \<Rightarrow> (SAI_STATUS_INVALID_OBJECT_ID, attrs, s\<lparr>nhg_fib := sai_fib_unlock f\<rparr>)
       | Some g \<Rightarrow>
         (case grp_mem f g of
            None \<Rightarrow> (SAI_STATUS_FAILURE, attrs, s\<lparr>nhg_fib := sai_fib_unlock (fib_crash f)\<rparr>)
          | Some grp \<Rightarrow>
            let (status, attrs) = nh_group_attribute_get_loop E gid grp (sai_map s) 0 attrs
            in (status, attrs, s\<lparr>nhg_fib := sai_fib_unlock f\<rparr>)))"

section \<open>Members\<close>

definition sai_fib_is_next_hop_grp_member_id_in_use ::
  "('w, 'm, 'z) nhg_env_scheme \<Rightarrow> 'm \<Rightarrow> 64 word \<Rightarrow> bool" where
  "sai_fib_is_next_hop_grp_member_id_in_use E m obj_id \<longleftrightarrow>
     fst (sai_next_hop_map_get_ids_from_member_id E
       (sai_uoid_create E SAI_OBJECT_TYPE_NEXT_HOP_GROUP_MEMBER obj_id) m) = SAI_STATUS_SUCCESS"

text \<open>The null id when there is no free one.\<close>

definition sai_fib_generate_next_hop_grp_member_id ::
  "('w, 'm, 'z) nhg_env_scheme \<Rightarrow> 'm nhg_state \<Rightarrow> sai_object_id_t \<times> 'm nhg_state" where
  "sai_fib_generate_next_hop_grp_member_id E s =
    (let (rc, gen) = dn_sai_get_next_free_id E (sai_fib_is_next_hop_grp_member_id_in_use E (sai_map s))
                       (next_hop_grp_member_gen_info s);
         s = s\<lparr>next_hop_grp_member_gen_info := gen\<rparr>
     in if rc = SAI_STATUS_SUCCESS
        then (sai_uoid_create E SAI_OBJECT_TYPE_NEXT_HOP_GROUP_MEMBER (cur_id gen), s)
        else (0, s))"

definition sai_fib_next_hop_grp_member_gen_info_init ::
  "('w, 'm, 'z) nhg_env_scheme \<Rightarrow> 'm nhg_state \<Rightarrow> 'm nhg_state" where
  "sai_fib_next_hop_grp_member_gen_info_init E s = s\<lparr>next_hop_grp_member_gen_info :=
     \<lparr>cur_id = 0, is_wrappped = False, id_mask = uoid_npu_obj_id_mask E\<rparr>\<rparr>"

text \<open>A failure after the next hop is in the group undoes nothing.\<close>

definition nh_group_member_create_body ::
  "('w, 'm, 'z) nhg_env_scheme \<Rightarrow> sai_next_hop_group_member_attr_t list \<Rightarrow> 'm nhg_state \<Rightarrow> 'w
     \<Rightarrow> sai_status_t \<times> sai_object_id_t option \<times> 'm nhg_state \<times> 'w" where
  "nh_group_member_create_body E attrs s w =
    (let (rc, gid, nh_ids) = sai_fib_next_hop_group_member_get_info E attrs 1 in
     if rc \<noteq> SAI_STATUS_SUCCESS then (rc, None, s, w)
     else let gid = the gid;
              (rc, f, w) = sai_fib_next_hop_add_to_group E gid nh_ids (nhg_fib s) w;
              s = s\<lparr>nhg_fib := f\<rparr> in
       if rc \<noteq> SAI_STATUS_SUCCESS then (rc, None, s, w)
     else let (member_id, s) = sai_fib_generate_next_hop_grp_member_id E s in
       if member_id = 0 then (SAI_STATUS_FAILURE, Some member_id, s, w)
     else let (rc, m) = sai_next_hop_map_insert E gid (hd nh_ids) member_id (sai_map s)
          in (rc, Some member_id, s\<lparr>sai_map := m\<rparr>, w))"

definition sai_fib_next_hop_group_member_create ::
  "('w, 'm, 'z) nhg_env_scheme \<Rightarrow> sai_next_hop_group_member_attr_t list \<Rightarrow> 'm nhg_state \<Rightarrow> 'w
     \<Rightarrow> sai_status_t \<times> sai_object_id_t option \<times> 'm nhg_state \<times> 'w" where
  "sai_fib_next_hop_group_member_create E attrs s w =
    (let (rc, member_id, s, w) = nh_group_member_create_body E attrs (s\<lparr>nhg_fib := sai_fib_lock (nhg_fib s)\<rparr>) w
     in (rc, member_id, s\<lparr>nhg_fib := sai_fib_unlock (nhg_fib s)\<rparr>, w))"

definition nh_group_member_remove_body ::
  "('w, 'm, 'z) nhg_env_scheme \<Rightarrow> sai_object_id_t \<Rightarrow> 'm nhg_state \<Rightarrow> 'w \<Rightarrow> sai_status_t \<times> 'm nhg_state \<times> 'w" where
  "nh_group_member_remove_body E member_id s w =
    (if \<not> sai_is_obj_id E SAI_OBJECT_TYPE_NEXT_HOP_GROUP_MEMBER member_id
     then (SAI_STATUS_INVALID_OBJECT_TYPE, s, w)
     else let (rc, gid, nh) = sai_next_hop_map_get_ids_from_member_id E member_id (sai_map s) in
       if rc \<noteq> SAI_STATUS_SUCCESS then (rc, s, w)
     else let (rc, f, w) = sai_fib_next_hop_remove_from_group E gid [nh] (nhg_fib s) w;
              s = s\<lparr>nhg_fib := f\<rparr> in
       if rc \<noteq> SAI_STATUS_SUCCESS then (rc, s, w)
     else (rc, s\<lparr>sai_map := snd (sai_next_hop_map_remove E gid nh member_id (sai_map s))\<rparr>, w))"

definition sai_fib_next_hop_group_member_remove ::
  "('w, 'm, 'z) nhg_env_scheme \<Rightarrow> sai_object_id_t \<Rightarrow> 'm nhg_state \<Rightarrow> 'w \<Rightarrow> sai_status_t \<times> 'm nhg_state \<times> 'w" where
  "sai_fib_next_hop_group_member_remove E member_id s w =
    (let (rc, s, w) = nh_group_member_remove_body E member_id (s\<lparr>nhg_fib := sai_fib_lock (nhg_fib s)\<rparr>) w
     in (rc, s\<lparr>nhg_fib := sai_fib_unlock (nhg_fib s)\<rparr>, w))"

text \<open>Locks and unlocks; nothing can be set.\<close>

definition sai_fib_next_hop_group_member_attribute_set ::
  "sai_object_id_t \<Rightarrow> sai_next_hop_group_member_attr_t \<Rightarrow> 'm nhg_state \<Rightarrow> sai_status_t \<times> 'm nhg_state" where
  "sai_fib_next_hop_group_member_attribute_set member_id attr s =
    ((case attr of
        SAI_NEXT_HOP_GROUP_MEMBER_ATTR_NEXT_HOP_GROUP_ID _ \<Rightarrow> SAI_STATUS_INVALID_PARAMETER
      | SAI_NEXT_HOP_GROUP_MEMBER_ATTR_NEXT_HOP_ID _ \<Rightarrow> SAI_STATUS_INVALID_PARAMETER
      | SAI_NEXT_HOP_GROUP_MEMBER_ATTR_WEIGHT _ \<Rightarrow> SAI_STATUS_NOT_SUPPORTED
      | SAI_NEXT_HOP_GROUP_MEMBER_ATTR_UNKNOWN _ \<Rightarrow> SAI_STATUS_UNKNOWN_ATTRIBUTE 0),
     s\<lparr>nhg_fib := sai_fib_unlock (sai_fib_lock (nhg_fib s))\<rparr>)"

text \<open>An unknown attribute is skipped with the status as it was, which is success.\<close>

definition nh_group_member_answer ::
  "sai_object_id_t \<Rightarrow> sai_object_id_t \<Rightarrow> sai_next_hop_group_member_attr_t
     \<Rightarrow> sai_status_t \<times> sai_next_hop_group_member_attr_t" where
  "nh_group_member_answer gid nh a = (case a of
       SAI_NEXT_HOP_GROUP_MEMBER_ATTR_NEXT_HOP_GROUP_ID _ \<Rightarrow>
         (SAI_STATUS_SUCCESS, SAI_NEXT_HOP_GROUP_MEMBER_ATTR_NEXT_HOP_GROUP_ID gid)
     | SAI_NEXT_HOP_GROUP_MEMBER_ATTR_NEXT_HOP_ID _ \<Rightarrow>
         (SAI_STATUS_SUCCESS, SAI_NEXT_HOP_GROUP_MEMBER_ATTR_NEXT_HOP_ID nh)
     | SAI_NEXT_HOP_GROUP_MEMBER_ATTR_WEIGHT _ \<Rightarrow> (SAI_STATUS_NOT_SUPPORTED, a)
     | SAI_NEXT_HOP_GROUP_MEMBER_ATTR_UNKNOWN _ \<Rightarrow> (SAI_STATUS_SUCCESS, a))"

text \<open>The loop raises \<open>attr_count\<close> instead of \<open>attr_index\<close>, which stays zero: it answers the first attribute
  again and again until the 32-bit count wraps to zero.  The last component counts the rounds; it is not
  in the code.\<close>

function nh_group_member_get_loop ::
  "sai_object_id_t \<Rightarrow> sai_object_id_t \<Rightarrow> uint32_t \<Rightarrow> sai_next_hop_group_member_attr_t list \<Rightarrow> nat
     \<Rightarrow> sai_status_t \<times> sai_next_hop_group_member_attr_t list \<times> nat" where
  "nh_group_member_get_loop gid nh attr_count attrs rounds =
    (if \<not> 0 < attr_count then (SAI_STATUS_SUCCESS, attrs, rounds)
     else let (status, a) = nh_group_member_answer gid nh (hd attrs);
              attrs = a # tl attrs in
       if status \<noteq> SAI_STATUS_SUCCESS then (status, attrs, Suc rounds)
       else nh_group_member_get_loop gid nh (attr_count + 1) attrs (Suc rounds))"
  by pat_completeness auto

definition member_rounds :: "uint32_t \<Rightarrow> nat" where
  "member_rounds attr_count = (if attr_count = 0 then 0 else 2 ^ 32 - unat attr_count)"

lemma member_rounds_next: "attr_count \<noteq> 0 \<Longrightarrow> member_rounds attr_count = Suc (member_rounds (attr_count + 1))"
proof -
  assume c: "attr_count \<noteq> 0"
  have b: "unat attr_count < 2 ^ 32" using unsigned_less [of attr_count] by simp
  show ?thesis
  proof (cases "attr_count + 1 = 0")
    case True
    then have "unat attr_count = 2 ^ 32 - 1" by (simp add: add_eq_0_iff2 unsigned_minus_1_eq_mask mask_eq_exp_minus_1)
    with True c show ?thesis by (simp add: member_rounds_def)
  next
    case False
    then have "unat (attr_count + 1) = Suc (unat attr_count)" using unatSuc [of attr_count] by (simp add: add.commute)
    with False c b unsigned_less [of "attr_count + 1"] show ?thesis by (simp add: member_rounds_def)
  qed
qed

termination nh_group_member_get_loop
  by (relation "measure (\<lambda>(gid, nh, attr_count, attrs, rounds). member_rounds attr_count)")
    (auto simp: member_rounds_next word_gt_0)

declare nh_group_member_get_loop.simps [simp del]

definition sai_fib_next_hop_group_member_attribute_get ::
  "('w, 'm, 'z) nhg_env_scheme \<Rightarrow> sai_object_id_t \<Rightarrow> uint32_t \<Rightarrow> sai_next_hop_group_member_attr_t list \<Rightarrow> 'm nhg_state
     \<Rightarrow> sai_status_t \<times> sai_next_hop_group_member_attr_t list \<times> 'm nhg_state" where
  "sai_fib_next_hop_group_member_attribute_get E member_id attr_count attrs s =
    (if attr_count = 0 then (SAI_STATUS_INVALID_PARAMETER, attrs, s)
     else let s = s\<lparr>nhg_fib := sai_fib_lock (nhg_fib s)\<rparr>;
              (status, gid, nh) = sai_next_hop_map_get_ids_from_member_id E member_id (sai_map s);
              (status, attrs) =
                (if status \<noteq> SAI_STATUS_SUCCESS then (status, attrs)
                 else let (status, attrs, _) = nh_group_member_get_loop gid nh attr_count attrs 0
                      in (status, attrs))
          in (status, attrs, s\<lparr>nhg_fib := sai_fib_unlock (nhg_fib s)\<rparr>))"

definition sai_fib_next_hop_group_member_create_bulk :: sai_status_t where
  "sai_fib_next_hop_group_member_create_bulk = SAI_STATUS_NOT_IMPLEMENTED"

definition sai_fib_next_hop_group_member_remove_bulk :: sai_status_t where
  "sai_fib_next_hop_group_member_remove_bulk = SAI_STATUS_NOT_IMPLEMENTED"

end
