(* ===== verification/Nhg_Links.thy ===== *)
theory Nhg_Links
  imports Nhg_Calls Fib_Inv
begin

text \<open>
  Weighted link lists, and the two updates that a next hop joining or leaving a group amounts to.
\<close>

section \<open>Link lists\<close>

definition link_weight :: "sai_fib_wt_link_node_t list \<Rightarrow> addr \<Rightarrow> nat" where
  "link_weight l a = (case map_of l a of None \<Rightarrow> 0 | Some x \<Rightarrow> unat x)"

text \<open>One node for each address, and none of weight zero.\<close>

definition links_wf :: "sai_fib_wt_link_node_t list \<Rightarrow> bool" where
  "links_wf l \<longleftrightarrow> distinct (map fst l) \<and> (\<forall>x\<in>set l. snd x \<noteq> 0)"

definition link_add :: "addr \<Rightarrow> sai_fib_wt_link_node_t list \<Rightarrow> sai_fib_wt_link_node_t list" where
  "link_add a l = (case map_of l a of Some x \<Rightarrow> link_set a (x + 1) l | None \<Rightarrow> l @ [(a, 1)])"

definition link_sub :: "addr \<Rightarrow> sai_fib_wt_link_node_t list \<Rightarrow> sai_fib_wt_link_node_t list" where
  "link_sub a l = (case link_decr a l of Some l' \<Rightarrow> l' | None \<Rightarrow> l)"

lemma links_wf_Nil [simp]: "links_wf []" "link_weight [] a = 0"
  by (simp_all add: links_wf_def link_weight_def)

lemma link_set_keys [simp]: "map fst (link_set a x l) = map fst l"
  by (induction a x l rule: link_set.induct) auto

lemma link_set_map_of: "map_of (link_set a x l) b = (if b = a \<and> map_of l a \<noteq> None then Some x else map_of l b)"
  by (induction a x l rule: link_set.induct) auto

lemma link_set_nonzero: "x \<noteq> 0 \<Longrightarrow> \<forall>y\<in>set l. snd y \<noteq> 0 \<Longrightarrow> \<forall>y\<in>set (link_set a x l). snd y \<noteq> 0"
  by (induction a x l rule: link_set.induct) auto

lemma link_set_total: "map_of l a = Some y \<Longrightarrow> link_total (link_set a x l) + unat y = link_total l + unat x"
  by (induction a x l rule: link_set.induct) (auto simp: link_total_def split: if_splits)

lemma link_set_twice [simp]: "link_set a x (link_set a y l) = link_set a x l"
  by (induction a x l rule: link_set.induct) auto

lemma link_set_same: "map_of l a = Some x \<Longrightarrow> link_set a x l = l"
  by (induction a x l rule: link_set.induct) (auto split: if_splits)

lemma link_drop_keys [simp]: "map fst (link_drop a l) = remove1 a (map fst l)"
  by (induction a l rule: link_drop.induct) auto

lemma link_drop_subset: "set (link_drop a l) \<subseteq> set l"
  by (induction a l rule: link_drop.induct) auto

lemma link_drop_map_of:
  "distinct (map fst l) \<Longrightarrow> map_of (link_drop a l) b = (if b = a then None else map_of l b)"
proof (induction a l rule: link_drop.induct)
  case (2 a b y l)
  have "map_of l b = None" if "b \<notin> fst ` set l" using that by (simp add: map_of_eq_None_iff)
  with 2 show ?case by auto
qed simp

lemma link_drop_total: "map_of l a = Some y \<Longrightarrow> link_total (link_drop a l) + unat y = link_total l"
  by (induction a l rule: link_drop.induct) (auto simp: link_total_def split: if_splits)

lemma link_drop_back: "a \<notin> fst ` set l \<Longrightarrow> link_drop a (l @ [(a, x)]) = l"
  by (induction l) auto

lemma links_wf_nonzero: "links_wf l \<Longrightarrow> map_of l a = Some x \<Longrightarrow> x \<noteq> 0"
  by (auto simp: links_wf_def dest!: map_of_SomeD)

lemma link_weight_le: "link_weight l a \<le> link_total l"
  by (induction l) (auto simp: link_weight_def link_total_def split: option.splits if_splits)

lemma link_weight_pos: "links_wf l \<Longrightarrow> 0 < link_weight l a \<longleftrightarrow> a \<in> fst ` set l"
  using links_wf_nonzero [of l a] map_of_eq_None_iff [of l a]
  by (auto simp: link_weight_def unat_gt_0 split: option.split)

lemma uint32_succ: "unat (x :: uint32_t) + 1 < 2 ^ 32 \<Longrightarrow> unat (x + 1) = unat x + 1"
  by (simp add: unat_word_ariths)

lemma link_add:
  assumes "links_wf l" and "link_total l + 1 < 2 ^ 32"
  shows "links_wf (link_add a l)" "link_weight (link_add a l) b = link_weight l b + (if b = a then 1 else 0)"
    "link_total (link_add a l) = link_total l + 1"
proof -
  have "links_wf (link_add a l) \<and> link_weight (link_add a l) b = link_weight l b + (if b = a then 1 else 0)
    \<and> link_total (link_add a l) = link_total l + 1"
  proof (cases "map_of l a")
    case None
    then have "a \<notin> fst ` set l" by (simp add: map_of_eq_None_iff)
    with assms(1) None show ?thesis
      by (auto simp: link_add_def links_wf_def link_weight_def link_total_def map_add_def split: option.split)
  next
    case (Some x)
    then have "unat x \<le> link_total l" using link_weight_le [of l a] by (simp add: link_weight_def)
    with assms(2) have x: "unat (x + 1) = unat x + 1" by (intro uint32_succ) simp
    then have "x + 1 \<noteq> 0" by auto
    with assms(1) Some x show ?thesis
      using link_set_nonzero [of "x + 1" l a] link_set_total [OF Some, of "x + 1"]
      by (auto simp: link_add_def links_wf_def link_weight_def link_set_map_of split: option.split)
  qed
  then show "links_wf (link_add a l)" "link_weight (link_add a l) b = link_weight l b + (if b = a then 1 else 0)"
    "link_total (link_add a l) = link_total l + 1" by blast+
qed

lemma link_decr:
  assumes "links_wf l" and "0 < link_weight l a"
  shows "link_decr a l = Some (link_sub a l)" "links_wf (link_sub a l)"
    "link_weight (link_sub a l) b = link_weight l b - (if b = a then 1 else 0)"
    "link_total (link_sub a l) + 1 = link_total l"
proof -
  obtain x where x: "map_of l a = Some x" "0 < unat x"
    using assms(2) by (auto simp: link_weight_def split: option.splits)
  then have x0: "0 < x" by (simp add: unat_gt_0 word_gt_0)
  then have u: "unat (x - 1) = unat x - 1" by (metis unat_minus_one word_greater_zero_iff)
  have "link_decr a l = Some (link_sub a l) \<and> links_wf (link_sub a l)
    \<and> link_weight (link_sub a l) b = link_weight l b - (if b = a then 1 else 0)
    \<and> link_total (link_sub a l) + 1 = link_total l"
  proof (cases "x - 1 = 0")
    case True
    then have "unat x = 1" using u x(2) by simp
    then show ?thesis
      using True x x0 assms(1) link_drop_subset [of a l] link_drop_total [OF x(1)]
      by (auto simp: link_sub_def link_decr_def links_wf_def link_weight_def link_drop_map_of split: option.split)
  next
    case False
    then show ?thesis
      using x x0 assms(1) u link_set_nonzero [of "x - 1" l a] link_set_total [OF x(1), of "x - 1"]
      by (auto simp: link_sub_def link_decr_def links_wf_def link_weight_def link_set_map_of split: option.split)
  qed
  then show "link_decr a l = Some (link_sub a l)" "links_wf (link_sub a l)"
    "link_weight (link_sub a l) b = link_weight l b - (if b = a then 1 else 0)"
    "link_total (link_sub a l) + 1 = link_total l" by blast+
qed

lemma link_add_undo:
  assumes "links_wf l" and "link_total l + 1 < 2 ^ 32"
  shows "link_decr a (link_add a l) = Some l" "link_sub a (link_add a l) = l"
proof -
  show d: "link_decr a (link_add a l) = Some l"
  proof (cases "map_of l a")
    case None
    then have "a \<notin> fst ` set l" by (simp add: map_of_eq_None_iff)
    with None show ?thesis
      by (simp add: link_add_def link_decr_def link_drop_back map_add_def)
  next
    case (Some x)
    then have "unat x \<le> link_total l" using link_weight_le [of l a] by (simp add: link_weight_def)
    with assms(2) have "unat (x + 1) = unat x + 1" by (intro uint32_succ) simp
    then have "0 < x + 1" by (metis unat_gt_0 word_gt_0 add_gr_0 zero_less_one)
    with Some links_wf_nonzero [OF assms(1) Some] show ?thesis
      by (simp add: link_add_def link_decr_def link_set_map_of link_set_same)
  qed
  then show "link_sub a (link_add a l) = l" by (simp add: link_sub_def)
qed

end
