(* ===== verification/Nhg_Inv.thy ===== *)
theory Nhg_Inv
  imports Nhg_Links
begin

text \<open>
  The invariant of next hop groups: the links of groups and next hops mirror each other, and the
  reference counts cover links and routes.  It is kept by a next hop joining or leaving a group.
\<close>

section \<open>The invariant\<close>

definition grp_links :: "fib_state \<Rightarrow> addr \<Rightarrow> sai_fib_wt_link_node_t list" where
  "grp_links s g = (case grp_mem s g of None \<Rightarrow> [] | Some grp \<Rightarrow> grp_nh_links grp)"

definition nh_links :: "fib_state \<Rightarrow> addr \<Rightarrow> sai_fib_wt_link_node_t list" where
  "nh_links s u = (case nh_mem s u of None \<Rightarrow> [] | Some n \<Rightarrow> nh_group_list n)"

definition links_mirror :: "fib_state \<Rightarrow> bool" where
  "links_mirror s \<longleftrightarrow> (\<forall>g. links_wf (grp_links s g)) \<and> (\<forall>u. links_wf (nh_links s u))
     \<and> (\<forall>g u. link_weight (grp_links s g) u = link_weight (nh_links s u) g)
     \<and> (\<forall>g grp. grp_mem s g = Some grp \<longrightarrow> unat (nh_count grp) = link_total (grp_nh_links grp))"

definition groups_named :: "fib_state \<Rightarrow> bool" where
  "groups_named s \<longleftrightarrow> (\<forall>x g. nh_group_tree s x = Some g \<longrightarrow> (\<exists>grp. grp_mem s g = Some grp \<and> group_id grp = x))"

definition nhg_inv :: "fib_state \<Rightarrow> bool" where
  "nhg_inv s \<longleftrightarrow> fib_inv s \<and> links_mirror s \<and> groups_named s"

lemma core_links [simp]:
  "nh_group_list (nh_core n) = nh_group_list n" "grp_nh_links (grp_core gr) = grp_nh_links gr"
  "nh_count (grp_core gr) = nh_count gr" "group_id (grp_core gr) = group_id gr"
  by (simp_all add: nh_core_def grp_core_def)

lemma links_core [simp]: "grp_links (fib_core s) g = grp_links s g" "nh_links (fib_core s) u = nh_links s u"
  by (simp_all add: grp_links_def nh_links_def split: option.split)

lemma all_mapped: "(\<forall>y. (\<exists>z. P z \<and> f z = y) \<longrightarrow> Q y) \<longleftrightarrow> (\<forall>z. P z \<longrightarrow> Q (f z))"
  by blast

lemma nhg_core_iff: "nhg_inv (fib_core s) = nhg_inv s"
proof -
  have "fib_inv (fib_core s) = fib_inv s"
    using inv_core [of s "fib_core s"] inv_core [of "fib_core s" s] by (auto simp: fib_core_def)
  moreover have "links_mirror (fib_core s) = links_mirror s" by (simp add: links_mirror_def all_mapped)
  moreover have "groups_named (fib_core s) = groups_named s" 
    unfolding groups_named_def by (simp add: conj_commute) (metis (no_types, lifting) core_links(4))
  ultimately show ?thesis by (simp add: nhg_inv_def)
qed

lemma nhg_core: "fib_core s' = fib_core t \<Longrightarrow> nhg_inv t \<Longrightarrow> nhg_inv s'"
  by (metis nhg_core_iff)

lemma named_once:
  assumes "groups_named s" "nh_group_tree s x = Some g" "nh_group_tree s y = Some g"
  shows "x = y"
proof -
  obtain gr gr' where "grp_mem s g = Some gr" "group_id gr = x" "grp_mem s g = Some gr'" "group_id gr' = y"
    using assms unfolding groups_named_def by blast
  then show ?thesis by simp
qed

text \<open>Only the nodes, the trees and the routes matter.\<close>

lemma nhg_cong:
  assumes "vrf_tree s' = vrf_tree s" "route_mem s' = route_mem s" "nh_mem s' = nh_mem s"
    "grp_mem s' = grp_mem s" "nh_id_tree s' = nh_id_tree s" "nh_group_tree s' = nh_group_tree s"
  shows "nhg_inv s' = nhg_inv s"
proof -
  have "route_at s' = route_at s" using assms by (simp add: route_at_def fun_eq_iff)
  moreover have "users s' = users s" using assms by (simp add: users_def fun_eq_iff)
  moreover have "count_of s' = count_of s" by (rule count_of_mem [OF assms(3,4)])
  moreover have "held s' = held s" by (rule held_mem [OF assms(3,4)])
  ultimately show ?thesis using assms
    by (simp add: nhg_inv_def fib_inv_def fib_wf_def refs_ok_def ids_ok_def links_mirror_def groups_named_def
      grp_links_def nh_links_def)
qed

lemma nhg_lock [simp]: "nhg_inv (sai_fib_lock s) = nhg_inv s" "nhg_inv (sai_fib_unlock s) = nhg_inv s"
  by (rule nhg_cong; simp add: sai_fib_lock_def sai_fib_unlock_def)+

section \<open>Joining and leaving\<close>

definition grp_join :: "addr \<Rightarrow> sai_fib_nh_group_t \<Rightarrow> sai_fib_nh_group_t" where
  "grp_join u gr = gr\<lparr>grp_nh_links := link_add u (grp_nh_links gr), nh_count := nh_count gr + 1,
     grp_ref_count := grp_ref_count gr + 1\<rparr>"

definition nh_join :: "addr \<Rightarrow> sai_fib_nh_t \<Rightarrow> sai_fib_nh_t" where
  "nh_join g n = n\<lparr>nh_group_list := link_add g (nh_group_list n), ref_count := ref_count n + 1\<rparr>"

definition grp_leave :: "addr \<Rightarrow> sai_fib_nh_group_t \<Rightarrow> sai_fib_nh_group_t" where
  "grp_leave u gr = gr\<lparr>grp_nh_links := link_sub u (grp_nh_links gr), nh_count := nh_count gr - 1,
     grp_ref_count := grp_ref_count gr - 1\<rparr>"

definition nh_leave :: "addr \<Rightarrow> sai_fib_nh_t \<Rightarrow> sai_fib_nh_t" where
  "nh_leave g n = n\<lparr>nh_group_list := link_sub g (nh_group_list n), ref_count := ref_count n - 1\<rparr>"

text \<open>Both nodes are rewritten.\<close>

definition both :: "addr \<Rightarrow> (sai_fib_nh_group_t \<Rightarrow> sai_fib_nh_group_t) \<Rightarrow> addr \<Rightarrow> (sai_fib_nh_t \<Rightarrow> sai_fib_nh_t)
    \<Rightarrow> fib_state \<Rightarrow> fib_state" where
  "both g fg u fu s = s\<lparr>grp_mem := (grp_mem s)(g := map_option fg (grp_mem s g)),
     nh_mem := (nh_mem s)(u := map_option fu (nh_mem s u))\<rparr>"

definition join :: "addr \<Rightarrow> addr \<Rightarrow> fib_state \<Rightarrow> fib_state" where
  "join g u s = both g (grp_join u) u (nh_join g) s"

definition leave :: "addr \<Rightarrow> addr \<Rightarrow> fib_state \<Rightarrow> fib_state" where
  "leave g u s = both g (grp_leave u) u (nh_leave g) s"

lemma both_sel [simp]:
  "vrf_tree (both g fg u fu s) = vrf_tree s" "route_mem (both g fg u fu s) = route_mem s"
  "nh_id_tree (both g fg u fu s) = nh_id_tree s" "nh_group_tree (both g fg u fu s) = nh_group_tree s"
  "max_ecmp_paths (both g fg u fu s) = max_ecmp_paths s"
  "users (both g fg u fu s) t = users s t" "route_at (both g fg u fu s) = route_at s"
  "grp_mem (both g fg u fu s) h = (if h = g then map_option fg (grp_mem s g) else grp_mem s h)"
  "nh_mem (both g fg u fu s) x = (if x = u then map_option fu (nh_mem s u) else nh_mem s x)"
  by (simp_all add: both_def users_def route_at_def fun_eq_iff)

lemma both_inv:
  assumes I: "nhg_inv s" and M: "links_mirror (both g fg u fu s)" and R: "refs_ok (both g fg u fu s)"
    and id: "\<And>gr. group_id (fg gr) = group_id gr"
  shows "nhg_inv (both g fg u fu s)"
proof -
  have W: "fib_wf s" and D: "ids_ok s" and N: "groups_named s"
    using I by (auto simp: nhg_inv_def fib_inv_def)
  have wf: "fib_wf (both g fg u fu s)" using W by (simp add: fib_wf_def)
  moreover have "ids_ok (both g fg u fu s)" using D by (simp add: ids_ok_def)
  moreover have "groups_named (both g fg u fu s)" using N id by (fastforce simp: groups_named_def)
  ultimately show ?thesis using wf M R by (simp add: nhg_inv_def fib_inv_def)
qed

lemma both_links:
  "grp_links (both g fg u fu s) h = (if h = g then (case grp_mem s g of None \<Rightarrow> [] | Some gr \<Rightarrow> grp_nh_links (fg gr))
     else grp_links s h)"
  "nh_links (both g fg u fu s) x = (if x = u then (case nh_mem s u of None \<Rightarrow> [] | Some n \<Rightarrow> nh_group_list (fu n))
     else nh_links s x)"
  by (simp_all add: grp_links_def nh_links_def split: option.split)

lemma mirror_total: "links_mirror s \<Longrightarrow> grp_mem s g = Some gr \<Longrightarrow> unat (nh_count gr) = link_total (grp_nh_links gr)"
  by (simp add: links_mirror_def)

lemma mirror_wf:
  "links_mirror s \<Longrightarrow> grp_mem s g = Some gr \<Longrightarrow> links_wf (grp_nh_links gr)"
  "links_mirror s \<Longrightarrow> nh_mem s u = Some n \<Longrightarrow> links_wf (nh_group_list n)"
  "links_mirror s \<Longrightarrow> grp_mem s g = Some gr \<Longrightarrow> nh_mem s u = Some n \<Longrightarrow>
     link_weight (grp_nh_links gr) u = link_weight (nh_group_list n) g"
proof -
  assume M: "links_mirror s"
  show "links_wf (grp_nh_links gr)" if "grp_mem s g = Some gr"
    using M that unfolding links_mirror_def grp_links_def by (metis option.simps(5))
  show "links_wf (nh_group_list n)" if "nh_mem s u = Some n"
    using M that unfolding links_mirror_def nh_links_def by (metis option.simps(5))
  show "link_weight (grp_nh_links gr) u = link_weight (nh_group_list n) g"
    if "grp_mem s g = Some gr" "nh_mem s u = Some n"
    using M that unfolding links_mirror_def grp_links_def nh_links_def by (metis option.simps(5))
qed

lemma counted_le:
  "refs_ok s \<Longrightarrow> grp_mem s g = Some gr \<Longrightarrow>
     card (users s (Target_Group (Some g))) + link_total (grp_nh_links gr) \<le> unat (grp_ref_count gr)"
  "refs_ok s \<Longrightarrow> nh_mem s u = Some n \<Longrightarrow>
     card (users s (Target_Next_Hop (Some u))) + link_total (nh_group_list n) \<le> unat (ref_count n)"
  unfolding refs_ok_def all_counts by auto

text \<open>The weights change together.\<close>

lemma both_mirror:
  assumes M: "links_mirror s" and g: "grp_mem s g = Some gr" and u: "nh_mem s u = Some n"
    and wf: "links_wf (grp_nh_links (fg gr))" "links_wf (nh_group_list (fu n))"
    and wt: "link_weight (grp_nh_links (fg gr)) u = link_weight (nh_group_list (fu n)) g"
    and same: "\<And>x. x \<noteq> u \<Longrightarrow> link_weight (grp_nh_links (fg gr)) x = link_weight (grp_nh_links gr) x"
      "\<And>h. h \<noteq> g \<Longrightarrow> link_weight (nh_group_list (fu n)) h = link_weight (nh_group_list n) h"
    and tot: "unat (nh_count (fg gr)) = link_total (grp_nh_links (fg gr))"
  shows "links_mirror (both g fg u fu s)"
proof -
  have eq: "link_weight (grp_links s h) x = link_weight (nh_links s x) h" for h x using M by (simp add: links_mirror_def)
  have wfs: "links_wf (grp_links s h)" "links_wf (nh_links s x)" for h x using M by (simp_all add: links_mirror_def)
  have gl: "grp_links s g = grp_nh_links gr" and ul: "nh_links s u = nh_group_list n"
    using g u by (simp_all add: grp_links_def nh_links_def)
  have "link_weight (grp_links (both g fg u fu s) h) x = link_weight (nh_links (both g fg u fu s) x) h" for h x
    using eq [of h x] eq [of g x] eq [of h u] wt same [of x] same(2) [of h] g u gl ul
    by (cases "h = g"; cases "x = u") (simp_all add: both_links)
  moreover have "links_wf (grp_links (both g fg u fu s) h)" "links_wf (nh_links (both g fg u fu s) x)" for h x
    using wfs wf g u by (simp_all add: both_links)
  moreover have "unat (nh_count grp) = link_total (grp_nh_links grp)" if "grp_mem (both g fg u fu s) h = Some grp" for h grp
    using that tot g M by (auto simp: links_mirror_def split: if_splits)
  ultimately show ?thesis by (simp add: links_mirror_def)
qed

lemma both_counted:
  assumes R: "refs_ok s" and g: "grp_mem s g = Some gr" and u: "nh_mem s u = Some n"
    and c: "card (users s (Target_Group (Some g))) + link_total (grp_nh_links (fg gr)) \<le> unat (grp_ref_count (fg gr))"
      "card (users s (Target_Next_Hop (Some u))) + link_total (nh_group_list (fu n)) \<le> unat (ref_count (fu n))"
  shows "refs_ok (both g fg u fu s)"
proof -
  have "count_of (both g fg u fu s) t = None \<longleftrightarrow> count_of s t = None" for t
    by (auto simp: count_of_def split: route_target.split option.split)
  with R g u c show ?thesis
    unfolding refs_ok_def all_counts by (auto simp del: not_None_eq)
qed

lemma room_for:
  "refs_room s \<Longrightarrow> grp_mem s g = Some gr \<Longrightarrow> unat (grp_ref_count gr) + 1 < 2 ^ 32"
  "refs_room s \<Longrightarrow> nh_mem s u = Some n \<Longrightarrow> unat (ref_count n) + 1 < 2 ^ 32"
  unfolding refs_room_def
  by (drule spec [of _ "Target_Group (Some g)"], simp add: count_of_def)
    (drule spec [of _ "Target_Next_Hop (Some u)"], simp add: count_of_def)

lemma join_inv:
  assumes I: "nhg_inv s" and g: "grp_mem s g = Some gr" and u: "nh_mem s u = Some n" and room: "refs_room s"
  shows "nhg_inv (join g u s)"
proof -
  have M: "links_mirror s" and C: "refs_ok s" using I by (auto simp: nhg_inv_def fib_inv_def)
  note wf = mirror_wf(1) [OF M g] mirror_wf(2) [OF M u] and le = counted_le(1) [OF C g] counted_le(2) [OF C u]
  have r: "unat (grp_ref_count gr) + 1 < 2 ^ 32" "unat (ref_count n) + 1 < 2 ^ 32"
    using room_for(1) [OF room g] room_for(2) [OF room u] by simp_all
  have t: "link_total (grp_nh_links gr) + 1 < 2 ^ 32" "link_total (nh_group_list n) + 1 < 2 ^ 32" using le r by simp_all
  have nc: "unat (nh_count gr + 1) = unat (nh_count gr) + 1"
    using t(1) mirror_total [OF M g] by (intro uint32_succ) simp
  have rc: "unat (grp_ref_count gr + 1) = unat (grp_ref_count gr) + 1" "unat (ref_count n + 1) = unat (ref_count n) + 1"
    using r by (simp_all add: uint32_succ)
  note A = link_add [OF wf(1) t(1)] and B = link_add [OF wf(2) t(2)]
  show ?thesis
    unfolding join_def
  proof (rule both_inv [OF I])
    show "links_mirror (both g (grp_join u) u (nh_join g) s)"
      by (rule both_mirror [OF M g u])
        (use mirror_wf(3) [OF M g u] mirror_total [OF M g] nc in \<open>simp_all add: grp_join_def nh_join_def A B\<close>)
    show "refs_ok (both g (grp_join u) u (nh_join g) s)"
      by (rule both_counted [OF C g u]) (use le rc in \<open>simp_all add: grp_join_def nh_join_def A B\<close>)
  qed (simp add: grp_join_def)
qed

lemma leave_inv:
  assumes I: "nhg_inv s" and g: "grp_mem s g = Some gr" and u: "nh_mem s u = Some n"
    and linked: "0 < link_weight (grp_nh_links gr) u"
  shows "nhg_inv (leave g u s)"
proof -
  have M: "links_mirror s" and C: "refs_ok s" using I by (auto simp: nhg_inv_def fib_inv_def)
  note wf = mirror_wf(1) [OF M g] mirror_wf(2) [OF M u] and le = counted_le(1) [OF C g] counted_le(2) [OF C u]
  have l2: "0 < link_weight (nh_group_list n) g" using mirror_wf(3) [OF M g u] linked by simp
  note A = link_decr [OF wf(1) linked] and B = link_decr [OF wf(2) l2]
  have dec: "unat (x - 1) = unat x - 1" if "0 < unat x" for x :: uint32_t
    using that by (intro unat_decr) (simp add: unat_gt_0 word_gt_0)
  have pos: "0 < unat (grp_ref_count gr)" "0 < unat (ref_count n)" "0 < unat (nh_count gr)"
    using le A(4) B(4) mirror_total [OF M g] by simp_all
  show ?thesis
    unfolding leave_def
  proof (rule both_inv [OF I])
    show "links_mirror (both g (grp_leave u) u (nh_leave g) s)"
      by (rule both_mirror [OF M g u])
        (use mirror_wf(3) [OF M g u] mirror_total [OF M g] A(4) dec [OF pos(3)] in
          \<open>simp_all add: grp_leave_def nh_leave_def A(2,3) B(2,3)\<close>)
    show "refs_ok (both g (grp_leave u) u (nh_leave g) s)"
      by (rule both_counted [OF C g u])
        (use le A(4) B(4) dec [OF pos(1)] dec [OF pos(2)] in \<open>simp_all add: grp_leave_def nh_leave_def\<close>)
  qed (simp add: grp_leave_def)
qed

text \<open>Leaving undoes joining.\<close>

lemma leave_join:
  assumes I: "nhg_inv s" and g: "grp_mem s g = Some gr" and u: "nh_mem s u = Some n" and room: "refs_room s"
  shows "leave g u (join g u s) = s"
proof -
  have M: "links_mirror s" and C: "refs_ok s" using I by (auto simp: nhg_inv_def fib_inv_def)
  have r: "unat (grp_ref_count gr) + 1 < 2 ^ 32" "unat (ref_count n) + 1 < 2 ^ 32"
    using room_for(1) [OF room g] room_for(2) [OF room u] by simp_all
  have t: "link_total (grp_nh_links gr) + 1 < 2 ^ 32" "link_total (nh_group_list n) + 1 < 2 ^ 32"
    using r counted_le(1) [OF C g] counted_le(2) [OF C u] by simp_all
  have "grp_leave u (grp_join u gr) = gr" "nh_leave g (nh_join g n) = n"
    using link_add_undo(2) [OF mirror_wf(1) [OF M g] t(1)] link_add_undo(2) [OF mirror_wf(2) [OF M u] t(2)]
    by (simp_all add: grp_leave_def grp_join_def nh_leave_def nh_join_def)
  with g u have "(grp_mem s)(g := Some (grp_leave u (grp_join u gr))) = grp_mem s"
    "(nh_mem s)(u := Some (nh_leave g (nh_join g n))) = nh_mem s" by auto
  with g u show ?thesis by (simp add: leave_def join_def both_def)
qed

end
