(* ===== verification/Nhg_Effects.thy ===== *)
theory Nhg_Effects
  imports Nhg_Inv
begin

text \<open>
  What adding and removing one next hop do to the core of the state: it joins, or leaves, the group.
\<close>

section \<open>The environment\<close>

text \<open>The search of a link list finds the node of the address; memory never runs out.\<close>

definition link_find_law :: "('w, 'm, 'z) nhg_env_scheme \<Rightarrow> bool" where
  "link_find_law E \<longleftrightarrow> (\<forall>l a. find_link_node E l a = map_of l a)"

definition calloc_law :: "('w, 'z) fib_env_scheme \<Rightarrow> bool" where
  "calloc_law E \<longleftrightarrow> (\<forall>w. fst (calloc_ok E w))"

lemma calloc_lawE:
  assumes "calloc_law E"
  obtains w' where "calloc_ok E w = (True, w')"
  using assms unfolding calloc_law_def by (metis eq_fst_iff)

section \<open>Writes on the core\<close>

definition upd_nh :: "addr \<Rightarrow> (sai_fib_nh_t \<Rightarrow> sai_fib_nh_t) \<Rightarrow> fib_state \<Rightarrow> fib_state" where
  "upd_nh u f s = s\<lparr>nh_mem := (nh_mem s)(u := map_option f (nh_mem s u))\<rparr>"

definition upd_grp :: "addr \<Rightarrow> (sai_fib_nh_group_t \<Rightarrow> sai_fib_nh_group_t) \<Rightarrow> fib_state \<Rightarrow> fib_state" where
  "upd_grp g f s = s\<lparr>grp_mem := (grp_mem s)(g := map_option f (grp_mem s g))\<rparr>"

lemma core_nh_upd:
  assumes "\<And>n. nh_core (f n) = f (nh_core n)"
  shows "fib_core (nh_write u f s) = upd_nh u f (fib_core s)"
  using assms by (auto simp: nh_write_def fib_core_def fib_crash_def upd_nh_def fun_eq_iff split: option.split)

lemma core_grp_upd:
  assumes "\<And>gr. grp_core (f gr) = f (grp_core gr)"
  shows "fib_core (grp_write g f s) = upd_grp g f (fib_core s)"
  using assms by (auto simp: grp_write_def fib_core_def fib_crash_def upd_grp_def fun_eq_iff split: option.split)

lemma upd_twice:
  "upd_nh u f (upd_nh u f' s) = upd_nh u (f \<circ> f') s" "upd_grp g h (upd_grp g h' s) = upd_grp g (h \<circ> h') s"
  "upd_nh u f (upd_grp g h s) = both g h u f s" "upd_grp g h (upd_nh u f s) = both g h u f s"
  "upd_grp g h (both g h' u f s) = both g (h \<circ> h') u f s" "upd_nh u f (both g h u f' s) = both g h u (f \<circ> f') s"
  by (simp_all add: upd_nh_def upd_grp_def both_def option.map_comp comp_def)

lemma both_cong:
  assumes "\<And>gr. grp_mem s g = Some gr \<Longrightarrow> h (grp_core gr) = grp_core (h' gr)"
    and "\<And>n. nh_mem s u = Some n \<Longrightarrow> f (nh_core n) = nh_core (f' n)"
  shows "both g h u f (fib_core s) = fib_core (both g h' u f' s)"
  using assms
  by (cases "grp_mem s g"; cases "nh_mem s u") (simp_all add: both_def fib_core_def fun_eq_iff)

lemma core_count_writes:
  "fib_core (grp_write g sai_fib_incr_nh_group_ref_count s) = upd_grp g sai_fib_incr_nh_group_ref_count (fib_core s)"
  "fib_core (grp_write g sai_fib_decr_nh_group_ref_count s) = upd_grp g sai_fib_decr_nh_group_ref_count (fib_core s)"
  "fib_core (nh_write u sai_fib_incr_nh_ref_count s) = upd_nh u sai_fib_incr_nh_ref_count (fib_core s)"
  "fib_core (nh_write u sai_fib_decr_nh_ref_count s) = upd_nh u sai_fib_decr_nh_ref_count (fib_core s)"
  by (rule core_grp_upd core_nh_upd;
      simp add: sai_fib_incr_nh_group_ref_count_def sai_fib_decr_nh_group_ref_count_def sai_fib_incr_nh_ref_count_def
        sai_fib_decr_nh_ref_count_def grp_core_def nh_core_def)+

lemma core_dep_add_loop [core_simps]: "fib_core (fst (nh_group_dep_add_loop E u es s w)) = fib_core s"
  by (induction es arbitrary: s w) (simp_all add: split_beta core_simps)

lemma core_fold_dep_remove [core_simps]:
  "fib_core (fold (\<lambda>e. sai_fib_encap_next_hop_remove_from_underlay_nh e u) es s) = fib_core s"
  by (induction es arbitrary: s) (simp_all add: core_simps)

lemma core_dep_encap_update [core_simps]:
  "fib_core (fst (sai_fib_nh_group_dep_encap_nh_update E g u is_add s w)) = fib_core s"
  by (simp add: sai_fib_nh_group_dep_encap_nh_update_def core_simps split: option.split)

lemma upd_nh_core:
  "(\<And>n. nh_mem s u = Some n \<Longrightarrow> f n = f' n) \<Longrightarrow> (\<And>n. nh_core (f' n) = f' (nh_core n)) \<Longrightarrow>
     fib_core (nh_write u f s) = upd_nh u f' (fib_core s)"
  by (cases "nh_mem s u") (auto simp: nh_write_def fib_core_def fib_crash_def upd_nh_def fun_eq_iff)

lemma upd_grp_core:
  "(\<And>gr. grp_mem s g = Some gr \<Longrightarrow> f gr = f' gr) \<Longrightarrow> (\<And>gr. grp_core (f' gr) = f' (grp_core gr)) \<Longrightarrow>
     fib_core (grp_write g f s) = upd_grp g f' (fib_core s)"
  by (cases "grp_mem s g") (auto simp: grp_write_def fib_core_def fib_crash_def upd_grp_def fun_eq_iff)

section \<open>Adding a next hop\<close>

definition nh_link :: "addr \<Rightarrow> sai_fib_nh_t \<Rightarrow> sai_fib_nh_t" where
  "nh_link g n = n\<lparr>nh_group_list := link_add g (nh_group_list n)\<rparr>"

definition grp_link :: "addr \<Rightarrow> sai_fib_nh_group_t \<Rightarrow> sai_fib_nh_group_t" where
  "grp_link u gr = gr\<lparr>grp_nh_links := link_add u (grp_nh_links gr)\<rparr>"

lemma nh_link_added:
  assumes "link_find_law E" "calloc_law E" "nh_mem s u \<noteq> None"
  shows "\<exists>s' w'. sai_fib_nh_add_group_link_node E u g s w = (True, s', w')
     \<and> fib_core s' = upd_nh u (nh_link g) (fib_core s) \<and> grp_mem s' = grp_mem s"
proof -
  obtain n where n: "nh_mem s u = Some n" using assms(3) by blast
  obtain w' where w': "calloc_ok E w = (True, w')" using assms(2) by (rule calloc_lawE)
  have core: "fib_core (nh_write u f s) = upd_nh u (nh_link g) (fib_core s)" if "f n = nh_link g n" for f
    using n that by (intro upd_nh_core) (simp_all add: nh_link_def nh_core_def)
  have mem: "grp_mem (nh_write u f s) = grp_mem s" for f using n by (simp add: nh_write_def)
  show ?thesis
    using assms(1) n w'
    by (cases "map_of (nh_group_list n) g")
      (auto simp: sai_fib_nh_add_group_link_node_def link_find_law_def mem core nh_link_def link_add_def)
qed

lemma grp_link_added:
  assumes "link_find_law E" "calloc_law E" "grp_mem s g \<noteq> None"
  shows "fst (sai_fib_nh_group_add_nh_link_node E g u s w)
     \<and> fib_core (fst (snd (sai_fib_nh_group_add_nh_link_node E g u s w))) = upd_grp g (grp_link u) (fib_core s)"
proof -
  obtain gr where gr: "grp_mem s g = Some gr" using assms(3) by blast
  obtain w' where w': "calloc_ok E w = (True, w')" using assms(2) by (rule calloc_lawE)
  have core: "fib_core (grp_write g f s) = upd_grp g (grp_link u) (fib_core s)" if "f gr = grp_link u gr" for f
    using gr that by (intro upd_grp_core) (simp_all add: grp_link_def grp_core_def)
  show ?thesis
    using assms(1) gr w'
    by (cases "map_of (grp_nh_links gr) u")
      (auto simp: sai_fib_nh_group_add_nh_link_node_def link_find_law_def split_beta core core_dep_encap_update
        grp_link_def link_add_def)
qed

lemma core_count_up: "fib_core (grp_write g (\<lambda>gr. gr\<lparr>nh_count := nh_count gr + 1\<rparr>) s) =
    upd_grp g (\<lambda>gr. gr\<lparr>nh_count := nh_count gr + 1\<rparr>) (fib_core s)"
  by (rule core_grp_upd) (simp add: grp_core_def)

lemma added_in_lists:
  assumes E: "link_find_law E" "calloc_law E" and g: "grp_mem s g \<noteq> None" and u: "nh_mem s u \<noteq> None"
  shows "\<exists>s' w'. sai_fib_nh_group_add_in_lists E g [u] s w = (SAI_STATUS_SUCCESS, s', w')
     \<and> fib_core s' = fib_core (join g u s)"
proof -
  from nh_link_added [OF E u, of g w] obtain s1 w1 where
    1: "sai_fib_nh_add_group_link_node E u g s w = (True, s1, w1)"
      "fib_core s1 = upd_nh u (nh_link g) (fib_core s)" "grp_mem s1 = grp_mem s" by blast
  from grp_link_added [OF E, of s1 g u w1] g 1(3) obtain s2 w2 where
    2: "sai_fib_nh_group_add_nh_link_node E g u s1 w1 = (True, s2, w2)"
      "fib_core s2 = upd_grp g (grp_link u) (fib_core s1)"
    by (cases "sai_fib_nh_group_add_nh_link_node E g u s1 w1") auto
  define s3 where "s3 = nh_write u sai_fib_incr_nh_ref_count (grp_write g sai_fib_incr_nh_group_ref_count
    (grp_write g (\<lambda>gr. gr\<lparr>nh_count := nh_count gr + 1\<rparr>) s2))"
  have "fib_core s3 = fib_core (join g u s)"
    unfolding s3_def core_count_writes core_count_up 2(2) 1(2) upd_twice join_def
    by (rule both_cong) (simp_all add: grp_link_def grp_join_def nh_link_def nh_join_def sai_fib_incr_nh_ref_count_def
      sai_fib_incr_nh_group_ref_count_def grp_core_def nh_core_def)
  moreover have "sai_fib_nh_group_add_in_lists E g [u] s w = (SAI_STATUS_SUCCESS, s3, w2)"
    by (simp add: sai_fib_nh_group_add_in_lists_def 1(1) 2(1) s3_def)
  ultimately show ?thesis by blast
qed

section \<open>Removing a next hop\<close>

lemma removed_from_lists:
  assumes E: "link_find_law E" and I: "nhg_inv s" and g: "grp_mem s g = Some gr" and u: "nh_mem s u = Some n"
    and linked: "0 < link_weight (grp_nh_links gr) u"
  shows "fib_core (fst (sai_fib_nh_group_remove_from_lists E g [u] s w)) = fib_core (leave g u s)"
proof -
  have M: "links_mirror s" and C: "refs_ok s" using I by (auto simp: nhg_inv_def fib_inv_def)
  note wf = mirror_wf(1) [OF M g] mirror_wf(2) [OF M u] and le = counted_le(1) [OF C g] counted_le(2) [OF C u]
  have l2: "0 < link_weight (nh_group_list n) g" using mirror_wf(3) [OF M g u] linked by simp
  note A = link_decr [OF wf(1) linked] and B = link_decr [OF wf(2) l2]
  have pos: "0 < grp_ref_count gr" "0 < ref_count n" "0 < nh_count gr"
    using le A(4) B(4) mirror_total [OF M g] by (simp_all add: word_gt_0 flip: unat_gt_0)
  have found: "find_link_node E (grp_nh_links gr) u \<noteq> None" "find_link_node E (nh_group_list n) g \<noteq> None"
    using E linked l2 by (auto simp: link_find_law_def link_weight_def split: option.splits)
  define s1 where "s1 = nh_write u (\<lambda>n. n\<lparr>nh_group_list := link_sub g (nh_group_list n)\<rparr>) s"
  have s1: "sai_fib_nh_find_and_remove_group_node E u g s = s1"
    using u found B(1)
    by (simp add: sai_fib_nh_find_and_remove_group_node_def sai_fib_nh_remove_group_link_node_def s1_def nh_write_def)
  have g1: "grp_mem s1 g = Some gr" using g u by (simp add: s1_def nh_write_def)
  obtain s2 w2 where s2: "sai_fib_nh_group_remove_nh_link_node E g u s1 w = (s2, w2)"
    by (cases "sai_fib_nh_group_remove_nh_link_node E g u s1 w")
  have c2: "fib_core s2 = upd_grp g (\<lambda>gr. gr\<lparr>grp_nh_links := link_sub u (grp_nh_links gr)\<rparr>) (fib_core s1)"
  proof -
    have "fib_core (grp_write g (\<lambda>gr. gr\<lparr>grp_nh_links := link_sub u (grp_nh_links gr0)\<rparr>) s1) =
        upd_grp g (\<lambda>gr. gr\<lparr>grp_nh_links := link_sub u (grp_nh_links gr)\<rparr>) (fib_core s1)" if "gr0 = gr" for gr0
      using g1 that by (intro upd_grp_core) (simp_all add: grp_core_def)
    from this [OF refl] s2 g1 A(1) show ?thesis
      by (auto simp: sai_fib_nh_group_remove_nh_link_node_def core_dep_encap_update Let_def split: if_splits
        dest!: arg_cong [where f = "\<lambda>p. fib_core (fst p)"])
  qed
  define s3 where "s3 = grp_write g (\<lambda>gr. gr\<lparr>nh_count := nh_count gr - 1\<rparr>) s2"
  have s3: "sai_fib_nh_group_find_and_remove_nh_node E g u s1 w = (s3, w2)"
    using g1 found pos s2 by (simp add: sai_fib_nh_group_find_and_remove_nh_node_def s3_def)
  have c3: "fib_core s3 = upd_grp g (\<lambda>gr. gr\<lparr>nh_count := nh_count gr - 1\<rparr>) (fib_core s2)"
    unfolding s3_def by (rule core_grp_upd) (simp add: grp_core_def)
  have c1: "fib_core s1 = upd_nh u (\<lambda>n. n\<lparr>nh_group_list := link_sub g (nh_group_list n)\<rparr>) (fib_core s)"
    unfolding s1_def by (rule core_nh_upd) (simp add: nh_core_def)
  have "fst (sai_fib_nh_group_remove_from_lists E g [u] s w) =
      nh_write u sai_fib_decr_nh_ref_count (grp_write g sai_fib_decr_nh_group_ref_count s3)"
    by (simp add: s1 s3)
  moreover have "fib_core (nh_write u sai_fib_decr_nh_ref_count (grp_write g sai_fib_decr_nh_group_ref_count s3))
      = fib_core (leave g u s)"
    unfolding core_count_writes c3 c2 c1 upd_twice leave_def
    by (rule both_cong) (use g u pos in \<open>simp_all add: grp_leave_def nh_leave_def sai_fib_decr_nh_ref_count_def
      sai_fib_decr_nh_group_ref_count_def grp_core_def nh_core_def\<close>)
  ultimately show ?thesis by simp
qed

section \<open>The calls\<close>

lemma core_both:
  "fib_core (join g u s) = join g u (fib_core s)" "fib_core (leave g u s) = leave g u (fib_core s)"
  unfolding join_def leave_def
  by (rule both_cong [symmetric];
      simp add: grp_join_def nh_join_def grp_leave_def nh_leave_def grp_core_def nh_core_def)+

lemma fill_one:
  assumes "sai_fib_next_hop_fill_from_nh_id_list E grp [x] is_remove s = (rc, us, s')"
  shows "fib_core s' = fib_core s" "nh_mem s' = nh_mem s" "grp_mem s' = grp_mem s"
    "rc = SAI_STATUS_SUCCESS \<Longrightarrow> \<exists>u. us = [u] \<and> nh_id_tree s x = Some u
       \<and> (is_remove \<longrightarrow> find_link_node E (grp_nh_links grp) u \<noteq> None)"
  using assms
  by (auto simp: sai_fib_next_hop_fill_from_nh_id_list_def fib_crash_def fib_core_def split: if_splits option.splits)

lemma fill_single:
  assumes "sai_fib_next_hop_fill_from_nh_id_list E grp [x] is_remove s = (SAI_STATUS_SUCCESS, us, s')"
  shows "(\<exists>u. us = [u]) \<and> fib_core s' = fib_core s"
  using fill_one(4) [OF assms refl] fill_one(1) [OF assms] by blast

lemma fill_core:
  assumes "sai_fib_next_hop_fill_from_nh_id_list E grp [x] is_remove s = (rc, us, s')"
  shows "fib_core s' = fib_core s"
  using fill_one(1) [OF assms] .

lemma add_to_group_effect:
  assumes run: "sai_fib_next_hop_add_to_group E gid [x] s w = (rc, s', w')"
    and E: "link_find_law E" "calloc_law E" and I: "nhg_inv s" and room: "refs_room s"
  obtains (failed) "rc \<noteq> SAI_STATUS_SUCCESS" "fib_core s' = fib_core s"
  | (added) g u gr n where "rc = SAI_STATUS_SUCCESS" "nh_group_tree s gid = Some g" "nh_id_tree s x = Some u"
      "grp_mem s g = Some gr" "nh_mem s u = Some n" "fib_core s' = fib_core (join g u s)"
proof -
  obtain w0 where w0: "calloc_ok E w = (True, w0)" using E(2) by (rule calloc_lawE)
  have ids: "ids_ok s" using I by (simp add: nhg_inv_def fib_inv_def)
  show thesis
  proof (cases "\<exists>g gr u s1. sai_is_obj_id E SAI_OBJECT_TYPE_NEXT_HOP_GROUP gid \<and> nh_group_tree s gid = Some g
      \<and> grp_mem s g = Some gr \<and> sai_fib_is_nh_group_size_valid gr 1 s
      \<and> sai_fib_next_hop_fill_from_nh_id_list E gr [x] False s = (SAI_STATUS_SUCCESS, [u], s1)")
    case False
    have "rc \<noteq> SAI_STATUS_SUCCESS \<and> fib_core s' = fib_core s"
      using run False w0
      by (auto simp: sai_fib_next_hop_add_to_group_def split: if_splits option.splits prod.splits
        dest: fill_core dest!: fill_single)
    then show thesis using failed by blast
  next
    case True
    then obtain g gr u s1 where 1: "sai_is_obj_id E SAI_OBJECT_TYPE_NEXT_HOP_GROUP gid" "nh_group_tree s gid = Some g"
      "grp_mem s g = Some gr" "sai_fib_is_nh_group_size_valid gr 1 s"
      "sai_fib_next_hop_fill_from_nh_id_list E gr [x] False s = (SAI_STATUS_SUCCESS, [u], s1)" by blast
    note F = fill_one [OF 1(5)]
    have x: "nh_id_tree s x = Some u" using F(4) [OF refl] by auto
    obtain n where n: "nh_mem s u = Some n" using ids x unfolding ids_ok_def by blast
    from added_in_lists [OF E, of s1 g u w0] F(2,3) 1(3) n obtain s2 w2 where
      2: "sai_fib_nh_group_add_in_lists E g [u] s1 w0 = (SAI_STATUS_SUCCESS, s2, w2)"
        "fib_core s2 = fib_core (join g u s1)" by auto
    have c2: "fib_core s2 = fib_core (join g u s)" using 2(2) F(1) by (simp add: core_both)
    have I2: "nhg_inv s2" by (rule nhg_core [OF c2 join_inv [OF I 1(3) n room]])
    have g2: "map_option grp_core (grp_mem s2 g) = map_option grp_core (grp_mem (join g u s) g)"
      and n2: "map_option nh_core (nh_mem s2 u) = map_option nh_core (nh_mem (join g u s) u)"
      using fib_coreD(8,9) [OF c2] by blast+
    obtain gr2 n2 where m2: "grp_mem s2 g = Some gr2" "nh_mem s2 u = Some n2"
      and core2: "grp_core gr2 = grp_core (grp_join u gr)"
      using g2 n2 1(3) n by (auto simp: join_def)
    have l2: "0 < link_weight (grp_nh_links gr2) u"
    proof -
      have "grp_nh_links gr2 = link_add u (grp_nh_links gr)"
        using arg_cong [OF core2, of grp_nh_links] by (simp add: grp_join_def)
      moreover have "links_wf (grp_nh_links gr)" "link_total (grp_nh_links gr) + 1 < 2 ^ 32"
        using I 1(3) mirror_wf(1) counted_le(1) [of s g gr] room_for(1) [OF room 1(3)]
        by (auto simp: nhg_inv_def fib_inv_def)
      ultimately show ?thesis using link_add(2) by simp
    qed
    show thesis
    proof (cases "fst (npu_add_nh_to_group E gr2 [u] w2) = SAI_STATUS_SUCCESS")
      case True
      then have "rc = SAI_STATUS_SUCCESS" "s' = s2"
        using run w0 1 2(1) m2(1) by (auto simp: sai_fib_next_hop_add_to_group_def split: prod.splits)
      then show thesis using added 1(2,3) x n c2 by blast
    next
      case False
      have "rc \<noteq> SAI_STATUS_SUCCESS \<and> s' = fst (sai_fib_nh_group_remove_from_lists E g [u] s2
          (snd (npu_add_nh_to_group E gr2 [u] w2)))"
        using run w0 1 2(1) m2(1) False
        by (simp add: sai_fib_next_hop_add_to_group_def split_beta del: sai_fib_nh_group_remove_from_lists.simps)
      moreover have "fib_core (fst (sai_fib_nh_group_remove_from_lists E g [u] s2 w3)) = fib_core s" for w3
        unfolding removed_from_lists [OF E(1) I2 m2 l2] core_both c2
        unfolding core_both [symmetric] leave_join [OF I 1(3) n room] ..
      ultimately show thesis using failed by metis
    qed
  qed
qed

lemma remove_from_group_effect:
  assumes run: "sai_fib_next_hop_remove_from_group E gid [x] s w = (rc, s', w')"
    and E: "link_find_law E" "calloc_law E" and I: "nhg_inv s"
  obtains (failed) "rc \<noteq> SAI_STATUS_SUCCESS" "fib_core s' = fib_core s"
  | (removed) g u gr n where "rc = SAI_STATUS_SUCCESS" "nh_group_tree s gid = Some g" "nh_id_tree s x = Some u"
      "grp_mem s g = Some gr" "nh_mem s u = Some n" "0 < link_weight (grp_nh_links gr) u"
      "fib_core s' = fib_core (leave g u s)"
proof -
  obtain w0 where w0: "calloc_ok E w = (True, w0)" using E(2) by (rule calloc_lawE)
  have ids: "ids_ok s" using I by (simp add: nhg_inv_def fib_inv_def)
  show thesis
  proof (cases "\<exists>g gr u s1. sai_is_obj_id E SAI_OBJECT_TYPE_NEXT_HOP_GROUP gid \<and> nh_group_tree s gid = Some g
      \<and> grp_mem s g = Some gr
      \<and> sai_fib_next_hop_fill_from_nh_id_list E gr [x] True s = (SAI_STATUS_SUCCESS, [u], s1)
      \<and> fst (npu_remove_nh_from_group E gr [u] w0) = SAI_STATUS_SUCCESS")
    case False
    have "rc \<noteq> SAI_STATUS_SUCCESS \<and> fib_core s' = fib_core s"
      using run False w0
      by (auto simp: sai_fib_next_hop_remove_from_group_def split: if_splits option.splits prod.splits
        dest: fill_core dest!: fill_single)
    then show thesis using failed by blast
  next
    case True
    then obtain g gr u s1 where 1: "sai_is_obj_id E SAI_OBJECT_TYPE_NEXT_HOP_GROUP gid" "nh_group_tree s gid = Some g"
      "grp_mem s g = Some gr" "sai_fib_next_hop_fill_from_nh_id_list E gr [x] True s = (SAI_STATUS_SUCCESS, [u], s1)"
      "fst (npu_remove_nh_from_group E gr [u] w0) = SAI_STATUS_SUCCESS" by blast
    note F = fill_one [OF 1(4)]
    have x: "nh_id_tree s x = Some u" "find_link_node E (grp_nh_links gr) u \<noteq> None" using F(4) [OF refl] by auto
    obtain n where n: "nh_mem s u = Some n" using ids x unfolding ids_ok_def by blast
    have I1: "nhg_inv s1" by (rule nhg_core [OF F(1) I])
    have wf: "links_wf (grp_nh_links gr)" using I 1(3) mirror_wf(1) by (auto simp: nhg_inv_def)
    have l: "0 < link_weight (grp_nh_links gr) u"
      using x(2) E(1) links_wf_nonzero [OF wf] by (auto simp: link_find_law_def link_weight_def unat_gt_0)
    have "rc = SAI_STATUS_SUCCESS \<and> s' = fst (sai_fib_nh_group_remove_from_lists E g [u] s1
        (snd (npu_remove_nh_from_group E gr [u] w0)))"
      using run w0 1
      by (simp add: sai_fib_next_hop_remove_from_group_def split_beta del: sai_fib_nh_group_remove_from_lists.simps)
    moreover have "fib_core (fst (sai_fib_nh_group_remove_from_lists E g [u] s1 w3)) = fib_core (leave g u s)" for w3
      using removed_from_lists [OF E(1) I1 _ _ l] 1(3) n F by (simp add: core_both)
    ultimately show thesis using removed [OF _ 1(2) x(1) 1(3) n l] by metis
  qed
qed

end
