(* ===== verification/Nhg_Frame.thy ===== *)
theory Nhg_Frame
  imports Nhg_Effects Fib_Reach
begin

text \<open>
  The calls of virtual routers and routes leave groups and links alone, so they keep the invariant
  of groups: they move reference counts only, which \<open>fib_inv\<close> accounts for.
\<close>

section \<open>What the link invariant is about\<close>

definition glinks ::
  "fib_state \<Rightarrow> (addr \<Rightarrow> sai_fib_wt_link_node_t list option)
     \<times> (addr \<Rightarrow> (sai_fib_wt_link_node_t list \<times> uint32_t \<times> sai_object_id_t) option) \<times> (sai_object_id_t \<Rightarrow> addr option)" where
  "glinks s = (\<lambda>u. map_option nh_group_list (nh_mem s u),
     \<lambda>g. map_option (\<lambda>gr. (grp_nh_links gr, nh_count gr, group_id gr)) (grp_mem s g), nh_group_tree s)"

lemma glinks_core: "fib_core s' = fib_core s \<Longrightarrow> glinks s' = glinks s"
proof -
  have "glinks (fib_core s) = glinks s" for s
    by (simp add: glinks_def fun_eq_iff option.map_comp comp_def)
  then show "fib_core s' = fib_core s \<Longrightarrow> glinks s' = glinks s" by metis
qed

lemma glinks_mem:
  "nh_mem s' = nh_mem s \<Longrightarrow> grp_mem s' = grp_mem s \<Longrightarrow> nh_group_tree s' = nh_group_tree s \<Longrightarrow> glinks s' = glinks s"
  by (simp add: glinks_def)

lemma glinks_with [simp]:
  "glinks (with_route a r s) = glinks s" "glinks (with_new_route vr a r s) = glinks s"
  "glinks (without_route vr a k s) = glinks s"
  by (auto intro!: glinks_mem simp: with_new_route_def without_route_def split: option.split)

lemma glinks_write:
  "(\<And>n. nh_group_list (f n) = nh_group_list n) \<Longrightarrow> glinks (nh_write u f s) = glinks s"
  "(\<And>gr. grp_nh_links (h gr) = grp_nh_links gr \<and> nh_count (h gr) = nh_count gr \<and> group_id (h gr) = group_id gr) \<Longrightarrow>
     glinks (grp_write g h s) = glinks s"
  by (auto simp: glinks_def nh_write_def grp_write_def fib_crash_def fun_eq_iff split: option.split)

lemma glinks_ref [simp]: "glinks (ref_incr t s) = glinks s" "glinks (ref_decr t s) = glinks s"
  by (auto simp: ref_incr_def ref_decr_def glinks_write sai_fib_incr_nh_ref_count_def sai_fib_incr_nh_group_ref_count_def
      sai_fib_decr_nh_ref_count_def sai_fib_decr_nh_group_ref_count_def split: route_target.split option.split)

lemma links_by_glinks:
  "grp_links s g = (case fst (snd (glinks s)) g of None \<Rightarrow> [] | Some (l, _) \<Rightarrow> l)"
  "nh_links s u = (case fst (glinks s) u of None \<Rightarrow> [] | Some l \<Rightarrow> l)"
  by (simp_all add: grp_links_def nh_links_def glinks_def split: option.split)

lemma glinks_inv:
  assumes g: "glinks s' = glinks s" and I: "nhg_inv s" and F: "fib_inv s'"
  shows "nhg_inv s'"
proof -
  have l: "grp_links s' = grp_links s" "nh_links s' = nh_links s"
    using g by (simp_all add: fun_eq_iff links_by_glinks)
  have m: "map_option (\<lambda>gr. (grp_nh_links gr, nh_count gr, group_id gr)) (grp_mem s' h)
      = map_option (\<lambda>gr. (grp_nh_links gr, nh_count gr, group_id gr)) (grp_mem s h)" for h
    using g by (simp add: glinks_def fun_eq_iff)
  have t: "nh_group_tree s' = nh_group_tree s" using g by (simp add: glinks_def)
  have prior: "\<exists>gr0. grp_mem s h = Some gr0 \<and> grp_nh_links gr = grp_nh_links gr0 \<and> nh_count gr = nh_count gr0
      \<and> group_id gr = group_id gr0" if "grp_mem s' h = Some gr" for h gr
    using m [of h] that by (cases "grp_mem s h") auto
  have later: "\<exists>gr. grp_mem s' h = Some gr \<and> group_id gr = group_id gr0" if "grp_mem s h = Some gr0" for h gr0
    using m [of h] that by (cases "grp_mem s' h") auto
  have "links_mirror s'"
    using I prior by (fastforce simp: nhg_inv_def links_mirror_def l)
  moreover have "groups_named s'"
    unfolding groups_named_def t
  proof (intro allI impI)
    fix x g assume "nh_group_tree s x = Some g"
    then obtain gr0 where "grp_mem s g = Some gr0" "group_id gr0 = x"
      using I unfolding nhg_inv_def groups_named_def by blast
    then show "\<exists>grp. grp_mem s' g = Some grp \<and> group_id grp = x" using later by blast
  qed
  ultimately show ?thesis using F by (simp add: nhg_inv_def)
qed

section \<open>Calls of virtual routers\<close>

definition same_nodes :: "fib_state \<Rightarrow> fib_state \<Rightarrow> bool" where
  "same_nodes s s' \<longleftrightarrow> nh_mem s' = nh_mem s \<and> grp_mem s' = grp_mem s \<and> nh_group_tree s' = nh_group_tree s"

named_theorems frame \<open>functions that leave the nodes of next hops and groups alone\<close>

lemma same_nodes_refl [simp]: "same_nodes s s" by (simp add: same_nodes_def)

lemma same_nodes_lock [frame, simp]:
  "same_nodes s (sai_fib_lock s') = same_nodes s s'" "same_nodes s (sai_fib_unlock s') = same_nodes s s'"
  "same_nodes (sai_fib_lock s) s' = same_nodes s s'" "same_nodes s (fib_crash s') = same_nodes s s'"
  by (simp_all add: same_nodes_def sai_fib_lock_def sai_fib_unlock_def fib_crash_def)

lemma same_nodes_trans: "same_nodes s s' \<Longrightarrow> same_nodes s' s'' \<Longrightarrow> same_nodes s s''"
  by (simp add: same_nodes_def)

lemma same_nodes_default_add [frame]:
  "same_nodes s (fst (snd (sai_fib_internal_default_route_node_add E vr af s w)))"
  by (auto simp: sai_fib_internal_default_route_node_add_def sai_fib_route_node_insert_to_tree_def same_nodes_def
      vrf_write_def sai_fib_route_node_free_def fib_crash_def split_beta Let_def split: option.split)

lemma same_nodes_default_del [frame]:
  "same_nodes s (snd (sai_fib_internal_default_route_node_del E vr af s))"
  by (auto simp: sai_fib_internal_default_route_node_del_def route_tree_remove_def same_nodes_def
      vrf_write_def sai_fib_route_node_free_def fib_crash_def split_beta Let_def split: option.split)

lemma same_nodes_defaults [frame]:
  "same_nodes s (fst (sai_fib_vrf_default_route_add E vr s w))" "same_nodes s (sai_fib_vrf_default_route_del E vr s)"
  by (simp_all add: sai_fib_vrf_default_route_add_def sai_fib_vrf_default_route_del_def split_beta)
    (rule same_nodes_trans, rule frame, rule frame)+

lemma same_nodes_checked [frame]: "same_nodes s (fst (snd (vr_remove_checked E vr s w)))"
  by (simp add: vr_remove_checked_def split_beta Let_def same_nodes_def fib_crash_def split: option.split)

lemma same_nodes_vr_remove: "same_nodes s (fst (snd (sai_fib_virtual_router_remove E vr s w)))"
proof -
  let ?d = "sai_fib_vrf_default_route_del E vr (sai_fib_lock s)"
  let ?c = "fst (snd (vr_remove_checked E vr ?d w))"
  have "same_nodes (sai_fib_lock s) ?d" by (rule frame)
  moreover have "same_nodes ?d ?c" by (rule frame)
  ultimately have c: "same_nodes (sai_fib_lock s) ?c" by (rule same_nodes_trans)
  moreover have "same_nodes ?c (fst (sai_fib_vrf_default_route_add E vr ?c w'))" for w' by (rule frame)
  ultimately have "same_nodes (sai_fib_lock s) (fst (sai_fib_vrf_default_route_add E vr ?c w'))" for w'
    by (rule same_nodes_trans)
  with c show ?thesis
    by (simp add: sai_fib_virtual_router_remove_def vr_remove_body_def split_beta Let_def)
qed

lemma same_nodes_vr_create: "same_nodes s (fst (snd (snd (sai_fib_virtual_router_create E cnt as s w))))"
proof -
  have ins: "same_nodes s (fst (snd (sai_fib_vrf_node_insert_to_tree E v (sai_fib_lock s) w)))" for v s w
    by (simp add: sai_fib_vrf_node_insert_to_tree_def same_nodes_def split_beta)
  have add: "same_nodes s (fst (sai_fib_vrf_default_route_add E vr (s'\<lparr>num_virtual_routers := n\<rparr>) w))"
    if "same_nodes s s'" for s s' vr n w
  proof (rule same_nodes_trans)
    show "same_nodes s (s'\<lparr>num_virtual_routers := n\<rparr>)" using that by (simp add: same_nodes_def)
  qed (rule frame)
  show ?thesis
    using ins add by (simp add: sai_fib_virtual_router_create_def vr_create_body_def split_beta Let_def)
qed

lemma same_nodes_vr_set: "same_nodes s (fst (snd (sai_fib_virtual_router_attribute_set E vr attr s w)))"
  by (simp add: sai_fib_virtual_router_attribute_set_def same_nodes_def split_beta Let_def split: option.split)

lemma same_nodes_rif: "same_nodes s (snd (sai_fib_vrf_rif_list_update rif add s))"
  by (simp add: sai_fib_vrf_rif_list_update_def same_nodes_def fib_crash_def split: option.split)

lemma same_nodes_ecmp: "same_nodes s (fst (snd (sai_router_ecmp_max_paths_set E m s w)))"
  by (simp add: sai_router_ecmp_max_paths_set_def split_beta Let_def) (simp add: same_nodes_def)

section \<open>Route calls\<close>

lemma route_create_glinks:
  assumes "sai_fib_route_create E en attrs s w = (rc, s', w')" "fib_wf s" "fresh_alloc E"
  shows "glinks s' = glinks s"
  using assms
proof (cases rule: route_create_effect)
  case failed then show ?thesis by (intro glinks_core)
next
  case created then show ?thesis using glinks_core [OF created(7)] by simp
next
  case taken_over then show ?thesis using glinks_core [OF taken_over(8)] by simp
qed

lemma route_remove_glinks:
  assumes "sai_fib_route_remove E en s w = (rc, s', w')" "fib_wf s"
  shows "glinks s' = glinks s"
  using assms
proof (cases rule: route_remove_effect)
  case failed then show ?thesis by (intro glinks_core)
next
  case refused then show ?thesis by simp
next
  case removed then show ?thesis using glinks_core [OF removed(6)] by simp
next
  case reset then show ?thesis using glinks_core [OF reset(5)] by simp
qed

lemma route_set_glinks:
  assumes "sai_fib_route_attribute_set E en attr s w = (rc, s', w')" "fib_wf s"
  shows "glinks s' = glinks s"
  using assms
proof (cases rule: route_set_effect)
  case failed then show ?thesis by (intro glinks_core)
next
  case (updated a r new hw w1)
  show ?thesis using glinks_core [OF updated(6)] by (cases "sai_fib_route_is_nh_info_match r new") simp_all
qed

lemma same_nodes_glinks: "same_nodes s s' \<Longrightarrow> glinks s' = glinks s"
  unfolding same_nodes_def by (elim conjE) (rule glinks_mem; assumption)

lemma fib_step_glinks:
  assumes "fib_step E ok s s'" and "fib_wf s" and "fresh_alloc E"
  shows "glinks s' = glinks s"
  using assms(1)
proof cases
  case (fstep_vr_create cnt as w rc oid w')
  then show ?thesis using same_nodes_vr_create [of s E cnt as w] by (simp add: same_nodes_glinks)
next
  case (fstep_vr_remove vr w rc w')
  then show ?thesis using same_nodes_vr_remove [of s E vr w] by (simp add: same_nodes_glinks)
next
  case (fstep_vr_set vr va w rc w')
  then show ?thesis using same_nodes_vr_set [of s E vr va w] by (simp add: same_nodes_glinks)
next
  case (fstep_rif_update rif add rc)
  then show ?thesis using same_nodes_rif [of s rif add] by (simp add: same_nodes_glinks)
next
  case (fstep_ecmp m w rc w')
  then show ?thesis using same_nodes_ecmp [of s E m w] by (simp add: same_nodes_glinks)
next
  case (fstep_create en attrs w rc w')
  show ?thesis by (rule route_create_glinks [OF fstep_create(3) assms(2,3)])
next
  case (fstep_remove en w rc w')
  show ?thesis by (rule route_remove_glinks [OF fstep_remove(2) assms(2)])
next
  case (fstep_set en attr w rc w')
  show ?thesis by (rule route_set_glinks [OF fstep_set(3) assms(2)])
qed

lemma fib_step_nhg_inv:
  assumes "fib_step E ok s s'" and L: "fib_env_laws E" and I: "nhg_inv s" and T: "vrf_tree s \<noteq> None"
  shows "nhg_inv s' \<and> vrf_tree s' \<noteq> None"
proof -
  have F: "fib_inv s" using I by (simp add: nhg_inv_def)
  note A = fib_step_inv [OF assms(1) L F T]
  have "glinks s' = glinks s"
    using fib_step_glinks [OF assms(1)] F L by (simp add: fib_inv_def fib_env_laws_def fib_laws_def)
  with glinks_inv [OF _ I] A show ?thesis by blast
qed

end
