(* ===== verification/Nhg_Reach.thy ===== *)
theory Nhg_Reach
  imports Nhg_Frame
begin

text \<open>
  Creation and removal of groups, and the states that the calls of virtual routers, routes, groups
  and group members reach together.
\<close>

section \<open>Creation of a group\<close>

definition group_alloc_law :: "('w, 'm, 'z) nhg_env_scheme \<Rightarrow> bool" where
  \<comment> \<open>\<open>calloc\<close> returns a node that is not in use\<close>
  "group_alloc_law E \<longleftrightarrow> (\<forall>A w g w'. nh_group_node_alloc E A w = (Some g, w') \<longrightarrow> \<not> A g)"

lemma group_allocD: "group_alloc_law E \<Longrightarrow> nh_group_node_alloc E A w = (Some g, w') \<Longrightarrow> \<not> A g"
  unfolding group_alloc_law_def by (elim allE) (erule mp)

definition with_group :: "addr \<Rightarrow> sai_fib_nh_group_t \<Rightarrow> fib_state \<Rightarrow> fib_state" where
  "with_group g gr s = s\<lparr>grp_mem := (grp_mem s)(g \<mapsto> gr)\<rparr>"

definition new_group :: "sai_next_hop_group_type_t \<Rightarrow> sai_object_id_t \<Rightarrow> sai_fib_nh_group_t" where
  "new_group t gid = nh_group_zero\<lparr>grp_type := t, group_id := gid\<rparr>"

lemma group_loop_type:
  "group_info_loop E i attrs c grp b = (st, grp', b') \<Longrightarrow> \<exists>t. grp' = grp\<lparr>grp_type := t\<rparr>"
proof (induction attrs arbitrary: i grp b)
  case Nil
  then show ?case by (auto intro: exI [of _ "grp_type grp"])
next
  case (Cons a attrs)
  have step: "\<exists>t. snd (sai_fib_next_hop_group_type_set grp ty c) = grp\<lparr>grp_type := t\<rparr>" for ty
    by (auto simp: sai_fib_next_hop_group_type_set_def intro: exI [of _ "grp_type grp"])
  show ?case
  proof (cases a)
    case (SAI_NEXT_HOP_GROUP_ATTR_TYPE ty)
    obtain st1 g1 where 1: "sai_fib_next_hop_group_type_set grp ty c = (st1, g1)" by (metis surj_pair)
    then obtain t where t: "g1 = grp\<lparr>grp_type := t\<rparr>" using step [of ty] by auto
    show ?thesis
    proof (cases "st1 = SAI_STATUS_SUCCESS")
      case True
      with Cons.prems 1 SAI_NEXT_HOP_GROUP_ATTR_TYPE
      have "group_info_loop E (Suc i) attrs c g1 True = (st, grp', b')" by simp
      from Cons.IH [OF this] t show ?thesis by auto
    next
      case False
      with Cons.prems 1 SAI_NEXT_HOP_GROUP_ATTR_TYPE t show ?thesis by auto
    qed
  qed (use Cons.prems in \<open>auto intro: exI [of _ "grp_type grp"]\<close>)
qed

lemma group_fill_type:
  "sai_fib_next_hop_group_info_fill E grp attrs c = (st, grp') \<Longrightarrow> \<exists>t. grp' = grp\<lparr>grp_type := t\<rparr>"
  by (auto simp: sai_fib_next_hop_group_info_fill_def intro: exI [of _ "grp_type grp"] split: if_splits prod.splits
      dest: group_loop_type)

lemma group_create_effect:
  assumes run: "sai_fib_next_hop_group_create E attrs s w = (rc, oid, s', w')" and A: "group_alloc_law E"
  obtains (failed) "rc \<noteq> SAI_STATUS_SUCCESS" "s' = s"
  | (created) g t gid where "rc = SAI_STATUS_SUCCESS" "oid = Some gid" "grp_mem s g = None"
      "s' = (with_group g (new_group t gid) s)\<lparr>nh_group_tree := (nh_group_tree s)(gid \<mapsto> g)\<rparr>"
  | (unlisted) g t gid where "rc = SAI_STATUS_SUCCESS" "oid = Some gid" "grp_mem s g = None"
      "s' = with_group g (new_group t gid) s" "\<exists>w. \<not> fst (rbtree_insert_ok E (nh_group_tree s gid \<noteq> None) w)"
proof -
  obtain p w1 where al: "nh_group_node_alloc E (\<lambda>a. grp_mem s a \<noteq> None) w = (p, w1)" by (metis surj_pair)
  show thesis
  proof (cases p)
    case None
    with run al show thesis by (intro failed) (simp_all add: sai_fib_next_hop_group_create_def)
  next
    case (Some g)
    have g: "grp_mem s g = None" using group_allocD [OF A al [unfolded Some]] by simp
    obtain st1 grp where f: "sai_fib_next_hop_group_info_fill E nh_group_zero attrs True = (st1, grp)" by (metis surj_pair)
    obtain t where t: "grp = nh_group_zero\<lparr>grp_type := t\<rparr>" using group_fill_type [OF f] by blast
    obtain st2 hw w2 where c: "npu_nh_group_create E grp w1 = (st2, hw, w2)" by (metis prod_cases3)
    let ?gid = "sai_uoid_create E SAI_OBJECT_TYPE_NEXT_HOP_GROUP hw"
    obtain ok w3 where i: "rbtree_insert_ok E (nh_group_tree s ?gid \<noteq> None) w2 = (ok, w3)" by (metis surj_pair)
    have n: "nh_count grp = 0" by (simp add: t nh_group_zero_def)
    have same: "(grp_mem s)(g := None) = grp_mem s" using g by auto
    note run = run [unfolded sai_fib_next_hop_group_create_def al Some Let_def prod.case option.case nh_group_create_body_def f]
    show thesis
    proof (cases "st1 = SAI_STATUS_SUCCESS \<and> st2 = SAI_STATUS_SUCCESS")
      case False
      with run c n show thesis
        by (intro failed) (auto simp: grp_write_def sai_fib_lock_def sai_fib_unlock_def nh_group_create_cleanup_def
            sai_fib_nh_group_node_free_def same split: if_splits)
    next
      case True
      show thesis
      proof (cases ok)
        case ok: True
        show thesis
          by (rule created [of ?gid g t])
            (use run c i True ok g in \<open>auto simp: grp_write_def sai_fib_lock_def sai_fib_unlock_def with_group_def
              new_group_def t\<close>)
      next
        case False
        show thesis
          by (rule unlisted [of ?gid g t])
            (use run c i True False g in \<open>auto simp: grp_write_def sai_fib_lock_def sai_fib_unlock_def with_group_def
              new_group_def t split_beta intro: exI [of _ w2]\<close>)
      qed
    qed
  qed
qed

lemma with_group_sel [simp]:
  "vrf_tree (with_group g gr s) = vrf_tree s" "route_mem (with_group g gr s) = route_mem s"
  "nh_mem (with_group g gr s) = nh_mem s" "nh_id_tree (with_group g gr s) = nh_id_tree s"
  "nh_group_tree (with_group g gr s) = nh_group_tree s" "users (with_group g gr s) t = users s t"
  "route_at (with_group g gr s) = route_at s" "nh_links (with_group g gr s) u = nh_links s u"
  "grp_mem (with_group g gr s) h = (if h = g then Some gr else grp_mem s h)"
  by (simp_all add: with_group_def users_def route_at_def nh_links_def fun_eq_iff)

lemma new_group_sel [simp]:
  "grp_nh_links (new_group t gid) = []" "nh_count (new_group t gid) = 0" "grp_ref_count (new_group t gid) = 0"
  "group_id (new_group t gid) = gid"
  by (simp_all add: new_group_def nh_group_zero_def)

lemma count_Target_Group: "count_of s (Target_Group (Some g)) = map_option (\<lambda>g. unat (grp_ref_count g)) (grp_mem s g)"
  by (simp add: count_of_def)

lemma with_group_inv:
  assumes I: "nhg_inv s" and g: "grp_mem s g = None"
  shows "nhg_inv (with_group g (new_group t gid) s)"
proof -
  have W: "fib_wf s" and R: "refs_ok s" and D: "ids_ok s" and M: "links_mirror s" and N: "groups_named s"
    using I by (auto simp: nhg_inv_def fib_inv_def)
  have none: "users s (Target_Group (Some g)) = {}"
  proof (rule ccontr)
    assume "users s (Target_Group (Some g)) \<noteq> {}"
    then have "count_of s (Target_Group (Some g)) \<noteq> None" using refs_ok_defined [OF R] by blast
    with g show False by (simp add: count_Target_Group)
  qed
  have defd: "count_of (with_group g (new_group t gid) s) x \<noteq> None" if "count_of s x \<noteq> None" for x
    using that by (auto simp: count_of_def split: route_target.splits option.splits)
  have refs: "refs_ok (with_group g (new_group t gid) s)"
    unfolding refs_ok_def all_counts
    using defd refs_ok_defined [OF R] counted_le [OF R] none by (auto simp del: not_None_eq)
  have gl: "grp_links (with_group g (new_group t gid) s) h = grp_links s h" for h
    using g by (simp add: grp_links_def)
  have "links_mirror (with_group g (new_group t gid) s)"
    using M by (auto simp: links_mirror_def gl)
  moreover have "groups_named (with_group g (new_group t gid) s)" using N g by (fastforce simp: groups_named_def)
  moreover have "ids_ok (with_group g (new_group t gid) s)" using D by (simp add: ids_ok_def)
  moreover have "fib_wf (with_group g (new_group t gid) s)" using W by (simp add: fib_wf_def)
  ultimately show ?thesis using refs by (simp add: nhg_inv_def fib_inv_def)
qed

text \<open>Naming an allocated group by its id, and dropping an id.\<close>

lemma group_tree_inv:
  assumes I: "nhg_inv s" and t: "\<And>x g. T x = Some g \<Longrightarrow> \<exists>grp. grp_mem s g = Some grp \<and> group_id grp = x"
  shows "nhg_inv (s\<lparr>nh_group_tree := T\<rparr>)"
proof -
  let ?s = "s\<lparr>nh_group_tree := T\<rparr>"
  have e: "route_at ?s = route_at s" "users ?s = users s" "grp_links ?s = grp_links s" "nh_links ?s = nh_links s"
    by (simp_all add: fun_eq_iff route_at_def users_def grp_links_def nh_links_def)
  have c: "count_of ?s = count_of s" by (rule count_of_mem) simp_all
  have h: "held ?s = held s" by (rule held_mem) simp_all
  have "ids_ok ?s" using I t unfolding nhg_inv_def fib_inv_def ids_ok_def by fastforce
  moreover have "groups_named ?s" using t by (simp add: groups_named_def)
  ultimately show ?thesis
    using I by (simp add: nhg_inv_def fib_inv_def fib_wf_def refs_ok_def links_mirror_def e c h)
qed

lemma group_create_inv:
  assumes run: "sai_fib_next_hop_group_create E attrs s w = (rc, oid, s', w')"
    and A: "group_alloc_law E" and I: "nhg_inv s"
  shows "nhg_inv s' \<and> vrf_tree s' = vrf_tree s"
  using run A
proof (cases rule: group_create_effect)
  case failed with I show ?thesis by simp
next
  case (created g t gid)
  note J = with_group_inv [OF I created(3), of t gid]
  have "groups_named s" using I by (simp add: nhg_inv_def)
  then have "nhg_inv s'"
    unfolding created(4)
    by (intro group_tree_inv [OF J]) (use created(3) in \<open>fastforce simp: groups_named_def split: if_splits\<close>)
  with created(4) show ?thesis by simp
next
  case (unlisted g t gid)
  with with_group_inv [OF I unlisted(3)] show ?thesis by simp
qed

section \<open>Removal of a group\<close>

definition without_group :: "sai_object_id_t \<Rightarrow> addr \<Rightarrow> fib_state \<Rightarrow> fib_state" where
  "without_group gid g s = s\<lparr>nh_group_tree := (nh_group_tree s)(gid := None), grp_mem := (grp_mem s)(g := None)\<rparr>"

lemma unused_group:
  assumes I: "nhg_inv s" and g: "grp_mem s g = Some gr" and z: "grp_ref_count gr = 0"
  shows "nh_count gr = 0" "grp_nh_links gr = []" "users s (Target_Group (Some g)) = {}"
    "nh_mem s u = Some n \<Longrightarrow> link_weight (nh_group_list n) g = 0"
proof -
  have M: "links_mirror s" and R: "refs_ok s" using I by (auto simp: nhg_inv_def fib_inv_def)
  have c: "card (users s (Target_Group (Some g))) + link_total (grp_nh_links gr) = 0"
    using counted_le(1) [OF R g] z by simp
  with mirror_total [OF M g] show "nh_count gr = 0" by (simp add: unat_eq_0)
  show "users s (Target_Group (Some g)) = {}" using c finite_users [of s] by (metis add_is_0 card_0_eq)
  have wf: "links_wf (grp_nh_links gr)" by (rule mirror_wf(1) [OF M g])
  show l: "grp_nh_links gr = []"
  proof (cases "grp_nh_links gr")
    case (Cons p l)
    with wf c show ?thesis by (cases p) (auto simp: links_wf_def unat_eq_0)
  qed simp
  show "nh_mem s u = Some n \<Longrightarrow> link_weight (nh_group_list n) g = 0"
    using mirror_wf(3) [OF M g] l by simp
qed

lemma group_remove_effect:
  assumes run: "sai_fib_next_hop_group_remove E gid s w = (rc, s', w')" and I: "nhg_inv s"
  obtains (failed) "rc \<noteq> SAI_STATUS_SUCCESS" "s' = s"
  | (removed) g gr where "rc = SAI_STATUS_SUCCESS" "nh_group_tree s gid = Some g" "grp_mem s g = Some gr"
      "grp_ref_count gr = 0" "s' = without_group gid g s"
proof -
  show thesis
  proof (cases "sai_is_obj_id E SAI_OBJECT_TYPE_NEXT_HOP_GROUP gid \<and> nh_group_tree s gid \<noteq> None")
    case False
    with run show thesis by (intro failed) (auto simp: sai_fib_next_hop_group_remove_def split: if_splits)
  next
    case True
    then obtain g where g: "sai_is_obj_id E SAI_OBJECT_TYPE_NEXT_HOP_GROUP gid" "nh_group_tree s gid = Some g" by auto
    then obtain gr where gr: "grp_mem s g = Some gr" using I unfolding nhg_inv_def groups_named_def by blast
    show thesis
    proof (cases "grp_ref_count gr = 0 \<and> fst (npu_nh_group_remove E gr w) = SAI_STATUS_SUCCESS")
      case False
      with run g gr show thesis
        by (intro failed)
          (auto simp: sai_fib_next_hop_group_remove_def sai_fib_is_nh_group_used_def split_beta Let_def split: if_splits)
    next
      case True
      then have "nh_count gr = 0" using unused_group(1) [OF I gr] by simp
      with run g gr True show thesis
        by (intro removed [of g gr])
          (auto simp: sai_fib_next_hop_group_remove_def sai_fib_is_nh_group_used_def split_beta
            sai_fib_nh_group_node_free_def without_group_def sai_fib_lock_def sai_fib_unlock_def)
    qed
  qed
qed

lemma without_group_sel [simp]:
  "vrf_tree (without_group gid g s) = vrf_tree s" "route_mem (without_group gid g s) = route_mem s"
  "nh_mem (without_group gid g s) = nh_mem s" "nh_id_tree (without_group gid g s) = nh_id_tree s"
  "nh_group_tree (without_group gid g s) x = (if x = gid then None else nh_group_tree s x)"
  "users (without_group gid g s) t = users s t"
  "route_at (without_group gid g s) = route_at s" "nh_links (without_group gid g s) u = nh_links s u"
  "grp_mem (without_group gid g s) h = (if h = g then None else grp_mem s h)"
  by (simp_all add: without_group_def users_def route_at_def nh_links_def fun_eq_iff)

lemma without_group_inv:
  assumes I: "nhg_inv s" and t: "nh_group_tree s gid = Some g" and g: "grp_mem s g = Some gr"
    and z: "grp_ref_count gr = 0"
  shows "nhg_inv (without_group gid g s)"
proof -
  note U = unused_group [OF I g z]
  have W: "fib_wf s" and R: "refs_ok s" and D: "ids_ok s" and M: "links_mirror s" and N: "groups_named s"
    using I by (auto simp: nhg_inv_def fib_inv_def)
  have other: "h \<noteq> g" if "nh_group_tree s x = Some h" "x \<noteq> gid" for x h
    using named_once [OF N that(1), of gid] t that(2) by auto
  have defd: "count_of (without_group gid g s) x \<noteq> None" if "count_of s x \<noteq> None" "users s x \<noteq> {}" for x
    using that U(3) by (auto simp: count_of_def split: route_target.splits option.splits if_splits)
  have refs: "refs_ok (without_group gid g s)"
    unfolding refs_ok_def all_counts
    using defd refs_ok_defined [OF R] counted_le [OF R] by (auto simp del: not_None_eq split: if_splits)
  have gl: "grp_links (without_group gid g s) h = grp_links s h" for h
    using g U(2) by (simp add: grp_links_def)
  have "links_mirror (without_group gid g s)"
    using M by (auto simp: links_mirror_def gl split: if_splits)
  moreover have "groups_named (without_group gid g s)"
    unfolding groups_named_def
  proof (intro allI impI)
    fix x h assume x: "nh_group_tree (without_group gid g s) x = Some h"
    then have "nh_group_tree s x = Some h" "h \<noteq> g" using other by (auto split: if_splits)
    with N show "\<exists>grp. grp_mem (without_group gid g s) h = Some grp \<and> group_id grp = x"
      unfolding groups_named_def by simp
  qed
  moreover have "ids_ok (without_group gid g s)"
    using D other unfolding ids_ok_def by (auto simp del: not_None_eq split: if_splits)
  moreover have "fib_wf (without_group gid g s)" using W by (simp add: fib_wf_def)
  ultimately show ?thesis using refs by (simp add: nhg_inv_def fib_inv_def)
qed

lemma group_remove_inv:
  assumes run: "sai_fib_next_hop_group_remove E gid s w = (rc, s', w')" and I: "nhg_inv s"
  shows "nhg_inv s' \<and> vrf_tree s' = vrf_tree s"
  using run I
proof (cases rule: group_remove_effect)
  case failed with I show ?thesis by simp
next
  case removed
  with without_group_inv [OF I removed(2,3,4)] show ?thesis by simp
qed

section \<open>Members\<close>

lemma member_info_length:
  "member_info_loop E i attrs cap gid ids = (rc, gid', ids') \<Longrightarrow> length ids \<le> cap \<Longrightarrow> length ids' \<le> cap"
proof (induction attrs arbitrary: i gid ids)
  case (Cons a attrs)
  then show ?case by (cases a) (auto split: if_splits)
qed simp

lemma member_info_one:
  assumes "sai_fib_next_hop_group_member_get_info E attrs 1 = (SAI_STATUS_SUCCESS, gid, ids)"
  shows "\<exists>x. ids = [x]"
proof -
  obtain rc g l where r: "member_info_loop E 0 attrs 1 None [] = (rc, g, l)" by (metis prod_cases3)
  have "length l \<le> 1" using member_info_length [OF r] by simp
  with assms r show ?thesis
    by (cases l) (auto simp: sai_fib_next_hop_group_member_get_info_def split: if_splits)
qed

text \<open>The state of a member call changes as the list functions say.\<close>

lemma member_create_fib:
  assumes run: "sai_fib_next_hop_group_member_create E attrs s w = (rc, oid, s', w')"
  obtains (same) "nhg_fib s' = nhg_fib s" "rc \<noteq> SAI_STATUS_SUCCESS"
  | (ran) gid x f w1 rc1 where "sai_fib_next_hop_group_member_get_info E attrs 1 = (SAI_STATUS_SUCCESS, Some gid, [x])"
      "sai_fib_next_hop_add_to_group E gid [x] (sai_fib_lock (nhg_fib s)) w = (rc1, f, w1)"
      "nhg_fib s' = sai_fib_unlock f" "rc1 \<noteq> SAI_STATUS_SUCCESS \<longrightarrow> rc = rc1"
proof -
  obtain rc0 g ids where i: "sai_fib_next_hop_group_member_get_info E attrs 1 = (rc0, g, ids)" by (metis prod_cases3)
  show thesis
  proof (cases "rc0 = SAI_STATUS_SUCCESS")
    case False
    with run i show thesis
      by (intro same) (auto simp: sai_fib_next_hop_group_member_create_def nh_group_member_create_body_def)
  next
    case True
    obtain x where x: "ids = [x]" using member_info_one i True by blast
    obtain gid where g: "g = Some gid"
      using i True by (auto simp: sai_fib_next_hop_group_member_get_info_def split: if_splits prod.splits)
    obtain rc1 f w1 where a: "sai_fib_next_hop_add_to_group E gid [x] (sai_fib_lock (nhg_fib s)) w = (rc1, f, w1)"
      by (metis prod_cases3)
    have gen: "nhg_fib (snd (sai_fib_generate_next_hop_grp_member_id E t)) = nhg_fib t" for t
      by (simp add: sai_fib_generate_next_hop_grp_member_id_def split_beta Let_def)
    show thesis
      by (rule ran [of gid x rc1 f w1])
        (use run i True x g a gen [of "s\<lparr>nhg_fib := f\<rparr>"] in
          \<open>auto simp: sai_fib_next_hop_group_member_create_def nh_group_member_create_body_def split_beta Let_def
             split: if_splits\<close>)
  qed
qed

lemma member_remove_fib:
  assumes run: "sai_fib_next_hop_group_member_remove E mid s w = (rc, s', w')"
  obtains (same) "nhg_fib s' = nhg_fib s" "rc \<noteq> SAI_STATUS_SUCCESS"
  | (ran) gid x f w1 where
      "sai_next_hop_map_get_ids_from_member_id E mid (sai_map s) = (SAI_STATUS_SUCCESS, gid, x)"
      "sai_fib_next_hop_remove_from_group E gid [x] (sai_fib_lock (nhg_fib s)) w = (rc, f, w1)"
      "nhg_fib s' = sai_fib_unlock f"
proof -
  obtain rc0 gid x where i: "sai_next_hop_map_get_ids_from_member_id E mid (sai_map s) = (rc0, gid, x)"
    by (metis prod_cases3)
  obtain rc1 f w1 where a: "sai_fib_next_hop_remove_from_group E gid [x] (sai_fib_lock (nhg_fib s)) w = (rc1, f, w1)"
    by (metis prod_cases3)
  show thesis
  proof (cases "sai_is_obj_id E SAI_OBJECT_TYPE_NEXT_HOP_GROUP_MEMBER mid \<and> rc0 = SAI_STATUS_SUCCESS")
    case False
    with run i show thesis
      by (intro same) (auto simp: sai_fib_next_hop_group_member_remove_def nh_group_member_remove_body_def split: if_splits)
  next
    case True
    show thesis
      by (rule ran [of gid x f w1])
        (use run i True a in \<open>auto simp: sai_fib_next_hop_group_member_remove_def nh_group_member_remove_body_def
           Let_def split: if_splits\<close>)
  qed
qed

lemma room_lock [simp]: "refs_room (sai_fib_lock s) = refs_room s"
proof -
  have "count_of (sai_fib_lock s) = count_of s" by (rule count_of_mem) simp_all
  then show ?thesis by (simp add: refs_room_def)
qed

lemma member_create_inv:
  assumes run: "sai_fib_next_hop_group_member_create E attrs s w = (rc, oid, s', w')"
    and E: "link_find_law E" "calloc_law E" and I: "nhg_inv (nhg_fib s)" and room: "refs_room (nhg_fib s)"
  shows "nhg_inv (nhg_fib s') \<and> vrf_tree (nhg_fib s') = vrf_tree (nhg_fib s)"
  using run
proof (cases rule: member_create_fib)
  case same with I show ?thesis by simp
next
  case (ran gid x f w1 rc1)
  have IL: "nhg_inv (sai_fib_lock (nhg_fib s))" and rm: "refs_room (sai_fib_lock (nhg_fib s))" using I room by simp_all
  from ran(2) E IL rm have "nhg_inv f \<and> vrf_tree f = vrf_tree (nhg_fib s)"
  proof (cases rule: add_to_group_effect)
    case failed
    with nhg_core [OF failed(2) IL] fib_coreD(1) [OF failed(2)] show ?thesis by simp
  next
    case (added g u gr n)
    note J = join_inv [OF IL added(4,5) rm]
    with nhg_core [OF added(6) J] fib_coreD(1) [OF added(6)] show ?thesis by (simp add: join_def)
  qed
  with ran(3) show ?thesis by simp
qed

lemma member_remove_inv:
  assumes run: "sai_fib_next_hop_group_member_remove E mid s w = (rc, s', w')"
    and E: "link_find_law E" "calloc_law E" and I: "nhg_inv (nhg_fib s)"
  shows "nhg_inv (nhg_fib s') \<and> vrf_tree (nhg_fib s') = vrf_tree (nhg_fib s)"
  using run
proof (cases rule: member_remove_fib)
  case same with I show ?thesis by simp
next
  case (ran gid x f w1)
  have IL: "nhg_inv (sai_fib_lock (nhg_fib s))" using I by simp
  from ran(2) E IL have "nhg_inv f \<and> vrf_tree f = vrf_tree (nhg_fib s)"
  proof (cases rule: remove_from_group_effect)
    case failed
    with nhg_core [OF failed(2) IL] fib_coreD(1) [OF failed(2)] show ?thesis by simp
  next
    case (removed g u gr n)
    note J = leave_inv [OF IL removed(4,5,6)]
    with nhg_core [OF removed(7) J] fib_coreD(1) [OF removed(7)] show ?thesis by (simp add: leave_def)
  qed
  with ran(3) show ?thesis by simp
qed

section \<open>Steps\<close>

inductive nhg_step ::
  "('w, 'm, 'z) nhg_env_scheme \<Rightarrow> (sai_route_entry_t \<Rightarrow> bool) \<Rightarrow> 'm nhg_state \<Rightarrow> 'm nhg_state \<Rightarrow> bool"
  for E :: "('w, 'm, 'z) nhg_env_scheme" and ok where
  gstep_fib: "fib_step E ok (nhg_fib s) f \<Longrightarrow> nhg_step E ok s (s\<lparr>nhg_fib := f\<rparr>)"
| gstep_create: "sai_fib_next_hop_group_create E attrs (nhg_fib s) w = (rc, oid, f, w') \<Longrightarrow>
    nhg_step E ok s (s\<lparr>nhg_fib := f\<rparr>)"
| gstep_remove: "sai_fib_next_hop_group_remove E gid (nhg_fib s) w = (rc, f, w') \<Longrightarrow>
    nhg_step E ok s (s\<lparr>nhg_fib := f\<rparr>)"
| gstep_member_create: "refs_room (nhg_fib s) \<Longrightarrow>
    sai_fib_next_hop_group_member_create E as s w = (rc, oid, s', w') \<Longrightarrow> nhg_step E ok s s'"
| gstep_member_remove: "sai_fib_next_hop_group_member_remove E mid s w = (rc, s', w') \<Longrightarrow> nhg_step E ok s s'"

inductive_cases nhg_stepE: "nhg_step E ok s s'"

text \<open>No virtual router, no route and no group yet, and any next hops.\<close>

definition nhg_start :: "'m nhg_state \<Rightarrow> bool" where
  "nhg_start s \<longleftrightarrow> fib_start (nhg_fib s) \<and> (\<forall>g. grp_mem (nhg_fib s) g = None) \<and> (\<forall>x. nh_group_tree (nhg_fib s) x = None)
     \<and> (\<forall>u n. nh_mem (nhg_fib s) u = Some n \<longrightarrow> nh_group_list n = [])"

definition nhg_reachable ::
  "('w, 'm, 'z) nhg_env_scheme \<Rightarrow> (sai_route_entry_t \<Rightarrow> bool) \<Rightarrow> 'm nhg_state \<Rightarrow> bool" where
  "nhg_reachable E ok = reach nhg_start (nhg_step E ok)"

definition nhg_laws :: "('w, 'm, 'z) nhg_env_scheme \<Rightarrow> bool" where
  "nhg_laws E \<longleftrightarrow> fib_env_laws E \<and> link_find_law E \<and> group_alloc_law E"

lemma nhg_start_inv: "nhg_start s \<Longrightarrow> nhg_inv (nhg_fib s) \<and> vrf_tree (nhg_fib s) \<noteq> None"
proof -
  assume S: "nhg_start s"
  have "grp_links (nhg_fib s) g = []" "nh_links (nhg_fib s) u = []" for g u
    using S by (auto simp: nhg_start_def grp_links_def nh_links_def split: option.split)
  then show ?thesis
    using S start_inv by (auto simp: nhg_start_def nhg_inv_def links_mirror_def groups_named_def fib_start_def)
qed

lemma nhg_step_inv:
  assumes "nhg_step E ok s s'" and L: "nhg_laws E" "calloc_law E" and I: "nhg_inv (nhg_fib s)" and T: "vrf_tree (nhg_fib s) \<noteq> None"
  shows "nhg_inv (nhg_fib s') \<and> vrf_tree (nhg_fib s') \<noteq> None"
proof -
  have E: "link_find_law E" "calloc_law E" "group_alloc_law E" "fib_env_laws E" using L by (auto simp: nhg_laws_def)
  from assms(1) show ?thesis
  proof cases
    case (gstep_fib f)
    with fib_step_nhg_inv [OF gstep_fib(2) E(4) I T] show ?thesis by simp
  next
    case (gstep_create attrs w rc oid f w')
    with group_create_inv [OF gstep_create(2) E(3) I] T show ?thesis by simp
  next
    case (gstep_remove gid w rc f w')
    with group_remove_inv [OF gstep_remove(2) I] T show ?thesis by simp
  next
    case (gstep_member_create as w rc oid w')
    with member_create_inv [OF gstep_member_create(2) E(1,2) I gstep_member_create(1)] T show ?thesis by simp
  next
    case (gstep_member_remove mid w rc w')
    with member_remove_inv [OF gstep_member_remove E(1,2) I] T show ?thesis by simp
  qed
qed

interpretation nhg: invariant_system nhg_start "nhg_step E ok"
  "\<lambda>s. nhg_laws E \<and> calloc_law E \<longrightarrow> nhg_inv (nhg_fib s) \<and> vrf_tree (nhg_fib s) \<noteq> None" for E :: "('w, 'm, 'z) nhg_env_scheme" and ok
proof
  fix s :: "'m nhg_state" assume "nhg_start s"
  then show "nhg_laws E \<and> calloc_law E \<longrightarrow> nhg_inv (nhg_fib s) \<and> vrf_tree (nhg_fib s) \<noteq> None" using nhg_start_inv by blast
next
  fix s t :: "'m nhg_state"
  assume "nhg_laws E \<and> calloc_law E \<longrightarrow> nhg_inv (nhg_fib s) \<and> vrf_tree (nhg_fib s) \<noteq> None" "nhg_step E ok s t"
  then show "nhg_laws E \<and> calloc_law E \<longrightarrow> nhg_inv (nhg_fib t) \<and> vrf_tree (nhg_fib t) \<noteq> None" using nhg_step_inv by blast
qed

lemma nhg_reachable_inv:
  "nhg_reachable E ok s \<Longrightarrow> nhg_laws E \<Longrightarrow> calloc_law E \<Longrightarrow> nhg_inv (nhg_fib s) \<and> vrf_tree (nhg_fib s) \<noteq> None"
  unfolding nhg_reachable_def using nhg.reach_inv by blast

end
