(* ===== verification/Nhg_Claims.thy ===== *)
theory Nhg_Claims
  imports Nhg_Reach Fib_Demo
begin

text \<open>
  The properties of next hop groups and their members.
\<close>

section \<open>A concrete platform\<close>

text \<open>
  A concrete platform for the witnesses of next hop groups: the one of \<open>Fib_Demo\<close>, one place for a
  group, and a map of lists.  The group is 521 (\<open>0x209\<close>), its member 266 (\<open>0x10A\<close>).
\<close>

section \<open>The environment\<close>

type_synonym demo_map = "sai_map_key_t \<Rightarrow> sai_map_data_t list"

definition demo_map_get :: "sai_map_key_t \<Rightarrow> uint32_t \<Rightarrow> demo_map \<Rightarrow> sai_status_t \<times> uint32_t \<times> sai_map_data_t list" where
  "demo_map_get k n m =
    (if m k = [] then (SAI_STATUS_ITEM_NOT_FOUND, 0, []) else (SAI_STATUS_SUCCESS, of_nat (length (m k)), take (unat n) (m k)))"

definition demo_gen :: "(64 word \<Rightarrow> bool) \<Rightarrow> dn_sai_id_gen_info_t \<Rightarrow> sai_status_t \<times> dn_sai_id_gen_info_t" where
  \<comment> \<open>the next number, unless it is in use\<close>
  "demo_gen in_use g = (if in_use (cur_id g + 1) then (SAI_STATUS_FAILURE, g) else (SAI_STATUS_SUCCESS, g\<lparr>cur_id := cur_id g + 1\<rparr>))"

definition demo_nhg :: "(nat, demo_map) nhg_env" where
  "demo_nhg = fib_env.extend (demo_fib\<lparr>dn_sai_get_next_free_id := demo_gen\<rparr>) (nhg_env.fields (\<lambda>l a. map_of l a)
     (\<lambda>A w. (if A 500 then None else Some 500, w)) (\<lambda>g w. (SAI_STATUS_SUCCESS, 2, w)) (\<lambda>g w. (SAI_STATUS_SUCCESS, w))
     (\<lambda>g us w. (SAI_STATUS_SUCCESS, w)) (\<lambda>g us w. (SAI_STATUS_SUCCESS, w))
     (\<lambda>k d m. (SAI_STATUS_SUCCESS, m(k := m k @ [d]))) (\<lambda>k d m. m(k := filter (\<lambda>x. x \<noteq> d) (m k)))
     (\<lambda>k m. (SAI_STATUS_SUCCESS, of_nat (length (m k)))) (\<lambda>k m. m(k := [])) demo_map_get)"

lemma demo_nhg_sel [simp]:
  "calloc_ok demo_nhg w = (True, w)" "rbtree_insert_ok demo_nhg b w = (\<not> b, w)"
  "sai_uoid_create demo_nhg = demo_uoid" "sai_is_obj_id demo_nhg = demo_is_obj"
  "sai_fib_attr_status_code_get demo_nhg rc i = rc" "dn_sai_get_next_free_id demo_nhg = demo_gen"
  "route_node_alloc demo_nhg = route_node_alloc demo_fib"
  "std_ip_v4_mask_to_prefix_len demo_nhg = demo_mask_len" "std_ip_v6_mask_to_prefix_len demo_nhg = demo_mask_len"
  "find_link_node demo_nhg l a = map_of l a"
  "nh_group_node_alloc demo_nhg A w = (if A 500 then None else Some 500, w)"
  "npu_nh_group_create demo_nhg gr w = (SAI_STATUS_SUCCESS, 2, w)"
  "npu_nh_group_remove demo_nhg gr w = (SAI_STATUS_SUCCESS, w)"
  "npu_add_nh_to_group demo_nhg gr us w = (SAI_STATUS_SUCCESS, w)"
  "npu_remove_nh_from_group demo_nhg gr us w = (SAI_STATUS_SUCCESS, w)"
  "sai_map_insert demo_nhg k d m = (SAI_STATUS_SUCCESS, m(k := m k @ [d]))"
  "sai_map_get demo_nhg = demo_map_get"
  by (simp_all add: demo_nhg_def demo_fib_def fib_env.defs nhg_env.defs)

lemma demo_nhg_laws: "nhg_laws demo_nhg"
proof -
  have "fresh_alloc demo_nhg" using demo_fresh by (simp add: fresh_alloc_def)
  then have "fib_env_laws demo_nhg"
    by (simp add: fib_env_laws_def fib_laws_def attr_status_law_def zero_mask_law_def refuses_duplicates_def)
  then show ?thesis
    by (simp add: nhg_laws_def link_find_law_def group_alloc_law_def)
qed

lemma demo_nhg_memory: "calloc_law demo_nhg"
  by (simp add: calloc_law_def)

section \<open>States\<close>

definition demo_nh_free :: sai_fib_nh_t where
  "demo_nh_free = demo_nh_plain\<lparr>ref_count := 0, nh_group_list := []\<rparr>"

definition demo_nhg_start :: "demo_map nhg_state" where
  "demo_nhg_start = \<lparr>nhg_fib = demo_fib_none\<lparr>nh_mem := [100 \<mapsto> demo_nh_free], grp_mem := Map.empty, nh_group_tree := Map.empty\<rparr>,
     next_hop_grp_member_gen_info = \<lparr>cur_id = 0, is_wrappped = False, id_mask = 255\<rparr>, sai_map = \<lambda>k. []\<rparr>"

lemma demo_nhg_start_ok: "nhg_start demo_nhg_start"
proof -
  have "held (nhg_fib demo_nhg_start) t = 0" for t
    by (simp add: held_def demo_nhg_start_def demo_nh_free_def split: route_target.split option.split)
  then show ?thesis
    by (simp add: nhg_start_def fib_start_def) (simp add: demo_nhg_start_def demo_fib_none_def ids_ok_def demo_nh_free_def)
qed

text \<open>The group is created, and then the next hop 264 is added.\<close>

definition demo_nhg_group :: "demo_map nhg_state" where
  "demo_nhg_group = demo_nhg_start\<lparr>nhg_fib := nhg_fib demo_nhg_start\<lparr>
     grp_mem := [500 \<mapsto> new_group SAI_NEXT_HOP_GROUP_TYPE_ECMP 521], nh_group_tree := [521 \<mapsto> 500]\<rparr>\<rparr>"

lemma demo_group_id: "demo_uoid SAI_OBJECT_TYPE_NEXT_HOP_GROUP 2 = 521"
  by (simp add: demo_uoid_def)

lemma demo_group_create:
  "sai_fib_next_hop_group_create demo_nhg [SAI_NEXT_HOP_GROUP_ATTR_TYPE SAI_NEXT_HOP_GROUP_TYPE_ECMP] (nhg_fib demo_nhg_start) 7
     = (SAI_STATUS_SUCCESS, Some 521, nhg_fib demo_nhg_group, 7)"
  by (simp add: sai_fib_next_hop_group_create_def nh_group_create_body_def sai_fib_next_hop_group_info_fill_def
      sai_fib_next_hop_group_type_set_def sai_fib_next_hop_group_type_validate_def Let_def demo_group_id grp_write_def)
    (simp add: demo_nhg_group_def demo_nhg_start_def demo_fib_none_def new_group_def nh_group_zero_def sai_fib_lock_def
      sai_fib_unlock_def)

definition demo_nhg_member :: "demo_map nhg_state" where
  "demo_nhg_member = demo_nhg_group\<lparr>nhg_fib := nhg_fib demo_nhg_group\<lparr>
       grp_mem := [500 \<mapsto> (new_group SAI_NEXT_HOP_GROUP_TYPE_ECMP 521)\<lparr>nh_count := 1, grp_ref_count := 1, grp_nh_links := [(100, 1)]\<rparr>],
       nh_mem := [100 \<mapsto> demo_nh_free\<lparr>ref_count := 1, nh_group_list := [(500, 1)]\<rparr>]\<rparr>,
     next_hop_grp_member_gen_info := \<lparr>cur_id = 1, is_wrappped = False, id_mask = 255\<rparr>,
     sai_map := (\<lambda>k. [])(SAI_MAP_TYPE_NH_GRP_2_MEMBER_LIST 521 := [(266, 0)],
       SAI_MAP_TYPE_NH_MEMBER_2_GRP_INFO 266 := [(521, 264)])\<rparr>"

lemma demo_member_id: "demo_uoid SAI_OBJECT_TYPE_NEXT_HOP_GROUP_MEMBER 1 = 266"
  by (simp add: demo_uoid_def)

lemma demo_objs [simp]:
  "demo_is_obj SAI_OBJECT_TYPE_NEXT_HOP 264" "demo_is_obj SAI_OBJECT_TYPE_NEXT_HOP_GROUP 521"
  "demo_is_obj SAI_OBJECT_TYPE_NEXT_HOP_GROUP_MEMBER 266"
  by (simp_all add: demo_is_obj_def)

lemma demo_add:
  "sai_fib_next_hop_add_to_group demo_nhg 521 [264] (sai_fib_lock (nhg_fib demo_nhg_group)) 7
     = (SAI_STATUS_SUCCESS, sai_fib_lock (nhg_fib demo_nhg_member), 7)"
  by (simp add: sai_fib_next_hop_add_to_group_def demo_nhg_member_def demo_nhg_group_def demo_nhg_start_def
      demo_fib_none_def sai_fib_is_nh_group_size_valid_def sai_fib_next_hop_fill_from_nh_id_list_def
      sai_fib_nh_group_add_in_lists_def sai_fib_nh_add_group_link_node_def sai_fib_nh_group_add_nh_link_node_def
      sai_fib_nh_group_dep_encap_nh_update_def new_group_def nh_group_zero_def demo_nh_free_def demo_nh_plain_def
      nh_write_def grp_write_def sai_fib_lock_def sai_fib_incr_nh_group_ref_count_def sai_fib_incr_nh_ref_count_def)

lemma demo_group_member_create:
  "sai_fib_next_hop_group_member_create demo_nhg [SAI_NEXT_HOP_GROUP_MEMBER_ATTR_NEXT_HOP_GROUP_ID 521,
       SAI_NEXT_HOP_GROUP_MEMBER_ATTR_NEXT_HOP_ID 264] demo_nhg_group 7
     = (SAI_STATUS_SUCCESS, Some 266, demo_nhg_member, 7)"
  by (simp add: sai_fib_next_hop_group_member_create_def nh_group_member_create_body_def Let_def
      sai_fib_next_hop_group_member_get_info_def demo_add sai_fib_generate_next_hop_grp_member_id_def demo_gen_def
      sai_next_hop_map_insert_def sai_fib_is_next_hop_grp_member_id_in_use_def
      sai_next_hop_map_get_ids_from_member_id_def demo_map_get_def)
    (simp add: demo_nhg_member_def demo_nhg_group_def demo_nhg_start_def demo_member_id)

section \<open>Reachable states\<close>

lemma demo_member_reachable: "nhg_reachable demo_nhg ok demo_nhg_member"
proof -
  have "nhg_reachable demo_nhg ok demo_nhg_start"
    unfolding nhg_reachable_def by (rule reach_start [of nhg_start, OF demo_nhg_start_ok])
  moreover have "nhg_step demo_nhg ok demo_nhg_start demo_nhg_group"
    using gstep_create [OF demo_group_create, of ok] by (simp add: demo_nhg_group_def)
  moreover have "nhg_step demo_nhg ok demo_nhg_group demo_nhg_member"
  proof (rule gstep_member_create [OF _ demo_group_member_create])
    show "refs_room (nhg_fib demo_nhg_group)"
      unfolding refs_room_def all_counts
      by (simp add: demo_nhg_group_def demo_nhg_start_def demo_nh_free_def)
  qed
  ultimately show ?thesis unfolding nhg_reachable_def by (blast intro: reach_step)
qed

text \<open>C38. As long as memory lasts: in every state that the calls of virtual routers, routes, groups
  and group members reach, a group and a next hop hold links to each other of the same weight, one for
  each pair and none of weight zero; the links of a group end in allocated next hops; the number of next
  hops of a group is the sum of its weights; and the reference counts of both cover the weights of their
  links and the routes that forward to them.  \<open>calloc_law\<close> is that no allocation of the calls fails (when
  one does, the counts can fall below their users: see C25), \<open>nhg_laws\<close> what the code relies on of the
  trees, the search of a link list and the freshness of allocated nodes, and the steps
  that add a user to a next hop or group are taken while its 32-bit count has room.\<close>

theorem group_links_consistent:
  assumes "nhg_reachable E ok s" and "nhg_laws E" and memory: "calloc_law E"
    and g: "grp_mem (nhg_fib s) g = Some gr" and u: "nh_mem (nhg_fib s) u = Some n"
  shows "link_weight (grp_nh_links gr) u = link_weight (nh_group_list n) g
    \<and> links_wf (grp_nh_links gr) \<and> links_wf (nh_group_list n)
    \<and> (\<forall>a\<in>fst ` set (grp_nh_links gr). nh_mem (nhg_fib s) a \<noteq> None)
    \<and> unat (nh_count gr) = link_total (grp_nh_links gr)
    \<and> card (users (nhg_fib s) (Target_Group (Some g))) + link_total (grp_nh_links gr) \<le> unat (grp_ref_count gr)
    \<and> card (users (nhg_fib s) (Target_Next_Hop (Some u))) + link_total (nh_group_list n) \<le> unat (ref_count n)"
proof -
  have "nhg_inv (nhg_fib s)" using nhg_reachable_inv assms(1,2) memory by blast
  then have M: "links_mirror (nhg_fib s)" and R: "refs_ok (nhg_fib s)" by (simp_all add: nhg_inv_def fib_inv_def)
  have "nh_mem (nhg_fib s) a \<noteq> None" if "a \<in> fst ` set (grp_nh_links gr)" for a
  proof -
    have "0 < link_weight (grp_links (nhg_fib s) g) a"
      using link_weight_pos [OF mirror_wf(1) [OF M g]] that g by (simp add: grp_links_def)
    then have "0 < link_weight (nh_links (nhg_fib s) a) g" using M by (simp add: links_mirror_def)
    then show ?thesis by (cases "nh_mem (nhg_fib s) a") (simp_all add: nh_links_def)
  qed
  then show ?thesis
    by (intro conjI ballI mirror_wf(1) [OF M g] mirror_wf(2) [OF M u] mirror_wf(3) [OF M g u]
      mirror_total [OF M g] counted_le(1) [OF R g] counted_le(2) [OF R u])
qed

theorem group_links_consistent_witness:
  "link_weight (grp_nh_links (the (grp_mem (nhg_fib demo_nhg_member) 500))) 100 = 1
    \<and> link_weight (nh_group_list (the (nh_mem (nhg_fib demo_nhg_member) 100))) 500 = 1"
proof -
  have m: "grp_mem (nhg_fib demo_nhg_member) 500 = Some ((new_group SAI_NEXT_HOP_GROUP_TYPE_ECMP 521)
      \<lparr>nh_count := 1, grp_ref_count := 1, grp_nh_links := [(100, 1)]\<rparr>)"
    "nh_mem (nhg_fib demo_nhg_member) 100 = Some (demo_nh_free\<lparr>ref_count := 1, nh_group_list := [(500, 1)]\<rparr>)"
    by (simp_all add: demo_nhg_member_def)
  have "link_weight [(100, 1)] 100 = 1" by (simp add: link_weight_def)
  with group_links_consistent [OF demo_member_reachable demo_nhg_laws demo_nhg_memory m] m show ?thesis by simp
qed

text \<open>C39. As long as memory lasts: removing a group in a reachable state either changes nothing and
  reports an error, or it was a group without next hops, in no next hop's list and with no route to it;
  then exactly its id and its node go, no memory is freed twice, and nothing refers to the node that was
  freed.  \<open>calloc_law\<close> is that no allocation of the calls that led to the state failed; without it a count
  can have fallen to zero while the group has users (see C25).\<close>

theorem group_remove_safe:
  assumes "nhg_reachable E ok s" and "nhg_laws E" and memory: "calloc_law E"
    and run: "sai_fib_next_hop_group_remove E gid (nhg_fib s) w = (rc, f, w')"
  shows "if rc = SAI_STATUS_SUCCESS
    then \<exists>g gr. nh_group_tree (nhg_fib s) gid = Some g \<and> grp_mem (nhg_fib s) g = Some gr
      \<and> grp_nh_links gr = [] \<and> users f (Target_Group (Some g)) = {} \<and> fib_fault f = fib_fault (nhg_fib s)
      \<and> (\<forall>u n. nh_mem f u = Some n \<longrightarrow> g \<notin> fst ` set (nh_group_list n))
      \<and> (\<forall>x. nh_group_tree f x \<noteq> Some g) \<and> f = without_group gid g (nhg_fib s)
    else f = nhg_fib s"
proof -
  have I: "nhg_inv (nhg_fib s)" using nhg_reachable_inv assms(1,2) memory by blast
  from run I show ?thesis
  proof (cases rule: group_remove_effect)
    case failed then show ?thesis by simp
  next
    case (removed g gr)
    note U = unused_group [OF I removed(3,4)]
    have M: "links_mirror (nhg_fib s)" using I by (simp add: nhg_inv_def)
    have "g \<notin> fst ` set (nh_group_list n)" if "nh_mem (nhg_fib s) u = Some n" for u n
      using U(4) [OF that] link_weight_pos [OF mirror_wf(2) [OF M that], of g] by simp
    moreover have "nh_group_tree (nhg_fib s) x \<noteq> Some g" if "x \<noteq> gid" for x
      using I removed(2) that named_once [of "nhg_fib s" x g gid] by (auto simp: nhg_inv_def)
    moreover have "fib_fault (without_group gid g (nhg_fib s)) = fib_fault (nhg_fib s)"
      by (simp add: without_group_def)
    ultimately show ?thesis
      unfolding removed(1) if_P [OF refl]
      by (intro exI [of _ g] exI [of _ gr]) (simp add: removed(2,3,5) U(2,3))
  qed
qed

text \<open>The group of the demo has a member; without it, it can go.\<close>

lemma demo_group_reachable: "nhg_reachable demo_nhg ok demo_nhg_group"
  unfolding nhg_reachable_def
proof (rule reach_step [OF reach_start [of nhg_start, OF demo_nhg_start_ok]])
  show "nhg_step demo_nhg ok demo_nhg_start demo_nhg_group"
    using gstep_create [OF demo_group_create, of ok] by (simp add: demo_nhg_group_def)
qed

theorem group_remove_safe_witness:
  "\<exists>f. sai_fib_next_hop_group_remove demo_nhg 521 (nhg_fib demo_nhg_group) 7 = (SAI_STATUS_SUCCESS, f, 7)
     \<and> f = without_group 521 500 (nhg_fib demo_nhg_group)
     \<and> snd (sai_fib_next_hop_group_remove demo_nhg 521 (nhg_fib demo_nhg_member) 7) = (nhg_fib demo_nhg_member, 7)"
proof -
  have a: "fst (sai_fib_next_hop_group_remove demo_nhg 521 (nhg_fib demo_nhg_group) 7) = SAI_STATUS_SUCCESS"
    "snd (snd (sai_fib_next_hop_group_remove demo_nhg 521 (nhg_fib demo_nhg_group) 7)) = 7"
    by (simp_all add: sai_fib_next_hop_group_remove_def sai_fib_is_nh_group_used_def demo_nhg_group_def)
  obtain f where f: "sai_fib_next_hop_group_remove demo_nhg 521 (nhg_fib demo_nhg_group) 7 = (SAI_STATUS_SUCCESS, f, 7)"
    using a by (metis prod.collapse)
  have "f = without_group 521 500 (nhg_fib demo_nhg_group)"
    using group_remove_safe [OF demo_group_reachable demo_nhg_laws demo_nhg_memory f] by (auto simp: demo_nhg_group_def)
  moreover have b: "fst (sai_fib_next_hop_group_remove demo_nhg 521 (nhg_fib demo_nhg_member) 7) = SAI_STATUS_OBJECT_IN_USE"
    "snd (snd (sai_fib_next_hop_group_remove demo_nhg 521 (nhg_fib demo_nhg_member) 7)) = 7"
    by (simp_all add: sai_fib_next_hop_group_remove_def sai_fib_is_nh_group_used_def demo_nhg_member_def demo_nhg_group_def)
  obtain f2 where f2: "sai_fib_next_hop_group_remove demo_nhg 521 (nhg_fib demo_nhg_member) 7 = (SAI_STATUS_OBJECT_IN_USE, f2, 7)"
    using b by (metis prod.collapse)
  have "f2 = nhg_fib demo_nhg_member"
    using group_remove_safe [OF demo_member_reachable demo_nhg_laws demo_nhg_memory f2] by simp
  ultimately show ?thesis using f f2 by simp
qed

end
