(* ===== verification/Nhg_Members.thy ===== *)
theory Nhg_Members
  imports Nhg_Claims
begin

text \<open>
  Members of next hop groups: adding and removing, what happens without memory, and the get loop.
\<close>

section \<open>Adding and removing a member\<close>

text \<open>The map outside the repository: an insertion touches its key only, and the datum of a key that had
  none is the one that is read.\<close>

definition member_map_law :: "('w, 'm, 'z) nhg_env_scheme \<Rightarrow> bool" where
  "member_map_law E \<longleftrightarrow>
     (\<forall>k k' n d m. k' \<noteq> k \<longrightarrow> sai_map_get E k' n (snd (sai_map_insert E k d m)) = sai_map_get E k' n m)
   \<and> (\<forall>k d m. fst (sai_map_insert E k d m) = SAI_STATUS_SUCCESS \<longrightarrow> fst (sai_map_get E k 1 m) \<noteq> SAI_STATUS_SUCCESS \<longrightarrow>
        (\<exists>n. sai_map_get E k 1 (snd (sai_map_insert E k d m)) = (SAI_STATUS_SUCCESS, n, [d])))"

lemma map_insert_get:
  assumes L: "member_map_law E" and ins: "sai_next_hop_map_insert E gid nh mid m = (SAI_STATUS_SUCCESS, m')"
    and free: "fst (sai_next_hop_map_get_ids_from_member_id E mid m) \<noteq> SAI_STATUS_SUCCESS"
  shows "sai_next_hop_map_get_ids_from_member_id E mid m' = (SAI_STATUS_SUCCESS, gid, nh)"
proof -
  let ?k = "SAI_MAP_TYPE_NH_MEMBER_2_GRP_INFO mid" and ?g = "SAI_MAP_TYPE_NH_GRP_2_MEMBER_LIST gid"
  obtain r1 m1 where 1: "sai_map_insert E ?g (mid, 0) m = (r1, m1)" by (metis surj_pair)
  have 2: "sai_map_insert E ?k (gid, nh) m1 = (SAI_STATUS_SUCCESS, m')"
    using ins 1 by (auto simp: sai_next_hop_map_insert_def split: if_splits)
  have "sai_map_get E ?k 1 (snd (sai_map_insert E ?g (mid, 0) m)) = sai_map_get E ?k 1 m"
    using L unfolding member_map_law_def by blast
  then have "fst (sai_map_get E ?k 1 m1) \<noteq> SAI_STATUS_SUCCESS"
    using free 1 by (auto simp: sai_next_hop_map_get_ids_from_member_id_def split_beta split: if_splits)
  then obtain n where "sai_map_get E ?k 1 (snd (sai_map_insert E ?k (gid, nh) m1)) = (SAI_STATUS_SUCCESS, n, [(gid, nh)])"
    using L 2 unfolding member_map_law_def by (metis fst_conv)
  with 2 show ?thesis by (simp add: sai_next_hop_map_get_ids_from_member_id_def)
qed

lemma member_create_stored:
  assumes run: "sai_fib_next_hop_group_member_create E attrs s w = (SAI_STATUS_SUCCESS, oid, s', w')"
    and L: "member_map_law E" and G: "generator_honours_callback E"
  obtains gid x f w1 mid where
      "sai_fib_next_hop_group_member_get_info E attrs 1 = (SAI_STATUS_SUCCESS, Some gid, [x])"
      "sai_fib_next_hop_add_to_group E gid [x] (sai_fib_lock (nhg_fib s)) w = (SAI_STATUS_SUCCESS, f, w1)"
      "nhg_fib s' = sai_fib_unlock f" "oid = Some mid"
      "sai_next_hop_map_get_ids_from_member_id E mid (sai_map s') = (SAI_STATUS_SUCCESS, gid, x)"
  using run
proof (cases rule: member_create_fib)
  case (ran gid x f w1 rc1)
  then have rc1: "rc1 = SAI_STATUS_SUCCESS" by auto
  let ?s = "s\<lparr>nhg_fib := f\<rparr>"
  let ?use = "sai_fib_is_next_hop_grp_member_id_in_use E (sai_map s)"
  obtain rg g where gen: "dn_sai_get_next_free_id E ?use (next_hop_grp_member_gen_info s) = (rg, g)" by (metis surj_pair)
  let ?mid = "sai_uoid_create E SAI_OBJECT_TYPE_NEXT_HOP_GROUP_MEMBER (cur_id g)"
  note r = run [unfolded sai_fib_next_hop_group_member_create_def nh_group_member_create_body_def Let_def ran(1)]
  have rg: "rg = SAI_STATUS_SUCCESS" and ins: "sai_next_hop_map_insert E gid x ?mid (sai_map s) = (SAI_STATUS_SUCCESS, sai_map s')"
    and oid: "oid = Some ?mid"
    using r ran(2) rc1 gen
    by (auto simp: sai_fib_generate_next_hop_grp_member_id_def Let_def split: if_splits prod.splits)
  have "fst (sai_next_hop_map_get_ids_from_member_id E ?mid (sai_map s)) \<noteq> SAI_STATUS_SUCCESS"
  proof -
    have "\<not> ?use (cur_id g)" using G gen rg unfolding generator_honours_callback_def by blast
    then show ?thesis by (simp add: sai_fib_is_next_hop_grp_member_id_in_use_def)
  qed
  from map_insert_get [OF L ins this] that ran rc1 oid show ?thesis by blast
qed simp

text \<open>C18. As long as memory lasts: adding a next hop to a group as a new member, when the call succeeds,
  links the two with one weight more, and removing that member again, when that call succeeds as well,
  restores the links, the weights, the number of next hops and the reference counts of every group and next
  hop, as well as the routes and the ids; only the resolution of tunnel next hops is not covered.  The state
  before is in the invariant of C38 and its 32-bit counts have room for one more user.  \<open>calloc_law\<close> is that
  no allocation fails: without the memory for a link the addition reports success and links nothing (C25).
  The map of members behaves as a map, the search of a link list finds what is there, and the generator of
  member ids does not return an id that its callback says is in use.\<close>

theorem member_create_remove:
  assumes create: "sai_fib_next_hop_group_member_create E attrs s w = (SAI_STATUS_SUCCESS, oid, s1, w1)"
    and remove: "sai_fib_next_hop_group_member_remove E (the oid) s1 w2 = (SAI_STATUS_SUCCESS, s2, w3)"
    and I: "nhg_inv (nhg_fib s)" "refs_room (nhg_fib s)" and E: "link_find_law E" "calloc_law E"
    and L: "member_map_law E" "generator_honours_callback E"
  shows "\<exists>g u. link_weight (grp_links (nhg_fib s1) g) u = link_weight (grp_links (nhg_fib s) g) u + 1
      \<and> link_weight (nh_links (nhg_fib s1) u) g = link_weight (nh_links (nhg_fib s) u) g + 1
      \<and> fib_core (nhg_fib s2) = fib_core (nhg_fib s)"
proof -
  let ?L = "sai_fib_lock (nhg_fib s)"
  have IL: "nhg_inv ?L" and rm: "refs_room ?L" using I by simp_all
  obtain gid x f wf mid where
    c: "sai_fib_next_hop_add_to_group E gid [x] ?L w = (SAI_STATUS_SUCCESS, f, wf)"
      "nhg_fib s1 = sai_fib_unlock f" "oid = Some mid"
      "sai_next_hop_map_get_ids_from_member_id E mid (sai_map s1) = (SAI_STATUS_SUCCESS, gid, x)"
    using create L by (rule member_create_stored) blast
  obtain g u gr n where a: "nh_group_tree ?L gid = Some g" "nh_id_tree ?L x = Some u" "grp_mem ?L g = Some gr"
      "nh_mem ?L u = Some n" "fib_core f = fib_core (join g u ?L)"
    using c(1) E IL rm by (rule add_to_group_effect) auto
  have lk: "sai_fib_lock (nhg_fib s1) = f" by (simp add: c(2) sai_fib_lock_def sai_fib_unlock_def)
  obtain f2 wf2 where d: "sai_fib_next_hop_remove_from_group E gid [x] f w2 = (SAI_STATUS_SUCCESS, f2, wf2)"
      "nhg_fib s2 = sai_fib_unlock f2"
    using remove by (rule member_remove_fib) (use c(3,4) lk in auto)
  have If: "nhg_inv f" by (rule nhg_core [OF a(5) join_inv [OF IL a(3,4) rm]])
  have t: "nh_group_tree f gid = Some g" "nh_id_tree f x = Some u"
    using fib_coreD(2,3) [OF a(5)] a(1,2) by (simp_all add: join_def)
  have "fib_core f2 = fib_core (leave g u f)"
    using d(1) E If by (rule remove_from_group_effect) (use t in auto)
  also have "\<dots> = fib_core ?L"
    unfolding core_both a(5) unfolding core_both [symmetric] leave_join [OF IL a(3,4) rm] ..
  finally have "fib_core (nhg_fib s2) = fib_core (nhg_fib s)"
    using core_unlock [of f2 "nhg_fib s"] d(2) by simp
  moreover have "grp_links f h = grp_links (join g u ?L) h" "nh_links f h = nh_links (join g u ?L) h" for h
    using arg_cong [OF a(5), of "\<lambda>t. grp_links t h"] arg_cong [OF a(5), of "\<lambda>t. nh_links t h"] by simp_all
  moreover have "links_wf (grp_nh_links gr)" "link_total (grp_nh_links gr) + 1 < 2 ^ 32"
    "links_wf (nh_group_list n)" "link_total (nh_group_list n) + 1 < 2 ^ 32"
    using IL mirror_wf(1) [OF _ a(3)] mirror_wf(2) [OF _ a(4)] counted_le(1) [OF _ a(3)] counted_le(2) [OF _ a(4)]
      room_for(1) [OF rm a(3)] room_for(2) [OF rm a(4)]
    by (fastforce simp: nhg_inv_def fib_inv_def)+
  ultimately show ?thesis
    using a(3,4)
    by (intro exI [of _ g] exI [of _ u])
      (simp add: c(2) grp_links_def nh_links_def join_def grp_join_def nh_join_def link_add(2))
qed

lemma demo_map_laws: "member_map_law demo_nhg" "generator_honours_callback demo_nhg"
proof -
  show "member_map_law demo_nhg"
    by (auto simp: member_map_law_def demo_map_get_def split: if_splits)
  show "generator_honours_callback demo_nhg"
    by (simp add: generator_honours_callback_def demo_gen_def)
qed

lemma demo_member_remove:
  "\<exists>s2. sai_fib_next_hop_group_member_remove demo_nhg 266 demo_nhg_member 7 = (SAI_STATUS_SUCCESS, s2, 7)"
proof -
  have "fst (sai_fib_next_hop_remove_from_group demo_nhg 521 [264] (sai_fib_lock (nhg_fib demo_nhg_member)) 7) = SAI_STATUS_SUCCESS"
    "snd (snd (sai_fib_next_hop_remove_from_group demo_nhg 521 [264] (sai_fib_lock (nhg_fib demo_nhg_member)) 7)) = 7"
    by (simp_all add: sai_fib_next_hop_remove_from_group_def demo_nhg_member_def demo_nhg_group_def demo_nhg_start_def
      demo_fib_none_def sai_fib_next_hop_fill_from_nh_id_list_def sai_fib_lock_def split_beta
      sai_fib_nh_group_find_and_remove_nh_node_def sai_fib_nh_group_remove_nh_link_node_def
      sai_fib_nh_find_and_remove_group_node_def sai_fib_nh_remove_group_link_node_def link_decr_def
      sai_fib_nh_group_dep_encap_nh_update_def new_group_def nh_group_zero_def nh_write_def grp_write_def)
  then obtain f where "sai_fib_next_hop_remove_from_group demo_nhg 521 [264] (sai_fib_lock (nhg_fib demo_nhg_member)) 7
      = (SAI_STATUS_SUCCESS, f, 7)"
    by (metis prod.collapse)
  then show ?thesis
    by (simp add: sai_fib_next_hop_group_member_remove_def nh_group_member_remove_body_def Let_def
      sai_next_hop_map_get_ids_from_member_id_def demo_map_get_def demo_nhg_member_def)
qed

theorem member_create_remove_witness:
  "\<exists>s2. sai_fib_next_hop_group_member_remove demo_nhg 266 demo_nhg_member 7 = (SAI_STATUS_SUCCESS, s2, 7)
     \<and> fib_core (nhg_fib s2) = fib_core (nhg_fib demo_nhg_group)"
proof -
  obtain s2 where r: "sai_fib_next_hop_group_member_remove demo_nhg 266 demo_nhg_member 7 = (SAI_STATUS_SUCCESS, s2, 7)"
    using demo_member_remove by blast
  have room: "refs_room (nhg_fib demo_nhg_group)"
    unfolding refs_room_def all_counts by (simp add: demo_nhg_group_def demo_nhg_start_def demo_nh_free_def)
  have I: "nhg_inv (nhg_fib demo_nhg_group)" "link_find_law demo_nhg" "calloc_law demo_nhg"
    using nhg_reachable_inv [OF demo_group_reachable demo_nhg_laws demo_nhg_memory] demo_nhg_laws demo_nhg_memory
    by (simp_all add: nhg_laws_def)
  from member_create_remove [OF demo_group_member_create _ I(1) room I(2,3) demo_map_laws, of 7 s2 7] r
  show ?thesis by auto
qed

section \<open>Without memory\<close>

text \<open>C25. When the memory for a link node runs out, adding a next hop to a group reports success although
  nothing was added: the plug-in is asked to add the next hop, and if it does, the call returns success
  with the state as it was, so that the hardware has a member that the cache does not know.  If the plug-in
  refuses, the cleanup lowers the reference counts of the group and of the next hop, which had not been
  raised.\<close>

theorem member_without_memory:
  assumes gid: "sai_is_obj_id E SAI_OBJECT_TYPE_NEXT_HOP_GROUP gid" "nh_group_tree s gid = Some g" "grp_mem s g = Some gr"
    and x: "sai_is_obj_id E SAI_OBJECT_TYPE_NEXT_HOP x" "nh_id_tree s x = Some u" "nh_mem s u = Some n"
    and room: "sai_fib_is_nh_group_size_valid gr 1 s" "max_ecmp_paths s \<noteq> 0"
    and memory: "calloc_ok E w = (True, w1)" "calloc_ok E w1 = (False, w2)"
    and new: "find_link_node E (nh_group_list n) g = None" "find_link_node E (grp_nh_links gr) u = None"
    and plug_in: "npu_add_nh_to_group E gr [u] w2 = (rc, w3)"
  shows "sai_fib_next_hop_add_to_group E gid [x] s w =
    (if rc = SAI_STATUS_SUCCESS then (SAI_STATUS_SUCCESS, s, w3)
     else (rc, s\<lparr>grp_mem := (grp_mem s)(g \<mapsto> sai_fib_decr_nh_group_ref_count gr),
                nh_mem := (nh_mem s)(u \<mapsto> sai_fib_decr_nh_ref_count n)\<rparr>, w3))"
proof -
  have "0 < unat (max_ecmp_paths s)" using room(2) by (simp add: unat_gt_0)
  then have fill: "sai_fib_next_hop_fill_from_nh_id_list E gr [x] False s = (SAI_STATUS_SUCCESS, [u], s)"
    using x by (simp add: sai_fib_next_hop_fill_from_nh_id_list_def)
  have add: "sai_fib_nh_group_add_in_lists E g [u] s w1 = (SAI_STATUS_SUCCESS, s, w2)"
    using x(3) new memory(2) by (simp add: sai_fib_nh_group_add_in_lists_def sai_fib_nh_add_group_link_node_def)
  have remove: "sai_fib_nh_group_remove_from_lists E g [u] s w3 =
      (s\<lparr>grp_mem := (grp_mem s)(g \<mapsto> sai_fib_decr_nh_group_ref_count gr),
         nh_mem := (nh_mem s)(u \<mapsto> sai_fib_decr_nh_ref_count n)\<rparr>, w3)"
    using x(3) gid(3) new
    by (simp add: sai_fib_nh_find_and_remove_group_node_def sai_fib_nh_group_find_and_remove_nh_node_def
      grp_write_def nh_write_def)
  show ?thesis
    using gid x room memory fill add plug_in remove
    by (simp add: sai_fib_next_hop_add_to_group_def del: sai_fib_nh_group_remove_from_lists.simps)
qed

text \<open>The second allocation of the demo fails.\<close>

definition demo_nhg_full :: "(nat, demo_map) nhg_env" where
  "demo_nhg_full = demo_nhg\<lparr>calloc_ok := (\<lambda>w. (w = 7, Suc w))\<rparr>"

theorem member_without_memory_witness:
  "sai_fib_next_hop_add_to_group demo_nhg_full 521 [264] (nhg_fib demo_nhg_group) 7
     = (SAI_STATUS_SUCCESS, nhg_fib demo_nhg_group, 9)"
proof -
  have m: "nh_group_tree (nhg_fib demo_nhg_group) 521 = Some 500"
    "grp_mem (nhg_fib demo_nhg_group) 500 = Some (new_group SAI_NEXT_HOP_GROUP_TYPE_ECMP 521)"
    "nh_id_tree (nhg_fib demo_nhg_group) 264 = Some 100" "nh_mem (nhg_fib demo_nhg_group) 100 = Some demo_nh_free"
    "max_ecmp_paths (nhg_fib demo_nhg_group) = 64"
    by (simp_all add: demo_nhg_group_def demo_nhg_start_def demo_fib_none_def)
  show ?thesis
    by (rule member_without_memory [of demo_nhg_full 521 _ 500 _ 264 100 _ 7 8 9 SAI_STATUS_SUCCESS 9,
          OF _ m(1,2) _ m(3,4), simplified])
      (simp_all add: m demo_nhg_full_def sai_fib_is_nh_group_size_valid_def demo_nh_free_def)
qed

section \<open>Reading the attributes of a member\<close>

lemma member_answer_again:
  "nh_group_member_answer gid nh a = (st, a') \<Longrightarrow> st = SAI_STATUS_SUCCESS \<Longrightarrow>
     nh_group_member_answer gid nh a' = (SAI_STATUS_SUCCESS, a')"
  by (auto simp: nh_group_member_answer_def split: sai_next_hop_group_member_attr_t.splits)

lemma member_loop_first:
  "nh_group_member_answer gid nh a = (SAI_STATUS_SUCCESS, a) \<Longrightarrow>
     nh_group_member_get_loop gid nh c (a # as) k = (SAI_STATUS_SUCCESS, a # as, k + member_rounds c)"
proof (induction gid nh c "a # as" k rule: nh_group_member_get_loop.induct)
  case (1 gid nh c k)
  show ?case
  proof (cases "0 < c")
    case True
    have "nh_group_member_get_loop gid nh (c + 1) (a # as) (Suc k) = (SAI_STATUS_SUCCESS, a # as, Suc k + member_rounds (c + 1))"
      by (rule 1(1) [of "(SAI_STATUS_SUCCESS, a)" SAI_STATUS_SUCCESS a]) (use True 1(2) in simp_all)
    with True 1(2) member_rounds_next [of c] show ?thesis
      by (subst nh_group_member_get_loop.simps) (simp add: word_gt_0)
  qed (subst nh_group_member_get_loop.simps, simp add: member_rounds_def word_gt_0)
qed

text \<open>C40. Reading the attributes of a member ends, but only when the 32-bit attribute count, which the
  loop raises in place of its index, wraps to zero: for \<open>n\<close> attributes that is after \<open>2 ^ 32 - n\<close>
  rounds.  The call reports success with the first attribute answered and all others as the caller left
  them.\<close>

theorem member_get_answers_first:
  assumes ids: "sai_next_hop_map_get_ids_from_member_id E mid (sai_map s) = (SAI_STATUS_SUCCESS, gid, nh)"
    and first: "nh_group_member_answer gid nh a = (SAI_STATUS_SUCCESS, a')"
    and n: "length (a # as) < 2 ^ 32"
  shows "nh_group_member_get_loop gid nh (of_nat (length (a # as))) (a # as) 0
      = (SAI_STATUS_SUCCESS, a' # as, 2 ^ 32 - length (a # as))
    \<and> sai_fib_next_hop_group_member_attribute_get E mid (of_nat (length (a # as))) (a # as) s
      = (SAI_STATUS_SUCCESS, a' # as, s)"
proof -
  let ?c = "of_nat (length (a # as)) :: uint32_t"
  have "unat (of_nat m :: uint32_t) = m" if "m < 2 ^ 32" for m
    using that by (simp add: unat_of_nat take_bit_nat_eq_self)
  from this [OF n] have u: "unat ?c = length (a # as)" .
  then have c: "?c \<noteq> 0" by (metis list.size(4) nat.distinct(1) unat_0 add_Suc_right)
  have "nh_group_member_get_loop gid nh ?c (a # as) 0
      = nh_group_member_get_loop gid nh (?c + 1) (a' # as) (Suc 0)"
    using c first by (subst nh_group_member_get_loop.simps) (simp add: word_gt_0)
  also have "\<dots> = (SAI_STATUS_SUCCESS, a' # as, Suc 0 + member_rounds (?c + 1))"
    by (rule member_loop_first [OF member_answer_again [OF first refl]])
  also have "Suc 0 + member_rounds (?c + 1) = 2 ^ 32 - length (a # as)"
    using member_rounds_next [OF c] c u by (simp add: member_rounds_def)
  finally have loop: "nh_group_member_get_loop gid nh ?c (a # as) 0
      = (SAI_STATUS_SUCCESS, a' # as, 2 ^ 32 - length (a # as))" .
  moreover have "s\<lparr>nhg_fib := sai_fib_unlock (sai_fib_lock (nhg_fib s))\<rparr> = s" by simp
  ultimately show ?thesis
    using ids c by (simp add: sai_fib_next_hop_group_member_attribute_get_def del: of_nat_Suc length_Cons)
qed

theorem member_get_answers_first_witness:
  "sai_fib_next_hop_group_member_attribute_get demo_nhg 266 2
      [SAI_NEXT_HOP_GROUP_MEMBER_ATTR_NEXT_HOP_GROUP_ID 0, SAI_NEXT_HOP_GROUP_MEMBER_ATTR_NEXT_HOP_ID 0] demo_nhg_member
   = (SAI_STATUS_SUCCESS,
      [SAI_NEXT_HOP_GROUP_MEMBER_ATTR_NEXT_HOP_GROUP_ID 521, SAI_NEXT_HOP_GROUP_MEMBER_ATTR_NEXT_HOP_ID 0], demo_nhg_member)"
proof -
  have i: "sai_next_hop_map_get_ids_from_member_id demo_nhg 266 (sai_map demo_nhg_member) = (SAI_STATUS_SUCCESS, 521, 264)"
    by (simp add: sai_next_hop_map_get_ids_from_member_id_def demo_map_get_def demo_nhg_member_def)
  have a: "nh_group_member_answer 521 264 (SAI_NEXT_HOP_GROUP_MEMBER_ATTR_NEXT_HOP_GROUP_ID 0)
      = (SAI_STATUS_SUCCESS, SAI_NEXT_HOP_GROUP_MEMBER_ATTR_NEXT_HOP_GROUP_ID 521)"
    by (simp add: nh_group_member_answer_def)
  show ?thesis
    using member_get_answers_first [OF i a, of "[SAI_NEXT_HOP_GROUP_MEMBER_ATTR_NEXT_HOP_ID 0]"] by simp
qed

end
