(* ===== verification/Udf_Model.thy ===== *)
theory Udf_Model
  imports Sai_Prelude
begin

text \<open>
  User defined fields, \<open>src/udf/sai_udf_group.c\<close> and \<open>sai_udf_utils.c\<close>: the module's state, its
  initialisation, attribute tables and UDF groups.

  Group nodes, UDF nodes and the byte arrays of hash masks are shared by pointers: a set call works
  on a shallow copy of a UDF node whose mask is the array of the original.  They live in stores
  from addresses; \<open>None\<close> is memory that is not allocated, and \<open>udf_fault\<close> notes a use of it, a write
  beyond an array, a failing assertion or a double free.  \<open>std_dll\<close> lists are lists of addresses.
\<close>

section \<open>Data\<close>

type_synonym udf_addr = nat

text \<open>The enumerations as the \<open>s32\<close> value that the caller passes, \<open>OTHER\<close> for every other number.\<close>

datatype sai_udf_group_type_t =
    SAI_UDF_GROUP_TYPE_GENERIC
  | SAI_UDF_GROUP_TYPE_HASH
  | SAI_UDF_GROUP_TYPE_OTHER int

datatype sai_udf_base_t =
    SAI_UDF_BASE_L2
  | SAI_UDF_BASE_L3
  | SAI_UDF_BASE_L4
  | SAI_UDF_BASE_OTHER int

record dn_sai_udf_group_t =
  group_obj_id :: sai_object_id_t
  udf_group_type :: sai_udf_group_type_t
  group_length :: "16 word"
  udf_list :: "udf_addr list"
  udf_count :: uint32_t

text \<open>\<open>hash_mask\<close> is a count and a pointer to an array.\<close>

record dn_sai_udf_t =
  udf_obj_id :: sai_object_id_t
  match_obj_id :: sai_object_id_t
  p_udf_group :: "udf_addr option"
  udf_base :: sai_udf_base_t
  udf_offset :: "16 word"
  hash_mask_count :: uint32_t
  hash_mask_list :: "udf_addr option"

datatype sai_udf_group_attr_t =
    SAI_UDF_GROUP_ATTR_TYPE sai_udf_group_type_t
  | SAI_UDF_GROUP_ATTR_LENGTH "16 word"
  | SAI_UDF_GROUP_ATTR_UDF_LIST "sai_object_id_t sai_list_t"
  | SAI_UDF_GROUP_ATTR_UNKNOWN nat

datatype sai_udf_attr_t =
    SAI_UDF_ATTR_MATCH_ID sai_object_id_t
  | SAI_UDF_ATTR_GROUP_ID sai_object_id_t
  | SAI_UDF_ATTR_BASE sai_udf_base_t
  | SAI_UDF_ATTR_OFFSET "16 word"
  | SAI_UDF_ATTR_HASH_MASK "8 word sai_list_t"
  | SAI_UDF_ATTR_UNKNOWN nat

datatype sai_udf_match_attr_t =
    SAI_UDF_MATCH_ATTR_L2_TYPE nat
  | SAI_UDF_MATCH_ATTR_L3_TYPE nat
  | SAI_UDF_MATCH_ATTR_GRE_TYPE nat
  | SAI_UDF_MATCH_ATTR_PRIORITY nat
  | SAI_UDF_MATCH_ATTR_UNKNOWN nat

text \<open>The attribute ids of the three kinds of objects.\<close>

datatype udf_attr_id_t =
    GROUP_TYPE_ID | GROUP_LENGTH_ID | GROUP_UDF_LIST_ID
  | MATCH_ID_ID | GROUP_ID_ID | BASE_ID | OFFSET_ID | HASH_MASK_ID
  | L2_TYPE_ID | L3_TYPE_ID | GRE_TYPE_ID | PRIORITY_ID
  | UNKNOWN_ID nat

fun group_attr_id :: "sai_udf_group_attr_t \<Rightarrow> udf_attr_id_t" where
  "group_attr_id (SAI_UDF_GROUP_ATTR_TYPE x) = GROUP_TYPE_ID"
| "group_attr_id (SAI_UDF_GROUP_ATTR_LENGTH n) = GROUP_LENGTH_ID"
| "group_attr_id (SAI_UDF_GROUP_ATTR_UDF_LIST l) = GROUP_UDF_LIST_ID"
| "group_attr_id (SAI_UDF_GROUP_ATTR_UNKNOWN n) = UNKNOWN_ID n"

fun udf_attr_id :: "sai_udf_attr_t \<Rightarrow> udf_attr_id_t" where
  "udf_attr_id (SAI_UDF_ATTR_MATCH_ID x) = MATCH_ID_ID"
| "udf_attr_id (SAI_UDF_ATTR_GROUP_ID x) = GROUP_ID_ID"
| "udf_attr_id (SAI_UDF_ATTR_BASE b) = BASE_ID"
| "udf_attr_id (SAI_UDF_ATTR_OFFSET n) = OFFSET_ID"
| "udf_attr_id (SAI_UDF_ATTR_HASH_MASK m) = HASH_MASK_ID"
| "udf_attr_id (SAI_UDF_ATTR_UNKNOWN n) = UNKNOWN_ID n"

fun match_attr_id :: "sai_udf_match_attr_t \<Rightarrow> udf_attr_id_t" where
  "match_attr_id (SAI_UDF_MATCH_ATTR_L2_TYPE x) = L2_TYPE_ID"
| "match_attr_id (SAI_UDF_MATCH_ATTR_L3_TYPE x) = L3_TYPE_ID"
| "match_attr_id (SAI_UDF_MATCH_ATTR_GRE_TYPE x) = GRE_TYPE_ID"
| "match_attr_id (SAI_UDF_MATCH_ATTR_PRIORITY x) = PRIORITY_ID"
| "match_attr_id (SAI_UDF_MATCH_ATTR_UNKNOWN n) = UNKNOWN_ID n"

section \<open>State and environment\<close>

text \<open>\<open>dn_sai_udf_global_t\<close> with the memory.  \<open>udf_trees_freed\<close> notes the handles (group tree, object
  tree) that have been destroyed and not replaced.\<close>

record udf_state =
  udf_group_tree :: "(sai_object_id_t, udf_addr) rbtree_handle"
  udf_obj_tree :: "(sai_object_id_t, udf_addr) rbtree_handle"
  is_init_complete :: bool
  udf_trees_freed :: "bool \<times> bool"
  group_mem :: "udf_addr \<Rightarrow> dn_sai_udf_group_t option"
  udf_mem :: "udf_addr \<Rightarrow> dn_sai_udf_t option"
  mask_mem :: "udf_addr \<Rightarrow> 8 word list option"
  udf_lock_depth :: int
  udf_fault :: bool

text \<open>\<open>udf_calloc\<close> is told which addresses are in use.  The plug-in gets pointers: it may read the
  state and the node; it is assumed not to write them.\<close>

record 'w udf_env = "'w platform" +
  SAI_UDF_DFLT_HASH_MASK_COUNT :: uint32_t
  udf_calloc :: "(udf_addr \<Rightarrow> bool) \<Rightarrow> 'w \<Rightarrow> udf_addr option \<times> 'w"
  sai_attribute_validate ::
    "udf_attr_id_t list \<Rightarrow> udf_attr_id_t dn_sai_attribute_entry_t list \<Rightarrow> dn_sai_operations_t \<Rightarrow> sai_status_t"
  npu_udf_init :: "'w \<Rightarrow> sai_status_t \<times> 'w"
  npu_udf_deinit :: "'w \<Rightarrow> 'w"
  npu_udf_group_create ::
    "udf_state \<Rightarrow> dn_sai_udf_group_t \<Rightarrow> 'w \<Rightarrow> sai_status_t \<times> sai_npu_object_id_t \<times> 'w"
  npu_udf_group_remove :: "udf_state \<Rightarrow> dn_sai_udf_group_t \<Rightarrow> 'w \<Rightarrow> sai_status_t \<times> 'w"
  npu_udf_group_hw_id_get ::
    "udf_state \<Rightarrow> dn_sai_udf_group_t \<Rightarrow> 'w \<Rightarrow> sai_status_t \<times> sai_npu_object_id_t \<times> 'w"
  npu_udf_create :: "udf_state \<Rightarrow> dn_sai_udf_t \<Rightarrow> 'w \<Rightarrow> sai_status_t \<times> sai_npu_object_id_t \<times> 'w"
  npu_udf_remove :: "udf_state \<Rightarrow> dn_sai_udf_t \<Rightarrow> 'w \<Rightarrow> sai_status_t \<times> 'w"
  npu_udf_attribute_set :: "udf_state \<Rightarrow> dn_sai_udf_t \<Rightarrow> sai_udf_attr_t \<Rightarrow> 'w \<Rightarrow> sai_status_t \<times> 'w"
  npu_udf_match_create :: "sai_udf_match_attr_t list \<Rightarrow> 'w \<Rightarrow> sai_status_t \<times> sai_npu_object_id_t \<times> 'w"
  npu_udf_match_remove :: "sai_object_id_t \<Rightarrow> 'w \<Rightarrow> sai_status_t \<times> 'w"
  npu_udf_match_attribute_get ::
    "sai_object_id_t \<Rightarrow> sai_udf_match_attr_t list \<Rightarrow> 'w \<Rightarrow> sai_status_t \<times> sai_udf_match_attr_t list \<times> 'w"

definition dn_sai_udf_lock :: "udf_state \<Rightarrow> udf_state" where
  "dn_sai_udf_lock s = s\<lparr>udf_lock_depth := udf_lock_depth s + 1\<rparr>"

definition dn_sai_udf_unlock :: "udf_state \<Rightarrow> udf_state" where
  "dn_sai_udf_unlock s = s\<lparr>udf_lock_depth := udf_lock_depth s - 1\<rparr>"

definition udf_crash :: "udf_state \<Rightarrow> udf_state" where
  "udf_crash s = s\<lparr>udf_fault := True\<rparr>"

definition group_write :: "udf_addr \<Rightarrow> dn_sai_udf_group_t \<Rightarrow> udf_state \<Rightarrow> udf_state" where
  "group_write a g s = s\<lparr>group_mem := (group_mem s)(a \<mapsto> g)\<rparr>"

definition udf_write :: "udf_addr \<Rightarrow> dn_sai_udf_t \<Rightarrow> udf_state \<Rightarrow> udf_state" where
  "udf_write a u s = s\<lparr>udf_mem := (udf_mem s)(a \<mapsto> u)\<rparr>"

section \<open>Initialisation\<close>

text \<open>Destroying a tree leaves its handle as it is; destroying it again is a double free.\<close>

definition sai_udf_deinit :: "('w, 'z) udf_env_scheme \<Rightarrow> udf_state \<Rightarrow> 'w \<Rightarrow> udf_state \<times> 'w" where
  "sai_udf_deinit E s w =
    (let w = (if is_init_complete s then npu_udf_deinit E w else w);
         s = (if udf_group_tree s \<noteq> None
              then if fst (udf_trees_freed s) then udf_crash s
                   else s\<lparr>udf_trees_freed := (True, snd (udf_trees_freed s))\<rparr>
              else s);
         s = (if udf_obj_tree s \<noteq> None
              then if snd (udf_trees_freed s) then udf_crash s
                   else s\<lparr>udf_trees_freed := (fst (udf_trees_freed s), True)\<rparr>
              else s)
     in (s\<lparr>is_init_complete := False\<rparr>, w))"

definition udf_init_body ::
  "('w, 'z) udf_env_scheme \<Rightarrow> udf_state \<Rightarrow> 'w \<Rightarrow> sai_status_t \<times> udf_state \<times> 'w" where
  "udf_init_body E s w =
    (let (ok, w) = rbtree_create_ok E w in
     if \<not> ok then (SAI_STATUS_UNINITIALIZED, s, w)
     else let s = s\<lparr>udf_group_tree := Some fmempty\<rparr>;
              (ok, w) = rbtree_create_ok E w in
       if \<not> ok then (SAI_STATUS_UNINITIALIZED, s, w)
     else let s = s\<lparr>udf_obj_tree := Some fmempty\<rparr>;
              (status, w) = npu_udf_init E w in
       if status \<noteq> SAI_STATUS_SUCCESS then (status, s, w)
     else (status, s\<lparr>is_init_complete := True\<rparr>, w))"

definition sai_udf_init ::
  "('w, 'z) udf_env_scheme \<Rightarrow> udf_state \<Rightarrow> 'w \<Rightarrow> sai_status_t \<times> udf_state \<times> 'w" where
  "sai_udf_init E s w =
    (if is_init_complete s then (SAI_STATUS_SUCCESS, s, w)
     else let s = s\<lparr>udf_group_tree := None, udf_obj_tree := None, is_init_complete := False,
                    udf_trees_freed := (False, False)\<rparr>;
              (status, s, w) = udf_init_body E s w in
       if status \<noteq> SAI_STATUS_SUCCESS
       then let (s, w) = sai_udf_deinit E s w in (status, s, w)
     else (status, s, w))"

section \<open>Attribute tables\<close>

definition udf_entry ::
  "udf_attr_id_t \<Rightarrow> bool \<Rightarrow> bool \<Rightarrow> bool \<Rightarrow> udf_attr_id_t dn_sai_attribute_entry_t" where
  "udf_entry i m c st = \<lparr>ae_id = i, mandatory_on_create = m, valid_for_create = c, valid_for_set = st,
     valid_for_get = True, is_implemented = True, is_supported = True\<rparr>"

definition dn_sai_udf_group_attr :: "udf_attr_id_t dn_sai_attribute_entry_t list" where
  "dn_sai_udf_group_attr =
    [udf_entry GROUP_TYPE_ID False True False, udf_entry GROUP_LENGTH_ID True True False,
     udf_entry GROUP_UDF_LIST_ID False False False]"

definition dn_sai_udf_attr :: "udf_attr_id_t dn_sai_attribute_entry_t list" where
  "dn_sai_udf_attr =
    [udf_entry MATCH_ID_ID True True False, udf_entry GROUP_ID_ID True True False,
     udf_entry BASE_ID False True True, udf_entry OFFSET_ID True True True,
     udf_entry HASH_MASK_ID False True True]"

definition dn_sai_udf_match_attr :: "udf_attr_id_t dn_sai_attribute_entry_t list" where
  "dn_sai_udf_match_attr =
    [udf_entry L2_TYPE_ID False True False, udf_entry L3_TYPE_ID False True False,
     udf_entry GRE_TYPE_ID False True False, udf_entry PRIORITY_ID False True False]"

definition dn_sai_udf_attr_table_get ::
  "sai_object_type_t \<Rightarrow> udf_attr_id_t dn_sai_attribute_entry_t list option" where
  "dn_sai_udf_attr_table_get obj_type =
    (if obj_type = SAI_OBJECT_TYPE_UDF then Some dn_sai_udf_attr
     else if obj_type = SAI_OBJECT_TYPE_UDF_GROUP then Some dn_sai_udf_group_attr
     else if obj_type = SAI_OBJECT_TYPE_UDF_MATCH then Some dn_sai_udf_match_attr
     else None)"

definition dn_sai_udf_attr_list_validate ::
  "('w, 'z) udf_env_scheme \<Rightarrow> sai_object_type_t \<Rightarrow> udf_attr_id_t list \<Rightarrow> dn_sai_operations_t \<Rightarrow> sai_status_t" where
  "dn_sai_udf_attr_list_validate E obj_type ids op_type =
    (if \<not> (obj_type = SAI_OBJECT_TYPE_UDF \<or> obj_type = SAI_OBJECT_TYPE_UDF_MATCH
          \<or> obj_type = SAI_OBJECT_TYPE_UDF_GROUP) then SAI_STATUS_FAILURE
     else if \<not> (op_type = SAI_OP_CREATE \<or> op_type = SAI_OP_SET \<or> op_type = SAI_OP_GET)
     then SAI_STATUS_FAILURE
     else case dn_sai_udf_attr_table_get obj_type of
            None \<Rightarrow> SAI_STATUS_FAILURE
          | Some tab \<Rightarrow> if tab = [] then SAI_STATUS_FAILURE
              else sai_attribute_validate E ids tab op_type)"

section \<open>Nodes\<close>

definition dn_sai_udf_node_get :: "udf_state \<Rightarrow> sai_object_id_t \<Rightarrow> udf_addr option" where
  "dn_sai_udf_node_get s udf_id = rb_getexact (udf_obj_tree s) udf_id"

definition dn_sai_udf_group_node_get :: "udf_state \<Rightarrow> sai_object_id_t \<Rightarrow> udf_addr option" where
  "dn_sai_udf_group_node_get s gid = rb_getexact (udf_group_tree s) gid"

definition dn_sai_udf_group_node_free :: "udf_addr \<Rightarrow> udf_state \<Rightarrow> udf_state" where
  "dn_sai_udf_group_node_free a s =
    (if group_mem s a = None then udf_crash s else s\<lparr>group_mem := (group_mem s)(a := None)\<rparr>)"

text \<open>What \<open>calloc\<close> gives, with \<open>dn_sai_udf_group_init\<close>.\<close>

definition dn_sai_udf_group_init :: dn_sai_udf_group_t where
  "dn_sai_udf_group_init = \<lparr>group_obj_id = 0, udf_group_type = SAI_UDF_GROUP_TYPE_GENERIC,
     group_length = 0, udf_list = [], udf_count = 0\<rparr>"

section \<open>UDF groups\<close>

definition dn_sai_udf_group_type_set ::
  "dn_sai_udf_group_t \<Rightarrow> sai_udf_group_type_t \<Rightarrow> sai_status_t \<times> dn_sai_udf_group_t" where
  "dn_sai_udf_group_type_set g v =
    (if \<not> (v = SAI_UDF_GROUP_TYPE_GENERIC \<or> v = SAI_UDF_GROUP_TYPE_HASH)
     then (SAI_STATUS_INVALID_ATTR_VALUE 0, g)
     else (SAI_STATUS_SUCCESS, g\<lparr>udf_group_type := v\<rparr>))"

definition dn_sai_udf_group_length_set ::
  "dn_sai_udf_group_t \<Rightarrow> 16 word \<Rightarrow> sai_status_t \<times> dn_sai_udf_group_t" where
  "dn_sai_udf_group_length_set g v =
    (if v = 0 then (SAI_STATUS_INVALID_ATTR_VALUE 0, g)
     else (SAI_STATUS_SUCCESS, g\<lparr>group_length := v\<rparr>))"

fun udf_group_attribute_accept ::
  "sai_udf_group_attr_t \<Rightarrow> dn_sai_udf_group_t \<Rightarrow> sai_status_t \<times> dn_sai_udf_group_t" where
  "udf_group_attribute_accept (SAI_UDF_GROUP_ATTR_TYPE v) g = dn_sai_udf_group_type_set g v"
| "udf_group_attribute_accept (SAI_UDF_GROUP_ATTR_LENGTH v) g = dn_sai_udf_group_length_set g v"
| "udf_group_attribute_accept (SAI_UDF_GROUP_ATTR_UDF_LIST l) g = (SAI_STATUS_INVALID_ATTRIBUTE 0, g)"
| "udf_group_attribute_accept (SAI_UDF_GROUP_ATTR_UNKNOWN n) g = (SAI_STATUS_UNKNOWN_ATTRIBUTE 0, g)"

fun dn_sai_udf_group_attr_set ::
  "('w, 'z) udf_env_scheme \<Rightarrow> nat \<Rightarrow> sai_udf_group_attr_t list \<Rightarrow> dn_sai_udf_group_t
     \<Rightarrow> sai_status_t \<times> dn_sai_udf_group_t" where
  "dn_sai_udf_group_attr_set E attr_idx [] g = (SAI_STATUS_SUCCESS, g)"
| "dn_sai_udf_group_attr_set E attr_idx (a # as) g =
    (let (status, g) = udf_group_attribute_accept a g in
     if status \<noteq> SAI_STATUS_SUCCESS then (sai_get_indexed_ret_val E status attr_idx, g)
     else dn_sai_udf_group_attr_set E (Suc attr_idx) as g)"

text \<open>The body of the creation, for the node at \<open>a\<close>.  When the tree refuses the node the status is
  still the plug-in's.\<close>

definition udf_group_create_body ::
  "('w, 'z) udf_env_scheme \<Rightarrow> udf_addr \<Rightarrow> sai_udf_group_attr_t list \<Rightarrow> udf_state \<Rightarrow> 'w
     \<Rightarrow> sai_status_t \<times> sai_npu_object_id_t \<times> udf_state \<times> 'w" where
  "udf_group_create_body E a attrs s w =
    (let (status, g) = dn_sai_udf_group_attr_set E 0 attrs dn_sai_udf_group_init;
         s = group_write a g s in
     if status \<noteq> SAI_STATUS_SUCCESS then (status, 0, s, w)
     else let (status, hw_id, w) = npu_udf_group_create E s g w in
       if status \<noteq> SAI_STATUS_SUCCESS then (status, hw_id, s, w)
     else let g = g\<lparr>group_obj_id := sai_uoid_create E SAI_OBJECT_TYPE_UDF_GROUP hw_id\<rparr>;
              s = group_write a g s;
              (ok, t, w) = std_rbtree_insert E (udf_group_tree s) (group_obj_id g) a w in
       (status, hw_id, s\<lparr>udf_group_tree := t\<rparr>, w))"

definition dn_sai_udf_group_create ::
  "('w, 'z) udf_env_scheme \<Rightarrow> sai_udf_group_attr_t list \<Rightarrow> udf_state \<Rightarrow> 'w
     \<Rightarrow> sai_status_t \<times> sai_object_id_t option \<times> udf_state \<times> 'w" where
  "dn_sai_udf_group_create E attrs s w =
    (let status = dn_sai_udf_attr_list_validate E SAI_OBJECT_TYPE_UDF_GROUP
                    (map group_attr_id attrs) SAI_OP_CREATE in
     if status \<noteq> SAI_STATUS_SUCCESS then (status, None, s, w)
     else let (p, w) = udf_calloc E (\<lambda>a. group_mem s a \<noteq> None) w in
       case p of
         None \<Rightarrow> (SAI_STATUS_NO_MEMORY, None, s, w)
       | Some a \<Rightarrow>
         let s = dn_sai_udf_lock (group_write a dn_sai_udf_group_init s);
             (status, hw_id, s, w) = udf_group_create_body E a attrs s w;
             s = dn_sai_udf_unlock s in
         case group_mem s a of
           None \<Rightarrow> (status, None, udf_crash s, w)
         | Some g \<Rightarrow>
           if status \<noteq> SAI_STATUS_SUCCESS
           then let w = (if hw_id \<noteq> 0 then snd (npu_udf_group_remove E s g w) else w)
                in (status, None, dn_sai_udf_group_node_free a s, w)
           else (status, Some (group_obj_id g), s, w))"

text \<open>The status of the body is not the one that the call returns.\<close>

definition udf_group_remove_body ::
  "('w, 'z) udf_env_scheme \<Rightarrow> sai_object_id_t \<Rightarrow> udf_state \<Rightarrow> 'w \<Rightarrow> sai_status_t \<times> udf_state \<times> 'w" where
  "udf_group_remove_body E gid s w =
    (case dn_sai_udf_group_node_get s gid of
       None \<Rightarrow> (SAI_STATUS_INVALID_OBJECT_ID, s, w)
     | Some a \<Rightarrow> (case group_mem s a of
         None \<Rightarrow> (SAI_STATUS_FAILURE, udf_crash s, w)
       | Some g \<Rightarrow>
         if udf_count g \<noteq> 0 then (SAI_STATUS_OBJECT_IN_USE, s, w)
         else let tmp = rb_getexact (udf_group_tree s) (group_obj_id g);
                  s = s\<lparr>udf_group_tree := rb_remove (udf_group_tree s) (group_obj_id g)\<rparr> in
           if tmp \<noteq> Some a then (SAI_STATUS_FAILURE, s, w)
         else let (status, w) = npu_udf_group_remove E s g w in
           if status \<noteq> SAI_STATUS_SUCCESS
           then let (ok, t, w) = std_rbtree_insert E (udf_group_tree s) (group_obj_id g) a w
                in (status, s\<lparr>udf_group_tree := t\<rparr>, w)
         else (status, dn_sai_udf_group_node_free a s, w)))"

definition dn_sai_udf_group_remove ::
  "('w, 'z) udf_env_scheme \<Rightarrow> sai_object_id_t \<Rightarrow> udf_state \<Rightarrow> 'w \<Rightarrow> sai_status_t \<times> udf_state \<times> 'w" where
  "dn_sai_udf_group_remove E gid s w =
    (if \<not> sai_is_obj_id E SAI_OBJECT_TYPE_UDF_GROUP gid then (SAI_STATUS_INVALID_OBJECT_TYPE, s, w)
     else let (status, s, w) = udf_group_remove_body E gid (dn_sai_udf_lock s) w
          in (SAI_STATUS_SUCCESS, dn_sai_udf_unlock s, w))"

definition dn_sai_udf_group_set_attribute ::
  "sai_object_id_t \<Rightarrow> sai_udf_group_attr_t \<Rightarrow> udf_state \<Rightarrow> sai_status_t \<times> udf_state" where
  "dn_sai_udf_group_set_attribute gid a s = (SAI_STATUS_NOT_SUPPORTED, s)"

text \<open>The loop over the nodes of a group; \<open>None\<close> when a node is not allocated or the buffer ends.\<close>

fun udf_list_fill_loop ::
  "udf_state \<Rightarrow> nat \<Rightarrow> udf_addr list \<Rightarrow> sai_object_id_t list \<Rightarrow> sai_object_id_t list option" where
  "udf_list_fill_loop s index [] buf = Some buf"
| "udf_list_fill_loop s index (p # ps) buf =
    (case udf_mem s p of
       None \<Rightarrow> None
     | Some u \<Rightarrow> if index < length buf
         then udf_list_fill_loop s (Suc index) ps (buf[index := udf_obj_id u]) else None)"

definition dn_sai_udf_group_udf_list_fill ::
  "dn_sai_udf_group_t \<Rightarrow> sai_object_id_t sai_list_t \<Rightarrow> udf_state
     \<Rightarrow> sai_status_t \<times> sai_object_id_t sai_list_t \<times> udf_state" where
  "dn_sai_udf_group_udf_list_fill g l s =
    (case sl_list l of
       Some buf \<Rightarrow>
         if udf_count g > sl_count l
         then (SAI_STATUS_BUFFER_OVERFLOW, l\<lparr>sl_count := udf_count g\<rparr>, s)
         else (case udf_list_fill_loop s 0 (udf_list g) buf of
                 None \<Rightarrow> (SAI_STATUS_FAILURE, l, udf_crash s)
               | Some buf \<Rightarrow> (SAI_STATUS_SUCCESS, \<lparr>sl_count = udf_count g, sl_list = Some buf\<rparr>, s))
     | None \<Rightarrow> (SAI_STATUS_BUFFER_OVERFLOW, l\<lparr>sl_count := udf_count g\<rparr>, s))"

fun udf_group_attribute_answer ::
  "dn_sai_udf_group_t \<Rightarrow> sai_udf_group_attr_t \<Rightarrow> udf_state \<Rightarrow> sai_status_t \<times> sai_udf_group_attr_t \<times> udf_state" where
  "udf_group_attribute_answer g (SAI_UDF_GROUP_ATTR_TYPE v) s =
     (SAI_STATUS_SUCCESS, SAI_UDF_GROUP_ATTR_TYPE (udf_group_type g), s)"
| "udf_group_attribute_answer g (SAI_UDF_GROUP_ATTR_LENGTH v) s =
     (SAI_STATUS_SUCCESS, SAI_UDF_GROUP_ATTR_LENGTH (group_length g), s)"
| "udf_group_attribute_answer g (SAI_UDF_GROUP_ATTR_UDF_LIST l) s =
     (let (status, l, s) = dn_sai_udf_group_udf_list_fill g l s
      in (status, SAI_UDF_GROUP_ATTR_UDF_LIST l, s))"
| "udf_group_attribute_answer g (SAI_UDF_GROUP_ATTR_UNKNOWN n) s =
     (SAI_STATUS_UNKNOWN_ATTRIBUTE 0, SAI_UDF_GROUP_ATTR_UNKNOWN n, s)"

fun dn_sai_udf_group_attr_get ::
  "('w, 'z) udf_env_scheme \<Rightarrow> dn_sai_udf_group_t \<Rightarrow> nat \<Rightarrow> sai_udf_group_attr_t list \<Rightarrow> udf_state
     \<Rightarrow> sai_status_t \<times> sai_udf_group_attr_t list \<times> udf_state" where
  "dn_sai_udf_group_attr_get E g attr_idx [] s = (SAI_STATUS_SUCCESS, [], s)"
| "dn_sai_udf_group_attr_get E g attr_idx (a # as) s =
    (let (status, a, s) = udf_group_attribute_answer g a s in
     if status \<noteq> SAI_STATUS_SUCCESS then (sai_get_indexed_ret_val E status attr_idx, a # as, s)
     else let (status, as, s) = dn_sai_udf_group_attr_get E g (Suc attr_idx) as s in (status, a # as, s))"

text \<open>The three readers of a group: its attributes, its hardware id, its type.\<close>

definition dn_sai_udf_group_get_attribute ::
  "('w, 'z) udf_env_scheme \<Rightarrow> sai_object_id_t \<Rightarrow> sai_udf_group_attr_t list \<Rightarrow> udf_state
     \<Rightarrow> sai_status_t \<times> sai_udf_group_attr_t list \<times> udf_state" where
  "dn_sai_udf_group_get_attribute E gid attrs s =
    (if \<not> sai_is_obj_id E SAI_OBJECT_TYPE_UDF_GROUP gid then (SAI_STATUS_INVALID_OBJECT_TYPE, attrs, s)
     else let s = dn_sai_udf_lock s;
              (status, attrs, s) = (case dn_sai_udf_group_node_get s gid of
                  None \<Rightarrow> (SAI_STATUS_INVALID_OBJECT_ID, attrs, s)
                | Some a \<Rightarrow> (case group_mem s a of
                    None \<Rightarrow> (SAI_STATUS_FAILURE, attrs, udf_crash s)
                  | Some g \<Rightarrow> dn_sai_udf_group_attr_get E g 0 attrs s))
          in (status, attrs, dn_sai_udf_unlock s))"

definition dn_sai_udf_group_hw_id_get ::
  "('w, 'z) udf_env_scheme \<Rightarrow> sai_object_id_t \<Rightarrow> sai_npu_object_id_t \<Rightarrow> udf_state \<Rightarrow> 'w
     \<Rightarrow> sai_status_t \<times> sai_npu_object_id_t \<times> udf_state \<times> 'w" where
  "dn_sai_udf_group_hw_id_get E gid hw s w =
    (if \<not> sai_is_obj_id E SAI_OBJECT_TYPE_UDF_GROUP gid then (SAI_STATUS_INVALID_OBJECT_TYPE, hw, s, w)
     else let s = dn_sai_udf_lock s;
              (status, hw, s, w) = (case dn_sai_udf_group_node_get s gid of
                  None \<Rightarrow> (SAI_STATUS_INVALID_OBJECT_ID, hw, s, w)
                | Some a \<Rightarrow> (case group_mem s a of
                    None \<Rightarrow> (SAI_STATUS_FAILURE, hw, udf_crash s, w)
                  | Some g \<Rightarrow> let (status, hw, w) = npu_udf_group_hw_id_get E s g w in (status, hw, s, w)))
          in (status, hw, dn_sai_udf_unlock s, w))"

definition dn_sai_udf_group_type_get ::
  "('w, 'z) udf_env_scheme \<Rightarrow> sai_object_id_t \<Rightarrow> udf_state
     \<Rightarrow> sai_status_t \<times> sai_udf_group_type_t option \<times> udf_state" where
  "dn_sai_udf_group_type_get E gid s =
    (if \<not> sai_is_obj_id E SAI_OBJECT_TYPE_UDF_GROUP gid then (SAI_STATUS_INVALID_OBJECT_TYPE, None, s)
     else let s = dn_sai_udf_lock s;
              (status, ty, s) = (case dn_sai_udf_group_node_get s gid of
                  None \<Rightarrow> (SAI_STATUS_INVALID_OBJECT_ID, None, s)
                | Some a \<Rightarrow> (case group_mem s a of
                    None \<Rightarrow> (SAI_STATUS_FAILURE, None, udf_crash s)
                  | Some g \<Rightarrow> (SAI_STATUS_SUCCESS, Some (udf_group_type g), s)))
          in (status, ty, dn_sai_udf_unlock s))"

end
