(* ===== verification/Udf_Calls.thy ===== *)
theory Udf_Calls
  imports Udf_Model
begin

text \<open>
  UDF objects and UDF matches, \<open>src/udf/sai_udf.c\<close>.  A UDF node points to the node of its group and
  to the array of its hash mask, and the group lists its UDF nodes.
\<close>

section \<open>Memory\<close>

definition udf_node_zero :: dn_sai_udf_t where
  \<comment> \<open>what \<open>calloc\<close> gives\<close>
  "udf_node_zero = \<lparr>udf_obj_id = 0, match_obj_id = 0, p_udf_group = None, udf_base = SAI_UDF_BASE_OTHER 0,
     udf_offset = 0, hash_mask_count = 0, hash_mask_list = None\<rparr>"

definition dn_sai_udf_node_init :: dn_sai_udf_t where
  "dn_sai_udf_node_init = udf_node_zero\<lparr>udf_base := SAI_UDF_BASE_L2, p_udf_group := None\<rparr>"

definition dn_sai_udf_hash_mask_alloc ::
  "('w, 'z) udf_env_scheme \<Rightarrow> nat \<Rightarrow> udf_state \<Rightarrow> 'w \<Rightarrow> udf_addr option \<times> udf_state \<times> 'w" where
  "dn_sai_udf_hash_mask_alloc E n s w =
    (let (p, w) = udf_calloc E (\<lambda>m. mask_mem s m \<noteq> None) w in
     case p of
       None \<Rightarrow> (None, s, w)
     | Some m \<Rightarrow> (Some m, s\<lparr>mask_mem := (mask_mem s)(m \<mapsto> replicate n 0)\<rparr>, w))"

text \<open>\<open>free (NULL)\<close> does nothing.\<close>

definition mask_free :: "udf_addr option \<Rightarrow> udf_state \<Rightarrow> udf_state" where
  "mask_free p s = (case p of
       None \<Rightarrow> s
     | Some m \<Rightarrow> if mask_mem s m = None then udf_crash s else s\<lparr>mask_mem := (mask_mem s)(m := None)\<rparr>)"

definition dn_sai_udf_node_free :: "udf_addr \<Rightarrow> udf_state \<Rightarrow> udf_state" where
  "dn_sai_udf_node_free a s = (case udf_mem s a of
       None \<Rightarrow> udf_crash s
     | Some u \<Rightarrow> let s = mask_free (hash_mask_list u) s in s\<lparr>udf_mem := (udf_mem s)(a := None)\<rparr>)"

text \<open>\<open>memcpy\<close> of the first \<open>n\<close> bytes of \<open>xs\<close> to the start of the array at \<open>m\<close>.\<close>

definition mask_copy :: "udf_addr \<Rightarrow> 8 word list \<Rightarrow> nat \<Rightarrow> udf_state \<Rightarrow> udf_state" where
  "mask_copy m xs n s = (case mask_mem s m of
       None \<Rightarrow> udf_crash s
     | Some b \<Rightarrow> if n \<le> length b \<and> n \<le> length xs
         then s\<lparr>mask_mem := (mask_mem s)(m \<mapsto> take n xs @ drop n b)\<rparr> else udf_crash s)"

section \<open>Attributes of a UDF\<close>

text \<open>The fields of the node are a value that is threaded; its mask is in memory.\<close>

definition dn_sai_udf_default_hash_mask_fill ::
  "('w, 'z) udf_env_scheme \<Rightarrow> dn_sai_udf_t \<Rightarrow> udf_state \<Rightarrow> 'w \<Rightarrow> sai_status_t \<times> dn_sai_udf_t \<times> udf_state \<times> 'w" where
  "dn_sai_udf_default_hash_mask_fill E u s w =
    (case Option.bind (p_udf_group u) (group_mem s) of
       None \<Rightarrow> (SAI_STATUS_FAILURE, u, udf_crash s, w)
     | Some g \<Rightarrow>
       if udf_group_type g \<noteq> SAI_UDF_GROUP_TYPE_HASH then (SAI_STATUS_SUCCESS, u, s, w)
       else let (p, s, w) = dn_sai_udf_hash_mask_alloc E (unat (group_length g)) s w in
         case p of
           None \<Rightarrow> (SAI_STATUS_NO_MEMORY, u\<lparr>hash_mask_list := None\<rparr>, s, w)
         | Some m \<Rightarrow> (SAI_STATUS_SUCCESS,
             u\<lparr>hash_mask_list := Some m, hash_mask_count := ucast (group_length g)\<rparr>,
             s\<lparr>mask_mem := (mask_mem s)(m \<mapsto> replicate (unat (group_length g)) 0xFF)\<rparr>, w))"

definition dn_sai_udf_hash_mask_set ::
  "('w, 'z) udf_env_scheme \<Rightarrow> dn_sai_udf_t \<Rightarrow> 8 word sai_list_t \<Rightarrow> udf_state \<Rightarrow> 'w
     \<Rightarrow> sai_status_t \<times> dn_sai_udf_t \<times> udf_state \<times> 'w" where
  "dn_sai_udf_hash_mask_set E u hm s w =
    (case Option.bind (p_udf_group u) (group_mem s) of
       None \<Rightarrow> (SAI_STATUS_FAILURE, u, udf_crash s, w)
     | Some g \<Rightarrow>
       if udf_group_type g \<noteq> SAI_UDF_GROUP_TYPE_HASH then (SAI_STATUS_INVALID_ATTRIBUTE 0, u, s, w)
       else (case sl_list hm of
         None \<Rightarrow> (SAI_STATUS_INVALID_ATTR_VALUE 0, u, s, w)
       | Some xs \<Rightarrow>
         if sl_count hm = 0 then (SAI_STATUS_INVALID_ATTR_VALUE 0, u, s, w)
         else if ucast (group_length g) \<noteq> sl_count hm then (SAI_STATUS_INVALID_ATTR_VALUE 0, u, s, w)
         else let (p, s, w) = (case hash_mask_list u of
                    None \<Rightarrow> dn_sai_udf_hash_mask_alloc E (unat (sl_count hm)) s w
                  | Some m \<Rightarrow> (Some m, s, w)) in
           case p of
             None \<Rightarrow> (SAI_STATUS_NO_MEMORY, u\<lparr>hash_mask_list := None\<rparr>, s, w)
           | Some m \<Rightarrow> (SAI_STATUS_SUCCESS, u\<lparr>hash_mask_list := Some m, hash_mask_count := sl_count hm\<rparr>,
               mask_copy m xs (unat (sl_count hm)) s, w)))"

definition dn_sai_udf_match_id_set ::
  "('w, 'z) udf_env_scheme \<Rightarrow> dn_sai_udf_t \<Rightarrow> sai_object_id_t \<Rightarrow> sai_status_t \<times> dn_sai_udf_t" where
  "dn_sai_udf_match_id_set E u v =
    (if \<not> sai_is_obj_id E SAI_OBJECT_TYPE_UDF_MATCH v then (SAI_STATUS_INVALID_ATTR_VALUE 0, u)
     else (SAI_STATUS_SUCCESS, u\<lparr>match_obj_id := v\<rparr>))"

definition dn_sai_udf_group_id_set ::
  "('w, 'z) udf_env_scheme \<Rightarrow> dn_sai_udf_t \<Rightarrow> sai_object_id_t \<Rightarrow> udf_state \<Rightarrow> sai_status_t \<times> dn_sai_udf_t" where
  "dn_sai_udf_group_id_set E u v s =
    (if \<not> sai_is_obj_id E SAI_OBJECT_TYPE_UDF_GROUP v then (SAI_STATUS_INVALID_ATTR_VALUE 0, u)
     else case dn_sai_udf_group_node_get s v of
            None \<Rightarrow> (SAI_STATUS_INVALID_OBJECT_ID, u)
          | Some p \<Rightarrow> (SAI_STATUS_SUCCESS, u\<lparr>p_udf_group := Some p\<rparr>))"

definition dn_sai_udf_base_set ::
  "dn_sai_udf_t \<Rightarrow> sai_udf_base_t \<Rightarrow> sai_status_t \<times> dn_sai_udf_t" where
  "dn_sai_udf_base_set u v =
    (if \<not> (v = SAI_UDF_BASE_L2 \<or> v = SAI_UDF_BASE_L3 \<or> v = SAI_UDF_BASE_L4)
     then (SAI_STATUS_INVALID_ATTR_VALUE 0, u)
     else (SAI_STATUS_SUCCESS, u\<lparr>udf_base := v\<rparr>))"

text \<open>A mask is remembered with its index and applied after the loop.\<close>

type_synonym udf_parse_acc = "dn_sai_udf_t \<times> (nat \<times> 8 word sai_list_t) option"

fun udf_attribute_accept ::
  "('w, 'z) udf_env_scheme \<Rightarrow> udf_state \<Rightarrow> nat \<Rightarrow> sai_udf_attr_t \<Rightarrow> udf_parse_acc \<Rightarrow> sai_status_t \<times> udf_parse_acc" where
  "udf_attribute_accept E s i (SAI_UDF_ATTR_MATCH_ID v) (u, hm) =
     (let (status, u) = dn_sai_udf_match_id_set E u v in (status, u, hm))"
| "udf_attribute_accept E s i (SAI_UDF_ATTR_GROUP_ID v) (u, hm) =
     (let (status, u) = dn_sai_udf_group_id_set E u v s in (status, u, hm))"
| "udf_attribute_accept E s i (SAI_UDF_ATTR_BASE v) (u, hm) =
     (let (status, u) = dn_sai_udf_base_set u v in (status, u, hm))"
| "udf_attribute_accept E s i (SAI_UDF_ATTR_OFFSET v) (u, hm) =
     (SAI_STATUS_SUCCESS, u\<lparr>udf_offset := v\<rparr>, hm)"
| "udf_attribute_accept E s i (SAI_UDF_ATTR_HASH_MASK l) (u, hm) = (SAI_STATUS_SUCCESS, u, Some (i, l))"
| "udf_attribute_accept E s i (SAI_UDF_ATTR_UNKNOWN n) (u, hm) =
     (SAI_STATUS_UNKNOWN_ATTRIBUTE 0, u, hm)"

fun udf_attr_set_loop ::
  "('w, 'z) udf_env_scheme \<Rightarrow> udf_state \<Rightarrow> nat \<Rightarrow> sai_udf_attr_t list \<Rightarrow> udf_parse_acc
     \<Rightarrow> sai_status_t \<times> udf_parse_acc" where
  "udf_attr_set_loop E s attr_idx [] acc = (SAI_STATUS_SUCCESS, acc)"
| "udf_attr_set_loop E s attr_idx (a # as) acc =
    (let (status, acc) = udf_attribute_accept E s attr_idx a acc in
     if status \<noteq> SAI_STATUS_SUCCESS then (sai_get_indexed_ret_val E status attr_idx, acc)
     else udf_attr_set_loop E s (Suc attr_idx) as acc)"

definition dn_sai_udf_attr_set ::
  "('w, 'z) udf_env_scheme \<Rightarrow> dn_sai_udf_t \<Rightarrow> sai_udf_attr_t list \<Rightarrow> dn_sai_operations_t \<Rightarrow> udf_state \<Rightarrow> 'w
     \<Rightarrow> sai_status_t \<times> dn_sai_udf_t \<times> udf_state \<times> 'w" where
  "dn_sai_udf_attr_set E u attrs op_type s w =
    (let (status, u, hm) = udf_attr_set_loop E s 0 attrs (u, None) in
     if status \<noteq> SAI_STATUS_SUCCESS then (status, u, s, w)
     else case hm of
       Some (i, l) \<Rightarrow> let (status, u, s, w) = dn_sai_udf_hash_mask_set E u l s w
                      in (sai_get_indexed_ret_val E status i, u, s, w)
     | None \<Rightarrow> if op_type = SAI_OP_CREATE then dn_sai_udf_default_hash_mask_fill E u s w
               else (status, u, s, w))"

section \<open>The calls of UDF objects\<close>

definition dn_sai_udf_group_udf_list_update :: "udf_addr \<Rightarrow> dn_sai_udf_t \<Rightarrow> bool \<Rightarrow> udf_state \<Rightarrow> udf_state" where
  "dn_sai_udf_group_udf_list_update a u is_add s =
    (case p_udf_group u of
       None \<Rightarrow> udf_crash s
     | Some p \<Rightarrow> (case group_mem s p of
         None \<Rightarrow> udf_crash s
       | Some g \<Rightarrow>
         if is_add then group_write p (g\<lparr>udf_list := udf_list g @ [a], udf_count := udf_count g + 1\<rparr>) s
         else group_write p (g\<lparr>udf_list := remove1 a (udf_list g), udf_count := udf_count g - 1\<rparr>) s))"

definition udf_create_body ::
  "('w, 'z) udf_env_scheme \<Rightarrow> udf_addr \<Rightarrow> sai_udf_attr_t list \<Rightarrow> udf_state \<Rightarrow> 'w
     \<Rightarrow> sai_status_t \<times> sai_npu_object_id_t \<times> udf_state \<times> 'w" where
  "udf_create_body E a attrs s w =
    (let (status, u, s, w) = dn_sai_udf_attr_set E dn_sai_udf_node_init attrs SAI_OP_CREATE s w;
         s = udf_write a u s in
     if status \<noteq> SAI_STATUS_SUCCESS then (status, 0, s, w)
     else let (status, hw_id, w) = npu_udf_create E s u w in
       if status \<noteq> SAI_STATUS_SUCCESS then (status, hw_id, s, w)
     else let u = u\<lparr>udf_obj_id := sai_uoid_create E SAI_OBJECT_TYPE_UDF hw_id\<rparr>;
              s = udf_write a u s;
              (ok, t, w) = std_rbtree_insert E (udf_obj_tree s) (udf_obj_id u) a w;
              s = s\<lparr>udf_obj_tree := t\<rparr> in
       (status, hw_id, if ok then dn_sai_udf_group_udf_list_update a u True s else s, w))"

definition dn_sai_udf_create ::
  "('w, 'z) udf_env_scheme \<Rightarrow> sai_udf_attr_t list \<Rightarrow> udf_state \<Rightarrow> 'w
     \<Rightarrow> sai_status_t \<times> sai_object_id_t option \<times> udf_state \<times> 'w" where
  "dn_sai_udf_create E attrs s w =
    (let status = dn_sai_udf_attr_list_validate E SAI_OBJECT_TYPE_UDF (map udf_attr_id attrs) SAI_OP_CREATE in
     if status \<noteq> SAI_STATUS_SUCCESS then (status, None, s, w)
     else let (p, w) = udf_calloc E (\<lambda>a. udf_mem s a \<noteq> None) w in
       case p of
         None \<Rightarrow> (SAI_STATUS_NO_MEMORY, None, s, w)
       | Some a \<Rightarrow>
         let s = dn_sai_udf_lock (udf_write a dn_sai_udf_node_init s);
             (status, hw_id, s, w) = udf_create_body E a attrs s w;
             s = dn_sai_udf_unlock s in
         case udf_mem s a of
           None \<Rightarrow> (status, None, udf_crash s, w)
         | Some u \<Rightarrow>
           if status \<noteq> SAI_STATUS_SUCCESS
           then let w = (if hw_id \<noteq> 0 then snd (npu_udf_remove E s u w) else w)
                in (status, None, dn_sai_udf_node_free a s, w)
           else (status, Some (udf_obj_id u), s, w))"

definition udf_remove_body ::
  "('w, 'z) udf_env_scheme \<Rightarrow> sai_object_id_t \<Rightarrow> udf_state \<Rightarrow> 'w \<Rightarrow> sai_status_t \<times> udf_state \<times> 'w" where
  "udf_remove_body E udf_id s w =
    (case dn_sai_udf_node_get s udf_id of
       None \<Rightarrow> (SAI_STATUS_INVALID_OBJECT_ID, s, w)
     | Some a \<Rightarrow> (case udf_mem s a of
         None \<Rightarrow> (SAI_STATUS_FAILURE, udf_crash s, w)
       | Some u \<Rightarrow>
         let tmp = rb_getexact (udf_obj_tree s) (udf_obj_id u);
             s = s\<lparr>udf_obj_tree := rb_remove (udf_obj_tree s) (udf_obj_id u)\<rparr> in
         if tmp \<noteq> Some a then (SAI_STATUS_FAILURE, s, w)
         else let (status, w) = npu_udf_remove E s u w in
           if status \<noteq> SAI_STATUS_SUCCESS
           then let (ok, t, w) = std_rbtree_insert E (udf_obj_tree s) (udf_obj_id u) a w
                in (status, s\<lparr>udf_obj_tree := t\<rparr>, w)
         else (status, dn_sai_udf_node_free a (dn_sai_udf_group_udf_list_update a u False s), w)))"

definition dn_sai_udf_remove ::
  "('w, 'z) udf_env_scheme \<Rightarrow> sai_object_id_t \<Rightarrow> udf_state \<Rightarrow> 'w \<Rightarrow> sai_status_t \<times> udf_state \<times> 'w" where
  "dn_sai_udf_remove E udf_id s w =
    (if \<not> sai_is_obj_id E SAI_OBJECT_TYPE_UDF udf_id then (SAI_STATUS_INVALID_OBJECT_TYPE, s, w)
     else let (status, s, w) = udf_remove_body E udf_id (dn_sai_udf_lock s) w
          in (status, dn_sai_udf_unlock s, w))"

text \<open>A set call works on a copy of the node, \<open>udf_obj_info\<close>, and copies it back.\<close>

definition udf_set_attribute_body ::
  "('w, 'z) udf_env_scheme \<Rightarrow> sai_object_id_t \<Rightarrow> sai_udf_attr_t \<Rightarrow> udf_state \<Rightarrow> 'w \<Rightarrow> sai_status_t \<times> udf_state \<times> 'w" where
  "udf_set_attribute_body E udf_id attr s w =
    (case dn_sai_udf_node_get s udf_id of
       None \<Rightarrow> (SAI_STATUS_INVALID_OBJECT_ID, s, w)
     | Some a \<Rightarrow> (case udf_mem s a of
         None \<Rightarrow> (SAI_STATUS_FAILURE, udf_crash s, w)
       | Some u \<Rightarrow>
         let (status, u', s, w) = dn_sai_udf_attr_set E u [attr] SAI_OP_SET s w in
         if status \<noteq> SAI_STATUS_SUCCESS then (status, s, w)
         else let (status, w) = npu_udf_attribute_set E s u' attr w in
           if status \<noteq> SAI_STATUS_SUCCESS then (status, s, w)
           else (status, udf_write a u' s, w)))"

definition dn_sai_udf_set_attribute ::
  "('w, 'z) udf_env_scheme \<Rightarrow> sai_object_id_t \<Rightarrow> sai_udf_attr_t \<Rightarrow> udf_state \<Rightarrow> 'w \<Rightarrow> sai_status_t \<times> udf_state \<times> 'w" where
  "dn_sai_udf_set_attribute E udf_id attr s w =
    (if \<not> sai_is_obj_id E SAI_OBJECT_TYPE_UDF udf_id then (SAI_STATUS_INVALID_OBJECT_TYPE, s, w)
     else let status = dn_sai_udf_attr_list_validate E SAI_OBJECT_TYPE_UDF [udf_attr_id attr] SAI_OP_SET in
       if status \<noteq> SAI_STATUS_SUCCESS then (status, s, w)
     else let (status, s, w) = udf_set_attribute_body E udf_id attr (dn_sai_udf_lock s) w
          in (status, dn_sai_udf_unlock s, w))"

text \<open>The default mask is an array of \<open>SAI_UDF_DFLT_HASH_MASK_COUNT\<close> bytes with the initialiser
  \<open>{0xFF, 0xFF}\<close>.\<close>

definition default_hash_mask :: "('w, 'z) udf_env_scheme \<Rightarrow> 8 word list" where
  "default_hash_mask E = take (unat (SAI_UDF_DFLT_HASH_MASK_COUNT E))
     ([0xFF, 0xFF] @ replicate (unat (SAI_UDF_DFLT_HASH_MASK_COUNT E)) 0)"

definition dn_sai_udf_hash_mask_fill ::
  "('w, 'z) udf_env_scheme \<Rightarrow> dn_sai_udf_t \<Rightarrow> 8 word sai_list_t \<Rightarrow> udf_state \<Rightarrow> sai_status_t \<times> 8 word sai_list_t \<times> udf_state" where
  "dn_sai_udf_hash_mask_fill E u l s =
    (let count = (if hash_mask_count u \<noteq> 0 then hash_mask_count u else SAI_UDF_DFLT_HASH_MASK_COUNT E);
         bytes = (if hash_mask_count u \<noteq> 0 then Option.bind (hash_mask_list u) (mask_mem s)
                  else Some (default_hash_mask E)) in
     if count > sl_count l \<or> sl_list l = None
     then (SAI_STATUS_BUFFER_OVERFLOW, l\<lparr>sl_count := count\<rparr>, s)
     else case (bytes, sl_list l) of
       (Some xs, Some buf) \<Rightarrow>
         if unat count \<le> length xs \<and> unat count \<le> length buf
         then (SAI_STATUS_SUCCESS,
           \<lparr>sl_count = count, sl_list = Some (take (unat count) xs @ drop (unat count) buf)\<rparr>, s)
         else (SAI_STATUS_FAILURE, l, udf_crash s)
     | _ \<Rightarrow> (SAI_STATUS_FAILURE, l, udf_crash s))"

fun udf_attribute_answer ::
  "('w, 'z) udf_env_scheme \<Rightarrow> dn_sai_udf_t \<Rightarrow> sai_udf_attr_t \<Rightarrow> udf_state \<Rightarrow> sai_status_t \<times> sai_udf_attr_t \<times> udf_state" where
  "udf_attribute_answer E u (SAI_UDF_ATTR_MATCH_ID v) s =
     (SAI_STATUS_SUCCESS, SAI_UDF_ATTR_MATCH_ID (match_obj_id u), s)"
| "udf_attribute_answer E u (SAI_UDF_ATTR_GROUP_ID v) s =
     (case Option.bind (p_udf_group u) (group_mem s) of
        None \<Rightarrow> (SAI_STATUS_FAILURE, SAI_UDF_ATTR_GROUP_ID v, udf_crash s)
      | Some g \<Rightarrow> (SAI_STATUS_SUCCESS, SAI_UDF_ATTR_GROUP_ID (group_obj_id g), s))"
| "udf_attribute_answer E u (SAI_UDF_ATTR_BASE v) s = (SAI_STATUS_SUCCESS, SAI_UDF_ATTR_BASE (udf_base u), s)"
| "udf_attribute_answer E u (SAI_UDF_ATTR_OFFSET v) s =
     (SAI_STATUS_SUCCESS, SAI_UDF_ATTR_OFFSET (udf_offset u), s)"
| "udf_attribute_answer E u (SAI_UDF_ATTR_HASH_MASK l) s =
     (let (status, l, s) = dn_sai_udf_hash_mask_fill E u l s in (status, SAI_UDF_ATTR_HASH_MASK l, s))"
| "udf_attribute_answer E u (SAI_UDF_ATTR_UNKNOWN n) s =
     (SAI_STATUS_UNKNOWN_ATTRIBUTE 0, SAI_UDF_ATTR_UNKNOWN n, s)"

fun dn_sai_udf_attr_get ::
  "('w, 'z) udf_env_scheme \<Rightarrow> dn_sai_udf_t \<Rightarrow> nat \<Rightarrow> sai_udf_attr_t list \<Rightarrow> udf_state
     \<Rightarrow> sai_status_t \<times> sai_udf_attr_t list \<times> udf_state" where
  "dn_sai_udf_attr_get E u attr_idx [] s = (SAI_STATUS_SUCCESS, [], s)"
| "dn_sai_udf_attr_get E u attr_idx (a # as) s =
    (let (status, a, s) = udf_attribute_answer E u a s in
     if status \<noteq> SAI_STATUS_SUCCESS then (sai_get_indexed_ret_val E status attr_idx, a # as, s)
     else let (status, as, s) = dn_sai_udf_attr_get E u (Suc attr_idx) as s in (status, a # as, s))"

definition dn_sai_udf_get_attribute ::
  "('w, 'z) udf_env_scheme \<Rightarrow> sai_object_id_t \<Rightarrow> sai_udf_attr_t list \<Rightarrow> udf_state
     \<Rightarrow> sai_status_t \<times> sai_udf_attr_t list \<times> udf_state" where
  "dn_sai_udf_get_attribute E udf_id attrs s =
    (if \<not> sai_is_obj_id E SAI_OBJECT_TYPE_UDF udf_id then (SAI_STATUS_INVALID_OBJECT_TYPE, attrs, s)
     else let s = dn_sai_udf_lock s;
              (status, attrs, s) = (case dn_sai_udf_node_get s udf_id of
                  None \<Rightarrow> (SAI_STATUS_INVALID_OBJECT_ID, attrs, s)
                | Some a \<Rightarrow> (case udf_mem s a of
                    None \<Rightarrow> (SAI_STATUS_FAILURE, attrs, udf_crash s)
                  | Some u \<Rightarrow> dn_sai_udf_attr_get E u 0 attrs s))
          in (status, attrs, dn_sai_udf_unlock s))"

section \<open>UDF matches\<close>

text \<open>A match lives in the plug-in only.\<close>

definition dn_sai_udf_match_create ::
  "('w, 'z) udf_env_scheme \<Rightarrow> sai_udf_match_attr_t list \<Rightarrow> udf_state \<Rightarrow> 'w
     \<Rightarrow> sai_status_t \<times> sai_object_id_t option \<times> udf_state \<times> 'w" where
  "dn_sai_udf_match_create E attrs s w =
    (let status = dn_sai_udf_attr_list_validate E SAI_OBJECT_TYPE_UDF_MATCH
                    (map match_attr_id attrs) SAI_OP_CREATE in
     if status \<noteq> SAI_STATUS_SUCCESS then (status, None, s, w)
     else let s = dn_sai_udf_lock s;
              (status, hw_id, w) = npu_udf_match_create E attrs w;
              s = dn_sai_udf_unlock s in
       if status \<noteq> SAI_STATUS_SUCCESS then (status, None, s, w)
       else (status, Some (sai_uoid_create E SAI_OBJECT_TYPE_UDF_MATCH hw_id), s, w))"

definition dn_sai_udf_match_remove ::
  "('w, 'z) udf_env_scheme \<Rightarrow> sai_object_id_t \<Rightarrow> udf_state \<Rightarrow> 'w \<Rightarrow> sai_status_t \<times> udf_state \<times> 'w" where
  "dn_sai_udf_match_remove E mid s w =
    (if \<not> sai_is_obj_id E SAI_OBJECT_TYPE_UDF_MATCH mid then (SAI_STATUS_INVALID_OBJECT_TYPE, s, w)
     else let s = dn_sai_udf_lock s; (status, w) = npu_udf_match_remove E mid w
          in (status, dn_sai_udf_unlock s, w))"

definition dn_sai_udf_match_set_attribute ::
  "sai_object_id_t \<Rightarrow> sai_udf_match_attr_t \<Rightarrow> udf_state \<Rightarrow> sai_status_t \<times> udf_state" where
  "dn_sai_udf_match_set_attribute mid a s = (SAI_STATUS_NOT_SUPPORTED, s)"

definition dn_sai_udf_match_get_attribute ::
  "('w, 'z) udf_env_scheme \<Rightarrow> sai_object_id_t \<Rightarrow> sai_udf_match_attr_t list \<Rightarrow> udf_state \<Rightarrow> 'w
     \<Rightarrow> sai_status_t \<times> sai_udf_match_attr_t list \<times> udf_state \<times> 'w" where
  "dn_sai_udf_match_get_attribute E mid attrs s w =
    (if \<not> sai_is_obj_id E SAI_OBJECT_TYPE_UDF_MATCH mid then (SAI_STATUS_INVALID_OBJECT_TYPE, attrs, s, w)
     else let s = dn_sai_udf_lock s; (status, attrs, w) = npu_udf_match_attribute_get E mid attrs w
          in (status, attrs, dn_sai_udf_unlock s, w))"

end
