(* ===== verification/Udf_Inv.thy ===== *)
theory Udf_Inv
  imports Udf_Calls Sai_Loops
begin

text \<open>
  What keeps the UDF module's memory right (\<open>udf_inv\<close>), the assumptions on the libraries
  (\<open>udf_laws\<close>), and the effect of the group calls and of the attribute parsing.
\<close>

section \<open>Assumptions on the libraries\<close>

definition udf_calloc_law :: "('w, 'z) udf_env_scheme \<Rightarrow> bool" where
  \<comment> \<open>\<open>calloc\<close> returns memory that is not in use\<close>
  "udf_calloc_law E \<longleftrightarrow> (\<forall>A w a w'. udf_calloc E A w = (Some a, w') \<longrightarrow> \<not> A a)"

definition indexed_law :: "('w, 'z) platform_scheme \<Rightarrow> bool" where
  \<comment> \<open>the index is added to error codes only\<close>
  "indexed_law P \<longleftrightarrow>
     (\<forall>st i. sai_get_indexed_ret_val P st i = SAI_STATUS_SUCCESS \<longleftrightarrow> st = SAI_STATUS_SUCCESS)"

definition validate_law :: "('w, 'z) udf_env_scheme \<Rightarrow> bool" where
  \<comment> \<open>an accepted list has only attributes that the table allows, and all mandatory ones\<close>
  "validate_law E \<longleftrightarrow>
     (\<forall>ids tab op. sai_attribute_validate E ids tab op = SAI_STATUS_SUCCESS \<longrightarrow>
        (\<forall>i \<in> set ids. \<exists>e \<in> set tab. ae_id e = i \<and> (op = SAI_OP_CREATE \<longrightarrow> valid_for_create e)
           \<and> (op = SAI_OP_SET \<longrightarrow> valid_for_set e))
        \<and> (op = SAI_OP_CREATE \<longrightarrow> (\<forall>e \<in> set tab. mandatory_on_create e \<longrightarrow> ae_id e \<in> set ids)))"

definition udf_laws :: "('w, 'z) udf_env_scheme \<Rightarrow> bool" where
  "udf_laws E \<longleftrightarrow> udf_calloc_law E \<and> indexed_law E \<and> validate_law E \<and> refuses_duplicates E"

lemma udf_lawsD:
  assumes "udf_laws E"
  shows "udf_calloc E A w = (Some a, w') \<Longrightarrow> \<not> A a"
    and "sai_get_indexed_ret_val E st i = SAI_STATUS_SUCCESS \<longleftrightarrow> st = SAI_STATUS_SUCCESS"
    and "refuses_duplicates E" and "validate_law E"
  using assms by (simp_all add: udf_laws_def udf_calloc_law_def indexed_law_def)
    (metis (mono_tags, lifting))

lemma rb_put_remove_same: "rb_getexact h k = Some v \<Longrightarrow> rb_put (rb_remove h k) k v = h"
  by (rule rb_eqI) (auto dest: rb_getexact_SomeD)

lemma rb_put_entryD:
  "rb_getexact (if ok then rb_put h k v else h) i = Some b \<Longrightarrow> b = v \<and> k = i \<or> rb_getexact h i = Some b"
  by (cases ok) (simp_all split: if_splits)

section \<open>The invariant\<close>

text \<open>The mask of a UDF of a hash group is an array of the group's length.\<close>

definition mask_ok :: "(udf_addr \<Rightarrow> 8 word list option) \<Rightarrow> dn_sai_udf_group_t \<Rightarrow> dn_sai_udf_t \<Rightarrow> bool" where
  "mask_ok M g u \<longleftrightarrow>
    (if udf_group_type g = SAI_UDF_GROUP_TYPE_HASH
     then \<exists>m xs. hash_mask_list u = Some m \<and> M m = Some xs \<and> length xs = unat (group_length g)
       \<and> hash_mask_count u = ucast (group_length g)
     else hash_mask_list u = None \<and> hash_mask_count u = 0)"

definition groups_ok :: "udf_state \<Rightarrow> bool" where
  "groups_ok s \<longleftrightarrow> (\<forall>p g. group_mem s p = Some g \<longrightarrow>
     distinct (udf_list g) \<and> udf_count g = of_nat (length (udf_list g))
     \<and> (\<forall>a \<in> set (udf_list g). \<exists>u. udf_mem s a = Some u \<and> p_udf_group u = Some p \<and> mask_ok (mask_mem s) g u))"

definition group_index_ok :: "udf_state \<Rightarrow> bool" where
  "group_index_ok s \<longleftrightarrow> udf_group_tree s \<noteq> None \<and>
     (\<forall>i a. rb_getexact (udf_group_tree s) i = Some a \<longrightarrow>
        (\<exists>g. group_mem s a = Some g \<and> group_obj_id g = i))"

text \<open>A UDF in the tree is listed by the group that it points to.\<close>

definition udf_index_ok :: "udf_state \<Rightarrow> bool" where
  "udf_index_ok s \<longleftrightarrow> udf_obj_tree s \<noteq> None \<and>
     (\<forall>i a. rb_getexact (udf_obj_tree s) i = Some a \<longrightarrow>
        (\<exists>u p g. udf_mem s a = Some u \<and> udf_obj_id u = i \<and> p_udf_group u = Some p
           \<and> group_mem s p = Some g \<and> a \<in> set (udf_list g)))"

definition udf_listed :: "udf_state \<Rightarrow> udf_addr \<Rightarrow> bool" where
  "udf_listed s a \<longleftrightarrow> (\<exists>p g. group_mem s p = Some g \<and> a \<in> set (udf_list g))"

text \<open>No two listed UDFs share a mask.\<close>

definition masks_apart :: "udf_state \<Rightarrow> bool" where
  "masks_apart s \<longleftrightarrow> (\<forall>a b u v m. udf_listed s a \<longrightarrow> udf_listed s b \<longrightarrow> udf_mem s a = Some u
     \<longrightarrow> udf_mem s b = Some v \<longrightarrow> hash_mask_list u = Some m \<longrightarrow> hash_mask_list v = Some m \<longrightarrow> a = b)"

definition udf_inv :: "udf_state \<Rightarrow> bool" where
  "udf_inv s \<longleftrightarrow> \<not> udf_fault s \<and> groups_ok s \<and> group_index_ok s \<and> udf_index_ok s \<and> masks_apart s"

lemmas udf_inv_defs = udf_inv_def groups_ok_def group_index_ok_def udf_index_ok_def masks_apart_def

lemma udf_invD:
  assumes "udf_inv s"
  shows "\<not> udf_fault s" "groups_ok s" "group_index_ok s" "udf_index_ok s" "masks_apart s"
  using assms by (simp_all add: udf_inv_def)

lemma group_index_nodeE:
  assumes "udf_inv s" "rb_getexact (udf_group_tree s) i = Some a"
  obtains g where "group_mem s a = Some g" "group_obj_id g = i"
  using assms by (auto simp: udf_inv_def group_index_ok_def)

lemma udf_index_nodeE:
  assumes "udf_inv s" "rb_getexact (udf_obj_tree s) i = Some a"
  obtains u p g where "udf_mem s a = Some u" "udf_obj_id u = i" "p_udf_group u = Some p"
    "group_mem s p = Some g" "a \<in> set (udf_list g)" "mask_ok (mask_mem s) g u"
proof -
  from assms obtain u p g where u: "udf_mem s a = Some u" "udf_obj_id u = i" "p_udf_group u = Some p"
    "group_mem s p = Some g" "a \<in> set (udf_list g)"
    unfolding udf_inv_def udf_index_ok_def by blast
  with assms(1) have "mask_ok (mask_mem s) g u" unfolding udf_inv_def groups_ok_def by fastforce
  with u show thesis by (rule that)
qed

lemma listed_nodeE:
  assumes "udf_inv s" "group_mem s p = Some g" "a \<in> set (udf_list g)"
  obtains u where "udf_mem s a = Some u" "p_udf_group u = Some p" "mask_ok (mask_mem s) g u"
proof -
  from assms have "\<exists>u. udf_mem s a = Some u \<and> p_udf_group u = Some p \<and> mask_ok (mask_mem s) g u"
    unfolding udf_inv_def groups_ok_def by blast
  with that show thesis by blast
qed

lemma listed_once:
  assumes "udf_inv s" "group_mem s p = Some g" "group_mem s q = Some k"
    "a \<in> set (udf_list g)" "a \<in> set (udf_list k)"
  shows "p = q"
  by (rule listed_nodeE [OF assms(1,2,4)], rule listed_nodeE [OF assms(1,3,5)]) simp

text \<open>The lock depth is no part of the invariant.\<close>

lemma udf_inv_lock [simp]:
  "udf_inv (dn_sai_udf_lock s) = udf_inv s" "udf_inv (dn_sai_udf_unlock s) = udf_inv s"
  by (simp_all add: udf_inv_defs udf_listed_def dn_sai_udf_lock_def dn_sai_udf_unlock_def)

lemma udf_lock_unlock [simp]: "dn_sai_udf_unlock (dn_sai_udf_lock s) = s"
  by (simp add: dn_sai_udf_lock_def dn_sai_udf_unlock_def)

lemma udf_lock_fields [simp]:
  "udf_group_tree (dn_sai_udf_lock s) = udf_group_tree s" "udf_obj_tree (dn_sai_udf_lock s) = udf_obj_tree s"
  "group_mem (dn_sai_udf_lock s) = group_mem s" "udf_mem (dn_sai_udf_lock s) = udf_mem s"
  "mask_mem (dn_sai_udf_lock s) = mask_mem s"
  "udf_group_tree (dn_sai_udf_unlock s) = udf_group_tree s" "udf_obj_tree (dn_sai_udf_unlock s) = udf_obj_tree s"
  "group_mem (dn_sai_udf_unlock s) = group_mem s" "udf_mem (dn_sai_udf_unlock s) = udf_mem s"
  "mask_mem (dn_sai_udf_unlock s) = mask_mem s"
  by (simp_all add: dn_sai_udf_lock_def dn_sai_udf_unlock_def)

section \<open>Updates that keep the invariant\<close>

lemma udf_listed_at:
  "udf_listed s a \<longleftrightarrow> (\<exists>g. group_mem s p = Some g \<and> a \<in> set (udf_list g))
     \<or> (\<exists>q g. q \<noteq> p \<and> group_mem s q = Some g \<and> a \<in> set (udf_list g))"
  unfolding udf_listed_def by metis

lemma udf_listed_update:
  "udf_listed (s\<lparr>group_mem := (group_mem s)(p := x)\<rparr>) a \<longleftrightarrow>
     (\<exists>g. x = Some g \<and> a \<in> set (udf_list g))
     \<or> (\<exists>q g. q \<noteq> p \<and> group_mem s q = Some g \<and> a \<in> set (udf_list g))"
  by (subst udf_listed_at [of _ _ p]) auto

lemma udf_inv_new_group:
  assumes I: "udf_inv s" and a: "group_mem s a = None" and g: "udf_list g = []" "udf_count g = 0"
  shows "udf_inv (s\<lparr>group_mem := (group_mem s)(a \<mapsto> g)\<rparr>)"
proof -
  have l: "udf_listed (s\<lparr>group_mem := (group_mem s)(a \<mapsto> g)\<rparr>) = udf_listed s"
    using a g by (simp add: fun_eq_iff udf_listed_update udf_listed_at [of s _ a])
  have "groups_ok (s\<lparr>group_mem := (group_mem s)(a \<mapsto> g)\<rparr>)"
    using udf_invD(2) [OF I] g by (auto simp: groups_ok_def)
  moreover have "group_index_ok (s\<lparr>group_mem := (group_mem s)(a \<mapsto> g)\<rparr>)"
    using udf_invD(3) [OF I] a unfolding group_index_ok_def by fastforce
  moreover have "udf_index_ok (s\<lparr>group_mem := (group_mem s)(a \<mapsto> g)\<rparr>)"
    using udf_invD(4) [OF I] a unfolding udf_index_ok_def by fastforce
  moreover have "masks_apart (s\<lparr>group_mem := (group_mem s)(a \<mapsto> g)\<rparr>)"
    using udf_invD(5) [OF I] l by (simp add: masks_apart_def)
  ultimately show ?thesis using udf_invD(1) [OF I] by (simp add: udf_inv_def)
qed

lemma udf_inv_group_tree:
  assumes I: "udf_inv s" and t: "t \<noteq> None"
    and n: "\<And>i a. rb_getexact t i = Some a \<Longrightarrow> \<exists>g. group_mem s a = Some g \<and> group_obj_id g = i"
  shows "udf_inv (s\<lparr>udf_group_tree := t\<rparr>)"
  using I t n by (auto simp: udf_inv_def groups_ok_def group_index_ok_def udf_index_ok_def masks_apart_def
      udf_listed_def)

lemma udf_inv_obj_tree:
  assumes I: "udf_inv s" and t: "t \<noteq> None"
    and n: "\<And>i a. rb_getexact t i = Some a \<Longrightarrow>
        \<exists>u p g. udf_mem s a = Some u \<and> udf_obj_id u = i \<and> p_udf_group u = Some p
          \<and> group_mem s p = Some g \<and> a \<in> set (udf_list g)"
  shows "udf_inv (s\<lparr>udf_obj_tree := t\<rparr>)"
  using I t n by (simp add: udf_inv_def groups_ok_def group_index_ok_def udf_index_ok_def masks_apart_def
      udf_listed_def)

lemma udf_inv_group_tree_remove:
  assumes I: "udf_inv s"
  shows "udf_inv (s\<lparr>udf_group_tree := rb_remove (udf_group_tree s) i\<rparr>)"
  using udf_invD(3) [OF I] by (intro udf_inv_group_tree [OF I]) (auto simp: group_index_ok_def split: if_splits)

lemma udf_inv_obj_tree_remove:
  assumes I: "udf_inv s"
  shows "udf_inv (s\<lparr>udf_obj_tree := rb_remove (udf_obj_tree s) i\<rparr>)"
  using udf_invD(4) [OF I] by (intro udf_inv_obj_tree [OF I]) (simp_all add: udf_index_ok_def split: if_splits)

lemma udf_inv_drop_group:
  assumes I: "udf_inv s" and g: "group_mem s a = Some g" "udf_list g = []"
    and t: "\<And>i. rb_getexact (udf_group_tree s) i \<noteq> Some a"
  shows "udf_inv (s\<lparr>group_mem := (group_mem s)(a := None)\<rparr>)"
proof -
  let ?s = "s\<lparr>group_mem := (group_mem s)(a := None)\<rparr>"
  have l: "udf_listed ?s = udf_listed s" using g by (simp add: fun_eq_iff udf_listed_update udf_listed_at [of s _ a])
  have "groups_ok ?s" using udf_invD(2) [OF I] by (auto simp: groups_ok_def)
  moreover have "group_index_ok ?s" using udf_invD(3) [OF I] t by (auto simp: group_index_ok_def)
  moreover have "udf_index_ok ?s"
    unfolding udf_index_ok_def
  proof (intro conjI allI impI)
    fix i b assume "rb_getexact (udf_obj_tree ?s) i = Some b"
    then have "rb_getexact (udf_obj_tree s) i = Some b" by simp
    then obtain u p k where u: "udf_mem s b = Some u" "udf_obj_id u = i" "p_udf_group u = Some p"
      "group_mem s p = Some k" "b \<in> set (udf_list k)" by (rule udf_index_nodeE [OF I])
    with g have "p \<noteq> a" by auto
    with u show "\<exists>u p k. udf_mem ?s b = Some u \<and> udf_obj_id u = i \<and> p_udf_group u = Some p
        \<and> group_mem ?s p = Some k \<and> b \<in> set (udf_list k)" by auto
  qed (use udf_invD(4) [OF I] in \<open>simp add: udf_index_ok_def\<close>)
  moreover have "masks_apart ?s" using udf_invD(5) [OF I] l by (simp add: masks_apart_def)
  ultimately show ?thesis using udf_invD(1) [OF I] by (simp add: udf_inv_def)
qed

text \<open>A node that no group lists does not matter, nor does an array at a new address.\<close>

lemma mask_ok_mono:
  "mask_ok M g u \<Longrightarrow> (\<And>m xs. M m = Some xs \<Longrightarrow> M' m = Some xs) \<Longrightarrow> mask_ok M' g u"
  by (auto simp: mask_ok_def split: if_splits)

lemma udf_inv_fresh_mask:
  assumes I: "udf_inv s" and m: "\<And>m xs. mask_mem s m = Some xs \<Longrightarrow> M m = Some xs"
  shows "udf_inv (s\<lparr>mask_mem := M\<rparr>)"
proof -
  have "groups_ok (s\<lparr>mask_mem := M\<rparr>)"
    unfolding groups_ok_def
  proof (intro allI impI conjI ballI)
    fix p g a assume g: "group_mem (s\<lparr>mask_mem := M\<rparr>) p = Some g" and a: "a \<in> set (udf_list g)"
    from g have "group_mem s p = Some g" by simp
    from listed_nodeE [OF I this a] obtain u where
      "udf_mem s a = Some u" "p_udf_group u = Some p" "mask_ok (mask_mem s) g u" .
    then show "\<exists>u. udf_mem (s\<lparr>mask_mem := M\<rparr>) a = Some u \<and> p_udf_group u = Some p
        \<and> mask_ok (mask_mem (s\<lparr>mask_mem := M\<rparr>)) g u" using mask_ok_mono m by auto
  qed (use udf_invD(2) [OF I] in \<open>simp_all add: groups_ok_def\<close>)
  then show ?thesis using I
    by (simp add: udf_inv_def group_index_ok_def udf_index_ok_def masks_apart_def udf_listed_def)
qed

lemma udf_inv_unlisted:
  assumes I: "udf_inv s" and a: "udf_mem s a = None"
  shows "udf_inv (s\<lparr>udf_mem := (udf_mem s)(a \<mapsto> u)\<rparr>)"
proof -
  let ?s = "s\<lparr>udf_mem := (udf_mem s)(a \<mapsto> u)\<rparr>"
  have n: "\<not> udf_listed s a"
  proof
    assume "udf_listed s a"
    then obtain p g where "group_mem s p = Some g" "a \<in> set (udf_list g)" by (auto simp: udf_listed_def)
    from listed_nodeE [OF I this] a show False by auto
  qed
  have "groups_ok ?s" using udf_invD(2) [OF I] n unfolding groups_ok_def udf_listed_def by fastforce
  moreover have "group_index_ok ?s" using udf_invD(3) [OF I] by (simp add: group_index_ok_def)
  moreover have "udf_index_ok ?s" using udf_invD(4) [OF I] a unfolding udf_index_ok_def by fastforce
  moreover have "masks_apart ?s" using udf_invD(5) [OF I] n
    unfolding masks_apart_def by (auto simp: udf_listed_def) 
  ultimately show ?thesis using udf_invD(1) [OF I] by (simp add: udf_inv_def)
qed

text \<open>The last step of a creation: the group lists the new node.\<close>

definition group_join :: "udf_addr \<Rightarrow> dn_sai_udf_group_t \<Rightarrow> dn_sai_udf_group_t" where
  "group_join a g = g\<lparr>udf_list := udf_list g @ [a], udf_count := udf_count g + 1\<rparr>"

definition group_leave :: "udf_addr \<Rightarrow> dn_sai_udf_group_t \<Rightarrow> dn_sai_udf_group_t" where
  "group_leave a g = g\<lparr>udf_list := remove1 a (udf_list g), udf_count := udf_count g - 1\<rparr>"

lemma group_join_simps [simp]:
  "group_obj_id (group_join a g) = group_obj_id g" "udf_list (group_join a g) = udf_list g @ [a]"
  "udf_count (group_join a g) = udf_count g + 1" "mask_ok M (group_join a g) = mask_ok M g"
  "group_obj_id (group_leave a g) = group_obj_id g" "udf_list (group_leave a g) = remove1 a (udf_list g)"
  "udf_count (group_leave a g) = udf_count g - 1" "mask_ok M (group_leave a g) = mask_ok M g"
  by (simp_all add: group_join_def group_leave_def mask_ok_def fun_eq_iff)

lemma udf_inv_list_node:
  assumes I: "udf_inv s" and u: "udf_mem s a = Some u" "p_udf_group u = Some p"
    and g: "group_mem s p = Some g" "mask_ok (mask_mem s) g u" and n: "\<not> udf_listed s a"
    and m: "\<And>b v m. udf_listed s b \<Longrightarrow> udf_mem s b = Some v \<Longrightarrow> hash_mask_list v = Some m \<Longrightarrow>
        hash_mask_list u \<noteq> Some m"
  shows "udf_inv (s\<lparr>group_mem := (group_mem s)(p \<mapsto> group_join a g)\<rparr>)"
proof -
  let ?s = "s\<lparr>group_mem := (group_mem s)(p \<mapsto> group_join a g)\<rparr>"
  have l: "udf_listed ?s b \<longleftrightarrow> b = a \<or> udf_listed s b" for b
    using g(1) by (auto simp: udf_listed_update udf_listed_at [of s b p])
  have g2: "distinct (udf_list g) \<and> udf_count g = of_nat (length (udf_list g))
     \<and> (\<forall>a \<in> set (udf_list g). \<exists>u. udf_mem s a = Some u \<and> p_udf_group u = Some p \<and> mask_ok (mask_mem s) g u)"
    using udf_invD(2) [OF I] g(1) unfolding groups_ok_def by blast
  have "groups_ok ?s"
    unfolding groups_ok_def
  proof (intro allI impI)
    fix q k assume q: "group_mem ?s q = Some k"
    show "distinct (udf_list k) \<and> udf_count k = of_nat (length (udf_list k))
     \<and> (\<forall>a \<in> set (udf_list k). \<exists>u. udf_mem ?s a = Some u \<and> p_udf_group u = Some q \<and> mask_ok (mask_mem ?s) k u)"
    proof (cases "q = p")
      case True
      with q have k: "k = group_join a g" by simp
      show ?thesis using g2 g(1) u g(2) n True by (auto simp: k udf_listed_def)
    next
      case False
      with q udf_invD(2) [OF I] show ?thesis unfolding groups_ok_def by simp
    qed
  qed
  moreover have "group_index_ok ?s" using udf_invD(3) [OF I] g(1) unfolding group_index_ok_def
    by fastforce
  moreover have "udf_index_ok ?s"
    unfolding udf_index_ok_def
  proof (intro conjI allI impI)
    fix i b assume "rb_getexact (udf_obj_tree ?s) i = Some b"
    then have "rb_getexact (udf_obj_tree s) i = Some b" by simp
    then obtain v q k where v: "udf_mem s b = Some v" "udf_obj_id v = i" "p_udf_group v = Some q"
      "group_mem s q = Some k" "b \<in> set (udf_list k)" by (rule udf_index_nodeE [OF I])
    have "\<exists>k. group_mem ?s q = Some k \<and> b \<in> set (udf_list k)" using v g(1) by (cases "q = p") auto
    with v show "\<exists>v q k. udf_mem ?s b = Some v \<and> udf_obj_id v = i \<and> p_udf_group v = Some q
        \<and> group_mem ?s q = Some k \<and> b \<in> set (udf_list k)" by auto
  qed (use udf_invD(4) [OF I] in \<open>simp add: udf_index_ok_def\<close>)
  moreover have "masks_apart ?s"
    unfolding masks_apart_def
  proof (intro allI impI)
    fix b c v x k
    assume lb: "udf_listed ?s b" "udf_listed ?s c" and "udf_mem ?s b = Some v" "udf_mem ?s c = Some x"
      and k: "hash_mask_list v = Some k" "hash_mask_list x = Some k"
    then have vs: "udf_mem s b = Some v" "udf_mem s c = Some x" by simp_all
    have old: "udf_listed s b \<Longrightarrow> udf_listed s c \<Longrightarrow> b = c"
      using udf_invD(5) [OF I] vs k unfolding masks_apart_def by metis
    have new: "hash_mask_list u \<noteq> Some k" if "udf_listed s d" "udf_mem s d = Some z" "hash_mask_list z = Some k"
      for d z using m [OF that] .
    show "b = c"
    proof (cases "b = a"; cases "c = a")
      assume "b = a" "c \<noteq> a"
      with lb(2) l new [of c x] vs k u(1) show "b = c" by simp
    next
      assume "b \<noteq> a" "c = a"
      with lb(1) l new [of b v] vs k u(1) show "b = c" by simp
    qed (use lb l old in simp_all)
  qed
  ultimately show ?thesis using udf_invD(1) [OF I] by (simp add: udf_inv_def)
qed

end
