(* ===== verification/Udf_Effects.thy ===== *)
theory Udf_Effects
  imports Udf_Inv
begin

text \<open>
  The remaining updates that keep the invariant, and the effect of each call of UDF groups and UDF
  objects as an elimination rule.
\<close>

section \<open>Leaving a group and changing a node\<close>

definition without_mask :: "dn_sai_udf_t \<Rightarrow> (udf_addr \<Rightarrow> 8 word list option) \<Rightarrow> udf_addr \<Rightarrow> 8 word list option" where
  "without_mask u M = (case hash_mask_list u of None \<Rightarrow> M | Some m \<Rightarrow> M(m := None))"

definition udf_dropped :: "udf_addr \<Rightarrow> dn_sai_udf_t \<Rightarrow> udf_addr \<Rightarrow> dn_sai_udf_group_t \<Rightarrow> udf_state \<Rightarrow> udf_state" where
  "udf_dropped a u p g s = s\<lparr>group_mem := (group_mem s)(p \<mapsto> group_leave a g),
     udf_mem := (udf_mem s)(a := None), mask_mem := without_mask u (mask_mem s)\<rparr>"

lemma udf_dropped_fields [simp]:
  "group_mem (udf_dropped a u p g s) = (group_mem s)(p \<mapsto> group_leave a g)"
  "udf_mem (udf_dropped a u p g s) = (udf_mem s)(a := None)"
  "mask_mem (udf_dropped a u p g s) = without_mask u (mask_mem s)"
  "udf_group_tree (udf_dropped a u p g s) = udf_group_tree s"
  "udf_obj_tree (udf_dropped a u p g s) = udf_obj_tree s" "udf_fault (udf_dropped a u p g s) = udf_fault s"
  by (simp_all add: udf_dropped_def)

lemma mask_ok_without:
  "mask_ok M g v \<Longrightarrow> (\<And>m. hash_mask_list v = Some m \<Longrightarrow> hash_mask_list u \<noteq> Some m) \<Longrightarrow>
     mask_ok (without_mask u M) g v"
  unfolding mask_ok_def without_mask_def by (cases "hash_mask_list u") (simp_all split: if_splits, metis)

lemma udf_listed_dropped:
  assumes "udf_listed (udf_dropped a u p g s) b" "group_mem s p = Some g"
  shows "udf_listed s b"
proof -
  have "udf_listed (s\<lparr>group_mem := (group_mem s)(p := Some (group_leave a g))\<rparr>) b"
    using assms(1) by (simp add: udf_listed_def)
  then show ?thesis using assms(2) set_remove1_subset [of a "udf_list g"]
    by (auto simp: udf_listed_update udf_listed_at [of s b p])
qed

lemma udf_inv_dropped:
  assumes I: "udf_inv s" and u: "udf_mem s a = Some u" "p_udf_group u = Some p"
    and g: "group_mem s p = Some g" "a \<in> set (udf_list g)"
    and t: "\<And>i. rb_getexact (udf_obj_tree s) i \<noteq> Some a"
  shows "udf_inv (udf_dropped a u p g s)" (is "udf_inv ?s")
proof -
  have d: "distinct (udf_list g)" "udf_count g = of_nat (length (udf_list g))"
    using udf_invD(2) [OF I] g(1) unfolding groups_ok_def by blast+
  have la: "udf_listed s a" using g by (auto simp: udf_listed_def)
  have keep: "\<exists>v. udf_mem ?s b = Some v \<and> p_udf_group v = Some q \<and> mask_ok (mask_mem ?s) k v"
    if qk: "group_mem s q = Some k" "b \<in> set (udf_list k)" and "b \<noteq> a" for q k b
  proof -
    obtain v where v: "udf_mem s b = Some v" "p_udf_group v = Some q" "mask_ok (mask_mem s) k v"
      by (rule listed_nodeE [OF I qk])
    have lb: "udf_listed s b" using qk by (auto simp: udf_listed_def)
    have "hash_mask_list u \<noteq> Some m" if "hash_mask_list v = Some m" for m
      using udf_invD(5) [OF I] la lb v(1) u(1) that \<open>b \<noteq> a\<close> unfolding masks_apart_def by metis
    with v \<open>b \<noteq> a\<close> show ?thesis by (auto intro: mask_ok_without)
  qed
  have "groups_ok ?s"
    unfolding groups_ok_def
  proof (intro allI impI)
    fix q k assume q: "group_mem ?s q = Some k"
    show "distinct (udf_list k) \<and> udf_count k = of_nat (length (udf_list k))
     \<and> (\<forall>b \<in> set (udf_list k). \<exists>v. udf_mem ?s b = Some v \<and> p_udf_group v = Some q \<and> mask_ok (mask_mem ?s) k v)"
    proof (cases "q = p")
      case True
      with q have k: "k = group_leave a g" by simp
      have "of_nat (length (remove1 a (udf_list g))) = (udf_count g - 1 :: uint32_t)"
      proof -
        have "length (udf_list g) = Suc (length (remove1 a (udf_list g)))"
          using g(2) length_pos_if_in_set [OF g(2)] by (simp add: length_remove1)
        then show ?thesis using d(2) by simp
      qed
      moreover have "\<forall>b \<in> set (udf_list g). b \<noteq> a \<longrightarrow>
          (\<exists>v. udf_mem ?s b = Some v \<and> p_udf_group v = Some p \<and> mask_ok (mask_mem ?s) g v)"
        using keep g(1) by blast
      ultimately show ?thesis using d True by (simp add: k)
    next
      case False
      with q have q': "group_mem s q = Some k" by simp
      have "a \<notin> set (udf_list k)" using listed_once [OF I g(1) q' g(2)] False by blast
      then have "\<forall>b \<in> set (udf_list k). \<exists>v. udf_mem ?s b = Some v \<and> p_udf_group v = Some q \<and> mask_ok (mask_mem ?s) k v"
        using keep q' by metis
      with udf_invD(2) [OF I] q' show ?thesis unfolding groups_ok_def by blast
    qed
  qed
  moreover have "group_index_ok ?s" using udf_invD(3) [OF I] g(1) unfolding group_index_ok_def by fastforce
  moreover have "udf_index_ok ?s"
    unfolding udf_index_ok_def
  proof (intro conjI allI impI)
    fix i b assume "rb_getexact (udf_obj_tree ?s) i = Some b"
    then have i: "rb_getexact (udf_obj_tree s) i = Some b" by simp
    then have "b \<noteq> a" using t by auto
    from i obtain v q k where v: "udf_mem s b = Some v" "udf_obj_id v = i" "p_udf_group v = Some q"
      "group_mem s q = Some k" "b \<in> set (udf_list k)" by (rule udf_index_nodeE [OF I])
    have "\<exists>k. group_mem ?s q = Some k \<and> b \<in> set (udf_list k)"
      using v g(1) \<open>b \<noteq> a\<close> d by (cases "q = p") auto
    with v \<open>b \<noteq> a\<close> show "\<exists>v q k. udf_mem ?s b = Some v \<and> udf_obj_id v = i \<and> p_udf_group v = Some q
        \<and> group_mem ?s q = Some k \<and> b \<in> set (udf_list k)" by auto
  qed (use udf_invD(4) [OF I] in \<open>simp add: udf_index_ok_def\<close>)
  moreover have "masks_apart ?s"
    unfolding masks_apart_def
  proof (intro allI impI)
    fix b c v x k
    assume l: "udf_listed ?s b" "udf_listed ?s c" and vs: "udf_mem ?s b = Some v" "udf_mem ?s c = Some x"
      and k: "hash_mask_list v = Some k" "hash_mask_list x = Some k"
    have "udf_listed s b" "udf_listed s c" using l udf_listed_dropped [OF _ g(1)] by blast+
    moreover have "udf_mem s b = Some v" "udf_mem s c = Some x" using vs by (auto split: if_splits)
    ultimately show "b = c" using udf_invD(5) [OF I] k unfolding masks_apart_def by metis
  qed
  ultimately show ?thesis using udf_invD(1) [OF I] by (simp add: udf_inv_def)
qed

lemma udf_inv_node_change:
  assumes I: "udf_inv s" and u: "udf_mem s a = Some u"
    and v: "udf_obj_id v = udf_obj_id u" "p_udf_group v = p_udf_group u" "hash_mask_list v = hash_mask_list u"
      "hash_mask_count v = hash_mask_count u"
  shows "udf_inv (s\<lparr>udf_mem := (udf_mem s)(a \<mapsto> v)\<rparr>)" (is "udf_inv ?s")
proof -
  have m: "mask_ok M g v = mask_ok M g u" for M g using v by (simp add: mask_ok_def)
  have l: "udf_listed ?s = udf_listed s" by (simp add: udf_listed_def fun_eq_iff)
  have at: "udf_mem s b = Some x \<Longrightarrow> \<exists>y. udf_mem ?s b = Some y \<and> udf_obj_id y = udf_obj_id x
      \<and> p_udf_group y = p_udf_group x \<and> hash_mask_list y = hash_mask_list x \<and> hash_mask_count y = hash_mask_count x" for b x
    using u v by auto
  have "groups_ok ?s"
    unfolding groups_ok_def
  proof (intro allI impI conjI ballI)
    fix p g b assume g: "group_mem ?s p = Some g" and b: "b \<in> set (udf_list g)"
    from g have g': "group_mem s p = Some g" by simp
    obtain x where x: "udf_mem s b = Some x" "p_udf_group x = Some p" "mask_ok (mask_mem s) g x"
      by (rule listed_nodeE [OF I g' b])
    from at [OF x(1)] x show "\<exists>y. udf_mem ?s b = Some y \<and> p_udf_group y = Some p \<and> mask_ok (mask_mem ?s) g y"
      by (auto simp: mask_ok_def)
  qed (use udf_invD(2) [OF I] in \<open>simp_all add: groups_ok_def\<close>)
  moreover have "group_index_ok ?s" using udf_invD(3) [OF I] by (simp add: group_index_ok_def)
  moreover have "udf_index_ok ?s"
    unfolding udf_index_ok_def
  proof (intro conjI allI impI)
    fix i b assume "rb_getexact (udf_obj_tree ?s) i = Some b"
    then have "rb_getexact (udf_obj_tree s) i = Some b" by simp
    then obtain x q k where x: "udf_mem s b = Some x" "udf_obj_id x = i" "p_udf_group x = Some q"
      "group_mem s q = Some k" "b \<in> set (udf_list k)" by (rule udf_index_nodeE [OF I])
    from at [OF x(1)] x show "\<exists>v q k. udf_mem ?s b = Some v \<and> udf_obj_id v = i \<and> p_udf_group v = Some q
        \<and> group_mem ?s q = Some k \<and> b \<in> set (udf_list k)" by auto
  qed (use udf_invD(4) [OF I] in \<open>simp add: udf_index_ok_def\<close>)
  moreover have "masks_apart ?s"
    unfolding masks_apart_def l
  proof (intro allI impI)
    fix b c y z k
    assume ls: "udf_listed s b" "udf_listed s c" and ys: "udf_mem ?s b = Some y" "udf_mem ?s c = Some z"
      and k: "hash_mask_list y = Some k" "hash_mask_list z = Some k"
    from ys(1) u v(3) k(1) have 1: "\<exists>y. udf_mem s b = Some y \<and> hash_mask_list y = Some k" by (auto split: if_splits)
    from ys(2) u v(3) k(2) have 2: "\<exists>z. udf_mem s c = Some z \<and> hash_mask_list z = Some k" by (auto split: if_splits)
    from 1 2 ls udf_invD(5) [OF I] show "b = c" unfolding masks_apart_def by metis
  qed
  ultimately show ?thesis using udf_invD(1) [OF I] by (simp add: udf_inv_def)
qed

lemma udf_inv_mask_change:
  assumes I: "udf_inv s" and m: "mask_mem s m = Some xs" "length ys = length xs"
  shows "udf_inv (s\<lparr>mask_mem := (mask_mem s)(m \<mapsto> ys)\<rparr>)" (is "udf_inv ?s")
proof -
  have k: "mask_ok (mask_mem s) g u \<Longrightarrow> mask_ok (mask_mem ?s) g u" for g u
    using m by (auto simp: mask_ok_def split: if_splits)
  have "groups_ok ?s"
    unfolding groups_ok_def
  proof (intro allI impI conjI ballI)
    fix p g b assume g: "group_mem ?s p = Some g" and b: "b \<in> set (udf_list g)"
    from g have g': "group_mem s p = Some g" by simp
    obtain x where "udf_mem s b = Some x" "p_udf_group x = Some p" "mask_ok (mask_mem s) g x"
      by (rule listed_nodeE [OF I g' b])
    with k show "\<exists>y. udf_mem ?s b = Some y \<and> p_udf_group y = Some p \<and> mask_ok (mask_mem ?s) g y" by auto
  qed (use udf_invD(2) [OF I] in \<open>simp_all add: groups_ok_def\<close>)
  then show ?thesis using I
    by (simp add: udf_inv_def group_index_ok_def udf_index_ok_def masks_apart_def udf_listed_def)
qed

section \<open>Calls of UDF groups\<close>

lemma udf_group_accept_frame:
  "udf_group_attribute_accept a g = (st, g') \<Longrightarrow>
     udf_list g' = udf_list g \<and> udf_count g' = udf_count g \<and> group_obj_id g' = group_obj_id g"
  by (cases a) (auto simp: dn_sai_udf_group_type_set_def dn_sai_udf_group_length_set_def split: if_splits)

lemma udf_group_attr_set_frame:
  "dn_sai_udf_group_attr_set E i as g = (st, g') \<Longrightarrow>
     udf_list g' = udf_list g \<and> udf_count g' = udf_count g \<and> group_obj_id g' = group_obj_id g"
proof (induction as arbitrary: i g)
  case (Cons a as)
  obtain st1 g1 where a: "udf_group_attribute_accept a g = (st1, g1)" by (metis surj_pair)
  from Cons.prems Cons.IH [of "Suc i" g1] udf_group_accept_frame [OF a] show ?case
    by (auto simp: a Let_def split: if_splits)
qed simp

lemma udf_group_create_effect:
  assumes run: "dn_sai_udf_group_create E attrs s w = (rc, out, s', w')" and L: "udf_laws E"
  obtains (failed) "rc \<noteq> SAI_STATUS_SUCCESS" "out = None" "s' = s"
  | (created) a g0 hw g ok where "rc = SAI_STATUS_SUCCESS" "out = Some (group_obj_id g)"
      "group_mem s a = None" "dn_sai_udf_group_attr_set E 0 attrs dn_sai_udf_group_init = (SAI_STATUS_SUCCESS, g0)"
      "g = g0\<lparr>group_obj_id := sai_uoid_create E SAI_OBJECT_TYPE_UDF_GROUP hw\<rparr>"
      "udf_list g = []" "udf_count g = 0"
      "ok \<Longrightarrow> rb_getexact (udf_group_tree s) (group_obj_id g) = None"
      "s' = s\<lparr>group_mem := (group_mem s)(a \<mapsto> g), udf_group_tree :=
         (if ok then rb_put (udf_group_tree s) (group_obj_id g) a else udf_group_tree s)\<rparr>"
      "dn_sai_udf_attr_list_validate E SAI_OBJECT_TYPE_UDF_GROUP (map group_attr_id attrs) SAI_OP_CREATE = SAI_STATUS_SUCCESS"
proof -
  obtain p w1 where c: "udf_calloc E (\<lambda>a. group_mem s a \<noteq> None) w = (p, w1)" by (metis surj_pair)
  obtain st g0 where at: "dn_sai_udf_group_attr_set E 0 attrs dn_sai_udf_group_init = (st, g0)" by (metis surj_pair)
  note f = udf_group_attr_set_frame [OF at]
  show thesis
  proof (cases "dn_sai_udf_attr_list_validate E SAI_OBJECT_TYPE_UDF_GROUP (map group_attr_id attrs) SAI_OP_CREATE
      = SAI_STATUS_SUCCESS \<and> p \<noteq> None")
    case False
    with run c show thesis by (intro failed) (auto simp: dn_sai_udf_group_create_def Let_def split: if_splits)
  next
    case True
    then obtain a where p: "p = Some a" by auto
    have fr: "group_mem s a = None" using udf_lawsD(1) [OF L c [unfolded p]] by simp
    then have idem: "(group_mem s)(a := None) = group_mem s" by (simp add: fun_upd_idem)
    note R = run [unfolded dn_sai_udf_group_create_def, simplified True c p Let_def, simplified]
    show thesis
    proof (cases "rc = SAI_STATUS_SUCCESS")
      case False
      then show thesis using R True idem
        by (intro failed) (auto simp: udf_group_create_body_def at Let_def group_write_def dn_sai_udf_lock_def
            dn_sai_udf_unlock_def dn_sai_udf_group_node_free_def split: prod.splits if_splits)
    next
      case t: True
      obtain hw g ok w2 w3 where e: "st = SAI_STATUS_SUCCESS"
        "g = g0\<lparr>group_obj_id := sai_uoid_create E SAI_OBJECT_TYPE_UDF_GROUP hw\<rparr>"
        "out = Some (group_obj_id g)"
        "std_rbtree_insert E (udf_group_tree s) (group_obj_id g) a w2 = (ok, udf_group_tree s', w3)"
        "s' = s\<lparr>group_mem := (group_mem s)(a \<mapsto> g), udf_group_tree := udf_group_tree s'\<rparr>"
        using R True t
        by (auto simp: udf_group_create_body_def at Let_def group_write_def dn_sai_udf_lock_def
            dn_sai_udf_unlock_def split: prod.splits if_splits)
      from insert_cases [OF e(4)] udf_lawsD(3) [OF L]
      have "udf_group_tree s' = (if ok then rb_put (udf_group_tree s) (group_obj_id g) a else udf_group_tree s)"
        "ok \<Longrightarrow> rb_getexact (udf_group_tree s) (group_obj_id g) = None" by auto
      with e f at fr True t show thesis
        by (intro created [of g a g0 hw ok]) (simp_all add: dn_sai_udf_group_init_def)
    qed
  qed
qed

lemma udf_group_create_inv:
  assumes "dn_sai_udf_group_create E attrs s w = (rc, out, s', w')" "udf_laws E" and I: "udf_inv s"
  shows "udf_inv s'"
  using assms(1,2)
proof (cases rule: udf_group_create_effect)
  case (created a g0 hw g ok)
  have 1: "udf_inv (s\<lparr>group_mem := (group_mem s)(a \<mapsto> g)\<rparr>)" using udf_inv_new_group [OF I created(3,6,7)] .
  let ?t = "if ok then rb_put (udf_group_tree s) (group_obj_id g) a else udf_group_tree s"
  have "udf_inv (s\<lparr>group_mem := (group_mem s)(a \<mapsto> g)\<rparr>\<lparr>udf_group_tree := ?t\<rparr>)"
  proof (rule udf_inv_group_tree [OF 1])
    show "?t \<noteq> None" using udf_invD(3) [OF I] by (cases ok) (simp_all add: group_index_ok_def del: not_None_eq)
    fix i b assume "rb_getexact ?t i = Some b"
    then consider "b = a" "group_obj_id g = i" | "rb_getexact (udf_group_tree s) i = Some b"
      by (metis rb_put_entryD)
    then show "\<exists>k. group_mem (s\<lparr>group_mem := (group_mem s)(a \<mapsto> g)\<rparr>) b = Some k \<and> group_obj_id k = i"
    proof cases
      case 2
      obtain k where k: "group_mem s b = Some k" "group_obj_id k = i" by (rule group_index_nodeE [OF I 2])
      with created(3) have "b \<noteq> a" by auto
      with k show ?thesis by simp
    qed simp
  qed
  with created(9) show ?thesis by simp
qed (simp add: I)

lemma udf_group_remove_effect:
  assumes run: "dn_sai_udf_group_remove E gid s w = (rc, s', w')" and I: "udf_inv s"
  obtains (bad_type) "rc = SAI_STATUS_INVALID_OBJECT_TYPE" "s' = s" "\<not> sai_is_obj_id E SAI_OBJECT_TYPE_UDF_GROUP gid"
  | (unknown) "rc = SAI_STATUS_SUCCESS" "s' = s" "rb_getexact (udf_group_tree s) gid = None"
  | (in_use) a g where "rc = SAI_STATUS_SUCCESS" "s' = s" "rb_getexact (udf_group_tree s) gid = Some a"
      "group_mem s a = Some g" "udf_count g \<noteq> 0"
  | (refused) a g st w1 w2 ok where "rc = SAI_STATUS_SUCCESS" "rb_getexact (udf_group_tree s) gid = Some a"
      "group_mem s a = Some g" "udf_count g = 0"
      "npu_udf_group_remove E (dn_sai_udf_lock s\<lparr>udf_group_tree := rb_remove (udf_group_tree s) gid\<rparr>) g w = (st, w1)"
      "st \<noteq> SAI_STATUS_SUCCESS" "rbtree_insert_ok E False w1 = (ok, w2)"
      "s' = (if ok then s else s\<lparr>udf_group_tree := rb_remove (udf_group_tree s) gid\<rparr>)"
  | (removed) a g w1 where "rc = SAI_STATUS_SUCCESS" "rb_getexact (udf_group_tree s) gid = Some a"
      "group_mem s a = Some g" "group_obj_id g = gid" "udf_count g = 0"
      "npu_udf_group_remove E (dn_sai_udf_lock s\<lparr>udf_group_tree := rb_remove (udf_group_tree s) gid\<rparr>) g w
         = (SAI_STATUS_SUCCESS, w1)"
      "s' = s\<lparr>udf_group_tree := rb_remove (udf_group_tree s) gid, group_mem := (group_mem s)(a := None)\<rparr>"
proof -
  consider "\<not> sai_is_obj_id E SAI_OBJECT_TYPE_UDF_GROUP gid"
    | "sai_is_obj_id E SAI_OBJECT_TYPE_UDF_GROUP gid" "rb_getexact (udf_group_tree s) gid = None"
    | a g where "sai_is_obj_id E SAI_OBJECT_TYPE_UDF_GROUP gid" "rb_getexact (udf_group_tree s) gid = Some a"
        "group_mem s a = Some g" "group_obj_id g = gid"
    using group_index_nodeE [OF I] by (metis option.exhaust)
  then show thesis
  proof cases
    case 1
    with run show thesis by (intro bad_type) (auto simp: dn_sai_udf_group_remove_def)
  next
    case 2
    with run show thesis
      by (intro unknown) (auto simp: dn_sai_udf_group_remove_def udf_group_remove_body_def
          dn_sai_udf_group_node_get_def)
  next
    case (3 a g)
    let ?t = "rb_remove (udf_group_tree s) gid"
    obtain st w1 where n: "npu_udf_group_remove E (dn_sai_udf_lock s\<lparr>udf_group_tree := ?t\<rparr>) g w = (st, w1)"
      by (metis surj_pair)
    obtain ok w2 where i: "rbtree_insert_ok E False w1 = (ok, w2)" by (metis surj_pair)
    have restored: "s\<lparr>udf_group_tree := rb_put ?t gid a\<rparr> = s" using rb_put_remove_same [OF 3(2)] by simp
    note R = run [unfolded dn_sai_udf_group_remove_def udf_group_remove_body_def
        dn_sai_udf_group_node_get_def, simplified 3 Let_def udf_lock_fields option.case]
    show thesis
    proof (cases "udf_count g = 0")
      case False
      with R 3 show thesis by (intro in_use [of a g]) auto
    next
      case c: True
      show thesis
      proof (cases "st = SAI_STATUS_SUCCESS")
        case True
        with R 3 c n show thesis
          by (intro removed [of a g w1]) (auto simp: dn_sai_udf_group_node_free_def dn_sai_udf_lock_def
              dn_sai_udf_unlock_def)
      next
        case False
        have "rc = SAI_STATUS_SUCCESS \<and> s' = s\<lparr>udf_group_tree := if ok then rb_put ?t gid a else ?t\<rparr>"
          using R 3 c n False i by (auto simp: std_rbtree_insert_def dn_sai_udf_lock_def dn_sai_udf_unlock_def)
        with restored have "rc = SAI_STATUS_SUCCESS" "s' = (if ok then s else s\<lparr>udf_group_tree := ?t\<rparr>)" by auto
        with 3 c n False i show thesis by (intro refused [of a g st w1 ok w2])
      qed
    qed
  qed
qed

text \<open>Counters are 32 bits wide: a group lists fewer than \<open>2 ^ 32\<close> UDFs.\<close>

definition udf_room :: "udf_state \<Rightarrow> bool" where
  "udf_room s \<longleftrightarrow> (\<forall>p g. group_mem s p = Some g \<longrightarrow> length (udf_list g) < 2 ^ 32)"

lemma udf_count_zero:
  assumes "udf_inv s" "udf_room s" "group_mem s p = Some g"
  shows "udf_count g = 0 \<longleftrightarrow> udf_list g = []"
proof -
  have "udf_count g = of_nat (length (udf_list g))" "length (udf_list g) < 2 ^ 32"
    using assms unfolding udf_inv_def groups_ok_def udf_room_def by blast+
  then show ?thesis by (auto simp: word_of_nat_eq_0_iff dest: nat_dvd_not_less)
qed

lemma udf_group_remove_inv:
  assumes "dn_sai_udf_group_remove E gid s w = (rc, s', w')" and I: "udf_inv s" and R: "udf_room s"
  shows "udf_inv s'"
  using assms(1,2)
proof (cases rule: udf_group_remove_effect)
  case (refused a g st w1 w2 ok)
  with I udf_inv_group_tree_remove [OF I] show ?thesis by simp
next
  case (removed a g w1)
  let ?t = "rb_remove (udf_group_tree s) gid"
  have "udf_list g = []" using udf_count_zero [OF I R removed(3)] removed(5) by simp
  have "udf_inv (s\<lparr>udf_group_tree := ?t\<rparr>\<lparr>group_mem := (group_mem (s\<lparr>udf_group_tree := ?t\<rparr>))(a := None)\<rparr>)"
  proof (rule udf_inv_drop_group [OF udf_inv_group_tree_remove [OF I]])
    show "group_mem (s\<lparr>udf_group_tree := ?t\<rparr>) a = Some g" "udf_list g = []"
      using removed \<open>udf_list g = []\<close> by simp_all
    show "rb_getexact (udf_group_tree (s\<lparr>udf_group_tree := ?t\<rparr>)) i \<noteq> Some a" for i
      using group_index_nodeE [OF I, of i a] removed(3,4) by auto
  qed
  with removed(7) show ?thesis by simp
qed (simp_all add: I)

end
