(* ===== verification/Udf_Objects.thy ===== *)
theory Udf_Objects
  imports Udf_Effects
begin

text \<open>
  The effect of the calls of UDF objects, and that they keep the invariant.
\<close>

section \<open>Parsing the attributes of a UDF\<close>

text \<open>The count of a list argument describes its buffer.\<close>

definition list_arg_ok :: "'a sai_list_t \<Rightarrow> bool" where
  "list_arg_ok l \<longleftrightarrow> (case sl_list l of None \<Rightarrow> True | Some xs \<Rightarrow> unat (sl_count l) \<le> length xs)"

fun udf_attr_ok :: "sai_udf_attr_t \<Rightarrow> bool" where
  "udf_attr_ok (SAI_UDF_ATTR_HASH_MASK l) = list_arg_ok l"
| "udf_attr_ok _ = True"

fun group_attr_ok :: "sai_udf_group_attr_t \<Rightarrow> bool" where
  "group_attr_ok (SAI_UDF_GROUP_ATTR_UDF_LIST l) = list_arg_ok l"
| "group_attr_ok _ = True"

definition group_known :: "udf_state \<Rightarrow> dn_sai_udf_t \<Rightarrow> bool" where
  "group_known s u \<longleftrightarrow> (\<exists>gid p. rb_getexact (udf_group_tree s) gid = Some p \<and> p_udf_group u = Some p)"

definition same_mask :: "dn_sai_udf_t \<Rightarrow> dn_sai_udf_t \<Rightarrow> bool" where
  "same_mask u v \<longleftrightarrow> udf_obj_id v = udf_obj_id u \<and> hash_mask_list v = hash_mask_list u
     \<and> hash_mask_count v = hash_mask_count u"

lemma udf_accept_effect:
  assumes "udf_attribute_accept E s i a (u, hm) = (st, u', hm')"
  shows "same_mask u u'"
    and "p_udf_group u' = p_udf_group u \<or> udf_attr_id a = GROUP_ID_ID \<and> group_known s u'"
    and "hm' = hm \<or> (\<exists>l. a = SAI_UDF_ATTR_HASH_MASK l \<and> hm' = Some (i, l))"
    and "st = SAI_STATUS_SUCCESS \<Longrightarrow> udf_attr_id a = GROUP_ID_ID \<Longrightarrow> group_known s u'"
  using assms
  by (cases a; auto simp: same_mask_def group_known_def dn_sai_udf_match_id_set_def dn_sai_udf_group_id_set_def
      dn_sai_udf_base_set_def dn_sai_udf_group_node_get_def split: if_splits option.splits)+

lemma udf_loop_effect:
  assumes "udf_attr_set_loop E s i as (u, hm) = (st, u', hm')"
  shows "same_mask u u'"
    and "p_udf_group u' = p_udf_group u \<or> GROUP_ID_ID \<in> udf_attr_id ` set as \<and> group_known s u'"
    and "hm' = hm \<or> (\<exists>j l. SAI_UDF_ATTR_HASH_MASK l \<in> set as \<and> hm' = Some (j, l))"
    and "udf_laws E \<Longrightarrow> st = SAI_STATUS_SUCCESS \<Longrightarrow> GROUP_ID_ID \<in> udf_attr_id ` set as \<Longrightarrow> group_known s u'"
proof -
  have "same_mask u u' \<and> (p_udf_group u' = p_udf_group u \<or> GROUP_ID_ID \<in> udf_attr_id ` set as \<and> group_known s u')
    \<and> (hm' = hm \<or> (\<exists>j l. SAI_UDF_ATTR_HASH_MASK l \<in> set as \<and> hm' = Some (j, l)))
    \<and> (udf_laws E \<longrightarrow> st = SAI_STATUS_SUCCESS \<longrightarrow> GROUP_ID_ID \<in> udf_attr_id ` set as \<longrightarrow> group_known s u')"
    using assms
  proof (induction as arbitrary: i u hm)
    case Nil
    then show ?case by (simp add: same_mask_def)
  next
    case (Cons a as)
    obtain st1 u1 hm1 where a: "udf_attribute_accept E s i a (u, hm) = (st1, u1, hm1)" by (metis prod_cases3)
    note e = udf_accept_effect [OF a]
    show ?case
    proof (cases "st1 = SAI_STATUS_SUCCESS")
      case False
      with Cons.prems a have r: "u' = u1" "hm' = hm1" "st = sai_get_indexed_ret_val E st1 i" by auto
      show ?thesis unfolding r using e(1-3) False udf_lawsD(2) by auto
    next
      case True
      with Cons.prems a have l: "udf_attr_set_loop E s (Suc i) as (u1, hm1) = (st, u', hm')" by simp
      have g: "group_known s u'" if "p_udf_group u' = p_udf_group u1" "group_known s u1"
        using that by (simp add: group_known_def)
      from Cons.IH [OF l] e True show ?thesis
        using g by (auto simp: same_mask_def)
    qed
  qed
  then show "same_mask u u'"
    and "p_udf_group u' = p_udf_group u \<or> GROUP_ID_ID \<in> udf_attr_id ` set as \<and> group_known s u'"
    and "hm' = hm \<or> (\<exists>j l. SAI_UDF_ATTR_HASH_MASK l \<in> set as \<and> hm' = Some (j, l))"
    and "udf_laws E \<Longrightarrow> st = SAI_STATUS_SUCCESS \<Longrightarrow> GROUP_ID_ID \<in> udf_attr_id ` set as \<Longrightarrow> group_known s u'"
    by auto
qed

text \<open>A list with a group and the create table: what \<open>validate_law\<close> gives for UDFs.\<close>

lemma udf_validate_create:
  assumes "dn_sai_udf_attr_list_validate E SAI_OBJECT_TYPE_UDF ids SAI_OP_CREATE = SAI_STATUS_SUCCESS"
    and L: "udf_laws E"
  shows "GROUP_ID_ID \<in> set ids"
proof -
  have "sai_attribute_validate E ids dn_sai_udf_attr SAI_OP_CREATE = SAI_STATUS_SUCCESS"
    using assms(1) by (simp add: dn_sai_udf_attr_list_validate_def dn_sai_udf_attr_table_get_def dn_sai_udf_attr_def)
  then have "\<forall>e \<in> set dn_sai_udf_attr. mandatory_on_create e \<longrightarrow> ae_id e \<in> set ids"
    using udf_lawsD(4) [OF L] unfolding validate_law_def by blast
  then show ?thesis by (simp add: dn_sai_udf_attr_def udf_entry_def)
qed

lemma udf_validate_set:
  assumes "dn_sai_udf_attr_list_validate E SAI_OBJECT_TYPE_UDF [i] SAI_OP_SET = SAI_STATUS_SUCCESS"
    and L: "udf_laws E"
  shows "i = BASE_ID \<or> i = OFFSET_ID \<or> i = HASH_MASK_ID"
proof -
  have "sai_attribute_validate E [i] dn_sai_udf_attr SAI_OP_SET = SAI_STATUS_SUCCESS"
    using assms(1) by (simp add: dn_sai_udf_attr_list_validate_def dn_sai_udf_attr_table_get_def dn_sai_udf_attr_def)
  then have "\<exists>e \<in> set dn_sai_udf_attr. ae_id e = i \<and> valid_for_set e"
    using udf_lawsD(4) [OF L] unfolding validate_law_def by force
  then show ?thesis by (auto simp: dn_sai_udf_attr_def udf_entry_def)
qed

section \<open>Masks\<close>

text \<open>A node without a mask gets a new array, or none; \<open>u\<close> is the node after the call.\<close>

definition new_mask :: "udf_state \<Rightarrow> dn_sai_udf_group_t \<Rightarrow> dn_sai_udf_t \<Rightarrow> (udf_addr \<Rightarrow> 8 word list option) \<Rightarrow> bool" where
  "new_mask s g u M \<longleftrightarrow> mask_ok M g u \<and> without_mask u M = mask_mem s
     \<and> (\<forall>m. hash_mask_list u = Some m \<longrightarrow> mask_mem s m = None)"

lemma new_mask_id [simp]: "new_mask s g (u\<lparr>udf_obj_id := x\<rparr>) M = new_mask s g u M"
proof -
  have "hash_mask_list (u\<lparr>udf_obj_id := x\<rparr>) = hash_mask_list u"
    "hash_mask_count (u\<lparr>udf_obj_id := x\<rparr>) = hash_mask_count u" by simp_all
  then show ?thesis by (simp only: new_mask_def mask_ok_def without_mask_def)
qed

lemma new_mask_mono: "new_mask s g u M \<Longrightarrow> mask_mem s m = Some xs \<Longrightarrow> M m = Some xs"
  unfolding new_mask_def without_mask_def
  by (cases "hash_mask_list u") (auto split: if_splits, metis fun_upd_apply option.distinct(1))

lemma new_mask_array:
  assumes "mask_mem s m = None" "length xs = unat (group_length g)" "udf_group_type g = SAI_UDF_GROUP_TYPE_HASH"
  shows "new_mask s g (u\<lparr>hash_mask_list := Some m, hash_mask_count := ucast (group_length g)\<rparr>) ((mask_mem s)(m \<mapsto> xs))"
  using assms by (simp add: new_mask_def mask_ok_def without_mask_def fun_upd_idem)

lemma new_mask_none:
  "udf_group_type g \<noteq> SAI_UDF_GROUP_TYPE_HASH \<Longrightarrow> hash_mask_list u = None \<Longrightarrow> hash_mask_count u = 0 \<Longrightarrow>
     new_mask s g u (mask_mem s)"
  by (simp add: new_mask_def mask_ok_def without_mask_def)

lemma unat_ucast_length: "unat (ucast (n :: 16 word) :: 32 word) = unat n"
proof -
  have "unat n < 2 ^ 16" using unsigned_less [of n] by simp
  then have "take_bit 32 (unat n) = unat n" by (intro take_bit_nat_eq_self) simp
  then show ?thesis by (simp add: unsigned_ucast_eq take_bit_word_eq_self)
qed

lemma udf_default_fill_effect:
  assumes run: "dn_sai_udf_default_hash_mask_fill E u s w = (st, u', s', w')" and L: "udf_laws E"
    and p: "p_udf_group u = Some p" "group_mem s p = Some g"
    and n: "hash_mask_list u = None" "hash_mask_count u = 0"
  obtains (failed) "st \<noteq> SAI_STATUS_SUCCESS" "s' = s" "hash_mask_list u' = None"
  | (filled) M where "st = SAI_STATUS_SUCCESS" "s' = s\<lparr>mask_mem := M\<rparr>" "new_mask s g u' M"
      "p_udf_group u' = Some p" "udf_obj_id u' = udf_obj_id u"
proof (cases "udf_group_type g = SAI_UDF_GROUP_TYPE_HASH")
  case False
  with run p n show thesis
    by (intro filled [of "mask_mem s"]) (auto simp: dn_sai_udf_default_hash_mask_fill_def new_mask_none)
next
  case True
  obtain q w1 where c: "udf_calloc E (\<lambda>m. mask_mem s m \<noteq> None) w = (q, w1)" by (metis surj_pair)
  show thesis
  proof (cases q)
    case None
    with run p n c True show thesis
      by (intro failed) (auto simp: dn_sai_udf_default_hash_mask_fill_def dn_sai_udf_hash_mask_alloc_def)
  next
    case (Some m)
    have "mask_mem s m = None" using udf_lawsD(1) [OF L c [unfolded Some]] by simp
    moreover have "st = SAI_STATUS_SUCCESS" "u' = u\<lparr>hash_mask_list := Some m, hash_mask_count := ucast (group_length g)\<rparr>"
      "s' = s\<lparr>mask_mem := (mask_mem s)(m \<mapsto> replicate (unat (group_length g)) 0xFF)\<rparr>"
      using run p c True Some
      by (auto simp: dn_sai_udf_default_hash_mask_fill_def dn_sai_udf_hash_mask_alloc_def Let_def)
    ultimately show thesis using True p
      by (intro filled [of "(mask_mem s)(m \<mapsto> replicate (unat (group_length g)) 0xFF)"]) (auto intro: new_mask_array)
  qed
qed

lemma udf_mask_set_effect:
  assumes run: "dn_sai_udf_hash_mask_set E u l s w = (st, u', s', w')" and L: "udf_laws E"
    and p: "p_udf_group u = Some p" "group_mem s p = Some g"
    and n: "hash_mask_list u = None" and ok: "list_arg_ok l"
  obtains (failed) "st \<noteq> SAI_STATUS_SUCCESS" "s' = s" "hash_mask_list u' = None"
  | (filled) M where "st = SAI_STATUS_SUCCESS" "s' = s\<lparr>mask_mem := M\<rparr>" "new_mask s g u' M"
      "p_udf_group u' = Some p" "udf_obj_id u' = udf_obj_id u"
proof (cases "udf_group_type g = SAI_UDF_GROUP_TYPE_HASH \<and> sl_count l \<noteq> 0 \<and> ucast (group_length g) = sl_count l
    \<and> sl_list l \<noteq> None")
  case False
  with run p n show thesis
    by (intro failed) (auto simp: dn_sai_udf_hash_mask_set_def split: if_splits option.splits)
next
  case True
  then obtain xs where xs: "sl_list l = Some xs" by auto
  obtain q w1 where c: "udf_calloc E (\<lambda>m. mask_mem s m \<noteq> None) w = (q, w1)" by (metis surj_pair)
  show thesis
  proof (cases q)
    case None
    with run p n c True xs show thesis
      by (intro failed) (auto simp: dn_sai_udf_hash_mask_set_def dn_sai_udf_hash_mask_alloc_def split: if_splits)
  next
    case (Some m)
    let ?n = "unat (group_length g)" let ?xs = "take (unat (group_length g)) xs"
    have fr: "mask_mem s m = None" using udf_lawsD(1) [OF L c [unfolded Some]] by simp
    have n': "unat (sl_count l) = ?n" using True unat_ucast_length by metis
    with ok xs have len: "?n \<le> length xs" by (simp add: list_arg_ok_def)
    have cnt: "sl_count l = ucast (group_length g)" using True by simp
    have "sl_count l \<noteq> 0" using True by simp
    then have "(st, u', s', w') = (SAI_STATUS_SUCCESS,
        u\<lparr>hash_mask_list := Some m, hash_mask_count := ucast (group_length g)\<rparr>,
        s\<lparr>mask_mem := (mask_mem s)(m \<mapsto> ?xs)\<rparr>, w1)"
      unfolding run [symmetric] dn_sai_udf_hash_mask_set_def dn_sai_udf_hash_mask_alloc_def cnt
      using p c True len by (simp add: n xs Some mask_copy_def unat_ucast_length n')
    then have "st = SAI_STATUS_SUCCESS" "u' = u\<lparr>hash_mask_list := Some m, hash_mask_count := ucast (group_length g)\<rparr>"
      "s' = s\<lparr>mask_mem := (mask_mem s)(m \<mapsto> ?xs)\<rparr>" by simp_all
    moreover have "new_mask s g (u\<lparr>hash_mask_list := Some m, hash_mask_count := ucast (group_length g)\<rparr>)
        ((mask_mem s)(m \<mapsto> ?xs))" using fr True len by (intro new_mask_array) simp_all
    ultimately show thesis using p by (intro filled [of "(mask_mem s)(m \<mapsto> ?xs)"]) simp_all
  qed
qed

text \<open>All attributes of a creation: nothing happens to the memory unless all are accepted.\<close>

lemma udf_attr_set_create_effect:
  assumes run: "dn_sai_udf_attr_set E dn_sai_udf_node_init attrs SAI_OP_CREATE s w = (st, u, s', w')"
    and L: "udf_laws E" and I: "udf_inv s" and grp: "GROUP_ID_ID \<in> udf_attr_id ` set attrs"
    and ok: "\<forall>a \<in> set attrs. udf_attr_ok a"
  obtains (failed) "st \<noteq> SAI_STATUS_SUCCESS" "s' = s" "hash_mask_list u = None"
  | (filled) p g M where "st = SAI_STATUS_SUCCESS" "s' = s\<lparr>mask_mem := M\<rparr>" "new_mask s g u M"
      "p_udf_group u = Some p" "group_mem s p = Some g"
proof -
  obtain st1 u1 hm where l: "udf_attr_set_loop E s 0 attrs (dn_sai_udf_node_init, None) = (st1, u1, hm)"
    by (metis prod_cases3)
  note e = udf_loop_effect [OF l]
  have n: "hash_mask_list u1 = None" "hash_mask_count u1 = 0"
    using e(1) by (simp_all add: same_mask_def dn_sai_udf_node_init_def udf_node_zero_def)
  show thesis
  proof (cases "st1 = SAI_STATUS_SUCCESS")
    case False
    with run l n show thesis by (intro failed) (auto simp: dn_sai_udf_attr_set_def)
  next
    case True
    obtain gid p where "rb_getexact (udf_group_tree s) gid = Some p" and p: "p_udf_group u1 = Some p"
      using e(4) [OF L True grp] unfolding group_known_def by blast
    then obtain g where g: "group_mem s p = Some g" using group_index_nodeE [OF I] by metis
    show thesis
    proof (cases hm)
      case None
      with run l True have f: "dn_sai_udf_default_hash_mask_fill E u1 s w = (st, u, s', w')"
        by (simp add: dn_sai_udf_attr_set_def)
      show thesis using f L p g n by (cases rule: udf_default_fill_effect) (erule (2) failed, rule filled [OF _ _ _ _ g])
    next
      case (Some il)
      then obtain i hl where hm: "hm = Some (i, hl)" by (cases il) auto
      with e(3) have "SAI_UDF_ATTR_HASH_MASK hl \<in> set attrs" by auto
      then have hl: "list_arg_ok hl" using ok by fastforce
      obtain st2 u2 s2 w2 where f: "dn_sai_udf_hash_mask_set E u1 hl s w = (st2, u2, s2, w2)" by (metis prod_cases4)
      with run l True hm have r: "st = sai_get_indexed_ret_val E st2 i" "u = u2" "s' = s2"
        by (auto simp: dn_sai_udf_attr_set_def)
      show thesis using f L p g n(1) hl
      proof (cases rule: udf_mask_set_effect)
        case failed
        with r that(1) show thesis using udf_lawsD(2) [OF L] by simp
      next
        case (filled M)
        with r that(2) g show thesis using udf_lawsD(2) [OF L] by simp
      qed
    qed
  qed
qed

section \<open>Creation\<close>

definition udf_joined :: "udf_addr \<Rightarrow> dn_sai_udf_t \<Rightarrow> udf_addr \<Rightarrow> dn_sai_udf_group_t
     \<Rightarrow> (udf_addr \<Rightarrow> 8 word list option) \<Rightarrow> bool \<Rightarrow> udf_state \<Rightarrow> udf_state" where
  \<comment> \<open>the state with a new node, in the tree and in the list of its group if the tree accepts it\<close>
  "udf_joined a u p g M ok s =
    (let s = s\<lparr>udf_mem := (udf_mem s)(a \<mapsto> u), mask_mem := M\<rparr> in
     if ok then s\<lparr>group_mem := (group_mem s)(p \<mapsto> group_join a g),
                  udf_obj_tree := rb_put (udf_obj_tree s) (udf_obj_id u) a\<rparr> else s)"

lemma udf_create_effect:
  assumes run: "dn_sai_udf_create E attrs s w = (rc, out, s', w')" and L: "udf_laws E" and I: "udf_inv s"
    and ok: "\<forall>a \<in> set attrs. udf_attr_ok a"
  obtains (failed) "rc \<noteq> SAI_STATUS_SUCCESS" "out = None" "s' = s"
  | (created) a u p g M b where "rc = SAI_STATUS_SUCCESS" "out = Some (udf_obj_id u)" "udf_mem s a = None"
      "p_udf_group u = Some p" "group_mem s p = Some g" "new_mask s g u M"
      "b \<Longrightarrow> rb_getexact (udf_obj_tree s) (udf_obj_id u) = None" "s' = udf_joined a u p g M b s"
proof -
  let ?V = "dn_sai_udf_attr_list_validate E SAI_OBJECT_TYPE_UDF (map udf_attr_id attrs) SAI_OP_CREATE"
  obtain q w1 where c: "udf_calloc E (\<lambda>a. udf_mem s a \<noteq> None) w = (q, w1)" by (metis surj_pair)
  show thesis
  proof (cases "?V = SAI_STATUS_SUCCESS \<and> q \<noteq> None")
    case False
    with run c show thesis by (intro failed) (auto simp: dn_sai_udf_create_def Let_def split: if_splits)
  next
    case True
    then obtain a where q: "q = Some a" by auto
    have fr: "udf_mem s a = None" using udf_lawsD(1) [OF L c [unfolded q]] by simp
    then have idem: "(udf_mem s)(a := None) = udf_mem s" by (simp add: fun_upd_idem)
    have grp: "GROUP_ID_ID \<in> udf_attr_id ` set attrs" using udf_validate_create [OF _ L] True by fastforce
    let ?s = "dn_sai_udf_lock (udf_write a dn_sai_udf_node_init s)"
    have I': "udf_inv ?s" using udf_inv_unlisted [OF I fr] by (simp add: udf_write_def)
    obtain st u s1 w2 where at: "dn_sai_udf_attr_set E dn_sai_udf_node_init attrs SAI_OP_CREATE ?s w1 = (st, u, s1, w2)"
      by (metis prod_cases4)
    note R = run [unfolded dn_sai_udf_create_def, simplified True c q Let_def, simplified]
    show thesis using at L I' grp ok
    proof (cases rule: udf_attr_set_create_effect)
      case f: failed
      have *: "udf_create_body E a attrs ?s w1 = (st, 0, udf_write a u ?s, w2)"
        using f(1,2) by (simp add: udf_create_body_def at)
      have "dn_sai_udf_node_free a (dn_sai_udf_unlock (udf_write a u ?s)) = s"
        using f(3) idem by (simp add: dn_sai_udf_node_free_def mask_free_def udf_write_def dn_sai_udf_lock_def
            dn_sai_udf_unlock_def)
      with R f(1) * show thesis by (intro failed) (auto simp: udf_write_def)
    next
      case f: (filled p g M)
      have mm: "mask_mem ?s = mask_mem s" "group_mem ?s = group_mem s" by (simp_all add: udf_write_def)
      have nm: "new_mask s g u M" using f(3) mm by (simp add: new_mask_def)
      have free: "mask_free (hash_mask_list u) (z\<lparr>mask_mem := M\<rparr>) = z\<lparr>mask_mem := mask_mem s\<rparr>" for z
        using nm by (cases "hash_mask_list u")
          (auto simp: mask_free_def new_mask_def mask_ok_def without_mask_def split: if_splits)
      let ?s2 = "udf_write a u s1"
      obtain st2 hw w3 where n: "npu_udf_create E ?s2 u w2 = (st2, hw, w3)" by (metis prod_cases3)
      let ?u = "u\<lparr>udf_obj_id := sai_uoid_create E SAI_OBJECT_TYPE_UDF hw\<rparr>"
      obtain b t w4 where i: "std_rbtree_insert E (udf_obj_tree s) (udf_obj_id ?u) a w3 = (b, t, w4)" by (metis prod_cases3)
      show thesis
      proof (cases "st2 = SAI_STATUS_SUCCESS")
        case False
        have *: "udf_create_body E a attrs ?s w1 = (st2, hw, ?s2, w3)"
          using f(1) n False by (simp add: udf_create_body_def at)
        have s1: "?s2 = (dn_sai_udf_lock (udf_write a u s))\<lparr>mask_mem := M\<rparr>"
          using f(2) by (simp add: udf_write_def dn_sai_udf_lock_def)
        have m2: "udf_mem (dn_sai_udf_unlock ?s2) a = Some u" by (simp add: udf_write_def)
        have "dn_sai_udf_node_free a (dn_sai_udf_unlock ?s2) = s"
          using free [of "udf_write a u s"] idem m2 s1
          by (simp add: dn_sai_udf_node_free_def udf_write_def dn_sai_udf_lock_def dn_sai_udf_unlock_def Let_def)
        with R False * m2 show thesis by (intro failed) auto
      next
        case t: True
        let ?z = "s\<lparr>udf_mem := (udf_mem s)(a \<mapsto> ?u), mask_mem := M\<rparr>"
        have tr: "udf_obj_tree s1 = udf_obj_tree s" using f(2) by (simp add: udf_write_def)
        have s3: "udf_write a ?u ?s2 = dn_sai_udf_lock ?z"
          using f(2) by (simp add: udf_write_def dn_sai_udf_lock_def)
        let ?y = "\<lambda>t. s\<lparr>udf_mem := (udf_mem s)(a \<mapsto> ?u), mask_mem := M,
            group_mem := (group_mem s)(p \<mapsto> group_join a g), udf_obj_tree := t\<rparr>"
        have up: "dn_sai_udf_group_udf_list_update a ?u True (dn_sai_udf_lock ?z\<lparr>udf_obj_tree := t\<rparr>)
            = dn_sai_udf_lock (?y t)"
          using f(4,5) mm(2)
          by (simp add: dn_sai_udf_group_udf_list_update_def group_write_def group_join_def dn_sai_udf_lock_def)
        have *: "udf_create_body E a attrs ?s w1 = (SAI_STATUS_SUCCESS, hw,
            if b then dn_sai_udf_lock (?y t) else dn_sai_udf_lock ?z\<lparr>udf_obj_tree := t\<rparr>, w4)"
          using f(1) n t i s3 by (simp add: udf_create_body_def at Let_def up)
        note ic = insert_cases [OF i]
        have "new_mask s g ?u M" using nm by simp
        moreover have "s' = udf_joined a ?u p g M b s \<and> rc = SAI_STATUS_SUCCESS \<and> out = Some (udf_obj_id ?u)"
          using R * ic(1) by (cases b) (auto simp: Let_def udf_joined_def dn_sai_udf_lock_def dn_sai_udf_unlock_def)
        ultimately show thesis using f(4,5) mm(2) fr ic(2) [OF udf_lawsD(3) [OF L]]
          by (intro created [of ?u a p g M b]) simp_all
      qed
    qed
  qed
qed

lemma udf_joined_inv:
  assumes I: "udf_inv s" and fr: "udf_mem s a = None" and u: "p_udf_group u = Some p"
    and g: "group_mem s p = Some g" and m: "new_mask s g u M"
  shows "udf_inv (udf_joined a u p g M ok s)"
proof -
  let ?z = "s\<lparr>udf_mem := (udf_mem s)(a \<mapsto> u), mask_mem := M\<rparr>"
  have z: "udf_inv ?z"
    using udf_inv_fresh_mask [OF udf_inv_unlisted [OF I fr, of u], where M = M] new_mask_mono [OF m] by simp
  have un: "\<not> udf_listed s a"
  proof
    assume "udf_listed s a"
    then obtain q k where "group_mem s q = Some k" "a \<in> set (udf_list k)" by (auto simp: udf_listed_def)
    from listed_nodeE [OF I this] fr show False by auto
  qed
  have lz: "udf_listed ?z = udf_listed s" by (simp add: udf_listed_def fun_eq_iff)
  let ?y = "?z\<lparr>group_mem := (group_mem ?z)(p \<mapsto> group_join a g)\<rparr>"
  have y: "udf_inv ?y"
  proof (rule udf_inv_list_node [OF z])
    show "hash_mask_list u \<noteq> Some n" if lb: "udf_listed ?z b" and v: "udf_mem ?z b = Some v" "hash_mask_list v = Some n" for b v n
    proof
      assume "hash_mask_list u = Some n"
      with m have none: "mask_mem s n = None" by (simp add: new_mask_def)
      have lb': "udf_listed s b" using lb lz by simp
      then have "b \<noteq> a" using un by blast
      with v have v': "udf_mem s b = Some v" by simp
      from lb' obtain q k where "group_mem s q = Some k" "b \<in> set (udf_list k)" by (auto simp: udf_listed_def)
      from listed_nodeE [OF I this] v' have "mask_ok (mask_mem s) k v" by auto
      with v(2) none show False by (auto simp: mask_ok_def split: if_splits)
    qed
  qed (use u g m un lz in \<open>simp_all add: new_mask_def\<close>)
  show ?thesis
  proof (cases ok)
    case True
    let ?t = "rb_put (udf_obj_tree s) (udf_obj_id u) a"
    have "udf_inv (?y\<lparr>udf_obj_tree := ?t\<rparr>)"
    proof (rule udf_inv_obj_tree [OF y])
      show "?t \<noteq> None" using udf_invD(4) [OF I] by (simp add: udf_index_ok_def del: not_None_eq)
      fix i b assume i: "rb_getexact ?t i = Some b"
      show "\<exists>v q k. udf_mem ?y b = Some v \<and> udf_obj_id v = i \<and> p_udf_group v = Some q
          \<and> group_mem ?y q = Some k \<and> b \<in> set (udf_list k)"
      proof (cases "b = a \<and> udf_obj_id u = i")
        case True
        then show ?thesis using u g by auto
      next
        case False
        with i have "rb_getexact (udf_obj_tree ?y) i = Some b"
          using rb_put_entryD [of True] by (simp split: if_splits)
        then show ?thesis by (rule udf_index_nodeE [OF y]) blast
      qed
    qed
    with True show ?thesis by (simp add: udf_joined_def)
  qed (use z in \<open>simp add: udf_joined_def\<close>)
qed

lemma udf_create_inv:
  assumes run: "dn_sai_udf_create E attrs s w = (rc, out, s', w')" and L: "udf_laws E" and I: "udf_inv s"
    and ok: "\<forall>a \<in> set attrs. udf_attr_ok a"
  shows "udf_inv s'"
  using run L I ok
proof (cases rule: udf_create_effect)
  case (created a u p g M b)
  with udf_joined_inv [OF I created(3-6)] show ?thesis by simp
qed (simp add: I)

end
