(* ===== verification/Udf_Reach.thy ===== *)
theory Udf_Reach
  imports Udf_Objects
begin

text \<open>
  Removal, set and get calls of UDF objects, and the UDF module as a state machine.
\<close>

section \<open>Removal\<close>

lemma udf_remove_effect:
  assumes run: "dn_sai_udf_remove E i s w = (rc, s', w')" and I: "udf_inv s"
  obtains (bad_type) "rc = SAI_STATUS_INVALID_OBJECT_TYPE" "s' = s" "\<not> sai_is_obj_id E SAI_OBJECT_TYPE_UDF i"
  | (unknown) "rc = SAI_STATUS_INVALID_OBJECT_ID" "s' = s" "rb_getexact (udf_obj_tree s) i = None"
  | (refused) a u w1 w2 ok where "rc \<noteq> SAI_STATUS_SUCCESS" "rb_getexact (udf_obj_tree s) i = Some a"
      "udf_mem s a = Some u"
      "npu_udf_remove E (dn_sai_udf_lock s\<lparr>udf_obj_tree := rb_remove (udf_obj_tree s) i\<rparr>) u w = (rc, w1)"
      "rbtree_insert_ok E False w1 = (ok, w2)"
      "s' = (if ok then s else s\<lparr>udf_obj_tree := rb_remove (udf_obj_tree s) i\<rparr>)"
  | (removed) a u p g w1 where "rc = SAI_STATUS_SUCCESS" "rb_getexact (udf_obj_tree s) i = Some a"
      "udf_mem s a = Some u" "p_udf_group u = Some p" "group_mem s p = Some g" "a \<in> set (udf_list g)"
      "npu_udf_remove E (dn_sai_udf_lock s\<lparr>udf_obj_tree := rb_remove (udf_obj_tree s) i\<rparr>) u w
         = (SAI_STATUS_SUCCESS, w1)"
      "s' = udf_dropped a u p g (s\<lparr>udf_obj_tree := rb_remove (udf_obj_tree s) i\<rparr>)"
proof -
  consider "\<not> sai_is_obj_id E SAI_OBJECT_TYPE_UDF i"
    | "sai_is_obj_id E SAI_OBJECT_TYPE_UDF i" "rb_getexact (udf_obj_tree s) i = None"
    | a u p g where "sai_is_obj_id E SAI_OBJECT_TYPE_UDF i" "rb_getexact (udf_obj_tree s) i = Some a"
        "udf_mem s a = Some u" "udf_obj_id u = i" "p_udf_group u = Some p" "group_mem s p = Some g"
        "a \<in> set (udf_list g)" "mask_ok (mask_mem s) g u"
    using udf_index_nodeE [OF I] by (metis option.exhaust)
  then show thesis
  proof cases
    case 1
    with run show thesis by (intro bad_type) (auto simp: dn_sai_udf_remove_def)
  next
    case 2
    with run show thesis
      by (intro unknown) (auto simp: dn_sai_udf_remove_def udf_remove_body_def dn_sai_udf_node_get_def)
  next
    case (3 a u p g)
    let ?t = "rb_remove (udf_obj_tree s) i"
    let ?z = "dn_sai_udf_lock s\<lparr>udf_obj_tree := ?t\<rparr>"
    obtain st w1 where n: "npu_udf_remove E ?z u w = (st, w1)" by (metis surj_pair)
    obtain ok w2 where k: "rbtree_insert_ok E False w1 = (ok, w2)" by (metis surj_pair)
    have restored: "s\<lparr>udf_obj_tree := rb_put ?t i a\<rparr> = s" using rb_put_remove_same [OF 3(2)] by simp
    note R = run [unfolded dn_sai_udf_remove_def udf_remove_body_def
        dn_sai_udf_node_get_def, simplified 3 Let_def udf_lock_fields option.case]
    show thesis
    proof (cases "st = SAI_STATUS_SUCCESS")
      case True
      have free: "mask_free (hash_mask_list u) (x\<lparr>mask_mem := mask_mem s\<rparr>)
          = x\<lparr>mask_mem := without_mask u (mask_mem s)\<rparr>" for x
        using 3(8) by (cases "hash_mask_list u") (auto simp: mask_free_def without_mask_def mask_ok_def split: if_splits)
      let ?y = "dn_sai_udf_group_udf_list_update a u False ?z"
      have y: "?y = ?z\<lparr>group_mem := (group_mem s)(p \<mapsto> group_leave a g)\<rparr>"
        using 3 by (simp add: dn_sai_udf_group_udf_list_update_def group_write_def group_leave_def)
      have "dn_sai_udf_unlock (dn_sai_udf_node_free a ?y)
          = udf_dropped a u p g (s\<lparr>udf_obj_tree := ?t\<rparr>)"
        using 3(3) free [of ?y] unfolding y
        by (simp add: dn_sai_udf_node_free_def Let_def udf_dropped_def dn_sai_udf_lock_def dn_sai_udf_unlock_def)
      with R 3 n True show thesis by (intro removed [of a u p g w1]) auto
    next
      case False
      have "rc = st \<and> s' = s\<lparr>udf_obj_tree := if ok then rb_put ?t i a else ?t\<rparr>"
        using R 3 n False k by (auto simp: std_rbtree_insert_def dn_sai_udf_lock_def dn_sai_udf_unlock_def)
      with restored have "rc = st" "s' = (if ok then s else s\<lparr>udf_obj_tree := ?t\<rparr>)" by auto
      with 3 n False k show thesis by (intro refused [of a u w1 ok w2]) auto
    qed
  qed
qed

lemma udf_remove_inv:
  assumes "dn_sai_udf_remove E i s w = (rc, s', w')" and I: "udf_inv s"
  shows "udf_inv s'"
  using assms
proof (cases rule: udf_remove_effect)
  case (refused a u w1 w2 ok)
  with I udf_inv_obj_tree_remove [OF I] show ?thesis by simp
next
  case (removed a u p g w1)
  let ?s = "s\<lparr>udf_obj_tree := rb_remove (udf_obj_tree s) i\<rparr>"
  have "udf_inv (udf_dropped a u p g ?s)"
  proof (rule udf_inv_dropped [OF udf_inv_obj_tree_remove [OF I]])
    have "udf_obj_id u = i" using udf_index_nodeE [OF I removed(2)] removed(3) by auto
    then show "rb_getexact (udf_obj_tree ?s) j \<noteq> Some a" for j
      using udf_index_nodeE [OF I, of j a] removed(3) by auto
  qed (use removed in simp_all)
  with removed(8) show ?thesis by simp
qed (simp_all add: I)

section \<open>Setting an attribute\<close>

lemma udf_set_effect:
  assumes run: "dn_sai_udf_set_attribute E i attr s w = (rc, s', w')" and L: "udf_laws E" and I: "udf_inv s"
    and ok: "udf_attr_ok attr"
  obtains (failed) "rc \<noteq> SAI_STATUS_SUCCESS" "s' = s"
  | (changed) a u u' hm where "rc = SAI_STATUS_SUCCESS" "rb_getexact (udf_obj_tree s) i = Some a" "udf_mem s a = Some u"
      "\<And>l. attr \<noteq> SAI_UDF_ATTR_HASH_MASK l" "udf_attribute_accept E s 0 attr (u, None) = (SAI_STATUS_SUCCESS, u', hm)"
      "p_udf_group u' = p_udf_group u" "same_mask u u'" "s' = s\<lparr>udf_mem := (udf_mem s)(a \<mapsto> u')\<rparr>"
  | (mask) a u m xs l ys w1 where "attr = SAI_UDF_ATTR_HASH_MASK l" "sl_list l = Some ys"
      "rb_getexact (udf_obj_tree s) i = Some a" "udf_mem s a = Some u" "hash_mask_list u = Some m"
      "mask_mem s m = Some xs" "length xs = unat (sl_count l)" "unat (sl_count l) \<le> length ys"
      "sl_count l = hash_mask_count u" "s' = s\<lparr>mask_mem := (mask_mem s)(m \<mapsto> take (unat (sl_count l)) ys)\<rparr>"
      "npu_udf_attribute_set E (dn_sai_udf_lock s') u attr w1 = (rc, w')"
proof -
  consider "\<not> (sai_is_obj_id E SAI_OBJECT_TYPE_UDF i
      \<and> dn_sai_udf_attr_list_validate E SAI_OBJECT_TYPE_UDF [udf_attr_id attr] SAI_OP_SET = SAI_STATUS_SUCCESS)"
    | "sai_is_obj_id E SAI_OBJECT_TYPE_UDF i"
      "dn_sai_udf_attr_list_validate E SAI_OBJECT_TYPE_UDF [udf_attr_id attr] SAI_OP_SET = SAI_STATUS_SUCCESS"
      "rb_getexact (udf_obj_tree s) i = None"
    | a u p g where "sai_is_obj_id E SAI_OBJECT_TYPE_UDF i"
      "dn_sai_udf_attr_list_validate E SAI_OBJECT_TYPE_UDF [udf_attr_id attr] SAI_OP_SET = SAI_STATUS_SUCCESS"
      "rb_getexact (udf_obj_tree s) i = Some a"
      "udf_mem s a = Some u" "p_udf_group u = Some p" "group_mem s p = Some g" "mask_ok (mask_mem s) g u"
    using udf_index_nodeE [OF I] by (metis option.exhaust)
  then show thesis
  proof cases
    case 1
    with run show thesis by (intro failed) (auto simp: dn_sai_udf_set_attribute_def Let_def split: if_splits)
  next
    case 2
    with run show thesis
      by (intro failed) (auto simp: dn_sai_udf_set_attribute_def udf_set_attribute_body_def
          dn_sai_udf_node_get_def Let_def)
  next
    case (3 a u p g)
    have id: "udf_attr_id attr = BASE_ID \<or> udf_attr_id attr = OFFSET_ID \<or> udf_attr_id attr = HASH_MASK_ID"
      by (rule udf_validate_set [OF 3(2) L])
    let ?s = "dn_sai_udf_lock s"
    obtain st u' s1 w1 where at: "dn_sai_udf_attr_set E u [attr] SAI_OP_SET ?s w = (st, u', s1, w1)" by (metis prod_cases4)
    have R: "(rc, s', w') = (if st \<noteq> SAI_STATUS_SUCCESS then (st, dn_sai_udf_unlock s1, w1)
        else let (status, w) = npu_udf_attribute_set E s1 u' attr w1 in
          if status \<noteq> SAI_STATUS_SUCCESS then (status, dn_sai_udf_unlock s1, w)
          else (status, dn_sai_udf_unlock (udf_write a u' s1), w))"
      using run 3 at by (simp add: dn_sai_udf_set_attribute_def udf_set_attribute_body_def
          dn_sai_udf_node_get_def Let_def split: prod.splits if_splits)
    show thesis
    proof (cases "\<exists>l. attr = SAI_UDF_ATTR_HASH_MASK l")
      case False
      obtain st1 u1 hm where acc: "udf_attribute_accept E s 0 attr (u, None) = (st1, u1, hm)" by (metis prod_cases3)
      have acc': "udf_attribute_accept E ?s 0 attr (u, None) = (st1, u1, hm)"
        using acc id False by (cases attr) auto
      have n: "hm = None" "same_mask u u1" "p_udf_group u1 = p_udf_group u"
        using udf_accept_effect [OF acc] False id by auto
      have e: "s1 = ?s" "st1 = SAI_STATUS_SUCCESS \<longleftrightarrow> st = SAI_STATUS_SUCCESS" "st = SAI_STATUS_SUCCESS \<Longrightarrow> u' = u1"
        using at acc' n udf_lawsD(2) [OF L] by (auto simp: dn_sai_udf_attr_set_def split: if_splits)
      show thesis
      proof (cases "rc = SAI_STATUS_SUCCESS")
        case True
        then have "st = SAI_STATUS_SUCCESS" "s' = dn_sai_udf_unlock (udf_write a u' ?s)"
          using R e by (auto split: if_splits prod.splits)
        with e n True 3 False acc show thesis
          by (intro changed [of a u u1 hm]) (auto simp: udf_write_def dn_sai_udf_lock_def dn_sai_udf_unlock_def)
      next
        case f: False
        with R e show thesis by (intro failed) (auto split: if_splits prod.splits)
      qed
    next
      case True
      then obtain l where l: "attr = SAI_UDF_ATTR_HASH_MASK l" by blast
      obtain st2 u2 s2 w2 where h: "dn_sai_udf_hash_mask_set E u l ?s w = (st2, u2, s2, w2)" by (metis prod_cases4)
      have e: "st = sai_get_indexed_ret_val E st2 0" "u' = u2" "s1 = s2" "w1 = w2"
        using at h by (auto simp: dn_sai_udf_attr_set_def l)
      show thesis
      proof (cases "udf_group_type g = SAI_UDF_GROUP_TYPE_HASH \<and> sl_count l \<noteq> 0
          \<and> ucast (group_length g) = sl_count l \<and> sl_list l \<noteq> None")
        case False
        have "st2 \<noteq> SAI_STATUS_SUCCESS \<and> s2 = ?s"
          using h 3 False by (auto simp: dn_sai_udf_hash_mask_set_def split: if_splits option.splits)
        with R e udf_lawsD(2) [OF L] show thesis by (intro failed) auto
      next
        case t: True
        then obtain ys where ys: "sl_list l = Some ys" by auto
        from 3(7) t obtain m xs where m: "hash_mask_list u = Some m" "mask_mem s m = Some xs"
          "length xs = unat (group_length g)" "hash_mask_count u = ucast (group_length g)"
          by (auto simp: mask_ok_def)
        have n: "unat (sl_count l) = unat (group_length g)" using t unat_ucast_length by metis
        have cnt: "hash_mask_count u = sl_count l" using t m(4) by simp
        have len: "unat (sl_count l) \<le> length ys" using ok ys by (simp add: l list_arg_ok_def)
        have un: "u\<lparr>hash_mask_list := Some m, hash_mask_count := sl_count l\<rparr> = u"
          using m(1) cnt by simp
        let ?z = "s\<lparr>mask_mem := (mask_mem s)(m \<mapsto> take (unat (sl_count l)) ys)\<rparr>"
        have drop: "drop (unat (sl_count l)) xs = []" using m(3) n by simp
        have "(st2, u2, s2, w2) = (SAI_STATUS_SUCCESS, u, dn_sai_udf_lock ?z, w)"
          unfolding h [symmetric] dn_sai_udf_hash_mask_set_def
          using 3 t ys m(1-3) len n un drop by (simp add: mask_copy_def dn_sai_udf_lock_def)
        then have z: "st2 = SAI_STATUS_SUCCESS" "u2 = u" "s2 = dn_sai_udf_lock ?z" "w2 = w" by simp_all
        obtain st3 w3 where np: "npu_udf_attribute_set E (dn_sai_udf_lock ?z) u attr w = (st3, w3)" by (metis surj_pair)
        have "udf_write a u (dn_sai_udf_lock ?z) = dn_sai_udf_lock ?z"
          using 3(4) by (simp add: udf_write_def dn_sai_udf_lock_def map_upd_triv)
        then have r: "rc = st3" "w' = w3" "s' = ?z"
          using R e z np udf_lawsD(2) [OF L] by (auto split: if_splits)
        show thesis using np n len
          by (intro mask [OF l ys 3(3,4) m(1,2) _ len cnt [symmetric] r(3)]) (simp_all add: r m(3))
      qed
    qed
  qed
qed

text \<open>A mask that fits the group is written whatever the plug-in says.\<close>

lemma udf_set_mask_eq:
  assumes L: "udf_laws E" and ty: "sai_is_obj_id E SAI_OBJECT_TYPE_UDF i"
    and acc: "dn_sai_udf_attr_list_validate E SAI_OBJECT_TYPE_UDF [HASH_MASK_ID] SAI_OP_SET = SAI_STATUS_SUCCESS"
    and u: "rb_getexact (udf_obj_tree s) i = Some a" "udf_mem s a = Some u" "p_udf_group u = Some p"
      "group_mem s p = Some g" "udf_group_type g = SAI_UDF_GROUP_TYPE_HASH"
    and m: "hash_mask_list u = Some m" "mask_mem s m = Some xs" "length xs = unat (group_length g)"
      "hash_mask_count u = ucast (group_length g)"
    and l: "sl_list l = Some ys" "sl_count l = ucast (group_length g)" "sl_count l \<noteq> 0"
      "unat (sl_count l) \<le> length ys"
  shows "dn_sai_udf_set_attribute E i (SAI_UDF_ATTR_HASH_MASK l) s w =
    (let z = s\<lparr>mask_mem := (mask_mem s)(m \<mapsto> take (unat (sl_count l)) ys)\<rparr>;
         (st, w') = npu_udf_attribute_set E (dn_sai_udf_lock z) u (SAI_UDF_ATTR_HASH_MASK l) w
     in (st, z, w'))"
proof -
  let ?s = "dn_sai_udf_lock s"
  let ?z = "s\<lparr>mask_mem := (mask_mem s)(m \<mapsto> take (unat (sl_count l)) ys)\<rparr>"
  have n: "unat (sl_count l) = unat (group_length g)" unfolding l(2) by (rule unat_ucast_length)
  have cnt: "hash_mask_count u = sl_count l" using m(4) l(2) by simp
  have un: "u\<lparr>hash_mask_list := Some m, hash_mask_count := sl_count l\<rparr> = u" using m(1) cnt by simp
  have drop: "drop (unat (sl_count l)) xs = []" using m(3) n by simp
  have h: "dn_sai_udf_hash_mask_set E u l ?s w = (SAI_STATUS_SUCCESS, u, dn_sai_udf_lock ?z, w)"
    unfolding dn_sai_udf_hash_mask_set_def
    using u l(1,3,4) l(2) [symmetric] m(1-3) n un drop by (simp add: mask_copy_def dn_sai_udf_lock_def)
  have at: "dn_sai_udf_attr_set E u [SAI_UDF_ATTR_HASH_MASK l] SAI_OP_SET ?s w
      = (SAI_STATUS_SUCCESS, u, dn_sai_udf_lock ?z, w)"
    using h udf_lawsD(2) [OF L] by (simp add: dn_sai_udf_attr_set_def)
  have zz: "udf_write a u (dn_sai_udf_lock ?z) = dn_sai_udf_lock ?z"
    using u(2) by (simp add: udf_write_def dn_sai_udf_lock_def map_upd_triv)
  show ?thesis
    by (simp add: dn_sai_udf_set_attribute_def udf_set_attribute_body_def dn_sai_udf_node_get_def Let_def
        ty acc u(1,2) at zz split: prod.split)
qed

lemma udf_set_inv:
  assumes "dn_sai_udf_set_attribute E i attr s w = (rc, s', w')" "udf_laws E" and I: "udf_inv s" and "udf_attr_ok attr"
  shows "udf_inv s'"
  using assms
proof (cases rule: udf_set_effect)
  case (changed a u u' hm)
  then show ?thesis using udf_inv_node_change [OF I changed(3)] by (simp add: same_mask_def)
next
  case (mask a u m xs l ys w1)
  then show ?thesis using udf_inv_mask_change [OF I mask(6)] by simp
qed (simp add: I)

section \<open>Reading attributes\<close>

lemma udf_list_fill_loop_eq:
  assumes "\<forall>p \<in> set ps. udf_mem s p \<noteq> None" "i + length ps \<le> length buf"
  shows "udf_list_fill_loop s i ps buf =
    Some (take i buf @ map (\<lambda>p. udf_obj_id (the (udf_mem s p))) ps @ drop (i + length ps) buf)"
  using assms
proof (induction ps arbitrary: i buf)
  case (Cons p ps)
  then obtain u where "udf_mem s p = Some u" by auto
  with Cons.prems Cons.IH [of "Suc i" "buf[i := udf_obj_id u]"] show ?case
    by (simp add: take_Suc_conv_app_nth)
qed simp

definition udf_ids :: "udf_state \<Rightarrow> dn_sai_udf_group_t \<Rightarrow> sai_object_id_t list" where
  "udf_ids s g = map (\<lambda>p. udf_obj_id (the (udf_mem s p))) (udf_list g)"

text \<open>The list of a group is written within the buffer, or the size that is needed is reported.\<close>

lemma udf_list_fill_effect:
  assumes I: "udf_inv s" and R: "udf_room s" and g: "group_mem s p = Some g" and ok: "list_arg_ok l"
  shows "dn_sai_udf_group_udf_list_fill g l s =
    (case sl_list l of
       Some buf \<Rightarrow> if unat (sl_count l) < length (udf_ids s g)
         then (SAI_STATUS_BUFFER_OVERFLOW, l\<lparr>sl_count := of_nat (length (udf_ids s g))\<rparr>, s)
         else (SAI_STATUS_SUCCESS, \<lparr>sl_count = of_nat (length (udf_ids s g)),
           sl_list = Some (udf_ids s g @ drop (length (udf_ids s g)) buf)\<rparr>, s)
     | None \<Rightarrow> (SAI_STATUS_BUFFER_OVERFLOW, l\<lparr>sl_count := of_nat (length (udf_ids s g))\<rparr>, s))"
proof (cases "sl_list l")
  case None
  have "udf_count g = of_nat (length (udf_ids s g))"
    using udf_invD(2) [OF I] g unfolding groups_ok_def udf_ids_def by auto
  with None show ?thesis by (simp add: dn_sai_udf_group_udf_list_fill_def)
next
  case (Some buf)
  have c: "udf_count g = of_nat (length (udf_ids s g))"
    using udf_invD(2) [OF I] g unfolding groups_ok_def udf_ids_def by auto
  have len: "length (udf_list g) < 2 ^ 32" using R g unfolding udf_room_def by blast
  then have u: "unat (udf_count g) = length (udf_ids s g)"
    by (simp add: c udf_ids_def unat_of_nat take_bit_nat_eq_self)
  have lt: "udf_count g > sl_count l \<longleftrightarrow> unat (sl_count l) < length (udf_ids s g)"
    unfolding word_less_nat_alt u ..
  show ?thesis
  proof (cases "unat (sl_count l) < length (udf_ids s g)")
    case True
    then show ?thesis using lt by (simp add: dn_sai_udf_group_udf_list_fill_def Some c)
  next
    case False
    have "length (udf_list g) \<le> length buf" using False ok Some by (simp add: list_arg_ok_def udf_ids_def)
    moreover have "\<forall>p \<in> set (udf_list g). udf_mem s p \<noteq> None"
      using listed_nodeE [OF I g] by (metis option.distinct(1))
    ultimately have "udf_list_fill_loop s 0 (udf_list g) buf = Some (udf_ids s g @ drop (length (udf_ids s g)) buf)"
      by (simp add: udf_list_fill_loop_eq udf_ids_def)
    with False lt show ?thesis by (simp add: dn_sai_udf_group_udf_list_fill_def Some c)
  qed
qed

lemma udf_group_answer_state:
  assumes "udf_group_attribute_answer g a s = (st, a', s')" "udf_inv s" "udf_room s" "group_mem s p = Some g"
    "group_attr_ok a"
  shows "s' = s"
  using assms by (cases a) (auto simp: udf_list_fill_effect split: option.splits if_splits)

interpretation udf_group_get: attribute_loop
  "\<lambda>i a s. udf_group_attribute_answer g a s" "\<lambda>i rc. sai_get_indexed_ret_val E rc i"
  "dn_sai_udf_group_attr_get E g" for E g
  by unfold_locales simp_all

interpretation udf_get: attribute_loop
  "\<lambda>i a s. udf_attribute_answer E u a s" "\<lambda>i rc. sai_get_indexed_ret_val E rc i"
  "dn_sai_udf_attr_get E u" for E u
  by unfold_locales simp_all

lemma udf_group_attr_get_state:
  assumes "dn_sai_udf_group_attr_get E g i as s = (rc, as', s')" "udf_inv s" "udf_room s" "group_mem s p = Some g"
    "\<forall>a \<in> set as. group_attr_ok a"
  shows "s' = s"
  using assms
proof (induction as arbitrary: i as' rc s')
  case (Cons a as)
  obtain st a1 s1 where a: "udf_group_attribute_answer g a s = (st, a1, s1)" by (metis prod_cases3)
  have s1: "s1 = s" using udf_group_answer_state [OF a Cons.prems(2-4)] Cons.prems(5) by simp
  obtain rc2 as2 s2 where r: "dn_sai_udf_group_attr_get E g (Suc i) as s = (rc2, as2, s2)" by (metis prod_cases3)
  have "s2 = s" using Cons.IH [OF r Cons.prems(2-4)] Cons.prems(5) by simp
  with Cons.prems(1) a s1 r show ?case by (auto split: if_splits)
qed simp

lemma udf_hash_mask_fill_effect:
  assumes m: "mask_ok (mask_mem s) g u" and ok: "list_arg_ok l"
  shows "dn_sai_udf_hash_mask_fill E u l s =
    (let mask = (case Option.bind (hash_mask_list u) (mask_mem s) of
           Some xs \<Rightarrow> if hash_mask_count u \<noteq> 0 then xs else default_hash_mask E
         | None \<Rightarrow> default_hash_mask E);
         count = (if hash_mask_count u \<noteq> 0 then hash_mask_count u else SAI_UDF_DFLT_HASH_MASK_COUNT E)
     in case sl_list l of
          Some buf \<Rightarrow> if sl_count l < count then (SAI_STATUS_BUFFER_OVERFLOW, l\<lparr>sl_count := count\<rparr>, s)
            else (SAI_STATUS_SUCCESS, \<lparr>sl_count = count, sl_list = Some (mask @ drop (unat count) buf)\<rparr>, s)
        | None \<Rightarrow> (SAI_STATUS_BUFFER_OVERFLOW, l\<lparr>sl_count := count\<rparr>, s))"
proof (cases "hash_mask_count u = 0")
  case True
  have len: "length (default_hash_mask E) = unat (SAI_UDF_DFLT_HASH_MASK_COUNT E)"
    by (simp add: default_hash_mask_def)
  show ?thesis
  proof (cases "sl_list l")
    case (Some buf)
    have "unat (SAI_UDF_DFLT_HASH_MASK_COUNT E) \<le> length buf" if "\<not> sl_count l < SAI_UDF_DFLT_HASH_MASK_COUNT E"
      using that ok Some by (simp add: list_arg_ok_def word_less_nat_alt)
    with len True Some show ?thesis
      by (auto simp: dn_sai_udf_hash_mask_fill_def Let_def split: option.splits)
  qed (simp add: dn_sai_udf_hash_mask_fill_def Let_def True)
next
  case False
  with m obtain n xs where n: "hash_mask_list u = Some n" "mask_mem s n = Some xs"
    "length xs = unat (group_length g)" "hash_mask_count u = ucast (group_length g)"
    by (auto simp: mask_ok_def split: if_splits)
  have len: "length xs = unat (hash_mask_count u)" by (simp only: n(3,4) unat_ucast_length)
  show ?thesis
  proof (cases "sl_list l")
    case (Some buf)
    have "unat (hash_mask_count u) \<le> length buf" if "\<not> sl_count l < hash_mask_count u"
      using that ok Some by (simp add: list_arg_ok_def word_less_nat_alt)
    with len False Some n(1,2) show ?thesis by (simp add: dn_sai_udf_hash_mask_fill_def Let_def)
  qed (simp add: dn_sai_udf_hash_mask_fill_def Let_def False)
qed

lemma udf_answer_state:
  assumes "udf_attribute_answer E u a s = (st, a', s')" "mask_ok (mask_mem s) g u"
    "p_udf_group u = Some p" "group_mem s p = Some g" "udf_attr_ok a"
  shows "s' = s"
  using assms
  by (cases a) (auto simp: udf_hash_mask_fill_effect Let_def split: option.splits if_splits)

lemma udf_attr_get_state:
  assumes "dn_sai_udf_attr_get E u i as s = (rc, as', s')" "mask_ok (mask_mem s) g u"
    "p_udf_group u = Some p" "group_mem s p = Some g" "\<forall>a \<in> set as. udf_attr_ok a"
  shows "s' = s"
  using assms
proof (induction as arbitrary: i as' rc s')
  case (Cons a as)
  obtain st a1 s1 where a: "udf_attribute_answer E u a s = (st, a1, s1)" by (metis prod_cases3)
  have s1: "s1 = s" using udf_answer_state [OF a Cons.prems(2-4)] Cons.prems(5) by simp
  obtain rc2 as2 s2 where r: "dn_sai_udf_attr_get E u (Suc i) as s = (rc2, as2, s2)" by (metis prod_cases3)
  have "s2 = s" using Cons.IH [OF r Cons.prems(2-4)] Cons.prems(5) by simp
  with Cons.prems(1) a s1 r show ?case by (auto split: if_splits)
qed simp

text \<open>Reading leaves the state as it is.\<close>

lemma udf_group_get_state:
  assumes run: "dn_sai_udf_group_get_attribute E gid as s = (rc, as', s')" and I: "udf_inv s" and R: "udf_room s"
    and ok: "\<forall>a \<in> set as. group_attr_ok a"
  shows "s' = s"
proof (cases "rb_getexact (udf_group_tree s) gid")
  case None
  with run show ?thesis
    by (auto simp: dn_sai_udf_group_get_attribute_def dn_sai_udf_group_node_get_def Let_def split: if_splits)
next
  case (Some a)
  then obtain g where g: "group_mem s a = Some g" by (rule group_index_nodeE [OF I])
  obtain rc1 as1 s1 where l: "dn_sai_udf_group_attr_get E g 0 as (dn_sai_udf_lock s) = (rc1, as1, s1)"
    by (metis prod_cases3)
  have "s1 = dn_sai_udf_lock s"
    using udf_group_attr_get_state [OF l _ _ _ ok, of a] I R g by (simp add: udf_room_def)
  with run Some g l show ?thesis
    by (auto simp: dn_sai_udf_group_get_attribute_def dn_sai_udf_group_node_get_def Let_def split: if_splits)
qed

lemma udf_get_state:
  assumes run: "dn_sai_udf_get_attribute E i as s = (rc, as', s')" and I: "udf_inv s"
    and ok: "\<forall>a \<in> set as. udf_attr_ok a"
  shows "s' = s"
proof (cases "rb_getexact (udf_obj_tree s) i")
  case None
  with run show ?thesis
    by (auto simp: dn_sai_udf_get_attribute_def dn_sai_udf_node_get_def Let_def split: if_splits)
next
  case (Some a)
  then obtain u p g where u: "udf_mem s a = Some u" "p_udf_group u = Some p" "group_mem s p = Some g"
    "mask_ok (mask_mem s) g u" by (rule udf_index_nodeE [OF I])
  obtain rc1 as1 s1 where l: "dn_sai_udf_attr_get E u 0 as (dn_sai_udf_lock s) = (rc1, as1, s1)"
    by (metis prod_cases3)
  have "s1 = dn_sai_udf_lock s" using udf_attr_get_state [OF l _ u(2) _ ok] u by simp
  with run Some u l show ?thesis
    by (auto simp: dn_sai_udf_get_attribute_def dn_sai_udf_node_get_def Let_def split: if_splits)
qed

lemma udf_group_type_get_effect:
  assumes I: "udf_inv s"
  shows "dn_sai_udf_group_type_get E gid s =
    (if \<not> sai_is_obj_id E SAI_OBJECT_TYPE_UDF_GROUP gid then (SAI_STATUS_INVALID_OBJECT_TYPE, None, s)
     else case Option.bind (rb_getexact (udf_group_tree s) gid) (group_mem s) of
            None \<Rightarrow> (SAI_STATUS_INVALID_OBJECT_ID, None, s)
          | Some g \<Rightarrow> (SAI_STATUS_SUCCESS, Some (udf_group_type g), s))"
proof (cases "rb_getexact (udf_group_tree s) gid")
  case (Some a)
  then obtain g where "group_mem s a = Some g" by (rule group_index_nodeE [OF I])
  with Some show ?thesis by (simp add: dn_sai_udf_group_type_get_def dn_sai_udf_group_node_get_def Let_def)
qed (simp add: dn_sai_udf_group_type_get_def dn_sai_udf_group_node_get_def Let_def)

section \<open>The state machine\<close>

text \<open>A step is a call; the caller's lists are as long as their counts say.\<close>

inductive udf_step :: "('w, 'z) udf_env_scheme \<Rightarrow> udf_state \<Rightarrow> udf_state \<Rightarrow> bool" for E where
  ustep_group_create: "dn_sai_udf_group_create E gas s w = (rc, out, s', w') \<Longrightarrow> udf_step E s s'"
| ustep_group_remove: "dn_sai_udf_group_remove E gid s w = (rc, s', w') \<Longrightarrow> udf_room s \<Longrightarrow> udf_step E s s'"
| ustep_group_get: "dn_sai_udf_group_get_attribute E gid gas s = (rc, gas', s') \<Longrightarrow> udf_room s \<Longrightarrow>
    \<forall>a \<in> set gas. group_attr_ok a \<Longrightarrow> udf_step E s s'"
| ustep_group_type: "dn_sai_udf_group_type_get E gid s = (rc, ty, s') \<Longrightarrow> udf_step E s s'"
| ustep_group_hw_id: "dn_sai_udf_group_hw_id_get E gid hw s w = (rc, hw', s', w') \<Longrightarrow> udf_step E s s'"
| ustep_create: "dn_sai_udf_create E as s w = (rc, out, s', w') \<Longrightarrow> \<forall>a \<in> set as. udf_attr_ok a \<Longrightarrow> udf_step E s s'"
| ustep_remove: "dn_sai_udf_remove E i s w = (rc, s', w') \<Longrightarrow> udf_step E s s'"
| ustep_set: "dn_sai_udf_set_attribute E i a s w = (rc, s', w') \<Longrightarrow> udf_attr_ok a \<Longrightarrow> udf_step E s s'"
| ustep_get: "dn_sai_udf_get_attribute E i as s = (rc, as', s') \<Longrightarrow> \<forall>a \<in> set as. udf_attr_ok a \<Longrightarrow> udf_step E s s'"
| ustep_match_create: "dn_sai_udf_match_create E mas s w = (rc, out, s', w') \<Longrightarrow> udf_step E s s'"
| ustep_match_remove: "dn_sai_udf_match_remove E i s w = (rc, s', w') \<Longrightarrow> udf_step E s s'"
| ustep_match_get: "dn_sai_udf_match_get_attribute E i mas s w = (rc, mas', s', w') \<Longrightarrow> udf_step E s s'"

lemma udf_group_hw_id_state:
  assumes run: "dn_sai_udf_group_hw_id_get E gid hw s w = (rc, hw', s', w')" and I: "udf_inv s"
  shows "s' = s"
proof (cases "rb_getexact (udf_group_tree s) gid")
  case None
  with run show ?thesis
    by (simp add: dn_sai_udf_group_hw_id_get_def dn_sai_udf_group_node_get_def Let_def split: if_splits)
next
  case (Some a)
  then obtain g where "group_mem s a = Some g" by (rule group_index_nodeE [OF I])
  with run Some show ?thesis
    by (auto simp: dn_sai_udf_group_hw_id_get_def dn_sai_udf_group_node_get_def Let_def split: if_splits prod.splits)
qed

lemma udf_match_state:
  "dn_sai_udf_match_create E mas s w = (rc, out, s', w') \<Longrightarrow> s' = s"
  "dn_sai_udf_match_remove E i s w = (rc2, s', w') \<Longrightarrow> s' = s"
  "dn_sai_udf_match_get_attribute E i mas s w = (rc3, mas', s', w') \<Longrightarrow> s' = s"
  by (auto simp: dn_sai_udf_match_create_def dn_sai_udf_match_remove_def dn_sai_udf_match_get_attribute_def Let_def
      split: if_splits prod.splits)

lemma udf_group_type_state: "dn_sai_udf_group_type_get E gid s = (rc, ty, s') \<Longrightarrow> udf_inv s \<Longrightarrow> s' = s"
  by (cases "Option.bind (rb_getexact (udf_group_tree s) gid) (group_mem s)")
    (simp_all add: udf_group_type_get_effect split: if_splits)

lemma udf_step_inv:
  assumes "udf_step E s t" and I: "udf_inv s" and L: "udf_laws E"
  shows "udf_inv t"
  using assms(1)
proof cases
  case (ustep_group_create gas w rc out w')
  then show ?thesis using L I by (rule udf_group_create_inv)
next
  case (ustep_group_remove gid w rc w')
  from this(1) I this(2) show ?thesis by (rule udf_group_remove_inv)
next
  case (ustep_create as w rc out w')
  from this(1) L I this(2) show ?thesis by (rule udf_create_inv)
next
  case (ustep_remove i w rc w')
  then show ?thesis using I by (rule udf_remove_inv)
next
  case (ustep_set i a w rc w')
  from this(1) L I this(2) show ?thesis by (rule udf_set_inv)
next
  case (ustep_group_get gid gas rc gas')
  from udf_group_get_state [OF this(1) I this(2,3)] I show ?thesis by simp
next
  case (ustep_group_type gid rc ty)
  from udf_group_type_state [OF this I] I show ?thesis by simp
next
  case (ustep_group_hw_id gid hw w rc hw' w')
  from udf_group_hw_id_state [OF this I] I show ?thesis by simp
next
  case (ustep_get i as rc as')
  from udf_get_state [OF this(1) I this(2)] I show ?thesis by simp
next
  case (ustep_match_create mas w rc out w')
  from udf_match_state(1) [OF this] I show ?thesis by simp
next
  case (ustep_match_remove i w rc w')
  from udf_match_state(2) [OF this] I show ?thesis by simp
next
  case (ustep_match_get i mas w rc mas' w')
  from udf_match_state(3) [OF this] I show ?thesis by simp
qed

definition udf_start :: "udf_state \<Rightarrow> bool" where
  "udf_start s \<longleftrightarrow> udf_group_tree s = Some fmempty \<and> udf_obj_tree s = Some fmempty \<and> group_mem s = Map.empty
     \<and> udf_mem s = Map.empty \<and> mask_mem s = Map.empty \<and> \<not> udf_fault s"

interpretation udf: invariant_system udf_start "\<lambda>s t. udf_laws E \<and> udf_step E s t" udf_inv for E
proof unfold_locales
  show "udf_inv s" if "udf_start s" for s
    using that by (simp add: udf_start_def udf_inv_defs udf_listed_def)
  show "udf_inv t" if "udf_inv s" "udf_laws E \<and> udf_step E s t" for s t
    using that udf_step_inv by blast
qed

definition udf_reachable :: "('w, 'z) udf_env_scheme \<Rightarrow> udf_state \<Rightarrow> bool" where
  "udf_reachable E = reach udf_start (\<lambda>s t. udf_laws E \<and> udf_step E s t)"

lemma udf_reachable_invI: "udf_reachable E s \<Longrightarrow> udf_inv s"
  unfolding udf_reachable_def by (rule udf.reach_inv)

end
