(* ===== verification/Udf_Demo.thy ===== *)
theory Udf_Demo
  imports Udf_Reach Sai_Demo
begin

text \<open>
  A concrete platform for the witnesses of the UDF module, with its laws, and a state with one hash
  group (id 268, at address 0) that lists one UDF (id 1035, at address 2) whose mask is at address 3.
\<close>

definition demo_indexed :: "sai_status_t \<Rightarrow> nat \<Rightarrow> sai_status_t" where
  "demo_indexed st i = (case st of
       SAI_STATUS_INVALID_ATTRIBUTE n \<Rightarrow> SAI_STATUS_INVALID_ATTRIBUTE (n + i)
     | SAI_STATUS_INVALID_ATTR_VALUE n \<Rightarrow> SAI_STATUS_INVALID_ATTR_VALUE (n + i)
     | SAI_STATUS_UNKNOWN_ATTRIBUTE n \<Rightarrow> SAI_STATUS_UNKNOWN_ATTRIBUTE (n + i)
     | SAI_STATUS_ATTR_NOT_IMPLEMENTED n \<Rightarrow> SAI_STATUS_ATTR_NOT_IMPLEMENTED (n + i)
     | _ \<Rightarrow> st)"

definition demo_validate ::
  "udf_attr_id_t list \<Rightarrow> udf_attr_id_t dn_sai_attribute_entry_t list \<Rightarrow> dn_sai_operations_t \<Rightarrow> sai_status_t" where
  "demo_validate ids tab op =
    (if (\<forall>i \<in> set ids. \<exists>e \<in> set tab. ae_id e = i \<and> (op = SAI_OP_CREATE \<longrightarrow> valid_for_create e)
          \<and> (op = SAI_OP_SET \<longrightarrow> valid_for_set e))
        \<and> (op = SAI_OP_CREATE \<longrightarrow> (\<forall>e \<in> set tab. mandatory_on_create e \<longrightarrow> ae_id e \<in> set ids))
     then SAI_STATUS_SUCCESS else SAI_STATUS_INVALID_PARAMETER)"

definition demo_udf_gen :: "(bool \<Rightarrow> bool) \<Rightarrow> sai_status_t \<Rightarrow> nat udf_env" where
  \<comment> \<open>which insertions the trees accept, and the status of the plug-in's set and remove calls\<close>
  "demo_udf_gen ins st = \<lparr>
     calloc_ok = \<lambda>w. (True, w), rbtree_create_ok = \<lambda>w. (True, w), rbtree_insert_ok = \<lambda>b w. (ins b, w),
     sai_uoid_create = demo_uoid, sai_is_obj_id = demo_is_obj, sai_is_port_valid = demo_port_valid,
     sai_get_indexed_ret_val = demo_indexed, dn_sai_get_next_free_id = demo_next_id, uoid_npu_obj_id_mask = 0,
     SAI_UDF_DFLT_HASH_MASK_COUNT = 2,
     udf_calloc = \<lambda>A w. (if A w then None else Some w, Suc w),
     sai_attribute_validate = demo_validate,
     npu_udf_init = \<lambda>w. (SAI_STATUS_SUCCESS, w), npu_udf_deinit = \<lambda>w. w,
     npu_udf_group_create = \<lambda>s g w. (SAI_STATUS_SUCCESS, of_nat w, Suc w),
     npu_udf_group_remove = \<lambda>s g w. (st, w),
     npu_udf_group_hw_id_get = \<lambda>s g w. (SAI_STATUS_SUCCESS, 1, w),
     npu_udf_create = \<lambda>s u w. (SAI_STATUS_SUCCESS, of_nat w, Suc w),
     npu_udf_remove = \<lambda>s u w. (st, w),
     npu_udf_attribute_set = \<lambda>s u a w. (st, w),
     npu_udf_match_create = \<lambda>as w. (SAI_STATUS_SUCCESS, of_nat w, Suc w),
     npu_udf_match_remove = \<lambda>i w. (SAI_STATUS_SUCCESS, w),
     npu_udf_match_attribute_get = \<lambda>i as w. (SAI_STATUS_SUCCESS, as, w)\<rparr>"

definition demo_udf :: "nat udf_env" where
  "demo_udf = demo_udf_gen Not SAI_STATUS_SUCCESS"

definition demo_udf_refusing :: "nat udf_env" where
  "demo_udf_refusing = demo_udf_gen Not SAI_STATUS_FAILURE"

lemma demo_indexed_success: "demo_indexed st i = SAI_STATUS_SUCCESS \<longleftrightarrow> st = SAI_STATUS_SUCCESS"
  by (cases st) (simp_all add: demo_indexed_def)

lemma demo_udf_gen_laws: "\<not> ins True \<Longrightarrow> udf_laws (demo_udf_gen ins st)"
  unfolding udf_laws_def udf_calloc_law_def indexed_law_def validate_law_def refuses_duplicates_def
  by (simp add: demo_udf_gen_def demo_indexed_success demo_validate_def split: if_splits)

lemma demo_udf_laws: "udf_laws demo_udf" "udf_laws demo_udf_refusing"
  by (simp_all add: demo_udf_def demo_udf_refusing_def demo_udf_gen_laws)

definition demo_udf_none :: udf_state where
  "demo_udf_none = \<lparr>udf_group_tree = Some fmempty, udf_obj_tree = Some fmempty, is_init_complete = True,
     udf_trees_freed = (False, False), group_mem = Map.empty, udf_mem = Map.empty, mask_mem = Map.empty,
     udf_lock_depth = 0, udf_fault = False\<rparr>"

definition demo_group :: "udf_addr list \<Rightarrow> dn_sai_udf_group_t" where
  "demo_group l = \<lparr>group_obj_id = 268, udf_group_type = SAI_UDF_GROUP_TYPE_HASH, group_length = 2,
     udf_list = l, udf_count = of_nat (length l)\<rparr>"

definition demo_udf_node :: dn_sai_udf_t where
  "demo_udf_node = \<lparr>udf_obj_id = 1035, match_obj_id = 13, p_udf_group = Some 0, udf_base = SAI_UDF_BASE_L2,
     udf_offset = 4, hash_mask_count = 2, hash_mask_list = Some 3\<rparr>"

definition demo_udf_group :: udf_state where
  "demo_udf_group = demo_udf_none\<lparr>udf_group_tree := rb_put (Some fmempty) 268 0,
     group_mem := [0 \<mapsto> demo_group []]\<rparr>"

definition demo_udf_one :: udf_state where
  "demo_udf_one = demo_udf_group\<lparr>group_mem := [0 \<mapsto> demo_group [2]],
     udf_obj_tree := rb_put (Some fmempty) 1035 2, udf_mem := [2 \<mapsto> demo_udf_node],
     mask_mem := [3 \<mapsto> [0xFF, 0xFF]]\<rparr>"

lemma replicate_two: "replicate 2 x = [x, x]"
  by (simp add: numeral_2_eq_2)

lemma demo_udf_create_group:
  "dn_sai_udf_group_create (demo_udf_gen Not st)
     [SAI_UDF_GROUP_ATTR_LENGTH 2, SAI_UDF_GROUP_ATTR_TYPE SAI_UDF_GROUP_TYPE_HASH] demo_udf_none 0
   = (SAI_STATUS_SUCCESS, Some 268, demo_udf_group, 2)"
  by (simp add: dn_sai_udf_group_create_def dn_sai_udf_attr_list_validate_def dn_sai_udf_attr_table_get_def
      dn_sai_udf_group_attr_def udf_entry_def demo_udf_gen_def demo_validate_def demo_udf_none_def
      udf_group_create_body_def dn_sai_udf_group_length_set_def dn_sai_udf_group_type_set_def
      dn_sai_udf_group_init_def group_write_def demo_udf_group_def demo_group_def dn_sai_udf_lock_def
      dn_sai_udf_unlock_def demo_uoid_def std_rbtree_insert_def Let_def)

lemma demo_udf_create_one:
  "dn_sai_udf_create (demo_udf_gen Not st)
     [SAI_UDF_ATTR_GROUP_ID 268, SAI_UDF_ATTR_MATCH_ID 13, SAI_UDF_ATTR_OFFSET 4] demo_udf_group 2
   = (SAI_STATUS_SUCCESS, Some 1035, demo_udf_one, 5)"
  by (simp add: dn_sai_udf_create_def dn_sai_udf_attr_list_validate_def dn_sai_udf_attr_table_get_def
      dn_sai_udf_attr_def udf_entry_def demo_udf_gen_def demo_validate_def demo_udf_group_def demo_udf_none_def
      udf_create_body_def dn_sai_udf_attr_set_def dn_sai_udf_group_id_set_def dn_sai_udf_match_id_set_def
      dn_sai_udf_group_node_get_def dn_sai_udf_default_hash_mask_fill_def dn_sai_udf_hash_mask_alloc_def
      dn_sai_udf_node_init_def udf_node_zero_def udf_write_def dn_sai_udf_group_udf_list_update_def group_write_def
      demo_udf_one_def demo_group_def demo_udf_node_def dn_sai_udf_lock_def
      dn_sai_udf_unlock_def demo_uoid_def demo_is_obj_def std_rbtree_insert_def Let_def replicate_two)

end
