(* ===== verification/Udf_Claims.thy ===== *)
theory Udf_Claims
  imports Udf_Demo
begin

text \<open>
  Properties of the UDF module: memory safety and the lists of the groups, what the removal of a
  group and a refused set call do, and that a group can always be emptied and removed.
\<close>

section \<open>Reachable states\<close>

lemma demo_udf_reachable:
  "udf_reachable (demo_udf_gen Not st) demo_udf_group" "udf_reachable (demo_udf_gen Not st) demo_udf_one"
proof -
  let ?E = "demo_udf_gen Not st"
  have L: "udf_laws ?E" by (simp add: demo_udf_gen_laws)
  have 0: "udf_reachable ?E demo_udf_none"
    unfolding udf_reachable_def by (rule reach_start) (simp add: udf_start_def demo_udf_none_def)
  have s1: "udf_step ?E demo_udf_none demo_udf_group" by (rule ustep_group_create [OF demo_udf_create_group])
  show 1: "udf_reachable ?E demo_udf_group"
    using reach_step [OF 0 [unfolded udf_reachable_def] conjI [OF L s1]] by (simp only: udf_reachable_def)
  have s2: "udf_step ?E demo_udf_group demo_udf_one" by (rule ustep_create [OF demo_udf_create_one]) simp
  show "udf_reachable ?E demo_udf_one"
    using reach_step [OF 1 [unfolded udf_reachable_def] conjI [OF L s2]] by (simp only: udf_reachable_def)
qed

lemmas demo_udf_one_reachable =
  demo_udf_reachable(2) [of SAI_STATUS_SUCCESS, folded demo_udf_def]
  demo_udf_reachable(2) [of SAI_STATUS_FAILURE, folded demo_udf_refusing_def]

text \<open>C10. In every state that the calls of UDF groups and UDFs reach, no pointer to freed memory was
  followed, nothing was freed twice and no array overrun; a group lists each of its UDFs once and
  counts them; a UDF that can be found is listed by the group it points to; and a UDF of a hash group
  has a mask of the length of its group.\<close>

theorem udf_memory_safe:
  assumes "udf_reachable E s"
  shows "\<not> udf_fault s
    \<and> (\<forall>p g. group_mem s p = Some g \<longrightarrow> distinct (udf_list g) \<and> udf_count g = of_nat (length (udf_list g)))
    \<and> (\<forall>i a. rb_getexact (udf_obj_tree s) i = Some a \<longrightarrow>
         (\<exists>u p g. udf_mem s a = Some u \<and> udf_obj_id u = i \<and> p_udf_group u = Some p
            \<and> group_mem s p = Some g \<and> a \<in> set (udf_list g)
            \<and> (udf_group_type g = SAI_UDF_GROUP_TYPE_HASH \<longrightarrow>
                 (\<exists>m xs. hash_mask_list u = Some m \<and> mask_mem s m = Some xs
                    \<and> length xs = unat (group_length g)))))"
proof -
  have I: "udf_inv s" using assms by (rule udf_reachable_invI)
  have "\<exists>u p g. udf_mem s a = Some u \<and> udf_obj_id u = i \<and> p_udf_group u = Some p
      \<and> group_mem s p = Some g \<and> a \<in> set (udf_list g)
      \<and> (udf_group_type g = SAI_UDF_GROUP_TYPE_HASH \<longrightarrow>
           (\<exists>m xs. hash_mask_list u = Some m \<and> mask_mem s m = Some xs \<and> length xs = unat (group_length g)))"
    if t: "rb_getexact (udf_obj_tree s) i = Some a" for i a
  proof -
    obtain u p g where u: "udf_mem s a = Some u" "udf_obj_id u = i" "p_udf_group u = Some p"
      "group_mem s p = Some g" "a \<in> set (udf_list g)" "mask_ok (mask_mem s) g u"
      by (rule udf_index_nodeE [OF I t])
    from u(6) have "udf_group_type g = SAI_UDF_GROUP_TYPE_HASH \<longrightarrow>
        (\<exists>m xs. hash_mask_list u = Some m \<and> mask_mem s m = Some xs \<and> length xs = unat (group_length g))"
      unfolding mask_ok_def by (auto split: if_splits)
    with u(1-5) show ?thesis by blast
  qed
  moreover have "\<forall>p g. group_mem s p = Some g \<longrightarrow> distinct (udf_list g) \<and> udf_count g = of_nat (length (udf_list g))"
    using udf_invD(2) [OF I] unfolding groups_ok_def by blast
  ultimately show ?thesis using udf_invD(1) [OF I] by blast
qed

theorem udf_memory_safe_witness:
  "\<not> udf_fault demo_udf_one \<and> udf_count (demo_group [2]) = 1"
proof -
  have "group_mem demo_udf_one 0 = Some (demo_group [2])" by (simp add: demo_udf_one_def)
  with udf_memory_safe [OF demo_udf_one_reachable(1)] show ?thesis
    by (simp add: demo_group_def)
qed

section \<open>Removal of a group\<close>

text \<open>C21. The removal of a UDF group reports success whatever happens: for an id that is not
  known and for a group with UDFs, which it leaves alone, and when the plug-in refuses, where the group
  stays, or is lost if its node cannot be put back.  The group is gone exactly when it had no UDFs
  and the plug-in agreed.\<close>

theorem group_remove_always_succeeds:
  assumes run: "dn_sai_udf_group_remove E gid s w = (rc, s', w')" and reach: "udf_reachable E s"
    and room: "udf_room s" and ty: "sai_is_obj_id E SAI_OBJECT_TYPE_UDF_GROUP gid"
  shows "rc = SAI_STATUS_SUCCESS
    \<and> (case rb_getexact (udf_group_tree s) gid of
         None \<Rightarrow> s' = s
       | Some p \<Rightarrow> \<exists>g. group_mem s p = Some g \<and>
           (if udf_list g \<noteq> [] then s' = s
            else let lost = s\<lparr>udf_group_tree := rb_remove (udf_group_tree s) gid\<rparr>;
                     (st, w1) = npu_udf_group_remove E (dn_sai_udf_lock lost) g w
              in if st = SAI_STATUS_SUCCESS then s' = lost\<lparr>group_mem := (group_mem s)(p := None)\<rparr>
                 else if fst (rbtree_insert_ok E False w1) then s' = s else s' = lost))"
proof -
  have I: "udf_inv s" using reach by (rule udf_reachable_invI)
  have lock: "dn_sai_udf_lock (s\<lparr>udf_group_tree := t\<rparr>) = dn_sai_udf_lock s\<lparr>udf_group_tree := t\<rparr>" for t
    by (simp add: dn_sai_udf_lock_def)
  note z = udf_count_zero [OF I room]
  show ?thesis using run I
  proof (cases rule: udf_group_remove_effect)
    case (refused a g st w1 w2 ok)
    with z [OF refused(3)] show ?thesis by (simp add: lock Let_def)
  next
    case (removed a g w1)
    with z [OF removed(3)] show ?thesis by (simp add: lock Let_def)
  next
    case (in_use a g)
    with z [OF in_use(4)] show ?thesis by simp
  qed (use ty in auto)
qed

lemma demo_udf_room: "udf_room demo_udf_one" "udf_room demo_udf_group"
  by (simp_all add: udf_room_def demo_udf_one_def demo_udf_group_def demo_group_def)

theorem group_remove_always_succeeds_witness:
  "\<exists>w'. dn_sai_udf_group_remove demo_udf 268 demo_udf_one 5 = (SAI_STATUS_SUCCESS, demo_udf_one, w')"
proof -
  obtain rc s' w' where run: "dn_sai_udf_group_remove demo_udf 268 demo_udf_one 5 = (rc, s', w')"
    by (metis prod_cases3)
  have "sai_is_obj_id demo_udf SAI_OBJECT_TYPE_UDF_GROUP 268"
    by (simp add: demo_udf_def demo_udf_gen_def demo_is_obj_def)
  moreover have "rb_getexact (udf_group_tree demo_udf_one) 268 = Some 0" "group_mem demo_udf_one 0 = Some (demo_group [2])"
    by (simp_all add: demo_udf_one_def demo_udf_group_def)
  ultimately show ?thesis
    using group_remove_always_succeeds [OF run demo_udf_one_reachable(1) demo_udf_room(1)] run
    by (simp add: demo_group_def)
qed

section \<open>A refused hash mask\<close>

text \<open>C27. Setting the hash mask of a UDF writes into the array of the stored node before the
  plug-in is asked, so a mask that the plug-in refuses is the one that is read from then on.\<close>

theorem refused_mask_is_read:
  assumes run: "dn_sai_udf_set_attribute E i (SAI_UDF_ATTR_HASH_MASK l) s w = (rc, s', w')"
    and reach: "udf_reachable E s" and L: "udf_laws E"
    and ty: "sai_is_obj_id E SAI_OBJECT_TYPE_UDF i"
    and acc: "dn_sai_udf_attr_list_validate E SAI_OBJECT_TYPE_UDF [HASH_MASK_ID] SAI_OP_SET = SAI_STATUS_SUCCESS"
    and u: "rb_getexact (udf_obj_tree s) i = Some a" "udf_mem s a = Some u" "p_udf_group u = Some p"
      "group_mem s p = Some g" "udf_group_type g = SAI_UDF_GROUP_TYPE_HASH"
    and l: "sl_list l = Some ys" "sl_count l = ucast (group_length g)" "sl_count l \<noteq> 0"
      "length ys = unat (sl_count l)" "length buf = unat (sl_count l)"
  shows "(rc, w') = npu_udf_attribute_set E (dn_sai_udf_lock s') u (SAI_UDF_ATTR_HASH_MASK l) w
    \<and> dn_sai_udf_get_attribute E i [SAI_UDF_ATTR_HASH_MASK \<lparr>sl_count = sl_count l, sl_list = Some buf\<rparr>] s'
      = (SAI_STATUS_SUCCESS, [SAI_UDF_ATTR_HASH_MASK \<lparr>sl_count = sl_count l, sl_list = Some ys\<rparr>], s')"
proof -
  have I: "udf_inv s" using reach by (rule udf_reachable_invI)
  obtain m xs where m: "hash_mask_list u = Some m" "mask_mem s m = Some xs" "length xs = unat (group_length g)"
    "hash_mask_count u = ucast (group_length g)"
  proof -
    have "mask_ok (mask_mem s) g u" by (rule udf_index_nodeE [OF I u(1)]) (use u in auto)
    with that u(5) show thesis by (auto simp: mask_ok_def)
  qed
  let ?z = "s\<lparr>mask_mem := (mask_mem s)(m \<mapsto> ys)\<rparr>"
  have s': "s' = ?z" and rc: "(rc, w') = npu_udf_attribute_set E (dn_sai_udf_lock ?z) u (SAI_UDF_ATTR_HASH_MASK l) w"
    using run udf_set_mask_eq [OF L ty acc u m l(1-3), of w] l(4) by (simp_all add: Let_def split: prod.splits)
  have cnt: "hash_mask_count u = sl_count l" using m(4) l(2) by simp
  have "dn_sai_udf_hash_mask_fill E u \<lparr>sl_count = sl_count l, sl_list = Some buf\<rparr> (dn_sai_udf_lock ?z)
      = (SAI_STATUS_SUCCESS, \<lparr>sl_count = sl_count l, sl_list = Some ys\<rparr>, dn_sai_udf_lock ?z)"
    using l(3-5) by (simp add: dn_sai_udf_hash_mask_fill_def Let_def cnt m(1))
  then have "dn_sai_udf_get_attribute E i [SAI_UDF_ATTR_HASH_MASK \<lparr>sl_count = sl_count l, sl_list = Some buf\<rparr>] ?z
      = (SAI_STATUS_SUCCESS, [SAI_UDF_ATTR_HASH_MASK \<lparr>sl_count = sl_count l, sl_list = Some ys\<rparr>], ?z)"
    using ty u(1,2) by (simp add: dn_sai_udf_get_attribute_def dn_sai_udf_node_get_def Let_def)
  with rc show ?thesis unfolding s' by simp
qed

theorem refused_mask_is_read_witness:
  "\<exists>s' w'. dn_sai_udf_set_attribute demo_udf_refusing 1035
       (SAI_UDF_ATTR_HASH_MASK \<lparr>sl_count = 2, sl_list = Some [1, 2]\<rparr>) demo_udf_one 5 = (SAI_STATUS_FAILURE, s', w')
     \<and> dn_sai_udf_get_attribute demo_udf_refusing 1035
         [SAI_UDF_ATTR_HASH_MASK \<lparr>sl_count = 2, sl_list = Some [0, 0]\<rparr>] s'
       = (SAI_STATUS_SUCCESS, [SAI_UDF_ATTR_HASH_MASK \<lparr>sl_count = 2, sl_list = Some [1, 2]\<rparr>], s')"
proof -
  let ?l = "\<lparr>sl_count = 2, sl_list = Some [1, 2]\<rparr> :: 8 word sai_list_t"
  obtain rc s' w' where run: "dn_sai_udf_set_attribute demo_udf_refusing 1035
      (SAI_UDF_ATTR_HASH_MASK ?l) demo_udf_one 5 = (rc, s', w')" by (metis prod_cases3)
  have ty: "sai_is_obj_id demo_udf_refusing SAI_OBJECT_TYPE_UDF 1035"
    by (simp add: demo_udf_refusing_def demo_udf_gen_def demo_is_obj_def)
  have acc: "dn_sai_udf_attr_list_validate demo_udf_refusing SAI_OBJECT_TYPE_UDF [HASH_MASK_ID] SAI_OP_SET
      = SAI_STATUS_SUCCESS"
    by (simp add: dn_sai_udf_attr_list_validate_def dn_sai_udf_attr_table_get_def dn_sai_udf_attr_def udf_entry_def
        demo_udf_refusing_def demo_udf_gen_def demo_validate_def)
  have u: "rb_getexact (udf_obj_tree demo_udf_one) 1035 = Some 2" "udf_mem demo_udf_one 2 = Some demo_udf_node"
    "p_udf_group demo_udf_node = Some 0" "group_mem demo_udf_one 0 = Some (demo_group [2])"
    "udf_group_type (demo_group [2]) = SAI_UDF_GROUP_TYPE_HASH"
    by (simp_all add: demo_udf_one_def demo_udf_group_def demo_udf_none_def demo_udf_node_def demo_group_def)
  have "npu_udf_attribute_set demo_udf_refusing x y z v = (SAI_STATUS_FAILURE, v)" for x y z v
    by (simp add: demo_udf_refusing_def demo_udf_gen_def)
  with refused_mask_is_read [OF run demo_udf_one_reachable(2) demo_udf_laws(2) ty acc u,
      of "[1, 2]" "[0, 0]"] run
  show ?thesis by (simp add: demo_group_def)
qed

section \<open>Emptying a group\<close>

text \<open>A group whose UDFs can all be found: none of them was lost by a refused removal.\<close>

definition udf_registered :: "('w, 'z) udf_env_scheme \<Rightarrow> udf_state \<Rightarrow> udf_addr \<Rightarrow> bool" where
  "udf_registered E s a \<longleftrightarrow> (\<exists>u. udf_mem s a = Some u \<and> rb_getexact (udf_obj_tree s) (udf_obj_id u) = Some a
     \<and> sai_is_obj_id E SAI_OBJECT_TYPE_UDF (udf_obj_id u))"

definition plugin_removes :: "('w, 'z) udf_env_scheme \<Rightarrow> bool" where
  "plugin_removes E \<longleftrightarrow> (\<forall>s u g w. fst (npu_udf_remove E s u w) = SAI_STATUS_SUCCESS
     \<and> fst (npu_udf_group_remove E s g w) = SAI_STATUS_SUCCESS)"

lemma udf_remove_step:
  assumes I: "udf_inv s" and g: "group_mem s p = Some g" "udf_list g = a # l" and r: "udf_registered E s a"
    and P: "plugin_removes E"
  obtains w' s1 u where "udf_mem s a = Some u" "dn_sai_udf_remove E (udf_obj_id u) s w = (SAI_STATUS_SUCCESS, s1, w')"
    "udf_inv s1" "group_mem s1 p = Some (group_leave a g)" "udf_list (group_leave a g) = l"
    "udf_group_tree s1 = udf_group_tree s" "rb_getexact (udf_obj_tree s1) (udf_obj_id u) = None"
    "\<And>i. rb_getexact (udf_obj_tree s1) i \<noteq> None \<Longrightarrow> rb_getexact (udf_obj_tree s) i \<noteq> None"
    "\<And>b. b \<noteq> a \<Longrightarrow> udf_mem s1 b = udf_mem s b" "\<And>b. b \<noteq> a \<Longrightarrow> udf_registered E s b \<Longrightarrow> udf_registered E s1 b"
proof -
  obtain u where u: "udf_mem s a = Some u" "rb_getexact (udf_obj_tree s) (udf_obj_id u) = Some a"
    "sai_is_obj_id E SAI_OBJECT_TYPE_UDF (udf_obj_id u)" using r by (auto simp: udf_registered_def)
  have p: "p_udf_group u = Some p" using listed_nodeE [OF I g(1), of a] g(2) u(1) by auto
  obtain rc s1 w' where run: "dn_sai_udf_remove E (udf_obj_id u) s w = (rc, s1, w')" by (metis prod_cases3)
  show thesis using run I
  proof (cases rule: udf_remove_effect)
    case (refused b v w1 w2 ok)
    with P show thesis unfolding plugin_removes_def by (metis fst_conv)
  next
    case (removed b v q k w1)
    then have e: "b = a" "v = u" "q = p" "k = g" using u p g(1) by auto
    have reg: "udf_registered E s1 c" if c: "c \<noteq> a" "udf_registered E s c" for c
    proof -
      obtain x where x: "udf_mem s c = Some x" "rb_getexact (udf_obj_tree s) (udf_obj_id x) = Some c"
        "sai_is_obj_id E SAI_OBJECT_TYPE_UDF (udf_obj_id x)" using c(2) by (auto simp: udf_registered_def)
      with c(1) u(2) have "udf_obj_id x \<noteq> udf_obj_id u" by auto
      with x c(1) show ?thesis by (auto simp: udf_registered_def removed(8) e)
    qed
    show thesis
    proof (rule that [OF u(1)])
      show "dn_sai_udf_remove E (udf_obj_id u) s w = (SAI_STATUS_SUCCESS, s1, w')" using run removed(1) by simp
      show "udf_inv s1" by (rule udf_remove_inv [OF run I])
      show "rb_getexact (udf_obj_tree s) i \<noteq> None" if "rb_getexact (udf_obj_tree s1) i \<noteq> None" for i
        using that by (simp add: removed(8) split: if_splits)
    qed (use g reg in \<open>simp_all add: removed(8) e\<close>)
  qed (use u in auto)
qed

text \<open>C29. A UDF group can always be emptied and removed: when the plug-in removes what it is asked to,
  removing the UDFs that the group lists, by their ids and in that order, and then the group succeeds at
  every step, and neither the group nor any of these UDFs can be found afterwards.\<close>

theorem group_can_be_emptied:
  assumes reach: "udf_reachable E s" and P: "plugin_removes E" and ty: "sai_is_obj_id E SAI_OBJECT_TYPE_UDF_GROUP gid"
    and g: "rb_getexact (udf_group_tree s) gid = Some p" "group_mem s p = Some g"
    and reg: "\<forall>a \<in> set (udf_list g). udf_registered E s a"
  shows "\<exists>s1 w1 s2 w2. run_all (dn_sai_udf_remove E) (udf_ids s g) s w
        = (replicate (length (udf_list g)) SAI_STATUS_SUCCESS, s1, w1)
    \<and> dn_sai_udf_group_remove E gid s1 w1 = (SAI_STATUS_SUCCESS, s2, w2)
    \<and> rb_getexact (udf_group_tree s2) gid = None \<and> group_mem s2 p = None
    \<and> (\<forall>i \<in> set (udf_ids s g). rb_getexact (udf_obj_tree s2) i = None)"
proof -
  let ?P = "\<lambda>s g s1 w1 s2 w2 w. run_all (dn_sai_udf_remove E) (udf_ids s g) s w
        = (replicate (length (udf_list g)) SAI_STATUS_SUCCESS, s1, w1)
    \<and> dn_sai_udf_group_remove E gid s1 w1 = (SAI_STATUS_SUCCESS, s2, w2)
    \<and> rb_getexact (udf_group_tree s2) gid = None \<and> group_mem s2 p = None
    \<and> (\<forall>i \<in> set (udf_ids s g). rb_getexact (udf_obj_tree s2) i = None)
    \<and> (\<forall>i. rb_getexact (udf_obj_tree s) i = None \<longrightarrow> rb_getexact (udf_obj_tree s2) i = None)"
  have "udf_inv s \<Longrightarrow> rb_getexact (udf_group_tree s) gid = Some p \<Longrightarrow> group_mem s p = Some g \<Longrightarrow>
      \<forall>a \<in> set (udf_list g). udf_registered E s a \<Longrightarrow> \<exists>s1 w1 s2 w2. ?P s g s1 w1 s2 w2 w"
  proof (induction "udf_list g" arbitrary: s g w)
    case Nil
    have c: "udf_count g = 0" using Nil udf_invD(2) [OF Nil.prems(1)] unfolding groups_ok_def by force
    obtain rc s2 w2 where run: "dn_sai_udf_group_remove E gid s w = (rc, s2, w2)" by (metis prod_cases3)
    show ?case using run Nil.prems(1)
    proof (cases rule: udf_group_remove_effect)
      case (refused a k st w1 w3 ok)
      with P show ?thesis unfolding plugin_removes_def by (metis fst_conv)
    next
      case (removed a k w1)
      with Nil run show ?thesis by (auto simp: udf_ids_def)
    qed (use Nil c ty in auto)
  next
    case (Cons a l)
    have ra: "udf_registered E s a" using Cons.prems(4) Cons.hyps(2) by (metis list.set_intros(1))
    obtain w' s1 u where s: "udf_mem s a = Some u"
      "dn_sai_udf_remove E (udf_obj_id u) s w = (SAI_STATUS_SUCCESS, s1, w')"
      "udf_inv s1" "group_mem s1 p = Some (group_leave a g)" "udf_list (group_leave a g) = l"
      "udf_group_tree s1 = udf_group_tree s" "rb_getexact (udf_obj_tree s1) (udf_obj_id u) = None"
      "\<And>i. rb_getexact (udf_obj_tree s1) i \<noteq> None \<Longrightarrow> rb_getexact (udf_obj_tree s) i \<noteq> None"
      "\<And>b. b \<noteq> a \<Longrightarrow> udf_mem s1 b = udf_mem s b" "\<And>b. b \<noteq> a \<Longrightarrow> udf_registered E s b \<Longrightarrow> udf_registered E s1 b"
      using udf_remove_step [OF Cons.prems(1,3) Cons.hyps(2) [symmetric] ra P, of w] by metis
    have "distinct (udf_list g)" using udf_invD(2) [OF Cons.prems(1)] Cons.prems(3) unfolding groups_ok_def by blast
    then have d: "a \<notin> set l" using Cons.hyps(2) by (metis distinct.simps(2))
    have ids: "udf_ids s g = udf_obj_id u # udf_ids s1 (group_leave a g)"
    proof -
      have "udf_mem s b = udf_mem s1 b" if "b \<in> set l" for b using s(9) [of b] that d by metis
      then show ?thesis using s(1,5) Cons.hyps(2) [symmetric] by (simp add: udf_ids_def)
    qed
    have "\<forall>b \<in> set (udf_list (group_leave a g)). udf_registered E s1 b"
      using s(5,10) d Cons.prems(4) Cons.hyps(2) by (metis list.set_intros(2))
    from Cons.hyps(1) [OF s(5) [symmetric] s(3) _ s(4) this, of w'] s(6) Cons.prems(2)
    obtain s2 w2 s3 w3 where r: "?P s1 (group_leave a g) s2 w2 s3 w3 w'" by auto
    have "udf_list g = a # l" using Cons.hyps(2) by simp
    moreover have "rb_getexact (udf_obj_tree s3) i = None" if "rb_getexact (udf_obj_tree s) i = None" for i
      using r s(8) [of i] that by (cases "rb_getexact (udf_obj_tree s1) i") simp_all
    ultimately have "?P s g s2 w2 s3 w3 w" using r s(2,5,7) by (simp add: ids)
    then show ?case by blast
  qed
  with reach g reg show ?thesis by (blast dest: udf_reachable_invI)
qed

theorem group_can_be_emptied_witness:
  "\<exists>s1 w1 s2 w2. run_all (dn_sai_udf_remove demo_udf) [1035] demo_udf_one 5 = ([SAI_STATUS_SUCCESS], s1, w1)
    \<and> dn_sai_udf_group_remove demo_udf 268 s1 w1 = (SAI_STATUS_SUCCESS, s2, w2)
    \<and> rb_getexact (udf_group_tree s2) 268 = None"
proof -
  have g: "rb_getexact (udf_group_tree demo_udf_one) 268 = Some 0" "group_mem demo_udf_one 0 = Some (demo_group [2])"
    and P: "plugin_removes demo_udf" and ty: "sai_is_obj_id demo_udf SAI_OBJECT_TYPE_UDF_GROUP 268"
    and reg: "\<forall>a \<in> set (udf_list (demo_group [2])). udf_registered demo_udf demo_udf_one a"
    by (simp_all add: demo_udf_one_def demo_udf_group_def demo_udf_none_def demo_udf_node_def demo_group_def
        plugin_removes_def demo_udf_def demo_udf_gen_def demo_is_obj_def udf_registered_def)
  have ids: "udf_ids demo_udf_one (demo_group [2]) = [1035]"
    by (simp add: udf_ids_def demo_udf_one_def demo_group_def demo_udf_node_def)
  from group_can_be_emptied [OF demo_udf_one_reachable(1) P ty g reg, of 5]
  obtain s1 w1 s2 w2 where "run_all (dn_sai_udf_remove demo_udf) [1035] demo_udf_one 5
      = (replicate (length (udf_list (demo_group [2]))) SAI_STATUS_SUCCESS, s1, w1)"
    "dn_sai_udf_group_remove demo_udf 268 s1 w1 = (SAI_STATUS_SUCCESS, s2, w2)"
    "rb_getexact (udf_group_tree s2) 268 = None" unfolding ids by blast
  then show ?thesis by (intro exI [of _ s1] exI [of _ w1] exI [of _ s2] exI [of _ w2]) (simp add: demo_group_def)
qed

end
