(* ===== verification/Hash_Model.thy ===== *)
theory Hash_Model
  imports Udf_Reach
begin

text \<open>
  Hash objects, \<open>src/hash/sai_hash_obj.c\<close> and \<open>inc/opx/sai_hash_api_utils.h\<close>: objects that list
  native fields and UDF groups, and the switch attributes that select a hash object for each kind
  of traffic.

  Nodes live in a store from addresses, as switch attributes point to them.  A list of a node is
  allocated with its count and replaced as a whole, so it is a value here.  \<open>hash_fault\<close> notes a use
  of a node that is not allocated, a double free, an access beyond a list, a failing assertion or the use of a
  variable that was not initialised.
\<close>

section \<open>Data\<close>

type_synonym hash_addr = nat

record dn_sai_hash_object_t =
  hash_obj_id :: sai_object_id_t
  native_fields_list :: "int list"
  udf_group_list :: "sai_object_id_t list"
  hash_ref_count :: uint32_t

datatype sai_hash_attr_t =
    SAI_HASH_ATTR_NATIVE_HASH_FIELD_LIST "int sai_list_t"
  | SAI_HASH_ATTR_UDF_GROUP_LIST "sai_object_id_t sai_list_t"
  | SAI_HASH_ATTR_UNKNOWN nat

datatype hash_attr_id_t = NATIVE_FIELD_LIST_ID | UDF_GROUP_LIST_ID | HASH_UNKNOWN_ID nat

fun hash_attr_id :: "sai_hash_attr_t \<Rightarrow> hash_attr_id_t" where
  "hash_attr_id (SAI_HASH_ATTR_NATIVE_HASH_FIELD_LIST l) = NATIVE_FIELD_LIST_ID"
| "hash_attr_id (SAI_HASH_ATTR_UDF_GROUP_LIST l) = UDF_GROUP_LIST_ID"
| "hash_attr_id (SAI_HASH_ATTR_UNKNOWN n) = HASH_UNKNOWN_ID n"

datatype switch_attr_t =
    SAI_SWITCH_ATTR_ECMP_HASH
  | SAI_SWITCH_ATTR_LAG_HASH
  | SAI_SWITCH_ATTR_ECMP_HASH_IPV4
  | SAI_SWITCH_ATTR_ECMP_HASH_IPV4_IN_IPV4
  | SAI_SWITCH_ATTR_ECMP_HASH_IPV6
  | SAI_SWITCH_ATTR_LAG_HASH_IPV4
  | SAI_SWITCH_ATTR_LAG_HASH_IPV4_IN_IPV4
  | SAI_SWITCH_ATTR_LAG_HASH_IPV6
  | SAI_SWITCH_ATTR_OTHER nat

datatype dn_sai_hash_type_t =
    DN_SAI_ECMP_NON_IP_HASH
  | DN_SAI_LAG_NON_IP_HASH
  | DN_SAI_ECMP_IPV4_HASH
  | DN_SAI_ECMP_IPV4_IN_IPV4_HASH
  | DN_SAI_ECMP_IPV6_HASH
  | DN_SAI_LAG_IPV4_HASH
  | DN_SAI_LAG_IPV4_IN_IPV4_HASH
  | DN_SAI_LAG_IPV6_HASH

definition dn_switch_hash_attr_id :: "switch_attr_t list" where
  "dn_switch_hash_attr_id =
    [SAI_SWITCH_ATTR_ECMP_HASH, SAI_SWITCH_ATTR_LAG_HASH, SAI_SWITCH_ATTR_ECMP_HASH_IPV4,
     SAI_SWITCH_ATTR_ECMP_HASH_IPV4_IN_IPV4, SAI_SWITCH_ATTR_ECMP_HASH_IPV6, SAI_SWITCH_ATTR_LAG_HASH_IPV4,
     SAI_SWITCH_ATTR_LAG_HASH_IPV4_IN_IPV4, SAI_SWITCH_ATTR_LAG_HASH_IPV6]"

definition dn_sai_hash_obj_types :: "dn_sai_hash_type_t list" where
  "dn_sai_hash_obj_types =
    [DN_SAI_ECMP_NON_IP_HASH, DN_SAI_LAG_NON_IP_HASH, DN_SAI_ECMP_IPV4_HASH, DN_SAI_ECMP_IPV4_IN_IPV4_HASH,
     DN_SAI_ECMP_IPV6_HASH, DN_SAI_LAG_IPV4_HASH, DN_SAI_LAG_IPV4_IN_IPV4_HASH, DN_SAI_LAG_IPV6_HASH]"

definition DN_SAI_MAX_HASH_INDEX :: nat where
  "DN_SAI_MAX_HASH_INDEX = 256"

section \<open>State and environment\<close>

text \<open>\<open>dn_sai_hash_obj_db_t\<close> with the memory and the UDF module.  A set bit of the bitmap is a free index.\<close>

record hash_state =
  hash_udf :: udf_state
  hash_obj_tree :: "(sai_object_id_t, hash_addr) rbtree_handle"
  hash_obj_types :: "dn_sai_hash_type_t \<Rightarrow> hash_addr option"
  hash_index_bitmap :: "bool list option"
  hash_init_complete :: bool
  hash_mem :: "hash_addr \<Rightarrow> dn_sai_hash_object_t option"
  hash_lock_depth :: int
  hash_fault :: bool

text \<open>\<open>translate\<close> looks a value up in two parallel arrays; \<open>std_find_first_bit\<close> gives the first bit that is set.\<close>

record 'w hash_env = "'w udf_env" +
  hash_calloc :: "(hash_addr \<Rightarrow> bool) \<Rightarrow> 'w \<Rightarrow> hash_addr option \<times> 'w"
  hash_attribute_validate ::
    "hash_attr_id_t list \<Rightarrow> hash_attr_id_t dn_sai_attribute_entry_t list \<Rightarrow> dn_sai_operations_t \<Rightarrow> sai_status_t"
  translate :: "switch_attr_t list \<Rightarrow> dn_sai_hash_type_t list \<Rightarrow> switch_attr_t \<Rightarrow> dn_sai_hash_type_t
     \<Rightarrow> dn_sai_hash_type_t"
  std_bitmap_create_array :: "nat \<Rightarrow> 'w \<Rightarrow> bool list option \<times> 'w"
  std_find_first_bit :: "bool list \<Rightarrow> nat option"
  sai_uoid_npu_obj_id_get :: "sai_object_id_t \<Rightarrow> sai_npu_object_id_t"
  sai_switch_default_native_hash_fields_get :: "'w \<Rightarrow> sai_status_t \<times> int sai_list_t \<times> 'w"
  npu_switch_hash_fields_set ::
    "switch_attr_t \<Rightarrow> int list \<Rightarrow> sai_object_id_t list \<Rightarrow> 'w \<Rightarrow> sai_status_t \<times> 'w"

definition dn_sai_hash_lock :: "hash_state \<Rightarrow> hash_state" where
  "dn_sai_hash_lock s = s\<lparr>hash_lock_depth := hash_lock_depth s + 1\<rparr>"

definition dn_sai_hash_unlock :: "hash_state \<Rightarrow> hash_state" where
  "dn_sai_hash_unlock s = s\<lparr>hash_lock_depth := hash_lock_depth s - 1\<rparr>"

definition hash_crash :: "hash_state \<Rightarrow> hash_state" where
  "hash_crash s = s\<lparr>hash_fault := True\<rparr>"

definition hash_write :: "hash_addr \<Rightarrow> dn_sai_hash_object_t \<Rightarrow> hash_state \<Rightarrow> hash_state" where
  "hash_write a h s = s\<lparr>hash_mem := (hash_mem s)(a \<mapsto> h)\<rparr>"

definition hash_update :: "hash_addr \<Rightarrow> (dn_sai_hash_object_t \<Rightarrow> dn_sai_hash_object_t) \<Rightarrow> hash_state \<Rightarrow> hash_state" where
  "hash_update a f s = (case hash_mem s a of None \<Rightarrow> hash_crash s | Some h \<Rightarrow> hash_write a (f h) s)"

definition hash_node_zero :: dn_sai_hash_object_t where
  \<comment> \<open>what \<open>calloc\<close> gives\<close>
  "hash_node_zero = \<lparr>hash_obj_id = 0, native_fields_list = [], udf_group_list = [], hash_ref_count = 0\<rparr>"

definition dn_sai_hash_obj_node_free :: "hash_addr \<Rightarrow> hash_state \<Rightarrow> hash_state" where
  "dn_sai_hash_obj_node_free a s =
    (if hash_mem s a = None then hash_crash s else s\<lparr>hash_mem := (hash_mem s)(a := None)\<rparr>)"

definition dn_sai_hash_is_obj_used :: "dn_sai_hash_object_t \<Rightarrow> bool" where
  "dn_sai_hash_is_obj_used h \<longleftrightarrow> hash_ref_count h \<noteq> 0"

section \<open>Switch attributes and types\<close>

definition dn_sai_switch_attr_id_to_hash_type ::
  "('w, 'z) hash_env_scheme \<Rightarrow> switch_attr_t \<Rightarrow> dn_sai_hash_type_t" where
  "dn_sai_switch_attr_id_to_hash_type E attr =
     translate E dn_switch_hash_attr_id dn_sai_hash_obj_types attr DN_SAI_ECMP_NON_IP_HASH"

definition dn_sai_switch_attr_hash_obj_get ::
  "('w, 'z) hash_env_scheme \<Rightarrow> switch_attr_t \<Rightarrow> hash_state \<Rightarrow> hash_addr option" where
  "dn_sai_switch_attr_hash_obj_get E attr s = hash_obj_types s (dn_sai_switch_attr_id_to_hash_type E attr)"

definition dn_sai_switch_attr_hash_obj_set ::
  "('w, 'z) hash_env_scheme \<Rightarrow> switch_attr_t \<Rightarrow> hash_addr option \<Rightarrow> hash_state \<Rightarrow> hash_state" where
  "dn_sai_switch_attr_hash_obj_set E attr p s =
     s\<lparr>hash_obj_types := (hash_obj_types s)(dn_sai_switch_attr_id_to_hash_type E attr := p)\<rparr>"

definition dn_sai_hash_obj_node_get :: "hash_state \<Rightarrow> sai_object_id_t \<Rightarrow> hash_addr option" where
  "dn_sai_hash_obj_node_get s i = rb_getexact (hash_obj_tree s) i"

section \<open>Attributes of a hash object\<close>

definition dn_sai_hash_attr :: "hash_attr_id_t dn_sai_attribute_entry_t list" where
  "dn_sai_hash_attr = map (\<lambda>i. \<lparr>ae_id = i, mandatory_on_create = False, valid_for_create = True,
     valid_for_set = True, valid_for_get = True, is_implemented = True, is_supported = True\<rparr>)
     [NATIVE_FIELD_LIST_ID, UDF_GROUP_LIST_ID]"

text \<open>The kind of the operation is not passed on.\<close>

definition dn_sai_hash_attr_list_validate ::
  "('w, 'z) hash_env_scheme \<Rightarrow> hash_attr_id_t list \<Rightarrow> dn_sai_operations_t \<Rightarrow> sai_status_t" where
  "dn_sai_hash_attr_list_validate E ids op_type = hash_attribute_validate E ids dn_sai_hash_attr SAI_OP_CREATE"

text \<open>The setters work on the fields of one node; a flag says that an assertion failed or that the
  caller's list was read beyond its end.\<close>

definition dn_sai_hash_native_field_list_set ::
  "('w, 'z) hash_env_scheme \<Rightarrow> dn_sai_hash_object_t \<Rightarrow> int sai_list_t \<Rightarrow> hash_state \<Rightarrow> 'w
     \<Rightarrow> sai_status_t \<times> dn_sai_hash_object_t \<times> hash_state \<times> 'w" where
  "dn_sai_hash_native_field_list_set E h l s w =
    (if sl_count l = 0 then (SAI_STATUS_SUCCESS, h\<lparr>native_fields_list := []\<rparr>, s, w)
     else case list_arg l of
       None \<Rightarrow> (SAI_STATUS_FAILURE, h, hash_crash s, w)
     | Some xs \<Rightarrow> let (ok, w) = calloc_ok E w in
         if \<not> ok then (SAI_STATUS_NO_MEMORY, h, s, w)
         else (SAI_STATUS_SUCCESS, h\<lparr>native_fields_list := xs\<rparr>, s, w))"

fun udf_group_list_validate_loop ::
  "('w, 'z) hash_env_scheme \<Rightarrow> sai_object_id_t list \<Rightarrow> udf_state \<Rightarrow> bool \<times> udf_state" where
  "udf_group_list_validate_loop E [] s = (True, s)"
| "udf_group_list_validate_loop E (i # is) s =
    (if \<not> sai_is_obj_id E SAI_OBJECT_TYPE_UDF_GROUP i then (False, s)
     else let (status, ty, s) = dn_sai_udf_group_type_get E i s in
       if status \<noteq> SAI_STATUS_SUCCESS \<or> ty \<noteq> Some SAI_UDF_GROUP_TYPE_HASH then (False, s)
       else udf_group_list_validate_loop E is s)"

definition dn_sai_hash_udf_group_list_validate ::
  "('w, 'z) hash_env_scheme \<Rightarrow> sai_object_id_t list \<Rightarrow> hash_state \<Rightarrow> bool \<times> hash_state" where
  "dn_sai_hash_udf_group_list_validate E is s =
    (let (ok, u) = udf_group_list_validate_loop E is (hash_udf s) in (ok, s\<lparr>hash_udf := u\<rparr>))"

definition dn_sai_hash_udf_group_list_set ::
  "('w, 'z) hash_env_scheme \<Rightarrow> dn_sai_hash_object_t \<Rightarrow> sai_object_id_t sai_list_t \<Rightarrow> hash_state \<Rightarrow> 'w
     \<Rightarrow> sai_status_t \<times> dn_sai_hash_object_t \<times> hash_state \<times> 'w" where
  "dn_sai_hash_udf_group_list_set E h l s w =
    (if sl_count l = 0 then (SAI_STATUS_SUCCESS, h\<lparr>udf_group_list := []\<rparr>, s, w)
     else case list_arg l of
       None \<Rightarrow> (SAI_STATUS_FAILURE, h, hash_crash s, w)
     | Some xs \<Rightarrow> let (valid, s) = dn_sai_hash_udf_group_list_validate E xs s in
         if \<not> valid then (SAI_STATUS_INVALID_ATTR_VALUE 0, h, s, w)
         else let (ok, w) = calloc_ok E w in
           if \<not> ok then (SAI_STATUS_NO_MEMORY, h, s, w)
           else (SAI_STATUS_SUCCESS, h\<lparr>udf_group_list := xs\<rparr>, s, w))"

fun hash_attribute_accept ::
  "('w, 'z) hash_env_scheme \<Rightarrow> sai_hash_attr_t \<Rightarrow> dn_sai_hash_object_t \<Rightarrow> hash_state \<Rightarrow> 'w
     \<Rightarrow> sai_status_t \<times> dn_sai_hash_object_t \<times> hash_state \<times> 'w" where
  "hash_attribute_accept E (SAI_HASH_ATTR_NATIVE_HASH_FIELD_LIST l) h s w =
     dn_sai_hash_native_field_list_set E h l s w"
| "hash_attribute_accept E (SAI_HASH_ATTR_UDF_GROUP_LIST l) h s w = dn_sai_hash_udf_group_list_set E h l s w"
| "hash_attribute_accept E (SAI_HASH_ATTR_UNKNOWN n) h s w = (SAI_STATUS_SUCCESS, h, s, w)"

fun hash_attr_set_loop ::
  "('w, 'z) hash_env_scheme \<Rightarrow> nat \<Rightarrow> sai_hash_attr_t list \<Rightarrow> dn_sai_hash_object_t \<Rightarrow> hash_state \<Rightarrow> 'w
     \<Rightarrow> sai_status_t \<times> dn_sai_hash_object_t \<times> hash_state \<times> 'w" where
  "hash_attr_set_loop E attr_idx [] h s w = (SAI_STATUS_SUCCESS, h, s, w)"
| "hash_attr_set_loop E attr_idx (a # as) h s w =
    (let (status, h, s, w) = hash_attribute_accept E a h s w in
     if status \<noteq> SAI_STATUS_SUCCESS then (sai_get_indexed_ret_val E status attr_idx, h, s, w)
     else hash_attr_set_loop E (Suc attr_idx) as h s w)"

definition dn_sai_hash_attr_set ::
  "('w, 'z) hash_env_scheme \<Rightarrow> hash_addr \<Rightarrow> sai_hash_attr_t list \<Rightarrow> hash_state \<Rightarrow> 'w
     \<Rightarrow> sai_status_t \<times> hash_state \<times> 'w" where
  "dn_sai_hash_attr_set E a attrs s w =
    (case hash_mem s a of
       None \<Rightarrow> (SAI_STATUS_FAILURE, hash_crash s, w)
     | Some h \<Rightarrow> let (status, h, s, w) = hash_attr_set_loop E 0 attrs h s w in (status, hash_write a h s, w))"

end
