(* ===== verification/Hash_Calls.thy ===== *)
theory Hash_Calls
  imports Hash_Model
begin

text \<open>
  The calls of hash objects and of the switch attributes that select them, and the initialisation
  of the module (\<open>src/hash/sai_hash_obj.c\<close>).
\<close>

section \<open>Creation and removal\<close>

text \<open>When the tree refuses the node the status is still a success.\<close>

definition hash_create_body ::
  "('w, 'z) hash_env_scheme \<Rightarrow> hash_addr \<Rightarrow> nat \<Rightarrow> sai_hash_attr_t list \<Rightarrow> hash_state \<Rightarrow> 'w
     \<Rightarrow> sai_status_t \<times> hash_state \<times> 'w" where
  "hash_create_body E a hash_index attrs s w =
    (let (status, s, w) = dn_sai_hash_attr_set E a attrs s w in
     if status \<noteq> SAI_STATUS_SUCCESS then (status, s, w)
     else let i = sai_uoid_create E SAI_OBJECT_TYPE_HASH (of_nat hash_index);
              s = hash_update a (\<lambda>h. h\<lparr>hash_obj_id := i\<rparr>) s;
              (ok, t, w) = std_rbtree_insert E (hash_obj_tree s) i a w
          in (status, s\<lparr>hash_obj_tree := t\<rparr>, w))"

definition dn_sai_hash_obj_create ::
  "('w, 'z) hash_env_scheme \<Rightarrow> sai_hash_attr_t list \<Rightarrow> hash_state \<Rightarrow> 'w
     \<Rightarrow> sai_status_t \<times> sai_object_id_t option \<times> hash_state \<times> 'w" where
  "dn_sai_hash_obj_create E attrs s w =
    (let status = dn_sai_hash_attr_list_validate E (map hash_attr_id attrs) SAI_OP_CREATE in
     if status \<noteq> SAI_STATUS_SUCCESS then (status, None, s, w)
     else case hash_index_bitmap s of
       None \<Rightarrow> (SAI_STATUS_FAILURE, None, hash_crash s, w)
     | Some bits \<Rightarrow> (case std_find_first_bit E bits of
         None \<Rightarrow> (SAI_STATUS_INSUFFICIENT_RESOURCES, None, s, w)
       | Some hash_index \<Rightarrow> let (p, w) = hash_calloc E (\<lambda>a. hash_mem s a \<noteq> None) w in
           case p of
             None \<Rightarrow> (SAI_STATUS_NO_MEMORY, None, s, w)
           | Some a \<Rightarrow>
             let s = dn_sai_hash_lock (hash_write a hash_node_zero s);
                 (status, s, w) = hash_create_body E a hash_index attrs s w;
                 s = dn_sai_hash_unlock s in
             if status \<noteq> SAI_STATUS_SUCCESS then (status, None, dn_sai_hash_obj_node_free a s, w)
             else case hash_mem s a of
               None \<Rightarrow> (status, None, hash_crash s, w)
             | Some h \<Rightarrow> (status, Some (hash_obj_id h),
                 s\<lparr>hash_index_bitmap := Some (bits[hash_index := False])\<rparr>, w)))"

definition hash_remove_body ::
  "('w, 'z) hash_env_scheme \<Rightarrow> sai_object_id_t \<Rightarrow> hash_state \<Rightarrow> sai_status_t \<times> hash_state" where
  "hash_remove_body E i s =
    (case dn_sai_hash_obj_node_get s i of
       None \<Rightarrow> (SAI_STATUS_INVALID_OBJECT_ID, s)
     | Some a \<Rightarrow> (case hash_mem s a of
         None \<Rightarrow> (SAI_STATUS_FAILURE, hash_crash s)
       | Some h \<Rightarrow>
         if dn_sai_hash_is_obj_used h then (SAI_STATUS_OBJECT_IN_USE, s)
         else let tmp = rb_getexact (hash_obj_tree s) (hash_obj_id h);
                  s = s\<lparr>hash_obj_tree := rb_remove (hash_obj_tree s) (hash_obj_id h)\<rparr> in
           if tmp \<noteq> Some a then (SAI_STATUS_FAILURE, s)
         else let n = unat (sai_uoid_npu_obj_id_get E i) in
           (case hash_index_bitmap s of
              None \<Rightarrow> (SAI_STATUS_FAILURE, hash_crash s)
            | Some bits \<Rightarrow>
              if n < length bits
              then (SAI_STATUS_SUCCESS,
                dn_sai_hash_obj_node_free a (s\<lparr>hash_index_bitmap := Some (bits[n := True])\<rparr>))
              else (SAI_STATUS_FAILURE, hash_crash s))))"

definition dn_sai_hash_obj_remove ::
  "('w, 'z) hash_env_scheme \<Rightarrow> sai_object_id_t \<Rightarrow> hash_state \<Rightarrow> sai_status_t \<times> hash_state" where
  "dn_sai_hash_obj_remove E i s =
    (if \<not> sai_is_obj_id E SAI_OBJECT_TYPE_HASH i then (SAI_STATUS_INVALID_OBJECT_TYPE, s)
     else let (status, s) = hash_remove_body E i (dn_sai_hash_lock s) in (status, dn_sai_hash_unlock s))"

section \<open>Applying an attribute to the hardware\<close>

text \<open>\<open>status\<close> is \<open>None\<close> until the loop assigns it; the loop stops at the first refusal.\<close>

fun hash_set_in_hw_loop ::
  "('w, 'z) hash_env_scheme \<Rightarrow> hash_addr \<Rightarrow> int list \<Rightarrow> sai_object_id_t list \<Rightarrow> hash_state
     \<Rightarrow> switch_attr_t list \<Rightarrow> nat \<Rightarrow> sai_status_t option \<Rightarrow> bool \<Rightarrow> 'w
     \<Rightarrow> sai_status_t option \<times> nat \<times> bool \<times> 'w" where
  "hash_set_in_hw_loop E a nf ug s [] index status is_set w = (status, index, is_set, w)"
| "hash_set_in_hw_loop E a nf ug s (attr # attrs) index status is_set w =
    (if dn_sai_switch_attr_hash_obj_get E attr s = Some a
     then let (st, w) = npu_switch_hash_fields_set E attr nf ug w in
       if st \<noteq> SAI_STATUS_SUCCESS then (Some st, index, is_set, w)
       else hash_set_in_hw_loop E a nf ug s attrs (Suc index) (Some st) True w
     else hash_set_in_hw_loop E a nf ug s attrs (Suc index) status is_set w)"

fun hash_clnup_loop ::
  "('w, 'z) hash_env_scheme \<Rightarrow> hash_addr \<Rightarrow> int list \<Rightarrow> sai_object_id_t list \<Rightarrow> hash_state
     \<Rightarrow> switch_attr_t list \<Rightarrow> 'w \<Rightarrow> 'w" where
  "hash_clnup_loop E a nf ug s [] w = w"
| "hash_clnup_loop E a nf ug s (attr # attrs) w =
    hash_clnup_loop E a nf ug s attrs
      (if dn_sai_switch_attr_hash_obj_get E attr s = Some a
       then snd (npu_switch_hash_fields_set E attr nf ug w) else w)"

text \<open>\<open>None\<close> for a list that is NULL; the plug-in is handed the caller's list as it is.\<close>

definition hash_hw_lists :: "dn_sai_hash_object_t \<Rightarrow> sai_hash_attr_t \<Rightarrow> (int list \<times> sai_object_id_t list) option" where
  "hash_hw_lists h attr = (case attr of
       SAI_HASH_ATTR_NATIVE_HASH_FIELD_LIST l \<Rightarrow>
         (if sl_count l = 0 then Some ([], udf_group_list h)
          else map_option (\<lambda>xs. (xs, udf_group_list h)) (list_arg l))
     | SAI_HASH_ATTR_UDF_GROUP_LIST l \<Rightarrow>
         (if sl_count l = 0 then Some (native_fields_list h, [])
          else map_option (\<lambda>xs. (native_fields_list h, xs)) (list_arg l))
     | SAI_HASH_ATTR_UNKNOWN n \<Rightarrow> Some ([], []))"

definition dn_sai_hash_obj_set_in_hw ::
  "('w, 'z) hash_env_scheme \<Rightarrow> hash_addr \<Rightarrow> dn_sai_hash_object_t \<Rightarrow> sai_hash_attr_t \<Rightarrow> hash_state \<Rightarrow> 'w
     \<Rightarrow> sai_status_t \<times> hash_state \<times> 'w" where
  "dn_sai_hash_obj_set_in_hw E a h attr s w =
    (case attr of
       SAI_HASH_ATTR_UNKNOWN n \<Rightarrow> (SAI_STATUS_UNKNOWN_ATTRIBUTE 0, s, w)
     | _ \<Rightarrow> (case hash_hw_lists h attr of
         None \<Rightarrow> (SAI_STATUS_FAILURE, hash_crash s, w)
       | Some (nf, ug) \<Rightarrow>
         let (status, index, is_set, w) = hash_set_in_hw_loop E a nf ug s dn_switch_hash_attr_id 0 None False w in
         case status of
           None \<Rightarrow> (SAI_STATUS_FAILURE, hash_crash s, w)
         | Some st \<Rightarrow>
           if st = SAI_STATUS_SUCCESS then (st, s, w)
           else (st, s, if is_set
             then hash_clnup_loop E a (native_fields_list h) (udf_group_list h) s
                    (take index dn_switch_hash_attr_id) w
             else w)))"

text \<open>\<open>Inl\<close> is the return that does not release the lock.\<close>

definition hash_set_body ::
  "('w, 'z) hash_env_scheme \<Rightarrow> sai_object_id_t \<Rightarrow> sai_hash_attr_t \<Rightarrow> hash_state \<Rightarrow> 'w
     \<Rightarrow> (sai_status_t + sai_status_t) \<times> hash_state \<times> 'w" where
  "hash_set_body E i attr s w =
    (case dn_sai_hash_obj_node_get s i of
       None \<Rightarrow> (Inr SAI_STATUS_INVALID_OBJECT_ID, s, w)
     | Some a \<Rightarrow>
       let (early, s) = (case attr of
           SAI_HASH_ATTR_UDF_GROUP_LIST l \<Rightarrow>
             (case sl_list l of
                None \<Rightarrow> (Some SAI_STATUS_FAILURE, hash_crash s)
              | Some xs \<Rightarrow> if unat (sl_count l) \<le> length xs
                  then let (valid, s) = dn_sai_hash_udf_group_list_validate E (take (unat (sl_count l)) xs) s
                       in (if valid then None else Some (SAI_STATUS_INVALID_ATTR_VALUE 0), s)
                  else (Some SAI_STATUS_FAILURE, hash_crash s))
         | _ \<Rightarrow> (None, s)) in
       case early of
         Some st \<Rightarrow> (Inl st, s, w)
       | None \<Rightarrow> (case hash_mem s a of
           None \<Rightarrow> (Inr SAI_STATUS_FAILURE, hash_crash s, w)
         | Some h \<Rightarrow>
           let (status, s, w) = (if dn_sai_hash_is_obj_used h then dn_sai_hash_obj_set_in_hw E a h attr s w
                                 else (SAI_STATUS_SUCCESS, s, w)) in
           if status \<noteq> SAI_STATUS_SUCCESS then (Inr status, s, w)
           else let (status, s, w) = dn_sai_hash_attr_set E a [attr] s w in (Inr status, s, w)))"

definition dn_sai_hash_obj_set_attr ::
  "('w, 'z) hash_env_scheme \<Rightarrow> sai_object_id_t \<Rightarrow> sai_hash_attr_t \<Rightarrow> hash_state \<Rightarrow> 'w
     \<Rightarrow> sai_status_t \<times> hash_state \<times> 'w" where
  "dn_sai_hash_obj_set_attr E i attr s w =
    (if \<not> sai_is_obj_id E SAI_OBJECT_TYPE_HASH i then (SAI_STATUS_INVALID_OBJECT_TYPE, s, w)
     else let status = dn_sai_hash_attr_list_validate E [hash_attr_id attr] SAI_OP_SET in
       if status \<noteq> SAI_STATUS_SUCCESS then (status, s, w)
     else let (r, s, w) = hash_set_body E i attr (dn_sai_hash_lock s) w in
       case r of Inl status \<Rightarrow> (status, s, w) | Inr status \<Rightarrow> (status, dn_sai_hash_unlock s, w))"

section \<open>Reading\<close>

text \<open>A list of the node is copied to the caller's buffer; \<open>None\<close> when that is NULL or too short.\<close>

definition hash_list_out :: "'a list \<Rightarrow> 'a sai_list_t \<Rightarrow> (sai_status_t \<times> 'a sai_list_t) option" where
  "hash_list_out xs l =
    (if sl_count l < of_nat (length xs)
     then Some (SAI_STATUS_BUFFER_OVERFLOW, l\<lparr>sl_count := of_nat (length xs)\<rparr>)
     else if xs = [] then Some (SAI_STATUS_SUCCESS, l\<lparr>sl_count := 0\<rparr>)
     else case sl_list l of
       None \<Rightarrow> None
     | Some buf \<Rightarrow> if length xs \<le> length buf
         then Some (SAI_STATUS_SUCCESS, \<lparr>sl_count = of_nat (length xs), sl_list = Some (xs @ drop (length xs) buf)\<rparr>)
         else None)"

fun hash_attribute_answer ::
  "dn_sai_hash_object_t \<Rightarrow> sai_hash_attr_t \<Rightarrow> hash_state \<Rightarrow> sai_status_t \<times> sai_hash_attr_t \<times> hash_state" where
  "hash_attribute_answer h (SAI_HASH_ATTR_NATIVE_HASH_FIELD_LIST l) s =
     (case hash_list_out (native_fields_list h) l of
        None \<Rightarrow> (SAI_STATUS_FAILURE, SAI_HASH_ATTR_NATIVE_HASH_FIELD_LIST l, hash_crash s)
      | Some (st, l) \<Rightarrow> (st, SAI_HASH_ATTR_NATIVE_HASH_FIELD_LIST l, s))"
| "hash_attribute_answer h (SAI_HASH_ATTR_UDF_GROUP_LIST l) s =
     (case hash_list_out (udf_group_list h) l of
        None \<Rightarrow> (SAI_STATUS_FAILURE, SAI_HASH_ATTR_UDF_GROUP_LIST l, hash_crash s)
      | Some (st, l) \<Rightarrow> (st, SAI_HASH_ATTR_UDF_GROUP_LIST l, s))"
| "hash_attribute_answer h (SAI_HASH_ATTR_UNKNOWN n) s = (SAI_STATUS_SUCCESS, SAI_HASH_ATTR_UNKNOWN n, s)"

fun dn_sai_hash_attr_get ::
  "('w, 'z) hash_env_scheme \<Rightarrow> dn_sai_hash_object_t \<Rightarrow> nat \<Rightarrow> sai_hash_attr_t list \<Rightarrow> hash_state
     \<Rightarrow> sai_status_t \<times> sai_hash_attr_t list \<times> hash_state" where
  "dn_sai_hash_attr_get E h attr_idx [] s = (SAI_STATUS_SUCCESS, [], s)"
| "dn_sai_hash_attr_get E h attr_idx (a # as) s =
    (let (status, a, s) = hash_attribute_answer h a s in
     if status \<noteq> SAI_STATUS_SUCCESS then (sai_get_indexed_ret_val E status attr_idx, a # as, s)
     else let (status, as, s) = dn_sai_hash_attr_get E h (Suc attr_idx) as s in (status, a # as, s))"

definition dn_sai_hash_obj_get_attr ::
  "('w, 'z) hash_env_scheme \<Rightarrow> sai_object_id_t \<Rightarrow> sai_hash_attr_t list \<Rightarrow> hash_state
     \<Rightarrow> sai_status_t \<times> sai_hash_attr_t list \<times> hash_state" where
  "dn_sai_hash_obj_get_attr E i attrs s =
    (if \<not> sai_is_obj_id E SAI_OBJECT_TYPE_HASH i then (SAI_STATUS_INVALID_OBJECT_TYPE, attrs, s)
     else let status = dn_sai_hash_attr_list_validate E (map hash_attr_id attrs) SAI_OP_GET in
       if status \<noteq> SAI_STATUS_SUCCESS then (status, attrs, s)
     else let s = dn_sai_hash_lock s;
              (status, attrs, s) = (case dn_sai_hash_obj_node_get s i of
                  None \<Rightarrow> (SAI_STATUS_INVALID_OBJECT_ID, attrs, s)
                | Some a \<Rightarrow> (case hash_mem s a of
                    None \<Rightarrow> (SAI_STATUS_FAILURE, attrs, hash_crash s)
                  | Some h \<Rightarrow> dn_sai_hash_attr_get E h 0 attrs s))
          in (status, attrs, dn_sai_hash_unlock s))"

section \<open>Switch attributes\<close>

definition hash_switch_attr_select ::
  "('w, 'z) hash_env_scheme \<Rightarrow> switch_attr_t \<Rightarrow> hash_addr option \<Rightarrow> hash_state \<Rightarrow> hash_state" where
  "hash_switch_attr_select E attr p s =
    (let s = (case dn_sai_switch_attr_hash_obj_get E attr s of
                None \<Rightarrow> s
              | Some old \<Rightarrow> hash_update old (\<lambda>h. h\<lparr>hash_ref_count := hash_ref_count h - 1\<rparr>) s);
         s = dn_sai_switch_attr_hash_obj_set E attr p s
     in case p of
          None \<Rightarrow> s
        | Some a \<Rightarrow> hash_update a (\<lambda>h. h\<lparr>hash_ref_count := hash_ref_count h + 1\<rparr>) s)"

definition dn_sai_switch_hash_attr_set ::
  "('w, 'z) hash_env_scheme \<Rightarrow> switch_attr_t \<Rightarrow> sai_object_id_t \<Rightarrow> hash_state \<Rightarrow> 'w
     \<Rightarrow> sai_status_t \<times> hash_state \<times> 'w" where
  "dn_sai_switch_hash_attr_set E attr i s w =
    (let s = dn_sai_hash_lock s in
     if i \<noteq> SAI_NULL_OBJECT_ID \<and> \<not> sai_is_obj_id E SAI_OBJECT_TYPE_HASH i
     then (SAI_STATUS_INVALID_OBJECT_TYPE, s, w)
     else let p = (if i = SAI_NULL_OBJECT_ID then None else dn_sai_hash_obj_node_get s i) in
       if i \<noteq> SAI_NULL_OBJECT_ID \<and> p = None then (SAI_STATUS_INVALID_OBJECT_ID, dn_sai_hash_unlock s, w)
     else case (p, Option.bind p (hash_mem s)) of
       (Some a, None) \<Rightarrow> (SAI_STATUS_FAILURE, dn_sai_hash_unlock (hash_crash s), w)
     | (_, node) \<Rightarrow>
       let (nf, ug) = (case node of None \<Rightarrow> ([], []) | Some h \<Rightarrow> (native_fields_list h, udf_group_list h));
           (status, w) = npu_switch_hash_fields_set E attr nf ug w in
       if status \<noteq> SAI_STATUS_SUCCESS then (status, dn_sai_hash_unlock s, w)
       else (status, dn_sai_hash_unlock (hash_switch_attr_select E attr p s), w))"

definition dn_sai_switch_hash_attr_get ::
  "('w, 'z) hash_env_scheme \<Rightarrow> switch_attr_t \<Rightarrow> hash_state \<Rightarrow> sai_status_t \<times> sai_object_id_t \<times> hash_state" where
  "dn_sai_switch_hash_attr_get E attr s =
    (let s = dn_sai_hash_lock s in
     case dn_sai_switch_attr_hash_obj_get E attr s of
       None \<Rightarrow> (SAI_STATUS_SUCCESS, SAI_NULL_OBJECT_ID, dn_sai_hash_unlock s)
     | Some a \<Rightarrow> (case hash_mem s a of
         None \<Rightarrow> (SAI_STATUS_SUCCESS, SAI_NULL_OBJECT_ID, dn_sai_hash_unlock (hash_crash s))
       | Some h \<Rightarrow> (SAI_STATUS_SUCCESS, hash_obj_id h, dn_sai_hash_unlock s)))"

section \<open>Initialisation\<close>

definition dn_sai_hash_default_hash_obj_remove ::
  "('w, 'z) hash_env_scheme \<Rightarrow> switch_attr_t \<Rightarrow> hash_state \<Rightarrow> 'w \<Rightarrow> sai_status_t \<times> hash_state \<times> 'w" where
  "dn_sai_hash_default_hash_obj_remove E attr s w =
    (case dn_sai_switch_attr_hash_obj_get E attr s of
       None \<Rightarrow> (SAI_STATUS_SUCCESS, s, w)
     | Some a \<Rightarrow>
       let (status, s, w) = dn_sai_switch_hash_attr_set E attr SAI_NULL_OBJECT_ID s w in
       if status \<noteq> SAI_STATUS_SUCCESS then (status, s, w)
       else case hash_mem s a of
         None \<Rightarrow> (SAI_STATUS_FAILURE, hash_crash s, w)
       | Some h \<Rightarrow> let (status, s) = dn_sai_hash_obj_remove E (hash_obj_id h) s in (status, s, w))"

text \<open>The nodes of a tree that is destroyed are not freed; the globals are zeroed.\<close>

definition hash_db_zero :: "hash_state \<Rightarrow> hash_state" where
  "hash_db_zero s = s\<lparr>hash_obj_tree := None, hash_obj_types := Map.empty, hash_index_bitmap := None,
     hash_init_complete := False\<rparr>"

definition sai_hash_obj_deinit ::
  "('w, 'z) hash_env_scheme \<Rightarrow> hash_state \<Rightarrow> 'w \<Rightarrow> hash_state \<times> 'w" where
  "sai_hash_obj_deinit E s w =
    (let (s, w) = (if hash_init_complete s
           then let (_, s, w) = dn_sai_hash_default_hash_obj_remove E SAI_SWITCH_ATTR_ECMP_HASH s w;
                    (_, s, w) = dn_sai_hash_default_hash_obj_remove E SAI_SWITCH_ATTR_LAG_HASH s w in (s, w)
           else (s, w))
     in (hash_db_zero s, w))"

definition dn_sai_hash_default_hash_obj_create ::
  "('w, 'z) hash_env_scheme \<Rightarrow> switch_attr_t \<Rightarrow> hash_state \<Rightarrow> 'w \<Rightarrow> sai_status_t \<times> hash_state \<times> 'w" where
  "dn_sai_hash_default_hash_obj_create E attr s w =
    (let (status, fields, w) = sai_switch_default_native_hash_fields_get E w in
     if status \<noteq> SAI_STATUS_SUCCESS then (status, s, w)
     else let (status, out, s, w) = dn_sai_hash_obj_create E [SAI_HASH_ATTR_NATIVE_HASH_FIELD_LIST fields] s w in
       case (status, out) of
         (SAI_STATUS_SUCCESS, Some i) \<Rightarrow>
           let (status, s, w) = dn_sai_switch_hash_attr_set E attr i s w in
           if status \<noteq> SAI_STATUS_SUCCESS then let (_, s) = dn_sai_hash_obj_remove E i s in (status, s, w)
           else (status, s, w)
       | _ \<Rightarrow> (status, s, w))"

definition hash_init_body ::
  "('w, 'z) hash_env_scheme \<Rightarrow> hash_state \<Rightarrow> 'w \<Rightarrow> sai_status_t \<times> hash_state \<times> 'w" where
  "hash_init_body E s w =
    (let (ok, w) = rbtree_create_ok E w in
     if \<not> ok then (SAI_STATUS_UNINITIALIZED, s, w)
     else let s = s\<lparr>hash_obj_tree := Some fmempty\<rparr>;
              (bits, w) = std_bitmap_create_array E DN_SAI_MAX_HASH_INDEX w in
       if bits = None then (SAI_STATUS_UNINITIALIZED, s, w)
     else let s = s\<lparr>hash_index_bitmap := bits\<rparr>;
              (status, s, w) = dn_sai_hash_default_hash_obj_create E SAI_SWITCH_ATTR_ECMP_HASH s w in
       if status \<noteq> SAI_STATUS_SUCCESS then (status, s, w)
     else let (status, s, w) = dn_sai_hash_default_hash_obj_create E SAI_SWITCH_ATTR_LAG_HASH s w in
       if status \<noteq> SAI_STATUS_SUCCESS then (status, s, w)
     else (status, s\<lparr>hash_init_complete := True\<rparr>, w))"

definition sai_hash_obj_init ::
  "('w, 'z) hash_env_scheme \<Rightarrow> hash_state \<Rightarrow> 'w \<Rightarrow> sai_status_t \<times> hash_state \<times> 'w" where
  "sai_hash_obj_init E s w =
    (if hash_init_complete s then (SAI_STATUS_SUCCESS, s, w)
     else let (status, s, w) = hash_init_body E (hash_db_zero s) w in
       if status \<noteq> SAI_STATUS_SUCCESS then let (s, w) = sai_hash_obj_deinit E s w in (status, s, w)
       else (status, s, w))"

end
