(* ===== verification/Hash_Inv.thy ===== *)
theory Hash_Inv
  imports Hash_Calls
begin

text \<open>
  The invariant of the hash objects: the reference count of an object is the number of switch
  attributes that select it, no switch attribute points to a node that is gone, and the ids in use
  have their index reserved.  The effect of each call, as elimination rules.
\<close>

section \<open>Assumptions on the libraries\<close>

definition hash_calloc_law :: "('w, 'z) hash_env_scheme \<Rightarrow> bool" where
  "hash_calloc_law E \<longleftrightarrow> (\<forall>A w a w'. hash_calloc E A w = (Some a, w') \<longrightarrow> \<not> A a)"

definition translate_law :: "('w, 'z) hash_env_scheme \<Rightarrow> bool" where
  \<comment> \<open>the value at the position of the key in the first array, or the default\<close>
  "translate_law E \<longleftrightarrow> (\<forall>ks vs k d. length ks = length vs \<longrightarrow>
     translate E ks vs k d = (case map_of (zip ks vs) k of None \<Rightarrow> d | Some v \<Rightarrow> v))"

definition bitmap_law :: "('w, 'z) hash_env_scheme \<Rightarrow> bool" where
  "bitmap_law E \<longleftrightarrow>
     (\<forall>n w bits w'. std_bitmap_create_array E n w = (Some bits, w') \<longrightarrow> length bits = n)
     \<and> (\<forall>bits n. std_find_first_bit E bits = Some n \<longrightarrow> n < length bits \<and> bits ! n)"

definition hash_uoid_law :: "('w, 'z) hash_env_scheme \<Rightarrow> bool" where
  \<comment> \<open>the index can be read back from the id, which is of its type and not null\<close>
  "hash_uoid_law E \<longleftrightarrow> (\<forall>n < DN_SAI_MAX_HASH_INDEX.
     unat (sai_uoid_npu_obj_id_get E (sai_uoid_create E SAI_OBJECT_TYPE_HASH (of_nat n))) = n
     \<and> sai_is_obj_id E SAI_OBJECT_TYPE_HASH (sai_uoid_create E SAI_OBJECT_TYPE_HASH (of_nat n))
     \<and> sai_uoid_create E SAI_OBJECT_TYPE_HASH (of_nat n) \<noteq> SAI_NULL_OBJECT_ID)"

definition default_fields_law :: "('w, 'z) hash_env_scheme \<Rightarrow> bool" where
  "default_fields_law E \<longleftrightarrow> (\<forall>w st l w'. sai_switch_default_native_hash_fields_get E w = (st, l, w') \<longrightarrow>
     list_arg l \<noteq> None)"

definition hash_laws :: "('w, 'z) hash_env_scheme \<Rightarrow> bool" where
  "hash_laws E \<longleftrightarrow> udf_laws E \<and> hash_calloc_law E \<and> translate_law E \<and> bitmap_law E \<and> hash_uoid_law E
     \<and> default_fields_law E"

lemma hash_lawsD:
  assumes "hash_laws E"
  shows "udf_laws E"
    and "hash_calloc E A w = (Some a, w') \<Longrightarrow> \<not> A a"
    and "translate_law E"
    and "std_bitmap_create_array E n w = (Some bits, w') \<Longrightarrow> length bits = n"
    and "std_find_first_bit E bits' = Some k \<Longrightarrow> k < length bits' \<and> bits' ! k"
    and "k < DN_SAI_MAX_HASH_INDEX \<Longrightarrow>
      unat (sai_uoid_npu_obj_id_get E (sai_uoid_create E SAI_OBJECT_TYPE_HASH (of_nat k))) = k"
    and "sai_switch_default_native_hash_fields_get E w2 = (st, l, w3) \<Longrightarrow> list_arg l \<noteq> None"
  using assms unfolding hash_laws_def hash_calloc_law_def bitmap_law_def hash_uoid_law_def default_fields_law_def
  by blast+

section \<open>Switch attributes and types\<close>

lemma hash_type_eqs:
  assumes "translate_law E"
  shows "map (dn_sai_switch_attr_id_to_hash_type E) dn_switch_hash_attr_id = dn_sai_hash_obj_types"
  using assms
  by (simp add: translate_law_def dn_sai_switch_attr_id_to_hash_type_def dn_switch_hash_attr_id_def
      dn_sai_hash_obj_types_def)

lemma hash_types_all: "t \<in> set dn_sai_hash_obj_types"
  by (cases t) (simp_all add: dn_sai_hash_obj_types_def)

instance dn_sai_hash_type_t :: finite
proof
  have "(UNIV :: dn_sai_hash_type_t set) = set dn_sai_hash_obj_types" using hash_types_all by auto
  then show "finite (UNIV :: dn_sai_hash_type_t set)" by (metis List.finite_set)
qed

lemma hash_attr_of_type:
  assumes "translate_law E"
  obtains attr where "attr \<in> set dn_switch_hash_attr_id" "dn_sai_switch_attr_id_to_hash_type E attr = t"
proof -
  have "t \<in> set (map (dn_sai_switch_attr_id_to_hash_type E) dn_switch_hash_attr_id)"
    unfolding hash_type_eqs [OF assms] by (rule hash_types_all)
  then obtain attr where "attr \<in> set dn_switch_hash_attr_id" "t = dn_sai_switch_attr_id_to_hash_type E attr"
    by (auto simp only: set_map)
  then show thesis by (intro that) simp_all
qed

text \<open>How many types select the node at an address.\<close>

definition hash_uses :: "(dn_sai_hash_type_t \<Rightarrow> hash_addr option) \<Rightarrow> hash_addr \<Rightarrow> nat" where
  "hash_uses T a = card {t. T t = Some a}"

lemma hash_uses_le: "hash_uses T a \<le> 8"
proof -
  have "hash_uses T a \<le> card (UNIV :: dn_sai_hash_type_t set)"
    unfolding hash_uses_def by (rule card_mono) simp_all
  also have "(UNIV :: dn_sai_hash_type_t set) = set dn_sai_hash_obj_types" using hash_types_all by auto
  also have "card (set dn_sai_hash_obj_types) \<le> length dn_sai_hash_obj_types" by (rule card_length)
  finally show ?thesis by (simp add: dn_sai_hash_obj_types_def)
qed

lemma hash_uses_zero: "hash_uses T a = 0 \<longleftrightarrow> (\<forall>t. T t \<noteq> Some a)"
  by (auto simp: hash_uses_def)

lemma hash_uses_word_zero: "(of_nat (hash_uses T a) :: uint32_t) = 0 \<longleftrightarrow> (\<forall>t. T t \<noteq> Some a)"
proof -
  have "hash_uses T a < 2 ^ 32" using hash_uses_le [of T a] by simp
  then show ?thesis
    by (simp add: word_of_nat_eq_0_iff hash_uses_zero [symmetric]) (auto dest: nat_dvd_not_less)
qed

lemma hash_uses_update:
  "hash_uses (T(t := p)) a + (if T t = Some a then 1 else 0) = hash_uses T a + (if p = Some a then 1 else 0)"
proof -
  let ?R = "{x. x \<noteq> t \<and> T x = Some a}"
  have s: "{x. (T(t := p)) x = Some a} = (if p = Some a then insert t ?R else ?R)" by auto
  have o: "{x. T x = Some a} = (if T t = Some a then insert t ?R else ?R)" by auto
  show ?thesis unfolding hash_uses_def s o by simp
qed

section \<open>The invariant\<close>

definition hash_tree_ok :: "('w, 'z) hash_env_scheme \<Rightarrow> hash_state \<Rightarrow> bool" where
  "hash_tree_ok E s \<longleftrightarrow> hash_obj_tree s \<noteq> None \<and>
     (\<exists>bits. hash_index_bitmap s = Some bits \<and> length bits = DN_SAI_MAX_HASH_INDEX
        \<and> (\<forall>i a. rb_getexact (hash_obj_tree s) i = Some a \<longrightarrow>
             (\<exists>h n. hash_mem s a = Some h \<and> hash_obj_id h = i \<and> n < DN_SAI_MAX_HASH_INDEX
                \<and> i = sai_uoid_create E SAI_OBJECT_TYPE_HASH (of_nat n) \<and> \<not> bits ! n)))"

lemma hash_tree_okI:
  assumes "hash_obj_tree s = t" "t \<noteq> None" "hash_index_bitmap s = Some bits" "length bits = DN_SAI_MAX_HASH_INDEX"
    and "hash_mem s = M"
    and "\<And>i a. rb_getexact t i = Some a \<Longrightarrow> (\<exists>h n. M a = Some h \<and> hash_obj_id h = i \<and> n < DN_SAI_MAX_HASH_INDEX
           \<and> i = sai_uoid_create E SAI_OBJECT_TYPE_HASH (of_nat n) \<and> \<not> bits ! n)"
  shows "hash_tree_ok E s"
  using assms unfolding hash_tree_ok_def by metis

definition hash_types_ok :: "hash_state \<Rightarrow> bool" where
  "hash_types_ok s \<longleftrightarrow> (\<forall>t a. hash_obj_types s t = Some a \<longrightarrow>
     (\<exists>h. hash_mem s a = Some h \<and> rb_getexact (hash_obj_tree s) (hash_obj_id h) = Some a))"

definition hash_counts_ok :: "hash_state \<Rightarrow> bool" where
  "hash_counts_ok s \<longleftrightarrow> (\<forall>i a h. rb_getexact (hash_obj_tree s) i = Some a \<longrightarrow> hash_mem s a = Some h \<longrightarrow>
     hash_ref_count h = of_nat (hash_uses (hash_obj_types s) a))"

definition hash_inv :: "('w, 'z) hash_env_scheme \<Rightarrow> hash_state \<Rightarrow> bool" where
  "hash_inv E s \<longleftrightarrow> \<not> hash_fault s \<and> udf_inv (hash_udf s) \<and> hash_tree_ok E s \<and> hash_types_ok s \<and> hash_counts_ok s"

lemma hash_invD:
  assumes "hash_inv E s"
  shows "\<not> hash_fault s" "udf_inv (hash_udf s)" "hash_tree_ok E s" "hash_types_ok s" "hash_counts_ok s"
  using assms by (simp_all add: hash_inv_def)

lemma hash_nodeE:
  assumes "hash_inv E s" "rb_getexact (hash_obj_tree s) i = Some a"
  obtains h n bits where "hash_mem s a = Some h" "hash_obj_id h = i" "n < DN_SAI_MAX_HASH_INDEX"
    "i = sai_uoid_create E SAI_OBJECT_TYPE_HASH (of_nat n)" "hash_index_bitmap s = Some bits" "\<not> bits ! n"
    "length bits = DN_SAI_MAX_HASH_INDEX" "hash_ref_count h = of_nat (hash_uses (hash_obj_types s) a)"
  using assms unfolding hash_inv_def hash_tree_ok_def hash_counts_ok_def by blast

lemma hash_typeE:
  assumes "hash_inv E s" "hash_obj_types s t = Some a"
  obtains h where "hash_mem s a = Some h" "rb_getexact (hash_obj_tree s) (hash_obj_id h) = Some a"
  using assms unfolding hash_inv_def hash_types_ok_def by blast

lemma hash_countD:
  "hash_inv E s \<Longrightarrow> rb_getexact (hash_obj_tree s) i = Some a \<Longrightarrow> hash_mem s a = Some h \<Longrightarrow>
     hash_ref_count h = of_nat (hash_uses (hash_obj_types s) a)"
  unfolding hash_inv_def hash_counts_ok_def by blast

lemma hash_used_iff:
  assumes "hash_inv E s" "rb_getexact (hash_obj_tree s) i = Some a" "hash_mem s a = Some h"
  shows "dn_sai_hash_is_obj_used h \<longleftrightarrow> (\<exists>t. hash_obj_types s t = Some a)"
proof -
  have "hash_ref_count h = of_nat (hash_uses (hash_obj_types s) a)"
    using hash_invD(5) [OF assms(1)] assms(2,3) unfolding hash_counts_ok_def by blast
  then show ?thesis by (simp add: dn_sai_hash_is_obj_used_def hash_uses_word_zero)
qed

lemma hash_inv_lock [simp]:
  "hash_inv E (dn_sai_hash_lock s) = hash_inv E s" "hash_inv E (dn_sai_hash_unlock s) = hash_inv E s"
  by (simp_all add: hash_inv_def hash_tree_ok_def hash_types_ok_def hash_counts_ok_def dn_sai_hash_lock_def
      dn_sai_hash_unlock_def)

lemma hash_lock_unlock [simp]: "dn_sai_hash_unlock (dn_sai_hash_lock s) = s"
  by (simp add: dn_sai_hash_lock_def dn_sai_hash_unlock_def)

lemma hash_lock_fields [simp]:
  "hash_obj_tree (dn_sai_hash_lock s) = hash_obj_tree s" "hash_mem (dn_sai_hash_lock s) = hash_mem s"
  "hash_obj_types (dn_sai_hash_lock s) = hash_obj_types s" "hash_udf (dn_sai_hash_lock s) = hash_udf s"
  "hash_index_bitmap (dn_sai_hash_lock s) = hash_index_bitmap s"
  "hash_obj_tree (dn_sai_hash_unlock s) = hash_obj_tree s" "hash_mem (dn_sai_hash_unlock s) = hash_mem s"
  "hash_obj_types (dn_sai_hash_unlock s) = hash_obj_types s" "hash_udf (dn_sai_hash_unlock s) = hash_udf s"
  "hash_index_bitmap (dn_sai_hash_unlock s) = hash_index_bitmap s"
  by (simp_all add: dn_sai_hash_lock_def dn_sai_hash_unlock_def)

end
