(* ===== verification/Hash_Effects.thy ===== *)
theory Hash_Effects
  imports Hash_Inv
begin

text \<open>
  The effect of parsing attributes and of creating and removing a hash object, as equations and
  elimination rules over states that satisfy the invariant.
\<close>

section \<open>Parsing attributes\<close>

definition list_ok :: "'a sai_list_t \<Rightarrow> bool" where
  "list_ok l \<longleftrightarrow> sl_count l = 0 \<or> list_arg l \<noteq> None"

definition list_val :: "'a sai_list_t \<Rightarrow> 'a list" where
  "list_val l = (if sl_count l = 0 then [] else case list_arg l of None \<Rightarrow> [] | Some xs \<Rightarrow> xs)"

lemma list_val_arg: "list_arg l = Some xs \<Longrightarrow> list_val l = xs"
  by (auto simp: list_val_def list_arg_def split: option.splits if_splits)

fun hash_attr_ok :: "sai_hash_attr_t \<Rightarrow> bool" where
  "hash_attr_ok (SAI_HASH_ATTR_NATIVE_HASH_FIELD_LIST l) \<longleftrightarrow> list_ok l"
| "hash_attr_ok (SAI_HASH_ATTR_UDF_GROUP_LIST l) \<longleftrightarrow> list_ok l"
| "hash_attr_ok (SAI_HASH_ATTR_UNKNOWN n) \<longleftrightarrow> True"

text \<open>The lists of a node, and the lists with an attribute in place.\<close>

definition hash_lists :: "dn_sai_hash_object_t \<Rightarrow> int list \<times> sai_object_id_t list" where
  "hash_lists h = (native_fields_list h, udf_group_list h)"

fun hash_apply :: "sai_hash_attr_t \<Rightarrow> int list \<times> sai_object_id_t list \<Rightarrow> int list \<times> sai_object_id_t list" where
  "hash_apply (SAI_HASH_ATTR_NATIVE_HASH_FIELD_LIST l) (nf, ug) = (list_val l, ug)"
| "hash_apply (SAI_HASH_ATTR_UDF_GROUP_LIST l) (nf, ug) = (nf, list_val l)"
| "hash_apply (SAI_HASH_ATTR_UNKNOWN n) (nf, ug) = (nf, ug)"

text \<open>Which UDF groups may be listed: the known ones that are of the hash type.\<close>

definition udf_hash_group :: "('w, 'z) udf_env_scheme \<Rightarrow> udf_state \<Rightarrow> sai_object_id_t \<Rightarrow> bool" where
  "udf_hash_group E u i \<longleftrightarrow> sai_is_obj_id E SAI_OBJECT_TYPE_UDF_GROUP i
     \<and> (\<exists>g. Option.bind (rb_getexact (udf_group_tree u) i) (group_mem u) = Some g
          \<and> udf_group_type g = SAI_UDF_GROUP_TYPE_HASH)"

lemma udf_list_validate_eq:
  assumes "udf_inv u"
  shows "udf_group_list_validate_loop E is u = ((\<forall>i \<in> set is. udf_hash_group E u i), u)"
proof (induction "is")
  case (Cons i "is")
  show ?case
  proof (cases "Option.bind (rb_getexact (udf_group_tree u) i) (group_mem u)")
    case None
    then show ?thesis by (simp add: udf_group_type_get_effect [OF assms] udf_hash_group_def)
  next
    case (Some g)
    then show ?thesis using Cons by (simp add: udf_group_type_get_effect [OF assms] udf_hash_group_def)
  qed
qed simp

lemma hash_udf_list_validate_eq:
  "udf_inv (hash_udf s) \<Longrightarrow>
     dn_sai_hash_udf_group_list_validate E is s = ((\<forall>i \<in> set is. udf_hash_group E (hash_udf s) i), s)"
  by (simp add: dn_sai_hash_udf_group_list_validate_def udf_list_validate_eq)

lemma hash_accept_effect:
  assumes "hash_attribute_accept E a h s w = (st, h', s', w')" "udf_inv (hash_udf s)" "hash_attr_ok a"
  shows "s' = s \<and> hash_obj_id h' = hash_obj_id h \<and> hash_ref_count h' = hash_ref_count h
    \<and> (if st = SAI_STATUS_SUCCESS then hash_lists h' = hash_apply a (hash_lists h) else h' = h)"
proof (cases a)
  case (SAI_HASH_ATTR_NATIVE_HASH_FIELD_LIST l)
  show ?thesis
  proof (cases "sl_count l = 0")
    case True
    with assms SAI_HASH_ATTR_NATIVE_HASH_FIELD_LIST show ?thesis
      by (auto simp: dn_sai_hash_native_field_list_set_def hash_lists_def list_val_def)
  next
    case False
    with assms(3) SAI_HASH_ATTR_NATIVE_HASH_FIELD_LIST obtain xs where xs: "list_arg l = Some xs"
      by (auto simp: list_ok_def)
    from assms SAI_HASH_ATTR_NATIVE_HASH_FIELD_LIST False show ?thesis
      by (auto simp: dn_sai_hash_native_field_list_set_def hash_lists_def list_val_arg [OF xs] xs Let_def
          split: if_splits prod.splits)
  qed
next
  case (SAI_HASH_ATTR_UDF_GROUP_LIST l)
  show ?thesis
  proof (cases "sl_count l = 0")
    case True
    with assms SAI_HASH_ATTR_UDF_GROUP_LIST show ?thesis
      by (auto simp: dn_sai_hash_udf_group_list_set_def hash_lists_def list_val_def)
  next
    case False
    with assms(3) SAI_HASH_ATTR_UDF_GROUP_LIST obtain xs where xs: "list_arg l = Some xs"
      by (auto simp: list_ok_def)
    from assms(1) SAI_HASH_ATTR_UDF_GROUP_LIST False show ?thesis
      by (auto simp: dn_sai_hash_udf_group_list_set_def hash_lists_def list_val_arg [OF xs] xs Let_def
          hash_udf_list_validate_eq [OF assms(2)] split: if_splits prod.splits)
  qed
next
  case (SAI_HASH_ATTR_UNKNOWN n)
  with assms show ?thesis by (auto simp: hash_lists_def)
qed

lemma hash_loop_effect:
  assumes "hash_attr_set_loop E i as h s w = (st, h', s', w')" "udf_inv (hash_udf s)"
    "\<forall>a \<in> set as. hash_attr_ok a" "indexed_law E"
  shows "s' = s \<and> hash_obj_id h' = hash_obj_id h \<and> hash_ref_count h' = hash_ref_count h
    \<and> (st = SAI_STATUS_SUCCESS \<longrightarrow> hash_lists h' = fold hash_apply as (hash_lists h))"
  using assms(1,3)
proof (induction as arbitrary: i h w)
  case (Cons a as)
  obtain st1 h1 s1 w1 where a: "hash_attribute_accept E a h s w = (st1, h1, s1, w1)" by (metis prod_cases4)
  note e = hash_accept_effect [OF a assms(2)]
  have s1: "s1 = s" using e Cons.prems(2) by simp
  show ?case
  proof (cases "st1 = SAI_STATUS_SUCCESS")
    case True
    with Cons.prems(1) a s1 have "hash_attr_set_loop E (Suc i) as h1 s w1 = (st, h', s', w')" by simp
    from Cons.IH [OF this] e True Cons.prems(2) show ?thesis by simp
  next
    case False
    with Cons.prems a e assms(4) show ?thesis by (auto simp: indexed_law_def)
  qed
qed simp

lemma hash_attr_set_effect:
  assumes run: "dn_sai_hash_attr_set E a as s w = (st, s', w')" and "udf_inv (hash_udf s)"
    "\<forall>a \<in> set as. hash_attr_ok a" "indexed_law E" and h: "hash_mem s a = Some h"
  obtains h' where "s' = hash_write a h' s" "hash_obj_id h' = hash_obj_id h" "hash_ref_count h' = hash_ref_count h"
    "st = SAI_STATUS_SUCCESS \<longrightarrow> hash_lists h' = fold hash_apply as (hash_lists h)"
proof -
  obtain st1 h1 s1 w1 where l: "hash_attr_set_loop E 0 as h s w = (st1, h1, s1, w1)" by (metis prod_cases4)
  from hash_loop_effect [OF l assms(2-4)] run h l that show thesis by (auto simp: dn_sai_hash_attr_set_def)
qed

lemma hash_indexed_law: "hash_laws E \<Longrightarrow> indexed_law E"
  by (simp add: hash_laws_def udf_laws_def)

section \<open>Creation\<close>

lemma hash_fresh_id:
  assumes I: "hash_inv E s" and L: "hash_laws E" and b: "hash_index_bitmap s = Some bits" "n < DN_SAI_MAX_HASH_INDEX" "bits ! n"
  shows "rb_getexact (hash_obj_tree s) (sai_uoid_create E SAI_OBJECT_TYPE_HASH (of_nat n)) = None"
proof (rule ccontr)
  assume "rb_getexact (hash_obj_tree s) (sai_uoid_create E SAI_OBJECT_TYPE_HASH (of_nat n)) \<noteq> None"
  then obtain a where "rb_getexact (hash_obj_tree s) (sai_uoid_create E SAI_OBJECT_TYPE_HASH (of_nat n)) = Some a" by auto
  then obtain h m bits' where m: "hash_mem s a = Some h" "hash_obj_id h = sai_uoid_create E SAI_OBJECT_TYPE_HASH (of_nat n)"
    "m < DN_SAI_MAX_HASH_INDEX"
    "sai_uoid_create E SAI_OBJECT_TYPE_HASH (of_nat n) = sai_uoid_create E SAI_OBJECT_TYPE_HASH (of_nat m)"
    "hash_index_bitmap s = Some bits'" "\<not> bits' ! m"
    by (rule hash_nodeE [OF I])
  have e: "bits' = bits" using m(5) b(1) by simp
  have "n = m" using hash_lawsD(6) [OF L b(2)] hash_lawsD(6) [OF L m(3)] unfolding m(4) by (rule trans [OF sym])
  with m(6) b(3) e show False by simp
qed

lemma hash_create_effect:
  assumes run: "dn_sai_hash_obj_create E attrs s w = (rc, out, s', w')"
    and I: "hash_inv E s" and L: "hash_laws E" and ok: "\<forall>a \<in> set attrs. hash_attr_ok a"
  obtains (failed) "rc \<noteq> SAI_STATUS_SUCCESS" "out = None" "s' = s"
  | (created) a h n bits b where "rc = SAI_STATUS_SUCCESS" "out = Some (hash_obj_id h)"
      "hash_index_bitmap s = Some bits" "n < DN_SAI_MAX_HASH_INDEX" "bits ! n" "hash_mem s a = None"
      "hash_obj_id h = sai_uoid_create E SAI_OBJECT_TYPE_HASH (of_nat n)" "hash_ref_count h = 0"
      "hash_lists h = fold hash_apply attrs ([], [])" "rb_getexact (hash_obj_tree s) (hash_obj_id h) = None"
      "s' = s\<lparr>hash_obj_tree := (if b then rb_put (hash_obj_tree s) (hash_obj_id h) a else hash_obj_tree s),
         hash_index_bitmap := Some (bits[n := False]), hash_mem := (hash_mem s)(a \<mapsto> h)\<rparr>"
proof -
  obtain bits where bits: "hash_index_bitmap s = Some bits" "length bits = DN_SAI_MAX_HASH_INDEX"
    using hash_invD(3) [OF I] by (auto simp: hash_tree_ok_def)
  obtain p w1 where c: "hash_calloc E (\<lambda>a. hash_mem s a \<noteq> None) w = (p, w1)" by (metis surj_pair)
  show thesis
  proof (cases "dn_sai_hash_attr_list_validate E (map hash_attr_id attrs) SAI_OP_CREATE = SAI_STATUS_SUCCESS
      \<and> std_find_first_bit E bits \<noteq> None \<and> p \<noteq> None")
    case False
    from False run c bits(1) show thesis
      by (intro failed; cases "std_find_first_bit E bits"; cases p)
        (simp_all add: dn_sai_hash_obj_create_def Let_def split: if_splits del: not_None_eq)
  next
    case True
    then obtain n a where n: "std_find_first_bit E bits = Some n" and p: "p = Some a" by auto
    have nb: "n < DN_SAI_MAX_HASH_INDEX" "bits ! n" using hash_lawsD(5) [OF L n] bits(2) by simp_all
    have fr: "hash_mem s a = None" using hash_lawsD(2) [OF L c [unfolded p]] by simp
    let ?s = "dn_sai_hash_lock (hash_write a hash_node_zero s)"
    obtain st s1 w2 where at: "dn_sai_hash_attr_set E a attrs ?s w1 = (st, s1, w2)" by (metis prod_cases3)
    have u: "udf_inv (hash_udf ?s)" using hash_invD(2) [OF I] by (simp add: hash_write_def)
    obtain h' where h': "s1 = hash_write a h' ?s" "hash_ref_count h' = 0"
      "st = SAI_STATUS_SUCCESS \<longrightarrow> hash_lists h' = fold hash_apply attrs ([], [])"
      by (rule hash_attr_set_effect [OF at u ok hash_indexed_law [OF L], of hash_node_zero])
        (simp_all add: hash_write_def hash_node_zero_def hash_lists_def)
    let ?i = "sai_uoid_create E SAI_OBJECT_TYPE_HASH (of_nat n)"
    let ?h = "h'\<lparr>hash_obj_id := ?i\<rparr>"
    obtain b t w3 where ins: "std_rbtree_insert E (hash_obj_tree s) ?i a w2 = (b, t, w3)" by (metis prod_cases3)
    have t: "t = (if b then rb_put (hash_obj_tree s) ?i a else hash_obj_tree s)" by (rule insert_cases(1) [OF ins])
    have body: "hash_create_body E a n attrs ?s w1 = (if st \<noteq> SAI_STATUS_SUCCESS then (st, hash_write a h' ?s, w2)
        else (st, (hash_write a ?h ?s)\<lparr>hash_obj_tree := t\<rparr>, w3))"
      using at ins by (simp add: hash_create_body_def h'(1) hash_update_def hash_write_def dn_sai_hash_lock_def)
    have v: "dn_sai_hash_attr_list_validate E (map hash_attr_id attrs) SAI_OP_CREATE = SAI_STATUS_SUCCESS"
      using True by simp
    have R: "(if st \<noteq> SAI_STATUS_SUCCESS
        then (st, None, dn_sai_hash_obj_node_free a (dn_sai_hash_unlock (hash_write a h' ?s)), w2)
        else (st, Some ?i, (hash_write a ?h s)\<lparr>hash_obj_tree := t, hash_index_bitmap := Some (bits[n := False])\<rparr>, w3))
        = (rc, out, s', w')"
      unfolding run [symmetric] dn_sai_hash_obj_create_def v bits(1) Let_def c p
      by (simp add: n body, simp add: hash_write_def dn_sai_hash_lock_def dn_sai_hash_unlock_def)
    show thesis
    proof (cases "st = SAI_STATUS_SUCCESS")
      case False
      have "dn_sai_hash_obj_node_free a (dn_sai_hash_unlock (hash_write a h' ?s)) = s"
        using fr by (simp add: dn_sai_hash_obj_node_free_def hash_write_def dn_sai_hash_lock_def
            dn_sai_hash_unlock_def fun_upd_idem)
      with R False show thesis by (intro failed) simp_all
    next
      case s: True
      have e: "rc = SAI_STATUS_SUCCESS" "out = Some ?i"
        "s' = (hash_write a ?h s)\<lparr>hash_obj_tree := t, hash_index_bitmap := Some (bits[n := False])\<rparr>"
        using R s by simp_all
      show thesis
      proof (rule created [of ?h bits n a b])
        show "rb_getexact (hash_obj_tree s) (hash_obj_id ?h) = None"
          using hash_fresh_id [OF I L bits(1) nb] by simp
        show "hash_lists ?h = fold hash_apply attrs ([], [])" using h'(3) s by (simp add: hash_lists_def)
        show "s' = s\<lparr>hash_obj_tree := (if b then rb_put (hash_obj_tree s) (hash_obj_id ?h) a else hash_obj_tree s),
            hash_index_bitmap := Some (bits[n := False]), hash_mem := (hash_mem s)(a \<mapsto> ?h)\<rparr>"
          unfolding e(3) t hash_write_def by simp
        show "hash_ref_count ?h = 0" using h'(2) by simp
      qed (use e(1,2) nb fr bits(1) in simp_all)
    qed
  qed
qed

lemma hash_create_inv:
  assumes run: "dn_sai_hash_obj_create E attrs s w = (rc, out, s', w')"
    and I: "hash_inv E s" and L: "hash_laws E" and ok: "\<forall>a \<in> set attrs. hash_attr_ok a"
  shows "hash_inv E s'"
  using run I L ok
proof (cases rule: hash_create_effect)
  case (created a h n bits b)
  let ?t = "if b then rb_put (hash_obj_tree s) (hash_obj_id h) a else hash_obj_tree s"
  have len: "length bits = DN_SAI_MAX_HASH_INDEX" and t0: "hash_obj_tree s \<noteq> None"
    using hash_invD(3) [OF I] created(3) by (simp_all add: hash_tree_ok_def)
  have old: "rb_getexact ?t i = Some c" if "rb_getexact (hash_obj_tree s) i = Some c" for i c
    using that created(10) by (auto simp: t0)
  have at: "c = a \<and> i = hash_obj_id h \<or> c \<noteq> a \<and> rb_getexact (hash_obj_tree s) i = Some c"
    if "rb_getexact ?t i = Some c" for i c
  proof -
    have "c \<noteq> a" if g: "rb_getexact (hash_obj_tree s) i = Some c"
      by (rule hash_nodeE [OF I g]) (use created(6) in auto)
    with rb_put_entryD [OF that] show ?thesis by blast
  qed
  have unsel: "hash_obj_types s t \<noteq> Some a" for t
  proof
    assume "hash_obj_types s t = Some a"
    then show False by (rule hash_typeE [OF I]) (simp add: created(6))
  qed
  show ?thesis unfolding hash_inv_def
  proof (intro conjI)
    show "hash_tree_ok E s'"
    proof (rule hash_tree_okI [of s' ?t "bits[n := False]" "(hash_mem s)(a \<mapsto> h)"])
      fix i c assume "rb_getexact ?t i = Some c"
      from at [OF this] show "\<exists>k m. ((hash_mem s)(a \<mapsto> h)) c = Some k \<and> hash_obj_id k = i \<and> m < DN_SAI_MAX_HASH_INDEX
          \<and> i = sai_uoid_create E SAI_OBJECT_TYPE_HASH (of_nat m) \<and> \<not> bits[n := False] ! m"
      proof
        assume "c = a \<and> i = hash_obj_id h"
        with created(4,7) len show ?thesis by (intro exI [of _ h] exI [of _ n]) simp
      next
        assume c: "c \<noteq> a \<and> rb_getexact (hash_obj_tree s) i = Some c"
        from conjunct2 [OF c] show ?thesis
        proof (rule hash_nodeE [OF I])
          fix k m bits' assume k: "hash_mem s c = Some k" "hash_obj_id k = i" "m < DN_SAI_MAX_HASH_INDEX"
            "i = sai_uoid_create E SAI_OBJECT_TYPE_HASH (of_nat m)" "hash_index_bitmap s = Some bits'" "\<not> bits' ! m"
          with created(3) len have "\<not> bits[n := False] ! m" by (cases "m = n") simp_all
          with k c show ?thesis by (intro exI [of _ k] exI [of _ m]) simp
        qed
      qed
    qed (use t0 len in \<open>simp_all add: created(11) del: not_None_eq\<close>)
    show "hash_types_ok s'" unfolding hash_types_ok_def
    proof (intro allI impI)
      fix t c assume "hash_obj_types s' t = Some c"
      then have c: "hash_obj_types s t = Some c" by (simp add: created(11))
      obtain k where k: "hash_mem s c = Some k" "rb_getexact (hash_obj_tree s) (hash_obj_id k) = Some c"
        by (rule hash_typeE [OF I c])
      with unsel c old [OF k(2)] show "\<exists>h. hash_mem s' c = Some h \<and> rb_getexact (hash_obj_tree s') (hash_obj_id h) = Some c"
        by (auto simp: created(11))
    qed
    show "hash_counts_ok s'" unfolding hash_counts_ok_def
    proof (intro allI impI)
      fix i c k assume g: "rb_getexact (hash_obj_tree s') i = Some c" and k: "hash_mem s' c = Some k"
      have "rb_getexact ?t i = Some c" using g by (simp add: created(11))
      from at [OF this] show "hash_ref_count k = of_nat (hash_uses (hash_obj_types s') c)"
      proof
        assume c: "c = a \<and> i = hash_obj_id h"
        then have "hash_uses (hash_obj_types s) c = 0" using unsel by (simp add: hash_uses_zero)
        with c k created(8) show ?thesis by (simp add: created(11))
      next
        assume c: "c \<noteq> a \<and> rb_getexact (hash_obj_tree s) i = Some c"
        with k have "hash_mem s c = Some k" by (simp add: created(11))
        with c hash_countD [OF I, of i c k] show ?thesis by (simp add: created(11))
      qed
    qed
  qed (use I in \<open>simp_all add: created(11) hash_inv_def\<close>)
qed (simp add: I)

section \<open>Removal\<close>

lemma hash_remove_effect:
  assumes run: "dn_sai_hash_obj_remove E i s = (rc, s')" and I: "hash_inv E s" and L: "hash_laws E"
  obtains (bad_type) "rc = SAI_STATUS_INVALID_OBJECT_TYPE" "s' = s" "\<not> sai_is_obj_id E SAI_OBJECT_TYPE_HASH i"
  | (unknown) "rc = SAI_STATUS_INVALID_OBJECT_ID" "s' = s" "rb_getexact (hash_obj_tree s) i = None"
  | (in_use) a t where "rc = SAI_STATUS_OBJECT_IN_USE" "s' = s" "rb_getexact (hash_obj_tree s) i = Some a"
      "hash_obj_types s t = Some a"
  | (removed) a h n bits where "rc = SAI_STATUS_SUCCESS" "rb_getexact (hash_obj_tree s) i = Some a"
      "hash_mem s a = Some h" "hash_obj_id h = i" "\<forall>t. hash_obj_types s t \<noteq> Some a"
      "n < DN_SAI_MAX_HASH_INDEX" "i = sai_uoid_create E SAI_OBJECT_TYPE_HASH (of_nat n)"
      "hash_index_bitmap s = Some bits" "\<not> bits ! n" "length bits = DN_SAI_MAX_HASH_INDEX"
      "s' = s\<lparr>hash_obj_tree := rb_remove (hash_obj_tree s) i, hash_index_bitmap := Some (bits[n := True]),
         hash_mem := (hash_mem s)(a := None)\<rparr>"
proof (cases "sai_is_obj_id E SAI_OBJECT_TYPE_HASH i")
  case ty: True
  let ?s = "dn_sai_hash_lock s"
  show thesis
  proof (cases "rb_getexact (hash_obj_tree s) i")
    case None
    with run ty show thesis
      by (intro unknown) (auto simp: dn_sai_hash_obj_remove_def hash_remove_body_def dn_sai_hash_obj_node_get_def)
  next
    case (Some a)
    obtain h n bits where h: "hash_mem s a = Some h" "hash_obj_id h = i" "n < DN_SAI_MAX_HASH_INDEX"
      "i = sai_uoid_create E SAI_OBJECT_TYPE_HASH (of_nat n)" "hash_index_bitmap s = Some bits" "\<not> bits ! n"
      "length bits = DN_SAI_MAX_HASH_INDEX"
      by (rule hash_nodeE [OF I Some])
    have n: "unat (sai_uoid_npu_obj_id_get E i) = n" unfolding h(4) by (rule hash_lawsD(6) [OF L h(3)])
    have body: "hash_remove_body E i ?s = (if dn_sai_hash_is_obj_used h then (SAI_STATUS_OBJECT_IN_USE, ?s)
        else (SAI_STATUS_SUCCESS, ?s\<lparr>hash_obj_tree := rb_remove (hash_obj_tree s) i,
           hash_index_bitmap := Some (bits[n := True]), hash_mem := (hash_mem s)(a := None)\<rparr>))"
      using Some h(1,2,5) n h(3,7)
      by (simp add: hash_remove_body_def dn_sai_hash_obj_node_get_def Let_def dn_sai_hash_obj_node_free_def)
    note u = hash_used_iff [OF I Some h(1)]
    show thesis
    proof (cases "dn_sai_hash_is_obj_used h")
      case True
      then obtain t where "hash_obj_types s t = Some a" using u by blast
      with run ty body True Some show thesis by (intro in_use [of a t]) (simp_all add: dn_sai_hash_obj_remove_def)
    next
      case False
      have "s' = s\<lparr>hash_obj_tree := rb_remove (hash_obj_tree s) i, hash_index_bitmap := Some (bits[n := True]),
         hash_mem := (hash_mem s)(a := None)\<rparr>" "rc = SAI_STATUS_SUCCESS"
        using run ty body False
        by (simp_all add: dn_sai_hash_obj_remove_def dn_sai_hash_lock_def dn_sai_hash_unlock_def)
      with removed [of a h n bits] Some h u False show thesis by simp
    qed
  qed
next
  case False
  with run show thesis by (intro bad_type) (simp_all add: dn_sai_hash_obj_remove_def)
qed

lemma hash_remove_inv:
  assumes run: "dn_sai_hash_obj_remove E i s = (rc, s')" and I: "hash_inv E s" and L: "hash_laws E"
  shows "hash_inv E s'"
  using run I L
proof (cases rule: hash_remove_effect)
  case (removed a h n bits)
  have apart: "c \<noteq> a" if "rb_getexact (hash_obj_tree s) j = Some c" "j \<noteq> i" for j c
    by (rule hash_nodeE [OF I that(1)]) (use removed(3,4) that(2) in auto)
  show ?thesis unfolding hash_inv_def
  proof (intro conjI)
    show "hash_tree_ok E s'"
    proof (rule hash_tree_okI [of s' "rb_remove (hash_obj_tree s) i" "bits[n := True]" "(hash_mem s)(a := None)"])
      fix j c assume "rb_getexact (rb_remove (hash_obj_tree s) i) j = Some c"
      then have j: "rb_getexact (hash_obj_tree s) j = Some c" "j \<noteq> i" by (auto split: if_splits)
      show "\<exists>k m. ((hash_mem s)(a := None)) c = Some k \<and> hash_obj_id k = j \<and> m < DN_SAI_MAX_HASH_INDEX
          \<and> j = sai_uoid_create E SAI_OBJECT_TYPE_HASH (of_nat m) \<and> \<not> bits[n := True] ! m"
        using j(1)
      proof (rule hash_nodeE [OF I])
        fix k m bits' assume k: "hash_mem s c = Some k" "hash_obj_id k = j" "m < DN_SAI_MAX_HASH_INDEX"
          "j = sai_uoid_create E SAI_OBJECT_TYPE_HASH (of_nat m)" "hash_index_bitmap s = Some bits'" "\<not> bits' ! m"
        have "m \<noteq> n" using k(4) j(2) removed(7) by auto
        with k removed(8) apart [OF j] show ?thesis by (intro exI [of _ k] exI [of _ m]) simp
      qed
    qed (use hash_invD(3) [OF I] removed(10) in \<open>simp_all add: hash_tree_ok_def removed(11) del: not_None_eq\<close>)
    show "hash_types_ok s'" unfolding hash_types_ok_def
    proof (intro allI impI)
      fix t c assume "hash_obj_types s' t = Some c"
      then have c: "hash_obj_types s t = Some c" by (simp add: removed(11))
      obtain k where k: "hash_mem s c = Some k" "rb_getexact (hash_obj_tree s) (hash_obj_id k) = Some c"
        by (rule hash_typeE [OF I c])
      have "c \<noteq> a" using c removed(5) by auto
      with k removed(2) show "\<exists>h. hash_mem s' c = Some h \<and> rb_getexact (hash_obj_tree s') (hash_obj_id h) = Some c"
        by (auto simp: removed(11))
    qed
    show "hash_counts_ok s'"
      using hash_invD(5) [OF I] by (auto simp: hash_counts_ok_def removed(11) split: if_splits)
  qed (use I in \<open>simp_all add: removed(11) hash_inv_def\<close>)
qed (simp_all add: I)

end
