(* ===== verification/Hash_Reach.thy ===== *)
theory Hash_Reach
  imports Hash_Effects
begin

text \<open>
  Selecting an object for a switch attribute, setting and reading attributes, and the state machine
  of the calls of the hash module and of the UDF module under it.
\<close>

section \<open>Switch attributes\<close>

text \<open>Selecting an object moves one reference.\<close>

definition hash_move_ref :: "hash_addr option \<Rightarrow> hash_addr option \<Rightarrow> hash_addr \<Rightarrow> dn_sai_hash_object_t \<Rightarrow> dn_sai_hash_object_t" where
  "hash_move_ref old new a h = h\<lparr>hash_ref_count :=
     hash_ref_count h - (if old = Some a then 1 else 0) + (if new = Some a then 1 else 0)\<rparr>"

lemma hash_move_ref_fields [simp]:
  "hash_obj_id (hash_move_ref old new a h) = hash_obj_id h"
  "native_fields_list (hash_move_ref old new a h) = native_fields_list h"
  "udf_group_list (hash_move_ref old new a h) = udf_group_list h"
  by (simp_all add: hash_move_ref_def)

lemma hash_move_ref_id: "old \<noteq> Some a \<Longrightarrow> new \<noteq> Some a \<Longrightarrow> hash_move_ref old new a = (\<lambda>h. h)"
  by (rule ext) (simp add: hash_move_ref_def)

lemma hash_update_eq:
  "hash_mem s a = Some h \<Longrightarrow> hash_update a f s = s\<lparr>hash_mem := (hash_mem s)(a \<mapsto> f h)\<rparr>"
  by (simp add: hash_update_def hash_write_def)

lemma hash_select_eq:
  assumes old: "\<And>a. dn_sai_switch_attr_hash_obj_get E attr s = Some a \<Longrightarrow> hash_mem s a \<noteq> None"
    and new: "\<And>a. p = Some a \<Longrightarrow> hash_mem s a \<noteq> None"
  shows "hash_switch_attr_select E attr p s =
    s\<lparr>hash_obj_types := (hash_obj_types s)(dn_sai_switch_attr_id_to_hash_type E attr := p),
      hash_mem := \<lambda>a. map_option (hash_move_ref (dn_sai_switch_attr_hash_obj_get E attr s) p a) (hash_mem s a)\<rparr>"
proof -
  let ?o = "dn_sai_switch_attr_hash_obj_get E attr s"
  let ?s1 = "case ?o of None \<Rightarrow> s | Some old \<Rightarrow> hash_update old (\<lambda>h. h\<lparr>hash_ref_count := hash_ref_count h - 1\<rparr>) s"
  have 1: "?s1 = s\<lparr>hash_mem := \<lambda>a. map_option (hash_move_ref ?o None a) (hash_mem s a)\<rparr>"
  proof (cases ?o)
    case None
    then show ?thesis by (simp add: hash_move_ref_id option.map_ident)
  next
    case (Some a)
    obtain h where h: "hash_mem s a = Some h" using old [OF Some] by auto
    have "(hash_mem s)(a \<mapsto> h\<lparr>hash_ref_count := hash_ref_count h - 1\<rparr>)
        = (\<lambda>b. map_option (hash_move_ref (Some a) None b) (hash_mem s b))"
      by (rule ext) (auto simp: hash_move_ref_id hash_move_ref_def h option.map_ident)
    with Some show ?thesis by (simp add: hash_update_eq [OF h])
  qed
  show ?thesis
  proof (cases p)
    case None
    then show ?thesis by (simp add: hash_switch_attr_select_def 1 dn_sai_switch_attr_hash_obj_set_def Let_def)
  next
    case (Some a)
    obtain h where h: "hash_mem s a = Some h" using new [OF Some] by auto
    let ?M = "\<lambda>b. map_option (hash_move_ref ?o None b) (hash_mem s b)"
    have "?M(a \<mapsto> hash_move_ref ?o None a h\<lparr>hash_ref_count := hash_ref_count (hash_move_ref ?o None a h) + 1\<rparr>)
        = (\<lambda>b. map_option (hash_move_ref ?o (Some a) b) (hash_mem s b))"
    proof (rule ext)
      fix b
      have "hash_move_ref ?o None b = hash_move_ref ?o (Some a) b" if "b \<noteq> a"
        using that by (intro ext) (simp add: hash_move_ref_def)
      then show "(?M(a \<mapsto> hash_move_ref ?o None a h\<lparr>hash_ref_count := hash_ref_count (hash_move_ref ?o None a h) + 1\<rparr>)) b
          = map_option (hash_move_ref ?o (Some a) b) (hash_mem s b)"
        by (cases "b = a") (simp_all add: hash_move_ref_def h)
    qed
    then show ?thesis
      by (simp add: hash_switch_attr_select_def 1 dn_sai_switch_attr_hash_obj_set_def Let_def Some
          hash_update_def hash_write_def h)
  qed
qed

lemma hash_select_inv:
  assumes I: "hash_inv E s" and p: "\<And>a. p = Some a \<Longrightarrow> rb_getexact (hash_obj_tree s) i = Some a"
  shows "hash_inv E (hash_switch_attr_select E attr p s)"
proof -
  let ?t = "dn_sai_switch_attr_id_to_hash_type E attr"
  let ?o = "hash_obj_types s ?t"
  let ?T = "(hash_obj_types s)(?t := p)"
  let ?s = "hash_switch_attr_select E attr p s"
  have node: "hash_mem s a \<noteq> None" if "p = Some a" for a
    by (rule hash_nodeE [OF I p [OF that]]) simp
  have e: "?s = s\<lparr>hash_obj_types := ?T, hash_mem := \<lambda>a. map_option (hash_move_ref ?o p a) (hash_mem s a)\<rparr>"
  proof (rule hash_select_eq [unfolded dn_sai_switch_attr_hash_obj_get_def])
    show "hash_mem s a \<noteq> None" if "?o = Some a" for a by (rule hash_typeE [OF I that]) simp
  qed (rule node)
  show ?thesis unfolding hash_inv_def
  proof (intro conjI)
    obtain bits where bits: "hash_obj_tree s \<noteq> None" "hash_index_bitmap s = Some bits" "length bits = DN_SAI_MAX_HASH_INDEX"
      using hash_invD(3) [OF I] by (auto simp: hash_tree_ok_def)
    show "hash_tree_ok E ?s"
    proof (rule hash_tree_okI [of ?s "hash_obj_tree s" bits "\<lambda>a. map_option (hash_move_ref ?o p a) (hash_mem s a)"])
      fix j c assume "rb_getexact (hash_obj_tree s) j = Some c"
      then show "\<exists>h n. map_option (hash_move_ref ?o p c) (hash_mem s c) = Some h \<and> hash_obj_id h = j
          \<and> n < DN_SAI_MAX_HASH_INDEX \<and> j = sai_uoid_create E SAI_OBJECT_TYPE_HASH (of_nat n) \<and> \<not> bits ! n"
      proof (rule hash_nodeE [OF I])
        fix h n bits' assume "hash_mem s c = Some h" "hash_obj_id h = j" "n < DN_SAI_MAX_HASH_INDEX"
          "j = sai_uoid_create E SAI_OBJECT_TYPE_HASH (of_nat n)" "hash_index_bitmap s = Some bits'" "\<not> bits' ! n"
        then show ?thesis using bits(2) by (intro exI [of _ "hash_move_ref ?o p c h"] exI [of _ n]) simp
      qed
    qed (use bits in \<open>simp_all add: e del: not_None_eq\<close>)
    show "hash_types_ok ?s" unfolding hash_types_ok_def
    proof (intro allI impI)
      fix t c assume c: "hash_obj_types ?s t = Some c"
      have "\<exists>h. hash_mem s c = Some h \<and> rb_getexact (hash_obj_tree s) (hash_obj_id h) = Some c"
      proof (cases "t = ?t")
        case True
        with c have "rb_getexact (hash_obj_tree s) i = Some c" using p by (simp add: e)
        then show ?thesis by (rule hash_nodeE [OF I]) (use \<open>rb_getexact (hash_obj_tree s) i = Some c\<close> in auto)
      next
        case False
        with c have "hash_obj_types s t = Some c" by (simp add: e)
        then show ?thesis by (rule hash_typeE [OF I]) blast
      qed
      then show "\<exists>h. hash_mem ?s c = Some h \<and> rb_getexact (hash_obj_tree ?s) (hash_obj_id h) = Some c"
        by (auto simp: e)
    qed
    show "hash_counts_ok ?s" unfolding hash_counts_ok_def
    proof (intro allI impI)
      fix j c k assume g: "rb_getexact (hash_obj_tree ?s) j = Some c" and k: "hash_mem ?s c = Some k"
      obtain h where h: "hash_mem s c = Some h" "k = hash_move_ref ?o p c h" using k by (auto simp: e)
      have r: "hash_ref_count h = of_nat (hash_uses (hash_obj_types s) c)"
        by (rule hash_countD [OF I _ h(1)]) (use g in \<open>simp add: e\<close>)
      have "(of_nat (hash_uses ?T c + (if ?o = Some c then 1 else 0)) :: uint32_t)
          = of_nat (hash_uses (hash_obj_types s) c + (if p = Some c then 1 else 0))"
        by (rule arg_cong [OF hash_uses_update])
      then have "(of_nat (hash_uses ?T c) :: uint32_t)
          = of_nat (hash_uses (hash_obj_types s) c) - (if ?o = Some c then 1 else 0) + (if p = Some c then 1 else 0)"
        by (simp split: if_splits add: algebra_simps)
      then show "hash_ref_count k = of_nat (hash_uses (hash_obj_types ?s) c)"
        by (simp add: h(2) hash_move_ref_def r e)
    qed
  qed (use I in \<open>simp_all add: e hash_inv_def\<close>)
qed

lemma hash_switch_set_effect:
  assumes run: "dn_sai_switch_hash_attr_set E attr i s w = (rc, s', w')" and I: "hash_inv E s"
  obtains (bad_type) "rc = SAI_STATUS_INVALID_OBJECT_TYPE" "s' = dn_sai_hash_lock s" "w' = w"
      "i \<noteq> SAI_NULL_OBJECT_ID" "\<not> sai_is_obj_id E SAI_OBJECT_TYPE_HASH i"
  | (unknown) "rc = SAI_STATUS_INVALID_OBJECT_ID" "s' = s" "w' = w" "i \<noteq> SAI_NULL_OBJECT_ID"
      "rb_getexact (hash_obj_tree s) i = None"
  | (refused) nf ug where "rc \<noteq> SAI_STATUS_SUCCESS" "s' = s" "npu_switch_hash_fields_set E attr nf ug w = (rc, w')"
  | (cleared) "rc = SAI_STATUS_SUCCESS" "i = SAI_NULL_OBJECT_ID" "npu_switch_hash_fields_set E attr [] [] w = (rc, w')"
      "s' = hash_switch_attr_select E attr None s"
  | (selected) a h where "rc = SAI_STATUS_SUCCESS" "i \<noteq> SAI_NULL_OBJECT_ID" "rb_getexact (hash_obj_tree s) i = Some a"
      "hash_mem s a = Some h" "hash_obj_id h = i"
      "npu_switch_hash_fields_set E attr (native_fields_list h) (udf_group_list h) w = (rc, w')"
      "s' = hash_switch_attr_select E attr (Some a) s"
proof -
  have lock: "dn_sai_hash_unlock (hash_switch_attr_select E attr p (dn_sai_hash_lock s)) = hash_switch_attr_select E attr p s"
    if "\<And>a. p = Some a \<Longrightarrow> hash_mem s a \<noteq> None" for p
  proof -
    have o: "hash_mem s a \<noteq> None" if "hash_obj_types s (dn_sai_switch_attr_id_to_hash_type E attr) = Some a" for a
      by (rule hash_typeE [OF I that]) simp
    show ?thesis
      by (subst (1 2) hash_select_eq)
        (use o that in \<open>simp_all add: dn_sai_switch_attr_hash_obj_get_def dn_sai_hash_lock_def dn_sai_hash_unlock_def\<close>)
  qed
  note d = dn_sai_switch_hash_attr_set_def dn_sai_hash_obj_node_get_def Let_def
  show thesis
  proof (cases "i = SAI_NULL_OBJECT_ID")
    case True
    obtain st w1 where n: "npu_switch_hash_fields_set E attr [] [] w = (st, w1)" by (metis surj_pair)
    show thesis
    proof (cases "st = SAI_STATUS_SUCCESS")
      case s: True
      with run True n lock [of None] show thesis by (intro cleared) (simp_all add: d)
    next
      case False
      with run True n show thesis by (intro refused [of "[]" "[]"]) (simp_all add: d)
    qed
  next
    case i: False
    show thesis
    proof (cases "sai_is_obj_id E SAI_OBJECT_TYPE_HASH i")
      case False
      with run i show thesis by (intro bad_type) (simp_all add: d)
    next
      case ty: True
      show thesis
      proof (cases "rb_getexact (hash_obj_tree s) i")
        case None
        with run i ty show thesis by (intro unknown) (simp_all add: d)
      next
        case (Some a)
        then obtain h where h: "hash_mem s a = Some h" "hash_obj_id h = i" by (rule hash_nodeE [OF I])
        obtain st w1 where n: "npu_switch_hash_fields_set E attr (native_fields_list h) (udf_group_list h) w = (st, w1)"
          by (metis surj_pair)
        show thesis
        proof (cases "st = SAI_STATUS_SUCCESS")
          case s: True
          with run i ty Some h n lock [of "Some a"] show thesis by (intro selected [of a h]) (simp_all add: d)
        next
          case False
          with run i ty Some h n show thesis
            by (intro refused [of "native_fields_list h" "udf_group_list h"]) (simp_all add: d)
        qed
      qed
    qed
  qed
qed

lemma hash_switch_set_inv:
  assumes run: "dn_sai_switch_hash_attr_set E attr i s w = (rc, s', w')" and I: "hash_inv E s"
  shows "hash_inv E s'"
  using run I
proof (cases rule: hash_switch_set_effect)
  case cleared
  have "hash_inv E (hash_switch_attr_select E attr None s)" by (rule hash_select_inv [OF I, where i = i]) simp
  with cleared(4) show ?thesis by simp
next
  case (selected a h)
  have "hash_inv E (hash_switch_attr_select E attr (Some a) s)"
    by (rule hash_select_inv [OF I, where i = i]) (use selected(3) in simp)
  with selected(7) show ?thesis by simp
qed (simp_all add: I)

lemma hash_switch_get_state:
  assumes "dn_sai_switch_hash_attr_get E attr s = (rc, i, s')" "hash_inv E s"
  shows "s' = s"
proof (cases "dn_sai_switch_attr_hash_obj_get E attr s")
  case (Some a)
  then have t: "hash_obj_types s (dn_sai_switch_attr_id_to_hash_type E attr) = Some a"
    by (simp add: dn_sai_switch_attr_hash_obj_get_def)
  then obtain h where "hash_mem s a = Some h" by (rule hash_typeE [OF assms(2)])
  with t assms(1) show ?thesis by (simp add: dn_sai_switch_hash_attr_get_def dn_sai_switch_attr_hash_obj_get_def Let_def)
qed (use assms in \<open>simp add: dn_sai_switch_hash_attr_get_def dn_sai_switch_attr_hash_obj_get_def Let_def\<close>)

section \<open>Setting an attribute\<close>

text \<open>The caller's list: the UDF groups must be given even when there are none.\<close>

fun hash_set_ok :: "sai_hash_attr_t \<Rightarrow> bool" where
  "hash_set_ok (SAI_HASH_ATTR_NATIVE_HASH_FIELD_LIST l) \<longleftrightarrow> list_ok l"
| "hash_set_ok (SAI_HASH_ATTR_UDF_GROUP_LIST l) \<longleftrightarrow> list_arg l \<noteq> None"
| "hash_set_ok (SAI_HASH_ATTR_UNKNOWN n) \<longleftrightarrow> True"

lemma hash_set_ok_attr: "hash_set_ok attr \<Longrightarrow> hash_attr_ok attr"
  by (cases attr) (simp_all add: list_ok_def)

lemma hash_hw_lists_eq:
  "hash_attr_ok attr \<Longrightarrow> (\<And>n. attr \<noteq> SAI_HASH_ATTR_UNKNOWN n) \<Longrightarrow>
     hash_hw_lists h attr = Some (hash_apply attr (hash_lists h))"
  by (cases attr) (auto simp: hash_hw_lists_def hash_lists_def list_ok_def list_val_def)

lemma hash_hw_loop_status:
  "(\<exists>x \<in> set attrs. dn_sai_switch_attr_hash_obj_get E x s = Some a) \<or> st0 \<noteq> None \<Longrightarrow>
     fst (hash_set_in_hw_loop E a nf ug s attrs idx st0 is0 w) \<noteq> None"
proof (induction attrs arbitrary: idx st0 is0 w)
  case (Cons y ys)
  obtain st w1 where n: "npu_switch_hash_fields_set E y nf ug w = (st, w1)" by (metis surj_pair)
  have 1: "fst (hash_set_in_hw_loop E a nf ug s ys j (Some v) b k) \<noteq> None" for j v b k by (rule Cons.IH) simp
  show ?case
  proof (cases "dn_sai_switch_attr_hash_obj_get E y s = Some a")
    case True
    with n 1 show ?thesis by (simp del: not_None_eq)
  next
    case False
    with Cons.prems have "fst (hash_set_in_hw_loop E a nf ug s ys (Suc idx) st0 is0 w) \<noteq> None" by (intro Cons.IH) auto
    with False show ?thesis by (simp del: not_None_eq)
  qed
qed simp

lemma hash_set_in_hw_state:
  assumes ok: "hash_attr_ok attr" and L: "translate_law E" and t: "hash_obj_types s t = Some a"
  shows "\<exists>st w1. dn_sai_hash_obj_set_in_hw E a h attr s w = (st, s, w1)"
proof (cases "\<exists>n. attr = SAI_HASH_ATTR_UNKNOWN n")
  case False
  then have l: "hash_hw_lists h attr = Some (hash_apply attr (hash_lists h))" using ok by (intro hash_hw_lists_eq) auto
  obtain nf ug where l2: "hash_apply attr (hash_lists h) = (nf, ug)" by (metis surj_pair)
  obtain x where "x \<in> set dn_switch_hash_attr_id" "dn_sai_switch_attr_id_to_hash_type E x = t"
    by (rule hash_attr_of_type [OF L])
  with t have "\<exists>x \<in> set dn_switch_hash_attr_id. dn_sai_switch_attr_hash_obj_get E x s = Some a"
    by (auto simp: dn_sai_switch_attr_hash_obj_get_def)
  then have "fst (hash_set_in_hw_loop E a nf ug s dn_switch_hash_attr_id 0 None False w) \<noteq> None"
    by (intro hash_hw_loop_status) blast
  then obtain st idx is1 w1 where
    "hash_set_in_hw_loop E a nf ug s dn_switch_hash_attr_id 0 None False w = (Some st, idx, is1, w1)"
    by (metis (no_types) option.exhaust prod.collapse)
  with False l l2 show ?thesis by (cases attr) (auto simp: dn_sai_hash_obj_set_in_hw_def Let_def)
qed (auto simp: dn_sai_hash_obj_set_in_hw_def)

definition hash_hw_stage ::
  "('w, 'z) hash_env_scheme \<Rightarrow> hash_addr \<Rightarrow> dn_sai_hash_object_t \<Rightarrow> sai_hash_attr_t \<Rightarrow> hash_state \<Rightarrow> 'w
     \<Rightarrow> sai_status_t \<times> hash_state \<times> 'w" where
  "hash_hw_stage E a h attr s w = (if dn_sai_hash_is_obj_used h then dn_sai_hash_obj_set_in_hw E a h attr s w
     else (SAI_STATUS_SUCCESS, s, w))"

lemma hash_set_groups_ok:
  assumes "udf_inv (hash_udf s)" "hash_set_ok attr" "dn_sai_hash_obj_node_get s i = Some a" "hash_mem s a = Some h"
  shows "hash_set_body E i attr s w =
    (if \<exists>l. attr = SAI_HASH_ATTR_UDF_GROUP_LIST l \<and> \<not> (\<forall>g \<in> set (list_val l). udf_hash_group E (hash_udf s) g)
     then (Inl (SAI_STATUS_INVALID_ATTR_VALUE 0), s, w)
     else let (status, s, w) = hash_hw_stage E a h attr s w in
       if status \<noteq> SAI_STATUS_SUCCESS then (Inr status, s, w)
       else let (status, s, w) = dn_sai_hash_attr_set E a [attr] s w in (Inr status, s, w))"
proof (cases attr)
  case (SAI_HASH_ATTR_UDF_GROUP_LIST l)
  then obtain xs where xs: "list_arg l = Some xs" using assms(2) by auto
  then obtain ys where ys: "sl_list l = Some ys" "unat (sl_count l) \<le> length ys" "take (unat (sl_count l)) ys = list_val l"
    by (auto simp: list_val_arg [OF xs] list_arg_def split: option.splits if_splits)
  show ?thesis unfolding SAI_HASH_ATTR_UDF_GROUP_LIST
    by (simp add: hash_set_body_def ys assms(3,4) hash_udf_list_validate_eq [OF assms(1)]
        hash_hw_stage_def)
next
  case (SAI_HASH_ATTR_NATIVE_HASH_FIELD_LIST l)
  show ?thesis unfolding SAI_HASH_ATTR_NATIVE_HASH_FIELD_LIST by (simp add: hash_set_body_def assms(3,4) hash_hw_stage_def)
next
  case (SAI_HASH_ATTR_UNKNOWN n)
  show ?thesis unfolding SAI_HASH_ATTR_UNKNOWN by (simp add: hash_set_body_def assms(3,4) hash_hw_stage_def)
qed

lemma hash_set_effect:
  assumes run: "dn_sai_hash_obj_set_attr E i attr s w = (rc, s', w')"
    and I: "hash_inv E s" and L: "hash_laws E" and ok: "hash_set_ok attr"
  obtains (bad_type) "rc = SAI_STATUS_INVALID_OBJECT_TYPE" "s' = s" "w' = w" "\<not> sai_is_obj_id E SAI_OBJECT_TYPE_HASH i"
  | (bad_attr) "rc = dn_sai_hash_attr_list_validate E [hash_attr_id attr] SAI_OP_SET" "rc \<noteq> SAI_STATUS_SUCCESS" "s' = s" "w' = w"
  | (unknown) "rc = SAI_STATUS_INVALID_OBJECT_ID" "s' = s" "w' = w" "rb_getexact (hash_obj_tree s) i = None"
  | (bad_group) a l g where "rc = SAI_STATUS_INVALID_ATTR_VALUE 0" "s' = dn_sai_hash_lock s" "w' = w"
      "rb_getexact (hash_obj_tree s) i = Some a" "attr = SAI_HASH_ATTR_UDF_GROUP_LIST l"
      "g \<in> set (list_val l)" "\<not> udf_hash_group E (hash_udf s) g"
  | (hw_refused) a h where "rc \<noteq> SAI_STATUS_SUCCESS" "s' = s" "rb_getexact (hash_obj_tree s) i = Some a"
      "hash_mem s a = Some h" "hash_hw_stage E a h attr (dn_sai_hash_lock s) w = (rc, dn_sai_hash_lock s, w')"
  | (not_stored) a h w1 where "rc \<noteq> SAI_STATUS_SUCCESS" "s' = s" "rb_getexact (hash_obj_tree s) i = Some a"
      "hash_mem s a = Some h" "hash_hw_stage E a h attr (dn_sai_hash_lock s) w = (SAI_STATUS_SUCCESS, dn_sai_hash_lock s, w1)"
      "\<not> fst (calloc_ok E w1)" "w' = snd (calloc_ok E w1)"
  | (stored) a h h' w1 where "rc = SAI_STATUS_SUCCESS" "rb_getexact (hash_obj_tree s) i = Some a" "hash_mem s a = Some h"
      "hash_hw_stage E a h attr (dn_sai_hash_lock s) w = (SAI_STATUS_SUCCESS, dn_sai_hash_lock s, w1)"
      "hash_obj_id h' = hash_obj_id h" "hash_ref_count h' = hash_ref_count h"
      "hash_lists h' = hash_apply attr (hash_lists h)" "s' = hash_write a h' s"
      "w' = w1 \<or> w' = snd (calloc_ok E w1)"
proof -
  let ?L = "dn_sai_hash_lock s"
  have u: "udf_inv (hash_udf s)" and uL: "udf_inv (hash_udf ?L)" using hash_invD(2) [OF I] by simp_all
  show thesis
  proof (cases "sai_is_obj_id E SAI_OBJECT_TYPE_HASH i")
    case False
    with run show thesis by (intro bad_type) (simp_all add: dn_sai_hash_obj_set_attr_def)
  next
    case ty: True
    show thesis
    proof (cases "dn_sai_hash_attr_list_validate E [hash_attr_id attr] SAI_OP_SET = SAI_STATUS_SUCCESS")
      case False
      with run ty show thesis by (intro bad_attr) (auto simp: dn_sai_hash_obj_set_attr_def Let_def)
    next
      case v: True
      note run1 = run [unfolded dn_sai_hash_obj_set_attr_def, simplified ty v Let_def simp_thms if_False if_True]
      show thesis
      proof (cases "rb_getexact (hash_obj_tree s) i")
        case None
        with run1 show thesis by (intro unknown) (simp_all add: hash_set_body_def dn_sai_hash_obj_node_get_def)
      next
        case (Some a)
        obtain h where h: "hash_mem s a = Some h" by (rule hash_nodeE [OF I Some])
        have nL: "dn_sai_hash_obj_node_get ?L i = Some a" and hL: "hash_mem ?L a = Some h"
          using Some h by (simp_all add: dn_sai_hash_obj_node_get_def)
        note b = hash_set_groups_ok [OF uL ok nL hL, of E w]
        show thesis
        proof (cases "\<exists>l. attr = SAI_HASH_ATTR_UDF_GROUP_LIST l \<and> \<not> (\<forall>g \<in> set (list_val l). udf_hash_group E (hash_udf s) g)")
          case True
          then obtain l g where g: "attr = SAI_HASH_ATTR_UDF_GROUP_LIST l" "g \<in> set (list_val l)"
            "\<not> udf_hash_group E (hash_udf s) g" by blast
          have "hash_set_body E i attr ?L w = (Inl (SAI_STATUS_INVALID_ATTR_VALUE 0), ?L, w)"
            unfolding b using True by simp
          with run1 Some g show thesis by (intro bad_group [of a l g]) simp_all
        next
          case False
          obtain st w1 where hw: "hash_hw_stage E a h attr ?L w = (st, ?L, w1)"
          proof (cases "dn_sai_hash_is_obj_used h")
            case used: True
            then obtain t where t: "hash_obj_types ?L t = Some a" using hash_used_iff [OF I Some h] by auto
            have "translate_law E" by (rule hash_lawsD(3) [OF L])
            from hash_set_in_hw_state [OF hash_set_ok_attr [OF ok] this t, of h w] used that show thesis
              by (auto simp: hash_hw_stage_def)
          next
            case unused: False
            with that show thesis by (simp add: hash_hw_stage_def)
          qed
          obtain st2 h2 s2 w2 where l: "hash_attr_set_loop E 0 [attr] h ?L w1 = (st2, h2, s2, w2)" by (metis prod_cases4)
          have s2: "s2 = ?L" "hash_obj_id h2 = hash_obj_id h" "hash_ref_count h2 = hash_ref_count h"
            "st2 = SAI_STATUS_SUCCESS \<longrightarrow> hash_lists h2 = hash_apply attr (hash_lists h)"
            using hash_loop_effect [OF l uL _ hash_indexed_law [OF L]] hash_set_ok_attr [OF ok] by simp_all
          have w2: "if st2 = SAI_STATUS_SUCCESS then w2 = w1 \<or> w2 = snd (calloc_ok E w1)
              else h2 = h \<and> \<not> fst (calloc_ok E w1) \<and> w2 = snd (calloc_ok E w1)"
            using l hash_set_ok_attr [OF ok] False udf_lawsD(2) [OF hash_lawsD(1) [OF L]]
            by (cases attr) (auto simp: dn_sai_hash_native_field_list_set_def dn_sai_hash_udf_group_list_set_def list_ok_def
                list_val_arg hash_udf_list_validate_eq [OF uL] Let_def split: if_splits prod.splits)
          have body: "hash_set_body E i attr ?L w = (if st \<noteq> SAI_STATUS_SUCCESS then (Inr st, ?L, w1)
              else (Inr st2, hash_write a h2 ?L, w2))"
            unfolding b using False hw l h s2(1) by (simp add: dn_sai_hash_attr_set_def)
          have un: "dn_sai_hash_unlock (hash_write a k ?L) = hash_write a k s" for k
            by (simp add: hash_write_def dn_sai_hash_lock_def dn_sai_hash_unlock_def)
          show thesis
          proof (cases "st = SAI_STATUS_SUCCESS")
            case False
            with run1 body hw Some h show thesis by (intro hw_refused [of a h]) simp_all
          next
            case st: True
            have e: "rc = st2" "s' = hash_write a h2 s" "w' = w2" using run1 body st un by simp_all
            show thesis
            proof (cases "st2 = SAI_STATUS_SUCCESS")
              case True
              with e st hw Some h s2 w2 show thesis by (intro stored [of a h w1 h2]) simp_all
            next
              case False
              have "hash_write a h s = s" using h by (simp add: hash_write_def fun_upd_idem)
              with False e st hw Some h w2 show thesis by (intro not_stored [of a h w1]) simp_all
            qed
          qed
        qed
      qed
    qed
  qed
qed

lemma hash_write_inv:
  assumes I: "hash_inv E s" and h: "hash_mem s a = Some h" and e: "hash_obj_id h' = hash_obj_id h" "hash_ref_count h' = hash_ref_count h"
  shows "hash_inv E (hash_write a h' s)"
proof -
  have "hash_tree_ok E (hash_write a h' s)"
    using hash_invD(3) [OF I] h e unfolding hash_tree_ok_def hash_write_def by (auto split: if_splits; fastforce)
  moreover have "hash_types_ok (hash_write a h' s)"
    using hash_invD(4) [OF I] h e unfolding hash_types_ok_def hash_write_def by fastforce
  moreover have "hash_counts_ok (hash_write a h' s)"
    using hash_invD(5) [OF I] h e unfolding hash_counts_ok_def hash_write_def by auto
  ultimately show ?thesis using I by (simp add: hash_inv_def hash_write_def)
qed

lemma hash_set_inv:
  assumes run: "dn_sai_hash_obj_set_attr E i attr s w = (rc, s', w')"
    and I: "hash_inv E s" and L: "hash_laws E" and ok: "hash_set_ok attr"
  shows "hash_inv E s'"
  using run I L ok
proof (cases rule: hash_set_effect)
  case (stored a h h' w1)
  from hash_write_inv [OF I stored(3,5,6)] stored(8) show ?thesis by simp
qed (simp_all add: I)

end
