(* ===== verification/Hash_State.thy ===== *)
theory Hash_State
  imports Hash_Reach Sai_Loops
begin

text \<open>
  Reading, initialisation and the state machine of the hash module.  Nothing that is called keeps
  the lock except two refusals; the steps of the machine are not restricted to a free lock, so
  what holds in every reachable state holds for the program too.
\<close>

section \<open>Lists fit their count\<close>

definition hash_sized :: "hash_state \<Rightarrow> bool" where
  "hash_sized s \<longleftrightarrow> (\<forall>a h. hash_mem s a = Some h \<longrightarrow>
     length (native_fields_list h) < 2 ^ 32 \<and> length (udf_group_list h) < 2 ^ 32)"

definition hash_good :: "('w, 'z) hash_env_scheme \<Rightarrow> hash_state \<Rightarrow> bool" where
  "hash_good E s \<longleftrightarrow> hash_inv E s \<and> hash_sized s"

lemma list_val_length: "length (list_val l) < 2 ^ 32"
  using unsigned_less [of "sl_count l", where ?'a = nat]
  by (auto simp: list_val_def list_arg_def split: option.splits)

lemma hash_apply_sized:
  "length (fst p) < 2 ^ 32 \<and> length (snd p) < 2 ^ 32 \<Longrightarrow>
     length (fst (hash_apply a p)) < 2 ^ 32 \<and> length (snd (hash_apply a p)) < 2 ^ 32"
  using list_val_length by (cases p; cases a) auto

lemma hash_fold_sized:
  "length (fst p) < 2 ^ 32 \<and> length (snd p) < 2 ^ 32 \<Longrightarrow>
     length (fst (fold hash_apply as p)) < 2 ^ 32 \<and> length (snd (fold hash_apply as p)) < 2 ^ 32"
proof (induction as arbitrary: p)
  case (Cons a as)
  show ?case unfolding fold_simps by (rule Cons.IH, rule hash_apply_sized, rule Cons.prems)
qed simp

lemma hash_lists_sizedD:
  "hash_lists h = p \<Longrightarrow> length (fst p) < 2 ^ 32 \<and> length (snd p) < 2 ^ 32 \<Longrightarrow>
     length (native_fields_list h) < 2 ^ 32 \<and> length (udf_group_list h) < 2 ^ 32"
  by (auto simp: hash_lists_def)

lemma hash_create_good:
  assumes run: "dn_sai_hash_obj_create E attrs s w = (rc, out, s', w')"
    and I: "hash_good E s" and L: "hash_laws E" and ok: "\<forall>a \<in> set attrs. hash_attr_ok a"
  shows "hash_good E s'"
proof -
  have i: "hash_inv E s" using I by (simp add: hash_good_def)
  have "hash_sized s'" using run i L ok
  proof (cases rule: hash_create_effect)
    case (created a h n bits b)
    have "length (native_fields_list h) < 2 ^ 32 \<and> length (udf_group_list h) < 2 ^ 32"
      by (rule hash_lists_sizedD [OF created(9)], rule hash_fold_sized) simp
    with I show ?thesis by (simp add: hash_good_def hash_sized_def created(11))
  qed (use I in \<open>simp add: hash_good_def\<close>)
  with hash_create_inv [OF run i L ok] show ?thesis by (simp add: hash_good_def)
qed

lemma hash_remove_good:
  assumes run: "dn_sai_hash_obj_remove E i s = (rc, s')" and I: "hash_good E s" and L: "hash_laws E"
  shows "hash_good E s'"
proof -
  have i: "hash_inv E s" using I by (simp add: hash_good_def)
  have "hash_sized s'" using run i L
    by (cases rule: hash_remove_effect) (use I in \<open>simp_all add: hash_good_def hash_sized_def\<close>)
  with hash_remove_inv [OF run i L] show ?thesis by (simp add: hash_good_def)
qed

lemma hash_set_good:
  assumes run: "dn_sai_hash_obj_set_attr E i attr s w = (rc, s', w')"
    and I: "hash_good E s" and L: "hash_laws E" and ok: "hash_set_ok attr"
  shows "hash_good E s'"
proof -
  have i: "hash_inv E s" and z: "hash_sized s" using I by (simp_all add: hash_good_def)
  have "hash_sized s'" using run i L ok
  proof (cases rule: hash_set_effect)
    case (stored a h h' w1)
    have "length (fst (hash_lists h)) < 2 ^ 32 \<and> length (snd (hash_lists h)) < 2 ^ 32"
      using z stored(3) by (simp add: hash_sized_def hash_lists_def)
    from hash_lists_sizedD [OF stored(7) hash_apply_sized [OF this]] z
    show ?thesis by (simp add: hash_sized_def stored(8) hash_write_def)
  qed (use z in \<open>simp_all add: hash_sized_def\<close>)
  with hash_set_inv [OF run i L ok] show ?thesis by (simp add: hash_good_def)
qed

lemma hash_select_sized:
  assumes I: "hash_inv E s" and z: "hash_sized s" and p: "\<And>a. p = Some a \<Longrightarrow> hash_mem s a \<noteq> None"
  shows "hash_sized (hash_switch_attr_select E attr p s)"
proof -
  have o: "hash_mem s a \<noteq> None" if "dn_sai_switch_attr_hash_obj_get E attr s = Some a" for a
    by (rule hash_typeE [OF I]) (use that in \<open>auto simp: dn_sai_switch_attr_hash_obj_get_def\<close>)
  show ?thesis using z by (subst hash_select_eq) (use o p in \<open>auto simp: hash_sized_def\<close>)
qed

lemma hash_switch_set_good:
  assumes run: "dn_sai_switch_hash_attr_set E attr i s w = (rc, s', w')" and I: "hash_good E s"
  shows "hash_good E s'"
proof -
  have v: "hash_inv E s" and z: "hash_sized s" using I by (simp_all add: hash_good_def)
  have "hash_sized s'" using run v
  proof (cases rule: hash_switch_set_effect)
    case cleared
    have "hash_sized (hash_switch_attr_select E attr None s)" by (rule hash_select_sized [OF v z]) simp
    with cleared show ?thesis by simp
  next
    case (selected a h)
    have "hash_sized (hash_switch_attr_select E attr (Some a) s)"
      by (rule hash_select_sized [OF v z]) (use selected(4) in simp)
    with selected show ?thesis by simp
  qed (use z in \<open>simp_all add: hash_sized_def\<close>)
  with hash_switch_set_inv [OF run v] show ?thesis by (simp add: hash_good_def)
qed

section \<open>Reading\<close>

definition list_room :: "'a sai_list_t \<Rightarrow> bool" where
  "list_room l \<longleftrightarrow> sl_count l = 0 \<or> (\<exists>buf. sl_list l = Some buf \<and> unat (sl_count l) \<le> length buf)"

fun hash_get_ok :: "sai_hash_attr_t \<Rightarrow> bool" where
  "hash_get_ok (SAI_HASH_ATTR_NATIVE_HASH_FIELD_LIST l) \<longleftrightarrow> list_room l"
| "hash_get_ok (SAI_HASH_ATTR_UDF_GROUP_LIST l) \<longleftrightarrow> list_room l"
| "hash_get_ok (SAI_HASH_ATTR_UNKNOWN n) \<longleftrightarrow> True"

lemma hash_list_out_ok:
  assumes "list_room l" "length xs < 2 ^ 32"
  shows "hash_list_out xs l \<noteq> None"
proof (cases "sl_count l < of_nat (length xs) \<or> xs = []")
  case False
  have u: "unat (of_nat (length xs) :: uint32_t) = length xs" using assms(2) by (simp add: unsigned_of_nat take_bit_nat_eq_self)
  from False have "of_nat (length xs) \<le> sl_count l" by (simp add: not_less)
  then have "length xs \<le> unat (sl_count l)" by (simp add: word_le_nat_alt u)
  moreover have "sl_count l \<noteq> 0" using False calculation by (metis le_zero_eq length_0_conv unsigned_0)
  ultimately show ?thesis using assms(1) False by (auto simp: hash_list_out_def list_room_def)
qed (auto simp: hash_list_out_def)

interpretation hash_get: attribute_loop
  "\<lambda>i. hash_attribute_answer h" "\<lambda>i st. sai_get_indexed_ret_val E st i" "dn_sai_hash_attr_get E h"
  by unfold_locales simp_all

lemma hash_answer_state:
  assumes "hash_attribute_answer h a s = (rc, a', s')" "hash_get_ok a"
    "length (native_fields_list h) < 2 ^ 32" "length (udf_group_list h) < 2 ^ 32"
  shows "s' = s"
proof (cases a)
  case (SAI_HASH_ATTR_NATIVE_HASH_FIELD_LIST l)
  with hash_list_out_ok [of l "native_fields_list h"] assms show ?thesis by (auto split: option.splits)
next
  case (SAI_HASH_ATTR_UDF_GROUP_LIST l)
  with hash_list_out_ok [of l "udf_group_list h"] assms show ?thesis by (auto split: option.splits)
qed (use assms in simp)

lemma hash_attr_get_state:
  assumes "dn_sai_hash_attr_get E h i as s = (rc, as', s')" "\<forall>a \<in> set as. hash_get_ok a"
    "length (native_fields_list h) < 2 ^ 32" "length (udf_group_list h) < 2 ^ 32"
  shows "s' = s"
  using assms(1,2)
proof (induction as arbitrary: i rc as')
  case (Cons a as)
  obtain r b s1 where a: "hash_attribute_answer h a s = (r, b, s1)" by (metis prod_cases3)
  have "s1 = s" using hash_answer_state [OF a _ assms(3,4)] Cons.prems(2) by simp
  with Cons a show ?case by (auto simp: Let_def split: if_splits prod.splits)
qed simp

lemma hash_get_state:
  assumes run: "dn_sai_hash_obj_get_attr E i as s = (rc, as', s')" and I: "hash_good E s" and ok: "\<forall>a \<in> set as. hash_get_ok a"
  shows "s' = s"
proof (cases "rb_getexact (hash_obj_tree s) i")
  case None
  with run show ?thesis by (auto simp: dn_sai_hash_obj_get_attr_def dn_sai_hash_obj_node_get_def Let_def split: if_splits)
next
  case (Some a)
  have v: "hash_inv E s" using I by (simp add: hash_good_def)
  obtain h where h: "hash_mem s a = Some h" by (rule hash_nodeE [OF v Some])
  have z: "length (native_fields_list h) < 2 ^ 32" "length (udf_group_list h) < 2 ^ 32"
    using I h by (simp_all add: hash_good_def hash_sized_def)
  obtain r bs s1 where g: "dn_sai_hash_attr_get E h 0 as (dn_sai_hash_lock s) = (r, bs, s1)" by (metis prod_cases3)
  have "s1 = dn_sai_hash_lock s" by (rule hash_attr_get_state [OF g ok z])
  with run Some h g show ?thesis
    by (auto simp: dn_sai_hash_obj_get_attr_def dn_sai_hash_obj_node_get_def Let_def split: if_splits)
qed

section \<open>Initialisation\<close>

lemma hash_default_create_good:
  assumes run: "dn_sai_hash_default_hash_obj_create E attr s w = (rc, s', w')"
    and I: "hash_good E s" and L: "hash_laws E"
  shows "hash_good E s'"
proof -
  obtain st l w1 where f: "sai_switch_default_native_hash_fields_get E w = (st, l, w1)" by (metis prod_cases3)
  let ?a = "SAI_HASH_ATTR_NATIVE_HASH_FIELD_LIST l"
  obtain rc1 out s1 w2 where c: "dn_sai_hash_obj_create E [?a] s w1 = (rc1, out, s1, w2)" by (metis prod_cases4)
  have ok: "\<forall>a \<in> set [?a]. hash_attr_ok a" using hash_lawsD(7) [OF L f] by (simp add: list_ok_def)
  have g1: "hash_good E s1" by (rule hash_create_good [OF c I L ok])
  have i: "hash_inv E s" using I by (simp add: hash_good_def)
  show ?thesis
  proof (cases "st = SAI_STATUS_SUCCESS")
    case False
    with run f I show ?thesis by (simp add: dn_sai_hash_default_hash_obj_create_def)
  next
    case st: True
    from c i L ok show ?thesis
    proof (cases rule: hash_create_effect)
      case failed
      with run f c st g1 show ?thesis
        by (cases rc1) (simp_all add: dn_sai_hash_default_hash_obj_create_def)
    next
      case (created a h n bits b)
      obtain rc2 s2 w3 where t: "dn_sai_switch_hash_attr_set E attr (hash_obj_id h) s1 w2 = (rc2, s2, w3)" by (metis prod_cases3)
      obtain rc3 s3 where r: "dn_sai_hash_obj_remove E (hash_obj_id h) s2 = (rc3, s3)" by (metis surj_pair)
      have g2: "hash_good E s2" by (rule hash_switch_set_good [OF t g1])
      have g3: "hash_good E s3" by (rule hash_remove_good [OF r g2 L])
      from run f c st created(1,2) t r g2 g3 show ?thesis
        by (auto simp: dn_sai_hash_default_hash_obj_create_def split: if_splits)
    qed
  qed
qed

lemma hash_init_good:
  assumes run: "sai_hash_obj_init E s w = (SAI_STATUS_SUCCESS, s', w')" and L: "hash_laws E"
    and s: "\<not> hash_init_complete s" "udf_inv (hash_udf s)" "hash_mem s = Map.empty" "\<not> hash_fault s"
  shows "hash_good E s'"
proof -
  have body: "hash_init_body E (hash_db_zero s) w = (SAI_STATUS_SUCCESS, s', w')"
    using run s(1) by (auto simp: sai_hash_obj_init_def split: prod.splits if_splits)
  let ?s1 = "hash_db_zero s\<lparr>hash_obj_tree := Some fmempty\<rparr>"
  obtain w1 where r: "rbtree_create_ok E w = (True, w1)"
    using body by (auto simp: hash_init_body_def split: prod.splits if_splits)
  obtain p w2 where b: "std_bitmap_create_array E DN_SAI_MAX_HASH_INDEX w1 = (p, w2)" by (metis surj_pair)
  have "p \<noteq> None"
  proof
    assume "p = None"
    with body r b show False by (simp add: hash_init_body_def)
  qed
  then obtain bits where p: "p = Some bits" by auto
  have len: "length bits = DN_SAI_MAX_HASH_INDEX" by (rule hash_lawsD(4) [OF L b [unfolded p]])
  let ?s2 = "?s1\<lparr>hash_index_bitmap := Some bits\<rparr>"
  have "hash_tree_ok E ?s2" by (rule hash_tree_okI [of _ "Some fmempty" bits]) (simp_all add: len)
  then have g2: "hash_good E ?s2"
    using s by (simp add: hash_good_def hash_inv_def hash_types_ok_def hash_counts_ok_def hash_sized_def hash_db_zero_def)
  obtain rc3 s3 w3 where c3: "dn_sai_hash_default_hash_obj_create E SAI_SWITCH_ATTR_ECMP_HASH ?s2 w2 = (rc3, s3, w3)"
    by (metis prod_cases3)
  obtain rc4 s4 w4 where c4: "dn_sai_hash_default_hash_obj_create E SAI_SWITCH_ATTR_LAG_HASH s3 w3 = (rc4, s4, w4)"
    by (metis prod_cases3)
  have g4: "hash_good E s4" by (rule hash_default_create_good [OF c4 hash_default_create_good [OF c3 g2 L] L])
  have "s' = s4\<lparr>hash_init_complete := True\<rparr>"
    using body r b p c3 c4 by (auto simp: hash_init_body_def Let_def split: if_splits)
  with g4 show ?thesis
    by (simp add: hash_good_def hash_inv_def hash_tree_ok_def hash_types_ok_def hash_counts_ok_def hash_sized_def)
qed

section \<open>The state machine\<close>

text \<open>A step is a call of the hash module or of the UDF module; the caller's lists are as long as
  their counts say.\<close>

inductive hash_step :: "('w, 'z) hash_env_scheme \<Rightarrow> hash_state \<Rightarrow> hash_state \<Rightarrow> bool" for E where
  hstep_create: "dn_sai_hash_obj_create E as s w = (rc, out, s', w') \<Longrightarrow> \<forall>a \<in> set as. hash_attr_ok a \<Longrightarrow> hash_step E s s'"
| hstep_remove: "dn_sai_hash_obj_remove E i s = (rc, s') \<Longrightarrow> hash_step E s s'"
| hstep_set: "dn_sai_hash_obj_set_attr E i a s w = (rc, s', w') \<Longrightarrow> hash_set_ok a \<Longrightarrow> hash_step E s s'"
| hstep_get: "dn_sai_hash_obj_get_attr E i as s = (rc, as', s') \<Longrightarrow> \<forall>a \<in> set as. hash_get_ok a \<Longrightarrow> hash_step E s s'"
| hstep_select: "dn_sai_switch_hash_attr_set E attr i s w = (rc, s', w') \<Longrightarrow> hash_step E s s'"
| hstep_selected: "dn_sai_switch_hash_attr_get E attr s = (rc, i, s') \<Longrightarrow> hash_step E s s'"
| hstep_udf: "udf_step E (hash_udf s) u \<Longrightarrow> hash_step E s (s\<lparr>hash_udf := u\<rparr>)"

lemma hash_udf_good: "hash_good E s \<Longrightarrow> udf_inv u \<Longrightarrow> hash_good E (s\<lparr>hash_udf := u\<rparr>)"
  by (simp add: hash_good_def hash_inv_def hash_tree_ok_def hash_types_ok_def hash_counts_ok_def hash_sized_def)

lemma hash_step_good:
  assumes "hash_step E s t" and I: "hash_good E s" and L: "hash_laws E"
  shows "hash_good E t"
  using assms(1)
proof cases
  case (hstep_create as w rc out w')
  from this(1) I L this(2) show ?thesis by (rule hash_create_good)
next
  case (hstep_remove i rc)
  then show ?thesis using I L by (rule hash_remove_good)
next
  case (hstep_set i a w rc w')
  from this(1) I L this(2) show ?thesis by (rule hash_set_good)
next
  case (hstep_get i as rc as')
  from hash_get_state [OF this(1) I this(2)] I show ?thesis by simp
next
  case (hstep_select attr i w rc w')
  then show ?thesis using I by (rule hash_switch_set_good)
next
  case (hstep_selected attr rc i)
  with I show ?thesis using hash_switch_get_state [of E attr s rc i t] by (simp add: hash_good_def)
next
  case (hstep_udf u)
  have "udf_inv u" by (rule udf_step_inv [OF hstep_udf(2)])
    (use I hash_lawsD(1) [OF L] in \<open>simp_all add: hash_good_def hash_inv_def\<close>)
  from hash_udf_good [OF I this] hstep_udf(1) show ?thesis by simp
qed

text \<open>The module starts when its initialisation succeeds over a UDF module in any reachable state.\<close>

definition hash_start :: "('w, 'z) hash_env_scheme \<Rightarrow> hash_state \<Rightarrow> bool" where
  "hash_start E s' \<longleftrightarrow> hash_laws E \<and> (\<exists>s w w'. sai_hash_obj_init E s w = (SAI_STATUS_SUCCESS, s', w')
     \<and> \<not> hash_init_complete s \<and> udf_reachable E (hash_udf s) \<and> hash_mem s = Map.empty \<and> \<not> hash_fault s)"

interpretation hash: invariant_system "hash_start E" "\<lambda>s t. hash_laws E \<and> hash_step E s t" "hash_good E" for E
proof unfold_locales
  show "hash_good E s" if st: "hash_start E s" for s
  proof -
    obtain s0 w w' where 0: "sai_hash_obj_init E s0 w = (SAI_STATUS_SUCCESS, s, w')" "hash_laws E"
      "\<not> hash_init_complete s0" "udf_reachable E (hash_udf s0)" "hash_mem s0 = Map.empty" "\<not> hash_fault s0"
      using st unfolding hash_start_def by blast
    show ?thesis by (rule hash_init_good [OF 0(1-3) udf_reachable_invI [OF 0(4)] 0(5,6)])
  qed
  show "hash_good E t" if "hash_good E s" "hash_laws E \<and> hash_step E s t" for s t
    using that hash_step_good by blast
qed

definition hash_reachable :: "('w, 'z) hash_env_scheme \<Rightarrow> hash_state \<Rightarrow> bool" where
  "hash_reachable E = reach (hash_start E) (\<lambda>s t. hash_laws E \<and> hash_step E s t)"

lemma hash_reachable_goodI: "hash_reachable E s \<Longrightarrow> hash_good E s"
  unfolding hash_reachable_def by (rule hash.reach_inv)

lemma hash_reachable_invI: "hash_reachable E s \<Longrightarrow> hash_inv E s"
  by (drule hash_reachable_goodI) (simp add: hash_good_def)

end
