(* ===== verification/Hash_Hw.thy ===== *)
theory Hash_Hw
  imports Hash_State
begin

text \<open>
  What the hardware holds for each switch attribute, against what the selected objects hold: the
  loop that programs the attributes of an object one by one, and the loop that takes them back.
\<close>

section \<open>What the plug-in accepted\<close>

text \<open>\<open>hw\<close> is a history of the world: for each switch attribute the lists of the last request that the
  plug-in answered with success.  A request that is refused, and an allocation, leave it as it is.  Any
  plug-in can be watched like that, so the law says nothing of which requests succeed.\<close>

definition hw_law ::
  "('w, 'z) hash_env_scheme \<Rightarrow> ('w \<Rightarrow> switch_attr_t \<Rightarrow> int list \<times> sai_object_id_t list) \<Rightarrow> bool" where
  "hw_law E hw \<longleftrightarrow>
     (\<forall>attr nf ug w st w'. npu_switch_hash_fields_set E attr nf ug w = (st, w') \<longrightarrow>
        hw w' = (if st = SAI_STATUS_SUCCESS then (hw w)(attr := (nf, ug)) else hw w))
     \<and> (\<forall>w. hw (snd (calloc_ok E w)) = hw w)"

lemma hw_lawD:
  assumes "hw_law E hw" "npu_switch_hash_fields_set E attr nf ug w = (st, w')"
  shows "hw w' = (if st = SAI_STATUS_SUCCESS then (hw w)(attr := (nf, ug)) else hw w)"
  using assms unfolding hw_law_def by blast

abbreviation selects :: "('w, 'z) hash_env_scheme \<Rightarrow> hash_state \<Rightarrow> hash_addr \<Rightarrow> switch_attr_t \<Rightarrow> bool" where
  "selects E s a x \<equiv> dn_sai_switch_attr_hash_obj_get E x s = Some a"

definition hw_with ::
  "(switch_attr_t \<Rightarrow> bool) \<Rightarrow> 'l \<Rightarrow> (switch_attr_t \<Rightarrow> 'l) \<Rightarrow> switch_attr_t \<Rightarrow> 'l" where
  "hw_with P l f = (\<lambda>x. if P x then l else f x)"

lemma hw_with_upd: "hw_with P l (f(y := l)) = hw_with (\<lambda>x. x = y \<or> P x) l f"
  by (rule ext) (simp add: hw_with_def)

lemma hw_loop:
  assumes H: "hw_law E hw"
    and run: "hash_set_in_hw_loop E a nf ug s attrs idx st0 is0 w = (st', idx', is', w')"
  obtains (accepted) "hw w' = hw_with (\<lambda>x. x \<in> set attrs \<and> selects E s a x) (nf, ug) (hw w)"
      "st' = (if \<exists>x \<in> set attrs. selects E s a x then Some SAI_STATUS_SUCCESS else st0)"
  | (refused) pre x post st where "attrs = pre @ x # post" "idx' = idx + length pre" "st' = Some st"
      "st \<noteq> SAI_STATUS_SUCCESS" "is' \<longleftrightarrow> is0 \<or> (\<exists>y \<in> set pre. selects E s a y)"
      "hw w' = hw_with (\<lambda>y. y \<in> set pre \<and> selects E s a y) (nf, ug) (hw w)"
  using run
proof (induction attrs arbitrary: idx st0 is0 w thesis)
  case Nil
  from Nil(3) show ?case by (intro Nil(1)) (simp_all add: hw_with_def)
next
  case (Cons x attrs)
  note accepted = Cons.prems(1) and refused = Cons.prems(2)
  show ?case
  proof (cases "selects E s a x")
    case True
    obtain st w1 where n: "npu_switch_hash_fields_set E x nf ug w = (st, w1)" by (metis surj_pair)
    note l = hw_lawD [OF H n]
    show ?thesis
    proof (cases "st = SAI_STATUS_SUCCESS")
      case ok: True
      have hw1: "hw w1 = (hw w)(x := (nf, ug))" using l ok by simp
      have r: "hash_set_in_hw_loop E a nf ug s attrs (Suc idx) (Some SAI_STATUS_SUCCESS) True w1 = (st', idx', is', w')"
        using Cons.prems(3) True n ok by simp
      show ?thesis
      proof (rule Cons.IH [OF _ _ r])
        assume 1: "hw w' = hw_with (\<lambda>x. x \<in> set attrs \<and> selects E s a x) (nf, ug) (hw w1)"
          "st' = (if \<exists>x \<in> set attrs. selects E s a x then Some SAI_STATUS_SUCCESS else Some SAI_STATUS_SUCCESS)"
        show thesis
        proof (rule accepted)
          show "hw w' = hw_with (\<lambda>y. y \<in> set (x # attrs) \<and> selects E s a y) (nf, ug) (hw w)"
            unfolding 1(1) hw1 hw_with_upd using True by (auto simp: hw_with_def)
        qed (use 1 True in simp_all)
      next
        fix pre y post st1
        assume 1: "attrs = pre @ y # post" "idx' = Suc idx + length pre" "st' = Some st1" "st1 \<noteq> SAI_STATUS_SUCCESS"
          "is' \<longleftrightarrow> True \<or> (\<exists>y \<in> set pre. selects E s a y)"
          "hw w' = hw_with (\<lambda>y. y \<in> set pre \<and> selects E s a y) (nf, ug) (hw w1)"
        show thesis
        proof (rule refused [of "x # pre" y post st1])
          show "hw w' = hw_with (\<lambda>y. y \<in> set (x # pre) \<and> selects E s a y) (nf, ug) (hw w)"
            unfolding 1(6) hw1 hw_with_upd using True by (auto simp: hw_with_def)
        qed (use 1 True in simp_all)
      qed
    next
      case False
      with Cons.prems(3) True n l show ?thesis by (intro refused [of "[]" x attrs st]) (auto simp: hw_with_def)
    qed
  next
    case False
    have r: "hash_set_in_hw_loop E a nf ug s attrs (Suc idx) st0 is0 w = (st', idx', is', w')"
      using Cons.prems(3) False by simp
    show ?thesis
    proof (rule Cons.IH [OF _ _ r])
      assume 1: "hw w' = hw_with (\<lambda>x. x \<in> set attrs \<and> selects E s a x) (nf, ug) (hw w)"
        "st' = (if \<exists>x \<in> set attrs. selects E s a x then Some SAI_STATUS_SUCCESS else st0)"
      show thesis by (rule accepted) (use 1 False in \<open>auto simp: hw_with_def\<close>)
    next
      fix pre y post st1
      assume 1: "attrs = pre @ y # post" "idx' = Suc idx + length pre" "st' = Some st1" "st1 \<noteq> SAI_STATUS_SUCCESS"
        "is' \<longleftrightarrow> is0 \<or> (\<exists>y \<in> set pre. selects E s a y)"
        "hw w' = hw_with (\<lambda>y. y \<in> set pre \<and> selects E s a y) (nf, ug) (hw w)"
      show thesis by (rule refused [of "x # pre" y post st1]) (use 1 False in \<open>auto simp: hw_with_def\<close>)
    qed
  qed
qed

text \<open>Putting the old lists back does so for every attribute, or the plug-in refuses it.\<close>

lemma hw_clnup:
  assumes H: "hw_law E hw"
  shows "hw (hash_clnup_loop E a nf ug s attrs w) z =
      (if z \<in> set attrs \<and> selects E s a z then (nf, ug) else hw w z)
    \<or> (z \<in> set attrs \<and> selects E s a z \<and> hw (hash_clnup_loop E a nf ug s attrs w) z = hw w z
       \<and> (\<exists>v. hw v z = hw w z \<and> fst (npu_switch_hash_fields_set E z nf ug v) \<noteq> SAI_STATUS_SUCCESS))"
proof (induction attrs arbitrary: w)
  case (Cons x attrs)
  obtain st w1 where n: "npu_switch_hash_fields_set E x nf ug w = (st, w1)" by (metis surj_pair)
  note l = hw_lawD [OF H n]
  show ?case
  proof (cases "selects E s a x")
    case True
    show ?thesis
    proof (cases "x = z \<and> st \<noteq> SAI_STATUS_SUCCESS")
      case True
      with \<open>selects E s a x\<close> Cons.IH [of w1] n l show ?thesis
        by (auto intro: exI [of _ w])
    next
      case False
      with True Cons.IH [of w1] n l show ?thesis by (auto split: if_splits)
    qed
  next
    case False
    with Cons.IH [of w] show ?thesis by (auto split: if_splits)
  qed
qed simp

section \<open>Hardware and objects agree\<close>

definition hash_selected ::
  "('w, 'z) hash_env_scheme \<Rightarrow> hash_state \<Rightarrow> switch_attr_t \<Rightarrow> (int list \<times> sai_object_id_t list) option" where
  "hash_selected E s x = map_option hash_lists (Option.bind (dn_sai_switch_attr_hash_obj_get E x s) (hash_mem s))"

definition hw_synced ::
  "('w, 'z) hash_env_scheme \<Rightarrow> ('w \<Rightarrow> switch_attr_t \<Rightarrow> int list \<times> sai_object_id_t list)
     \<Rightarrow> hash_state \<Rightarrow> 'w \<Rightarrow> bool" where
  "hw_synced E hw s w \<longleftrightarrow> (\<forall>x \<in> set dn_switch_hash_attr_id. \<forall>p. hash_selected E s x = Some p \<longrightarrow> hw w x = p)"

lemma hw_syncedD:
  "hw_synced E hw s w \<Longrightarrow> x \<in> set dn_switch_hash_attr_id \<Longrightarrow> selects E s a x \<Longrightarrow> hash_mem s a = Some h \<Longrightarrow>
     hw w x = hash_lists h"
proof -
  assume "hw_synced E hw s w" "x \<in> set dn_switch_hash_attr_id" "selects E s a x" "hash_mem s a = Some h"
  moreover from this have "hash_selected E s x = Some (hash_lists h)" by (simp add: hash_selected_def)
  ultimately show ?thesis unfolding hw_synced_def by blast
qed

lemma hw_synced_lock [simp]: "hw_synced E hw (dn_sai_hash_lock s) w = hw_synced E hw s w"
  by (simp add: hw_synced_def hash_selected_def dn_sai_switch_attr_hash_obj_get_def)

lemma selects_lock [simp]: "selects E (dn_sai_hash_lock s) a x = selects E s a x"
  by (simp add: dn_sai_switch_attr_hash_obj_get_def)

text \<open>The attribute keeps the new lists although the call failed: the old ones were refused.\<close>

definition hw_stuck ::
  "('w, 'z) hash_env_scheme \<Rightarrow> ('w \<Rightarrow> switch_attr_t \<Rightarrow> int list \<times> sai_object_id_t list)
     \<Rightarrow> int list \<times> sai_object_id_t list \<Rightarrow> int list \<times> sai_object_id_t list \<Rightarrow> switch_attr_t \<Rightarrow> bool" where
  "hw_stuck E hw old new x \<longleftrightarrow>
     (\<exists>v. hw v x = new \<and> fst (npu_switch_hash_fields_set E x (fst old) (snd old) v) \<noteq> SAI_STATUS_SUCCESS)"

lemma hw_set_in_hw:
  assumes H: "hw_law E hw" and sync: "hw_synced E hw s w" and h: "hash_mem s a = Some h"
    and ok: "hash_attr_ok attr" and sel: "x \<in> set dn_switch_hash_attr_id" "selects E s a x"
    and run: "dn_sai_hash_obj_set_in_hw E a h attr s w = (st, s', w')"
  obtains (accepted) "st = SAI_STATUS_SUCCESS"
      "hw w' = hw_with (\<lambda>x. x \<in> set dn_switch_hash_attr_id \<and> selects E s a x) (hash_apply attr (hash_lists h)) (hw w)"
  | (refused) "st \<noteq> SAI_STATUS_SUCCESS"
      "\<And>z. hw w' z = hw w z \<or> (z \<in> set dn_switch_hash_attr_id \<and> selects E s a z
         \<and> hw w' z = hash_apply attr (hash_lists h) \<and> hw_stuck E hw (hash_lists h) (hash_apply attr (hash_lists h)) z)"
proof (cases "\<exists>n. attr = SAI_HASH_ATTR_UNKNOWN n")
  case True
  with run show thesis by (intro refused) (auto simp: dn_sai_hash_obj_set_in_hw_def)
next
  case False
  then have l: "hash_hw_lists h attr = Some (hash_apply attr (hash_lists h))" using ok by (intro hash_hw_lists_eq) auto
  obtain nf ug where l2: "hash_apply attr (hash_lists h) = (nf, ug)" by (metis surj_pair)
  obtain st1 idx is1 w1 where r: "hash_set_in_hw_loop E a nf ug s dn_switch_hash_attr_id 0 None False w = (st1, idx, is1, w1)"
    by (metis prod_cases4)
  have e: "dn_sai_hash_obj_set_in_hw E a h attr s w = (case st1 of None \<Rightarrow> (SAI_STATUS_FAILURE, hash_crash s, w1)
     | Some st \<Rightarrow> if st = SAI_STATUS_SUCCESS then (st, s, w1)
         else (st, s, if is1 then hash_clnup_loop E a (native_fields_list h) (udf_group_list h) s
              (take idx dn_switch_hash_attr_id) w1 else w1))"
    using False l l2 r by (cases attr) (simp_all add: dn_sai_hash_obj_set_in_hw_def)
  from H r show thesis
  proof (cases rule: hw_loop)
    case 1: accepted
    with sel have "st1 = Some SAI_STATUS_SUCCESS" by auto
    with run e 1 l2 show thesis by (intro accepted) simp_all
  next
    case 1: (refused pre y post st2)
    have tk: "take idx dn_switch_hash_attr_id = pre" unfolding 1(1,2) by simp
    have "hw w' z = hw w z \<or> (z \<in> set dn_switch_hash_attr_id \<and> selects E s a z
         \<and> hw w' z = (nf, ug) \<and> hw_stuck E hw (hash_lists h) (nf, ug) z)" for z
    proof (cases "z \<in> set pre \<and> selects E s a z")
      case in_pre: True
      have z: "z \<in> set dn_switch_hash_attr_id" unfolding 1(1) using in_pre by simp
      have old: "hw w z = (native_fields_list h, udf_group_list h)"
        using hw_syncedD [OF sync z _ h] in_pre by (simp add: hash_lists_def)
      have new: "hw w1 z = (nf, ug)" using 1(6) in_pre by (simp add: hw_with_def)
      have "w' = hash_clnup_loop E a (native_fields_list h) (udf_group_list h) s pre w1"
        using run e 1(3,4,5) tk in_pre by auto
      with hw_clnup [OF H, of a "native_fields_list h" "udf_group_list h" s pre w1 z] old new in_pre z
      show ?thesis by (auto simp: hw_stuck_def hash_lists_def)
    next
      case False
      have "hw w1 z = hw w z" using 1(6) False by (auto simp: hw_with_def)
      moreover have "hw w' z = hw w1 z"
        using run e 1(3,4) tk False
          hw_clnup [OF H, of a "native_fields_list h" "udf_group_list h" s pre w1 z] by (auto split: if_splits)
      ultimately show ?thesis by simp
    qed
    moreover have "st \<noteq> SAI_STATUS_SUCCESS" using run e 1(3,4) by simp
    ultimately show thesis using refused l2 by simp
  qed
qed

lemma hw_stage:
  assumes H: "hw_law E hw" and sync: "hw_synced E hw s w" and I: "hash_inv E s" and tl: "translate_law E"
    and g: "rb_getexact (hash_obj_tree s) i = Some a" "hash_mem s a = Some h" and ok: "hash_attr_ok attr"
    and run: "hash_hw_stage E a h attr (dn_sai_hash_lock s) w = (st, s', w')"
  obtains (accepted) "st = SAI_STATUS_SUCCESS"
      "hw w' = hw_with (\<lambda>x. x \<in> set dn_switch_hash_attr_id \<and> selects E s a x) (hash_apply attr (hash_lists h)) (hw w)"
  | (refused) "st \<noteq> SAI_STATUS_SUCCESS"
      "\<And>z. hw w' z = hw w z \<or> (z \<in> set dn_switch_hash_attr_id \<and> selects E s a z
         \<and> hw w' z = hash_apply attr (hash_lists h) \<and> hw_stuck E hw (hash_lists h) (hash_apply attr (hash_lists h)) z)"
proof (cases "dn_sai_hash_is_obj_used h")
  case True
  then obtain t where t: "hash_obj_types s t = Some a" using hash_used_iff [OF I g] by blast
  obtain x where x: "x \<in> set dn_switch_hash_attr_id" "dn_sai_switch_attr_id_to_hash_type E x = t"
    by (rule hash_attr_of_type [OF tl])
  have r: "dn_sai_hash_obj_set_in_hw E a h attr (dn_sai_hash_lock s) w = (st, s', w')"
    using run True by (simp add: hash_hw_stage_def)
  show thesis
  proof (rule hw_set_in_hw [OF H _ _ ok x(1) _ r])
    show "selects E (dn_sai_hash_lock s) a x" using t x(2) by (simp add: dn_sai_switch_attr_hash_obj_get_def)
  qed (use sync g accepted refused in simp_all)
next
  case False
  then have no: "\<not> selects E s a x" for x
    using hash_used_iff [OF I g] by (simp add: dn_sai_switch_attr_hash_obj_get_def)
  from run False have "st = SAI_STATUS_SUCCESS" "w' = w" by (simp_all add: hash_hw_stage_def)
  with no show thesis by (intro accepted) (simp_all add: hw_with_def)
qed

end
