(* ===== verification/Hash_Claims.thy ===== *)
theory Hash_Claims
  imports Hash_Hw Udf_Demo
begin

text \<open>
  Properties of the hash module: reference counts, creation and removal, the hardware against the
  objects, the two refusals that keep the lock, and the UDF groups that an object lists.
\<close>

section \<open>A concrete platform\<close>

text \<open>
  A concrete platform for the witnesses of the hash module, with its laws.  The world is the next
  free address and the lists the hardware holds; the plug-in accepts the lists that a predicate
  accepts.  The initialisation over a UDF module with one empty hash group (id 268) makes the default
  objects (ids 14 and 270), and a third object (id 526) lists the group.
\<close>

type_synonym hash_world = "nat \<times> (switch_attr_t \<Rightarrow> int list \<times> sai_object_id_t list)"

fun demo_first_set :: "bool list \<Rightarrow> nat option" where
  "demo_first_set [] = None"
| "demo_first_set (b # bs) = (if b then Some 0 else map_option Suc (demo_first_set bs))"

definition demo_accepts :: "switch_attr_t \<Rightarrow> int list \<times> sai_object_id_t list \<Rightarrow> bool" where
  \<comment> \<open>at most three native fields\<close>
  "demo_accepts x p \<longleftrightarrow> length (fst p) \<le> 3"

definition demo_hash :: "hash_world hash_env" where
  "demo_hash = \<lparr>
     calloc_ok = \<lambda>w. (True, w), rbtree_create_ok = \<lambda>w. (True, w), rbtree_insert_ok = \<lambda>b w. (\<not> b, w),
     sai_uoid_create = demo_uoid, sai_is_obj_id = demo_is_obj, sai_is_port_valid = \<lambda>w. demo_port_valid (fst w),
     sai_get_indexed_ret_val = demo_indexed, dn_sai_get_next_free_id = demo_next_id, uoid_npu_obj_id_mask = 0,
     SAI_UDF_DFLT_HASH_MASK_COUNT = 2,
     udf_calloc = \<lambda>A w. (if A (fst w) then None else Some (fst w), (Suc (fst w), snd w)),
     sai_attribute_validate = demo_validate,
     npu_udf_init = \<lambda>w. (SAI_STATUS_SUCCESS, w), npu_udf_deinit = \<lambda>w. w,
     npu_udf_group_create = \<lambda>s g w. (SAI_STATUS_SUCCESS, of_nat (fst w), (Suc (fst w), snd w)),
     npu_udf_group_remove = \<lambda>s g w. (SAI_STATUS_SUCCESS, w),
     npu_udf_group_hw_id_get = \<lambda>s g w. (SAI_STATUS_SUCCESS, 1, w),
     npu_udf_create = \<lambda>s u w. (SAI_STATUS_SUCCESS, of_nat (fst w), (Suc (fst w), snd w)),
     npu_udf_remove = \<lambda>s u w. (SAI_STATUS_SUCCESS, w),
     npu_udf_attribute_set = \<lambda>s u a w. (SAI_STATUS_SUCCESS, w),
     npu_udf_match_create = \<lambda>as w. (SAI_STATUS_SUCCESS, of_nat (fst w), (Suc (fst w), snd w)),
     npu_udf_match_remove = \<lambda>i w. (SAI_STATUS_SUCCESS, w),
     npu_udf_match_attribute_get = \<lambda>i as w. (SAI_STATUS_SUCCESS, as, w),
     hash_calloc = \<lambda>A w. (if A (fst w) then None else Some (fst w), (Suc (fst w), snd w)),
     hash_attribute_validate = \<lambda>ids tab op. if \<forall>i \<in> set ids. \<exists>e \<in> set tab. ae_id e = i
       then SAI_STATUS_SUCCESS else SAI_STATUS_INVALID_PARAMETER,
     translate = \<lambda>ks vs k d. case map_of (zip ks vs) k of None \<Rightarrow> d | Some v \<Rightarrow> v,
     std_bitmap_create_array = \<lambda>n w. (Some (replicate n True), w),
     std_find_first_bit = demo_first_set,
     sai_uoid_npu_obj_id_get = drop_bit 8,
     sai_switch_default_native_hash_fields_get =
       \<lambda>w. (SAI_STATUS_SUCCESS, \<lparr>sl_count = 2, sl_list = Some [1, 2]\<rparr>, w),
     npu_switch_hash_fields_set = \<lambda>x nf ug w. if demo_accepts x (nf, ug)
       then (SAI_STATUS_SUCCESS, (fst w, (snd w)(x := (nf, ug)))) else (SAI_STATUS_FAILURE, w)\<rparr>"

lemma demo_first_set_ok: "demo_first_set bs = Some n \<Longrightarrow> n < length bs \<and> bs ! n"
  by (induction bs arbitrary: n) (auto split: if_splits)

lemma demo_hash_uoid:
  assumes "n < 256"
  shows "unat (drop_bit 8 (demo_uoid SAI_OBJECT_TYPE_HASH (of_nat n))) = n"
proof -
  have n: "take_bit 8 n = n" using assms by (simp add: take_bit_nat_eq_self)
  have "m < 8" if "bit n m" for m
    using that bit_take_bit_iff [of 8 n m] unfolding n by simp
  then have "drop_bit 8 (push_bit 8 (of_nat n :: 64 word)) = of_nat n"
    by (intro bit_word_eqI) (fastforce simp: bit_simps)
  then show ?thesis using assms by (simp add: demo_uoid_def drop_bit_or unsigned_of_nat take_bit_nat_eq_self)
qed

lemma demo_hash_laws: "hash_laws demo_hash"
proof -
  have u: "udf_laws demo_hash"
    unfolding udf_laws_def udf_calloc_law_def indexed_law_def validate_law_def refuses_duplicates_def
    by (simp add: demo_hash_def demo_indexed_success demo_validate_def split: if_splits)
  have t: "translate_law demo_hash" by (simp add: translate_law_def demo_hash_def)
  have b: "bitmap_law demo_hash" by (auto simp: bitmap_law_def demo_hash_def dest: demo_first_set_ok)
  have i: "hash_uoid_law demo_hash"
    by (simp add: hash_uoid_law_def demo_hash_def DN_SAI_MAX_HASH_INDEX_def demo_hash_uoid demo_is_obj_uoid demo_uoid_nonzero)
  show ?thesis using u t b i
    by (simp add: hash_laws_def hash_calloc_law_def default_fields_law_def demo_hash_def list_arg_def split: if_splits)
qed

lemma demo_hw_law: "hw_law demo_hash snd"
  by (simp add: hw_law_def demo_hash_def)

section \<open>States\<close>

definition demo_hash_zero :: hash_state where
  "demo_hash_zero = \<lparr>hash_udf = demo_udf_group, hash_obj_tree = None, hash_obj_types = Map.empty,
     hash_index_bitmap = None, hash_init_complete = False, hash_mem = Map.empty, hash_lock_depth = 0,
     hash_fault = False\<rparr>"

definition demo_hash_node :: "sai_object_id_t \<Rightarrow> int list \<Rightarrow> sai_object_id_t list \<Rightarrow> uint32_t \<Rightarrow> dn_sai_hash_object_t" where
  "demo_hash_node i nf ug r = \<lparr>hash_obj_id = i, native_fields_list = nf, udf_group_list = ug, hash_ref_count = r\<rparr>"

definition demo_hash_two :: hash_state where
  "demo_hash_two = demo_hash_zero\<lparr>
     hash_obj_tree := rb_put (rb_put (Some fmempty) 14 0) 270 1,
     hash_obj_types := [DN_SAI_ECMP_NON_IP_HASH \<mapsto> 0, DN_SAI_LAG_NON_IP_HASH \<mapsto> 1],
     hash_index_bitmap := Some (False # False # replicate 254 True), hash_init_complete := True,
     hash_mem := [0 \<mapsto> demo_hash_node 14 [1, 2] [] 1, 1 \<mapsto> demo_hash_node 270 [1, 2] [] 1]\<rparr>"

definition demo_hash_three :: hash_state where
  "demo_hash_three = demo_hash_two\<lparr>
     hash_obj_tree := rb_put (rb_put (rb_put (Some fmempty) 14 0) 270 1) 526 2,
     hash_index_bitmap := Some (False # False # False # replicate 253 True),
     hash_mem := [0 \<mapsto> demo_hash_node 14 [1, 2] [] 1, 1 \<mapsto> demo_hash_node 270 [1, 2] [] 1,
       2 \<mapsto> demo_hash_node 526 [] [268] 0]\<rparr>"

definition demo_hw :: "switch_attr_t \<Rightarrow> int list \<times> sai_object_id_t list" where
  "demo_hw = (\<lambda>x. ([], []))(SAI_SWITCH_ATTR_ECMP_HASH := ([1, 2], []), SAI_SWITCH_ATTR_LAG_HASH := ([1, 2], []))"

lemma replicate_256: "replicate 256 x = x # x # replicate 254 x" "replicate 254 x = x # replicate 253 x"
  by (simp_all flip: replicate_Suc)

lemmas demo_hash_lock = dn_sai_hash_lock_def dn_sai_hash_unlock_def

lemma demo_hash_list_arg: "list_arg \<lparr>sl_count = 2, sl_list = Some [x, y]\<rparr> = Some [x, y]"
  "list_arg \<lparr>sl_count = 1, sl_list = Some [z]\<rparr> = Some [z]"
  by (simp_all add: list_arg_def)

lemma demo_udf_create_group_hw:
  "dn_sai_udf_group_create demo_hash
     [SAI_UDF_GROUP_ATTR_LENGTH 2, SAI_UDF_GROUP_ATTR_TYPE SAI_UDF_GROUP_TYPE_HASH] demo_udf_none (0, f)
   = (SAI_STATUS_SUCCESS, Some 268, demo_udf_group, (2, f))"
  by (simp add: dn_sai_udf_group_create_def dn_sai_udf_attr_list_validate_def dn_sai_udf_attr_table_get_def
      dn_sai_udf_group_attr_def udf_entry_def demo_hash_def demo_validate_def demo_udf_none_def
      udf_group_create_body_def dn_sai_udf_group_length_set_def dn_sai_udf_group_type_set_def
      dn_sai_udf_group_init_def group_write_def demo_udf_group_def demo_group_def dn_sai_udf_lock_def
      dn_sai_udf_unlock_def demo_uoid_def std_rbtree_insert_def Let_def)

lemma demo_udf_reachable_hw: "udf_reachable demo_hash demo_udf_group"
proof -
  have L: "udf_laws demo_hash" by (rule hash_lawsD(1) [OF demo_hash_laws])
  have 0: "udf_reachable demo_hash demo_udf_none"
    unfolding udf_reachable_def by (rule reach_start) (simp add: udf_start_def demo_udf_none_def)
  have "udf_step demo_hash demo_udf_none demo_udf_group" by (rule ustep_group_create [OF demo_udf_create_group_hw])
  with L show ?thesis using reach_step [OF 0 [unfolded udf_reachable_def]] by (simp only: udf_reachable_def)
qed

lemma demo_hash_validate: "dn_sai_hash_attr_list_validate demo_hash ids op = SAI_STATUS_SUCCESS
    \<longleftrightarrow> set ids \<subseteq> {NATIVE_FIELD_LIST_ID, UDF_GROUP_LIST_ID}"
  by (auto simp: dn_sai_hash_attr_list_validate_def demo_hash_def dn_sai_hash_attr_def)

lemma demo_hash_type:
  "dn_sai_switch_attr_id_to_hash_type demo_hash SAI_SWITCH_ATTR_ECMP_HASH = DN_SAI_ECMP_NON_IP_HASH"
  "dn_sai_switch_attr_id_to_hash_type demo_hash SAI_SWITCH_ATTR_LAG_HASH = DN_SAI_LAG_NON_IP_HASH"
  by (simp_all add: dn_sai_switch_attr_id_to_hash_type_def demo_hash_def dn_switch_hash_attr_id_def
      dn_sai_hash_obj_types_def)

lemma demo_hash_env:
  "calloc_ok demo_hash w = (True, w)" "rbtree_create_ok demo_hash w = (True, w)"
  "rbtree_insert_ok demo_hash b w = (\<not> b, w)" "sai_uoid_create demo_hash = demo_uoid"
  "sai_is_obj_id demo_hash = demo_is_obj" "std_find_first_bit demo_hash = demo_first_set"
  "hash_calloc demo_hash A w = (if A (fst w) then None else Some (fst w), (Suc (fst w), snd w))"
  "std_bitmap_create_array demo_hash n w = (Some (replicate n True), w)"
  "sai_switch_default_native_hash_fields_get demo_hash w = (SAI_STATUS_SUCCESS, \<lparr>sl_count = 2, sl_list = Some [1, 2]\<rparr>, w)"
  "npu_switch_hash_fields_set demo_hash x nf ug w = (if demo_accepts x (nf, ug)
     then (SAI_STATUS_SUCCESS, (fst w, (snd w)(x := (nf, ug)))) else (SAI_STATUS_FAILURE, w))"
  by (simp_all add: demo_hash_def)

definition demo_hash_one :: hash_state where
  "demo_hash_one = demo_hash_zero\<lparr>
     hash_obj_tree := rb_put (Some fmempty) 14 0, hash_obj_types := [DN_SAI_ECMP_NON_IP_HASH \<mapsto> 0],
     hash_index_bitmap := Some (False # True # replicate 254 True),
     hash_mem := [0 \<mapsto> demo_hash_node 14 [1, 2] [] 1]\<rparr>"

lemmas demo_hash_defs = demo_hash_zero_def demo_hash_one_def demo_hash_two_def demo_hash_three_def demo_hash_node_def

lemmas demo_hash_calls = dn_sai_hash_default_hash_obj_create_def dn_sai_hash_obj_create_def hash_create_body_def
  dn_sai_hash_attr_set_def dn_sai_hash_native_field_list_set_def dn_sai_switch_hash_attr_set_def
  hash_switch_attr_select_def dn_sai_switch_attr_hash_obj_get_def dn_sai_switch_attr_hash_obj_set_def
  dn_sai_hash_obj_node_get_def hash_update_def hash_write_def hash_node_zero_def demo_hash_lock

lemma demo_hash_default_first:
  "dn_sai_hash_default_hash_obj_create demo_hash SAI_SWITCH_ATTR_ECMP_HASH
     (demo_hash_zero\<lparr>hash_obj_tree := Some fmempty, hash_index_bitmap := Some (replicate 256 True)\<rparr>) (0, f)
   = (SAI_STATUS_SUCCESS, demo_hash_one, (1, f(SAI_SWITCH_ATTR_ECMP_HASH := ([1, 2], []))))"
  by (simp add: demo_hash_calls demo_hash_env demo_hash_validate demo_hash_type demo_hash_list_arg demo_hash_defs
      replicate_256(1) demo_uoid_def demo_is_obj_def std_rbtree_insert_def demo_accepts_def Let_def)

lemma demo_hash_default_second:
  "dn_sai_hash_default_hash_obj_create demo_hash SAI_SWITCH_ATTR_LAG_HASH demo_hash_one (1, f)
   = (SAI_STATUS_SUCCESS, demo_hash_two\<lparr>hash_init_complete := False\<rparr>,
      (2, f(SAI_SWITCH_ATTR_LAG_HASH := ([1, 2], []))))"
  by (simp add: demo_hash_calls demo_hash_env demo_hash_validate demo_hash_type demo_hash_list_arg demo_hash_defs
      demo_uoid_def demo_is_obj_def std_rbtree_insert_def demo_accepts_def Let_def)

lemma demo_hash_init:
  "sai_hash_obj_init demo_hash demo_hash_zero (0, \<lambda>x. ([], [])) = (SAI_STATUS_SUCCESS, demo_hash_two, (2, demo_hw))"
proof -
  have z: "hash_db_zero demo_hash_zero = demo_hash_zero" by (simp add: hash_db_zero_def demo_hash_zero_def)
  have i: "\<not> hash_init_complete demo_hash_zero" by (simp add: demo_hash_zero_def)
  have c: "demo_hash_two\<lparr>hash_init_complete := False, hash_init_complete := True\<rparr> = demo_hash_two"
    by (simp add: demo_hash_two_def)
  show ?thesis
    using i c by (simp add: sai_hash_obj_init_def hash_init_body_def z demo_hash_env DN_SAI_MAX_HASH_INDEX_def
        demo_hash_default_first demo_hash_default_second demo_hw_def del: One_nat_def)
qed

lemma demo_hash_create_third:
  "dn_sai_hash_obj_create demo_hash [SAI_HASH_ATTR_UDF_GROUP_LIST \<lparr>sl_count = 1, sl_list = Some [268]\<rparr>]
     demo_hash_two (2, f) = (SAI_STATUS_SUCCESS, Some 526, demo_hash_three, (3, f))"
proof -
  have v: "dn_sai_hash_udf_group_list_validate demo_hash [268] s = (True, s)"
    if "hash_udf s = demo_udf_group" for s
  proof -
    have "udf_inv (hash_udf s)" unfolding that by (rule udf_reachable_invI [OF demo_udf_reachable_hw])
    from hash_udf_list_validate_eq [OF this, of demo_hash "[268]"] show ?thesis
      by (simp add: that udf_hash_group_def demo_hash_env demo_is_obj_def
          demo_udf_group_def demo_group_def demo_udf_none_def)
  qed
  show ?thesis
    by (simp add: demo_hash_calls dn_sai_hash_udf_group_list_set_def v demo_hash_env demo_hash_validate demo_hash_list_arg
        demo_hash_defs replicate_256(2) demo_uoid_def std_rbtree_insert_def Let_def)
qed

lemma demo_hash_reachable: "hash_reachable demo_hash demo_hash_two" "hash_reachable demo_hash demo_hash_three"
proof -
  have "hash_start demo_hash demo_hash_two" unfolding hash_start_def
    using demo_hash_laws demo_hash_init demo_udf_reachable_hw
    by (intro conjI exI [of _ demo_hash_zero] exI) (simp_all add: demo_hash_zero_def)
  then show 1: "hash_reachable demo_hash demo_hash_two" unfolding hash_reachable_def by (rule reach_start)
  have "hash_step demo_hash demo_hash_two demo_hash_three"
    by (rule hstep_create [OF demo_hash_create_third [of demo_hw]]) (simp add: list_ok_def demo_hash_list_arg)
  with demo_hash_laws show "hash_reachable demo_hash demo_hash_three"
    using reach_step [OF 1 [unfolded hash_reachable_def]] by (simp only: hash_reachable_def)
qed

lemma demo_hw_synced: "hw_synced demo_hash snd demo_hash_two (n, demo_hw)"
  by (auto simp: hw_synced_def hash_selected_def dn_switch_hash_attr_id_def dn_sai_switch_attr_hash_obj_get_def
      dn_sai_switch_attr_id_to_hash_type_def dn_sai_hash_obj_types_def demo_hash_def demo_hash_defs demo_hw_def
      hash_lists_def)

section \<open>Reference counts\<close>

text \<open>C7. In every state that the calls of the hash module and of the UDF module reach after a
  successful initialisation, nothing freed was used, nothing was freed twice and no variable was read
  before it was set; the reference count of a hash object is the number of switch attributes that
  select it; and what a switch attribute selects is an object that can be found by its id.\<close>

theorem hash_ref_counts:
  assumes "hash_reachable E s"
  shows "\<not> hash_fault s
    \<and> (\<forall>i a. rb_getexact (hash_obj_tree s) i = Some a \<longrightarrow>
         (\<exists>h. hash_mem s a = Some h \<and> hash_obj_id h = i
            \<and> unat (hash_ref_count h) = card {t. hash_obj_types s t = Some a}))
    \<and> (\<forall>t a. hash_obj_types s t = Some a \<longrightarrow>
         (\<exists>h. hash_mem s a = Some h \<and> rb_getexact (hash_obj_tree s) (hash_obj_id h) = Some a))"
proof -
  have I: "hash_inv E s" using assms by (rule hash_reachable_invI)
  have "\<exists>h. hash_mem s a = Some h \<and> hash_obj_id h = i \<and> unat (hash_ref_count h) = card {t. hash_obj_types s t = Some a}"
    if g: "rb_getexact (hash_obj_tree s) i = Some a" for i a
  proof -
    obtain h where h: "hash_mem s a = Some h" "hash_obj_id h = i"
      "hash_ref_count h = of_nat (hash_uses (hash_obj_types s) a)" by (rule hash_nodeE [OF I g])
    have "hash_uses (hash_obj_types s) a < 2 ^ 32" using hash_uses_le [of "hash_obj_types s" a] by simp
    with h show ?thesis by (simp add: hash_uses_def unsigned_of_nat take_bit_nat_eq_self)
  qed
  moreover have "\<exists>h. hash_mem s a = Some h \<and> rb_getexact (hash_obj_tree s) (hash_obj_id h) = Some a"
    if "hash_obj_types s t = Some a" for t a
    by (rule hash_typeE [OF I that]) blast
  ultimately show ?thesis using hash_invD(1) [OF I] by blast
qed

theorem hash_ref_counts_witness: "card {t. hash_obj_types demo_hash_three t = Some 1} = 1"
proof -
  have "rb_getexact (hash_obj_tree demo_hash_three) 270 = Some 1"
    "hash_mem demo_hash_three 1 = Some (demo_hash_node 270 [1, 2] [] 1)" by (simp_all add: demo_hash_three_def)
  moreover from this obtain h where "hash_mem demo_hash_three 1 = Some h"
    "unat (hash_ref_count h) = card {t. hash_obj_types demo_hash_three t = Some 1}"
    using hash_ref_counts [OF demo_hash_reachable(2)] by blast
  ultimately show ?thesis by (auto simp: demo_hash_node_def)
qed

section \<open>Creation and removal\<close>

text \<open>C11. A hash object that was just created and entered in the tree can be removed, and its removal
  restores the state as it was, the free index included.\<close>

theorem hash_create_remove:
  assumes create: "dn_sai_hash_obj_create E attrs s w = (SAI_STATUS_SUCCESS, Some i, s1, w1)"
    and reach: "hash_reachable E s" and L: "hash_laws E" and ok: "\<forall>a \<in> set attrs. hash_attr_ok a"
    and entered: "rb_getexact (hash_obj_tree s1) i \<noteq> None"
  shows "dn_sai_hash_obj_remove E i s1 = (SAI_STATUS_SUCCESS, s)"
proof -
  have I: "hash_inv E s" using reach by (rule hash_reachable_invI)
  have I1: "hash_inv E s1" by (rule hash_create_inv [OF create I L ok])
  show ?thesis using create I L ok
  proof (cases rule: hash_create_effect)
    case (created a h n bits b)
    have i: "i = hash_obj_id h" using created(2) by simp
    have b: b using entered created(10,11) by (cases b) (simp_all add: i del: not_None_eq)
    have t0: "hash_obj_tree s \<noteq> None" using hash_invD(3) [OF I] by (simp add: hash_tree_ok_def)
    have g: "rb_getexact (hash_obj_tree s1) i = Some a" using b t0 by (simp add: created(11) i)
    have unsel: "hash_obj_types s t \<noteq> Some a" for t
    proof
      assume "hash_obj_types s t = Some a"
      then show False by (rule hash_typeE [OF I]) (simp add: created(6))
    qed
    have ty: "sai_is_obj_id E SAI_OBJECT_TYPE_HASH i"
      using L created(4) unfolding i created(7) hash_laws_def hash_uoid_law_def by blast
    obtain rc s2 where run: "dn_sai_hash_obj_remove E i s1 = (rc, s2)" by (metis surj_pair)
    from run I1 L show ?thesis
    proof (cases rule: hash_remove_effect)
      case (in_use c t)
      with g unsel show ?thesis by (simp add: created(11))
    next
      case (removed c k m bits2)
      have "m = n" using hash_lawsD(6) [OF L removed(6)] hash_lawsD(6) [OF L created(4)]
        unfolding removed(7) [symmetric] i [symmetric] created(7) [symmetric] by (rule trans [OF sym])
      moreover have "bits[n := True] = bits" using created(5) list_update_id [of bits n] by simp
      moreover have "(hash_mem s)(a := None) = hash_mem s" using created(6) by (simp add: fun_upd_idem)
      moreover have "rb_remove (rb_put (hash_obj_tree s) i a) i = hash_obj_tree s"
        using created(10) by (intro rb_remove_put) (simp add: i)
      moreover have "bits2 = bits[n := False]" "c = a" using removed(2,8) g by (simp_all add: created(11))
      ultimately have "s2 = s" using b created(3) unfolding removed(11) created(11) i by simp
      with run removed(1) show ?thesis by simp
    qed (use ty g in auto)
  qed simp
qed

theorem hash_create_remove_witness:
  "dn_sai_hash_obj_remove demo_hash 526 demo_hash_three = (SAI_STATUS_SUCCESS, demo_hash_two)"
  by (rule hash_create_remove [OF demo_hash_create_third [of demo_hw] demo_hash_reachable(1) demo_hash_laws])
    (simp_all add: list_ok_def demo_hash_list_arg demo_hash_three_def)

text \<open>C20. A hash object is removed exactly when it is known and no switch attribute selects it; then its id
  is gone and its node is freed, the other ids and the selections stay, and otherwise nothing changes.\<close>

theorem hash_remove_safe:
  assumes run: "dn_sai_hash_obj_remove E i s = (rc, s')" and reach: "hash_reachable E s" and L: "hash_laws E"
  shows "rc = (if \<not> sai_is_obj_id E SAI_OBJECT_TYPE_HASH i then SAI_STATUS_INVALID_OBJECT_TYPE
      else case rb_getexact (hash_obj_tree s) i of None \<Rightarrow> SAI_STATUS_INVALID_OBJECT_ID
        | Some a \<Rightarrow> if \<exists>t. hash_obj_types s t = Some a then SAI_STATUS_OBJECT_IN_USE else SAI_STATUS_SUCCESS)
    \<and> (if rc = SAI_STATUS_SUCCESS
       then rb_getexact (hash_obj_tree s') = (rb_getexact (hash_obj_tree s))(i := None)
         \<and> hash_mem s' (the (rb_getexact (hash_obj_tree s) i)) = None
         \<and> hash_obj_types s' = hash_obj_types s
       else s' = s)"
proof -
  have I: "hash_inv E s" using reach by (rule hash_reachable_invI)
  have ty: "sai_is_obj_id E SAI_OBJECT_TYPE_HASH i" if "rb_getexact (hash_obj_tree s) i = Some a" for a
    by (rule hash_nodeE [OF I that]) (use L in \<open>auto simp: hash_laws_def hash_uoid_law_def\<close>)
  from run I L show ?thesis
  proof (cases rule: hash_remove_effect)
    case unknown
    then show ?thesis using run by (auto simp: dn_sai_hash_obj_remove_def split: if_splits)
  next
    case (in_use a t)
    with ty show ?thesis by auto
  next
    case (removed a h n bits)
    with ty [OF removed(2)] show ?thesis by (simp add: rb_getexact_remove_fun)
  qed simp
qed

theorem hash_remove_safe_witness:
  "\<exists>s'. dn_sai_hash_obj_remove demo_hash 14 demo_hash_three = (SAI_STATUS_OBJECT_IN_USE, s') \<and> s' = demo_hash_three"
proof -
  obtain rc s' where run: "dn_sai_hash_obj_remove demo_hash 14 demo_hash_three = (rc, s')" by (metis surj_pair)
  have "sai_is_obj_id demo_hash SAI_OBJECT_TYPE_HASH 14" by (simp add: demo_hash_env demo_is_obj_def)
  moreover have "rb_getexact (hash_obj_tree demo_hash_three) 14 = Some 0"
    "hash_obj_types demo_hash_three DN_SAI_ECMP_NON_IP_HASH = Some 0" by (simp_all add: demo_hash_three_def demo_hash_two_def)
  ultimately show ?thesis using hash_remove_safe [OF run demo_hash_reachable(2) demo_hash_laws] run by auto
qed

section \<open>The hardware\<close>

text \<open>C22. Setting an attribute of a hash object keeps the hardware in step with the objects.  \<open>hw\<close> is the
  history of what the plug-in accepted: for each switch attribute the lists of the last request that it
  answered with success (\<open>hw_law\<close>).  The state is reachable, the libraries obey \<open>hash_laws\<close>, and the list in the
  attribute has the length that its count says.  Let the accepted lists be, for every switch attribute,
  the lists of the object it selects.  A call that succeeds has put the new lists in place for every attribute that selects the object and for no other,
  and hardware and objects agree again.  A call that fails changes no object, and it leaves the hardware as it
  was, even when some attributes were programmed before the plug-in refused one, with two exceptions, each
  for an attribute that selects the object and then keeps the new lists: the plug-in refuses to put the old
  lists back, or every attribute was programmed and the memory to store the new list runs out after that.\<close>

theorem hash_set_keeps_hardware:
  assumes run: "dn_sai_hash_obj_set_attr E i attr s w = (rc, s', w')" and reach: "hash_reachable E s"
    and L: "hash_laws E" and H: "hw_law E hw"
    and ok: "hash_set_ok attr" and sync: "hw_synced E hw s w"
  shows "if rc = SAI_STATUS_SUCCESS
    then hw_synced E hw s' w' \<and> (\<exists>a h. rb_getexact (hash_obj_tree s) i = Some a \<and> hash_mem s a = Some h
         \<and> hw w' = (\<lambda>x. if x \<in> set dn_switch_hash_attr_id \<and> dn_sai_switch_attr_hash_obj_get E x s = Some a
             then hash_apply attr (hash_lists h) else hw w x))
    else hash_mem s' = hash_mem s \<and> (\<forall>x. hw w' x = hw w x \<or>
       (\<exists>a h new. rb_getexact (hash_obj_tree s) i = Some a \<and> hash_mem s a = Some h
          \<and> new = hash_apply attr (hash_lists h)
          \<and> dn_sai_switch_attr_hash_obj_get E x s = Some a \<and> hw w' x = new
          \<and> ((\<exists>v. hw v x = new \<and> fst (npu_switch_hash_fields_set E x (native_fields_list h) (udf_group_list h) v)
                   \<noteq> SAI_STATUS_SUCCESS)
             \<or> (\<exists>v. dn_sai_hash_obj_set_in_hw E a h attr (dn_sai_hash_lock s) w
                     = (SAI_STATUS_SUCCESS, dn_sai_hash_lock s, v) \<and> \<not> fst (calloc_ok E v)))))"
proof -
  have I: "hash_inv E s" using reach by (rule hash_reachable_invI)
  have tl: "translate_law E" by (rule hash_lawsD(3) [OF L])
  note aok = hash_set_ok_attr [OF ok]
  from run I L ok show ?thesis
  proof (cases rule: hash_set_effect)
    case (hw_refused a h)
    from hw_stage [OF H sync I tl hw_refused(3,4) aok hw_refused(5)] hw_refused(1)
    have "\<And>z. hw w' z = hw w z \<or> (selects E s a z \<and> hw w' z = hash_apply attr (hash_lists h)
        \<and> hw_stuck E hw (hash_lists h) (hash_apply attr (hash_lists h)) z)" by metis
    with hw_refused(1-4) show ?thesis by (simp add: hw_stuck_def hash_lists_def) blast
  next
    case (not_stored a h w1)
    let ?p = "hash_apply attr (hash_lists h)"
    have w1: "hw w1 = hw_with (\<lambda>x. x \<in> set dn_switch_hash_attr_id \<and> selects E s a x) ?p (hw w)"
      using hw_stage [OF H sync I tl not_stored(3,4) aok not_stored(5)] by metis
    have w': "hw w' = hw w1" using H not_stored(7) by (simp add: hw_law_def)
    have hw: "dn_sai_hash_obj_set_in_hw E a h attr (dn_sai_hash_lock s) w
        = (SAI_STATUS_SUCCESS, dn_sai_hash_lock s, w1)" if "selects E s a x" for x
      using not_stored(5) hash_used_iff [OF I not_stored(3,4)] that
      by (auto simp: hash_hw_stage_def dn_sai_switch_attr_hash_obj_get_def split: if_splits)
    have "hw w' x = hw w x \<or> (selects E s a x \<and> hw w' x = ?p)" for x
      unfolding w' w1 by (simp add: hw_with_def)
    with not_stored(1-4,6) hw show ?thesis by (simp add: hash_lists_def) blast
  next
    case (stored a h h' w1)
    let ?p = "hash_apply attr (hash_lists h)"
    let ?P = "\<lambda>x. x \<in> set dn_switch_hash_attr_id \<and> selects E s a x"
    have w1: "hw w1 = hw_with ?P ?p (hw w)"
      using hw_stage [OF H sync I tl stored(2,3) aok stored(4)] by metis
    have w': "hw w' = hw_with ?P ?p (hw w)" using stored(9) w1 H by (auto simp: hw_law_def)
    have "hw_synced E hw s' w'" unfolding hw_synced_def
    proof (intro ballI allI impI)
      fix x p assume x: "x \<in> set dn_switch_hash_attr_id" and p: "hash_selected E s' x = Some p"
      show "hw w' x = p"
      proof (cases "selects E s a x")
        case True
        with p stored(7,8) have "p = ?p"
          by (simp add: hash_selected_def dn_sai_switch_attr_hash_obj_get_def hash_write_def)
        with x True w' show ?thesis by (simp add: hw_with_def)
      next
        case False
        with p stored(8) have "hash_selected E s x = Some p"
          by (auto simp: hash_selected_def dn_sai_switch_attr_hash_obj_get_def hash_write_def bind_eq_Some_conv
              split: if_splits)
        with sync x have "hw w x = p" unfolding hw_synced_def by blast
        with False w' show ?thesis by (simp add: hw_with_def)
      qed
    qed
    with stored(1-3) w' show ?thesis by (simp add: hw_with_def)
  qed (use sync in simp_all)
qed

theorem hash_set_keeps_hardware_witness:
  "\<exists>s' w'. dn_sai_hash_obj_set_attr demo_hash 14 (SAI_HASH_ATTR_NATIVE_HASH_FIELD_LIST
       \<lparr>sl_count = 1, sl_list = Some [7]\<rparr>) demo_hash_two (2, demo_hw) = (SAI_STATUS_SUCCESS, s', w')
     \<and> hw_synced demo_hash snd s' w' \<and> snd w' SAI_SWITCH_ATTR_ECMP_HASH = ([7], [])"
proof -
  let ?a = "SAI_HASH_ATTR_NATIVE_HASH_FIELD_LIST \<lparr>sl_count = 1, sl_list = Some [7]\<rparr>"
  have "fst (dn_sai_hash_obj_set_attr demo_hash 14 ?a demo_hash_two (2, demo_hw)) = SAI_STATUS_SUCCESS"
    by (simp add: dn_sai_hash_obj_set_attr_def demo_hash_validate demo_hash_env demo_is_obj_def hash_set_body_def
        dn_sai_hash_obj_node_get_def demo_hash_two_def demo_hash_zero_def demo_hash_node_def dn_sai_hash_is_obj_used_def
        dn_sai_hash_obj_set_in_hw_def hash_hw_lists_def demo_hash_list_arg dn_switch_hash_attr_id_def demo_accepts_def
        dn_sai_switch_attr_hash_obj_get_def demo_hash_type dn_sai_hash_attr_set_def
        dn_sai_hash_native_field_list_set_def demo_hash_lock Let_def)
  then obtain s' w' where run: "dn_sai_hash_obj_set_attr demo_hash 14 ?a demo_hash_two (2, demo_hw)
      = (SAI_STATUS_SUCCESS, s', w')"
    by (metis prod.collapse)
  have ok: "hash_set_ok ?a" by (simp add: list_ok_def demo_hash_list_arg)
  from hash_set_keeps_hardware [OF run demo_hash_reachable(1) demo_hash_laws demo_hw_law ok demo_hw_synced] run
  show ?thesis
    by (auto simp: demo_hash_env demo_hash_two_def demo_hash_node_def hash_lists_def list_val_def demo_hash_list_arg
        dn_switch_hash_attr_id_def dn_sai_switch_attr_hash_obj_get_def demo_hash_type)
qed

section \<open>The lock\<close>

text \<open>C30. Two refusals return with the lock held, and nothing else does: setting, on an object that is known, a list
  with something that is not a UDF group for hashing, and selecting for a switch attribute an id that
  is not of a hash object.\<close>

theorem hash_lock_kept:
  assumes set: "dn_sai_hash_obj_set_attr E i attr s w = (rc1, s1, w1)"
    and select: "dn_sai_switch_hash_attr_set E sattr j s w = (rc2, s2, w2)"
    and reach: "hash_reachable E s" and L: "hash_laws E" and ok: "hash_set_ok attr"
  shows "hash_lock_depth s1 = hash_lock_depth s +
      (if dn_sai_hash_attr_list_validate E [hash_attr_id attr] SAI_OP_SET = SAI_STATUS_SUCCESS
          \<and> rb_getexact (hash_obj_tree s) i \<noteq> None
          \<and> (\<exists>l. attr = SAI_HASH_ATTR_UDF_GROUP_LIST l
                \<and> (\<exists>g \<in> set (list_val l). \<not> udf_hash_group E (hash_udf s) g)) then 1 else 0)
    \<and> hash_lock_depth s2 = hash_lock_depth s +
      (if j \<noteq> SAI_NULL_OBJECT_ID \<and> \<not> sai_is_obj_id E SAI_OBJECT_TYPE_HASH j then 1 else 0)"
    (is "?A \<and> ?B")
proof
  have I: "hash_inv E s" using reach by (rule hash_reachable_invI)
  have ty: "sai_is_obj_id E SAI_OBJECT_TYPE_HASH k" if "rb_getexact (hash_obj_tree s) k = Some a" for k a
    by (rule hash_nodeE [OF I that]) (use L in \<open>auto simp: hash_laws_def hash_uoid_law_def\<close>)
  show ?A
  proof (cases "rb_getexact (hash_obj_tree s) i")
    case None
    with set show ?thesis
      by (auto simp: dn_sai_hash_obj_set_attr_def Let_def hash_set_body_def dn_sai_hash_obj_node_get_def split: if_splits)
  next
    case (Some a)
    let ?v = "dn_sai_hash_attr_list_validate E [hash_attr_id attr] SAI_OP_SET"
    show ?thesis
    proof (cases "?v = SAI_STATUS_SUCCESS")
      case False
      with set ty [OF Some] show ?thesis by (simp add: dn_sai_hash_obj_set_attr_def Let_def)
    next
      case v: True
      obtain h where h: "hash_mem s a = Some h" by (rule hash_nodeE [OF I Some])
      have "udf_inv (hash_udf (dn_sai_hash_lock s))" using hash_invD(2) [OF I] by simp
      note b = hash_set_groups_ok [OF this ok, of i a h E w, unfolded dn_sai_hash_obj_node_get_def, simplified, OF Some h]
      show ?thesis
      proof (cases "\<exists>l. attr = SAI_HASH_ATTR_UDF_GROUP_LIST l \<and> (\<exists>g \<in> set (list_val l). \<not> udf_hash_group E (hash_udf s) g)")
        case True
        with set ty [OF Some] v b have "s1 = dn_sai_hash_lock s" by (auto simp: dn_sai_hash_obj_set_attr_def Let_def)
        with True v Some show ?thesis by (simp add: dn_sai_hash_lock_def)
      next
        case False
        from set I L ok have "hash_lock_depth s1 = hash_lock_depth s"
          by (cases rule: hash_set_effect) (use False in \<open>auto simp: hash_write_def\<close>)
        with False show ?thesis by auto
      qed
    qed
  qed
  show ?B
  proof (cases "j \<noteq> SAI_NULL_OBJECT_ID \<and> \<not> sai_is_obj_id E SAI_OBJECT_TYPE_HASH j")
    case True
    with select show ?thesis by (auto simp: dn_sai_switch_hash_attr_set_def Let_def dn_sai_hash_lock_def)
  next
    case False
    have d: "hash_lock_depth (hash_switch_attr_select E sattr p s) = hash_lock_depth s" for p
      by (auto simp: hash_switch_attr_select_def dn_sai_switch_attr_hash_obj_set_def hash_update_def hash_crash_def
          hash_write_def Let_def split: option.splits)
    from select I have "hash_lock_depth s2 = hash_lock_depth s"
      by (cases rule: hash_switch_set_effect) (use False d in auto)
    with False show ?thesis by simp
  qed
qed

theorem hash_lock_kept_witness:
  "\<exists>rc1 s1 w1 rc2 s2 w2.
     dn_sai_hash_obj_set_attr demo_hash 14 (SAI_HASH_ATTR_UDF_GROUP_LIST \<lparr>sl_count = 1, sl_list = Some [13]\<rparr>)
       demo_hash_two (2, demo_hw) = (rc1, s1, w1) \<and> hash_lock_depth s1 = 1
     \<and> dn_sai_switch_hash_attr_set demo_hash SAI_SWITCH_ATTR_LAG_HASH 268 demo_hash_two (2, demo_hw) = (rc2, s2, w2)
     \<and> hash_lock_depth s2 = 1"
proof -
  let ?l = "\<lparr>sl_count = 1, sl_list = Some [13]\<rparr> :: sai_object_id_t sai_list_t"
  let ?a = "SAI_HASH_ATTR_UDF_GROUP_LIST ?l"
  obtain rc1 s1 w1 where 1: "dn_sai_hash_obj_set_attr demo_hash 14 ?a demo_hash_two (2, demo_hw) = (rc1, s1, w1)"
    by (metis prod_cases3)
  obtain rc2 s2 w2 where 2: "dn_sai_switch_hash_attr_set demo_hash SAI_SWITCH_ATTR_LAG_HASH 268 demo_hash_two (2, demo_hw)
      = (rc2, s2, w2)" by (metis prod_cases3)
  have ok: "hash_set_ok ?a" by (simp add: demo_hash_list_arg)
  have g: "13 \<in> set (list_val ?l)" "\<not> udf_hash_group demo_hash (hash_udf demo_hash_two) 13"
    by (simp_all add: list_val_def demo_hash_list_arg udf_hash_group_def demo_hash_env demo_is_obj_def)
  moreover have "rb_getexact (hash_obj_tree demo_hash_two) 14 \<noteq> None" "hash_lock_depth demo_hash_two = 0"
    by (simp_all add: demo_hash_two_def demo_hash_zero_def)
  moreover have "\<not> sai_is_obj_id demo_hash SAI_OBJECT_TYPE_HASH 268" by (simp add: demo_hash_env demo_is_obj_def)
  ultimately show ?thesis
    using hash_lock_kept [OF 1 2 demo_hash_reachable(1) demo_hash_laws ok] 1 2 by (auto simp: demo_hash_validate)
qed

section \<open>UDF groups\<close>

text \<open>C15. A hash object does not keep the UDF groups that it lists: such a group can be removed, the
  object still reads back the list with it, and setting that very list again is refused, and
  that refusal keeps the lock.\<close>

theorem hash_lists_removed_group:
  assumes reach: "hash_reachable E s" and L: "hash_laws E" and room: "udf_room (hash_udf s)"
    and h: "rb_getexact (hash_obj_tree s) i = Some a" "hash_mem s a = Some h" "gid \<in> set (udf_group_list h)"
    and removal: "dn_sai_udf_group_remove E gid (hash_udf s) w = (rc, u, w1)"
    and gone: "rb_getexact (udf_group_tree u) gid = None"
    and accepted: "\<forall>op. dn_sai_hash_attr_list_validate E [UDF_GROUP_LIST_ID] op = SAI_STATUS_SUCCESS"
    and l: "sl_count l = of_nat (length (udf_group_list h))" "sl_list l = Some buf"
      "length buf = length (udf_group_list h)"
  shows "dn_sai_hash_obj_get_attr E i [SAI_HASH_ATTR_UDF_GROUP_LIST l] (s\<lparr>hash_udf := u\<rparr>)
      = (SAI_STATUS_SUCCESS, [SAI_HASH_ATTR_UDF_GROUP_LIST (l\<lparr>sl_list := Some (udf_group_list h)\<rparr>)], s\<lparr>hash_udf := u\<rparr>)
    \<and> dn_sai_hash_obj_set_attr E i (SAI_HASH_ATTR_UDF_GROUP_LIST (l\<lparr>sl_list := Some (udf_group_list h)\<rparr>)) (s\<lparr>hash_udf := u\<rparr>) w1
      = (SAI_STATUS_INVALID_ATTR_VALUE 0, dn_sai_hash_lock (s\<lparr>hash_udf := u\<rparr>), w1)"
proof -
  let ?s = "s\<lparr>hash_udf := u\<rparr>"
  let ?l = "l\<lparr>sl_list := Some (udf_group_list h)\<rparr>"
  have good: "hash_good E s" using reach by (rule hash_reachable_goodI)
  then have I: "hash_inv E s" and z: "length (udf_group_list h) < 2 ^ 32"
    using h(2) by (simp_all add: hash_good_def hash_sized_def)
  have ty: "sai_is_obj_id E SAI_OBJECT_TYPE_HASH i"
    by (rule hash_nodeE [OF I h(1)]) (use L in \<open>auto simp: hash_laws_def hash_uoid_law_def\<close>)
  have u: "udf_inv u" by (rule udf_group_remove_inv [OF removal hash_invD(2) [OF I] room])
  have c: "unat (sl_count l) = length (udf_group_list h)" using z by (simp add: l(1) unsigned_of_nat take_bit_nat_eq_self)
  have ne: "udf_group_list h \<noteq> []" using h(3) by auto
  have arg: "list_arg ?l = Some (udf_group_list h)" using c by (simp add: list_arg_def)
  have lock: "dn_sai_hash_lock ?s\<lparr>hash_udf := u\<rparr> = dn_sai_hash_lock ?s" by (simp add: dn_sai_hash_lock_def)
  have "hash_list_out (udf_group_list h) l = Some (SAI_STATUS_SUCCESS, ?l)"
    using l ne by (simp add: hash_list_out_def)
  then have get: "dn_sai_hash_obj_get_attr E i [SAI_HASH_ATTR_UDF_GROUP_LIST l] ?s
      = (SAI_STATUS_SUCCESS, [SAI_HASH_ATTR_UDF_GROUP_LIST ?l], ?s)"
    using ty accepted h by (simp add: dn_sai_hash_obj_get_attr_def dn_sai_hash_obj_node_get_def Let_def)
  have bad: "\<not> udf_hash_group E u gid" using gone by (simp add: udf_hash_group_def)
  have "hash_set_body E i (SAI_HASH_ATTR_UDF_GROUP_LIST ?l) (dn_sai_hash_lock ?s) w1
      = (Inl (SAI_STATUS_INVALID_ATTR_VALUE 0), dn_sai_hash_lock ?s, w1)"
    by (subst hash_set_groups_ok [where a = a and h = h])
      (use u arg h bad in \<open>auto simp: dn_sai_hash_obj_node_get_def list_val_arg [OF arg]\<close>)
  then have "dn_sai_hash_obj_set_attr E i (SAI_HASH_ATTR_UDF_GROUP_LIST ?l) ?s w1
      = (SAI_STATUS_INVALID_ATTR_VALUE 0, dn_sai_hash_lock ?s, w1)"
    using ty accepted by (simp add: dn_sai_hash_obj_set_attr_def Let_def)
  with get show ?thesis by simp
qed

lemma demo_hash_group_removed:
  "dn_sai_udf_group_remove demo_hash 268 (hash_udf demo_hash_three) w
   = (SAI_STATUS_SUCCESS, demo_udf_none\<lparr>udf_group_tree := Some fmempty\<rparr>, w)"
proof -
  have "rb_remove (rb_put (Some fmempty) (268 :: 64 word) (0 :: nat)) 268 = Some fmempty"
    by (rule rb_remove_put) simp
  then show ?thesis
    by (simp add: dn_sai_udf_group_remove_def udf_group_remove_body_def dn_sai_udf_group_node_get_def demo_hash_three_def
        demo_hash_two_def demo_hash_zero_def demo_udf_group_def demo_udf_none_def demo_hash_def demo_is_obj_def
        demo_group_def dn_sai_udf_lock_def dn_sai_udf_unlock_def dn_sai_udf_group_node_free_def Let_def)
qed

theorem hash_lists_removed_group_witness:
  "\<exists>u. dn_sai_udf_group_remove demo_hash 268 (hash_udf demo_hash_three) (3, demo_hw) = (SAI_STATUS_SUCCESS, u, 3, demo_hw)
     \<and> fst (dn_sai_hash_obj_set_attr demo_hash 526
          (SAI_HASH_ATTR_UDF_GROUP_LIST \<lparr>sl_count = 1, sl_list = Some [268]\<rparr>) (demo_hash_three\<lparr>hash_udf := u\<rparr>) (3, demo_hw))
       = SAI_STATUS_INVALID_ATTR_VALUE 0"
proof -
  have h: "rb_getexact (hash_obj_tree demo_hash_three) 526 = Some 2"
    "hash_mem demo_hash_three 2 = Some (demo_hash_node 526 [] [268] 0)" "268 \<in> set (udf_group_list (demo_hash_node 526 [] [268] 0))"
    by (simp_all add: demo_hash_three_def demo_hash_node_def)
  have gone: "rb_getexact (udf_group_tree (demo_udf_none\<lparr>udf_group_tree := Some fmempty\<rparr>)) 268 = None" by simp
  have v: "\<forall>op. dn_sai_hash_attr_list_validate demo_hash [UDF_GROUP_LIST_ID] op = SAI_STATUS_SUCCESS"
    by (simp add: demo_hash_validate)
  have room: "udf_room (hash_udf demo_hash_three)"
    by (simp add: udf_room_def demo_hash_three_def demo_hash_two_def demo_hash_zero_def demo_udf_group_def demo_group_def)
  from hash_lists_removed_group [OF demo_hash_reachable(2) demo_hash_laws room h demo_hash_group_removed [of "(3, demo_hw)"] gone v,
      of "\<lparr>sl_count = 1, sl_list = Some [0]\<rparr>" "[0]"]
  show ?thesis by (simp add: demo_hash_group_removed demo_hash_node_def)
qed

end
