(* ===== verification/Mirror_Model.thy ===== *)
theory Mirror_Model
  imports Sai_Prelude
begin

unbundle bit_operations_syntax

text \<open>
  Mirroring, \<open>src/mirroring/sai_mirror_common.c\<close> and \<open>sai_mirror_port.c\<close>: sessions, the source ports
  of a session, and the sessions of a port.

  A node of one of the two small trees has no data besides its key: a session has a tree of (port,
  direction) nodes, a port one of (session, direction) nodes.  Such a tree is the list of its nodes in the
  order of \<open>getfirst\<close>, \<open>getnext\<close>; where a new node goes is up to the library (\<open>rbtree_place\<close>).
  The header with the structures (\<open>sai_mirror_defs.h\<close>) is outside the repository; the records have the
  fields that the sources use.
  \<open>mirror_fault\<close> notes a failing assertion and the use of a NULL tree or a list beyond its end.
\<close>

section \<open>Data\<close>

datatype sai_mirror_session_type_t =
    SAI_MIRROR_SESSION_TYPE_LOCAL
  | SAI_MIRROR_SESSION_TYPE_REMOTE
  | SAI_MIRROR_SESSION_TYPE_ENHANCED_REMOTE
  | SAI_MIRROR_SESSION_TYPE_OTHER int

datatype sai_mirror_direction_t = SAI_MIRROR_DIR_INGRESS | SAI_MIRROR_DIR_EGRESS

record sai_mirror_session_params_t =
  class_of_service :: "8 word"
  tpid :: "16 word"
  mirror_vlan_id :: sai_vlan_id_t
  vlan_priority :: "8 word"
  encap_type :: int
  ip_hdr_version :: "8 word"
  mirror_tos :: "8 word"
  mirror_ttl :: "8 word"
  gre_protocol :: "16 word"
  src_ip :: sai_ip_address_t
  dst_ip :: sai_ip_address_t
  src_mac :: "48 word"
  dst_mac :: "48 word"

text \<open>The nodes of the two small trees, \<open>sai_mirror_port_info_t\<close> and \<open>sai_mirror_session_per_port_t\<close>.\<close>

type_synonym mirror_key = "sai_object_id_t \<times> sai_mirror_direction_t"
type_synonym mirror_tree = "mirror_key list"

record sai_mirror_session_info_t =
  session_id :: sai_object_id_t
  span_type :: sai_mirror_session_type_t
  monitor_port :: sai_object_id_t
  session_params :: sai_mirror_session_params_t
  source_ports_tree :: "mirror_tree option"

datatype sai_mirror_attr_t =
    SAI_MIRROR_SESSION_ATTR_TYPE sai_mirror_session_type_t
  | SAI_MIRROR_SESSION_ATTR_MONITOR_PORT sai_object_id_t
  | SAI_MIRROR_SESSION_ATTR_TC "8 word"
  | SAI_MIRROR_SESSION_ATTR_VLAN_TPID "16 word"
  | SAI_MIRROR_SESSION_ATTR_VLAN_ID sai_vlan_id_t
  | SAI_MIRROR_SESSION_ATTR_VLAN_PRI "8 word"
  | SAI_MIRROR_SESSION_ATTR_ERSPAN_ENCAPSULATION_TYPE int
  | SAI_MIRROR_SESSION_ATTR_IPHDR_VERSION "8 word"
  | SAI_MIRROR_SESSION_ATTR_TOS "8 word"
  | SAI_MIRROR_SESSION_ATTR_TTL "8 word"
  | SAI_MIRROR_SESSION_ATTR_SRC_IP_ADDRESS sai_ip_address_t
  | SAI_MIRROR_SESSION_ATTR_DST_IP_ADDRESS sai_ip_address_t
  | SAI_MIRROR_SESSION_ATTR_SRC_MAC_ADDRESS "48 word"
  | SAI_MIRROR_SESSION_ATTR_DST_MAC_ADDRESS "48 word"
  | SAI_MIRROR_SESSION_ATTR_GRE_PROTOCOL_TYPE "16 word"
  | SAI_MIRROR_SESSION_ATTR_UNKNOWN nat

datatype mirror_attr_id_t =
    TYPE_ID | MONITOR_PORT_ID | TC_ID | VLAN_TPID_ID | VLAN_ID_ID | VLAN_PRI_ID | ENCAP_ID | IPHDR_ID
  | TOS_ID | TTL_ID | SRC_IP_ID | DST_IP_ID | SRC_MAC_ID | DST_MAC_ID | GRE_ID | MIRROR_UNKNOWN_ID nat

fun mirror_attr_id :: "sai_mirror_attr_t \<Rightarrow> mirror_attr_id_t" where
  "mirror_attr_id (SAI_MIRROR_SESSION_ATTR_TYPE v) = TYPE_ID"
| "mirror_attr_id (SAI_MIRROR_SESSION_ATTR_MONITOR_PORT v) = MONITOR_PORT_ID"
| "mirror_attr_id (SAI_MIRROR_SESSION_ATTR_TC v) = TC_ID"
| "mirror_attr_id (SAI_MIRROR_SESSION_ATTR_VLAN_TPID v) = VLAN_TPID_ID"
| "mirror_attr_id (SAI_MIRROR_SESSION_ATTR_VLAN_ID v) = VLAN_ID_ID"
| "mirror_attr_id (SAI_MIRROR_SESSION_ATTR_VLAN_PRI v) = VLAN_PRI_ID"
| "mirror_attr_id (SAI_MIRROR_SESSION_ATTR_ERSPAN_ENCAPSULATION_TYPE v) = ENCAP_ID"
| "mirror_attr_id (SAI_MIRROR_SESSION_ATTR_IPHDR_VERSION v) = IPHDR_ID"
| "mirror_attr_id (SAI_MIRROR_SESSION_ATTR_TOS v) = TOS_ID"
| "mirror_attr_id (SAI_MIRROR_SESSION_ATTR_TTL v) = TTL_ID"
| "mirror_attr_id (SAI_MIRROR_SESSION_ATTR_SRC_IP_ADDRESS v) = SRC_IP_ID"
| "mirror_attr_id (SAI_MIRROR_SESSION_ATTR_DST_IP_ADDRESS v) = DST_IP_ID"
| "mirror_attr_id (SAI_MIRROR_SESSION_ATTR_SRC_MAC_ADDRESS v) = SRC_MAC_ID"
| "mirror_attr_id (SAI_MIRROR_SESSION_ATTR_DST_MAC_ADDRESS v) = DST_MAC_ID"
| "mirror_attr_id (SAI_MIRROR_SESSION_ATTR_GRE_PROTOCOL_TYPE v) = GRE_ID"
| "mirror_attr_id (SAI_MIRROR_SESSION_ATTR_UNKNOWN n) = MIRROR_UNKNOWN_ID n"

section \<open>State and environment\<close>

text \<open>\<open>mirror_per_port\<close> is the field \<open>mirror_sessions_tree\<close> of the application information of a port.  The
  library that keeps this information makes it on demand, with NULL fields, and drops it when no
  application uses it; neither changes the field of a port whose information is there or not.\<close>

record mirror_state =
  mirror_sessions_tree :: "(sai_object_id_t, sai_mirror_session_info_t) rbtree_handle"
  mirror_per_port :: "sai_object_id_t \<Rightarrow> mirror_tree option"
  mirror_lock_depth :: int
  mirror_fault :: bool

record 'w mirror_env = "'w platform" +
  rbtree_place :: "mirror_tree \<Rightarrow> mirror_key \<Rightarrow> mirror_tree"
  sai_attribute_bit_set :: "mirror_attr_id_t \<Rightarrow> uint32_t"
  sai_is_valid_vlan_id :: "sai_vlan_id_t \<Rightarrow> bool"
  sai_is_vlan_created :: "'w \<Rightarrow> sai_vlan_id_t \<Rightarrow> bool"
  sai_is_lag_created :: "'w \<Rightarrow> sai_object_id_t \<Rightarrow> bool"
  sai_fib_is_ip_addr_zero :: "sai_ip_address_t \<Rightarrow> bool"
  sai_fib_is_mac_address_zero :: "48 word \<Rightarrow> bool"
  sai_port_application_info_create_and_get :: "sai_object_id_t \<Rightarrow> 'w \<Rightarrow> bool \<times> 'w"
  sai_port_application_info_remove :: "sai_object_id_t \<Rightarrow> 'w \<Rightarrow> 'w"
  npu_mirror_init :: "'w \<Rightarrow> sai_status_t \<times> 'w"
  npu_session_attribs_validate ::
    "sai_object_id_t \<Rightarrow> sai_mirror_attr_t list \<Rightarrow> nat \<Rightarrow> 'w \<Rightarrow> sai_status_t \<times> 'w"
  npu_session_create :: "sai_mirror_session_info_t \<Rightarrow> 'w \<Rightarrow> sai_status_t \<times> sai_npu_object_id_t \<times> 'w"
  npu_session_destroy :: "sai_object_id_t \<Rightarrow> 'w \<Rightarrow> sai_status_t \<times> 'w"
  npu_session_port_add ::
    "sai_object_id_t \<Rightarrow> sai_object_id_t \<Rightarrow> sai_mirror_direction_t \<Rightarrow> 'w \<Rightarrow> sai_status_t \<times> 'w"
  npu_session_port_remove ::
    "sai_object_id_t \<Rightarrow> sai_object_id_t \<Rightarrow> sai_mirror_direction_t \<Rightarrow> 'w \<Rightarrow> sai_status_t \<times> 'w"
  npu_session_set ::
    "sai_object_id_t \<Rightarrow> sai_mirror_session_type_t \<Rightarrow> sai_mirror_attr_t \<Rightarrow> 'w \<Rightarrow> sai_status_t \<times> 'w"
  npu_session_get ::
    "sai_object_id_t \<Rightarrow> sai_mirror_session_type_t \<Rightarrow> sai_mirror_attr_t list \<Rightarrow> 'w
       \<Rightarrow> sai_status_t \<times> sai_mirror_attr_t list \<times> 'w"

definition sai_mirror_lock :: "mirror_state \<Rightarrow> mirror_state" where
  "sai_mirror_lock s = s\<lparr>mirror_lock_depth := mirror_lock_depth s + 1\<rparr>"

definition sai_mirror_unlock :: "mirror_state \<Rightarrow> mirror_state" where
  "sai_mirror_unlock s = s\<lparr>mirror_lock_depth := mirror_lock_depth s - 1\<rparr>"

definition mirror_crash :: "mirror_state \<Rightarrow> mirror_state" where
  "mirror_crash s = s\<lparr>mirror_fault := True\<rparr>"

definition session_write :: "sai_object_id_t \<Rightarrow> sai_mirror_session_info_t \<Rightarrow> mirror_state \<Rightarrow> mirror_state" where
  "session_write i m s = s\<lparr>mirror_sessions_tree := rb_put (mirror_sessions_tree s) i m\<rparr>"

text \<open>What \<open>calloc\<close> gives.\<close>

definition sai_mirror_session_node_alloc :: sai_mirror_session_info_t where
  "sai_mirror_session_node_alloc =
    (let ip = \<lparr>addr_family = SAI_IP_ADDR_FAMILY_IPV4, addr_ip4 = 0, addr_ip6 = 0\<rparr> in
     \<lparr>session_id = 0, span_type = SAI_MIRROR_SESSION_TYPE_LOCAL, monitor_port = 0,
      session_params = \<lparr>class_of_service = 0, tpid = 0, mirror_vlan_id = 0, vlan_priority = 0, encap_type = 0,
        ip_hdr_version = 0, mirror_tos = 0, mirror_ttl = 0, gre_protocol = 0, src_ip = ip, dst_ip = ip,
        src_mac = 0, dst_mac = 0\<rparr>,
      source_ports_tree = None\<rparr>)"

section \<open>Mandatory attributes\<close>

fun sai_mirror_is_span_type_valid :: "sai_mirror_session_type_t \<Rightarrow> bool" where
  "sai_mirror_is_span_type_valid SAI_MIRROR_SESSION_TYPE_LOCAL = True"
| "sai_mirror_is_span_type_valid SAI_MIRROR_SESSION_TYPE_REMOTE = True"
| "sai_mirror_is_span_type_valid SAI_MIRROR_SESSION_TYPE_ENHANCED_REMOTE = True"
| "sai_mirror_is_span_type_valid (SAI_MIRROR_SESSION_TYPE_OTHER n) = False"

definition sai_mirror_span_bitmap :: "('w, 'z) mirror_env_scheme \<Rightarrow> uint32_t" where
  "sai_mirror_span_bitmap E =
     sai_attribute_bit_set E MONITOR_PORT_ID OR sai_attribute_bit_set E TYPE_ID"

definition sai_mirror_rspan_bitmap :: "('w, 'z) mirror_env_scheme \<Rightarrow> uint32_t" where
  "sai_mirror_rspan_bitmap E =
     sai_attribute_bit_set E MONITOR_PORT_ID OR sai_attribute_bit_set E TYPE_ID
     OR sai_attribute_bit_set E VLAN_TPID_ID OR sai_attribute_bit_set E VLAN_ID_ID
     OR sai_attribute_bit_set E VLAN_PRI_ID"

definition sai_mirror_erspan_bitmap :: "('w, 'z) mirror_env_scheme \<Rightarrow> uint32_t" where
  "sai_mirror_erspan_bitmap E =
     sai_attribute_bit_set E MONITOR_PORT_ID OR sai_attribute_bit_set E TYPE_ID
     OR sai_attribute_bit_set E VLAN_TPID_ID OR sai_attribute_bit_set E VLAN_ID_ID
     OR sai_attribute_bit_set E VLAN_PRI_ID OR sai_attribute_bit_set E ENCAP_ID
     OR sai_attribute_bit_set E IPHDR_ID OR sai_attribute_bit_set E TOS_ID
     OR sai_attribute_bit_set E SRC_IP_ID OR sai_attribute_bit_set E DST_IP_ID
     OR sai_attribute_bit_set E SRC_MAC_ID OR sai_attribute_bit_set E DST_MAC_ID
     OR sai_attribute_bit_set E GRE_ID"

fun sai_mirror_is_mandat_attribute_missing ::
  "('w, 'z) mirror_env_scheme \<Rightarrow> uint32_t \<Rightarrow> sai_mirror_session_type_t \<Rightarrow> bool" where
  "sai_mirror_is_mandat_attribute_missing E req SAI_MIRROR_SESSION_TYPE_LOCAL \<longleftrightarrow>
     (req AND sai_mirror_span_bitmap E) XOR sai_mirror_span_bitmap E \<noteq> 0"
| "sai_mirror_is_mandat_attribute_missing E req SAI_MIRROR_SESSION_TYPE_REMOTE \<longleftrightarrow>
     (req AND sai_mirror_rspan_bitmap E) XOR sai_mirror_rspan_bitmap E \<noteq> 0"
| "sai_mirror_is_mandat_attribute_missing E req SAI_MIRROR_SESSION_TYPE_ENHANCED_REMOTE \<longleftrightarrow>
     (req AND sai_mirror_erspan_bitmap E) XOR sai_mirror_erspan_bitmap E \<noteq> 0"
| "sai_mirror_is_mandat_attribute_missing E req (SAI_MIRROR_SESSION_TYPE_OTHER n) \<longleftrightarrow> False"

section \<open>Filling the fields of a session\<close>

definition params_update ::
  "(sai_mirror_session_params_t \<Rightarrow> sai_mirror_session_params_t) \<Rightarrow> sai_mirror_session_info_t \<Rightarrow> sai_mirror_session_info_t" where
  "params_update f m = m\<lparr>session_params := f (session_params m)\<rparr>"

fun sai_mirror_fill_erspan_attribute_params ::
  "('w, 'z) mirror_env_scheme \<Rightarrow> sai_mirror_session_info_t \<Rightarrow> sai_mirror_attr_t \<Rightarrow> nat
     \<Rightarrow> sai_status_t \<times> sai_mirror_session_info_t" where
  "sai_mirror_fill_erspan_attribute_params E m (SAI_MIRROR_SESSION_ATTR_ERSPAN_ENCAPSULATION_TYPE v) i =
     (SAI_STATUS_SUCCESS, params_update (\<lambda>p. p\<lparr>encap_type := v\<rparr>) m)"
| "sai_mirror_fill_erspan_attribute_params E m (SAI_MIRROR_SESSION_ATTR_IPHDR_VERSION v) i =
     (SAI_STATUS_SUCCESS, params_update (\<lambda>p. p\<lparr>ip_hdr_version := v\<rparr>) m)"
| "sai_mirror_fill_erspan_attribute_params E m (SAI_MIRROR_SESSION_ATTR_TOS v) i =
     (SAI_STATUS_SUCCESS, params_update (\<lambda>p. p\<lparr>mirror_tos := v\<rparr>) m)"
| "sai_mirror_fill_erspan_attribute_params E m (SAI_MIRROR_SESSION_ATTR_TTL v) i =
     (SAI_STATUS_SUCCESS, params_update (\<lambda>p. p\<lparr>mirror_ttl := v\<rparr>) m)"
| "sai_mirror_fill_erspan_attribute_params E m (SAI_MIRROR_SESSION_ATTR_SRC_IP_ADDRESS v) i =
     (if sai_fib_is_ip_addr_zero E v then (SAI_STATUS_INVALID_ATTR_VALUE i, m)
      else (SAI_STATUS_SUCCESS, params_update (\<lambda>p. p\<lparr>src_ip := v\<rparr>) m))"
| "sai_mirror_fill_erspan_attribute_params E m (SAI_MIRROR_SESSION_ATTR_DST_IP_ADDRESS v) i =
     (if sai_fib_is_ip_addr_zero E v then (SAI_STATUS_INVALID_ATTR_VALUE i, m)
      else (SAI_STATUS_SUCCESS, params_update (\<lambda>p. p\<lparr>dst_ip := v\<rparr>) m))"
| "sai_mirror_fill_erspan_attribute_params E m (SAI_MIRROR_SESSION_ATTR_SRC_MAC_ADDRESS v) i =
     (if sai_fib_is_mac_address_zero E v then (SAI_STATUS_INVALID_ATTR_VALUE i, m)
      else (SAI_STATUS_SUCCESS, params_update (\<lambda>p. p\<lparr>src_mac := v\<rparr>) m))"
| "sai_mirror_fill_erspan_attribute_params E m (SAI_MIRROR_SESSION_ATTR_DST_MAC_ADDRESS v) i =
     (if sai_fib_is_mac_address_zero E v then (SAI_STATUS_INVALID_ATTR_VALUE i, m)
      else (SAI_STATUS_SUCCESS, params_update (\<lambda>p. p\<lparr>dst_mac := v\<rparr>) m))"
| "sai_mirror_fill_erspan_attribute_params E m (SAI_MIRROR_SESSION_ATTR_GRE_PROTOCOL_TYPE v) i =
     (SAI_STATUS_SUCCESS, params_update (\<lambda>p. p\<lparr>gre_protocol := v\<rparr>) m)"
| "sai_mirror_fill_erspan_attribute_params E m _ i = (SAI_STATUS_UNKNOWN_ATTRIBUTE i, m)"

text \<open>The type is stored before it is checked.\<close>

fun sai_mirror_fill_attribute_params ::
  "('w, 'z) mirror_env_scheme \<Rightarrow> sai_mirror_session_info_t \<Rightarrow> sai_mirror_attr_t \<Rightarrow> nat \<Rightarrow> 'w
     \<Rightarrow> sai_status_t \<times> sai_mirror_session_info_t" where
  "sai_mirror_fill_attribute_params E m (SAI_MIRROR_SESSION_ATTR_TYPE v) i w =
     (let m = m\<lparr>span_type := v\<rparr> in
      if \<not> sai_mirror_is_span_type_valid (span_type m) then (SAI_STATUS_INVALID_ATTR_VALUE i, m)
      else (SAI_STATUS_SUCCESS, m))"
| "sai_mirror_fill_attribute_params E m (SAI_MIRROR_SESSION_ATTR_TC v) i w =
     (SAI_STATUS_SUCCESS, params_update (\<lambda>p. p\<lparr>class_of_service := v\<rparr>) m)"
| "sai_mirror_fill_attribute_params E m (SAI_MIRROR_SESSION_ATTR_VLAN_TPID v) i w =
     (SAI_STATUS_SUCCESS, params_update (\<lambda>p. p\<lparr>tpid := v\<rparr>) m)"
| "sai_mirror_fill_attribute_params E m (SAI_MIRROR_SESSION_ATTR_VLAN_ID v) i w =
     (if \<not> sai_is_valid_vlan_id E v then (SAI_STATUS_INVALID_ATTR_VALUE i, m)
      else if \<not> sai_is_vlan_created E w v then (SAI_STATUS_INVALID_ATTR_VALUE i, m)
      else (SAI_STATUS_SUCCESS, params_update (\<lambda>p. p\<lparr>mirror_vlan_id := v\<rparr>) m))"
| "sai_mirror_fill_attribute_params E m (SAI_MIRROR_SESSION_ATTR_VLAN_PRI v) i w =
     (SAI_STATUS_SUCCESS, params_update (\<lambda>p. p\<lparr>vlan_priority := v\<rparr>) m)"
| "sai_mirror_fill_attribute_params E m (SAI_MIRROR_SESSION_ATTR_MONITOR_PORT v) i w =
     (if sai_is_obj_id E SAI_OBJECT_TYPE_PORT v
      then if \<not> sai_is_port_valid E w v then (SAI_STATUS_INVALID_ATTR_VALUE i, m)
           else (SAI_STATUS_SUCCESS, m\<lparr>monitor_port := v\<rparr>)
      else if sai_is_obj_id E SAI_OBJECT_TYPE_LAG v
      then if \<not> sai_is_lag_created E w v then (SAI_STATUS_INVALID_ATTR_VALUE i, m)
           else (SAI_STATUS_SUCCESS, m\<lparr>monitor_port := v\<rparr>)
      else (SAI_STATUS_INVALID_ATTR_VALUE i, m))"
| "sai_mirror_fill_attribute_params E m (SAI_MIRROR_SESSION_ATTR_UNKNOWN n) i w =
     (SAI_STATUS_UNKNOWN_ATTRIBUTE i, m)"
| "sai_mirror_fill_attribute_params E m a i w = sai_mirror_fill_erspan_attribute_params E m a i"

end
