(* ===== verification/Mirror_Calls.thy ===== *)
theory Mirror_Calls
  imports Mirror_Model
begin

text \<open>The calls on mirror sessions (\<open>sai_mirror_common.c\<close>) and the sessions of a port (\<open>sai_mirror_port.c\<close>).\<close>

section \<open>Creation and removal of a session\<close>

text \<open>The loop over the attributes of a creation, with the bits of the ones it has seen.\<close>

fun mirror_create_parse ::
  "('w, 'z) mirror_env_scheme \<Rightarrow> nat \<Rightarrow> sai_mirror_attr_t list \<Rightarrow> uint32_t \<Rightarrow> sai_mirror_session_info_t \<Rightarrow> 'w
     \<Rightarrow> sai_status_t \<times> uint32_t \<times> sai_mirror_session_info_t \<times> 'w" where
  "mirror_create_parse E attr_index [] req m w = (SAI_STATUS_SUCCESS, req, m, w)"
| "mirror_create_parse E attr_index (a # as) req m w =
    (let req = req OR sai_attribute_bit_set E (mirror_attr_id a);
         (error, m) = sai_mirror_fill_attribute_params E m a attr_index w in
     if error \<noteq> SAI_STATUS_SUCCESS then (error, req, m, w)
     else let (error, w) = npu_session_attribs_validate E (session_id m) (a # as) attr_index w in
       if error \<noteq> SAI_STATUS_SUCCESS then (error, req, m, w)
       else mirror_create_parse E (Suc attr_index) as req m w)"

definition mirror_create_body ::
  "('w, 'z) mirror_env_scheme \<Rightarrow> sai_mirror_attr_t list \<Rightarrow> mirror_state \<Rightarrow> 'w
     \<Rightarrow> sai_status_t \<times> sai_object_id_t option \<times> mirror_state \<times> 'w" where
  "mirror_create_body E attrs s w =
    (let (error, req, m, w) = mirror_create_parse E 0 attrs 0 sai_mirror_session_node_alloc w in
     if error \<noteq> SAI_STATUS_SUCCESS then (error, None, s, w)
     else if sai_mirror_is_mandat_attribute_missing E req (span_type m)
     then (SAI_STATUS_MANDATORY_ATTRIBUTE_MISSING, None, s, w)
     else let (error, npu_object_id, w) = npu_session_create E m w in
       if error \<noteq> SAI_STATUS_SUCCESS then (error, None, s, w)
     else let m = m\<lparr>session_id := sai_uoid_create E SAI_OBJECT_TYPE_MIRROR_SESSION npu_object_id\<rparr>;
              (ok, t, w) = std_rbtree_insert E (mirror_sessions_tree s) (session_id m) m w in
       if \<not> ok then (SAI_STATUS_FAILURE, None, s, snd (npu_session_destroy E (session_id m) w))
     else let s = s\<lparr>mirror_sessions_tree := t\<rparr>;
              (ok, w) = rbtree_create_ok E w in
       if \<not> ok
       then let s = s\<lparr>mirror_sessions_tree := rb_remove (mirror_sessions_tree s) (session_id m)\<rparr>
            in (SAI_STATUS_FAILURE, None, s, snd (npu_session_destroy E (session_id m) w))
     else (SAI_STATUS_SUCCESS, Some (session_id m),
       session_write (session_id m) (m\<lparr>source_ports_tree := Some []\<rparr>) s, w))"

definition sai_mirror_session_create ::
  "('w, 'z) mirror_env_scheme \<Rightarrow> sai_mirror_attr_t list \<Rightarrow> mirror_state \<Rightarrow> 'w
     \<Rightarrow> sai_status_t \<times> sai_object_id_t option \<times> mirror_state \<times> 'w" where
  "sai_mirror_session_create E attrs s w =
    (if attrs = [] then (SAI_STATUS_FAILURE, None, mirror_crash s, w)
     else let s = sai_mirror_lock s;
              (error, out, s, w) =
                (if mirror_sessions_tree s = None then (SAI_STATUS_FAILURE, None, s, w)
                 else let (ok, w) = calloc_ok E w in
                   if \<not> ok then (SAI_STATUS_NO_MEMORY, None, s, w)
                   else mirror_create_body E attrs s w)
          in (error, out, sai_mirror_unlock s, w))"

definition mirror_remove_body ::
  "('w, 'z) mirror_env_scheme \<Rightarrow> sai_object_id_t \<Rightarrow> mirror_state \<Rightarrow> 'w \<Rightarrow> sai_status_t \<times> mirror_state \<times> 'w" where
  "mirror_remove_body E sid s w =
    (if mirror_sessions_tree s = None then (SAI_STATUS_FAILURE, s, w)
     else case rb_getexact (mirror_sessions_tree s) sid of
       None \<Rightarrow> (SAI_STATUS_INVALID_OBJECT_ID, s, w)
     | Some m \<Rightarrow> (case source_ports_tree m of
         None \<Rightarrow> (SAI_STATUS_FAILURE, mirror_crash s, w)
       | Some t \<Rightarrow>
         if t \<noteq> [] then (SAI_STATUS_OBJECT_IN_USE, s, w)
         else let (error, w) = npu_session_destroy E (session_id m) w in
           if error \<noteq> SAI_STATUS_SUCCESS then (error, s, w)
           else if rb_getexact (mirror_sessions_tree s) (session_id m) = None
           then (SAI_STATUS_FAILURE, session_write sid (m\<lparr>source_ports_tree := None\<rparr>) s, w)
           else (SAI_STATUS_SUCCESS,
             s\<lparr>mirror_sessions_tree := rb_remove (mirror_sessions_tree s) (session_id m)\<rparr>, w)))"

definition sai_mirror_session_remove ::
  "('w, 'z) mirror_env_scheme \<Rightarrow> sai_object_id_t \<Rightarrow> mirror_state \<Rightarrow> 'w \<Rightarrow> sai_status_t \<times> mirror_state \<times> 'w" where
  "sai_mirror_session_remove E sid s w =
    (if \<not> sai_is_obj_id E SAI_OBJECT_TYPE_MIRROR_SESSION sid then (SAI_STATUS_INVALID_OBJECT_TYPE, s, w)
     else let (error, s, w) = mirror_remove_body E sid (sai_mirror_lock s) w in (error, sai_mirror_unlock s, w))"

section \<open>Source ports of a session\<close>

definition session_port_add_body ::
  "('w, 'z) mirror_env_scheme \<Rightarrow> sai_object_id_t \<Rightarrow> sai_object_id_t \<Rightarrow> sai_mirror_direction_t \<Rightarrow> mirror_state \<Rightarrow> 'w
     \<Rightarrow> sai_status_t \<times> mirror_state \<times> 'w" where
  "session_port_add_body E sid port dir s w =
    (if \<not> sai_is_port_valid E w port then (SAI_STATUS_INVALID_OBJECT_ID, s, w)
     else if mirror_sessions_tree s = None then (SAI_STATUS_FAILURE, s, w)
     else case rb_getexact (mirror_sessions_tree s) sid of
       None \<Rightarrow> (SAI_STATUS_INVALID_OBJECT_ID, s, w)
     | Some m \<Rightarrow> (case source_ports_tree m of
         None \<Rightarrow> (SAI_STATUS_FAILURE, s, w)
       | Some t \<Rightarrow>
         if (port, dir) \<in> set t then (SAI_STATUS_ITEM_ALREADY_EXISTS, s, w)
         else let (ok, w) = calloc_ok E w in
           if \<not> ok then (SAI_STATUS_NO_MEMORY, s, w)
         else let (error, w) = npu_session_port_add E sid port dir w in
           if error \<noteq> SAI_STATUS_SUCCESS then (error, s, w)
         else let (ok, w) = rbtree_insert_ok E ((port, dir) \<in> set t) w in
           if \<not> ok
           then (SAI_STATUS_FAILURE, s, snd (npu_session_port_remove E (session_id m) port dir w))
         else (SAI_STATUS_SUCCESS,
           session_write sid (m\<lparr>source_ports_tree := Some (rbtree_place E t (port, dir))\<rparr>) s, w)))"

definition sai_mirror_session_port_add ::
  "('w, 'z) mirror_env_scheme \<Rightarrow> sai_object_id_t \<Rightarrow> sai_object_id_t \<Rightarrow> sai_mirror_direction_t \<Rightarrow> mirror_state \<Rightarrow> 'w
     \<Rightarrow> sai_status_t \<times> mirror_state \<times> 'w" where
  "sai_mirror_session_port_add E sid port dir s w =
    (if \<not> sai_is_obj_id E SAI_OBJECT_TYPE_MIRROR_SESSION sid then (SAI_STATUS_INVALID_OBJECT_TYPE, s, w)
     else let (error, s, w) = session_port_add_body E sid port dir (sai_mirror_lock s) w
          in (error, sai_mirror_unlock s, w))"

definition session_port_remove_body ::
  "('w, 'z) mirror_env_scheme \<Rightarrow> sai_object_id_t \<Rightarrow> sai_object_id_t \<Rightarrow> sai_mirror_direction_t \<Rightarrow> mirror_state \<Rightarrow> 'w
     \<Rightarrow> sai_status_t \<times> mirror_state \<times> 'w" where
  "session_port_remove_body E sid port dir s w =
    (if \<not> sai_is_port_valid E w port then (SAI_STATUS_INVALID_OBJECT_ID, s, w)
     else if mirror_sessions_tree s = None then (SAI_STATUS_FAILURE, s, w)
     else case rb_getexact (mirror_sessions_tree s) sid of
       None \<Rightarrow> (SAI_STATUS_INVALID_OBJECT_ID, s, w)
     | Some m \<Rightarrow> (case source_ports_tree m of
         None \<Rightarrow> (SAI_STATUS_FAILURE, s, w)
       | Some t \<Rightarrow>
         if (port, dir) \<notin> set t then (SAI_STATUS_ITEM_NOT_FOUND, s, w)
         else let (error, w) = npu_session_port_remove E sid port dir w in
           if error \<noteq> SAI_STATUS_SUCCESS then (error, s, w)
           else (SAI_STATUS_SUCCESS,
             session_write sid (m\<lparr>source_ports_tree := Some (remove1 (port, dir) t)\<rparr>) s, w)))"

definition sai_mirror_session_port_remove ::
  "('w, 'z) mirror_env_scheme \<Rightarrow> sai_object_id_t \<Rightarrow> sai_object_id_t \<Rightarrow> sai_mirror_direction_t \<Rightarrow> mirror_state \<Rightarrow> 'w
     \<Rightarrow> sai_status_t \<times> mirror_state \<times> 'w" where
  "sai_mirror_session_port_remove E sid port dir s w =
    (if \<not> sai_is_obj_id E SAI_OBJECT_TYPE_MIRROR_SESSION sid then (SAI_STATUS_INVALID_OBJECT_TYPE, s, w)
     else let (error, s, w) = session_port_remove_body E sid port dir (sai_mirror_lock s) w
          in (error, sai_mirror_unlock s, w))"

section \<open>Attributes\<close>

text \<open>The node itself is filled; it is put back when the plug-in refuses, not when the filling fails.\<close>

definition mirror_set_body ::
  "('w, 'z) mirror_env_scheme \<Rightarrow> sai_object_id_t \<Rightarrow> sai_mirror_attr_t \<Rightarrow> mirror_state \<Rightarrow> 'w
     \<Rightarrow> sai_status_t \<times> mirror_state \<times> 'w" where
  "mirror_set_body E sid attr s w =
    (case rb_getexact (mirror_sessions_tree s) sid of
       None \<Rightarrow> (SAI_STATUS_INVALID_OBJECT_ID, s, w)
     | Some p_orig_session_info \<Rightarrow>
       let (error, m) = sai_mirror_fill_attribute_params E p_orig_session_info attr 0 w;
           s = session_write sid m s in
       if error \<noteq> SAI_STATUS_SUCCESS then (error, s, w)
       else let (error, w) = npu_session_set E sid (span_type m) attr w in
         if error \<noteq> SAI_STATUS_SUCCESS then (error, session_write sid p_orig_session_info s, w)
         else (error, s, w))"

definition sai_mirror_session_attribute_set ::
  "('w, 'z) mirror_env_scheme \<Rightarrow> sai_object_id_t \<Rightarrow> sai_mirror_attr_t \<Rightarrow> mirror_state \<Rightarrow> 'w
     \<Rightarrow> sai_status_t \<times> mirror_state \<times> 'w" where
  "sai_mirror_session_attribute_set E sid attr s w =
    (if \<not> sai_is_obj_id E SAI_OBJECT_TYPE_MIRROR_SESSION sid then (SAI_STATUS_INVALID_OBJECT_TYPE, s, w)
     else let (error, s, w) = mirror_set_body E sid attr (sai_mirror_lock s) w in (error, sai_mirror_unlock s, w))"

definition sai_mirror_session_attribute_get ::
  "('w, 'z) mirror_env_scheme \<Rightarrow> sai_object_id_t \<Rightarrow> sai_mirror_attr_t list \<Rightarrow> mirror_state \<Rightarrow> 'w
     \<Rightarrow> sai_status_t \<times> sai_mirror_attr_t list \<times> mirror_state \<times> 'w" where
  "sai_mirror_session_attribute_get E sid attrs s w =
    (if attrs = [] then (SAI_STATUS_FAILURE, attrs, mirror_crash s, w)
     else if \<not> sai_is_obj_id E SAI_OBJECT_TYPE_MIRROR_SESSION sid
     then (SAI_STATUS_INVALID_OBJECT_TYPE, attrs, s, w)
     else let s = sai_mirror_lock s;
              (error, attrs, w) = (case rb_getexact (mirror_sessions_tree s) sid of
                  None \<Rightarrow> (SAI_STATUS_INVALID_OBJECT_ID, attrs, w)
                | Some m \<Rightarrow> npu_session_get E sid (span_type m) attrs w)
          in (error, attrs, sai_mirror_unlock s, w))"

text \<open>The answer for an unknown session does not release the lock.\<close>

definition sai_mirror_is_valid_mirror_session :: "sai_object_id_t \<Rightarrow> mirror_state \<Rightarrow> bool \<times> mirror_state" where
  "sai_mirror_is_valid_mirror_session sid s =
    (let s = sai_mirror_lock s in
     if rb_getexact (mirror_sessions_tree s) sid = None then (False, s)
     else (True, sai_mirror_unlock s))"

definition sai_mirror_init ::
  "('w, 'z) mirror_env_scheme \<Rightarrow> mirror_state \<Rightarrow> 'w \<Rightarrow> sai_status_t \<times> mirror_state \<times> 'w" where
  "sai_mirror_init E s w =
    (let s = s\<lparr>mirror_lock_depth := 0\<rparr>;
         (ok, w) = rbtree_create_ok E w;
         s = s\<lparr>mirror_sessions_tree := (if ok then Some fmempty else None)\<rparr> in
     if \<not> ok then (SAI_STATUS_FAILURE, s, w)
     else let (ret, w) = npu_mirror_init E w in (ret, s, w))"

section \<open>Sessions of a port\<close>

text \<open>A caller's list of sessions: its pointer is not read when the count is zero.\<close>

definition session_list :: "sai_object_id_t sai_list_t \<Rightarrow> sai_object_id_t list option" where
  "session_list l = (if sl_count l = 0 then Some [] else list_arg l)"

text \<open>The walk over the tree of a port.  Only the node that is visited is removed, so it meets the nodes that
  the tree has at its start, in their order.\<close>

fun mirror_remove_loop ::
  "('w, 'z) mirror_env_scheme \<Rightarrow> sai_object_id_t \<Rightarrow> sai_object_id_t list \<Rightarrow> sai_mirror_direction_t
     \<Rightarrow> mirror_key list \<Rightarrow> mirror_tree \<Rightarrow> mirror_state \<Rightarrow> 'w \<Rightarrow> sai_status_t \<times> mirror_tree \<times> mirror_state \<times> 'w" where
  "mirror_remove_loop E port ids dir [] t s w = (SAI_STATUS_SUCCESS, t, s, w)"
| "mirror_remove_loop E port ids dir ((sid, d) # ks) t s w =
    (if d \<noteq> dir then mirror_remove_loop E port ids dir ks t s w
     else if sid \<in> set ids then mirror_remove_loop E port ids dir ks t s w
     else let (ret, s, w) = sai_mirror_session_port_remove E sid port dir s w in
       if ret \<noteq> SAI_STATUS_SUCCESS then (ret, t, s, w)
       else if (sid, d) \<notin> set t then (SAI_STATUS_FAILURE, t, s, w)
       else mirror_remove_loop E port ids dir ks (remove1 (sid, d) t) s w)"

definition sai_mirror_remove_mirror_per_port ::
  "('w, 'z) mirror_env_scheme \<Rightarrow> sai_object_id_t \<Rightarrow> sai_object_id_t list \<Rightarrow> sai_mirror_direction_t
     \<Rightarrow> mirror_state \<Rightarrow> 'w \<Rightarrow> sai_status_t \<times> mirror_state \<times> 'w" where
  "sai_mirror_remove_mirror_per_port E port ids dir s w =
    (let (ok, w) = sai_port_application_info_create_and_get E port w in
     if \<not> ok then (SAI_STATUS_FAILURE, s, w)
     else case mirror_per_port s port of
       None \<Rightarrow> (SAI_STATUS_FAILURE, s, w)
     | Some t \<Rightarrow>
       let (ret, t, s, w) = mirror_remove_loop E port ids dir t t s w in
       if t = [] then (ret, s\<lparr>mirror_per_port := (mirror_per_port s)(port := None)\<rparr>,
                       sai_port_application_info_remove E port w)
       else (ret, s\<lparr>mirror_per_port := (mirror_per_port s)(port := Some t)\<rparr>, w))"

fun mirror_add_loop ::
  "('w, 'z) mirror_env_scheme \<Rightarrow> sai_object_id_t \<Rightarrow> sai_mirror_direction_t \<Rightarrow> sai_object_id_t list
     \<Rightarrow> mirror_tree \<Rightarrow> mirror_state \<Rightarrow> 'w \<Rightarrow> sai_status_t \<times> mirror_tree \<times> mirror_state \<times> 'w" where
  "mirror_add_loop E port dir [] t s w = (SAI_STATUS_SUCCESS, t, s, w)"
| "mirror_add_loop E port dir (sid # ids) t s w =
    (if (sid, dir) \<in> set t then mirror_add_loop E port dir ids t s w
     else let (ret, s, w) = sai_mirror_session_port_add E sid port dir s w in
       if ret \<noteq> SAI_STATUS_SUCCESS then (ret, t, s, w)
       else let (ok, w) = calloc_ok E w in
       if \<not> ok then (SAI_STATUS_NO_MEMORY, t, s, w)
       else let (ok, w) = rbtree_insert_ok E ((sid, dir) \<in> set t) w in
       if \<not> ok
       then let (_, s, w) = sai_mirror_session_port_remove E sid port dir s w in (SAI_STATUS_FAILURE, t, s, w)
       else mirror_add_loop E port dir ids (rbtree_place E t (sid, dir)) s w)"

definition mirror_handle_tree ::
  "('w, 'z) mirror_env_scheme \<Rightarrow> sai_object_id_t \<Rightarrow> sai_object_id_t sai_list_t \<Rightarrow> sai_mirror_direction_t
     \<Rightarrow> mirror_tree \<Rightarrow> mirror_state \<Rightarrow> 'w \<Rightarrow> sai_status_t \<times> mirror_state \<times> 'w" where
  "mirror_handle_tree E port l dir t s w =
    (case session_list l of
       None \<Rightarrow> (SAI_STATUS_FAILURE, mirror_crash s, w)
     | Some ids \<Rightarrow>
       let (ret, t, s, w) = mirror_add_loop E port dir ids t s w;
           s = s\<lparr>mirror_per_port := (mirror_per_port s)(port := Some t)\<rparr> in
       if ret = SAI_STATUS_SUCCESS then sai_mirror_remove_mirror_per_port E port ids dir s w
       else (ret, s, w))"

definition sai_mirror_handle_per_port ::
  "('w, 'z) mirror_env_scheme \<Rightarrow> sai_object_id_t \<Rightarrow> sai_object_id_t sai_list_t \<Rightarrow> sai_mirror_direction_t
     \<Rightarrow> mirror_state \<Rightarrow> 'w \<Rightarrow> sai_status_t \<times> mirror_state \<times> 'w" where
  "sai_mirror_handle_per_port E port l dir s w =
    (let (ok, w) = sai_port_application_info_create_and_get E port w in
     if \<not> ok then (SAI_STATUS_FAILURE, s, w)
     else case mirror_per_port s port of
       Some t \<Rightarrow> mirror_handle_tree E port l dir t s w
     | None \<Rightarrow> let (ok, w) = rbtree_create_ok E w in
         if \<not> ok then (SAI_STATUS_FAILURE, s, w) else mirror_handle_tree E port l dir [] s w)"

end
