(* ===== verification/Mirror_Inv.thy ===== *)
theory Mirror_Inv
  imports Mirror_Calls
begin

text \<open>
  What the mirroring module keeps: the sources of each session and the sessions of each port as sets of
  pairs, the well-formedness of the two levels of trees, and the effect of adding and removing a source
  port of a session.
\<close>

section \<open>Laws and abstraction\<close>

text \<open>A small tree without duplicates stays one when a new node is placed.\<close>

definition place_law :: "('w, 'z) mirror_env_scheme \<Rightarrow> bool" where
  "place_law E \<longleftrightarrow> (\<forall>t k. distinct t \<and> k \<notin> set t \<longrightarrow>
     distinct (rbtree_place E t k) \<and> set (rbtree_place E t k) = insert k (set t))"

definition mirror_laws :: "('w, 'z) mirror_env_scheme \<Rightarrow> bool" where
  "mirror_laws E \<longleftrightarrow> refuses_duplicates E \<and> uoid_typed E \<and> place_law E"

lemma place_lawD:
  "mirror_laws E \<Longrightarrow> distinct t \<Longrightarrow> k \<notin> set t \<Longrightarrow> distinct (rbtree_place E t k)"
  "mirror_laws E \<Longrightarrow> distinct t \<Longrightarrow> k \<notin> set t \<Longrightarrow> set (rbtree_place E t k) = insert k (set t)"
  unfolding mirror_laws_def place_law_def by blast+

text \<open>The source ports of a session, the sessions of a port, and a session without its source ports.\<close>

definition tree_set :: "mirror_tree option \<Rightarrow> mirror_key set" where
  "tree_set t = (case t of None \<Rightarrow> {} | Some xs \<Rightarrow> set xs)"

lemma tree_set_simps [simp]: "tree_set None = {}" "tree_set (Some xs) = set xs"
  by (simp_all add: tree_set_def)

definition session_sources :: "mirror_state \<Rightarrow> sai_object_id_t \<Rightarrow> mirror_key set" where
  "session_sources s sid = (case rb_getexact (mirror_sessions_tree s) sid of
       None \<Rightarrow> {} | Some m \<Rightarrow> tree_set (source_ports_tree m))"

definition port_sessions :: "mirror_state \<Rightarrow> sai_object_id_t \<Rightarrow> mirror_key set" where
  "port_sessions s port = tree_set (mirror_per_port s port)"

definition session_data :: "mirror_state \<Rightarrow> sai_object_id_t \<Rightarrow> sai_mirror_session_info_t option" where
  "session_data s sid =
     map_option (\<lambda>m. m\<lparr>source_ports_tree := None\<rparr>) (rb_getexact (mirror_sessions_tree s) sid)"

text \<open>A port that a session mirrors without the port knowing it.\<close>

definition mirror_lost :: "mirror_state \<Rightarrow> sai_object_id_t \<Rightarrow> sai_object_id_t \<Rightarrow> sai_mirror_direction_t \<Rightarrow> bool" where
  "mirror_lost s sid port dir \<longleftrightarrow> (port, dir) \<in> session_sources s sid \<and> (sid, dir) \<notin> port_sessions s port"

section \<open>Well-formed states\<close>

definition session_ok :: "('w, 'z) mirror_env_scheme \<Rightarrow> sai_object_id_t \<Rightarrow> sai_mirror_session_info_t \<Rightarrow> bool" where
  "session_ok E sid m \<longleftrightarrow> session_id m = sid \<and> sai_is_obj_id E SAI_OBJECT_TYPE_MIRROR_SESSION sid
     \<and> (\<exists>t. source_ports_tree m = Some t \<and> distinct t)"

definition mirror_ok :: "('w, 'z) mirror_env_scheme \<Rightarrow> mirror_state \<Rightarrow> bool" where
  "mirror_ok E s \<longleftrightarrow> \<not> mirror_fault s \<and> mirror_sessions_tree s \<noteq> None
     \<and> (\<forall>sid m. rb_getexact (mirror_sessions_tree s) sid = Some m \<longrightarrow> session_ok E sid m)"

text \<open>What the tree of a port relies on: each of its nodes is a source port of a session.\<close>

definition port_tree_ok :: "mirror_state \<Rightarrow> sai_object_id_t \<Rightarrow> mirror_tree \<Rightarrow> bool" where
  "port_tree_ok s port t \<longleftrightarrow> distinct t \<and> (\<forall>(sid, d) \<in> set t. (port, d) \<in> session_sources s sid)"

definition mirror_inv :: "('w, 'z) mirror_env_scheme \<Rightarrow> mirror_state \<Rightarrow> bool" where
  "mirror_inv E s \<longleftrightarrow> mirror_ok E s
     \<and> (\<forall>port t. mirror_per_port s port = Some t \<longrightarrow> port_tree_ok s port t)"

lemma mirror_okE:
  assumes "mirror_ok E s" "rb_getexact (mirror_sessions_tree s) sid = Some m"
  obtains t where "session_id m = sid" "sai_is_obj_id E SAI_OBJECT_TYPE_MIRROR_SESSION sid"
    "source_ports_tree m = Some t" "distinct t" "session_sources s sid = set t"
  using assms unfolding mirror_ok_def session_ok_def session_sources_def by fastforce

lemma mirror_okD:
  "mirror_ok E s \<Longrightarrow> \<not> mirror_fault s"
  "mirror_ok E s \<Longrightarrow> \<exists>t. mirror_sessions_tree s = Some t"
  by (auto simp: mirror_ok_def)

lemma mirror_invD:
  "mirror_inv E s \<Longrightarrow> mirror_ok E s"
  "mirror_inv E s \<Longrightarrow> mirror_per_port s port = Some t \<Longrightarrow> port_tree_ok s port t"
  by (auto simp: mirror_inv_def)

lemma port_tree_ok_Nil [simp]: "port_tree_ok s port []"
  by (simp add: port_tree_ok_def)

section \<open>Lock\<close>

lemma mirror_lock_simps [simp]:
  "mirror_sessions_tree (sai_mirror_lock s) = mirror_sessions_tree s"
  "mirror_per_port (sai_mirror_lock s) = mirror_per_port s"
  "mirror_fault (sai_mirror_lock s) = mirror_fault s"
  "mirror_sessions_tree (sai_mirror_unlock s) = mirror_sessions_tree s"
  "mirror_per_port (sai_mirror_unlock s) = mirror_per_port s"
  "mirror_fault (sai_mirror_unlock s) = mirror_fault s"
  "sai_mirror_unlock (sai_mirror_lock s) = s"
  "sai_mirror_unlock (session_write i m (sai_mirror_lock s)) = session_write i m s"
  "mirror_lock_depth (session_write i m s) = mirror_lock_depth s"
  "mirror_per_port (session_write i m s) = mirror_per_port s"
  "mirror_fault (session_write i m s) = mirror_fault s"
  "mirror_sessions_tree (session_write i m s) = rb_put (mirror_sessions_tree s) i m"
  by (simp_all add: sai_mirror_lock_def sai_mirror_unlock_def session_write_def)

text \<open>The abstraction reads the two fields only.\<close>

lemma mirror_abs_cong:
  assumes "mirror_sessions_tree s = mirror_sessions_tree s'"
  shows "session_sources s = session_sources s'" "session_data s = session_data s'"
    "mirror_fault s = mirror_fault s' \<Longrightarrow> mirror_ok E s = mirror_ok E s'"
    "port_tree_ok s port t = port_tree_ok s' port t"
proof -
  show e: "session_sources s = session_sources s'" using assms by (intro ext) (simp add: session_sources_def)
  show "session_data s = session_data s'" using assms by (intro ext) (simp add: session_data_def)
  show "mirror_ok E s = mirror_ok E s'" if "mirror_fault s = mirror_fault s'" using that assms by (simp add: mirror_ok_def)
  show "port_tree_ok s port t = port_tree_ok s' port t" using e by (simp add: port_tree_ok_def)
qed

section \<open>Writing the source ports of a session\<close>

lemma write_sources:
  assumes ok: "mirror_ok E s" and m: "rb_getexact (mirror_sessions_tree s) sid = Some m" and d: "distinct t'"
    and s': "s' = session_write sid (m\<lparr>source_ports_tree := Some t'\<rparr>) s"
  shows "mirror_ok E s'" "session_data s' = session_data s" "mirror_per_port s' = mirror_per_port s"
    "session_sources s' = (session_sources s)(sid := set t')" "mirror_lock_depth s' = mirror_lock_depth s"
proof -
  have h: "mirror_sessions_tree s \<noteq> None" using ok by (simp add: mirror_ok_def)
  show "mirror_ok E s'" using ok m d by (auto simp: s' mirror_ok_def session_ok_def)
  show "session_data s' = session_data s" using m h by (intro ext) (auto simp: s' session_data_def)
  show "session_sources s' = (session_sources s)(sid := set t')"
    using h by (intro ext) (simp add: s' session_sources_def)
qed (simp_all add: s')

lemma port_add_effect:
  assumes run: "sai_mirror_session_port_add E sid port dir s w = (ret, s', w')"
    and ok: "mirror_ok E s" and L: "mirror_laws E"
  obtains (failed) "ret \<noteq> SAI_STATUS_SUCCESS" "s' = s"
  | (added) "ret = SAI_STATUS_SUCCESS" "(port, dir) \<notin> session_sources s sid" "session_data s sid \<noteq> None"
      "mirror_ok E s'" "session_data s' = session_data s" "mirror_per_port s' = mirror_per_port s"
      "session_sources s' = (session_sources s)(sid := insert (port, dir) (session_sources s sid))"
      "mirror_lock_depth s' = mirror_lock_depth s"
proof -
  let ?s = "sai_mirror_lock s"
  obtain h where h: "mirror_sessions_tree s = Some h" using mirror_okD(2) [OF ok] by blast
  obtain ret1 s1 w1 where b: "session_port_add_body E sid port dir ?s w = (ret1, s1, w1)" by (metis prod_cases3)
  have R: "(if sai_is_obj_id E SAI_OBJECT_TYPE_MIRROR_SESSION sid then (ret1, sai_mirror_unlock s1, w1)
      else (SAI_STATUS_INVALID_OBJECT_TYPE, s, w)) = (ret, s', w')"
    unfolding run [symmetric] sai_mirror_session_port_add_def by (simp add: b)
  show thesis
  proof (cases "\<exists>m. sai_is_obj_id E SAI_OBJECT_TYPE_MIRROR_SESSION sid \<and> rb_getexact (mirror_sessions_tree s) sid = Some m
      \<and> ret1 = SAI_STATUS_SUCCESS")
    case False
    have "ret1 \<noteq> SAI_STATUS_SUCCESS \<longrightarrow> s1 = ?s"
      using b h by (auto simp: session_port_add_body_def Let_def split: if_splits option.splits prod.splits)
    moreover have "ret1 \<noteq> SAI_STATUS_SUCCESS" if "rb_getexact (mirror_sessions_tree s) sid = None"
      using b h that by (auto simp: session_port_add_body_def split: if_splits)
    ultimately show thesis using R False by (intro failed) (auto split: if_splits)
  next
    case True
    then obtain m where m: "rb_getexact (mirror_sessions_tree s) sid = Some m" and ty: "sai_is_obj_id E SAI_OBJECT_TYPE_MIRROR_SESSION sid"
      and r: "ret1 = SAI_STATUS_SUCCESS" by blast
    obtain t where t: "source_ports_tree m = Some t" "distinct t" "session_sources s sid = set t"
      by (rule mirror_okE [OF ok m])
    from b r have new: "(port, dir) \<notin> set t" and s1: "s1 = session_write sid (m\<lparr>source_ports_tree := Some (rbtree_place E t (port, dir))\<rparr>) ?s"
      using m t(1) h by (auto simp: session_port_add_body_def Let_def split: if_splits prod.splits)
    have s': "s' = session_write sid (m\<lparr>source_ports_tree := Some (rbtree_place E t (port, dir))\<rparr>) s" and ret: "ret = SAI_STATUS_SUCCESS"
      using R ty r s1 by simp_all
    note W = write_sources [OF ok m place_lawD(1) [OF L t(2) new] s']
    from m have known: "session_data s sid \<noteq> None" by (simp add: session_data_def)
    from W place_lawD(2) [OF L t(2) new] t(3) new ret known show thesis by (intro added) simp_all
  qed
qed

lemma port_remove_effect:
  assumes run: "sai_mirror_session_port_remove E sid port dir s w = (ret, s', w')" and ok: "mirror_ok E s"
  obtains (failed) "ret \<noteq> SAI_STATUS_SUCCESS" "s' = s"
  | (removed) "ret = SAI_STATUS_SUCCESS" "(port, dir) \<in> session_sources s sid"
      "mirror_ok E s'" "session_data s' = session_data s" "mirror_per_port s' = mirror_per_port s"
      "session_sources s' = (session_sources s)(sid := session_sources s sid - {(port, dir)})"
      "mirror_lock_depth s' = mirror_lock_depth s"
proof -
  let ?s = "sai_mirror_lock s"
  obtain h where h: "mirror_sessions_tree s = Some h" using mirror_okD(2) [OF ok] by blast
  obtain ret1 s1 w1 where b: "session_port_remove_body E sid port dir ?s w = (ret1, s1, w1)" by (metis prod_cases3)
  have R: "(if sai_is_obj_id E SAI_OBJECT_TYPE_MIRROR_SESSION sid then (ret1, sai_mirror_unlock s1, w1)
      else (SAI_STATUS_INVALID_OBJECT_TYPE, s, w)) = (ret, s', w')"
    unfolding run [symmetric] sai_mirror_session_port_remove_def by (simp add: b)
  show thesis
  proof (cases "\<exists>m. sai_is_obj_id E SAI_OBJECT_TYPE_MIRROR_SESSION sid \<and> rb_getexact (mirror_sessions_tree s) sid = Some m
      \<and> ret1 = SAI_STATUS_SUCCESS")
    case False
    have "ret1 \<noteq> SAI_STATUS_SUCCESS \<longrightarrow> s1 = ?s"
      using b h by (auto simp: session_port_remove_body_def Let_def split: if_splits option.splits prod.splits)
    moreover have "ret1 \<noteq> SAI_STATUS_SUCCESS" if "rb_getexact (mirror_sessions_tree s) sid = None"
      using b h that by (auto simp: session_port_remove_body_def split: if_splits)
    ultimately show thesis using R False by (intro failed) (auto split: if_splits)
  next
    case True
    then obtain m where m: "rb_getexact (mirror_sessions_tree s) sid = Some m" and ty: "sai_is_obj_id E SAI_OBJECT_TYPE_MIRROR_SESSION sid"
      and r: "ret1 = SAI_STATUS_SUCCESS" by blast
    obtain t where t: "source_ports_tree m = Some t" "distinct t" "session_sources s sid = set t"
      by (rule mirror_okE [OF ok m])
    from b r have old: "(port, dir) \<in> set t" and s1: "s1 = session_write sid (m\<lparr>source_ports_tree := Some (remove1 (port, dir) t)\<rparr>) ?s"
      using m t(1) h by (auto simp: session_port_remove_body_def Let_def split: if_splits prod.splits)
    have s': "s' = session_write sid (m\<lparr>source_ports_tree := Some (remove1 (port, dir) t)\<rparr>) s" and ret: "ret = SAI_STATUS_SUCCESS"
      using R ty r s1 by simp_all
    note W = write_sources [OF ok m distinct_remove1 [OF t(2)] s']
    from W t(2,3) old ret show thesis by (intro removed) simp_all
  qed
qed

end
