(* ===== verification/Mirror_Effects.thy ===== *)
theory Mirror_Effects
  imports Mirror_Inv
begin

text \<open>
  The two loops that change the sessions of a port, and the calls made of them.  \<open>grown\<close> and \<open>shrunk\<close>
  say what a run of each loop, however it ends, does to the tree of the port and to the sessions.
\<close>

section \<open>Adding the requested sessions\<close>

definition grown ::
  "('w, 'z) mirror_env_scheme \<Rightarrow> sai_object_id_t \<Rightarrow> sai_mirror_direction_t \<Rightarrow> mirror_tree \<Rightarrow> mirror_state
     \<Rightarrow> mirror_tree \<Rightarrow> mirror_state \<Rightarrow> bool" where
  "grown E port dir t s t' s' \<longleftrightarrow> mirror_ok E s' \<and> session_data s' = session_data s
     \<and> mirror_per_port s' = mirror_per_port s \<and> mirror_lock_depth s' = mirror_lock_depth s
     \<and> port_tree_ok s' port t' \<and> set t \<subseteq> set t'
     \<and> (\<forall>sid. session_sources s sid \<subseteq> session_sources s' sid
          \<and> session_sources s' sid \<subseteq> insert (port, dir) (session_sources s sid))
     \<and> (\<forall>sid d. (sid, d) \<in> set t' \<and> (sid, d) \<notin> set t \<longrightarrow> d = dir \<and> (port, dir) \<notin> session_sources s sid)"

lemma grownD:
  assumes "grown E port dir t s t' s'"
  shows "mirror_ok E s'" "session_data s' = session_data s" "mirror_per_port s' = mirror_per_port s"
    "mirror_lock_depth s' = mirror_lock_depth s" "port_tree_ok s' port t'" "set t \<subseteq> set t'"
    "session_sources s sid \<subseteq> session_sources s' sid"
    "session_sources s' sid \<subseteq> insert (port, dir) (session_sources s sid)"
    "(sid, d) \<in> set t' \<Longrightarrow> (sid, d) \<notin> set t \<Longrightarrow> d = dir \<and> (port, dir) \<notin> session_sources s sid"
  using assms unfolding grown_def by (simp_all, blast)

lemma grown_refl: "mirror_ok E s \<Longrightarrow> port_tree_ok s port t \<Longrightarrow> grown E port dir t s t s"
  by (auto simp: grown_def)

lemma grown_trans:
  assumes a: "grown E port dir t s t1 s1" and b: "grown E port dir t1 s1 t2 s2"
  shows "grown E port dir t s t2 s2"
proof -
  have "d = dir \<and> (port, dir) \<notin> session_sources s sid" if "(sid, d) \<in> set t2" "(sid, d) \<notin> set t" for sid d
  proof (cases "(sid, d) \<in> set t1")
    case True
    then show ?thesis by (rule grownD(9) [OF a _ that(2)])
  next
    case False
    with grownD(9) [OF b that(1)] grownD(7) [OF a, of sid] show ?thesis by blast
  qed
  moreover have "session_sources s sid \<subseteq> session_sources s2 sid
      \<and> session_sources s2 sid \<subseteq> insert (port, dir) (session_sources s sid)" for sid
    using grownD(7,8) [OF a, of sid] grownD(7,8) [OF b, of sid] by blast
  ultimately show ?thesis unfolding grown_def
    using grownD(2-4,6) [OF a] grownD(1-6) [OF b] by (intro conjI allI impI) auto
qed

lemma port_tree_ok_mono:
  "port_tree_ok s port t \<Longrightarrow> (\<And>sid. session_sources s sid \<subseteq> session_sources s' sid) \<Longrightarrow> port_tree_ok s' port t"
  unfolding port_tree_ok_def by blast

lemma add_loop_grown:
  assumes "mirror_add_loop E port dir ids t s w = (ret, t', s', w')"
    and "mirror_ok E s" "mirror_laws E" "port_tree_ok s port t"
  shows "grown E port dir t s t' s' \<and> (ret = SAI_STATUS_SUCCESS \<longrightarrow>
      set t' = set t \<union> {(sid, dir) |sid. sid \<in> set ids}
      \<and> (\<forall>sid. session_sources s' sid =
           (if sid \<in> set ids then insert (port, dir) (session_sources s sid) else session_sources s sid)))"
  using assms
proof (induction ids arbitrary: t s w)
  case Nil
  then show ?case by (auto intro: grown_refl)
next
  case (Cons sid ids)
  note run = Cons.prems(1) and ok = Cons.prems(2) and L = Cons.prems(3) and pt = Cons.prems(4)
  show ?case
  proof (cases "(sid, dir) \<in> set t")
    case True
    then have "(port, dir) \<in> session_sources s sid" using pt by (auto simp: port_tree_ok_def)
    moreover have "mirror_add_loop E port dir ids t s w = (ret, t', s', w')" using run True by simp
    from Cons.IH [OF this ok L pt] True calculation show ?thesis by (auto simp: insert_absorb)
  next
    case new: False
    obtain r s1 w1 where a: "sai_mirror_session_port_add E sid port dir s w = (r, s1, w1)" by (metis prod_cases3)
    from a ok L show ?thesis
    proof (cases rule: port_add_effect)
      case failed
      with run new a ok pt show ?thesis by (auto intro: grown_refl)
    next
      case added
      have mono: "session_sources s i \<subseteq> session_sources s1 i" for i using added(7) by auto
      have stay: "grown E port dir t s t s1"
        using added port_tree_ok_mono [OF pt mono] unfolding grown_def by (auto split: if_splits)
      obtain c w2 where c: "calloc_ok E w1 = (c, w2)" by fastforce
      obtain b w3 where b: "rbtree_insert_ok E ((sid, dir) \<in> set t) w2 = (b, w3)" by fastforce
      show ?thesis
      proof (cases "c \<and> b")
        case True
        let ?t = "rbtree_place E t (sid, dir)"
        have dt: "distinct t" using pt by (simp add: port_tree_ok_def)
        note pl = place_lawD [OF L dt new]
        have pt1: "port_tree_ok s1 port ?t"
          using pl port_tree_ok_mono [OF pt mono] added(7) by (auto simp: port_tree_ok_def)
        have g: "grown E port dir t s ?t s1"
          using added pt1 pl new unfolding grown_def by (auto split: if_splits)
        have "mirror_add_loop E port dir ids ?t s1 w3 = (ret, t', s', w')"
          using run new a b c True added(1) by simp
        from Cons.IH [OF this added(4) L pt1] grown_trans [OF g] pl(2) added(7) show ?thesis
          by (auto simp: insert_absorb)
      next
        case False
        obtain r2 s2 w4 where rm: "sai_mirror_session_port_remove E sid port dir s1 w3 = (r2, s2, w4)" by (metis prod_cases3)
        have e: "ret \<noteq> SAI_STATUS_SUCCESS" "t' = t" "s' = (if c then s2 else s1)"
          using run new a b c rm False added(1) by (auto split: if_splits)
        from rm added(4) have "grown E port dir t s t s2"
        proof (cases rule: port_remove_effect)
          case failed
          with stay show ?thesis by simp
        next
          case removed
          have "session_sources s2 = session_sources s"
            using removed(6) added(2,7) by (intro ext) auto
          with removed added pt show ?thesis unfolding grown_def port_tree_ok_def by auto
        qed
        with e stay show ?thesis by simp
      qed
    qed
  qed
qed

section \<open>Removing the sessions that are not requested\<close>

definition shrunk ::
  "('w, 'z) mirror_env_scheme \<Rightarrow> sai_object_id_t \<Rightarrow> sai_object_id_t list \<Rightarrow> sai_mirror_direction_t \<Rightarrow> mirror_tree
     \<Rightarrow> mirror_state \<Rightarrow> mirror_tree \<Rightarrow> mirror_state \<Rightarrow> bool" where
  "shrunk E port ids dir t s t' s' \<longleftrightarrow> mirror_ok E s' \<and> session_data s' = session_data s
     \<and> mirror_per_port s' = mirror_per_port s \<and> mirror_lock_depth s' = mirror_lock_depth s
     \<and> distinct t' \<and> set t' \<subseteq> set t
     \<and> (\<forall>sid d. (sid, d) \<in> set t \<and> (sid, d) \<notin> set t' \<longrightarrow> d = dir \<and> sid \<notin> set ids)
     \<and> (\<forall>sid. session_sources s' sid =
          (if (sid, dir) \<in> set t \<and> (sid, dir) \<notin> set t' then session_sources s sid - {(port, dir)} else session_sources s sid))"

lemma shrunkD:
  assumes "shrunk E port ids dir t s t' s'"
  shows "mirror_ok E s'" "session_data s' = session_data s" "mirror_per_port s' = mirror_per_port s"
    "mirror_lock_depth s' = mirror_lock_depth s" "distinct t'" "set t' \<subseteq> set t"
    "(sid, d) \<in> set t \<Longrightarrow> (sid, d) \<notin> set t' \<Longrightarrow> d = dir \<and> sid \<notin> set ids"
    "session_sources s' sid = (if (sid, dir) \<in> set t \<and> (sid, dir) \<notin> set t' then session_sources s sid - {(port, dir)}
       else session_sources s sid)"
  using assms unfolding shrunk_def by blast+

lemma shrunk_refl: "mirror_ok E s \<Longrightarrow> distinct t \<Longrightarrow> shrunk E port ids dir t s t s"
  by (auto simp: shrunk_def)

lemma shrunk_trans:
  assumes a: "shrunk E port ids dir t s t1 s1" and b: "shrunk E port ids dir t1 s1 t2 s2"
  shows "shrunk E port ids dir t s t2 s2"
proof -
  have "session_sources s2 sid = (if (sid, dir) \<in> set t \<and> (sid, dir) \<notin> set t2
      then session_sources s sid - {(port, dir)} else session_sources s sid)" for sid
    using shrunkD(6) [OF a] shrunkD(6) [OF b] by (auto simp: shrunkD(8) [OF a] shrunkD(8) [OF b])
  moreover have "d = dir \<and> sid \<notin> set ids" if "(sid, d) \<in> set t" "(sid, d) \<notin> set t2" for sid d
    using that shrunkD(7) [OF a, of sid d] shrunkD(7) [OF b, of sid d] by blast
  ultimately show ?thesis unfolding shrunk_def
    using shrunkD(2-4,6) [OF a] shrunkD(1-6) [OF b] by (intro conjI allI impI) auto
qed

lemma shrunk_port_tree:
  assumes "shrunk E port ids dir t s t' s'" "port_tree_ok s port t"
  shows "port_tree_ok s' port t'"
proof -
  have "(port, d) \<in> session_sources s' sid" if "(sid, d) \<in> set t'" for sid d
  proof -
    have "(port, d) \<in> session_sources s sid"
      using assms(2) that shrunkD(6) [OF assms(1)] unfolding port_tree_ok_def by blast
    then show ?thesis using that by (cases "d = dir") (simp_all add: shrunkD(8) [OF assms(1)])
  qed
  then show ?thesis using shrunkD(5) [OF assms(1)] by (auto simp: port_tree_ok_def)
qed

lemma remove_loop_shrunk:
  assumes "mirror_remove_loop E port ids dir ks t s w = (ret, t', s', w')"
    and "mirror_ok E s" "distinct t" "distinct ks" "set ks \<subseteq> set t"
  shows "shrunk E port ids dir t s t' s' \<and> (ret = SAI_STATUS_SUCCESS \<longrightarrow>
      (\<forall>sid. (sid, dir) \<in> set ks \<and> (sid, dir) \<in> set t' \<longrightarrow> sid \<in> set ids))"
  using assms
proof (induction ks arbitrary: t s w)
  case Nil
  then show ?case by (auto intro: shrunk_refl)
next
  case (Cons k ks)
  obtain sid d where k: "k = (sid, d)" by fastforce
  note run = Cons.prems(1) and ok = Cons.prems(2) and dt = Cons.prems(3)
  have ks: "distinct ks" "set ks \<subseteq> set t" "k \<notin> set ks" "k \<in> set t" using Cons.prems(4,5) by auto
  show ?case
  proof (cases "d \<noteq> dir \<or> sid \<in> set ids")
    case True
    then have "mirror_remove_loop E port ids dir ks t s w = (ret, t', s', w')" using run k by (auto split: if_splits)
    from Cons.IH [OF this ok dt ks(1,2)] True k show ?thesis by auto
  next
    case False
    then have d: "d = dir" and out: "sid \<notin> set ids" by auto
    obtain r s1 w1 where a: "sai_mirror_session_port_remove E sid port dir s w = (r, s1, w1)" by (metis prod_cases3)
    from a ok show ?thesis
    proof (cases rule: port_remove_effect)
      case failed
      with run k d out a ok dt show ?thesis by (auto intro: shrunk_refl)
    next
      case removed
      let ?t = "remove1 k t"
      have g: "shrunk E port ids dir t s ?t s1"
        using removed dt ks(4) k d out unfolding shrunk_def by (auto simp: set_remove1_eq)
      have "mirror_remove_loop E port ids dir ks ?t s1 w1 = (ret, t', s', w')"
        using run k d out a removed(1) ks(4) by simp
      moreover have "set ks \<subseteq> set ?t" using ks dt by (auto simp: set_remove1_eq)
      ultimately have IH: "shrunk E port ids dir ?t s1 t' s' \<and> (ret = SAI_STATUS_SUCCESS \<longrightarrow>
          (\<forall>sid. (sid, dir) \<in> set ks \<and> (sid, dir) \<in> set t' \<longrightarrow> sid \<in> set ids))"
        by (intro Cons.IH removed(3) distinct_remove1 dt ks(1)) simp_all
      then have "k \<notin> set t'" using dt unfolding shrunk_def by (auto simp: set_remove1_eq)
      with IH shrunk_trans [OF g] k show ?thesis by auto
    qed
  qed
qed

section \<open>The sessions of a port\<close>

text \<open>A run that gets as far as the two loops: the trees after them, and what success tells.\<close>

lemma remove_per_port_effect:
  assumes run: "sai_mirror_remove_mirror_per_port E port ids dir s w = (ret, s', w')"
    and t: "mirror_per_port s port = Some t" "mirror_ok E s" "distinct t"
  obtains t2 s3 X where "shrunk E port ids dir t s t2 s3"
    "s' = s3\<lparr>mirror_per_port := (mirror_per_port s)(port := X)\<rparr>" "X = None \<and> t2 = [] \<or> X = Some t2"
    "ret = SAI_STATUS_SUCCESS \<Longrightarrow> \<forall>sid. (sid, dir) \<in> set t2 \<longrightarrow> sid \<in> set ids"
proof -
  obtain c w1 where c: "sai_port_application_info_create_and_get E port w = (c, w1)" by fastforce
  show thesis
  proof (cases c)
    case False
    have "s = s\<lparr>mirror_per_port := (mirror_per_port s)(port := Some t)\<rparr>" using t(1) by (simp add: fun_upd_idem)
    with False run c that [OF shrunk_refl [OF t(2,3)], of "Some t"] show thesis
      by (simp add: sai_mirror_remove_mirror_per_port_def)
  next
    case True
    obtain r t2 s3 w2 where l: "mirror_remove_loop E port ids dir t t s w1 = (r, t2, s3, w2)" by (metis prod_cases4)
    note e = remove_loop_shrunk [OF l t(2,3,3) subset_refl]
    have p: "mirror_per_port s3 = mirror_per_port s" using shrunkD(3) e by blast
    have R: "ret = r" "s' = s3\<lparr>mirror_per_port := (mirror_per_port s)(port := if t2 = [] then None else Some t2)\<rparr>"
      using run c True t(1) l p by (auto simp: sai_mirror_remove_mirror_per_port_def split: if_splits)
    have sub: "set t2 \<subseteq> set t" using shrunkD(6) e by blast
    show thesis
    proof (rule that [OF conjunct1 [OF e] R(2)])
      assume "ret = SAI_STATUS_SUCCESS"
      with e R(1) sub show "\<forall>sid. (sid, dir) \<in> set t2 \<longrightarrow> sid \<in> set ids" by blast
    qed simp
  qed
qed

lemma handle_tree_effect:
  assumes run: "mirror_handle_tree E port l dir t s w = (ret, s', w')" and l: "session_list l = Some ids"
    and ok: "mirror_ok E s" "mirror_laws E" "port_tree_ok s port t"
  obtains t1 s1 s2 t2 s3 X where "grown E port dir t s t1 s1" "s2 = s1\<lparr>mirror_per_port := (mirror_per_port s)(port := Some t1)\<rparr>"
    "shrunk E port ids dir t1 s2 t2 s3" "s' = s3\<lparr>mirror_per_port := (mirror_per_port s)(port := X)\<rparr>"
    "X = None \<and> t2 = [] \<or> X = Some t2"
    "ret = SAI_STATUS_SUCCESS \<Longrightarrow> set t1 = set t \<union> {(sid, dir) |sid. sid \<in> set ids}
      \<and> (\<forall>sid. session_sources s1 sid =
           (if sid \<in> set ids then insert (port, dir) (session_sources s sid) else session_sources s sid))
      \<and> (\<forall>sid. (sid, dir) \<in> set t2 \<longrightarrow> sid \<in> set ids)"
proof -
  obtain r t1 s1 w1 where a: "mirror_add_loop E port dir ids t s w = (r, t1, s1, w1)" by (metis prod_cases4)
  note e = add_loop_grown [OF a ok]
  have g: "grown E port dir t s t1 s1" using e by blast
  let ?s = "s1\<lparr>mirror_per_port := (mirror_per_port s)(port := Some t1)\<rparr>"
  have R: "(if r = SAI_STATUS_SUCCESS then sai_mirror_remove_mirror_per_port E port ids dir ?s w1 else (r, ?s, w1)) = (ret, s', w')"
    unfolding run [symmetric] mirror_handle_tree_def by (simp add: l a grownD(3) [OF g])
  have ok2: "mirror_ok E ?s" using grownD(1) [OF g] mirror_abs_cong(3) [of ?s s1 E] by simp
  have dt: "distinct t1" using grownD(5) [OF g] by (simp add: port_tree_ok_def)
  show thesis
  proof (cases "r = SAI_STATUS_SUCCESS")
    case False
    with R have s': "s' = ?s" "ret \<noteq> SAI_STATUS_SUCCESS" by simp_all
    show thesis by (rule that [OF g refl shrunk_refl [OF ok2 dt], of "Some t1"]) (use s' in simp_all)
  next
    case True
    with R have "sai_mirror_remove_mirror_per_port E port ids dir ?s w1 = (ret, s', w')" by simp
    from this _ ok2 dt show thesis
    proof (rule remove_per_port_effect)
      fix t2 s3 X assume x: "shrunk E port ids dir t1 ?s t2 s3" "X = None \<and> t2 = [] \<or> X = Some t2"
        "s' = s3\<lparr>mirror_per_port := (mirror_per_port ?s)(port := X)\<rparr>"
        "ret = SAI_STATUS_SUCCESS \<Longrightarrow> \<forall>sid. (sid, dir) \<in> set t2 \<longrightarrow> sid \<in> set ids"
      show thesis
      proof (rule that [OF g refl x(1) _ x(2)])
        show "s' = s3\<lparr>mirror_per_port := (mirror_per_port s)(port := X)\<rparr>" using x(3) by simp
        assume "ret = SAI_STATUS_SUCCESS"
        with x(4) e True show "set t1 = set t \<union> {(sid, dir) |sid. sid \<in> set ids}
          \<and> (\<forall>sid. session_sources s1 sid =
               (if sid \<in> set ids then insert (port, dir) (session_sources s sid) else session_sources s sid))
          \<and> (\<forall>sid. (sid, dir) \<in> set t2 \<longrightarrow> sid \<in> set ids)" by blast
      qed
    qed simp
  qed
qed

text \<open>What every call for a port keeps, whatever its outcome.\<close>

definition port_frame ::
  "('w, 'z) mirror_env_scheme \<Rightarrow> sai_object_id_t \<Rightarrow> sai_mirror_direction_t \<Rightarrow> mirror_state \<Rightarrow> mirror_state \<Rightarrow> bool" where
  "port_frame E port dir s s' \<longleftrightarrow> mirror_inv E s' \<and> session_data s' = session_data s
     \<and> mirror_lock_depth s' = mirror_lock_depth s
     \<and> (\<forall>q. q \<noteq> port \<longrightarrow> port_sessions s' q = port_sessions s q)
     \<and> (\<forall>sid. session_sources s' sid - {(port, dir)} = session_sources s sid - {(port, dir)})
     \<and> (\<forall>sid d. d \<noteq> dir \<longrightarrow> ((sid, d) \<in> port_sessions s' port \<longleftrightarrow> (sid, d) \<in> port_sessions s port))
     \<and> (\<forall>sid. mirror_lost s sid port dir \<longrightarrow> mirror_lost s' sid port dir)"

lemma handle_port_effect:
  assumes run: "sai_mirror_handle_per_port E port l dir s w = (ret, s', w')" and l: "session_list l = Some ids"
    and I: "mirror_inv E s" and L: "mirror_laws E"
  shows "port_frame E port dir s s'"
    and "ret = SAI_STATUS_SUCCESS \<Longrightarrow>
      (\<forall>sid. ((sid, dir) \<in> port_sessions s' port \<longleftrightarrow> sid \<in> set ids)
         \<and> session_sources s' sid =
             (if sid \<in> set ids then insert (port, dir) (session_sources s sid)
              else if (sid, dir) \<in> port_sessions s port then session_sources s sid - {(port, dir)}
              else session_sources s sid)
         \<and> (sid \<in> set ids \<longrightarrow> \<not> mirror_lost s sid port dir))"
proof -
  define t where "t = (case mirror_per_port s port of None \<Rightarrow> [] | Some t \<Rightarrow> t)"
  have st: "set t = port_sessions s port"
    by (cases "mirror_per_port s port") (simp_all add: t_def port_sessions_def)
  have pt: "port_tree_ok s port t"
    using mirror_invD(2) [OF I, of port] by (simp add: t_def split: option.split)
  have early: "ret \<noteq> SAI_STATUS_SUCCESS \<and> s' = s \<or> (\<exists>w1. mirror_handle_tree E port l dir t s w1 = (ret, s', w'))"
    using run unfolding sai_mirror_handle_per_port_def t_def
    by (auto split: prod.splits if_splits option.splits)
  have "port_frame E port dir s s' \<and> (ret = SAI_STATUS_SUCCESS \<longrightarrow>
      (\<forall>sid. ((sid, dir) \<in> port_sessions s' port \<longleftrightarrow> sid \<in> set ids)
         \<and> session_sources s' sid =
             (if sid \<in> set ids then insert (port, dir) (session_sources s sid)
              else if (sid, dir) \<in> port_sessions s port then session_sources s sid - {(port, dir)}
              else session_sources s sid)
         \<and> (sid \<in> set ids \<longrightarrow> \<not> mirror_lost s sid port dir)))"
    using early
  proof
    assume "ret \<noteq> SAI_STATUS_SUCCESS \<and> s' = s"
    then show ?thesis using I by (simp add: port_frame_def)
  next
    assume "\<exists>w1. mirror_handle_tree E port l dir t s w1 = (ret, s', w')"
    then obtain w1 where h: "mirror_handle_tree E port l dir t s w1 = (ret, s', w')" by blast
    from h l mirror_invD(1) [OF I] L pt show ?thesis
    proof (rule handle_tree_effect)
      fix t1 s1 s2 t2 s3 X
      assume g: "grown E port dir t s t1 s1" and s2: "s2 = s1\<lparr>mirror_per_port := (mirror_per_port s)(port := Some t1)\<rparr>"
        and k: "shrunk E port ids dir t1 s2 t2 s3" and s': "s' = s3\<lparr>mirror_per_port := (mirror_per_port s)(port := X)\<rparr>"
        and X: "X = None \<and> t2 = [] \<or> X = Some t2"
        and suc: "ret = SAI_STATUS_SUCCESS \<Longrightarrow> set t1 = set t \<union> {(sid, dir) |sid. sid \<in> set ids}
          \<and> (\<forall>sid. session_sources s1 sid =
               (if sid \<in> set ids then insert (port, dir) (session_sources s sid) else session_sources s sid))
          \<and> (\<forall>sid. (sid, dir) \<in> set t2 \<longrightarrow> sid \<in> set ids)"
      have c2: "session_sources s2 = session_sources s1" "session_data s2 = session_data s1"
        "port_tree_ok s2 = port_tree_ok s1" "mirror_lock_depth s2 = mirror_lock_depth s1"
        using mirror_abs_cong [of s2 s1] by (auto simp: s2 intro!: ext)
      have c': "session_sources s' = session_sources s3" "session_data s' = session_data s3"
        "port_tree_ok s' = port_tree_ok s3" "mirror_ok E s' = mirror_ok E s3" "mirror_lock_depth s' = mirror_lock_depth s3"
        using mirror_abs_cong [of s' s3] by (auto simp: s' intro!: ext)
      have ps: "port_sessions s' q = (if q = port then set t2 else port_sessions s q)" for q
        using X by (auto simp: s' port_sessions_def)
      have src: "session_sources s' sid = (if (sid, dir) \<in> set t1 \<and> (sid, dir) \<notin> set t2
          then session_sources s1 sid - {(port, dir)} else session_sources s1 sid)" for sid
        by (simp add: c'(1) c2(1) shrunkD(8) [OF k])
      have rest: "session_sources s' sid - {(port, dir)} = session_sources s sid - {(port, dir)}" for sid
        using grownD(7,8) [OF g, of sid] by (auto simp: src split: if_splits)
      have t2: "port_tree_ok s' port t2"
        using shrunk_port_tree [OF k] grownD(5) [OF g] c2(3) c'(3) by simp
      have inv: "mirror_inv E s'" unfolding mirror_inv_def
      proof (intro conjI allI impI)
        show "mirror_ok E s'" using shrunkD(1) [OF k] c'(4) by simp
        fix q u assume u: "mirror_per_port s' q = Some u"
        show "port_tree_ok s' q u"
        proof (cases "q = port")
          case True
          with u X t2 show ?thesis by (auto simp: s')
        next
          case False
          with u have "port_tree_ok s q u" using mirror_invD(2) [OF I] by (simp add: s')
          moreover have "(q, d) \<in> session_sources s' sid \<longleftrightarrow> (q, d) \<in> session_sources s sid" for sid d
            using rest [of sid] False by blast
          ultimately show ?thesis by (simp add: port_tree_ok_def)
        qed
      qed
      have other: "(sid, d) \<in> set t2 \<longleftrightarrow> (sid, d) \<in> set t" if "d \<noteq> dir" for sid d
        using that grownD(6) [OF g] grownD(9) [OF g, of sid d] shrunkD(6) [OF k] shrunkD(7) [OF k, of sid d] by blast
      have lost: "mirror_lost s' sid port dir \<and> (sid, dir) \<notin> set t1" if "mirror_lost s sid port dir" for sid
      proof -
        have a: "(port, dir) \<in> session_sources s sid" "(sid, dir) \<notin> set t"
          using that st by (simp_all add: mirror_lost_def)
        with grownD(9) [OF g, of sid dir] have n: "(sid, dir) \<notin> set t1" by blast
        with a grownD(7) [OF g, of sid] shrunkD(6) [OF k] show ?thesis by (auto simp: mirror_lost_def src ps)
      qed
      have "port_frame E port dir s s'" unfolding port_frame_def
        using inv rest other lost ps st shrunkD(2,4) [OF k] grownD(2,4) [OF g] c2 c' by simp
      moreover have "((sid, dir) \<in> port_sessions s' port \<longleftrightarrow> sid \<in> set ids)
         \<and> session_sources s' sid =
             (if sid \<in> set ids then insert (port, dir) (session_sources s sid)
              else if (sid, dir) \<in> port_sessions s port then session_sources s sid - {(port, dir)}
              else session_sources s sid)
         \<and> (sid \<in> set ids \<longrightarrow> \<not> mirror_lost s sid port dir)" if "ret = SAI_STATUS_SUCCESS" for sid
      proof -
        note suc = suc [OF that]
        have i1: "(sid, dir) \<in> set t1 \<longleftrightarrow> (sid, dir) \<in> set t \<or> sid \<in> set ids" using suc by auto
        have i2: "(sid, dir) \<in> set t2 \<longleftrightarrow> sid \<in> set ids"
          using suc i1 shrunkD(7) [OF k, of sid dir] by blast
        show ?thesis using suc i1 i2 lost [of sid] st by (auto simp: ps src)
      qed
      ultimately show ?thesis by blast
    qed
  qed
  then show "port_frame E port dir s s'" and "ret = SAI_STATUS_SUCCESS \<Longrightarrow>
      (\<forall>sid. ((sid, dir) \<in> port_sessions s' port \<longleftrightarrow> sid \<in> set ids)
         \<and> session_sources s' sid =
             (if sid \<in> set ids then insert (port, dir) (session_sources s sid)
              else if (sid, dir) \<in> port_sessions s port then session_sources s sid - {(port, dir)}
              else session_sources s sid)
         \<and> (sid \<in> set ids \<longrightarrow> \<not> mirror_lost s sid port dir))" by blast+
qed

end
