(* ===== verification/Mirror_Reach.thy ===== *)
theory Mirror_Reach
  imports Mirror_Effects
begin

text \<open>
  The effect of the calls on sessions, and the state machine of the calls of the mirroring module: the
  session API, the question whether a session is known, and the sessions of a port.  No other module adds
  or removes a source port of a session by itself.
\<close>

section \<open>Filling keeps the key and the source ports\<close>

lemma fill_erspan_keeps:
  "session_id (snd (sai_mirror_fill_erspan_attribute_params E m a i)) = session_id m
   \<and> source_ports_tree (snd (sai_mirror_fill_erspan_attribute_params E m a i)) = source_ports_tree m"
  by (cases a) (simp_all add: params_update_def)

lemma fill_keeps:
  assumes "sai_mirror_fill_attribute_params E m a i w = (st, m')"
  shows "session_id m' = session_id m \<and> source_ports_tree m' = source_ports_tree m"
proof -
  have "session_id (snd (sai_mirror_fill_attribute_params E m a i w)) = session_id m
     \<and> source_ports_tree (snd (sai_mirror_fill_attribute_params E m a i w)) = source_ports_tree m"
    by (cases a) (simp_all add: params_update_def fill_erspan_keeps Let_def
        del: sai_mirror_fill_erspan_attribute_params.simps)
  with assms show ?thesis by simp
qed

lemma parse_keeps:
  "mirror_create_parse E i as req m w = (st, req', m', w') \<Longrightarrow>
     session_id m' = session_id m \<and> source_ports_tree m' = source_ports_tree m"
proof (induction as arbitrary: i req m w)
  case (Cons a as)
  obtain st1 m1 where f: "sai_mirror_fill_attribute_params E m a i w = (st1, m1)" by fastforce
  obtain st2 w2 where v: "npu_session_attribs_validate E (session_id m1) (a # as) i w = (st2, w2)" by fastforce
  note k = fill_keeps [OF f]
  show ?case
  proof (cases "st1 = SAI_STATUS_SUCCESS \<and> st2 = SAI_STATUS_SUCCESS")
    case True
    with Cons.prems f v have "mirror_create_parse E (Suc i) as (req OR sai_attribute_bit_set E (mirror_attr_id a)) m1 w2
        = (st, req', m', w')" by (simp add: Let_def)
    from Cons.IH [OF this] k show ?thesis by simp
  next
    case False
    with Cons.prems f v k show ?thesis by (auto simp: Let_def split: if_splits)
  qed
qed simp

section \<open>Calls on sessions\<close>

lemma mirror_create_effect:
  assumes run: "sai_mirror_session_create E attrs s w = (rc, out, s', w')"
    and ok: "mirror_ok E s" and L: "mirror_laws E" and ne: "attrs \<noteq> []"
  obtains (failed) "rc \<noteq> SAI_STATUS_SUCCESS" "out = None" "s' = s"
  | (created) i req m w1 w2 where "rc = SAI_STATUS_SUCCESS" "out = Some i" "session_data s i = None"
      "sai_is_obj_id E SAI_OBJECT_TYPE_MIRROR_SESSION i"
      "mirror_create_parse E 0 attrs 0 sai_mirror_session_node_alloc w1 = (SAI_STATUS_SUCCESS, req, m, w2)"
      "\<not> sai_mirror_is_mandat_attribute_missing E req (span_type m)"
      "s' = session_write i (m\<lparr>session_id := i, source_ports_tree := Some []\<rparr>) s"
proof -
  let ?s = "sai_mirror_lock s"
  obtain h where h: "mirror_sessions_tree s = Some h" using mirror_okD(2) [OF ok] by blast
  obtain c w1 where c: "calloc_ok E w = (c, w1)" by fastforce
  obtain st req m w2 where p: "mirror_create_parse E 0 attrs 0 sai_mirror_session_node_alloc w1 = (st, req, m, w2)" by (metis prod_cases4)
  obtain st2 n w3 where n: "npu_session_create E m w2 = (st2, n, w3)" by (metis prod_cases3)
  let ?i = "sai_uoid_create E SAI_OBJECT_TYPE_MIRROR_SESSION n"
  let ?m = "m\<lparr>session_id := ?i\<rparr>"
  obtain b t w4 where ins: "std_rbtree_insert E (mirror_sessions_tree s) ?i ?m w3 = (b, t, w4)" by (metis prod_cases3)
  obtain k w5 where k: "rbtree_create_ok E w4 = (k, w5)" by fastforce
  have rd: "refuses_duplicates E" using L by (simp add: mirror_laws_def)
  have new: "rb_getexact (mirror_sessions_tree s) ?i = None" if b by (rule insert_cases(2) [OF ins rd that])
  have t: "t = (if b then rb_put (mirror_sessions_tree s) ?i ?m else mirror_sessions_tree s)" by (rule insert_cases(1) [OF ins])
  have undo: "s\<lparr>mirror_sessions_tree := rb_remove t ?i\<rparr> = s" if b
    using that rb_remove_put [OF new [OF that]] by (simp add: t)
  let ?fine = "c \<and> st = SAI_STATUS_SUCCESS \<and> \<not> sai_mirror_is_mandat_attribute_missing E req (span_type m)
      \<and> st2 = SAI_STATUS_SUCCESS \<and> b \<and> k"
  have lock: "sai_mirror_unlock (?s\<lparr>mirror_sessions_tree := x\<rparr>) = s\<lparr>mirror_sessions_tree := x\<rparr>" for x
    by (simp add: sai_mirror_lock_def sai_mirror_unlock_def)
  show thesis
  proof (cases ?fine)
    case True
    have body: "mirror_create_body E attrs ?s w1 = (SAI_STATUS_SUCCESS, Some ?i,
        session_write ?i (?m\<lparr>source_ports_tree := Some []\<rparr>) (?s\<lparr>mirror_sessions_tree := t\<rparr>), w5)"
      using True p n ins k by (simp add: mirror_create_body_def Let_def)
    have "(rc, out, s', w') = (SAI_STATUS_SUCCESS, Some ?i,
        sai_mirror_unlock (session_write ?i (?m\<lparr>source_ports_tree := Some []\<rparr>) (?s\<lparr>mirror_sessions_tree := t\<rparr>)), w5)"
      unfolding run [symmetric] sai_mirror_session_create_def using ne h c True body by simp
    moreover have "sai_mirror_unlock (session_write ?i (?m\<lparr>source_ports_tree := Some []\<rparr>) (?s\<lparr>mirror_sessions_tree := t\<rparr>))
        = session_write ?i (?m\<lparr>source_ports_tree := Some []\<rparr>) s"
      using True by (simp add: t session_write_def sai_mirror_lock_def sai_mirror_unlock_def)
    moreover have "session_data s ?i = None" using new True by (simp add: session_data_def)
    moreover have "sai_is_obj_id E SAI_OBJECT_TYPE_MIRROR_SESSION ?i" using L by (simp add: mirror_laws_def uoid_typed_def)
    ultimately show thesis using p True by (intro created [of ?i w1 req m w2]) simp_all
  next
    case False
    have "\<exists>e w''. e \<noteq> SAI_STATUS_SUCCESS \<and> (rc, out, s', w') = (e, None, s, w'')"
      unfolding run [symmetric] sai_mirror_session_create_def mirror_create_body_def
      using False ne h c p n ins k undo lock [of "rb_remove t ?i"]
      by (auto simp: Let_def t)
    then show thesis by (intro failed) auto
  qed
qed

lemma mirror_remove_effect:
  assumes run: "sai_mirror_session_remove E sid s w = (rc, s', w')" and ok: "mirror_ok E s"
  obtains (failed) "rc \<noteq> SAI_STATUS_SUCCESS" "s' = s" "session_sources s sid \<noteq> {} \<longrightarrow> rc = SAI_STATUS_OBJECT_IN_USE"
  | (removed) "rc = SAI_STATUS_SUCCESS" "session_data s sid \<noteq> None" "session_sources s sid = {}"
      "s' = s\<lparr>mirror_sessions_tree := rb_remove (mirror_sessions_tree s) sid\<rparr>"
proof (cases "rb_getexact (mirror_sessions_tree s) sid")
  case None
  obtain h where h: "mirror_sessions_tree s = Some h" using mirror_okD(2) [OF ok] by blast
  have "session_sources s sid = {}" using None by (simp add: session_sources_def)
  with run None h show thesis
    by (intro failed) (auto simp: sai_mirror_session_remove_def mirror_remove_body_def split: if_splits)
next
  case (Some m)
  obtain h where h: "mirror_sessions_tree s = Some h" using mirror_okD(2) [OF ok] by blast
  from ok Some show thesis
  proof (rule mirror_okE)
    fix t assume m: "session_id m = sid" "sai_is_obj_id E SAI_OBJECT_TYPE_MIRROR_SESSION sid"
      "source_ports_tree m = Some t" "session_sources s sid = set t"
    obtain e w1 where d: "npu_session_destroy E sid w = (e, w1)" by fastforce
    have lock: "sai_mirror_unlock ((sai_mirror_lock s)\<lparr>mirror_sessions_tree := x\<rparr>) = s\<lparr>mirror_sessions_tree := x\<rparr>" for x
      by (simp add: sai_mirror_lock_def sai_mirror_unlock_def)
    have R: "(rc, s', w') = (if t \<noteq> [] then (SAI_STATUS_OBJECT_IN_USE, s, w)
        else if e \<noteq> SAI_STATUS_SUCCESS then (e, s, w1)
        else (SAI_STATUS_SUCCESS, s\<lparr>mirror_sessions_tree := rb_remove (mirror_sessions_tree s) sid\<rparr>, w1))"
      unfolding run [symmetric] sai_mirror_session_remove_def mirror_remove_body_def
      using m h Some d lock by simp
    show thesis
    proof (cases "t = [] \<and> e = SAI_STATUS_SUCCESS")
      case True
      with R m Some show thesis by (intro removed) (simp_all add: session_data_def)
    next
      case False
      with R m show thesis by (intro failed) (auto split: if_splits)
    qed
  qed
qed

lemma mirror_set_effect:
  assumes run: "sai_mirror_session_attribute_set E sid a s w = (rc, s', w')"
  obtains (unchanged) "s' = s"
  | (changed) m m' st where "rb_getexact (mirror_sessions_tree s) sid = Some m"
      "sai_mirror_fill_attribute_params E m a 0 w = (st, m')" "s' = session_write sid m' s"
      "rc = SAI_STATUS_SUCCESS \<or> rc = st \<and> st \<noteq> SAI_STATUS_SUCCESS"
proof (cases "sai_is_obj_id E SAI_OBJECT_TYPE_MIRROR_SESSION sid \<and> rb_getexact (mirror_sessions_tree s) sid \<noteq> None")
  case False
  with run show thesis
    by (intro unchanged) (auto simp: sai_mirror_session_attribute_set_def mirror_set_body_def split: if_splits)
next
  case True
  then obtain m where ty: "sai_is_obj_id E SAI_OBJECT_TYPE_MIRROR_SESSION sid"
    and m: "rb_getexact (mirror_sessions_tree s) sid = Some m" by blast
  obtain st m' where f: "sai_mirror_fill_attribute_params E m a 0 w = (st, m')" by fastforce
  obtain e w1 where n: "npu_session_set E sid (span_type m') a w = (e, w1)" by fastforce
  have undo: "session_write sid m (session_write sid m' s) = s"
    using rb_put_same [OF m] by (simp add: session_write_def)
  have lock: "sai_mirror_unlock (session_write sid m (session_write sid m' (sai_mirror_lock s))) = s"
    using rb_put_same [OF m] by (simp add: session_write_def sai_mirror_lock_def sai_mirror_unlock_def)
  have R: "(rc, s', w') = (if st \<noteq> SAI_STATUS_SUCCESS then (st, session_write sid m' s, w)
      else if e \<noteq> SAI_STATUS_SUCCESS then (e, s, w1) else (e, session_write sid m' s, w1))"
    unfolding run [symmetric] sai_mirror_session_attribute_set_def mirror_set_body_def
    using ty m f n lock by simp
  show thesis
  proof (cases "st = SAI_STATUS_SUCCESS \<and> e \<noteq> SAI_STATUS_SUCCESS")
    case True
    with R show thesis by (intro unchanged) simp
  next
    case False
    with R m f show thesis by (intro changed [of m st m']) (auto split: if_splits)
  qed
qed

text \<open>A call on a session changes neither the source ports of a session nor the sessions of a port.\<close>

definition session_frame :: "('w, 'z) mirror_env_scheme \<Rightarrow> mirror_state \<Rightarrow> mirror_state \<Rightarrow> bool" where
  "session_frame E s s' \<longleftrightarrow> mirror_ok E s' \<and> session_sources s' = session_sources s
     \<and> mirror_per_port s' = mirror_per_port s"

lemma session_frame_refl: "mirror_ok E s \<Longrightarrow> session_frame E s s"
  by (simp add: session_frame_def)

lemma session_frame_write:
  assumes ok: "mirror_ok E s" "session_ok E i m" and t: "tree_set (source_ports_tree m) = session_sources s i"
  shows "session_frame E s (session_write i m s)"
proof -
  have h: "mirror_sessions_tree s \<noteq> None" using ok(1) by (simp add: mirror_ok_def)
  have "session_sources (session_write i m s) = session_sources s"
    using h t by (intro ext) (simp add: session_sources_def)
  then show ?thesis using ok by (simp add: session_frame_def mirror_ok_def)
qed

lemma mirror_create_frame:
  assumes "sai_mirror_session_create E attrs s w = (rc, out, s', w')" and ok: "mirror_ok E s"
    and "mirror_laws E" "attrs \<noteq> []"
  shows "session_frame E s s'"
  using assms
proof (cases rule: mirror_create_effect)
  case failed
  with ok show ?thesis by (simp add: session_frame_refl)
next
  case (created i req m w1 w2)
  have "session_sources s i = {}" using created(3) by (simp add: session_data_def session_sources_def)
  then show ?thesis unfolding created(7)
    by (intro session_frame_write ok) (simp_all add: session_ok_def created(4))
qed

lemma mirror_remove_frame:
  assumes "sai_mirror_session_remove E sid s w = (rc, s', w')" and ok: "mirror_ok E s"
  shows "session_frame E s s'"
  using assms
proof (cases rule: mirror_remove_effect)
  case failed
  with ok show ?thesis by (simp add: session_frame_refl)
next
  case removed
  have "session_sources s' = session_sources s"
  proof
    fix i show "session_sources s' i = session_sources s i"
      using removed(3) by (cases "i = sid") (simp_all add: removed(4) session_sources_def)
  qed
  with ok removed(4) show ?thesis by (auto simp: session_frame_def mirror_ok_def split: if_splits)
qed

lemma mirror_set_frame:
  assumes "sai_mirror_session_attribute_set E sid a s w = (rc, s', w')" and ok: "mirror_ok E s"
  shows "session_frame E s s'"
  using assms(1)
proof (cases rule: mirror_set_effect)
  case unchanged
  with ok show ?thesis by (simp add: session_frame_refl)
next
  case (changed m m' st)
  have "session_ok E sid m" using ok changed(1) by (simp add: mirror_ok_def)
  with fill_keeps [OF changed(2)] have "session_ok E sid m'" by (simp add: session_ok_def)
  then show ?thesis unfolding changed(3)
    by (intro session_frame_write ok) (simp_all add: session_sources_def changed(1) fill_keeps [OF changed(2)])
qed

lemma mirror_get_frame:
  assumes "sai_mirror_session_attribute_get E sid as s w = (rc, as', s', w')" "as \<noteq> []" and ok: "mirror_ok E s"
  shows "session_frame E s s'"
proof -
  have "s' = s" using assms(1,2) by (auto simp: sai_mirror_session_attribute_get_def Let_def split: if_splits prod.splits)
  with ok show ?thesis by (simp add: session_frame_refl)
qed

lemma mirror_valid_effect:
  "sai_mirror_is_valid_mirror_session sid s = (session_data s sid \<noteq> None,
     if session_data s sid \<noteq> None then s else sai_mirror_lock s)"
  by (cases "rb_getexact (mirror_sessions_tree s) sid")
    (simp_all add: sai_mirror_is_valid_mirror_session_def session_data_def Let_def)

lemma session_frame_lock: "mirror_ok E s \<Longrightarrow> session_frame E s (sai_mirror_lock s)"
  using mirror_abs_cong(1) [of "sai_mirror_lock s" s] mirror_abs_cong(3) [of "sai_mirror_lock s" s E] by (simp add: session_frame_def)

lemma session_frame_inv:
  assumes "session_frame E s s'" "mirror_inv E s"
  shows "mirror_inv E s'" and "mirror_lost s sid port dir \<Longrightarrow> mirror_lost s' sid port dir"
  using assms by (simp_all add: session_frame_def mirror_inv_def port_tree_ok_def mirror_lost_def port_sessions_def)

section \<open>The state machine\<close>

inductive mirror_step :: "('w, 'z) mirror_env_scheme \<Rightarrow> mirror_state \<Rightarrow> mirror_state \<Rightarrow> bool" for E where
  mstep_create: "sai_mirror_session_create E as s w = (rc, out, s', w') \<Longrightarrow> as \<noteq> [] \<Longrightarrow> mirror_step E s s'"
| mstep_remove: "sai_mirror_session_remove E sid s w = (rc, s', w') \<Longrightarrow> mirror_step E s s'"
| mstep_set: "sai_mirror_session_attribute_set E sid a s w = (rc, s', w') \<Longrightarrow> mirror_step E s s'"
| mstep_get: "sai_mirror_session_attribute_get E sid as s w = (rc, as', s', w') \<Longrightarrow> as \<noteq> [] \<Longrightarrow> mirror_step E s s'"
| mstep_known: "sai_mirror_is_valid_mirror_session sid s = (b, s') \<Longrightarrow> mirror_step E s s'"
| mstep_port: "sai_mirror_handle_per_port E port l dir s w = (rc, s', w') \<Longrightarrow> session_list l \<noteq> None \<Longrightarrow> mirror_step E s s'"

text \<open>A step is a call on sessions or a call for a port.\<close>

lemma mirror_step_cases:
  assumes "mirror_step E s s'" and I: "mirror_inv E s" and L: "mirror_laws E"
  obtains (session) "session_frame E s s'" | (port) port dir where "port_frame E port dir s s'"
  using assms(1)
proof cases
  case (mstep_create as w rc out w')
  from mirror_create_frame [OF this(1) mirror_invD(1) [OF I] L this(2)] show ?thesis by (rule session)
next
  case (mstep_remove sid w rc w')
  from mirror_remove_frame [OF this mirror_invD(1) [OF I]] show ?thesis by (rule session)
next
  case (mstep_set sid a w rc w')
  from mirror_set_frame [OF this mirror_invD(1) [OF I]] show ?thesis by (rule session)
next
  case (mstep_get sid as w rc as' w')
  from mirror_get_frame [OF this mirror_invD(1) [OF I]] show ?thesis by (rule session)
next
  case (mstep_known sid b)
  then have "s' = s \<or> s' = sai_mirror_lock s" by (auto simp: mirror_valid_effect split: if_splits)
  then show ?thesis
    using session_frame_refl [OF mirror_invD(1) [OF I]] session_frame_lock [OF mirror_invD(1) [OF I]]
    by (intro session) auto
next
  case (mstep_port port l dir w rc w')
  then obtain ids where "session_list l = Some ids" by blast
  from handle_port_effect(1) [OF mstep_port(1) this I L] show ?thesis by (rule port)
qed

definition mirror_start :: "('w, 'z) mirror_env_scheme \<Rightarrow> mirror_state \<Rightarrow> bool" where
  "mirror_start E s \<longleftrightarrow> (\<exists>s0 w w'. sai_mirror_init E s0 w = (SAI_STATUS_SUCCESS, s, w')
     \<and> mirror_per_port s0 = (\<lambda>p. None) \<and> \<not> mirror_fault s0)"

interpretation mirror: invariant_system "mirror_start E" "\<lambda>s t. mirror_laws E \<and> mirror_step E s t" "mirror_inv E" for E
proof unfold_locales
  show "mirror_inv E s" if st: "mirror_start E s" for s
  proof -
    obtain s0 w w' where 0: "sai_mirror_init E s0 w = (SAI_STATUS_SUCCESS, s, w')"
      "mirror_per_port s0 = (\<lambda>p. None)" "\<not> mirror_fault s0" using st unfolding mirror_start_def by blast
    from 0(1) have "s = s0\<lparr>mirror_lock_depth := 0, mirror_sessions_tree := Some fmempty\<rparr>"
      by (simp add: sai_mirror_init_def Let_def split: prod.splits if_splits)
    with 0(2,3) show ?thesis by (simp add: mirror_inv_def mirror_ok_def)
  qed
  show "mirror_inv E t" if I: "mirror_inv E s" and st: "mirror_laws E \<and> mirror_step E s t" for s t
    using conjunct2 [OF st] I conjunct1 [OF st]
  proof (cases rule: mirror_step_cases)
    case session
    then show ?thesis using I by (rule session_frame_inv)
  next
    case port
    then show ?thesis by (simp add: port_frame_def)
  qed
qed

definition mirror_reachable :: "('w, 'z) mirror_env_scheme \<Rightarrow> mirror_state \<Rightarrow> bool" where
  "mirror_reachable E = reach (mirror_start E) (\<lambda>s t. mirror_laws E \<and> mirror_step E s t)"

lemma mirror_reachable_invI: "mirror_reachable E s \<Longrightarrow> mirror_inv E s"
  unfolding mirror_reachable_def by (rule mirror.reach_inv)

section \<open>A lost port stays lost\<close>

lemma mirror_step_lost:
  assumes "mirror_step E s s'" "mirror_inv E s" "mirror_laws E" and l: "mirror_lost s sid port dir"
  shows "mirror_lost s' sid port dir"
  using assms(1-3)
proof (cases rule: mirror_step_cases)
  case session
  then show ?thesis using assms(2) l by (rule session_frame_inv)
next
  case (port q d)
  show ?thesis
  proof (cases "q = port \<and> d = dir")
    case True
    with port l show ?thesis by (simp add: port_frame_def)
  next
    case False
    have "(port, dir) \<in> session_sources s' sid \<longleftrightarrow> (port, dir) \<in> session_sources s sid"
      using port False unfolding port_frame_def by blast
    moreover have "(sid, dir) \<in> port_sessions s' port \<longleftrightarrow> (sid, dir) \<in> port_sessions s port"
      using port False unfolding port_frame_def by (cases "q = port") auto
    ultimately show ?thesis using l by (simp add: mirror_lost_def)
  qed
qed

lemma mirror_steps_lost:
  assumes "(\<lambda>s t. mirror_laws E \<and> mirror_step E s t)\<^sup>*\<^sup>* s t" "mirror_inv E s" "mirror_lost s sid port dir"
  shows "mirror_inv E t \<and> mirror_lost t sid port dir"
  using assms
proof (induction rule: rtranclp_induct)
  case (step t u)
  then have t: "mirror_inv E t" "mirror_lost t sid port dir" and st: "mirror_step E t u" "mirror_laws E" by auto
  from mirror_step_lost [OF st(1) t(1) st(2) t(2)] mirror.inv_step [OF t(1)] st show ?case by blast
qed simp

end
