(* ===== verification/Mirror_Claims.thy ===== *)
theory Mirror_Claims
  imports Mirror_Reach Sai_Demo
begin

text \<open>
  Properties of the mirroring module: the sessions of a port become exactly the requested ones, a
  session that a port lists cannot go away, and a port that its session knows but that does not know its
  session is stuck.
\<close>

section \<open>A concrete platform\<close>

text \<open>
  A concrete platform for the witnesses of the mirroring module, with its laws.  The world is the next
  hardware id and the number of allocations that memory lasts for; a small tree keeps its nodes in the
  order of insertion.  The first session has id 15 and is monitored at port 259; port 515 is mirrored.
\<close>

type_synonym mirror_world = "nat \<times> nat"

fun demo_attr_bit :: "mirror_attr_id_t \<Rightarrow> uint32_t" where
  "demo_attr_bit MONITOR_PORT_ID = 1"
| "demo_attr_bit TYPE_ID = 2"
| "demo_attr_bit TC_ID = 4"
| "demo_attr_bit VLAN_TPID_ID = 8"
| "demo_attr_bit VLAN_ID_ID = 16"
| "demo_attr_bit VLAN_PRI_ID = 32"
| "demo_attr_bit ENCAP_ID = 64"
| "demo_attr_bit IPHDR_ID = 128"
| "demo_attr_bit TOS_ID = 256"
| "demo_attr_bit TTL_ID = 512"
| "demo_attr_bit SRC_IP_ID = 1024"
| "demo_attr_bit DST_IP_ID = 2048"
| "demo_attr_bit SRC_MAC_ID = 4096"
| "demo_attr_bit DST_MAC_ID = 8192"
| "demo_attr_bit GRE_ID = 16384"
| "demo_attr_bit (MIRROR_UNKNOWN_ID n) = 0"

definition demo_mirror :: "mirror_world mirror_env" where
  "demo_mirror = \<lparr>
     calloc_ok = \<lambda>w. (0 < snd w, (fst w, snd w - 1)), rbtree_create_ok = \<lambda>w. (True, w),
     rbtree_insert_ok = \<lambda>b w. (\<not> b, w),
     sai_uoid_create = demo_uoid, sai_is_obj_id = demo_is_obj, sai_is_port_valid = \<lambda>w. demo_port_valid (fst w),
     sai_get_indexed_ret_val = \<lambda>st i. st, dn_sai_get_next_free_id = demo_next_id, uoid_npu_obj_id_mask = 0,
     rbtree_place = \<lambda>t k. t @ [k], sai_attribute_bit_set = demo_attr_bit,
     sai_is_valid_vlan_id = \<lambda>v. 0 < v \<and> v < 4095, sai_is_vlan_created = \<lambda>w v. v = 1,
     sai_is_lag_created = \<lambda>w i. False,
     sai_fib_is_ip_addr_zero = \<lambda>a. addr_ip4 a = 0 \<and> addr_ip6 a = 0, sai_fib_is_mac_address_zero = \<lambda>m. m = 0,
     sai_port_application_info_create_and_get = \<lambda>p w. (True, w), sai_port_application_info_remove = \<lambda>p w. w,
     npu_mirror_init = \<lambda>w. (SAI_STATUS_SUCCESS, w),
     npu_session_attribs_validate = \<lambda>i as n w. (SAI_STATUS_SUCCESS, w),
     npu_session_create = \<lambda>m w. (SAI_STATUS_SUCCESS, of_nat (fst w), (Suc (fst w), snd w)),
     npu_session_destroy = \<lambda>i w. (SAI_STATUS_SUCCESS, w),
     npu_session_port_add = \<lambda>i p d w. (SAI_STATUS_SUCCESS, w),
     npu_session_port_remove = \<lambda>i p d w. (SAI_STATUS_SUCCESS, w),
     npu_session_set = \<lambda>i t a w. (SAI_STATUS_SUCCESS, w),
     npu_session_get = \<lambda>i t as w. (SAI_STATUS_SUCCESS, as, w)\<rparr>"

lemma demo_mirror_laws: "mirror_laws demo_mirror"
  by (simp add: mirror_laws_def refuses_duplicates_def uoid_typed_def place_law_def demo_mirror_def
      demo_is_obj_uoid demo_uoid_nonzero)

section \<open>States\<close>

definition demo_mirror_none :: mirror_state where
  "demo_mirror_none = \<lparr>mirror_sessions_tree = Some fmempty, mirror_per_port = (\<lambda>p. None), mirror_lock_depth = 0,
     mirror_fault = False\<rparr>"

definition demo_session :: "mirror_tree \<Rightarrow> sai_mirror_session_info_t" where
  "demo_session t = sai_mirror_session_node_alloc
     \<lparr>session_id := 15, monitor_port := 259, source_ports_tree := Some t\<rparr>"

definition demo_mirror_state :: "mirror_tree \<Rightarrow> mirror_tree option \<Rightarrow> mirror_state" where
  "demo_mirror_state t p = \<lparr>mirror_sessions_tree = Some (fmupd 15 (demo_session t) fmempty),
     mirror_per_port = (\<lambda>q. None)(515 := p), mirror_lock_depth = 0, mirror_fault = False\<rparr>"

abbreviation demo_src :: mirror_key where "demo_src \<equiv> (515, SAI_MIRROR_DIR_INGRESS)"
abbreviation demo_node :: mirror_key where "demo_node \<equiv> (15, SAI_MIRROR_DIR_INGRESS)"

lemma demo_mirror_create:
  "sai_mirror_session_create demo_mirror
     [SAI_MIRROR_SESSION_ATTR_TYPE SAI_MIRROR_SESSION_TYPE_LOCAL, SAI_MIRROR_SESSION_ATTR_MONITOR_PORT 259]
     demo_mirror_none (0, 9)
   = (SAI_STATUS_SUCCESS, Some 15, demo_mirror_state [] None, (1, 8))"
  by (simp add: sai_mirror_session_create_def mirror_create_body_def demo_mirror_def demo_mirror_none_def
      demo_mirror_state_def demo_session_def sai_mirror_lock_def sai_mirror_unlock_def session_write_def Let_def
      sai_mirror_session_node_alloc_def demo_is_obj_def demo_port_valid_def sai_mirror_span_bitmap_def
      std_rbtree_insert_def rb_put_Some demo_uoid_def fun_upd_idem)

lemma demo_mirror_handle:
  "sai_mirror_handle_per_port demo_mirror 515 \<lparr>sl_count = 1, sl_list = Some [15]\<rparr> SAI_MIRROR_DIR_INGRESS
     (demo_mirror_state [] None) (1, 2)
   = (SAI_STATUS_SUCCESS, demo_mirror_state [demo_src] (Some [demo_node]), (1, 0))"
  "sai_mirror_handle_per_port demo_mirror 515 \<lparr>sl_count = 1, sl_list = Some [15]\<rparr> SAI_MIRROR_DIR_INGRESS
     (demo_mirror_state [] None) (1, 1)
   = (SAI_STATUS_NO_MEMORY, demo_mirror_state [demo_src] (Some []), (1, 0))"
  by (simp_all add: sai_mirror_handle_per_port_def mirror_handle_tree_def session_list_def list_arg_def
      sai_mirror_session_port_add_def session_port_add_body_def demo_mirror_def demo_mirror_state_def
      demo_session_def sai_mirror_lock_def sai_mirror_unlock_def session_write_def Let_def demo_is_obj_def
      demo_port_valid_def rb_put_def rb_getexact_def sai_mirror_remove_mirror_per_port_def)

section \<open>Reachability\<close>

lemma demo_mirror_reachable:
  "mirror_reachable demo_mirror (demo_mirror_state [] None)"
  "mirror_reachable demo_mirror (demo_mirror_state [demo_src] (Some [demo_node]))"
  "mirror_reachable demo_mirror (demo_mirror_state [demo_src] (Some []))"
proof -
  have "sai_mirror_init demo_mirror demo_mirror_none (0, 9) = (SAI_STATUS_SUCCESS, demo_mirror_none, (0, 9))"
    by (simp add: sai_mirror_init_def demo_mirror_def demo_mirror_none_def)
  moreover have "mirror_per_port demo_mirror_none = (\<lambda>p. None)" "\<not> mirror_fault demo_mirror_none"
    by (simp_all add: demo_mirror_none_def)
  ultimately have "mirror_start demo_mirror demo_mirror_none" unfolding mirror_start_def by blast
  then have 0: "mirror_reachable demo_mirror demo_mirror_none"
    unfolding mirror_reachable_def by (rule reach_start)
  have step: "mirror_reachable demo_mirror t" if "mirror_reachable demo_mirror s" "mirror_step demo_mirror s t" for s t
    using reach_step [OF that(1) [unfolded mirror_reachable_def]] that(2) demo_mirror_laws
    by (simp add: mirror_reachable_def)
  have ne: "session_list \<lparr>sl_count = 1, sl_list = Some [15]\<rparr> \<noteq> None"
    by (simp add: session_list_def list_arg_def)
  show 1: "mirror_reachable demo_mirror (demo_mirror_state [] None)"
    by (rule step [OF 0 mstep_create [OF demo_mirror_create]]) simp
  show "mirror_reachable demo_mirror (demo_mirror_state [demo_src] (Some [demo_node]))"
    by (rule step [OF 1 mstep_port [OF demo_mirror_handle(1) ne]])
  show "mirror_reachable demo_mirror (demo_mirror_state [demo_src] (Some []))"
    by (rule step [OF 1 mstep_port [OF demo_mirror_handle(2) ne]])
qed

lemma demo_mirror_sets:
  "port_sessions (demo_mirror_state t p) q = (if q = 515 then tree_set p else {})"
  "session_sources (demo_mirror_state t p) i = (if i = 15 then set t else {})"
  by (simp_all add: demo_mirror_state_def port_sessions_def session_sources_def rb_getexact_def demo_session_def)

text \<open>C17. When setting the sessions of a port in one direction succeeds, the port lists exactly the
  requested sessions in that direction, and what it lists in the other direction and what other ports
  list is as before; a requested session has the port as a source, a session that the port listed and
  that is not requested has it no more, every other source of every session stays, and no session is
  changed otherwise.\<close>

theorem mirror_port_set_exact:
  assumes "mirror_reachable E s" "mirror_laws E" "session_list l = Some ids"
    "sai_mirror_handle_per_port E port l dir s w = (SAI_STATUS_SUCCESS, s', w')"
  shows "(\<forall>q sid d. (sid, d) \<in> port_sessions s' q \<longleftrightarrow>
        (if q = port \<and> d = dir then sid \<in> set ids else (sid, d) \<in> port_sessions s q))
    \<and> (\<forall>sid. session_sources s' sid =
        (if sid \<in> set ids then insert (port, dir) (session_sources s sid)
         else if (sid, dir) \<in> port_sessions s port then session_sources s sid - {(port, dir)}
         else session_sources s sid))
    \<and> session_data s' = session_data s \<and> mirror_lock_depth s' = mirror_lock_depth s"
proof -
  note I = mirror_reachable_invI [OF assms(1)]
  note f = handle_port_effect(1) [OF assms(4,3) I assms(2)]
  note r = handle_port_effect(2) [OF assms(4,3) I assms(2) refl]
  have "(sid, d) \<in> port_sessions s' q \<longleftrightarrow>
      (if q = port \<and> d = dir then sid \<in> set ids else (sid, d) \<in> port_sessions s q)" for q sid d
    using f r by (cases "q = port") (auto simp: port_frame_def)
  with f r show ?thesis by (simp add: port_frame_def)
qed

theorem mirror_port_set_exact_witness:
  "port_sessions (demo_mirror_state [demo_src] (Some [demo_node])) 515 = {demo_node}"
proof -
  have l: "session_list \<lparr>sl_count = 1, sl_list = Some [15]\<rparr> = Some [15]"
    by (simp add: session_list_def list_arg_def)
  from mirror_port_set_exact [OF demo_mirror_reachable(1) demo_mirror_laws l demo_mirror_handle(1)]
  have "(sid, d) \<in> port_sessions (demo_mirror_state [demo_src] (Some [demo_node])) 515 \<longleftrightarrow>
      (if d = SAI_MIRROR_DIR_INGRESS then sid \<in> {15} else (sid, d) \<in> port_sessions (demo_mirror_state [] None) 515)" for sid d
    by simp
  then show ?thesis by (auto simp: demo_mirror_sets split: if_splits)
qed

text \<open>C8. In every reachable state a session that a port lists is a known session that has the port as a
  source, listed once, and its removal is refused as in use with nothing changed.\<close>

theorem mirror_listed_session_kept:
  assumes "mirror_reachable E s" "(sid, dir) \<in> port_sessions s port"
    "sai_mirror_session_remove E sid s w = (rc, s', w')"
  shows "session_data s sid \<noteq> None \<and> (port, dir) \<in> session_sources s sid
    \<and> (\<forall>t. mirror_per_port s port = Some t \<longrightarrow> distinct t)
    \<and> rc = SAI_STATUS_OBJECT_IN_USE \<and> s' = s \<and> \<not> mirror_fault s"
proof -
  note I = mirror_reachable_invI [OF assms(1)]
  have t: "port_tree_ok s port t" if "mirror_per_port s port = Some t" for t by (rule mirror_invD(2) [OF I that])
  have src: "(port, dir) \<in> session_sources s sid"
    using assms(2) t by (cases "mirror_per_port s port") (auto simp: port_sessions_def port_tree_ok_def)
  then have "session_data s sid \<noteq> None" by (auto simp: session_sources_def session_data_def split: option.splits)
  moreover have "rc = SAI_STATUS_OBJECT_IN_USE \<and> s' = s"
    by (rule mirror_remove_effect [OF assms(3) mirror_invD(1) [OF I]]) (use src in auto)
  ultimately show ?thesis using src t mirror_okD(1) [OF mirror_invD(1) [OF I]] by (simp add: port_tree_ok_def)
qed

theorem mirror_listed_session_kept_witness:
  "\<not> mirror_fault (demo_mirror_state [demo_src] (Some [demo_node]))"
proof -
  obtain rc s' w' where r: "sai_mirror_session_remove demo_mirror 15 (demo_mirror_state [demo_src] (Some [demo_node])) (1, 0)
      = (rc, s', w')" by (metis prod_cases3)
  have "demo_node \<in> port_sessions (demo_mirror_state [demo_src] (Some [demo_node])) 515" by (simp add: demo_mirror_sets)
  from mirror_listed_session_kept [OF demo_mirror_reachable(2) this r] show ?thesis by blast
qed

text \<open>C26. When a port is a source of a session that the port does not list, no sequence of calls mends
  it: from then on the session cannot be removed, and setting the sessions of the port in that direction
  to a list that has the session never succeeds.  Running out of memory for the second of the two nodes
  of a new source leaves a port in this state.\<close>

theorem mirror_lost_port_stuck:
  assumes "mirror_reachable E s" "mirror_laws E" "mirror_lost s sid port dir"
    "(\<lambda>s t. mirror_laws E \<and> mirror_step E s t)\<^sup>*\<^sup>* s t"
  shows "mirror_lost t sid port dir
    \<and> (\<forall>w. fst (sai_mirror_session_remove E sid t w) = SAI_STATUS_OBJECT_IN_USE)
    \<and> (\<forall>l ids w. session_list l = Some ids \<and> sid \<in> set ids \<longrightarrow>
         fst (sai_mirror_handle_per_port E port l dir t w) \<noteq> SAI_STATUS_SUCCESS)"
proof (intro conjI allI impI)
  have t: "mirror_inv E t" "mirror_lost t sid port dir"
    using mirror_steps_lost [OF assms(4) mirror_reachable_invI [OF assms(1)] assms(3)] by simp_all
  show "mirror_lost t sid port dir" by (rule t(2))
  fix w
  obtain rc t' w' where r: "sai_mirror_session_remove E sid t w = (rc, t', w')" by (metis prod_cases3)
  have "rc = SAI_STATUS_OBJECT_IN_USE"
    by (rule mirror_remove_effect [OF r mirror_invD(1) [OF t(1)]]) (use t(2) in \<open>auto simp: mirror_lost_def\<close>)
  with r show "fst (sai_mirror_session_remove E sid t w) = SAI_STATUS_OBJECT_IN_USE" by simp
  fix l ids assume l: "session_list l = Some ids \<and> sid \<in> set ids"
  obtain rc t' w' where r: "sai_mirror_handle_per_port E port l dir t w = (rc, t', w')" by (metis prod_cases3)
  have "rc \<noteq> SAI_STATUS_SUCCESS"
    using handle_port_effect(2) [OF r conjunct1 [OF l] t(1) assms(2)] l t(2) by blast
  with r show "fst (sai_mirror_handle_per_port E port l dir t w) \<noteq> SAI_STATUS_SUCCESS" by simp
qed

theorem mirror_lost_port_stuck_witness:
  "sai_mirror_handle_per_port demo_mirror 515 \<lparr>sl_count = 1, sl_list = Some [15]\<rparr> SAI_MIRROR_DIR_INGRESS
     (demo_mirror_state [] None) (1, 1)
   = (SAI_STATUS_NO_MEMORY, demo_mirror_state [demo_src] (Some []), (1, 0))
   \<and> fst (sai_mirror_session_remove demo_mirror 15 (demo_mirror_state [demo_src] (Some [])) (1, 9))
     = SAI_STATUS_OBJECT_IN_USE"
proof -
  have "mirror_lost (demo_mirror_state [demo_src] (Some [])) 15 515 SAI_MIRROR_DIR_INGRESS"
    by (simp add: mirror_lost_def demo_mirror_sets)
  from mirror_lost_port_stuck [OF demo_mirror_reachable(3) demo_mirror_laws this rtranclp.rtrancl_refl]
  show ?thesis using demo_mirror_handle(2) by blast
qed

end
