(* ===== verification/Spec2Isabelle.thy ===== *)
theory Spec2Isabelle
  imports Stp_Attributes Vlan_Attributes Lag_Objects Fib_Lpm_Claims Fib_Errors Nhg_Members
    Udf_Claims Hash_Claims Mirror_Claims
begin

text \<open>
  opx-sai-common: the hardware independent half of the OpenSwitch implementation of the switch
  abstraction interface (SAI).  Each component keeps a cache of the objects that the user has
  created, validates the attributes of a call, asks a plug-in (the "NPU API") to program the
  hardware, and updates the cache when the plug-in agrees.  This development models eight of the
  components, and part of two more, and proves what keeps their caches right.

  \<^bold>\<open>Parts and theories.\<close>

  \<^item> \<open>Sai_Prelude\<close>: object ids and counters at their width, status codes, attributes errors with
    their index, the libraries outside this repository (\<open>platform\<close>), red-black trees.
    \<open>Sai_Loops\<close>: the attribute loops that all components have, and sequences of calls, as locales
    (\<open>attribute_loop\<close>, \<open>attribute_parse\<close>, \<open>invariant_system\<close>, \<open>call_refinement\<close>).
    \<open>Sai_Demo\<close>: a concrete platform for the witnesses.
  \<^item> Spanning tree, \<open>src/switching/sai_stp.c\<close> and \<open>sai_stp_utils.c\<close>: \<open>Stp_Model\<close> (instances, the
    VLAN map, the initialisation) and \<open>Stp_Ports\<close> (STP ports, the cache update after a plug-in
    event).  \<open>Stp_Props\<close> and \<open>Stp_Inv\<close> give the effect of each operation and the invariant of the
    cache, \<open>Stp_Reach\<close> the state machine, \<open>Stp_Service\<close> the contract that the VLAN component relies
    on (locale \<open>vlan_stp_service\<close>, interpreted on the model), \<open>Stp_Theorems\<close>, \<open>Stp_Claims\<close>,
    \<open>Stp_Transactions\<close> and \<open>Stp_Attributes\<close> the properties C1 to C6 and C9.
  \<^item> VLANs and their members, \<open>src/switching/sai_vlan.c\<close>: \<open>Vlan_Model\<close>, \<open>Vlan_Members\<close>; \<open>Vlan_Props\<close>,
    \<open>Vlan_Reach\<close>.  A VLAN call attaches and detaches VLANs of spanning-tree instances, so the
    state of this component contains the one of the spanning tree.  The state machine of \<open>Vlan_Reach\<close>
    starts with the boot of the switch (\<open>sai_vlan_init\<close>, then \<open>sai_stp_init\<close>) and has the calls on VLANs
    and members, those of the spanning-tree API (\<open>stp_api_step\<close>) and port events as steps.  Properties C12
    to C14 in \<open>Vlan_Claims\<close>, C16 (creation with further attributes) and C19 (with the id alone) in
    \<open>Vlan_Calls\<close>; \<open>Vlan_Attributes\<close> has what the attribute and member calls do.
  \<^item> Link aggregation, \<open>src/switching/sai_lag.c\<close>: \<open>Lag_Model\<close>; \<open>Lag_Props\<close>, \<open>Lag_Reach\<close>;
    properties C23, C24 and C28 in \<open>Lag_Claims\<close>, \<open>Lag_Objects\<close>.
  \<^item> Routing, \<open>src/routing\<close>: \<open>Fib_Radix\<close> (lookups of the radix tree library), \<open>Fib_Model\<close> (route,
    next hop, group and virtual router nodes and the memory they live in; the accessors and
    constants of \<open>sai_l3_api_utils.h\<close>), \<open>Fib_Encap\<close> (\<open>sai_l3_encap_next_hop.c\<close>: tunnel next hops that
    are resolved over routes), \<open>Fib_Route\<close> (\<open>sai_l3_route.c\<close>), \<open>Fib_Vrf\<close> (\<open>sai_l3_vrf.c\<close>).
    The route calls keep four structures in step: the radix tree of a virtual router, the route
    nodes, the reference counts of next hops and groups, and the lists through which encap next
    hops and routes find each other.  \<open>Fib_Core\<close> shows that the encap functions leave the first three
    alone; \<open>Fib_Table\<close> defines well-formed trees (\<open>fib_wf\<close>) and the table of routes they stand for
    (\<open>route_table\<close>); \<open>Fib_Effects\<close> and \<open>Fib_Calls\<close> give the effect of every route call as elimination
    rules, \<open>Fib_Vr_Calls\<close> those of the virtual router calls; \<open>Fib_Refine\<close> has the specification of the
    route calls (\<open>route_spec\<close>) and interprets \<open>call_refinement\<close> on them; \<open>Fib_Refs\<close>, \<open>Fib_Inv\<close> and
    \<open>Fib_Vr_Inv\<close> show that every call keeps the trees, nodes and reference counts in step,
    \<open>Fib_Reach\<close> the state machine; \<open>Fib_Demo\<close> is a concrete platform; properties C31 to C33 are in
    \<open>Fib_Claims\<close>.
  \<^item> Resolution of tunnel next hops over routes: \<open>Fib_Links\<close> (the two lists through which routes and
    next hops find each other), \<open>Fib_Lpm\<close> (the longest matching route as a direct definition, and the
    loop over the less specific routes), \<open>Fib_Lpm_Calls\<close> (every route call keeps each next hop at its
    best match); properties C34 and C35 in \<open>Fib_Lpm_Claims\<close>.  \<open>Fib_Errors\<close>: what two failing calls
    leave behind, C36 and C37, and which calls out of the component they make (\<open>memory_calls\<close>).
  \<^item> Next hop groups, \<open>sai_l3_next_hop_group.c\<close> and \<open>sai_l3_next_hop_group_utl.c\<close>: \<open>Nhg_Model\<close>
    (weighted links, lists of next hops, parsing), \<open>Nhg_Calls\<close> (the calls of groups and members).
    A group lists its next hops and a next hop its groups; the state of routing is shared, and the
    map of members is a second part of the state.  \<open>Nhg_Links\<close> (weighted lists), \<open>Nhg_Inv\<close> (links mirror
    each other; a next hop joins and leaves), \<open>Nhg_Effects\<close> (the calls do exactly that), \<open>Nhg_Frame\<close> (the
    calls of virtual routers and routes leave links alone), \<open>Nhg_Reach\<close> (creation, removal, and the
    state machine of all calls of the routing directory together);
    properties C18, C25, C38, C39 and C40 in \<open>Nhg_Claims\<close> and \<open>Nhg_Members\<close>.
  \<^item> User defined fields, \<open>src/udf\<close> and \<open>sai_udf_api_utils.h\<close>: \<open>Udf_Model\<close> (\<open>sai_udf_group.c\<close>,
    \<open>sai_udf_utils.c\<close>: groups, attribute tables, start and end of the module) and \<open>Udf_Calls\<close> (\<open>sai_udf.c\<close>:
    fields and matches).  A group lists its fields by address and a field points to its group and to
    the byte array of its mask, so nodes and masks live in stores and \<open>udf_fault\<close> notes a misuse.
    \<open>Udf_Inv\<close> (groups, lists, masks and trees agree), \<open>Udf_Effects\<close>, \<open>Udf_Objects\<close> and \<open>Udf_Reach\<close> (what
    each call does, the state machine), \<open>Udf_Demo\<close>; properties C10, C21, C27 and C29 in \<open>Udf_Claims\<close>.
  \<^item> Hash objects, \<open>src/hash/sai_hash_obj.c\<close> and \<open>sai_hash_api_utils.h\<close>: \<open>Hash_Model\<close> (nodes, attributes),
    \<open>Hash_Calls\<close> (creation, removal, setting with its hardware loops, the switch attributes that select
    an object, start and end of the module).  A hash object lists UDF groups, which it checks with the UDF
    module, so the state of this component contains that of the other.  \<open>Hash_Inv\<close> (reference
    counts), \<open>Hash_Effects\<close>, \<open>Hash_Reach\<close> (what each call does), \<open>Hash_State\<close> (initialisation and the state
    machine of both modules), \<open>Hash_Hw\<close> (the lists that the plug-in accepted last, against those of the objects);
    properties C7, C11, C15, C20, C22 and C30 in \<open>Hash_Claims\<close>.
  \<^item> Mirroring, \<open>src/mirroring/sai_mirror_common.c\<close>, \<open>sai_mirror_port.c\<close> and \<open>sai_mirror_utils.c\<close>:
    \<open>Mirror_Model\<close> (sessions, attributes) and \<open>Mirror_Calls\<close> (the calls on sessions, and the two loops that
    bring the sessions of a port to a requested list).  A session has a tree of its source ports and a
    port a tree of its sessions, one kept by each side.  \<open>Mirror_Inv\<close> (the two as sets of pairs),
    \<open>Mirror_Effects\<close> (what each loop does, however it ends), \<open>Mirror_Reach\<close> (the session calls and the
    state machine; adding or removing a source port by itself is no step, since only the calls for a port
    use it); properties C8, C17 and C26 in \<open>Mirror_Claims\<close>.

  \<^bold>\<open>How the code is modelled.\<close>  A component's state is the record of its globals; an operation is a
  function from the environment, the arguments, the state and the outside world to a status, the
  new state and the new world.  The environment is a record of the functions outside the
  repository (allocator, trees, caches of the \<open>*_common\<close> libraries, plug-in); where a proof relies
  on their behaviour it names it (\<open>refuses_duplicates\<close>, \<open>stp_env_laws\<close>, \<open>vlan_env_laws\<close>, \<open>vlan_list_laws\<close>,
  \<open>lag_cache_laws\<close>, \<open>fresh_alloc\<close>, \<open>zero_mask_law\<close>, \<open>attr_status_law\<close>, \<open>prefix_law\<close>, \<open>link_find_law\<close>,
  \<open>group_alloc_law\<close>, \<open>member_map_law\<close>, \<open>udf_laws\<close>, \<open>hash_laws\<close>, \<open>hw_law\<close>, \<open>mirror_laws\<close>), and a concrete platform, in a theory \<open>X_Demo\<close>
  or at the start of the claims of the component, meets it.  What a call needs beyond that, and can fail to
  get, is a hypothesis that the property names: memory (\<open>calloc_law\<close> in C18, C38 and C39,
  \<open>fib_memory_ok\<close> in C33), a plug-in that accepts every resolution (\<open>resolve_ok\<close> in C34 and C35) or never
  answers a removal with \<open>SAI_STATUS_INVALID_OBJECT_ID\<close> (\<open>vr_status_ok\<close> in C33).  Early returns and \<open>break\<close> are branches on the status.  A mutex is its
  nesting depth.  Nodes reached by a unique key live in the tree; route, next hop and group nodes,
  which are shared by pointers, live in stores from addresses, and \<open>fib_fault\<close> notes a use of a
  pointer to no node, a double free, the unlinking of a node that is not linked, or the insertion of an
  embedded link that is in a list already.  The VLAN map of the spanning tree, an array over the VLAN ids
  in the code, is a function: the callers validate the ids, and an index out of range is not seen.

  \<^bold>\<open>Loops and bounds.\<close>  All loops over lists are structural recursion; no fuel is used.  The walk up the
  less specific routes (\<open>less_specific_walk\<close>) is shown to end by the length of the key, and the get loop
  of group members, which raises its bound, by the distance of the bound from its wrap to zero.  Counters are
  32-bit words; the invariant of the reference counts is kept by steps that start with room for
  one more reference (\<open>refs_room\<close>), the number of STP ports is bounded by the ports of the
  switch (\<open>few_ports\<close>), and a UDF group has fewer than 2^32 fields (\<open>udf_room\<close>).  The reference count
  of a hash object needs no such bound: eight switch attributes can select it.  A loop whose status
  is not set on every path carries it as an option, so that reading it too early is a fault.

  \<^bold>\<open>What is not modelled.\<close>  Logging, debug dumps, the shell, XML configuration and the tables of
  function pointers are output and glue.  The caches of VLANs and LAGs, the structures of the L3
  component and the radix and red-black trees are libraries outside the repository, so their
  functions are parameters or stated by their documented meaning.  Of the routing directory the
  router interfaces, neighbors and next hops are not modelled yet: the nodes and counts of next hops
  are in the state, their creation and removal are not.  Resolution of an encap next hop over a
  neighbor and the thread that walks changed routes are left out.  Two threads never interleave
  inside a call, because each call holds the lock of its component; where a branch leaves the
  lock held or releases one it does not hold, that is a property.  ACL, bridge, host interface,
  ports, QoS, sample packets, switch attributes and tunnels are not modelled: each is a
  component of its own that the modelled ones do not call, except through the parameters named above.

  \<^bold>\<open>Plan.\<close>  Next: next hops (\<open>sai_l3_next_hop.c\<close>), the rest of \<open>sai_l3_encap_next_hop.c\<close>,
  neighbors, router interfaces; then the forwarding
  database (\<open>sai_fdb.c\<close>) and the other components with a cache of their own (bridge, L2
  multicast, tunnels).
\<close>

end
